(* ===== verification/Prelude.thy ===== *)
theory Prelude
  imports Complex_Main "HOL-Library.Word" "HOL-Library.Char_ord" "HOL-Library.List_Lexorder"
    "HOL-Library.Multiset"
begin

text \<open>
  What every component shares: the fragment of Go's predeclared types and standard library
  that the modelled packages use, and the generic lemmas on lists, maps and words.

  \<^item> \<open>int64\<close> is \<open>64 word\<close>; \<open>+\<close>, \<open>-\<close> wrap as Go's do and the signed comparisons
    \<open>\<^verbatim>\<open><s\<close>\<close> and \<open>\<^verbatim>\<open>\<le>s\<close>\<close> are Go's.
  \<^item> A Go string is a byte sequence, hence \<open>string\<close>.  \<open>TrimSpace\<close>, \<open>ToLower\<close>,
    \<open>ToUpper\<close> and \<open>EqualFold\<close> are those of package \<open>strings\<close> on ASCII bytes: bytes
    above 127 are left alone (Unicode case folding and Unicode spaces are not modelled).
  \<^item> An instant is the number of nanoseconds since Go's zero \<open>time.Time\<close>, so \<open>IsZero\<close>
    is equality with 0; a \<open>time.Duration\<close> is an \<open>int\<close> that \<open>Sub\<close> saturates to the
    64-bit range, and whose negation wraps.
  \<^item> A \<open>float64\<close> confidence is the exact rational it is written as.  The modelled code
    only stores these numbers, adds four fixed weights and compares with 0, so no branch
    depends on rounding.
\<close>

named_theorems frame_simps \<open>what an operation leaves alone\<close>
named_theorems str_simps \<open>evaluation and normal forms of the string library\<close>

section \<open>Integers\<close>

type_synonym int64 = "64 word"

definition absInt :: "int64 \<Rightarrow> int64" where
  "absInt v = (if v <s 0 then - v else v)"

text \<open>The two readings of a subtraction that every gap computation of the code uses.\<close>

lemma absInt_commute_cases: "absInt v = v \<or> absInt v = - v"
  by (simp add: absInt_def)

lemma absInt_eq_0 [simp]: "absInt v = 0 \<longleftrightarrow> v = 0"
  by (simp add: absInt_def)

section \<open>Strings\<close>

definition go_space :: "char \<Rightarrow> bool" where
  "go_space c \<longleftrightarrow> c \<in> {CHR 0x09, CHR 0x0A, CHR 0x0B, CHR 0x0C, CHR 0x0D, CHR '' ''}"

definition TrimSpace :: "string \<Rightarrow> string" where
  "TrimSpace s = rev (dropWhile go_space (rev (dropWhile go_space s)))"

definition is_upper :: "char \<Rightarrow> bool" where
  "is_upper c \<longleftrightarrow> 65 \<le> (of_char c :: nat) \<and> (of_char c :: nat) \<le> 90"

definition is_lower :: "char \<Rightarrow> bool" where
  "is_lower c \<longleftrightarrow> 97 \<le> (of_char c :: nat) \<and> (of_char c :: nat) \<le> 122"

text \<open>In ASCII the two cases of a letter differ in bit 5.\<close>

fun with_bit5 :: "bool \<Rightarrow> char \<Rightarrow> char" where
  "with_bit5 b (Char b0 b1 b2 b3 b4 b5 b6 b7) = Char b0 b1 b2 b3 b4 b b6 b7"

definition lower_char :: "char \<Rightarrow> char" where
  "lower_char c = (if is_upper c then with_bit5 True c else c)"

definition upper_char :: "char \<Rightarrow> char" where
  "upper_char c = (if is_lower c then with_bit5 False c else c)"

definition ToLower :: "string \<Rightarrow> string" where
  "ToLower s = map lower_char s"

definition ToUpper :: "string \<Rightarrow> string" where
  "ToUpper s = map upper_char s"

definition EqualFold :: "string \<Rightarrow> string \<Rightarrow> bool" where
  "EqualFold s t \<longleftrightarrow> ToLower s = ToLower t"

lemmas str_eval [str_simps] =
  go_space_def TrimSpace_def is_upper_def is_lower_def lower_char_def upper_char_def
  ToLower_def ToUpper_def EqualFold_def

text \<open>\<open>strings.Contains\<close> and \<open>strings.Join\<close>.\<close>

fun has_prefix :: "string \<Rightarrow> string \<Rightarrow> bool" where
  "has_prefix [] s = True"
| "has_prefix (c # p) [] = False"
| "has_prefix (c # p) (d # s) = (c = d \<and> has_prefix p s)"

fun contains :: "string \<Rightarrow> string \<Rightarrow> bool" where
  "contains [] p = (p = [])"
| "contains (c # s) p = (has_prefix p (c # s) \<or> contains s p)"

fun str_join :: "string list \<Rightarrow> string \<Rightarrow> string" where
  "str_join [] sep = []"
| "str_join [s] sep = s"
| "str_join (s # t # ts) sep = s @ sep @ str_join (t # ts) sep"

text \<open>\<open>firstNonEmpty\<close> of \<^verbatim>\<open>list_results.go\<close>: the first value that is not blank.\<close>

fun firstNonEmpty :: "string list \<Rightarrow> string" where
  "firstNonEmpty [] = []"
| "firstNonEmpty (v # vs) = (if TrimSpace v \<noteq> [] then v else firstNonEmpty vs)"

subsection \<open>Normal forms\<close>

lemma forall_char: "(\<forall>c. P c) \<longleftrightarrow> (\<forall>n < 256. P (char_of (n::nat)))"
proof
  assume *: "\<forall>n < 256. P (char_of (n::nat))"
  show "\<forall>c. P c"
  proof
    fix c
    have "of_char c < (256 :: nat)" by simp
    with * have "P (char_of (of_char c :: nat))" by blast
    then show "P c" by simp
  qed
qed simp

lemma of_char_lower:
  "(of_char (lower_char c) :: nat) = (if is_upper c then of_char c + 32 else of_char c)"
proof (cases c)
  case (Char b0 b1 b2 b3 b4 b5 b6 b7)
  then show ?thesis
    by (cases b0; cases b1; cases b2; cases b3; cases b4; cases b5; cases b6; cases b7)
       (simp_all add: lower_char_def is_upper_def)
qed

lemma of_char_upper:
  "(of_char (upper_char c) :: nat) = (if is_lower c then of_char c - 32 else of_char c)"
proof (cases c)
  case (Char b0 b1 b2 b3 b4 b5 b6 b7)
  then show ?thesis
    by (cases b0; cases b1; cases b2; cases b3; cases b4; cases b5; cases b6; cases b7)
       (simp_all add: upper_char_def is_lower_def)
qed

lemma go_space_code: "go_space c \<longleftrightarrow> (of_char c :: nat) \<in> {9, 10, 11, 12, 13, 32}"
proof (cases c)
  case (Char b0 b1 b2 b3 b4 b5 b6 b7)
  then show ?thesis
    by (cases b0; cases b1; cases b2; cases b3; cases b4; cases b5; cases b6; cases b7)
       (simp_all add: go_space_def)
qed

lemma go_space_lower [simp]: "go_space (lower_char c) = go_space c"
  by (auto simp: go_space_code of_char_lower is_upper_def)

lemma go_space_upper [simp]: "go_space (upper_char c) = go_space c"
  by (auto simp: go_space_code of_char_upper is_lower_def)

lemma lower_char_idem [simp]: "lower_char (lower_char c) = lower_char c"
  by (rule of_char_eq_iff [where ?'a = nat, THEN iffD1])
     (simp add: of_char_lower is_upper_def)

lemma upper_char_idem [simp]: "upper_char (upper_char c) = upper_char c"
  by (rule of_char_eq_iff [where ?'a = nat, THEN iffD1])
     (simp add: of_char_upper is_lower_def, arith)

lemma lower_upper_char [simp]: "lower_char (upper_char c) = lower_char c"
  by (rule of_char_eq_iff [where ?'a = nat, THEN iffD1])
     (auto simp: of_char_upper of_char_lower is_lower_def is_upper_def)

lemma dropWhile_go_space_map [simp]:
  "dropWhile go_space (map lower_char s) = map lower_char (dropWhile go_space s)"
  "dropWhile go_space (map upper_char s) = map upper_char (dropWhile go_space s)"
  by (induction s) simp_all

lemma TrimSpace_ToLower [simp]: "TrimSpace (ToLower s) = ToLower (TrimSpace s)"
  by (simp add: TrimSpace_def ToLower_def rev_map)

lemma TrimSpace_ToUpper [simp]: "TrimSpace (ToUpper s) = ToUpper (TrimSpace s)"
  by (simp add: TrimSpace_def ToUpper_def rev_map)

lemma ToLower_idem [simp]: "ToLower (ToLower s) = ToLower s"
  by (simp add: ToLower_def)

lemma ToUpper_idem [simp]: "ToUpper (ToUpper s) = ToUpper s"
  by (simp add: ToUpper_def)

lemma ToLower_ToUpper [simp]: "ToLower (ToUpper s) = ToLower s"
  by (simp add: ToLower_def ToUpper_def)

lemma ToLower_Nil [simp]: "ToLower [] = []" and ToUpper_Nil [simp]: "ToUpper [] = []"
  by (simp_all add: ToLower_def ToUpper_def)

lemma ToLower_eq_Nil [simp]: "ToLower s = [] \<longleftrightarrow> s = []"
  by (simp add: ToLower_def)

lemma ToUpper_eq_Nil [simp]: "ToUpper s = [] \<longleftrightarrow> s = []"
  by (simp add: ToUpper_def)

lemma TrimSpace_Nil [simp]: "TrimSpace [] = []"
  by (simp add: TrimSpace_def)

lemma dropWhile_hd_not: "dropWhile P xs \<noteq> [] \<Longrightarrow> \<not> P (hd (dropWhile P xs))"
  by (induction xs) auto

lemma dropWhile_eq_self: "xs = [] \<or> \<not> P (hd xs) \<Longrightarrow> dropWhile P xs = xs"
  by (cases xs) auto

lemma last_dropWhile: "dropWhile P xs \<noteq> [] \<Longrightarrow> last (dropWhile P xs) = last xs"
  by (induction xs) auto

text \<open>The inner trim has removed the leading blanks, and trimming the end cannot bring them back.\<close>

lemma TrimSpace_idem [simp]: "TrimSpace (TrimSpace s) = TrimSpace s"
proof -
  define t where "t = dropWhile go_space s"
  define u where "u = rev (dropWhile go_space (rev t))"
  have "dropWhile go_space u = u"
  proof (cases "u = []")
    case False
    then have ne: "dropWhile go_space (rev t) \<noteq> []" by (simp add: u_def)
    then have "hd u = hd t"
      using last_dropWhile [OF ne] by (simp add: u_def hd_rev last_rev)
    moreover have "t \<noteq> []" using ne by auto
    then have "\<not> go_space (hd t)" unfolding t_def by (rule dropWhile_hd_not)
    ultimately show ?thesis by (simp add: dropWhile_eq_self)
  qed simp
  moreover have "dropWhile go_space (rev u) = rev u"
    by (simp add: u_def dropWhile_idem)
  ultimately show ?thesis
    by (simp add: TrimSpace_def flip: t_def u_def)
qed

lemma EqualFold_refl [simp]: "EqualFold s s"
  by (simp add: EqualFold_def)

lemma EqualFold_sym: "EqualFold s t \<longleftrightarrow> EqualFold t s"
  by (auto simp: EqualFold_def)

lemma firstNonEmpty_eq_Nil: "firstNonEmpty vs = [] \<longleftrightarrow> (\<forall>v \<in> set vs. TrimSpace v = [])"
  by (induction vs) auto

section \<open>Time\<close>

type_synonym time = int
type_synonym duration = int

definition IsZero :: "time \<Rightarrow> bool" where
  "IsZero t \<longleftrightarrow> t = 0"

definition max_dur :: duration where "max_dur = 2 ^ 63 - 1"
definition min_dur :: duration where "min_dur = - (2 ^ 63)"

definition time_sub :: "time \<Rightarrow> time \<Rightarrow> duration" where
  "time_sub t u = max min_dur (min max_dur (t - u))"

definition dur_abs :: "duration \<Rightarrow> duration" where
  "dur_abs d = (if d < 0 then (if d = min_dur then d else - d) else d)"

abbreviation (input) nanosecond :: duration where "nanosecond \<equiv> 1"
abbreviation (input) minute :: duration where "minute \<equiv> 60 * 1000000000"
abbreviation (input) hour :: duration where "hour \<equiv> 3600 * 1000000000"
abbreviation (input) day_ns :: duration where "day_ns \<equiv> 86400 * 1000000000"

section \<open>Dynamically typed values\<close>

text \<open>
  The values of a \<open>map[string]any\<close> as the matching code writes them, and as they come
  back from a JSON column: numbers then are \<open>float64\<close> or \<open>json.Number\<close>.
\<close>

datatype goany =
    ANil
  | AInt64 int64
  | AInt int64
  | AInt32 "32 word"
  | AFloat64 rat
  | ANumber string
  | AString string
  | AStrings "string list"
  | AScores "(string \<times> rat) list"

type_synonym evidence = "(string \<times> goany) list"

text \<open>Assignment to a key of a map that is kept as an association list with distinct keys.\<close>

fun alist_put :: "'k \<Rightarrow> 'v \<Rightarrow> ('k \<times> 'v) list \<Rightarrow> ('k \<times> 'v) list" where
  "alist_put k v [] = [(k, v)]"
| "alist_put k v ((k', v') # m) = (if k = k' then (k, v) # m else (k', v') # alist_put k v m)"

lemma map_of_alist_put [simp]: "map_of (alist_put k v m) = (map_of m)(k \<mapsto> v)"
  by (induction m) auto

lemma keys_alist_put: "fst ` set (alist_put k v m) = insert k (fst ` set m)"
  by (induction k v m rule: alist_put.induct) (simp_all add: insert_commute)

lemma distinct_alist_put [simp]:
  "distinct (map fst m) \<Longrightarrow> distinct (map fst (alist_put k v m))"
proof (induction m)
  case (Cons e m)
  then show ?case
    using keys_alist_put [of k v m] by (cases e) auto
qed simp

text \<open>\<open>strconv.ParseInt(s, 10, 64)\<close>, which \<open>json.Number.Int64\<close> calls.\<close>

fun digit_val :: "char \<Rightarrow> int option" where
  "digit_val c = (let n = of_char c :: nat in if 48 \<le> n \<and> n \<le> 57 then Some (int n - 48) else None)"

fun digits_val :: "int \<Rightarrow> string \<Rightarrow> int option" where
  "digits_val acc [] = Some acc"
| "digits_val acc (c # cs) =
     (case digit_val c of None \<Rightarrow> None | Some d \<Rightarrow> digits_val (10 * acc + d) cs)"

definition ParseInt :: "string \<Rightarrow> int64 option" where
  "ParseInt s =
     (let (neg, ds) = (case s of
            c # cs \<Rightarrow> if c = CHR ''-'' then (True, cs) else if c = CHR ''+'' then (False, cs) else (False, s)
          | [] \<Rightarrow> (False, []))
      in if ds = [] then None
         else case digits_val 0 ds of
             None \<Rightarrow> None
           | Some n \<Rightarrow> (let v = (if neg then - n else n)
                       in if - (2 ^ 63) \<le> v \<and> v < 2 ^ 63 then Some (word_of_int v) else None))"

text \<open>\<open>int64(f)\<close>: truncation towards zero; out of range, the amd64 result.\<close>

definition float_to_int64 :: "rat \<Rightarrow> int64" where
  "float_to_int64 f =
     (let n = (if f < 0 then \<lceil>f\<rceil> else \<lfloor>f\<rfloor>)
      in if - (2 ^ 63) \<le> n \<and> n < 2 ^ 63 then word_of_int n else word_of_int (- (2 ^ 63)))"

section \<open>Stable sorting\<close>

text \<open>
  \<open>sort.SliceStable\<close> with a \<open>less\<close> callback.  Insertion from the right keeps equal
  elements in order, so for a strict weak order this is the stable sort; for a total
  order it is also the only result \<open>sort.Slice\<close> can give.
\<close>

fun insert_by :: "('a \<Rightarrow> 'a \<Rightarrow> bool) \<Rightarrow> 'a \<Rightarrow> 'a list \<Rightarrow> 'a list" where
  "insert_by lt x [] = [x]"
| "insert_by lt x (y # ys) = (if lt y x then y # insert_by lt x ys else x # y # ys)"

definition SliceStable :: "('a \<Rightarrow> 'a \<Rightarrow> bool) \<Rightarrow> 'a list \<Rightarrow> 'a list" where
  "SliceStable lt xs = foldr (insert_by lt) xs []"

lemma mset_insert_by [simp]: "mset (insert_by lt x xs) = add_mset x (mset xs)"
  by (induction xs) auto

lemma mset_SliceStable [simp]: "mset (SliceStable lt xs) = mset xs"
  unfolding SliceStable_def by (induction xs) auto

lemma set_SliceStable [simp]: "set (SliceStable lt xs) = set xs"
  by (metis mset_SliceStable set_mset_mset)

lemma length_SliceStable [simp]: "length (SliceStable lt xs) = length xs"
  by (metis mset_SliceStable size_mset)

lemma sorted_insert_by:
  assumes "\<And>x y. lt x y \<Longrightarrow> \<not> lt y x"
    and "\<And>x y z. \<not> lt y x \<Longrightarrow> \<not> lt z y \<Longrightarrow> \<not> lt z x"
    and "sorted_wrt (\<lambda>x y. \<not> lt y x) xs"
  shows "sorted_wrt (\<lambda>x y. \<not> lt y x) (insert_by lt x xs)"
  using assms(3)
proof (induction xs)
  case (Cons y ys)
  show ?case
  proof (cases "lt y x")
    case True
    have "set (insert_by lt x ys) = insert x (set ys)"
      by (metis mset_insert_by set_mset_mset set_mset_add_mset_insert)
    with True Cons assms(1) show ?thesis by auto
  next
    case False
    have "\<not> lt z x" if "z \<in> set ys" for z
      using Cons.prems False that assms(2) [of y x z] by simp
    with False Cons.prems show ?thesis by simp
  qed
qed simp

lemma sorted_SliceStable:
  assumes "\<And>x y. lt x y \<Longrightarrow> \<not> lt y x"
    and "\<And>x y z. \<not> lt y x \<Longrightarrow> \<not> lt z y \<Longrightarrow> \<not> lt z x"
  shows "sorted_wrt (\<lambda>x y. \<not> lt y x) (SliceStable lt xs)"
  unfolding SliceStable_def
proof (induction xs)
  case (Cons x xs)
  then show ?case
    using sorted_insert_by [OF assms] by simp
qed simp

section \<open>Lists and sums\<close>

lemma sum_list_word_append [simp]:
  "sum_list (xs @ ys) = sum_list xs + sum_list (ys :: int64 list)"
  by simp

text \<open>The first element of a list with a property, as the code's search loops return it.\<close>

lemma find_SomeD: "List.find P xs = Some x \<Longrightarrow> x \<in> set xs \<and> P x"
  by (auto simp: find_Some_iff)

lemma find_None_all: "List.find P xs = None \<longleftrightarrow> (\<forall>x \<in> set xs. \<not> P x)"
  by (auto simp: find_None_iff)

end
