(* ===== verification/Facts.thy ===== *)
theory Facts
  imports Prelude
begin

text \<open>
  The data model of \<^verbatim>\<open>backend/recon/internal/recon\<close>: the observed facts (payments, payouts,
  settlement lines, bank rows, refunds, merchant books, disputes, tax lines), the decisions of
  the settlement-to-bank matcher, and the result, evidence and exception records of the
  financial reconciliation.  Every Go struct is a record with the same fields in the same
  order, prefixed by the initials of the struct; a pointer is an option; \<open>Zero\<close> values are
  the constants \<open>zero_\<dots>\<close>.  The status, result and reason vocabularies are the Go string
  constants, kept as strings because the code accepts and stores values outside them.
\<close>

section \<open>Vocabularies\<close>

abbreviation (input) PaymentUnknown :: string where "PaymentUnknown \<equiv> ''unknown''"
abbreviation (input) PaymentCreated :: string where "PaymentCreated \<equiv> ''created''"
abbreviation (input) PaymentAuthorized :: string where "PaymentAuthorized \<equiv> ''authorized''"
abbreviation (input) PaymentCaptured :: string where "PaymentCaptured \<equiv> ''captured''"
abbreviation (input) PaymentFailed :: string where "PaymentFailed \<equiv> ''failed''"
abbreviation (input) PaymentRefunded :: string where "PaymentRefunded \<equiv> ''refunded''"
abbreviation (input) PaymentPartiallyRefunded :: string where
  "PaymentPartiallyRefunded \<equiv> ''partially_refunded''"

abbreviation (input) ResultMatched :: string where "ResultMatched \<equiv> ''MATCHED''"
abbreviation (input) ResultAmbiguous :: string where "ResultAmbiguous \<equiv> ''AMBIGUOUS''"
abbreviation (input) ResultUnresolved :: string where "ResultUnresolved \<equiv> ''UNRESOLVED''"
abbreviation (input) ResultConflicted :: string where "ResultConflicted \<equiv> ''CONFLICTED''"
abbreviation (input) ResultVariance :: string where "ResultVariance \<equiv> ''VARIANCE''"
abbreviation (input) ResultOrphan :: string where "ResultOrphan \<equiv> ''ORPHAN''"

abbreviation (input) EntityPayment :: string where "EntityPayment \<equiv> ''payment''"
abbreviation (input) EntityBank :: string where "EntityBank \<equiv> ''bank''"
abbreviation (input) EntityPayout :: string where "EntityPayout \<equiv> ''payout''"

abbreviation (input) FinancialRuleVersion :: string where "FinancialRuleVersion \<equiv> ''financial_recon_v1''"
abbreviation (input) DefaultStuckAfter :: duration where "DefaultStuckAfter \<equiv> 72 * hour"
abbreviation (input) DefaultPayoutSLA :: duration where "DefaultPayoutSLA \<equiv> 15 * minute"
abbreviation (input) defaultDateWindow :: duration where "defaultDateWindow \<equiv> 3 * 24 * hour"

abbreviation (input) BankMatchExact :: string where "BankMatchExact \<equiv> ''EXACT_MATCH''"
abbreviation (input) BankMatchHighConfidence :: string where "BankMatchHighConfidence \<equiv> ''HIGH_CONFIDENCE''"
abbreviation (input) BankMatchAmbiguous :: string where "BankMatchAmbiguous \<equiv> ''AMBIGUOUS''"
abbreviation (input) BankMatchUnresolved :: string where "BankMatchUnresolved \<equiv> ''UNRESOLVED''"
abbreviation (input) BankMatchConflicted :: string where "BankMatchConflicted \<equiv> ''CONFLICTED''"
abbreviation (input) BankMatchVariance :: string where "BankMatchVariance \<equiv> ''VARIANCE''"
abbreviation (input) BankMatchOrphanBank :: string where "BankMatchOrphanBank \<equiv> ''ORPHAN_BANK''"

abbreviation (input) SourceKindPayment :: string where "SourceKindPayment \<equiv> ''payment''"
abbreviation (input) SourceKindPayout :: string where "SourceKindPayout \<equiv> ''payout''"
abbreviation (input) SourceKindSettlement :: string where "SourceKindSettlement \<equiv> ''settlement''"
abbreviation (input) SourceKindBank :: string where "SourceKindBank \<equiv> ''bank''"
abbreviation (input) SourceKindMerchant :: string where "SourceKindMerchant \<equiv> ''merchant_books''"
abbreviation (input) SourceKindTax :: string where "SourceKindTax \<equiv> ''tax_line''"
abbreviation (input) SourceKindRefund :: string where "SourceKindRefund \<equiv> ''refund''"
abbreviation (input) SourceKindDispute :: string where "SourceKindDispute \<equiv> ''dispute''"
abbreviation (input) SourceKindEvent :: string where "SourceKindEvent \<equiv> ''observation''"

section \<open>Observed facts\<close>

record SettlementLine =
  sl_ID :: string
  sl_SettlementID :: string
  sl_EntityID :: string
  sl_PaymentID :: string
  sl_LineType :: string
  sl_AmountMinor :: int64
  sl_DebitMinor :: int64
  sl_CreditMinor :: int64
  sl_FeeMinor :: int64
  sl_TaxMinor :: int64
  sl_Currency :: string
  sl_UTR :: string
  sl_Settled :: bool
  sl_SettledAt :: time
  sl_PayloadHash :: string

record BankTxn =
  bt_ID :: string
  bt_AccountID :: string
  bt_BankTxnID :: string
  bt_UTR :: string
  bt_UTRRaw :: string
  bt_Description :: string
  bt_Currency :: string
  bt_CreditMinor :: int64
  bt_DebitMinor :: int64
  bt_CreditDebit :: string
  bt_ValueDate :: time
  bt_RowHash :: string

record PaymentFact =
  pf_ID :: string
  pf_PaymentID :: string
  pf_CanonicalStatus :: string
  pf_ProviderStatus :: string
  pf_Captured :: bool
  pf_AmountMinor :: int64
  pf_Currency :: string
  pf_Method :: string
  pf_ProviderCreatedAt :: time
  pf_FirstObservedAt :: time
  pf_Sources :: "string list"
  pf_FeeMinor :: int64
  pf_TaxMinor :: int64
  pf_BatchID :: string

record ObservationFact =
  of_Source :: string
  of_ProviderStatus :: string
  of_CanonicalStatus :: string
  of_SourceEventID :: string
  of_SourceHash :: string
  of_RawReference :: string
  of_ObservedAt :: time

record RefundFact =
  rf_ID :: string
  rf_RefundID :: string
  rf_PaymentID :: string
  rf_AmountMinor :: int64
  rf_Currency :: string
  rf_ProviderStatus :: string
  rf_Source :: string
  rf_SellerID :: string
  rf_ObservedAt :: time

record PayoutFact =
  po_ID :: string
  po_PayoutID :: string
  po_ProviderStatus :: string
  po_AmountMinor :: int64
  po_Currency :: string
  po_UTR :: string
  po_Mode :: string
  po_Purpose :: string
  po_StatusReason :: string
  po_ProviderCreatedAt :: time
  po_FirstObservedAt :: time
  po_BatchID :: string

record MerchantBookFact =
  mb_ID :: string
  mb_InvoiceID :: string
  mb_OrderID :: string
  mb_PaymentID :: string
  mb_PayoutID :: string
  mb_AmountMinor :: int64
  mb_Currency :: string
  mb_DueAt :: time
  mb_BatchID :: string
  mb_TaxMinor :: int64
  mb_CGSTMinor :: int64
  mb_SGSTMinor :: int64
  mb_IGSTMinor :: int64
  mb_TDSMinor :: int64
  mb_HSN :: string

record DisputeFact =
  df_ID :: string
  df_PaymentID :: string
  df_AmountMinor :: int64
  df_Currency :: string
  df_Status :: string

record TaxLineFact =
  tl_ID :: string
  tl_PaymentID :: string
  tl_InvoiceID :: string
  tl_Component :: string
  tl_AmountMinor :: int64
  tl_Currency :: string
  tl_HSN :: string

record SettlementBankDecision =
  bd_ID :: string
  bd_TenantID :: string
  bd_ConnectorID :: string
  bd_SettlementLineID :: string
  bd_BankObservationID :: string
  bd_State :: string
  bd_Confidence :: rat
  bd_Rule :: string
  bd_Candidates :: "string list"
  bd_Evidence :: evidence
  bd_DecidedAt :: time

section \<open>Results, evidence and exceptions\<close>

record SourceRef =
  sr_Kind :: string
  sr_ID :: string
  sr_Amount :: int64

record EvidenceRefs =
  er_CanonicalPaymentID :: string
  er_ObservationEventIDs :: "string list"
  er_SettlementLineID :: string
  er_SettlementBankDecisionID :: string
  er_BankObservationID :: string
  er_MerchantFactID :: string
  er_PayloadHashes :: "string list"
  er_PaymentAmountMinor :: int64
  er_SettlementNetMinor :: int64
  er_BankCreditMinor :: int64
  er_Sources :: "SourceRef list"

record ReconciliationException =
  ex_ID :: string
  ex_RunID :: string
  ex_TenantID :: string
  ex_ConnectorID :: string
  ex_EntityType :: string
  ex_EntityID :: string
  ex_Status :: string
  ex_ReconciliationResult :: string
  ex_Reason :: string
  ex_ExpectedAmount :: int64
  ex_ObservedAmount :: int64
  ex_VarianceAmount :: int64
  ex_CandidateIDs :: "string list"
  ex_Confidence :: rat
  ex_EvidenceIDs :: "string list"
  ex_EvidenceRefs :: EvidenceRefs
  ex_CreatedAt :: time
  ex_UpdatedAt :: time

record ReconLeg =
  leg_Result :: string
  leg_Reason :: string
  leg_Confidence :: rat

record FinancialResult =
  fr_ID :: string
  fr_RunID :: string
  fr_EntityType :: string
  fr_EntityID :: string
  fr_Status :: string
  fr_Result :: string
  fr_ExpectedAmount :: int64
  fr_ObservedAmount :: int64
  fr_VarianceAmount :: int64
  fr_Confidence :: rat
  fr_Reason :: string
  fr_RuleVersion :: string
  fr_CandidateIDs :: "string list"
  fr_EvidenceRefs :: EvidenceRefs
  fr_BankCreditProven :: bool
  fr_Direction :: string
  fr_Rail :: string
  fr_TwoWay :: ReconLeg
  fr_ThreeWay :: ReconLeg
  fr_MerchantObserved :: bool
  fr_MerchantAgreed :: bool
  fr_CreatedAt :: time
  fr_Exception :: "ReconciliationException option"

section \<open>Zero values\<close>

definition zero_SettlementLine :: SettlementLine where
  "zero_SettlementLine = \<lparr>sl_ID = [], sl_SettlementID = [], sl_EntityID = [], sl_PaymentID = [],
     sl_LineType = [], sl_AmountMinor = 0, sl_DebitMinor = 0, sl_CreditMinor = 0, sl_FeeMinor = 0,
     sl_TaxMinor = 0, sl_Currency = [], sl_UTR = [], sl_Settled = False, sl_SettledAt = 0,
     sl_PayloadHash = []\<rparr>"

definition zero_BankTxn :: BankTxn where
  "zero_BankTxn = \<lparr>bt_ID = [], bt_AccountID = [], bt_BankTxnID = [], bt_UTR = [], bt_UTRRaw = [],
     bt_Description = [], bt_Currency = [], bt_CreditMinor = 0, bt_DebitMinor = 0,
     bt_CreditDebit = [], bt_ValueDate = 0, bt_RowHash = []\<rparr>"

definition zero_PaymentFact :: PaymentFact where
  "zero_PaymentFact = \<lparr>pf_ID = [], pf_PaymentID = [], pf_CanonicalStatus = [],
     pf_ProviderStatus = [], pf_Captured = False, pf_AmountMinor = 0, pf_Currency = [],
     pf_Method = [], pf_ProviderCreatedAt = 0, pf_FirstObservedAt = 0, pf_Sources = [],
     pf_FeeMinor = 0, pf_TaxMinor = 0, pf_BatchID = []\<rparr>"

definition zero_ObservationFact :: ObservationFact where
  "zero_ObservationFact = \<lparr>of_Source = [], of_ProviderStatus = [], of_CanonicalStatus = [],
     of_SourceEventID = [], of_SourceHash = [], of_RawReference = [], of_ObservedAt = 0\<rparr>"

definition zero_RefundFact :: RefundFact where
  "zero_RefundFact = \<lparr>rf_ID = [], rf_RefundID = [], rf_PaymentID = [], rf_AmountMinor = 0,
     rf_Currency = [], rf_ProviderStatus = [], rf_Source = [], rf_SellerID = [],
     rf_ObservedAt = 0\<rparr>"

definition zero_PayoutFact :: PayoutFact where
  "zero_PayoutFact = \<lparr>po_ID = [], po_PayoutID = [], po_ProviderStatus = [], po_AmountMinor = 0,
     po_Currency = [], po_UTR = [], po_Mode = [], po_Purpose = [], po_StatusReason = [],
     po_ProviderCreatedAt = 0, po_FirstObservedAt = 0, po_BatchID = []\<rparr>"

definition zero_MerchantBookFact :: MerchantBookFact where
  "zero_MerchantBookFact = \<lparr>mb_ID = [], mb_InvoiceID = [], mb_OrderID = [], mb_PaymentID = [],
     mb_PayoutID = [], mb_AmountMinor = 0, mb_Currency = [], mb_DueAt = 0, mb_BatchID = [],
     mb_TaxMinor = 0, mb_CGSTMinor = 0, mb_SGSTMinor = 0, mb_IGSTMinor = 0, mb_TDSMinor = 0,
     mb_HSN = []\<rparr>"

definition zero_Decision :: SettlementBankDecision where
  "zero_Decision = \<lparr>bd_ID = [], bd_TenantID = [], bd_ConnectorID = [], bd_SettlementLineID = [],
     bd_BankObservationID = [], bd_State = [], bd_Confidence = 0, bd_Rule = [],
     bd_Candidates = [], bd_Evidence = [], bd_DecidedAt = 0\<rparr>"

definition zero_EvidenceRefs :: EvidenceRefs where
  "zero_EvidenceRefs = \<lparr>er_CanonicalPaymentID = [], er_ObservationEventIDs = [],
     er_SettlementLineID = [], er_SettlementBankDecisionID = [], er_BankObservationID = [],
     er_MerchantFactID = [], er_PayloadHashes = [], er_PaymentAmountMinor = 0,
     er_SettlementNetMinor = 0, er_BankCreditMinor = 0, er_Sources = []\<rparr>"

definition zero_Exception :: ReconciliationException where
  "zero_Exception = \<lparr>ex_ID = [], ex_RunID = [], ex_TenantID = [], ex_ConnectorID = [],
     ex_EntityType = [], ex_EntityID = [], ex_Status = [], ex_ReconciliationResult = [],
     ex_Reason = [], ex_ExpectedAmount = 0, ex_ObservedAmount = 0, ex_VarianceAmount = 0,
     ex_CandidateIDs = [], ex_Confidence = 0, ex_EvidenceIDs = [],
     ex_EvidenceRefs = zero_EvidenceRefs, ex_CreatedAt = 0, ex_UpdatedAt = 0\<rparr>"

definition zero_ReconLeg :: ReconLeg where
  "zero_ReconLeg = \<lparr>leg_Result = [], leg_Reason = [], leg_Confidence = 0\<rparr>"

definition zero_FinancialResult :: FinancialResult where
  "zero_FinancialResult = \<lparr>fr_ID = [], fr_RunID = [], fr_EntityType = [], fr_EntityID = [],
     fr_Status = [], fr_Result = [], fr_ExpectedAmount = 0, fr_ObservedAmount = 0,
     fr_VarianceAmount = 0, fr_Confidence = 0, fr_Reason = [], fr_RuleVersion = [],
     fr_CandidateIDs = [], fr_EvidenceRefs = zero_EvidenceRefs, fr_BankCreditProven = False,
     fr_Direction = [], fr_Rail = [], fr_TwoWay = zero_ReconLeg, fr_ThreeWay = zero_ReconLeg,
     fr_MerchantObserved = False, fr_MerchantAgreed = False, fr_CreatedAt = 0,
     fr_Exception = None\<rparr>"

lemmas zero_defs = zero_SettlementLine_def zero_BankTxn_def zero_PaymentFact_def
  zero_ObservationFact_def zero_RefundFact_def zero_PayoutFact_def zero_MerchantBookFact_def
  zero_Decision_def zero_EvidenceRefs_def zero_Exception_def zero_ReconLeg_def
  zero_FinancialResult_def

section \<open>Small readers shared by the components\<close>

text \<open>\<open>IsCredit\<close> (movement.go) and \<open>isBankCredit\<close> (settlement\_bank.go) are the same function.\<close>

definition IsCredit :: "BankTxn \<Rightarrow> bool" where
  "IsCredit b =
     (if EqualFold (bt_CreditDebit b) ''DEBIT'' then False
      else if EqualFold (bt_CreditDebit b) ''CREDIT'' then True
      else 0 <s bt_CreditMinor b \<and> bt_DebitMinor b = 0)"

definition HasBankMovement :: "BankTxn list \<Rightarrow> bool" where
  "HasBankMovement banks = list_ex (\<lambda>b. 0 <s bt_CreditMinor b \<or> 0 <s bt_DebitMinor b) banks"

fun BankMovementMinor :: "BankTxn list \<Rightarrow> int64" where
  "BankMovementMinor [] = 0"
| "BankMovementMinor (b # bs) =
     (if 0 <s bt_CreditMinor b then bt_CreditMinor b else bt_DebitMinor b) + BankMovementMinor bs"

definition UnusedCreditBanks :: "BankTxn list \<Rightarrow> string set \<Rightarrow> BankTxn list" where
  "UnusedCreditBanks banks used = filter (\<lambda>b. IsCredit b \<and> bt_ID b \<notin> used) banks"

definition normalizeUTR :: "string \<Rightarrow> string" where
  "normalizeUTR s = ToUpper (TrimSpace s)"

definition lineID :: "SettlementLine \<Rightarrow> string" where
  "lineID l = (if sl_ID l \<noteq> [] then sl_ID l else sl_EntityID l)"

definition nzCur :: "string \<Rightarrow> string" where
  "nzCur s = (if s = [] then ''INR'' else s)"

definition bankIDs :: "BankTxn list \<Rightarrow> string list" where
  "bankIDs banks = map bt_ID banks"

lemma normalizeUTR_idem [simp]: "normalizeUTR (normalizeUTR s) = normalizeUTR s"
  by (simp add: normalizeUTR_def)

text \<open>The value read by \<open>evidenceInt64\<close>: every numeric shape that \<open>any\<close> can hold.\<close>

definition evidenceInt64 :: "evidence \<Rightarrow> string \<Rightarrow> int64 option" where
  "evidenceInt64 m key =
     (case map_of m key of
        None \<Rightarrow> None
      | Some v \<Rightarrow>
         (case v of
            AInt64 n \<Rightarrow> Some n
          | AInt n \<Rightarrow> Some n
          | AInt32 n \<Rightarrow> Some (scast n)
          | AFloat64 f \<Rightarrow> Some (float_to_int64 f)
          | ANumber s \<Rightarrow> ParseInt s
          | _ \<Rightarrow> None))"

end
