(* ===== verification/Settlement.thy ===== *)
theory Settlement
  imports Facts
begin

text \<open>
  The arithmetic of settlement lines: \<^verbatim>\<open>net.go\<close> (\<open>SettlementNetMinor\<close>, \<open>Waterfall\<close>),
  \<open>lineNet\<close> and \<open>pickLine\<close> of \<^verbatim>\<open>matcher.go\<close>, and the line helpers of \<^verbatim>\<open>financial.go\<close>
  (\<open>splitLines\<close>, \<open>settlementNet\<close>, \<open>feeTaxDeduction\<close>, \<open>partialSettlementGap\<close>,
  \<open>paymentSettlementFeeTaxGap\<close>).  The two loops over a settlement's lines are folds over an
  accumulator record; the lemmas give their closed forms as sums, from which the waterfall
  identity and the independence of the order of the lines follow.
\<close>

section \<open>The net of one line\<close>

definition lineNet :: "SettlementLine \<Rightarrow> int64" where
  "lineNet l =
     (if sl_CreditMinor l \<noteq> 0 \<or> sl_DebitMinor l \<noteq> 0 then sl_CreditMinor l - sl_DebitMinor l
      else sl_AmountMinor l - sl_FeeMinor l - sl_TaxMinor l)"

definition is_payment_type :: "SettlementLine \<Rightarrow> bool" where
  "is_payment_type l \<longleftrightarrow> EqualFold (sl_LineType l) ''payment'' \<or> sl_LineType l = []"

fun splitLines :: "SettlementLine list \<Rightarrow> SettlementLine list \<times> SettlementLine list" where
  "splitLines [] = ([], [])"
| "splitLines (l # ls) =
     (let (payment, refund) = splitLines ls
      in if ToLower (sl_LineType l) = ''refund'' then (payment, l # refund)
         else (l # payment, refund))"

definition settlementNet :: "SettlementLine list \<Rightarrow> int64" where
  "settlementNet lines = sum_list (map lineNet (filter is_payment_type lines))"

definition settlementCurrencies :: "SettlementLine list \<Rightarrow> string list" where
  "settlementCurrencies lines = map sl_Currency lines"

definition bankCurrencies :: "BankTxn list \<Rightarrow> string list" where
  "bankCurrencies banks = map bt_Currency banks"

definition feeTaxDeduction :: "SettlementLine list \<Rightarrow> int64" where
  "feeTaxDeduction lines =
     sum_list (map (\<lambda>l. sl_FeeMinor l + sl_TaxMinor l) (filter is_payment_type lines))"

definition partialSettlementGap :: "int64 \<Rightarrow> SettlementLine list \<Rightarrow> int64 option" where
  "partialSettlementGap paymentAmount paymentLines =
     (if paymentAmount \<le>s 0 \<or> paymentLines = [] then None
      else let net = settlementNet paymentLines in
        if paymentAmount \<le>s net then None
        else if paymentAmount \<le>s net + feeTaxDeduction paymentLines then None
        else Some (paymentAmount - net))"

definition paymentSettlementFeeTaxGap ::
    "PaymentFact \<Rightarrow> SettlementLine list \<Rightarrow> (int64 \<times> string) option" where
  "paymentSettlementFeeTaxGap pay paymentLines =
     (let sFee = sum_list (map sl_FeeMinor paymentLines);
          sTax = sum_list (map sl_TaxMinor paymentLines)
      in if pf_FeeMinor pay \<noteq> 0 \<and> pf_FeeMinor pay \<noteq> sFee then
           Some (absInt (pf_FeeMinor pay - sFee), ''fee_mismatch'')
         else if pf_TaxMinor pay \<noteq> 0 \<and> pf_TaxMinor pay \<noteq> sTax then
           Some (absInt (pf_TaxMinor pay - sTax), ''tax_mismatch'')
         else None)"

fun currency_in_conflict :: "string \<Rightarrow> string list list \<Rightarrow> bool" where
  "currency_in_conflict a [] = False"
| "currency_in_conflict a (g # gs) =
     (list_ex (\<lambda>raw. let b = ToUpper (TrimSpace raw) in b \<noteq> [] \<and> b \<noteq> a) g
      \<or> currency_in_conflict a gs)"

definition currencySidesConflict :: "string \<Rightarrow> string list list \<Rightarrow> bool" where
  "currencySidesConflict left groups =
     (let a = ToUpper (TrimSpace left) in if a = [] then False else currency_in_conflict a groups)"

section \<open>The net of a settlement\<close>

record net_acc =
  na_gross :: int64
  na_refunds :: int64
  na_transfers :: int64
  na_fees :: int64
  na_taxes :: int64
  na_adjustments :: int64
  na_creditSum :: int64
  na_debitSum :: int64
  na_hasCredit :: bool

definition net_acc0 :: net_acc where
  "net_acc0 = \<lparr>na_gross = 0, na_refunds = 0, na_transfers = 0, na_fees = 0, na_taxes = 0,
     na_adjustments = 0, na_creditSum = 0, na_debitSum = 0, na_hasCredit = False\<rparr>"

text \<open>The body of the first loop of \<open>SettlementNetMinor\<close>.\<close>

definition net_step :: "string \<Rightarrow> net_acc \<Rightarrow> SettlementLine \<Rightarrow> net_acc" where
  "net_step sid a l =
     (if sl_SettlementID l \<noteq> sid then a
      else
        let a = a\<lparr>na_creditSum := na_creditSum a + sl_CreditMinor l,
                  na_debitSum := na_debitSum a + sl_DebitMinor l,
                  na_hasCredit := na_hasCredit a \<or> sl_CreditMinor l \<noteq> 0\<rparr>
        in if sl_LineType l = ''refund'' then
             a\<lparr>na_refunds := na_refunds a + absInt (sl_AmountMinor l),
               na_fees := na_fees a + sl_FeeMinor l, na_taxes := na_taxes a + sl_TaxMinor l\<rparr>
           else if sl_LineType l = ''transfer'' then
             a\<lparr>na_transfers := na_transfers a + absInt (sl_AmountMinor l)\<rparr>
           else if sl_LineType l = ''adjustment'' then
             (let a = a\<lparr>na_adjustments := na_adjustments a + (sl_CreditMinor l - sl_DebitMinor l)\<rparr>
              in if sl_CreditMinor l = 0 \<and> sl_DebitMinor l = 0
                 then a\<lparr>na_adjustments := na_adjustments a + sl_AmountMinor l\<rparr> else a)
           else
             a\<lparr>na_gross := na_gross a + sl_AmountMinor l,
               na_fees := na_fees a + sl_FeeMinor l, na_taxes := na_taxes a + sl_TaxMinor l\<rparr>)"

text \<open>The body of the second loop: lines with neither a credit nor a debit.\<close>

definition net_tail_step :: "string \<Rightarrow> int64 \<Rightarrow> SettlementLine \<Rightarrow> int64" where
  "net_tail_step sid net l =
     (if sl_SettlementID l \<noteq> sid then net
      else if sl_CreditMinor l \<noteq> 0 \<or> sl_DebitMinor l \<noteq> 0 then net
      else if sl_LineType l = ''refund'' then net - absInt (sl_AmountMinor l)
      else if sl_LineType l = ''transfer'' then net - absInt (sl_AmountMinor l)
      else if sl_LineType l = ''adjustment'' then net + sl_AmountMinor l
      else net)"

definition SettlementNetMinor :: "SettlementLine list \<Rightarrow> string \<Rightarrow> int64" where
  "SettlementNetMinor lines sid =
     (let a = foldl (net_step sid) net_acc0 lines
      in if na_hasCredit a then
           foldl (net_tail_step sid) (na_creditSum a - na_debitSum a) lines
         else na_gross a - na_refunds a - na_transfers a - na_fees a - na_taxes a
              + na_adjustments a)"

record waterfall =
  wf_gross :: int64
  wf_refunds :: int64
  wf_transfers :: int64
  wf_fees :: int64
  wf_taxes :: int64
  wf_adjustments :: int64
  wf_derived_net :: int64
  wf_expected_net :: int64

definition waterfall_step :: "string \<Rightarrow> waterfall \<Rightarrow> SettlementLine \<Rightarrow> waterfall" where
  "waterfall_step sid w l =
     (if sl_SettlementID l \<noteq> sid then w
      else if sl_LineType l = ''refund'' then
        w\<lparr>wf_refunds := wf_refunds w + absInt (sl_AmountMinor l),
          wf_fees := wf_fees w + sl_FeeMinor l, wf_taxes := wf_taxes w + sl_TaxMinor l\<rparr>
      else if sl_LineType l = ''transfer'' then
        w\<lparr>wf_transfers := wf_transfers w + absInt (sl_AmountMinor l)\<rparr>
      else if sl_LineType l = ''adjustment'' then
        (let adj = sl_CreditMinor l - sl_DebitMinor l;
             adj = (if adj = 0 then sl_AmountMinor l else adj)
         in w\<lparr>wf_adjustments := wf_adjustments w + adj\<rparr>)
      else
        w\<lparr>wf_gross := wf_gross w + sl_AmountMinor l,
          wf_fees := wf_fees w + sl_FeeMinor l, wf_taxes := wf_taxes w + sl_TaxMinor l\<rparr>)"

definition waterfall0 :: waterfall where
  "waterfall0 = \<lparr>wf_gross = 0, wf_refunds = 0, wf_transfers = 0, wf_fees = 0, wf_taxes = 0,
     wf_adjustments = 0, wf_derived_net = 0, wf_expected_net = 0\<rparr>"

definition Waterfall :: "SettlementLine list \<Rightarrow> string \<Rightarrow> waterfall" where
  "Waterfall lines sid =
     (let w = foldl (waterfall_step sid) waterfall0 lines; net = SettlementNetMinor lines sid
      in w\<lparr>wf_derived_net := net, wf_expected_net := net\<rparr>)"

section \<open>Closed forms\<close>

abbreviation (input) of_settlement :: "string \<Rightarrow> SettlementLine list \<Rightarrow> SettlementLine list" where
  "of_settlement sid lines \<equiv> filter (\<lambda>l. sl_SettlementID l = sid) lines"

definition is_gross_line :: "SettlementLine \<Rightarrow> bool" where
  "is_gross_line l \<longleftrightarrow> sl_LineType l \<notin> {''refund'', ''transfer'', ''adjustment''}"

definition adj_of :: "SettlementLine \<Rightarrow> int64" where
  "adj_of l = sl_CreditMinor l - sl_DebitMinor l
     + (if sl_CreditMinor l = 0 \<and> sl_DebitMinor l = 0 then sl_AmountMinor l else 0)"

definition sum_where :: "(SettlementLine \<Rightarrow> bool) \<Rightarrow> (SettlementLine \<Rightarrow> int64) \<Rightarrow> SettlementLine list \<Rightarrow> int64" where
  "sum_where P f lines = sum_list (map f (filter P lines))"

lemma sum_where_simps [simp]:
  "sum_where P f [] = 0"
  "sum_where P f (l # ls) = (if P l then f l else 0) + sum_where P f ls"
  by (simp_all add: sum_where_def)

lemma sum_where_mset: "mset xs = mset ys \<Longrightarrow> sum_where P f xs = sum_where P f ys"
  unfolding sum_where_def
  by (metis mset_filter mset_map sum_mset_sum_list)

text \<open>What each accumulator of the first loop holds at the end.\<close>

lemma foldl_net_step:
  "na_gross (foldl (net_step sid) a ls)
     = na_gross a + sum_where (\<lambda>l. sl_SettlementID l = sid \<and> is_gross_line l) sl_AmountMinor ls"
  "na_refunds (foldl (net_step sid) a ls)
     = na_refunds a + sum_where (\<lambda>l. sl_SettlementID l = sid \<and> sl_LineType l = ''refund'')
         (\<lambda>l. absInt (sl_AmountMinor l)) ls"
  "na_transfers (foldl (net_step sid) a ls)
     = na_transfers a + sum_where (\<lambda>l. sl_SettlementID l = sid \<and> sl_LineType l = ''transfer'')
         (\<lambda>l. absInt (sl_AmountMinor l)) ls"
  "na_fees (foldl (net_step sid) a ls)
     = na_fees a + sum_where (\<lambda>l. sl_SettlementID l = sid
         \<and> (is_gross_line l \<or> sl_LineType l = ''refund'')) sl_FeeMinor ls"
  "na_taxes (foldl (net_step sid) a ls)
     = na_taxes a + sum_where (\<lambda>l. sl_SettlementID l = sid
         \<and> (is_gross_line l \<or> sl_LineType l = ''refund'')) sl_TaxMinor ls"
  "na_adjustments (foldl (net_step sid) a ls)
     = na_adjustments a + sum_where (\<lambda>l. sl_SettlementID l = sid \<and> sl_LineType l = ''adjustment'')
         adj_of ls"
  "na_creditSum (foldl (net_step sid) a ls)
     = na_creditSum a + sum_where (\<lambda>l. sl_SettlementID l = sid) sl_CreditMinor ls"
  "na_debitSum (foldl (net_step sid) a ls)
     = na_debitSum a + sum_where (\<lambda>l. sl_SettlementID l = sid) sl_DebitMinor ls"
  "na_hasCredit (foldl (net_step sid) a ls)
     = (na_hasCredit a \<or> (\<exists>l \<in> set ls. sl_SettlementID l = sid \<and> sl_CreditMinor l \<noteq> 0))"
  by (induction ls arbitrary: a)
     (auto simp: net_step_def Let_def is_gross_line_def adj_of_def algebra_simps)

definition tail_of :: "SettlementLine \<Rightarrow> int64" where
  "tail_of l =
     (if sl_LineType l = ''refund'' \<or> sl_LineType l = ''transfer'' then - absInt (sl_AmountMinor l)
      else if sl_LineType l = ''adjustment'' then sl_AmountMinor l else 0)"

lemma foldl_net_tail_step:
  "foldl (net_tail_step sid) n ls
     = n + sum_where (\<lambda>l. sl_SettlementID l = sid \<and> sl_CreditMinor l = 0 \<and> sl_DebitMinor l = 0)
         tail_of ls"
  by (induction ls arbitrary: n) (auto simp: net_tail_step_def tail_of_def algebra_simps)

definition wf_adj_of :: "SettlementLine \<Rightarrow> int64" where
  "wf_adj_of l = (if sl_CreditMinor l - sl_DebitMinor l = 0 then sl_AmountMinor l
                  else sl_CreditMinor l - sl_DebitMinor l)"

lemma foldl_waterfall_step:
  "wf_gross (foldl (waterfall_step sid) w ls)
     = wf_gross w + sum_where (\<lambda>l. sl_SettlementID l = sid \<and> is_gross_line l) sl_AmountMinor ls"
  "wf_refunds (foldl (waterfall_step sid) w ls)
     = wf_refunds w + sum_where (\<lambda>l. sl_SettlementID l = sid \<and> sl_LineType l = ''refund'')
         (\<lambda>l. absInt (sl_AmountMinor l)) ls"
  "wf_transfers (foldl (waterfall_step sid) w ls)
     = wf_transfers w + sum_where (\<lambda>l. sl_SettlementID l = sid \<and> sl_LineType l = ''transfer'')
         (\<lambda>l. absInt (sl_AmountMinor l)) ls"
  "wf_fees (foldl (waterfall_step sid) w ls)
     = wf_fees w + sum_where (\<lambda>l. sl_SettlementID l = sid
         \<and> (is_gross_line l \<or> sl_LineType l = ''refund'')) sl_FeeMinor ls"
  "wf_taxes (foldl (waterfall_step sid) w ls)
     = wf_taxes w + sum_where (\<lambda>l. sl_SettlementID l = sid
         \<and> (is_gross_line l \<or> sl_LineType l = ''refund'')) sl_TaxMinor ls"
  "wf_adjustments (foldl (waterfall_step sid) w ls)
     = wf_adjustments w + sum_where (\<lambda>l. sl_SettlementID l = sid \<and> sl_LineType l = ''adjustment'')
         wf_adj_of ls"
  by (induction ls arbitrary: w)
     (auto simp: waterfall_step_def Let_def is_gross_line_def wf_adj_of_def algebra_simps)

lemma SettlementNetMinor_closed:
  "SettlementNetMinor ls sid =
     (if \<exists>l \<in> set ls. sl_SettlementID l = sid \<and> sl_CreditMinor l \<noteq> 0 then
        sum_where (\<lambda>l. sl_SettlementID l = sid) sl_CreditMinor ls
        - sum_where (\<lambda>l. sl_SettlementID l = sid) sl_DebitMinor ls
        + sum_where (\<lambda>l. sl_SettlementID l = sid \<and> sl_CreditMinor l = 0 \<and> sl_DebitMinor l = 0)
            tail_of ls
      else
        sum_where (\<lambda>l. sl_SettlementID l = sid \<and> is_gross_line l) sl_AmountMinor ls
        - sum_where (\<lambda>l. sl_SettlementID l = sid \<and> sl_LineType l = ''refund'')
            (\<lambda>l. absInt (sl_AmountMinor l)) ls
        - sum_where (\<lambda>l. sl_SettlementID l = sid \<and> sl_LineType l = ''transfer'')
            (\<lambda>l. absInt (sl_AmountMinor l)) ls
        - sum_where (\<lambda>l. sl_SettlementID l = sid \<and> (is_gross_line l \<or> sl_LineType l = ''refund''))
            sl_FeeMinor ls
        - sum_where (\<lambda>l. sl_SettlementID l = sid \<and> (is_gross_line l \<or> sl_LineType l = ''refund''))
            sl_TaxMinor ls
        + sum_where (\<lambda>l. sl_SettlementID l = sid \<and> sl_LineType l = ''adjustment'') adj_of ls)"
  by (auto simp: SettlementNetMinor_def Let_def foldl_net_step foldl_net_tail_step net_acc0_def)

lemma sum_where_cong:
  "(\<And>l. l \<in> set ls \<Longrightarrow> P l \<Longrightarrow> f l = g l) \<Longrightarrow> sum_where P f ls = sum_where P g ls"
  by (induction ls) auto

text \<open>
  The two loops of \<^verbatim>\<open>net.go\<close> treat an adjustment with equal non-zero credit and debit
  differently; without credits they cannot differ.
\<close>

lemma adj_of_no_credit: "sl_CreditMinor l = 0 \<Longrightarrow> adj_of l = wf_adj_of l"
  by (auto simp: adj_of_def wf_adj_of_def)

section \<open>Splitting and the gap rules\<close>

lemma splitLines_filter:
  "splitLines ls = (filter (\<lambda>l. ToLower (sl_LineType l) \<noteq> ''refund'') ls,
                    filter (\<lambda>l. ToLower (sl_LineType l) = ''refund'') ls)"
  by (induction ls) (auto simp: Let_def)

lemma splitLines_partition:
  "splitLines ls = (ps, rs) \<Longrightarrow> mset ps + mset rs = mset ls"
  by (auto simp: splitLines_filter)

lemma currency_in_conflict_iff:
  "currency_in_conflict a gs
     \<longleftrightarrow> (\<exists>g \<in> set gs. \<exists>c \<in> set g. ToUpper (TrimSpace c) \<noteq> [] \<and> ToUpper (TrimSpace c) \<noteq> a)"
  by (induction gs) (auto simp: list_ex_iff Let_def)

lemma partialSettlementGap_Some_iff:
  "partialSettlementGap amt ls = Some gap \<longleftrightarrow>
     0 <s amt \<and> ls \<noteq> [] \<and> settlementNet ls <s amt
     \<and> settlementNet ls + feeTaxDeduction ls <s amt \<and> gap = amt - settlementNet ls"
  by (auto simp: partialSettlementGap_def Let_def not_le word_sless_alt word_sle_eq)

section \<open>The properties of a settlement's net\<close>

lemma SettlementNetMinor_mset:
  "mset xs = mset ys \<Longrightarrow> SettlementNetMinor xs sid = SettlementNetMinor ys sid"
  unfolding SettlementNetMinor_closed
  using sum_where_mset [of xs ys] mset_eq_setD [of xs ys] by (simp only:)

lemma waterfall_eqI:
  fixes v w :: waterfall
  shows "wf_gross v = wf_gross w \<Longrightarrow> wf_refunds v = wf_refunds w \<Longrightarrow> wf_transfers v = wf_transfers w \<Longrightarrow>
   wf_fees v = wf_fees w \<Longrightarrow> wf_taxes v = wf_taxes w \<Longrightarrow> wf_adjustments v = wf_adjustments w \<Longrightarrow>
   wf_derived_net v = wf_derived_net w \<Longrightarrow> wf_expected_net v = wf_expected_net w \<Longrightarrow> v = w"
  by simp

text \<open>
  A settlement's waterfall and its net depend only on which lines it has, not on the order
  in which the provider's file, the store or a page of results lists them, although the code
  runs two loops and the second depends on a flag the first one sets.
\<close>

theorem waterfall_order_independent:
  assumes "mset xs = mset ys"
  shows "Waterfall xs sid = Waterfall ys sid"
proof -
  have n: "SettlementNetMinor xs sid = SettlementNetMinor ys sid"
    using assms by (rule SettlementNetMinor_mset)
  have s: "sum_where P f xs = sum_where P f ys" for P f
    using assms by (rule sum_where_mset)
  show ?thesis
    by (rule waterfall_eqI) (simp_all add: Waterfall_def Let_def foldl_waterfall_step n s)
qed

definition credited_line :: SettlementLine where
  "credited_line = zero_SettlementLine\<lparr>sl_ID := ''l1'', sl_SettlementID := ''s1'',
     sl_LineType := ''payment'', sl_AmountMinor := 100000, sl_CreditMinor := 97640,
     sl_FeeMinor := 2000, sl_TaxMinor := 360\<rparr>"

definition uncredited_line :: SettlementLine where
  "uncredited_line = zero_SettlementLine\<lparr>sl_ID := ''l2'', sl_SettlementID := ''s1'',
     sl_LineType := ''payment'', sl_AmountMinor := 50000, sl_FeeMinor := 1000, sl_TaxMinor := 180\<rparr>"

lemma waterfall_order_independent_witness:
  "Waterfall [credited_line, uncredited_line] ''s1'' = Waterfall [uncredited_line, credited_line] ''s1''"
  by (rule waterfall_order_independent) simp

text \<open>
  The waterfall adds up: where no line of the settlement carries an explicit credit, the
  derived net is gross less refunds, transfers, fees and taxes plus adjustments, in 64-bit
  arithmetic, for every mixture of line types.
\<close>

theorem waterfall_identity:
  assumes "\<forall>l \<in> set ls. sl_SettlementID l = sid \<longrightarrow> sl_CreditMinor l = 0"
  shows "let w = Waterfall ls sid in
     wf_derived_net w = wf_gross w - wf_refunds w - wf_transfers w - wf_fees w - wf_taxes w
       + wf_adjustments w \<and> wf_expected_net w = wf_derived_net w"
proof -
  have "sum_where (\<lambda>l. sl_SettlementID l = sid \<and> sl_LineType l = ''adjustment'') adj_of ls
      = sum_where (\<lambda>l. sl_SettlementID l = sid \<and> sl_LineType l = ''adjustment'') wf_adj_of ls"
    using assms by (intro sum_where_cong) (simp add: adj_of_no_credit)
  moreover have "\<not> (\<exists>l \<in> set ls. sl_SettlementID l = sid \<and> sl_CreditMinor l \<noteq> 0)"
    using assms by blast
  ultimately show ?thesis
    by (auto simp: Waterfall_def Let_def foldl_waterfall_step SettlementNetMinor_closed waterfall0_def)
qed

lemma waterfall_identity_witness:
  "wf_derived_net (Waterfall [uncredited_line] ''s1'') = 48820"
  using waterfall_identity [of "[uncredited_line]" "''s1''"]
  by (simp add: Let_def uncredited_line_def zero_defs Waterfall_def SettlementNetMinor_closed
      is_gross_line_def)

text \<open>
  Where one line of the settlement does carry a credit, a payment line that states only its
  amount, fee and tax no longer counts: the net of the two lines below is that of the first
  alone, while the waterfall's gross, fees and taxes include the second, so its figures no longer
  add up to its net.
\<close>

theorem mixed_settlement_drops_uncredited_payment:
  "SettlementNetMinor [credited_line, uncredited_line] ''s1'' = SettlementNetMinor [credited_line] ''s1''
   \<and> lineNet uncredited_line = 48820
   \<and> (let w = Waterfall [credited_line, uncredited_line] ''s1'' in
      wf_gross w - wf_refunds w - wf_transfers w - wf_fees w - wf_taxes w + wf_adjustments w
        = wf_derived_net w + lineNet uncredited_line)"
  by (simp add: SettlementNetMinor_closed lineNet_def Waterfall_def Let_def waterfall_step_def
      credited_line_def uncredited_line_def zero_defs is_gross_line_def waterfall0_def tail_of_def)

end
