(* ===== verification/GapRules.thy ===== *)
theory GapRules
  imports Settlement
begin

text \<open>
  The comparisons of a payment or payout with the merchant's own books and with the invoice's
  tax lines: \<^verbatim>\<open>merchant.go\<close> (\<open>merchantBooksGap\<close>, \<open>payoutMerchantGap\<close>,
  \<open>openChargeback\<close>) and \<^verbatim>\<open>tax.go\<close>.  A Go triple \<open>(gap, reason, ok)\<close> whose last
  component is false is \<open>None\<close>.
\<close>

section \<open>Merchant books\<close>

definition books_gap :: "string \<Rightarrow> int64 \<Rightarrow> MerchantBookFact option \<Rightarrow> (int64 \<times> string) option" where
  "books_gap currency amount merch =
     (case merch of
        None \<Rightarrow> None
      | Some m \<Rightarrow>
         (let pc = ToUpper (TrimSpace currency); mc = ToUpper (TrimSpace (mb_Currency m))
          in if pc \<noteq> [] \<and> mc \<noteq> [] \<and> pc \<noteq> mc then Some (0, ''merchant_currency_mismatch'')
             else if mb_AmountMinor m \<noteq> amount then
               Some (absInt (mb_AmountMinor m - amount), ''merchant_amount_mismatch'')
             else None))"

definition merchantBooksGap :: "PaymentFact \<Rightarrow> MerchantBookFact option \<Rightarrow> (int64 \<times> string) option" where
  "merchantBooksGap pay = books_gap (pf_Currency pay) (pf_AmountMinor pay)"

definition payoutMerchantGap :: "PayoutFact \<Rightarrow> MerchantBookFact option \<Rightarrow> (int64 \<times> string) option" where
  "payoutMerchantGap p = books_gap (po_Currency p) (po_AmountMinor p)"

definition openChargeback :: "DisputeFact list \<Rightarrow> bool" where
  "openChargeback disputes =
     list_ex (\<lambda>d. ToLower (TrimSpace (df_Status d)) \<in> {[], ''open'', ''lost'', ''won_pending''})
       disputes"

section \<open>Tax lines\<close>

definition isGSTComponent :: "string \<Rightarrow> bool" where
  "isGSTComponent s \<longleftrightarrow>
     ToLower (TrimSpace s) \<in> {''gst'', ''cgst'', ''sgst'', ''igst'', ''tax'', ''tax_line''}"

definition isTDSComponent :: "string \<Rightarrow> bool" where
  "isTDSComponent s \<longleftrightarrow> ToLower (TrimSpace s) \<in> {''tds'', ''tcs''}"

definition gst_step :: "int64 \<times> bool \<Rightarrow> TaxLineFact \<Rightarrow> int64 \<times> bool" where
  "gst_step acc t =
     (if isTDSComponent (tl_Component t) then acc
      else if isGSTComponent (tl_Component t) \<or> tl_Component t = [] then
        (fst acc + tl_AmountMinor t, True)
      else acc)"

definition invoiceGSTMinor :: "MerchantBookFact option \<Rightarrow> TaxLineFact list \<Rightarrow> int64 option" where
  "invoiceGSTMinor merch lines =
     (let (gst, seen) = foldl gst_step (0, False) lines
      in if seen then Some gst
         else case merch of
             None \<Rightarrow> None
           | Some m \<Rightarrow>
              if mb_TaxMinor m \<noteq> 0 then Some (mb_TaxMinor m)
              else let comp = mb_CGSTMinor m + mb_SGSTMinor m + mb_IGSTMinor m
                in if comp \<noteq> 0 then Some comp else None)"

definition settlementTaxMinor :: "SettlementLine list \<Rightarrow> int64" where
  "settlementTaxMinor lines = sum_list (map sl_TaxMinor lines)"

definition taxLineGap ::
    "SettlementLine list \<Rightarrow> MerchantBookFact option \<Rightarrow> TaxLineFact list \<Rightarrow> (int64 \<times> string) option" where
  "taxLineGap settlement merch taxLines =
     (case invoiceGSTMinor merch taxLines of
        None \<Rightarrow> None
      | Some want \<Rightarrow>
         (let obs = settlementTaxMinor settlement
          in if want = obs then None else Some (absInt (want - obs), ''tax_line_mismatch'')))"

section \<open>What the gaps mean\<close>

lemma books_gap_None_iff:
  "books_gap c a merch = None \<longleftrightarrow>
     (\<forall>m. merch = Some m \<longrightarrow> mb_AmountMinor m = a
        \<and> (ToUpper (TrimSpace c) = [] \<or> ToUpper (TrimSpace (mb_Currency m)) = []
           \<or> ToUpper (TrimSpace c) = ToUpper (TrimSpace (mb_Currency m))))"
  by (auto simp: books_gap_def Let_def split: option.splits)

lemma books_gap_reason:
  "books_gap c a merch = Some (g, r) \<Longrightarrow>
     r \<in> {''merchant_currency_mismatch'', ''merchant_amount_mismatch''} \<and> merch \<noteq> None"
  by (auto simp: books_gap_def Let_def split: option.splits if_splits)

lemma foldl_gst_step:
  "foldl gst_step acc ls =
     (let counted = filter (\<lambda>t. \<not> isTDSComponent (tl_Component t)
                        \<and> (isGSTComponent (tl_Component t) \<or> tl_Component t = [])) ls
      in (fst acc + sum_list (map tl_AmountMinor counted), snd acc \<or> counted \<noteq> []))"
  by (induction ls arbitrary: acc) (auto simp: gst_step_def Let_def)

text \<open>TDS and TCS are never counted as goods-and-services tax, whatever the spelling.\<close>

lemma isTDS_not_isGST: "isTDSComponent s \<Longrightarrow> \<not> isGSTComponent s"
  by (auto simp: isTDSComponent_def isGSTComponent_def)

lemma taxLineGap_reason: "taxLineGap s m t = Some (g, r) \<Longrightarrow> r = ''tax_line_mismatch'' \<and> g \<noteq> 0"
  by (auto simp: taxLineGap_def Let_def split: option.splits if_splits)

end
