(* ===== verification/CashFlow.thy ===== *)
theory CashFlow
  imports Facts
begin

text \<open>
  \<^verbatim>\<open>cash_flow.go\<close>: the catalogue of rails, \<open>NormalizeRail\<close>, and
  \<open>AnnotateCashFlow\<close>, which derives from a result's reason the two-way leg (books against
  provider) and the three-way leg (the same with bank movement).
\<close>

section \<open>Rails and directions\<close>

abbreviation (input) DirectionInbound :: string where "DirectionInbound \<equiv> ''INBOUND''"
abbreviation (input) DirectionOutbound :: string where "DirectionOutbound \<equiv> ''OUTBOUND''"
abbreviation (input) DirectionBoth :: string where "DirectionBoth \<equiv> ''BOTH''"

abbreviation (input) RailUPI :: string where "RailUPI \<equiv> ''UPI''"
abbreviation (input) RailCard :: string where "RailCard \<equiv> ''CARD''"
abbreviation (input) RailNetbanking :: string where "RailNetbanking \<equiv> ''NETBANKING''"
abbreviation (input) RailWallet :: string where "RailWallet \<equiv> ''WALLET''"
abbreviation (input) RailIMPS :: string where "RailIMPS \<equiv> ''IMPS''"
abbreviation (input) RailNEFT :: string where "RailNEFT \<equiv> ''NEFT''"
abbreviation (input) RailRTGS :: string where "RailRTGS \<equiv> ''RTGS''"
abbreviation (input) RailBankTransfer :: string where "RailBankTransfer \<equiv> ''BANK_TRANSFER''"
abbreviation (input) RailEMI :: string where "RailEMI \<equiv> ''EMI''"
abbreviation (input) RailPaylater :: string where "RailPaylater \<equiv> ''PAYLATER''"

record CashInstrument =
  ci_Rail :: string
  ci_Kind :: string
  ci_Direction :: string
  ci_RazorpayIDs :: "string list"
  ci_CashIn :: bool
  ci_CashOut :: bool

definition collect_instrument :: "string \<Rightarrow> string list \<Rightarrow> CashInstrument" where
  "collect_instrument rail ids = \<lparr>ci_Rail = rail, ci_Kind = ''collect'',
     ci_Direction = DirectionInbound, ci_RazorpayIDs = ids, ci_CashIn = True, ci_CashOut = False\<rparr>"

definition both_instrument :: "string \<Rightarrow> string list \<Rightarrow> CashInstrument" where
  "both_instrument rail ids = \<lparr>ci_Rail = rail, ci_Kind = ''both'',
     ci_Direction = DirectionBoth, ci_RazorpayIDs = ids, ci_CashIn = True, ci_CashOut = True\<rparr>"

definition RazorpayInstruments :: "CashInstrument list" where
  "RazorpayInstruments =
     [both_instrument RailUPI [''upi''],
      collect_instrument RailCard [''card'', ''debit'', ''credit''],
      collect_instrument RailNetbanking [''netbanking''],
      collect_instrument RailWallet [''wallet''],
      collect_instrument RailEMI [''emi'', ''cardless_emi''],
      collect_instrument RailPaylater [''paylater''],
      collect_instrument RailBankTransfer [''bank_transfer'', ''emandate'', ''nach''],
      both_instrument RailIMPS [''imps''],
      both_instrument RailNEFT [''neft''],
      both_instrument RailRTGS [''rtgs'']]"

definition rail_of_upper :: "string \<Rightarrow> string" where
  "rail_of_upper u =
     (if u \<in> {[], ''UNKNOWN''} then []
      else if u = ''UPI'' then RailUPI
      else if u \<in> {''CARD'', ''DEBIT'', ''CREDIT'', ''CREDITCARD'', ''DEBITCARD''} then RailCard
      else if u \<in> {''NETBANKING'', ''NB''} then RailNetbanking
      else if u = ''WALLET'' then RailWallet
      else if u = ''IMPS'' then RailIMPS
      else if u = ''NEFT'' then RailNEFT
      else if u = ''RTGS'' then RailRTGS
      else if u \<in> {''BANK_TRANSFER'', ''BANKTRANSFER''} then RailBankTransfer
      else if u \<in> {''EMI'', ''CARDLESS_EMI''} then RailEMI
      else if u = ''PAYLATER'' then RailPaylater
      else u)"

definition NormalizeRail :: "string \<Rightarrow> string" where
  "NormalizeRail raw = rail_of_upper (ToUpper (TrimSpace raw))"

definition DirectionForEntity :: "string \<Rightarrow> string" where
  "DirectionForEntity entityType =
     (if entityType = EntityPayout then DirectionOutbound
      else if entityType = EntityPayment \<or> entityType = EntityBank then DirectionInbound
      else [])"

section \<open>The legs\<close>

definition pspBooksAgree :: "string \<Rightarrow> bool" where
  "pspBooksAgree reason \<longleftrightarrow> reason \<in>
     {''captured_settlement_exact_bank'', ''captured_settlement_high_confidence_bank'',
      ''settlement_without_bank'', ''processed_exact_debit'', ''payout_missing_bank'',
      ''failed_no_money_movement'', ''failed_refund_no_bank_movement''}"

definition bankMovementProven :: "FinancialResult \<Rightarrow> bool" where
  "bankMovementProven fr =
     (if fr_Reason fr \<in> {''captured_settlement_exact_bank'', ''processed_exact_debit''} then True
      else if fr_Reason fr \<in> {''failed_no_money_movement'', ''failed_refund_no_bank_movement''} then True
      else fr_BankCreditProven fr)"

definition no_movement_reason :: "string \<Rightarrow> bool" where
  "no_movement_reason r \<longleftrightarrow> r \<in> {''failed_no_money_movement'', ''failed_refund_no_bank_movement''}"

definition twoWayReason :: "FinancialResult \<Rightarrow> string" where
  "twoWayReason fr =
     (if fr_EntityType fr = EntityPayout then
        if no_movement_reason (fr_Reason fr) then ''merchant_psp_no_movement''
        else if fr_MerchantObserved fr \<and> fr_MerchantAgreed fr then ''merchant_books_psp_payout''
        else ''merchant_psp_payout''
      else
        if no_movement_reason (fr_Reason fr) then ''merchant_psp_no_movement''
        else if fr_MerchantObserved fr \<and> fr_MerchantAgreed fr then ''merchant_books_psp''
        else ''merchant_psp_settled'')"

definition threeWayMatchedReason :: "FinancialResult \<Rightarrow> string" where
  "threeWayMatchedReason fr =
     (if no_movement_reason (fr_Reason fr) then ''merchant_psp_bank_no_movement''
      else ''merchant_psp_bank'')"

definition threeWayGapReason :: "FinancialResult \<Rightarrow> string" where
  "threeWayGapReason fr =
     (if fr_Reason fr \<in> {''settlement_without_bank'', ''payout_missing_bank''} then fr_Reason fr
      else ''bank_not_proven'')"

definition nonZeroConf :: "rat \<Rightarrow> rat \<Rightarrow> rat" where
  "nonZeroConf got fallback = (if got > 0 then got else fallback)"

definition deriveLegs :: "FinancialResult \<Rightarrow> ReconLeg \<times> ReconLeg" where
  "deriveLegs fr =
     (let own = \<lparr>leg_Result = fr_Result fr, leg_Reason = fr_Reason fr,
                leg_Confidence = fr_Confidence fr\<rparr>;
          two = (if pspBooksAgree (fr_Reason fr) then
                   \<lparr>leg_Result = ResultMatched, leg_Reason = twoWayReason fr,
                    leg_Confidence = nonZeroConf (fr_Confidence fr) 0.85\<rparr>
                 else own)
      in if pspBooksAgree (fr_Reason fr) \<and> bankMovementProven fr then
           (two, \<lparr>leg_Result = ResultMatched, leg_Reason = threeWayMatchedReason fr,
                  leg_Confidence = nonZeroConf (fr_Confidence fr) 0.99\<rparr>)
         else if pspBooksAgree (fr_Reason fr) \<and> \<not> bankMovementProven fr then
           (two, \<lparr>leg_Result = ResultUnresolved, leg_Reason = threeWayGapReason fr,
                  leg_Confidence = nonZeroConf (fr_Confidence fr) 0.7\<rparr>)
         else (two, own))"

definition AnnotateCashFlow :: "FinancialResult \<Rightarrow> FinancialResult" where
  "AnnotateCashFlow fr =
     (let fr = (if fr_Direction fr = [] then fr\<lparr>fr_Direction := DirectionForEntity (fr_EntityType fr)\<rparr>
                else fr);
          fr = (if fr_Rail fr \<noteq> [] then fr\<lparr>fr_Rail := NormalizeRail (fr_Rail fr)\<rparr> else fr)
      in if fr_Result fr = [] \<or> fr_Reason fr = ''not_run'' then fr
         else fr\<lparr>fr_TwoWay := fst (deriveLegs fr), fr_ThreeWay := snd (deriveLegs fr)\<rparr>)"

section \<open>Lemmas\<close>

lemma rail_of_upper_fixed:
  "rail_of_upper u \<noteq> [] \<Longrightarrow> rail_of_upper (rail_of_upper u) = rail_of_upper u"
  unfolding rail_of_upper_def by (simp split: if_splits)

lemma rail_of_upper_norm:
  "ToUpper u = u \<Longrightarrow> TrimSpace u = u \<Longrightarrow>
     ToUpper (TrimSpace (rail_of_upper u)) = rail_of_upper u"
  unfolding rail_of_upper_def by (simp add: str_simps split: if_splits)

lemma NormalizeRail_idem: "NormalizeRail (NormalizeRail raw) = NormalizeRail raw"
proof (cases "NormalizeRail raw = []")
  case True
  then show ?thesis by (simp add: NormalizeRail_def rail_of_upper_def)
next
  case False
  define u where "u = ToUpper (TrimSpace raw)"
  have "ToUpper u = u" "TrimSpace u = u" by (simp_all add: u_def)
  from rail_of_upper_norm [OF this] rail_of_upper_fixed [of u] False show ?thesis
    by (simp add: NormalizeRail_def flip: u_def)
qed

lemma DirectionForEntity_nonempty:
  "e \<in> {EntityPayout, EntityPayment, EntityBank} \<Longrightarrow> DirectionForEntity e \<noteq> []"
  by (auto simp: DirectionForEntity_def)

lemma AnnotateCashFlow_frame [frame_simps]:
  "fr_ID (AnnotateCashFlow fr) = fr_ID fr"
  "fr_RunID (AnnotateCashFlow fr) = fr_RunID fr"
  "fr_EntityType (AnnotateCashFlow fr) = fr_EntityType fr"
  "fr_EntityID (AnnotateCashFlow fr) = fr_EntityID fr"
  "fr_Status (AnnotateCashFlow fr) = fr_Status fr"
  "fr_Result (AnnotateCashFlow fr) = fr_Result fr"
  "fr_ExpectedAmount (AnnotateCashFlow fr) = fr_ExpectedAmount fr"
  "fr_ObservedAmount (AnnotateCashFlow fr) = fr_ObservedAmount fr"
  "fr_VarianceAmount (AnnotateCashFlow fr) = fr_VarianceAmount fr"
  "fr_Confidence (AnnotateCashFlow fr) = fr_Confidence fr"
  "fr_Reason (AnnotateCashFlow fr) = fr_Reason fr"
  "fr_RuleVersion (AnnotateCashFlow fr) = fr_RuleVersion fr"
  "fr_CandidateIDs (AnnotateCashFlow fr) = fr_CandidateIDs fr"
  "fr_EvidenceRefs (AnnotateCashFlow fr) = fr_EvidenceRefs fr"
  "fr_BankCreditProven (AnnotateCashFlow fr) = fr_BankCreditProven fr"
  "fr_MerchantObserved (AnnotateCashFlow fr) = fr_MerchantObserved fr"
  "fr_MerchantAgreed (AnnotateCashFlow fr) = fr_MerchantAgreed fr"
  "fr_CreatedAt (AnnotateCashFlow fr) = fr_CreatedAt fr"
  "fr_Exception (AnnotateCashFlow fr) = fr_Exception fr"
  by (simp_all add: AnnotateCashFlow_def Let_def)

text \<open>The legs depend only on the fields annotation leaves alone.\<close>

lemma deriveLegs_cong:
  "fr_Result a = fr_Result b \<Longrightarrow> fr_Reason a = fr_Reason b \<Longrightarrow> fr_Confidence a = fr_Confidence b \<Longrightarrow>
   fr_EntityType a = fr_EntityType b \<Longrightarrow> fr_BankCreditProven a = fr_BankCreditProven b \<Longrightarrow>
   fr_MerchantObserved a = fr_MerchantObserved b \<Longrightarrow> fr_MerchantAgreed a = fr_MerchantAgreed b \<Longrightarrow>
   deriveLegs (a :: FinancialResult) = deriveLegs b"
  by (simp add: deriveLegs_def Let_def bankMovementProven_def twoWayReason_def
      threeWayMatchedReason_def threeWayGapReason_def)

lemma AnnotateCashFlow_closed:
  "AnnotateCashFlow fr =
     (let fr' = fr\<lparr>fr_Direction := (if fr_Direction fr = [] then DirectionForEntity (fr_EntityType fr)
                                    else fr_Direction fr),
                   fr_Rail := (if fr_Rail fr = [] then [] else NormalizeRail (fr_Rail fr))\<rparr>
      in if fr_Result fr = [] \<or> fr_Reason fr = ''not_run'' then fr'
         else fr'\<lparr>fr_TwoWay := fst (deriveLegs fr), fr_ThreeWay := snd (deriveLegs fr)\<rparr>)"
proof -
  have d: "deriveLegs (fr\<lparr>fr_Direction := x\<rparr>) = deriveLegs fr"
    "deriveLegs (fr\<lparr>fr_Rail := y\<rparr>) = deriveLegs fr"
    "deriveLegs (fr\<lparr>fr_Direction := x, fr_Rail := y\<rparr>) = deriveLegs fr" for x y
    by (rule deriveLegs_cong; simp)+
  show ?thesis by (simp add: AnnotateCashFlow_def Let_def d)
qed

lemma AnnotateCashFlow_legs:
  assumes "fr_Result fr \<noteq> []" "fr_Reason fr \<noteq> ''not_run''"
  shows "fr_TwoWay (AnnotateCashFlow fr) = fst (deriveLegs fr)"
    "fr_ThreeWay (AnnotateCashFlow fr) = snd (deriveLegs fr)"
  using assms by (simp_all add: AnnotateCashFlow_closed Let_def)

text \<open>
  Annotation is safe to repeat (the legs are re-derived on every read of a stored result):
  a second \<open>AnnotateCashFlow\<close> changes nothing, and no call changes the result's own
  verdict, reason, confidence, amounts, proof flag, evidence or exception.
\<close>

theorem annotate_idempotent_and_framed:
  "AnnotateCashFlow (AnnotateCashFlow fr) = AnnotateCashFlow fr \<and>
   AnnotateCashFlow fr = fr\<lparr>fr_Direction := fr_Direction (AnnotateCashFlow fr),
     fr_Rail := fr_Rail (AnnotateCashFlow fr), fr_TwoWay := fr_TwoWay (AnnotateCashFlow fr),
     fr_ThreeWay := fr_ThreeWay (AnnotateCashFlow fr)\<rparr>"
proof
  define D where "D = (if fr_Direction fr = [] then DirectionForEntity (fr_EntityType fr)
    else fr_Direction fr)"
  define R where "R = (if fr_Rail fr = [] then [] else NormalizeRail (fr_Rail fr))"
  define skip where "skip \<longleftrightarrow> fr_Result fr = [] \<or> fr_Reason fr = ''not_run''"
  have D: "DirectionForEntity (fr_EntityType fr) = D" if "D = []"
    using that by (simp add: D_def split: if_splits)
  have R: "NormalizeRail R = R" if "R \<noteq> []"
    using that by (simp add: R_def NormalizeRail_idem split: if_splits)
  have legs: "deriveLegs (fr\<lparr>fr_Direction := D, fr_Rail := R, fr_TwoWay := t, fr_ThreeWay := u\<rparr>)
      = deriveLegs fr" for t u
    by (rule deriveLegs_cong) simp_all
  have a: "AnnotateCashFlow fr = (if skip then fr\<lparr>fr_Direction := D, fr_Rail := R\<rparr>
      else fr\<lparr>fr_Direction := D, fr_Rail := R, fr_TwoWay := fst (deriveLegs fr),
             fr_ThreeWay := snd (deriveLegs fr)\<rparr>)"
    by (simp add: AnnotateCashFlow_closed Let_def D_def R_def skip_def)
  show "AnnotateCashFlow (AnnotateCashFlow fr) = AnnotateCashFlow fr"
  proof (cases skip)
    case True
    have "AnnotateCashFlow (fr\<lparr>fr_Direction := D, fr_Rail := R\<rparr>) = fr\<lparr>fr_Direction := D, fr_Rail := R\<rparr>"
      using True unfolding AnnotateCashFlow_closed Let_def skip_def by (simp add: D R)
    with True show ?thesis by (simp add: a)
  next
    case False
    let ?b = "fr\<lparr>fr_Direction := D, fr_Rail := R, fr_TwoWay := fst (deriveLegs fr),
             fr_ThreeWay := snd (deriveLegs fr)\<rparr>"
    have "AnnotateCashFlow ?b = ?b"
      using False unfolding AnnotateCashFlow_closed [of ?b] Let_def skip_def
      by (simp add: D R legs)
    with False show ?thesis by (simp add: a)
  qed
  show "AnnotateCashFlow fr = fr\<lparr>fr_Direction := fr_Direction (AnnotateCashFlow fr),
     fr_Rail := fr_Rail (AnnotateCashFlow fr), fr_TwoWay := fr_TwoWay (AnnotateCashFlow fr),
     fr_ThreeWay := fr_ThreeWay (AnnotateCashFlow fr)\<rparr>"
    by (cases skip) (simp_all add: a)
qed

lemma deriveLegs_three_way_matched:
  "leg_Result (snd (deriveLegs fr)) = ResultMatched \<longleftrightarrow>
     (if pspBooksAgree (fr_Reason fr) then bankMovementProven fr else fr_Result fr = ResultMatched)"
  by (simp add: deriveLegs_def Let_def)

end
