(* ===== verification/BankMatch.thy ===== *)
theory BankMatch
  imports Settlement
begin

text \<open>
  Matching one settlement line against the credits of a bank statement: \<^verbatim>\<open>select.go\<close>
  (\<open>MatchCandidate\<close>, \<open>Selection\<close> and the two selectors), \<^verbatim>\<open>confidence.go\<close> and
  \<^verbatim>\<open>settlement_bank.go\<close> (\<open>MatchSettlementBank\<close>).  The two selectors share one
  contract, the locale \<open>candidate_selector\<close>; the matcher relies on nothing else of them.
  The atomic counters the matcher bumps are threaded as a record; \<open>now\<close> is the clock it reads.
\<close>

section \<open>Scores\<close>

abbreviation (input) ScoreExactPaymentID :: rat where "ScoreExactPaymentID \<equiv> 0.50"
abbreviation (input) ScoreExactUTR :: rat where "ScoreExactUTR \<equiv> 0.35"
abbreviation (input) ScoreExactNetAmount :: rat where "ScoreExactNetAmount \<equiv> 0.08"
abbreviation (input) ScoreCurrency :: rat where "ScoreCurrency \<equiv> 0.03"
abbreviation (input) ScoreDateWindow :: rat where "ScoreDateWindow \<equiv> 0.03"
abbreviation (input) ScoreDescription :: rat where "ScoreDescription \<equiv> 0.01"

abbreviation (input) MatchExactUTRAndAmount :: string where
  "MatchExactUTRAndAmount \<equiv> ''exact_utr_and_amount''"
abbreviation (input) MatchNetAmountDateAccount :: string where
  "MatchNetAmountDateAccount \<equiv> ''exact_net_amount_date_account''"

definition ScoreUTRAndAmount ::
    "bool \<Rightarrow> bool \<Rightarrow> bool \<Rightarrow> bool \<Rightarrow> rat \<times> (string \<times> rat) list" where
  "ScoreUTRAndAmount utrEqual amountEqual currencyEqual dateInWindow =
     (let b = (if utrEqual then [(''exact_settlement_utr'', ScoreExactUTR)] else [])
            @ (if amountEqual then [(''exact_net_amount'', ScoreExactNetAmount)] else [])
            @ (if currencyEqual then [(''currency_match'', ScoreCurrency)] else [])
            @ (if dateInWindow then [(''date_within_expected_window'', ScoreDateWindow)] else [])
      in (sum_list (map snd b), b))"

section \<open>Selecting candidates\<close>

record MatchCandidate =
  mc_ID :: string
  mc_AmountMinor :: int64
  mc_Currency :: string
  mc_UTR :: string
  mc_ValueDate :: time

record Selection =
  sel_IDs :: "string list"
  sel_Unique :: "MatchCandidate option"

definition selectionOf :: "MatchCandidate list \<Rightarrow> Selection" where
  "selectionOf hit =
     \<lparr>sel_IDs = map mc_ID hit, sel_Unique = (if length hit = 1 then Some (hit ! 0) else None)\<rparr>"

definition SelectByUTR :: "MatchCandidate list \<Rightarrow> string \<Rightarrow> Selection" where
  "SelectByUTR cands utr =
     (let utr = normalizeUTR utr
      in if utr = [] then \<lparr>sel_IDs = [], sel_Unique = None\<rparr>
         else selectionOf (filter (\<lambda>c. normalizeUTR (mc_UTR c) = utr) cands))"

definition amount_window_hit ::
    "int64 \<Rightarrow> string \<Rightarrow> time \<Rightarrow> duration \<Rightarrow> MatchCandidate \<Rightarrow> bool" where
  "amount_window_hit amount currency t0 window c =
     (if mc_AmountMinor c \<noteq> amount then False
      else
        let currency = ToUpper (TrimSpace currency); cc = ToUpper (TrimSpace (mc_Currency c))
        in if currency \<noteq> [] \<and> cc \<noteq> [] \<and> cc \<noteq> currency then False
           else if \<not> IsZero t0 \<and> \<not> IsZero (mc_ValueDate c) then
             dur_abs (time_sub (mc_ValueDate c) t0) \<le> (if window \<le> 0 then defaultDateWindow else window)
           else True)"

definition SelectByAmountWindow ::
    "MatchCandidate list \<Rightarrow> int64 \<Rightarrow> string \<Rightarrow> time \<Rightarrow> duration \<Rightarrow> Selection" where
  "SelectByAmountWindow cands amount currency t0 window =
     selectionOf (filter (amount_window_hit amount currency t0 window) cands)"

definition bankCandidate :: "BankTxn \<Rightarrow> MatchCandidate" where
  "bankCandidate b = \<lparr>mc_ID = bt_ID b, mc_AmountMinor = bt_CreditMinor b,
     mc_Currency = bt_Currency b, mc_UTR = bt_UTR b, mc_ValueDate = bt_ValueDate b\<rparr>"

definition bankCandidates :: "BankTxn list \<Rightarrow> MatchCandidate list" where
  "bankCandidates credits = map bankCandidate credits"

text \<open>
  The contract of a selector: it reports exactly the candidates that satisfy its rule, in order,
  and names one as unique only when it is the only one.
\<close>

locale candidate_selector =
  fixes select :: "MatchCandidate list \<Rightarrow> Selection"
    and hit :: "MatchCandidate \<Rightarrow> bool"
  assumes select_IDs: "sel_IDs (select cs) = map mc_ID (filter hit cs)"
    and select_Unique: "sel_Unique (select cs) = Some c \<longleftrightarrow> filter hit cs = [c]"
begin

lemma unique_is_the_hit:
  assumes "sel_Unique (select cs) = Some c"
  shows "c \<in> set cs" "hit c" "sel_IDs (select cs) = [mc_ID c]"
    "\<And>d. d \<in> set cs \<Longrightarrow> hit d \<Longrightarrow> d = c"
proof -
  have f: "filter hit cs = [c]" using assms select_Unique by simp
  then have s: "{d \<in> set cs. hit d} = {c}" by (metis list.set(1,2) set_filter)
  then show "c \<in> set cs" "hit c" by auto
  show "sel_IDs (select cs) = [mc_ID c]" using f select_IDs by simp
  show "d = c" if "d \<in> set cs" "hit d" for d using s that by blast
qed

lemma ids_sound: "i \<in> set (sel_IDs (select cs)) \<Longrightarrow> \<exists>c \<in> set cs. mc_ID c = i \<and> hit c"
  using select_IDs by auto

lemma no_ids: "sel_IDs (select cs) = [] \<longleftrightarrow> (\<forall>c \<in> set cs. \<not> hit c)"
  by (simp add: select_IDs filter_empty_conv)

lemma not_unique: "sel_Unique (select cs) = None \<Longrightarrow> length (sel_IDs (select cs)) \<noteq> 1"
proof
  assume n: "sel_Unique (select cs) = None" and "length (sel_IDs (select cs)) = 1"
  then obtain c where "filter hit cs = [c]"
    by (auto simp: select_IDs length_Suc_conv)
  with select_Unique n show False by (metis option.distinct(1))
qed

lemma order_irrelevant:
  "mset cs = mset ds \<Longrightarrow> mset (sel_IDs (select cs)) = mset (sel_IDs (select ds))"
  by (simp add: select_IDs)

end

lemma selectionOf_Unique: "sel_Unique (selectionOf hits) = Some c \<longleftrightarrow> hits = [c]"
  by (auto simp: selectionOf_def length_Suc_conv)

interpretation by_utr: candidate_selector "\<lambda>cs. SelectByUTR cs utr"
    "\<lambda>c. normalizeUTR utr \<noteq> [] \<and> normalizeUTR (mc_UTR c) = normalizeUTR utr" for utr
  by unfold_locales
     (simp_all add: SelectByUTR_def Let_def selectionOf_Unique, simp_all add: selectionOf_def)

interpretation by_amount: candidate_selector
    "\<lambda>cs. SelectByAmountWindow cs amount currency t0 window"
    "amount_window_hit amount currency t0 window" for amount currency t0 window
  by unfold_locales
     (simp_all add: SelectByAmountWindow_def selectionOf_Unique, simp_all add: selectionOf_def)

section \<open>One settlement line\<close>

definition inDateWindow :: "time \<Rightarrow> time \<Rightarrow> bool" where
  "inDateWindow settledAt valueDate =
     (if IsZero settledAt \<or> IsZero valueDate then True
      else dur_abs (time_sub valueDate settledAt) \<le> defaultDateWindow)"

definition narrationBoost :: "SettlementLine \<Rightarrow> BankTxn \<Rightarrow> bool" where
  "narrationBoost line b =
     (let blob = ToLower (bt_Description b)
      in sl_SettlementID line \<noteq> [] \<and> contains blob (ToLower (sl_SettlementID line))
         \<or> sl_UTR line \<noteq> [] \<and> contains blob (ToLower (sl_UTR line)))"

fun bankByID :: "BankTxn list \<Rightarrow> string \<Rightarrow> BankTxn" where
  "bankByID [] i = zero_BankTxn"
| "bankByID (b # bs) i = (if bt_ID b = i then b else bankByID bs i)"

definition banksByIDs :: "BankTxn list \<Rightarrow> string list \<Rightarrow> BankTxn list" where
  "banksByIDs banks ids = filter (\<lambda>b. bt_ID b \<in> set ids) banks"

definition decideUniqueUTR ::
    "SettlementBankDecision \<Rightarrow> SettlementLine \<Rightarrow> BankTxn \<Rightarrow> int64 \<Rightarrow> SettlementBankDecision" where
  "decideUniqueUTR base line b net =
     (let currencyOK = bt_Currency b = sl_Currency line \<or> sl_Currency line = [] \<or> bt_Currency b = [];
          inWindow = inDateWindow (sl_SettledAt line) (bt_ValueDate b);
          (conf, breakdown) = ScoreUTRAndAmount True (bt_CreditMinor b = net) currencyOK inWindow;
          base = base\<lparr>bd_BankObservationID := bt_ID b, bd_Candidates := [bt_ID b],
            bd_Confidence := conf,
            bd_Evidence := alist_put ''score_breakdown'' (AScores breakdown)
              (alist_put ''bank_credit_minor'' (AInt64 (bt_CreditMinor b)) (bd_Evidence base))\<rparr>
      in if bt_CreditMinor b \<noteq> net \<or> \<not> currencyOK then
           base\<lparr>bd_State := BankMatchConflicted, bd_Rule := BankMatchVariance,
             bd_Evidence := alist_put ''difference_minor'' (AInt64 (net - bt_CreditMinor b))
               (bd_Evidence base)\<rparr>
         else base\<lparr>bd_State := BankMatchExact, bd_Rule := MatchExactUTRAndAmount\<rparr>)"

definition decision_base :: "SettlementLine \<Rightarrow> SettlementBankDecision" where
  "decision_base line = zero_Decision\<lparr>bd_SettlementLineID := lineID line,
     bd_Evidence := [(''settlement_net'', AInt64 (lineNet line)),
       (''currency'', AString (sl_Currency line)), (''utr'', AString (sl_UTR line))]\<rparr>"

definition matchOneSettlementBank :: "SettlementLine \<Rightarrow> BankTxn list \<Rightarrow> SettlementBankDecision" where
  "matchOneSettlementBank line credits =
     (let net = lineNet line; base = decision_base line; cands = bankCandidates credits;
          utr = TrimSpace (sl_UTR line)
      in if utr \<noteq> [] then
           (let sel = SelectByUTR cands utr
            in case sel_Unique sel of
                 Some c \<Rightarrow> decideUniqueUTR base line (bankByID credits (mc_ID c)) net
               | None \<Rightarrow>
                   if length (sel_IDs sel) > 1 then
                     base\<lparr>bd_State := BankMatchAmbiguous, bd_Rule := ''duplicate_utr_candidates'',
                       bd_Candidates := sel_IDs sel,
                       bd_Evidence := alist_put ''candidates'' (AStrings (sel_IDs sel)) (bd_Evidence base)\<rparr>
                   else base\<lparr>bd_State := BankMatchUnresolved, bd_Rule := ''utr_not_in_bank''\<rparr>)
         else
           (let sel = SelectByAmountWindow cands net (sl_Currency line) (sl_SettledAt line)
                        defaultDateWindow;
                amountCands = banksByIDs credits (sel_IDs sel)
            in if length amountCands = 1 then
                 (let b = amountCands ! 0;
                      (conf, breakdown) = ScoreUTRAndAmount False True
                        (bt_Currency b = sl_Currency line \<or> sl_Currency line = []) True;
                      boost = narrationBoost line b;
                      conf = (if boost then conf + ScoreDescription else conf);
                      breakdown = (if boost
                        then alist_put ''description_similarity'' ScoreDescription breakdown
                        else breakdown)
                  in base\<lparr>bd_BankObservationID := bt_ID b, bd_State := BankMatchHighConfidence,
                       bd_Rule := MatchNetAmountDateAccount, bd_Confidence := conf,
                       bd_Candidates := [bt_ID b],
                       bd_Evidence := alist_put ''score_breakdown'' (AScores breakdown) (bd_Evidence base)\<rparr>)
               else if length amountCands > 1 then
                 (let ids = bankIDs amountCands
                  in base\<lparr>bd_State := BankMatchAmbiguous, bd_Rule := ''duplicate_amount_date_candidates'',
                       bd_Candidates := ids,
                       bd_Evidence := alist_put ''candidates'' (AStrings ids) (bd_Evidence base)\<rparr>)
               else base\<lparr>bd_State := BankMatchUnresolved, bd_Rule := ''no_bank_credit''\<rparr>))"

section \<open>A whole statement\<close>

record bank_metrics =
  UTRExactMatches :: int64
  BankAmbiguous :: int64
  BankUnresolved :: int64
  BankConflicted :: int64
  BankOrphan :: int64
  BankHighConfidence :: int64

definition bumpBankMatchMetric :: "string \<Rightarrow> bank_metrics \<Rightarrow> bank_metrics" where
  "bumpBankMatchMetric state m =
     (if state = BankMatchExact then m\<lparr>UTRExactMatches := UTRExactMatches m + 1\<rparr>
      else if state = BankMatchAmbiguous then m\<lparr>BankAmbiguous := BankAmbiguous m + 1\<rparr>
      else if state = BankMatchUnresolved then m\<lparr>BankUnresolved := BankUnresolved m + 1\<rparr>
      else if state = BankMatchConflicted \<or> state = BankMatchVariance then
        m\<lparr>BankConflicted := BankConflicted m + 1\<rparr>
      else if state = BankMatchHighConfidence then m\<lparr>BankHighConfidence := BankHighConfidence m + 1\<rparr>
      else m)"

text \<open>
  The loop over the lines, with the decisions so far, the set \<open>used\<close> and the counters; then
  the loop over the credits.  Both append, so the decisions come out in the order of the input.
\<close>

fun match_lines :: "time \<Rightarrow> BankTxn list \<Rightarrow> SettlementLine list \<Rightarrow> string set \<Rightarrow> bank_metrics
    \<Rightarrow> SettlementBankDecision list \<times> string set \<times> bank_metrics" where
  "match_lines now credits [] used m = ([], used, m)"
| "match_lines now credits (line # lines) used m =
     (let d = (matchOneSettlementBank line credits)\<lparr>bd_DecidedAt := now\<rparr>;
          used = (if bd_BankObservationID d \<noteq> [] then insert (bd_BankObservationID d) used else used);
          used = used \<union> set (bd_Candidates d);
          (ds, used, m) = match_lines now credits lines used (bumpBankMatchMetric (bd_State d) m)
      in (d # ds, used, m))"

definition orphan_decision :: "time \<Rightarrow> BankTxn \<Rightarrow> SettlementBankDecision" where
  "orphan_decision now b = zero_Decision\<lparr>bd_BankObservationID := bt_ID b,
     bd_State := BankMatchOrphanBank, bd_Rule := ''orphan_bank_credit'',
     bd_Evidence := [(''credit_minor'', AInt64 (bt_CreditMinor b)), (''utr'', AString (bt_UTR b)),
       (''currency'', AString (bt_Currency b))], bd_DecidedAt := now\<rparr>"

fun match_orphans :: "time \<Rightarrow> string set \<Rightarrow> BankTxn list \<Rightarrow> bank_metrics
    \<Rightarrow> SettlementBankDecision list \<times> bank_metrics" where
  "match_orphans now used [] m = ([], m)"
| "match_orphans now used (b # bs) m =
     (if bt_ID b \<in> used then match_orphans now used bs m
      else let (ds, m) = match_orphans now used bs (m\<lparr>BankOrphan := BankOrphan m + 1\<rparr>)
        in (orphan_decision now b # ds, m))"

definition MatchSettlementBank :: "time \<Rightarrow> SettlementLine list \<Rightarrow> BankTxn list \<Rightarrow> bank_metrics
    \<Rightarrow> SettlementBankDecision list \<times> bank_metrics" where
  "MatchSettlementBank now lines banks m =
     (let credits = filter IsCredit banks;
          (ds, used, m) = match_lines now credits lines {} m;
          (os, m) = match_orphans now used credits m
      in (ds @ os, m))"

section \<open>What a decision promises\<close>

lemma filter_map_singleton:
  "filter P (map f xs) = [y] \<longleftrightarrow> (\<exists>x. filter (P \<circ> f) xs = [x] \<and> f x = y)"
  by (auto simp: filter_map map_eq_Cons_conv)

lemma bankByID_distinct:
  "distinct (map bt_ID bs) \<Longrightarrow> b \<in> set bs \<Longrightarrow> bankByID bs (bt_ID b) = b"
  by (induction bs) (auto simp: rev_image_eqI)

lemma bankCandidate_sel [simp]:
  "mc_ID (bankCandidate b) = bt_ID b" "mc_UTR (bankCandidate b) = bt_UTR b"
  "mc_AmountMinor (bankCandidate b) = bt_CreditMinor b"
  "mc_Currency (bankCandidate b) = bt_Currency b"
  "mc_ValueDate (bankCandidate b) = bt_ValueDate b"
  by (simp_all add: bankCandidate_def)

definition currency_compatible :: "SettlementLine \<Rightarrow> BankTxn \<Rightarrow> bool" where
  "currency_compatible line b \<longleftrightarrow>
     bt_Currency b = sl_Currency line \<or> sl_Currency line = [] \<or> bt_Currency b = []"

definition utr_hits :: "SettlementLine \<Rightarrow> BankTxn list \<Rightarrow> BankTxn list" where
  "utr_hits line credits =
     filter (\<lambda>b. normalizeUTR (bt_UTR b) = normalizeUTR (sl_UTR line)) credits"

lemma decideUniqueUTR_sel:
  "bd_State (decideUniqueUTR base line b net) =
     (if bt_CreditMinor b = net \<and> currency_compatible line b then BankMatchExact
      else BankMatchConflicted)"
  "bd_BankObservationID (decideUniqueUTR base line b net) = bt_ID b"
  "bd_Candidates (decideUniqueUTR base line b net) = [bt_ID b]"
  "bd_SettlementLineID (decideUniqueUTR base line b net) = bd_SettlementLineID base"
  by (auto simp: decideUniqueUTR_def Let_def currency_compatible_def split: prod.splits)

lemma decideUniqueUTR_evidence:
  "evidenceInt64 (bd_Evidence (decideUniqueUTR base line b net)) ''bank_credit_minor''
     = Some (bt_CreditMinor b)"
  by (auto simp: decideUniqueUTR_def Let_def evidenceInt64_def split: prod.splits)

text \<open>
  Which rule applies.  With a reference, the number of credits that carry it decides; without
  one, the number of credits of that amount, currency and date does.
\<close>

lemma normalizeUTR_trim: "normalizeUTR (TrimSpace u) = normalizeUTR u"
  by (simp add: normalizeUTR_def)

lemma SelectByUTR_Unique:
  assumes "TrimSpace (sl_UTR line) \<noteq> []"
  shows "sel_Unique (SelectByUTR (bankCandidates credits) (TrimSpace (sl_UTR line))) = Some c
     \<longleftrightarrow> (\<exists>b. utr_hits line credits = [b] \<and> c = bankCandidate b)"
proof -
  have "normalizeUTR (sl_UTR line) \<noteq> []"
    using assms by (simp add: normalizeUTR_def)
  then show ?thesis
    by (auto simp: by_utr.select_Unique normalizeUTR_trim bankCandidates_def
        filter_map_singleton utr_hits_def comp_def)
qed

lemma SelectByUTR_IDs:
  assumes "TrimSpace (sl_UTR line) \<noteq> []"
  shows "sel_IDs (SelectByUTR (bankCandidates credits) (TrimSpace (sl_UTR line)))
     = map bt_ID (utr_hits line credits)"
proof -
  have "normalizeUTR (sl_UTR line) \<noteq> []"
    using assms by (simp add: normalizeUTR_def)
  then show ?thesis
    by (simp add: by_utr.select_IDs normalizeUTR_trim bankCandidates_def utr_hits_def
        filter_map comp_def)
qed

lemma SelectByUTR_None:
  assumes "TrimSpace (sl_UTR line) \<noteq> []"
  shows "sel_Unique (SelectByUTR (bankCandidates credits) (TrimSpace (sl_UTR line))) = None
     \<longleftrightarrow> length (utr_hits line credits) \<noteq> 1"
proof -
  have "(\<exists>c. sel_Unique (SelectByUTR (bankCandidates credits) (TrimSpace (sl_UTR line))) = Some c)
      \<longleftrightarrow> (\<exists>b. utr_hits line credits = [b])"
    using SelectByUTR_Unique [OF assms] by blast
  then show ?thesis
    by (metis (no_types, lifting) One_nat_def length_0_conv length_Suc_conv length_Cons list.size(3)
        not_None_eq)
qed

lemma matchOne_utr_unique:
  assumes "TrimSpace (sl_UTR line) \<noteq> []" "utr_hits line credits = [b]"
    and "distinct (map bt_ID credits)"
  shows "matchOneSettlementBank line credits
    = decideUniqueUTR (decision_base line) line b (lineNet line)"
proof -
  have "b \<in> set credits"
    using assms(2) by (metis list.set_intros(1) mem_Collect_eq set_filter utr_hits_def)
  then have "bankByID credits (bt_ID b) = b"
    using assms(3) by (simp add: bankByID_distinct)
  moreover have "sel_Unique (SelectByUTR (bankCandidates credits) (TrimSpace (sl_UTR line)))
      = Some (bankCandidate b)"
    using SelectByUTR_Unique [OF assms(1)] assms(2) by blast
  ultimately show ?thesis
    using assms(1) by (simp add: matchOneSettlementBank_def)
qed

lemma matchOne_utr_other:
  assumes "TrimSpace (sl_UTR line) \<noteq> []" "length (utr_hits line credits) \<noteq> 1"
  shows "bd_State (matchOneSettlementBank line credits)
      = (if utr_hits line credits = [] then BankMatchUnresolved else BankMatchAmbiguous)"
    "bd_BankObservationID (matchOneSettlementBank line credits) = []"
    "bd_Candidates (matchOneSettlementBank line credits) = map bt_ID (utr_hits line credits)"
proof -
  define hits where "hits = utr_hits line credits"
  have u: "sel_Unique (SelectByUTR (bankCandidates credits) (TrimSpace (sl_UTR line))) = None"
    and i: "sel_IDs (SelectByUTR (bankCandidates credits) (TrimSpace (sl_UTR line))) = map bt_ID hits"
    using SelectByUTR_None [OF assms(1)] SelectByUTR_IDs [OF assms(1)] assms(2)
    by (auto simp: hits_def)
  have "hits = [] \<or> length hits > 1"
    using assms(2) by (cases hits) (auto simp flip: hits_def)
  then show "bd_State (matchOneSettlementBank line credits)
      = (if utr_hits line credits = [] then BankMatchUnresolved else BankMatchAmbiguous)"
    "bd_BankObservationID (matchOneSettlementBank line credits) = []"
    "bd_Candidates (matchOneSettlementBank line credits) = map bt_ID (utr_hits line credits)"
    unfolding hits_def [symmetric] using assms(1) u i
    by (auto simp: matchOneSettlementBank_def Let_def decision_base_def zero_Decision_def)
qed

lemma matchOne_no_utr:
  assumes "TrimSpace (sl_UTR line) = []"
  shows "bd_State (matchOneSettlementBank line credits)
      \<in> {BankMatchHighConfidence, BankMatchAmbiguous, BankMatchUnresolved}"
  using assms by (auto simp: matchOneSettlementBank_def Let_def split: prod.splits)

section \<open>The properties of the matcher\<close>

text \<open>
  C8.  A settlement line is matched \<open>EXACT\<close> exactly when its reference is not blank, exactly
  one credit of the statement carries that reference, and that credit's amount is the line's net
  in a compatible currency; the decision then names that credit and nothing else.  An equal amount
  without the reference is never enough.
\<close>

theorem exact_match_iff_unique_utr_and_amount:
  assumes "distinct (map bt_ID credits)"
  shows "bd_State (matchOneSettlementBank line credits) = BankMatchExact \<and>
      bd_BankObservationID (matchOneSettlementBank line credits) = i
    \<longleftrightarrow> TrimSpace (sl_UTR line) \<noteq> [] \<and>
      (\<exists>b. utr_hits line credits = [b] \<and> bt_ID b = i \<and> bt_CreditMinor b = lineNet line
         \<and> currency_compatible line b)"
proof (cases "TrimSpace (sl_UTR line) = []")
  case True
  then show ?thesis using matchOne_no_utr [OF True, of credits] by auto
next
  case ne: False
  show ?thesis
  proof (cases "\<exists>b. utr_hits line credits = [b]")
    case True
    then obtain b where "utr_hits line credits = [b]" by blast
    with ne matchOne_utr_unique [OF ne this assms] show ?thesis
      by (auto simp: decideUniqueUTR_sel)
  next
    case False
    then have "length (utr_hits line credits) \<noteq> 1"
      by (auto simp: length_Suc_conv)
    with False ne matchOne_utr_other [OF ne this] show ?thesis by auto
  qed
qed

definition sample_line :: SettlementLine where
  "sample_line = zero_SettlementLine\<lparr>sl_ID := ''line-1'', sl_SettlementID := ''setl-1'',
     sl_PaymentID := ''pay-1'', sl_LineType := ''payment'', sl_AmountMinor := 100000,
     sl_CreditMinor := 97640, sl_FeeMinor := 2000, sl_TaxMinor := 360,
     sl_Currency := ''INR'', sl_UTR := '' utr9 '', sl_Settled := True\<rparr>"

definition sample_bank :: BankTxn where
  "sample_bank = zero_BankTxn\<lparr>bt_ID := ''bank-1'', bt_UTR := ''UTR9'', bt_Currency := ''INR'',
     bt_CreditMinor := 97640, bt_CreditDebit := ''CREDIT''\<rparr>"

lemma exact_match_iff_unique_utr_and_amount_witness:
  "bd_State (matchOneSettlementBank sample_line [sample_bank]) = BankMatchExact \<and>
   bd_BankObservationID (matchOneSettlementBank sample_line [sample_bank]) = ''bank-1''"
  by (rule exact_match_iff_unique_utr_and_amount [THEN iffD2])
     (simp_all add: sample_line_def sample_bank_def zero_defs utr_hits_def normalizeUTR_def
       lineNet_def currency_compatible_def str_simps)

lemma length_match_lines:
  "match_lines now credits lines used m = (ds, used', m') \<Longrightarrow>
     ds = map (\<lambda>l. (matchOneSettlementBank l credits)\<lparr>bd_DecidedAt := now\<rparr>) lines"
  by (induction lines arbitrary: ds used m) (auto simp: Let_def split: prod.splits)

lemma match_lines_used:
  "match_lines now credits lines used m = (ds, used', m') \<Longrightarrow>
     used' = used \<union> {i. i \<noteq> [] \<and> (\<exists>d \<in> set ds. bd_BankObservationID d = i)}
                  \<union> (\<Union>d \<in> set ds. set (bd_Candidates d))"
proof (induction lines arbitrary: ds used m)
  case (Cons l ls)
  define d where "d = (matchOneSettlementBank l credits)\<lparr>bd_DecidedAt := now\<rparr>"
  define u where "u = (if bd_BankObservationID d \<noteq> [] then insert (bd_BankObservationID d) used
    else used) \<union> set (bd_Candidates d)"
  obtain ds' where r: "match_lines now credits ls u (bumpBankMatchMetric (bd_State d) m)
      = (ds', used', m')" and ds: "ds = d # ds'"
    using Cons.prems unfolding match_lines.simps Let_def d_def [symmetric] u_def [symmetric]
    by (auto split: prod.splits)
  show ?case unfolding Cons.IH [OF r] ds u_def by auto
qed simp

lemma match_orphans_eq:
  "match_orphans now used bs m = (ds, m') \<Longrightarrow>
     ds = map (orphan_decision now) (filter (\<lambda>b. bt_ID b \<notin> used) bs)"
  by (induction bs arbitrary: ds m) (auto split: if_splits prod.splits)

text \<open>
  The matcher answers for every line and accounts for every credit: the decisions start with
  one per settlement line, in order, each being that line's match; the rest are exactly one
  \<open>ORPHAN_BANK\<close> decision for every credit no line decision names as its bank row or as a
  candidate, in statement order.
\<close>

theorem every_line_decided_every_credit_accounted:
  "let credits = filter IsCredit banks;
       perLine = map (\<lambda>l. (matchOneSettlementBank l credits)\<lparr>bd_DecidedAt := now\<rparr>) lines;
       named = (\<lambda>b. (\<exists>d \<in> set perLine. (bd_BankObservationID d = bt_ID b \<and> bt_ID b \<noteq> [])
                       \<or> bt_ID b \<in> set (bd_Candidates d)))
   in fst (MatchSettlementBank now lines banks m)
        = perLine @ map (orphan_decision now) (filter (\<lambda>b. \<not> named b) credits)"
proof -
  define credits where "credits = filter IsCredit banks"
  obtain ds used m1 where l: "match_lines now credits lines {} m = (ds, used, m1)"
    by (metis prod_cases3)
  obtain os m2 where o: "match_orphans now used credits m1 = (os, m2)"
    by (metis prod.exhaust)
  have "fst (MatchSettlementBank now lines banks m) = ds @ os"
    using l o by (simp add: MatchSettlementBank_def Let_def flip: credits_def)
  moreover have "os = map (orphan_decision now) (filter (\<lambda>b. bt_ID b \<notin> used) credits)"
    using o by (rule match_orphans_eq)
  moreover have "(\<lambda>b :: BankTxn. bt_ID b \<notin> used) = (\<lambda>b. \<not> (\<exists>d \<in> set ds.
      (bd_BankObservationID d = bt_ID b \<and> bt_ID b \<noteq> []) \<or> bt_ID b \<in> set (bd_Candidates d)))"
    unfolding match_lines_used [OF l] by blast
  ultimately show ?thesis
    unfolding Let_def credits_def [symmetric] length_match_lines [OF l, symmetric] by simp
qed

definition metric_total :: "bank_metrics \<Rightarrow> int64" where
  "metric_total m = UTRExactMatches m + BankAmbiguous m + BankUnresolved m + BankConflicted m
     + BankOrphan m + BankHighConfidence m"

lemma matchOne_states:
  "bd_State (matchOneSettlementBank line credits) \<in> {BankMatchExact, BankMatchConflicted,
     BankMatchHighConfidence, BankMatchAmbiguous, BankMatchUnresolved}"
  by (auto simp: matchOneSettlementBank_def Let_def decideUniqueUTR_sel
      split: prod.splits option.splits)

lemma metric_total_bump:
  "s \<in> {BankMatchExact, BankMatchConflicted, BankMatchHighConfidence, BankMatchAmbiguous,
     BankMatchUnresolved} \<Longrightarrow> metric_total (bumpBankMatchMetric s m) = metric_total m + 1"
  by (auto simp: bumpBankMatchMetric_def metric_total_def)

lemma metric_total_match_lines:
  "match_lines now credits lines used m = (ds, used', m') \<Longrightarrow>
     metric_total m' = metric_total m + of_nat (length ds)"
proof (induction lines arbitrary: ds used m)
  case (Cons l ls)
  then obtain u ds' where
    "match_lines now credits ls u (bumpBankMatchMetric (bd_State (matchOneSettlementBank l credits)) m)
       = (ds', used', m')" "length ds = Suc (length ds')"
    by (auto simp: Let_def split: prod.splits)
  with Cons.IH [OF this(1)] show ?case
    by (simp add: metric_total_bump [OF matchOne_states])
qed simp

lemma metric_total_match_orphans:
  "match_orphans now used bs m = (ds, m') \<Longrightarrow>
     metric_total m' = metric_total m + of_nat (length ds)"
  by (induction bs arbitrary: ds m)
     (auto simp: metric_total_def split: if_splits prod.splits)

lemma metrics_count_decisions:
  "MatchSettlementBank now lines banks m = (ds, m') \<Longrightarrow>
     metric_total m' = metric_total m + of_nat (length ds)"
  by (auto simp: MatchSettlementBank_def Let_def metric_total_match_lines
      metric_total_match_orphans split: prod.splits)

end
