(* ===== verification/PaymentRecon.thy ===== *)
theory PaymentRecon
  imports GapRules CashFlow BankMatch
begin

text \<open>
  \<^verbatim>\<open>financial.go\<close>: the reconciliation of one payment (\<open>ReconcilePayment\<close>) and the
  result of a bank credit no payment claims (\<open>OrphanBankResult\<close>).  \<open>clock\<close> is the
  reading of \<open>time.Now\<close> the code falls back to when the caller passes no instant.  A Go slice
  that is nil and one that is empty are the same list: the code's only test for nil
  (\<open>attachDecision\<close>) cannot tell the two apart.
\<close>

record FinancialInput =
  fi_Payment :: PaymentFact
  fi_Events :: "ObservationFact list"
  fi_Lines :: "SettlementLine list"
  fi_Decisions :: "SettlementBankDecision list"
  fi_Banks :: "BankTxn list"
  fi_Refunds :: "RefundFact list"
  fi_Merchant :: "MerchantBookFact option"
  fi_Disputes :: "DisputeFact list"
  fi_TaxLines :: "TaxLineFact list"
  fi_Now :: time
  fi_StuckAfter :: duration

section \<open>Evidence and exceptions\<close>

abbreviation (input) nonempty_list :: "string \<Rightarrow> string list" where
  "nonempty_list s \<equiv> (if s \<noteq> [] then [s] else [])"

definition EvidenceIDList :: "EvidenceRefs \<Rightarrow> string list" where
  "EvidenceIDList r =
     nonempty_list (er_CanonicalPaymentID r) @ er_ObservationEventIDs r
     @ nonempty_list (er_SettlementLineID r) @ nonempty_list (er_SettlementBankDecisionID r)
     @ nonempty_list (er_BankObservationID r) @ nonempty_list (er_MerchantFactID r)
     @ filter (\<lambda>i. i \<noteq> []) (map sr_ID (er_Sources r))"

definition withException :: "FinancialResult \<Rightarrow> string \<Rightarrow> string \<Rightarrow> rat \<Rightarrow> FinancialResult" where
  "withException out result reason conf =
     (let out = out\<lparr>fr_Result := result, fr_Reason := reason, fr_Confidence := conf\<rparr>
      in out\<lparr>fr_Exception := Some (zero_Exception\<lparr>
           ex_EntityType := fr_EntityType out, ex_EntityID := fr_EntityID out,
           ex_Status := fr_Status out, ex_ReconciliationResult := result, ex_Reason := reason,
           ex_ExpectedAmount := fr_ExpectedAmount out, ex_ObservedAmount := fr_ObservedAmount out,
           ex_VarianceAmount := fr_VarianceAmount out, ex_CandidateIDs := fr_CandidateIDs out,
           ex_Confidence := conf, ex_EvidenceIDs := EvidenceIDList (fr_EvidenceRefs out),
           ex_EvidenceRefs := fr_EvidenceRefs out\<rparr>)\<rparr>)"

definition MarkAmbiguous :: "FinancialResult \<Rightarrow> string list \<Rightarrow> FinancialResult" where
  "MarkAmbiguous out candidates =
     withException (out\<lparr>fr_Result := ResultAmbiguous, fr_Reason := ''shared_utr_or_bank_candidates'',
         fr_CandidateIDs := candidates, fr_BankCreditProven := False, fr_Confidence := 0.45\<rparr>)
       ResultAmbiguous ''shared_utr_or_bank_candidates'' 0.45"

definition hashList :: "string \<Rightarrow> string list" where
  "hashList h = (if h = [] then [] else [h])"

definition sourceRefsFromInput :: "FinancialInput \<Rightarrow> SourceRef list" where
  "sourceRefsFromInput inp =
     (let pay = fi_Payment inp
      in (if pf_PaymentID pay \<noteq> [] \<or> pf_ID pay \<noteq> []
          then [\<lparr>sr_Kind = SourceKindPayment, sr_ID = firstNonEmpty [pf_ID pay, pf_PaymentID pay],
                 sr_Amount = pf_AmountMinor pay\<rparr>] else [])
       @ (case fi_Merchant inp of None \<Rightarrow> []
          | Some m \<Rightarrow> [\<lparr>sr_Kind = SourceKindMerchant, sr_ID = firstNonEmpty [mb_ID m, mb_InvoiceID m],
                        sr_Amount = mb_AmountMinor m\<rparr>])
       @ map (\<lambda>l. \<lparr>sr_Kind = SourceKindSettlement, sr_ID = lineID l,
                   sr_Amount = sl_CreditMinor l - sl_DebitMinor l\<rparr>) (fi_Lines inp)
       @ map (\<lambda>b. \<lparr>sr_Kind = SourceKindBank, sr_ID = bt_ID b, sr_Amount = bt_CreditMinor b\<rparr>)
           (fi_Banks inp)
       @ map (\<lambda>t. \<lparr>sr_Kind = SourceKindTax, sr_ID = tl_ID t, sr_Amount = tl_AmountMinor t\<rparr>)
           (fi_TaxLines inp))"

definition event_ids :: "ObservationFact list \<Rightarrow> string list" where
  "event_ids evs = filter (\<lambda>i. i \<noteq> []) (map of_SourceEventID evs)"

definition event_hashes :: "ObservationFact list \<Rightarrow> string list" where
  "event_hashes evs = filter (\<lambda>i. i \<noteq> []) (map of_SourceHash evs)"

definition evidenceFrom :: "FinancialInput \<Rightarrow> EvidenceRefs" where
  "evidenceFrom inp =
     zero_EvidenceRefs\<lparr>er_CanonicalPaymentID := pf_ID (fi_Payment inp),
       er_Sources := sourceRefsFromInput inp,
       er_ObservationEventIDs := event_ids (fi_Events inp),
       er_PayloadHashes := event_hashes (fi_Events inp),
       er_MerchantFactID := (case fi_Merchant inp of None \<Rightarrow> [] | Some m \<Rightarrow> mb_ID m)\<rparr>"

section \<open>Decisions\<close>

definition firstDecision :: "SettlementBankDecision list \<Rightarrow> string \<Rightarrow> SettlementBankDecision option" where
  "firstDecision ds state = List.find (\<lambda>d. bd_State d = state) ds"

definition attachDecision :: "FinancialResult \<Rightarrow> SettlementBankDecision \<Rightarrow> FinancialResult" where
  "attachDecision out d =
     (let refs = (fr_EvidenceRefs out)\<lparr>er_SettlementBankDecisionID := bd_ID d\<rparr>;
          refs = (if bd_BankObservationID d \<noteq> [] then refs\<lparr>er_BankObservationID := bd_BankObservationID d\<rparr>
                  else refs);
          out = out\<lparr>fr_EvidenceRefs := refs\<rparr>
      in if bd_Candidates d \<noteq> [] \<and> fr_CandidateIDs out = []
         then out\<lparr>fr_CandidateIDs := bd_Candidates d\<rparr> else out)"

definition observedFromDecision :: "SettlementBankDecision \<Rightarrow> BankTxn list \<Rightarrow> int64" where
  "observedFromDecision d banks =
     (case evidenceInt64 (bd_Evidence d) ''bank_credit_minor'' of
        Some v \<Rightarrow> v
      | None \<Rightarrow>
         (case List.find (\<lambda>b. bt_ID b = bd_BankObservationID d) banks of
            Some b \<Rightarrow> if bt_CreditMinor b \<noteq> 0 then bt_CreditMinor b else bt_DebitMinor b
          | None \<Rightarrow> 0))"

section \<open>Status classes\<close>

definition isCapturedOrLater :: "string \<Rightarrow> bool" where
  "isCapturedOrLater s \<longleftrightarrow> s \<in> {PaymentCaptured, PaymentPartiallyRefunded, PaymentRefunded}"

definition isFailedLike :: "string \<Rightarrow> bool" where
  "isFailedLike s \<longleftrightarrow> s \<in> {PaymentFailed, ''cancelled'', ''canceled'', ''rejected''}"

definition isOpen :: "string \<Rightarrow> bool" where
  "isOpen s \<longleftrightarrow> s \<in> {PaymentCreated, PaymentAuthorized, ''processing'', ''pending''}"

section \<open>Failed and captured payments\<close>

definition reconcileFailed ::
    "FinancialResult \<Rightarrow> FinancialInput \<Rightarrow> bool \<Rightarrow> bool \<Rightarrow> bool \<Rightarrow> FinancialResult" where
  "reconcileFailed out inp hasSettlement hasRefund moved =
     (if moved \<and> \<not> hasRefund then
        (let amt = BankMovementMinor (fi_Banks inp)
         in withException (out\<lparr>fr_ObservedAmount := amt, fr_VarianceAmount := amt\<rparr>)
              ResultUnresolved ''failed_with_bank_movement'' 0.9)
      else if hasRefund \<and> \<not> moved then
        out\<lparr>fr_Result := ResultMatched, fr_Reason := ''failed_refund_no_bank_movement'',
          fr_Confidence := 0.85, fr_BankCreditProven := False\<rparr>
      else if \<not> hasSettlement \<and> \<not> moved then
        out\<lparr>fr_Result := ResultMatched, fr_Reason := ''failed_no_money_movement'',
          fr_Confidence := 0.95, fr_BankCreditProven := False\<rparr>
      else withException out ResultUnresolved ''failed_unexplained'' 0.5)"

text \<open>The exact decision's own bank amount, where its evidence carries one.\<close>

definition observed_or :: "int64 \<Rightarrow> SettlementBankDecision \<Rightarrow> int64" where
  "observed_or v d = (case evidenceInt64 (bd_Evidence d) ''bank_credit_minor'' of Some n \<Rightarrow> n | None \<Rightarrow> v)"

definition attach_exact_variance :: "FinancialResult \<Rightarrow> SettlementBankDecision \<Rightarrow> FinancialResult" where
  "attach_exact_variance out d =
     (let out = attachDecision out d
      in out\<lparr>fr_BankCreditProven := True, fr_ObservedAmount := observed_or (fr_ObservedAmount out) d\<rparr>)"

text \<open>
  The bank part of \<open>reconcileCaptured\<close>: the settlement side is clean, and the decisions say
  what the bank shows.
\<close>

definition reconcile_bank_decision :: "FinancialResult \<Rightarrow> FinancialInput \<Rightarrow> SettlementBankDecision option
    \<Rightarrow> SettlementBankDecision option \<Rightarrow> SettlementBankDecision option
    \<Rightarrow> SettlementBankDecision option \<Rightarrow> FinancialResult" where
  "reconcile_bank_decision out inp exact high conflicted ambiguous =
     (case conflicted of
        Some c \<Rightarrow>
         (let out = attachDecision (out\<lparr>fr_CandidateIDs := bd_Candidates c\<rparr>) c;
              bankAmt = observedFromDecision c (fi_Banks inp);
              variance = (case evidenceInt64 (bd_Evidence c) ''difference_minor'' of
                            Some d \<Rightarrow> d | None \<Rightarrow> settlementNet (fi_Lines inp) - bankAmt);
              out = out\<lparr>fr_ObservedAmount := bankAmt,
                fr_EvidenceRefs := (fr_EvidenceRefs out)\<lparr>er_BankCreditMinor := bankAmt\<rparr>,
                fr_VarianceAmount := variance\<rparr>;
              res = (if bd_State c = BankMatchConflicted \<and> variance = 0 then ResultConflicted
                     else ResultVariance)
          in withException out res ''amount_mismatch'' (bd_Confidence c))
      | None \<Rightarrow>
     (case ambiguous of
        Some a \<Rightarrow>
         (let out = attachDecision (out\<lparr>fr_CandidateIDs := bd_Candidates a\<rparr>) a
          in withException (out\<lparr>fr_BankCreditProven := False\<rparr>)
               ResultAmbiguous ''ambiguous_bank_candidates'' 0.5)
      | None \<Rightarrow>
     (case exact of
        Some e \<Rightarrow>
         (let out = attachDecision out e;
              observed = observed_or (settlementNet (fi_Lines inp)) e
          in out\<lparr>fr_Result := ResultMatched, fr_Reason := ''captured_settlement_exact_bank'',
               fr_Confidence := 0.99, fr_BankCreditProven := True, fr_ObservedAmount := observed,
               fr_EvidenceRefs := (fr_EvidenceRefs out)\<lparr>er_BankCreditMinor := observed\<rparr>,
               fr_VarianceAmount := 0\<rparr>)
      | None \<Rightarrow>
     (case high of
        Some h \<Rightarrow>
         (attachDecision out h)\<lparr>fr_Result := ResultMatched,
            fr_Reason := ''captured_settlement_high_confidence_bank'',
            fr_Confidence := (if bd_Confidence h = 0 then 0.7 else bd_Confidence h),
            fr_BankCreditProven := False, fr_ObservedAmount := settlementNet (fi_Lines inp)\<rparr>
      | None \<Rightarrow> withException out ResultUnresolved ''settlement_without_bank'' 0.7))))"

text \<open>
  \<open>reconcileCaptured\<close> is a chain of early returns; it is cut in three where the code has
  finished with one side: the amounts of the settlement, the books and disputes, and the lines.
\<close>

definition captured_amounts :: "FinancialResult \<Rightarrow> FinancialInput \<Rightarrow> SettlementLine list
    \<Rightarrow> SettlementBankDecision option \<Rightarrow> SettlementBankDecision option
    \<Rightarrow> SettlementBankDecision option \<Rightarrow> SettlementBankDecision option \<Rightarrow> FinancialResult" where
  "captured_amounts out inp paymentLines exact high conflicted ambiguous =
     (let pay = fi_Payment inp; net = settlementNet (fi_Lines inp)
      in case partialSettlementGap (pf_AmountMinor pay) paymentLines of
           Some gap \<Rightarrow>
             (let out = out\<lparr>fr_ObservedAmount := net, fr_VarianceAmount := gap\<rparr>;
                  out = (case exact of Some e \<Rightarrow> attach_exact_variance out e | None \<Rightarrow> out)
              in withException out ResultVariance ''partial_settlement'' 0.88)
         | None \<Rightarrow>
        (case paymentSettlementFeeTaxGap pay paymentLines of
           Some (gap, reason) \<Rightarrow>
             (let out = out\<lparr>fr_ObservedAmount := net, fr_VarianceAmount := gap\<rparr>;
                  out = (case exact of Some e \<Rightarrow> attach_exact_variance out e
                         | None \<Rightarrow> (case high of Some h \<Rightarrow> attachDecision out h | None \<Rightarrow> out))
              in withException out ResultVariance reason 0.9)
         | None \<Rightarrow> reconcile_bank_decision out inp exact high conflicted ambiguous))"

definition tax_refs :: "TaxLineFact list \<Rightarrow> SourceRef list" where
  "tax_refs ts = map (\<lambda>t. \<lparr>sr_Kind = SourceKindTax, sr_ID = tl_ID t, sr_Amount = tl_AmountMinor t\<rparr>) ts"

definition captured_books :: "FinancialResult \<Rightarrow> FinancialInput \<Rightarrow> SettlementLine list
    \<Rightarrow> SettlementBankDecision option \<Rightarrow> SettlementBankDecision option
    \<Rightarrow> SettlementBankDecision option \<Rightarrow> SettlementBankDecision option \<Rightarrow> FinancialResult" where
  "captured_books out inp paymentLines exact high conflicted ambiguous =
     (case merchantBooksGap (fi_Payment inp) (fi_Merchant inp) of
        Some (gap, reason) \<Rightarrow>
          withException (out\<lparr>fr_MerchantAgreed := False,
              fr_ExpectedAmount := (case fi_Merchant inp of Some m \<Rightarrow> mb_AmountMinor m | None \<Rightarrow> 0),
              fr_ObservedAmount := pf_AmountMinor (fi_Payment inp), fr_VarianceAmount := gap\<rparr>)
            ResultVariance reason 0.95
      | None \<Rightarrow>
     (let out = (if fi_Merchant inp \<noteq> None then out\<lparr>fr_MerchantAgreed := True\<rparr> else out)
      in case taxLineGap paymentLines (fi_Merchant inp) (fi_TaxLines inp) of
           Some (gap, reason) \<Rightarrow>
             withException (out\<lparr>fr_ObservedAmount := settlementTaxMinor paymentLines,
                 fr_VarianceAmount := gap,
                 fr_EvidenceRefs := (fr_EvidenceRefs out)\<lparr>er_Sources :=
                   er_Sources (fr_EvidenceRefs out) @ tax_refs (fi_TaxLines inp)\<rparr>\<rparr>)
               ResultVariance reason 0.95
         | None \<Rightarrow>
           if openChargeback (fi_Disputes inp) then
             withException (out\<lparr>fr_ObservedAmount := settlementNet (fi_Lines inp)\<rparr>)
               ResultVariance ''open_chargeback'' 0.9
           else captured_amounts out inp paymentLines exact high conflicted ambiguous))"

definition reconcileCaptured :: "FinancialResult \<Rightarrow> FinancialInput \<Rightarrow> bool
    \<Rightarrow> SettlementBankDecision option \<Rightarrow> SettlementBankDecision option
    \<Rightarrow> SettlementBankDecision option \<Rightarrow> SettlementBankDecision option \<Rightarrow> FinancialResult" where
  "reconcileCaptured out inp hasPaymentSettlement exact high conflicted ambiguous =
     (let pay = fi_Payment inp; paymentLines = fst (splitLines (fi_Lines inp));
          net = settlementNet (fi_Lines inp)
      in if \<not> hasPaymentSettlement then
           withException out ResultUnresolved ''captured_missing_settlement'' 0.8
         else if length paymentLines > 1 then
           (let out = out\<lparr>fr_ObservedAmount := net\<rparr>;
                out = (if pf_AmountMinor pay <s net
                       then out\<lparr>fr_VarianceAmount := net - pf_AmountMinor pay\<rparr> else out);
                out = (case exact of Some e \<Rightarrow> attachDecision out e | None \<Rightarrow> out)
            in withException out ResultConflicted ''duplicate_settlement'' 0.85)
         else if currencySidesConflict (pf_Currency pay)
                   [settlementCurrencies paymentLines, bankCurrencies (fi_Banks inp)] then
           withException (out\<lparr>fr_ObservedAmount := net\<rparr>) ResultVariance ''currency_mismatch'' 0.95
         else
           (let out = (case fi_Merchant inp of
                  Some m \<Rightarrow> out\<lparr>fr_MerchantObserved := True,
                    fr_EvidenceRefs := (fr_EvidenceRefs out)\<lparr>er_MerchantFactID := mb_ID m\<rparr>\<rparr>
                | None \<Rightarrow> out)
            in captured_books out inp paymentLines exact high conflicted ambiguous))"

definition payment_status :: "PaymentFact \<Rightarrow> string" where
  "payment_status pay =
     (let s = ToLower (TrimSpace (pf_CanonicalStatus pay))
      in if s = [] then ToLower (TrimSpace (pf_ProviderStatus pay)) else s)"

definition reconcilePayment_base :: "FinancialInput \<Rightarrow> FinancialResult" where
  "reconcilePayment_base inp =
     (let pay = fi_Payment inp; (paymentLines, refundLines) = splitLines (fi_Lines inp)
      in zero_FinancialResult\<lparr>fr_EntityType := EntityPayment, fr_EntityID := pf_PaymentID pay,
           fr_Status := payment_status pay, fr_ExpectedAmount := pf_AmountMinor pay,
           fr_EvidenceRefs := (evidenceFrom inp)\<lparr>er_PaymentAmountMinor := pf_AmountMinor pay,
             er_SettlementNetMinor := settlementNet (fi_Lines inp),
             er_SettlementLineID :=
               (case paymentLines of l # _ \<Rightarrow> lineID l
                | [] \<Rightarrow> (case refundLines of l # _ \<Rightarrow> lineID l | [] \<Rightarrow> []))\<rparr>\<rparr>)"

definition conflictedDecision :: "SettlementBankDecision list \<Rightarrow> SettlementBankDecision option" where
  "conflictedDecision ds =
     (case firstDecision ds BankMatchConflicted of
        Some d \<Rightarrow> Some d | None \<Rightarrow> firstDecision ds BankMatchVariance)"

definition reconcilePayment :: "time \<Rightarrow> FinancialInput \<Rightarrow> FinancialResult" where
  "reconcilePayment clock inp =
     (let pay = fi_Payment inp; status = payment_status pay;
          now = (if IsZero (fi_Now inp) then clock else fi_Now inp);
          stuckAfter = (if fi_StuckAfter inp \<le> 0 then DefaultStuckAfter else fi_StuckAfter inp);
          out = reconcilePayment_base inp;
          (paymentLines, refundLines) = splitLines (fi_Lines inp);
          hasPaymentSettlement = (paymentLines \<noteq> []);
          hasRefund = (refundLines \<noteq> [] \<or> fi_Refunds inp \<noteq> []);
          hasAnySettlement = (fi_Lines inp \<noteq> []);
          moved = HasBankMovement (fi_Banks inp);
          ds = fi_Decisions inp
      in if isFailedLike status then reconcileFailed out inp hasAnySettlement hasRefund moved
         else if isCapturedOrLater status \<or> pf_Captured pay then
           reconcileCaptured out inp hasPaymentSettlement (firstDecision ds BankMatchExact)
             (firstDecision ds BankMatchHighConfidence) (conflictedDecision ds)
             (firstDecision ds BankMatchAmbiguous)
         else if isOpen status then
           (let age = (if IsZero (pf_ProviderCreatedAt pay) then time_sub now (pf_FirstObservedAt pay)
                       else time_sub now (pf_ProviderCreatedAt pay))
            in if stuckAfter \<le> age \<and> \<not> hasAnySettlement \<and> \<not> moved then
                 withException out ResultUnresolved ''open_status_no_downstream'' 0.4
               else out\<lparr>fr_Result := ResultUnresolved, fr_Reason := ''open_status'',
                      fr_Confidence := 0.3\<rparr>)
         else out\<lparr>fr_Result := ResultUnresolved, fr_Reason := ''insufficient_evidence'',
                fr_Confidence := 0.2\<rparr>)"

definition default_rule_version :: "FinancialResult \<Rightarrow> FinancialResult" where
  "default_rule_version out =
     (if fr_RuleVersion out = [] then out\<lparr>fr_RuleVersion := FinancialRuleVersion\<rparr> else out)"

definition ReconcilePayment :: "time \<Rightarrow> FinancialInput \<Rightarrow> FinancialResult" where
  "ReconcilePayment clock inp =
     (let out = reconcilePayment clock inp;
          out = (if fr_Rail out = [] then out\<lparr>fr_Rail := NormalizeRail (pf_Method (fi_Payment inp))\<rparr>
                 else out)
      in default_rule_version (AnnotateCashFlow out))"

definition orphanBankResult :: "BankTxn \<Rightarrow> FinancialResult" where
  "orphanBankResult b =
     withException (zero_FinancialResult\<lparr>fr_EntityType := EntityBank, fr_EntityID := bt_ID b,
         fr_Result := ResultOrphan, fr_ObservedAmount := bt_CreditMinor b,
         fr_VarianceAmount := bt_CreditMinor b, fr_Confidence := 0.9,
         fr_Reason := ''orphan_bank_credit'',
         fr_EvidenceRefs := zero_EvidenceRefs\<lparr>er_BankObservationID := bt_ID b,
           er_PayloadHashes := hashList (bt_RowHash b)\<rparr>\<rparr>)
       ResultOrphan ''orphan_bank_credit'' 0.9"

definition OrphanBankResult :: "BankTxn \<Rightarrow> FinancialResult" where
  "OrphanBankResult b = default_rule_version (AnnotateCashFlow (orphanBankResult b))"

section \<open>The decision table\<close>

text \<open>
  The specification of the reconciliation of a payment: which verdict, for which reason, whether
  bank credit counts as proven and whether an exception is opened, as one list of rules of which
  the first that applies decides.
\<close>

record verdict =
  v_result :: string
  v_reason :: string
  v_proven :: bool
  v_exception :: bool

definition verdict_of :: "FinancialResult \<Rightarrow> verdict" where
  "verdict_of fr = \<lparr>v_result = fr_Result fr, v_reason = fr_Reason fr,
     v_proven = fr_BankCreditProven fr, v_exception = (fr_Exception fr \<noteq> None)\<rparr>"

fun first_rule :: "(bool \<times> verdict) list \<Rightarrow> verdict \<Rightarrow> verdict" where
  "first_rule [] v = v"
| "first_rule ((g, w) # rules) v = (if g then w else first_rule rules v)"

abbreviation (input) opens :: "string \<Rightarrow> string \<Rightarrow> verdict" where
  "opens res reason \<equiv> \<lparr>v_result = res, v_reason = reason, v_proven = False, v_exception = True\<rparr>"

abbreviation (input) closes :: "string \<Rightarrow> string \<Rightarrow> bool \<Rightarrow> verdict" where
  "closes res reason proven \<equiv>
     \<lparr>v_result = res, v_reason = reason, v_proven = proven, v_exception = False\<rparr>"

definition has_decision :: "string \<Rightarrow> FinancialInput \<Rightarrow> bool" where
  "has_decision state inp \<longleftrightarrow> (\<exists>d \<in> set (fi_Decisions inp). bd_State d = state)"

abbreviation (input) paymentLines_of :: "FinancialInput \<Rightarrow> SettlementLine list" where
  "paymentLines_of inp \<equiv> fst (splitLines (fi_Lines inp))"

abbreviation (input) reason_of :: "(int64 \<times> string) option \<Rightarrow> string" where
  "reason_of g \<equiv> snd (the g)"

text \<open>A conflicted decision whose difference is zero disagrees in currency, not in amount.\<close>

definition conflict_without_difference :: "FinancialInput \<Rightarrow> bool" where
  "conflict_without_difference inp =
     (case conflictedDecision (fi_Decisions inp) of
        None \<Rightarrow> False
      | Some c \<Rightarrow> bd_State c = BankMatchConflicted \<and>
          (case evidenceInt64 (bd_Evidence c) ''difference_minor'' of
             Some d \<Rightarrow> d = 0
           | None \<Rightarrow> settlementNet (fi_Lines inp) = observedFromDecision c (fi_Banks inp)))"

definition captured_line_rules :: "FinancialInput \<Rightarrow> (bool \<times> verdict) list" where
  "captured_line_rules inp =
     (let pay = fi_Payment inp; ls = paymentLines_of inp
      in [(ls = [], opens ResultUnresolved ''captured_missing_settlement''),
          (length ls > 1, opens ResultConflicted ''duplicate_settlement''),
          (currencySidesConflict (pf_Currency pay)
             [settlementCurrencies ls, bankCurrencies (fi_Banks inp)],
           opens ResultVariance ''currency_mismatch'')])"

definition captured_books_rules :: "FinancialInput \<Rightarrow> (bool \<times> verdict) list" where
  "captured_books_rules inp =
     (let books = merchantBooksGap (fi_Payment inp) (fi_Merchant inp)
      in [(books \<noteq> None, opens ResultVariance (reason_of books)),
          (taxLineGap (paymentLines_of inp) (fi_Merchant inp) (fi_TaxLines inp) \<noteq> None,
           opens ResultVariance ''tax_line_mismatch''),
          (openChargeback (fi_Disputes inp), opens ResultVariance ''open_chargeback'')])"

definition captured_amount_rules :: "FinancialInput \<Rightarrow> (bool \<times> verdict) list" where
  "captured_amount_rules inp =
     (let pay = fi_Payment inp; ls = paymentLines_of inp; exact = has_decision BankMatchExact inp;
          feetax = paymentSettlementFeeTaxGap pay ls
      in [(partialSettlementGap (pf_AmountMinor pay) ls \<noteq> None,
           (opens ResultVariance ''partial_settlement'')\<lparr>v_proven := exact\<rparr>),
          (feetax \<noteq> None, (opens ResultVariance (reason_of feetax))\<lparr>v_proven := exact\<rparr>)])"

definition captured_bank_rules :: "FinancialInput \<Rightarrow> (bool \<times> verdict) list" where
  "captured_bank_rules inp =
     [(has_decision BankMatchConflicted inp \<or> has_decision BankMatchVariance inp,
       opens (if conflict_without_difference inp then ResultConflicted else ResultVariance)
         ''amount_mismatch''),
      (has_decision BankMatchAmbiguous inp, opens ResultAmbiguous ''ambiguous_bank_candidates''),
      (has_decision BankMatchExact inp, closes ResultMatched ''captured_settlement_exact_bank'' True),
      (has_decision BankMatchHighConfidence inp,
       closes ResultMatched ''captured_settlement_high_confidence_bank'' False)]"

definition captured_rules :: "FinancialInput \<Rightarrow> (bool \<times> verdict) list" where
  "captured_rules inp = captured_line_rules inp @ captured_books_rules inp
     @ captured_amount_rules inp @ captured_bank_rules inp"

definition failed_rules :: "FinancialInput \<Rightarrow> (bool \<times> verdict) list" where
  "failed_rules inp =
     (let moved = HasBankMovement (fi_Banks inp);
          refund = (snd (splitLines (fi_Lines inp)) \<noteq> [] \<or> fi_Refunds inp \<noteq> [])
      in [(moved \<and> \<not> refund, opens ResultUnresolved ''failed_with_bank_movement''),
          (refund \<and> \<not> moved, closes ResultMatched ''failed_refund_no_bank_movement'' False),
          (fi_Lines inp = [] \<and> \<not> moved, closes ResultMatched ''failed_no_money_movement'' False)])"

definition stuck :: "time \<Rightarrow> FinancialInput \<Rightarrow> bool" where
  "stuck clock inp \<longleftrightarrow>
     (if fi_StuckAfter inp \<le> 0 then DefaultStuckAfter else fi_StuckAfter inp)
     \<le> time_sub (if IsZero (fi_Now inp) then clock else fi_Now inp)
          (if IsZero (pf_ProviderCreatedAt (fi_Payment inp)) then pf_FirstObservedAt (fi_Payment inp)
           else pf_ProviderCreatedAt (fi_Payment inp))
     \<and> fi_Lines inp = [] \<and> \<not> HasBankMovement (fi_Banks inp)"

definition payment_verdict :: "time \<Rightarrow> FinancialInput \<Rightarrow> verdict" where
  "payment_verdict clock inp =
     (let status = payment_status (fi_Payment inp)
      in if isFailedLike status then
           first_rule (failed_rules inp) (opens ResultUnresolved ''failed_unexplained'')
         else if isCapturedOrLater status \<or> pf_Captured (fi_Payment inp) then
           first_rule (captured_rules inp)
             (opens ResultUnresolved ''settlement_without_bank'')
         else if isOpen status then
           (if stuck clock inp then opens ResultUnresolved ''open_status_no_downstream''
            else closes ResultUnresolved ''open_status'' False)
         else closes ResultUnresolved ''insufficient_evidence'' False)"

section \<open>The code implements the table\<close>

lemma verdict_of_withException [simp]:
  "verdict_of (withException out res reason conf)
     = \<lparr>v_result = res, v_reason = reason, v_proven = fr_BankCreditProven out, v_exception = True\<rparr>"
  by (simp add: verdict_of_def withException_def Let_def)

lemma attachDecision_frame [simp, frame_simps]:
  "fr_EntityType (attachDecision out d) = fr_EntityType out"
  "fr_EntityID (attachDecision out d) = fr_EntityID out"
  "fr_Status (attachDecision out d) = fr_Status out"
  "fr_RuleVersion (attachDecision out d) = fr_RuleVersion out"
  "fr_Result (attachDecision out d) = fr_Result out"
  "fr_Reason (attachDecision out d) = fr_Reason out"
  "fr_ExpectedAmount (attachDecision out d) = fr_ExpectedAmount out"
  "fr_ObservedAmount (attachDecision out d) = fr_ObservedAmount out"
  "fr_VarianceAmount (attachDecision out d) = fr_VarianceAmount out"
  "fr_BankCreditProven (attachDecision out d) = fr_BankCreditProven out"
  "fr_Exception (attachDecision out d) = fr_Exception out"
  "fr_Direction (attachDecision out d) = fr_Direction out"
  "fr_Rail (attachDecision out d) = fr_Rail out"
  "fr_MerchantObserved (attachDecision out d) = fr_MerchantObserved out"
  "fr_MerchantAgreed (attachDecision out d) = fr_MerchantAgreed out"
  by (simp_all add: attachDecision_def Let_def)

lemma attach_exact_variance_frame [simp, frame_simps]:
  "fr_EntityType (attach_exact_variance out d) = fr_EntityType out"
  "fr_EntityID (attach_exact_variance out d) = fr_EntityID out"
  "fr_Status (attach_exact_variance out d) = fr_Status out"
  "fr_RuleVersion (attach_exact_variance out d) = fr_RuleVersion out"
  "fr_BankCreditProven (attach_exact_variance out d) = True"
  "fr_Direction (attach_exact_variance out d) = fr_Direction out"
  "fr_Rail (attach_exact_variance out d) = fr_Rail out"
  by (simp_all add: attach_exact_variance_def Let_def)

lemma withException_frame [simp, frame_simps]:
  "fr_EntityType (withException out res reason conf) = fr_EntityType out"
  "fr_EntityID (withException out res reason conf) = fr_EntityID out"
  "fr_Status (withException out res reason conf) = fr_Status out"
  "fr_RuleVersion (withException out res reason conf) = fr_RuleVersion out"
  "fr_Result (withException out res reason conf) = res"
  "fr_Reason (withException out res reason conf) = reason"
  "fr_Confidence (withException out res reason conf) = conf"
  "fr_BankCreditProven (withException out res reason conf) = fr_BankCreditProven out"
  "fr_EvidenceRefs (withException out res reason conf) = fr_EvidenceRefs out"
  "fr_CandidateIDs (withException out res reason conf) = fr_CandidateIDs out"
  "fr_ExpectedAmount (withException out res reason conf) = fr_ExpectedAmount out"
  "fr_ObservedAmount (withException out res reason conf) = fr_ObservedAmount out"
  "fr_VarianceAmount (withException out res reason conf) = fr_VarianceAmount out"
  "fr_Direction (withException out res reason conf) = fr_Direction out"
  "fr_Rail (withException out res reason conf) = fr_Rail out"
  "fr_MerchantObserved (withException out res reason conf) = fr_MerchantObserved out"
  "fr_MerchantAgreed (withException out res reason conf) = fr_MerchantAgreed out"
  by (simp_all add: withException_def Let_def)

lemma firstDecision_None:
  "firstDecision (fi_Decisions inp) s = None \<longleftrightarrow> \<not> has_decision s inp"
  by (auto simp: firstDecision_def has_decision_def find_None_iff)

lemma firstDecision_Some:
  "firstDecision ds s = Some d \<Longrightarrow> d \<in> set ds \<and> bd_State d = s"
  by (auto simp: firstDecision_def find_Some_iff)

lemma firstDecision_has:
  "firstDecision (fi_Decisions inp) s = Some d \<Longrightarrow> has_decision s inp"
  by (metis firstDecision_None option.distinct(1))

lemma conflictedDecision_None:
  "conflictedDecision (fi_Decisions inp) = None \<longleftrightarrow>
     \<not> has_decision BankMatchConflicted inp \<and> \<not> has_decision BankMatchVariance inp"
  by (auto simp: conflictedDecision_def firstDecision_None dest: firstDecision_has
      split: option.splits)

lemma conflictedDecision_has:
  "conflictedDecision (fi_Decisions inp) = Some c \<Longrightarrow>
     has_decision BankMatchConflicted inp \<or> has_decision BankMatchVariance inp"
  using conflictedDecision_None [of inp] by auto

lemma first_rule_append [simp]:
  "first_rule (xs @ ys) v = first_rule xs (first_rule ys v)"
  by (induction xs v rule: first_rule.induct) auto

lemma verdict_bank_decision:
  assumes "fr_BankCreditProven out = False" "fr_Exception out = None"
  shows "verdict_of (reconcile_bank_decision out inp (firstDecision (fi_Decisions inp) BankMatchExact)
      (firstDecision (fi_Decisions inp) BankMatchHighConfidence)
      (conflictedDecision (fi_Decisions inp)) (firstDecision (fi_Decisions inp) BankMatchAmbiguous))
    = first_rule (captured_bank_rules inp) (opens ResultUnresolved ''settlement_without_bank'')"
proof (cases "conflictedDecision (fi_Decisions inp)")
  case (Some c)
  then show ?thesis
    using conflictedDecision_has [OF Some] assms
    by (auto simp: reconcile_bank_decision_def captured_bank_rules_def Let_def
        conflict_without_difference_def split: option.splits)
next
  case None
  then have "\<not> has_decision BankMatchConflicted inp" "\<not> has_decision BankMatchVariance inp"
    using conflictedDecision_None by auto
  with None assms show ?thesis
    by (auto simp: reconcile_bank_decision_def captured_bank_rules_def Let_def verdict_of_def
        firstDecision_None withException_def
        dest: firstDecision_has split: option.splits)
qed

lemma verdict_amounts:
  assumes "fr_BankCreditProven out = False" "fr_Exception out = None"
  shows "verdict_of (captured_amounts out inp (paymentLines_of inp)
      (firstDecision (fi_Decisions inp) BankMatchExact)
      (firstDecision (fi_Decisions inp) BankMatchHighConfidence)
      (conflictedDecision (fi_Decisions inp)) (firstDecision (fi_Decisions inp) BankMatchAmbiguous))
    = first_rule (captured_amount_rules inp @ captured_bank_rules inp)
        (opens ResultUnresolved ''settlement_without_bank'')"
proof (cases "partialSettlementGap (pf_AmountMinor (fi_Payment inp)) (paymentLines_of inp)")
  case (Some g)
  then show ?thesis using assms
    by (auto simp: captured_amounts_def captured_amount_rules_def Let_def firstDecision_None
        dest: firstDecision_has split: option.splits)
next
  case p: None
  show ?thesis
  proof (cases "paymentSettlementFeeTaxGap (fi_Payment inp) (paymentLines_of inp)")
    case None
    with p assms show ?thesis
      by (simp add: captured_amounts_def captured_amount_rules_def Let_def verdict_bank_decision)
  next
    case (Some g)
    with p assms show ?thesis
      by (cases g) (auto simp: captured_amounts_def captured_amount_rules_def Let_def firstDecision_None
        dest: firstDecision_has split: option.splits)
  qed
qed

lemma verdict_books:
  assumes "fr_BankCreditProven out = False" "fr_Exception out = None"
  shows "verdict_of (captured_books out inp (paymentLines_of inp)
      (firstDecision (fi_Decisions inp) BankMatchExact)
      (firstDecision (fi_Decisions inp) BankMatchHighConfidence)
      (conflictedDecision (fi_Decisions inp)) (firstDecision (fi_Decisions inp) BankMatchAmbiguous))
    = first_rule (captured_books_rules inp @ captured_amount_rules inp @ captured_bank_rules inp)
        (opens ResultUnresolved ''settlement_without_bank'')"
proof (cases "merchantBooksGap (fi_Payment inp) (fi_Merchant inp)")
  case (Some g)
  with assms show ?thesis
    by (cases g) (simp add: captured_books_def captured_books_rules_def Let_def)
next
  case b: None
  show ?thesis
  proof (cases "taxLineGap (paymentLines_of inp) (fi_Merchant inp) (fi_TaxLines inp)")
    case (Some g)
    with b assms taxLineGap_reason show ?thesis
      by (cases g) (auto simp: captured_books_def captured_books_rules_def Let_def)
  next
    case None
    with b None assms show ?thesis
      by (simp add: captured_books_def captured_books_rules_def Let_def verdict_amounts)
  qed
qed

lemma verdict_captured:
  assumes "fr_BankCreditProven out = False" "fr_Exception out = None"
  shows "verdict_of (reconcileCaptured out inp (paymentLines_of inp \<noteq> [])
      (firstDecision (fi_Decisions inp) BankMatchExact)
      (firstDecision (fi_Decisions inp) BankMatchHighConfidence)
      (conflictedDecision (fi_Decisions inp)) (firstDecision (fi_Decisions inp) BankMatchAmbiguous))
    = first_rule (captured_rules inp) (opens ResultUnresolved ''settlement_without_bank'')"
  using assms
  by (simp add: reconcileCaptured_def captured_rules_def captured_line_rules_def Let_def
      verdict_books del: first_rule_append split: option.split)

section \<open>The whole reconciliation\<close>

lemma verdict_of_Annotate [simp]: "verdict_of (AnnotateCashFlow fr) = verdict_of fr"
  by (simp add: verdict_of_def frame_simps)

lemma verdict_of_rule_version [simp]: "verdict_of (default_rule_version fr) = verdict_of fr"
  by (simp add: verdict_of_def default_rule_version_def)

lemma verdict_of_rail [simp]: "verdict_of (fr\<lparr>fr_Rail := r\<rparr>) = verdict_of fr"
  by (simp add: verdict_of_def)

lemma splitLines_pair: "splitLines ls = (fst (splitLines ls), snd (splitLines ls))"
  by simp

lemma base_fields [simp]:
  "fr_EntityType (reconcilePayment_base inp) = EntityPayment"
  "fr_EntityID (reconcilePayment_base inp) = pf_PaymentID (fi_Payment inp)"
  "fr_Status (reconcilePayment_base inp) = payment_status (fi_Payment inp)"
  "fr_BankCreditProven (reconcilePayment_base inp) = False"
  "fr_Exception (reconcilePayment_base inp) = None"
  "fr_RuleVersion (reconcilePayment_base inp) = []"
  "fr_Direction (reconcilePayment_base inp) = []"
  "fr_Rail (reconcilePayment_base inp) = []"
  by (simp_all add: reconcilePayment_base_def Let_def zero_defs case_prod_beta)

lemma verdict_failed:
  assumes "fr_BankCreditProven out = False" "fr_Exception out = None"
    and "refund \<longleftrightarrow> snd (splitLines (fi_Lines inp)) \<noteq> [] \<or> fi_Refunds inp \<noteq> []"
  shows "verdict_of (reconcileFailed out inp (fi_Lines inp \<noteq> []) refund (HasBankMovement (fi_Banks inp)))
    = first_rule (failed_rules inp) (opens ResultUnresolved ''failed_unexplained'')"
  using assms
  by (auto simp: reconcileFailed_def failed_rules_def Let_def) (auto simp: verdict_of_def)

lemma verdict_reconcilePayment:
  "verdict_of (reconcilePayment clock inp) = payment_verdict clock inp"
proof -
  have "verdict_of (reconcilePayment_base inp\<lparr>fr_Result := r, fr_Reason := q, fr_Confidence := c\<rparr>)
      = closes r q False" for r q c
    by (simp add: verdict_of_def)
  then show ?thesis
    by (simp add: reconcilePayment_def payment_verdict_def Let_def verdict_failed verdict_captured
        case_prod_beta stuck_def)
qed

lemma verdict_ReconcilePayment:
  "verdict_of (ReconcilePayment clock inp) = payment_verdict clock inp"
  by (simp add: ReconcilePayment_def Let_def verdict_reconcilePayment)

text \<open>
  C1.  Refinement: whatever the evidence, the verdict, reason, proof flag and opening of an
  exception that \<open>ReconcilePayment\<close> computes are those of the decision table
  \<open>payment_verdict\<close>: the first applicable rule in a fixed order of precedence, settlement
  defects before books, books before amounts, conflicting before ambiguous before exact bank
  evidence.
\<close>

theorem ReconcilePayment_implements_decision_table:
  "verdict_of (ReconcilePayment clock inp) = payment_verdict clock inp"
  by (rule verdict_ReconcilePayment)

lemma verdict_sel:
  "fr_Result fr = v_result (verdict_of fr)" "fr_Reason fr = v_reason (verdict_of fr)"
  "fr_BankCreditProven fr = v_proven (verdict_of fr)"
  "fr_Exception fr = None \<longleftrightarrow> \<not> v_exception (verdict_of fr)"
  by (simp_all add: verdict_of_def)

lemma ReconcilePayment_verdict:
  "fr_Result (ReconcilePayment clock inp) = v_result (payment_verdict clock inp)"
  "fr_Reason (ReconcilePayment clock inp) = v_reason (payment_verdict clock inp)"
  "fr_BankCreditProven (ReconcilePayment clock inp) = v_proven (payment_verdict clock inp)"
  "fr_Exception (ReconcilePayment clock inp) = None \<longleftrightarrow> \<not> v_exception (payment_verdict clock inp)"
  by (simp_all add: verdict_sel verdict_ReconcilePayment)

lemmas captured_tables = captured_rules_def captured_line_rules_def captured_books_rules_def
  captured_amount_rules_def captured_bank_rules_def

text \<open>What holds of every rule of a table, and of its default, holds of the chosen verdict.\<close>

lemma first_ruleI:
  "(\<And>g w. (g, w) \<in> set rules \<Longrightarrow> g \<Longrightarrow> P w) \<Longrightarrow> P v \<Longrightarrow> P (first_rule rules v)"
proof (induction rules v rule: first_rule.induct)
  case (2 g w rules v)
  then show ?case by (metis first_rule.simps(2) list.set_intros)
qed simp

lemma payment_verdictI:
  assumes "\<And>g w. isFailedLike (payment_status (fi_Payment inp)) \<Longrightarrow>
      (g, w) \<in> set (failed_rules inp) \<Longrightarrow> g \<Longrightarrow> P w"
    and "\<And>g w. \<not> isFailedLike (payment_status (fi_Payment inp)) \<Longrightarrow>
      isCapturedOrLater (payment_status (fi_Payment inp)) \<or> pf_Captured (fi_Payment inp) \<Longrightarrow>
      (g, w) \<in> set (captured_rules inp) \<Longrightarrow> g \<Longrightarrow> P w"
    and "\<And>r. r \<in> {''failed_unexplained'', ''settlement_without_bank'', ''open_status_no_downstream''} \<Longrightarrow>
      P (opens ResultUnresolved r)"
    and "\<And>r. r \<in> {''open_status'', ''insufficient_evidence''} \<Longrightarrow> P (closes ResultUnresolved r False)"
  shows "P (payment_verdict clock inp)"
proof -
  let ?st = "payment_status (fi_Payment inp)"
  consider "isFailedLike ?st"
    | "\<not> isFailedLike ?st" "isCapturedOrLater ?st \<or> pf_Captured (fi_Payment inp)"
    | "\<not> isFailedLike ?st" "\<not> (isCapturedOrLater ?st \<or> pf_Captured (fi_Payment inp))"
    by blast
  then show ?thesis
  proof cases
    case 1
    have "P (first_rule (failed_rules inp) (opens ResultUnresolved ''failed_unexplained''))"
      by (rule first_ruleI) (rule assms(1) [OF 1], assumption+, rule assms(3), simp)
    with 1 show ?thesis by (simp add: payment_verdict_def)
  next
    case 2
    have "P (first_rule (captured_rules inp) (opens ResultUnresolved ''settlement_without_bank''))"
      by (rule first_ruleI) (rule assms(2) [OF 2], assumption+, rule assms(3), simp)
    with 2 show ?thesis by (auto simp: payment_verdict_def)
  next
    case 3
    then have "payment_verdict clock inp \<in> {opens ResultUnresolved ''open_status_no_downstream'',
        closes ResultUnresolved ''open_status'' False,
        closes ResultUnresolved ''insufficient_evidence'' False}"
      by (simp add: payment_verdict_def Let_def)
    moreover have "P (opens ResultUnresolved ''open_status_no_downstream'')" by (rule assms(3)) simp
    moreover have "P (closes ResultUnresolved ''open_status'' False)"
      "P (closes ResultUnresolved ''insufficient_evidence'' False)" by (rule assms(4), simp)+
    ultimately show ?thesis by (metis emptyE insertE)
  qed
qed

lemma payment_verdict_matched:
  "v_result (payment_verdict clock inp) = ResultMatched \<longrightarrow> \<not> v_exception (payment_verdict clock inp)"
  by (rule payment_verdictI) (auto simp: failed_rules_def captured_tables Let_def split: if_splits)

lemma payment_verdict_proven:
  "v_proven (payment_verdict clock inp) \<longrightarrow> has_decision BankMatchExact inp \<and>
     \<not> isFailedLike (payment_status (fi_Payment inp)) \<and>
     (isCapturedOrLater (payment_status (fi_Payment inp)) \<or> pf_Captured (fi_Payment inp))"
  by (rule payment_verdictI) (auto simp: failed_rules_def captured_tables Let_def)

section \<open>What a verdict guarantees\<close>

text \<open>
  C2.  Bank credit is proven for a payment only on an \<open>EXACT_MATCH\<close> settlement-to-bank
  decision among its evidence, and only for a payment that is captured and not failed.
\<close>

theorem bank_credit_proven_needs_exact_decision:
  assumes "fr_BankCreditProven (ReconcilePayment clock inp)"
  shows "(\<exists>d \<in> set (fi_Decisions inp). bd_State d = BankMatchExact)
    \<and> \<not> isFailedLike (payment_status (fi_Payment inp))
    \<and> (isCapturedOrLater (payment_status (fi_Payment inp)) \<or> pf_Captured (fi_Payment inp))"
  using payment_verdict_proven [of clock inp] assms
  by (simp add: ReconcilePayment_verdict has_decision_def)

definition sample_exact :: SettlementBankDecision where
  "sample_exact = zero_Decision\<lparr>bd_ID := ''dec-1'', bd_SettlementLineID := ''line-1'',
     bd_BankObservationID := ''bank-1'', bd_State := BankMatchExact, bd_Confidence := 0.49,
     bd_Rule := MatchExactUTRAndAmount, bd_Candidates := [''bank-1''],
     bd_Evidence := [(''bank_credit_minor'', AInt64 97640)]\<rparr>"

definition sample_payment :: PaymentFact where
  "sample_payment = zero_PaymentFact\<lparr>pf_ID := ''cp-1'', pf_PaymentID := ''pay-1'',
     pf_CanonicalStatus := PaymentCaptured, pf_Captured := True, pf_AmountMinor := 100000,
     pf_Currency := ''INR'', pf_Method := ''upi''\<rparr>"

definition sample_input :: FinancialInput where
  "sample_input = \<lparr>fi_Payment = sample_payment, fi_Events = [], fi_Lines = [sample_line],
     fi_Decisions = [sample_exact], fi_Banks = [sample_bank], fi_Refunds = [],
     fi_Merchant = None, fi_Disputes = [], fi_TaxLines = [], fi_Now = 1, fi_StuckAfter = 0\<rparr>"

lemmas sample_defs = sample_input_def sample_payment_def sample_exact_def sample_line_def
  sample_bank_def zero_defs

lemma sample_status: "payment_status sample_payment = PaymentCaptured"
  by (simp add: payment_status_def sample_payment_def zero_defs str_simps)

lemma sample_input_sel [simp]:
  "fi_Payment sample_input = sample_payment" "fi_Lines sample_input = [sample_line]"
  "fi_Decisions sample_input = [sample_exact]" "fi_Banks sample_input = [sample_bank]"
  "fi_Merchant sample_input = None" "fi_Disputes sample_input = []" "fi_TaxLines sample_input = []"
  by (simp_all add: sample_input_def)

lemma sample_verdict:
  "payment_verdict clock sample_input = closes ResultMatched ''captured_settlement_exact_bank'' True"
proof -
  have lines: "splitLines [sample_line] = ([sample_line], [])"
    by (simp add: sample_line_def str_simps)
  have r: "captured_line_rules sample_input = [(False, opens ResultUnresolved ''captured_missing_settlement''),
      (False, opens ResultConflicted ''duplicate_settlement''),
      (False, opens ResultVariance ''currency_mismatch'')]"
    using lines by (simp add: captured_line_rules_def del: splitLines.simps)
      (simp add: sample_defs currencySidesConflict_def settlementCurrencies_def bankCurrencies_def
        str_simps)
  have b: "merchantBooksGap sample_payment None = None" "taxLineGap [sample_line] None [] = None"
    by (simp_all add: merchantBooksGap_def books_gap_def taxLineGap_def invoiceGSTMinor_def)
  have a: "partialSettlementGap (pf_AmountMinor sample_payment) [sample_line] = None"
    "paymentSettlementFeeTaxGap sample_payment [sample_line] = None"
    by (simp_all add: sample_defs partialSettlementGap_def paymentSettlementFeeTaxGap_def
        settlementNet_def is_payment_type_def lineNet_def feeTaxDeduction_def str_simps)
  show ?thesis
    by (simp add: payment_verdict_def captured_rules_def r captured_books_rules_def
        captured_amount_rules_def captured_bank_rules_def Let_def sample_status
        lines b a isFailedLike_def isCapturedOrLater_def openChargeback_def has_decision_def
        del: splitLines.simps)
      (simp add: sample_exact_def zero_defs)
qed

lemma bank_credit_proven_needs_exact_decision_witness:
  "\<exists>d \<in> set (fi_Decisions sample_input). bd_State d = BankMatchExact"
  using bank_credit_proven_needs_exact_decision [of 0 sample_input]
  by (simp add: ReconcilePayment_verdict sample_verdict)

text \<open>
  When a captured payment counts as matched: exactly when it has one payment line, no
  currency, books, tax, dispute, partial-settlement, fee or tax defect, no conflicting and no
  ambiguous bank decision, and an exact or a high-confidence one.
\<close>

theorem captured_matched_iff:
  assumes "\<not> isFailedLike (payment_status (fi_Payment inp))"
    and "isCapturedOrLater (payment_status (fi_Payment inp)) \<or> pf_Captured (fi_Payment inp)"
  shows "fr_Result (ReconcilePayment clock inp) = ResultMatched \<longleftrightarrow>
    (let pay = fi_Payment inp; ls = fst (splitLines (fi_Lines inp))
     in length ls = 1
        \<and> \<not> currencySidesConflict (pf_Currency pay) [settlementCurrencies ls, bankCurrencies (fi_Banks inp)]
        \<and> merchantBooksGap pay (fi_Merchant inp) = None
        \<and> taxLineGap ls (fi_Merchant inp) (fi_TaxLines inp) = None
        \<and> \<not> openChargeback (fi_Disputes inp)
        \<and> partialSettlementGap (pf_AmountMinor pay) ls = None
        \<and> paymentSettlementFeeTaxGap pay ls = None
        \<and> \<not> has_decision BankMatchConflicted inp \<and> \<not> has_decision BankMatchVariance inp
        \<and> \<not> has_decision BankMatchAmbiguous inp
        \<and> (has_decision BankMatchExact inp \<or> has_decision BankMatchHighConfidence inp))"
proof -
  have "length ls = 1 \<longleftrightarrow> ls \<noteq> [] \<and> \<not> length ls > 1" for ls :: "SettlementLine list"
    by (cases ls) auto
  then show ?thesis
    using assms
    by (auto simp: ReconcilePayment_verdict payment_verdict_def captured_tables Let_def
        simp del: not_None_eq split: if_splits)
qed

lemma captured_matched_iff_witness:
  "fr_Result (ReconcilePayment 0 sample_input) = ResultMatched \<longleftrightarrow>
    (let pay = fi_Payment sample_input; ls = fst (splitLines (fi_Lines sample_input))
     in length ls = 1
        \<and> \<not> currencySidesConflict (pf_Currency pay)
              [settlementCurrencies ls, bankCurrencies (fi_Banks sample_input)]
        \<and> merchantBooksGap pay (fi_Merchant sample_input) = None
        \<and> taxLineGap ls (fi_Merchant sample_input) (fi_TaxLines sample_input) = None
        \<and> \<not> openChargeback (fi_Disputes sample_input)
        \<and> partialSettlementGap (pf_AmountMinor pay) ls = None
        \<and> paymentSettlementFeeTaxGap pay ls = None
        \<and> \<not> has_decision BankMatchConflicted sample_input
        \<and> \<not> has_decision BankMatchVariance sample_input
        \<and> \<not> has_decision BankMatchAmbiguous sample_input
        \<and> (has_decision BankMatchExact sample_input \<or> has_decision BankMatchHighConfidence sample_input))"
  by (rule captured_matched_iff)
     (simp_all add: sample_status isFailedLike_def isCapturedOrLater_def)

text \<open>The exception a result carries repeats the result.\<close>

definition exception_mirrors :: "FinancialResult \<Rightarrow> bool" where
  "exception_mirrors fr =
     (case fr_Exception fr of
        None \<Rightarrow> True
      | Some e \<Rightarrow> ex_EntityType e = fr_EntityType fr \<and> ex_EntityID e = fr_EntityID fr
          \<and> ex_Status e = fr_Status fr \<and> ex_ReconciliationResult e = fr_Result fr
          \<and> ex_Reason e = fr_Reason fr \<and> ex_Confidence e = fr_Confidence fr
          \<and> ex_ExpectedAmount e = fr_ExpectedAmount fr \<and> ex_ObservedAmount e = fr_ObservedAmount fr
          \<and> ex_VarianceAmount e = fr_VarianceAmount fr \<and> ex_CandidateIDs e = fr_CandidateIDs fr
          \<and> ex_EvidenceIDs e = EvidenceIDList (fr_EvidenceRefs fr)
          \<and> ex_EvidenceRefs e = fr_EvidenceRefs fr)"

lemma exception_mirrors_with [simp]: "exception_mirrors (withException out res reason conf)"
  by (simp add: exception_mirrors_def withException_def Let_def)

lemma exception_mirrors_none [simp]: "fr_Exception fr = None \<Longrightarrow> exception_mirrors fr"
  by (simp add: exception_mirrors_def)

lemma exception_mirrors_annotate [simp]:
  "exception_mirrors (AnnotateCashFlow fr) = exception_mirrors fr"
  "exception_mirrors (default_rule_version fr) = exception_mirrors fr"
  "exception_mirrors (fr\<lparr>fr_Rail := r\<rparr>) = exception_mirrors fr"
  by (simp_all add: exception_mirrors_def frame_simps default_rule_version_def split: option.split)

lemma bank_decision_mirrors:
  "fr_Exception out = None \<Longrightarrow>
     exception_mirrors (reconcile_bank_decision out inp exact high conflicted ambiguous)"
  by (simp add: reconcile_bank_decision_def Let_def split: option.split)

lemma captured_amounts_mirrors:
  "fr_Exception out = None \<Longrightarrow>
     exception_mirrors (captured_amounts out inp ls exact high conflicted ambiguous)"
  by (simp add: captured_amounts_def Let_def bank_decision_mirrors split: option.split)

lemma captured_books_mirrors:
  "fr_Exception out = None \<Longrightarrow>
     exception_mirrors (captured_books out inp ls exact high conflicted ambiguous)"
  by (simp add: captured_books_def Let_def captured_amounts_mirrors split: option.split)

lemma captured_mirrors:
  "fr_Exception out = None \<Longrightarrow>
     exception_mirrors (reconcileCaptured out inp has exact high conflicted ambiguous)"
  by (simp add: reconcileCaptured_def Let_def captured_books_mirrors split: option.split)

lemma failed_mirrors:
  "fr_Exception out = None \<Longrightarrow> exception_mirrors (reconcileFailed out inp hasS hasR moved)"
  by (simp add: reconcileFailed_def Let_def)

lemma reconcilePayment_mirrors: "exception_mirrors (reconcilePayment clock inp)"
  by (simp add: reconcilePayment_def Let_def case_prod_beta captured_mirrors failed_mirrors)

lemma ReconcilePayment_mirrors: "exception_mirrors (ReconcilePayment clock inp)"
  by (simp add: ReconcilePayment_def Let_def reconcilePayment_mirrors)

text \<open>
  A payment's exception never disagrees with its result: a \<open>MATCHED\<close> result opens none,
  and one that is opened repeats the result's entity, verdict, reason, confidence, three amounts,
  candidates and evidence, so that the exception queue and the results table cannot tell
  different stories.
\<close>

theorem payment_exception_agrees_with_result:
  "exception_mirrors (ReconcilePayment clock inp) \<and>
   (fr_Result (ReconcilePayment clock inp) = ResultMatched
      \<longrightarrow> fr_Exception (ReconcilePayment clock inp) = None)"
  using ReconcilePayment_mirrors payment_verdict_matched [of clock inp]
  by (simp add: ReconcilePayment_verdict)

lemma payment_exception_agrees_with_result_witness:
  "fr_Exception (ReconcilePayment 0 sample_input) = None"
  using payment_exception_agrees_with_result [of 0 sample_input]
  by (simp add: ReconcilePayment_verdict sample_verdict)

section \<open>The three-way leg\<close>

lemma books_not_agree: "merchantBooksGap pay m = Some (g, r) \<Longrightarrow> \<not> pspBooksAgree r"
  using books_gap_reason unfolding merchantBooksGap_def
  by (fastforce simp: pspBooksAgree_def)

lemma feetax_not_agree: "paymentSettlementFeeTaxGap pay ls = Some (g, r) \<Longrightarrow> \<not> pspBooksAgree r"
  by (auto simp: paymentSettlementFeeTaxGap_def pspBooksAgree_def Let_def split: if_splits)

text \<open>The closed list of reasons, and which of them can carry which verdict.\<close>

definition three_way_matched :: "verdict \<Rightarrow> bool" where
  "three_way_matched v \<longleftrightarrow>
     (if pspBooksAgree (v_reason v)
      then v_reason v \<in> {''captured_settlement_exact_bank'', ''processed_exact_debit'',
             ''failed_no_money_movement'', ''failed_refund_no_bank_movement''} \<or> v_proven v
      else v_result v = ResultMatched)"

lemmas three_way_eval = three_way_matched_def pspBooksAgree_def

lemma line_rule_three_way:
  "(g, w) \<in> set (captured_line_rules inp) \<Longrightarrow> \<not> three_way_matched w \<and> v_result w \<noteq> ResultMatched"
  by (auto simp: captured_line_rules_def Let_def three_way_eval)

lemma three_way_disagree:
  "\<not> pspBooksAgree r \<Longrightarrow> res \<noteq> ResultMatched \<Longrightarrow>
    \<not> three_way_matched \<lparr>v_result = res, v_reason = r, v_proven = p, v_exception = e\<rparr>"
  by (simp add: three_way_matched_def)

lemma books_rule_three_way:
  assumes "(g, w) \<in> set (captured_books_rules inp)" "g"
  shows "\<not> three_way_matched w \<and> v_result w \<noteq> ResultMatched"
proof (cases "merchantBooksGap (fi_Payment inp) (fi_Merchant inp)")
  case None
  with assms show ?thesis by (auto simp: captured_books_rules_def Let_def three_way_eval)
next
  case (Some p)
  have "\<not> pspBooksAgree (snd p)" using books_not_agree Some by (metis prod.collapse)
  with Some assms show ?thesis
    by (auto simp: captured_books_rules_def Let_def three_way_disagree) (auto simp: three_way_eval)
qed

lemma amount_rule_three_way:
  assumes "(g, w) \<in> set (captured_amount_rules inp)" "g"
  shows "\<not> three_way_matched w \<and> v_result w \<noteq> ResultMatched"
proof (cases "paymentSettlementFeeTaxGap (fi_Payment inp) (paymentLines_of inp)")
  case None
  with assms show ?thesis by (auto simp: captured_amount_rules_def Let_def three_way_eval)
next
  case (Some p)
  have "\<not> pspBooksAgree (snd p)" using feetax_not_agree Some by (metis prod.collapse)
  with Some assms show ?thesis
    by (auto simp: captured_amount_rules_def Let_def three_way_disagree) (auto simp: three_way_eval)
qed

lemma bank_rule_three_way:
  "(g, w) \<in> set (captured_bank_rules inp) \<Longrightarrow>
     three_way_matched w \<longleftrightarrow> v_result w = ResultMatched \<and> v_proven w"
  by (auto simp: captured_bank_rules_def three_way_matched_def pspBooksAgree_def split: if_splits)

lemma captured_rule_three_way:
  "(g, w) \<in> set (captured_rules inp) \<Longrightarrow> g \<Longrightarrow>
     three_way_matched w \<longleftrightarrow> v_result w = ResultMatched \<and> v_proven w"
  using line_rule_three_way books_rule_three_way amount_rule_three_way bank_rule_three_way
  unfolding captured_rules_def set_append by blast

lemma failed_rule_three_way:
  "(g, w) \<in> set (failed_rules inp) \<Longrightarrow> three_way_matched w \<longleftrightarrow> v_result w = ResultMatched"
  by (auto simp: failed_rules_def Let_def three_way_matched_def pspBooksAgree_def)

lemma payment_verdict_three_way:
  "three_way_matched (payment_verdict clock inp) \<longleftrightarrow>
     v_result (payment_verdict clock inp) = ResultMatched
     \<and> (v_proven (payment_verdict clock inp) \<or> isFailedLike (payment_status (fi_Payment inp)))"
proof (rule payment_verdictI)
  fix r assume "r \<in> {''failed_unexplained'', ''settlement_without_bank'', ''open_status_no_downstream''}"
  then show "three_way_matched (opens ResultUnresolved r) =
      (v_result (opens ResultUnresolved r) = ResultMatched \<and> (v_proven (opens ResultUnresolved r)
        \<or> isFailedLike (payment_status (fi_Payment inp))))"
    by (auto simp: three_way_matched_def pspBooksAgree_def)
next
  fix r assume "r \<in> {''open_status'', ''insufficient_evidence''}"
  then show "three_way_matched (closes ResultUnresolved r False) =
      (v_result (closes ResultUnresolved r False) = ResultMatched
        \<and> (v_proven (closes ResultUnresolved r False) \<or> isFailedLike (payment_status (fi_Payment inp))))"
    by (auto simp: three_way_matched_def pspBooksAgree_def)
qed (metis failed_rule_three_way, metis captured_rule_three_way)

text \<open>The code always sets a verdict and a reason, so the legs are always derived.\<close>

lemma captured_rule_ran:
  "(g, w) \<in> set (captured_rules inp) \<Longrightarrow> g \<Longrightarrow> v_result w \<noteq> [] \<and> v_reason w \<noteq> ''not_run''"
proof -
  have b: "r \<noteq> ''not_run''" if "merchantBooksGap pay m = Some (h, r)" for pay m h r
    using books_gap_reason that unfolding merchantBooksGap_def by fastforce
  have f: "r \<noteq> ''not_run''" if "paymentSettlementFeeTaxGap pay ls = Some (h, r)" for pay ls h r
    using that by (auto simp: paymentSettlementFeeTaxGap_def Let_def split: if_splits)
  show "(g, w) \<in> set (captured_rules inp) \<Longrightarrow> g \<Longrightarrow> v_result w \<noteq> [] \<and> v_reason w \<noteq> ''not_run''"
    by (auto simp: captured_tables Let_def dest: b f split: if_splits)
qed

lemma payment_verdict_ran:
  "v_result (payment_verdict clock inp) \<noteq> [] \<and> v_reason (payment_verdict clock inp) \<noteq> ''not_run''"
  by (rule payment_verdictI) (auto simp: failed_rules_def Let_def captured_rule_ran)

lemma three_way_leg:
  assumes "fr_Result fr \<noteq> []" "fr_Reason fr \<noteq> ''not_run''"
  shows "leg_Result (fr_ThreeWay (AnnotateCashFlow fr)) = ResultMatched
    \<longleftrightarrow> three_way_matched (verdict_of fr)"
  using assms
  by (auto simp: AnnotateCashFlow_legs deriveLegs_three_way_matched three_way_matched_def
      verdict_of_def bankMovementProven_def)

lemma legs_of_rule_version [simp]:
  "fr_ThreeWay (default_rule_version fr) = fr_ThreeWay fr"
  "fr_TwoWay (default_rule_version fr) = fr_TwoWay fr"
  by (simp_all add: default_rule_version_def)

text \<open>
  The three-way leg never claims more than the evidence: it is \<open>MATCHED\<close> exactly when
  the payment's own verdict is \<open>MATCHED\<close> and either bank credit is proven or the payment
  failed, in which case no money was to move.  In particular a high-confidence bank match leaves
  the three-way leg open.
\<close>

theorem three_way_matched_iff_bank_proven_or_failed:
  "leg_Result (fr_ThreeWay (ReconcilePayment clock inp)) = ResultMatched \<longleftrightarrow>
     fr_Result (ReconcilePayment clock inp) = ResultMatched \<and>
     (fr_BankCreditProven (ReconcilePayment clock inp)
      \<or> isFailedLike (payment_status (fi_Payment inp)))"
proof -
  define out where "out = (let out = reconcilePayment clock inp
    in if fr_Rail out = [] then out\<lparr>fr_Rail := NormalizeRail (pf_Method (fi_Payment inp))\<rparr> else out)"
  have v: "verdict_of out = payment_verdict clock inp"
    by (simp add: out_def Let_def verdict_reconcilePayment)
  have "fr_Result out \<noteq> []" "fr_Reason out \<noteq> ''not_run''"
    using payment_verdict_ran [of clock inp] by (simp_all add: verdict_sel v)
  from three_way_leg [OF this] show ?thesis
    by (simp add: ReconcilePayment_verdict v payment_verdict_three_way)
       (simp add: ReconcilePayment_def Let_def out_def)
qed

end
