(* ===== verification/ProviderStatus.thy ===== *)
theory ProviderStatus
  imports Prelude
begin

text \<open>
  \<^verbatim>\<open>poll/providers/razorpay/status.go\<close>: the vocabulary of the provider's payment and
  payout states, their normal forms, and the rank that orders the payout life cycle.
\<close>

abbreviation (input) PayoutPending :: string where "PayoutPending \<equiv> ''pending''"
abbreviation (input) PayoutScheduled :: string where "PayoutScheduled \<equiv> ''scheduled''"
abbreviation (input) PayoutQueued :: string where "PayoutQueued \<equiv> ''queued''"
abbreviation (input) PayoutProcessing :: string where "PayoutProcessing \<equiv> ''processing''"
abbreviation (input) PayoutProcessed :: string where "PayoutProcessed \<equiv> ''processed''"
abbreviation (input) PayoutReversed :: string where "PayoutReversed \<equiv> ''reversed''"
abbreviation (input) PayoutCancelled :: string where "PayoutCancelled \<equiv> ''cancelled''"
abbreviation (input) PayoutRejected :: string where "PayoutRejected \<equiv> ''rejected''"
abbreviation (input) PayoutFailed :: string where "PayoutFailed \<equiv> ''failed''"

definition NormalizePayoutStatus :: "string \<Rightarrow> string" where
  "NormalizePayoutStatus status =
     (let s = ToLower (TrimSpace status)
      in if s \<in> {PayoutPending, PayoutScheduled, PayoutQueued, PayoutProcessing, PayoutProcessed,
                 PayoutReversed, PayoutCancelled, PayoutRejected, PayoutFailed} then s
         else if s = ''canceled'' then PayoutCancelled
         else s)"

definition PayoutRank :: "string \<Rightarrow> int" where
  "PayoutRank status =
     (let s = NormalizePayoutStatus status
      in if s = PayoutPending then 1
         else if s = PayoutScheduled then 2
         else if s = PayoutQueued then 3
         else if s \<in> {PayoutProcessing, PayoutCancelled, PayoutRejected, PayoutFailed} then 4
         else if s = PayoutProcessed then 5
         else if s = PayoutReversed then 6
         else 0)"

definition IsPayoutOpen :: "string \<Rightarrow> bool" where
  "IsPayoutOpen status \<longleftrightarrow> NormalizePayoutStatus status
     \<in> {PayoutPending, PayoutScheduled, PayoutQueued, PayoutProcessing}"

definition IsPayoutFailedLike :: "string \<Rightarrow> bool" where
  "IsPayoutFailedLike status \<longleftrightarrow> NormalizePayoutStatus status
     \<in> {PayoutFailed, PayoutCancelled, PayoutRejected}"

definition IsPayoutProcessed :: "string \<Rightarrow> bool" where
  "IsPayoutProcessed status \<longleftrightarrow> NormalizePayoutStatus status = PayoutProcessed"

definition NormalizePaymentStatus :: "string \<Rightarrow> string" where
  "NormalizePaymentStatus status =
     (let s = ToLower (TrimSpace status)
      in if s \<in> {''created'', ''authorized'', ''captured'', ''failed'', ''refunded''} then s
         else if s \<in> {''partially_refunded'', ''partial_refund''} then ''partially_refunded''
         else ''unknown'')"

section \<open>Normal forms\<close>

lemma NormalizePayoutStatus_simp:
  "NormalizePayoutStatus status =
     (if ToLower (TrimSpace status) = ''canceled'' then PayoutCancelled else ToLower (TrimSpace status))"
  by (auto simp: NormalizePayoutStatus_def Let_def)

lemma NormalizePayoutStatus_idem [simp]:
  "NormalizePayoutStatus (NormalizePayoutStatus s) = NormalizePayoutStatus s"
proof (cases "ToLower (TrimSpace s) = ''canceled''")
  case True
  then show ?thesis by (simp add: NormalizePayoutStatus_simp) (simp add: str_simps)
next
  case False
  then show ?thesis by (simp add: NormalizePayoutStatus_simp)
qed

lemma status_class_normal [simp]:
  "IsPayoutOpen (NormalizePayoutStatus s) = IsPayoutOpen s"
  "IsPayoutFailedLike (NormalizePayoutStatus s) = IsPayoutFailedLike s"
  "IsPayoutProcessed (NormalizePayoutStatus s) = IsPayoutProcessed s"
  "PayoutRank (NormalizePayoutStatus s) = PayoutRank s"
  by (simp_all add: IsPayoutOpen_def IsPayoutFailedLike_def IsPayoutProcessed_def PayoutRank_def)

lemma PayoutRank_range: "PayoutRank s \<in> {0..6}"
  by (simp add: PayoutRank_def Let_def)

lemma NormalizePaymentStatus_range:
  "NormalizePaymentStatus s \<in> {''created'', ''authorized'', ''captured'', ''failed'', ''refunded'',
     ''partially_refunded'', ''unknown''}"
  by (auto simp: NormalizePaymentStatus_def Let_def)

end
