(* ===== verification/PayoutRecon.thy ===== *)
theory PayoutRecon
  imports PaymentRecon ProviderStatus
begin

text \<open>
  \<^verbatim>\<open>payout.go\<close>: the reconciliation of one payout against the debits of the bank
  statement, with the same decision-table specification as payments have.
\<close>

record PayoutInput =
  pi_Payout :: PayoutFact
  pi_Events :: "ObservationFact list"
  pi_Banks :: "BankTxn list"
  pi_Now :: time
  pi_StuckAfter :: duration
  pi_Merchant :: "MerchantBookFact option"

section \<open>Debits\<close>

definition debitBanks :: "BankTxn list \<Rightarrow> BankTxn list" where
  "debitBanks banks =
     filter (\<lambda>b. \<not> EqualFold (bt_CreditDebit b) ''CREDIT''
       \<and> (0 <s bt_DebitMinor b \<or> EqualFold (bt_CreditDebit b) ''DEBIT'')) banks"

definition carries_utr :: "string \<Rightarrow> BankTxn \<Rightarrow> bool" where
  "carries_utr utr b \<longleftrightarrow> ToUpper (TrimSpace (bt_UTR b)) = utr \<or> ToUpper (TrimSpace (bt_UTRRaw b)) = utr"

definition amount_agrees :: "PayoutFact \<Rightarrow> BankTxn \<Rightarrow> bool" where
  "amount_agrees p b \<longleftrightarrow> bt_DebitMinor b = po_AmountMinor p
     \<and> (bt_Currency b = [] \<or> po_Currency p = [] \<or> EqualFold (bt_Currency b) (po_Currency p))"

definition the_only :: "'a list \<Rightarrow> 'a option" where
  "the_only xs = (case xs of [x] \<Rightarrow> Some x | _ \<Rightarrow> None)"

definition exactDebit :: "PayoutFact \<Rightarrow> BankTxn list \<Rightarrow> BankTxn option" where
  "exactDebit p debits =
     (let utr = ToUpper (TrimSpace (po_UTR p));
          utrHits = (if utr \<noteq> [] then filter (carries_utr utr) debits else []);
          byAmount = the_only (filter (amount_agrees p) debits)
      in case the_only utrHits of
           Some hit \<Rightarrow> if bt_DebitMinor hit = po_AmountMinor p then Some hit else byAmount
         | None \<Rightarrow> byAmount)"

definition utrAmountMismatch :: "PayoutFact \<Rightarrow> BankTxn list \<Rightarrow> BankTxn option" where
  "utrAmountMismatch p debits =
     (let utr = ToUpper (TrimSpace (po_UTR p))
      in if utr = [] then None
         else case the_only (filter (carries_utr utr) debits) of
             Some hit \<Rightarrow> if bt_DebitMinor hit \<noteq> po_AmountMinor p then Some hit else None
           | None \<Rightarrow> None)"

section \<open>The reconciliation\<close>

definition payout_base :: "PayoutInput \<Rightarrow> FinancialResult" where
  "payout_base inp =
     (let p = pi_Payout inp
      in zero_FinancialResult\<lparr>fr_EntityType := EntityPayout, fr_EntityID := po_PayoutID p,
           fr_Status := NormalizePayoutStatus (po_ProviderStatus p),
           fr_ExpectedAmount := po_AmountMinor p,
           fr_EvidenceRefs := zero_EvidenceRefs\<lparr>er_CanonicalPaymentID := po_ID p,
             er_PaymentAmountMinor := po_AmountMinor p,
             er_ObservationEventIDs := event_ids (pi_Events inp),
             er_PayloadHashes := event_hashes (pi_Events inp)\<rparr>\<rparr>)"

definition with_bank_row :: "FinancialResult \<Rightarrow> BankTxn \<Rightarrow> FinancialResult" where
  "with_bank_row out b = out\<lparr>fr_ObservedAmount := bt_DebitMinor b,
     fr_EvidenceRefs := (fr_EvidenceRefs out)\<lparr>er_BankObservationID := bt_ID b\<rparr>\<rparr>"

definition with_bank_amount :: "FinancialResult \<Rightarrow> BankTxn \<Rightarrow> FinancialResult" where
  "with_bank_amount out b = (with_bank_row out b)\<lparr>fr_EvidenceRefs :=
     (fr_EvidenceRefs (with_bank_row out b))\<lparr>er_BankCreditMinor := bt_DebitMinor b\<rparr>\<rparr>"

definition payout_processed :: "FinancialResult \<Rightarrow> PayoutInput \<Rightarrow> FinancialResult" where
  "payout_processed out inp =
     (let p = pi_Payout inp; debits = debitBanks (pi_Banks inp); exact = exactDebit p debits
      in if currencySidesConflict (po_Currency p) [bankCurrencies (pi_Banks inp)] then
           withException (case exact of Some b \<Rightarrow> with_bank_row out b | None \<Rightarrow> out)
             ResultVariance ''currency_mismatch'' 0.95
         else case exact of
             Some b \<Rightarrow> (with_bank_amount out b)\<lparr>fr_Result := ResultMatched,
               fr_Reason := ''processed_exact_debit'', fr_Confidence := 0.99\<rparr>
           | None \<Rightarrow>
          (case utrAmountMismatch p debits of
             Some b \<Rightarrow> withException ((with_bank_amount out b)\<lparr>fr_VarianceAmount :=
                 po_AmountMinor p - bt_DebitMinor b\<rparr>) ResultVariance ''amount_mismatch'' 0.9
           | None \<Rightarrow>
             if length debits > 1 then
               withException (out\<lparr>fr_CandidateIDs := bankIDs debits\<rparr>)
                 ResultAmbiguous ''ambiguous_bank_candidates'' 0.5
             else withException out ResultUnresolved ''payout_missing_bank'' 0.8))"

definition payout_reversed :: "FinancialResult \<Rightarrow> PayoutInput \<Rightarrow> FinancialResult" where
  "payout_reversed out inp =
     (if \<not> HasBankMovement (pi_Banks inp) then
        withException out ResultUnresolved ''payout_reversed_unexplained'' 0.7
      else
        (let observed = BankMovementMinor (pi_Banks inp);
             variance = po_AmountMinor (pi_Payout inp) - observed;
             out = out\<lparr>fr_ObservedAmount := observed, fr_VarianceAmount := variance\<rparr>
         in if variance \<noteq> 0 then withException out ResultVariance ''amount_mismatch'' 0.7
            else withException out ResultUnresolved ''payout_reversed_unexplained'' 0.6))"

definition payout_age :: "time \<Rightarrow> PayoutInput \<Rightarrow> duration" where
  "payout_age clock inp =
     (let now = (if IsZero (pi_Now inp) then clock else pi_Now inp); p = pi_Payout inp
      in if IsZero (po_ProviderCreatedAt p) then time_sub now (po_FirstObservedAt p)
         else time_sub now (po_ProviderCreatedAt p))"

definition payout_sla :: "PayoutInput \<Rightarrow> duration" where
  "payout_sla inp = (if pi_StuckAfter inp \<le> 0 then DefaultPayoutSLA else pi_StuckAfter inp)"

definition payout_by_status :: "time \<Rightarrow> FinancialResult \<Rightarrow> PayoutInput \<Rightarrow> FinancialResult" where
  "payout_by_status clock out inp =
     (let status = NormalizePayoutStatus (po_ProviderStatus (pi_Payout inp))
      in if IsPayoutFailedLike status then
           (if HasBankMovement (pi_Banks inp) then
              (let amt = BankMovementMinor (pi_Banks inp)
               in withException (out\<lparr>fr_ObservedAmount := amt, fr_VarianceAmount := amt\<rparr>)
                    ResultUnresolved ''payout_failed_with_bank_movement'' 0.9)
            else out\<lparr>fr_Result := ResultMatched, fr_Reason := ''failed_no_money_movement'',
                   fr_Confidence := 0.95, fr_BankCreditProven := False\<rparr>)
         else if IsPayoutProcessed status then payout_processed out inp
         else if status = PayoutReversed then payout_reversed out inp
         else if IsPayoutOpen status then
           (if payout_sla inp \<le> payout_age clock inp then
              withException out ResultUnresolved ''payout_open_past_sla'' 0.85
            else out\<lparr>fr_Result := ResultUnresolved, fr_Reason := ''payout_open'',
                   fr_Confidence := 0.3\<rparr>)
         else out\<lparr>fr_Result := ResultUnresolved, fr_Reason := ''insufficient_evidence'',
                fr_Confidence := 0.2\<rparr>)"

definition reconcilePayout :: "time \<Rightarrow> PayoutInput \<Rightarrow> FinancialResult" where
  "reconcilePayout clock inp =
     (let p = pi_Payout inp; out = payout_base inp;
          out = (case pi_Merchant inp of
                   Some m \<Rightarrow> out\<lparr>fr_MerchantObserved := True,
                     fr_EvidenceRefs := (fr_EvidenceRefs out)\<lparr>er_MerchantFactID := mb_ID m\<rparr>\<rparr>
                 | None \<Rightarrow> out)
      in case payoutMerchantGap p (pi_Merchant inp) of
           Some (gap, reason) \<Rightarrow>
             withException (out\<lparr>fr_MerchantAgreed := False,
                 fr_ExpectedAmount := (case pi_Merchant inp of Some m \<Rightarrow> mb_AmountMinor m | None \<Rightarrow> 0),
                 fr_ObservedAmount := po_AmountMinor p, fr_VarianceAmount := gap\<rparr>)
               ResultVariance reason 0.95
         | None \<Rightarrow>
             payout_by_status clock
               (if pi_Merchant inp \<noteq> None then out\<lparr>fr_MerchantAgreed := True\<rparr> else out) inp)"

definition ReconcilePayout :: "time \<Rightarrow> PayoutInput \<Rightarrow> FinancialResult" where
  "ReconcilePayout clock inp =
     (let out = reconcilePayout clock inp;
          out = (if fr_Rail out = [] then out\<lparr>fr_Rail := NormalizeRail (po_Mode (pi_Payout inp))\<rparr>
                 else out)
      in default_rule_version (AnnotateCashFlow out))"

section \<open>The decision table\<close>

definition processed_rules :: "PayoutInput \<Rightarrow> (bool \<times> verdict) list" where
  "processed_rules inp =
     (let p = pi_Payout inp; debits = debitBanks (pi_Banks inp)
      in [(currencySidesConflict (po_Currency p) [bankCurrencies (pi_Banks inp)],
           opens ResultVariance ''currency_mismatch''),
          (exactDebit p debits \<noteq> None, closes ResultMatched ''processed_exact_debit'' False),
          (utrAmountMismatch p debits \<noteq> None, opens ResultVariance ''amount_mismatch''),
          (length debits > 1, opens ResultAmbiguous ''ambiguous_bank_candidates'')])"

definition payout_verdict :: "time \<Rightarrow> PayoutInput \<Rightarrow> verdict" where
  "payout_verdict clock inp =
     (let p = pi_Payout inp; status = NormalizePayoutStatus (po_ProviderStatus p);
          books = payoutMerchantGap p (pi_Merchant inp); moved = HasBankMovement (pi_Banks inp)
      in if books \<noteq> None then opens ResultVariance (reason_of books)
         else if IsPayoutFailedLike status then
           (if moved then opens ResultUnresolved ''payout_failed_with_bank_movement''
            else closes ResultMatched ''failed_no_money_movement'' False)
         else if IsPayoutProcessed status then
           first_rule (processed_rules inp) (opens ResultUnresolved ''payout_missing_bank'')
         else if status = PayoutReversed then
           (if moved \<and> po_AmountMinor p \<noteq> BankMovementMinor (pi_Banks inp)
            then opens ResultVariance ''amount_mismatch''
            else opens ResultUnresolved ''payout_reversed_unexplained'')
         else if IsPayoutOpen status then
           (if payout_sla inp \<le> payout_age clock inp then opens ResultUnresolved ''payout_open_past_sla''
            else closes ResultUnresolved ''payout_open'' False)
         else closes ResultUnresolved ''insufficient_evidence'' False)"

lemma bank_row_frame [simp, frame_simps]:
  "fr_BankCreditProven (with_bank_row out b) = fr_BankCreditProven out"
  "fr_Exception (with_bank_row out b) = fr_Exception out"
  "fr_BankCreditProven (with_bank_amount out b) = fr_BankCreditProven out"
  "fr_Exception (with_bank_amount out b) = fr_Exception out"
  "fr_ObservedAmount (with_bank_row out b) = bt_DebitMinor b"
  "fr_ObservedAmount (with_bank_amount out b) = bt_DebitMinor b"
  "er_BankObservationID (fr_EvidenceRefs (with_bank_amount out b)) = bt_ID b"
  by (simp_all add: with_bank_amount_def with_bank_row_def)

lemma verdict_processed:
  assumes "fr_BankCreditProven out = False" "fr_Exception out = None"
  shows "verdict_of (payout_processed out inp)
    = first_rule (processed_rules inp) (opens ResultUnresolved ''payout_missing_bank'')"
  using assms
  by (auto simp: payout_processed_def processed_rules_def Let_def split: option.splits)
     (auto simp: verdict_of_def)

lemma verdict_by_status:
  assumes "fr_BankCreditProven out = False" "fr_Exception out = None"
    and "payoutMerchantGap (pi_Payout inp) (pi_Merchant inp) = None"
  shows "verdict_of (payout_by_status clock out inp) = payout_verdict clock inp"
proof -
  have "verdict_of (out\<lparr>fr_Result := r, fr_Reason := q, fr_Confidence := c, fr_BankCreditProven := False\<rparr>)
      = closes r q False"
    "verdict_of (out\<lparr>fr_Result := r, fr_Reason := q, fr_Confidence := c\<rparr>) = closes r q False" for r q c
    using assms by (simp_all add: verdict_of_def)
  then show ?thesis
    using assms
    by (simp add: payout_by_status_def payout_verdict_def Let_def verdict_processed payout_reversed_def)
qed

lemma payout_base_fields [simp]:
  "fr_BankCreditProven (payout_base inp) = False" "fr_Exception (payout_base inp) = None"
  "fr_EntityID (payout_base inp) = po_PayoutID (pi_Payout inp)"
  by (simp_all add: payout_base_def Let_def zero_defs)

lemma verdict_reconcilePayout: "verdict_of (reconcilePayout clock inp) = payout_verdict clock inp"
proof (cases "payoutMerchantGap (pi_Payout inp) (pi_Merchant inp)")
  case None
  then show ?thesis
    by (simp add: reconcilePayout_def Let_def verdict_by_status split: option.split)
next
  case (Some g)
  then show ?thesis
    by (cases g) (simp add: reconcilePayout_def payout_verdict_def Let_def split: option.split)
qed

lemma verdict_ReconcilePayout: "verdict_of (ReconcilePayout clock inp) = payout_verdict clock inp"
  by (simp add: ReconcilePayout_def Let_def verdict_reconcilePayout)

text \<open>
  C9.  Refinement: the verdict of \<open>ReconcilePayout\<close> is that of the table
  \<open>payout_verdict\<close>.  Books decide first; a failed payout matches only if no bank row moved; a
  processed one only if a debit is found and the currencies agree; an open one becomes an
  exception exactly when its age reaches the service level.
\<close>

theorem ReconcilePayout_implements_decision_table:
  "verdict_of (ReconcilePayout clock inp) = payout_verdict clock inp"
  by (rule verdict_ReconcilePayout)

lemma ReconcilePayout_verdict:
  "fr_Result (ReconcilePayout clock inp) = v_result (payout_verdict clock inp)"
  "fr_Reason (ReconcilePayout clock inp) = v_reason (payout_verdict clock inp)"
  "fr_BankCreditProven (ReconcilePayout clock inp) = v_proven (payout_verdict clock inp)"
  "fr_Exception (ReconcilePayout clock inp) = None \<longleftrightarrow> \<not> v_exception (payout_verdict clock inp)"
  by (simp_all add: verdict_sel verdict_ReconcilePayout)

lemma first_rule_unproven:
  "\<forall>(g, w) \<in> set rules. \<not> v_proven w \<Longrightarrow> \<not> v_proven v \<Longrightarrow> \<not> v_proven (first_rule rules v)"
  by (induction rules v rule: first_rule.induct) auto

lemma payout_verdict_unproven: "\<not> v_proven (payout_verdict clock inp)"
  by (auto simp: payout_verdict_def Let_def processed_rules_def intro!: first_rule_unproven)

text \<open>
  No reconciliation of a payout ever sets \<open>BankCreditProven\<close>, not even the exact
  debit match.  Every reader of that flag (the cash schedule, the books' outgoing total) must
  therefore recognise a paid payout by its reason instead.
\<close>

theorem payout_never_sets_bank_credit_proven:
  "\<not> fr_BankCreditProven (ReconcilePayout clock inp)"
  by (simp add: ReconcilePayout_verdict payout_verdict_unproven)

lemma payout_matched_exact:
  "v_reason (payout_verdict clock inp) = ''processed_exact_debit'' \<longleftrightarrow>
     payoutMerchantGap (pi_Payout inp) (pi_Merchant inp) = None
     \<and> IsPayoutProcessed (po_ProviderStatus (pi_Payout inp))
     \<and> \<not> currencySidesConflict (po_Currency (pi_Payout inp)) [bankCurrencies (pi_Banks inp)]
     \<and> exactDebit (pi_Payout inp) (debitBanks (pi_Banks inp)) \<noteq> None"
proof -
  have r: "reason_of (payoutMerchantGap p m) \<noteq> ''processed_exact_debit''"
    if "payoutMerchantGap p m \<noteq> None" for p m
    using that books_gap_reason unfolding payoutMerchantGap_def
    by (fastforce simp del: not_None_eq dest: iffD1 [OF not_None_eq])
  have f: "IsPayoutProcessed s \<Longrightarrow> \<not> IsPayoutFailedLike s" for s
    by (simp add: IsPayoutProcessed_def IsPayoutFailedLike_def)
  show ?thesis
    using r f [of "po_ProviderStatus (pi_Payout inp)"]
    by (simp add: payout_verdict_def Let_def processed_rules_def del: not_None_eq)
qed

section \<open>What a matched payout means\<close>

lemma the_only_Some: "the_only xs = Some x \<longleftrightarrow> xs = [x]"
  by (auto simp: the_only_def split: list.splits)

lemma the_only_filter: "the_only (filter P xs) = Some x \<Longrightarrow> x \<in> set xs \<and> P x"
proof -
  assume "the_only (filter P xs) = Some x"
  then have "x \<in> set (filter P xs)" by (simp add: the_only_Some)
  then show ?thesis by simp
qed

lemma the_only_Nil [simp]: "the_only [] = None"
  by (simp add: the_only_def)

lemma exactDebit_sound:
  "exactDebit p debits = Some b \<Longrightarrow> b \<in> set debits \<and> bt_DebitMinor b = po_AmountMinor p"
  by (auto simp: exactDebit_def Let_def amount_agrees_def split: option.splits if_splits
      dest!: the_only_filter)

lemma debitBanks_iff:
  "b \<in> set (debitBanks banks) \<longleftrightarrow> b \<in> set banks \<and> \<not> EqualFold (bt_CreditDebit b) ''CREDIT''
     \<and> (0 <s bt_DebitMinor b \<or> EqualFold (bt_CreditDebit b) ''DEBIT'')"
  by (auto simp: debitBanks_def)

lemma ReconcilePayout_fields:
  assumes "fr_Reason (ReconcilePayout clock inp) = ''processed_exact_debit''"
    and "exactDebit (pi_Payout inp) (debitBanks (pi_Banks inp)) = Some b"
  shows "fr_ObservedAmount (ReconcilePayout clock inp) = bt_DebitMinor b"
    "er_BankObservationID (fr_EvidenceRefs (ReconcilePayout clock inp)) = bt_ID b"
proof -
  have c: "payoutMerchantGap (pi_Payout inp) (pi_Merchant inp) = None"
    "IsPayoutProcessed (po_ProviderStatus (pi_Payout inp))"
    "\<not> currencySidesConflict (po_Currency (pi_Payout inp)) [bankCurrencies (pi_Banks inp)]"
    using assms(1) payout_matched_exact by (auto simp: ReconcilePayout_verdict)
  then have "\<not> IsPayoutFailedLike (po_ProviderStatus (pi_Payout inp))"
    by (simp add: IsPayoutProcessed_def IsPayoutFailedLike_def)
  then have r: "fr_ObservedAmount (reconcilePayout clock inp) = bt_DebitMinor b"
    "er_BankObservationID (fr_EvidenceRefs (reconcilePayout clock inp)) = bt_ID b"
    using c assms(2)
    by (simp_all add: reconcilePayout_def payout_by_status_def payout_processed_def Let_def)
  show "fr_ObservedAmount (ReconcilePayout clock inp) = bt_DebitMinor b"
    "er_BankObservationID (fr_EvidenceRefs (ReconcilePayout clock inp)) = bt_ID b"
    by (simp_all add: ReconcilePayout_def Let_def default_rule_version_def frame_simps r)
qed

text \<open>
  A payout reported as paid (\<open>processed_exact_debit\<close>) is \<open>MATCHED\<close> without an
  exception, the provider says it is processed, and its evidence names a row of the statement
  that is a debit, not a credit, of exactly the payout's amount, which is also the observed
  amount.
\<close>

theorem processed_exact_debit_names_a_real_debit:
  assumes "fr_Reason (ReconcilePayout clock inp) = ''processed_exact_debit''"
  shows "fr_Result (ReconcilePayout clock inp) = ResultMatched
    \<and> fr_Exception (ReconcilePayout clock inp) = None
    \<and> IsPayoutProcessed (po_ProviderStatus (pi_Payout inp))
    \<and> fr_ObservedAmount (ReconcilePayout clock inp) = po_AmountMinor (pi_Payout inp)
    \<and> (\<exists>b \<in> set (pi_Banks inp). bt_DebitMinor b = po_AmountMinor (pi_Payout inp)
        \<and> \<not> EqualFold (bt_CreditDebit b) ''CREDIT''
        \<and> er_BankObservationID (fr_EvidenceRefs (ReconcilePayout clock inp)) = bt_ID b)"
proof -
  have c: "payoutMerchantGap (pi_Payout inp) (pi_Merchant inp) = None"
    "IsPayoutProcessed (po_ProviderStatus (pi_Payout inp))"
    "\<not> currencySidesConflict (po_Currency (pi_Payout inp)) [bankCurrencies (pi_Banks inp)]"
    and "exactDebit (pi_Payout inp) (debitBanks (pi_Banks inp)) \<noteq> None"
    using assms payout_matched_exact [of clock inp] unfolding ReconcilePayout_verdict by blast+
  then obtain b where b: "exactDebit (pi_Payout inp) (debitBanks (pi_Banks inp)) = Some b"
    by blast
  have "\<not> IsPayoutFailedLike (po_ProviderStatus (pi_Payout inp))"
    using c(2) by (simp add: IsPayoutProcessed_def IsPayoutFailedLike_def)
  then have "payout_verdict clock inp = closes ResultMatched ''processed_exact_debit'' False"
    using c b by (simp add: payout_verdict_def Let_def processed_rules_def)
  then show ?thesis
    using exactDebit_sound [OF b] ReconcilePayout_fields [OF assms b] c(2)
    by (auto simp: ReconcilePayout_verdict debitBanks_iff)
qed

definition sample_payout :: "string \<Rightarrow> string \<Rightarrow> PayoutFact" where
  "sample_payout i utr = zero_PayoutFact\<lparr>po_ID := i, po_PayoutID := i, po_ProviderStatus := PayoutProcessed,
     po_AmountMinor := 5000, po_Currency := ''INR'', po_UTR := utr\<rparr>"

definition sample_debit :: BankTxn where
  "sample_debit = zero_BankTxn\<lparr>bt_ID := ''bank-7'', bt_UTR := ''UTR-OTHER'', bt_Currency := ''INR'',
     bt_DebitMinor := 5000, bt_CreditDebit := ''DEBIT''\<rparr>"

definition payout_on_statement :: "PayoutFact \<Rightarrow> BankTxn list \<Rightarrow> PayoutInput" where
  "payout_on_statement p banks = \<lparr>pi_Payout = p, pi_Events = [], pi_Banks = banks, pi_Now = 1,
     pi_StuckAfter = 0, pi_Merchant = None\<rparr>"

lemma sample_payout_exact:
  "exactDebit (sample_payout i ''UTR-1'') (debitBanks [sample_debit]) = Some sample_debit"
  by (simp add: sample_payout_def sample_debit_def zero_defs debitBanks_def exactDebit_def
      carries_utr_def amount_agrees_def the_only_def str_simps)

lemma sample_payout_reason:
  "fr_Reason (ReconcilePayout clock (payout_on_statement (sample_payout i ''UTR-1'') [sample_debit]))
     = ''processed_exact_debit''"
  unfolding ReconcilePayout_verdict payout_matched_exact
  by (simp add: payout_on_statement_def sample_payout_exact payoutMerchantGap_def books_gap_def)
     (simp add: sample_payout_def sample_debit_def zero_defs IsPayoutProcessed_def
       NormalizePayoutStatus_simp currencySidesConflict_def bankCurrencies_def str_simps)

lemma processed_exact_debit_names_a_real_debit_witness:
  "fr_ObservedAmount (ReconcilePayout 0 (payout_on_statement (sample_payout ''pout-1'' ''UTR-1'') [sample_debit]))
     = 5000"
  using processed_exact_debit_names_a_real_debit [OF sample_payout_reason [of 0 "''pout-1''"]]
  by (simp add: payout_on_statement_def sample_payout_def zero_defs)

text \<open>
  What the rule does not give: a processed payout whose own reference is on no bank row is
  still matched when some debit has its amount, and nothing stops the same debit row from
  matching a second payout of that amount.  Here two different payouts, both with reference
  \<open>UTR-1\<close>, are matched on one and the same row whose reference is \<open>UTR-OTHER\<close>.
\<close>

theorem payout_matches_on_amount_despite_other_reference:
  "let r = (\<lambda>i. ReconcilePayout clock (payout_on_statement (sample_payout i ''UTR-1'') [sample_debit]))
   in \<not> carries_utr ''UTR-1'' sample_debit
      \<and> fr_Result (r ''pout-1'') = ResultMatched \<and> fr_Result (r ''pout-2'') = ResultMatched
      \<and> er_BankObservationID (fr_EvidenceRefs (r ''pout-1'')) = bt_ID sample_debit
      \<and> er_BankObservationID (fr_EvidenceRefs (r ''pout-2'')) = bt_ID sample_debit"
proof -
  have "er_BankObservationID (fr_EvidenceRefs (ReconcilePayout clock
      (payout_on_statement (sample_payout i ''UTR-1'') [sample_debit]))) = bt_ID sample_debit" for i
    by (rule ReconcilePayout_fields [OF sample_payout_reason])
       (simp add: payout_on_statement_def sample_payout_exact)
  moreover have "fr_Result (ReconcilePayout clock
      (payout_on_statement (sample_payout i ''UTR-1'') [sample_debit])) = ResultMatched" for i
  proof -
    let ?inp = "payout_on_statement (sample_payout i ''UTR-1'') [sample_debit]"
    have "v_reason (payout_verdict clock ?inp) = ''processed_exact_debit''"
      using sample_payout_reason by (simp add: ReconcilePayout_verdict)
    then have "payout_verdict clock ?inp = closes ResultMatched ''processed_exact_debit'' False"
      using payout_matched_exact [of clock ?inp]
      by (auto simp: payout_verdict_def Let_def processed_rules_def split: if_splits)
    then show ?thesis by (simp add: ReconcilePayout_verdict)
  qed
  moreover have "\<not> carries_utr ''UTR-1'' sample_debit"
    by (simp add: sample_debit_def zero_defs carries_utr_def str_simps)
  ultimately show ?thesis by (simp add: Let_def)
qed

end
