(* ===== verification/Sources.thy ===== *)
theory Sources
  imports PayoutRecon
begin

text \<open>
  The open list of source observations: \<^verbatim>\<open>source.go\<close>, \<^verbatim>\<open>restatement.go\<close>
  (\<open>PickLatestObservations\<close>) and \<^verbatim>\<open>project.go\<close> (\<open>ProjectFinancialInput\<close>,
  \<open>ReconcileFromSources\<close>, \<open>ObservationsFromInput\<close>).  A fact version is only ever
  compared, so it is an \<open>int\<close>.
\<close>

record SourceObservation =
  so_Kind :: string
  so_ID :: string
  so_EntityID :: string
  so_AmountMinor :: int64
  so_CreditMinor :: int64
  so_DebitMinor :: int64
  so_FeeMinor :: int64
  so_TaxMinor :: int64
  so_Currency :: string
  so_UTR :: string
  so_Status :: string
  so_Captured :: bool
  so_ValueDate :: time
  so_BatchID :: string
  so_InvoiceID :: string
  so_OrderID :: string
  so_PayoutID :: string
  so_DueAt :: time
  so_PayloadHash :: string
  so_FactVersion :: int

definition zero_SourceObservation :: SourceObservation where
  "zero_SourceObservation = \<lparr>so_Kind = [], so_ID = [], so_EntityID = [], so_AmountMinor = 0,
     so_CreditMinor = 0, so_DebitMinor = 0, so_FeeMinor = 0, so_TaxMinor = 0, so_Currency = [],
     so_UTR = [], so_Status = [], so_Captured = False, so_ValueDate = 0, so_BatchID = [],
     so_InvoiceID = [], so_OrderID = [], so_PayoutID = [], so_DueAt = 0, so_PayloadHash = [],
     so_FactVersion = 0\<rparr>"

record LegSpec =
  ls_Name :: string
  ls_Kinds :: "string list"

definition CollectLegSpecs :: "LegSpec list" where
  "CollectLegSpecs =
     [\<lparr>ls_Name = ''two_way'', ls_Kinds = [SourceKindMerchant, SourceKindPayment, SourceKindSettlement]\<rparr>,
      \<lparr>ls_Name = ''three_way'', ls_Kinds = [SourceKindMerchant, SourceKindPayment,
         SourceKindSettlement, SourceKindBank, SourceKindTax]\<rparr>]"

definition PayoutLegSpecs :: "LegSpec list" where
  "PayoutLegSpecs =
     [\<lparr>ls_Name = ''two_way'', ls_Kinds = [SourceKindMerchant, SourceKindPayout]\<rparr>,
      \<lparr>ls_Name = ''three_way'', ls_Kinds = [SourceKindMerchant, SourceKindPayout, SourceKindBank]\<rparr>]"

definition SourcesOfKind :: "SourceObservation list \<Rightarrow> string \<Rightarrow> SourceObservation list" where
  "SourcesOfKind obs kind = filter (\<lambda>o'. so_Kind o' = kind) obs"

definition HasSourceKind :: "SourceObservation list \<Rightarrow> string \<Rightarrow> bool" where
  "HasSourceKind obs kind \<longleftrightarrow> SourcesOfKind obs kind \<noteq> []"

section \<open>Restatements\<close>

definition obs_key :: "SourceObservation \<Rightarrow> string" where
  "obs_key ob =
     (if so_Kind ob = SourceKindTax
      then so_Kind ob @ ''|'' @ firstNonEmpty [so_ID ob, so_EntityID ob @ ''|'' @ so_Status ob]
      else so_Kind ob @ ''|'' @ firstNonEmpty [so_EntityID ob, so_ID ob])"

type_synonym pick_state = "(string \<rightharpoonup> SourceObservation) \<times> string list"

definition pick_step :: "pick_state \<Rightarrow> SourceObservation \<Rightarrow> pick_state" where
  "pick_step st ob =
     (let (best, order) = st; k = obs_key ob;
          order = (if best k = None then order @ [k] else order)
      in case best k of
           None \<Rightarrow> (best(k \<mapsto> ob), order)
         | Some prev \<Rightarrow>
             if so_FactVersion prev \<le> so_FactVersion ob then (best(k \<mapsto> ob), order) else (best, order))"

definition PickLatestObservations :: "SourceObservation list \<Rightarrow> SourceObservation list" where
  "PickLatestObservations obs =
     (let (best, order) = foldl pick_step (\<lambda>_. None, []) obs in map (\<lambda>k. the (best k)) order)"

section \<open>Projection onto the engine's input\<close>

definition zero_FinancialInput :: FinancialInput where
  "zero_FinancialInput = \<lparr>fi_Payment = zero_PaymentFact, fi_Events = [], fi_Lines = [],
     fi_Decisions = [], fi_Banks = [], fi_Refunds = [], fi_Merchant = None, fi_Disputes = [],
     fi_TaxLines = [], fi_Now = 0, fi_StuckAfter = 0\<rparr>"

definition obs_payment :: "SourceObservation \<Rightarrow> PaymentFact" where
  "obs_payment ob = zero_PaymentFact\<lparr>pf_ID := so_ID ob,
     pf_PaymentID := firstNonEmpty [so_EntityID ob, so_ID ob],
     pf_CanonicalStatus := so_Status ob, pf_ProviderStatus := so_Status ob,
     pf_Captured := so_Captured ob, pf_AmountMinor := so_AmountMinor ob,
     pf_Currency := so_Currency ob, pf_FeeMinor := so_FeeMinor ob, pf_TaxMinor := so_TaxMinor ob,
     pf_BatchID := so_BatchID ob\<rparr>"

definition obs_line :: "SourceObservation \<Rightarrow> SettlementLine" where
  "obs_line ob = zero_SettlementLine\<lparr>sl_ID := so_ID ob, sl_PaymentID := so_EntityID ob,
     sl_LineType := ''payment'', sl_AmountMinor := so_AmountMinor ob,
     sl_CreditMinor := so_CreditMinor ob, sl_DebitMinor := so_DebitMinor ob,
     sl_FeeMinor := so_FeeMinor ob, sl_TaxMinor := so_TaxMinor ob, sl_Currency := so_Currency ob,
     sl_UTR := so_UTR ob, sl_SettledAt := so_ValueDate ob, sl_PayloadHash := so_PayloadHash ob\<rparr>"

definition obs_bank :: "SourceObservation \<Rightarrow> BankTxn" where
  "obs_bank ob = zero_BankTxn\<lparr>bt_ID := so_ID ob, bt_UTR := so_UTR ob,
     bt_CreditMinor := so_CreditMinor ob, bt_DebitMinor := so_DebitMinor ob,
     bt_Currency := so_Currency ob, bt_ValueDate := so_ValueDate ob,
     bt_RowHash := so_PayloadHash ob\<rparr>"

definition obs_merchant :: "SourceObservation \<Rightarrow> MerchantBookFact" where
  "obs_merchant ob = zero_MerchantBookFact\<lparr>mb_ID := so_ID ob, mb_InvoiceID := so_InvoiceID ob,
     mb_OrderID := so_OrderID ob, mb_PaymentID := so_EntityID ob, mb_PayoutID := so_PayoutID ob,
     mb_AmountMinor := so_AmountMinor ob, mb_Currency := so_Currency ob, mb_DueAt := so_DueAt ob,
     mb_BatchID := so_BatchID ob, mb_TaxMinor := so_TaxMinor ob\<rparr>"

definition obs_dispute :: "SourceObservation \<Rightarrow> DisputeFact" where
  "obs_dispute ob = \<lparr>df_ID = so_ID ob, df_PaymentID = so_EntityID ob,
     df_AmountMinor = so_AmountMinor ob, df_Currency = so_Currency ob, df_Status = so_Status ob\<rparr>"

definition obs_refund :: "SourceObservation \<Rightarrow> RefundFact" where
  "obs_refund ob = zero_RefundFact\<lparr>rf_ID := so_ID ob, rf_RefundID := so_ID ob,
     rf_PaymentID := so_EntityID ob, rf_AmountMinor := so_AmountMinor ob,
     rf_Currency := so_Currency ob, rf_ProviderStatus := so_Status ob\<rparr>"

definition obs_tax :: "SourceObservation \<Rightarrow> TaxLineFact" where
  "obs_tax ob = \<lparr>tl_ID = so_ID ob, tl_PaymentID = so_EntityID ob, tl_InvoiceID = so_InvoiceID ob,
     tl_Component = so_Status ob, tl_AmountMinor = so_AmountMinor ob, tl_Currency = so_Currency ob,
     tl_HSN = so_OrderID ob\<rparr>"

definition obs_event :: "SourceObservation \<Rightarrow> ObservationFact" where
  "obs_event ob = zero_ObservationFact\<lparr>of_SourceEventID := so_ID ob,
     of_SourceHash := so_PayloadHash ob, of_CanonicalStatus := so_Status ob,
     of_ProviderStatus := so_Status ob, of_ObservedAt := so_ValueDate ob\<rparr>"

definition project_step :: "FinancialInput \<Rightarrow> SourceObservation \<Rightarrow> FinancialInput" where
  "project_step inp ob =
     (let k = so_Kind ob
      in if k = SourceKindPayment then inp\<lparr>fi_Payment := obs_payment ob\<rparr>
         else if k = SourceKindPayout then inp
         else if k = SourceKindSettlement then inp\<lparr>fi_Lines := fi_Lines inp @ [obs_line ob]\<rparr>
         else if k = SourceKindBank then inp\<lparr>fi_Banks := fi_Banks inp @ [obs_bank ob]\<rparr>
         else if k = SourceKindMerchant then inp\<lparr>fi_Merchant := Some (obs_merchant ob)\<rparr>
         else if k = SourceKindDispute then inp\<lparr>fi_Disputes := fi_Disputes inp @ [obs_dispute ob]\<rparr>
         else if k = SourceKindRefund then inp\<lparr>fi_Refunds := fi_Refunds inp @ [obs_refund ob]\<rparr>
         else if k = SourceKindTax then inp\<lparr>fi_TaxLines := fi_TaxLines inp @ [obs_tax ob]\<rparr>
         else if k = SourceKindEvent then inp\<lparr>fi_Events := fi_Events inp @ [obs_event ob]\<rparr>
         else inp)"

definition ProjectFinancialInput :: "SourceObservation list \<Rightarrow> FinancialInput" where
  "ProjectFinancialInput obs = foldl project_step zero_FinancialInput obs"

definition obs_payout :: "SourceObservation \<Rightarrow> PayoutFact" where
  "obs_payout ob = zero_PayoutFact\<lparr>po_ID := so_ID ob,
     po_PayoutID := firstNonEmpty [so_EntityID ob, so_ID ob], po_ProviderStatus := so_Status ob,
     po_AmountMinor := so_AmountMinor ob, po_Currency := so_Currency ob, po_UTR := so_UTR ob,
     po_BatchID := so_BatchID ob\<rparr>"

definition sources_input :: "SourceObservation list \<Rightarrow> FinancialInput \<Rightarrow> FinancialInput" where
  "sources_input obs opts =
     (let inp = ProjectFinancialInput obs;
          inp = (if \<not> IsZero (fi_Now opts) then inp\<lparr>fi_Now := fi_Now opts\<rparr> else inp);
          inp = (if fi_StuckAfter opts > 0 then inp\<lparr>fi_StuckAfter := fi_StuckAfter opts\<rparr> else inp);
          inp = (if fi_Decisions opts \<noteq> [] then inp\<lparr>fi_Decisions := fi_Decisions opts\<rparr> else inp);
          inp = (if fi_Merchant inp = None then inp\<lparr>fi_Merchant := fi_Merchant opts\<rparr> else inp)
      in inp\<lparr>fi_Disputes := fi_Disputes inp @ fi_Disputes opts,
             fi_TaxLines := fi_TaxLines inp @ fi_TaxLines opts\<rparr>)"

definition ReconcileFromSources :: "time \<Rightarrow> SourceObservation list \<Rightarrow> FinancialInput \<Rightarrow> FinancialResult" where
  "ReconcileFromSources clock obs opts =
     (let obs = PickLatestObservations obs; inp = sources_input obs opts
      in if pf_PaymentID (fi_Payment inp) \<noteq> [] then ReconcilePayment clock inp
         else
           (let pout = foldl (\<lambda>p ob. if so_Kind ob = SourceKindPayout then obs_payout ob else p)
                         zero_PayoutFact obs
            in if po_PayoutID pout \<noteq> [] then
                 ReconcilePayout clock \<lparr>pi_Payout = pout, pi_Events = fi_Events inp,
                   pi_Banks = fi_Banks inp, pi_Now = fi_Now inp, pi_StuckAfter = fi_StuckAfter inp,
                   pi_Merchant = fi_Merchant inp\<rparr>
               else zero_FinancialResult\<lparr>fr_Result := ResultUnresolved,
                      fr_Reason := ''insufficient_evidence'', fr_Confidence := 0.2,
                      fr_RuleVersion := FinancialRuleVersion\<rparr>))"

definition line_obs :: "SettlementLine \<Rightarrow> SourceObservation" where
  "line_obs l = zero_SourceObservation\<lparr>so_Kind := SourceKindSettlement, so_ID := lineID l,
     so_EntityID := sl_PaymentID l, so_AmountMinor := sl_AmountMinor l,
     so_CreditMinor := sl_CreditMinor l, so_DebitMinor := sl_DebitMinor l,
     so_FeeMinor := sl_FeeMinor l, so_TaxMinor := sl_TaxMinor l, so_Currency := sl_Currency l,
     so_UTR := sl_UTR l, so_ValueDate := sl_SettledAt l\<rparr>"

definition bank_obs :: "BankTxn \<Rightarrow> SourceObservation" where
  "bank_obs b = zero_SourceObservation\<lparr>so_Kind := SourceKindBank, so_ID := bt_ID b,
     so_AmountMinor := bt_CreditMinor b, so_CreditMinor := bt_CreditMinor b,
     so_DebitMinor := bt_DebitMinor b, so_Currency := bt_Currency b, so_UTR := bt_UTR b,
     so_ValueDate := bt_ValueDate b\<rparr>"

definition dispute_obs :: "DisputeFact \<Rightarrow> SourceObservation" where
  "dispute_obs d = zero_SourceObservation\<lparr>so_Kind := SourceKindDispute, so_ID := df_ID d,
     so_EntityID := df_PaymentID d, so_AmountMinor := df_AmountMinor d,
     so_Currency := df_Currency d, so_Status := df_Status d\<rparr>"

definition tax_obs :: "TaxLineFact \<Rightarrow> SourceObservation" where
  "tax_obs t = zero_SourceObservation\<lparr>so_Kind := SourceKindTax, so_ID := tl_ID t,
     so_EntityID := tl_PaymentID t, so_InvoiceID := tl_InvoiceID t,
     so_AmountMinor := tl_AmountMinor t, so_Currency := tl_Currency t,
     so_Status := tl_Component t, so_OrderID := tl_HSN t\<rparr>"

definition payment_obs :: "PaymentFact \<Rightarrow> SourceObservation" where
  "payment_obs p = zero_SourceObservation\<lparr>so_Kind := SourceKindPayment, so_ID := pf_ID p,
     so_EntityID := pf_PaymentID p, so_AmountMinor := pf_AmountMinor p,
     so_Currency := pf_Currency p, so_Status := pf_CanonicalStatus p, so_Captured := pf_Captured p,
     so_FeeMinor := pf_FeeMinor p, so_TaxMinor := pf_TaxMinor p, so_BatchID := pf_BatchID p\<rparr>"

definition merchant_obs :: "MerchantBookFact \<Rightarrow> SourceObservation list" where
  "merchant_obs m =
     zero_SourceObservation\<lparr>so_Kind := SourceKindMerchant, so_ID := mb_ID m,
       so_EntityID := mb_PaymentID m, so_AmountMinor := mb_AmountMinor m,
       so_Currency := mb_Currency m, so_InvoiceID := mb_InvoiceID m, so_OrderID := mb_OrderID m,
       so_PayoutID := mb_PayoutID m, so_DueAt := mb_DueAt m, so_BatchID := mb_BatchID m,
       so_TaxMinor := mb_TaxMinor m\<rparr>
     # (case invoiceGSTMinor (Some m) [] of
          None \<Rightarrow> []
        | Some gst \<Rightarrow> [zero_SourceObservation\<lparr>so_Kind := SourceKindTax, so_ID := mb_ID m @ '':gst'',
            so_EntityID := mb_PaymentID m, so_InvoiceID := mb_InvoiceID m, so_AmountMinor := gst,
            so_Currency := mb_Currency m, so_Status := ''gst''\<rparr>])"

definition ObservationsFromInput :: "FinancialInput \<Rightarrow> SourceObservation list" where
  "ObservationsFromInput inp =
     (if pf_PaymentID (fi_Payment inp) \<noteq> [] then [payment_obs (fi_Payment inp)] else [])
     @ map dispute_obs (fi_Disputes inp) @ map line_obs (fi_Lines inp)
     @ map bank_obs (fi_Banks inp)
     @ (case fi_Merchant inp of None \<Rightarrow> [] | Some m \<Rightarrow> merchant_obs m)
     @ map tax_obs (fi_TaxLines inp)"

section \<open>The latest restatement\<close>

text \<open>
  The invariant of the loop, over the observations already seen: the order lists the keys of the
  map once each, and the map holds for each key an observation seen with that key whose version
  no seen observation with the key exceeds.
\<close>

text \<open>
  The reference: the keys in the order of their first appearance, and for each the last
  observation among those with the highest fact version.
\<close>

definition first_seen :: "string list \<Rightarrow> string list" where
  "first_seen ks = rev (remdups (rev ks))"

definition latest_of :: "SourceObservation list \<Rightarrow> string \<Rightarrow> SourceObservation" where
  "latest_of obs k =
     (let same = filter (\<lambda>p. obs_key p = k) obs
      in last (filter (\<lambda>p. so_FactVersion p = Max (so_FactVersion ` set same)) same))"

lemma first_seen_snoc:
  "first_seen (ks @ [k]) = (if k \<in> set ks then first_seen ks else first_seen ks @ [k])"
  by (simp add: first_seen_def)

lemma set_first_seen [simp]: "set (first_seen ks) = set ks"
  by (simp add: first_seen_def)

lemma latest_of_other: "obs_key ob \<noteq> k \<Longrightarrow> latest_of (obs @ [ob]) k = latest_of obs k"
  by (simp add: latest_of_def)

lemma latest_of_new:
  assumes "obs_key ob \<notin> obs_key ` set obs"
  shows "latest_of (obs @ [ob]) (obs_key ob) = ob"
proof -
  have "obs_key p \<noteq> obs_key ob" if "p \<in> set obs" for p
    using assms that by (metis imageI)
  then have "filter (\<lambda>p. obs_key p = obs_key ob) obs = []"
    by (simp add: filter_empty_conv)
  then show ?thesis by (simp add: latest_of_def)
qed

lemma latest_of_version:
  assumes "k \<in> obs_key ` set obs"
  shows "so_FactVersion (latest_of obs k) = Max (so_FactVersion ` set (filter (\<lambda>p. obs_key p = k) obs))"
proof -
  let ?same = "filter (\<lambda>p. obs_key p = k) obs"
  have "so_FactVersion ` set ?same \<noteq> {}" using assms by auto
  then have "Max (so_FactVersion ` set ?same) \<in> so_FactVersion ` set ?same"
    by (rule Max_in [rotated]) simp
  then have "filter (\<lambda>p. so_FactVersion p = Max (so_FactVersion ` set ?same)) ?same \<noteq> []"
    by (auto simp: filter_empty_conv)
  from last_in_set [OF this] show ?thesis
    by (simp add: latest_of_def Let_def)
qed

lemma latest_of_again:
  assumes "obs_key ob \<in> obs_key ` set obs"
  shows "latest_of (obs @ [ob]) (obs_key ob) =
    (if so_FactVersion (latest_of obs (obs_key ob)) \<le> so_FactVersion ob then ob
     else latest_of obs (obs_key ob))"
proof -
  let ?same = "filter (\<lambda>p. obs_key p = obs_key ob) obs"
  let ?V = "so_FactVersion ` set ?same"
  have ne: "?V \<noteq> {}" and fin: "finite ?V" using assms by auto
  have top: "Max (so_FactVersion ` set (filter (\<lambda>p. obs_key p = obs_key ob) (obs @ [ob])))
      = max (so_FactVersion ob) (Max ?V)"
    using ne fin by (simp add: Max_insert)
  have v: "so_FactVersion (latest_of obs (obs_key ob)) = Max ?V" by (rule latest_of_version [OF assms])
  show ?thesis
  proof (cases "Max ?V \<le> so_FactVersion ob")
    case True
    then show ?thesis unfolding v by (simp only: latest_of_def Let_def top) (simp add: max_def)
  next
    case False
    then show ?thesis unfolding v by (simp only: latest_of_def Let_def top) (simp add: max_def)
  qed
qed

lemma latest_of_snoc:
  "k \<in> obs_key ` set obs \<Longrightarrow> latest_of (obs @ [ob]) k =
     (if obs_key ob = k \<and> so_FactVersion (latest_of obs k) \<le> so_FactVersion ob then ob else latest_of obs k)"
proof (cases "obs_key ob = k")
  case True
  assume "k \<in> obs_key ` set obs"
  with True show ?thesis using latest_of_again [of ob obs] by simp
next
  case False
  then show ?thesis by (simp add: latest_of_other)
qed

lemma pick_run:
  "foldl pick_step (\<lambda>_. None, []) obs =
     (\<lambda>k. if k \<in> obs_key ` set obs then Some (latest_of obs k) else None,
      first_seen (map obs_key obs))"
proof (induction obs rule: rev_induct)
  case Nil
  show ?case by (simp add: first_seen_def)
next
  case (snoc ob obs)
  have f: "foldl pick_step (\<lambda>_. None, []) (obs @ [ob]) =
      pick_step (\<lambda>k. if k \<in> obs_key ` set obs then Some (latest_of obs k) else None,
        first_seen (map obs_key obs)) ob"
    by (simp only: foldl_append snoc.IH foldl.simps)
  show ?case
  proof (cases "obs_key ob \<in> obs_key ` set obs")
    case True
    then show ?thesis
      unfolding f by (auto simp: pick_step_def Let_def fun_eq_iff first_seen_snoc latest_of_snoc)
  next
    case False
    then show ?thesis
      unfolding f by (auto simp: pick_step_def Let_def fun_eq_iff first_seen_snoc latest_of_other latest_of_new)
  qed
qed

text \<open>
  Restatements are resolved as specified: \<open>PickLatestObservations\<close> returns, for every
  kind and entity in the order of first appearance, the last of the observations given that have
  the highest fact version for that kind and entity.
\<close>

theorem latest_restatement_per_entity:
  "PickLatestObservations obs = map (latest_of obs) (first_seen (map obs_key obs))"
  by (simp add: PickLatestObservations_def pick_run)

section \<open>Projection and its inverse\<close>

lemma project_fields:
  "fi_Disputes (foldl project_step inp obs)
     = fi_Disputes inp @ map obs_dispute (SourcesOfKind obs SourceKindDispute)"
  "fi_Lines (foldl project_step inp obs)
     = fi_Lines inp @ map obs_line (SourcesOfKind obs SourceKindSettlement)"
  "fi_Banks (foldl project_step inp obs)
     = fi_Banks inp @ map obs_bank (SourcesOfKind obs SourceKindBank)"
  "fi_TaxLines (foldl project_step inp obs)
     = fi_TaxLines inp @ map obs_tax (SourcesOfKind obs SourceKindTax)"
  "fi_Refunds (foldl project_step inp obs)
     = fi_Refunds inp @ map obs_refund (SourcesOfKind obs SourceKindRefund)"
  "fi_Events (foldl project_step inp obs)
     = fi_Events inp @ map obs_event (SourcesOfKind obs SourceKindEvent)"
  "fi_Decisions (foldl project_step inp obs) = fi_Decisions inp"
  by (induction obs arbitrary: inp) (simp_all add: project_step_def Let_def SourcesOfKind_def)

lemma SourcesOfKind_append [simp]:
  "SourcesOfKind (xs @ ys) k = SourcesOfKind xs k @ SourcesOfKind ys k"
  by (simp add: SourcesOfKind_def)

lemma SourcesOfKind_map:
  "SourcesOfKind (map dispute_obs ds) k = (if k = SourceKindDispute then map dispute_obs ds else [])"
  "SourcesOfKind (map line_obs ls) k = (if k = SourceKindSettlement then map line_obs ls else [])"
  "SourcesOfKind (map bank_obs bs) k = (if k = SourceKindBank then map bank_obs bs else [])"
  "SourcesOfKind (map tax_obs ts) k = (if k = SourceKindTax then map tax_obs ts else [])"
  by (simp_all add: SourcesOfKind_def dispute_obs_def line_obs_def bank_obs_def tax_obs_def
      filter_map comp_def)

lemma obs_inverse [simp]:
  "obs_dispute (dispute_obs d) = d" "obs_tax (tax_obs t) = t"
  by (simp_all add: obs_dispute_def dispute_obs_def obs_tax_def tax_obs_def)

lemma map_inverse [simp]:
  "map (obs_dispute \<circ> dispute_obs) ds = ds" "map (obs_tax \<circ> tax_obs) ts = ts"
  by (simp_all add: comp_def)

lemma SourcesOfKind_payment [simp]:
  "k \<noteq> SourceKindPayment \<Longrightarrow> SourcesOfKind [payment_obs p] k = []"
  by (simp add: SourcesOfKind_def payment_obs_def)

lemma SourcesOfKind_Nil [simp]: "SourcesOfKind [] k = []"
  by (simp add: SourcesOfKind_def)

lemma SourcesOfKind_merchant [simp]:
  "k \<notin> {SourceKindMerchant, SourceKindTax} \<Longrightarrow> SourcesOfKind (merchant_obs m) k = []"
  by (auto simp: SourcesOfKind_def merchant_obs_def split: option.split)

lemma merchant_tax_obs:
  "map obs_tax (SourcesOfKind (merchant_obs m) SourceKindTax) =
     (case invoiceGSTMinor (Some m) [] of None \<Rightarrow> []
      | Some gst \<Rightarrow> [\<lparr>tl_ID = mb_ID m @ '':gst'', tl_PaymentID = mb_PaymentID m,
          tl_InvoiceID = mb_InvoiceID m, tl_Component = ''gst'', tl_AmountMinor = gst,
          tl_Currency = mb_Currency m, tl_HSN = []\<rparr>])"
  by (simp add: SourcesOfKind_def merchant_obs_def obs_tax_def zero_SourceObservation_def
      split: option.split)

text \<open>
  Going through the open observation list loses no dispute, tax line, line amount or bank
  movement: projecting the observations of an input gives back its disputes, its tax lines
  (after the one the merchant's own tax total contributes), and for every settlement line and
  bank row, in order, the net and the credit, debit, reference and currency it had.
\<close>

theorem observations_round_trip:
  "let out = ProjectFinancialInput (ObservationsFromInput inp) in
     fi_Disputes out = fi_Disputes inp
   \<and> (\<exists>gst. fi_TaxLines out = gst @ fi_TaxLines inp \<and> length gst \<le> 1
        \<and> (fi_Merchant inp = None \<longrightarrow> gst = []))
   \<and> map lineNet (fi_Lines out) = map lineNet (fi_Lines inp)
   \<and> map (\<lambda>b. (bt_ID b, bt_UTR b, bt_Currency b, bt_CreditMinor b, bt_DebitMinor b, bt_ValueDate b))
       (fi_Banks out)
     = map (\<lambda>b. (bt_ID b, bt_UTR b, bt_Currency b, bt_CreditMinor b, bt_DebitMinor b, bt_ValueDate b))
       (fi_Banks inp)"
proof -
  have l: "lineNet (obs_line (line_obs l)) = lineNet l" for l
    by (simp add: lineNet_def obs_line_def line_obs_def)
  define gst where "gst = map obs_tax (SourcesOfKind
    (case fi_Merchant inp of None \<Rightarrow> [] | Some m \<Rightarrow> merchant_obs m) SourceKindTax)"
  have g: "length gst \<le> 1 \<and> (fi_Merchant inp = None \<longrightarrow> gst = [])"
    by (cases "fi_Merchant inp") (simp_all add: gst_def merchant_tax_obs split: option.split
        del: length_map)
  have z: "fi_Disputes zero_FinancialInput = []" "fi_TaxLines zero_FinancialInput = []"
    "fi_Lines zero_FinancialInput = []" "fi_Banks zero_FinancialInput = []"
    by (simp_all add: zero_FinancialInput_def)
  have m: "SourcesOfKind (case fi_Merchant inp of None \<Rightarrow> [] | Some m \<Rightarrow> merchant_obs m) k = []"
    if "k \<notin> {SourceKindMerchant, SourceKindTax}" for k
    using that by (simp split: option.split)
  have p: "SourcesOfKind (if pf_PaymentID (fi_Payment inp) \<noteq> [] then [payment_obs (fi_Payment inp)]
      else []) k = []" if "k \<noteq> SourceKindPayment" for k
    using that by simp
  have t: "fi_TaxLines (ProjectFinancialInput (ObservationsFromInput inp)) = gst @ fi_TaxLines inp"
    by (simp only: ProjectFinancialInput_def ObservationsFromInput_def project_fields z
        SourcesOfKind_append map_append SourcesOfKind_map)
       (simp add: p gst_def)
  show ?thesis
    unfolding Let_def t
    by (intro conjI exI [of _ gst])
       (simp_all add: g [simplified] ProjectFinancialInput_def ObservationsFromInput_def project_fields z
         SourcesOfKind_map m p l comp_def obs_bank_def bank_obs_def)
qed

lemma observations_round_trip_witness:
  "fi_TaxLines (ProjectFinancialInput (ObservationsFromInput sample_input)) = []
   \<and> map lineNet (fi_Lines (ProjectFinancialInput (ObservationsFromInput sample_input))) = [lineNet sample_line]
   \<and> map bt_ID (fi_Banks (ProjectFinancialInput (ObservationsFromInput sample_input))) = [bt_ID sample_bank]"
proof -
  let ?out = "ProjectFinancialInput (ObservationsFromInput sample_input)"
  note r = observations_round_trip [of sample_input, unfolded Let_def]
  have "fi_TaxLines ?out = []" "map lineNet (fi_Lines ?out) = [lineNet sample_line]"
    using r by auto
  moreover have "map fst (map (\<lambda>b. (bt_ID b, bt_UTR b, bt_Currency b, bt_CreditMinor b, bt_DebitMinor b, bt_ValueDate b))
       (fi_Banks ?out)) = [bt_ID sample_bank]"
    using r by (simp only:) simp
  ultimately show ?thesis by (simp add: comp_def)
qed

end
