(* ===== verification/RunEngine.thy ===== *)
theory RunEngine
  imports PayoutRecon
begin

text \<open>
  The pure part of a reconciliation run, from \<^verbatim>\<open>financial_service.go\<close> and the
  indexes of \<^verbatim>\<open>matcher.go\<close>: scoping, indexing, selecting the bank rows related to a
  payment or payout, reconciling every entity, demoting results that share a bank row
  (\<open>applySharedBankAmbiguity\<close>) and reporting the credits nothing used.

  Go's iteration order over a map is arbitrary: \<open>ordB\<close> is the order in which the banks of
  \<open>bankToIdx\<close> are visited and \<open>ordP b\<close> the order of the payments that share bank \<open>b\<close>.
\<close>

section \<open>Scoping and indexing\<close>

definition scopePayments :: "PaymentFact list \<Rightarrow> string \<Rightarrow> PaymentFact list" where
  "scopePayments pays batchID =
     (let batchID = TrimSpace batchID
      in if batchID = [] then pays
         else filter (\<lambda>p. EqualFold (TrimSpace (pf_BatchID p)) batchID) pays)"

definition payoutIDSet :: "string list \<Rightarrow> string set" where
  "payoutIDSet ids = {i \<in> set (map TrimSpace ids). i \<noteq> []}"

definition scopePayouts :: "PayoutFact list \<Rightarrow> string \<Rightarrow> string set \<Rightarrow> PayoutFact list" where
  "scopePayouts payouts batchID want =
     (let batchID = TrimSpace batchID
      in if want = {} \<and> batchID = [] then payouts
         else filter (\<lambda>po. if want \<noteq> {} then po_PayoutID po \<in> want
                           else EqualFold (TrimSpace (po_BatchID po)) batchID) payouts)"

definition book_step :: "(string \<rightharpoonup> MerchantBookFact) \<times> (string \<rightharpoonup> MerchantBookFact) \<Rightarrow> MerchantBookFact
    \<Rightarrow> (string \<rightharpoonup> MerchantBookFact) \<times> (string \<rightharpoonup> MerchantBookFact)" where
  "book_step m f =
     (let (byPay, byPayout) = m; pid = TrimSpace (mb_PaymentID f); po = TrimSpace (mb_PayoutID f)
      in (if pid \<noteq> [] then byPay(pid \<mapsto> f) else byPay, if po \<noteq> [] then byPayout(po \<mapsto> f) else byPayout))"

definition indexMerchantBooks :: "MerchantBookFact list
    \<Rightarrow> (string \<rightharpoonup> MerchantBookFact) \<times> (string \<rightharpoonup> MerchantBookFact)" where
  "indexMerchantBooks facts = foldl book_step (Map.empty, Map.empty) facts"

definition index_line :: "(string \<Rightarrow> SettlementLine list) \<Rightarrow> SettlementLine \<Rightarrow> string \<Rightarrow> SettlementLine list" where
  "index_line m l =
     (let m = (if sl_PaymentID l \<noteq> [] then m(sl_PaymentID l := m (sl_PaymentID l) @ [l]) else m)
      in if sl_EntityID l \<noteq> [] \<and> sl_EntityID l \<noteq> sl_PaymentID l
         then m(sl_EntityID l := m (sl_EntityID l) @ [l]) else m)"

definition indexSettlementByPayment :: "SettlementLine list \<Rightarrow> string \<Rightarrow> SettlementLine list" where
  "indexSettlementByPayment lines = foldl index_line (\<lambda>_. []) lines"

definition index_decision :: "(string \<Rightarrow> SettlementBankDecision list) \<Rightarrow> SettlementBankDecision
    \<Rightarrow> string \<Rightarrow> SettlementBankDecision list" where
  "index_decision m d =
     (if bd_SettlementLineID d \<noteq> []
      then m(bd_SettlementLineID d := m (bd_SettlementLineID d) @ [d]) else m)"

definition decisionsByLine :: "SettlementBankDecision list \<Rightarrow> string \<Rightarrow> SettlementBankDecision list" where
  "decisionsByLine ds = foldl index_decision (\<lambda>_. []) ds"

definition bankByID_map :: "BankTxn list \<Rightarrow> string \<rightharpoonup> BankTxn" where
  "bankByID_map banks = foldl (\<lambda>m b. m(bt_ID b \<mapsto> b)) Map.empty banks"

definition refundsFor :: "RefundFact list \<Rightarrow> string \<Rightarrow> RefundFact list" where
  "refundsFor refunds paymentID = filter (\<lambda>r. rf_PaymentID r = paymentID) refunds"

section \<open>Related bank rows\<close>

definition event_utrs :: "ObservationFact list \<Rightarrow> string set" where
  "event_utrs events = {u \<in> set (map (\<lambda>e. normalizeUTR (of_RawReference e)) events). u \<noteq> []}"

definition decision_banks :: "SettlementBankDecision list \<Rightarrow> string set" where
  "decision_banks ds =
     {i \<in> set (map bd_BankObservationID ds). i \<noteq> []} \<union> set (concat (map bd_Candidates ds))"

definition bank_related :: "string set \<Rightarrow> string set \<Rightarrow> BankTxn \<Rightarrow> bool" where
  "bank_related ids utrs b \<longleftrightarrow>
     bt_ID b \<in> ids \<or> normalizeUTR (bt_UTR b) \<in> utrs
     \<or> (bt_UTRRaw b \<noteq> [] \<and> normalizeUTR (bt_UTRRaw b) \<in> utrs)"

fun related_loop :: "string set \<Rightarrow> string set \<Rightarrow> string set \<Rightarrow> BankTxn list \<Rightarrow> BankTxn list" where
  "related_loop ids utrs seen [] = []"
| "related_loop ids utrs seen (b # bs) =
     (if \<not> bank_related ids utrs b then related_loop ids utrs seen bs
      else if bt_ID b \<in> seen then related_loop ids utrs seen bs
      else b # related_loop ids utrs (insert (bt_ID b) seen) bs)"

definition relatedBanks :: "ObservationFact list \<Rightarrow> BankTxn list \<Rightarrow> SettlementBankDecision list \<Rightarrow> BankTxn list" where
  "relatedBanks events banks decisions =
     related_loop (decision_banks decisions) (event_utrs events) {} banks"

definition payout_related :: "PayoutFact \<Rightarrow> string set \<Rightarrow> BankTxn \<Rightarrow> bool" where
  "payout_related p utrs b \<longleftrightarrow>
     (let bu = normalizeUTR (bt_UTR b); bu = (if bu = [] then normalizeUTR (bt_UTRRaw b) else bu)
      in bu \<in> utrs \<or> (0 <s po_AmountMinor p \<and> amount_agrees p b))"

definition relatedPayoutBanks :: "PayoutFact \<Rightarrow> ObservationFact list \<Rightarrow> BankTxn list \<Rightarrow> BankTxn list" where
  "relatedPayoutBanks p events banks =
     (let u = normalizeUTR (po_UTR p); utrs = (if u \<noteq> [] then {u} else {}) \<union> event_utrs events
      in filter (payout_related p utrs) banks)"

section \<open>Bank rows in use\<close>

definition markUsedBanks :: "string set \<Rightarrow> FinancialResult \<Rightarrow> string set" where
  "markUsedBanks used fr =
     (let i = er_BankObservationID (fr_EvidenceRefs fr)
      in (if i \<noteq> [] then insert i used else used) \<union> set (fr_CandidateIDs fr))"

definition used_by :: "FinancialResult \<Rightarrow> string list" where
  "used_by r = remdups (nonempty_list (er_BankObservationID (fr_EvidenceRefs r)) @ fr_CandidateIDs r)"

definition payment_banks :: "FinancialResult \<Rightarrow> string list" where
  "payment_banks r = (if fr_EntityType r = EntityPayment then used_by r else [])"

definition bank_keys :: "FinancialResult list \<Rightarrow> string list" where
  "bank_keys rs = remdups (concat (map payment_banks rs))"

definition sharing :: "FinancialResult list \<Rightarrow> string \<Rightarrow> string list" where
  "sharing rs b = remdups (map fr_EntityID (filter (\<lambda>r. b \<in> set (payment_banks r)) rs))"

text \<open>What the loop over \<open>bankToIdx\<close> has written into \<open>flipped\<close> for one result.\<close>

definition flip_step :: "(string \<Rightarrow> string list \<Rightarrow> string list) \<Rightarrow> FinancialResult list \<Rightarrow> FinancialResult
    \<Rightarrow> string list option \<Rightarrow> string \<Rightarrow> string list option" where
  "flip_step ordP rs r acc b =
     (if length (sharing rs b) < 2 then acc
      else if b \<in> set (payment_banks r) then Some (ordP b (sharing rs b) @ [b])
      else acc)"

definition flipped :: "(string list \<Rightarrow> string list) \<Rightarrow> (string \<Rightarrow> string list \<Rightarrow> string list)
    \<Rightarrow> FinancialResult list \<Rightarrow> FinancialResult \<Rightarrow> string list option" where
  "flipped ordB ordP rs r = foldl (flip_step ordP rs r) None (ordB (bank_keys rs))"

definition applySharedBankAmbiguity :: "(string list \<Rightarrow> string list) \<Rightarrow> (string \<Rightarrow> string list \<Rightarrow> string list)
    \<Rightarrow> FinancialResult list \<Rightarrow> FinancialResult list" where
  "applySharedBankAmbiguity ordB ordP rs =
     map (\<lambda>r. case flipped ordB ordP rs r of None \<Rightarrow> r | Some cands \<Rightarrow> MarkAmbiguous r cands) rs"

section \<open>Sharing is found, whatever the order\<close>

lemma used_by_set:
  "set (used_by r) = {i. i = er_BankObservationID (fr_EvidenceRefs r) \<and> i \<noteq> []} \<union> set (fr_CandidateIDs r)"
  by (auto simp: used_by_def)

lemma markUsedBanks_set: "markUsedBanks used fr = used \<union> set (used_by fr)"
  by (auto simp: markUsedBanks_def Let_def used_by_set)

definition shares_bank :: "FinancialResult list \<Rightarrow> FinancialResult \<Rightarrow> bool" where
  "shares_bank rs r \<longleftrightarrow> (\<exists>b \<in> set (payment_banks r). \<exists>s \<in> set rs.
     b \<in> set (payment_banks s) \<and> fr_EntityID s \<noteq> fr_EntityID r)"

lemma sharing_two:
  assumes "r \<in> set rs" "b \<in> set (payment_banks r)"
  shows "2 \<le> length (sharing rs b) \<longleftrightarrow>
    (\<exists>s \<in> set rs. b \<in> set (payment_banks s) \<and> fr_EntityID s \<noteq> fr_EntityID r)"
proof -
  let ?ids = "fr_EntityID ` {s \<in> set rs. b \<in> set (payment_banks s)}"
  have fin: "finite ?ids" by simp
  have mem: "fr_EntityID r \<in> ?ids" using assms by auto
  have "length (sharing rs b) = card ?ids"
    by (simp add: sharing_def length_remdups_card_conv)
  moreover have "2 \<le> card ?ids \<longleftrightarrow> ?ids \<noteq> {fr_EntityID r}"
  proof
    assume "2 \<le> card ?ids"
    then show "?ids \<noteq> {fr_EntityID r}" by (metis card.empty card_insert_disjoint empty_iff
        finite.emptyI numeral_le_one_iff One_nat_def semiring_norm(69))
  next
    assume "?ids \<noteq> {fr_EntityID r}"
    then have "card ?ids \<noteq> 1" using mem by (metis card_1_singletonE singletonD)
    moreover have "card ?ids \<noteq> 0" using fin mem by auto
    ultimately show "2 \<le> card ?ids" by linarith
  qed
  ultimately show ?thesis using mem by auto
qed

lemma flip_fold:
  "foldl (flip_step ordP rs r) acc bs = None \<longleftrightarrow>
     acc = None \<and> (\<forall>b \<in> set bs. \<not> (2 \<le> length (sharing rs b) \<and> b \<in> set (payment_banks r)))"
  by (induction bs arbitrary: acc) (auto simp: flip_step_def)

lemma payment_banks_keys: "r \<in> set rs \<Longrightarrow> b \<in> set (payment_banks r) \<Longrightarrow> b \<in> set (bank_keys rs)"
  by (auto simp: bank_keys_def)

lemma flipped_iff:
  assumes "r \<in> set rs" and "set (ordB (bank_keys rs)) = set (bank_keys rs)"
  shows "flipped ordB ordP rs r \<noteq> None \<longleftrightarrow> shares_bank rs r"
proof -
  have "flipped ordB ordP rs r \<noteq> None \<longleftrightarrow>
      (\<exists>b \<in> set (payment_banks r). 2 \<le> length (sharing rs b))"
    using payment_banks_keys [OF assms(1)] unfolding flipped_def flip_fold assms(2) by blast
  also have "\<dots> \<longleftrightarrow> shares_bank rs r"
    using sharing_two [OF assms(1)] unfolding shares_bank_def by blast
  finally show ?thesis .
qed

lemma MarkAmbiguous_fields [simp]:
  "fr_Result (MarkAmbiguous r c) = ResultAmbiguous"
  "fr_BankCreditProven (MarkAmbiguous r c) = False"
  "fr_EntityID (MarkAmbiguous r c) = fr_EntityID r"
  "fr_EntityType (MarkAmbiguous r c) = fr_EntityType r"
  "fr_EvidenceRefs (MarkAmbiguous r c) = fr_EvidenceRefs r"
  "fr_CandidateIDs (MarkAmbiguous r c) = c"
  "fr_Reason (MarkAmbiguous r c) = ''shared_utr_or_bank_candidates''"
  by (simp_all add: MarkAmbiguous_def)

text \<open>
  One bank row never proves two payments.  Whatever order Go visits its maps in, the demotion
  step turns into \<open>AMBIGUOUS\<close>, with bank credit unproven, exactly the payment results that
  share a bank row (their evidence's or a candidate) with a result for a different payment; every
  other result is left untouched.
\<close>

theorem shared_bank_demotes_exactly_the_sharers:
  assumes "set (ordB (bank_keys rs)) = set (bank_keys rs)"
  shows "length (applySharedBankAmbiguity ordB ordP rs) = length rs \<and>
    (\<forall>i < length rs. let r = rs ! i; r' = applySharedBankAmbiguity ordB ordP rs ! i in
       if shares_bank rs r
       then fr_Result r' = ResultAmbiguous \<and> \<not> fr_BankCreditProven r' \<and> fr_EntityID r' = fr_EntityID r
            \<and> fr_EvidenceRefs r' = fr_EvidenceRefs r
       else r' = r)"
proof -
  have f: "flipped ordB ordP rs (rs ! i) = None \<longleftrightarrow> \<not> shares_bank rs (rs ! i)" if "i < length rs" for i
    using flipped_iff [where ordB = ordB] assms that by (metis nth_mem)
  have "let r = rs ! i; r' = applySharedBankAmbiguity ordB ordP rs ! i in
       if shares_bank rs r
       then fr_Result r' = ResultAmbiguous \<and> \<not> fr_BankCreditProven r' \<and> fr_EntityID r' = fr_EntityID r
            \<and> fr_EvidenceRefs r' = fr_EvidenceRefs r
       else r' = r" if "i < length rs" for i
    using f [OF that] that
    by (cases "flipped ordB ordP rs (rs ! i)") (auto simp: applySharedBankAmbiguity_def Let_def)
  then show ?thesis by (simp add: applySharedBankAmbiguity_def)
qed

definition paid_on :: "string \<Rightarrow> string \<Rightarrow> FinancialResult" where
  "paid_on pay bank = zero_FinancialResult\<lparr>fr_EntityType := EntityPayment, fr_EntityID := pay,
     fr_Result := ResultMatched, fr_Reason := ''captured_settlement_exact_bank'',
     fr_BankCreditProven := True,
     fr_EvidenceRefs := zero_EvidenceRefs\<lparr>er_BankObservationID := bank\<rparr>\<rparr>"

lemma paid_on_sel [simp]:
  "payment_banks (paid_on p b) = (if b = [] then [] else [b])" "fr_EntityID (paid_on p b) = p"
  by (simp_all add: paid_on_def payment_banks_def used_by_def zero_defs)

lemma shared_bank_demotes_exactly_the_sharers_witness:
  "fr_Result (applySharedBankAmbiguity id (\<lambda>_. id) [paid_on ''p1'' ''b'', paid_on ''p2'' ''b''] ! 1)
     = ResultAmbiguous"
proof -
  let ?rs = "[paid_on ''p1'' ''b'', paid_on ''p2'' ''b'']"
  have "shares_bank ?rs (paid_on ''p2'' ''b'')" by (simp add: shares_bank_def)
  then show ?thesis
    using shared_bank_demotes_exactly_the_sharers [of id ?rs "\<lambda>_. id"] by (auto simp: Let_def)
qed

lemma apply_nth:
  assumes "set (ordB (bank_keys rs)) = set (bank_keys rs)"
    and "r' \<in> set (applySharedBankAmbiguity ordB ordP rs)" "fr_BankCreditProven r'"
  shows "r' \<in> set rs \<and> \<not> shares_bank rs r'"
proof -
  from assms(2) obtain r where r: "r \<in> set rs" "r' = (case flipped ordB ordP rs r of None \<Rightarrow> r
      | Some cands \<Rightarrow> MarkAmbiguous r cands)"
    by (auto simp: applySharedBankAmbiguity_def)
  with assms(3) have "flipped ordB ordP rs r = None" by (cases "flipped ordB ordP rs r") auto
  with r flipped_iff [where ordB = ordB and ordP = ordP, OF r(1) assms(1)] show ?thesis by simp
qed

text \<open>
  C38.  Afterwards no two proven payments rest on the same bank row: if two results for different
  payments both still have bank credit proven, the bank rows their evidence names are different,
  or absent.
\<close>

theorem proven_payments_have_distinct_bank_rows:
  assumes "set (ordB (bank_keys rs)) = set (bank_keys rs)"
    and "r \<in> set (applySharedBankAmbiguity ordB ordP rs)" "fr_BankCreditProven r"
      "fr_EntityType r = EntityPayment"
    and "s \<in> set (applySharedBankAmbiguity ordB ordP rs)" "fr_BankCreditProven s"
      "fr_EntityType s = EntityPayment"
    and "fr_EntityID r \<noteq> fr_EntityID s"
    and "er_BankObservationID (fr_EvidenceRefs r) \<noteq> []"
  shows "er_BankObservationID (fr_EvidenceRefs r) \<noteq> er_BankObservationID (fr_EvidenceRefs s)"
proof
  assume eq: "er_BankObservationID (fr_EvidenceRefs r) = er_BankObservationID (fr_EvidenceRefs s)"
  let ?b = "er_BankObservationID (fr_EvidenceRefs r)"
  have "?b \<in> set (payment_banks r)" "?b \<in> set (payment_banks s)"
    using assms(4,7,9) eq by (auto simp: payment_banks_def used_by_set)
  moreover have "s \<in> set rs" "\<not> shares_bank rs r"
    using apply_nth [OF assms(1) assms(2,3)] apply_nth [OF assms(1) assms(5,6)] by auto
  ultimately show False using assms(8) by (auto simp: shares_bank_def)
qed

lemma proven_payments_have_distinct_bank_rows_witness:
  "er_BankObservationID (fr_EvidenceRefs (paid_on ''p1'' ''b1''))
     \<noteq> er_BankObservationID (fr_EvidenceRefs (paid_on ''p2'' ''b2''))"
proof (rule proven_payments_have_distinct_bank_rows)
  let ?rs = "[paid_on ''p1'' ''b1'', paid_on ''p2'' ''b2'']"
  show "set (id (bank_keys ?rs)) = set (bank_keys ?rs)" by simp
  have "applySharedBankAmbiguity id (\<lambda>_. id) ?rs = ?rs"
    by (simp add: applySharedBankAmbiguity_def flipped_def bank_keys_def flip_step_def sharing_def)
  then show "paid_on ''p1'' ''b1'' \<in> set (applySharedBankAmbiguity id (\<lambda>_. id) ?rs)"
    "paid_on ''p2'' ''b2'' \<in> set (applySharedBankAmbiguity id (\<lambda>_. id) ?rs)" by simp_all
qed (simp_all add: paid_on_def zero_defs)

section \<open>The indexes\<close>

lemma index_lines_closed:
  "foldl index_line m lines pid = m pid @ filter (\<lambda>l. (sl_PaymentID l \<noteq> [] \<and> sl_PaymentID l = pid)
     \<or> (sl_EntityID l \<noteq> [] \<and> sl_EntityID l \<noteq> sl_PaymentID l \<and> sl_EntityID l = pid)) lines"
  by (induction lines arbitrary: m) (auto simp: index_line_def Let_def)

lemma indexSettlementByPayment_closed:
  "indexSettlementByPayment lines pid = filter (\<lambda>l. (sl_PaymentID l \<noteq> [] \<and> sl_PaymentID l = pid)
     \<or> (sl_EntityID l \<noteq> [] \<and> sl_EntityID l \<noteq> sl_PaymentID l \<and> sl_EntityID l = pid)) lines"
  by (simp add: indexSettlementByPayment_def index_lines_closed)

lemma decisionsByLine_closed:
  "decisionsByLine ds i = filter (\<lambda>d. bd_SettlementLineID d \<noteq> [] \<and> bd_SettlementLineID d = i) ds"
proof -
  have "foldl index_decision m ds i
      = m i @ filter (\<lambda>d. bd_SettlementLineID d \<noteq> [] \<and> bd_SettlementLineID d = i) ds" for m
    by (induction ds arbitrary: m) (auto simp: index_decision_def)
  then show ?thesis by (simp add: decisionsByLine_def)
qed

lemma related_loop_set:
  "b \<in> set (related_loop ids utrs seen bs) \<Longrightarrow> b \<in> set bs \<and> bank_related ids utrs b \<and> bt_ID b \<notin> seen"
  by (induction ids utrs seen bs rule: related_loop.induct) (auto split: if_splits)

lemma related_loop_distinct: "distinct (map bt_ID (related_loop ids utrs seen bs))"
  by (induction ids utrs seen bs rule: related_loop.induct) (auto dest: related_loop_set)

lemma bankByID_map_Some:
  "bankByID_map banks i = Some b \<Longrightarrow> b \<in> set banks \<and> bt_ID b = i"
proof -
  have "foldl (\<lambda>m b. m(bt_ID b \<mapsto> b)) m banks i = Some b \<Longrightarrow>
      m i = Some b \<or> (b \<in> set banks \<and> bt_ID b = i)" for m
    by (induction banks arbitrary: m) (fastforce split: if_splits)+
  from this [of Map.empty] show "bankByID_map banks i = Some b \<Longrightarrow> b \<in> set banks \<and> bt_ID b = i"
    by (simp add: bankByID_map_def)
qed

end
