(* ===== verification/Marketplace.thy ===== *)
theory Marketplace
  imports Facts
begin

text \<open>
  The marketplace counsel signals: \<^verbatim>\<open>marketplace_pattern.go\<close> (refund counts and sums per
  seller), \<^verbatim>\<open>marketplace_refund_graph.go\<close> (refunds without a reverse transfer, velocity
  flags) and the projection of \<^verbatim>\<open>refund_graph_exceptions.go\<close>.  They are advisory: the
  lemmas show that they count what they say they count and never order a payout block.

  \<open>srt\<close> stands for \<open>sort.Slice\<close> where the order of equal elements is not determined, and
  \<open>sha1\<close> for the name-based UUID of the external package \<^verbatim>\<open>google/uuid\<close>.
\<close>

section \<open>Patterns per seller\<close>

record MarketplaceSellerPattern =
  mp_SellerID :: string
  mp_RefundCount :: int64
  mp_RefundSumMinor :: int64

record MarketplacePatternAdvisory =
  ma_SellerID :: string
  ma_RefundCount :: int64
  ma_RefundSumMinor :: int64
  ma_Reason :: string

definition JoinsSellerCluster :: "RefundFact \<Rightarrow> bool" where
  "JoinsSellerCluster r \<longleftrightarrow> TrimSpace (rf_SellerID r) \<noteq> []"

definition CountsTowardSellerPattern :: "RefundFact \<Rightarrow> bool" where
  "CountsTowardSellerPattern r \<longleftrightarrow>
     ToLower (TrimSpace (rf_ProviderStatus r)) \<notin> {''failed'', ''cancelled'', ''canceled''}"

definition agg_step :: "(string \<times> int64 \<times> int64) list \<Rightarrow> RefundFact \<Rightarrow> (string \<times> int64 \<times> int64) list" where
  "agg_step m r =
     (if \<not> JoinsSellerCluster r \<or> \<not> CountsTowardSellerPattern r then m
      else let sid = TrimSpace (rf_SellerID r);
               (c, s) = (case map_of m sid of None \<Rightarrow> (0, 0) | Some a \<Rightarrow> a)
        in alist_put sid (c + 1, s + rf_AmountMinor r) m)"

definition AggregateMarketplaceSellerPatterns :: "RefundFact list \<Rightarrow> MarketplaceSellerPattern list" where
  "AggregateMarketplaceSellerPatterns refunds =
     SliceStable (\<lambda>a b. mp_SellerID a < mp_SellerID b)
       (map (\<lambda>(sid, c, s). \<lparr>mp_SellerID = sid, mp_RefundCount = c, mp_RefundSumMinor = s\<rparr>)
         (foldl agg_step [] refunds))"

definition breach :: "int64 \<Rightarrow> int64 \<Rightarrow> MarketplaceSellerPattern \<Rightarrow> MarketplacePatternAdvisory list" where
  "breach countThreshold sumThreshold p =
     (let adv = (\<lambda>why. \<lparr>ma_SellerID = mp_SellerID p, ma_RefundCount = mp_RefundCount p,
                  ma_RefundSumMinor = mp_RefundSumMinor p, ma_Reason = why\<rparr>)
      in (if 0 <s countThreshold \<and> countThreshold \<le>s mp_RefundCount p
          then [adv ''refund_count_threshold''] else [])
       @ (if 0 <s sumThreshold \<and> sumThreshold \<le>s mp_RefundSumMinor p
          then [adv ''refund_sum_threshold''] else []))"

definition EvaluateMarketplacePatternBreach ::
    "MarketplaceSellerPattern list \<Rightarrow> int64 \<Rightarrow> int64 \<Rightarrow> MarketplacePatternAdvisory list" where
  "EvaluateMarketplacePatternBreach patterns countThreshold sumThreshold =
     concat (map (breach countThreshold sumThreshold) patterns)"

section \<open>Velocity flags\<close>

record MarketplaceVelocityConfig =
  vc_CountThreshold :: int64
  vc_SumThreshold :: int64
  vc_HoldEnabled :: bool

record MarketplaceVelocityFlag =
  vf_SellerID :: string
  vf_RefundCount :: int64
  vf_RefundSumMinor :: int64
  vf_Reason :: string
  vf_OpsFlag :: bool
  vf_AuditNote :: string
  vf_HoldRecommended :: bool
  vf_AutoBlockPayout :: bool

definition EvaluateMarketplaceVelocity ::
    "MarketplaceSellerPattern list \<Rightarrow> MarketplaceVelocityConfig \<Rightarrow> MarketplaceVelocityFlag list" where
  "EvaluateMarketplaceVelocity patterns cfg =
     map (\<lambda>a. \<lparr>vf_SellerID = ma_SellerID a, vf_RefundCount = ma_RefundCount a,
               vf_RefundSumMinor = ma_RefundSumMinor a, vf_Reason = ma_Reason a, vf_OpsFlag = True,
               vf_AuditNote = ''marketplace_velocity:'' @ ma_Reason a,
               vf_HoldRecommended = vc_HoldEnabled cfg, vf_AutoBlockPayout = False\<rparr>)
       (EvaluateMarketplacePatternBreach patterns (vc_CountThreshold cfg) (vc_SumThreshold cfg))"

section \<open>Refunds without a reverse transfer\<close>

abbreviation (input) ReasonRefundWithoutReverse :: string where
  "ReasonRefundWithoutReverse \<equiv> ''refund_without_reverse_transfer''"

record MarketplaceTransferEdge =
  te_ID :: string
  te_TenantID :: string
  te_ConnectorID :: string
  te_TransferID :: string
  te_ReverseTransferID :: string
  te_PaymentID :: string
  te_RefundID :: string
  te_SellerID :: string
  te_AmountMinor :: int64
  te_Currency :: string
  te_TransferAt :: time
  te_ReverseAt :: time
  te_CreatedAt :: time
  te_RefundIDFromReversal :: bool

definition HasReverse :: "MarketplaceTransferEdge \<Rightarrow> bool" where
  "HasReverse e \<longleftrightarrow> TrimSpace (te_ReverseTransferID e) \<noteq> []"

record MarketplaceRefundGraphSignal =
  gs_TenantID :: string
  gs_ConnectorID :: string
  gs_RefundID :: string
  gs_PaymentID :: string
  gs_SellerID :: string
  gs_AmountMinor :: int64
  gs_Reason :: string
  gs_ProviderStatus :: string
  gs_Currency :: string

text \<open>The two indexes the first loop builds: reversed (payment, seller) pairs, and (refund, seller).\<close>

definition reverse_step :: "(string \<times> string) set \<times> (string \<times> string) set \<Rightarrow> MarketplaceTransferEdge
    \<Rightarrow> (string \<times> string) set \<times> (string \<times> string) set" where
  "reverse_step m e =
     (if \<not> HasReverse e then m
      else
        let (hasReverse, byRefund) = m; sid = TrimSpace (te_SellerID e);
            pid = TrimSpace (te_PaymentID e); rid = TrimSpace (te_RefundID e)
        in (if sid \<noteq> [] then insert (pid, sid) hasReverse else hasReverse,
            if rid \<noteq> [] \<and> sid \<noteq> [] then insert (rid, sid) byRefund else byRefund))"

definition signal_of :: "RefundFact \<Rightarrow> MarketplaceRefundGraphSignal" where
  "signal_of r = \<lparr>gs_TenantID = [], gs_ConnectorID = [], gs_RefundID = TrimSpace (rf_RefundID r),
     gs_PaymentID = TrimSpace (rf_PaymentID r), gs_SellerID = TrimSpace (rf_SellerID r),
     gs_AmountMinor = rf_AmountMinor r, gs_Reason = ReasonRefundWithoutReverse,
     gs_ProviderStatus = TrimSpace (rf_ProviderStatus r), gs_Currency = TrimSpace (rf_Currency r)\<rparr>"

definition lacks_reverse :: "(string \<times> string) set \<times> (string \<times> string) set \<Rightarrow> RefundFact \<Rightarrow> bool" where
  "lacks_reverse m r =
     (let (hasReverse, byRefund) = m; sid = TrimSpace (rf_SellerID r);
          pid = TrimSpace (rf_PaymentID r); rid = TrimSpace (rf_RefundID r)
      in if \<not> JoinsSellerCluster r \<or> \<not> CountsTowardSellerPattern r then False
         else if rid \<noteq> [] \<and> sid \<noteq> [] \<and> (rid, sid) \<in> byRefund then False
         else if (pid, sid) \<in> hasReverse then False
         else True)"

definition DetectRefundsWithoutReverse ::
    "(MarketplaceRefundGraphSignal list \<Rightarrow> MarketplaceRefundGraphSignal list)
     \<Rightarrow> RefundFact list \<Rightarrow> MarketplaceTransferEdge list \<Rightarrow> MarketplaceRefundGraphSignal list" where
  "DetectRefundsWithoutReverse srt refunds edges =
     srt (map signal_of (filter (lacks_reverse (foldl reverse_step ({}, {}) edges)) refunds))"

definition signal_less :: "MarketplaceRefundGraphSignal \<Rightarrow> MarketplaceRefundGraphSignal \<Rightarrow> bool" where
  "signal_less a b =
     (if gs_SellerID a \<noteq> gs_SellerID b then gs_SellerID a < gs_SellerID b
      else gs_RefundID a < gs_RefundID b)"

section \<open>Projection onto an exception\<close>

definition RefundGraphExceptionID :: "(string \<Rightarrow> string) \<Rightarrow> string \<Rightarrow> string \<Rightarrow> string \<Rightarrow> string" where
  "RefundGraphExceptionID sha1 tenantID connectorID refundID =
     sha1 (ToLower (TrimSpace tenantID) @ ''|'' @ ToLower (TrimSpace connectorID) @ ''|''
           @ TrimSpace refundID)"

definition RefundGraphSignalException :: "(string \<Rightarrow> string) \<Rightarrow> string \<Rightarrow> string
    \<Rightarrow> MarketplaceRefundGraphSignal \<Rightarrow> ReconciliationException" where
  "RefundGraphSignalException sha1 tenantID connectorID sig = zero_Exception\<lparr>
     ex_ID := RefundGraphExceptionID sha1 tenantID connectorID (gs_RefundID sig),
     ex_TenantID := tenantID, ex_ConnectorID := connectorID, ex_EntityType := ''refund'',
     ex_EntityID := gs_RefundID sig, ex_Status := gs_ProviderStatus sig,
     ex_ReconciliationResult := ResultUnresolved, ex_Reason := ReasonRefundWithoutReverse,
     ex_ExpectedAmount := gs_AmountMinor sig, ex_Confidence := 0.6,
     ex_EvidenceRefs := zero_EvidenceRefs\<lparr>er_Sources :=
       [\<lparr>sr_Kind = SourceKindRefund, sr_ID = gs_RefundID sig, sr_Amount = gs_AmountMinor sig\<rparr>,
        \<lparr>sr_Kind = SourceKindPayment, sr_ID = gs_PaymentID sig, sr_Amount = 0\<rparr>,
        \<lparr>sr_Kind = ''seller'', sr_ID = gs_SellerID sig, sr_Amount = 0\<rparr>]\<rparr>\<rparr>"

section \<open>What a pattern counts\<close>

definition counted :: "RefundFact list \<Rightarrow> string \<Rightarrow> RefundFact list" where
  "counted refunds sid = filter (\<lambda>r. JoinsSellerCluster r \<and> CountsTowardSellerPattern r
     \<and> TrimSpace (rf_SellerID r) = sid) refunds"

lemma agg_step_lookup:
  "map_of (agg_step m r) sid =
     (if JoinsSellerCluster r \<and> CountsTowardSellerPattern r \<and> TrimSpace (rf_SellerID r) = sid
      then (case map_of m sid of None \<Rightarrow> Some (1, rf_AmountMinor r)
            | Some (c, s) \<Rightarrow> Some (c + 1, s + rf_AmountMinor r))
      else map_of m sid)"
  by (auto simp: agg_step_def Let_def split: option.split prod.split)

lemma agg_lookup:
  "map_of (foldl agg_step m refunds) sid =
     (case map_of m sid of
        Some (c, s) \<Rightarrow> Some (c + of_nat (length (counted refunds sid)),
                           s + sum_list (map rf_AmountMinor (counted refunds sid)))
      | None \<Rightarrow> if counted refunds sid = [] then None
               else Some (of_nat (length (counted refunds sid)),
                          sum_list (map rf_AmountMinor (counted refunds sid))))"
proof (induction refunds arbitrary: m)
  case Nil
  then show ?case by (simp add: counted_def split: option.split)
next
  case (Cons r refunds)
  have c: "counted (r # refunds) sid = (if JoinsSellerCluster r \<and> CountsTowardSellerPattern r
      \<and> TrimSpace (rf_SellerID r) = sid then r # counted refunds sid else counted refunds sid)"
    by (simp add: counted_def)
  show ?case
    by (simp add: Cons.IH c agg_step_lookup algebra_simps split: option.split prod.split)
qed

lemma agg_distinct:
  "distinct (map fst m) \<Longrightarrow> distinct (map fst (foldl agg_step m refunds))"
proof (induction refunds arbitrary: m)
  case (Cons r refunds)
  then show ?case by (simp add: agg_step_def Let_def split: prod.split)
qed simp

lemma counted_blank: "counted refunds [] = []"
  by (auto simp: counted_def JoinsSellerCluster_def filter_empty_conv)

lemma counted_empty_iff:
  "counted refunds sid \<noteq> [] \<longleftrightarrow> (\<exists>r \<in> set refunds. JoinsSellerCluster r
     \<and> CountsTowardSellerPattern r \<and> TrimSpace (rf_SellerID r) = sid)"
  by (auto simp: counted_def filter_empty_conv)

lemma pattern_in_iff:
  "p \<in> set (AggregateMarketplaceSellerPatterns refunds) \<longleftrightarrow>
     counted refunds (mp_SellerID p) \<noteq> []
     \<and> mp_RefundCount p = of_nat (length (counted refunds (mp_SellerID p)))
     \<and> mp_RefundSumMinor p = sum_list (map rf_AmountMinor (counted refunds (mp_SellerID p)))"
proof -
  let ?m = "foldl agg_step [] refunds"
  have d: "distinct (map fst ?m)" by (rule agg_distinct) simp
  have "p \<in> set (AggregateMarketplaceSellerPatterns refunds) \<longleftrightarrow>
      (mp_SellerID p, mp_RefundCount p, mp_RefundSumMinor p) \<in> set ?m"
    by (cases p) (force simp: AggregateMarketplaceSellerPatterns_def image_iff)
  also have "\<dots> \<longleftrightarrow> map_of ?m (mp_SellerID p) = Some (mp_RefundCount p, mp_RefundSumMinor p)"
    using d by simp
  also have "\<dots> \<longleftrightarrow> counted refunds (mp_SellerID p) \<noteq> []
     \<and> mp_RefundCount p = of_nat (length (counted refunds (mp_SellerID p)))
     \<and> mp_RefundSumMinor p = sum_list (map rf_AmountMinor (counted refunds (mp_SellerID p)))"
    by (auto simp: agg_lookup)
  finally show ?thesis .
qed

text \<open>
  A velocity flag tells the truth and stays advisory: for every flag raised from a tenant's
  refunds, the seller is not blank, its count and sum are those of that seller's refunds that are
  neither failed nor cancelled, the threshold named by its reason is enabled and reached, a hold
  is recommended only where the configuration allows one, and no payout is ever blocked
  automatically.
\<close>

theorem velocity_flags_are_true_and_advisory:
  assumes "f \<in> set (EvaluateMarketplaceVelocity (AggregateMarketplaceSellerPatterns refunds) cfg)"
  shows "vf_SellerID f \<noteq> []
    \<and> vf_RefundCount f = of_nat (length (counted refunds (vf_SellerID f)))
    \<and> vf_RefundSumMinor f = sum_list (map rf_AmountMinor (counted refunds (vf_SellerID f)))
    \<and> (vf_Reason f = ''refund_count_threshold'' \<and> 0 <s vc_CountThreshold cfg
         \<and> vc_CountThreshold cfg \<le>s vf_RefundCount f
       \<or> vf_Reason f = ''refund_sum_threshold'' \<and> 0 <s vc_SumThreshold cfg
         \<and> vc_SumThreshold cfg \<le>s vf_RefundSumMinor f)
    \<and> vf_HoldRecommended f = vc_HoldEnabled cfg \<and> \<not> vf_AutoBlockPayout f"
proof -
  obtain p where p: "p \<in> set (AggregateMarketplaceSellerPatterns refunds)"
    and f: "vf_SellerID f = mp_SellerID p" "vf_RefundCount f = mp_RefundCount p"
      "vf_RefundSumMinor f = mp_RefundSumMinor p"
      "vf_HoldRecommended f = vc_HoldEnabled cfg" "\<not> vf_AutoBlockPayout f"
    and r: "vf_Reason f = ''refund_count_threshold'' \<and> 0 <s vc_CountThreshold cfg
         \<and> vc_CountThreshold cfg \<le>s mp_RefundCount p
       \<or> vf_Reason f = ''refund_sum_threshold'' \<and> 0 <s vc_SumThreshold cfg
         \<and> vc_SumThreshold cfg \<le>s mp_RefundSumMinor p"
    using assms
    by (auto simp: EvaluateMarketplaceVelocity_def EvaluateMarketplacePatternBreach_def breach_def
        Let_def split: if_splits)
  then show ?thesis
    using pattern_in_iff [of p refunds] counted_blank [of refunds] by auto
qed

definition sample_refund :: "string \<Rightarrow> string \<Rightarrow> RefundFact" where
  "sample_refund i st = zero_RefundFact\<lparr>rf_RefundID := i, rf_PaymentID := ''pay-1'',
     rf_AmountMinor := 700, rf_ProviderStatus := st, rf_SellerID := '' s1 ''\<rparr>"

definition sample_velocity :: MarketplaceVelocityConfig where
  "sample_velocity = \<lparr>vc_CountThreshold = 2, vc_SumThreshold = 0, vc_HoldEnabled = False\<rparr>"

definition sample_flag :: MarketplaceVelocityFlag where
  "sample_flag = \<lparr>vf_SellerID = ''s1'', vf_RefundCount = 2, vf_RefundSumMinor = 1400,
     vf_Reason = ''refund_count_threshold'', vf_OpsFlag = True,
     vf_AuditNote = ''marketplace_velocity:refund_count_threshold'', vf_HoldRecommended = False,
     vf_AutoBlockPayout = False\<rparr>"

lemma velocity_flags_are_true_and_advisory_witness:
  "vf_RefundCount sample_flag = of_nat (length (counted
     [sample_refund ''r1'' ''processed'', sample_refund ''r2'' ''failed'', sample_refund ''r3'' ''created'']
     (vf_SellerID sample_flag)))"
  by (rule velocity_flags_are_true_and_advisory [of _ _ sample_velocity, THEN conjunct2, THEN conjunct1])
     (simp add: EvaluateMarketplaceVelocity_def EvaluateMarketplacePatternBreach_def breach_def Let_def
       word_sless_alt word_sle_eq AggregateMarketplaceSellerPatterns_def SliceStable_def agg_step_def JoinsSellerCluster_def
       CountsTowardSellerPattern_def sample_refund_def sample_velocity_def sample_flag_def zero_defs
       str_simps)

section \<open>What a signal reports\<close>

lemma reverse_index:
  "(p, s) \<in> fst (foldl reverse_step m edges) \<longleftrightarrow> (p, s) \<in> fst m \<or>
     (\<exists>e \<in> set edges. HasReverse e \<and> TrimSpace (te_PaymentID e) = p \<and> TrimSpace (te_SellerID e) = s \<and> s \<noteq> [])"
  "(r, s) \<in> snd (foldl reverse_step m edges) \<longleftrightarrow> (r, s) \<in> snd m \<or>
     (\<exists>e \<in> set edges. HasReverse e \<and> TrimSpace (te_RefundID e) = r \<and> r \<noteq> []
        \<and> TrimSpace (te_SellerID e) = s \<and> s \<noteq> [])"
  by (induction edges arbitrary: m)
     (auto simp: reverse_step_def Let_def split: prod.split if_splits)

definition reversed_by :: "RefundFact \<Rightarrow> MarketplaceTransferEdge \<Rightarrow> bool" where
  "reversed_by r e \<longleftrightarrow> HasReverse e \<and> TrimSpace (te_SellerID e) = TrimSpace (rf_SellerID r)
     \<and> (TrimSpace (te_PaymentID e) = TrimSpace (rf_PaymentID r)
        \<or> TrimSpace (rf_RefundID r) \<noteq> [] \<and> TrimSpace (te_RefundID e) = TrimSpace (rf_RefundID r))"

lemma lacks_reverse_iff:
  "lacks_reverse (foldl reverse_step ({}, {}) edges) r \<longleftrightarrow>
     JoinsSellerCluster r \<and> CountsTowardSellerPattern r \<and> (\<forall>e \<in> set edges. \<not> reversed_by r e)"
proof -
  obtain h b where m: "foldl reverse_step ({}, {}) edges = (h, b)" by fastforce
  have h: "(p, s) \<in> h \<longleftrightarrow> (\<exists>e \<in> set edges. HasReverse e \<and> TrimSpace (te_PaymentID e) = p
      \<and> TrimSpace (te_SellerID e) = s \<and> s \<noteq> [])" for p s
    using reverse_index(1) [of p s "({}, {})" edges] m by simp
  have b: "(p, s) \<in> b \<longleftrightarrow> (\<exists>e \<in> set edges. HasReverse e \<and> TrimSpace (te_RefundID e) = p \<and> p \<noteq> []
      \<and> TrimSpace (te_SellerID e) = s \<and> s \<noteq> [])" for p s
    using reverse_index(2) [of p s "({}, {})" edges] m by simp
  show ?thesis
    unfolding m lacks_reverse_def Let_def prod.case h b reversed_by_def JoinsSellerCluster_def
    by auto
qed

text \<open>
  The refund-graph counsel reports exactly the refunds it says it reports, however the
  standard library sorts ties: one signal for every refund of a named seller that is not failed
  or cancelled and for which no transfer edge of the same seller with a reversal carries its
  payment or its refund id.
\<close>

theorem refund_graph_signals_exact:
  assumes "\<And>xs. mset (srt xs) = mset xs"
  shows "mset (DetectRefundsWithoutReverse srt refunds edges) = mset (map signal_of
     (filter (\<lambda>r. JoinsSellerCluster r \<and> CountsTowardSellerPattern r
                 \<and> (\<forall>e \<in> set edges. \<not> reversed_by r e)) refunds))"
  by (simp add: DetectRefundsWithoutReverse_def assms lacks_reverse_iff)

lemma refund_graph_signals_exact_witness:
  "mset (DetectRefundsWithoutReverse (SliceStable signal_less) [sample_refund ''r1'' ''processed''] [])
     = {# signal_of (sample_refund ''r1'' ''processed'') #}"
  by (subst refund_graph_signals_exact)
     (simp_all add: JoinsSellerCluster_def CountsTowardSellerPattern_def sample_refund_def zero_defs
       str_simps)

end
