(* ===== verification/FinStore.thy ===== *)
theory FinStore
  imports RunEngine Marketplace
begin

text \<open>
  \<^verbatim>\<open>financial_memory.go\<close>: the in-memory implementation of the \<open>FinancialStore\<close>
  interface, with the records of \<^verbatim>\<open>exceptions.go\<close> it keeps.  \<open>uuid n\<close> is the n-th
  identifier the external UUID generator hands out, counted in the store; \<open>now\<close> is the clock.
  The mutex serialises the methods, so each is one state transformer.  What a client may rely on
  when it writes and reads a row by key is the locale \<open>keyed_store\<close>.
\<close>

record ReconciliationRun =
  rr_ID :: string
  rr_TenantID :: string
  rr_ConnectorID :: string
  rr_AccountID :: string
  rr_BatchID :: string
  rr_EntityIDs :: "string list"
  rr_Status :: string
  rr_PaymentCount :: int
  rr_MatchedCount :: int
  rr_ExceptionCount :: int
  rr_Counts :: "(string \<times> int) list"
  rr_CreatedAt :: time
  rr_CompletedAt :: time

record InvestigationRecord =
  iv_ID :: string
  iv_TenantID :: string
  iv_ConnectorID :: string
  iv_ExceptionID :: string
  iv_EntityType :: string
  iv_EntityID :: string
  iv_Status :: string
  iv_RootCause :: string
  iv_Recommendation :: string
  iv_Confidence :: rat
  iv_FinancialImpact :: int64
  iv_EvidenceIDs :: "string list"
  iv_CreatedAt :: time
  iv_UpdatedAt :: time

text \<open>The payload of an outbox row, before it is marshalled to JSON.\<close>

datatype payload_value =
    PString string
  | PInt int64
  | PBool bool
  | PStrings "string list"
  | PRefs EvidenceRefs
  | PException "(string \<times> int64 \<times> string list) option"

record OutboxRow =
  ob_EventID :: string
  ob_TenantID :: string
  ob_AggregateType :: string
  ob_AggregateID :: string
  ob_EventType :: string
  ob_Payload :: "(string \<times> payload_value) list"
  ob_CreatedAt :: time

record MemoryFinancialStore =
  ms_Payments :: "PaymentFact list"
  ms_Events :: "string \<Rightarrow> ObservationFact list"
  ms_Payouts :: "PayoutFact list"
  ms_PayoutEvents :: "string \<Rightarrow> ObservationFact list"
  ms_Lines :: "SettlementLine list"
  ms_Banks :: "BankTxn list"
  ms_Decisions :: "SettlementBankDecision list"
  ms_Runs :: "ReconciliationRun list"
  ms_Results :: "FinancialResult list"
  ms_Exceptions :: "ReconciliationException list"
  ms_Investigations :: "InvestigationRecord list"
  ms_Outbox :: "OutboxRow list"
  ms_Refunds :: "RefundFact list"
  ms_refundScopes :: "(string \<rightharpoonup> string) option"
  ms_TransferEdges :: "MarketplaceTransferEdge list"
  ms_edgeScopes :: "(string \<rightharpoonup> string) option"
  ms_MerchantBooks :: "MerchantBookFact list"
  ms_heldRuns :: "string set"
  ms_next :: nat

definition NewMemoryFinancialStore :: MemoryFinancialStore where
  "NewMemoryFinancialStore = \<lparr>ms_Payments = [], ms_Events = (\<lambda>_. []), ms_Payouts = [],
     ms_PayoutEvents = (\<lambda>_. []), ms_Lines = [], ms_Banks = [], ms_Decisions = [], ms_Runs = [],
     ms_Results = [], ms_Exceptions = [], ms_Investigations = [], ms_Outbox = [], ms_Refunds = [],
     ms_refundScopes = None, ms_TransferEdges = [], ms_edgeScopes = None, ms_MerchantBooks = [],
     ms_heldRuns = {}, ms_next = 0\<rparr>"

section \<open>Reading\<close>

definition GetCanonicalPayoutFact :: "string \<Rightarrow> MemoryFinancialStore \<Rightarrow> PayoutFact option" where
  "GetCanonicalPayoutFact payoutID m = List.find (\<lambda>p. po_PayoutID p = payoutID) (ms_Payouts m)"

definition GetCanonicalPayment :: "string \<Rightarrow> MemoryFinancialStore \<Rightarrow> PaymentFact option" where
  "GetCanonicalPayment paymentID m = List.find (\<lambda>p. pf_PaymentID p = paymentID) (ms_Payments m)"

definition ListBankTxns :: "string \<Rightarrow> MemoryFinancialStore \<Rightarrow> BankTxn list" where
  "ListBankTxns accountID m =
     (if accountID = [] then ms_Banks m
      else filter (\<lambda>b. bt_AccountID b = [] \<or> bt_AccountID b = accountID) (ms_Banks m))"

definition GetReconciliationRun :: "string \<Rightarrow> MemoryFinancialStore \<Rightarrow> ReconciliationRun option" where
  "GetReconciliationRun runID m = List.find (\<lambda>r. rr_ID r = runID) (ms_Runs m)"

definition latest_step :: "string \<Rightarrow> ReconciliationRun option \<Rightarrow> ReconciliationRun \<Rightarrow> ReconciliationRun option" where
  "latest_step batchID best r =
     (if rr_BatchID r \<noteq> batchID \<or> batchID = [] then best
      else case best of
          None \<Rightarrow> Some r
        | Some b \<Rightarrow> if rr_CreatedAt r > rr_CreatedAt b then Some r else best)"

definition GetLatestReconciliationRunByBatch :: "string \<Rightarrow> MemoryFinancialStore \<Rightarrow> ReconciliationRun option" where
  "GetLatestReconciliationRunByBatch batchID m = foldl (latest_step batchID) None (ms_Runs m)"

definition GetReconciliationResult :: "string \<times> string \<Rightarrow> MemoryFinancialStore \<Rightarrow> FinancialResult option" where
  "GetReconciliationResult k m =
     List.find (\<lambda>r. (fr_EntityType r, fr_EntityID r) = k) (ms_Results m)"

definition GetReconciliationException :: "string \<Rightarrow> MemoryFinancialStore \<Rightarrow> ReconciliationException option" where
  "GetReconciliationException i m = List.find (\<lambda>ex. ex_ID ex = i) (ms_Exceptions m)"

definition GetInvestigation :: "string \<Rightarrow> MemoryFinancialStore \<Rightarrow> InvestigationRecord option" where
  "GetInvestigation i m = List.find (\<lambda>r. iv_ID r = i) (ms_Investigations m)"

section \<open>Scopes, locks and identifiers\<close>

definition refundScopeKey :: "string \<Rightarrow> string \<Rightarrow> string" where
  "refundScopeKey tenantID connectorID =
     ToLower (TrimSpace tenantID) @ ''|'' @ ToLower (TrimSpace connectorID)"

definition scope_lookup :: "(string \<rightharpoonup> string) \<Rightarrow> string \<Rightarrow> string" where
  "scope_lookup m k = (case m k of None \<Rightarrow> [] | Some s \<Rightarrow> s)"

definition TryLockTenantRun :: "string \<Rightarrow> string \<Rightarrow> MemoryFinancialStore \<Rightarrow> MemoryFinancialStore option" where
  "TryLockTenantRun tenantID connectorID m =
     (let key = refundScopeKey tenantID connectorID
      in if key \<in> ms_heldRuns m then None else Some (m\<lparr>ms_heldRuns := insert key (ms_heldRuns m)\<rparr>))"

definition unlock :: "string \<Rightarrow> string \<Rightarrow> MemoryFinancialStore \<Rightarrow> MemoryFinancialStore" where
  "unlock tenantID connectorID m =
     m\<lparr>ms_heldRuns := ms_heldRuns m - {refundScopeKey tenantID connectorID}\<rparr>"

definition fresh :: "(nat \<Rightarrow> string) \<Rightarrow> MemoryFinancialStore \<Rightarrow> string \<times> MemoryFinancialStore" where
  "fresh uuid m = (uuid (ms_next m), m\<lparr>ms_next := Suc (ms_next m)\<rparr>)"

definition fresh_if_blank ::
    "(nat \<Rightarrow> string) \<Rightarrow> string \<Rightarrow> MemoryFinancialStore \<Rightarrow> string \<times> MemoryFinancialStore" where
  "fresh_if_blank uuid i m = (if i = [] then fresh uuid m else (i, m))"

section \<open>Writing\<close>

fun replace_first :: "('a \<Rightarrow> bool) \<Rightarrow> 'a \<Rightarrow> 'a list \<Rightarrow> 'a list" where
  "replace_first P x [] = [x]"
| "replace_first P x (y # ys) = (if P y then x # ys else y # replace_first P x ys)"

definition InsertReconciliationRun :: "(nat \<Rightarrow> string) \<Rightarrow> ReconciliationRun \<Rightarrow> MemoryFinancialStore
    \<Rightarrow> ReconciliationRun \<times> MemoryFinancialStore" where
  "InsertReconciliationRun uuid run m =
     (let (i, m) = fresh_if_blank uuid (rr_ID run) m; run = run\<lparr>rr_ID := i\<rparr>
      in (run, m\<lparr>ms_Runs := ms_Runs m @ [run]\<rparr>))"

definition CompleteReconciliationRun :: "ReconciliationRun \<Rightarrow> MemoryFinancialStore \<Rightarrow> MemoryFinancialStore" where
  "CompleteReconciliationRun run m =
     m\<lparr>ms_Runs := replace_first (\<lambda>r. rr_ID r = rr_ID run) run (ms_Runs m)\<rparr>"

definition UpsertReconciliationResult :: "(nat \<Rightarrow> string) \<Rightarrow> time \<Rightarrow> string \<Rightarrow> FinancialResult
    \<Rightarrow> MemoryFinancialStore \<Rightarrow> FinancialResult \<times> MemoryFinancialStore" where
  "UpsertReconciliationResult uuid now runID r m =
     (let r = r\<lparr>fr_RunID := runID\<rparr>;
          (i, m) = fresh_if_blank uuid (fr_ID r) m;
          r = r\<lparr>fr_ID := i\<rparr>;
          r = (if IsZero (fr_CreatedAt r) then r\<lparr>fr_CreatedAt := now\<rparr> else r);
          (exo, m) = (case fr_Exception r of
              None \<Rightarrow> (None, m)
            | Some ex \<Rightarrow> (let (j, m) = fresh_if_blank uuid (ex_ID ex) m
                         in (Some (ex\<lparr>ex_RunID := runID, ex_ID := j\<rparr>), m)));
          r = r\<lparr>fr_Exception := exo\<rparr>
      in (r, m\<lparr>ms_Results := replace_first
            (\<lambda>s. fr_EntityType s = fr_EntityType r \<and> fr_EntityID s = fr_EntityID r) r (ms_Results m)\<rparr>))"

definition InsertReconciliationException :: "(nat \<Rightarrow> string) \<Rightarrow> time \<Rightarrow> string \<Rightarrow> string \<Rightarrow> string
    \<Rightarrow> ReconciliationException \<Rightarrow> MemoryFinancialStore
    \<Rightarrow> ReconciliationException \<times> MemoryFinancialStore" where
  "InsertReconciliationException uuid now tenantID connectorID runID ex m =
     (let (i, m) = fresh_if_blank uuid (ex_ID ex) m;
          ex = ex\<lparr>ex_ID := i, ex_TenantID := tenantID, ex_ConnectorID := connectorID,
                  ex_RunID := runID, ex_CreatedAt := now\<rparr>
      in (ex, m\<lparr>ms_Exceptions := ms_Exceptions m @ [ex]\<rparr>))"

definition InsertInvestigation :: "(nat \<Rightarrow> string) \<Rightarrow> time \<Rightarrow> InvestigationRecord
    \<Rightarrow> MemoryFinancialStore \<Rightarrow> InvestigationRecord \<times> MemoryFinancialStore" where
  "InsertInvestigation uuid now rec m =
     (let (i, m) = fresh_if_blank uuid (iv_ID rec) m;
          rec = rec\<lparr>iv_ID := i, iv_CreatedAt := now, iv_UpdatedAt := now\<rparr>
      in (rec, m\<lparr>ms_Investigations := ms_Investigations m @ [rec]\<rparr>))"

definition InsertMatchOutbox :: "OutboxRow \<Rightarrow> MemoryFinancialStore \<Rightarrow> MemoryFinancialStore" where
  "InsertMatchOutbox row m = m\<lparr>ms_Outbox := ms_Outbox m @ [row]\<rparr>"

section \<open>Refunds and transfer edges\<close>

definition ListRefunds :: "string \<Rightarrow> string \<Rightarrow> string \<Rightarrow> MemoryFinancialStore \<Rightarrow> RefundFact list" where
  "ListRefunds tenantID connectorID paymentID m =
     filter (\<lambda>r. (case ms_refundScopes m of None \<Rightarrow> True
                  | Some sc \<Rightarrow> scope_lookup sc (rf_RefundID r) = refundScopeKey tenantID connectorID)
                \<and> (paymentID = [] \<or> rf_PaymentID r = paymentID)) (ms_Refunds m)"

definition UpsertRefund :: "(nat \<Rightarrow> string) \<Rightarrow> string \<Rightarrow> string \<Rightarrow> RefundFact \<Rightarrow> MemoryFinancialStore
    \<Rightarrow> RefundFact \<times> MemoryFinancialStore" where
  "UpsertRefund uuid tenantID connectorID r m =
     (let (i, m) = fresh_if_blank uuid (rf_ID r) m;
          r = r\<lparr>rf_ID := i, rf_SellerID := TrimSpace (rf_SellerID r)\<rparr>;
          sc = (case ms_refundScopes m of None \<Rightarrow> Map.empty | Some sc \<Rightarrow> sc);
          sc = (if rf_RefundID r \<noteq> [] then sc(rf_RefundID r \<mapsto> refundScopeKey tenantID connectorID) else sc)
      in (r, m\<lparr>ms_refundScopes := Some sc,
               ms_Refunds := replace_first (\<lambda>q. rf_RefundID q = rf_RefundID r \<and> rf_RefundID r \<noteq> []) r
                 (ms_Refunds m)\<rparr>))"

definition edge_visible :: "string \<Rightarrow> MemoryFinancialStore \<Rightarrow> MarketplaceTransferEdge \<Rightarrow> bool" where
  "edge_visible scope m e =
     (if TrimSpace (te_TenantID e) \<noteq> [] \<or> TrimSpace (te_ConnectorID e) \<noteq> []
      then refundScopeKey (te_TenantID e) (te_ConnectorID e) = scope
      else case ms_edgeScopes m of
          None \<Rightarrow> True
        | Some sc \<Rightarrow> scope_lookup sc (scope @ ''|'' @ te_TransferID e) = scope
                   \<or> scope_lookup sc (te_TransferID e) = scope)"

definition ListTransferEdges :: "string \<Rightarrow> string \<Rightarrow> MemoryFinancialStore \<Rightarrow> MarketplaceTransferEdge list" where
  "ListTransferEdges tenantID connectorID m =
     filter (edge_visible (refundScopeKey tenantID connectorID) m) (ms_TransferEdges m)"

text \<open>The enrichment: what the stored edge knew and the new one does not is kept.\<close>

definition keep_string :: "string \<Rightarrow> string \<Rightarrow> string" where
  "keep_string new old = (if new = [] \<and> old \<noteq> [] then old else new)"

definition keep_time :: "time \<Rightarrow> time \<Rightarrow> time" where
  "keep_time new old = (if IsZero new \<and> \<not> IsZero old then old else new)"

definition coalesce_edge :: "bool \<Rightarrow> MarketplaceTransferEdge \<Rightarrow> MarketplaceTransferEdge
    \<Rightarrow> MarketplaceTransferEdge" where
  "coalesce_edge fromReversal e prev = e\<lparr>
     te_ReverseTransferID := keep_string (te_ReverseTransferID e) (te_ReverseTransferID prev),
     te_ReverseAt := keep_time (te_ReverseAt e) (te_ReverseAt prev),
     te_PaymentID := keep_string (te_PaymentID e) (te_PaymentID prev),
     te_RefundID := (if te_RefundID prev \<noteq> [] \<and> \<not> fromReversal then te_RefundID prev else te_RefundID e),
     te_SellerID := keep_string (te_SellerID e) (te_SellerID prev),
     te_AmountMinor := (if te_AmountMinor e = 0 \<and> te_AmountMinor prev \<noteq> 0 then te_AmountMinor prev
                        else te_AmountMinor e),
     te_TransferAt := keep_time (te_TransferAt e) (te_TransferAt prev),
     te_ID := te_ID prev\<rparr>"

definition normal_edge :: "string \<Rightarrow> string \<Rightarrow> MarketplaceTransferEdge \<Rightarrow> MarketplaceTransferEdge" where
  "normal_edge tenantID connectorID e = e\<lparr>te_TenantID := tenantID, te_ConnectorID := connectorID,
     te_TransferID := TrimSpace (te_TransferID e),
     te_ReverseTransferID := TrimSpace (te_ReverseTransferID e),
     te_PaymentID := TrimSpace (te_PaymentID e), te_RefundID := TrimSpace (te_RefundID e),
     te_SellerID := TrimSpace (te_SellerID e),
     te_Currency := (if te_Currency e = [] then ''INR'' else te_Currency e),
     te_RefundIDFromReversal := False\<rparr>"

fun upsert_edge :: "string \<Rightarrow> bool \<Rightarrow> MarketplaceTransferEdge \<Rightarrow> MarketplaceTransferEdge list
    \<Rightarrow> MarketplaceTransferEdge \<times> MarketplaceTransferEdge list" where
  "upsert_edge scope fromReversal e [] = (e, [e])"
| "upsert_edge scope fromReversal e (prev # es) =
     (if te_TransferID prev = [] \<or> te_TransferID prev \<noteq> te_TransferID e
         \<or> refundScopeKey (te_TenantID prev) (te_ConnectorID prev) \<noteq> scope
      then let (r, es') = upsert_edge scope fromReversal e es in (r, prev # es')
      else let e' = coalesce_edge fromReversal e prev in (e', e' # es))"

definition UpsertTransferEdge :: "(nat \<Rightarrow> string) \<Rightarrow> string \<Rightarrow> string \<Rightarrow> MarketplaceTransferEdge
    \<Rightarrow> MemoryFinancialStore \<Rightarrow> MarketplaceTransferEdge \<times> MemoryFinancialStore" where
  "UpsertTransferEdge uuid tenantID connectorID e m =
     (let (i, m) = fresh_if_blank uuid (te_ID e) m;
          fromReversal = (te_RefundIDFromReversal e \<and> TrimSpace (te_RefundID e) \<noteq> []);
          e = normal_edge tenantID connectorID (e\<lparr>te_ID := i\<rparr>);
          scope = refundScopeKey tenantID connectorID;
          sc = (case ms_edgeScopes m of None \<Rightarrow> Map.empty | Some sc \<Rightarrow> sc);
          sc = (if te_TransferID e \<noteq> []
                then sc(scope @ ''|'' @ te_TransferID e \<mapsto> scope, te_TransferID e \<mapsto> scope) else sc);
          (r, es) = upsert_edge scope fromReversal e (ms_TransferEdges m)
      in (r, m\<lparr>ms_edgeScopes := Some sc, ms_TransferEdges := es\<rparr>))"

definition ListMarketplaceSellerPatterns ::
    "string \<Rightarrow> string \<Rightarrow> MemoryFinancialStore \<Rightarrow> MarketplaceSellerPattern list" where
  "ListMarketplaceSellerPatterns tenantID connectorID m =
     AggregateMarketplaceSellerPatterns (ListRefunds tenantID connectorID [] m)"

section \<open>Rows by key\<close>

text \<open>
  The contract a client of the store relies on: what is put under a key is what a later read of
  that key returns, and a put leaves every other key alone.
\<close>

locale keyed_store =
  fixes put :: "'v \<Rightarrow> 's \<Rightarrow> 'v \<times> 's"
    and get :: "'k \<Rightarrow> 's \<Rightarrow> 'v option"
    and key :: "'v \<Rightarrow> 'k"
  assumes key_put: "key (fst (put v s)) = key v"
    and get_put: "get k (snd (put v s)) = (if k = key v then Some (fst (put v s)) else get k s)"
begin

fun put_all :: "'v list \<Rightarrow> 's \<Rightarrow> 'v list \<times> 's" where
  "put_all [] s = ([], s)"
| "put_all (v # vs) s = (let (w, s) = put v s; (ws, s) = put_all vs s in (w # ws, s))"

lemma put_all_keys: "map key (fst (put_all vs s)) = map key vs"
  by (induction vs arbitrary: s) (simp_all add: key_put case_prod_beta Let_def)

lemma put_all_other: "k \<notin> key ` set vs \<Longrightarrow> get k (snd (put_all vs s)) = get k s"
  by (induction vs arbitrary: s) (simp_all add: get_put case_prod_beta Let_def)

lemma put_all_get:
  "distinct (map key vs) \<Longrightarrow> w \<in> set (fst (put_all vs s)) \<Longrightarrow> get (key w) (snd (put_all vs s)) = Some w"
proof (induction vs arbitrary: s)
  case (Cons v vs)
  let ?p = "put v s"
  have "w = fst ?p \<or> w \<in> set (fst (put_all vs (snd ?p)))"
    using Cons.prems(2) by (auto simp: case_prod_beta Let_def)
  then show ?case
  proof
    assume w: "w = fst ?p"
    have "key w \<notin> key ` set vs" using Cons.prems(1) by (simp add: w key_put)
    then show ?thesis by (simp add: put_all_other case_prod_beta Let_def get_put w key_put)
  next
    assume "w \<in> set (fst (put_all vs (snd ?p)))"
    with Cons show ?thesis by (simp add: case_prod_beta Let_def)
  qed
qed simp

lemma put_put_same: "key v = key w \<Longrightarrow> get (key v) (snd (put w (snd (put v s)))) = Some (fst (put w (snd (put v s))))"
  by (simp add: get_put)

end

lemma find_replace_first:
  "List.find (\<lambda>y. f y = k) (replace_first (\<lambda>y. f y = f x) x ys)
     = (if k = f x then Some x else List.find (\<lambda>y. f y = k) ys)"
  by (induction ys) auto

lemma fresh_frame [simp, frame_simps]:
  "ms_Results (snd (fresh_if_blank uuid i m)) = ms_Results m"
  "ms_Runs (snd (fresh_if_blank uuid i m)) = ms_Runs m"
  "ms_heldRuns (snd (fresh_if_blank uuid i m)) = ms_heldRuns m"
  "ms_Outbox (snd (fresh_if_blank uuid i m)) = ms_Outbox m"
  "ms_Exceptions (snd (fresh_if_blank uuid i m)) = ms_Exceptions m"
  "ms_TransferEdges (snd (fresh_if_blank uuid i m)) = ms_TransferEdges m"
  by (simp_all add: fresh_if_blank_def fresh_def)

definition result_key :: "FinancialResult \<Rightarrow> string \<times> string" where
  "result_key r = (fr_EntityType r, fr_EntityID r)"

lemma Upsert_row:
  "fst (UpsertReconciliationResult uuid now runID r m) = s \<Longrightarrow>
     result_key s = result_key r \<and> fr_Result s = fr_Result r \<and> fr_Reason s = fr_Reason r
     \<and> fr_RunID s = runID \<and> (fr_Exception s = None \<longleftrightarrow> fr_Exception r = None)"
  by (cases "IsZero (fr_CreatedAt r)"; cases "fr_Exception r")
     (auto simp: UpsertReconciliationResult_def Let_def result_key_def case_prod_beta)

lemma Upsert_store:
  "ms_Results (snd (UpsertReconciliationResult uuid now runID r m)) =
     replace_first (\<lambda>s. result_key s = result_key r) (fst (UpsertReconciliationResult uuid now runID r m))
       (ms_Results m)"
  by (cases "IsZero (fr_CreatedAt r)"; cases "fr_Exception r")
     (simp_all add: UpsertReconciliationResult_def Let_def result_key_def case_prod_beta)

interpretation results: keyed_store "UpsertReconciliationResult uuid now runID"
    GetReconciliationResult result_key for uuid now runID
proof
  fix v s k
  show k: "result_key (fst (UpsertReconciliationResult uuid now runID v s)) = result_key v"
    using Upsert_row by blast
  show "GetReconciliationResult k (snd (UpsertReconciliationResult uuid now runID v s)) =
      (if k = result_key v then Some (fst (UpsertReconciliationResult uuid now runID v s))
       else GetReconciliationResult k s)"
    unfolding GetReconciliationResult_def Upsert_store
    using find_replace_first [of result_key k "fst (UpsertReconciliationResult uuid now runID v s)"
        "ms_Results s"] k
    by (simp add: result_key_def)
qed

interpretation runs: keyed_store "\<lambda>run m. (run, CompleteReconciliationRun run m)"
    GetReconciliationRun rr_ID
  by unfold_locales
     (simp_all add: GetReconciliationRun_def CompleteReconciliationRun_def find_replace_first)

section \<open>Edges only gain knowledge\<close>

lemma keep_string_trim: "TrimSpace old \<noteq> [] \<Longrightarrow> TrimSpace (keep_string (TrimSpace new) old) \<noteq> []"
  by (auto simp: keep_string_def)

definition same_edge :: "MarketplaceTransferEdge \<Rightarrow> MarketplaceTransferEdge \<Rightarrow> bool" where
  "same_edge p q \<longleftrightarrow> te_TransferID q = te_TransferID p
     \<and> refundScopeKey (te_TenantID q) (te_ConnectorID q) = refundScopeKey (te_TenantID p) (te_ConnectorID p)"

lemma upsert_edge_reverse:
  assumes "refundScopeKey (te_TenantID e) (te_ConnectorID e) = scope"
    and "te_ReverseTransferID e = TrimSpace rv"
    and "p \<in> set es" "HasReverse p"
  shows "\<exists>q \<in> set (snd (upsert_edge scope fr e es)). same_edge p q \<and> HasReverse q"
  using assms(3)
proof (induction es)
  case (Cons prev es)
  show ?case
  proof (cases "te_TransferID prev = [] \<or> te_TransferID prev \<noteq> te_TransferID e
         \<or> refundScopeKey (te_TenantID prev) (te_ConnectorID prev) \<noteq> scope")
    case True
    then have u: "snd (upsert_edge scope fr e (prev # es)) = prev # snd (upsert_edge scope fr e es)"
      by (auto simp: case_prod_beta)
    show ?thesis
    proof (cases "p = prev")
      case True
      with assms(4) show ?thesis unfolding u by (auto simp: same_edge_def)
    next
      case False
      with Cons show ?thesis unfolding u by auto
    qed
  next
    case False
    then have u: "snd (upsert_edge scope fr e (prev # es)) = coalesce_edge fr e prev # es"
      by (simp add: Let_def)
    show ?thesis
    proof (cases "p = prev")
      case True
      then have "same_edge p (coalesce_edge fr e prev) \<and> HasReverse (coalesce_edge fr e prev)"
        using False assms(1,2,4) keep_string_trim
        by (auto simp: same_edge_def coalesce_edge_def HasReverse_def)
      then show ?thesis unfolding u by auto
    next
      case False
      with Cons.prems assms(4) show ?thesis unfolding u by (auto simp: same_edge_def)
    qed
  qed
qed simp

text \<open>
  C39.  Ingesting a transfer edge never un-reverses anything: every stored edge that records a
  reversal is still there after any \<open>UpsertTransferEdge\<close>, for the same transfer and tenant
  scope, and still records a reversal, even when the new observation carries none.
\<close>

theorem reversal_survives_every_upsert:
  assumes "p \<in> set (ms_TransferEdges m)" "HasReverse p"
  shows "\<exists>q \<in> set (ms_TransferEdges (snd (UpsertTransferEdge uuid tenant connector e m))).
     same_edge p q \<and> HasReverse q"
proof -
  define i where "i = fst (fresh_if_blank uuid (te_ID e) m)"
  define e' where "e' = normal_edge tenant connector (e\<lparr>te_ID := i\<rparr>)"
  have s: "ms_TransferEdges (snd (UpsertTransferEdge uuid tenant connector e m)) =
      snd (upsert_edge (refundScopeKey tenant connector)
        (te_RefundIDFromReversal e \<and> TrimSpace (te_RefundID e) \<noteq> []) e' (ms_TransferEdges m))"
    by (simp add: UpsertTransferEdge_def Let_def case_prod_beta e'_def i_def)
  show ?thesis
    unfolding s
    by (rule upsert_edge_reverse [OF _ _ assms, of _ _ "te_ReverseTransferID e"])
       (simp_all add: e'_def normal_edge_def)
qed

definition sample_edge :: MarketplaceTransferEdge where
  "sample_edge = \<lparr>te_ID = ''e1'', te_TenantID = ''t'', te_ConnectorID = ''c'', te_TransferID = ''trf1'',
     te_ReverseTransferID = ''rvrsl1'', te_PaymentID = ''p1'', te_RefundID = [], te_SellerID = ''s1'',
     te_AmountMinor = 100, te_Currency = ''INR'', te_TransferAt = 0, te_ReverseAt = 0,
     te_CreatedAt = 0, te_RefundIDFromReversal = False\<rparr>"

lemma reversal_survives_every_upsert_witness:
  "\<exists>q \<in> set (ms_TransferEdges (snd (UpsertTransferEdge (\<lambda>_. ''id'') ''t'' ''c''
      (sample_edge\<lparr>te_ReverseTransferID := []\<rparr>)
      (NewMemoryFinancialStore\<lparr>ms_TransferEdges := [sample_edge]\<rparr>)))).
     same_edge sample_edge q \<and> HasReverse q"
  by (rule reversal_survives_every_upsert)
     (simp_all add: sample_edge_def HasReverse_def str_simps)

end
