(* ===== verification/Effects.thy ===== *)
theory Effects
  imports Prelude
begin

text \<open>
  The service methods of the program, as computations over a store that may fail: the state is
  the store and the number of store calls made so far.  \<open>fault n = Some e\<close> makes the n-th
  call return the error \<open>e\<close> without an effect, so one computation covers every error path of
  the code and every prefix of its effects.  \<open>keeps\<close> and \<open>answers\<close> are the two properties
  that pass through every composition: what a computation leaves alone, and that it returns a
  value.
\<close>

type_synonym ('s, 'a) io = "'s \<times> nat \<Rightarrow> (string + 'a) \<times> ('s \<times> nat)"

definition returnE :: "'a \<Rightarrow> ('s, 'a) io" where
  "returnE x s = (Inr x, s)"

definition failE :: "string \<Rightarrow> ('s, 'a) io" where
  "failE e s = (Inl e, s)"

definition bindE :: "('s, 'a) io \<Rightarrow> ('a \<Rightarrow> ('s, 'b) io) \<Rightarrow> ('s, 'b) io" where
  "bindE f g s = (case f s of (Inl e, s) \<Rightarrow> (Inl e, s) | (Inr x, s) \<Rightarrow> g x s)"

definition attempt :: "(nat \<Rightarrow> string option) \<Rightarrow> ('s \<Rightarrow> 'a \<times> 's) \<Rightarrow> ('s, 'a) io" where
  "attempt fault f s =
     (let (m, n) = s
      in case fault n of
           Some e \<Rightarrow> (Inl e, (m, Suc n))
         | None \<Rightarrow> (let (x, m) = f m in (Inr x, (m, Suc n))))"

fun traverse :: "('a \<Rightarrow> ('s, 'b) io) \<Rightarrow> 'a list \<Rightarrow> ('s, 'b list) io" where
  "traverse f [] = returnE []"
| "traverse f (x # xs) = bindE (f x) (\<lambda>y. bindE (traverse f xs) (\<lambda>ys. returnE (y # ys)))"

text \<open>
  Errors: with a prefix, with a prefix unless a sentinel, only logged, replaced by a value, handled.
\<close>

definition wrapE :: "string \<Rightarrow> ('s, 'a) io \<Rightarrow> ('s, 'a) io" where
  "wrapE prefix f s = (case f s of (Inl err, t) \<Rightarrow> (Inl (prefix @ err), t) | r \<Rightarrow> r)"

definition wrap_unless :: "string \<Rightarrow> string \<Rightarrow> ('s, 'a) io \<Rightarrow> ('s, 'a) io" where
  "wrap_unless sentinel prefix f s =
     (case f s of (Inl err, t) \<Rightarrow> (Inl (if err = sentinel then err else prefix @ err), t) | r \<Rightarrow> r)"

definition log_error :: "('s, 'a) io \<Rightarrow> ('s, unit) io" where
  "log_error f s = (Inr (), snd (f s))"

definition orElse :: "('s, 'a) io \<Rightarrow> 'a \<Rightarrow> ('s, 'a) io" where
  "orElse f x s = (case f s of (Inl _, t) \<Rightarrow> (Inr x, t) | r \<Rightarrow> r)"

definition on_error :: "('s, 'a) io \<Rightarrow> (string \<Rightarrow> ('s, 'b) io) \<Rightarrow> ('a \<Rightarrow> ('s, 'b) io) \<Rightarrow> ('s, 'b) io" where
  "on_error f h g s = (case f s of (Inl err, t) \<Rightarrow> h err t | (Inr x, t) \<Rightarrow> g x t)"

text \<open>
  The two implementations of a store's \<open>RunInTx\<close>: the in-memory store runs the function as it
  is, the SQL store opens a transaction, and a failure of the function or of the commit leaves
  the store as it was.
\<close>

definition RunInTx_memory :: "('s, 'a) io \<Rightarrow> ('s, 'a) io" where
  "RunInTx_memory f = f"

definition RunInTx_sql :: "(nat \<Rightarrow> string option) \<Rightarrow> ('s, 'a) io \<Rightarrow> ('s, 'a) io" where
  "RunInTx_sql fault f s =
     (let (m, n) = s
      in case fault n of
           Some e \<Rightarrow> (Inl e, (m, Suc n))
         | None \<Rightarrow>
           (case f (m, Suc n) of
              (Inl e, (_, k)) \<Rightarrow> (Inl e, (m, k))
            | (Inr x, (m', k)) \<Rightarrow>
                (case fault k of Some e \<Rightarrow> (Inl e, (m, Suc k)) | None \<Rightarrow> (Inr x, (m', Suc k)))))"

section \<open>Inversion\<close>

lemma returnE_Inr: "returnE x s = (Inr y, s') \<longleftrightarrow> y = x \<and> s' = s"
  by (auto simp: returnE_def)

lemma failE_Inr [simp]: "failE e s \<noteq> (Inr y, s')"
  by (simp add: failE_def)

lemma bindE_Inr:
  "bindE f g s = (Inr y, s') \<longleftrightarrow> (\<exists>x t. f s = (Inr x, t) \<and> g x t = (Inr y, s'))"
  by (auto simp: bindE_def split: prod.splits sum.splits)

lemma bindE_InrE:
  assumes "bindE f g s = (Inr y, s')"
  obtains x t where "f s = (Inr x, t)" "g x t = (Inr y, s')"
  using assms by (auto simp: bindE_Inr)

lemma attempt_Inr:
  "attempt fault f s = (Inr x, t) \<longleftrightarrow>
     fault (snd s) = None \<and> x = fst (f (fst s)) \<and> t = (snd (f (fst s)), Suc (snd s))"
  by (cases s) (auto simp: attempt_def case_prod_beta Let_def split: option.splits)

text \<open>A transaction either has the effect of its function run to the end, or none.\<close>

lemma RunInTx_sql_cases:
  obtains (rollback) e where "fst (RunInTx_sql fault f s) = Inl e" "fst (snd (RunInTx_sql fault f s)) = fst s"
  | (commit) x m k where "f (fst s, Suc (snd s)) = (Inr x, (m, k))"
      "RunInTx_sql fault f s = (Inr x, (m, Suc k))"
proof (cases "fault (snd s)")
  case (Some e)
  then show thesis by (intro rollback [of e]) (simp_all add: RunInTx_sql_def case_prod_beta)
next
  case begun: None
  obtain r m k where f: "f (fst s, Suc (snd s)) = (r, (m, k))" by (metis surj_pair)
  show thesis
  proof (cases r)
    case (Inl e)
    then show thesis using begun f by (intro rollback [of e]) (simp_all add: RunInTx_sql_def case_prod_beta)
  next
    case (Inr x)
    show thesis
    proof (cases "fault k")
      case (Some e)
      then show thesis
        using begun f Inr by (intro rollback [of e]) (simp_all add: RunInTx_sql_def case_prod_beta)
    next
      case None
      then show thesis
        using begun f Inr by (intro commit [of x m k]) (simp_all add: RunInTx_sql_def case_prod_beta)
    qed
  qed
qed

text \<open>
  The contract a service relies on when it runs a function in a transaction: what is answered was
  computed from the store as it was and is now the store.  An atomic transaction that fails has no
  effect either.
\<close>

locale transaction =
  fixes tx :: "('s, 'a) io \<Rightarrow> ('s, 'a) io"
  assumes commits: "tx f s = (Inr x, t) \<Longrightarrow> \<exists>k j. f (fst s, k) = (Inr x, (fst t, j))"

locale atomic_transaction = transaction +
  assumes rolls_back: "tx f s = (Inl e, t) \<Longrightarrow> fst t = fst s"

interpretation memory_tx: transaction RunInTx_memory
  by unfold_locales (metis RunInTx_memory_def surj_pair fst_conv)

interpretation sql_tx: atomic_transaction "RunInTx_sql fault" for fault
proof
  fix f :: "('a, 'b) io" and s x t
  assume "RunInTx_sql fault f s = (Inr x, t)"
  then show "\<exists>k j. f (fst s, k) = (Inr x, (fst t, j))"
    by (cases rule: RunInTx_sql_cases [of fault f s]) (simp, metis fst_conv prod.inject sum.inject(2))
next
  fix f :: "('a, 'b) io" and s e t
  assume "RunInTx_sql fault f s = (Inl e, t)"
  then show "fst t = fst s"
    by (cases rule: RunInTx_sql_cases [of fault f s]) auto
qed

section \<open>What a computation leaves alone\<close>

named_theorems keeps_intros \<open>a step keeps a part of the store\<close>

definition keeps :: "('s \<Rightarrow> 'x) \<Rightarrow> ('s, 'a) io \<Rightarrow> bool" where
  "keeps g f \<longleftrightarrow> (\<forall>s. g (fst (snd (f s))) = g (fst s))"

lemma keeps_returnE [keeps_intros]: "keeps g (returnE x)"
  by (simp add: keeps_def returnE_def)

lemma keeps_failE [keeps_intros]: "keeps g (failE e)"
  by (simp add: keeps_def failE_def)

lemma keeps_bindE [keeps_intros]: "keeps g f \<Longrightarrow> (\<And>x. keeps g (h x)) \<Longrightarrow> keeps g (bindE f h)"
  unfolding keeps_def bindE_def by (metis (mono_tags, lifting) case_prod_conv obj_sumE old.sum.simps(5)
      old.sum.simps(6) snd_conv surj_pair)

lemma keeps_attempt [keeps_intros]: "(\<And>m. g (snd (f m)) = g m) \<Longrightarrow> keeps g (attempt fault f)"
  by (auto simp: keeps_def attempt_def case_prod_beta Let_def split: option.split)

lemma keeps_if [keeps_intros]: "(b \<Longrightarrow> keeps g f) \<Longrightarrow> (\<not> b \<Longrightarrow> keeps g h) \<Longrightarrow> keeps g (if b then f else h)"
  by simp

lemma keeps_traverse [keeps_intros]: "(\<And>x. keeps g (f x)) \<Longrightarrow> keeps g (traverse f xs)"
  by (induction xs) (simp_all add: keeps_intros)

section \<open>Computations that return a value\<close>

named_theorems answers_intros \<open>a step that does not fail\<close>

definition answers :: "('s, 'a) io \<Rightarrow> bool" where
  "answers f \<longleftrightarrow> (\<forall>s. \<exists>x t. f s = (Inr x, t))"

lemma answers_returnE [answers_intros]: "answers (returnE x)"
  by (simp add: answers_def returnE_def)

lemma answers_bindE [answers_intros]: "answers f \<Longrightarrow> (\<And>x. answers (g x)) \<Longrightarrow> answers (bindE f g)"
  unfolding answers_def bindE_def by (metis (no_types, lifting) case_prod_conv old.sum.simps(6))

lemma answers_attempt [answers_intros]: "(\<And>n. fault n = None) \<Longrightarrow> answers (attempt fault f)"
  by (auto simp: answers_def attempt_def case_prod_beta Let_def)

lemma answers_if [answers_intros]: "answers f \<Longrightarrow> answers g \<Longrightarrow> answers (if b then f else g)"
  by simp

lemma answers_traverse [answers_intros]: "(\<And>x. answers (f x)) \<Longrightarrow> answers (traverse f xs)"
  by (induction xs) (simp_all add: answers_intros)

end
