(* ===== verification/RunService.thy ===== *)
theory RunService
  imports FinStore Effects
begin

text \<open>
  \<^verbatim>\<open>financial_service.go\<close>: \<open>FinancialService.Run\<close> over the in-memory store, with every
  store call allowed to fail.  The state is the store and the number of calls made so far;
  \<open>env_fault n = Some e\<close> makes the n-th call return the error \<open>e\<close> without an effect, which
  covers every error path of the code and every prefix of a run.  The external packages are
  parameters of the environment: \<open>env_uuid\<close> (fresh identifiers), \<open>env_parse\<close> and
  \<open>env_nil\<close> (\<open>uuid.Parse\<close>, \<open>uuid.Nil\<close>).  An error result drops the partial run row
  the code hands back beside the error.
\<close>

record run_env =
  env_uuid :: "nat \<Rightarrow> string"
  env_parse :: "string \<Rightarrow> string option"
  env_nil :: string
  env_now :: time
  env_done :: time
  env_clock :: time
  env_fault :: "nat \<Rightarrow> string option"
  env_ordB :: "string list \<Rightarrow> string list"
  env_ordP :: "string \<Rightarrow> string list \<Rightarrow> string list"

type_synonym svc_state = "MemoryFinancialStore \<times> nat"
type_synonym 'a svc = "(MemoryFinancialStore, 'a) io"

definition call :: "run_env \<Rightarrow> (MemoryFinancialStore \<Rightarrow> 'a \<times> MemoryFinancialStore) \<Rightarrow> 'a svc" where
  "call env f = attempt (env_fault env) f"

definition reads :: "run_env \<Rightarrow> (MemoryFinancialStore \<Rightarrow> 'a) \<Rightarrow> 'a svc" where
  "reads env f = call env (\<lambda>m. (f m, m))"

text \<open>\<open>uuid.Must(uuid.NewV7())\<close> outside the store.\<close>

definition new_id :: "run_env \<Rightarrow> string svc" where
  "new_id env s = (let (i, m) = fresh (env_uuid env) (fst s) in (Inr i, (m, snd s)))"

section \<open>Investigations\<close>

definition NeedsInvestigation :: "FinancialResult \<Rightarrow> bool" where
  "NeedsInvestigation r =
     (if fr_Exception r = None then False
      else if fr_Result r = ResultMatched then False
      else if fr_Result r \<in> {ResultUnresolved, ResultConflicted, ResultVariance, ResultAmbiguous,
                             ResultOrphan} then True
      else fr_Exception r \<noteq> None)"

section \<open>One run\<close>

record FinancialRunRequest =
  rq_TenantID :: string
  rq_ConnectorID :: string
  rq_AccountID :: string
  rq_BatchID :: string
  rq_PayoutIDs :: "string list"

record run_data =
  rd_pays :: "PaymentFact list"
  rd_lines :: "SettlementLine list"
  rd_banks :: "BankTxn list"
  rd_decisions :: "SettlementBankDecision list"
  rd_refunds :: "RefundFact list"
  rd_books :: "MerchantBookFact list"

definition load_data :: "run_env \<Rightarrow> FinancialRunRequest \<Rightarrow> run_data svc" where
  "load_data env rq =
     bindE (reads env ms_Payments) (\<lambda>pays.
     bindE (reads env ms_Lines) (\<lambda>lines.
     bindE (reads env (ListBankTxns (rq_AccountID rq))) (\<lambda>banks.
     bindE (reads env ms_Decisions) (\<lambda>decisions.
     bindE (reads env (ListRefunds (rq_TenantID rq) (rq_ConnectorID rq) [])) (\<lambda>refunds.
     bindE (reads env ms_MerchantBooks) (\<lambda>books.
     returnE \<lparr>rd_pays = scopePayments pays (rq_BatchID rq), rd_lines = lines, rd_banks = banks,
       rd_decisions = decisions, rd_refunds = refunds, rd_books = books\<rparr>))))))"

definition payment_input :: "time \<Rightarrow> run_data \<Rightarrow> PaymentFact \<Rightarrow> ObservationFact list \<Rightarrow> FinancialInput" where
  "payment_input now d pay events =
     (let payLines = indexSettlementByPayment (rd_lines d) (pf_PaymentID pay);
          payDecisions = concat (map (\<lambda>l. decisionsByLine (rd_decisions d) (lineID l)) payLines)
      in \<lparr>fi_Payment = pay, fi_Events = events, fi_Lines = payLines, fi_Decisions = payDecisions,
          fi_Banks = relatedBanks events (rd_banks d) payDecisions,
          fi_Refunds = refundsFor (rd_refunds d) (pf_PaymentID pay),
          fi_Merchant = fst (indexMerchantBooks (rd_books d)) (pf_PaymentID pay),
          fi_Disputes = [], fi_TaxLines = [], fi_Now = now, fi_StuckAfter = DefaultStuckAfter\<rparr>)"

definition run_payment :: "run_env \<Rightarrow> run_data \<Rightarrow> PaymentFact \<Rightarrow> FinancialResult svc" where
  "run_payment env d pay =
     bindE (reads env (\<lambda>m. ms_Events m (pf_PaymentID pay)))
       (\<lambda>events. returnE (ReconcilePayment (env_now env) (payment_input (env_now env) d pay events)))"

definition run_payout :: "run_env \<Rightarrow> run_data \<Rightarrow> PayoutFact \<Rightarrow> FinancialResult svc" where
  "run_payout env d po =
     bindE (reads env (\<lambda>m. ms_PayoutEvents m (po_PayoutID po)))
       (\<lambda>events. returnE (ReconcilePayout (env_now env)
          \<lparr>pi_Payout = po, pi_Events = events, pi_Banks = relatedPayoutBanks po events (rd_banks d),
           pi_Now = env_now env, pi_StuckAfter = DefaultPayoutSLA,
           pi_Merchant = snd (indexMerchantBooks (rd_books d)) (po_PayoutID po)\<rparr>))"

definition orphan_with_decision :: "BankTxn \<Rightarrow> SettlementBankDecision \<Rightarrow> FinancialResult" where
  "orphan_with_decision b d =
     (let fr = OrphanBankResult b;
          refs = (fr_EvidenceRefs fr)\<lparr>er_SettlementBankDecisionID := bd_ID d\<rparr>
      in fr\<lparr>fr_EvidenceRefs := refs,
            fr_Exception := (case fr_Exception fr of None \<Rightarrow> None
              | Some ex \<Rightarrow> Some (ex\<lparr>ex_EvidenceRefs := refs, ex_EvidenceIDs := EvidenceIDList refs\<rparr>))\<rparr>)"

fun orphan_decisions :: "(string \<rightharpoonup> BankTxn) \<Rightarrow> string set \<Rightarrow> SettlementBankDecision list
    \<Rightarrow> FinancialResult list \<times> string set" where
  "orphan_decisions banks used [] = ([], used)"
| "orphan_decisions banks used (d # ds) =
     (if bd_State d \<noteq> BankMatchOrphanBank then orphan_decisions banks used ds
      else case banks (bd_BankObservationID d) of
          None \<Rightarrow> orphan_decisions banks used ds
        | Some b \<Rightarrow>
            if bt_ID b \<in> used then orphan_decisions banks used ds
            else let fr = orphan_with_decision b d;
                     (rs, used) = orphan_decisions banks (markUsedBanks used fr) ds
                 in (fr # rs, used))"

definition orphan_results :: "run_data \<Rightarrow> string set \<Rightarrow> FinancialResult list" where
  "orphan_results d used =
     (let (rs, used) = orphan_decisions (bankByID_map (rd_banks d)) used (rd_decisions d)
      in rs @ map OrphanBankResult (UnusedCreditBanks (rd_banks d) used))"

section \<open>Persisting\<close>

definition exceptionPayload :: "FinancialResult \<Rightarrow> (string \<times> int64 \<times> string list) option" where
  "exceptionPayload fr = (case fr_Exception fr of None \<Rightarrow> None
     | Some ex \<Rightarrow> Some (ex_Reason ex, ex_VarianceAmount ex, ex_CandidateIDs ex))"

definition decision_payload :: "string \<Rightarrow> FinancialRunRequest \<Rightarrow> string \<Rightarrow> FinancialResult
    \<Rightarrow> (string \<times> payload_value) list" where
  "decision_payload eventID rq runID fr =
     [(''event_type'', PString ''reconciliation.decision.v1''), (''event_id'', PString eventID),
      (''event_version'', PString ''v1''), (''schema_version'', PString ''v1''),
      (''rule_version'', PString FinancialRuleVersion), (''tenant_id'', PString (rq_TenantID rq)),
      (''connector_id'', PString (rq_ConnectorID rq)), (''run_id'', PString runID),
      (''entity_type'', PString (fr_EntityType fr)), (''entity_id'', PString (fr_EntityID fr)),
      (''status'', PString (fr_Status fr)), (''result'', PString (fr_Result fr)),
      (''expected_amount'', PInt (fr_ExpectedAmount fr)),
      (''observed_amount'', PInt (fr_ObservedAmount fr)),
      (''variance_amount'', PInt (fr_VarianceAmount fr)),
      (''bank_credit_proven'', PBool (fr_BankCreditProven fr)), (''reason'', PString (fr_Reason fr)),
      (''currency'', PString ''INR''), (''candidate_ids'', PStrings (fr_CandidateIDs fr)),
      (''evidence_refs'', PRefs (fr_EvidenceRefs fr)),
      (''exception'', PException (exceptionPayload fr))]"

definition parse_or :: "run_env \<Rightarrow> string \<Rightarrow> string \<Rightarrow> string" where
  "parse_or env s dflt = (case env_parse env s of None \<Rightarrow> dflt | Some u \<Rightarrow> u)"

definition emitDecision :: "run_env \<Rightarrow> FinancialRunRequest \<Rightarrow> string \<Rightarrow> FinancialResult \<Rightarrow> unit svc" where
  "emitDecision env rq runID fr =
     bindE (new_id env) (\<lambda>eventID. bindE (new_id env) (\<lambda>agg.
     call env (\<lambda>m. ((), InsertMatchOutbox
       \<lparr>ob_EventID = eventID, ob_TenantID = parse_or env (rq_TenantID rq) (env_nil env),
        ob_AggregateType = ''reconciliation_result'',
        ob_AggregateID = parse_or env (er_CanonicalPaymentID (fr_EvidenceRefs fr)) agg,
        ob_EventType = ''reconciliation.decision.v1'',
        ob_Payload = decision_payload eventID rq runID fr, ob_CreatedAt = env_now env\<rparr> m))))"

definition store_exception :: "run_env \<Rightarrow> FinancialRunRequest \<Rightarrow> string \<Rightarrow> FinancialResult \<Rightarrow> unit svc" where
  "store_exception env rq runID saved =
     (case fr_Exception saved of
        Some ex \<Rightarrow>
          if NeedsInvestigation saved then
            bindE (call env (InsertReconciliationException (env_uuid env) (env_clock env)
                (rq_TenantID rq) (rq_ConnectorID rq) runID
                (ex\<lparr>ex_TenantID := rq_TenantID rq, ex_ConnectorID := rq_ConnectorID rq,
                    ex_RunID := runID\<rparr>))) (\<lambda>_. returnE ())
          else returnE ()
      | None \<Rightarrow> returnE ())"

definition persist_one :: "run_env \<Rightarrow> FinancialRunRequest \<Rightarrow> string \<Rightarrow> FinancialResult \<Rightarrow> FinancialResult svc" where
  "persist_one env rq runID fr =
     bindE (call env (UpsertReconciliationResult (env_uuid env) (env_clock env) runID fr)) (\<lambda>saved.
     bindE (store_exception env rq runID saved) (\<lambda>_.
     bindE (emitDecision env rq runID saved) (\<lambda>_. returnE saved)))"

fun count_results :: "string list \<Rightarrow> (string \<times> int) list \<Rightarrow> (string \<times> int) list" where
  "count_results [] counts = counts"
| "count_results (r # rs) counts =
     count_results rs (alist_put r ((case map_of counts r of None \<Rightarrow> 0 | Some n \<Rightarrow> n) + 1) counts)"

definition completed_run :: "run_env \<Rightarrow> ReconciliationRun \<Rightarrow> nat \<Rightarrow> FinancialResult list \<Rightarrow> ReconciliationRun" where
  "completed_run env run entities persisted = run\<lparr>rr_Status := ''completed'',
     rr_PaymentCount := int entities,
     rr_MatchedCount := int (length (filter (\<lambda>r. fr_Result r = ResultMatched) persisted)),
     rr_ExceptionCount := int (length (filter NeedsInvestigation persisted)),
     rr_Counts := count_results (map fr_Result persisted) [],
     rr_CompletedAt := env_done env, rr_EntityIDs := map fr_EntityID persisted\<rparr>"

definition run_body :: "run_env \<Rightarrow> FinancialRunRequest \<Rightarrow> (ReconciliationRun \<times> FinancialResult list) svc" where
  "run_body env rq =
     bindE (call env (InsertReconciliationRun (env_uuid env)
       \<lparr>rr_ID = [], rr_TenantID = rq_TenantID rq, rr_ConnectorID = rq_ConnectorID rq,
        rr_AccountID = rq_AccountID rq, rr_BatchID = TrimSpace (rq_BatchID rq), rr_EntityIDs = [],
        rr_Status = ''running'', rr_PaymentCount = 0, rr_MatchedCount = 0, rr_ExceptionCount = 0,
        rr_Counts = [], rr_CreatedAt = env_now env, rr_CompletedAt = 0\<rparr>)) (\<lambda>run.
     bindE (load_data env rq) (\<lambda>d.
     bindE (traverse (run_payment env d) (rd_pays d)) (\<lambda>payResults.
     bindE (reads env ms_Payouts) (\<lambda>allPayouts.
     (let wantPayout = payoutIDSet (rq_PayoutIDs rq);
          scoped = (wantPayout \<noteq> {} \<or> TrimSpace (rq_BatchID rq) \<noteq> []);
          payouts = scopePayouts allPayouts (rq_BatchID rq) wantPayout
      in bindE (traverse (run_payout env d) payouts) (\<lambda>payoutResults.
         (let usedBanks = foldl markUsedBanks {} (payResults @ payoutResults);
              results = applySharedBankAmbiguity (env_ordB env) (env_ordP env)
                (payResults @ payoutResults);
              results = results @ (if scoped then [] else orphan_results d usedBanks)
          in bindE (traverse (persist_one env rq (rr_ID run)) results) (\<lambda>persisted.
             (let run = completed_run env run (length (rd_pays d) + length payouts) persisted
              in bindE (call env (\<lambda>m. ((), CompleteReconciliationRun run m)))
                   (\<lambda>_. returnE (run, persisted)))))))))))"

abbreviation (input) ErrRunInProgress :: string where
  "ErrRunInProgress \<equiv> ''reconciliation already running for tenant''"

definition Run :: "run_env \<Rightarrow> FinancialRunRequest \<Rightarrow> (ReconciliationRun \<times> FinancialResult list) svc" where
  "Run env rq s =
     (let (m, n) = s
      in case env_fault env n of
           Some e \<Rightarrow> (Inl e, (m, Suc n))
         | None \<Rightarrow>
          (case TryLockTenantRun (rq_TenantID rq) (rq_ConnectorID rq) m of
             None \<Rightarrow> (Inl ErrRunInProgress, (m, Suc n))
           | Some m \<Rightarrow> (let (r, (m, n)) = run_body env rq (m, Suc n)
                        in (r, (unlock (rq_TenantID rq) (rq_ConnectorID rq) m, n)))))"

section \<open>What every step leaves alone\<close>

lemma keeps_call [keeps_intros]: "(\<And>m. g (snd (f m)) = g m) \<Longrightarrow> keeps g (call env f)"
  unfolding call_def by (rule keeps_attempt)

lemma keeps_reads [keeps_intros]: "keeps g (reads env f)"
  unfolding reads_def by (rule keeps_call) simp

text \<open>The evidence a run reads, and the locks: no write of a run touches them.\<close>

definition evidence_of :: "MemoryFinancialStore \<Rightarrow> PaymentFact list \<times> (string \<Rightarrow> ObservationFact list)
    \<times> PayoutFact list \<times> (string \<Rightarrow> ObservationFact list) \<times> SettlementLine list \<times> BankTxn list
    \<times> SettlementBankDecision list \<times> RefundFact list \<times> MarketplaceTransferEdge list
    \<times> MerchantBookFact list" where
  "evidence_of m = (ms_Payments m, ms_Events m, ms_Payouts m, ms_PayoutEvents m, ms_Lines m,
     ms_Banks m, ms_Decisions m, ms_Refunds m, ms_TransferEdges m, ms_MerchantBooks m)"

definition kept_by_run :: "MemoryFinancialStore \<Rightarrow> _" where
  "kept_by_run m = (evidence_of m, ms_heldRuns m)"

lemma kept_fresh [simp]:
  "kept_by_run (snd (fresh uuid m)) = kept_by_run m"
  "kept_by_run (snd (fresh_if_blank uuid i m)) = kept_by_run m"
  by (simp_all add: kept_by_run_def evidence_of_def fresh_if_blank_def fresh_def)

lemma kept_fields [simp]:
  "kept_by_run (m\<lparr>ms_Runs := x\<rparr>) = kept_by_run m"
  "kept_by_run (m\<lparr>ms_Results := y\<rparr>) = kept_by_run m"
  "kept_by_run (m\<lparr>ms_Exceptions := z\<rparr>) = kept_by_run m"
  "kept_by_run (m\<lparr>ms_Outbox := w\<rparr>) = kept_by_run m"
  by (simp_all add: kept_by_run_def evidence_of_def)

lemma kept_writes [simp]:
  "kept_by_run (snd (InsertReconciliationRun uuid run m)) = kept_by_run m"
  "kept_by_run (CompleteReconciliationRun run m) = kept_by_run m"
  "kept_by_run (snd (InsertReconciliationException uuid now t c r ex m)) = kept_by_run m"
  "kept_by_run (InsertMatchOutbox row m) = kept_by_run m"
  by (simp_all add: InsertReconciliationRun_def CompleteReconciliationRun_def Let_def
      InsertReconciliationException_def InsertMatchOutbox_def case_prod_beta)

lemma kept_upsert [simp]:
  "kept_by_run (snd (UpsertReconciliationResult uuid now runID r m)) = kept_by_run m"
  by (cases "IsZero (fr_CreatedAt r)"; cases "fr_Exception r")
     (simp_all add: UpsertReconciliationResult_def Let_def case_prod_beta)

lemma keeps_new_id [keeps_intros]: "keeps kept_by_run (new_id env)"
  by (simp add: keeps_def new_id_def case_prod_beta)

lemma keeps_store_exception [keeps_intros]: "keeps kept_by_run (store_exception env rq runID fr)"
  by (cases "fr_Exception fr") (auto simp: store_exception_def intro!: keeps_intros)

lemma keeps_run_body: "keeps kept_by_run (run_body env rq)"
  unfolding run_body_def load_data_def run_payment_def run_payout_def persist_one_def
    emitDecision_def Let_def
  by (intro keeps_intros; simp)

text \<open>
  C37.  A reconciliation run is read-only on its evidence and never leaks its lock: whatever store
  call fails, at whatever point, payments, payouts, observations, settlement lines, bank rows,
  bank decisions, refunds, transfer edges and merchant books are afterwards what they were, and
  the set of held run locks is what it was; while another run holds the lock, a run changes
  nothing at all.
\<close>

theorem run_keeps_evidence_and_releases_lock:
  "evidence_of (fst (snd (Run env rq s))) = evidence_of (fst s)
   \<and> ms_heldRuns (fst (snd (Run env rq s))) = ms_heldRuns (fst s)
   \<and> (refundScopeKey (rq_TenantID rq) (rq_ConnectorID rq) \<in> ms_heldRuns (fst s)
        \<longrightarrow> fst (snd (Run env rq s)) = fst s \<and> (\<exists>e. fst (Run env rq s) = Inl e))"
proof -
  obtain m n where s: "s = (m, n)" by fastforce
  let ?k = "refundScopeKey (rq_TenantID rq) (rq_ConnectorID rq)"
  show ?thesis
  proof (cases "env_fault env n \<noteq> None \<or> ?k \<in> ms_heldRuns m")
    case True
    then show ?thesis
      by (auto simp: s Run_def TryLockTenantRun_def Let_def split: option.split)
  next
    case False
    let ?m = "m\<lparr>ms_heldRuns := insert ?k (ms_heldRuns m)\<rparr>"
    obtain r m' n' where b: "run_body env rq (?m, Suc n) = (r, (m', n'))"
      by (metis prod_cases3)
    have "kept_by_run m' = kept_by_run ?m"
      using keeps_run_body [of env rq] b unfolding keeps_def by (metis fst_conv snd_conv)
    then have k: "evidence_of m' = evidence_of m" "ms_heldRuns m' = insert ?k (ms_heldRuns m)"
      by (simp_all add: kept_by_run_def evidence_of_def)
    have "Run env rq s = (r, (unlock (rq_TenantID rq) (rq_ConnectorID rq) m', n'))"
      using False b by (simp add: s Run_def TryLockTenantRun_def Let_def)
    with False k show ?thesis
      by (simp add: s unlock_def evidence_of_def)
  qed
qed

definition sample_env :: run_env where
  "sample_env = \<lparr>env_uuid = (\<lambda>n. replicate (Suc n) (CHR ''i'')), env_parse = (\<lambda>_. None),
     env_nil = ''nil'', env_now = 100, env_done = 200, env_clock = 150, env_fault = (\<lambda>_. None),
     env_ordB = id, env_ordP = (\<lambda>_. id)\<rparr>"

definition sample_request :: FinancialRunRequest where
  "sample_request = \<lparr>rq_TenantID = ''t1'', rq_ConnectorID = ''c1'', rq_AccountID = [],
     rq_BatchID = [], rq_PayoutIDs = []\<rparr>"

definition locked_store :: MemoryFinancialStore where
  "locked_store = NewMemoryFinancialStore\<lparr>ms_heldRuns := {''t1|c1''}\<rparr>"

lemma run_keeps_evidence_and_releases_lock_witness:
  "fst (snd (Run sample_env sample_request (locked_store, 0))) = locked_store"
proof -
  have "refundScopeKey (rq_TenantID sample_request) (rq_ConnectorID sample_request)
      \<in> ms_heldRuns (fst (locked_store, 0 :: nat))"
    by (simp add: locked_store_def sample_request_def refundScopeKey_def str_simps)
  with run_keeps_evidence_and_releases_lock [of sample_env sample_request "(locked_store, 0)"]
  show ?thesis by auto
qed

section \<open>What a completed run has stored\<close>

lemma call_Inr:
  "call env f s = (Inr x, s') \<longleftrightarrow>
     env_fault env (snd s) = None \<and> x = fst (f (fst s)) \<and> s' = (snd (f (fst s)), Suc (snd s))"
  by (simp add: call_def attempt_Inr)

lemma new_id_Inr: "new_id env s = (Inr i, s') \<Longrightarrow> ms_Results (fst s') = ms_Results (fst s)
   \<and> ms_Outbox (fst s') = ms_Outbox (fst s) \<and> ms_Runs (fst s') = ms_Runs (fst s)"
  by (auto simp: new_id_def fresh_def)

lemma store_frames [simp, frame_simps]:
  "ms_Results (snd (InsertReconciliationException uuid now t c r ex m)) = ms_Results m"
  "ms_Outbox (snd (InsertReconciliationException uuid now t c r ex m)) = ms_Outbox m"
  "ms_Results (InsertMatchOutbox row m) = ms_Results m"
  "ms_Outbox (InsertMatchOutbox row m) = ms_Outbox m @ [row]"
  "ms_Results (CompleteReconciliationRun run m) = ms_Results m"
  "ms_Outbox (CompleteReconciliationRun run m) = ms_Outbox m"
  by (simp_all add: InsertReconciliationException_def InsertMatchOutbox_def Let_def
      CompleteReconciliationRun_def case_prod_beta)

lemma Upsert_outbox [simp]:
  "ms_Outbox (snd (UpsertReconciliationResult uuid now runID r m)) = ms_Outbox m"
  by (cases "IsZero (fr_CreatedAt r)"; cases "fr_Exception r")
     (simp_all add: UpsertReconciliationResult_def Let_def case_prod_beta)

lemma emitDecision_Inr:
  "emitDecision env rq runID fr s = (Inr u, s') \<Longrightarrow>
     ms_Results (fst s') = ms_Results (fst s) \<and> ms_Runs (fst s') = ms_Runs (fst s)
     \<and> (\<exists>row. ms_Outbox (fst s') = ms_Outbox (fst s) @ [row]
       \<and> map_of (ob_Payload row) ''entity_id'' = Some (PString (fr_EntityID fr))
       \<and> map_of (ob_Payload row) ''result'' = Some (PString (fr_Result fr)))"
  unfolding emitDecision_def bindE_Inr call_Inr
  by (auto dest!: new_id_Inr simp: decision_payload_def InsertMatchOutbox_def)

lemma persist_one_Inr:
  assumes "persist_one env rq runID fr s = (Inr w, s')"
  shows "w = fst (UpsertReconciliationResult (env_uuid env) (env_clock env) runID fr (fst s))
    \<and> ms_Results (fst s') = ms_Results (snd (UpsertReconciliationResult (env_uuid env) (env_clock env) runID fr (fst s)))
    \<and> (\<exists>row. ms_Outbox (fst s') = ms_Outbox (fst s) @ [row]
       \<and> map_of (ob_Payload row) ''entity_id'' = Some (PString (fr_EntityID w))
       \<and> map_of (ob_Payload row) ''result'' = Some (PString (fr_Result w)))"
proof -
  let ?u = "UpsertReconciliationResult (env_uuid env) (env_clock env) runID fr"
  from assms [unfolded persist_one_def] obtain saved t1 where
    1: "call env ?u s = (Inr saved, t1)" and 2: "bindE (store_exception env rq runID saved) (\<lambda>_. bindE (emitDecision env rq runID saved) (\<lambda>_. returnE saved)) t1
       = (Inr w, s')"
    by (rule bindE_InrE)
  from 2 obtain x t2 where x: "store_exception env rq runID saved t1 = (Inr x, t2)"
    and 3: "bindE (emitDecision env rq runID saved) (\<lambda>_. returnE saved) t2 = (Inr w, s')"
    by (rule bindE_InrE)
  from 3 obtain y where e: "emitDecision env rq runID w t2 = (Inr y, s')" and w: "w = saved"
    by (auto elim!: bindE_InrE simp: returnE_Inr)
  have u: "w = fst (?u (fst s))" "t1 = (snd (?u (fst s)), Suc (snd s))"
    using 1 w by (auto simp: call_Inr)
  have "ms_Results (fst t2) = ms_Results (fst t1) \<and> ms_Outbox (fst t2) = ms_Outbox (fst t1)"
    using x by (auto simp: store_exception_def bindE_Inr call_Inr returnE_Inr split: if_splits option.splits)
  with emitDecision_Inr [OF e] u show ?thesis by simp
qed

text \<open>What a result says, without the identifiers and the time the store adds to it.\<close>

definition finding :: "FinancialResult \<Rightarrow> FinancialResult" where
  "finding r = r\<lparr>fr_ID := [], fr_RunID := [], fr_CreatedAt := 0,
     fr_Exception := map_option (\<lambda>ex. ex\<lparr>ex_ID := [], ex_RunID := []\<rparr>) (fr_Exception r)\<rparr>"

lemma finding_upsert: "finding (fst (UpsertReconciliationResult uuid now runID r m)) = finding r"
  by (cases "IsZero (fr_CreatedAt r)"; cases "fr_Exception r")
     (simp_all add: UpsertReconciliationResult_def finding_def Let_def case_prod_beta)

lemma finding_key [simp]: "result_key (finding r) = result_key r"
  by (simp add: finding_def result_key_def)

lemma traverse_persist:
  "traverse (persist_one env rq runID) rs s = (Inr ws, s') \<Longrightarrow>
     map result_key ws = map result_key rs \<and> map finding ws = map finding rs
     \<and> (\<forall>k. k \<notin> result_key ` set rs \<longrightarrow> GetReconciliationResult k (fst s') = GetReconciliationResult k (fst s))
     \<and> (distinct (map result_key rs) \<longrightarrow>
          (\<forall>w \<in> set ws. GetReconciliationResult (result_key w) (fst s') = Some w))
     \<and> length (ms_Outbox (fst s')) = length (ms_Outbox (fst s)) + length rs"
proof (induction rs arbitrary: s ws)
  case Nil
  then show ?case by (simp add: returnE_Inr)
next
  case (Cons r rs)
  let ?u = "UpsertReconciliationResult (env_uuid env) (env_clock env) runID r (fst s)"
  from Cons.prems obtain w t ws' where w: "persist_one env rq runID r s = (Inr w, t)"
    and r: "traverse (persist_one env rq runID) rs t = (Inr ws', s')" and ws: "ws = w # ws'"
    by (auto simp: bindE_Inr returnE_Inr)
  note p = persist_one_Inr [OF w]
  have get: "GetReconciliationResult k (fst t) =
      (if k = result_key r then Some w else GetReconciliationResult k (fst s))" for k
    using results.get_put [of k "env_uuid env" "env_clock env" runID r "fst s"] p
    by (simp add: GetReconciliationResult_def)
  have kw: "result_key w = result_key r"
    using p results.key_put [of "env_uuid env" "env_clock env" runID r "fst s"] by simp
  have ob: "length (ms_Outbox (fst t)) = Suc (length (ms_Outbox (fst s)))"
    using p by auto
  note i = Cons.IH [OF r]
  have keep: "GetReconciliationResult k (fst s') = GetReconciliationResult k (fst t)"
    if "k \<notin> result_key ` set rs" for k
    using i that by blast
  have "GetReconciliationResult k (fst s') = GetReconciliationResult k (fst s)"
    if "k \<notin> result_key ` set (r # rs)" for k
    using keep [of k] get [of k] that by simp
  moreover have "GetReconciliationResult (result_key x) (fst s') = Some x"
    if "distinct (map result_key (r # rs))" "x \<in> set ws" for x
  proof (cases "x = w")
    case True
    with keep [of "result_key r"] get [of "result_key r"] kw that show ?thesis by auto
  next
    case False
    with i that ws show ?thesis by auto
  qed
  moreover have "finding w = finding r" using p by (simp add: finding_upsert)
  ultimately show ?case using i kw ws ob by simp
qed

text \<open>Every result keeps the identity of the entity it is about.\<close>

lemma key_frames [simp]:
  "result_key (withException out res reason conf) = result_key out"
  "result_key (attachDecision out d) = result_key out"
  "result_key (attach_exact_variance out d) = result_key out"
  "result_key (AnnotateCashFlow out) = result_key out"
  "result_key (default_rule_version out) = result_key out"
  "result_key (MarkAmbiguous out cands) = result_key out"
  "result_key (with_bank_row out b) = result_key out"
  "result_key (with_bank_amount out b) = result_key out"
  by (simp_all add: result_key_def frame_simps default_rule_version_def with_bank_amount_def
      with_bank_row_def MarkAmbiguous_def Let_def split: option.split)

lemma key_updates [simp]:
  "result_key (fr\<lparr>fr_Result := a\<rparr>) = result_key fr"
  "result_key (fr\<lparr>fr_Reason := b\<rparr>) = result_key fr"
  "result_key (fr\<lparr>fr_Confidence := c\<rparr>) = result_key fr"
  "result_key (fr\<lparr>fr_ExpectedAmount := d\<rparr>) = result_key fr"
  "result_key (fr\<lparr>fr_ObservedAmount := d\<rparr>) = result_key fr"
  "result_key (fr\<lparr>fr_VarianceAmount := d\<rparr>) = result_key fr"
  "result_key (fr\<lparr>fr_EvidenceRefs := e\<rparr>) = result_key fr"
  "result_key (fr\<lparr>fr_BankCreditProven := f\<rparr>) = result_key fr"
  "result_key (fr\<lparr>fr_MerchantAgreed := f\<rparr>) = result_key fr"
  "result_key (fr\<lparr>fr_MerchantObserved := f\<rparr>) = result_key fr"
  "result_key (fr\<lparr>fr_CandidateIDs := g\<rparr>) = result_key fr"
  "result_key (fr\<lparr>fr_Rail := h\<rparr>) = result_key fr"
  "result_key (fr\<lparr>fr_Exception := i\<rparr>) = result_key fr"
  by (simp_all add: result_key_def)

lemma bank_decision_key:
  "result_key (reconcile_bank_decision out inp exact high conflicted ambiguous) = result_key out"
  by (simp add: reconcile_bank_decision_def Let_def split: option.split)

lemma captured_amounts_key:
  "result_key (captured_amounts out inp ls exact high conflicted ambiguous) = result_key out"
  by (simp add: captured_amounts_def Let_def bank_decision_key split: option.split)

lemma captured_books_key:
  "result_key (captured_books out inp ls exact high conflicted ambiguous) = result_key out"
  by (simp add: captured_books_def Let_def captured_amounts_key split: option.split)

lemma captured_key:
  "result_key (reconcileCaptured out inp has exact high conflicted ambiguous) = result_key out"
  by (simp add: reconcileCaptured_def Let_def captured_books_key split: option.split)

lemma ReconcilePayment_key:
  "result_key (ReconcilePayment clock inp) = (EntityPayment, pf_PaymentID (fi_Payment inp))"
  by (simp add: ReconcilePayment_def reconcilePayment_def reconcileFailed_def Let_def case_prod_beta
      captured_key) (simp add: result_key_def)

lemma ReconcilePayout_key:
  "result_key (ReconcilePayout clock inp) = (EntityPayout, po_PayoutID (pi_Payout inp))"
  by (simp add: ReconcilePayout_def reconcilePayout_def payout_by_status_def payout_processed_def
      payout_reversed_def Let_def split: option.split) (simp add: result_key_def payout_base_def Let_def)

lemma OrphanBank_key: "result_key (OrphanBankResult b) = (EntityBank, bt_ID b)"
  by (simp add: OrphanBankResult_def orphanBankResult_def) (simp add: result_key_def)

lemma apply_keys: "map result_key (applySharedBankAmbiguity ob op rs) = map result_key rs"
  by (simp add: applySharedBankAmbiguity_def split: option.split)

lemma orphan_with_decision_key: "result_key (orphan_with_decision b d) = (EntityBank, bt_ID b)"
  by (simp add: orphan_with_decision_def Let_def OrphanBank_key)

lemma orphan_keys: "r \<in> set (orphan_results d used) \<Longrightarrow> fst (result_key r) = EntityBank"
proof -
  have "r \<in> set (fst (orphan_decisions banks used ds)) \<Longrightarrow> fst (result_key r) = EntityBank"
    for banks used ds
    by (induction banks used ds rule: orphan_decisions.induct)
       (auto simp: Let_def case_prod_beta orphan_with_decision_key split: if_splits option.splits)
  then show "r \<in> set (orphan_results d used) \<Longrightarrow> fst (result_key r) = EntityBank"
    by (auto simp: orphan_results_def Let_def case_prod_beta OrphanBank_key)
qed

text \<open>The bank rows the orphan pass reports: those no result refers to and that a decision or their sign calls for.\<close>

definition orphan_rows :: "run_data \<Rightarrow> string set \<Rightarrow> string set" where
  "orphan_rows d used = {bt_ID b | b. b \<in> set (rd_banks d) \<and> bt_ID b \<notin> used \<and>
     (IsCredit b \<or> (\<exists>x \<in> set (rd_decisions d). bd_State x = BankMatchOrphanBank \<and> bd_BankObservationID x = bt_ID b))}"

lemma OrphanBank_content [simp]:
  "fr_Result (OrphanBankResult b) = ResultOrphan" "fr_EntityID (OrphanBankResult b) = bt_ID b"
  "er_BankObservationID (fr_EvidenceRefs (OrphanBankResult b)) = bt_ID b" "fr_CandidateIDs (OrphanBankResult b) = []"
  by (simp_all add: OrphanBankResult_def orphanBankResult_def frame_simps default_rule_version_def zero_FinancialResult_def)

lemma orphan_with_decision_content [simp]:
  "fr_Result (orphan_with_decision b d) = ResultOrphan" "fr_EntityID (orphan_with_decision b d) = bt_ID b"
  "set (used_by (orphan_with_decision b d)) = {i. i = bt_ID b \<and> i \<noteq> []}"
  by (simp_all add: orphan_with_decision_def Let_def used_by_set)

definition decided_orphan :: "(string \<rightharpoonup> BankTxn) \<Rightarrow> SettlementBankDecision list \<Rightarrow> string \<Rightarrow> bool" where
  "decided_orphan banks ds i \<longleftrightarrow>
     (\<exists>x \<in> set ds. bd_State x = BankMatchOrphanBank \<and> bd_BankObservationID x = i \<and> banks i \<noteq> None)"

lemma decided_orphan_Cons [simp]:
  "decided_orphan banks (x # ds) i \<longleftrightarrow> decided_orphan banks ds i
     \<or> (bd_State x = BankMatchOrphanBank \<and> bd_BankObservationID x = i \<and> banks i \<noteq> None)"
  "\<not> decided_orphan banks [] i"
  by (auto simp: decided_orphan_def)

lemma orphan_decisions_ids:
  assumes "\<And>i b. banks i = Some b \<Longrightarrow> bt_ID b = i" and "orphan_decisions banks used ds = (rs, used')"
  shows "(\<forall>r \<in> set rs. fr_Result r = ResultOrphan)
    \<and> fr_EntityID ` set rs = {i. i \<notin> used \<and> decided_orphan banks ds i}
    \<and> used' = used \<union> (fr_EntityID ` set rs - {[]})
    \<and> (banks [] = None \<longrightarrow> distinct (map fr_EntityID rs))"
  using assms(2)
proof (induction ds arbitrary: used rs)
  case (Cons x ds)
  let ?i = "bd_BankObservationID x"
  show ?case
  proof (cases "bd_State x = BankMatchOrphanBank \<and> banks ?i \<noteq> None \<and> ?i \<notin> used")
    case False
    then have "orphan_decisions banks used ds = (rs, used')"
      using Cons.prems assms(1) by (auto split: if_splits option.splits)
    from Cons.IH [OF this] show ?thesis using False by auto
  next
    case True
    then obtain b where b: "banks ?i = Some b" "bt_ID b = ?i" using assms(1) by auto
    let ?fr = "orphan_with_decision b x" and ?used = "markUsedBanks used (orphan_with_decision b x)"
    have used: "?used = used \<union> ({?i} - {[]})" using b(2) by (auto simp: markUsedBanks_set)
    obtain rest where rest: "orphan_decisions banks ?used ds = (rest, used')" and rs: "rs = ?fr # rest"
      using Cons.prems True b by (auto simp: Let_def case_prod_beta prod_eq_iff)
    note ih = Cons.IH [OF rest]
    have "fr_EntityID ` set rs = {i. i \<notin> used \<and> decided_orphan banks (x # ds) i}"
      using ih True b unfolding rs used by auto
    moreover have "banks [] = None \<Longrightarrow> distinct (map fr_EntityID rs)"
      using ih b unfolding rs used by auto
    moreover have "used' = used \<union> (fr_EntityID ` set rs - {[]})" using ih b unfolding rs used by auto
    ultimately show ?thesis using ih unfolding rs by auto
  qed
qed auto

lemma bankByID_map_None: "bankByID_map banks i = None \<longleftrightarrow> i \<notin> bt_ID ` set banks"
proof -
  have "foldl (\<lambda>m b. m(bt_ID b \<mapsto> b)) m banks i = None \<longleftrightarrow> m i = None \<and> i \<notin> bt_ID ` set banks"
    for m :: "string \<rightharpoonup> BankTxn"
    by (induction banks arbitrary: m) auto
  then show ?thesis by (simp add: bankByID_map_def)
qed

text \<open>The orphan pass reports exactly the rows no result refers to, each once when the rows have distinct identifiers.\<close>

lemma orphan_results_rows:
  "(\<forall>r \<in> set (orphan_results d used). fr_Result r = ResultOrphan)
   \<and> fr_EntityID ` set (orphan_results d used) = orphan_rows d used
   \<and> (distinct (map bt_ID (rd_banks d)) \<and> [] \<notin> bt_ID ` set (rd_banks d)
        \<longrightarrow> distinct (map fr_EntityID (orphan_results d used)))"
proof -
  let ?map = "bankByID_map (rd_banks d)"
  obtain rs used' where run: "orphan_decisions ?map used (rd_decisions d) = (rs, used')" by fastforce
  note ids = orphan_decisions_ids [OF _ run]
  have eq: "orphan_results d used = rs @ map OrphanBankResult (UnusedCreditBanks (rd_banks d) used')"
    by (simp add: orphan_results_def run)
  have decided: "decided_orphan ?map (rd_decisions d) i \<longleftrightarrow> i \<in> bt_ID ` set (rd_banks d)
      \<and> (\<exists>x \<in> set (rd_decisions d). bd_State x = BankMatchOrphanBank \<and> bd_BankObservationID x = i)" for i
    unfolding decided_orphan_def bankByID_map_None by blast
  note ids = orphan_decisions_ids [OF _ run, unfolded decided]
  have names: "?map i = Some b \<Longrightarrow> bt_ID b = i" for i b using bankByID_map_Some by blast
  note ids = ids [OF names]
  have results: "\<forall>r \<in> set (orphan_results d used). fr_Result r = ResultOrphan"
    using ids unfolding eq by auto
  have rest: "fr_EntityID ` set (map OrphanBankResult (UnusedCreditBanks (rd_banks d) used'))
      = {bt_ID b | b. b \<in> set (rd_banks d) \<and> IsCredit b \<and> bt_ID b \<notin> used'}"
    unfolding set_map UnusedCreditBanks_def image_image set_filter by auto
  have rows: "fr_EntityID ` set (orphan_results d used) = orphan_rows d used"
    unfolding eq set_append image_Un rest using ids unfolding orphan_rows_def by auto
  have "distinct (map fr_EntityID (orphan_results d used))"
    if "distinct (map bt_ID (rd_banks d))" and "[] \<notin> bt_ID ` set (rd_banks d)"
  proof -
    have "map fr_EntityID (map OrphanBankResult (UnusedCreditBanks (rd_banks d) used'))
        = map bt_ID (filter (\<lambda>b. IsCredit b \<and> bt_ID b \<notin> used') (rd_banks d))"
      by (simp add: UnusedCreditBanks_def comp_def)
    moreover have "fr_EntityID ` set rs \<subseteq> used'" using ids that(2) by auto
    moreover have "distinct (map fr_EntityID rs)" using ids that(2) by (simp add: bankByID_map_None)
    ultimately show ?thesis
      unfolding eq map_append distinct_append using that(1) by (auto simp: distinct_map_filter)
  qed
  with results rows show ?thesis by blast
qed


section \<open>What a run computes\<close>

text \<open>The facts a run loads from a store, and the verdict on every payment and payout in its scope.\<close>

definition run_facts :: "FinancialRunRequest \<Rightarrow> MemoryFinancialStore \<Rightarrow> run_data" where
  "run_facts rq m = \<lparr>rd_pays = scopePayments (ms_Payments m) (rq_BatchID rq), rd_lines = ms_Lines m,
     rd_banks = ListBankTxns (rq_AccountID rq) m, rd_decisions = ms_Decisions m,
     rd_refunds = ListRefunds (rq_TenantID rq) (rq_ConnectorID rq) [] m, rd_books = ms_MerchantBooks m\<rparr>"

definition run_payouts :: "FinancialRunRequest \<Rightarrow> MemoryFinancialStore \<Rightarrow> PayoutFact list" where
  "run_payouts rq m = scopePayouts (ms_Payouts m) (rq_BatchID rq) (payoutIDSet (rq_PayoutIDs rq))"

definition run_scoped :: "FinancialRunRequest \<Rightarrow> bool" where
  "run_scoped rq \<longleftrightarrow> payoutIDSet (rq_PayoutIDs rq) \<noteq> {} \<or> TrimSpace (rq_BatchID rq) \<noteq> []"

definition judge_payment :: "run_env \<Rightarrow> run_data \<Rightarrow> MemoryFinancialStore \<Rightarrow> PaymentFact \<Rightarrow> FinancialResult" where
  "judge_payment env d m pay =
     ReconcilePayment (env_now env) (payment_input (env_now env) d pay (ms_Events m (pf_PaymentID pay)))"

definition judge_payout :: "run_env \<Rightarrow> run_data \<Rightarrow> MemoryFinancialStore \<Rightarrow> PayoutFact \<Rightarrow> FinancialResult" where
  "judge_payout env d m po =
     ReconcilePayout (env_now env) \<lparr>pi_Payout = po, pi_Events = ms_PayoutEvents m (po_PayoutID po),
       pi_Banks = relatedPayoutBanks po (ms_PayoutEvents m (po_PayoutID po)) (rd_banks d),
       pi_Now = env_now env, pi_StuckAfter = DefaultPayoutSLA,
       pi_Merchant = snd (indexMerchantBooks (rd_books d)) (po_PayoutID po)\<rparr>"

definition verdicts :: "run_env \<Rightarrow> FinancialRunRequest \<Rightarrow> MemoryFinancialStore \<Rightarrow> FinancialResult list" where
  "verdicts env rq m = map (judge_payment env (run_facts rq m) m) (rd_pays (run_facts rq m))
     @ map (judge_payout env (run_facts rq m) m) (run_payouts rq m)"

text \<open>The bank rows a verdict refers to: the one it names and its candidates.\<close>

definition referred :: "FinancialResult list \<Rightarrow> string set" where
  "referred rs = {i. i \<noteq> [] \<and> i \<in> er_BankObservationID ` fr_EvidenceRefs ` set rs} \<union> (\<Union>r \<in> set rs. set (fr_CandidateIDs r))"

lemma markUsedBanks_all: "foldl markUsedBanks used rs = used \<union> referred rs"
  by (induction rs arbitrary: used) (auto simp: referred_def markUsedBanks_set used_by_set)

lemma reads_Inr:
  "reads env f s = (Inr x, t) \<longleftrightarrow> env_fault env (snd s) = None \<and> x = f (fst s) \<and> t = (fst s, Suc (snd s))"
  by (simp add: reads_def call_Inr)

lemma load_data_Inr: "load_data env rq s = (Inr d, t) \<Longrightarrow> d = run_facts rq (fst s) \<and> fst t = fst s"
  unfolding load_data_def by (elim bindE_InrE) (auto simp: reads_Inr returnE_Inr run_facts_def)

lemma traverse_reads:
  "traverse f xs s = (Inr ys, t) \<Longrightarrow> (\<And>x s y t. f x s = (Inr y, t) \<Longrightarrow> y = h (fst s) x \<and> fst t = fst s)
    \<Longrightarrow> ys = map (h (fst s)) xs \<and> fst t = fst s"
proof (induction xs arbitrary: s ys)
  case Nil
  then show ?case by (simp add: returnE_Inr)
next
  case (Cons x xs)
  from Cons.prems(1) obtain y u ys' where x: "f x s = (Inr y, u)" and xs: "traverse f xs u = (Inr ys', t)"
    and ys: "ys = y # ys'"
    by (auto simp: bindE_Inr returnE_Inr)
  from Cons.IH [OF xs Cons.prems(2)] Cons.prems(2) [OF x] show ?case by (simp add: ys)
qed

lemma run_one_reads:
  "run_payment env d p s = (Inr y, t) \<Longrightarrow> y = judge_payment env d (fst s) p \<and> fst t = fst s"
  "run_payout env d po s = (Inr y, t) \<Longrightarrow> y = judge_payout env d (fst s) po \<and> fst t = fst s"
  by (auto simp: run_payment_def run_payout_def bindE_Inr reads_Inr returnE_Inr judge_payment_def judge_payout_def)

lemma judge_keys [simp]:
  "result_key (judge_payment env d m p) = (EntityPayment, pf_PaymentID p)"
  "result_key (judge_payout env d m po) = (EntityPayout, po_PayoutID po)"
  by (simp_all add: judge_payment_def judge_payout_def ReconcilePayment_key ReconcilePayout_key payment_input_def Let_def)

text \<open>Starting a run adds a run row; nothing the run reads depends on it.\<close>

lemma facts_after_start:
  "run_facts rq (snd (InsertReconciliationRun uuid run m)) = run_facts rq m"
  "run_payouts rq (snd (InsertReconciliationRun uuid run m)) = run_payouts rq m"
  "verdicts env rq (snd (InsertReconciliationRun uuid run m)) = verdicts env rq m"
  by (simp_all add: InsertReconciliationRun_def Let_def case_prod_beta fresh_if_blank_def fresh_def run_facts_def
      run_payouts_def ListBankTxns_def ListRefunds_def verdicts_def judge_payment_def judge_payout_def)

lemma facts_locked:
  "run_facts rq (m\<lparr>ms_heldRuns := x\<rparr>) = run_facts rq m"
  "run_payouts rq (m\<lparr>ms_heldRuns := x\<rparr>) = run_payouts rq m"
  "verdicts env rq (m\<lparr>ms_heldRuns := x\<rparr>) = verdicts env rq m"
  by (simp_all add: run_facts_def run_payouts_def ListBankTxns_def ListRefunds_def verdicts_def judge_payment_def
      judge_payout_def)

lemma count_results_lookup:
  "map_of (count_results rs counts) x = (if x \<in> set rs
     then Some ((case map_of counts x of None \<Rightarrow> 0 | Some n \<Rightarrow> n) + int (length (filter ((=) x) rs)))
     else map_of counts x)"
  by (induction rs counts rule: count_results.induct) (auto simp: filter_empty_conv)

text \<open>What a run reports about its orphans.\<close>

definition exact_orphans :: "run_data \<Rightarrow> string set \<Rightarrow> FinancialResult list \<Rightarrow> bool" where
  "exact_orphans d used orphs \<longleftrightarrow> (\<forall>r \<in> set orphs. fr_EntityType r = EntityBank \<and> fr_Result r = ResultOrphan)
     \<and> fr_EntityID ` set orphs = orphan_rows d used
     \<and> (distinct (map bt_ID (rd_banks d)) \<and> [] \<notin> bt_ID ` set (rd_banks d) \<longrightarrow> distinct (map fr_EntityID orphs))"

lemma exact_orphan_results: "exact_orphans d used (orphan_results d used)"
  using orphan_results_rows [of d used] orphan_keys [of _ d used]
  unfolding exact_orphans_def result_key_def fst_conv by blast

text \<open>What a completed run is, for the store \<open>m\<close> it started from and the store \<open>m'\<close> it left.\<close>

lemma run_body_Inr:
  assumes "run_body env rq s = (Inr (run, rs), s')"
  shows "\<exists>orphs. map finding rs = map finding
        (applySharedBankAmbiguity (env_ordB env) (env_ordP env) (verdicts env rq (fst s)) @ orphs)
      \<and> orphs = (if run_scoped rq then [] else orphan_results (run_facts rq (fst s)) (referred (verdicts env rq (fst s))))"
    and "\<exists>run0. run = completed_run env run0 (length (verdicts env rq (fst s))) rs"
    and "GetReconciliationRun (rr_ID run) (fst s') = Some run"
    and "distinct (map result_key rs) \<Longrightarrow> r \<in> set rs \<Longrightarrow> GetReconciliationResult (result_key r) (fst s') = Some r"
proof -
  let ?in = "InsertReconciliationRun (env_uuid env)
       \<lparr>rr_ID = [], rr_TenantID = rq_TenantID rq, rr_ConnectorID = rq_ConnectorID rq,
        rr_AccountID = rq_AccountID rq, rr_BatchID = TrimSpace (rq_BatchID rq), rr_EntityIDs = [],
        rr_Status = ''running'', rr_PaymentCount = 0, rr_MatchedCount = 0, rr_ExceptionCount = 0,
        rr_Counts = [], rr_CreatedAt = env_now env, rr_CompletedAt = 0\<rparr>"
  from assms obtain run0 s1 d s2 pays s3 pos s5 t u where
    i: "call env ?in s = (Inr run0, s1)" and
    l: "load_data env rq s1 = (Inr d, s2)" and
    pay: "traverse (run_payment env d) (rd_pays d) s2 = (Inr pays, s3)" and
    po: "traverse (run_payout env d) (run_payouts rq (fst s3)) (fst s3, Suc (snd s3)) = (Inr pos, s5)" and
    p: "traverse (persist_one env rq (rr_ID run0))
          (applySharedBankAmbiguity (env_ordB env) (env_ordP env) (pays @ pos)
           @ (if run_scoped rq then [] else orphan_results d (foldl markUsedBanks {} (pays @ pos)))) s5
         = (Inr rs, u)" and
    c: "fst s' = CompleteReconciliationRun run (fst u)" and
    r: "run = completed_run env run0 (length (rd_pays d) + length (run_payouts rq (fst s3))) rs"
    unfolding run_body_def Let_def run_payouts_def run_scoped_def
    by (elim bindE_InrE) (auto simp: returnE_Inr call_Inr reads_Inr)
  have s1: "fst s1 = snd (?in (fst s))" using i by (simp add: call_Inr)
  have d: "d = run_facts rq (fst s)" and s2: "fst s2 = fst s1"
    using load_data_Inr [OF l] by (simp_all add: s1 facts_after_start)
  have s3: "pays = map (judge_payment env d (fst s1)) (rd_pays d)" "fst s3 = fst s1"
    using traverse_reads [OF pay run_one_reads(1)] s2 by simp_all
  have "pos = map (judge_payout env d (fst s1)) (run_payouts rq (fst s1))"
    using traverse_reads [OF po run_one_reads(2)] s3(2) by simp
  with s3 have "pays @ pos = verdicts env rq (fst s1)"
    by (simp add: verdicts_def d s1 facts_after_start(1))
  then have v: "pays @ pos = verdicts env rq (fst s)" by (simp add: s1 facts_after_start(3))
  show "\<exists>orphs. map finding rs = map finding
        (applySharedBankAmbiguity (env_ordB env) (env_ordP env) (verdicts env rq (fst s)) @ orphs)
      \<and> orphs = (if run_scoped rq then [] else orphan_results (run_facts rq (fst s)) (referred (verdicts env rq (fst s))))"
    using traverse_persist [OF p] unfolding v d markUsedBanks_all by simp
  have "length (rd_pays d) + length (run_payouts rq (fst s3)) = length (verdicts env rq (fst s))"
    by (simp add: verdicts_def d s3(2) s1 facts_after_start)
  then show "\<exists>run0. run = completed_run env run0 (length (verdicts env rq (fst s))) rs" using r by auto
  show "GetReconciliationRun (rr_ID run) (fst s') = Some run"
    using runs.get_put [of "rr_ID run" run "fst u"] by (simp add: c)
  show "GetReconciliationResult (result_key r) (fst s') = Some r" if "distinct (map result_key rs)" "r \<in> set rs"
    using traverse_persist [OF p] that by (auto simp: c GetReconciliationResult_def)
qed

lemma finding_keys: "map finding xs = map finding ys \<Longrightarrow> map result_key xs = map result_key ys"
proof -
  assume "map finding xs = map finding ys"
  then have "map result_key (map finding xs) = map result_key (map finding ys)" by (rule arg_cong)
  then show ?thesis by (simp add: comp_def)
qed

lemma verdict_keys:
  "map result_key (verdicts env rq m) =
     map (\<lambda>p. (EntityPayment, pf_PaymentID p)) (scopePayments (ms_Payments m) (rq_BatchID rq))
     @ map (\<lambda>p. (EntityPayout, po_PayoutID p)) (run_payouts rq m)"
  by (simp add: verdicts_def run_facts_def comp_def)

text \<open>
  C36.  A completed run reports the verdict on every payment and payout in its scope, in the order of
  the store (payments, then payouts, demoted where they share a bank row), and, when the run is not
  scoped, exactly the orphan bank rows: those that no verdict refers to and that are credits or that
  a decision calls orphan, each once when the rows have distinct identifiers.  Nothing but
  identifiers and the time is added to what it reports.  Its counts are those of the report, for
  every outcome; the store returns the run for its identifier afterwards and, when no entity occurs
  twice, every reported result for its entity.
\<close>

theorem completed_run_reports_and_stores_every_entity:
  assumes "Run env rq s = (Inr (run, rs), s')"
  shows "rr_Status run = ''completed'' \<and> rr_EntityIDs run = map fr_EntityID rs
    \<and> rr_PaymentCount run = int (length (scopePayments (ms_Payments (fst s)) (rq_BatchID rq)) + length (run_payouts rq (fst s)))
    \<and> rr_MatchedCount run = int (length (filter (\<lambda>r. fr_Result r = ResultMatched) rs))
    \<and> rr_ExceptionCount run = int (length (filter NeedsInvestigation rs))
    \<and> (\<forall>x. map_of (rr_Counts run) x = (if \<exists>r \<in> set rs. fr_Result r = x
          then Some (int (length (filter (\<lambda>r. fr_Result r = x) rs))) else None))
    \<and> GetReconciliationRun (rr_ID run) (fst s') = Some run
    \<and> (\<exists>orphs. map finding rs = map finding
            (applySharedBankAmbiguity (env_ordB env) (env_ordP env) (verdicts env rq (fst s)) @ orphs)
        \<and> (if run_scoped rq then orphs = []
           else exact_orphans (run_facts rq (fst s)) (referred (verdicts env rq (fst s))) orphs)
        \<and> map result_key rs =
            map (\<lambda>p. (EntityPayment, pf_PaymentID p)) (scopePayments (ms_Payments (fst s)) (rq_BatchID rq))
            @ map (\<lambda>p. (EntityPayout, po_PayoutID p)) (run_payouts rq (fst s))
            @ map (\<lambda>b. (EntityBank, b)) (map fr_EntityID orphs))
    \<and> (distinct (map result_key rs) \<longrightarrow>
         (\<forall>r \<in> set rs. GetReconciliationResult (result_key r) (fst s') = Some r))"
proof -
  obtain m n where s: "s = (m, n)" by fastforce
  let ?m = "m\<lparr>ms_heldRuns := insert (refundScopeKey (rq_TenantID rq) (rq_ConnectorID rq)) (ms_heldRuns m)\<rparr>"
  from assms obtain t where b: "run_body env rq (?m, Suc n) = (Inr (run, rs), t)"
    and s': "fst s' = unlock (rq_TenantID rq) (rq_ConnectorID rq) (fst t)"
    by (auto simp: s Run_def TryLockTenantRun_def Let_def split: option.splits if_splits prod.splits)
  note body = run_body_Inr [OF b, unfolded fst_conv facts_locked]
  from body(1) obtain orphs where found: "map finding rs = map finding
      (applySharedBankAmbiguity (env_ordB env) (env_ordP env) (verdicts env rq m) @ orphs)"
    and orphs: "orphs = (if run_scoped rq then [] else orphan_results (run_facts rq m) (referred (verdicts env rq m)))" by blast
  from body(2) obtain run0 where run: "run = completed_run env run0 (length (verdicts env rq m)) rs" by blast
  have exact: "if run_scoped rq then orphs = [] else exact_orphans (run_facts rq m) (referred (verdicts env rq m)) orphs"
    by (simp add: orphs exact_orphan_results)
  have "map result_key orphs = map (\<lambda>b. (EntityBank, b)) (map fr_EntityID orphs)"
    using orphan_keys by (auto simp: orphs result_key_def)
  then have keys: "map result_key rs =
      map (\<lambda>p. (EntityPayment, pf_PaymentID p)) (scopePayments (ms_Payments m) (rq_BatchID rq))
      @ map (\<lambda>p. (EntityPayout, po_PayoutID p)) (run_payouts rq m) @ map (\<lambda>b. (EntityBank, b)) (map fr_EntityID orphs)"
    using finding_keys [OF found] by (simp add: apply_keys verdict_keys)
  have counts: "map_of (rr_Counts run) x = (if \<exists>r \<in> set rs. fr_Result r = x
      then Some (int (length (filter (\<lambda>r. fr_Result r = x) rs))) else None)" for x
    by (auto simp: run completed_run_def count_results_lookup filter_map comp_def eq_commute [of x])
  have "rr_PaymentCount run = int (length (scopePayments (ms_Payments m) (rq_BatchID rq)) + length (run_payouts rq m))"
    by (simp add: run completed_run_def verdicts_def run_facts_def)
  moreover have "GetReconciliationRun (rr_ID run) (fst s') = Some run"
    using body(3) by (simp add: s' unlock_def GetReconciliationRun_def)
  moreover have "GetReconciliationResult (result_key r) (fst s') = Some r" if "distinct (map result_key rs)" "r \<in> set rs" for r
    using body(4) [OF that] by (simp add: s' unlock_def GetReconciliationResult_def)
  moreover have "rr_Status run = ''completed''" "rr_EntityIDs run = map fr_EntityID rs"
    "rr_MatchedCount run = int (length (filter (\<lambda>r. fr_Result r = ResultMatched) rs))"
    "rr_ExceptionCount run = int (length (filter NeedsInvestigation rs))"
    by (simp_all add: run completed_run_def)
  ultimately show ?thesis using found exact keys counts unfolding s fst_conv by blast
qed

section \<open>A run without faults completes\<close>

lemma answers_call [answers_intros]: "(\<And>n. env_fault env n = None) \<Longrightarrow> answers (call env f)"
  unfolding call_def by (rule answers_attempt)

lemma answers_reads [answers_intros]: "(\<And>n. env_fault env n = None) \<Longrightarrow> answers (reads env f)"
  by (simp add: reads_def answers_call)

lemma answers_new_id [answers_intros]: "answers (new_id env)"
  by (simp add: answers_def new_id_def case_prod_beta)

lemma answers_store_exception [answers_intros]:
  "(\<And>n. env_fault env n = None) \<Longrightarrow> answers (store_exception env rq runID fr)"
  by (cases "fr_Exception fr") (auto simp: store_exception_def intro!: answers_intros)

lemma answers_run_body: "(\<And>n. env_fault env n = None) \<Longrightarrow> answers (run_body env rq)"
  unfolding run_body_def load_data_def run_payment_def run_payout_def persist_one_def
    emitDecision_def Let_def
  by (intro answers_intros; simp)

lemma Run_completes:
  assumes "\<And>n. env_fault env n = None"
    and "refundScopeKey (rq_TenantID rq) (rq_ConnectorID rq) \<notin> ms_heldRuns m"
  obtains run rs s' where "Run env rq (m, n) = (Inr (run, rs), s')"
proof -
  let ?k = "refundScopeKey (rq_TenantID rq) (rq_ConnectorID rq)"
  obtain x t where "run_body env rq (m\<lparr>ms_heldRuns := insert ?k (ms_heldRuns m)\<rparr>, Suc n) = (Inr x, t)"
    using answers_run_body [OF assms(1)] unfolding answers_def by blast
  then show ?thesis
    using that assms by (cases x; cases t) (simp add: Run_def TryLockTenantRun_def Let_def)
qed

text \<open>
  A run fails for two reasons only: a store call failed, or a run of the same tenant and
  connector already holds the lock.  With neither it completes, and the lock it took is free again.
\<close>

theorem run_without_faults_completes:
  assumes "\<And>n. env_fault env n = None"
  shows "(\<exists>run rs. fst (Run env rq s) = Inr (run, rs)) \<longleftrightarrow>
    refundScopeKey (rq_TenantID rq) (rq_ConnectorID rq) \<notin> ms_heldRuns (fst s)"
proof (cases "refundScopeKey (rq_TenantID rq) (rq_ConnectorID rq) \<in> ms_heldRuns (fst s)")
  case True
  then show ?thesis
    using assms by (cases s) (simp add: Run_def TryLockTenantRun_def Let_def)
next
  case False
  then show ?thesis
    using Run_completes [of env rq "fst s" "snd s", OF assms] by (metis fst_conv prod.collapse)
qed

definition one_payment_store :: MemoryFinancialStore where
  "one_payment_store = NewMemoryFinancialStore\<lparr>ms_Payments :=
     [sample_payment\<lparr>pf_BatchID := ''b1''\<rparr>]\<rparr>"

definition batch_request :: FinancialRunRequest where
  "batch_request = sample_request\<lparr>rq_BatchID := ''b1''\<rparr>"

lemma run_without_faults_completes_witness:
  "\<exists>run rs. fst (Run sample_env batch_request (one_payment_store, 0)) = Inr (run, rs)"
proof -
  have "refundScopeKey (rq_TenantID batch_request) (rq_ConnectorID batch_request)
      \<notin> ms_heldRuns (fst (one_payment_store, 0 :: nat))"
    by (simp add: one_payment_store_def NewMemoryFinancialStore_def)
  then show ?thesis
    using run_without_faults_completes [of sample_env batch_request "(one_payment_store, 0)"]
    by (simp add: sample_env_def)
qed

lemma completed_run_reports_and_stores_every_entity_witness:
  "\<exists>run rs s'. Run sample_env batch_request (one_payment_store, 0) = (Inr (run, rs), s')
     \<and> rr_Status run = ''completed'' \<and> rr_EntityIDs run = [''pay-1'']
     \<and> GetReconciliationRun (rr_ID run) (fst s') = Some run
     \<and> (\<forall>r \<in> set rs. GetReconciliationResult (result_key r) (fst s') = Some r)"
proof -
  obtain run rs s' where
    r: "Run sample_env batch_request (one_payment_store, 0) = (Inr (run, rs), s')"
    by (rule Run_completes [of sample_env batch_request one_payment_store 0])
       (simp_all add: sample_env_def one_payment_store_def NewMemoryFinancialStore_def)
  note c = completed_run_reports_and_stores_every_entity [OF r]
  have sc: "run_scoped batch_request"
    by (simp add: run_scoped_def batch_request_def sample_request_def payoutIDSet_def str_simps)
  have k: "map result_key rs = [(EntityPayment, ''pay-1'')]"
    using c sc by (auto simp: one_payment_store_def NewMemoryFinancialStore_def batch_request_def
        sample_request_def scopePayments_def run_payouts_def scopePayouts_def payoutIDSet_def
        sample_payment_def str_simps EqualFold_def)
  then have "map fr_EntityID rs = [''pay-1'']"
    by (auto simp: result_key_def)
  with c k r show ?thesis by auto
qed

end
