(* ===== verification/Reports.thy ===== *)
theory Reports
  imports RunService
begin

text \<open>
  What the finance screens are computed from stored results: \<^verbatim>\<open>cash.go\<close> (cash
  position), \<^verbatim>\<open>batch_close.go\<close>, \<^verbatim>\<open>bank_continuity.go\<close>,
  \<^verbatim>\<open>obligation.go\<close>, \<^verbatim>\<open>list_results.go\<close> (finance list, JSON view) and the
  pure parts of \<^verbatim>\<open>exceptions.go\<close>.  Rates are rationals in place of \<open>float64\<close>;
  Go maps used as counters are association lists.
\<close>

section \<open>Cash position\<close>

record CashSnapshot =
  cs_GrossCapturedMinor :: int64
  cs_SettlementExpectedNetMinor :: int64
  cs_SettlementDerivedNetMinor :: int64
  cs_BankCreditedProvenMinor :: int64
  cs_InFlightMinor :: int64
  cs_UnresolvedExposureMinor :: int64
  cs_Currency :: string
  cs_AsOf :: time

definition line_payment :: "SettlementLine \<Rightarrow> string" where
  "line_payment l = (if sl_PaymentID l = [] then sl_EntityID l else sl_PaymentID l)"

definition net_by_payment :: "(string \<rightharpoonup> int64) \<Rightarrow> SettlementLine \<Rightarrow> string \<rightharpoonup> int64" where
  "net_by_payment m l =
     (let pid = line_payment l
      in if pid = [] then m
         else if sl_LineType l = [] \<or> sl_LineType l = ''payment'' then
           m(pid \<mapsto> (case m pid of None \<Rightarrow> 0 | Some n \<Rightarrow> n) + lineNet l)
         else m)"

definition cash_step :: "(string \<rightharpoonup> int64) \<Rightarrow> CashSnapshot \<Rightarrow> FinancialResult \<Rightarrow> CashSnapshot" where
  "cash_step nets out r =
     (if fr_EntityType r \<noteq> EntityPayment then out
      else
        let out = out\<lparr>cs_GrossCapturedMinor := cs_GrossCapturedMinor out + fr_ExpectedAmount r\<rparr>;
            out = (case nets (fr_EntityID r) of
                None \<Rightarrow> out
              | Some net \<Rightarrow>
                  out\<lparr>cs_SettlementExpectedNetMinor := cs_SettlementExpectedNetMinor out + net,
                      cs_SettlementDerivedNetMinor := cs_SettlementDerivedNetMinor out + net\<rparr>)
        in if fr_BankCreditProven r then
             out\<lparr>cs_BankCreditedProvenMinor := cs_BankCreditedProvenMinor out + fr_ObservedAmount r\<rparr>
           else out)"

definition zero_CashSnapshot :: "time \<Rightarrow> CashSnapshot" where
  "zero_CashSnapshot now = \<lparr>cs_GrossCapturedMinor = 0, cs_SettlementExpectedNetMinor = 0,
     cs_SettlementDerivedNetMinor = 0, cs_BankCreditedProvenMinor = 0, cs_InFlightMinor = 0,
     cs_UnresolvedExposureMinor = 0, cs_Currency = ''INR'', cs_AsOf = now\<rparr>"

definition CashPosition :: "time \<Rightarrow> FinancialResult list \<Rightarrow> SettlementLine list
    \<Rightarrow> ReconciliationException list \<Rightarrow> CashSnapshot" where
  "CashPosition now results lines exceptions =
     (let nets = foldl net_by_payment Map.empty lines;
          out = foldl (cash_step nets) (zero_CashSnapshot now) results;
          settledNotBank = cs_SettlementExpectedNetMinor out - cs_BankCreditedProvenMinor out;
          out = (if 0 <s settledNotBank then out\<lparr>cs_InFlightMinor := settledNotBank\<rparr> else out)
      in foldl (\<lambda>out ex. out\<lparr>cs_UnresolvedExposureMinor :=
                 cs_UnresolvedExposureMinor out + ex_VarianceAmount ex\<rparr>) out exceptions)"

section \<open>Batch close\<close>

record BatchClose =
  bc_BatchID :: string
  bc_RunID :: string
  bc_Records :: int
  bc_Requested :: int
  bc_Unlinked :: int
  bc_Counts :: "(string \<times> int) list"
  bc_ExpectedMinor :: int64
  bc_BankDebitedMinor :: int64
  bc_ExposureMinor :: int64
  bc_MatchRate :: rat
  bc_Currency :: string
  bc_RuleVersion :: string

definition count_of :: "(string \<times> int) list \<Rightarrow> string \<Rightarrow> int" where
  "count_of m k = (case map_of m k of None \<Rightarrow> 0 | Some n \<Rightarrow> n)"

definition bump :: "string \<Rightarrow> (string \<times> int) list \<Rightarrow> (string \<times> int) list" where
  "bump k m = alist_put k (count_of m k + 1) m"

definition close_step :: "BatchClose \<Rightarrow> FinancialResult \<Rightarrow> BatchClose" where
  "close_step out r =
     (if fr_EntityType r \<noteq> EntityPayout \<and> fr_EntityType r \<noteq> EntityPayment then out
      else out\<lparr>bc_Records := bc_Records out + 1,
        bc_Counts := bump (fr_Result r) (bc_Counts out),
        bc_ExpectedMinor := bc_ExpectedMinor out + fr_ExpectedAmount r,
        bc_BankDebitedMinor :=
          (if fr_BankCreditProven r \<or> fr_Reason r = ''processed_exact_debit''
           then bc_BankDebitedMinor out + fr_ObservedAmount r else bc_BankDebitedMinor out),
        bc_ExposureMinor :=
          (if fr_Exception r \<noteq> None then bc_ExposureMinor out + fr_VarianceAmount r
           else if fr_Result r \<noteq> ResultMatched then bc_ExposureMinor out + fr_VarianceAmount r
           else bc_ExposureMinor out)\<rparr>)"

definition BatchCloseFromResults :: "string \<Rightarrow> string \<Rightarrow> FinancialResult list \<Rightarrow> int \<Rightarrow> BatchClose" where
  "BatchCloseFromResults batchID runID results requested =
     (let out = foldl close_step \<lparr>bc_BatchID = batchID, bc_RunID = runID, bc_Records = 0,
            bc_Requested = requested, bc_Unlinked = 0, bc_Counts = [], bc_ExpectedMinor = 0,
            bc_BankDebitedMinor = 0, bc_ExposureMinor = 0, bc_MatchRate = 0, bc_Currency = ''INR'',
            bc_RuleVersion = FinancialRuleVersion\<rparr> results;
          out = (if requested > bc_Records out
                 then out\<lparr>bc_Unlinked := requested - bc_Records out\<rparr> else out);
          matched = count_of (bc_Counts out) ResultMatched
      in if bc_Records out > 0
         then out\<lparr>bc_MatchRate := of_int matched / of_int (bc_Records out)\<rparr> else out)"

section \<open>Bank statement continuity\<close>

record BankContinuityFact =
  bf_ID :: string
  bf_IdentityHash :: string
  bf_Seq :: int64
  bf_CreditMinor :: int64
  bf_DebitMinor :: int64
  bf_BalanceMinor :: int64
  bf_HasBalance :: bool

record ContinuityReport =
  cr_OK :: bool
  cr_Duplicates :: "string list"
  cr_Gaps :: "string list"

text \<open>The loop state: the report, the hashes seen and the running balance, once there is one.\<close>

definition continuity_step :: "ContinuityReport \<times> string set \<times> int64 option \<Rightarrow> BankContinuityFact
    \<Rightarrow> ContinuityReport \<times> string set \<times> int64 option" where
  "continuity_step st r =
     (let (rep, seen, running) = st;
          rep = (if bf_IdentityHash r \<noteq> [] \<and> bf_IdentityHash r \<in> seen
                 then rep\<lparr>cr_Duplicates := cr_Duplicates rep @ [bf_IdentityHash r], cr_OK := False\<rparr>
                 else rep);
          seen = (if bf_IdentityHash r \<noteq> [] then insert (bf_IdentityHash r) seen else seen)
      in if \<not> bf_HasBalance r then (rep, seen, running)
         else case running of
             None \<Rightarrow> (rep, seen, Some (bf_BalanceMinor r))
           | Some b \<Rightarrow>
               (if b + bf_CreditMinor r - bf_DebitMinor r \<noteq> bf_BalanceMinor r then
                  rep\<lparr>cr_Gaps := cr_Gaps rep @ [if bf_ID r = [] then bf_IdentityHash r else bf_ID r],
                      cr_OK := False\<rparr>
                else rep, seen, Some (bf_BalanceMinor r)))"

definition AssertBankContinuity :: "BankContinuityFact list \<Rightarrow> ContinuityReport" where
  "AssertBankContinuity rows =
     fst (foldl continuity_step (\<lparr>cr_OK = True, cr_Duplicates = [], cr_Gaps = []\<rparr>, {}, None) rows)"

definition SortBankFactsBySeq :: "BankContinuityFact list \<Rightarrow> BankContinuityFact list" where
  "SortBankFactsBySeq rows = SliceStable (\<lambda>a b. bf_Seq a <s bf_Seq b) rows"

section \<open>Obligations\<close>

record ExpectedCashEvent =
  ce_ID :: string
  ce_Kind :: string
  ce_EntityID :: string
  ce_AmountMinor :: int64
  ce_Currency :: string
  ce_DueAt :: time
  ce_Direction :: string

definition obligation_of :: "MerchantBookFact \<Rightarrow> ExpectedCashEvent" where
  "obligation_of f =
     (let out = (mb_PayoutID f \<noteq> [])
      in \<lparr>ce_ID = firstNonEmpty [mb_ID f, mb_InvoiceID f, mb_OrderID f, mb_PaymentID f, mb_PayoutID f],
          ce_Kind = (if out then ''payout_due'' else ''invoice_due''),
          ce_EntityID = (if out then mb_PayoutID f else mb_PaymentID f),
          ce_AmountMinor = mb_AmountMinor f, ce_Currency = mb_Currency f, ce_DueAt = mb_DueAt f,
          ce_Direction = (if out then DirectionOutbound else DirectionInbound)\<rparr>)"

definition ObligationsFromMerchant :: "MerchantBookFact list \<Rightarrow> ExpectedCashEvent list" where
  "ObligationsFromMerchant facts = map obligation_of facts"

section \<open>The finance list\<close>

record FinanceListRow =
  fl_PaymentID :: string
  fl_PayoutID :: string
  fl_Entity :: string
  fl_Settlement :: "bool option"
  fl_Bank :: "bool option"
  fl_Result :: string
  fl_VarianceAmount :: int64
  fl_Reason :: string
  fl_Status :: string
  fl_UTR :: "string option"
  fl_AmountMinor :: int64
  fl_Currency :: string
  fl_Mode :: string
  fl_Purpose :: string
  fl_CreatedAt :: int
  fl_ErrorCode :: string
  fl_ErrorDescription :: string
  fl_Direction :: string
  fl_Rail :: string
  fl_TwoWay :: "ReconLeg option"
  fl_ThreeWay :: "ReconLeg option"

definition zero_FinanceListRow :: FinanceListRow where
  "zero_FinanceListRow = \<lparr>fl_PaymentID = [], fl_PayoutID = [], fl_Entity = [], fl_Settlement = None,
     fl_Bank = None, fl_Result = [], fl_VarianceAmount = 0, fl_Reason = [], fl_Status = [],
     fl_UTR = None, fl_AmountMinor = 0, fl_Currency = [], fl_Mode = [], fl_Purpose = [],
     fl_CreatedAt = 0, fl_ErrorCode = [], fl_ErrorDescription = [], fl_Direction = [],
     fl_Rail = [], fl_TwoWay = None, fl_ThreeWay = None\<rparr>"

definition not_run :: "FinancialResult \<Rightarrow> bool" where
  "not_run fr \<longleftrightarrow> fr_Result fr = [] \<or> fr_Reason fr = ''not_run''"

definition leg_shown :: "ReconLeg \<Rightarrow> ReconLeg option" where
  "leg_shown leg = (if leg_Result leg \<noteq> [] then Some leg else None)"

definition applyResult :: "FinanceListRow \<Rightarrow> FinancialResult \<Rightarrow> string \<Rightarrow> FinanceListRow" where
  "applyResult row fr statusReason =
     (if not_run fr then row\<lparr>fl_Result := [], fl_Reason := ''not_run''\<rparr>
      else row\<lparr>fl_Result := fr_Result fr, fl_Reason := fr_Reason fr,
        fl_VarianceAmount := fr_VarianceAmount fr,
        fl_ErrorCode := (if statusReason \<noteq> [] then statusReason
          else if fr_Reason fr \<noteq> [] \<and> fr_Result fr \<noteq> ResultMatched then fr_Reason fr
          else fl_ErrorCode row),
        fl_TwoWay := (case leg_shown (fr_TwoWay fr) of None \<Rightarrow> fl_TwoWay row | Some l \<Rightarrow> Some l),
        fl_ThreeWay := (case leg_shown (fr_ThreeWay fr) of None \<Rightarrow> fl_ThreeWay row | Some l \<Rightarrow> Some l)\<rparr>)"

text \<open>Times are nanoseconds counted from Go's zero time, which is 62135596800 s before 1970.\<close>

definition unixSeconds :: "time \<Rightarrow> int" where
  "unixSeconds t = (if IsZero t then 0 else t div 1000000000 - 62135596800)"

definition firstTime :: "time \<Rightarrow> time \<Rightarrow> time" where
  "firstTime a b = (if \<not> IsZero a then a else b)"

definition nullableString :: "string \<Rightarrow> string option" where
  "nullableString s = (if TrimSpace s = [] then None else Some (TrimSpace s))"

definition with_proof :: "FinancialResult \<Rightarrow> FinanceListRow \<Rightarrow> FinanceListRow" where
  "with_proof fr row =
     (if fr_Reason fr \<noteq> ''not_run'' \<and> fr_Result fr \<noteq> [] then
        row\<lparr>fl_Settlement := Some (er_SettlementLineID (fr_EvidenceRefs fr) \<noteq> []),
            fl_Bank := Some (fr_BankCreditProven fr)\<rparr>
      else row)"

text \<open>A stored result is shown with its rail, type and legs derived again.\<close>

definition reannotate :: "string \<Rightarrow> string \<Rightarrow> FinancialResult \<Rightarrow> FinancialResult" where
  "reannotate entity mode fr =
     (let fr = (if fr_Rail fr = [] then fr\<lparr>fr_Rail := NormalizeRail mode\<rparr> else fr);
          fr = (if fr_EntityType fr = [] then fr\<lparr>fr_EntityType := entity\<rparr> else fr)
      in AnnotateCashFlow fr)"

definition payoutListRow :: "PayoutFact \<Rightarrow> FinancialResult \<Rightarrow> FinanceListRow" where
  "payoutListRow po fr =
     (let fr = reannotate EntityPayout (po_Mode po) fr;
          row = zero_FinanceListRow\<lparr>fl_PaymentID := po_PayoutID po, fl_PayoutID := po_PayoutID po,
            fl_Entity := ''payout'', fl_Status := po_ProviderStatus po,
            fl_AmountMinor := po_AmountMinor po, fl_Currency := nzCur (po_Currency po),
            fl_Mode := po_Mode po, fl_Purpose := po_Purpose po,
            fl_CreatedAt := unixSeconds (firstTime (po_ProviderCreatedAt po) (po_FirstObservedAt po)),
            fl_UTR := nullableString (po_UTR po), fl_Direction := DirectionOutbound,
            fl_Rail := fr_Rail fr\<rparr>
      in with_proof fr (applyResult row fr (po_StatusReason po)))"

definition paymentListRow :: "PaymentFact \<Rightarrow> FinancialResult \<Rightarrow> FinanceListRow" where
  "paymentListRow pay fr =
     (let fr = reannotate EntityPayment (pf_Method pay) fr;
          row = zero_FinanceListRow\<lparr>fl_PaymentID := pf_PaymentID pay, fl_Entity := ''payment'',
            fl_Status := firstNonEmpty [pf_ProviderStatus pay, pf_CanonicalStatus pay],
            fl_AmountMinor := pf_AmountMinor pay, fl_Currency := nzCur (pf_Currency pay),
            fl_CreatedAt := unixSeconds (firstTime (pf_ProviderCreatedAt pay) (pf_FirstObservedAt pay)),
            fl_Direction := DirectionInbound, fl_Rail := fr_Rail fr\<rparr>
      in with_proof fr (applyResult row fr []))"

record FinanceListResponse =
  fp_Records :: int
  fp_Matched :: int
  fp_Exceptions :: int
  fp_Results :: "FinanceListRow list"

definition result_for :: "FinancialResult list \<Rightarrow> string \<Rightarrow> string \<Rightarrow> FinancialResult" where
  "result_for results entity i =
     (case map_of (rev (map (\<lambda>fr. (fr_EntityType fr @ ''|'' @ fr_EntityID fr, fr)) results))
        (entity @ ''|'' @ i) of
      None \<Rightarrow> zero_FinancialResult | Some fr \<Rightarrow> fr)"

definition row_wanted :: "string \<Rightarrow> FinanceListRow \<Rightarrow> bool" where
  "row_wanted want row \<longleftrightarrow> want = [] \<or> ToUpper (fl_Result row) = want"

definition row_matched :: "FinanceListRow \<Rightarrow> bool" where
  "row_matched row \<longleftrightarrow> EqualFold (fl_Result row) ResultMatched"

definition row_exception :: "FinanceListRow \<Rightarrow> bool" where
  "row_exception row \<longleftrightarrow>
     \<not> row_matched row \<and> \<not> (fl_Reason row = ''not_run'' \<or> fl_Result row = [])"

definition finance_list :: "PayoutFact list \<Rightarrow> PaymentFact list \<Rightarrow> FinancialResult list \<Rightarrow> string
    \<Rightarrow> FinanceListResponse" where
  "finance_list payouts pays results resultFilter =
     (let want = ToUpper (TrimSpace resultFilter);
          want = (if want = ''ALL'' then [] else want);
          rows = filter (row_wanted want)
              (map (\<lambda>po. payoutListRow po (result_for results EntityPayout (po_PayoutID po))) payouts)
            @ filter (row_wanted want)
              (map (\<lambda>pay. paymentListRow pay (result_for results EntityPayment (pf_PaymentID pay))) pays)
      in \<lparr>fp_Records = int (length rows), fp_Matched = int (length (filter row_matched rows)),
          fp_Exceptions = int (length (filter row_exception rows)), fp_Results = rows\<rparr>)"

definition hasEvidence :: "EvidenceRefs \<Rightarrow> bool" where
  "hasEvidence refs \<longleftrightarrow> er_CanonicalPaymentID refs \<noteq> [] \<or> er_SettlementLineID refs \<noteq> []
     \<or> er_SettlementBankDecisionID refs \<noteq> [] \<or> er_BankObservationID refs \<noteq> []
     \<or> length (er_ObservationEventIDs refs) > 0 \<or> length (er_PayloadHashes refs) > 0"

record FinanceEvaluation =
  fe_DatasetRecords :: int
  fe_ReconciliationRate :: rat
  fe_ExceptionDetectionRate :: rat
  fe_ExceptionResolutionRate :: rat
  fe_FalseResolutionRate :: rat
  fe_FinancialAccuracy :: rat
  fe_EvidenceGrounding :: rat

definition evaluation_of :: "FinancialResult list \<Rightarrow> nat \<Rightarrow> InvestigationRecord list \<Rightarrow> FinanceEvaluation" where
  "evaluation_of results exceptions investigations =
     (let scored = filter (\<lambda>fr. \<not> not_run fr) results;
          n = length scored;
          matched = length (filter (\<lambda>fr. fr_Result fr = ResultMatched) scored);
          grounded = length (filter (\<lambda>fr. hasEvidence (fr_EvidenceRefs fr)) scored);
          completed = length (filter (\<lambda>r. EqualFold (iv_Status r) ''completed'') investigations);
          rate = (\<lambda>k. if n > 0 then of_nat k / of_nat n else 0 :: rat)
      in \<lparr>fe_DatasetRecords = int n, fe_ReconciliationRate = rate matched,
          fe_ExceptionDetectionRate = rate exceptions,
          fe_ExceptionResolutionRate =
            (if length investigations > 0
             then of_nat completed / of_nat (length investigations) else 0),
          fe_FalseResolutionRate = 0, fe_FinancialAccuracy = rate matched,
          fe_EvidenceGrounding = rate grounded\<rparr>)"

text \<open>The JSON object of a result, as its list of fields.\<close>

datatype json_value = JString string | JInt int64 | JRate rat | JBool bool | JLeg ReconLeg

definition ReconJSON :: "FinancialResult \<Rightarrow> (string \<times> json_value) list option" where
  "ReconJSON fr =
     (if not_run fr then None
      else let fr = AnnotateCashFlow fr
        in Some ([(''result'', JString (fr_Result fr)), (''reason'', JString (fr_Reason fr)),
             (''expected_amount'', JInt (fr_ExpectedAmount fr)),
             (''observed_amount'', JInt (fr_ObservedAmount fr)),
             (''variance_amount'', JInt (fr_VarianceAmount fr)),
             (''confidence'', JRate (fr_Confidence fr)),
             (''bank_credit_proven'', JBool (fr_BankCreditProven fr))]
           @ (if fr_Direction fr \<noteq> [] then [(''direction'', JString (fr_Direction fr))] else [])
           @ (if fr_Rail fr \<noteq> [] then [(''rail'', JString (fr_Rail fr))] else [])
           @ (if leg_Result (fr_TwoWay fr) \<noteq> [] then [(''two_way'', JLeg (fr_TwoWay fr))] else [])
           @ (if leg_Result (fr_ThreeWay fr) \<noteq> [] then [(''three_way'', JLeg (fr_ThreeWay fr))] else [])))"


section \<open>Cash position: what is summed\<close>

abbreviation (input) payment_results :: "FinancialResult list \<Rightarrow> FinancialResult list" where
  "payment_results \<equiv> filter (\<lambda>r. fr_EntityType r = EntityPayment)"

definition settled_net :: "SettlementLine list \<Rightarrow> string \<Rightarrow> int64" where
  "settled_net lines pid =
     sum_list (map lineNet (filter (\<lambda>l. pid \<noteq> [] \<and> line_payment l = pid
       \<and> (sl_LineType l = [] \<or> sl_LineType l = ''payment'')) lines))"

lemma net_fold:
  "(case foldl net_by_payment m lines pid of None \<Rightarrow> 0 | Some n \<Rightarrow> n) =
     (case m pid of None \<Rightarrow> 0 | Some n \<Rightarrow> n) + settled_net lines pid"
  by (induction lines arbitrary: m)
     (auto simp: net_by_payment_def settled_net_def Let_def split: option.split)

lemma cash_fold:
  "foldl (cash_step nets) out rs = out\<lparr>
     cs_GrossCapturedMinor := cs_GrossCapturedMinor out + sum_list (map fr_ExpectedAmount (payment_results rs)),
     cs_SettlementExpectedNetMinor := cs_SettlementExpectedNetMinor out
       + sum_list (map (\<lambda>r. case nets (fr_EntityID r) of None \<Rightarrow> 0 | Some n \<Rightarrow> n) (payment_results rs)),
     cs_SettlementDerivedNetMinor := cs_SettlementDerivedNetMinor out
       + sum_list (map (\<lambda>r. case nets (fr_EntityID r) of None \<Rightarrow> 0 | Some n \<Rightarrow> n) (payment_results rs)),
     cs_BankCreditedProvenMinor := cs_BankCreditedProvenMinor out
       + sum_list (map fr_ObservedAmount (filter fr_BankCreditProven (payment_results rs)))\<rparr>"
  by (induction rs arbitrary: out)
     (simp_all add: cash_step_def Let_def split: option.split)

lemma exposure_fold:
  "foldl (\<lambda>out ex. out\<lparr>cs_UnresolvedExposureMinor := cs_UnresolvedExposureMinor out + ex_VarianceAmount ex\<rparr>)
     out exs = out\<lparr>cs_UnresolvedExposureMinor :=
       cs_UnresolvedExposureMinor out + sum_list (map ex_VarianceAmount exs)\<rparr>"
  by (induction exs arbitrary: out) simp_all

lemma CashPosition_closed:
  "CashPosition now rs lines exs =
     (let settled = sum_list (map (\<lambda>r. settled_net lines (fr_EntityID r)) (payment_results rs));
          proven = sum_list (map fr_ObservedAmount (filter fr_BankCreditProven (payment_results rs)))
      in \<lparr>cs_GrossCapturedMinor = sum_list (map fr_ExpectedAmount (payment_results rs)),
          cs_SettlementExpectedNetMinor = settled, cs_SettlementDerivedNetMinor = settled,
          cs_BankCreditedProvenMinor = proven,
          cs_InFlightMinor = (if 0 <s settled - proven then settled - proven else 0),
          cs_UnresolvedExposureMinor = sum_list (map ex_VarianceAmount exs),
          cs_Currency = ''INR'', cs_AsOf = now\<rparr>)"
  by (simp add: CashPosition_def cash_fold exposure_fold net_fold zero_CashSnapshot_def Let_def)

text \<open>
  The cash position, in 64-bit arithmetic: the captured total is the expected amounts of the
  payment results and of nothing else, the settled total counts for each of them the net of its
  payment-type settlement lines, the proven total only the observed amounts of results with
  \<open>BankCreditProven\<close>; the in-flight amount is their difference and never negative.
\<close>

theorem cash_position_totals:
  "let out = CashPosition now rs lines exs; pays = filter (\<lambda>r. fr_EntityType r = EntityPayment) rs in
     cs_GrossCapturedMinor out = sum_list (map fr_ExpectedAmount pays)
   \<and> cs_SettlementExpectedNetMinor out = sum_list (map (\<lambda>r. settled_net lines (fr_EntityID r)) pays)
   \<and> cs_BankCreditedProvenMinor out = sum_list (map fr_ObservedAmount (filter fr_BankCreditProven pays))
   \<and> cs_UnresolvedExposureMinor out = sum_list (map ex_VarianceAmount exs)
   \<and> cs_InFlightMinor out \<in> {0, cs_SettlementExpectedNetMinor out - cs_BankCreditedProvenMinor out}
   \<and> 0 \<le>s cs_InFlightMinor out"
  by (simp add: CashPosition_closed Let_def word_sless_alt word_sle_eq)

section \<open>Batch close: what is counted\<close>

definition batch_entity :: "FinancialResult \<Rightarrow> bool" where
  "batch_entity r \<longleftrightarrow> fr_EntityType r = EntityPayout \<or> fr_EntityType r = EntityPayment"

definition bank_moved :: "FinancialResult \<Rightarrow> bool" where
  "bank_moved r \<longleftrightarrow> fr_BankCreditProven r \<or> fr_Reason r = ''processed_exact_debit''"

definition exposed :: "FinancialResult \<Rightarrow> bool" where
  "exposed r \<longleftrightarrow> fr_Exception r \<noteq> None \<or> fr_Result r \<noteq> ResultMatched"

lemma count_of_bump: "count_of (bump k m) j = count_of m j + (if j = k then 1 else 0)"
  by (simp add: count_of_def bump_def)

lemma close_fold:
  "let out' = foldl close_step out rs; es = filter batch_entity rs in
     bc_Records out' = bc_Records out + int (length es)
   \<and> (\<forall>k. count_of (bc_Counts out') k
          = count_of (bc_Counts out) k + int (length (filter (\<lambda>r. fr_Result r = k) es)))
   \<and> bc_ExpectedMinor out' = bc_ExpectedMinor out + sum_list (map fr_ExpectedAmount es)
   \<and> bc_BankDebitedMinor out' = bc_BankDebitedMinor out
       + sum_list (map fr_ObservedAmount (filter bank_moved es))
   \<and> bc_ExposureMinor out' = bc_ExposureMinor out
       + sum_list (map fr_VarianceAmount (filter exposed es))
   \<and> bc_Requested out' = bc_Requested out \<and> bc_Unlinked out' = bc_Unlinked out
   \<and> bc_MatchRate out' = bc_MatchRate out \<and> bc_RunID out' = bc_RunID out
   \<and> bc_BatchID out' = bc_BatchID out"
proof (induction rs arbitrary: out)
  case (Cons r rs)
  show ?case
    using Cons [of "close_step out r"]
    by (simp add: Let_def close_step_def batch_entity_def bank_moved_def exposed_def count_of_bump)
qed (simp add: Let_def)

text \<open>
  Closing a batch counts exactly its payments and payouts: the per-verdict counts are the
  numbers of results with that verdict, the exposure is the variance of every result that is not
  \<open>MATCHED\<close> or carries an exception, the unlinked count is what was requested and not found,
  and the match rate is a fraction between 0 and 1.
\<close>

theorem batch_close_totals:
  "let out = BatchCloseFromResults batchID runID rs requested;
       es = filter (\<lambda>r. fr_EntityType r = EntityPayout \<or> fr_EntityType r = EntityPayment) rs;
       matched = length (filter (\<lambda>r. fr_Result r = ResultMatched) es) in
     bc_Records out = int (length es)
   \<and> (\<forall>k. count_of (bc_Counts out) k = int (length (filter (\<lambda>r. fr_Result r = k) es)))
   \<and> bc_ExpectedMinor out = sum_list (map fr_ExpectedAmount es)
   \<and> bc_ExposureMinor out = sum_list (map fr_VarianceAmount
        (filter (\<lambda>r. fr_Exception r \<noteq> None \<or> fr_Result r \<noteq> ResultMatched) es))
   \<and> bc_BankDebitedMinor out = sum_list (map fr_ObservedAmount
        (filter (\<lambda>r. fr_BankCreditProven r \<or> fr_Reason r = ''processed_exact_debit'') es))
   \<and> bc_Unlinked out = max 0 (requested - int (length es))
   \<and> bc_MatchRate out = (if es = [] then 0 else of_nat matched / of_nat (length es))
   \<and> 0 \<le> bc_MatchRate out \<and> bc_MatchRate out \<le> 1"
proof -
  let ?es = "filter batch_entity rs"
  let ?init = "\<lparr>bc_BatchID = batchID, bc_RunID = runID, bc_Records = 0,
            bc_Requested = requested, bc_Unlinked = 0, bc_Counts = [], bc_ExpectedMinor = 0,
            bc_BankDebitedMinor = 0, bc_ExposureMinor = 0, bc_MatchRate = 0, bc_Currency = ''INR'',
            bc_RuleVersion = FinancialRuleVersion\<rparr>"
  define out where "out = foldl close_step ?init rs"
  have f: "bc_Records out = int (length ?es)"
    "count_of (bc_Counts out) k = int (length (filter (\<lambda>r. fr_Result r = k) ?es))"
    "bc_ExpectedMinor out = sum_list (map fr_ExpectedAmount ?es)"
    "bc_BankDebitedMinor out = sum_list (map fr_ObservedAmount (filter bank_moved ?es))"
    "bc_ExposureMinor out = sum_list (map fr_VarianceAmount (filter exposed ?es))"
    "bc_Unlinked out = 0" "bc_MatchRate out = 0" for k
    using close_fold [of ?init rs] by (simp_all add: out_def Let_def count_of_def)
  have e: "(\<lambda>r. fr_EntityType r = EntityPayout \<or> fr_EntityType r = EntityPayment) = batch_entity"
    "(\<lambda>r. fr_Exception r \<noteq> None \<or> fr_Result r \<noteq> ResultMatched) = exposed"
    "(\<lambda>r. fr_BankCreditProven r \<or> fr_Reason r = ''processed_exact_debit'') = bank_moved"
    by (auto simp: batch_entity_def exposed_def bank_moved_def)
  have b: "BatchCloseFromResults batchID runID rs requested =
      (let out = (if requested > bc_Records out then out\<lparr>bc_Unlinked := requested - bc_Records out\<rparr> else out)
       in if bc_Records out > 0
          then out\<lparr>bc_MatchRate := of_int (count_of (bc_Counts out) ResultMatched) / of_int (bc_Records out)\<rparr>
          else out)"
    by (simp add: BatchCloseFromResults_def out_def Let_def)
  let ?m = "length (filter (\<lambda>r. fr_Result r = ResultMatched) ?es)"
  have l: "?m \<le> length ?es" by (rule length_filter_le)
  have rate: "bc_MatchRate (BatchCloseFromResults batchID runID rs requested)
      = (if ?es = [] then 0 else of_nat ?m / of_nat (length ?es))"
    unfolding b Let_def by (simp only: f if_distrib [of bc_MatchRate] BatchClose.simps) (simp add: f)
  have "0 \<le> bc_MatchRate (BatchCloseFromResults batchID runID rs requested)"
    "bc_MatchRate (BatchCloseFromResults batchID runID rs requested) \<le> 1"
    unfolding rate using l by (auto simp: divide_le_eq simp del: length_filter_le filter_filter)
  then show ?thesis
    unfolding Let_def e rate by (simp add: b f Let_def)
qed


section \<open>Continuity: what a good statement is\<close>

fun balances_chain :: "int64 option \<Rightarrow> BankContinuityFact list \<Rightarrow> bool" where
  "balances_chain running [] \<longleftrightarrow> True"
| "balances_chain running (r # rs) \<longleftrightarrow>
     (if \<not> bf_HasBalance r then balances_chain running rs
      else (running = None \<or> the running + bf_CreditMinor r - bf_DebitMinor r = bf_BalanceMinor r)
        \<and> balances_chain (Some (bf_BalanceMinor r)) rs)"

abbreviation (input) hashes :: "BankContinuityFact list \<Rightarrow> string list" where
  "hashes rows \<equiv> filter (\<lambda>h. h \<noteq> []) (map bf_IdentityHash rows)"

lemma continuity_fold:
  "cr_OK (fst (foldl continuity_step (rep, seen, running) rows)) \<longleftrightarrow>
     cr_OK rep \<and> distinct (hashes rows) \<and> set (hashes rows) \<inter> seen = {} \<and> balances_chain running rows"
proof (induction rows arbitrary: rep seen running)
  case (Cons r rows)
  obtain rep' seen' running' where
    st: "continuity_step (rep, seen, running) r = (rep', seen', running')"
    by (metis prod_cases3)
  have "cr_OK rep' \<longleftrightarrow> cr_OK rep \<and> (bf_IdentityHash r \<noteq> [] \<longrightarrow> bf_IdentityHash r \<notin> seen)
      \<and> (bf_HasBalance r \<and> running \<noteq> None \<longrightarrow>
           the running + bf_CreditMinor r - bf_DebitMinor r = bf_BalanceMinor r)"
    and "seen' = (if bf_IdentityHash r \<noteq> [] then insert (bf_IdentityHash r) seen else seen)"
    and "running' = (if bf_HasBalance r then Some (bf_BalanceMinor r) else running)"
    using st by (auto simp: continuity_step_def Let_def split: if_splits option.splits)
  then show ?case
    using Cons [of rep' seen' running'] by (auto simp: st)
qed simp

text \<open>
  The continuity check of a bank statement passes exactly when no non-blank identity hash
  occurs twice and every row with a balance continues the previous row with one: its balance is
  that balance plus its credit minus its debit.
\<close>

theorem continuity_ok_iff:
  "cr_OK (AssertBankContinuity rows) \<longleftrightarrow>
     distinct (filter (\<lambda>h. h \<noteq> []) (map bf_IdentityHash rows)) \<and> balances_chain None rows"
  by (simp add: AssertBankContinuity_def continuity_fold)

section \<open>The finance list: what its rows show\<close>

lemma reannotate_frame [simp]:
  "fr_Result (reannotate e m fr) = fr_Result fr"
  "fr_Reason (reannotate e m fr) = fr_Reason fr"
  "fr_BankCreditProven (reannotate e m fr) = fr_BankCreditProven fr"
  "fr_EvidenceRefs (reannotate e m fr) = fr_EvidenceRefs fr"
  by (simp_all add: reannotate_def Let_def frame_simps)

lemma row_fields:
  "fl_PaymentID (payoutListRow po fr) = po_PayoutID po"
  "fl_PaymentID (paymentListRow pay fr) = pf_PaymentID pay"
  "fl_Result (payoutListRow po fr) = (if not_run fr then [] else fr_Result fr)"
  "fl_Result (paymentListRow pay fr) = (if not_run fr then [] else fr_Result fr)"
  "fl_Bank (payoutListRow po fr) = (if not_run fr then None else Some (fr_BankCreditProven fr))"
  "fl_Bank (paymentListRow pay fr) = (if not_run fr then None else Some (fr_BankCreditProven fr))"
  by (simp_all add: payoutListRow_def paymentListRow_def with_proof_def applyResult_def not_run_def
      zero_FinanceListRow_def Let_def)

text \<open>
  Every row of the finance list falls under exactly one of matched, exception and not run;
  the unfiltered list has one row for every payout and then every payment, in their order, and a
  filter keeps exactly the rows whose verdict it names.
\<close>

theorem finance_list_partition:
  "let out = finance_list payouts pays results flt; full = finance_list payouts pays results [];
       want = (if ToUpper (TrimSpace flt) = ''ALL'' then [] else ToUpper (TrimSpace flt)) in
     fp_Records out = fp_Matched out + fp_Exceptions out
       + int (length (filter (\<lambda>r. \<not> row_matched r \<and> \<not> row_exception r) (fp_Results out)))
   \<and> fp_Records out = int (length (fp_Results out))
   \<and> map fl_PaymentID (fp_Results full) = map po_PayoutID payouts @ map pf_PaymentID pays
   \<and> fp_Results out = filter (\<lambda>r. want = [] \<or> ToUpper (fl_Result r) = want) (fp_Results full)"
proof -
  have p: "length rows = length (filter row_matched rows) + length (filter row_exception rows)
      + length (filter (\<lambda>r. \<not> row_matched r \<and> \<not> row_exception r) rows)" for rows
    by (induction rows) (auto simp: row_exception_def)
  have q: "int (length rows) = int (length (filter row_matched rows)) + int (length (filter row_exception rows))
      + int (length (filter (\<lambda>r. \<not> row_matched r \<and> \<not> row_exception r) rows))" for rows
    using p [of rows] by linarith
  have w: "row_wanted [] = (\<lambda>_. True)" "(\<lambda>r. w = [] \<or> ToUpper (fl_Result r) = w) = row_wanted w" for w
    by (auto simp: row_wanted_def)
  show ?thesis
    unfolding Let_def w finance_list_def FinanceListResponse.select_convs
    by (intro conjI; (rule q | simp add: w row_fields comp_def)?)
qed

lemma first_rule_all: "\<forall>(g, w) \<in> set rules. P w \<Longrightarrow> P v \<Longrightarrow> P (first_rule rules v)"
  by (induction rules v rule: first_rule.induct) auto

lemma payout_verdict_ran:
  "v_result (payout_verdict clock inp) \<noteq> [] \<and> v_reason (payout_verdict clock inp) \<noteq> ''not_run''"
  (is "?P (payout_verdict clock inp)")
proof -
  have b: "reason_of (payoutMerchantGap p m) \<noteq> ''not_run''" if "payoutMerchantGap p m \<noteq> None" for p m
    using that books_gap_reason unfolding payoutMerchantGap_def
    by (fastforce simp del: not_None_eq dest: iffD1 [OF not_None_eq])
  have r: "?P (first_rule (processed_rules inp) (opens ResultUnresolved ''payout_missing_bank''))"
    by (rule first_rule_all) (simp_all add: processed_rules_def Let_def)
  show ?thesis
    using b r by (simp add: payout_verdict_def Let_def del: not_None_eq)
qed

text \<open>
  In the finance list every payout that was reconciled is shown with \<open>bank = false\<close>,
  also one the reconciliation matched to its bank debit: the row shows \<open>BankCreditProven\<close>,
  which no payout result ever sets.
\<close>

theorem reconciled_payout_listed_without_bank:
  "fl_Bank (payoutListRow po (ReconcilePayout clock inp)) = Some False"
  using payout_verdict_ran [of clock inp] payout_verdict_unproven [of clock inp]
  by (simp add: row_fields not_run_def ReconcilePayout_verdict)

end
