(* ===== verification/Queries.thy ===== *)
theory Queries
  imports Reports
begin

text \<open>
  The reading operations of \<open>FinancialService\<close> and its investigations:
  \<^verbatim>\<open>exceptions.go\<close>, \<^verbatim>\<open>refund_graph_exceptions.go\<close> and the methods of
  \<^verbatim>\<open>financial_service.go\<close> and \<^verbatim>\<open>list_results.go\<close> that query the store.  They run in
  the same state as \<open>Run\<close>, so every store call may fail.  \<open>srt\<close> is the unstable sort of
  the refund signals and \<open>sha1\<close> the external name-based UUID.
\<close>

section \<open>Investigations of an exception\<close>

text \<open>The texts of root cause and recommendation per reason.\<close>

definition investigation_texts :: "(string \<times> string \<times> string) list" where
  "investigation_texts =
     [(''failed_with_bank_movement'',
       ''Payment failed at the PSP lifecycle level, but a corresponding bank movement was detected without a matching settlement/refund record.'',
       ''Investigate the unmatched bank movement and provider-side transaction outcome.''),
      (''captured_missing_settlement'',
       ''Payment is captured but no settlement line is linked by payment_id.'',
       ''Wait for settlement recon or backfill settlement lines for this payment_id.''),
      (''settlement_without_bank'',
       ''Settlement is observed but no bank CREDIT candidate is matched.'',
       ''Confirm the bank statement window and UTR against the settlement UTR.''),
      (''amount_mismatch'',
       ''A unique UTR matched a bank row whose amount differs from the settlement net.'',
       ''Do not force a match. Review fee/tax/adjustment and the bank amount.''),
      (''partial_settlement'',
       ''Settlement net is less than the captured payment amount and the gap is not fully explained by fee/tax on the settlement line.'',
       ''Review whether the payment was partially settled or a settlement line is missing.''),
      (''duplicate_settlement'',
       ''More than one payment-type settlement line exists for the same payment_id.'',
       ''Do not force a match. Review duplicate settlement lines and provider settlement files.''),
      (''ambiguous_bank_candidates'',
       ''More than one plausible bank candidate exists. No match was forced.'',
       ''Finance should pick from the candidate IDs using additional evidence.''),
      (''shared_utr_or_bank_candidates'',
       ''More than one plausible bank candidate exists. No match was forced.'',
       ''Finance should pick from the candidate IDs using additional evidence.''),
      (''orphan_bank_credit'',
       ''A bank CREDIT has no related settlement or payment.'',
       ''Keep the bank row and search for a missing settlement or payment.''),
      (''open_status_no_downstream'',
       ''Payment remains in an open Razorpay status with no settlement or bank movement after the age window.'',
       ''Do not rename the Razorpay status. Check later events or backfill.''),
      (''payout_failed_with_bank_movement'',
       ''Payout failed, cancelled, or rejected at the Razorpay lifecycle level, but a bank movement was detected.'',
       ''ESCALATE: confirm whether the debit should be reversed. Do not rename the Razorpay status.''),
      (''payout_missing_bank'',
       ''Payout is processed but no matching bank DEBIT was found.'',
       ''MONITOR the bank statement window and UTR. Status stays processed.''),
      (''payout_open_past_sla'',
       ''Payout remains in an open Razorpay status past the configured SLA. Status is unchanged.'',
       ''MONITOR or ESCALATE payout operations. Do not rename the status to STUCK.''),
      (''payout_reversed_unexplained'',
       ''Payout is reversed and the corresponding bank story is incomplete.'',
       ''REQUEST_REVIEW of reversal and bank movement.''),
      (ReasonRefundWithoutReverse,
       ''Marketplace refund with seller_id has no matching reverse_transfer for the same payment_id + seller_id (or refund_id). Not a bank movement; cash totals are unchanged.'',
       ''REQUEST_REVIEW: confirm whether the seller transfer should be reversed or the reverse transfer is not yet ingested. Do not auto-block payouts.'')]"

definition DeterministicInvestigation :: "ReconciliationException \<Rightarrow> InvestigationRecord" where
  "DeterministicInvestigation ex =
     (let (root, recommendation) = (case map_of investigation_texts (ex_Reason ex) of
            Some t \<Rightarrow> t
          | None \<Rightarrow> (ex_Reason ex, ''Review evidence_refs. Do not change the Razorpay status.''))
      in \<lparr>iv_ID = [], iv_TenantID = [], iv_ConnectorID = [], iv_ExceptionID = ex_ID ex,
          iv_EntityType = ex_EntityType ex, iv_EntityID = ex_EntityID ex, iv_Status = ''completed'',
          iv_RootCause = root, iv_Recommendation = recommendation, iv_Confidence = ex_Confidence ex,
          iv_FinancialImpact = ex_VarianceAmount ex, iv_EvidenceIDs = ex_EvidenceIDs ex,
          iv_CreatedAt = 0, iv_UpdatedAt = 0\<rparr>)"

section \<open>Exceptions, stored and derived\<close>

record query_env = run_env +
  env_srt :: "MarketplaceRefundGraphSignal list \<Rightarrow> MarketplaceRefundGraphSignal list"
  env_sha1 :: "string \<Rightarrow> string"

text \<open>A query runs in the environment of a run.\<close>

definition base_env :: "query_env \<Rightarrow> run_env" where
  "base_env env = run_env.truncate env"

definition refundGraphSignals :: "query_env \<Rightarrow> string \<Rightarrow> string \<Rightarrow> MarketplaceRefundGraphSignal list svc" where
  "refundGraphSignals env tenantID connectorID =
     bindE (reads (base_env env) (ListRefunds tenantID connectorID [])) (\<lambda>refunds.
     bindE (reads (base_env env) (ListTransferEdges tenantID connectorID)) (\<lambda>edges.
     returnE (map (\<lambda>g. g\<lparr>gs_TenantID := tenantID, gs_ConnectorID := connectorID\<rparr>)
       (DetectRefundsWithoutReverse (env_srt env) refunds edges))))"

definition RefundGraphExceptions :: "query_env \<Rightarrow> string \<Rightarrow> string \<Rightarrow> ReconciliationException list svc" where
  "RefundGraphExceptions env tenantID connectorID =
     (let tenantID = TrimSpace tenantID; connectorID = TrimSpace connectorID
      in if tenantID = [] \<or> connectorID = [] then returnE []
         else bindE (refundGraphSignals env tenantID connectorID) (\<lambda>signals.
           returnE (map (RefundGraphSignalException (env_sha1 env) tenantID connectorID) signals)))"

definition exception_key :: "ReconciliationException \<Rightarrow> string" where
  "exception_key ex = ex_EntityType ex @ ''|'' @ ex_EntityID ex"

definition merge_exceptions :: "ReconciliationException list \<Rightarrow> ReconciliationException list
    \<Rightarrow> ReconciliationException list" where
  "merge_exceptions persisted derived =
     (if derived = [] then persisted
      else persisted @ filter (\<lambda>ex. exception_key ex \<notin> exception_key ` set persisted) derived)"

definition ListExceptions :: "query_env \<Rightarrow> string \<Rightarrow> string \<Rightarrow> ReconciliationException list svc" where
  "ListExceptions env tenantID connectorID =
     bindE (reads (base_env env) ms_Exceptions) (\<lambda>persisted.
     bindE (RefundGraphExceptions env tenantID connectorID) (\<lambda>derived.
     returnE (merge_exceptions persisted derived)))"

definition GetException :: "query_env \<Rightarrow> string \<Rightarrow> string \<Rightarrow> string \<Rightarrow> ReconciliationException option svc" where
  "GetException env tenantID connectorID i =
     bindE (reads (base_env env) (GetReconciliationException i)) (\<lambda>stored.
     case stored of
       Some ex \<Rightarrow> returnE (Some ex)
     | None \<Rightarrow>
         bindE (RefundGraphExceptions env tenantID connectorID) (\<lambda>derived.
         returnE (List.find (\<lambda>d. ex_ID d = i) derived)))"

record MarketplaceRefundGraphResult =
  mg_TenantID :: string
  mg_ConnectorID :: string
  mg_Signals :: "MarketplaceRefundGraphSignal list"
  mg_NotCash :: bool
  mg_Advisory :: bool

definition MarketplaceRefundGraphExceptions :: "query_env \<Rightarrow> string \<Rightarrow> string
    \<Rightarrow> MarketplaceRefundGraphResult svc" where
  "MarketplaceRefundGraphExceptions env tenantID connectorID =
     (let tenantID = TrimSpace tenantID; connectorID = TrimSpace connectorID
      in if tenantID = [] \<or> connectorID = [] then failE ''tenant_id and connector_id are required''
         else bindE (refundGraphSignals env tenantID connectorID) (\<lambda>signals.
           returnE \<lparr>mg_TenantID = tenantID, mg_ConnectorID = connectorID, mg_Signals = signals,
             mg_NotCash = True, mg_Advisory = True\<rparr>))"

section \<open>Investigate\<close>

definition investigation_payload :: "string \<Rightarrow> string \<Rightarrow> string \<Rightarrow> InvestigationRecord
    \<Rightarrow> ReconciliationException \<Rightarrow> (string \<times> payload_value) list" where
  "investigation_payload eventID tenantID connectorID rec ex =
     (let unknown = (ex_Reason ex \<in> {''failed_with_bank_movement'', ''payout_failed_with_bank_movement''})
      in [(''event_type'', PString ''investigation.completed.v1''), (''event_id'', PString eventID),
          (''event_version'', PString ''v1''), (''schema_version'', PString ''v1''),
          (''tenant_id'', PString tenantID), (''connector_id'', PString connectorID),
          (''entity_type'', PString (iv_EntityType rec)), (''entity_id'', PString (iv_EntityID rec)),
          (''status'', PString (ex_Status ex)), (''result'', PString (ex_ReconciliationResult ex)),
          (''reason'', PString (ex_Reason ex)), (''expected_amount'', PInt (ex_ExpectedAmount ex)),
          (''observed_amount'', PInt (ex_ObservedAmount ex)),
          (''variance_amount'', PInt (iv_FinancialImpact rec)), (''currency'', PString ''INR''),
          (''candidate_ids'', PStrings (ex_CandidateIDs ex)),
          (''evidence_refs'', PRefs (ex_EvidenceRefs ex)), (''investigation_id'', PString (iv_ID rec)),
          (''root_cause'', PString (if unknown then ''UNKNOWN'' else iv_RootCause rec)),
          (''recommendation'', PString (iv_Recommendation rec)),
          (''finding_certainty'', PString (if unknown then ''UNKNOWN'' else ''LIKELY'')),
          (''cited_evidence_ids'', PStrings (iv_EvidenceIDs rec))])"

definition emitInvestigation :: "query_env \<Rightarrow> string \<Rightarrow> string \<Rightarrow> InvestigationRecord
    \<Rightarrow> ReconciliationException \<Rightarrow> unit svc" where
  "emitInvestigation env tenantID connectorID rec ex =
     bindE (new_id (base_env env)) (\<lambda>eventID. bindE (new_id (base_env env)) (\<lambda>agg.
     call (base_env env) (\<lambda>m. ((), InsertMatchOutbox
       \<lparr>ob_EventID = eventID, ob_TenantID = parse_or (base_env env) tenantID (env_nil env),
        ob_AggregateType = ''investigation'',
        ob_AggregateID = parse_or (base_env env) (iv_ID rec) agg,
        ob_EventType = ''investigation.completed.v1'',
        ob_Payload = investigation_payload eventID tenantID connectorID rec ex,
        ob_CreatedAt = env_now env\<rparr> m))))"

abbreviation (input) errNotFound :: string where
  "errNotFound \<equiv> ''not_found''"

definition find_exception :: "query_env \<Rightarrow> string \<Rightarrow> string \<Rightarrow> string \<Rightarrow> string
    \<Rightarrow> ReconciliationException option svc" where
  "find_exception env tenantID connectorID exceptionID entityID =
     (if exceptionID \<noteq> [] then GetException env tenantID connectorID exceptionID
      else bindE (ListExceptions env tenantID connectorID)
             (\<lambda>xs. returnE (List.find (\<lambda>x. ex_EntityID x = entityID) xs)))"

definition investigate_exception :: "query_env \<Rightarrow> string \<Rightarrow> string \<Rightarrow> ReconciliationException
    \<Rightarrow> InvestigationRecord svc" where
  "investigate_exception env tenantID connectorID ex =
     (let rec = (DeterministicInvestigation ex)\<lparr>iv_TenantID := tenantID,
            iv_ConnectorID := connectorID, iv_ExceptionID := ex_ID ex,
            iv_FinancialImpact := ex_VarianceAmount ex, iv_Confidence := ex_Confidence ex,
            iv_EvidenceIDs := ex_EvidenceIDs ex\<rparr>
      in bindE (call (base_env env) (InsertInvestigation (env_uuid env) (env_clock env) rec)) (\<lambda>saved.
         bindE (emitInvestigation env tenantID connectorID saved ex) (\<lambda>_. returnE saved)))"

definition Investigate :: "query_env \<Rightarrow> string \<Rightarrow> string \<Rightarrow> string \<Rightarrow> string \<Rightarrow> InvestigationRecord svc" where
  "Investigate env tenantID connectorID exceptionID entityID =
     bindE (find_exception env tenantID connectorID exceptionID entityID) (\<lambda>found.
       case found of
         None \<Rightarrow> failE errNotFound
       | Some ex \<Rightarrow> investigate_exception env tenantID connectorID ex)"

section \<open>One entity\<close>

definition not_run_result :: "string \<Rightarrow> string \<Rightarrow> string \<Rightarrow> string \<Rightarrow> FinancialResult" where
  "not_run_result entity i status mode =
     AnnotateCashFlow (zero_FinancialResult\<lparr>fr_EntityType := entity, fr_EntityID := i,
       fr_Status := status, fr_Result := ResultUnresolved, fr_Reason := ''not_run'',
       fr_Rail := NormalizeRail mode\<rparr>)"

definition GetPayment :: "query_env \<Rightarrow> string \<Rightarrow> (PaymentFact \<times> FinancialResult) option svc" where
  "GetPayment env paymentID =
     bindE (reads (base_env env) (GetCanonicalPayment paymentID)) (\<lambda>found.
       case found of
         None \<Rightarrow> returnE None
       | Some pay \<Rightarrow>
           bindE (reads (base_env env) (GetReconciliationResult (EntityPayment, paymentID))) (\<lambda>r.
           returnE (Some (pay, case r of
               None \<Rightarrow> not_run_result EntityPayment paymentID (pf_CanonicalStatus pay) (pf_Method pay)
             | Some fr \<Rightarrow> reannotate EntityPayment (pf_Method pay) fr))))"

definition GetPayout :: "query_env \<Rightarrow> string \<Rightarrow> (PayoutFact \<times> FinancialResult) option svc" where
  "GetPayout env payoutID =
     bindE (reads (base_env env) (GetCanonicalPayoutFact payoutID)) (\<lambda>found.
       case found of
         None \<Rightarrow> returnE None
       | Some po \<Rightarrow>
           bindE (reads (base_env env) (GetReconciliationResult (EntityPayout, payoutID))) (\<lambda>r.
           returnE (Some (po, case r of
               None \<Rightarrow> not_run_result EntityPayout payoutID (po_ProviderStatus po) (po_Mode po)
             | Some fr \<Rightarrow> reannotate EntityPayout (po_Mode po) fr))))"

section \<open>Summaries over the store\<close>

record ReasonExposure =
  re_Reason :: string
  re_Count :: int
  re_ExposureMinor :: int64

record FinanceSummary =
  fs_EntityCounts :: "(string \<times> int) list"
  fs_ResultCounts :: "(string \<times> int) list"
  fs_ExposureMinor :: int64
  fs_ExposureByReason :: "ReasonExposure list"
  fs_Currency :: string
  fs_ScoredCount :: int
  fs_MatchedCount :: int

definition reason_key :: "ReconciliationException \<Rightarrow> string" where
  "reason_key ex = (if ex_Reason ex = [] then ''unspecified'' else ex_Reason ex)"

definition exposure_step :: "(string \<times> int \<times> int64) list \<Rightarrow> ReconciliationException
    \<Rightarrow> (string \<times> int \<times> int64) list" where
  "exposure_step m ex =
     (let (n, amt) = (case map_of m (reason_key ex) of None \<Rightarrow> (0, 0) | Some a \<Rightarrow> a)
      in alist_put (reason_key ex) (n + 1, amt + ex_VarianceAmount ex) m)"

definition exposure_less :: "ReasonExposure \<Rightarrow> ReasonExposure \<Rightarrow> bool" where
  "exposure_less a b =
     (if re_ExposureMinor a = re_ExposureMinor b then re_Reason a < re_Reason b
      else re_ExposureMinor b <s re_ExposureMinor a)"

definition count_nonblank :: "string list \<Rightarrow> (string \<times> int) list" where
  "count_nonblank ks = foldl (\<lambda>m k. if k \<noteq> [] then bump k m else m) [] ks"

text \<open>The reasons are distinct, so the order of the Go map does not matter after the sort.\<close>

definition summary_of :: "FinancialResult list \<Rightarrow> ReconciliationException list \<Rightarrow> FinanceSummary" where
  "summary_of results exceptions =
     (let counts = count_nonblank (map fr_Result results)
      in \<lparr>fs_EntityCounts = count_nonblank (map fr_EntityType results), fs_ResultCounts = counts,
          fs_ExposureMinor = foldl (\<lambda>x ex. x + ex_VarianceAmount ex) 0 exceptions,
          fs_ExposureByReason = SliceStable exposure_less
            (map (\<lambda>(k, n, amt). \<lparr>re_Reason = k, re_Count = n, re_ExposureMinor = amt\<rparr>)
              (foldl exposure_step [] exceptions)),
          fs_Currency = ''INR'',
          fs_ScoredCount = sum_list (map (count_of counts) [ResultMatched, ResultAmbiguous,
            ResultUnresolved, ResultConflicted, ResultVariance, ResultOrphan]),
          fs_MatchedCount = count_of counts ResultMatched\<rparr>)"

definition service_FinanceSummary :: "query_env \<Rightarrow> FinanceSummary svc" where
  "service_FinanceSummary env =
     bindE (reads (base_env env) ms_Results) (\<lambda>results.
     bindE (reads (base_env env) ms_Exceptions) (\<lambda>exceptions.
     returnE (summary_of results exceptions)))"

definition service_CashPosition :: "query_env \<Rightarrow> CashSnapshot svc" where
  "service_CashPosition env =
     bindE (reads (base_env env) ms_Results) (\<lambda>results.
     bindE (reads (base_env env) ms_Lines) (\<lambda>lines.
     bindE (reads (base_env env) ms_Exceptions) (\<lambda>exceptions.
     returnE (CashPosition (env_clock env) results lines exceptions))))"

definition ListFinanceResults :: "query_env \<Rightarrow> string \<Rightarrow> FinanceListResponse svc" where
  "ListFinanceResults env resultFilter =
     bindE (reads (base_env env) ms_Payouts) (\<lambda>payouts.
     bindE (reads (base_env env) ms_Payments) (\<lambda>pays.
     bindE (reads (base_env env) ms_Results) (\<lambda>results.
     returnE (finance_list payouts pays results resultFilter))))"

definition service_Evaluation :: "query_env \<Rightarrow> FinanceEvaluation svc" where
  "service_Evaluation env =
     bindE (reads (base_env env) ms_Results) (\<lambda>results.
     bindE (reads (base_env env) ms_Exceptions) (\<lambda>exceptions.
     bindE (reads (base_env env) ms_Investigations) (\<lambda>investigations.
     returnE (evaluation_of results (length exceptions) investigations))))"

definition service_BatchClose :: "query_env \<Rightarrow> string \<Rightarrow> BatchClose option svc" where
  "service_BatchClose env batchID =
     (let batchID = TrimSpace batchID
      in if batchID = [] then returnE None
         else bindE (reads (base_env env) (GetLatestReconciliationRunByBatch batchID)) (\<lambda>found.
           case found of
             None \<Rightarrow> returnE None
           | Some run \<Rightarrow>
               bindE (reads (base_env env) ms_Results) (\<lambda>results.
               (let want = payoutIDSet (rr_EntityIDs run)
                in returnE (Some (BatchCloseFromResults batchID (rr_ID run)
                     (filter (\<lambda>r. fr_EntityID r \<in> want) results)
                     (int (length (rr_EntityIDs run)))))))))"


section \<open>Queries read\<close>

lemma signals_Inr:
  "refundGraphSignals env t c s = (Inr gs, s') \<Longrightarrow> fst s' = fst s"
  unfolding refundGraphSignals_def by (elim bindE_InrE) (auto simp: reads_Inr returnE_Inr)

definition derived_exception :: "query_env \<Rightarrow> ReconciliationException \<Rightarrow> bool" where
  "derived_exception env ex \<longleftrightarrow>
     (\<exists>tenant connector g. ex = RefundGraphSignalException (env_sha1 env) tenant connector g)"

lemma derived_exceptionI [simp]: "derived_exception env (RefundGraphSignalException (env_sha1 env) t c g)"
  unfolding derived_exception_def by blast

lemma derived_Inr:
  "RefundGraphExceptions env t c s = (Inr xs, s') \<Longrightarrow>
     fst s' = fst s \<and> (\<forall>x \<in> set xs. derived_exception env x)"
  by (auto simp: RefundGraphExceptions_def Let_def returnE_Inr
      dest: signals_Inr split: if_splits elim!: bindE_InrE)

lemma signal_exception_sel [simp]:
  "ex_VarianceAmount (RefundGraphSignalException h t c g) = 0"
  "ex_ObservedAmount (RefundGraphSignalException h t c g) = 0"
  "ex_ReconciliationResult (RefundGraphSignalException h t c g) = ResultUnresolved"
  "ex_Reason (RefundGraphSignalException h t c g) = ReasonRefundWithoutReverse"
  by (simp_all add: RefundGraphSignalException_def zero_defs)

lemma derived_exception_sel:
  "derived_exception env d \<Longrightarrow> ex_VarianceAmount d = 0 \<and> ex_ReconciliationResult d = ResultUnresolved
     \<and> ex_Reason d = ReasonRefundWithoutReverse"
  by (auto simp: derived_exception_def)

lemma derived_sum:
  "\<forall>d \<in> set ds. derived_exception env d \<Longrightarrow> sum_list (map ex_VarianceAmount ds) = 0"
  by (induction ds) (auto dest: derived_exception_sel)

lemma list_Inr:
  assumes "ListExceptions env t c s = (Inr xs, s')"
  obtains derived where "fst s' = fst s" and "xs = ms_Exceptions (fst s) @ derived"
    and "\<forall>d \<in> set derived. exception_key d \<notin> exception_key ` set (ms_Exceptions (fst s))
      \<and> derived_exception env d"
proof -
  from assms [unfolded ListExceptions_def] obtain ps u where
    p: "reads (base_env env) ms_Exceptions s = (Inr ps, u)" and
    q: "bindE (RefundGraphExceptions env t c) (\<lambda>derived. returnE (merge_exceptions ps derived)) u = (Inr xs, s')"
    by (rule bindE_InrE)
  from q obtain ds where r: "RefundGraphExceptions env t c u = (Inr ds, s')"
    and xs: "xs = merge_exceptions ps ds"
    by (auto elim!: bindE_InrE simp: returnE_Inr)
  have u: "ps = ms_Exceptions (fst s)" "fst u = fst s" using p by (simp_all add: reads_Inr)
  note d = derived_Inr [OF r]
  show thesis
  proof (cases "ds = []")
    case True
    show ?thesis
      by (rule that [of "[]"]) (use True d u xs in \<open>simp_all add: merge_exceptions_def\<close>)
  next
    case False
    let ?ds = "filter (\<lambda>ex. exception_key ex \<notin> exception_key ` set (ms_Exceptions (fst s))) ds"
    show ?thesis
      by (rule that [of ?ds]) (use False d u xs in \<open>auto simp: merge_exceptions_def\<close>)
  qed
qed

text \<open>
  Listing the exceptions changes nothing in the store and shows every stored exception, in
  order, followed by derived refund-graph exceptions for entities that have none stored.  The
  derived ones are \<open>UNRESOLVED\<close>, never \<open>MATCHED\<close>, and move no money: the cash position
  over the whole list is the cash position over the stored exceptions alone.
\<close>

theorem derived_exceptions_move_no_money:
  assumes "ListExceptions env tenantID connectorID s = (Inr xs, s')"
  shows "fst s' = fst s \<and> take (length (ms_Exceptions (fst s))) xs = ms_Exceptions (fst s)
    \<and> (\<forall>d \<in> set (drop (length (ms_Exceptions (fst s))) xs).
         ex_ReconciliationResult d = ResultUnresolved \<and> ex_Reason d = ReasonRefundWithoutReverse
       \<and> exception_key d \<notin> exception_key ` set (ms_Exceptions (fst s)))
    \<and> CashPosition now results lines xs = CashPosition now results lines (ms_Exceptions (fst s))"
proof -
  obtain derived where "fst s' = fst s" and xs: "xs = ms_Exceptions (fst s) @ derived"
    and d: "\<forall>d \<in> set derived. exception_key d \<notin> exception_key ` set (ms_Exceptions (fst s))
      \<and> derived_exception env d"
    by (rule list_Inr [OF assms])
  moreover have "sum_list (map ex_VarianceAmount derived) = 0"
    using d by (intro derived_sum [of _ env]) blast
  ultimately show ?thesis
    using d by (auto simp: CashPosition_closed dest: derived_exception_sel)
qed

section \<open>An investigation is grounded\<close>

definition found_exception :: "query_env \<Rightarrow> MemoryFinancialStore \<Rightarrow> ReconciliationException \<Rightarrow> bool" where
  "found_exception env m ex \<longleftrightarrow> ex \<in> set (ms_Exceptions m)
     \<or> derived_exception env ex"

lemma find_exception_Inr:
  assumes "find_exception env t c i e s = (Inr (Some ex), s')"
  shows "fst s' = fst s \<and> found_exception env (fst s) ex
    \<and> (if i \<noteq> [] then ex_ID ex = i else ex_EntityID ex = e)"
proof (cases "i = []")
  case True
  with assms obtain xs where l: "ListExceptions env t c s = (Inr xs, s')"
    and f: "List.find (\<lambda>x. ex_EntityID x = e) xs = Some ex"
    by (auto simp: find_exception_def returnE_Inr elim!: bindE_InrE)
  obtain derived where "fst s' = fst s" "xs = ms_Exceptions (fst s) @ derived"
    and "\<forall>d \<in> set derived. exception_key d \<notin> exception_key ` set (ms_Exceptions (fst s))
      \<and> derived_exception env d"
    by (rule list_Inr [OF l])
  then show ?thesis
    using find_SomeD [OF f] True by (auto simp: found_exception_def)
next
  case False
  with assms [unfolded find_exception_def GetException_def] obtain stored u where
    g: "stored = GetReconciliationException i (fst s)" "fst u = fst s"
    "(case stored of Some ex \<Rightarrow> returnE (Some ex)
      | None \<Rightarrow> bindE (RefundGraphExceptions env t c) (\<lambda>derived.
         returnE (List.find (\<lambda>d. ex_ID d = i) derived))) u = (Inr (Some ex), s')"
    by (auto elim!: bindE_InrE simp: reads_Inr)
  show ?thesis
  proof (cases stored)
    case None
    with g obtain ds where d: "RefundGraphExceptions env t c u = (Inr ds, s')"
      and f: "List.find (\<lambda>d. ex_ID d = i) ds = Some ex"
      by (auto elim!: bindE_InrE simp: returnE_Inr)
    then show ?thesis
      using derived_Inr [OF d] find_SomeD [OF f] g(2) False by (auto simp: found_exception_def)
  next
    case (Some x)
    have "x = ex" "s' = u" using g(3) unfolding Some by (simp_all add: returnE_Inr)
    with find_SomeD [OF g(1) [unfolded Some GetReconciliationException_def, symmetric]] g(2) False
    show ?thesis by (simp add: found_exception_def)
  qed
qed


definition movement_without_story :: "ReconciliationException \<Rightarrow> bool" where
  "movement_without_story ex \<longleftrightarrow>
     ex_Reason ex \<in> {''failed_with_bank_movement'', ''payout_failed_with_bank_movement''}"

lemma emitInvestigation_Inr:
  "emitInvestigation env t c rec ex s = (Inr u, s') \<Longrightarrow>
     ms_Results (fst s') = ms_Results (fst s) \<and> ms_Exceptions (fst s') = ms_Exceptions (fst s)
   \<and> ms_Runs (fst s') = ms_Runs (fst s) \<and> ms_Investigations (fst s') = ms_Investigations (fst s)
   \<and> (\<exists>row. ms_Outbox (fst s') = ms_Outbox (fst s) @ [row]
        \<and> map_of (ob_Payload row) ''result'' = Some (PString (ex_ReconciliationResult ex))
        \<and> map_of (ob_Payload row) ''finding_certainty''
          = Some (PString (if movement_without_story ex then ''UNKNOWN'' else ''LIKELY''))
        \<and> (movement_without_story ex \<longrightarrow>
             map_of (ob_Payload row) ''root_cause'' = Some (PString ''UNKNOWN'')))"
  unfolding emitInvestigation_def
  by (elim bindE_InrE)
     (auto simp: new_id_def fresh_def call_Inr InsertMatchOutbox_def investigation_payload_def
       movement_without_story_def)

text \<open>
  An investigation is grounded in an exception and changes no verdict.  If it returns a
  record, that record is the one appended to the store and it repeats entity, impact, confidence
  and evidence of an exception that is stored or derived and has the id (or, without an id, the
  entity) asked for; results, exceptions and runs are untouched, and the one outbox row it emits
  repeats the verdict and says \<open>UNKNOWN\<close> where money moved without an explanation.
\<close>

theorem investigation_is_grounded:
  assumes "Investigate env tenantID connectorID exceptionID entityID s = (Inr rec, s')"
  shows "\<exists>ex row. found_exception env (fst s) ex
    \<and> (if exceptionID \<noteq> [] then ex_ID ex = exceptionID else ex_EntityID ex = entityID)
    \<and> iv_ExceptionID rec = ex_ID ex \<and> iv_EntityType rec = ex_EntityType ex
    \<and> iv_EntityID rec = ex_EntityID ex \<and> iv_FinancialImpact rec = ex_VarianceAmount ex
    \<and> iv_Confidence rec = ex_Confidence ex \<and> iv_EvidenceIDs rec = ex_EvidenceIDs ex
    \<and> ms_Investigations (fst s') = ms_Investigations (fst s) @ [rec]
    \<and> ms_Results (fst s') = ms_Results (fst s) \<and> ms_Exceptions (fst s') = ms_Exceptions (fst s)
    \<and> ms_Runs (fst s') = ms_Runs (fst s)
    \<and> ms_Outbox (fst s') = ms_Outbox (fst s) @ [row]
    \<and> map_of (ob_Payload row) ''result'' = Some (PString (ex_ReconciliationResult ex))
    \<and> (movement_without_story ex \<longrightarrow>
         map_of (ob_Payload row) ''root_cause'' = Some (PString ''UNKNOWN''))"
proof -
  from assms [unfolded Investigate_def] obtain found s1 where
    f: "find_exception env tenantID connectorID exceptionID entityID s = (Inr found, s1)" and
    g: "(case found of None \<Rightarrow> failE errNotFound
         | Some ex \<Rightarrow> investigate_exception env tenantID connectorID ex) s1 = (Inr rec, s')"
    by (rule bindE_InrE)
  then obtain ex where ex: "found = Some ex"
    and i: "investigate_exception env tenantID connectorID ex s1 = (Inr rec, s')"
    by (cases found) auto
  note fe = find_exception_Inr [OF f [unfolded ex]]
  let ?rec = "(DeterministicInvestigation ex)\<lparr>iv_TenantID := tenantID,
            iv_ConnectorID := connectorID, iv_ExceptionID := ex_ID ex,
            iv_FinancialImpact := ex_VarianceAmount ex, iv_Confidence := ex_Confidence ex,
            iv_EvidenceIDs := ex_EvidenceIDs ex\<rparr>"
  from i [unfolded investigate_exception_def Let_def] obtain saved s2 where
    c: "call (base_env env) (InsertInvestigation (env_uuid env) (env_clock env) ?rec) s1 = (Inr saved, s2)" and
    j: "bindE (emitInvestigation env tenantID connectorID saved ex) (\<lambda>_. returnE saved) s2 = (Inr rec, s')"
    by (rule bindE_InrE)
  from j obtain u s3 where e0: "emitInvestigation env tenantID connectorID saved ex s2 = (Inr u, s3)"
    and "returnE saved s3 = (Inr rec, s')"
    by (rule bindE_InrE)
  then have rec: "saved = rec" and s3: "s3 = s'" by (simp_all add: returnE_Inr)
  note e = e0 [unfolded rec s3]
  have k: "ms_Investigations (fst s2) = ms_Investigations (fst s1) @ [rec]"
    "ms_Results (fst s2) = ms_Results (fst s1)" "ms_Exceptions (fst s2) = ms_Exceptions (fst s1)"
    "ms_Runs (fst s2) = ms_Runs (fst s1)" "ms_Outbox (fst s2) = ms_Outbox (fst s1)"
    "iv_ExceptionID rec = ex_ID ex \<and> iv_EntityType rec = ex_EntityType ex
     \<and> iv_EntityID rec = ex_EntityID ex \<and> iv_FinancialImpact rec = ex_VarianceAmount ex
     \<and> iv_Confidence rec = ex_Confidence ex \<and> iv_EvidenceIDs rec = ex_EvidenceIDs ex"
    using c unfolding rec
    by (simp_all add: call_Inr InsertInvestigation_def Let_def case_prod_beta DeterministicInvestigation_def
        fresh_if_blank_def fresh_def)
  obtain row where o: "ms_Outbox (fst s') = ms_Outbox (fst s2) @ [row]"
    "map_of (ob_Payload row) ''result'' = Some (PString (ex_ReconciliationResult ex))"
    "movement_without_story ex \<longrightarrow> map_of (ob_Payload row) ''root_cause'' = Some (PString ''UNKNOWN'')"
    using emitInvestigation_Inr [OF e] by blast
  show ?thesis
    using fe k emitInvestigation_Inr [OF e] o by (intro exI [of _ ex] exI [of _ row]) simp
qed


definition sample_query :: query_env where
  "sample_query = run_env.extend sample_env (query_env.fields id id)"

lemma sample_query_sel [simp]:
  "base_env sample_query = sample_env" "env_srt sample_query = id" "env_sha1 sample_query = id"
  by (simp_all add: sample_query_def base_env_def run_env.defs query_env.defs sample_env_def)

definition stored_exception :: ReconciliationException where
  "stored_exception = zero_Exception\<lparr>ex_ID := ''e1'', ex_EntityType := EntityPayment,
     ex_EntityID := ''pay-1'', ex_Reason := ''failed_with_bank_movement'',
     ex_ReconciliationResult := ResultUnresolved, ex_VarianceAmount := 500\<rparr>"

definition exception_store :: MemoryFinancialStore where
  "exception_store = NewMemoryFinancialStore\<lparr>ms_Exceptions := [stored_exception],
     ms_Refunds := [sample_refund ''r1'' ''processed'']\<rparr>"

lemma listed_exceptions:
  "\<exists>xs s'. ListExceptions sample_query ''t1'' ''c1'' (exception_store, 0) = (Inr xs, s')"
proof -
  have "answers (ListExceptions sample_query ''t1'' ''c1'')"
    unfolding ListExceptions_def RefundGraphExceptions_def refundGraphSignals_def Let_def
    by (intro answers_intros) (simp_all add: sample_env_def)
  then show ?thesis unfolding answers_def by fastforce
qed

lemma derived_exceptions_move_no_money_witness:
  "\<exists>xs s'. ListExceptions sample_query ''t1'' ''c1'' (exception_store, 0) = (Inr xs, s')
     \<and> take 1 xs = [stored_exception]
     \<and> CashPosition 1 [] [] xs = CashPosition 1 [] [] [stored_exception]"
proof -
  obtain xs s' where l: "ListExceptions sample_query ''t1'' ''c1'' (exception_store, 0) = (Inr xs, s')"
    using listed_exceptions by blast
  show ?thesis
    using derived_exceptions_move_no_money [OF l, of 1 "[]" "[]"] l
    by (auto simp: exception_store_def NewMemoryFinancialStore_def)
qed

lemma investigation_is_grounded_witness:
  "\<exists>rec s'. Investigate sample_query ''t1'' ''c1'' ''e1'' [] (exception_store, 0) = (Inr rec, s')
     \<and> iv_ExceptionID rec = ''e1'' \<and> ms_Investigations (fst s') = [rec]
     \<and> ms_Exceptions (fst s') = [stored_exception]"
proof -
  have f: "find_exception sample_query ''t1'' ''c1'' ''e1'' [] (exception_store, 0)
      = (Inr (Some stored_exception), (exception_store, 1))"
    by (simp add: find_exception_def GetException_def bindE_def reads_def call_def attempt_def sample_env_def
        GetReconciliationException_def exception_store_def stored_exception_def zero_defs returnE_def)
  have a: "answers (investigate_exception sample_query ''t1'' ''c1'' ex)" for ex
    unfolding investigate_exception_def emitInvestigation_def Let_def
    by (intro answers_intros) (simp_all add: sample_env_def)
  then obtain rec s' where "investigate_exception sample_query ''t1'' ''c1'' stored_exception
      (exception_store, 1) = (Inr rec, s')"
    unfolding answers_def by blast
  then have i: "Investigate sample_query ''t1'' ''c1'' ''e1'' [] (exception_store, 0) = (Inr rec, s')"
    by (simp add: Investigate_def bindE_def f)
  show ?thesis
    using investigation_is_grounded [OF i] i
    by (auto simp: exception_store_def NewMemoryFinancialStore_def)
qed

end
