(* ===== verification/Calendar.thy ===== *)
theory Calendar
  imports Facts
begin

text \<open>
  \<^verbatim>\<open>banking_calendar.go\<close>: weekends plus injected holidays, evaluated on civil dates of
  the calendar's location.

  A location is its constant offset from UTC (Asia/Kolkata is +05:30 for every date the calendar
  is used for, and the code's own fallback), and a civil date is its number of days since
  0001-01-01, a Monday; the code's text form \<^verbatim>\<open>YYYY-MM-DD\<close> of a date is used as a map
  key only, and dates and texts correspond one to one.
\<close>

section \<open>Civil dates\<close>

definition leap :: "int \<Rightarrow> bool" where
  "leap y \<longleftrightarrow> y mod 4 = 0 \<and> (y mod 100 \<noteq> 0 \<or> y mod 400 = 0)"

definition month_start :: "int \<Rightarrow> int \<Rightarrow> int" where
  "month_start y m =
     [0, 31, 59, 90, 120, 151, 181, 212, 243, 273, 304, 334] ! nat (m - 1)
     + (if leap y \<and> m > 2 then 1 else 0)"

definition civil_day :: "int \<Rightarrow> int \<Rightarrow> int \<Rightarrow> int" where
  "civil_day y m d =
     365 * (y - 1) + (y - 1) div 4 - (y - 1) div 100 + (y - 1) div 400 + month_start y m + (d - 1)"

abbreviation (input) ist_offset :: duration where
  "ist_offset \<equiv> 5 * hour + 30 * minute"

record BankingCalendar =
  cal_Holidays :: "(int \<times> string) list"
  cal_Location :: duration

definition date_of :: "BankingCalendar \<Rightarrow> time \<Rightarrow> int" where
  "date_of c t = (t + cal_Location c) div day_ns"

definition midnight :: "BankingCalendar \<Rightarrow> int \<Rightarrow> time" where
  "midnight c d = d * day_ns - cal_Location c"

definition year_holidays :: "int \<Rightarrow> (int \<times> string) list" where
  "year_holidays y = [(civil_day y 1 26, ''Republic Day''), (civil_day y 8 15, ''Independence Day''),
     (civil_day y 10 2, ''Gandhi Jayanti'')]"

definition ReferenceIndiaHolidays :: "int list \<Rightarrow> (int \<times> string) list" where
  "ReferenceIndiaHolidays years = concat (map year_holidays years)"

definition DefaultBankingCalendar :: BankingCalendar where
  "DefaultBankingCalendar = \<lparr>cal_Holidays = ReferenceIndiaHolidays [2025, 2026, 2027],
     cal_Location = ist_offset\<rparr>"

definition CivilDate :: "BankingCalendar \<Rightarrow> time \<Rightarrow> time" where
  "CivilDate c t = midnight c (date_of c t)"

definition banking_date :: "BankingCalendar \<Rightarrow> int \<Rightarrow> bool" where
  "banking_date c d =
     (if d mod 7 = 5 \<or> d mod 7 = 6 then False
      else if cal_Holidays c = [] then True
      else map_of (cal_Holidays c) d = None)"

definition IsBankingDay :: "BankingCalendar \<Rightarrow> time \<Rightarrow> bool" where
  "IsBankingDay c t = banking_date c (date_of c (CivilDate c t))"

text \<open>\<open>AddDate(0, 0, n)\<close> on a civil date of a fixed-offset location.\<close>

definition AddDays :: "time \<Rightarrow> int \<Rightarrow> time" where
  "AddDays t n = t + n * day_ns"

fun next_banking :: "nat \<Rightarrow> BankingCalendar \<Rightarrow> time \<Rightarrow> time" where
  "next_banking 0 c d = d"
| "next_banking (Suc i) c d = (if IsBankingDay c d then d else next_banking i c (AddDays d 1))"

definition NextBankingDay :: "BankingCalendar \<Rightarrow> time \<Rightarrow> time" where
  "NextBankingDay c t = next_banking 366 c (CivilDate c t)"

section \<open>Dates and instants\<close>

lemma date_midnight [simp]: "date_of c (midnight c d) = d"
  by (simp add: date_of_def midnight_def)

lemma CivilDate_midnight [simp]: "CivilDate c (midnight c d) = midnight c d"
  by (simp add: CivilDate_def)

lemma AddDays_midnight [simp]: "AddDays (midnight c d) n = midnight c (d + n)"
  by (simp add: AddDays_def midnight_def algebra_simps)

lemma midnight_less [simp]: "midnight c d < midnight c e \<longleftrightarrow> d < e"
  by (simp add: midnight_def)

lemma midnight_eq [simp]: "midnight c d = midnight c e \<longleftrightarrow> d = e"
  by (simp add: midnight_def)

lemma IsBankingDay_date: "IsBankingDay c t = banking_date c (date_of c t)"
  by (simp add: IsBankingDay_def CivilDate_def)

lemma CivilDate_bounds: "CivilDate c t \<le> t \<and> t < CivilDate c t + day_ns"
proof -
  have "day_ns * ((t + cal_Location c) div day_ns) + (t + cal_Location c) mod day_ns = t + cal_Location c"
    by (rule mult_div_mod_eq)
  moreover have "0 \<le> (t + cal_Location c) mod day_ns" "(t + cal_Location c) mod day_ns < day_ns"
    by simp_all
  ultimately show ?thesis
    unfolding CivilDate_def midnight_def date_of_def by linarith
qed

section \<open>Rolling forward\<close>

lemma next_banking_date:
  "\<exists>n. next_banking i c (midnight c d) = midnight c (d + int n) \<and> n \<le> i
     \<and> (\<forall>k < n. \<not> banking_date c (d + int k)) \<and> (n < i \<longrightarrow> banking_date c (d + int n))"
proof (induction i arbitrary: d)
  case (Suc i)
  show ?case
  proof (cases "banking_date c d")
    case True
    then show ?thesis by (intro exI [of _ 0]) (simp add: IsBankingDay_date)
  next
    case False
    obtain n where n: "next_banking i c (midnight c (d + 1)) = midnight c (d + 1 + int n)" "n \<le> i"
      "\<forall>k < n. \<not> banking_date c (d + 1 + int k)" "n < i \<longrightarrow> banking_date c (d + 1 + int n)"
      using Suc.IH [of "d + 1"] by blast
    have "\<not> banking_date c (d + int k)" if "k < Suc n" for k
      using False n(3) that by (cases k) (auto simp: algebra_simps)
    with n False show ?thesis
      by (intro exI [of _ "Suc n"]) (auto simp: IsBankingDay_date algebra_simps)
  qed
qed simp

text \<open>The first banking date at or after a date, when there is one in the next year.\<close>

lemma NextBankingDay_first:
  assumes "banking_date c (date_of c t + int k)" and "k < 366"
  obtains n where "n \<le> k" and "NextBankingDay c t = midnight c (date_of c t + int n)"
    and "banking_date c (date_of c t + int n)" and "\<forall>j < n. \<not> banking_date c (date_of c t + int j)"
proof -
  obtain n where n: "next_banking 366 c (midnight c (date_of c t)) = midnight c (date_of c t + int n)"
    "\<forall>j < n. \<not> banking_date c (date_of c t + int j)" "n < 366 \<longrightarrow> banking_date c (date_of c t + int n)"
    using next_banking_date by blast
  have "n \<le> k" using n(2) assms(1) by (meson not_le)
  with n assms(2) that [of n] show ?thesis
    by (simp add: NextBankingDay_def CivilDate_def)
qed

lemma default_holidays:
  "map_of (cal_Holidays DefaultBankingCalendar) d \<noteq> None \<longleftrightarrow>
     d \<in> {739276, 739477, 739525, 739641, 739842, 739890, 740006, 740207, 740255}"
  by (simp add: DefaultBankingCalendar_def ReferenceIndiaHolidays_def year_holidays_def civil_day_def
      month_start_def leap_def)

lemma default_holidays_nonempty: "cal_Holidays DefaultBankingCalendar \<noteq> []"
  by (simp add: DefaultBankingCalendar_def ReferenceIndiaHolidays_def year_holidays_def)

lemma default_banking:
  "banking_date DefaultBankingCalendar d \<longleftrightarrow> d mod 7 \<notin> {5, 6} \<and> d \<notin>
     {739276, 739477, 739525, 739641, 739842, 739890, 740006, 740207, 740255}"
  using default_holidays [of d] default_holidays_nonempty by (auto simp: banking_date_def)

definition default_holiday :: "int \<Rightarrow> bool" where
  "default_holiday d \<longleftrightarrow> d \<in> {739276, 739477, 739525, 739641, 739842, 739890, 740006, 740207, 740255}"

lemma default_banking':
  "banking_date DefaultBankingCalendar d \<longleftrightarrow> d mod 7 \<noteq> 5 \<and> d mod 7 \<noteq> 6 \<and> \<not> default_holiday d"
  by (simp add: default_banking default_holiday_def)

text \<open>The default holidays are far apart, so at most one of two near dates is one.\<close>

lemma holidays_apart: "default_holiday d \<Longrightarrow> 0 < j \<Longrightarrow> j \<le> 3 \<Longrightarrow> \<not> default_holiday (d + j)"
  unfolding default_holiday_def by auto

lemma default_within_three:
  obtains k :: nat where "k \<le> 3" and "banking_date DefaultBankingCalendar (d + int k)"
proof -
  let ?w = "\<lambda>e. (e :: int) mod 7 \<noteq> 5 \<and> e mod 7 \<noteq> 6"
  have "\<exists>i j :: nat. i < j \<and> j \<le> 3 \<and> ?w (d + int i) \<and> ?w (d + int j)"
  proof -
    have "(?w d \<and> ?w (d + 1)) \<or> (?w d \<and> ?w (d + 3)) \<or> (?w (d + 2) \<and> ?w (d + 3)) \<or> (?w (d + 1) \<and> ?w (d + 2))"
    proof -
      have m: "(d + 1) mod 7 = 5 \<longleftrightarrow> d mod 7 = 4" "(d + 1) mod 7 = 6 \<longleftrightarrow> d mod 7 = 5"
        "(d + 2) mod 7 = 5 \<longleftrightarrow> d mod 7 = 3" "(d + 2) mod 7 = 6 \<longleftrightarrow> d mod 7 = 4"
        "(d + 3) mod 7 = 5 \<longleftrightarrow> d mod 7 = 2" "(d + 3) mod 7 = 6 \<longleftrightarrow> d mod 7 = 3"
        by presburger+
      show ?thesis unfolding m by auto
    qed
    moreover have "?w d \<and> ?w (d + 1) \<Longrightarrow> ?thesis"
      by (intro exI [of _ 0] exI [of _ 1]) simp
    moreover have "?w d \<and> ?w (d + 3) \<Longrightarrow> ?thesis"
      by (intro exI [of _ 0] exI [of _ 3]) simp
    moreover have "?w (d + 2) \<and> ?w (d + 3) \<Longrightarrow> ?thesis"
      by (intro exI [of _ 2] exI [of _ 3]) simp
    moreover have "?w (d + 1) \<and> ?w (d + 2) \<Longrightarrow> ?thesis"
      by (intro exI [of _ 1] exI [of _ 2]) simp
    ultimately show ?thesis by blast
  qed
  then obtain i j :: nat where ij: "i < j" "j \<le> 3" "?w (d + int i)" "?w (d + int j)" by blast
  have "\<not> default_holiday (d + int i) \<or> \<not> default_holiday (d + int j)"
    using holidays_apart [of "d + int i" "int j - int i"] ij by auto
  with ij that [of i] that [of j] show thesis by (auto simp: default_banking')
qed

text \<open>
  With the default calendar every instant rolls forward, never backward, to the first banking
  day at or after its own civil date in India, and that day is at most three days later.
\<close>

theorem default_calendar_rolls_at_most_three_days:
  "let c = DefaultBankingCalendar; d = date_of c t; n = date_of c (NextBankingDay c t) in
     NextBankingDay c t = midnight c n \<and> IsBankingDay c (NextBankingDay c t)
   \<and> d \<le> n \<and> n \<le> d + 3 \<and> (\<forall>e. d \<le> e \<longrightarrow> e < n \<longrightarrow> \<not> IsBankingDay c (midnight c e))"
proof -
  let ?c = DefaultBankingCalendar and ?d = "date_of DefaultBankingCalendar t"
  obtain k where k: "k \<le> 3" "banking_date ?c (?d + int k)" by (rule default_within_three)
  obtain n where n: "n \<le> k" "NextBankingDay ?c t = midnight ?c (?d + int n)"
    "banking_date ?c (?d + int n)" "\<forall>j < n. \<not> banking_date ?c (?d + int j)"
    by (rule NextBankingDay_first [OF k(2)]) (use k in auto)
  have "\<not> banking_date ?c e" if "?d \<le> e" "e < ?d + int n" for e
    using n(4) [rule_format, of "nat (e - ?d)"] that by auto
  with n k show ?thesis by (simp add: Let_def IsBankingDay_date)
qed

lemma default_calendar_rolls_at_most_three_days_witness:
  "NextBankingDay DefaultBankingCalendar (midnight DefaultBankingCalendar 739643)
     \<le> midnight DefaultBankingCalendar 739646"
proof -
  let ?c = DefaultBankingCalendar and ?t = "midnight DefaultBankingCalendar 739643"
  have "NextBankingDay ?c ?t = midnight ?c (date_of ?c (NextBankingDay ?c ?t))"
    "date_of ?c (NextBankingDay ?c ?t) \<le> 739643 + 3"
    using default_calendar_rolls_at_most_three_days [of ?t] by (simp_all add: Let_def)
  moreover have "midnight ?c e \<le> midnight ?c 739646" if "e \<le> 739643 + 3" for e
    using that by (simp add: midnight_def)
  ultimately show ?thesis by metis
qed

end
