(* ===== verification/Books.thy ===== *)
theory Books
  imports Queries Calendar
begin

text \<open>
  \<^verbatim>\<open>books.go\<close> and \<^verbatim>\<open>cash_schedule_bank.go\<close>: the fee and tax breakdown and the
  ledger of a payment, the cash schedule projection, and the pool of bank rows that suppresses
  what has already landed.  \<open>now\<close> is the clock for a request without one.
\<close>

section \<open>Tax breakdown\<close>

record TaxBreakdown =
  tb_PaymentID :: string
  tb_GrossMinor :: int64
  tb_FeeMinor :: int64
  tb_TaxMinor :: int64
  tb_NetMinor :: int64
  tb_BankCreditedMinor :: int64
  tb_Explained :: bool
  tb_Reason :: string
  tb_Currency :: string

definition breakdown_verdict :: "int64 \<Rightarrow> int64 \<Rightarrow> int64 \<Rightarrow> int64 \<Rightarrow> FinancialResult \<Rightarrow> bool \<times> string" where
  "breakdown_verdict fee tax net amount fr =
     (if 0 <s fee \<and> tax = 0 \<and> (fr_Result fr = ResultMatched \<or> net + fee = amount) then
        (True, ''fee_explained'')
      else if 0 <s tax \<and> fee = 0 \<and> (fr_Result fr = ResultMatched \<or> net + tax = amount) then
        (True, ''tax_explained'')
      else if 0 <s fee + tax \<and> net + fee + tax = amount then (True, ''fee_tax_explained'')
      else if fr_Reason fr = ''tax_line_mismatch'' then (False, ''tax_line_mismatch'')
      else if fr_Result fr = ResultVariance \<or> fr_Reason fr = ''partial_settlement''
           \<or> fr_Reason fr = ''amount_mismatch'' then (False, fr_Reason fr)
      else if fr_Result fr = ResultMatched then (True, fr_Reason fr)
      else (False, fr_Reason fr))"

definition TaxBreakdownFor :: "PaymentFact \<Rightarrow> SettlementLine list \<Rightarrow> FinancialResult \<Rightarrow> TaxBreakdown" where
  "TaxBreakdownFor pay lines fr =
     (let payLines = fst (splitLines lines);
          fee = sum_list (map sl_FeeMinor payLines); tax = sum_list (map sl_TaxMinor payLines);
          net = settlementNet payLines;
          net = (if net = 0 \<and> 0 <s pf_AmountMinor pay \<and> 0 <s fee + tax
                 then pf_AmountMinor pay - fee - tax else net);
          (explained, reason) = breakdown_verdict fee tax net (pf_AmountMinor pay) fr
      in \<lparr>tb_PaymentID = pf_PaymentID pay, tb_GrossMinor = pf_AmountMinor pay, tb_FeeMinor = fee,
          tb_TaxMinor = tax, tb_NetMinor = net,
          tb_BankCreditedMinor = (if fr_BankCreditProven fr then fr_ObservedAmount fr else 0),
          tb_Explained = explained, tb_Reason = reason, tb_Currency = nzCur (pf_Currency pay)\<rparr>)"

section \<open>Ledger\<close>

record LedgerLine =
  ll_Side :: string
  ll_Account :: string
  ll_AmountMinor :: int64
  ll_Source :: string
  ll_EvidenceID :: string

record Ledger =
  lg_EntityType :: string
  lg_EntityID :: string
  lg_Lines :: "LedgerLine list"
  lg_Balanced :: bool
  lg_Limitations :: "string list"

definition ledger_lines :: "PaymentFact \<Rightarrow> SettlementLine list \<Rightarrow> FinancialResult \<Rightarrow> RefundFact list
    \<Rightarrow> LedgerLine list" where
  "ledger_lines pay lines fr refunds =
     (let payLines = fst (splitLines lines);
          fee = sum_list (map sl_FeeMinor payLines); tax = sum_list (map sl_TaxMinor payLines);
          lineID = (case List.find (\<lambda>i. i \<noteq> []) (map sl_ID payLines) of None \<Rightarrow> [] | Some i \<Rightarrow> i);
          bank = er_BankObservationID (fr_EvidenceRefs fr)
      in (if 0 <s pf_AmountMinor pay then
            [\<lparr>ll_Side = ''debit'', ll_Account = ''receivable'', ll_AmountMinor = pf_AmountMinor pay,
              ll_Source = ''canonical_payment'', ll_EvidenceID = pf_ID pay\<rparr>] else [])
       @ (if 0 <s fee then
            [\<lparr>ll_Side = ''credit'', ll_Account = ''fee'', ll_AmountMinor = fee,
              ll_Source = ''settlement_line'', ll_EvidenceID = lineID\<rparr>] else [])
       @ (if 0 <s tax then
            [\<lparr>ll_Side = ''credit'', ll_Account = ''tax'', ll_AmountMinor = tax,
              ll_Source = ''settlement_line'', ll_EvidenceID = lineID\<rparr>] else [])
       @ (if fr_BankCreditProven fr \<and> 0 <s fr_ObservedAmount fr then
            [\<lparr>ll_Side = ''debit'', ll_Account = ''cash'', ll_AmountMinor = fr_ObservedAmount fr,
              ll_Source = ''bank'', ll_EvidenceID = bank\<rparr>,
             \<lparr>ll_Side = ''credit'', ll_Account = ''receivable'', ll_AmountMinor = fr_ObservedAmount fr,
              ll_Source = ''bank'', ll_EvidenceID = bank\<rparr>] else [])
       @ map (\<lambda>rf. \<lparr>ll_Side = ''credit'', ll_Account = ''refund'', ll_AmountMinor = rf_AmountMinor rf,
              ll_Source = ''refund_observation'', ll_EvidenceID = rf_RefundID rf\<rparr>)
           (filter (\<lambda>rf. \<not> rf_AmountMinor rf \<le>s 0) refunds))"

definition debits :: "LedgerLine list \<Rightarrow> int64" where
  "debits ls = sum_list (map ll_AmountMinor (filter (\<lambda>l. ll_Side l = ''debit'') ls))"

definition credits :: "LedgerLine list \<Rightarrow> int64" where
  "credits ls = sum_list (map ll_AmountMinor (filter (\<lambda>l. ll_Side l \<noteq> ''debit'') ls))"

text \<open>The side of the line for the gap is \<^verbatim>\<open>debit\<close> in both branches of the code.\<close>

definition gap_line :: "int64 \<Rightarrow> LedgerLine" where
  "gap_line gap = \<lparr>ll_Side = ''debit'', ll_Account = ''unresolved_exposure'',
     ll_AmountMinor = (if gap <s 0 then - gap else gap), ll_Source = ''derived'', ll_EvidenceID = []\<rparr>"

definition LedgerForPayment :: "PaymentFact \<Rightarrow> SettlementLine list \<Rightarrow> FinancialResult
    \<Rightarrow> RefundFact list \<Rightarrow> Ledger" where
  "LedgerForPayment pay lines fr refunds =
     (let ls = ledger_lines pay lines fr refunds;
          ls = (if debits ls = credits ls then ls else ls @ [gap_line (debits ls - credits ls)])
      in \<lparr>lg_EntityType = EntityPayment, lg_EntityID = pf_PaymentID pay, lg_Lines = ls,
          lg_Balanced = (debits ls = credits ls),
          lg_Limitations = [''Not a statutory GL. Derived from Razorpay and bank observations.'']\<rparr>)"

section \<open>Bank rows that already landed\<close>

record scheduleBankClaim =
  cl_amount :: int64
  cl_currency :: string
  cl_refs :: "string list"
  cl_earliest :: time
  cl_latest :: time

definition pool_before :: "BankTxn \<Rightarrow> BankTxn \<Rightarrow> bool" where
  "pool_before a b =
     (if bt_ValueDate a \<noteq> bt_ValueDate b then bt_ValueDate a < bt_ValueDate b else bt_ID a < bt_ID b)"

definition pool_row :: "string set \<Rightarrow> bool \<Rightarrow> BankTxn \<Rightarrow> bool" where
  "pool_row cited debit b =
     (if bt_ID b \<noteq> [] \<and> bt_ID b \<in> cited then False
      else if debit then \<not> (IsCredit b \<or> bt_DebitMinor b \<le>s 0)
      else \<not> (\<not> IsCredit b \<or> bt_CreditMinor b \<le>s 0))"

definition newScheduleBankPool :: "BankTxn list \<Rightarrow> FinancialResult list \<Rightarrow> bool \<Rightarrow> BankTxn list" where
  "newScheduleBankPool banks results debit =
     (let cited = {i \<in> set (map (\<lambda>r. TrimSpace (er_BankObservationID (fr_EvidenceRefs r))) results). i \<noteq> []}
      in SliceStable pool_before (filter (pool_row cited debit) banks))"

definition bankAmount :: "BankTxn \<Rightarrow> int64" where
  "bankAmount b = (if IsCredit b then bt_CreditMinor b else bt_DebitMinor b)"

definition bankHasRef :: "BankTxn \<Rightarrow> string list \<Rightarrow> bool" where
  "bankHasRef b refs =
     (let hay = ToUpper (str_join [bt_UTR b, bt_UTRRaw b, bt_BankTxnID b, bt_Description b] '' '')
      in \<exists>r \<in> set refs. (let r = ToUpper (TrimSpace r) in \<not> length r < 6 \<and> contains hay r))"

definition claimable :: "BankTxn \<Rightarrow> scheduleBankClaim \<Rightarrow> bool" where
  "claimable b c \<longleftrightarrow> \<not> (bankAmount b \<noteq> cl_amount c \<or> cl_amount c \<le>s 0)
     \<and> EqualFold (nzCur (bt_Currency b)) (nzCur (cl_currency c))"

definition inWindow :: "BankTxn \<Rightarrow> scheduleBankClaim \<Rightarrow> bool" where
  "inWindow b c =
     (if IsZero (bt_ValueDate b) then True
      else if \<not> IsZero (cl_earliest c) \<and> bt_ValueDate b < cl_earliest c then False
      else if \<not> IsZero (cl_latest c) \<and> bt_ValueDate b > cl_latest c then False
      else True)"

text \<open>One pass over the claims: the first unused row the pass accepts is consumed.\<close>

fun claim_pass :: "(BankTxn \<Rightarrow> scheduleBankClaim \<Rightarrow> bool) \<Rightarrow> BankTxn list
    \<Rightarrow> (scheduleBankClaim \<times> nat option) list \<Rightarrow> nat set \<Rightarrow> nat option list \<times> nat set" where
  "claim_pass accept pool [] used = ([], used)"
| "claim_pass accept pool ((c, landed) # cs) used =
     (let hit = (if landed \<noteq> None then landed
            else List.find (\<lambda>i. i \<notin> used \<and> claimable (pool ! i) c \<and> accept (pool ! i) c) [0..<length pool]);
          (ls, used) = claim_pass accept pool cs (case hit of None \<Rightarrow> used | Some i \<Rightarrow> insert i used)
      in (hit # ls, used))"

text \<open>The row each claim consumed; the code keeps only whether there is one.\<close>

definition claim_rows :: "BankTxn list \<Rightarrow> scheduleBankClaim list \<Rightarrow> nat option list" where
  "claim_rows pool claims =
     (let (first, used) = claim_pass (\<lambda>b c. bankHasRef b (cl_refs c)) pool
            (zip claims (replicate (length claims) None)) {}
      in fst (claim_pass inWindow pool (zip claims first) used))"

definition claimAll :: "BankTxn list \<Rightarrow> scheduleBankClaim list \<Rightarrow> bool list" where
  "claimAll pool claims = map (\<lambda>hit. hit \<noteq> None) (claim_rows pool claims)"

section \<open>Cash schedule\<close>

record ScheduleDay =
  sd_Date :: int
  sd_ExpectedCreditMinor :: int64
  sd_ExpectedDebitMinor :: int64
  sd_Count :: int

record CashSchedule =
  sch_AsOf :: time
  sch_HorizonDays :: int
  sch_Kind :: string
  sch_Days :: "ScheduleDay list"
  sch_UnknownTimingMinor :: int64
  sch_AlreadyReceivedMinor :: int64
  sch_Limitations :: "string list"

record CashScheduleOpts =
  opt_Results :: "FinancialResult list"
  opt_Lines :: "SettlementLine list"
  opt_Payouts :: "PayoutFact list"
  opt_Refunds :: "RefundFact list"
  opt_Books :: "MerchantBookFact list"
  opt_Now :: time
  opt_Days :: int
  opt_Calendar :: "BankingCalendar option"
  opt_BankLines :: "BankTxn list"

text \<open>
  The days are updated through a map from date to day in the code; a date occurs once, so here
  the day with that date is updated in the list.
\<close>

definition add_to_day :: "int64 \<Rightarrow> int64 \<Rightarrow> ScheduleDay \<Rightarrow> ScheduleDay" where
  "add_to_day credit debit d =
     d\<lparr>sd_ExpectedCreditMinor := sd_ExpectedCreditMinor d + credit,
       sd_ExpectedDebitMinor := sd_ExpectedDebitMinor d + debit, sd_Count := sd_Count d + 1\<rparr>"

definition add_unknown :: "int64 \<Rightarrow> CashSchedule \<Rightarrow> CashSchedule" where
  "add_unknown x out = out\<lparr>sch_UnknownTimingMinor := sch_UnknownTimingMinor out + x\<rparr>"

definition bucket :: "BankingCalendar \<Rightarrow> time \<Rightarrow> int64 \<Rightarrow> int64 \<Rightarrow> CashSchedule \<Rightarrow> CashSchedule" where
  "bucket cal natural credit debit out =
     (if credit = 0 \<and> debit = 0 then out
      else
        let asOf = sch_AsOf out;
            d = NextBankingDay cal natural;
            d = (if d < asOf then NextBankingDay cal asOf else d);
            key = date_of cal d
        in if key \<notin> set (map sd_Date (sch_Days out)) then add_unknown (credit + debit) out
           else out\<lparr>sch_Days :=
             map (\<lambda>s. if sd_Date s = key then add_to_day credit debit s else s) (sch_Days out)\<rparr>)"

definition is_payment_line :: "SettlementLine \<Rightarrow> bool" where
  "is_payment_line l \<longleftrightarrow> sl_LineType l = [] \<or> sl_LineType l = ''payment''"

definition schedule_net :: "SettlementLine list \<Rightarrow> string \<Rightarrow> int64" where
  "schedule_net lines pid =
     sum_list (map lineNet (filter (\<lambda>l. line_payment l = pid \<and> is_payment_line l) lines))"

definition settled_at :: "SettlementLine list \<Rightarrow> string \<Rightarrow> time option" where
  "settled_at lines pid =
     map_of (rev (map (\<lambda>l. (line_payment l, sl_SettledAt l))
       (filter (\<lambda>l. is_payment_line l \<and> \<not> IsZero (sl_SettledAt l)) lines))) pid"

definition proven_entities :: "string \<Rightarrow> FinancialResult list \<Rightarrow> string set" where
  "proven_entities entity rs =
     fr_EntityID ` set (filter (\<lambda>r. fr_EntityType r = entity \<and> fr_BankCreditProven r) rs)"

text \<open>The settlement credits in flight: payment results whose bank credit is not proven.\<close>

definition in_flight :: "CashScheduleOpts \<Rightarrow> (string \<times> int64) list" where
  "in_flight opts =
     filter (\<lambda>(_, net). net \<noteq> 0)
       (map (\<lambda>r. (fr_EntityID r, schedule_net (opt_Lines opts) (fr_EntityID r)))
         (filter (\<lambda>r. fr_EntityType r = EntityPayment
            \<and> fr_EntityID r \<notin> proven_entities EntityPayment (opt_Results opts)) (opt_Results opts)))"

definition credit_step :: "CashScheduleOpts \<Rightarrow> BankingCalendar \<Rightarrow> CashSchedule \<Rightarrow> string \<times> int64 \<Rightarrow> CashSchedule" where
  "credit_step opts cal out item =
     (let (pid, net) = item
      in case settled_at (opt_Lines opts) pid of
           None \<Rightarrow> add_unknown net out
         | Some t \<Rightarrow> bucket cal (t + defaultDateWindow) net 0 out)"

definition credited_from_settlement :: "CashScheduleOpts \<Rightarrow> string set" where
  "credited_from_settlement opts =
     fst ` set (filter (\<lambda>(pid, _). settled_at (opt_Lines opts) pid \<noteq> None) (in_flight opts))"

definition due_claim :: "CashSchedule \<Rightarrow> MerchantBookFact \<Rightarrow> scheduleBankClaim" where
  "due_claim out f =
     (let ev = obligation_of f; days = sch_HorizonDays out
      in \<lparr>cl_amount = ce_AmountMinor ev, cl_currency = ce_Currency ev,
          cl_refs = [mb_InvoiceID f, mb_OrderID f, mb_PaymentID f],
          cl_earliest = (if \<not> IsZero (ce_DueAt ev)
            then AddDays (ce_DueAt ev) (- days) - defaultDateWindow else 0),
          cl_latest = AddDays (sch_AsOf out) days\<rparr>)"

definition due_wanted :: "CashScheduleOpts \<Rightarrow> MerchantBookFact \<Rightarrow> bool" where
  "due_wanted opts f =
     (let ev = obligation_of f
      in if ce_Direction ev \<noteq> DirectionInbound \<or> ce_AmountMinor ev = 0 then False
         else if ce_EntityID ev \<noteq> [] \<and> (ce_EntityID ev \<in> credited_from_settlement opts
              \<or> ce_EntityID ev \<in> proven_entities EntityPayment (opt_Results opts)) then False
         else True)"

definition due_step :: "BankingCalendar \<Rightarrow> CashSchedule \<Rightarrow> MerchantBookFact \<times> bool \<Rightarrow> CashSchedule" where
  "due_step cal out item =
     (let (f, landed) = item; ev = obligation_of f
      in if landed then out
         else if IsZero (ce_DueAt ev) then add_unknown (ce_AmountMinor ev) out
         else bucket cal (ce_DueAt ev) (ce_AmountMinor ev) 0 out)"

definition payout_wanted :: "CashScheduleOpts \<Rightarrow> PayoutFact \<Rightarrow> bool" where
  "payout_wanted opts po =
     (if IsPayoutFailedLike (NormalizePayoutStatus (po_ProviderStatus po)) then False
      else if po_PayoutID po \<in> proven_entities EntityPayout (opt_Results opts) then False
      else True)"

definition payout_step :: "time \<Rightarrow> BankingCalendar \<Rightarrow> CashSchedule \<Rightarrow> PayoutFact \<Rightarrow> CashSchedule" where
  "payout_step now cal out po =
     (let t = po_ProviderCreatedAt po;
          t = (if IsZero t then po_FirstObservedAt po else t);
          t = (if IsZero t then now else t)
      in bucket cal t 0 (po_AmountMinor po) out)"

section \<open>Expected refunds\<close>

record refundItem =
  ri_amt :: int64
  ri_when :: time
  ri_claim :: scheduleBankClaim

definition refundCountsAsExpectedDebit :: "RefundFact \<Rightarrow> bool" where
  "refundCountsAsExpectedDebit r \<longleftrightarrow>
     ToLower (TrimSpace (rf_ProviderStatus r)) \<notin> {''failed'', ''cancelled'', ''canceled''}"

definition refund_item :: "time \<Rightarrow> int64 \<Rightarrow> time \<Rightarrow> string \<Rightarrow> string list \<Rightarrow> refundItem" where
  "refund_item latest amt t cur refs =
     \<lparr>ri_amt = amt, ri_when = t,
      ri_claim = \<lparr>cl_amount = amt, cl_currency = cur, cl_refs = refs,
        cl_earliest = (if \<not> IsZero t then t - defaultDateWindow else 0), cl_latest = latest\<rparr>\<rparr>"

definition refund_line_amount :: "SettlementLine \<Rightarrow> int64" where
  "refund_line_amount l =
     (let amt = (if sl_DebitMinor l = 0 then sl_AmountMinor l else sl_DebitMinor l)
      in if amt <s 0 then - amt else amt)"

text \<open>The state of both loops: the items, the (payment, amount) pairs covered, the line IDs seen.\<close>

type_synonym refund_state = "refundItem list \<times> (string \<times> int64) set \<times> string set"

definition refund_line_step :: "time \<Rightarrow> refund_state \<Rightarrow> SettlementLine \<Rightarrow> refund_state" where
  "refund_line_step latest st l =
     (let (items, covered, seen) = st
      in if \<not> EqualFold (sl_LineType l) ''refund'' then st
         else if sl_ID l \<noteq> [] \<and> sl_ID l \<in> seen then st
         else let seen = (if sl_ID l \<noteq> [] then insert (sl_ID l) seen else seen);
                  pid = line_payment l; amt = refund_line_amount l
           in if amt = 0 then (items, covered, seen)
              else (items @ [refund_item latest amt (sl_SettledAt l) (sl_Currency l) [sl_EntityID l, pid]],
                    insert (pid, amt) covered, seen))"

definition refund_fact_step :: "time \<Rightarrow> refund_state \<Rightarrow> RefundFact \<Rightarrow> refund_state" where
  "refund_fact_step latest st rf =
     (let (items, covered, seen) = st
      in if \<not> refundCountsAsExpectedDebit rf then st
         else if rf_AmountMinor rf \<le>s 0 then st
         else if (rf_PaymentID rf, rf_AmountMinor rf) \<in> covered then st
         else (items @ [refund_item latest (rf_AmountMinor rf) (rf_ObservedAt rf) (rf_Currency rf)
                  [rf_RefundID rf, rf_PaymentID rf]],
               insert (rf_PaymentID rf, rf_AmountMinor rf) covered, seen))"

definition refund_items :: "CashScheduleOpts \<Rightarrow> time \<Rightarrow> refundItem list" where
  "refund_items opts latest =
     fst (foldl (refund_fact_step latest)
       (foldl (refund_line_step latest) ([], {}, {}) (opt_Lines opts)) (opt_Refunds opts))"

definition refund_step :: "BankingCalendar \<Rightarrow> CashSchedule \<Rightarrow> refundItem \<times> bool \<Rightarrow> CashSchedule" where
  "refund_step cal out item =
     (let (r, landed) = item
      in if landed then out
         else if IsZero (ri_when r) then add_unknown (ri_amt r) out
         else bucket cal (ri_when r) 0 (ri_amt r) out)"

section \<open>The whole schedule\<close>

definition schedule_start :: "time \<Rightarrow> CashScheduleOpts \<Rightarrow> CashSchedule" where
  "schedule_start clock opts =
     (let now = (if IsZero (opt_Now opts) then clock else opt_Now opts);
          days = (if opt_Days opts \<le> 0 then 7 else opt_Days opts);
          cal = (case opt_Calendar opts of None \<Rightarrow> DefaultBankingCalendar | Some c \<Rightarrow> c);
          asOf = CivilDate cal now
      in \<lparr>sch_AsOf = asOf, sch_HorizonDays = days, sch_Kind = ''schedule_projection'',
          sch_Days = map (\<lambda>i. \<lparr>sd_Date = date_of cal (AddDays asOf (int i)),
            sd_ExpectedCreditMinor = 0, sd_ExpectedDebitMinor = 0, sd_Count = 0\<rparr>) [0..<nat days],
          sch_UnknownTimingMinor = 0, sch_AlreadyReceivedMinor = 0,
          sch_Limitations =
            [''Not a statistical forecast. Buckets observed settlement dates plus the 3-day bank window and payout SLA.'',
             ''Expected credits and refund/payout debits roll to the next banking day (weekend + reference holidays).'',
             ''Projection only: never MATCHED and never BankCreditProven.'']
            @ (if opt_BankLines opts \<noteq> [] then
                [''Refund debits and invoice DueAt credits already landed at bank (reference, else amount+currency in window) are not projected.'']
               else [])\<rparr>)"

definition received_step :: "CashSchedule \<Rightarrow> FinancialResult \<Rightarrow> CashSchedule" where
  "received_step out r =
     (if fr_EntityType r \<noteq> EntityPayment then out
      else if fr_BankCreditProven r then
        out\<lparr>sch_AlreadyReceivedMinor := sch_AlreadyReceivedMinor out + fr_ObservedAmount r\<rparr>
      else out)"

definition BuildCashScheduleOpts :: "time \<Rightarrow> CashScheduleOpts \<Rightarrow> CashSchedule" where
  "BuildCashScheduleOpts clock opts =
     (let now = (if IsZero (opt_Now opts) then clock else opt_Now opts);
          cal = (case opt_Calendar opts of None \<Rightarrow> DefaultBankingCalendar | Some c \<Rightarrow> c);
          out = schedule_start clock opts;
          out = foldl received_step out (opt_Results opts);
          out = foldl (credit_step opts cal) out (in_flight opts);
          dues = filter (due_wanted opts) (opt_Books opts);
          dueLanded = claimAll (newScheduleBankPool (opt_BankLines opts) (opt_Results opts) False)
            (map (due_claim out) dues);
          out = foldl (due_step cal) out (zip dues dueLanded);
          out = foldl (payout_step now cal) out (filter (payout_wanted opts) (opt_Payouts opts));
          refunds = refund_items opts (AddDays (sch_AsOf out) (sch_HorizonDays out));
          refundLanded = claimAll (newScheduleBankPool (opt_BankLines opts) (opt_Results opts) True)
            (map ri_claim refunds)
      in foldl (refund_step cal) out (zip refunds refundLanded))"

definition BuildCashSchedule :: "time \<Rightarrow> FinancialResult list \<Rightarrow> SettlementLine list \<Rightarrow> PayoutFact list
    \<Rightarrow> time \<Rightarrow> int \<Rightarrow> CashSchedule" where
  "BuildCashSchedule clock results lines payouts now days =
     BuildCashScheduleOpts clock \<lparr>opt_Results = results, opt_Lines = lines, opt_Payouts = payouts,
       opt_Refunds = [], opt_Books = [], opt_Now = now, opt_Days = days, opt_Calendar = None,
       opt_BankLines = []\<rparr>"

section \<open>Breakdown and ledger\<close>

lemma breakdown_explained:
  "fst (breakdown_verdict fee tax net amount fr) \<Longrightarrow>
     fr_Result fr = ResultMatched \<or> net + fee + tax = amount"
  by (simp add: breakdown_verdict_def split: if_splits)

text \<open>
  A breakdown is called explained only when the result is \<open>MATCHED\<close> or the amounts add up:
  net plus fee plus tax is the gross amount (in 64-bit arithmetic).
\<close>

theorem explained_breakdown_adds_up:
  assumes "tb_Explained (TaxBreakdownFor pay lines fr)"
  shows "fr_Result fr = ResultMatched
    \<or> tb_NetMinor (TaxBreakdownFor pay lines fr) + tb_FeeMinor (TaxBreakdownFor pay lines fr)
        + tb_TaxMinor (TaxBreakdownFor pay lines fr) = tb_GrossMinor (TaxBreakdownFor pay lines fr)"
  using assms breakdown_explained
  by (simp add: TaxBreakdownFor_def Let_def case_prod_beta)

lemma explained_breakdown_adds_up_witness:
  "tb_Explained (TaxBreakdownFor (zero_PaymentFact\<lparr>pf_AmountMinor := 1000\<rparr>)
      [zero_SettlementLine\<lparr>sl_AmountMinor := 1000, sl_CreditMinor := 980, sl_FeeMinor := 15, sl_TaxMinor := 5\<rparr>]
      zero_FinancialResult)
   \<and> tb_NetMinor (TaxBreakdownFor (zero_PaymentFact\<lparr>pf_AmountMinor := 1000\<rparr>)
      [zero_SettlementLine\<lparr>sl_AmountMinor := 1000, sl_CreditMinor := 980, sl_FeeMinor := 15, sl_TaxMinor := 5\<rparr>]
      zero_FinancialResult) = 980"
  (is "tb_Explained ?b \<and> _")
proof -
  have e: "tb_Explained ?b" "tb_FeeMinor ?b = 15" "tb_TaxMinor ?b = 5" "tb_GrossMinor ?b = 1000"
    by (simp_all add: TaxBreakdownFor_def breakdown_verdict_def Let_def is_payment_type_def
        settlementNet_def lineNet_def zero_defs str_simps word_sless_alt)
  moreover have "fr_Result zero_FinancialResult \<noteq> ResultMatched" by (simp add: zero_defs)
  ultimately show ?thesis
    using explained_breakdown_adds_up [OF e(1)] by simp
qed

lemma double_zero: "x + x = (0 :: int64) \<Longrightarrow> x = 0 \<or> x = 0x8000000000000000"
proof -
  assume "x + x = 0"
  then have "unat (x + x) = 0" by simp
  then have "(unat x + unat x) mod 2 ^ 64 = 0"
    by (simp add: unat_word_ariths mult_2 [symmetric])
  moreover have "unat x < 2 ^ 64" using unsigned_less [where 'a = nat, of x] by simp
  moreover have "(u + u) mod 2 ^ 64 = (if u + u < 2 ^ 64 then u + u else u + u - 2 ^ 64)"
    if "u < 2 ^ 64" for u :: nat
    using that by (simp add: mod_if)
  ultimately have "unat x + unat x = 0 \<or> unat x + unat x = 2 ^ 64"
    by (auto split: if_splits)
  then have "unat x = 0 \<or> unat x = 2 ^ 63" by auto
  then show ?thesis
  proof
    assume "unat x = 2 ^ 63"
    then have "of_nat (unat x) = (of_nat (2 ^ 63) :: int64)" by simp
    then show ?thesis by simp
  qed (simp add: unat_eq_0)
qed

lemma sums_append [simp]:
  "debits (ls @ [gap_line g]) = debits ls + (if g <s 0 then - g else g)"
  "credits (ls @ [gap_line g]) = credits ls"
  by (simp_all add: debits_def credits_def gap_line_def)

text \<open>
  The ledger of a payment closes exactly when its debits do not exceed its credits.  The line
  for the gap is always a debit, so with more debits than credits, for example a captured payment
  with no settlement yet, it doubles the gap and the ledger is reported unbalanced.
\<close>

theorem ledger_balanced_iff_no_excess_debit:
  "lg_Balanced (LedgerForPayment pay lines fr refunds) \<longleftrightarrow>
     \<not> 0 <s debits (ledger_lines pay lines fr refunds) - credits (ledger_lines pay lines fr refunds)"
proof -
  let ?ls = "ledger_lines pay lines fr refunds"
  define gap where "gap = debits ?ls - credits ?ls"
  have d: "debits ?ls = credits ?ls + gap" by (simp add: gap_def)
  have b: "lg_Balanced (LedgerForPayment pay lines fr refunds) \<longleftrightarrow>
      gap = 0 \<or> gap + (if gap <s 0 then - gap else gap) = 0"
    by (auto simp: LedgerForPayment_def Let_def d gap_def [symmetric])
  have "gap + gap = 0 \<Longrightarrow> \<not> 0 <s gap"
    using double_zero [of gap] by (auto simp: word_sless_alt)
  then show ?thesis
    unfolding b gap_def [symmetric] by (cases "gap = 0") (auto simp: word_sless_alt less_le signed_eq_0_iff)
qed

section \<open>Landed claims\<close>

fun hits :: "nat option list \<Rightarrow> nat list" where
  "hits [] = []"
| "hits (None # ls) = hits ls"
| "hits (Some i # ls) = i # hits ls"

definition pass_ok :: "(BankTxn \<Rightarrow> scheduleBankClaim \<Rightarrow> bool) \<Rightarrow> BankTxn list
    \<Rightarrow> (scheduleBankClaim \<times> nat option) \<times> nat option \<Rightarrow> bool" where
  "pass_ok accept pool = (\<lambda>((c, before), after). case after of None \<Rightarrow> before = None
     | Some r \<Rightarrow> before = Some r \<or> (r < length pool \<and> claimable (pool ! r) c \<and> accept (pool ! r) c))"

lemma claim_pass_inv:
  "claim_pass accept pool cs used = (ls, used') \<Longrightarrow>
   distinct (hits (map snd cs)) \<Longrightarrow> set (hits (map snd cs)) \<subseteq> used \<Longrightarrow>
     distinct (hits ls) \<and> set (hits ls) \<inter> (used - set (hits (map snd cs))) = {}
   \<and> used' = used \<union> set (hits ls) \<and> length ls = length cs
   \<and> (\<forall>x \<in> set (zip cs ls). pass_ok accept pool x)"
proof (induction cs arbitrary: used ls used')
  case (Cons x cs)
  obtain c landed where x: "x = (c, landed)" by fastforce
  let ?f = "\<lambda>i. i \<notin> used \<and> claimable (pool ! i) c \<and> accept (pool ! i) c"
  define hit where "hit = (if landed \<noteq> None then landed else List.find ?f [0..<length pool])"
  define used1 where "used1 = (case hit of None \<Rightarrow> used | Some i \<Rightarrow> insert i used)"
  obtain ls1 where p: "claim_pass accept pool cs used1 = (ls1, used')" and ls: "ls = hit # ls1"
    using Cons.prems(1) by (auto simp: x Let_def hit_def used1_def split: prod.splits)
  have d: "distinct (hits (map snd cs))"
    using Cons.prems(2) by (cases landed) (auto simp: x)
  have sub: "set (hits (map snd cs)) \<subseteq> used"
    using Cons.prems(3) by (cases landed) (auto simp: x)
  then have sub1: "set (hits (map snd cs)) \<subseteq> used1"
    by (auto simp: used1_def split: option.split)
  note ih = Cons.IH [OF p d sub1]
  show ?case
  proof (cases landed)
    case (Some i)
    then have "hit = Some i" "used1 = used" "i \<in> used" "i \<notin> set (hits (map snd cs))"
      using Cons.prems(2,3) by (auto simp: x hit_def used1_def)
    with ih Some show ?thesis by (auto simp: x ls pass_ok_def)
  next
    case None
    show ?thesis
    proof (cases hit)
      case None
      with ih \<open>landed = None\<close> show ?thesis by (auto simp: x ls used1_def pass_ok_def)
    next
      case (Some r)
      then have "r \<notin> used" "r < length pool" "claimable (pool ! r) c" "accept (pool ! r) c"
        using find_SomeD [of ?f "[0..<length pool]" r] \<open>landed = None\<close> by (simp_all add: hit_def)
      moreover have "used1 = insert r used" by (simp add: used1_def Some)
      moreover have "r \<notin> set (hits (map snd cs))" using sub \<open>r \<notin> used\<close> by blast
      ultimately show ?thesis
        using ih \<open>landed = None\<close> Some by (auto simp: x ls pass_ok_def)
    qed
  qed
qed simp

lemma hits_None: "hits (replicate n None) = []"
  by (induction n) simp_all

definition claim_ok :: "BankTxn list \<Rightarrow> scheduleBankClaim \<times> nat option \<Rightarrow> bool" where
  "claim_ok pool = (\<lambda>(c, hit). case hit of None \<Rightarrow> True
     | Some r \<Rightarrow> r < length pool \<and> claimable (pool ! r) c
         \<and> (bankHasRef (pool ! r) (cl_refs c) \<or> inWindow (pool ! r) c))"

lemma claim_rows_ok:
  "distinct (hits (claim_rows pool claims)) \<and> length (claim_rows pool claims) = length claims
   \<and> (\<forall>x \<in> set (zip claims (claim_rows pool claims)). claim_ok pool x)"
proof -
  let ?n = "length claims"
  let ?a = "\<lambda>b c. bankHasRef b (cl_refs c)"
  obtain first used where f: "claim_pass ?a pool (zip claims (replicate ?n None)) {} = (first, used)"
    by fastforce
  have 1: "distinct (hits first) \<and> used = set (hits first) \<and> length first = ?n
      \<and> (\<forall>x \<in> set (zip (zip claims (replicate ?n None)) first). pass_ok ?a pool x)"
    using claim_pass_inv [OF f] by (simp add: hits_None)
  obtain rows used2 where g: "claim_pass inWindow pool (zip claims first) used = (rows, used2)"
    by fastforce
  have 2: "distinct (hits rows) \<and> length rows = ?n
      \<and> (\<forall>x \<in> set (zip (zip claims first) rows). pass_ok inWindow pool x)"
    using claim_pass_inv [OF g] 1 by simp
  have "claim_ok pool (claims ! i, rows ! i)" if i: "i < ?n" for i
  proof -
    have "((claims ! i, None), first ! i) \<in> set (zip (zip claims (replicate ?n None)) first)"
      "((claims ! i, first ! i), rows ! i) \<in> set (zip (zip claims first) rows)"
      using i 1 2 by (auto simp: set_zip intro!: exI [of _ i])
    with 1 2 have "pass_ok ?a pool ((claims ! i, None), first ! i)"
      "pass_ok inWindow pool ((claims ! i, first ! i), rows ! i)" by blast+
    then show ?thesis by (auto simp: pass_ok_def claim_ok_def split: option.splits)
  qed
  moreover have "claim_rows pool claims = rows" by (simp add: claim_rows_def f g)
  ultimately show ?thesis using 2 by (auto simp: set_zip)
qed

text \<open>
  C40.  A landed bank row suppresses at most one expected refund or invoice: the rows the claims
  consume are distinct, and each has exactly the claim's amount and its currency and either names
  one of the claim's references or lies in its date window.
\<close>

theorem landed_claims_use_distinct_bank_rows:
  "distinct (hits (claim_rows pool claims))
   \<and> length (filter id (claimAll pool claims)) = length (hits (claim_rows pool claims))
   \<and> (\<forall>(c, hit) \<in> set (zip claims (claim_rows pool claims)). case hit of None \<Rightarrow> True
       | Some r \<Rightarrow> r < length pool \<and> bankAmount (pool ! r) = cl_amount c
           \<and> EqualFold (nzCur (bt_Currency (pool ! r))) (nzCur (cl_currency c))
           \<and> (bankHasRef (pool ! r) (cl_refs c) \<or> inWindow (pool ! r) c))"
proof -
  have "length (filter id (map (\<lambda>hit. hit \<noteq> None) ls)) = length (hits ls)" for ls
    by (induction ls rule: hits.induct) simp_all
  then show ?thesis
    using claim_rows_ok [of pool claims]
    by (fastforce simp: claimAll_def claim_ok_def claimable_def split: option.splits)
qed

lemma landed_claims_use_distinct_bank_rows_witness:
  "length (filter id (claimAll [zero_BankTxn\<lparr>bt_DebitMinor := 700\<rparr>]
     [\<lparr>cl_amount = 700, cl_currency = ''INR'', cl_refs = [], cl_earliest = 0, cl_latest = 0\<rparr>,
      \<lparr>cl_amount = 700, cl_currency = ''INR'', cl_refs = [], cl_earliest = 0, cl_latest = 0\<rparr>])) \<le> 1"
  (is "length (filter id (claimAll ?pool ?claims)) \<le> 1")
proof -
  note l = landed_claims_use_distinct_bank_rows [of ?pool ?claims]
  have "set (hits (claim_rows ?pool ?claims)) \<subseteq> {0}"
  proof
    fix r assume "r \<in> set (hits (claim_rows ?pool ?claims))"
    moreover have "r \<in> set (hits ls) \<Longrightarrow> Some r \<in> set ls" for ls
      by (induction ls rule: hits.induct) auto
    ultimately obtain c where "(c, Some r) \<in> set (zip ?claims (claim_rows ?pool ?claims))"
      using claim_rows_ok [of ?pool ?claims] by (metis in_set_impl_in_set_zip2)
    with l show "r \<in> {0}" by fastforce
  qed
  then have "card (set (hits (claim_rows ?pool ?claims))) \<le> 1"
    by (metis card.empty card.insert card_mono empty_iff finite.intros One_nat_def)
  with l show ?thesis by (simp add: distinct_card)
qed


section \<open>The schedule loses no cash\<close>

definition schedule_total :: "CashSchedule \<Rightarrow> int64" where
  "schedule_total out =
     sum_list (map (\<lambda>d. sd_ExpectedCreditMinor d + sd_ExpectedDebitMinor d) (sch_Days out))
     + sch_UnknownTimingMinor out"

definition schedule_frame :: "CashSchedule \<Rightarrow> time \<times> int \<times> int list" where
  "schedule_frame out = (sch_AsOf out, sch_HorizonDays out, map sd_Date (sch_Days out))"

lemma add_to_day_sel [simp]:
  "sd_Date (add_to_day c d s) = sd_Date s"
  "sd_ExpectedCreditMinor (add_to_day c d s) = sd_ExpectedCreditMinor s + c"
  "sd_ExpectedDebitMinor (add_to_day c d s) = sd_ExpectedDebitMinor s + d"
  by (simp_all add: add_to_day_def)

lemma frame_add_unknown [simp]: "schedule_frame (add_unknown x out) = schedule_frame out"
  by (simp add: schedule_frame_def add_unknown_def)

lemma frame_bucket [simp]: "schedule_frame (bucket cal t c d out) = schedule_frame out"
  by (simp add: schedule_frame_def bucket_def add_unknown_def Let_def comp_def if_distrib cong: if_cong)

lemma total_add_unknown [simp]: "schedule_total (add_unknown x out) = schedule_total out + x"
  by (simp add: schedule_total_def add_unknown_def)

lemma total_one_day:
  "distinct (map sd_Date ds) \<Longrightarrow> k \<in> set (map sd_Date ds) \<Longrightarrow>
     sum_list (map (\<lambda>d. sd_ExpectedCreditMinor d + sd_ExpectedDebitMinor d)
       (map (\<lambda>s. if sd_Date s = k then add_to_day c d s else s) ds))
     = sum_list (map (\<lambda>d. sd_ExpectedCreditMinor d + sd_ExpectedDebitMinor d) ds) + (c + d)"
proof (induction ds)
  case (Cons s ds)
  have same: "map (\<lambda>s. if sd_Date s = k then add_to_day c d s else s) ds = ds" if "k \<notin> set (map sd_Date ds)"
    using that by (intro map_idI) auto
  show ?case
  proof (cases "sd_Date s = k")
    case True
    then have "k \<notin> set (map sd_Date ds)" using Cons.prems(1) by auto
    from same [OF this] True show ?thesis by simp
  next
    case False
    with Cons show ?thesis by simp
  qed
qed simp

lemma total_bucket [simp]:
  assumes "distinct (snd (snd (schedule_frame out)))"
  shows "schedule_total (bucket cal t c d out) = schedule_total out + (c + d)"
  using assms total_one_day [of "sch_Days out"]
  by (simp add: bucket_def Let_def schedule_frame_def) (simp add: schedule_total_def)

lemma fold_total:
  assumes "\<And>out x. schedule_frame (f out x) = schedule_frame out"
    and "\<And>out x. distinct (snd (snd (schedule_frame out))) \<Longrightarrow> schedule_total (f out x) = schedule_total out + w x"
    and "distinct (snd (snd (schedule_frame out)))"
  shows "schedule_total (foldl f out xs) = schedule_total out + sum_list (map w xs)
    \<and> schedule_frame (foldl f out xs) = schedule_frame out"
  using assms(3) by (induction xs arbitrary: out) (simp_all add: assms(1,2))

lemma received_frame [simp]:
  "schedule_frame (received_step out r) = schedule_frame out"
  "schedule_total (received_step out r) = schedule_total out"
  by (simp_all add: received_step_def schedule_frame_def schedule_total_def)

lemma received_fold [simp]:
  "schedule_frame (foldl received_step out rs) = schedule_frame out"
  "schedule_total (foldl received_step out rs) = schedule_total out"
  by (induction rs arbitrary: out) simp_all

lemma credit_frame: "schedule_frame (credit_step opts cal out x) = schedule_frame out"
  by (simp add: credit_step_def case_prod_beta split: option.split)

lemma due_frame: "schedule_frame (due_step cal out x) = schedule_frame out"
  by (simp add: due_step_def case_prod_beta Let_def)

lemma payout_frame: "schedule_frame (payout_step now cal out x) = schedule_frame out"
  by (simp add: payout_step_def Let_def)

lemma refund_frame: "schedule_frame (refund_step cal out x) = schedule_frame out"
  by (simp add: refund_step_def case_prod_beta)

lemma start_distinct: "distinct (snd (snd (schedule_frame (schedule_start clock opts))))"
proof -
  define cal where "cal = (case opt_Calendar opts of None \<Rightarrow> DefaultBankingCalendar | Some c \<Rightarrow> c)"
  have "date_of cal (AddDays (CivilDate cal t) i) = date_of cal t + i" for t i
    by (simp add: CivilDate_def)
  then show ?thesis
    by (simp add: schedule_frame_def schedule_start_def Let_def cal_def [symmetric] comp_def
        distinct_map inj_on_def)
qed

lemma start_total: "schedule_total (schedule_start clock opts) = 0"
  by (simp add: schedule_total_def schedule_start_def Let_def comp_def)

lemma due_claim_frame: "schedule_frame out = schedule_frame out' \<Longrightarrow> due_claim out = due_claim out'"
  by (auto simp: fun_eq_iff due_claim_def schedule_frame_def Let_def)

definition unlanded :: "(('a \<Rightarrow> int64)) \<Rightarrow> 'a list \<Rightarrow> bool list \<Rightarrow> int64" where
  "unlanded amt xs landed = sum_list (map (\<lambda>x. if snd x then 0 else amt (fst x)) (zip xs landed))"

definition dues_landed :: "time \<Rightarrow> CashScheduleOpts \<Rightarrow> bool list" where
  "dues_landed clock opts =
     claimAll (newScheduleBankPool (opt_BankLines opts) (opt_Results opts) False)
       (map (due_claim (schedule_start clock opts)) (filter (due_wanted opts) (opt_Books opts)))"

definition schedule_refunds :: "time \<Rightarrow> CashScheduleOpts \<Rightarrow> refundItem list" where
  "schedule_refunds clock opts =
     (let start = schedule_start clock opts
      in refund_items opts (AddDays (sch_AsOf start) (sch_HorizonDays start)))"

definition refunds_landed :: "time \<Rightarrow> CashScheduleOpts \<Rightarrow> bool list" where
  "refunds_landed clock opts =
     claimAll (newScheduleBankPool (opt_BankLines opts) (opt_Results opts) True)
       (map ri_claim (schedule_refunds clock opts))"

lemma unlanded_map: "sum_list (map (\<lambda>x. if snd x then 0 else amt (fst x)) (zip xs ls)) = unlanded amt xs ls"
  by (simp add: unlanded_def)

lemma schedule_closed:
  "schedule_total (BuildCashScheduleOpts clock opts) =
     sum_list (map snd (in_flight opts))
     + unlanded mb_AmountMinor (filter (due_wanted opts) (opt_Books opts)) (dues_landed clock opts)
     + sum_list (map po_AmountMinor (filter (payout_wanted opts) (opt_Payouts opts)))
     + unlanded ri_amt (schedule_refunds clock opts) (refunds_landed clock opts)
   \<and> schedule_frame (BuildCashScheduleOpts clock opts) = schedule_frame (schedule_start clock opts)"
proof -
  define now where "now = (if IsZero (opt_Now opts) then clock else opt_Now opts)"
  define cal where "cal = (case opt_Calendar opts of None \<Rightarrow> DefaultBankingCalendar | Some c \<Rightarrow> c)"
  define out0 where "out0 = foldl received_step (schedule_start clock opts) (opt_Results opts)"
  define out1 where "out1 = foldl (credit_step opts cal) out0 (in_flight opts)"
  define out2 where "out2 = foldl (due_step cal) out1
      (zip (filter (due_wanted opts) (opt_Books opts)) (dues_landed clock opts))"
  define out3 where "out3 = foldl (payout_step now cal) out2 (filter (payout_wanted opts) (opt_Payouts opts))"
  define out4 where "out4 = foldl (refund_step cal) out3
      (zip (schedule_refunds clock opts) (refunds_landed clock opts))"
  let ?F = "schedule_frame (schedule_start clock opts)"
  have 0: "schedule_total out0 = 0" "schedule_frame out0 = ?F"
    by (simp_all add: out0_def start_total)
  have 1: "schedule_total out1 = schedule_total out0 + sum_list (map snd (in_flight opts))
      \<and> schedule_frame out1 = schedule_frame out0"
    unfolding out1_def
    by (rule fold_total [OF credit_frame])
       (simp_all add: 0 start_distinct credit_step_def case_prod_beta split: option.split)
  have 2: "schedule_total out2 = schedule_total out1
      + unlanded mb_AmountMinor (filter (due_wanted opts) (opt_Books opts)) (dues_landed clock opts)
      \<and> schedule_frame out2 = schedule_frame out1"
    unfolding out2_def unlanded_map [symmetric]
    by (rule fold_total [OF due_frame])
       (simp_all add: 0 1 start_distinct due_step_def case_prod_beta Let_def obligation_of_def)
  have 3: "schedule_total out3 = schedule_total out2
      + sum_list (map po_AmountMinor (filter (payout_wanted opts) (opt_Payouts opts)))
      \<and> schedule_frame out3 = schedule_frame out2"
    unfolding out3_def
    by (rule fold_total [OF payout_frame]) (simp_all add: 0 1 2 start_distinct payout_step_def Let_def)
  have 4: "schedule_total out4 = schedule_total out3
      + unlanded ri_amt (schedule_refunds clock opts) (refunds_landed clock opts)
      \<and> schedule_frame out4 = schedule_frame out3"
    unfolding out4_def unlanded_map [symmetric]
    by (rule fold_total [OF refund_frame]) (simp_all add: 0 1 2 3 start_distinct refund_step_def case_prod_beta)
  have f: "due_claim out1 = due_claim (schedule_start clock opts)"
    by (rule due_claim_frame) (simp add: 0 1)
  have g: "sch_AsOf out3 = sch_AsOf (schedule_start clock opts)"
    "sch_HorizonDays out3 = sch_HorizonDays (schedule_start clock opts)"
    using 0 1 2 3 by (simp_all add: schedule_frame_def)
  have "BuildCashScheduleOpts clock opts = out4"
    unfolding BuildCashScheduleOpts_def Let_def out4_def
    by (simp only: now_def [symmetric] cal_def [symmetric] out0_def [symmetric] out1_def [symmetric] f
        dues_landed_def [symmetric] out2_def [symmetric] out3_def [symmetric] g
        schedule_refunds_def [unfolded Let_def, symmetric] refunds_landed_def [symmetric])
  with 0 1 2 3 4 show ?thesis by simp
qed

text \<open>
  The cash schedule loses and invents no expected cash: in 64-bit arithmetic, everything in its
  days plus the amount of unknown timing is the settlement credits in flight, the invoices and
  refunds the bank does not already show, and the payouts that are neither failed nor proven; and
  its days are the consecutive civil dates of the horizon.
\<close>

theorem schedule_conserves_expected_cash:
  "schedule_total (BuildCashScheduleOpts clock opts) =
     sum_list (map snd (in_flight opts))
     + unlanded mb_AmountMinor (filter (due_wanted opts) (opt_Books opts)) (dues_landed clock opts)
     + sum_list (map po_AmountMinor (filter (payout_wanted opts) (opt_Payouts opts)))
     + unlanded ri_amt (schedule_refunds clock opts) (refunds_landed clock opts)
   \<and> map sd_Date (sch_Days (BuildCashScheduleOpts clock opts))
     = map sd_Date (sch_Days (schedule_start clock opts))
   \<and> distinct (map sd_Date (sch_Days (BuildCashScheduleOpts clock opts)))"
  using schedule_closed [of clock opts] start_distinct [of clock opts]
  by (simp add: schedule_frame_def)


section \<open>Projected days are banking days\<close>

definition day_ok :: "BankingCalendar \<Rightarrow> ScheduleDay \<Rightarrow> bool" where
  "day_ok cal d \<longleftrightarrow> (sd_Count d = 0 \<and> sd_ExpectedCreditMinor d = 0 \<and> sd_ExpectedDebitMinor d = 0)
     \<or> (0 < sd_Count d \<and> banking_date cal (sd_Date d))"

definition days_ok :: "CashSchedule \<Rightarrow> bool" where
  "days_ok out \<longleftrightarrow> list_all (day_ok DefaultBankingCalendar) (sch_Days out)"

lemma default_next_banking: "banking_date DefaultBankingCalendar (date_of DefaultBankingCalendar
    (NextBankingDay DefaultBankingCalendar t))"
proof -
  let ?c = DefaultBankingCalendar
  obtain k where k: "k \<le> 3" "banking_date ?c (date_of ?c t + int k)" by (rule default_within_three)
  obtain n where "NextBankingDay ?c t = midnight ?c (date_of ?c t + int n)"
    "banking_date ?c (date_of ?c t + int n)"
    by (rule NextBankingDay_first [OF k(2)]) (use k in auto)
  then show ?thesis by simp
qed

lemma days_ok_unknown [simp]: "days_ok (add_unknown x out) = days_ok out"
  by (simp add: days_ok_def add_unknown_def)

lemma days_ok_bucket [simp]: "days_ok out \<Longrightarrow> days_ok (bucket DefaultBankingCalendar t c d out)"
proof -
  let ?c = DefaultBankingCalendar
  have "day_ok ?c (add_to_day c d s)"
    if "day_ok ?c s" "sd_Date s = date_of ?c (NextBankingDay ?c t')" for s t'
    using that default_next_banking [of t'] by (auto simp: day_ok_def add_to_day_def)
  then show "days_ok out \<Longrightarrow> days_ok (bucket ?c t c d out)"
    by (simp add: bucket_def Let_def) (auto simp: days_ok_def list_all_iff)
qed

lemma days_ok_fold: "(\<And>out x. days_ok out \<Longrightarrow> days_ok (f out x)) \<Longrightarrow> days_ok out \<Longrightarrow> days_ok (foldl f out xs)"
  by (induction xs arbitrary: out) simp_all

lemma days_ok_received [simp]: "days_ok (received_step out r) = days_ok out"
  by (simp add: days_ok_def received_step_def)

lemma days_ok_start [simp]: "days_ok (schedule_start clock opts)"
  by (simp add: days_ok_def schedule_start_def Let_def list_all_iff day_ok_def)

text \<open>
  With the default calendar a day of the schedule carries an expected credit or debit only if
  it is a banking day: no cash is projected on a weekend or a reference holiday.
\<close>

theorem cash_is_projected_on_banking_days:
  assumes "opt_Calendar opts = None" and "d \<in> set (sch_Days (BuildCashScheduleOpts clock opts))"
  shows "(sd_Count d = 0 \<and> sd_ExpectedCreditMinor d = 0 \<and> sd_ExpectedDebitMinor d = 0)
    \<or> (0 < sd_Count d \<and> banking_date DefaultBankingCalendar (sd_Date d))"
proof -
  have "days_ok (BuildCashScheduleOpts clock opts)"
    unfolding BuildCashScheduleOpts_def Let_def assms(1) option.simps
    by (intro days_ok_fold; simp add: credit_step_def due_step_def payout_step_def refund_step_def
        case_prod_beta Let_def split: option.split)
  with assms(2) show ?thesis by (auto simp: days_ok_def list_all_iff day_ok_def)
qed

definition sample_opts :: CashScheduleOpts where
  "sample_opts = \<lparr>opt_Results = [], opt_Lines = [], opt_Payouts = [], opt_Refunds = [], opt_Books = [],
     opt_Now = 1, opt_Days = 0, opt_Calendar = None, opt_BankLines = []\<rparr>"

lemma cash_is_projected_on_banking_days_witness:
  "\<exists>d \<in> set (sch_Days (BuildCashScheduleOpts 0 sample_opts)). sd_Date d = 0
     \<and> ((sd_Count d = 0 \<and> sd_ExpectedCreditMinor d = 0 \<and> sd_ExpectedDebitMinor d = 0)
        \<or> (0 < sd_Count d \<and> banking_date DefaultBankingCalendar (sd_Date d)))"
proof -
  have "map sd_Date (sch_Days (BuildCashScheduleOpts 0 sample_opts))
      = map sd_Date (sch_Days (schedule_start 0 sample_opts))"
    using schedule_closed [of 0 sample_opts] by (simp add: schedule_frame_def)
  moreover have "0 \<in> set (map sd_Date (sch_Days (schedule_start 0 sample_opts)))"
    by (simp add: schedule_start_def Let_def sample_opts_def comp_def CivilDate_def IsZero_def)
       (simp add: date_of_def DefaultBankingCalendar_def)
  ultimately obtain d where "d \<in> set (sch_Days (BuildCashScheduleOpts 0 sample_opts))" "sd_Date d = 0"
    by (metis (no_types, lifting) image_iff list.set_map)
  moreover from this(1) have "(sd_Count d = 0 \<and> sd_ExpectedCreditMinor d = 0 \<and> sd_ExpectedDebitMinor d = 0)
      \<or> (0 < sd_Count d \<and> banking_date DefaultBankingCalendar (sd_Date d))"
    by (rule cash_is_projected_on_banking_days [rotated]) (simp add: sample_opts_def)
  ultimately show ?thesis by blast
qed

text \<open>
  The schedule drops a payout once a result proves its bank movement, but the reconciliation
  of a payout never sets that flag: over the results of \<open>ReconcilePayout\<close> every payout that did
  not fail is projected as an outgoing debit, paid or not.
\<close>

theorem reconciled_payout_still_projected:
  "payout_wanted (opts\<lparr>opt_Results := map (ReconcilePayout clock) inps\<rparr>) po \<longleftrightarrow>
     \<not> IsPayoutFailedLike (NormalizePayoutStatus (po_ProviderStatus po))"
  by (auto simp: payout_wanted_def proven_entities_def ReconcilePayout_verdict payout_verdict_unproven)

end
