(* ===== verification/Timeline.thy ===== *)
theory Timeline
  imports Queries Books
begin

text \<open>
  \<^verbatim>\<open>recon/timeline.go\<close>: the fixed ladder of fourteen steps that shows what was captured about a
  payment or payout, and the methods of \<^verbatim>\<open>financial_service.go\<close> that build it, the ledger, the tax
  breakdown, the cash schedule and the marketplace counsel from the store.

  A \<open>*time.Time\<close> is an option; the values of a \<open>Detail\<close> map are the type \<open>detail\<close>.
\<close>

section \<open>Steps\<close>

datatype detail = DText string | DAmount int64 | DFlag bool | DLeg ReconLeg | DRefs EvidenceRefs | DTexts "string list"

record TimelineCapture =
  tc_CapturedAt :: time
  tc_Source :: string
  tc_SourceEventID :: string
  tc_SourceHash :: string
  tc_ProviderStatus :: string
  tc_Reference :: string

record TimelineStep =
  ts_Seq :: nat
  ts_Kind :: string
  ts_Label :: string
  ts_Captured :: bool
  ts_CapturedAt :: "time option"
  ts_Source :: string
  ts_SourceEventID :: string
  ts_SourceHash :: string
  ts_ProviderStatus :: string
  ts_ProviderAt :: "time option"
  ts_Detail :: "(string \<times> detail) list"
  ts_Events :: "TimelineCapture list"
  ts_Note :: string

record TimelineRecon =
  tr_Result :: string
  tr_Reason :: string
  tr_ExpectedAmount :: int64
  tr_ObservedAmount :: int64
  tr_VarianceAmount :: int64
  tr_Confidence :: rat
  tr_BankCreditProven :: bool
  tr_Direction :: string
  tr_Rail :: string
  tr_TwoWay :: ReconLeg
  tr_ThreeWay :: ReconLeg

record EntityTimeline =
  et_EntityType :: string
  et_EntityID :: string
  et_ProviderStatus :: string
  et_ReconRun :: bool
  et_Reconciliation :: "TimelineRecon option"
  et_Steps :: "TimelineStep list"

record timelineFacts =
  tf_EntityType :: string
  tf_EntityID :: string
  tf_ProviderStatus :: string
  tf_AmountMinor :: int64
  tf_Currency :: string
  tf_UTR :: string
  tf_Mode :: string
  tf_ProviderCreatedAt :: time
  tf_FirstObservedAt :: time
  tf_Events :: "ObservationFact list"
  tf_Lines :: "SettlementLine list"
  tf_Banks :: "BankTxn list"
  tf_Result :: "FinancialResult option"

definition emptyStep :: "nat \<Rightarrow> string \<Rightarrow> string \<Rightarrow> string \<Rightarrow> TimelineStep" where
  "emptyStep n kind label note = \<lparr>ts_Seq = n, ts_Kind = kind, ts_Label = label, ts_Captured = False,
     ts_CapturedAt = None, ts_Source = [], ts_SourceEventID = [], ts_SourceHash = [],
     ts_ProviderStatus = [], ts_ProviderAt = None, ts_Detail = [], ts_Events = [], ts_Note = note\<rparr>"

definition timePtr :: "time \<Rightarrow> time option" where
  "timePtr t = (if IsZero t then None else Some t)"

definition statusOf :: "ObservationFact \<Rightarrow> string" where
  "statusOf ev =
     (let s = ToLower (TrimSpace (of_ProviderStatus ev))
      in if s \<noteq> [] then s else ToLower (TrimSpace (of_CanonicalStatus ev)))"

definition timelineSource :: "string \<Rightarrow> string" where
  "timelineSource raw =
     (let s = ToLower (TrimSpace raw)
      in if s \<in> {''webhook'', ''webhooks''} then ''webhook''
         else if s \<in> {''api'', ''razorpay_api'', ''api_backfill'', ''poll''} then ''api_backfill''
         else if s \<in> {''bank_csv'', ''bank''} then ''bank_csv''
         else if s \<in> {''settlement'', ''settlement_file''} then ''settlement_file''
         else if s \<in> {''reconciliation'', ''recon''} then ''reconciliation''
         else s)"

definition captureFrom :: "ObservationFact \<Rightarrow> TimelineCapture" where
  "captureFrom ev = \<lparr>tc_CapturedAt = of_ObservedAt ev, tc_Source = timelineSource (of_Source ev),
     tc_SourceEventID = of_SourceEventID ev, tc_SourceHash = of_SourceHash ev,
     tc_ProviderStatus = statusOf ev, tc_Reference = TrimSpace (of_RawReference ev)\<rparr>"

definition applyCapture :: "ObservationFact \<Rightarrow> TimelineStep \<Rightarrow> TimelineStep" where
  "applyCapture ev step =
     (let c = captureFrom ev
      in step\<lparr>ts_Captured := True, ts_CapturedAt := timePtr (tc_CapturedAt c), ts_Source := tc_Source c,
              ts_SourceEventID := tc_SourceEventID c, ts_SourceHash := tc_SourceHash c,
              ts_ProviderStatus := tc_ProviderStatus c\<rparr>)"

definition isOpenProviderStatus :: "string \<Rightarrow> bool" where
  "isOpenProviderStatus status \<longleftrightarrow>
     ToLower (TrimSpace status) \<in> {''queued'', ''processing'', ''pending'', ''scheduled''}"

section \<open>Finding what the steps show\<close>

definition observed_before :: "ObservationFact \<Rightarrow> ObservationFact \<Rightarrow> bool" where
  "observed_before a b \<longleftrightarrow>
     (if IsZero (of_ObservedAt a) then False
      else if IsZero (of_ObservedAt b) then True
      else of_ObservedAt a < of_ObservedAt b)"

definition sortObservations :: "ObservationFact list \<Rightarrow> ObservationFact list" where
  "sortObservations events = SliceStable observed_before events"

definition firstMatching :: "ObservationFact list \<Rightarrow> (string \<Rightarrow> bool) \<Rightarrow> ObservationFact option" where
  "firstMatching events pred = List.find (\<lambda>ev. pred (statusOf ev)) events"

definition firstUTR :: "ObservationFact list \<Rightarrow> ObservationFact option" where
  "firstUTR events = List.find (\<lambda>ev. TrimSpace (of_RawReference ev) \<noteq> []) events"

definition settlementForEntity :: "SettlementLine list \<Rightarrow> string \<Rightarrow> string \<Rightarrow> SettlementLine option" where
  "settlementForEntity lines entityID utr =
     (let i = TrimSpace entityID; u = TrimSpace utr
      in case List.find (\<lambda>l. i \<noteq> [] \<and> (sl_PaymentID l = i \<or> sl_EntityID l = i)) lines of
           Some l \<Rightarrow> Some l
         | None \<Rightarrow> if u = [] then None else List.find (\<lambda>l. TrimSpace (sl_UTR l) = u) lines)"

definition bankForEntity :: "BankTxn list \<Rightarrow> string \<Rightarrow> FinancialResult option \<Rightarrow> BankTxn option" where
  "bankForEntity banks utr result =
     (let want = (case result of None \<Rightarrow> [] | Some fr \<Rightarrow> er_BankObservationID (fr_EvidenceRefs fr));
          by_id = (if want = [] then None
                   else List.find (\<lambda>b. bt_ID b = want \<or> bt_BankTxnID b = want) banks);
          u = TrimSpace utr
      in case by_id of
           Some b \<Rightarrow> Some b
         | None \<Rightarrow> if u = [] then None
                   else List.find (\<lambda>b. TrimSpace (bt_UTR b) = u \<or> TrimSpace (bt_UTRRaw b) = u) banks)"

section \<open>The ladder\<close>

definition with_capture :: "ObservationFact option \<Rightarrow> TimelineStep \<Rightarrow> TimelineStep" where
  "with_capture ev step = (case ev of None \<Rightarrow> step | Some ev \<Rightarrow> (applyCapture ev step)\<lparr>ts_Note := []\<rparr>)"

definition first_event :: "ObservationFact list \<Rightarrow> ObservationFact option" where
  "first_event events = (if events = [] then None else Some (events ! 0))"

definition created_step :: "timelineFacts \<Rightarrow> ObservationFact list \<Rightarrow> TimelineStep" where
  "created_step f events =
     (let s2 = emptyStep 2 ''RAZORPAY_PAYOUT_CREATED'' ''Razorpay payout created''
                 ''No provider observation captured yet.'';
          at_provider = (\<lambda>s. if IsZero (tf_ProviderCreatedAt f) then s
                             else s\<lparr>ts_ProviderAt := timePtr (tf_ProviderCreatedAt f)\<rparr>)
      in case first_event events of
           Some ev \<Rightarrow> at_provider ((with_capture (Some ev) s2)\<lparr>ts_Detail :=
             [(''amount_minor'', DAmount (tf_AmountMinor f)), (''currency'', DText (tf_Currency f))]\<rparr>)
         | None \<Rightarrow>
             if IsZero (tf_FirstObservedAt f) then s2
             else at_provider (s2\<lparr>ts_Captured := True, ts_CapturedAt := timePtr (tf_FirstObservedAt f),
               ts_Source := ''observation'', ts_ProviderStatus := tf_ProviderStatus f,
               ts_Note := ''Canonical first_observed_at; raw webhook row not loaded.''\<rparr>))"

definition routing_step :: "timelineFacts \<Rightarrow> ObservationFact list \<Rightarrow> TimelineStep" where
  "routing_step f events =
     (let s5 = emptyStep 5 ''ROUTING_RAIL_SELECTION'' ''Routing / rail selection''
                 ''No routing-decision event stored. Rail on the payout is not a captured decision time.''
      in if TrimSpace (tf_Mode f) \<noteq> [] \<and> events \<noteq> [] then
           s5\<lparr>ts_Detail := [(''mode'', DText (tf_Mode f))],
              ts_Note := ''Mode observed on the payout record; no separate routing timestamp.''\<rparr>
         else s5)"

definition status_step :: "ObservationFact list \<Rightarrow> TimelineStep" where
  "status_step events =
     (let s8 = emptyStep 8 ''PAYOUT_STATUS_UPDATES'' ''Payout status updates'' ''No status webhooks captured.'';
          caps = map captureFrom (filter (\<lambda>ev. \<not> IsZero (of_ObservedAt ev)) events)
      in if caps = [] then s8
         else s8\<lparr>ts_Events := caps, ts_Captured := True, ts_Note := [],
                 ts_CapturedAt := timePtr (tc_CapturedAt (last caps)), ts_Source := tc_Source (last caps),
                 ts_SourceEventID := tc_SourceEventID (last caps),
                 ts_ProviderStatus := tc_ProviderStatus (last caps)\<rparr>)"

definition utr_step :: "timelineFacts \<Rightarrow> ObservationFact list \<Rightarrow> TimelineStep" where
  "utr_step f events =
     (let s9 = emptyStep 9 ''UTR_BANK_REFERENCE'' ''UTR / bank reference'' ''No UTR captured on an observation.'';
          u = TrimSpace (tf_UTR f)
      in case firstUTR events of
           Some ev \<Rightarrow> (applyCapture ev s9)\<lparr>ts_Detail := [(''utr'', DText (TrimSpace (of_RawReference ev)))],
                                       ts_Note := []\<rparr>
         | None \<Rightarrow>
             if u = [] then s9
             else (let s9 = s9\<lparr>ts_Captured := True, ts_Detail := [(''utr'', DText u)],
                               ts_ProviderStatus := tf_ProviderStatus f\<rparr>
                   in case first_event events of
                        Some ev \<Rightarrow> (applyCapture ev s9)\<lparr>ts_Detail := [(''utr'', DText u)],
                          ts_Note := ''UTR on canonical payout; timestamp is first observation, not a dedicated UTR webhook.''\<rparr>
                      | None \<Rightarrow> s9\<lparr>ts_Note := ''UTR present on canonical payout; no observation timestamp.''\<rparr>))"

definition settlement_step :: "timelineFacts \<Rightarrow> TimelineStep" where
  "settlement_step f =
     (let s10 = emptyStep 10 ''SETTLEMENT_ACCOUNTING_RECORD'' ''Settlement / accounting record''
                  ''No settlement line captured for this payout.''
      in case settlementForEntity (tf_Lines f) (tf_EntityID f) (tf_UTR f) of
           None \<Rightarrow> s10
         | Some line \<Rightarrow>
             s10\<lparr>ts_Captured := True, ts_Source := ''settlement_file'',
                 ts_CapturedAt := timePtr (sl_SettledAt line),
                 ts_Detail := [(''settlement_line_id'', DText (sl_ID line)),
                   (''settlement_id'', DText (sl_SettlementID line)), (''net_minor'', DAmount (sl_CreditMinor line)),
                   (''fee_minor'', DAmount (sl_FeeMinor line)), (''tax_minor'', DAmount (sl_TaxMinor line)),
                   (''utr'', DText (sl_UTR line))],
                 ts_Note := (if IsZero (sl_SettledAt line) then ''Settlement line present; settled_at not stored.'' else [])\<rparr>)"

definition missing_reasons :: "string set" where
  "missing_reasons = {''payout_missing_bank'', ''settlement_without_bank'', ''captured_missing_settlement''}"

text \<open>The result of a run, unless it says that none was made.\<close>

definition run_result :: "FinancialResult option \<Rightarrow> FinancialResult option" where
  "run_result r = (case r of None \<Rightarrow> None | Some fr \<Rightarrow> if fr_Reason fr = ''not_run'' then None else Some fr)"

definition bank_step :: "timelineFacts \<Rightarrow> FinancialResult option \<Rightarrow> TimelineStep" where
  "bank_step f result =
     (let s11 = emptyStep 11 ''BANK_SIDE_CASH_MOVEMENT'' ''Bank-side cash movement'' ''No bank observation captured.''
      in case bankForEntity (tf_Banks f) (tf_UTR f) result of
           Some bank \<Rightarrow>
             s11\<lparr>ts_Captured := True, ts_Source := ''bank_csv'', ts_CapturedAt := timePtr (bt_ValueDate bank),
                 ts_Detail := [(''bank_observation_id'', DText (bt_ID bank)), (''utr'', DText (bt_UTR bank)),
                   (''credit_minor'', DAmount (bt_CreditMinor bank)), (''debit_minor'', DAmount (bt_DebitMinor bank)),
                   (''credit_debit'', DText (bt_CreditDebit bank))],
                 ts_Note := (if IsZero (bt_ValueDate bank)
                   then ''Bank row present; value_date not stored. Not a webhook time.''
                   else ''captured_at is statement value_date, not a bank webhook.'')\<rparr>
         | None \<Rightarrow>
            (case run_result result of
               None \<Rightarrow> s11
             | Some fr \<Rightarrow>
                 if fr_Reason fr \<notin> missing_reasons then s11
                 else s11\<lparr>ts_Captured := True, ts_Source := ''reconciliation'',
                          ts_CapturedAt := timePtr (fr_CreatedAt fr),
                          ts_Detail := [(''found'', DFlag False), (''search'', DText ''BANK_SEARCH'')],
                          ts_Note := ''No bank row. Absence recorded at recon decision time.''\<rparr>))"

definition recon_steps :: "FinancialResult option \<Rightarrow> TimelineStep list" where
  "recon_steps made =
     (let s12 = emptyStep 12 ''ZORD_RECONCILIATION'' ''Zord reconciliation'' ''Reconciliation has not been run.'';
          s13 = emptyStep 13 ''RECONCILIATION_DECISION'' ''Reconciliation decision'' ''No reconciliation decision stored.'';
          s14 = emptyStep 14 ''EVIDENCE_AUDIT_TRAIL'' ''Evidence + audit trail'' ''No evidence refs stored.''
      in case made of
           None \<Rightarrow> [s12, s13, s14]
         | Some fr \<Rightarrow>
            (let now = timePtr (fr_CreatedAt fr); refs = fr_EvidenceRefs fr; ids = EvidenceIDList refs
             in [s12\<lparr>ts_Captured := True, ts_CapturedAt := now, ts_Source := ''reconciliation'', ts_Note := [],
                     ts_Detail := [(''run_id'', DText (fr_RunID fr))]\<rparr>,
                 s13\<lparr>ts_Captured := True, ts_CapturedAt := now, ts_Source := ''reconciliation'', ts_Note := [],
                     ts_ProviderStatus := fr_Status fr,
                     ts_Detail := [(''result'', DText (fr_Result fr)), (''reason'', DText (fr_Reason fr)),
                       (''variance_amount'', DAmount (fr_VarianceAmount fr)),
                       (''bank_credit_proven'', DFlag (fr_BankCreditProven fr)),
                       (''direction'', DText (fr_Direction fr)), (''rail'', DText (fr_Rail fr)),
                       (''two_way'', DLeg (fr_TwoWay fr)), (''three_way'', DLeg (fr_ThreeWay fr))]\<rparr>,
                 if ids \<noteq> [] \<or> er_SettlementLineID refs \<noteq> [] \<or> er_BankObservationID refs \<noteq> [] then
                   s14\<lparr>ts_Captured := True, ts_CapturedAt := now, ts_Source := ''reconciliation'',
                       ts_Note := ''Refs recorded with the recon decision. Pack seal time is on the evidence service.'',
                       ts_Detail := [(''evidence_ids'', DTexts ids), (''evidence_refs'', DRefs refs)]\<rparr>
                 else s14]))"

definition timeline_recon :: "FinancialResult \<Rightarrow> TimelineRecon" where
  "timeline_recon fr = \<lparr>tr_Result = fr_Result fr, tr_Reason = fr_Reason fr,
     tr_ExpectedAmount = fr_ExpectedAmount fr, tr_ObservedAmount = fr_ObservedAmount fr,
     tr_VarianceAmount = fr_VarianceAmount fr, tr_Confidence = fr_Confidence fr,
     tr_BankCreditProven = fr_BankCreditProven fr, tr_Direction = fr_Direction fr, tr_Rail = fr_Rail fr,
     tr_TwoWay = fr_TwoWay fr, tr_ThreeWay = fr_ThreeWay fr\<rparr>"

definition timeline_steps :: "timelineFacts \<Rightarrow> FinancialResult option \<Rightarrow> ObservationFact list \<Rightarrow> TimelineStep list" where
  "timeline_steps f result events =
     [emptyStep 1 ''MERCHANT_PAYOUT_INSTRUCTION'' ''Merchant payout instruction''
        ''Not captured in recon. Intent/file ingest lives on edge + intents.'',
      created_step f events,
      emptyStep 3 ''VALIDATION_ELIGIBILITY'' ''Validation / eligibility''
        ''Not captured in recon. Intents validation is not on this observation log.'',
      emptyStep 4 ''APPROVAL_GOVERNANCE'' ''Approval / governance''
        ''Not captured in recon. Governance decisions live on the intent engine.'',
      routing_step f events,
      with_capture (firstMatching events isOpenProviderStatus)
        (emptyStep 6 ''PAYOUT_SUBMITTED_TO_RAIL'' ''Payout submitted to execution rail''
          ''No queued/processing webhook captured.''),
      with_capture (first_event events)
        (emptyStep 7 ''PROVIDER_BANK_RESPONSE'' ''Provider / bank response'' ''No provider response observation captured.''),
      status_step events, utr_step f events, settlement_step f, bank_step f result]
     @ recon_steps (run_result result)"

definition BuildEntityTimeline :: "timelineFacts \<Rightarrow> EntityTimeline" where
  "BuildEntityTimeline f =
     (let result = map_option (reannotate (tf_EntityType f) (tf_Mode f)) (tf_Result f)
      in \<lparr>et_EntityType = tf_EntityType f, et_EntityID = tf_EntityID f,
          et_ProviderStatus = tf_ProviderStatus f, et_ReconRun = (run_result result \<noteq> None),
          et_Reconciliation = map_option timeline_recon (run_result result),
          et_Steps = timeline_steps f result (sortObservations (tf_Events f))\<rparr>)"


section \<open>The methods of the service\<close>

definition buildTimeline :: "query_env \<Rightarrow> timelineFacts \<Rightarrow> EntityTimeline svc" where
  "buildTimeline env facts =
     bindE (reads (base_env env) ms_Lines) (\<lambda>lines.
     bindE (reads (base_env env) (ListBankTxns [])) (\<lambda>banks.
     bindE (reads (base_env env) (GetReconciliationResult (tf_EntityType facts, tf_EntityID facts))) (\<lambda>found.
     returnE (BuildEntityTimeline (facts\<lparr>tf_Lines := lines, tf_Banks := banks,
       tf_Result := (case run_result found of
           None \<Rightarrow> tf_Result facts
         | Some fr \<Rightarrow> Some (reannotate (tf_EntityType facts) (tf_Mode facts) fr))\<rparr>)))))"

definition payout_facts :: "PayoutFact \<Rightarrow> ObservationFact list \<Rightarrow> timelineFacts" where
  "payout_facts po events = \<lparr>tf_EntityType = EntityPayout, tf_EntityID = po_PayoutID po,
     tf_ProviderStatus = po_ProviderStatus po, tf_AmountMinor = po_AmountMinor po,
     tf_Currency = po_Currency po, tf_UTR = po_UTR po, tf_Mode = po_Mode po,
     tf_ProviderCreatedAt = po_ProviderCreatedAt po, tf_FirstObservedAt = po_FirstObservedAt po,
     tf_Events = events, tf_Lines = [], tf_Banks = [], tf_Result = None\<rparr>"

definition payment_facts :: "PaymentFact \<Rightarrow> ObservationFact list \<Rightarrow> timelineFacts" where
  "payment_facts pay events = \<lparr>tf_EntityType = EntityPayment, tf_EntityID = pf_PaymentID pay,
     tf_ProviderStatus = pf_ProviderStatus pay, tf_AmountMinor = pf_AmountMinor pay,
     tf_Currency = pf_Currency pay, tf_UTR = [], tf_Mode = pf_Method pay,
     tf_ProviderCreatedAt = pf_ProviderCreatedAt pay, tf_FirstObservedAt = pf_FirstObservedAt pay,
     tf_Events = events, tf_Lines = [], tf_Banks = [], tf_Result = None\<rparr>"

definition PayoutTimeline :: "query_env \<Rightarrow> string \<Rightarrow> EntityTimeline option svc" where
  "PayoutTimeline env payoutID =
     bindE (reads (base_env env) (GetCanonicalPayoutFact payoutID)) (\<lambda>found.
     case found of
       None \<Rightarrow> returnE None
     | Some po \<Rightarrow>
         bindE (reads (base_env env) (\<lambda>m. ms_PayoutEvents m (po_PayoutID po))) (\<lambda>events.
         bindE (buildTimeline env (payout_facts po events)) (\<lambda>t. returnE (Some t))))"

definition PaymentTimeline :: "query_env \<Rightarrow> string \<Rightarrow> EntityTimeline option svc" where
  "PaymentTimeline env paymentID =
     bindE (reads (base_env env) (GetCanonicalPayment paymentID)) (\<lambda>found.
     case found of
       None \<Rightarrow> returnE None
     | Some pay \<Rightarrow>
         bindE (reads (base_env env) (\<lambda>m. ms_Events m (pf_PaymentID pay))) (\<lambda>events.
         bindE (buildTimeline env (payment_facts pay events)) (\<lambda>t. returnE (Some t))))"

definition lines_of_payment :: "string \<Rightarrow> SettlementLine list \<Rightarrow> SettlementLine list" where
  "lines_of_payment paymentID lines = filter (\<lambda>l. sl_PaymentID l = paymentID \<or> sl_EntityID l = paymentID) lines"

definition service_TaxBreakdown :: "query_env \<Rightarrow> string \<Rightarrow> TaxBreakdown svc" where
  "service_TaxBreakdown env paymentID =
     bindE (GetPayment env paymentID) (\<lambda>found.
     case found of
       None \<Rightarrow> failE errNotFound
     | Some (pay, fr) \<Rightarrow>
         bindE (reads (base_env env) ms_Lines) (\<lambda>lines.
         returnE (TaxBreakdownFor pay (lines_of_payment paymentID lines) fr)))"

definition service_CashSchedule :: "query_env \<Rightarrow> string \<Rightarrow> string \<Rightarrow> int \<Rightarrow> CashSchedule svc" where
  "service_CashSchedule env tenantID connectorID days =
     bindE (reads (base_env env) ms_Results) (\<lambda>results.
     bindE (reads (base_env env) ms_Lines) (\<lambda>lines.
     bindE (reads (base_env env) ms_Payouts) (\<lambda>payouts.
     bindE (reads (base_env env) (ListRefunds tenantID connectorID [])) (\<lambda>refunds.
     bindE (reads (base_env env) ms_MerchantBooks) (\<lambda>books.
     bindE (reads (base_env env) (ListBankTxns [])) (\<lambda>banks.
     returnE (BuildCashScheduleOpts (env_clock env)
       \<lparr>opt_Results = results, opt_Lines = lines, opt_Payouts = payouts, opt_Refunds = refunds,
        opt_Books = books, opt_Now = env_now env, opt_Days = days, opt_Calendar = None,
        opt_BankLines = banks\<rparr>)))))))"

definition service_Ledger :: "query_env \<Rightarrow> string \<Rightarrow> string \<Rightarrow> string \<Rightarrow> Ledger svc" where
  "service_Ledger env tenantID connectorID paymentID =
     bindE (GetPayment env paymentID) (\<lambda>found.
     case found of
       None \<Rightarrow> failE errNotFound
     | Some (pay, fr) \<Rightarrow>
         bindE (reads (base_env env) ms_Lines) (\<lambda>lines.
         bindE (reads (base_env env) (ListRefunds tenantID connectorID paymentID)) (\<lambda>refunds.
         returnE (LedgerForPayment pay (lines_of_payment paymentID lines) fr refunds))))"

definition service_ListRefunds :: "query_env \<Rightarrow> string \<Rightarrow> string \<Rightarrow> string \<Rightarrow> RefundFact list svc" where
  "service_ListRefunds env tenantID connectorID paymentID =
     reads (base_env env) (ListRefunds tenantID connectorID paymentID)"

definition MarketplaceSellerPatterns :: "query_env \<Rightarrow> string \<Rightarrow> string \<Rightarrow> MarketplaceSellerPattern list svc" where
  "MarketplaceSellerPatterns env tenantID connectorID =
     (let tenantID = TrimSpace tenantID; connectorID = TrimSpace connectorID
      in if tenantID = [] \<or> connectorID = [] then failE ''tenant_id and connector_id are required''
         else reads (base_env env) (ListMarketplaceSellerPatterns tenantID connectorID))"

definition MarketplaceVelocityFlags :: "query_env \<Rightarrow> string \<Rightarrow> string \<Rightarrow> MarketplaceVelocityConfig
    \<Rightarrow> MarketplaceVelocityFlag list svc" where
  "MarketplaceVelocityFlags env tenantID connectorID cfg =
     (let tenantID = TrimSpace tenantID; connectorID = TrimSpace connectorID
      in if tenantID = [] \<or> connectorID = [] then failE ''tenant_id and connector_id are required''
         else bindE (reads (base_env env) (ListMarketplaceSellerPatterns tenantID connectorID))
           (\<lambda>patterns. returnE (EvaluateMarketplaceVelocity patterns cfg)))"

section \<open>Time order\<close>

lemma mset_sortObservations [simp]: "mset (sortObservations evs) = mset evs"
  by (simp add: sortObservations_def)

lemma set_sortObservations [simp]: "set (sortObservations evs) = set evs"
  by (simp add: sortObservations_def)

lemma sortObservations_order:
  "sorted_wrt (\<lambda>a b. \<not> observed_before b a) (sortObservations evs)"
  unfolding sortObservations_def
  by (rule sorted_SliceStable) (auto simp: observed_before_def split: if_splits)

lemma sortObservations_times:
  "sorted (map of_ObservedAt (filter (\<lambda>ev. \<not> IsZero (of_ObservedAt ev)) (sortObservations evs)))"
proof -
  have "sorted_wrt (\<lambda>a b. \<not> observed_before b a)
      (filter (\<lambda>ev. \<not> IsZero (of_ObservedAt ev)) (sortObservations evs))"
    by (rule sorted_wrt_filter [OF sortObservations_order])
  then have "sorted_wrt (\<lambda>a b. of_ObservedAt a \<le> of_ObservedAt b)
      (filter (\<lambda>ev. \<not> IsZero (of_ObservedAt ev)) (sortObservations evs))"
    by (rule sorted_wrt_mono_rel [rotated]) (auto simp: observed_before_def)
  then show ?thesis by (simp add: sorted_map)
qed

lemmas step_defs = created_step_def routing_step_def status_step_def utr_step_def settlement_step_def
  bank_step_def recon_steps_def with_capture_def applyCapture_def captureFrom_def emptyStep_def Let_def

section \<open>The ladder\<close>

text \<open>A step that was not captured shows no time, source or event.\<close>

definition well_formed_step :: "TimelineStep \<Rightarrow> bool" where
  "well_formed_step s \<longleftrightarrow>
     (\<not> ts_Captured s \<longrightarrow> ts_CapturedAt s = None \<and> ts_Source s = [] \<and> ts_SourceHash s = [] \<and> ts_Events s = [])"

lemma applyCapture_frame [simp]:
  "ts_Seq (applyCapture ev s) = ts_Seq s" "ts_Kind (applyCapture ev s) = ts_Kind s"
  "ts_Captured (applyCapture ev s)" "ts_CapturedAt (applyCapture ev s) = timePtr (of_ObservedAt ev)"
  by (simp_all add: applyCapture_def captureFrom_def Let_def)

lemma emptyStep_frame [simp]:
  "ts_Seq (emptyStep n k l t) = n" "ts_Kind (emptyStep n k l t) = k" "\<not> ts_Captured (emptyStep n k l t)"
  "ts_CapturedAt (emptyStep n k l t) = None" "well_formed_step (emptyStep n k l t)"
  "ts_Source (emptyStep n k l t) = []" "ts_SourceHash (emptyStep n k l t) = []" "ts_Events (emptyStep n k l t) = []"
  by (simp_all add: emptyStep_def well_formed_step_def)

lemma with_capture_frame [simp]:
  "ts_Seq (with_capture ev s) = ts_Seq s" "ts_Kind (with_capture ev s) = ts_Kind s"
  "well_formed_step s \<Longrightarrow> well_formed_step (with_capture ev s)"
  by (simp_all add: with_capture_def well_formed_step_def split: option.split)

lemma first_event_in: "first_event events = Some ev \<Longrightarrow> ev \<in> set events"
  by (cases events) (auto simp: first_event_def)

definition ladder_kinds :: "string list" where
  "ladder_kinds = [''MERCHANT_PAYOUT_INSTRUCTION'', ''RAZORPAY_PAYOUT_CREATED'', ''VALIDATION_ELIGIBILITY'',
     ''APPROVAL_GOVERNANCE'', ''ROUTING_RAIL_SELECTION'', ''PAYOUT_SUBMITTED_TO_RAIL'', ''PROVIDER_BANK_RESPONSE'',
     ''PAYOUT_STATUS_UPDATES'', ''UTR_BANK_REFERENCE'', ''SETTLEMENT_ACCOUNTING_RECORD'', ''BANK_SIDE_CASH_MOVEMENT'',
     ''ZORD_RECONCILIATION'', ''RECONCILIATION_DECISION'', ''EVIDENCE_AUDIT_TRAIL'']"

lemma created_step_frame:
  "ts_Seq (created_step f evs) = 2 \<and> ts_Kind (created_step f evs) = ''RAZORPAY_PAYOUT_CREATED''
   \<and> well_formed_step (created_step f evs)"
  by (simp add: created_step_def well_formed_step_def Let_def with_capture_def split: option.split)

lemma routing_step_frame:
  "ts_Seq (routing_step f evs) = 5 \<and> ts_Kind (routing_step f evs) = ''ROUTING_RAIL_SELECTION''
   \<and> well_formed_step (routing_step f evs) \<and> ts_CapturedAt (routing_step f evs) = None"
  by (simp add: routing_step_def well_formed_step_def emptyStep_def Let_def)

lemma status_step_frame:
  "ts_Seq (status_step evs) = 8 \<and> ts_Kind (status_step evs) = ''PAYOUT_STATUS_UPDATES''
   \<and> well_formed_step (status_step evs)"
  by (simp add: status_step_def well_formed_step_def emptyStep_def Let_def)

lemma utr_step_frame:
  "ts_Seq (utr_step f evs) = 9 \<and> ts_Kind (utr_step f evs) = ''UTR_BANK_REFERENCE''
   \<and> well_formed_step (utr_step f evs)"
  by (simp add: utr_step_def well_formed_step_def Let_def split: option.split)

lemma settlement_step_frame:
  "ts_Seq (settlement_step f) = 10 \<and> ts_Kind (settlement_step f) = ''SETTLEMENT_ACCOUNTING_RECORD''
   \<and> well_formed_step (settlement_step f)"
  by (simp add: settlement_step_def well_formed_step_def emptyStep_def Let_def split: option.split)

lemma bank_step_frame:
  "ts_Seq (bank_step f r) = 11 \<and> ts_Kind (bank_step f r) = ''BANK_SIDE_CASH_MOVEMENT''
   \<and> well_formed_step (bank_step f r)"
  by (simp add: bank_step_def well_formed_step_def emptyStep_def Let_def split: option.split)

lemma recon_steps_frame:
  "map ts_Seq (recon_steps r) = [12, 13, 14]"
  "map ts_Kind (recon_steps r) = [''ZORD_RECONCILIATION'', ''RECONCILIATION_DECISION'', ''EVIDENCE_AUDIT_TRAIL'']"
  "list_all well_formed_step (recon_steps r)"
  by (simp_all add: recon_steps_def well_formed_step_def Let_def split: option.split)

lemmas step_frames = created_step_frame routing_step_frame status_step_frame utr_step_frame settlement_step_frame
  bank_step_frame

text \<open>
  The timeline of any payment or payout has the same fourteen steps in the same order, numbered
  1 to 14, whatever was captured; a step that was not captured shows no time, source or event.
\<close>

theorem timeline_is_the_fixed_ladder:
  "map ts_Seq (et_Steps (BuildEntityTimeline f)) = [1..<15]
   \<and> map ts_Kind (et_Steps (BuildEntityTimeline f)) = ladder_kinds
   \<and> list_all well_formed_step (et_Steps (BuildEntityTimeline f))"
proof -
  have "[1..<15] = [1 :: nat, 2, 3, 4, 5, 6, 7, 8, 9, 10, 11] @ [12, 13, 14]" by (simp add: upt_rec)
  then show ?thesis
    by (simp only: BuildEntityTimeline_def timeline_steps_def Let_def EntityTimeline.simps map_append list_all_append
        recon_steps_frame)
      (simp add: step_frames ladder_kinds_def)
qed

section \<open>Capture times\<close>

text \<open>The times at which the system learned something: observations, files, statements, runs.\<close>

definition ingest_times :: "timelineFacts \<Rightarrow> time set" where
  "ingest_times f = of_ObservedAt ` set (tf_Events f) \<union> {tf_FirstObservedAt f}
     \<union> sl_SettledAt ` set (tf_Lines f) \<union> bt_ValueDate ` set (tf_Banks f)
     \<union> fr_CreatedAt ` set_option (tf_Result f)"

lemma timePtr_Some [simp]: "timePtr t = Some u \<longleftrightarrow> u = t \<and> \<not> IsZero t"
  by (auto simp: timePtr_def)

lemma reannotate_CreatedAt [simp]: "fr_CreatedAt (reannotate e m fr) = fr_CreatedAt fr"
  by (simp add: reannotate_def Let_def frame_simps)

lemma with_capture_time:
  "ts_CapturedAt (with_capture ev (emptyStep n k l t)) = Some u \<Longrightarrow>
   \<exists>e. ev = Some e \<and> u = of_ObservedAt e \<and> \<not> IsZero u"
  by (auto simp: with_capture_def split: option.splits)

lemma created_step_time:
  "ts_CapturedAt (created_step f evs) = Some u \<Longrightarrow> \<not> IsZero u \<and> (u \<in> of_ObservedAt ` set evs \<or> u = tf_FirstObservedAt f)"
  by (auto simp: created_step_def Let_def with_capture_def split: option.splits if_splits dest: first_event_in)

lemma status_step_time:
  "ts_CapturedAt (status_step evs) = Some u \<Longrightarrow> \<not> IsZero u \<and> u \<in> of_ObservedAt ` set evs"
proof -
  let ?caps = "map captureFrom (filter (\<lambda>ev. \<not> IsZero (of_ObservedAt ev)) evs)"
  assume u: "ts_CapturedAt (status_step evs) = Some u"
  then have ne: "?caps \<noteq> []" and eq: "u = tc_CapturedAt (last ?caps)" "\<not> IsZero u"
    by (auto simp: status_step_def Let_def split: if_splits)
  from last_in_set [OF ne] eq show ?thesis by (auto simp: captureFrom_def)
qed

lemma firstUTR_in: "firstUTR evs = Some ev \<Longrightarrow> ev \<in> set evs"
  by (auto simp: firstUTR_def dest: find_SomeD)

lemma utr_step_time:
  "ts_CapturedAt (utr_step f evs) = Some u \<Longrightarrow> \<not> IsZero u \<and> u \<in> of_ObservedAt ` set evs"
  by (auto simp: utr_step_def Let_def split: option.splits if_splits dest!: first_event_in firstUTR_in)

lemma settlement_step_time:
  "ts_CapturedAt (settlement_step f) = Some u \<Longrightarrow> \<not> IsZero u \<and> u \<in> sl_SettledAt ` set (tf_Lines f)"
  by (auto simp: settlement_step_def settlementForEntity_def Let_def split: option.splits if_splits dest!: find_SomeD)

lemma bankForEntity_in: "bankForEntity banks utr r = Some b \<Longrightarrow> b \<in> set banks"
  by (auto simp: bankForEntity_def Let_def split: option.splits if_splits dest!: find_SomeD)

lemma run_result_in: "run_result r = Some fr \<Longrightarrow> r = Some fr"
  by (auto simp: run_result_def split: option.splits if_splits)

lemma bank_step_time:
  "ts_CapturedAt (bank_step f r) = Some u \<Longrightarrow>
     \<not> IsZero u \<and> (u \<in> bt_ValueDate ` set (tf_Banks f) \<or> u \<in> fr_CreatedAt ` set_option r)"
  by (auto simp: bank_step_def Let_def split: option.splits if_splits dest!: bankForEntity_in run_result_in)

lemma recon_steps_time:
  "s \<in> set (recon_steps (run_result r)) \<Longrightarrow> ts_CapturedAt s = Some u \<Longrightarrow> \<not> IsZero u \<and> u \<in> fr_CreatedAt ` set_option r"
  by (auto simp: recon_steps_def Let_def split: option.splits if_splits dest!: run_result_in)

text \<open>
  The capture time of a step is always a time at which something was ingested: of an
  observation, the first observation kept on the record, a settlement line, a bank row or the
  run's result; it is never unset and never the provider's own clock.
\<close>

theorem capture_times_are_ingest_times:
  assumes "s \<in> set (et_Steps (BuildEntityTimeline f))" and "ts_CapturedAt s = Some u"
  shows "u \<in> ingest_times f \<and> \<not> IsZero u"
proof -
  let ?r = "map_option (reannotate (tf_EntityType f) (tf_Mode f)) (tf_Result f)"
  let ?evs = "sortObservations (tf_Events f)"
  have r: "fr_CreatedAt ` set_option ?r = fr_CreatedAt ` set_option (tf_Result f)"
    by (cases "tf_Result f") simp_all
  have open_in: "firstMatching ?evs isOpenProviderStatus = Some e \<Longrightarrow> e \<in> set (tf_Events f)" for e
    by (auto simp: firstMatching_def dest!: find_SomeD)
  have first_in: "first_event ?evs = Some e \<Longrightarrow> e \<in> set (tf_Events f)" for e
    using first_event_in [of ?evs e] by simp
  from assms(1) consider "s \<in> set (recon_steps (run_result ?r))" | "s = created_step f ?evs" | "s = routing_step f ?evs"
    | "s = status_step ?evs" | "s = utr_step f ?evs" | "s = settlement_step f" | "s = bank_step f ?r"
    | n k l t where "s = emptyStep n k l t"
    | n k l t where "s = with_capture (firstMatching ?evs isOpenProviderStatus) (emptyStep n k l t)"
    | n k l t where "s = with_capture (first_event ?evs) (emptyStep n k l t)"
    by (simp add: BuildEntityTimeline_def timeline_steps_def Let_def) metis
  then show ?thesis
    unfolding ingest_times_def using assms(2) r
    by cases (auto dest!: recon_steps_time created_step_time status_step_time utr_step_time settlement_step_time
        bank_step_time with_capture_time open_in first_in simp: routing_step_frame)
qed

section \<open>What a timeline shows\<close>

lemma et_Steps_nth:
  "et_Steps (BuildEntityTimeline f) ! 7 = status_step (sortObservations (tf_Events f))"
  by (simp add: BuildEntityTimeline_def timeline_steps_def Let_def)

lemma status_step_events:
  "ts_Events (status_step evs) = map captureFrom (filter (\<lambda>ev. \<not> IsZero (of_ObservedAt ev)) evs)"
  by (simp add: status_step_def Let_def)

lemma run_result_annotated: "run_result (map_option (reannotate e m) r) = map_option (reannotate e m) (run_result r)"
  by (simp add: run_result_def split: option.split)

lemma timeline_verdict:
  "et_ReconRun (BuildEntityTimeline f) \<longleftrightarrow> run_result (tf_Result f) \<noteq> None"
  "map_option (\<lambda>r. (tr_Result r, tr_Reason r)) (et_Reconciliation (BuildEntityTimeline f))
     = map_option (\<lambda>fr. (fr_Result fr, fr_Reason fr)) (run_result (tf_Result f))"
  by (simp_all add: BuildEntityTimeline_def Let_def run_result_annotated timeline_recon_def option.map_comp comp_def)

lemma buildTimeline_Inr:
  assumes "buildTimeline env facts s = (Inr t, s')" and "tf_Result facts = None"
  shows "fst s' = fst s" and "et_EntityID t = tf_EntityID facts"
    and "let stored = run_result (GetReconciliationResult (tf_EntityType facts, tf_EntityID facts) (fst s))
      in (et_ReconRun t \<longleftrightarrow> stored \<noteq> None)
       \<and> map_option (\<lambda>r. (tr_Result r, tr_Reason r)) (et_Reconciliation t)
           = map_option (\<lambda>fr. (fr_Result fr, fr_Reason fr)) stored"
    and "ts_Events (et_Steps t ! 7) = map captureFrom (filter (\<lambda>ev. \<not> IsZero (of_ObservedAt ev))
          (sortObservations (tf_Events facts)))"
  using assms
  by (auto simp: buildTimeline_def bindE_Inr returnE_Inr reads_Inr timeline_verdict et_Steps_nth status_step_events
      Let_def BuildEntityTimeline_def [THEN arg_cong [where f = et_EntityID]] run_result_def
      split: option.splits if_splits)

text \<open>
  A payout's timeline shows what is stored and changes nothing: it is answered for a stored payout
  only, says that reconciliation ran exactly when a result other than \<^verbatim>\<open>not_run\<close> is stored and then
  repeats its verdict and reason, and lists in time order exactly the observations with a time.
\<close>

theorem payout_timeline_shows_what_is_stored:
  assumes "PayoutTimeline env i (m, n) = (Inr (Some t), (m', n'))"
  shows "m' = m
    \<and> (\<exists>po. GetCanonicalPayoutFact i m = Some po \<and> et_EntityID t = po_PayoutID po
       \<and> (let stored = run_result (GetReconciliationResult (EntityPayout, po_PayoutID po) m)
          in (et_ReconRun t \<longleftrightarrow> stored \<noteq> None)
           \<and> map_option (\<lambda>r. (tr_Result r, tr_Reason r)) (et_Reconciliation t)
               = map_option (\<lambda>fr. (fr_Result fr, fr_Reason fr)) stored)
       \<and> mset (ts_Events (et_Steps t ! 7)) = image_mset captureFrom
           (filter_mset (\<lambda>ev. \<not> IsZero (of_ObservedAt ev)) (mset (ms_PayoutEvents m (po_PayoutID po))))
       \<and> sorted (map tc_CapturedAt (ts_Events (et_Steps t ! 7))))"
proof -
  obtain po k where po: "GetCanonicalPayoutFact i m = Some po"
    and b: "buildTimeline env (payout_facts po (ms_PayoutEvents m (po_PayoutID po))) (m, k) = (Inr t, (m', n'))"
    using assms by (auto simp: PayoutTimeline_def bindE_Inr reads_Inr returnE_Inr split: option.splits)
  have facts: "tf_Result (payout_facts po evs) = None" "tf_EntityID (payout_facts po evs) = po_PayoutID po"
      "tf_EntityType (payout_facts po evs) = EntityPayout" "tf_Events (payout_facts po evs) = evs" for evs
    by (simp_all add: payout_facts_def)
  note built = buildTimeline_Inr [OF b facts(1), unfolded facts fst_conv]
  have "map tc_CapturedAt (map captureFrom evs) = map of_ObservedAt evs" for evs
    by (simp add: captureFrom_def)
  with sortObservations_times have "sorted (map tc_CapturedAt (ts_Events (et_Steps t ! 7)))"
    unfolding built(4) by metis
  moreover have "mset (ts_Events (et_Steps t ! 7)) = image_mset captureFrom
      (filter_mset (\<lambda>ev. \<not> IsZero (of_ObservedAt ev)) (mset (ms_PayoutEvents m (po_PayoutID po))))"
    by (simp add: built(4))
  ultimately show ?thesis using po built(1-3) by auto
qed

section \<open>Witnesses\<close>

definition sample_timeline_facts :: timelineFacts where
  "sample_timeline_facts = payout_facts (zero_PayoutFact\<lparr>po_PayoutID := ''pout_1''\<rparr>)
     [zero_ObservationFact\<lparr>of_ObservedAt := 7\<rparr>]"

lemma capture_times_are_ingest_times_witness: "7 \<in> ingest_times sample_timeline_facts"
proof -
  have "et_Steps (BuildEntityTimeline sample_timeline_facts) ! 7
      \<in> set (et_Steps (BuildEntityTimeline sample_timeline_facts))"
    by (rule nth_mem) (simp add: BuildEntityTimeline_def timeline_steps_def Let_def)
  moreover have "ts_CapturedAt (et_Steps (BuildEntityTimeline sample_timeline_facts) ! 7) = Some 7"
    by (simp add: et_Steps_nth sample_timeline_facts_def payout_facts_def sortObservations_def SliceStable_def
        status_step_def captureFrom_def IsZero_def)
  ultimately show ?thesis using capture_times_are_ingest_times by blast
qed

definition sample_timeline_store :: MemoryFinancialStore where
  "sample_timeline_store = NewMemoryFinancialStore\<lparr>ms_Payouts := [zero_PayoutFact\<lparr>po_PayoutID := ''pout_1''\<rparr>],
     ms_PayoutEvents := (\<lambda>_. [zero_ObservationFact\<lparr>of_ObservedAt := 7\<rparr>])\<rparr>"

lemma payout_timeline_shows_what_is_stored_witness:
  "\<exists>t m n. PayoutTimeline sample_query ''pout_1'' (sample_timeline_store, 0) = (Inr (Some t), (m, n))
     \<and> m = sample_timeline_store \<and> et_EntityID t = ''pout_1''"
proof -
  have po: "GetCanonicalPayoutFact ''pout_1'' sample_timeline_store = Some (zero_PayoutFact\<lparr>po_PayoutID := ''pout_1''\<rparr>)"
    by (simp add: GetCanonicalPayoutFact_def sample_timeline_store_def)
  have reads: "reads sample_env g (m, n) = (Inr (g m), (m, Suc n))"
    for g :: "MemoryFinancialStore \<Rightarrow> 'a" and m n
    by (simp add: reads_def call_def attempt_def sample_env_def)
  obtain t m n where run: "PayoutTimeline sample_query ''pout_1'' (sample_timeline_store, 0) = (Inr (Some t), (m, n))"
    by (simp add: PayoutTimeline_def bindE_def buildTimeline_def reads po returnE_def)
  show ?thesis using payout_timeline_shows_what_is_stored [OF run] run by (auto simp: po)
qed

end
