(* ===== verification/PaymentTruth.thy ===== *)
theory PaymentTruth
  imports ProviderStatus Facts
begin

text \<open>
  \<^verbatim>\<open>paymenttruth/types.go\<close>, \<^verbatim>\<open>reducer.go\<close>, \<^verbatim>\<open>identity.go\<close> and \<^verbatim>\<open>mapper.go\<close>: how the
  observations of a payment, from webhooks and from the provider's API, are reduced to one current
  state.  \<open>pay_step\<close> is the state machine the reducer is meant to follow; the lemmas show that
  the reducer makes exactly its moves, that its settled states are closed, and that observations
  that carry no refund may come in any order.  \<open>sha\<close> stands for the hexadecimal SHA-256 digest of
  the external package.
\<close>

abbreviation (input) IntentLinked :: string where "IntentLinked \<equiv> ''linked''"
abbreviation (input) IntentUnlinked :: string where "IntentUnlinked \<equiv> ''unlinked''"

record NeutralPayment =
  np_PaymentID :: string
  np_OrderID :: string
  np_AmountMinor :: int64
  np_Currency :: string
  np_Status :: string
  np_ProviderStatus :: string
  np_Method :: string
  np_Captured :: bool
  np_FeeMinor :: int64
  np_TaxMinor :: int64
  np_CreatedAt :: time
  np_CapturedAt :: time
  np_Email :: string
  np_Contact :: string
  np_Notes :: "(string \<times> string) list"
  np_PayloadHash :: string

record Observation =
  pob_TenantID :: string
  pob_ConnectorID :: string
  pob_Provider :: string
  pob_ProviderMode :: string
  pob_PaymentID :: string
  pob_OrderID :: string
  pob_AmountMinor :: int64
  pob_Currency :: string
  pob_Method :: string
  pob_ProviderStatus :: string
  pob_CanonicalStatus :: string
  pob_Captured :: bool
  pob_FeeMinor :: int64
  pob_TaxMinor :: int64
  pob_ProviderCreatedAt :: time
  pob_CapturedAt :: time
  pob_ObservedAt :: time
  pob_Source :: string
  pob_SourceEventID :: string
  pob_SourceHash :: string
  pob_RawReference :: string
  pob_IdentityHash :: string
  pob_ReceiptID :: string
  pob_WebhookMissing :: bool
  pob_Email :: string
  pob_Contact :: string

record CanonicalPayment =
  cp_ID :: string
  cp_TenantID :: string
  cp_ConnectorID :: string
  cp_Provider :: string
  cp_PaymentID :: string
  cp_OrderID :: string
  cp_AmountMinor :: int64
  cp_Currency :: string
  cp_Method :: string
  cp_ProviderStatus :: string
  cp_CanonicalStatus :: string
  cp_Captured :: bool
  cp_FeeMinor :: int64
  cp_TaxMinor :: int64
  cp_ProviderCreatedAt :: time
  cp_CapturedAt :: time
  cp_FirstObservedAt :: time
  cp_LastObservedAt :: time
  cp_Sources :: "string list"
  cp_IntentID :: string
  cp_IntentLink :: string
  cp_BatchID :: string

definition zero_CanonicalPayment :: CanonicalPayment where
  "zero_CanonicalPayment = \<lparr>cp_ID = [], cp_TenantID = [], cp_ConnectorID = [], cp_Provider = [],
     cp_PaymentID = [], cp_OrderID = [], cp_AmountMinor = 0, cp_Currency = [], cp_Method = [],
     cp_ProviderStatus = [], cp_CanonicalStatus = [], cp_Captured = False, cp_FeeMinor = 0,
     cp_TaxMinor = 0, cp_ProviderCreatedAt = 0, cp_CapturedAt = 0, cp_FirstObservedAt = 0,
     cp_LastObservedAt = 0, cp_Sources = [], cp_IntentID = [], cp_IntentLink = [], cp_BatchID = []\<rparr>"

section \<open>Status\<close>

definition Rank :: "string \<Rightarrow> int" where
  "Rank status =
     (if status = PaymentCreated then 1
      else if status = PaymentAuthorized then 2
      else if status = PaymentCaptured then 3
      else if status = PaymentPartiallyRefunded then 4
      else if status = PaymentRefunded then 5
      else if status = PaymentFailed then 2
      else 0)"

definition IsFailed :: "string \<Rightarrow> bool" where
  "IsFailed status \<longleftrightarrow> status = PaymentFailed"

definition IsCapturedOrLater :: "string \<Rightarrow> bool" where
  "IsCapturedOrLater status \<longleftrightarrow> status \<in> {PaymentCaptured, PaymentPartiallyRefunded, PaymentRefunded}"

definition isRefund :: "string \<Rightarrow> bool" where
  "isRefund status \<longleftrightarrow> status = PaymentRefunded \<or> status = PaymentPartiallyRefunded"

definition nextStatus :: "string \<Rightarrow> string \<Rightarrow> string \<Rightarrow> string \<Rightarrow> string \<times> string" where
  "nextStatus current currentProvider incoming incomingProvider =
     (if current = [] then (incoming, incomingProvider)
      else if incoming = PaymentFailed then
        (if IsCapturedOrLater current then (current, currentProvider)
         else (PaymentFailed, incomingProvider))
      else if isRefund incoming then
        (if (current = PaymentCaptured \<or> isRefund current) \<and> Rank incoming \<ge> Rank current
         then (incoming, incomingProvider) else (current, currentProvider))
      else if current = PaymentFailed \<and> IsCapturedOrLater incoming then (incoming, incomingProvider)
      else if current = PaymentFailed then (current, currentProvider)
      else if Rank incoming \<ge> Rank current then (incoming, incomingProvider)
      else (current, currentProvider))"

section \<open>Sources and identity\<close>

definition normalizeSource :: "string \<Rightarrow> string" where
  "normalizeSource source =
     (let s = ToLower (TrimSpace source)
      in if s = ''webhook'' then ''webhook''
         else if s \<in> {''api_backfill'', ''api'', ''razorpay_api''} then ''api_backfill''
         else if s = ''api_poll'' then ''api_poll''
         else if TrimSpace source = [] then ''api_backfill''
         else s)"

definition appendUnique :: "string list \<Rightarrow> string \<Rightarrow> string list" where
  "appendUnique existing source =
     (let source = normalizeSource source
      in if list_ex (\<lambda>s. normalizeSource s = source) existing then existing
         else existing @ [source])"

definition RawReference :: "string \<Rightarrow> string" where
  "RawReference receiptID =
     (let receiptID = TrimSpace receiptID
      in if receiptID = [] then [] else ''receipt:'' @ receiptID)"

definition ObservationIdentityHash :: "(string \<Rightarrow> string) \<Rightarrow> string \<Rightarrow> string \<Rightarrow> string \<Rightarrow> string
    \<Rightarrow> string \<Rightarrow> string \<Rightarrow> string \<Rightarrow> string" where
  "ObservationIdentityHash sha tenantID connectorID provider paymentID source sourceEventID sourceHash =
     (let provider = (if provider = [] then ''razorpay'' else provider);
          source = normalizeSource source
      in sha (str_join [TrimSpace tenantID, TrimSpace connectorID, TrimSpace provider,
           TrimSpace paymentID, source, TrimSpace sourceEventID, TrimSpace sourceHash] ''|''))"

section \<open>The reducer\<close>

definition canonicalFromObservation :: "Observation \<Rightarrow> CanonicalPayment" where
  "canonicalFromObservation ob = \<lparr>cp_ID = [], cp_TenantID = pob_TenantID ob,
     cp_ConnectorID = pob_ConnectorID ob, cp_Provider = pob_Provider ob,
     cp_PaymentID = pob_PaymentID ob, cp_OrderID = pob_OrderID ob,
     cp_AmountMinor = pob_AmountMinor ob, cp_Currency = pob_Currency ob, cp_Method = pob_Method ob,
     cp_ProviderStatus = pob_ProviderStatus ob, cp_CanonicalStatus = pob_CanonicalStatus ob,
     cp_Captured = (IsCapturedOrLater (pob_CanonicalStatus ob) \<or> pob_Captured ob),
     cp_FeeMinor = pob_FeeMinor ob, cp_TaxMinor = pob_TaxMinor ob,
     cp_ProviderCreatedAt = pob_ProviderCreatedAt ob, cp_CapturedAt = pob_CapturedAt ob,
     cp_FirstObservedAt = 0, cp_LastObservedAt = 0, cp_Sources = [normalizeSource (pob_Source ob)],
     cp_IntentID = [], cp_IntentLink = IntentUnlinked, cp_BatchID = []\<rparr>"

text \<open>The fields of the known payment that an observation fills in or replaces.\<close>

definition merge_fields :: "CanonicalPayment \<Rightarrow> Observation \<Rightarrow> CanonicalPayment" where
  "merge_fields current ob = current\<lparr>cp_LastObservedAt := pob_ObservedAt ob,
     cp_Sources := appendUnique (cp_Sources current) (pob_Source ob),
     cp_OrderID := (if pob_OrderID ob \<noteq> [] \<and> cp_OrderID current = [] then pob_OrderID ob
                    else cp_OrderID current),
     cp_Method := (if pob_Method ob \<noteq> [] \<and> cp_Method current = [] then pob_Method ob
                   else cp_Method current),
     cp_AmountMinor := (if 0 <s pob_AmountMinor ob then pob_AmountMinor ob else cp_AmountMinor current),
     cp_Currency := (if pob_Currency ob \<noteq> [] then pob_Currency ob else cp_Currency current),
     cp_FeeMinor := (if pob_FeeMinor ob \<noteq> 0 then pob_FeeMinor ob else cp_FeeMinor current),
     cp_TaxMinor := (if pob_TaxMinor ob \<noteq> 0 then pob_TaxMinor ob else cp_TaxMinor current),
     cp_ProviderCreatedAt := (if IsZero (cp_ProviderCreatedAt current) \<and> \<not> IsZero (pob_ProviderCreatedAt ob)
                              then pob_ProviderCreatedAt ob else cp_ProviderCreatedAt current)\<rparr>"

definition ReducePaymentState :: "CanonicalPayment \<Rightarrow> Observation \<Rightarrow> CanonicalPayment" where
  "ReducePaymentState current ob =
     (if cp_PaymentID current = [] then
        (canonicalFromObservation ob)\<lparr>cp_FirstObservedAt := pob_ObservedAt ob,
           cp_LastObservedAt := pob_ObservedAt ob\<rparr>
      else
        let out = merge_fields current ob;
            (nxt, providerStatus) = nextStatus (cp_CanonicalStatus current) (cp_ProviderStatus current)
              (pob_CanonicalStatus ob) (pob_ProviderStatus ob);
            out = out\<lparr>cp_CanonicalStatus := nxt, cp_ProviderStatus := providerStatus,
                      cp_Captured := IsCapturedOrLater nxt\<rparr>
        in if cp_Captured out \<and> IsZero (cp_CapturedAt out) then
             (if \<not> IsZero (pob_CapturedAt ob) then out\<lparr>cp_CapturedAt := pob_CapturedAt ob\<rparr>
              else if nxt \<in> {PaymentCaptured, PaymentPartiallyRefunded, PaymentRefunded}
              then out\<lparr>cp_CapturedAt := pob_ObservedAt ob\<rparr>
              else out)
           else out)"

section \<open>From the provider's payment to an observation\<close>

definition validateNeutral :: "NeutralPayment \<Rightarrow> string option" where
  "validateNeutral item =
     (if TrimSpace (np_PaymentID item) = [] then Some ''payment_id is required''
      else if np_AmountMinor item <s 0 then Some ''amount must not be negative''
      else let cur = ToUpper (TrimSpace (np_Currency item))
           in if cur \<noteq> [] \<and> length cur \<noteq> 3 then Some ''invalid currency'' else None)"

definition neutral_fields :: "string \<Rightarrow> string \<Rightarrow> string \<Rightarrow> string \<Rightarrow> string \<Rightarrow> string \<Rightarrow> string
    \<Rightarrow> NeutralPayment \<Rightarrow> bool \<Rightarrow> time \<Rightarrow> Observation" where
  "neutral_fields tenantID connectorID provider mode source sourceEventID receiptID item
      webhookMissing observedAt =
     (let provider = (if provider = [] then ''razorpay'' else provider);
          providerStatus = TrimSpace (np_ProviderStatus item);
          providerStatus = (if providerStatus = [] then TrimSpace (np_Status item) else providerStatus);
          canonical = NormalizePaymentStatus providerStatus
      in \<lparr>pob_TenantID = tenantID, pob_ConnectorID = connectorID, pob_Provider = provider,
           pob_ProviderMode = mode, pob_PaymentID = TrimSpace (np_PaymentID item),
           pob_OrderID = TrimSpace (np_OrderID item), pob_AmountMinor = np_AmountMinor item,
           pob_Currency = ToUpper (TrimSpace (np_Currency item)),
           pob_Method = TrimSpace (np_Method item),
           pob_ProviderStatus = providerStatus, pob_CanonicalStatus = canonical,
           pob_Captured = (np_Captured item \<or> canonical = PaymentCaptured),
           pob_FeeMinor = np_FeeMinor item, pob_TaxMinor = np_TaxMinor item,
           pob_ProviderCreatedAt = np_CreatedAt item, pob_CapturedAt = np_CapturedAt item,
           pob_ObservedAt = observedAt, pob_Source = normalizeSource source,
           pob_SourceEventID = TrimSpace sourceEventID,
           pob_SourceHash = TrimSpace (np_PayloadHash item),
           pob_RawReference = RawReference receiptID, pob_IdentityHash = [],
           pob_ReceiptID = TrimSpace receiptID, pob_WebhookMissing = webhookMissing,
           pob_Email = np_Email item, pob_Contact = np_Contact item\<rparr>)"

text \<open>The defaults that \<open>MapNeutral\<close> fills in, in its order, and the identity hash.\<close>

definition fill_defaults :: "time \<Rightarrow> Observation \<Rightarrow> Observation" where
  "fill_defaults now ob = ob\<lparr>
     pob_Currency := (if pob_Currency ob = [] then ''INR'' else pob_Currency ob),
     pob_CapturedAt := (if pob_Captured ob \<and> IsZero (pob_CapturedAt ob) \<and> \<not> IsZero (pob_ProviderCreatedAt ob)
                        then pob_ProviderCreatedAt ob else pob_CapturedAt ob),
     pob_ObservedAt := (if IsZero (pob_ObservedAt ob) then now else pob_ObservedAt ob)\<rparr>"

definition with_identity :: "(string \<Rightarrow> string) \<Rightarrow> Observation \<Rightarrow> Observation" where
  "with_identity sha ob = ob\<lparr>pob_IdentityHash := ObservationIdentityHash sha (pob_TenantID ob)
     (pob_ConnectorID ob) (pob_Provider ob) (pob_PaymentID ob) (pob_Source ob)
     (pob_SourceEventID ob) (pob_SourceHash ob)\<rparr>"

definition MapNeutral :: "(string \<Rightarrow> string) \<Rightarrow> time \<Rightarrow> string \<Rightarrow> string \<Rightarrow> string \<Rightarrow> string \<Rightarrow> string
    \<Rightarrow> string \<Rightarrow> string \<Rightarrow> NeutralPayment \<Rightarrow> bool \<Rightarrow> time \<Rightarrow> string + Observation" where
  "MapNeutral sha now tenantID connectorID provider mode source sourceEventID receiptID item
      webhookMissing observedAt =
     (case validateNeutral item of
        Some e \<Rightarrow> Inl e
      | None \<Rightarrow>
        if TrimSpace tenantID = [] \<or> TrimSpace connectorID = []
        then Inl ''tenant_id and connector_id are required''
        else Inr (with_identity sha (fill_defaults now (neutral_fields tenantID connectorID provider
          mode source sourceEventID receiptID item webhookMissing observedAt))))"

definition validateObservation :: "Observation \<Rightarrow> string option" where
  "validateObservation ob =
     (if TrimSpace (pob_TenantID ob) = [] \<or> TrimSpace (pob_ConnectorID ob) = []
      then Some ''tenant_id and connector_id are required''
      else if TrimSpace (pob_PaymentID ob) = [] then Some ''payment_id is required''
      else if pob_AmountMinor ob <s 0 then Some ''amount must not be negative''
      else let cur = ToUpper (TrimSpace (pob_Currency ob))
           in if cur \<noteq> [] \<and> length cur \<noteq> 3 then Some ''invalid currency'' else None)"

section \<open>The state machine\<close>

text \<open>The moves of a payment, independent of how the reducer is written.\<close>

inductive pay_step :: "string \<Rightarrow> string \<Rightarrow> bool" where
  observed: "s \<in> {PaymentCreated, PaymentAuthorized, PaymentCaptured, PaymentFailed}
    \<Longrightarrow> pay_step PaymentUnknown s"
| authorize: "pay_step PaymentCreated PaymentAuthorized"
| fail: "s \<in> {PaymentCreated, PaymentAuthorized} \<Longrightarrow> pay_step s PaymentFailed"
| capture: "s \<in> {PaymentCreated, PaymentAuthorized, PaymentFailed} \<Longrightarrow> pay_step s PaymentCaptured"
| refund: "s \<in> {PaymentCaptured, PaymentPartiallyRefunded} \<Longrightarrow> pay_step s PaymentRefunded"
| refund_part: "pay_step PaymentCaptured PaymentPartiallyRefunded"

code_pred (modes: i \<Rightarrow> i \<Rightarrow> bool) pay_step .

inductive_simps pay_step_simps [simp]:
  "pay_step PaymentUnknown t" "pay_step PaymentCreated t" "pay_step PaymentAuthorized t"
  "pay_step PaymentFailed t" "pay_step PaymentCaptured t" "pay_step PaymentPartiallyRefunded t"
  "pay_step PaymentRefunded t"

inductive_cases pay_stepE: "pay_step s t"

definition pay_states :: "string set" where
  "pay_states = {PaymentUnknown, PaymentCreated, PaymentAuthorized, PaymentCaptured, PaymentFailed,
     PaymentRefunded, PaymentPartiallyRefunded}"

lemmas status_defs = Rank_def IsCapturedOrLater_def isRefund_def nextStatus_def

lemma pay_states_cases:
  assumes "s \<in> pay_states"
  obtains "s = PaymentUnknown" | "s = PaymentCreated" | "s = PaymentAuthorized" | "s = PaymentCaptured"
    | "s = PaymentFailed" | "s = PaymentRefunded" | "s = PaymentPartiallyRefunded"
proof -
  from assms have "s = PaymentUnknown \<or> s = PaymentCreated \<or> s = PaymentAuthorized
    \<or> s = PaymentCaptured \<or> s = PaymentFailed \<or> s = PaymentRefunded \<or> s = PaymentPartiallyRefunded"
    unfolding pay_states_def insert_iff empty_iff by simp
  then show thesis by (elim disjE) (rule that; assumption)+
qed

lemma NormalizePaymentStatus_states: "NormalizePaymentStatus s \<in> pay_states"
  using NormalizePaymentStatus_range [of s] by (auto simp: pay_states_def)

lemma nextStatus_follows:
  assumes "cur \<in> pay_states" and "inc \<in> pay_states"
  shows "nextStatus cur cp inc ip = (if pay_step cur inc \<or> cur = inc then (inc, ip) else (cur, cp))"
  by (rule pay_states_cases [OF assms(1)]; rule pay_states_cases [OF assms(2)]; simp add: status_defs)

lemma pay_step_states: "pay_step s t \<Longrightarrow> s \<in> pay_states \<and> t \<in> pay_states"
  by (erule pay_stepE; simp add: pay_states_def; elim disjE; simp)

lemma captured_closed_step: "pay_step s t \<Longrightarrow> IsCapturedOrLater s \<Longrightarrow> IsCapturedOrLater t"
  by (erule pay_stepE; simp add: IsCapturedOrLater_def; elim disjE; simp)

lemma captured_closed: "pay_step\<^sup>*\<^sup>* s t \<Longrightarrow> IsCapturedOrLater s \<Longrightarrow> IsCapturedOrLater t"
  by (induction rule: rtranclp_induct) (auto intro: captured_closed_step)

lemma Rank_step: "pay_step s t \<Longrightarrow> Rank s \<le> Rank t"
  by (erule pay_stepE; simp add: Rank_def; elim disjE; simp)

section \<open>What one reduction does\<close>

lemma reduce_status:
  "cp_PaymentID cur \<noteq> [] \<Longrightarrow> cp_CanonicalStatus (ReducePaymentState cur ob) =
     fst (nextStatus (cp_CanonicalStatus cur) (cp_ProviderStatus cur) (pob_CanonicalStatus ob) (pob_ProviderStatus ob))"
  by (simp add: ReducePaymentState_def merge_fields_def case_prod_beta Let_def)

lemma reduce_first:
  "cp_PaymentID cur = [] \<Longrightarrow> cp_CanonicalStatus (ReducePaymentState cur ob) = pob_CanonicalStatus ob"
  "cp_PaymentID cur = [] \<Longrightarrow> cp_PaymentID (ReducePaymentState cur ob) = pob_PaymentID ob"
  by (simp_all add: ReducePaymentState_def canonicalFromObservation_def)

lemma reduce_frame [simp]:
  "cp_PaymentID cur \<noteq> [] \<Longrightarrow> cp_PaymentID (ReducePaymentState cur ob) = cp_PaymentID cur"
  "cp_PaymentID cur \<noteq> [] \<Longrightarrow> cp_TenantID (ReducePaymentState cur ob) = cp_TenantID cur"
  "cp_PaymentID cur \<noteq> [] \<Longrightarrow> cp_ConnectorID (ReducePaymentState cur ob) = cp_ConnectorID cur"
  "cp_PaymentID cur \<noteq> [] \<Longrightarrow> cp_FirstObservedAt (ReducePaymentState cur ob) = cp_FirstObservedAt cur"
  "cp_PaymentID cur \<noteq> [] \<Longrightarrow> cp_ID (ReducePaymentState cur ob) = cp_ID cur"
  "cp_PaymentID cur \<noteq> [] \<Longrightarrow> cp_IntentID (ReducePaymentState cur ob) = cp_IntentID cur"
  "cp_PaymentID cur \<noteq> [] \<Longrightarrow> cp_IntentLink (ReducePaymentState cur ob) = cp_IntentLink cur"
  by (simp_all add: ReducePaymentState_def merge_fields_def case_prod_beta Let_def)

lemma reduce_captured:
  "cp_PaymentID cur \<noteq> [] \<Longrightarrow>
     cp_Captured (ReducePaymentState cur ob) = IsCapturedOrLater (cp_CanonicalStatus (ReducePaymentState cur ob))"
  by (simp add: ReducePaymentState_def merge_fields_def case_prod_beta Let_def)

lemma reduce_write_once:
  "cp_PaymentID cur \<noteq> [] \<Longrightarrow> cp_OrderID cur \<noteq> [] \<Longrightarrow> cp_OrderID (ReducePaymentState cur ob) = cp_OrderID cur"
  "cp_PaymentID cur \<noteq> [] \<Longrightarrow> cp_Method cur \<noteq> [] \<Longrightarrow> cp_Method (ReducePaymentState cur ob) = cp_Method cur"
  "cp_PaymentID cur \<noteq> [] \<Longrightarrow> \<not> IsZero (cp_ProviderCreatedAt cur) \<Longrightarrow>
     cp_ProviderCreatedAt (ReducePaymentState cur ob) = cp_ProviderCreatedAt cur"
  "cp_PaymentID cur \<noteq> [] \<Longrightarrow> \<not> IsZero (cp_CapturedAt cur) \<Longrightarrow>
     cp_CapturedAt (ReducePaymentState cur ob) = cp_CapturedAt cur"
  by (simp_all add: ReducePaymentState_def merge_fields_def case_prod_beta Let_def)

lemma reduce_sources:
  "cp_PaymentID cur \<noteq> [] \<Longrightarrow> cp_Sources (ReducePaymentState cur ob) = appendUnique (cp_Sources cur) (pob_Source ob)"
  by (simp add: ReducePaymentState_def merge_fields_def case_prod_beta Let_def)

lemma normalizeSource_literals [simp]:
  "normalizeSource ''webhook'' = ''webhook''" "normalizeSource ''api_backfill'' = ''api_backfill''"
  "normalizeSource ''api_poll'' = ''api_poll''"
  by (simp_all add: normalizeSource_def Let_def str_eval)

lemma normalizeSource_cases:
  "normalizeSource s \<in> {''webhook'', ''api_backfill'', ''api_poll''}
   \<or> normalizeSource s = ToLower (TrimSpace s) \<and> TrimSpace s \<noteq> []
      \<and> ToLower (TrimSpace s) \<notin> {''webhook'', ''api_backfill'', ''api'', ''razorpay_api'', ''api_poll''}"
  by (simp add: normalizeSource_def Let_def)

lemma normalizeSource_idem [simp]: "normalizeSource (normalizeSource s) = normalizeSource s"
  using normalizeSource_cases [of s]
proof
  assume *: "normalizeSource s = ToLower (TrimSpace s) \<and> TrimSpace s \<noteq> []
      \<and> ToLower (TrimSpace s) \<notin> {''webhook'', ''api_backfill'', ''api'', ''razorpay_api'', ''api_poll''}"
  then have "normalizeSource (ToLower (TrimSpace s)) = ToLower (TrimSpace s)"
    by (simp add: normalizeSource_def [of "ToLower (TrimSpace s)"] Let_def)
  with * show ?thesis by simp
qed auto

lemma appendUnique_distinct:
  "distinct (map normalizeSource ss) \<Longrightarrow> distinct (map normalizeSource (appendUnique ss s))"
  by (auto simp: appendUnique_def Let_def list_ex_iff)

section \<open>Every history of a payment\<close>

definition reduce_all :: "CanonicalPayment \<Rightarrow> Observation list \<Rightarrow> CanonicalPayment" where
  "reduce_all = foldl ReducePaymentState"

lemma reduce_all_simps [simp]:
  "reduce_all cur [] = cur"
  "reduce_all cur (ob # obs) = reduce_all (ReducePaymentState cur ob) obs"
  "reduce_all cur (obs @ [ob]) = ReducePaymentState (reduce_all cur obs) ob"
  by (simp_all add: reduce_all_def)

lemma reduce_all_frame [simp]:
  "cp_PaymentID cur \<noteq> [] \<Longrightarrow> cp_PaymentID (reduce_all cur obs) = cp_PaymentID cur"
  "cp_PaymentID cur \<noteq> [] \<Longrightarrow> cp_FirstObservedAt (reduce_all cur obs) = cp_FirstObservedAt cur"
  by (induction obs arbitrary: cur) simp_all

lemma reduce_status_step:
  assumes "cp_PaymentID cur \<noteq> []" "cp_CanonicalStatus cur \<in> pay_states" "pob_CanonicalStatus ob \<in> pay_states"
  shows "cp_CanonicalStatus (ReducePaymentState cur ob) =
     (if pay_step (cp_CanonicalStatus cur) (pob_CanonicalStatus ob) then pob_CanonicalStatus ob
      else cp_CanonicalStatus cur)"
  by (simp add: reduce_status [OF assms(1)] nextStatus_follows [OF assms(2,3)])

lemma reduce_status_known:
  assumes "cp_PaymentID cur \<noteq> []" "cp_CanonicalStatus cur \<in> pay_states" "pob_CanonicalStatus ob \<in> pay_states"
  shows "cp_CanonicalStatus (ReducePaymentState cur ob) \<in> pay_states"
  using assms by (simp add: reduce_status_step)

lemma reduce_all_reaches:
  assumes "cp_PaymentID cur \<noteq> []" "cp_CanonicalStatus cur \<in> pay_states"
    and "\<And>ob. ob \<in> set obs \<Longrightarrow> pob_CanonicalStatus ob \<in> pay_states"
  shows "pay_step\<^sup>*\<^sup>* (cp_CanonicalStatus cur) (cp_CanonicalStatus (reduce_all cur obs))"
  using assms
proof (induction obs arbitrary: cur)
  case (Cons ob obs)
  have "pob_CanonicalStatus ob \<in> pay_states" using Cons.prems(3) by simp
  note step = Cons.prems(1,2) this
  have "pay_step\<^sup>*\<^sup>* (cp_CanonicalStatus cur) (cp_CanonicalStatus (ReducePaymentState cur ob))"
    using reduce_status_step [OF step] by (simp add: r_into_rtranclp)
  moreover have "pay_step\<^sup>*\<^sup>* (cp_CanonicalStatus (ReducePaymentState cur ob))
      (cp_CanonicalStatus (reduce_all (ReducePaymentState cur ob) obs))"
    by (rule Cons.IH) (use Cons.prems reduce_status_known [OF step] in auto)
  ultimately show ?case by simp
qed simp

subsection \<open>Observations without a refund commute\<close>

definition pay_level :: "string \<Rightarrow> nat" where
  "pay_level s = (if s = PaymentUnknown then 0 else if s = PaymentCreated then 1
     else if s = PaymentAuthorized then 2 else if s = PaymentFailed then 3
     else if s = PaymentCaptured then 4 else 5)"

definition before_refund :: "string \<Rightarrow> bool" where
  "before_refund s \<longleftrightarrow> s \<in> pay_states \<and> \<not> isRefund s"

lemma before_refund_cases:
  assumes "before_refund s"
  obtains "s = PaymentUnknown" | "s = PaymentCreated" | "s = PaymentAuthorized" | "s = PaymentCaptured"
    | "s = PaymentFailed"
proof -
  have "s \<in> pay_states" "\<not> isRefund s" using assms by (simp_all add: before_refund_def)
  then show thesis by (rule_tac pay_states_cases [of s]) (simp_all add: isRefund_def that)
qed

lemma pay_step_level:
  assumes "before_refund s" and "before_refund t"
  shows "pay_step s t \<longleftrightarrow> pay_level s < pay_level t"
  by (rule before_refund_cases [OF assms(1)]; rule before_refund_cases [OF assms(2)])
     (simp_all add: pay_level_def)

lemma pay_level_inj:
  assumes "before_refund s" and "before_refund t" and "pay_level s = pay_level t"
  shows "s = t"
  using assms(3)
  by (rule_tac before_refund_cases [OF assms(1)]; rule_tac before_refund_cases [OF assms(2)])
     (simp_all add: pay_level_def)

definition plain_obs :: "Observation \<Rightarrow> bool" where
  "plain_obs ob \<longleftrightarrow> pob_PaymentID ob \<noteq> [] \<and> before_refund (pob_CanonicalStatus ob)"

text \<open>Without refunds the status is the highest one observed.\<close>

lemma reduce_all_highest:
  assumes "obs \<noteq> []" and "\<forall>ob \<in> set obs. plain_obs ob"
  shows "cp_PaymentID (reduce_all zero_CanonicalPayment obs) \<noteq> []
    \<and> cp_CanonicalStatus (reduce_all zero_CanonicalPayment obs) \<in> pob_CanonicalStatus ` set obs
    \<and> (\<forall>ob \<in> set obs. pay_level (pob_CanonicalStatus ob)
         \<le> pay_level (cp_CanonicalStatus (reduce_all zero_CanonicalPayment obs)))"
  using assms
proof (induction obs rule: rev_induct)
  case (snoc ob obs)
  let ?cur = "reduce_all zero_CanonicalPayment obs"
  have ob: "before_refund (pob_CanonicalStatus ob)" "pob_PaymentID ob \<noteq> []"
    using snoc.prems by (simp_all add: plain_obs_def)
  show ?case
  proof (cases "obs = []")
    case True
    then show ?thesis using ob by (simp add: reduce_first zero_CanonicalPayment_def)
  next
    case False
    with snoc have IH: "cp_PaymentID ?cur \<noteq> []" "cp_CanonicalStatus ?cur \<in> pob_CanonicalStatus ` set obs"
      "\<forall>ob \<in> set obs. pay_level (pob_CanonicalStatus ob) \<le> pay_level (cp_CanonicalStatus ?cur)"
      by simp_all
    have cur: "before_refund (cp_CanonicalStatus ?cur)"
      using IH(2) snoc.prems by (auto simp: plain_obs_def)
    have "cp_CanonicalStatus (ReducePaymentState ?cur ob) =
       (if pay_level (cp_CanonicalStatus ?cur) < pay_level (pob_CanonicalStatus ob)
        then pob_CanonicalStatus ob else cp_CanonicalStatus ?cur)"
      using cur ob by (simp add: reduce_status_step IH(1) before_refund_def pay_step_level)
    then show ?thesis using IH by (auto intro: order_trans less_imp_le)
  qed
qed simp

text \<open>
  C12.  The reducer is exactly the state machine \<open>pay_step\<close>: over the provider's seven statuses, an
  observation moves a known payment if and only if the machine has that move, and otherwise leaves
  its status alone; the provider's own status changes with it, the flag \<open>Captured\<close> is the captured
  states', and tenant, connector, payment and first observation never change.
\<close>

theorem reducer_is_the_state_machine:
  assumes "cp_PaymentID cur \<noteq> []" and "cp_CanonicalStatus cur \<in> pay_states"
    and "pob_CanonicalStatus ob \<in> pay_states"
  shows "cp_CanonicalStatus (ReducePaymentState cur ob) =
       (if pay_step (cp_CanonicalStatus cur) (pob_CanonicalStatus ob) then pob_CanonicalStatus ob
        else cp_CanonicalStatus cur)
    \<and> cp_ProviderStatus (ReducePaymentState cur ob) =
       (if pay_step (cp_CanonicalStatus cur) (pob_CanonicalStatus ob)
           \<or> cp_CanonicalStatus cur = pob_CanonicalStatus ob
        then pob_ProviderStatus ob else cp_ProviderStatus cur)
    \<and> cp_Captured (ReducePaymentState cur ob) = IsCapturedOrLater (cp_CanonicalStatus (ReducePaymentState cur ob))
    \<and> cp_TenantID (ReducePaymentState cur ob) = cp_TenantID cur
    \<and> cp_ConnectorID (ReducePaymentState cur ob) = cp_ConnectorID cur
    \<and> cp_PaymentID (ReducePaymentState cur ob) = cp_PaymentID cur
    \<and> cp_FirstObservedAt (ReducePaymentState cur ob) = cp_FirstObservedAt cur"
proof -
  have "cp_ProviderStatus (ReducePaymentState cur ob) =
      snd (nextStatus (cp_CanonicalStatus cur) (cp_ProviderStatus cur) (pob_CanonicalStatus ob) (pob_ProviderStatus ob))"
    using assms(1) by (simp add: ReducePaymentState_def merge_fields_def case_prod_beta Let_def)
  with assms show ?thesis
    by (simp add: reduce_status_step reduce_captured nextStatus_follows)
qed

text \<open>
  A payment never goes back: along every sequence of observations its status moves by steps of
  the machine, so a payment that was captured, refunded or partially refunded is one of these three
  for ever, its rank never falls, and it stays marked as captured.
\<close>

theorem captured_payment_stays_captured:
  assumes "cp_PaymentID cur \<noteq> []" and "cp_CanonicalStatus cur \<in> pay_states"
    and "\<forall>ob \<in> set obs. pob_CanonicalStatus ob \<in> pay_states"
  shows "pay_step\<^sup>*\<^sup>* (cp_CanonicalStatus cur) (cp_CanonicalStatus (reduce_all cur obs))
    \<and> Rank (cp_CanonicalStatus cur) \<le> Rank (cp_CanonicalStatus (reduce_all cur obs))
    \<and> (IsCapturedOrLater (cp_CanonicalStatus cur) \<and> cp_Captured cur \<longrightarrow>
         IsCapturedOrLater (cp_CanonicalStatus (reduce_all cur obs)) \<and> cp_Captured (reduce_all cur obs))"
proof -
  have reach: "pay_step\<^sup>*\<^sup>* (cp_CanonicalStatus cur) (cp_CanonicalStatus (reduce_all cur obs))"
    by (rule reduce_all_reaches) (use assms in auto)
  moreover from reach have "Rank (cp_CanonicalStatus cur) \<le> Rank (cp_CanonicalStatus (reduce_all cur obs))"
    by (induction rule: rtranclp_induct) (auto intro: order_trans Rank_step)
  moreover have "cp_Captured (reduce_all cur obs)"
    if "IsCapturedOrLater (cp_CanonicalStatus (reduce_all cur obs))" "cp_Captured cur"
    using that assms(1)
    by (cases obs rule: rev_cases) (simp_all add: reduce_captured)
  ultimately show ?thesis using captured_closed by blast
qed

text \<open>
  C13.  Deliveries may be reordered: two histories with the same observations of a payment, none of
  them a refund, end in the same status, whatever the order in which webhooks and polls delivered
  them.
\<close>

theorem status_independent_of_delivery_order:
  assumes "mset obs = mset obs'" and "\<forall>ob \<in> set obs. plain_obs ob"
  shows "cp_CanonicalStatus (reduce_all zero_CanonicalPayment obs)
       = cp_CanonicalStatus (reduce_all zero_CanonicalPayment obs')"
proof (cases "obs = []")
  case False
  have same: "set obs = set obs'" using assms(1) by (rule mset_eq_setD)
  have ne: "obs' \<noteq> []" using False assms(1) by auto
  let ?s = "cp_CanonicalStatus (reduce_all zero_CanonicalPayment obs)"
  let ?t = "cp_CanonicalStatus (reduce_all zero_CanonicalPayment obs')"
  note h = reduce_all_highest [OF False assms(2)] reduce_all_highest [OF ne assms(2) [unfolded same]]
  have "pay_level ?s \<le> pay_level ?t" "pay_level ?t \<le> pay_level ?s" using h same by auto
  moreover have "before_refund ?s" "before_refund ?t" using h assms(2) same by (auto simp: plain_obs_def)
  ultimately show ?thesis by (intro pay_level_inj) auto
qed (use assms(1) in simp)

section \<open>Well-formed payments\<close>

definition valid_obs :: "Observation \<Rightarrow> bool" where
  "valid_obs ob \<longleftrightarrow> TrimSpace (pob_TenantID ob) \<noteq> [] \<and> TrimSpace (pob_ConnectorID ob) \<noteq> []
     \<and> TrimSpace (pob_PaymentID ob) = pob_PaymentID ob \<and> pob_PaymentID ob \<noteq> []
     \<and> pob_CanonicalStatus ob \<in> pay_states \<and> \<not> pob_AmountMinor ob <s 0
     \<and> length (pob_Currency ob) = 3 \<and> ToUpper (TrimSpace (pob_Currency ob)) = pob_Currency ob
     \<and> normalizeSource (pob_Source ob) = pob_Source ob
     \<and> (pob_CanonicalStatus ob = PaymentCaptured \<longrightarrow> pob_Captured ob)"

definition valid_payment :: "CanonicalPayment \<Rightarrow> bool" where
  "valid_payment p \<longleftrightarrow> TrimSpace (cp_PaymentID p) = cp_PaymentID p \<and> cp_PaymentID p \<noteq> []
     \<and> cp_CanonicalStatus p \<in> pay_states \<and> \<not> cp_AmountMinor p <s 0 \<and> length (cp_Currency p) = 3
     \<and> ToUpper (TrimSpace (cp_Currency p)) = cp_Currency p \<and> cp_Sources p \<noteq> [] \<and> distinct (cp_Sources p) \<and> (\<forall>s \<in> set (cp_Sources p). normalizeSource s = s)
     \<and> (IsCapturedOrLater (cp_CanonicalStatus p) \<longrightarrow> cp_Captured p)"

lemma MapNeutral_valid:
  assumes "MapNeutral sha now tenantID connectorID provider mode source ev receiptID item wm seenAt = Inr ob"
  shows "valid_obs ob"
proof -
  let ?ob = "fill_defaults now (neutral_fields tenantID connectorID provider mode source ev receiptID item wm seenAt)"
  have ob: "ob = with_identity sha ?ob" and v: "validateNeutral item = None"
    and ids: "TrimSpace tenantID \<noteq> []" "TrimSpace connectorID \<noteq> []"
    using assms by (auto simp: MapNeutral_def split: option.splits if_splits)
  have inr: "ToUpper (TrimSpace ''INR'') = ''INR''" by (simp add: str_eval)
  show ?thesis
    using v ids NormalizePaymentStatus_states
    unfolding ob by (simp add: valid_obs_def with_identity_def fill_defaults_def neutral_fields_def Let_def
        validateNeutral_def inr split: if_splits) blast
qed

lemma valid_obs_accepted: "valid_obs ob \<Longrightarrow> validateObservation ob = None"
  by (simp add: valid_obs_def validateObservation_def Let_def)

lemma appendUnique_normal:
  assumes "\<forall>s \<in> set ss. normalizeSource s = s" and "distinct ss"
  shows "distinct (appendUnique ss s) \<and> (\<forall>s \<in> set (appendUnique ss s). normalizeSource s = s)
    \<and> appendUnique ss s \<noteq> []"
  using assms by (auto simp: appendUnique_def Let_def list_ex_iff)

lemma reduce_valid_first:
  "cp_PaymentID cur = [] \<Longrightarrow> valid_obs ob \<Longrightarrow> valid_payment (ReducePaymentState cur ob)"
  by (simp add: ReducePaymentState_def canonicalFromObservation_def valid_payment_def valid_obs_def)

lemma reduce_valid:
  assumes "valid_payment cur" and "valid_obs ob"
  shows "valid_payment (ReducePaymentState cur ob)"
proof -
  have ne: "cp_PaymentID cur \<noteq> []" using assms(1) by (simp add: valid_payment_def)
  have "\<not> cp_AmountMinor (ReducePaymentState cur ob) <s 0 \<and> length (cp_Currency (ReducePaymentState cur ob)) = 3
      \<and> ToUpper (TrimSpace (cp_Currency (ReducePaymentState cur ob))) = cp_Currency (ReducePaymentState cur ob)"
    using assms by (simp add: ReducePaymentState_def merge_fields_def case_prod_beta Let_def ne
        valid_payment_def valid_obs_def)
  moreover have "cp_CanonicalStatus (ReducePaymentState cur ob) \<in> pay_states"
    using assms by (intro reduce_status_known) (simp_all add: ne valid_payment_def valid_obs_def)
  moreover have "distinct (appendUnique (cp_Sources cur) (pob_Source ob))
      \<and> (\<forall>s \<in> set (appendUnique (cp_Sources cur) (pob_Source ob)). normalizeSource s = s)
      \<and> appendUnique (cp_Sources cur) (pob_Source ob) \<noteq> []"
    using assms(1) by (intro appendUnique_normal) (simp_all add: valid_payment_def)
  ultimately show ?thesis
    using assms(1) by (simp add: valid_payment_def ne reduce_sources reduce_captured)
qed

lemma reduce_all_valid:
  assumes "valid_payment cur" and "\<forall>ob \<in> set obs. valid_obs ob"
  shows "valid_payment (reduce_all cur obs)"
  using assms by (induction obs arbitrary: cur) (simp_all add: reduce_valid)

text \<open>An observation that \<open>MapNeutral\<close> accepted, by a clock that is set.\<close>

definition mapped_obs :: "(string \<Rightarrow> string) \<Rightarrow> Observation \<Rightarrow> bool" where
  "mapped_obs sha ob \<longleftrightarrow> (\<exists>now tenantID connectorID provider mode source ev receiptID item wm seenAt.
     \<not> IsZero now
   \<and> MapNeutral sha now tenantID connectorID provider mode source ev receiptID item wm seenAt = Inr ob)"

lemma mapped_obs_valid: "mapped_obs sha ob \<Longrightarrow> valid_obs ob \<and> \<not> IsZero (pob_ObservedAt ob)"
  unfolding mapped_obs_def
proof (elim exE conjE, intro conjI)
  fix now tenantID connectorID provider mode source ev receiptID item wm seenAt
  assume now: "\<not> IsZero now"
    and ob: "MapNeutral sha now tenantID connectorID provider mode source ev receiptID item wm seenAt = Inr ob"
  show "valid_obs ob" by (rule MapNeutral_valid [OF ob])
  show "\<not> IsZero (pob_ObservedAt ob)"
    using ob now by (auto simp: MapNeutral_def with_identity_def fill_defaults_def split: option.splits if_splits)
qed

text \<open>
  The capture of a payment as its observations account for it.  The first one decides alone whether
  the payment counts as captured when it carries the flag; from the second on the flag is the status.
\<close>

definition capture_explained :: "Observation list \<Rightarrow> CanonicalPayment \<Rightarrow> bool" where
  "capture_explained obs p \<longleftrightarrow>
     (cp_Captured p \<longleftrightarrow> IsCapturedOrLater (cp_CanonicalStatus p) \<or> (length obs = 1 \<and> pob_Captured (hd obs)))
   \<and> (cp_Captured p \<longrightarrow> \<not> IsZero (cp_CapturedAt p) \<or> (length obs = 1 \<and> IsZero (pob_CapturedAt (hd obs))))
   \<and> (\<not> IsZero (cp_CapturedAt p) \<longrightarrow> (\<exists>ob \<in> set obs. cp_CapturedAt p = pob_CapturedAt ob
        \<or> (cp_CapturedAt p = pob_ObservedAt ob \<and> IsZero (pob_CapturedAt ob) \<and> IsCapturedOrLater (cp_CanonicalStatus p))))"

lemma reduce_capture_time:
  "cp_PaymentID cur \<noteq> [] \<Longrightarrow> cp_CapturedAt (ReducePaymentState cur ob) =
     (if IsCapturedOrLater (cp_CanonicalStatus (ReducePaymentState cur ob)) \<and> IsZero (cp_CapturedAt cur)
      then if IsZero (pob_CapturedAt ob) then pob_ObservedAt ob else pob_CapturedAt ob else cp_CapturedAt cur)"
  by (auto simp: ReducePaymentState_def merge_fields_def case_prod_beta Let_def IsCapturedOrLater_def)

lemma reduce_capture:
  assumes "valid_payment cur" and "valid_obs ob" and "\<not> IsZero (pob_ObservedAt ob)" and "obs \<noteq> []"
    and "capture_explained obs cur"
  shows "capture_explained (obs @ [ob]) (ReducePaymentState cur ob)"
proof -
  let ?p = "ReducePaymentState cur ob"
  have ne: "cp_PaymentID cur \<noteq> []" "cp_CanonicalStatus cur \<in> pay_states" "pob_CanonicalStatus ob \<in> pay_states"
    using assms(1,2) by (simp_all add: valid_payment_def valid_obs_def)
  have later: "IsCapturedOrLater (cp_CanonicalStatus ?p)" if "IsCapturedOrLater (cp_CanonicalStatus cur)"
    using that captured_closed_step by (simp add: reduce_status_step [OF ne])
  have time: "cp_CapturedAt ?p = (if IsCapturedOrLater (cp_CanonicalStatus ?p) \<and> IsZero (cp_CapturedAt cur)
      then if IsZero (pob_CapturedAt ob) then pob_ObservedAt ob else pob_CapturedAt ob else cp_CapturedAt cur)"
    by (rule reduce_capture_time [OF ne(1)])
  have flag: "cp_Captured ?p = IsCapturedOrLater (cp_CanonicalStatus ?p)" by (rule reduce_captured [OF ne(1)])
  have "\<exists>x \<in> set (obs @ [ob]). cp_CapturedAt ?p = pob_CapturedAt x
      \<or> (cp_CapturedAt ?p = pob_ObservedAt x \<and> IsZero (pob_CapturedAt x) \<and> IsCapturedOrLater (cp_CanonicalStatus ?p))"
    if "\<not> IsZero (cp_CapturedAt ?p)"
  proof (cases "IsCapturedOrLater (cp_CanonicalStatus ?p) \<and> IsZero (cp_CapturedAt cur)")
    case True
    then show ?thesis using time by auto
  next
    case False
    then have "cp_CapturedAt ?p = cp_CapturedAt cur" using time by auto
    then show ?thesis using assms(5) that later unfolding capture_explained_def by auto
  qed
  moreover have "\<not> IsZero (cp_CapturedAt ?p)" if "cp_Captured ?p"
    using that flag time assms(3) by auto
  ultimately show ?thesis using flag assms(4) by (simp add: capture_explained_def)
qed

lemma reduce_all_capture:
  assumes "obs \<noteq> []" and "\<forall>ob \<in> set obs. valid_obs ob \<and> \<not> IsZero (pob_ObservedAt ob)"
  shows "valid_payment (reduce_all zero_CanonicalPayment obs)
    \<and> capture_explained obs (reduce_all zero_CanonicalPayment obs)"
  using assms
proof (induction obs rule: rev_induct)
  case (snoc ob obs)
  show ?case
  proof (cases "obs = []")
    case True
    then have "valid_payment (reduce_all zero_CanonicalPayment (obs @ [ob]))"
      using snoc.prems by (simp add: reduce_valid_first zero_CanonicalPayment_def)
    moreover have "capture_explained (obs @ [ob]) (reduce_all zero_CanonicalPayment (obs @ [ob]))"
      by (auto simp: True zero_CanonicalPayment_def capture_explained_def ReducePaymentState_def
          canonicalFromObservation_def)
    ultimately show ?thesis ..
  next
    case False
    then show ?thesis
      using snoc by (simp add: reduce_valid reduce_capture)
  qed
qed simp

text \<open>
  C16.  Type of a payment: whatever the provider sends, the payment built from the observations that
  \<open>MapNeutral\<close> lets through has a trimmed nonempty identifier, one of the seven statuses, an amount
  that is not negative, a currency of three letters and sources that are normal and distinct.  It is
  flagged as captured exactly when its status is a captured one, or when its only observation carries
  the flag; a captured payment has a capture time unless its only observation has none; and a capture
  time is one that an observation reports, or the time an observation without one was seen, then of
  a payment in a captured status.
\<close>

theorem payment_well_formed:
  assumes "obs \<noteq> []" and "\<forall>ob \<in> set obs. mapped_obs sha ob"
  shows "valid_payment (reduce_all zero_CanonicalPayment obs)
    \<and> capture_explained obs (reduce_all zero_CanonicalPayment obs)"
  using assms mapped_obs_valid by (intro reduce_all_capture) blast+

text \<open>
  A refund that is delivered before the capture is lost: it is no move of an authorized payment,
  and the capture that follows does not bring it back, so the same three observations end as
  captured in one order and as refunded in the other.
\<close>

theorem refund_before_capture_is_lost:
  assumes "pob_PaymentID a \<noteq> []" and "pob_CanonicalStatus a = PaymentAuthorized"
    and "pob_CanonicalStatus c = PaymentCaptured" and "pob_CanonicalStatus r = PaymentRefunded"
  shows "cp_CanonicalStatus (reduce_all zero_CanonicalPayment [a, r, c]) = PaymentCaptured
    \<and> cp_CanonicalStatus (reduce_all zero_CanonicalPayment [a, c, r]) = PaymentRefunded"
  using assms
  by (simp add: reduce_status_step reduce_first zero_CanonicalPayment_def pay_states_def)

subsection \<open>Witnesses\<close>

definition sample_item :: "string \<Rightarrow> NeutralPayment" where
  "sample_item status = \<lparr>np_PaymentID = ''pay_1'', np_OrderID = ''order_1'', np_AmountMinor = 5000,
     np_Currency = ''inr'', np_Status = status, np_ProviderStatus = status, np_Method = ''upi'',
     np_Captured = False, np_FeeMinor = 0, np_TaxMinor = 0, np_CreatedAt = 7, np_CapturedAt = 0,
     np_Email = [], np_Contact = [], np_Notes = [], np_PayloadHash = ''h''\<rparr>"

definition sample_obs :: "string \<Rightarrow> Observation" where
  "sample_obs status = (case MapNeutral (\<lambda>s. s) 9 ''t'' ''c'' [] ''test'' ''webhook'' ''evt'' [] (sample_item status) False 8 of
     Inr ob \<Rightarrow> ob | Inl e \<Rightarrow> undefined)"

lemma sample_item_valid: "validateNeutral (sample_item status) = None"
  by (simp add: validateNeutral_def sample_item_def Let_def str_eval word_sless_alt)

lemma sample_obs_mapped:
  "MapNeutral (\<lambda>s. s) 9 ''t'' ''c'' [] ''test'' ''webhook'' ''evt'' [] (sample_item status) False 8 = Inr (sample_obs status)"
  by (simp add: sample_obs_def MapNeutral_def sample_item_valid str_eval)

lemma sample_obs_fields:
  "pob_PaymentID (sample_obs status) = ''pay_1''"
  "pob_CanonicalStatus (sample_obs status) = NormalizePaymentStatus (TrimSpace status)"
proof -
  have "sample_obs status = with_identity (\<lambda>s. s) (fill_defaults 9 (neutral_fields ''t'' ''c'' []
      ''test'' ''webhook'' ''evt'' [] (sample_item status) False 8))"
    by (simp add: sample_obs_def MapNeutral_def sample_item_valid str_eval)
  then show "pob_PaymentID (sample_obs status) = ''pay_1''"
    "pob_CanonicalStatus (sample_obs status) = NormalizePaymentStatus (TrimSpace status)"
    by (simp_all add: with_identity_def fill_defaults_def neutral_fields_def sample_item_def Let_def)
       (simp add: str_eval)
qed

lemma sample_obs_is_mapped: "mapped_obs (\<lambda>s. s) (sample_obs status)"
  unfolding mapped_obs_def using sample_obs_mapped by (metis IsZero_def zero_neq_numeral)

lemma reducer_is_the_state_machine_witness:
  "cp_CanonicalStatus (ReducePaymentState (reduce_all zero_CanonicalPayment [sample_obs ''captured'']) (sample_obs ''failed''))
     = PaymentCaptured"
  using reducer_is_the_state_machine
    [of "reduce_all zero_CanonicalPayment [sample_obs ''captured'']" "sample_obs ''failed''"]
  by (simp add: reduce_first zero_CanonicalPayment_def sample_obs_fields pay_states_def
      NormalizePaymentStatus_def Let_def str_eval)

lemma captured_payment_stays_captured_witness:
  "cp_Captured (reduce_all (reduce_all zero_CanonicalPayment [sample_obs ''captured''])
     [sample_obs ''authorized'', sample_obs ''failed''])"
  using captured_payment_stays_captured
    [of "reduce_all zero_CanonicalPayment [sample_obs ''captured'']" "[sample_obs ''authorized'', sample_obs ''failed'']"]
  by (simp add: reduce_first zero_CanonicalPayment_def sample_obs_fields pay_states_def
      NormalizePaymentStatus_def Let_def str_eval ReducePaymentState_def canonicalFromObservation_def
      IsCapturedOrLater_def)

lemma status_independent_of_delivery_order_witness:
  "cp_CanonicalStatus (reduce_all zero_CanonicalPayment [sample_obs ''failed'', sample_obs ''captured''])
     = cp_CanonicalStatus (reduce_all zero_CanonicalPayment [sample_obs ''captured'', sample_obs ''failed''])"
  by (rule status_independent_of_delivery_order)
    (simp_all add: plain_obs_def sample_obs_fields before_refund_def pay_states_def isRefund_def
      NormalizePaymentStatus_def Let_def str_eval)

lemma payment_well_formed_witness:
  "valid_payment (reduce_all zero_CanonicalPayment [sample_obs ''authorized'', sample_obs ''captured''])
   \<and> \<not> IsZero (cp_CapturedAt (reduce_all zero_CanonicalPayment [sample_obs ''authorized'', sample_obs ''captured'']))"
  using payment_well_formed [where sha = "\<lambda>s. s" and obs = "[sample_obs ''authorized'', sample_obs ''captured'']"]
  by (simp add: sample_obs_is_mapped capture_explained_def reduce_captured reduce_status_step reduce_first
      zero_CanonicalPayment_def sample_obs_fields pay_states_def NormalizePaymentStatus_def Let_def str_eval
      IsCapturedOrLater_def)

lemma refund_before_capture_is_lost_witness:
  "cp_CanonicalStatus (reduce_all zero_CanonicalPayment
     [sample_obs ''authorized'', sample_obs ''refunded'', sample_obs ''captured'']) = PaymentCaptured"
  using refund_before_capture_is_lost
    [of "sample_obs ''authorized''" "sample_obs ''captured''" "sample_obs ''refunded''"]
  by (simp add: sample_obs_fields NormalizePaymentStatus_def Let_def str_eval)

end
