(* ===== verification/PayoutTruth.thy ===== *)
theory PayoutTruth
  imports ProviderStatus Facts
begin

text \<open>
  \<^verbatim>\<open>payouttruth/types.go\<close> and the pure part of \<^verbatim>\<open>payouttruth/processor.go\<close>: the
  reduction of a payout's observations.  The reducer's two guards on processed payouts turn out to
  be implied by the ranks, so the status kept is one of highest rank; the lemmas draw the
  consequences for the order of delivery.  \<open>sha\<close> is the hexadecimal SHA-256 digest of the external
  package.
\<close>

record NeutralPayout =
  npo_PayoutID :: string
  npo_AmountMinor :: int64
  npo_Currency :: string
  npo_Status :: string
  npo_UTR :: string
  npo_Mode :: string
  npo_Purpose :: string
  npo_ReferenceID :: string
  npo_StatusReason :: string
  npo_CreatedAt :: time
  npo_PayloadHash :: string

record PayoutObservation =
  qob_TenantID :: string
  qob_ConnectorID :: string
  qob_Provider :: string
  qob_PayoutID :: string
  qob_AmountMinor :: int64
  qob_Currency :: string
  qob_ProviderStatus :: string
  qob_UTR :: string
  qob_Mode :: string
  qob_Purpose :: string
  qob_StatusReason :: string
  qob_ProviderCreatedAt :: time
  qob_ObservedAt :: time
  qob_Source :: string
  qob_SourceEventID :: string
  qob_SourceHash :: string
  qob_RawReference :: string
  qob_IdentityHash :: string

record CanonicalPayout =
  cq_ID :: string
  cq_TenantID :: string
  cq_ConnectorID :: string
  cq_Provider :: string
  cq_PayoutID :: string
  cq_AmountMinor :: int64
  cq_Currency :: string
  cq_ProviderStatus :: string
  cq_UTR :: string
  cq_Mode :: string
  cq_Purpose :: string
  cq_StatusReason :: string
  cq_ProviderCreatedAt :: time
  cq_FirstObservedAt :: time
  cq_LastObservedAt :: time
  cq_Sources :: "string list"

definition zero_CanonicalPayout :: CanonicalPayout where
  "zero_CanonicalPayout = \<lparr>cq_ID = [], cq_TenantID = [], cq_ConnectorID = [], cq_Provider = [],
     cq_PayoutID = [], cq_AmountMinor = 0, cq_Currency = [], cq_ProviderStatus = [], cq_UTR = [],
     cq_Mode = [], cq_Purpose = [], cq_StatusReason = [], cq_ProviderCreatedAt = 0,
     cq_FirstObservedAt = 0, cq_LastObservedAt = 0, cq_Sources = []\<rparr>"

section \<open>The reducer\<close>

definition nextPayoutStatus :: "string \<Rightarrow> string \<Rightarrow> string" where
  "nextPayoutStatus current incoming =
     (let cur = NormalizePayoutStatus current; inc = NormalizePayoutStatus incoming
      in if cur = [] then inc
         else if IsPayoutProcessed cur \<and> IsPayoutFailedLike inc then cur
         else if IsPayoutProcessed cur \<and> IsPayoutOpen inc then cur
         else if PayoutRank inc \<ge> PayoutRank cur then inc
         else cur)"

definition appendUniqueExact :: "string list \<Rightarrow> string \<Rightarrow> string list" where
  "appendUniqueExact existing source = (if source \<in> set existing then existing else existing @ [source])"

definition Reduce :: "CanonicalPayout \<Rightarrow> PayoutObservation \<Rightarrow> CanonicalPayout" where
  "Reduce current ob =
     (if cq_PayoutID current = [] then
        \<lparr>cq_ID = [], cq_TenantID = qob_TenantID ob, cq_ConnectorID = qob_ConnectorID ob,
         cq_Provider = qob_Provider ob, cq_PayoutID = qob_PayoutID ob,
         cq_AmountMinor = qob_AmountMinor ob, cq_Currency = qob_Currency ob,
         cq_ProviderStatus = qob_ProviderStatus ob, cq_UTR = qob_UTR ob, cq_Mode = qob_Mode ob,
         cq_Purpose = qob_Purpose ob, cq_StatusReason = qob_StatusReason ob,
         cq_ProviderCreatedAt = qob_ProviderCreatedAt ob, cq_FirstObservedAt = qob_ObservedAt ob,
         cq_LastObservedAt = qob_ObservedAt ob, cq_Sources = [qob_Source ob]\<rparr>
      else current\<lparr>cq_LastObservedAt := qob_ObservedAt ob,
         cq_Sources := appendUniqueExact (cq_Sources current) (qob_Source ob),
         cq_AmountMinor := (if 0 <s qob_AmountMinor ob then qob_AmountMinor ob else cq_AmountMinor current),
         cq_Currency := (if qob_Currency ob \<noteq> [] then qob_Currency ob else cq_Currency current),
         cq_UTR := (if qob_UTR ob \<noteq> [] then qob_UTR ob else cq_UTR current),
         cq_Mode := (if qob_Mode ob \<noteq> [] then qob_Mode ob else cq_Mode current),
         cq_Purpose := (if qob_Purpose ob \<noteq> [] then qob_Purpose ob else cq_Purpose current),
         cq_StatusReason := (if qob_StatusReason ob \<noteq> [] then qob_StatusReason ob else cq_StatusReason current),
         cq_ProviderCreatedAt := (if IsZero (cq_ProviderCreatedAt current) \<and> \<not> IsZero (qob_ProviderCreatedAt ob)
                                  then qob_ProviderCreatedAt ob else cq_ProviderCreatedAt current),
         cq_ProviderStatus := nextPayoutStatus (cq_ProviderStatus current) (qob_ProviderStatus ob)\<rparr>)"

section \<open>From the provider's payout to an observation\<close>

definition IdentityHash :: "(string \<Rightarrow> string) \<Rightarrow> string \<Rightarrow> string \<Rightarrow> string \<Rightarrow> string \<Rightarrow> string
    \<Rightarrow> string \<Rightarrow> string \<Rightarrow> string" where
  "IdentityHash sha tenantID connectorID provider payoutID source sourceEventID sourceHash =
     (let provider = (if provider = [] then ''razorpay'' else provider)
      in sha (str_join [tenantID, connectorID, provider, payoutID, source, sourceEventID, sourceHash] ''|''))"

definition MapNeutralPayout :: "(string \<Rightarrow> string) \<Rightarrow> string \<Rightarrow> string \<Rightarrow> string \<Rightarrow> string \<Rightarrow> string
    \<Rightarrow> NeutralPayout \<Rightarrow> time \<Rightarrow> string + PayoutObservation" where
  "MapNeutralPayout sha tenantID connectorID provider source sourceEventID item observedAt =
     (if TrimSpace (npo_PayoutID item) = [] then Inl ''payout_id is required''
      else
        let hash = (if npo_PayloadHash item = []
                    then sha (npo_PayoutID item @ ''|'' @ npo_Status item @ ''|'' @ sourceEventID)
                    else npo_PayloadHash item)
        in Inr \<lparr>qob_TenantID = tenantID, qob_ConnectorID = connectorID, qob_Provider = provider,
             qob_PayoutID = npo_PayoutID item, qob_AmountMinor = npo_AmountMinor item,
             qob_Currency = npo_Currency item,
             qob_ProviderStatus = NormalizePayoutStatus (npo_Status item), qob_UTR = npo_UTR item,
             qob_Mode = npo_Mode item, qob_Purpose = npo_Purpose item,
             qob_StatusReason = npo_StatusReason item, qob_ProviderCreatedAt = npo_CreatedAt item,
             qob_ObservedAt = observedAt, qob_Source = source, qob_SourceEventID = sourceEventID,
             qob_SourceHash = hash, qob_RawReference = [],
             qob_IdentityHash = IdentityHash sha tenantID connectorID provider (npo_PayoutID item)
               source sourceEventID hash\<rparr>)"

section \<open>The reducer keeps a status of highest rank\<close>

lemma processed_rank:
  "IsPayoutProcessed s \<Longrightarrow> PayoutRank s = 5"
  "IsPayoutFailedLike s \<Longrightarrow> PayoutRank s = 4"
  "IsPayoutOpen s \<Longrightarrow> PayoutRank s \<le> 4"
  by (auto simp: IsPayoutProcessed_def IsPayoutFailedLike_def IsPayoutOpen_def PayoutRank_def Let_def)

lemma nextPayoutStatus_rank:
  "nextPayoutStatus current incoming =
     (if NormalizePayoutStatus current = [] \<or> PayoutRank current \<le> PayoutRank incoming
      then NormalizePayoutStatus incoming else NormalizePayoutStatus current)"
proof -
  have "PayoutRank incoming < PayoutRank current"
    if "IsPayoutProcessed current" "IsPayoutFailedLike incoming \<or> IsPayoutOpen incoming"
    using that processed_rank by fastforce
  then show ?thesis by (simp add: nextPayoutStatus_def Let_def) force
qed

lemma PayoutRank_empty [simp]: "NormalizePayoutStatus s = [] \<Longrightarrow> PayoutRank s = 0"
  by (simp add: PayoutRank_def)

lemma PayoutRank_nonneg [simp]: "0 \<le> PayoutRank s"
  using PayoutRank_range [of s] by simp

lemma rank_nextPayoutStatus:
  "PayoutRank (nextPayoutStatus current incoming) = max (PayoutRank current) (PayoutRank incoming)"
  by (simp add: nextPayoutStatus_rank max_def)

lemma Reduce_status:
  "cq_PayoutID cur \<noteq> [] \<Longrightarrow>
     cq_ProviderStatus (Reduce cur ob) = nextPayoutStatus (cq_ProviderStatus cur) (qob_ProviderStatus ob)"
  "cq_PayoutID cur = [] \<Longrightarrow> cq_ProviderStatus (Reduce cur ob) = qob_ProviderStatus ob"
  by (simp_all add: Reduce_def)

lemma Reduce_frame [simp]:
  "cq_PayoutID cur \<noteq> [] \<Longrightarrow> cq_PayoutID (Reduce cur ob) = cq_PayoutID cur"
  "cq_PayoutID cur = [] \<Longrightarrow> cq_PayoutID (Reduce cur ob) = qob_PayoutID ob"
  "cq_PayoutID cur \<noteq> [] \<Longrightarrow> cq_TenantID (Reduce cur ob) = cq_TenantID cur"
  "cq_PayoutID cur \<noteq> [] \<Longrightarrow> cq_ConnectorID (Reduce cur ob) = cq_ConnectorID cur"
  "cq_PayoutID cur \<noteq> [] \<Longrightarrow> cq_ID (Reduce cur ob) = cq_ID cur"
  "cq_PayoutID cur \<noteq> [] \<Longrightarrow> cq_FirstObservedAt (Reduce cur ob) = cq_FirstObservedAt cur"
  by (simp_all add: Reduce_def)

definition reduce_payout :: "CanonicalPayout \<Rightarrow> PayoutObservation list \<Rightarrow> CanonicalPayout" where
  "reduce_payout = foldl Reduce"

lemma reduce_payout_simps [simp]:
  "reduce_payout cur [] = cur"
  "reduce_payout cur (ob # obs) = reduce_payout (Reduce cur ob) obs"
  "reduce_payout cur (obs @ [ob]) = Reduce (reduce_payout cur obs) ob"
  by (simp_all add: reduce_payout_def)

definition payout_obs :: "PayoutObservation \<Rightarrow> bool" where
  "payout_obs ob \<longleftrightarrow> qob_PayoutID ob \<noteq> [] \<and> NormalizePayoutStatus (qob_ProviderStatus ob) = qob_ProviderStatus ob"

lemma MapNeutralPayout_obs:
  "MapNeutralPayout sha t c p source ev item seenAt = Inr ob \<Longrightarrow> payout_obs ob"
  by (auto simp: MapNeutralPayout_def payout_obs_def Let_def split: if_splits)

lemma reduce_payout_highest:
  assumes "obs \<noteq> []" and "\<forall>ob \<in> set obs. payout_obs ob"
  shows "cq_PayoutID (reduce_payout zero_CanonicalPayout obs) \<noteq> []
    \<and> cq_ProviderStatus (reduce_payout zero_CanonicalPayout obs) \<in> qob_ProviderStatus ` set obs
    \<and> (\<forall>ob \<in> set obs. PayoutRank (qob_ProviderStatus ob)
         \<le> PayoutRank (cq_ProviderStatus (reduce_payout zero_CanonicalPayout obs)))"
  using assms
proof (induction obs rule: rev_induct)
  case (snoc ob obs)
  let ?cur = "reduce_payout zero_CanonicalPayout obs"
  have ob: "NormalizePayoutStatus (qob_ProviderStatus ob) = qob_ProviderStatus ob" "qob_PayoutID ob \<noteq> []"
    using snoc.prems by (simp_all add: payout_obs_def)
  show ?case
  proof (cases "obs = []")
    case True
    then show ?thesis using ob by (simp add: Reduce_status zero_CanonicalPayout_def)
  next
    case False
    with snoc have IH: "cq_PayoutID ?cur \<noteq> []" "cq_ProviderStatus ?cur \<in> qob_ProviderStatus ` set obs"
      "\<forall>ob \<in> set obs. PayoutRank (qob_ProviderStatus ob) \<le> PayoutRank (cq_ProviderStatus ?cur)"
      by simp_all
    have cur: "NormalizePayoutStatus (cq_ProviderStatus ?cur) = cq_ProviderStatus ?cur"
      using IH(2) snoc.prems by (auto simp: payout_obs_def)
    have "PayoutRank (cq_ProviderStatus (Reduce ?cur ob))
        = max (PayoutRank (cq_ProviderStatus ?cur)) (PayoutRank (qob_ProviderStatus ob))"
      by (simp add: Reduce_status IH(1) rank_nextPayoutStatus)
    moreover have "cq_ProviderStatus (Reduce ?cur ob) \<in> {cq_ProviderStatus ?cur, qob_ProviderStatus ob}"
      by (simp add: Reduce_status IH(1) nextPayoutStatus_rank cur ob)
    ultimately show ?thesis using IH by (auto intro: order_trans)
  qed
qed simp

lemma rank_determines:
  assumes "NormalizePayoutStatus s = s" and "NormalizePayoutStatus t = t"
    and "PayoutRank s = PayoutRank t" and "PayoutRank s \<notin> {0, 4}"
  shows "s = t"
  using assms by (simp add: PayoutRank_def Let_def split: if_splits)

text \<open>
  What a payout has reached is final: the status kept is always one that was observed and has
  the highest rank of all that were, so once processed a payout can only become reversed, and a
  reversed payout stays reversed, whatever arrives late.
\<close>

theorem payout_keeps_highest_rank:
  assumes "obs \<noteq> []" and "\<forall>ob \<in> set obs. payout_obs ob"
  shows "cq_ProviderStatus (reduce_payout zero_CanonicalPayout obs) \<in> qob_ProviderStatus ` set obs
    \<and> PayoutRank (cq_ProviderStatus (reduce_payout zero_CanonicalPayout obs))
        = Max (PayoutRank ` qob_ProviderStatus ` set obs)
    \<and> (PayoutProcessed \<in> qob_ProviderStatus ` set obs \<longrightarrow>
         cq_ProviderStatus (reduce_payout zero_CanonicalPayout obs) \<in> {PayoutProcessed, PayoutReversed})
    \<and> (PayoutReversed \<in> qob_ProviderStatus ` set obs \<longrightarrow>
         cq_ProviderStatus (reduce_payout zero_CanonicalPayout obs) = PayoutReversed)"
proof -
  let ?s = "cq_ProviderStatus (reduce_payout zero_CanonicalPayout obs)"
  note h = reduce_payout_highest [OF assms]
  have norm: "NormalizePayoutStatus ?s = ?s" using h assms(2) by (auto simp: payout_obs_def)
  have top: "PayoutRank ?s = Max (PayoutRank ` qob_ProviderStatus ` set obs)"
    using h by (intro Max_eqI [symmetric]) auto
  have at_least: "PayoutRank t \<le> PayoutRank ?s" if "t \<in> qob_ProviderStatus ` set obs" for t
    using that h by auto
  have fin: "?s = PayoutReversed" if "6 \<le> PayoutRank ?s"
    using that norm by (simp add: PayoutRank_def Let_def split: if_splits)
  have done_: "?s = PayoutProcessed \<or> ?s = PayoutReversed" if "5 \<le> PayoutRank ?s"
    using that norm by (simp add: PayoutRank_def Let_def split: if_splits)
  have ranks: "PayoutRank PayoutProcessed = 5" "PayoutRank PayoutReversed = 6"
    by (simp_all add: PayoutRank_def NormalizePayoutStatus_def Let_def str_eval)
  show ?thesis using h top fin done_ at_least [of PayoutProcessed] at_least [of PayoutReversed]
    by (auto simp: ranks)
qed

text \<open>
  Only a failure depends on the order of delivery: two histories with the same observations end
  in the same status, unless the highest rank observed is that of an unknown status or the rank
  shared by processing, failed, cancelled and rejected.
\<close>

theorem payout_order_matters_only_at_failure:
  assumes "mset obs = mset obs'" and "\<forall>ob \<in> set obs. payout_obs ob"
  shows "cq_ProviderStatus (reduce_payout zero_CanonicalPayout obs)
         = cq_ProviderStatus (reduce_payout zero_CanonicalPayout obs')
      \<or> PayoutRank (cq_ProviderStatus (reduce_payout zero_CanonicalPayout obs)) \<in> {0, 4}"
proof (cases "obs = []")
  case False
  have same: "set obs = set obs'" using assms(1) by (rule mset_eq_setD)
  have ne: "obs' \<noteq> []" using False assms(1) by auto
  let ?s = "cq_ProviderStatus (reduce_payout zero_CanonicalPayout obs)"
  let ?t = "cq_ProviderStatus (reduce_payout zero_CanonicalPayout obs')"
  note h = reduce_payout_highest [OF False assms(2)] reduce_payout_highest [OF ne assms(2) [unfolded same]]
  have "PayoutRank ?s \<le> PayoutRank ?t" "PayoutRank ?t \<le> PayoutRank ?s" using h same by auto
  moreover have "NormalizePayoutStatus ?s = ?s" "NormalizePayoutStatus ?t = ?t"
    using h assms(2) same by (auto simp: payout_obs_def)
  ultimately show ?thesis using rank_determines [of ?s ?t] by fastforce
qed (use assms(1) in simp)

text \<open>
  A late ``processing'' reopens a payout that failed, was cancelled or was rejected: the status
  goes back to processing, because the four share a rank and a tie goes to the newcomer.
\<close>

theorem failed_payout_reopens:
  assumes "cq_PayoutID cur \<noteq> []" and "IsPayoutFailedLike (cq_ProviderStatus cur)"
    and "qob_ProviderStatus late = PayoutProcessing"
  shows "cq_ProviderStatus (Reduce cur late) = PayoutProcessing
    \<and> IsPayoutOpen (cq_ProviderStatus (Reduce cur late))"
proof -
  have "PayoutRank PayoutProcessing = 4" "NormalizePayoutStatus PayoutProcessing = PayoutProcessing"
    by (simp_all add: PayoutRank_def NormalizePayoutStatus_def Let_def str_eval)
  with assms processed_rank(2) [OF assms(2)] show ?thesis
    by (simp add: Reduce_status nextPayoutStatus_rank IsPayoutOpen_def)
qed

subsection \<open>Witnesses\<close>

definition sample_payout_obs :: "string \<Rightarrow> PayoutObservation" where
  "sample_payout_obs status = \<lparr>qob_TenantID = ''t'', qob_ConnectorID = ''c'', qob_Provider = ''razorpay'',
     qob_PayoutID = ''pout_1'', qob_AmountMinor = 100, qob_Currency = ''INR'',
     qob_ProviderStatus = status, qob_UTR = [], qob_Mode = ''IMPS'', qob_Purpose = [],
     qob_StatusReason = [], qob_ProviderCreatedAt = 0, qob_ObservedAt = 5, qob_Source = ''webhook'',
     qob_SourceEventID = ''e'', qob_SourceHash = ''h'', qob_RawReference = [], qob_IdentityHash = []\<rparr>"

lemma sample_payout_obs_fields [simp]:
  "qob_PayoutID (sample_payout_obs s) = ''pout_1''" "qob_ProviderStatus (sample_payout_obs s) = s"
  by (simp_all add: sample_payout_obs_def)

lemma payout_keeps_highest_rank_witness:
  "cq_ProviderStatus (reduce_payout zero_CanonicalPayout
     [sample_payout_obs PayoutProcessed, sample_payout_obs PayoutFailed]) = PayoutProcessed"
  using payout_keeps_highest_rank [of "[sample_payout_obs PayoutProcessed, sample_payout_obs PayoutFailed]"]
  by (simp add: payout_obs_def NormalizePayoutStatus_def Let_def str_eval; elim conjE disjE; simp)

lemma payout_order_matters_only_at_failure_witness:
  "cq_ProviderStatus (reduce_payout zero_CanonicalPayout
     [sample_payout_obs PayoutReversed, sample_payout_obs PayoutFailed])
   = cq_ProviderStatus (reduce_payout zero_CanonicalPayout
     [sample_payout_obs PayoutFailed, sample_payout_obs PayoutReversed])"
proof -
  let ?obs = "[sample_payout_obs PayoutReversed, sample_payout_obs PayoutFailed]"
  have "\<forall>ob \<in> set ?obs. payout_obs ob"
    by (simp add: payout_obs_def NormalizePayoutStatus_def Let_def str_eval)
  moreover have "PayoutRank (cq_ProviderStatus (reduce_payout zero_CanonicalPayout ?obs)) \<notin> {0, 4}"
    by (simp add: Reduce_status zero_CanonicalPayout_def nextPayoutStatus_rank PayoutRank_def
        NormalizePayoutStatus_def Let_def str_eval)
  ultimately show ?thesis
    using payout_order_matters_only_at_failure [of ?obs "rev ?obs"] by simp
qed

lemma failed_payout_reopens_witness:
  "cq_ProviderStatus (Reduce (Reduce zero_CanonicalPayout (sample_payout_obs PayoutFailed))
     (sample_payout_obs PayoutProcessing)) = PayoutProcessing"
  using failed_payout_reopens
    [of "Reduce zero_CanonicalPayout (sample_payout_obs PayoutFailed)" "sample_payout_obs PayoutProcessing"]
  by (simp add: Reduce_status zero_CanonicalPayout_def IsPayoutFailedLike_def NormalizePayoutStatus_def
      Let_def str_eval)

end
