(* ===== verification/PollStore.thy ===== *)
theory PollStore
  imports PaymentTruth PayoutTruth Effects
begin

text \<open>
  \<^verbatim>\<open>poll/memory_store.go\<close>, \<^verbatim>\<open>poll/memory_canonical.go\<close> and \<^verbatim>\<open>poll/memory_payout.go\<close>: the
  in-memory store of the polling and truth services, with the records of \<^verbatim>\<open>poll/store.go\<close>,
  \<^verbatim>\<open>poll/backfill_job.go\<close> and \<^verbatim>\<open>poll/source.go\<close> it keeps.  The mutex serialises the methods, so
  each is one state transformer.  \<open>uuid n\<close> is the n-th identifier of the external generator,
  \<open>now\<close> the clock.  Go's maps that are iterated are association lists with distinct keys, and
  \<open>ord\<close> is the order in which an iteration visits them.  A cursor's key holds the two instants
  themselves instead of their RFC 3339 text, which is one to one on instants.
\<close>

abbreviation (input) JobQueued :: string where "JobQueued \<equiv> ''queued''"
abbreviation (input) JobRunning :: string where "JobRunning \<equiv> ''running''"
abbreviation (input) JobSucceeded :: string where "JobSucceeded \<equiv> ''succeeded''"
abbreviation (input) JobPartial :: string where "JobPartial \<equiv> ''partial''"
abbreviation (input) JobFailed :: string where "JobFailed \<equiv> ''failed''"
abbreviation (input) JobCancelled :: string where "JobCancelled \<equiv> ''cancelled''"
abbreviation (input) CursorActive :: string where "CursorActive \<equiv> ''active''"
abbreviation (input) CursorComplete :: string where "CursorComplete \<equiv> ''complete''"
abbreviation (input) CursorFailed :: string where "CursorFailed \<equiv> ''failed''"
abbreviation (input) ErrJobNotFound :: string where "ErrJobNotFound \<equiv> ''backfill job not found''"
abbreviation (input) ErrCursorLeaseHeld :: string where
  "ErrCursorLeaseHeld \<equiv> ''cursor lease held by another worker''"

section \<open>Rows\<close>

record BackfillJob =
  jb_ID :: string
  jb_TenantID :: string
  jb_ConnectorID :: string
  jb_Provider :: string
  jb_ProviderMode :: string
  jb_ResourceType :: string
  jb_WindowFrom :: time
  jb_WindowTo :: time
  jb_TriggerType :: string
  jb_Status :: string
  jb_RequestedBy :: "string option"
  jb_StartedAt :: "time option"
  jb_CompletedAt :: "time option"
  jb_FetchedCount :: int64
  jb_InsertedCount :: int64
  jb_UpdatedCount :: int64
  jb_DuplicateCount :: int64
  jb_MissingWebhookCount :: int64
  jb_ErrorCount :: int64
  jb_LastErrorCode :: string
  jb_LastErrorMessage :: string
  jb_TraceID :: string
  jb_CreatedAt :: time
  jb_UpdatedAt :: time

record BackfillCursor =
  cu_ID :: string
  cu_TenantID :: string
  cu_ConnectorID :: string
  cu_ResourceType :: string
  cu_WindowFrom :: time
  cu_WindowTo :: time
  cu_PageSkip :: int64
  cu_PageCount :: int64
  cu_PagesCompleted :: int64
  cu_LastProviderID :: string
  cu_LastResponseHash :: string
  cu_Status :: string
  cu_LeaseOwner :: string
  cu_LeaseExpiresAt :: "time option"
  cu_UpdatedAt :: time

record ResponseReceipt =
  rc_ID :: string
  rc_TenantID :: string
  rc_ConnectorID :: string
  rc_BackfillJobID :: string
  rc_Provider :: string
  rc_ResourceType :: string
  rc_RequestPath :: string
  rc_RequestQueryHash :: string
  rc_ResponseStatus :: int64
  rc_ResponseHash :: string
  rc_PageSkip :: int64
  rc_PageCount :: int64
  rc_ProviderItemCount :: int64

record NeutralSettlementLine =
  nl_SettlementID :: string
  nl_EntityID :: string
  nl_LineType :: string
  nl_PaymentID :: string
  nl_OrderID :: string
  nl_AmountMinor :: int64
  nl_DebitMinor :: int64
  nl_CreditMinor :: int64
  nl_FeeMinor :: int64
  nl_TaxMinor :: int64
  nl_AdjustmentMinor :: int64
  nl_Currency :: string
  nl_UTR :: string
  nl_Settled :: bool
  nl_SettledAt :: time
  nl_CreatedAt :: time
  nl_RefundID :: string
  nl_ProviderStatus :: string
  nl_CanonicalStatus :: string
  nl_SourceFile :: string
  nl_SourceRow :: int64
  nl_RawReference :: string
  nl_PaymentLink :: string
  nl_PayloadHash :: string
  nl_Raw :: string

record PaymentObservation =
  px_ID :: string
  px_TenantID :: string
  px_ConnectorID :: string
  px_Provider :: string
  px_ProviderMode :: string
  px_Item :: NeutralPayment
  px_ReceiptID :: string
  px_Source :: string
  px_Sources :: "string list"
  px_WebhookMissing :: bool

record SettlementLineObservation =
  sx_ID :: string
  sx_TenantID :: string
  sx_ConnectorID :: string
  sx_Provider :: string
  sx_ProviderMode :: string
  sx_Item :: NeutralSettlementLine
  sx_ReceiptID :: string
  sx_Source :: string

record ObservationEvent =
  ev_TenantID :: string
  ev_ConnectorID :: string
  ev_PaymentID :: string
  ev_Source :: string
  ev_Status :: string
  ev_PayloadHash :: string
  ev_IdentityHash :: string
  ev_SourceEventID :: string

text \<open>The columns of an outbox row that the truth services fill in; the payload before marshalling.\<close>

datatype event_value = VString string | VInt int64 | VBool bool | VStrings "string list"

record EventRow =
  xr_EventID :: string
  xr_TenantID :: string
  xr_AggregateType :: string
  xr_AggregateID :: string
  xr_EventType :: string
  xr_Payload :: "(string \<times> event_value) list"
  xr_IdempotencyKey :: string
  xr_CreatedAt :: time

datatype UpsertResult = UpsertInserted | UpsertUpdated | UpsertDuplicate

type_synonym cursor_key = "string \<times> time \<times> time"

record MemoryStore =
  pm_Jobs :: "(string \<times> BackfillJob) list"
  pm_Cursors :: "(cursor_key \<times> BackfillCursor) list"
  pm_Receipts :: "ResponseReceipt list"
  pm_Payments :: "(string \<times> PaymentObservation) list"
  pm_Settlements :: "(string \<times> SettlementLineObservation) list"
  pm_Outbox :: "EventRow list"
  pm_Events :: "ObservationEvent list"
  pm_Canonicals :: "string \<rightharpoonup> CanonicalPayment"
  pm_CanonicalPayouts :: "string \<rightharpoonup> CanonicalPayout"
  pm_PayoutEvents :: "PayoutObservation list"
  pm_Intents :: "string \<rightharpoonup> string"
  pm_next :: nat

definition NewMemoryStore :: MemoryStore where
  "NewMemoryStore = \<lparr>pm_Jobs = [], pm_Cursors = [], pm_Receipts = [], pm_Payments = [],
     pm_Settlements = [], pm_Outbox = [], pm_Events = [], pm_Canonicals = Map.empty,
     pm_CanonicalPayouts = Map.empty, pm_PayoutEvents = [], pm_Intents = Map.empty, pm_next = 0\<rparr>"

definition zero_BackfillJob :: BackfillJob where
  "zero_BackfillJob = \<lparr>jb_ID = [], jb_TenantID = [], jb_ConnectorID = [], jb_Provider = [],
     jb_ProviderMode = [], jb_ResourceType = [], jb_WindowFrom = 0, jb_WindowTo = 0,
     jb_TriggerType = [], jb_Status = [], jb_RequestedBy = None, jb_StartedAt = None,
     jb_CompletedAt = None, jb_FetchedCount = 0, jb_InsertedCount = 0, jb_UpdatedCount = 0,
     jb_DuplicateCount = 0, jb_MissingWebhookCount = 0, jb_ErrorCount = 0, jb_LastErrorCode = [],
     jb_LastErrorMessage = [], jb_TraceID = [], jb_CreatedAt = 0, jb_UpdatedAt = 0\<rparr>"

definition zero_BackfillCursor :: BackfillCursor where
  "zero_BackfillCursor = \<lparr>cu_ID = [], cu_TenantID = [], cu_ConnectorID = [], cu_ResourceType = [],
     cu_WindowFrom = 0, cu_WindowTo = 0, cu_PageSkip = 0, cu_PageCount = 0, cu_PagesCompleted = 0,
     cu_LastProviderID = [], cu_LastResponseHash = [], cu_Status = [], cu_LeaseOwner = [],
     cu_LeaseExpiresAt = None, cu_UpdatedAt = 0\<rparr>"

definition zero_NeutralPayment :: NeutralPayment where
  "zero_NeutralPayment = \<lparr>np_PaymentID = [], np_OrderID = [], np_AmountMinor = 0, np_Currency = [],
     np_Status = [], np_ProviderStatus = [], np_Method = [], np_Captured = False, np_FeeMinor = 0,
     np_TaxMinor = 0, np_CreatedAt = 0, np_CapturedAt = 0, np_Email = [], np_Contact = [],
     np_Notes = [], np_PayloadHash = []\<rparr>"

definition zero_PaymentObservation :: PaymentObservation where
  "zero_PaymentObservation = \<lparr>px_ID = [], px_TenantID = [], px_ConnectorID = [], px_Provider = [],
     px_ProviderMode = [], px_Item = zero_NeutralPayment, px_ReceiptID = [], px_Source = [],
     px_Sources = [], px_WebhookMissing = False\<rparr>"

section \<open>Sources and keys\<close>

text \<open>
  \<open>NormalizeObservationSource\<close> and \<open>appendUniqueSource\<close> of \<^verbatim>\<open>poll/source.go\<close> repeat
  \<open>normalizeSource\<close> and \<open>appendUnique\<close> of the reducer word for word.
\<close>

definition NormalizeObservationSource :: "string \<Rightarrow> string" where
  "NormalizeObservationSource source = normalizeSource source"

definition HasWebhookSource :: "string \<Rightarrow> string list \<Rightarrow> bool" where
  "HasWebhookSource source sources \<longleftrightarrow>
     NormalizeObservationSource source = ''webhook''
     \<or> list_ex (\<lambda>s. NormalizeObservationSource s = ''webhook'') sources"

definition appendUniqueSource :: "string list \<Rightarrow> string \<Rightarrow> string list" where
  "appendUniqueSource existing source = appendUnique existing source"

definition canonicalKey :: "string \<Rightarrow> string \<Rightarrow> string \<Rightarrow> string" where
  "canonicalKey tenantID connectorID paymentID = tenantID @ ''|'' @ connectorID @ ''|'' @ paymentID"

definition settlementKey :: "string \<Rightarrow> string \<Rightarrow> string \<Rightarrow> string \<Rightarrow> string" where
  "settlementKey tenantID connectorID settlementID entityID =
     tenantID @ ''|'' @ connectorID @ ''|'' @ settlementID @ ''|'' @ entityID"

definition cursorKey :: "string \<Rightarrow> string \<Rightarrow> string \<Rightarrow> time \<Rightarrow> time \<Rightarrow> cursor_key" where
  "cursorKey tenantID connectorID resourceType start stop =
     (tenantID @ ''|'' @ connectorID @ ''|'' @ resourceType, start, stop)"

definition mint :: "(nat \<Rightarrow> string) \<Rightarrow> MemoryStore \<Rightarrow> string \<times> MemoryStore" where
  "mint uuid m = (uuid (pm_next m), m\<lparr>pm_next := Suc (pm_next m)\<rparr>)"

definition mint_if_blank :: "(nat \<Rightarrow> string) \<Rightarrow> string \<Rightarrow> MemoryStore \<Rightarrow> string \<times> MemoryStore" where
  "mint_if_blank uuid i m = (if i = [] then mint uuid m else (i, m))"

section \<open>Jobs and cursors\<close>

definition CreateJob :: "(nat \<Rightarrow> string) \<Rightarrow> time \<Rightarrow> BackfillJob \<Rightarrow> MemoryStore \<Rightarrow> BackfillJob \<times> MemoryStore" where
  "CreateJob uuid now job m =
     (let (i, m) = mint_if_blank uuid (jb_ID job) m;
          job = job\<lparr>jb_ID := i, jb_CreatedAt := now, jb_UpdatedAt := now\<rparr>
      in (job, m\<lparr>pm_Jobs := alist_put i job (pm_Jobs m)\<rparr>))"

definition is_active_job :: "string \<Rightarrow> string \<Rightarrow> string \<Rightarrow> time \<Rightarrow> time \<Rightarrow> BackfillJob \<Rightarrow> bool" where
  "is_active_job tenantID connectorID resourceType start stop j \<longleftrightarrow>
     jb_TenantID j = tenantID \<and> jb_ConnectorID j = connectorID \<and> jb_ResourceType j = resourceType
     \<and> jb_WindowFrom j = start \<and> jb_WindowTo j = stop
     \<and> (jb_Status j = JobQueued \<or> jb_Status j = JobRunning)"

definition FindActiveJob :: "(string list \<Rightarrow> string list) \<Rightarrow> string \<Rightarrow> string \<Rightarrow> string \<Rightarrow> time \<Rightarrow> time
    \<Rightarrow> MemoryStore \<Rightarrow> BackfillJob option" where
  "FindActiveJob ord tenantID connectorID resourceType start stop m =
     List.find (is_active_job tenantID connectorID resourceType start stop)
       (map (\<lambda>k. the (map_of (pm_Jobs m) k)) (ord (map fst (pm_Jobs m))))"

definition GetJob :: "string \<Rightarrow> MemoryStore \<Rightarrow> BackfillJob option" where
  "GetJob jobID m = map_of (pm_Jobs m) jobID"

definition UpdateJob :: "time \<Rightarrow> BackfillJob \<Rightarrow> MemoryStore \<Rightarrow> MemoryStore" where
  "UpdateJob now job m = m\<lparr>pm_Jobs := alist_put (jb_ID job) (job\<lparr>jb_UpdatedAt := now\<rparr>) (pm_Jobs m)\<rparr>"

definition key_of_cursor :: "BackfillCursor \<Rightarrow> cursor_key" where
  "key_of_cursor c = cursorKey (cu_TenantID c) (cu_ConnectorID c) (cu_ResourceType c)
     (cu_WindowFrom c) (cu_WindowTo c)"

definition EnsureCursor :: "(nat \<Rightarrow> string) \<Rightarrow> time \<Rightarrow> BackfillCursor \<Rightarrow> MemoryStore
    \<Rightarrow> BackfillCursor \<times> MemoryStore" where
  "EnsureCursor uuid now c m =
     (case map_of (pm_Cursors m) (key_of_cursor c) of
        Some existing \<Rightarrow> (existing, m)
      | None \<Rightarrow>
        (let (i, m) = mint_if_blank uuid (cu_ID c) m;
             c = c\<lparr>cu_ID := i, cu_UpdatedAt := now\<rparr>
         in (c, m\<lparr>pm_Cursors := alist_put (key_of_cursor c) c (pm_Cursors m)\<rparr>)))"

definition GetCursor :: "cursor_key \<Rightarrow> MemoryStore \<Rightarrow> BackfillCursor option" where
  "GetCursor k m = map_of (pm_Cursors m) k"

definition lease_blocked :: "time \<Rightarrow> string \<Rightarrow> BackfillCursor \<Rightarrow> bool" where
  "lease_blocked now owner c \<longleftrightarrow> cu_LeaseOwner c \<noteq> [] \<and> cu_LeaseOwner c \<noteq> owner
     \<and> (case cu_LeaseExpiresAt c of None \<Rightarrow> False | Some e \<Rightarrow> e > now)"

definition AcquireCursorLease :: "time \<Rightarrow> cursor_key \<Rightarrow> string \<Rightarrow> duration \<Rightarrow> MemoryStore
    \<Rightarrow> (string + BackfillCursor) \<times> MemoryStore" where
  "AcquireCursorLease now k owner ttl m =
     (case map_of (pm_Cursors m) k of
        None \<Rightarrow> (Inl ErrJobNotFound, m)
      | Some c \<Rightarrow>
        if lease_blocked now owner c then (Inl ErrCursorLeaseHeld, m)
        else let c = c\<lparr>cu_LeaseOwner := owner, cu_LeaseExpiresAt := Some (now + ttl), cu_UpdatedAt := now\<rparr>
             in (Inr c, m\<lparr>pm_Cursors := alist_put k c (pm_Cursors m)\<rparr>))"

definition AdvanceCursor :: "time \<Rightarrow> BackfillCursor \<Rightarrow> MemoryStore \<Rightarrow> MemoryStore" where
  "AdvanceCursor now c m =
     m\<lparr>pm_Cursors := alist_put (key_of_cursor c) (c\<lparr>cu_UpdatedAt := now\<rparr>) (pm_Cursors m)\<rparr>"

definition ReleaseCursorLease :: "string \<Rightarrow> string \<Rightarrow> MemoryStore \<Rightarrow> MemoryStore" where
  "ReleaseCursorLease cursorID owner m =
     m\<lparr>pm_Cursors := map (\<lambda>(k, c). (k, if cu_ID c = cursorID \<and> cu_LeaseOwner c = owner
        then c\<lparr>cu_LeaseOwner := [], cu_LeaseExpiresAt := None\<rparr> else c)) (pm_Cursors m)\<rparr>"

section \<open>Receipts, payments and settlement lines\<close>

definition same_request :: "ResponseReceipt \<Rightarrow> ResponseReceipt \<Rightarrow> bool" where
  "same_request a b \<longleftrightarrow> rc_BackfillJobID a = rc_BackfillJobID b \<and> rc_RequestPath a = rc_RequestPath b
     \<and> rc_RequestQueryHash a = rc_RequestQueryHash b"

definition InsertResponseReceipt :: "(nat \<Rightarrow> string) \<Rightarrow> ResponseReceipt \<Rightarrow> MemoryStore \<Rightarrow> MemoryStore" where
  "InsertResponseReceipt uuid rec m =
     (let (i, m) = mint_if_blank uuid (rc_ID rec) m; rec = rec\<lparr>rc_ID := i\<rparr>
      in if list_ex (\<lambda>e. same_request e rec) (pm_Receipts m) then m
         else m\<lparr>pm_Receipts := pm_Receipts m @ [rec]\<rparr>)"

definition upsert_event :: "PaymentObservation \<Rightarrow> ObservationEvent" where
  "upsert_event ob = \<lparr>ev_TenantID = px_TenantID ob, ev_ConnectorID = px_ConnectorID ob,
     ev_PaymentID = np_PaymentID (px_Item ob), ev_Source = px_Source ob,
     ev_Status = np_Status (px_Item ob), ev_PayloadHash = np_PayloadHash (px_Item ob),
     ev_IdentityHash = [], ev_SourceEventID = []\<rparr>"

definition UpsertPayment :: "(nat \<Rightarrow> string) \<Rightarrow> PaymentObservation \<Rightarrow> MemoryStore
    \<Rightarrow> UpsertResult \<times> MemoryStore" where
  "UpsertPayment uuid ob m =
     (let ob = ob\<lparr>px_Source := NormalizeObservationSource (px_Source ob)\<rparr>;
          key = canonicalKey (px_TenantID ob) (px_ConnectorID ob) (np_PaymentID (px_Item ob))
      in case map_of (pm_Payments m) key of
           Some existing \<Rightarrow>
            (let before = length (px_Sources existing);
                 existing = existing\<lparr>px_Sources := appendUniqueSource (px_Sources existing) (px_Source ob)\<rparr>;
                 existing = (if HasWebhookSource (px_Source existing) (px_Sources existing)
                             then existing\<lparr>px_WebhookMissing := False\<rparr>
                             else if px_WebhookMissing ob then existing\<lparr>px_WebhookMissing := True\<rparr>
                             else existing)
             in if np_PayloadHash (px_Item existing) = np_PayloadHash (px_Item ob) then
                  (UpsertDuplicate, m\<lparr>pm_Payments := alist_put key existing (pm_Payments m),
                     pm_Events := (if length (px_Sources existing) > before
                                   then pm_Events m @ [upsert_event ob] else pm_Events m)\<rparr>)
                else
                  (let ob = ob\<lparr>px_Sources := px_Sources existing, px_WebhookMissing := px_WebhookMissing existing,
                              px_ID := (if px_ID ob = [] then px_ID existing else px_ID ob)\<rparr>
                   in (UpsertUpdated, m\<lparr>pm_Payments := alist_put key ob (pm_Payments m),
                         pm_Events := pm_Events m @ [upsert_event ob]\<rparr>)))
         | None \<Rightarrow>
            (let (i, m) = mint_if_blank uuid (px_ID ob) m;
                 ob = ob\<lparr>px_ID := i, px_Sources := appendUniqueSource (px_Sources ob) (px_Source ob)\<rparr>;
                 ob = (if HasWebhookSource (px_Source ob) (px_Sources ob) then ob\<lparr>px_WebhookMissing := False\<rparr> else ob)
             in (UpsertInserted, m\<lparr>pm_Payments := alist_put key ob (pm_Payments m),
                   pm_Events := pm_Events m @ [upsert_event ob]\<rparr>)))"

definition UpsertSettlementLine :: "(nat \<Rightarrow> string) \<Rightarrow> SettlementLineObservation \<Rightarrow> MemoryStore
    \<Rightarrow> UpsertResult \<times> MemoryStore" where
  "UpsertSettlementLine uuid ob m =
     (let key = settlementKey (sx_TenantID ob) (sx_ConnectorID ob) (nl_SettlementID (sx_Item ob))
                  (nl_EntityID (sx_Item ob))
      in case map_of (pm_Settlements m) key of
           Some existing \<Rightarrow>
             if nl_PayloadHash (sx_Item existing) = nl_PayloadHash (sx_Item ob) then (UpsertDuplicate, m)
             else (UpsertUpdated, m\<lparr>pm_Settlements := alist_put key ob (pm_Settlements m)\<rparr>)
         | None \<Rightarrow>
             (let (i, m) = mint_if_blank uuid (sx_ID ob) m
              in (UpsertInserted,
                  m\<lparr>pm_Settlements := alist_put key (ob\<lparr>sx_ID := i\<rparr>) (pm_Settlements m)\<rparr>)))"

definition ListPaymentIDsInWindow :: "(string list \<Rightarrow> string list) \<Rightarrow> string \<Rightarrow> string \<Rightarrow> time \<Rightarrow> time
    \<Rightarrow> MemoryStore \<Rightarrow> string list" where
  "ListPaymentIDsInWindow ord tenantID connectorID start stop m =
     map (\<lambda>ob. np_PaymentID (px_Item ob))
       (filter (\<lambda>ob. px_TenantID ob = tenantID \<and> px_ConnectorID ob = connectorID
                  \<and> start \<le> np_CreatedAt (px_Item ob) \<and> np_CreatedAt (px_Item ob) < stop)
         (map (\<lambda>k. the (map_of (pm_Payments m) k)) (ord (map fst (pm_Payments m)))))"

definition GetPaymentHash :: "string \<Rightarrow> string \<Rightarrow> string \<Rightarrow> MemoryStore \<Rightarrow> string \<times> bool" where
  "GetPaymentHash tenantID connectorID paymentID m =
     (case map_of (pm_Payments m) (canonicalKey tenantID connectorID paymentID) of
        None \<Rightarrow> ([], False)
      | Some ob \<Rightarrow> (np_PayloadHash (px_Item ob), True))"

definition InsertOutbox :: "EventRow \<Rightarrow> MemoryStore \<Rightarrow> MemoryStore" where
  "InsertOutbox row m =
     (if xr_IdempotencyKey row \<noteq> []
         \<and> list_ex (\<lambda>e. xr_IdempotencyKey e = xr_IdempotencyKey row) (pm_Outbox m)
      then m else m\<lparr>pm_Outbox := pm_Outbox m @ [row]\<rparr>)"

section \<open>Canonical payments\<close>

definition with_hash :: "(string \<Rightarrow> string) \<Rightarrow> Observation \<Rightarrow> Observation" where
  "with_hash sha ob = (if pob_IdentityHash ob = [] then with_identity sha ob else ob)"

definition event_of :: "Observation \<Rightarrow> ObservationEvent" where
  "event_of ob = \<lparr>ev_TenantID = pob_TenantID ob, ev_ConnectorID = pob_ConnectorID ob,
     ev_PaymentID = pob_PaymentID ob, ev_Source = pob_Source ob, ev_Status = pob_CanonicalStatus ob,
     ev_PayloadHash = pob_SourceHash ob, ev_IdentityHash = pob_IdentityHash ob,
     ev_SourceEventID = pob_SourceEventID ob\<rparr>"

definition InsertObservationEvent :: "(string \<Rightarrow> string) \<Rightarrow> Observation \<Rightarrow> MemoryStore \<Rightarrow> bool \<times> MemoryStore" where
  "InsertObservationEvent sha ob m =
     (let ob = with_hash sha ob
      in if list_ex (\<lambda>ev. ev_IdentityHash ev = pob_IdentityHash ob \<and> pob_IdentityHash ob \<noteq> []) (pm_Events m)
         then (False, m)
         else (True, m\<lparr>pm_Events := pm_Events m @ [event_of ob]\<rparr>))"

definition GetCanonical :: "string \<Rightarrow> string \<Rightarrow> string \<Rightarrow> MemoryStore \<Rightarrow> CanonicalPayment" where
  "GetCanonical tenantID connectorID paymentID m =
     (case pm_Canonicals m (canonicalKey tenantID connectorID paymentID) of
        None \<Rightarrow> zero_CanonicalPayment | Some pay \<Rightarrow> pay)"

definition UpsertCanonicalPayment :: "(nat \<Rightarrow> string) \<Rightarrow> CanonicalPayment \<Rightarrow> MemoryStore \<Rightarrow> MemoryStore" where
  "UpsertCanonicalPayment uuid pay m =
     (let (i, m) = mint_if_blank uuid (cp_ID pay) m;
          pay = pay\<lparr>cp_ID := i,
                    cp_IntentLink := (if cp_IntentLink pay = [] then IntentUnlinked else cp_IntentLink pay)\<rparr>
      in m\<lparr>pm_Canonicals := (pm_Canonicals m)
            (canonicalKey (cp_TenantID pay) (cp_ConnectorID pay) (cp_PaymentID pay) \<mapsto> pay)\<rparr>)"

definition snapshot_item :: "CanonicalPayment \<Rightarrow> Observation \<Rightarrow> NeutralPayment \<Rightarrow> NeutralPayment" where
  "snapshot_item pay incoming old = \<lparr>np_PaymentID = cp_PaymentID pay, np_OrderID = cp_OrderID pay,
     np_AmountMinor = cp_AmountMinor pay, np_Currency = cp_Currency pay,
     np_Status = cp_CanonicalStatus pay, np_ProviderStatus = cp_ProviderStatus pay,
     np_Method = cp_Method pay, np_Captured = cp_Captured pay, np_FeeMinor = cp_FeeMinor pay,
     np_TaxMinor = cp_TaxMinor pay, np_CreatedAt = cp_ProviderCreatedAt pay,
     np_CapturedAt = cp_CapturedAt pay,
     np_Email = (if pob_Email incoming = [] then np_Email old else pob_Email incoming),
     np_Contact = (if pob_Contact incoming = [] then np_Contact old else pob_Contact incoming),
     np_Notes = [], np_PayloadHash = pob_SourceHash incoming\<rparr>"

definition ApplyCanonicalSnapshot :: "(nat \<Rightarrow> string) \<Rightarrow> CanonicalPayment \<Rightarrow> Observation
    \<Rightarrow> MemoryStore \<Rightarrow> MemoryStore" where
  "ApplyCanonicalSnapshot uuid pay incoming m =
     (let key = canonicalKey (cp_TenantID pay) (cp_ConnectorID pay) (cp_PaymentID pay);
          existing = (case map_of (pm_Payments m) key of None \<Rightarrow> zero_PaymentObservation | Some p \<Rightarrow> p);
          sources = foldl appendUniqueSource
            (appendUniqueSource (px_Sources existing) (pob_Source incoming)) (cp_Sources pay);
          (i, m) = mint_if_blank uuid (px_ID existing) m;
          missing = (pob_WebhookMissing incoming \<and> \<not> HasWebhookSource [] sources)
      in m\<lparr>pm_Payments := alist_put key \<lparr>px_ID = i, px_TenantID = cp_TenantID pay,
             px_ConnectorID = cp_ConnectorID pay, px_Provider = cp_Provider pay,
             px_ProviderMode = pob_ProviderMode incoming,
             px_Item = snapshot_item pay incoming (px_Item existing),
             px_ReceiptID = pob_ReceiptID incoming, px_Source = pob_Source incoming,
             px_Sources = sources,
             px_WebhookMissing = (if HasWebhookSource (pob_Source incoming) sources then False else missing)\<rparr>
           (pm_Payments m)\<rparr>)"

definition FindIntentByOrderID :: "string \<Rightarrow> string \<Rightarrow> MemoryStore \<Rightarrow> string option" where
  "FindIntentByOrderID tenantID orderID m =
     (if orderID = [] then None
      else case pm_Intents m (tenantID @ ''|'' @ orderID) of
          None \<Rightarrow> None | Some i \<Rightarrow> if i = [] then None else Some i)"

definition SetIntent :: "string \<Rightarrow> string \<Rightarrow> string \<Rightarrow> MemoryStore \<Rightarrow> MemoryStore" where
  "SetIntent tenantID orderID intentID m =
     m\<lparr>pm_Intents := (pm_Intents m)(tenantID @ ''|'' @ orderID \<mapsto> intentID)\<rparr>"

text \<open>The observations that \<open>ListObservationEvents\<close> can still read back from the log.\<close>

definition ListObservationEvents :: "string \<Rightarrow> string \<Rightarrow> string \<Rightarrow> MemoryStore \<Rightarrow> ObservationEvent list" where
  "ListObservationEvents tenantID connectorID paymentID m =
     filter (\<lambda>ev. ev_TenantID ev = tenantID \<and> ev_ConnectorID ev = connectorID \<and> ev_PaymentID ev = paymentID)
       (pm_Events m)"

section \<open>Canonical payouts\<close>

definition with_payout_hash :: "(string \<Rightarrow> string) \<Rightarrow> PayoutObservation \<Rightarrow> PayoutObservation" where
  "with_payout_hash sha ob = (if qob_IdentityHash ob = []
     then ob\<lparr>qob_IdentityHash := IdentityHash sha (qob_TenantID ob) (qob_ConnectorID ob)
       (qob_Provider ob) (qob_PayoutID ob) (qob_Source ob) (qob_SourceEventID ob) (qob_SourceHash ob)\<rparr>
     else ob)"

definition InsertPayoutObservationEvent :: "(string \<Rightarrow> string) \<Rightarrow> PayoutObservation \<Rightarrow> MemoryStore
    \<Rightarrow> bool \<times> MemoryStore" where
  "InsertPayoutObservationEvent sha ob m =
     (let ob = with_payout_hash sha ob
      in if list_ex (\<lambda>ev. qob_IdentityHash ev = qob_IdentityHash ob \<and> qob_IdentityHash ob \<noteq> [])
            (pm_PayoutEvents m)
         then (False, m)
         else (True, m\<lparr>pm_PayoutEvents := pm_PayoutEvents m @ [ob]\<rparr>))"

definition GetCanonicalPayout :: "string \<Rightarrow> string \<Rightarrow> string \<Rightarrow> MemoryStore \<Rightarrow> CanonicalPayout" where
  "GetCanonicalPayout tenantID connectorID payoutID m =
     (case pm_CanonicalPayouts m (canonicalKey tenantID connectorID payoutID) of
        None \<Rightarrow> zero_CanonicalPayout | Some pay \<Rightarrow> pay)"

definition UpsertCanonicalPayout :: "(nat \<Rightarrow> string) \<Rightarrow> CanonicalPayout \<Rightarrow> MemoryStore \<Rightarrow> MemoryStore" where
  "UpsertCanonicalPayout uuid pay m =
     (let (i, m) = mint_if_blank uuid (cq_ID pay) m
      in m\<lparr>pm_CanonicalPayouts := (pm_CanonicalPayouts m)
            (canonicalKey (cq_TenantID pay) (cq_ConnectorID pay) (cq_PayoutID pay) \<mapsto> pay\<lparr>cq_ID := i\<rparr>)\<rparr>)"

definition ListPayoutObservationEvents :: "string \<Rightarrow> string \<Rightarrow> string \<Rightarrow> MemoryStore
    \<Rightarrow> PayoutObservation list" where
  "ListPayoutObservationEvents tenantID connectorID payoutID m =
     filter (\<lambda>ob. qob_TenantID ob = tenantID \<and> qob_ConnectorID ob = connectorID \<and> qob_PayoutID ob = payoutID)
       (pm_PayoutEvents m)"

end
