(* ===== verification/TruthService.thy ===== *)
theory TruthService
  imports PollStore
begin

text \<open>
  \<^verbatim>\<open>paymenttruth/processor.go\<close>, \<^verbatim>\<open>paymenttruth/outbox.go\<close> and the processor of
  \<^verbatim>\<open>payouttruth/processor.go\<close>: an observation is logged once, folded into the current state of
  its payment or payout, and announced in the outbox, all in one \<open>RunInTx\<close>.  \<open>tx\<close> is the
  \<open>RunInTx\<close> of the store at hand.  The environment holds the external packages (\<open>tv_uuid\<close>,
  \<open>tv_parse\<close> and \<open>tv_nil\<close> for the UUIDs, \<open>tv_sha\<close> for SHA-256), the clock and the
  store call that fails.
\<close>

record truth_env =
  tv_uuid :: "nat \<Rightarrow> string"
  tv_parse :: "string \<Rightarrow> string + string"
  tv_nil :: string
  tv_sha :: "string \<Rightarrow> string"
  tv_now :: time
  tv_fault :: "nat \<Rightarrow> string option"

type_synonym 'a poll_io = "(MemoryStore, 'a) io"

datatype truth_kind = KindInserted | KindUpdated | KindDuplicate | KindObserved

record truth_result =
  tr_Kind :: truth_kind
  tr_PaymentID :: string
  tr_Canonical :: CanonicalPayment

record payout_truth_result =
  qr_Kind :: truth_kind
  qr_PayoutID :: string
  qr_Canonical :: CanonicalPayout

definition store_call :: "truth_env \<Rightarrow> (MemoryStore \<Rightarrow> 'a \<times> MemoryStore) \<Rightarrow> 'a poll_io" where
  "store_call env f = attempt (tv_fault env) f"

definition store_read :: "truth_env \<Rightarrow> (MemoryStore \<Rightarrow> 'a) \<Rightarrow> 'a poll_io" where
  "store_read env f = store_call env (\<lambda>m. (f m, m))"

definition store_write :: "truth_env \<Rightarrow> (MemoryStore \<Rightarrow> MemoryStore) \<Rightarrow> unit poll_io" where
  "store_write env f = store_call env (\<lambda>m. ((), f m))"

text \<open>\<open>uuid.Must(uuid.NewV7())\<close> outside the store, and \<open>uuid.Parse\<close> of the tenant.\<close>

definition event_id :: "truth_env \<Rightarrow> string poll_io" where
  "event_id env s = (let (i, m) = mint (tv_uuid env) (fst s) in (Inr i, (m, snd s)))"

definition parse_tenant :: "truth_env \<Rightarrow> string \<Rightarrow> string poll_io" where
  "parse_tenant env t = (case tv_parse env t of Inl e \<Rightarrow> failE (''tenant_id: '' @ e) | Inr i \<Rightarrow> returnE i)"

section \<open>Outbox rows\<close>

abbreviation (input) EventTypePaymentObservation :: string where
  "EventTypePaymentObservation \<equiv> ''payment.observation.normalized.v1''"
abbreviation (input) EventTypePaymentCanonical :: string where
  "EventTypePaymentCanonical \<equiv> ''payment.canonical.updated.v1''"
abbreviation (input) EventTypePayoutCanonical :: string where
  "EventTypePayoutCanonical \<equiv> ''payout.canonical.updated.v1''"

definition observation_key :: "string \<Rightarrow> string \<Rightarrow> string \<Rightarrow> string" where
  "observation_key connectorID paymentID sourceHash =
     ''razorpay:'' @ connectorID @ '':payment:'' @ paymentID @ '':'' @ sourceHash"

definition observation_payload :: "string \<Rightarrow> Observation \<Rightarrow> (string \<times> event_value) list" where
  "observation_payload eventID ob =
     [(''event_id'', VString eventID), (''event_type'', VString EventTypePaymentObservation),
      (''event_version'', VString ''v1''), (''schema_version'', VString ''v1''),
      (''tenant_id'', VString (pob_TenantID ob)), (''connector_id'', VString (pob_ConnectorID ob)),
      (''provider'', VString ''razorpay''), (''source'', VString (normalizeSource (pob_Source ob))),
      (''sources'', VStrings [normalizeSource (pob_Source ob)]),
      (''payment_id'', VString (pob_PaymentID ob)), (''order_id'', VString (pob_OrderID ob)),
      (''amount'', VInt (pob_AmountMinor ob)), (''currency'', VString (pob_Currency ob)),
      (''status'', VString (pob_CanonicalStatus ob)),
      (''provider_status'', VString (pob_ProviderStatus ob)), (''captured'', VBool (pob_Captured ob)),
      (''fee'', VInt (pob_FeeMinor ob)), (''tax'', VInt (pob_TaxMinor ob)),
      (''payload_hash'', VString (pob_SourceHash ob)),
      (''idempotency_key'', VString (observation_key (pob_ConnectorID ob) (pob_PaymentID ob) (pob_SourceHash ob)))]"

definition ObservationOutboxRow :: "truth_env \<Rightarrow> Observation \<Rightarrow> EventRow poll_io" where
  "ObservationOutboxRow env ob =
     bindE (event_id env) (\<lambda>eventID. bindE (parse_tenant env (pob_TenantID ob)) (\<lambda>tid.
     returnE \<lparr>xr_EventID = eventID, xr_TenantID = tid,
       xr_AggregateType = ''provider_payment_observation'', xr_AggregateID = eventID,
       xr_EventType = EventTypePaymentObservation, xr_Payload = observation_payload eventID ob,
       xr_IdempotencyKey = observation_key (pob_ConnectorID ob) (pob_PaymentID ob) (pob_SourceHash ob),
       xr_CreatedAt = tv_now env\<rparr>))"

definition canonical_key :: "CanonicalPayment \<Rightarrow> Observation \<Rightarrow> string" where
  "canonical_key pay ob = ''razorpay:'' @ cp_ConnectorID pay @ '':canonical:'' @ cp_PaymentID pay
     @ '':'' @ cp_CanonicalStatus pay @ '':'' @ pob_SourceHash ob"

definition canonical_payload :: "string \<Rightarrow> CanonicalPayment \<Rightarrow> Observation \<Rightarrow> (string \<times> event_value) list" where
  "canonical_payload eventID pay ob =
     [(''event_id'', VString eventID), (''event_type'', VString EventTypePaymentCanonical),
      (''event_version'', VString ''v1''), (''schema_version'', VString ''v1''),
      (''tenant_id'', VString (cp_TenantID pay)), (''connector_id'', VString (cp_ConnectorID pay)),
      (''provider'', VString ''razorpay''), (''payment_id'', VString (cp_PaymentID pay)),
      (''order_id'', VString (cp_OrderID pay)), (''amount'', VInt (cp_AmountMinor pay)),
      (''currency'', VString (cp_Currency pay)), (''canonical_status'', VString (cp_CanonicalStatus pay)),
      (''provider_status'', VString (cp_ProviderStatus pay)), (''captured'', VBool (cp_Captured pay)),
      (''intent_id'', VString (cp_IntentID pay)), (''intent_link'', VString (cp_IntentLink pay)),
      (''sources'', VStrings (cp_Sources pay)), (''payload_hash'', VString (pob_SourceHash ob)),
      (''idempotency_key'', VString (canonical_key pay ob))]"

definition CanonicalOutboxRow :: "truth_env \<Rightarrow> CanonicalPayment \<Rightarrow> Observation \<Rightarrow> EventRow poll_io" where
  "CanonicalOutboxRow env pay ob =
     bindE (event_id env) (\<lambda>eventID. bindE (parse_tenant env (cp_TenantID pay)) (\<lambda>tid.
     returnE \<lparr>xr_EventID = eventID, xr_TenantID = tid, xr_AggregateType = ''canonical_payment'',
       xr_AggregateID = (if cp_ID pay = [] then eventID
                         else case tv_parse env (cp_ID pay) of Inl _ \<Rightarrow> eventID | Inr i \<Rightarrow> i),
       xr_EventType = EventTypePaymentCanonical, xr_Payload = canonical_payload eventID pay ob,
       xr_IdempotencyKey = canonical_key pay ob, xr_CreatedAt = tv_now env\<rparr>))"

section \<open>Payments\<close>

definition linkIntent :: "truth_env \<Rightarrow> CanonicalPayment \<Rightarrow> CanonicalPayment poll_io" where
  "linkIntent env pay =
     (if cp_OrderID pay = [] then
        returnE (if cp_IntentLink pay = [] then pay\<lparr>cp_IntentLink := IntentUnlinked\<rparr> else pay)
      else if cp_IntentLink pay = IntentLinked \<and> cp_IntentID pay \<noteq> [] then returnE pay
      else bindE (store_read env (FindIntentByOrderID (cp_TenantID pay) (cp_OrderID pay)))
        (\<lambda>found. returnE (case found of
             Some i \<Rightarrow> pay\<lparr>cp_IntentID := i, cp_IntentLink := IntentLinked\<rparr>
           | None \<Rightarrow> pay\<lparr>cp_IntentLink := IntentUnlinked\<rparr>)))"

definition pay_changed :: "CanonicalPayment \<Rightarrow> CanonicalPayment \<Rightarrow> bool" where
  "pay_changed current reduced \<longleftrightarrow> cp_PaymentID current = []
     \<or> cp_CanonicalStatus current \<noteq> cp_CanonicalStatus reduced
     \<or> cp_AmountMinor current \<noteq> cp_AmountMinor reduced
     \<or> cp_IntentID current \<noteq> cp_IntentID reduced"

definition announce :: "truth_env \<Rightarrow> bool \<Rightarrow> CanonicalPayment \<Rightarrow> Observation \<Rightarrow> unit poll_io" where
  "announce env changed reduced ob =
     bindE (ObservationOutboxRow env ob) (\<lambda>obsRow.
     bindE (store_write env (InsertOutbox obsRow)) (\<lambda>_.
     if changed then
       bindE (CanonicalOutboxRow env reduced ob) (\<lambda>canonRow.
       store_write env (InsertOutbox canonRow))
     else returnE ()))"

definition keep_id :: "CanonicalPayment \<Rightarrow> CanonicalPayment \<Rightarrow> CanonicalPayment" where
  "keep_id current reduced =
     (if cp_ID reduced = [] \<and> cp_ID current \<noteq> [] then reduced\<lparr>cp_ID := cp_ID current\<rparr> else reduced)"

definition process_new :: "truth_env \<Rightarrow> Observation \<Rightarrow> CanonicalPayment \<Rightarrow> truth_result poll_io" where
  "process_new env ob current =
     bindE (linkIntent env (ReducePaymentState current ob)) (\<lambda>reduced.
     (let changed = pay_changed current reduced;
          reduced = keep_id current reduced
      in bindE (store_write env (UpsertCanonicalPayment (tv_uuid env) reduced)) (\<lambda>_.
         bindE (store_write env (ApplyCanonicalSnapshot (tv_uuid env) reduced ob)) (\<lambda>_.
         bindE (announce env changed reduced ob) (\<lambda>_.
         returnE \<lparr>tr_Kind = (if cp_PaymentID current = [] then KindInserted
                            else if changed then KindUpdated else KindObserved),
                  tr_PaymentID = pob_PaymentID ob, tr_Canonical = reduced\<rparr>)))))"

definition process_body :: "truth_env \<Rightarrow> Observation \<Rightarrow> truth_result poll_io" where
  "process_body env ob =
     bindE (store_call env (InsertObservationEvent (tv_sha env) ob)) (\<lambda>inserted.
     bindE (store_read env (GetCanonical (pob_TenantID ob) (pob_ConnectorID ob) (pob_PaymentID ob))) (\<lambda>current.
     if \<not> inserted then
       returnE \<lparr>tr_Kind = KindDuplicate, tr_PaymentID = pob_PaymentID ob, tr_Canonical = current\<rparr>
     else process_new env ob current))"

text \<open>The observation as the processor passes it to the store.\<close>

definition prepared :: "(string \<Rightarrow> string) \<Rightarrow> Observation \<Rightarrow> Observation" where
  "prepared sha ob = (let ob = with_hash sha ob in ob\<lparr>pob_Source := normalizeSource (pob_Source ob)\<rparr>)"

definition Process :: "(truth_result poll_io \<Rightarrow> truth_result poll_io) \<Rightarrow> truth_env \<Rightarrow> Observation
    \<Rightarrow> truth_result poll_io" where
  "Process tx env ob =
     (case validateObservation ob of
        Some e \<Rightarrow> failE e
      | None \<Rightarrow> tx (process_body env (prepared (tv_sha env) ob)))"

definition ProcessNeutral :: "(truth_result poll_io \<Rightarrow> truth_result poll_io) \<Rightarrow> truth_env \<Rightarrow> string
    \<Rightarrow> string \<Rightarrow> string \<Rightarrow> string \<Rightarrow> string \<Rightarrow> string \<Rightarrow> string \<Rightarrow> NeutralPayment \<Rightarrow> bool
    \<Rightarrow> truth_result poll_io" where
  "ProcessNeutral tx env tenantID connectorID provider mode source sourceEventID receiptID item webhookMissing =
     (case MapNeutral (tv_sha env) (tv_now env) tenantID connectorID provider mode source sourceEventID
        receiptID item webhookMissing (tv_now env) of
        Inl e \<Rightarrow> failE e
      | Inr ob \<Rightarrow> Process tx env ob)"

section \<open>Payouts\<close>

definition payout_changed :: "CanonicalPayout \<Rightarrow> CanonicalPayout \<Rightarrow> bool" where
  "payout_changed current reduced \<longleftrightarrow> cq_PayoutID current = []
     \<or> cq_ProviderStatus current \<noteq> cq_ProviderStatus reduced
     \<or> cq_AmountMinor current \<noteq> cq_AmountMinor reduced"

definition payout_payload :: "CanonicalPayout \<Rightarrow> PayoutObservation \<Rightarrow> (string \<times> event_value) list" where
  "payout_payload pay ob =
     [(''event_type'', VString EventTypePayoutCanonical), (''payout_id'', VString (cq_PayoutID pay)),
      (''provider_status'', VString (cq_ProviderStatus pay)), (''amount_minor'', VInt (cq_AmountMinor pay)),
      (''currency'', VString (cq_Currency pay)), (''source'', VString (qob_Source ob))]"

definition parseOrNew :: "truth_env \<Rightarrow> string \<Rightarrow> string poll_io" where
  "parseOrNew env i = (case tv_parse env i of Inr p \<Rightarrow> returnE p | Inl _ \<Rightarrow> event_id env)"

definition announce_payout :: "truth_env \<Rightarrow> CanonicalPayout \<Rightarrow> PayoutObservation \<Rightarrow> unit poll_io" where
  "announce_payout env reduced ob =
     bindE (event_id env) (\<lambda>eventID. bindE (parseOrNew env (cq_ID reduced)) (\<lambda>agg.
     store_write env (InsertOutbox
       \<lparr>xr_EventID = eventID,
        xr_TenantID = (case tv_parse env (qob_TenantID ob) of Inl _ \<Rightarrow> tv_nil env | Inr t \<Rightarrow> t),
        xr_AggregateType = ''canonical_payout'', xr_AggregateID = agg,
        xr_EventType = EventTypePayoutCanonical, xr_Payload = payout_payload reduced ob,
        xr_IdempotencyKey = [], xr_CreatedAt = tv_now env\<rparr>)))"

definition process_payout_body :: "truth_env \<Rightarrow> PayoutObservation \<Rightarrow> payout_truth_result poll_io" where
  "process_payout_body env ob =
     bindE (store_call env (InsertPayoutObservationEvent (tv_sha env) ob)) (\<lambda>inserted.
     bindE (store_read env (GetCanonicalPayout (qob_TenantID ob) (qob_ConnectorID ob) (qob_PayoutID ob))) (\<lambda>current.
     if \<not> inserted then
       returnE \<lparr>qr_Kind = KindDuplicate, qr_PayoutID = qob_PayoutID ob, qr_Canonical = current\<rparr>
     else
       (let reduced = Reduce current ob;
            changed = payout_changed current reduced;
            reduced = (if cq_ID reduced = [] \<and> cq_ID current \<noteq> [] then reduced\<lparr>cq_ID := cq_ID current\<rparr> else reduced)
        in bindE (store_write env (UpsertCanonicalPayout (tv_uuid env) reduced)) (\<lambda>_.
           bindE (if changed then announce_payout env reduced ob else returnE ()) (\<lambda>_.
           returnE \<lparr>qr_Kind = (if cq_PayoutID current = [] then KindInserted
                              else if changed then KindUpdated else KindObserved),
                    qr_PayoutID = qob_PayoutID ob, qr_Canonical = reduced\<rparr>)))))"

definition ProcessPayout :: "(payout_truth_result poll_io \<Rightarrow> payout_truth_result poll_io) \<Rightarrow> truth_env
    \<Rightarrow> PayoutObservation \<Rightarrow> payout_truth_result poll_io" where
  "ProcessPayout tx env ob =
     (if TrimSpace (qob_PayoutID ob) = [] then failE ''payout_id is required''
      else tx (process_payout_body env (with_payout_hash (tv_sha env) ob)))"

section \<open>What the store calls do\<close>

lemma store_call_Inr:
  "store_call env f s = (Inr x, t) \<longleftrightarrow>
     tv_fault env (snd s) = None \<and> x = fst (f (fst s)) \<and> t = (snd (f (fst s)), Suc (snd s))"
  by (simp add: store_call_def attempt_Inr)

lemma store_read_Inr:
  "store_read env f s = (Inr x, t) \<longleftrightarrow>
     tv_fault env (snd s) = None \<and> x = f (fst s) \<and> t = (fst s, Suc (snd s))"
  by (simp add: store_read_def store_call_Inr)

lemma store_write_Inr:
  "store_write env f s = (Inr x, t) \<longleftrightarrow> tv_fault env (snd s) = None \<and> t = (f (fst s), Suc (snd s))"
  by (simp add: store_write_def store_call_Inr)

lemmas io_Inr = store_call_Inr store_read_Inr store_write_Inr returnE_Inr

text \<open>What the truth services keep in the store: the log, the payments, the outbox.\<close>

definition truth_part :: "MemoryStore \<Rightarrow> ObservationEvent list \<times> (string \<rightharpoonup> CanonicalPayment) \<times> EventRow list" where
  "truth_part m = (pm_Events m, pm_Canonicals m, pm_Outbox m)"

lemma truth_part_fields [simp]:
  "truth_part (m\<lparr>pm_next := n\<rparr>) = truth_part m"
  "truth_part (m\<lparr>pm_Payments := ps\<rparr>) = truth_part m"
  "truth_part (snd (mint uuid m)) = truth_part m"
  "truth_part (snd (mint_if_blank uuid i m)) = truth_part m"
  by (simp_all add: truth_part_def mint_def mint_if_blank_def)

lemma truth_part_fieldsD:
  assumes "truth_part m = truth_part m'"
  shows "pm_Events m = pm_Events m'" "pm_Canonicals m = pm_Canonicals m'" "pm_Outbox m = pm_Outbox m'"
  using assms by (simp_all add: truth_part_def)

lemma truth_part_snapshot [simp]: "truth_part (ApplyCanonicalSnapshot uuid pay ob m) = truth_part m"
  by (simp add: ApplyCanonicalSnapshot_def Let_def case_prod_beta)

lemma event_id_Inr: "event_id env s = (Inr i, t) \<Longrightarrow> truth_part (fst t) = truth_part (fst s)"
  by (auto simp: event_id_def case_prod_beta)

lemma parse_tenant_Inr: "parse_tenant env x s = (Inr i, t) \<Longrightarrow> t = s"
  by (simp add: parse_tenant_def returnE_Inr split: sum.splits)

lemma ObservationOutboxRow_Inr:
  assumes "ObservationOutboxRow env ob s = (Inr row, t)"
  shows "truth_part (fst t) = truth_part (fst s)
    \<and> xr_IdempotencyKey row = observation_key (pob_ConnectorID ob) (pob_PaymentID ob) (pob_SourceHash ob)"
  using assms unfolding ObservationOutboxRow_def
  by (auto elim!: bindE_InrE simp: returnE_Inr dest!: event_id_Inr parse_tenant_Inr)

lemma CanonicalOutboxRow_Inr:
  "CanonicalOutboxRow env pay ob s = (Inr row, t) \<Longrightarrow> truth_part (fst t) = truth_part (fst s)"
  unfolding CanonicalOutboxRow_def
  by (auto elim!: bindE_InrE simp: returnE_Inr dest!: event_id_Inr parse_tenant_Inr)

lemma InsertOutbox_part [simp]:
  "pm_Events (InsertOutbox row m) = pm_Events m"
  "pm_Canonicals (InsertOutbox row m) = pm_Canonicals m"
  "set (pm_Outbox m) \<subseteq> set (pm_Outbox (InsertOutbox row m))"
  by (auto simp: InsertOutbox_def)

lemma InsertOutbox_has:
  "xr_IdempotencyKey row \<in> xr_IdempotencyKey ` set (pm_Outbox (InsertOutbox row m))"
  by (auto simp: InsertOutbox_def list_ex_iff intro: rev_image_eqI)

lemma announce_Inr:
  assumes "announce env changed pay ob s = (Inr u, t)"
  shows "pm_Events (fst t) = pm_Events (fst s) \<and> pm_Canonicals (fst t) = pm_Canonicals (fst s)
    \<and> set (pm_Outbox (fst s)) \<subseteq> set (pm_Outbox (fst t))
    \<and> observation_key (pob_ConnectorID ob) (pob_PaymentID ob) (pob_SourceHash ob)
        \<in> xr_IdempotencyKey ` set (pm_Outbox (fst t))"
proof -
  from assms obtain row s1 s2 v where row: "ObservationOutboxRow env ob s = (Inr row, s1)"
    and s2: "s2 = (InsertOutbox row (fst s1), Suc (snd s1))"
    and rest: "(if changed then bindE (CanonicalOutboxRow env pay ob) (\<lambda>canonRow. store_write env (InsertOutbox canonRow))
                else returnE ()) s2 = (Inr v, t)"
    unfolding announce_def by (auto elim!: bindE_InrE simp: io_Inr)
  from ObservationOutboxRow_Inr [OF row]
  have same: "truth_part (fst s1) = truth_part (fst s)"
    and key: "xr_IdempotencyKey row = observation_key (pob_ConnectorID ob) (pob_PaymentID ob) (pob_SourceHash ob)"
    by simp_all
  have "pm_Events (fst t) = pm_Events (fst s2) \<and> pm_Canonicals (fst t) = pm_Canonicals (fst s2)
      \<and> set (pm_Outbox (fst s2)) \<subseteq> set (pm_Outbox (fst t))"
  proof (cases changed)
    case True
    with rest obtain row' s3 where c: "CanonicalOutboxRow env pay ob s2 = (Inr row', s3)"
      and t: "t = (InsertOutbox row' (fst s3), Suc (snd s3))"
      by (auto elim!: bindE_InrE simp: io_Inr)
    from truth_part_fieldsD [OF CanonicalOutboxRow_Inr [OF c]] t show ?thesis
      using InsertOutbox_part(3) [of "fst s3" row'] by simp
  next
    case False
    with rest show ?thesis by (simp add: returnE_Inr)
  qed
  moreover have "set (pm_Outbox (fst s)) \<subseteq> set (pm_Outbox (fst s2))"
    using truth_part_fieldsD [OF same] InsertOutbox_part(3) [of "fst s1" row] by (simp add: s2)
  moreover have "xr_IdempotencyKey row \<in> xr_IdempotencyKey ` set (pm_Outbox (fst s2))"
    by (simp add: s2 InsertOutbox_has)
  ultimately show ?thesis
    using truth_part_fieldsD [OF same] by (auto simp: s2 key)
qed

lemma linkIntent_Inr:
  assumes "linkIntent env pay s = (Inr pay', t)"
  shows "fst t = fst s \<and> cp_CanonicalStatus pay' = cp_CanonicalStatus pay \<and> cp_PaymentID pay' = cp_PaymentID pay
    \<and> cp_TenantID pay' = cp_TenantID pay \<and> cp_ConnectorID pay' = cp_ConnectorID pay"
  using assms unfolding linkIntent_def
  by (auto simp: bindE_Inr io_Inr split: if_splits option.splits)

definition pay_key :: "CanonicalPayment \<Rightarrow> string" where
  "pay_key p = canonicalKey (cp_TenantID p) (cp_ConnectorID p) (cp_PaymentID p)"

lemma Upsert_part:
  "\<exists>p. truth_part (UpsertCanonicalPayment uuid pay m)
      = (pm_Events m, (pm_Canonicals m)(pay_key pay \<mapsto> p), pm_Outbox m)
    \<and> cp_CanonicalStatus p = cp_CanonicalStatus pay \<and> cp_PaymentID p = cp_PaymentID pay \<and> pay_key p = pay_key pay"
  by (auto simp: UpsertCanonicalPayment_def truth_part_def pay_key_def Let_def mint_if_blank_def mint_def)

lemma process_new_Inr:
  assumes "process_new env ob cur s = (Inr r, t)"
  shows "\<exists>p. pm_Events (fst t) = pm_Events (fst s)
    \<and> pm_Canonicals (fst t) = (pm_Canonicals (fst s))(pay_key (ReducePaymentState cur ob) \<mapsto> p)
    \<and> set (pm_Outbox (fst s)) \<subseteq> set (pm_Outbox (fst t))
    \<and> observation_key (pob_ConnectorID ob) (pob_PaymentID ob) (pob_SourceHash ob)
        \<in> xr_IdempotencyKey ` set (pm_Outbox (fst t))
    \<and> cp_CanonicalStatus p = cp_CanonicalStatus (ReducePaymentState cur ob)
    \<and> cp_PaymentID p = cp_PaymentID (ReducePaymentState cur ob)
    \<and> pay_key p = pay_key (ReducePaymentState cur ob)"
proof -
  from assms obtain pay s1 s2 s3 u where link: "linkIntent env (ReducePaymentState cur ob) s = (Inr pay, s1)"
    and s2: "fst s2 = UpsertCanonicalPayment (tv_uuid env) (keep_id cur pay) (fst s1)"
    and s3: "fst s3 = ApplyCanonicalSnapshot (tv_uuid env) (keep_id cur pay) ob (fst s2)"
    and an: "announce env (pay_changed cur pay) (keep_id cur pay) ob s3 = (Inr u, t)"
    unfolding process_new_def Let_def by (auto elim!: bindE_InrE simp: io_Inr)
  let ?reduced = "keep_id cur pay"
  have red: "cp_CanonicalStatus ?reduced = cp_CanonicalStatus pay" "cp_PaymentID ?reduced = cp_PaymentID pay"
      "pay_key ?reduced = pay_key pay"
    by (simp_all add: keep_id_def pay_key_def)
  obtain p where up: "truth_part (fst s2) = (pm_Events (fst s1), (pm_Canonicals (fst s1))(pay_key ?reduced \<mapsto> p), pm_Outbox (fst s1))"
    and p: "cp_CanonicalStatus p = cp_CanonicalStatus ?reduced" "cp_PaymentID p = cp_PaymentID ?reduced"
      "pay_key p = pay_key ?reduced"
    using Upsert_part [of "tv_uuid env" ?reduced "fst s1"] by (auto simp: s2)
  have "truth_part (fst s3) = truth_part (fst s2)" by (simp add: s3)
  with up have s3': "pm_Events (fst s3) = pm_Events (fst s1)"
    "pm_Canonicals (fst s3) = (pm_Canonicals (fst s1))(pay_key ?reduced \<mapsto> p)" "pm_Outbox (fst s3) = pm_Outbox (fst s1)"
    by (simp_all add: truth_part_def)
  show ?thesis
    using linkIntent_Inr [OF link] announce_Inr [OF an] s3' p red
    by (intro exI [of _ p]) (simp add: pay_key_def)
qed

section \<open>The log and the current state\<close>

definition logged :: "string \<Rightarrow> ObservationEvent list \<Rightarrow> string list" where
  "logged k evs = map ev_Status (filter (\<lambda>ev. ev_IdentityHash ev \<noteq> []
     \<and> canonicalKey (ev_TenantID ev) (ev_ConnectorID ev) (ev_PaymentID ev) = k) evs)"

text \<open>The specification: the status of a payment is the reduction of its log.\<close>

definition status_of_log :: "string list \<Rightarrow> string" where
  "status_of_log ss = foldl (\<lambda>cur inc. fst (nextStatus cur [] inc [])) [] ss"

definition entry_ok :: "string \<Rightarrow> string list \<Rightarrow> CanonicalPayment option \<Rightarrow> bool" where
  "entry_ok k ss entry = (case entry of
      None \<Rightarrow> ss = []
    | Some p \<Rightarrow> ss \<noteq> [] \<and> pay_key p = k \<and> cp_PaymentID p \<noteq> [] \<and> cp_CanonicalStatus p = status_of_log ss)"

definition truth_inv :: "MemoryStore \<Rightarrow> bool" where
  "truth_inv m \<longleftrightarrow>
     distinct (filter (\<lambda>h. h \<noteq> []) (map ev_IdentityHash (pm_Events m)))
   \<and> (\<forall>k. entry_ok k (logged k (pm_Events m)) (pm_Canonicals m k))
   \<and> (\<forall>ev \<in> set (pm_Events m). ev_IdentityHash ev \<noteq> [] \<longrightarrow>
        observation_key (ev_ConnectorID ev) (ev_PaymentID ev) (ev_PayloadHash ev)
          \<in> xr_IdempotencyKey ` set (pm_Outbox m))"

lemma fst_nextStatus: "fst (nextStatus c cp i ip) = fst (nextStatus c [] i [])"
  by (simp add: nextStatus_def)

lemma status_of_log_snoc: "status_of_log (ss @ [i]) = fst (nextStatus (status_of_log ss) cp i ip)"
  by (simp add: status_of_log_def fst_nextStatus [of _ cp i ip])

lemma logged_snoc:
  "logged k (evs @ [ev]) = logged k evs @
     (if ev_IdentityHash ev \<noteq> [] \<and> canonicalKey (ev_TenantID ev) (ev_ConnectorID ev) (ev_PaymentID ev) = k
      then [ev_Status ev] else [])"
  by (simp add: logged_def)

lemma truth_inv_new: "truth_inv NewMemoryStore"
  by (simp add: truth_inv_def NewMemoryStore_def logged_def entry_ok_def)

text \<open>The step that matters: a new observation is logged and folded into its payment.\<close>

lemma truth_inv_process:
  assumes inv: "truth_inv m"
    and hash: "pob_IdentityHash ob \<noteq> []" and pid: "pob_PaymentID ob \<noteq> []"
    and new: "\<forall>ev \<in> set (pm_Events m). ev_IdentityHash ev \<noteq> pob_IdentityHash ob"
    and cur: "cur = GetCanonical (pob_TenantID ob) (pob_ConnectorID ob) (pob_PaymentID ob) m"
    and p: "cp_CanonicalStatus p = cp_CanonicalStatus (ReducePaymentState cur ob)"
      "cp_PaymentID p = cp_PaymentID (ReducePaymentState cur ob)" "pay_key p = pay_key (ReducePaymentState cur ob)"
    and m': "pm_Events m' = pm_Events m @ [event_of ob]"
      "pm_Canonicals m' = (pm_Canonicals m)(pay_key (ReducePaymentState cur ob) \<mapsto> p)"
      "set (pm_Outbox m) \<subseteq> set (pm_Outbox m')"
      "observation_key (pob_ConnectorID ob) (pob_PaymentID ob) (pob_SourceHash ob)
         \<in> xr_IdempotencyKey ` set (pm_Outbox m')"
  shows "truth_inv m'"
proof -
  let ?k = "canonicalKey (pob_TenantID ob) (pob_ConnectorID ob) (pob_PaymentID ob)"
  let ?r = "ReducePaymentState cur ob"
  have inv2: "entry_ok k (logged k (pm_Events m)) (pm_Canonicals m k)" for k
    using inv unfolding truth_inv_def by blast
  have r: "pay_key ?r = ?k \<and> cp_PaymentID ?r \<noteq> []
      \<and> cp_CanonicalStatus ?r = status_of_log (logged ?k (pm_Events m) @ [pob_CanonicalStatus ob])"
  proof (cases "pm_Canonicals m ?k")
    case None
    then have "cur = zero_CanonicalPayment" by (simp add: cur GetCanonical_def)
    moreover have "logged ?k (pm_Events m) = []" using inv2 [of ?k] None by (simp add: entry_ok_def)
    ultimately show ?thesis
      using pid by (simp add: reduce_first zero_CanonicalPayment_def pay_key_def ReducePaymentState_def
          canonicalFromObservation_def status_of_log_def nextStatus_def)
  next
    case (Some q)
    then have q: "cur = q" by (simp add: cur GetCanonical_def)
    then show ?thesis
      using inv2 [of ?k] Some
      by (simp add: entry_ok_def pay_key_def reduce_status status_of_log_snoc [of _ _ "cp_ProviderStatus q" "pob_ProviderStatus ob"])
  qed
  have log: "logged k (pm_Events m') = logged k (pm_Events m) @ (if k = ?k then [pob_CanonicalStatus ob] else [])" for k
    using hash by (simp add: m' logged_snoc event_of_def)
  have "distinct (filter (\<lambda>h. h \<noteq> []) (map ev_IdentityHash (pm_Events m')))"
    using inv hash new unfolding truth_inv_def by (auto simp: m' event_of_def)
  moreover have "entry_ok k (logged k (pm_Events m')) (pm_Canonicals m' k)" for k
  proof (cases "k = ?k")
    case True
    then show ?thesis using r p by (simp add: entry_ok_def log m'(2))
  next
    case False
    then show ?thesis using inv2 [of k] r by (simp add: log m'(2))
  qed
  moreover have "observation_key (ev_ConnectorID ev) (ev_PaymentID ev) (ev_PayloadHash ev)
      \<in> xr_IdempotencyKey ` set (pm_Outbox m')"
    if "ev \<in> set (pm_Events m')" "ev_IdentityHash ev \<noteq> []" for ev
    using that inv m'(4) image_mono [OF m'(3), of xr_IdempotencyKey]
    unfolding truth_inv_def by (auto simp: m'(1) event_of_def)
  ultimately show ?thesis unfolding truth_inv_def by blast
qed

section \<open>One delivery\<close>

lemma prepared_hash: "(\<And>x. sha x \<noteq> []) \<Longrightarrow> pob_IdentityHash (prepared sha ob) \<noteq> []"
  by (simp add: prepared_def with_hash_def with_identity_def ObservationIdentityHash_def Let_def)

lemma prepared_fields [simp]:
  "pob_PaymentID (prepared sha ob) = pob_PaymentID ob"
  "pob_CanonicalStatus (prepared sha ob) = pob_CanonicalStatus ob"
  by (simp_all add: prepared_def with_hash_def with_identity_def Let_def)

lemma prepared_with_hash: "(\<And>x. sha x \<noteq> []) \<Longrightarrow> with_hash sha (prepared sha ob) = prepared sha ob"
  using prepared_hash [of sha ob] by (simp add: with_hash_def)

lemma process_body_cases:
  assumes sha: "\<And>x. tv_sha env x \<noteq> []"
    and run: "process_body env (prepared (tv_sha env) ob) s = (Inr r, t)"
  obtains (dup) "fst t = fst s" "tr_Kind r = KindDuplicate"
      "\<exists>ev \<in> set (pm_Events (fst s)). ev_IdentityHash ev = pob_IdentityHash (prepared (tv_sha env) ob)"
  | (new) m n where "\<forall>ev \<in> set (pm_Events (fst s)). ev_IdentityHash ev \<noteq> pob_IdentityHash (prepared (tv_sha env) ob)"
      "m = (fst s)\<lparr>pm_Events := pm_Events (fst s) @ [event_of (prepared (tv_sha env) ob)]\<rparr>"
      "process_new env (prepared (tv_sha env) ob)
         (GetCanonical (pob_TenantID (prepared (tv_sha env) ob)) (pob_ConnectorID (prepared (tv_sha env) ob))
            (pob_PaymentID ob) (fst s)) (m, n) = (Inr r, t)"
proof -
  let ?ob = "prepared (tv_sha env) ob"
  let ?seen = "\<exists>ev \<in> set (pm_Events (fst s)). ev_IdentityHash ev = pob_IdentityHash ?ob"
  have ins: "InsertObservationEvent (tv_sha env) ?ob (fst s) =
      (if ?seen then (False, fst s) else (True, (fst s)\<lparr>pm_Events := pm_Events (fst s) @ [event_of ?ob]\<rparr>))"
    using prepared_hash [of "tv_sha env" ob] sha
    by (simp add: InsertObservationEvent_def prepared_with_hash list_ex_iff)
  show thesis
  proof (cases ?seen)
    case True
    then show thesis
      using run by (intro dup) (auto simp: process_body_def bindE_Inr io_Inr ins)
  next
    case False
    then show thesis
      using run
      by (intro new [OF _ refl]) (auto simp: process_body_def bindE_Inr io_Inr ins GetCanonical_def)
  qed
qed

lemma process_body_inv:
  assumes sha: "\<And>x. tv_sha env x \<noteq> []" and pid: "pob_PaymentID ob \<noteq> []"
    and run: "process_body env (prepared (tv_sha env) ob) s = (Inr r, t)" and inv: "truth_inv (fst s)"
  shows "truth_inv (fst t)"
  using sha run
proof (cases rule: process_body_cases)
  case dup
  then show ?thesis using inv by simp
next
  case (new m n)
  let ?ob = "prepared (tv_sha env) ob"
  let ?cur = "GetCanonical (pob_TenantID ?ob) (pob_ConnectorID ?ob) (pob_PaymentID ob) (fst s)"
  obtain p where ev: "pm_Events (fst t) = pm_Events m"
    and can: "pm_Canonicals (fst t) = (pm_Canonicals m)(pay_key (ReducePaymentState ?cur ?ob) \<mapsto> p)"
    and out: "set (pm_Outbox m) \<subseteq> set (pm_Outbox (fst t))"
      "observation_key (pob_ConnectorID ?ob) (pob_PaymentID ?ob) (pob_SourceHash ?ob)
         \<in> xr_IdempotencyKey ` set (pm_Outbox (fst t))"
    and p: "cp_CanonicalStatus p = cp_CanonicalStatus (ReducePaymentState ?cur ?ob)"
      "cp_PaymentID p = cp_PaymentID (ReducePaymentState ?cur ?ob)"
      "pay_key p = pay_key (ReducePaymentState ?cur ?ob)"
    using process_new_Inr [OF new(3)] by (metis fst_conv)
  have ev': "pm_Events (fst t) = pm_Events (fst s) @ [event_of ?ob]" by (simp add: ev new(2))
  have can': "pm_Canonicals (fst t) = (pm_Canonicals (fst s))(pay_key (ReducePaymentState ?cur ?ob) \<mapsto> p)"
    by (simp only: can) (simp add: new(2))
  have out': "set (pm_Outbox (fst s)) \<subseteq> set (pm_Outbox (fst t))" using out(1) by (simp add: new(2))
  have hash: "pob_IdentityHash ?ob \<noteq> []" by (rule prepared_hash) (rule sha)
  have pid': "pob_PaymentID ?ob \<noteq> []" using pid by simp
  show ?thesis
    by (rule truth_inv_process [OF inv hash pid' new(1) _ p ev' can' out' out(2)]) simp
qed

section \<open>Everything that writes to the store\<close>

text \<open>
  One step of a deployed system on the SQL store: a delivery through the processor, under any
  environment (clock, identifiers, failing calls) of the given digest, or one of the store calls of
  the polling service.
\<close>

inductive truth_step :: "(string \<Rightarrow> string) \<Rightarrow> MemoryStore \<Rightarrow> MemoryStore \<Rightarrow> bool" for sha where
  deliver: "tv_sha env = sha \<Longrightarrow>
    truth_step sha m (fst (snd (Process (RunInTx_sql (tv_fault env)) env ob (m, n))))"
| deliver_payout: "tv_sha env = sha \<Longrightarrow>
    truth_step sha m (fst (snd (ProcessPayout (RunInTx_sql (tv_fault env)) env pob (m, n))))"
| poll_payment: "truth_step sha m (snd (UpsertPayment uuid px m))"
| poll_settlement: "truth_step sha m (snd (UpsertSettlementLine uuid sx m))"
| link: "truth_step sha m (SetIntent tenantID orderID intentID m)"
| emit: "truth_step sha m (InsertOutbox row m)"

lemma truth_inv_extend:
  assumes "truth_inv m" and "pm_Events m' = pm_Events m @ evs" and "\<forall>ev \<in> set evs. ev_IdentityHash ev = []"
    and "pm_Canonicals m' = pm_Canonicals m" and "set (pm_Outbox m) \<subseteq> set (pm_Outbox m')"
  shows "truth_inv m'"
proof -
  have "logged k (pm_Events m') = logged k (pm_Events m)" for k
    using assms(2,3) by (simp add: logged_def)
  moreover have "filter (\<lambda>h. h \<noteq> []) (map ev_IdentityHash (pm_Events m'))
      = filter (\<lambda>h. h \<noteq> []) (map ev_IdentityHash (pm_Events m))"
    using assms(2,3) by (simp add: filter_empty_conv)
  ultimately show ?thesis
    using assms(1) image_mono [OF assms(5), of xr_IdempotencyKey] assms(3)
    unfolding truth_inv_def by (auto simp: assms(2,4))
qed

lemma UpsertPayment_log:
  "\<exists>evs. pm_Events (snd (UpsertPayment uuid px m)) = pm_Events m @ evs
     \<and> (\<forall>ev \<in> set evs. ev_IdentityHash ev = [])
     \<and> pm_Canonicals (snd (UpsertPayment uuid px m)) = pm_Canonicals m
     \<and> pm_Outbox (snd (UpsertPayment uuid px m)) = pm_Outbox m"
  by (simp add: UpsertPayment_def Let_def upsert_event_def mint_if_blank_def mint_def split: option.split)

lemma UpsertSettlementLine_part [simp]:
  "truth_part (snd (UpsertSettlementLine uuid sx m)) = truth_part m"
  by (simp add: UpsertSettlementLine_def Let_def truth_part_def mint_if_blank_def mint_def split: option.split)

text \<open>Computations that only add to the outbox, as far as payments are concerned.\<close>

named_theorems log_kept_intros \<open>a step keeps the payment log and the payments\<close>

definition extends :: "MemoryStore \<Rightarrow> MemoryStore \<Rightarrow> bool" where
  "extends m m' \<longleftrightarrow> pm_Events m' = pm_Events m \<and> pm_Canonicals m' = pm_Canonicals m
     \<and> set (pm_Outbox m) \<subseteq> set (pm_Outbox m')"

definition log_kept :: "'a poll_io \<Rightarrow> bool" where
  "log_kept f \<longleftrightarrow> (\<forall>s x t. f s = (Inr x, t) \<longrightarrow> extends (fst s) (fst t))"

lemma extends_part: "truth_part m' = truth_part m \<Longrightarrow> extends m m'"
  by (simp add: extends_def truth_part_def)

lemma log_kept_returnE [log_kept_intros]: "log_kept (returnE x)"
  by (simp add: log_kept_def returnE_Inr extends_def)

lemma log_kept_bindE [log_kept_intros]:
  "log_kept f \<Longrightarrow> (\<And>x. log_kept (g x)) \<Longrightarrow> log_kept (bindE f g)"
  unfolding log_kept_def
proof (intro allI impI)
  fix s y t
  assume f: "\<forall>s x t. f s = (Inr x, t) \<longrightarrow> extends (fst s) (fst t)"
    and g: "\<And>x. \<forall>s y t. g x s = (Inr y, t) \<longrightarrow> extends (fst s) (fst t)"
    and "bindE f g s = (Inr y, t)"
  then obtain x u where "f s = (Inr x, u)" "g x u = (Inr y, t)" by (elim bindE_InrE)
  with f g have "extends (fst s) (fst u)" "extends (fst u) (fst t)" by blast+
  then show "extends (fst s) (fst t)" by (auto simp: extends_def)
qed

lemma log_kept_store [log_kept_intros]:
  "(\<And>m. extends m (snd (f m))) \<Longrightarrow> log_kept (store_call env f)"
  "log_kept (store_read env g)"
  "(\<And>m. extends m (h m)) \<Longrightarrow> log_kept (store_write env h)"
  by (simp_all add: log_kept_def io_Inr) (simp add: extends_def)

lemma log_kept_if [log_kept_intros]: "log_kept f \<Longrightarrow> log_kept g \<Longrightarrow> log_kept (if b then f else g)"
  by simp

lemma log_kept_event_id [log_kept_intros]: "log_kept (event_id env)"
  unfolding log_kept_def using event_id_Inr by (blast intro: extends_part)

lemma log_kept_parseOrNew [log_kept_intros]: "log_kept (parseOrNew env i)"
  by (simp add: parseOrNew_def log_kept_intros split: sum.split)

lemma payout_writes_extend [log_kept_intros]:
  "extends m (snd (InsertPayoutObservationEvent sha q m))"
  "extends m (UpsertCanonicalPayout uuid pay m)"
  "extends m (InsertOutbox row m)"
  by (simp_all add: InsertPayoutObservationEvent_def UpsertCanonicalPayout_def extends_def Let_def
      mint_if_blank_def mint_def)

lemma process_payout_body_log: "log_kept (process_payout_body env ob)"
  unfolding process_payout_body_def announce_payout_def Let_def by (intro log_kept_intros)

lemma truth_step_inv:
  assumes "truth_step sha m m'" and sha: "\<And>x. sha x \<noteq> []" and inv: "truth_inv m"
  shows "truth_inv m'"
  using assms(1)
proof cases
  case (deliver env ob n)
  show ?thesis
  proof (cases "validateObservation ob")
    case None
    have pid: "pob_PaymentID ob \<noteq> []" using None by (auto simp: validateObservation_def split: if_splits)
    show ?thesis
      unfolding deliver(1) Process_def None option.case
    proof (cases rule: RunInTx_sql_cases [of "tv_fault env" "process_body env (prepared (tv_sha env) ob)" "(m, n)"])
      case (rollback e)
      then show "truth_inv (fst (snd (RunInTx_sql (tv_fault env) (process_body env (prepared (tv_sha env) ob)) (m, n))))"
        using inv by simp
    next
      case (commit x m2 k)
      then show "truth_inv (fst (snd (RunInTx_sql (tv_fault env) (process_body env (prepared (tv_sha env) ob)) (m, n))))"
        using process_body_inv [OF _ pid commit(1)] sha deliver(2) inv by simp
    qed
  next
    case (Some e)
    then show ?thesis using inv by (simp add: deliver(1) Process_def failE_def)
  qed
next
  case (deliver_payout env pob n)
  show ?thesis
  proof (cases "TrimSpace (qob_PayoutID pob) = []")
    case True
    then show ?thesis using inv by (simp add: deliver_payout(1) ProcessPayout_def failE_def)
  next
    case False
    let ?f = "process_payout_body env (with_payout_hash (tv_sha env) pob)"
    have "truth_inv (fst (snd (RunInTx_sql (tv_fault env) ?f (m, n))))"
    proof (cases rule: RunInTx_sql_cases [of "tv_fault env" ?f "(m, n)"])
      case (rollback e)
      then show ?thesis using inv by simp
    next
      case (commit x m2 k)
      then show ?thesis
        using process_payout_body_log [of env "with_payout_hash (tv_sha env) pob", unfolded log_kept_def, rule_format, OF commit(1)]
          truth_inv_extend [OF inv, of m2 "[]"]
        by (simp add: extends_def)
    qed
    then show ?thesis using False by (simp add: deliver_payout(1) ProcessPayout_def)
  qed
next
  case (poll_payment uuid px)
  obtain evs where "pm_Events m' = pm_Events m @ evs" "\<forall>ev \<in> set evs. ev_IdentityHash ev = []"
    "pm_Canonicals m' = pm_Canonicals m" "pm_Outbox m' = pm_Outbox m"
    using UpsertPayment_log [of uuid px m] unfolding poll_payment by blast
  then show ?thesis by (intro truth_inv_extend [OF inv]) simp_all
next
  case (poll_settlement uuid sx)
  then show ?thesis
    using truth_part_fieldsD [OF UpsertSettlementLine_part [of uuid sx m]] truth_inv_extend [OF inv, of m' "[]"] by simp
next
  case (link tenantID orderID intentID)
  then show ?thesis using truth_inv_extend [OF inv, of m' "[]"] by (simp add: SetIntent_def)
next
  case (emit row)
  then show ?thesis using truth_inv_extend [OF inv, of m' "[]"] by simp
qed

lemma truth_reach_inv:
  assumes "(truth_step sha)\<^sup>*\<^sup>* NewMemoryStore m" and "\<And>x. sha x \<noteq> []"
  shows "truth_inv m"
  using assms(1) by (induction rule: rtranclp_induct) (simp_all add: truth_inv_new truth_step_inv assms(2))

subsection \<open>Redelivery\<close>

definition seen :: "(string \<Rightarrow> string) \<Rightarrow> Observation \<Rightarrow> MemoryStore \<Rightarrow> bool" where
  "seen sha ob m \<longleftrightarrow> pob_IdentityHash (prepared sha ob) \<in> ev_IdentityHash ` set (pm_Events m)"

lemma process_body_seen:
  assumes sha: "\<And>x. tv_sha env x \<noteq> []" and run: "process_body env (prepared (tv_sha env) ob) s = (Inr r, t)"
  shows "seen (tv_sha env) ob (fst t) \<and> set (pm_Events (fst s)) \<subseteq> set (pm_Events (fst t))"
  using sha run
proof (cases rule: process_body_cases)
  case dup
  then show ?thesis by (simp add: seen_def image_iff) metis
next
  case (new m n)
  then have "pm_Events (fst t) = pm_Events (fst s) @ [event_of (prepared (tv_sha env) ob)]"
    using process_new_Inr [OF new(3)] by auto
  then show ?thesis by (simp add: seen_def event_of_def subset_insertI)
qed

lemma Process_cases:
  obtains (error) e where "fst (Process (RunInTx_sql fault) env ob s) = Inl e"
      "fst (snd (Process (RunInTx_sql fault) env ob s)) = fst s"
  | (accept) r m k where "validateObservation ob = None"
      "process_body env (prepared (tv_sha env) ob) (fst s, Suc (snd s)) = (Inr r, (m, k))"
      "Process (RunInTx_sql fault) env ob s = (Inr r, (m, Suc k))"
proof (cases "validateObservation ob")
  case (Some e)
  then show thesis by (intro error [of e]) (simp_all add: Process_def failE_def)
next
  case None
  then have P: "Process (RunInTx_sql fault) env ob s = RunInTx_sql fault (process_body env (prepared (tv_sha env) ob)) s"
    by (simp add: Process_def)
  show thesis
    by (rule RunInTx_sql_cases [of fault "process_body env (prepared (tv_sha env) ob)" s])
       (use P None error accept in auto)
qed

lemma truth_step_events:
  assumes "truth_step sha m m'" and sha: "\<And>x. sha x \<noteq> []"
  shows "set (pm_Events m) \<subseteq> set (pm_Events m')"
  using assms(1)
proof cases
  case (deliver env ob n)
  have sha': "tv_sha env x \<noteq> []" for x using sha deliver(2) by simp
  show ?thesis
  proof (cases rule: Process_cases [of "tv_fault env" env ob "(m, n)"])
    case (error e)
    then show ?thesis by (simp add: deliver(1))
  next
    case (accept r m2 k)
    then show ?thesis using process_body_seen [OF sha' accept(2)] by (simp add: deliver(1))
  qed
next
  case (deliver_payout env pob n)
  let ?f = "process_payout_body env (with_payout_hash (tv_sha env) pob)"
  have "set (pm_Events m) \<subseteq> set (pm_Events (fst (snd (RunInTx_sql (tv_fault env) ?f (m, n)))))"
  proof (cases rule: RunInTx_sql_cases [of "tv_fault env" ?f "(m, n)"])
    case (rollback e)
    then show ?thesis by simp
  next
    case (commit x m2 k)
    then show ?thesis
      using process_payout_body_log [of env "with_payout_hash (tv_sha env) pob", unfolded log_kept_def, rule_format, OF commit(1)]
      by (simp add: extends_def)
  qed
  then show ?thesis
    by (cases "TrimSpace (qob_PayoutID pob) = []") (simp_all add: deliver_payout(1) ProcessPayout_def failE_def)
next
  case (poll_payment uuid px)
  then show ?thesis using UpsertPayment_log [of uuid px m] by auto
next
  case (poll_settlement uuid sx)
  then show ?thesis using truth_part_fieldsD [OF UpsertSettlementLine_part [of uuid sx m]] by simp
qed (simp_all add: SetIntent_def)

lemma truth_steps_events:
  assumes "(truth_step sha)\<^sup>*\<^sup>* m m'" and "\<And>x. sha x \<noteq> []"
  shows "set (pm_Events m) \<subseteq> set (pm_Events m')"
  using assms(1)
proof (induction rule: rtranclp_induct)
  case (step y z)
  from truth_step_events [OF step.hyps(2) assms(2)] step.IH show ?case by simp
qed simp

text \<open>
  C10.  The current payment is the reduction of its log: in every store that deliveries, polls, links
  and failing calls can produce, a payment exists exactly when observations of it are logged, it is
  stored under its own key, and its status is what reducing the logged statuses in order gives.
\<close>

theorem payment_is_reduction_of_its_log:
  assumes "(truth_step sha)\<^sup>*\<^sup>* NewMemoryStore m" and "\<And>x. sha x \<noteq> []"
  shows "(pm_Canonicals m k = None \<longleftrightarrow> logged k (pm_Events m) = [])
    \<and> (\<forall>p. pm_Canonicals m k = Some p \<longrightarrow>
         pay_key p = k \<and> cp_CanonicalStatus p = status_of_log (logged k (pm_Events m)))"
proof -
  have "entry_ok k (logged k (pm_Events m)) (pm_Canonicals m k)"
    using truth_reach_inv [OF assms] unfolding truth_inv_def by blast
  then show ?thesis by (cases "pm_Canonicals m k") (simp_all add: entry_ok_def)
qed

text \<open>
  Every observation is logged once and announced: no two logged observations carry the same
  identity, and for every one the outbox holds its event, although the store call or the commit
  that fails is arbitrary.
\<close>

theorem logged_once_and_announced:
  assumes "(truth_step sha)\<^sup>*\<^sup>* NewMemoryStore m" and "\<And>x. sha x \<noteq> []"
  shows "distinct (filter (\<lambda>h. h \<noteq> []) (map ev_IdentityHash (pm_Events m)))
    \<and> (\<forall>ev \<in> set (pm_Events m). ev_IdentityHash ev \<noteq> [] \<longrightarrow>
         (\<exists>row \<in> set (pm_Outbox m).
            xr_IdempotencyKey row = observation_key (ev_ConnectorID ev) (ev_PaymentID ev) (ev_PayloadHash ev)))"
  using truth_reach_inv [OF assms] unfolding truth_inv_def by (auto simp: image_iff) metis

text \<open>
  What identifies an observation: tenant, connector, provider, payment, source, event and payload
  hash, up to surrounding blanks, the default provider and the spelling of the source.  Everything
  else (receipt, time of observation, amounts, status, the read model's own fields) may differ
  between two deliveries of the same event.
\<close>

definition observation_identity :: "Observation \<Rightarrow> string list" where
  "observation_identity ob = [TrimSpace (pob_TenantID ob), TrimSpace (pob_ConnectorID ob),
     TrimSpace (if pob_Provider ob = [] then ''razorpay'' else pob_Provider ob), TrimSpace (pob_PaymentID ob),
     normalizeSource (pob_Source ob), TrimSpace (pob_SourceEventID ob), TrimSpace (pob_SourceHash ob)]"

text \<open>An observation carries no hash yet, or the one \<open>MapNeutral\<close> computes.\<close>

definition own_hash :: "(string \<Rightarrow> string) \<Rightarrow> Observation \<Rightarrow> bool" where
  "own_hash sha ob \<longleftrightarrow> pob_IdentityHash ob = [] \<or> ob = with_identity sha ob"

lemma prepared_identity:
  assumes "own_hash sha ob"
  shows "pob_IdentityHash (prepared sha ob) = sha (str_join (observation_identity ob) ''|'')"
proof -
  have "pob_IdentityHash (prepared sha ob) = pob_IdentityHash (with_identity sha ob)"
    using assms unfolding own_hash_def prepared_def with_hash_def Let_def by auto
  then show ?thesis
    by (simp add: with_identity_def ObservationIdentityHash_def observation_identity_def Let_def)
qed

lemma seen_again:
  "own_hash sha ob \<Longrightarrow> own_hash sha again \<Longrightarrow> observation_identity again = observation_identity ob
    \<Longrightarrow> seen sha again m = seen sha ob m"
  by (simp add: seen_def prepared_identity)

lemma Process_seen:
  assumes sha: "\<And>x. tv_sha env x \<noteq> []" and seen: "seen (tv_sha env) ob m"
  shows "fst (snd (Process (RunInTx_sql (tv_fault env)) env ob (m, k))) = m"
    and "fst (Process (RunInTx_sql (tv_fault env)) env ob (m, k)) = Inr r \<Longrightarrow> tr_Kind r = KindDuplicate
      \<and> tr_Canonical r = GetCanonical (pob_TenantID ob) (pob_ConnectorID ob) (pob_PaymentID ob) m"
proof -
  have "fst (snd (Process (RunInTx_sql (tv_fault env)) env ob (m, k))) = m
    \<and> (fst (Process (RunInTx_sql (tv_fault env)) env ob (m, k)) = Inr r \<longrightarrow> tr_Kind r = KindDuplicate
      \<and> tr_Canonical r = GetCanonical (pob_TenantID ob) (pob_ConnectorID ob) (pob_PaymentID ob) m)"
  proof (cases rule: Process_cases [of "tv_fault env" env ob "(m, k)"])
    case (accept r' m3 j)
    from sha accept(2) show ?thesis
    proof (cases rule: process_body_cases)
      case dup
      have "tr_Canonical r' = GetCanonical (pob_TenantID ob) (pob_ConnectorID ob) (pob_PaymentID ob) m"
        using accept(2) dup
        by (auto simp: process_body_def bindE_Inr io_Inr process_new_def Let_def prepared_def with_hash_def
            with_identity_def split: if_splits)
      then show ?thesis using accept(3) dup by auto
    qed (use seen in \<open>auto simp: seen_def\<close>)
  qed simp
  then show "fst (snd (Process (RunInTx_sql (tv_fault env)) env ob (m, k))) = m"
    and "fst (Process (RunInTx_sql (tv_fault env)) env ob (m, k)) = Inr r \<Longrightarrow> tr_Kind r = KindDuplicate
      \<and> tr_Canonical r = GetCanonical (pob_TenantID ob) (pob_ConnectorID ob) (pob_PaymentID ob) m"
    by blast+
qed

text \<open>
  C11.  Redelivery has no effect: once an observation was accepted, any delivery of the same event
  (the same tenant, connector, provider, payment, source, event and payload hash, with whatever
  receipt, time of observation, amount or status it carries) at any later time leaves the whole
  store as it is, whatever happened in between and whatever fails now, and the answer, if there is
  one, is the duplicate with the payment as it stands.
\<close>

theorem redelivery_has_no_effect:
  assumes "\<And>x. tv_sha env x \<noteq> []"
    and "Process (RunInTx_sql (tv_fault env)) env ob (m, n) = (Inr r, (m1, n1))"
    and "(truth_step (tv_sha env))\<^sup>*\<^sup>* m1 m2" and "tv_sha env' = tv_sha env"
    and "own_hash (tv_sha env) ob" and "own_hash (tv_sha env) again"
    and "observation_identity again = observation_identity ob"
  shows "let out = Process (RunInTx_sql (tv_fault env')) env' again (m2, k)
    in fst (snd out) = m2
     \<and> (\<forall>r'. fst out = Inr r' \<longrightarrow> tr_Kind r' = KindDuplicate
          \<and> tr_Canonical r' = GetCanonical (pob_TenantID again) (pob_ConnectorID again) (pob_PaymentID again) m2)"
proof -
  have "seen (tv_sha env) ob m1"
    using assms(2) process_body_seen [OF assms(1)]
    by (cases rule: Process_cases [of "tv_fault env" env ob "(m, n)"]) auto
  then have "seen (tv_sha env) ob m2"
    using truth_steps_events [OF assms(3,1)] by (auto simp: seen_def)
  then have "seen (tv_sha env') again m2" using seen_again [OF assms(5-7)] assms(4) by simp
  with assms(1,4) show ?thesis unfolding Let_def by (intro conjI allI impI Process_seen) simp_all
qed

subsection \<open>Deliveries that succeed\<close>

lemma answers_store [answers_intros]:
  assumes "\<And>n. tv_fault env n = None"
  shows "answers (store_call env f)" "answers (store_read env g)" "answers (store_write env h)"
  using assms by (simp_all add: store_write_def store_read_def store_call_def answers_attempt)

lemma answers_event_id [answers_intros]: "answers (event_id env)"
  by (simp add: answers_def event_id_def case_prod_beta)

lemma answers_parse_tenant [answers_intros]: "\<exists>i. tv_parse env x = Inr i \<Longrightarrow> answers (parse_tenant env x)"
  by (auto simp: parse_tenant_def answers_returnE)

lemma answers_process_body:
  assumes "\<And>n. tv_fault env n = None" and "\<And>x. \<exists>i. tv_parse env x = Inr i"
  shows "answers (process_body env ob)"
  unfolding process_body_def process_new_def linkIntent_def announce_def ObservationOutboxRow_def
    CanonicalOutboxRow_def Let_def
  by (intro answers_intros assms)

lemma answers_RunInTx_sql:
  assumes "\<And>n. fault n = None" and "answers f"
  shows "answers (RunInTx_sql fault f)"
  unfolding answers_def
proof
  fix s
  obtain x m k where "f (fst s, Suc (snd s)) = (Inr x, (m, k))"
    using assms(2) unfolding answers_def by (metis surj_pair)
  then show "\<exists>x t. RunInTx_sql fault f s = (Inr x, t)"
    by (simp add: RunInTx_sql_def case_prod_beta assms(1))
qed

lemma Process_answers:
  assumes "\<And>n. tv_fault env n = None" and "\<And>x. \<exists>i. tv_parse env x = Inr i"
    and "validateObservation ob = None"
  shows "\<exists>r m' n'. Process (RunInTx_sql (tv_fault env)) env ob (m, n) = (Inr r, (m', n'))"
proof -
  have "answers (RunInTx_sql (tv_fault env) (process_body env (prepared (tv_sha env) ob)))"
    by (intro answers_RunInTx_sql answers_process_body assms(1,2))
  then show ?thesis using assms(3) unfolding answers_def Process_def by (metis option.simps(4) surj_pair)
qed

subsection \<open>Witnesses\<close>

definition calm_env :: truth_env where
  "calm_env = \<lparr>tv_uuid = (\<lambda>n. replicate (Suc n) CHR ''u''), tv_parse = Inr, tv_nil = ''nil'',
     tv_sha = (\<lambda>s. CHR ''#'' # s), tv_now = 10, tv_fault = (\<lambda>_. None)\<rparr>"

definition delivered :: "string \<Rightarrow> MemoryStore" where
  "delivered status = fst (snd (Process (RunInTx_sql (tv_fault calm_env)) calm_env (sample_obs status) (NewMemoryStore, 0)))"

lemma delivered_reachable: "(truth_step (tv_sha calm_env))\<^sup>*\<^sup>* NewMemoryStore (delivered status)"
  unfolding delivered_def by (rule r_into_rtranclp) (rule deliver [OF refl])

lemma calm_env_simps [simp]: "tv_fault calm_env n = None" "tv_parse calm_env x = Inr x" "tv_sha calm_env x \<noteq> []"
  by (simp_all add: calm_env_def)

lemma sample_obs_accepted: "validateObservation (sample_obs status) = None"
  using sample_obs_mapped MapNeutral_valid by (blast intro: valid_obs_accepted)

lemma payment_is_reduction_of_its_log_witness:
  "pm_Canonicals (delivered ''captured'') (canonicalKey ''t'' ''c'' ''pay_1'') = None
     \<longleftrightarrow> logged (canonicalKey ''t'' ''c'' ''pay_1'') (pm_Events (delivered ''captured'')) = []"
  using payment_is_reduction_of_its_log [OF delivered_reachable] by simp

lemma logged_once_and_announced_witness:
  "distinct (filter (\<lambda>h. h \<noteq> []) (map ev_IdentityHash (pm_Events (delivered ''captured''))))"
  using logged_once_and_announced [OF delivered_reachable] by simp

text \<open>The same event as it arrives again: by another receipt, seen later, with another amount.\<close>

definition sample_again :: "string \<Rightarrow> Observation" where
  "sample_again status = (sample_obs status)\<lparr>pob_ReceiptID := ''rcpt_2'', pob_RawReference := ''receipt:rcpt_2'',
     pob_ObservedAt := 99, pob_AmountMinor := 1, pob_IdentityHash := [], pob_Source := '' Webhook ''\<rparr>"

definition sample_fresh :: "string \<Rightarrow> Observation" where
  "sample_fresh status = (sample_obs status)\<lparr>pob_IdentityHash := []\<rparr>"

lemma sample_fresh_accepted: "validateObservation (sample_fresh status) = None"
proof -
  have "validateObservation (ob\<lparr>pob_IdentityHash := h\<rparr>) = validateObservation ob" for ob h
    by (simp add: validateObservation_def)
  then show ?thesis by (simp add: sample_fresh_def sample_obs_accepted)
qed

lemma sample_source: "pob_Source (sample_obs status) = ''webhook''"
  by (simp add: sample_obs_def MapNeutral_def sample_item_valid str_eval)
    (simp add: with_identity_def fill_defaults_def neutral_fields_def Let_def)

lemma redelivery_has_no_effect_witness:
  "\<exists>m. pm_Events m \<noteq> [] \<and> sample_again ''captured'' \<noteq> sample_fresh ''captured''
     \<and> fst (snd (Process (RunInTx_sql (tv_fault calm_env)) calm_env (sample_again ''captured'') (m, 0))) = m"
proof -
  obtain r m n where run: "Process (RunInTx_sql (tv_fault calm_env)) calm_env (sample_fresh ''captured'') (NewMemoryStore, 0)
      = (Inr r, (m, n))"
    using Process_answers [OF _ _ sample_fresh_accepted, of calm_env "''captured''" NewMemoryStore 0] by auto
  have "seen (tv_sha calm_env) (sample_fresh ''captured'') m"
    using run process_body_seen [of calm_env "sample_fresh ''captured''"]
    by (cases rule: Process_cases [of "tv_fault calm_env" calm_env "sample_fresh ''captured''" "(NewMemoryStore, 0)"]) auto
  then have "pm_Events m \<noteq> []" by (auto simp: seen_def)
  moreover have "pob_ReceiptID (sample_again ''captured'') \<noteq> pob_ReceiptID (sample_fresh ''captured'')"
    by (simp add: sample_again_def sample_fresh_def sample_obs_def MapNeutral_def sample_item_valid str_eval)
      (simp add: with_identity_def fill_defaults_def neutral_fields_def Let_def str_eval)
  moreover have "own_hash (tv_sha calm_env) (sample_fresh ''captured'')" "own_hash (tv_sha calm_env) (sample_again ''captured'')"
    by (simp_all add: own_hash_def sample_fresh_def sample_again_def)
  moreover have "observation_identity (sample_again ''captured'') = observation_identity (sample_fresh ''captured'')"
    by (simp add: observation_identity_def sample_fresh_def sample_again_def sample_source)
      (simp add: normalizeSource_def Let_def str_eval)
  ultimately show ?thesis
    using redelivery_has_no_effect [of calm_env "sample_fresh ''captured''" NewMemoryStore 0 r m n m calm_env
      "sample_again ''captured''" 0] run
    by (auto simp: Let_def)
qed

end
