(* ===== verification/Backfill.thy ===== *)
theory Backfill
  imports TruthService
begin

text \<open>
  \<^verbatim>\<open>poll/backfill_window.go\<close>, \<^verbatim>\<open>poll/backfill_job.go\<close>, \<^verbatim>\<open>poll/outbox.go\<close> and
  \<^verbatim>\<open>poll/backfill_service.go\<close>: a backfill job walks a window of the provider's payments or
  settlement days page by page, each page persisted in one transaction together with the cursor
  that says where to go on.  The page loops have no bound in the code, so they are partial functions
  whose value \<open>None\<close> is a loop that never ends.

  The environment holds what is not in the repository: the provider's answers, the credentials, the
  webhook index, the cancellation of the context, and the secrets read from the process
  environment.  An answer may depend on the number of store calls made so far, so it may change
  between calls.  A civil date is its number of days since 0001-01-01.  The metric counters are
  not modelled.
\<close>

abbreviation (input) ResourcePayments :: string where "ResourcePayments \<equiv> ''payments''"
abbreviation (input) ResourceSettlements :: string where "ResourceSettlements \<equiv> ''settlements''"
abbreviation (input) DefaultLeaseTTL :: duration where "DefaultLeaseTTL \<equiv> 2 * minute"
abbreviation (input) maxWindow :: duration where "maxWindow \<equiv> 31 * 24 * hour"

section \<open>Windows\<close>

definition ApplyOverlap :: "time \<Rightarrow> int \<Rightarrow> time" where
  "ApplyOverlap start overlapMinutes =
     (if overlapMinutes \<le> 0 \<or> IsZero start then start else start - overlapMinutes * minute)"

definition ValidateWindow :: "time \<Rightarrow> time \<Rightarrow> time \<Rightarrow> string option" where
  "ValidateWindow start stop now =
     (if IsZero start \<or> IsZero stop then Some ''window_from and window_to are required''
      else if \<not> stop > start then Some ''window_to must be after window_from''
      else if time_sub stop start > maxWindow then Some ''window must be at most 31 days''
      else if start > now + minute then Some ''window_from cannot be in the future''
      else None)"

definition FreezeWindow :: "time \<Rightarrow> time \<Rightarrow> time \<Rightarrow> time \<times> time" where
  "FreezeWindow start stop now = (start, if stop > now then now else stop)"

definition OverlapLookback :: "time \<Rightarrow> duration \<Rightarrow> time \<times> time" where
  "OverlapLookback now lookback =
     (let lookback = (if lookback \<le> 0 then 2 * hour else lookback) in (now - lookback, now))"

definition utc_date :: "time \<Rightarrow> int" where
  "utc_date t = t div day_ns"

definition CivilDays :: "time \<Rightarrow> time \<Rightarrow> int list" where
  "CivilDays start stop =
     (let d0 = utc_date start; d1 = utc_date stop;
          d1 = (if stop > d1 * day_ns then d1 + 1 else d1);
          days = map (\<lambda>i. d0 + int i) [0..<nat (d1 - d0)]
      in if days = [] then [d0] else days)"

section \<open>Requests, pages and summaries\<close>

record CreateBackfillRequest =
  br_TenantID :: string
  br_ConnectorID :: string
  br_Provider :: string
  br_Mode :: string
  br_ResourceType :: string
  br_WindowFrom :: time
  br_WindowTo :: time
  br_OverlapMinutes :: int
  br_TriggerType :: string
  br_RequestedBy :: "string option"
  br_TraceID :: string

definition Validate :: "CreateBackfillRequest \<Rightarrow> time \<Rightarrow> string option" where
  "Validate r now =
     (if br_TenantID r = [] \<or> br_ConnectorID r = [] then Some ''tenant_id and connector_id are required''
      else if br_ResourceType r \<noteq> ResourcePayments \<and> br_ResourceType r \<noteq> ResourceSettlements
      then Some ''resource_type must be payments or settlements''
      else if br_Mode r \<noteq> ''test'' \<and> br_Mode r \<noteq> ''live'' then Some ''mode must be test or live''
      else let trigger = (if br_TriggerType r = [] then ''manual'' else br_TriggerType r)
        in if trigger \<notin> {''airflow'', ''manual'', ''repair'', ''scheduled''} then Some ''invalid trigger_type''
           else ValidateWindow (br_WindowFrom r) (br_WindowTo r) now)"

record 'a NeutralPage =
  pg_Items :: "'a list"
  pg_HasMore :: bool
  pg_Path :: string
  pg_QueryHash :: string
  pg_Status :: int64
  pg_Hash :: string

record CursorSummary =
  cs_PageSkip :: int64
  cs_PagesCompleted :: int64
  cs_Status :: string

record BackfillSummary =
  bs_JobID :: string
  bs_Status :: string
  bs_FetchedCount :: int64
  bs_InsertedCount :: int64
  bs_UpdatedCount :: int64
  bs_SkippedDuplicateCount :: int64
  bs_MissingWebhookCount :: int64
  bs_APIErrorCount :: int64
  bs_Cursor :: CursorSummary

definition SummaryFromJob :: "BackfillJob \<Rightarrow> BackfillCursor \<Rightarrow> BackfillSummary" where
  "SummaryFromJob job cursor = \<lparr>bs_JobID = jb_ID job, bs_Status = jb_Status job,
     bs_FetchedCount = jb_FetchedCount job, bs_InsertedCount = jb_InsertedCount job,
     bs_UpdatedCount = jb_UpdatedCount job, bs_SkippedDuplicateCount = jb_DuplicateCount job,
     bs_MissingWebhookCount = jb_MissingWebhookCount job, bs_APIErrorCount = jb_ErrorCount job,
     bs_Cursor = \<lparr>cs_PageSkip = cu_PageSkip cursor, cs_PagesCompleted = cu_PagesCompleted cursor,
                  cs_Status = cu_Status cursor\<rparr>\<rparr>"

definition zero_Summary :: BackfillSummary where
  "zero_Summary = SummaryFromJob zero_BackfillJob zero_BackfillCursor"

section \<open>Errors\<close>

datatype run_error =
    RProvider (re_kind: string) (re_code: string) (re_text: string)
  | ROther (re_text: string)

text \<open>\<open>strings.ReplaceAll\<close>; an empty pattern matches before every character and at the end.\<close>

function replace_all :: "string \<Rightarrow> string \<Rightarrow> string \<Rightarrow> string" where
  "replace_all p r s =
     (if p = [] then concat (map (\<lambda>c. r @ [c]) s) @ r
      else case s of
          [] \<Rightarrow> []
        | c # cs \<Rightarrow> if has_prefix p s then r @ replace_all p r (drop (length p) s)
                    else c # replace_all p r cs)"
  by pat_completeness auto
termination
  by (relation "measure (\<lambda>(p, r, s). length s)") auto

declare replace_all.simps [simp del]

definition redactError :: "string \<Rightarrow> string \<Rightarrow> string \<Rightarrow> string" where
  "redactError key_secret key_id msg =
     (let msg = replace_all key_secret ''[redacted]'' msg;
          msg = replace_all key_id ''[redacted]'' msg
      in if contains (ToLower msg) ''authorization'' then ''provider request failed''
         else if length msg > 300 then take 300 msg
         else msg)"

section \<open>The environment\<close>

record backfill_env =
  bf_base :: truth_env
  bf_owner :: string
  bf_truth :: bool
  bf_ctx :: "nat \<Rightarrow> string option"
  bf_provider :: "string \<Rightarrow> string \<Rightarrow> string \<Rightarrow> (string \<times> run_error) option"
  bf_payments :: "nat \<Rightarrow> time \<Rightarrow> time \<Rightarrow> int64 \<Rightarrow> int64 \<Rightarrow> run_error + NeutralPayment NeutralPage"
  bf_settlements :: "nat \<Rightarrow> int \<Rightarrow> int64 \<Rightarrow> int64 \<Rightarrow> run_error + NeutralSettlementLine NeutralPage"
  bf_index :: "nat \<Rightarrow> string \<Rightarrow> string \<Rightarrow> time \<Rightarrow> time \<Rightarrow> string list option"
  bf_secret :: string
  bf_keyid :: string
  bf_ord :: "string list \<Rightarrow> string list"

abbreviation (input) bf_now :: "backfill_env \<Rightarrow> time" where "bf_now env \<equiv> tv_now (bf_base env)"

type_synonym progress = "BackfillJob \<times> BackfillCursor"
type_synonym page_tx = "progress poll_io \<Rightarrow> progress poll_io"

section \<open>Creating and cancelling\<close>

definition job_cursor_key :: "BackfillJob \<Rightarrow> cursor_key" where
  "job_cursor_key job = cursorKey (jb_TenantID job) (jb_ConnectorID job) (jb_ResourceType job)
     (jb_WindowFrom job) (jb_WindowTo job)"

definition new_cursor :: "BackfillJob \<Rightarrow> BackfillCursor" where
  "new_cursor job = zero_BackfillCursor\<lparr>cu_TenantID := jb_TenantID job,
     cu_ConnectorID := jb_ConnectorID job, cu_ResourceType := jb_ResourceType job,
     cu_WindowFrom := jb_WindowFrom job, cu_WindowTo := jb_WindowTo job, cu_PageSkip := 0,
     cu_PageCount := (if jb_ResourceType job = ResourceSettlements then 1000 else 100),
     cu_Status := CursorActive\<rparr>"

definition start_cursor :: "backfill_env \<Rightarrow> BackfillJob \<Rightarrow> unit poll_io" where
  "start_cursor env job =
     bindE (store_call (bf_base env) (EnsureCursor (tv_uuid (bf_base env)) (bf_now env) (new_cursor job))) (\<lambda>cursor.
     if cu_Status cursor = CursorComplete \<or> cu_Status cursor = CursorFailed then
       store_write (bf_base env) (AdvanceCursor (bf_now env) (cursor\<lparr>cu_PageSkip := 0,
         cu_PagesCompleted := 0, cu_Status := CursorActive, cu_LastProviderID := [],
         cu_LastResponseHash := []\<rparr>))
     else returnE ())"

definition normal_request :: "(string \<times> MemoryStore) \<Rightarrow> time \<Rightarrow> CreateBackfillRequest \<Rightarrow> CreateBackfillRequest" where
  "normal_request trace now r =
     (let r = r\<lparr>br_Provider := (if br_Provider r = [] then ''razorpay'' else br_Provider r),
                br_TriggerType := (if br_TriggerType r = [] then ''manual'' else br_TriggerType r),
                br_TraceID := (if br_TraceID r = [] then fst trace else br_TraceID r)\<rparr>;
          (start, stop) = FreezeWindow (ApplyOverlap (br_WindowFrom r) (br_OverlapMinutes r)) (br_WindowTo r) now
      in r\<lparr>br_WindowFrom := start, br_WindowTo := stop\<rparr>)"

definition requested_job :: "CreateBackfillRequest \<Rightarrow> BackfillJob" where
  "requested_job r = zero_BackfillJob\<lparr>jb_TenantID := br_TenantID r, jb_ConnectorID := br_ConnectorID r,
     jb_Provider := br_Provider r, jb_ProviderMode := br_Mode r, jb_ResourceType := br_ResourceType r,
     jb_WindowFrom := br_WindowFrom r, jb_WindowTo := br_WindowTo r,
     jb_TriggerType := br_TriggerType r, jb_Status := JobQueued, jb_RequestedBy := br_RequestedBy r,
     jb_TraceID := br_TraceID r\<rparr>"

definition find_active :: "backfill_env \<Rightarrow> CreateBackfillRequest \<Rightarrow> BackfillJob option poll_io" where
  "find_active env r = store_read (bf_base env) (FindActiveJob (bf_ord env) (br_TenantID r)
     (br_ConnectorID r) (br_ResourceType r) (br_WindowFrom r) (br_WindowTo r))"

text \<open>
  \<open>CreateJob\<close> of the service.  The result is the job, beside the error if one is returned; a
  created job whose cursor could not be started is returned with the error.
\<close>

definition CreateBackfillJob :: "backfill_env \<Rightarrow> CreateBackfillRequest \<Rightarrow> MemoryStore \<times> nat
    \<Rightarrow> (BackfillJob \<times> string option) \<times> (MemoryStore \<times> nat)" where
  "CreateBackfillJob env req s =
     (let trace = mint (tv_uuid (bf_base env)) (fst s);
          s = (if br_TraceID req = [] then (snd trace, snd s) else s);
          r = normal_request trace (bf_now env) req
      in case Validate r (bf_now env) of
           Some e \<Rightarrow> ((zero_BackfillJob, Some e), s)
         | None \<Rightarrow>
          (case find_active env r s of
             (Inl e, s) \<Rightarrow> ((zero_BackfillJob, Some e), s)
           | (Inr (Some job), s) \<Rightarrow> ((job, None), s)
           | (Inr None, s) \<Rightarrow>
              (case store_call (bf_base env) (CreateJob (tv_uuid (bf_base env)) (bf_now env) (requested_job r)) s of
                 (Inl e, s) \<Rightarrow>
                   (case find_active env r s of
                      (Inr (Some job), s) \<Rightarrow> ((job, None), s)
                    | (_, s) \<Rightarrow> ((zero_BackfillJob, Some e), s))
               | (Inr created, s) \<Rightarrow>
                   (case start_cursor env created s of
                      (Inl e, s) \<Rightarrow> ((created, Some e), s)
                    | (Inr _, s) \<Rightarrow> ((created, None), s)))))"

definition get_job :: "backfill_env \<Rightarrow> string \<Rightarrow> BackfillJob poll_io" where
  "get_job env jobID = bindE (store_read (bf_base env) (GetJob jobID))
     (\<lambda>found. case found of None \<Rightarrow> failE ErrJobNotFound | Some job \<Rightarrow> returnE job)"

definition update_job :: "backfill_env \<Rightarrow> BackfillJob \<Rightarrow> unit poll_io" where
  "update_job env job = store_write (bf_base env) (UpdateJob (bf_now env) job)"

definition Cancel :: "backfill_env \<Rightarrow> string \<Rightarrow> unit poll_io" where
  "Cancel env jobID =
     bindE (get_job env jobID) (\<lambda>job.
     if jb_Status job = JobSucceeded then failE ''cannot cancel a succeeded job''
     else update_job env (job\<lparr>jb_Status := JobCancelled, jb_CompletedAt := Some (bf_now env)\<rparr>))"

section \<open>Persisting a page of payments\<close>

definition page_receipt :: "string \<Rightarrow> BackfillJob \<Rightarrow> BackfillCursor \<Rightarrow> 'a NeutralPage \<Rightarrow> ResponseReceipt" where
  "page_receipt receiptID job cursor page = \<lparr>rc_ID = receiptID, rc_TenantID = jb_TenantID job,
     rc_ConnectorID = jb_ConnectorID job, rc_BackfillJobID = jb_ID job, rc_Provider = jb_Provider job,
     rc_ResourceType = jb_ResourceType job, rc_RequestPath = pg_Path page,
     rc_RequestQueryHash = pg_QueryHash page, rc_ResponseStatus = pg_Status page,
     rc_ResponseHash = pg_Hash page, rc_PageSkip = cu_PageSkip cursor,
     rc_PageCount = cu_PageCount cursor, rc_ProviderItemCount = word_of_nat (length (pg_Items page))\<rparr>"

definition store_receipt :: "backfill_env \<Rightarrow> BackfillJob \<Rightarrow> BackfillCursor \<Rightarrow> 'a NeutralPage \<Rightarrow> string poll_io" where
  "store_receipt env job cursor page =
     bindE (event_id (bf_base env)) (\<lambda>receiptID.
     bindE (store_write (bf_base env) (InsertResponseReceipt (tv_uuid (bf_base env))
       (page_receipt receiptID job cursor page))) (\<lambda>_. returnE receiptID))"

text \<open>The webhook receipts of the window; an index that fails or is absent counts as empty.\<close>

definition webhook_ids :: "backfill_env \<Rightarrow> BackfillJob \<Rightarrow> string set poll_io" where
  "webhook_ids env job s =
     (Inr (case bf_index env (snd s) (jb_TenantID job) (jb_ConnectorID job) (jb_WindowFrom job) (jb_WindowTo job) of
             None \<Rightarrow> {} | Some ids \<Rightarrow> set (filter (\<lambda>i. i \<noteq> []) ids)), s)"

definition count_kind :: "bool \<Rightarrow> truth_kind \<Rightarrow> BackfillJob \<Rightarrow> BackfillJob" where
  "count_kind missingWebhook k job =
     (case k of
        KindInserted \<Rightarrow> job\<lparr>jb_InsertedCount := jb_InsertedCount job + 1,
          jb_MissingWebhookCount := (if missingWebhook then jb_MissingWebhookCount job + 1 else jb_MissingWebhookCount job)\<rparr>
      | KindUpdated \<Rightarrow> job\<lparr>jb_UpdatedCount := jb_UpdatedCount job + 1\<rparr>
      | KindObserved \<Rightarrow> job\<lparr>jb_UpdatedCount := jb_UpdatedCount job + 1\<rparr>
      | KindDuplicate \<Rightarrow> job\<lparr>jb_DuplicateCount := jb_DuplicateCount job + 1\<rparr>)"

definition poll_payload :: "string \<Rightarrow> string \<Rightarrow> string \<Rightarrow> string \<Rightarrow> NeutralPayment \<Rightarrow> (string \<times> event_value) list" where
  "poll_payload eventID tenantID connectorID source item =
     [(''event_id'', VString eventID), (''event_type'', VString EventTypePaymentObservation),
      (''event_version'', VString ''v1''), (''schema_version'', VString ''v1''),
      (''tenant_id'', VString tenantID), (''connector_id'', VString connectorID),
      (''provider'', VString ''razorpay''), (''source'', VString source),
      (''sources'', VStrings [source]), (''payment_id'', VString (np_PaymentID item)),
      (''order_id'', VString (np_OrderID item)), (''amount'', VInt (np_AmountMinor item)),
      (''currency'', VString (np_Currency item)), (''status'', VString (np_Status item)),
      (''captured'', VBool (np_Captured item)), (''fee'', VInt (np_FeeMinor item)),
      (''tax'', VInt (np_TaxMinor item)), (''payload_hash'', VString (np_PayloadHash item)),
      (''idempotency_key'', VString (observation_key connectorID (np_PaymentID item) (np_PayloadHash item)))]"

definition PaymentOutboxRow :: "truth_env \<Rightarrow> string \<Rightarrow> string \<Rightarrow> string \<Rightarrow> NeutralPayment \<Rightarrow> EventRow poll_io" where
  "PaymentOutboxRow env tenantID connectorID source item =
     bindE (event_id env) (\<lambda>eventID. bindE (parse_tenant env tenantID) (\<lambda>tid.
     returnE \<lparr>xr_EventID = eventID, xr_TenantID = tid,
       xr_AggregateType = ''provider_payment_observation'', xr_AggregateID = eventID,
       xr_EventType = EventTypePaymentObservation,
       xr_Payload = poll_payload eventID tenantID connectorID (NormalizeObservationSource source) item,
       xr_IdempotencyKey = observation_key connectorID (np_PaymentID item) (np_PayloadHash item),
       xr_CreatedAt = tv_now env\<rparr>))"

definition polled_payment :: "BackfillJob \<Rightarrow> string \<Rightarrow> bool \<Rightarrow> NeutralPayment \<Rightarrow> PaymentObservation" where
  "polled_payment job receiptID missingWebhook item = \<lparr>px_ID = [], px_TenantID = jb_TenantID job,
     px_ConnectorID = jb_ConnectorID job, px_Provider = jb_Provider job,
     px_ProviderMode = jb_ProviderMode job, px_Item = item, px_ReceiptID = receiptID,
     px_Source = ''api_backfill'', px_Sources = [''api_backfill''], px_WebhookMissing = missingWebhook\<rparr>"

text \<open>Without the truth processor: the snapshot is upserted and announced here.\<close>

definition upsert_item :: "backfill_env \<Rightarrow> string \<Rightarrow> bool \<Rightarrow> BackfillJob \<Rightarrow> NeutralPayment \<Rightarrow> BackfillJob poll_io" where
  "upsert_item env receiptID missingWebhook job item =
     bindE (store_call (bf_base env) (UpsertPayment (tv_uuid (bf_base env)) (polled_payment job receiptID missingWebhook item)))
     (\<lambda>res. case res of
        UpsertDuplicate \<Rightarrow> returnE (count_kind missingWebhook KindDuplicate job)
      | _ \<Rightarrow>
        bindE (PaymentOutboxRow (bf_base env) (jb_TenantID job) (jb_ConnectorID job) ''api_backfill'' item) (\<lambda>row.
        bindE (store_write (bf_base env) (InsertOutbox row)) (\<lambda>_.
        returnE (count_kind missingWebhook (if res = UpsertInserted then KindInserted else KindUpdated) job))))"

text \<open>One payment of a page; the processor's own \<open>RunInTx\<close> joins the transaction of the page.\<close>

definition backfill_item :: "backfill_env \<Rightarrow> string \<Rightarrow> string set \<Rightarrow> BackfillJob \<Rightarrow> NeutralPayment \<Rightarrow> BackfillJob poll_io" where
  "backfill_item env receiptID webhookIDs job item =
     (let job = job\<lparr>jb_FetchedCount := jb_FetchedCount job + 1\<rparr>;
          missingWebhook = (np_PaymentID item \<notin> webhookIDs)
      in if bf_truth env then
           bindE (ProcessNeutral RunInTx_memory (bf_base env) (jb_TenantID job) (jb_ConnectorID job)
               (jb_Provider job) (jb_ProviderMode job) ''api_backfill'' [] receiptID item missingWebhook)
             (\<lambda>res. returnE (count_kind missingWebhook (tr_Kind res) job))
         else upsert_item env receiptID missingWebhook job item)"

fun foldE :: "('b \<Rightarrow> 'a \<Rightarrow> ('s, 'b) io) \<Rightarrow> 'b \<Rightarrow> 'a list \<Rightarrow> ('s, 'b) io" where
  "foldE f b [] = returnE b"
| "foldE f b (x # xs) = bindE (f b x) (\<lambda>b. foldE f b xs)"

definition persistPaymentPage :: "backfill_env \<Rightarrow> BackfillJob \<Rightarrow> BackfillCursor \<Rightarrow> NeutralPayment NeutralPage
    \<Rightarrow> progress poll_io" where
  "persistPaymentPage env job cursor page =
     bindE (store_receipt env job cursor page) (\<lambda>receiptID.
     bindE (webhook_ids env job) (\<lambda>webhookIDs.
     bindE (foldE (backfill_item env receiptID webhookIDs) job (pg_Items page)) (\<lambda>job.
     (let cursor = cursor\<lparr>cu_LastProviderID := (if pg_Items page = [] then [] else np_PaymentID (last (pg_Items page))),
                         cu_LastResponseHash := pg_Hash page\<rparr>
      in bindE (update_job env job) (\<lambda>_. returnE (job, cursor))))))"

text \<open>The body of the transaction of one page: the page, then the cursor.\<close>

definition advanced :: "backfill_env \<Rightarrow> bool \<Rightarrow> nat \<Rightarrow> BackfillCursor \<Rightarrow> BackfillCursor" where
  "advanced env hasMore n cursor =
     (let cursor = (if \<not> hasMore \<or> n = 0 then cursor\<lparr>cu_Status := CursorComplete\<rparr>
                    else cursor\<lparr>cu_PageSkip := cu_PageSkip cursor + word_of_nat n,
                                cu_PagesCompleted := cu_PagesCompleted cursor + 1\<rparr>)
      in cursor\<lparr>cu_LeaseExpiresAt := Some (bf_now env + DefaultLeaseTTL)\<rparr>)"

definition payment_page_tx :: "backfill_env \<Rightarrow> BackfillJob \<Rightarrow> BackfillCursor \<Rightarrow> NeutralPayment NeutralPage
    \<Rightarrow> progress poll_io" where
  "payment_page_tx env job cursor page =
     bindE (persistPaymentPage env job cursor page) (\<lambda>(job, cursor).
     (let cursor = advanced env (pg_HasMore page) (length (pg_Items page)) cursor
      in bindE (store_write (bf_base env) (AdvanceCursor (bf_now env) cursor)) (\<lambda>_. returnE (job, cursor))))"

definition is_cancelled :: "string + BackfillJob \<Rightarrow> bool" where
  "is_cancelled r = (case r of Inl _ \<Rightarrow> False | Inr row \<Rightarrow> jb_Status row = JobCancelled)"

text \<open>One turn of the loop: an error, or whether the window is done and the progress made.\<close>

definition payments_turn :: "backfill_env \<Rightarrow> (page_tx) \<Rightarrow> BackfillJob \<Rightarrow> BackfillCursor \<Rightarrow> MemoryStore \<times> nat
    \<Rightarrow> (run_error + bool \<times> progress) \<times> (MemoryStore \<times> nat)" where
  "payments_turn env tx job cursor s =
     (case bf_ctx env (snd s) of
        Some e \<Rightarrow> (Inl (ROther e), s)
      | None \<Rightarrow>
       (let (row, s) = get_job env (jb_ID job) s
        in if is_cancelled row then (Inl (ROther ''job cancelled''), s)
           else case bf_payments env (snd s) (jb_WindowFrom job) (jb_WindowTo job) (cu_PageSkip cursor)
                  (cu_PageCount cursor) of
               Inl e \<Rightarrow> (Inl e, s)
             | Inr page \<Rightarrow>
               (case tx (payment_page_tx env job cursor page) s of
                  (Inl e, s) \<Rightarrow> (Inl (ROther e), s)
                | (Inr (job, cursor), s) \<Rightarrow> (Inr (cu_Status cursor = CursorComplete, (job, cursor)), s))))"

type_synonym outcome = "(run_error option \<times> progress) \<times> (MemoryStore \<times> nat)"

partial_function (option) paginatePayments :: "backfill_env \<Rightarrow> (progress poll_io \<Rightarrow> progress poll_io)
    \<Rightarrow> BackfillJob \<Rightarrow> BackfillCursor \<Rightarrow> MemoryStore \<times> nat \<Rightarrow> outcome option" where
  "paginatePayments env tx job cursor s =
     (case payments_turn env tx job cursor s of
        (Inl e, s) \<Rightarrow> Some ((Some e, (job, cursor)), s)
      | (Inr (fin, progress), s) \<Rightarrow>
          if fin then Some ((None, progress), s)
          else paginatePayments env tx (fst progress) (snd progress) s)"

section \<open>Persisting a page of settlement lines\<close>

abbreviation (input) EventTypeSettlementObservation :: string where
  "EventTypeSettlementObservation \<equiv> ''settlement.observation.normalized.v1''"

definition settlement_payload :: "string \<Rightarrow> string \<Rightarrow> string \<Rightarrow> NeutralSettlementLine \<Rightarrow> (string \<times> event_value) list" where
  "settlement_payload eventID tenantID connectorID item =
     [(''event_id'', VString eventID), (''event_type'', VString EventTypeSettlementObservation),
      (''event_version'', VString ''v1''), (''schema_version'', VString ''v1''),
      (''tenant_id'', VString tenantID), (''connector_id'', VString connectorID),
      (''source'', VString ''razorpay_settlement_recon''),
      (''settlement_id'', VString (nl_SettlementID item)), (''entity_id'', VString (nl_EntityID item)),
      (''type'', VString (nl_LineType item)), (''payment_id'', VString (nl_PaymentID item)),
      (''amount'', VInt (nl_AmountMinor item)), (''credit'', VInt (nl_CreditMinor item)),
      (''debit'', VInt (nl_DebitMinor item)), (''fee'', VInt (nl_FeeMinor item)),
      (''tax'', VInt (nl_TaxMinor item)), (''utr'', VString (nl_UTR item)),
      (''payload_hash'', VString (nl_PayloadHash item))]"

definition SettlementOutboxRow :: "truth_env \<Rightarrow> string \<Rightarrow> string \<Rightarrow> NeutralSettlementLine \<Rightarrow> EventRow poll_io" where
  "SettlementOutboxRow env tenantID connectorID item =
     bindE (event_id env) (\<lambda>eventID. bindE (parse_tenant env tenantID) (\<lambda>tid.
     returnE \<lparr>xr_EventID = eventID, xr_TenantID = tid,
       xr_AggregateType = ''provider_settlement_line_observation'', xr_AggregateID = eventID,
       xr_EventType = EventTypeSettlementObservation,
       xr_Payload = settlement_payload eventID tenantID connectorID item, xr_IdempotencyKey = [],
       xr_CreatedAt = tv_now env\<rparr>))"

definition settlement_item :: "backfill_env \<Rightarrow> string \<Rightarrow> BackfillJob \<Rightarrow> NeutralSettlementLine \<Rightarrow> BackfillJob poll_io" where
  "settlement_item env receiptID job item =
     (let job = job\<lparr>jb_FetchedCount := jb_FetchedCount job + 1\<rparr>
      in bindE (store_call (bf_base env) (UpsertSettlementLine (tv_uuid (bf_base env))
           \<lparr>sx_ID = [], sx_TenantID = jb_TenantID job, sx_ConnectorID = jb_ConnectorID job,
            sx_Provider = jb_Provider job, sx_ProviderMode = jb_ProviderMode job, sx_Item = item,
            sx_ReceiptID = receiptID, sx_Source = ''razorpay_settlement_recon''\<rparr>))
         (\<lambda>res. case res of
            UpsertDuplicate \<Rightarrow> returnE (job\<lparr>jb_DuplicateCount := jb_DuplicateCount job + 1\<rparr>)
          | _ \<Rightarrow>
            bindE (SettlementOutboxRow (bf_base env) (jb_TenantID job) (jb_ConnectorID job) item) (\<lambda>row.
            bindE (store_write (bf_base env) (InsertOutbox row)) (\<lambda>_.
            returnE (if res = UpsertInserted then job\<lparr>jb_InsertedCount := jb_InsertedCount job + 1\<rparr>
                     else job\<lparr>jb_UpdatedCount := jb_UpdatedCount job + 1\<rparr>)))))"

definition persistSettlementPage :: "backfill_env \<Rightarrow> BackfillJob \<Rightarrow> BackfillCursor
    \<Rightarrow> NeutralSettlementLine NeutralPage \<Rightarrow> progress poll_io" where
  "persistSettlementPage env job cursor page =
     bindE (store_receipt env job cursor page) (\<lambda>receiptID.
     bindE (foldE (settlement_item env receiptID) job (pg_Items page)) (\<lambda>job.
     (let cursor = cursor\<lparr>cu_LastProviderID := (if pg_Items page = [] then [] else nl_EntityID (last (pg_Items page))),
                         cu_LastResponseHash := pg_Hash page\<rparr>
      in bindE (update_job env job) (\<lambda>_. returnE (job, cursor)))))"

definition has_next :: "'a NeutralPage \<Rightarrow> bool" where
  "has_next page \<longleftrightarrow> pg_HasMore page \<and> pg_Items page \<noteq> []"

definition settlement_page_tx :: "backfill_env \<Rightarrow> BackfillJob \<Rightarrow> BackfillCursor
    \<Rightarrow> NeutralSettlementLine NeutralPage \<Rightarrow> progress poll_io" where
  "settlement_page_tx env job cursor page =
     bindE (persistSettlementPage env job cursor page) (\<lambda>(job, cursor).
     if has_next page then
       (let cursor = cursor\<lparr>cu_PageSkip := cu_PageSkip cursor + word_of_nat (length (pg_Items page)),
                           cu_PagesCompleted := cu_PagesCompleted cursor + 1,
                           cu_LeaseExpiresAt := Some (bf_now env + DefaultLeaseTTL)\<rparr>
        in bindE (store_write (bf_base env) (AdvanceCursor (bf_now env) cursor)) (\<lambda>_. returnE (job, cursor)))
     else returnE (job, cursor))"

definition settlement_turn :: "backfill_env \<Rightarrow> (progress poll_io \<Rightarrow> progress poll_io) \<Rightarrow> int \<Rightarrow> int64
    \<Rightarrow> BackfillJob \<Rightarrow> BackfillCursor \<Rightarrow> MemoryStore \<times> nat
    \<Rightarrow> (run_error + int64 option \<times> progress) \<times> (MemoryStore \<times> nat)" where
  "settlement_turn env tx d daySkip job cursor s =
     (case bf_ctx env (snd s) of
        Some e \<Rightarrow> (Inl (ROther e), s)
      | None \<Rightarrow>
       (case bf_settlements env (snd s) d daySkip (cu_PageCount cursor) of
          Inl e \<Rightarrow> (Inl e, s)
        | Inr page \<Rightarrow>
          (case tx (settlement_page_tx env job cursor page) s of
             (Inl e, s) \<Rightarrow> (Inl (ROther e), s)
           | (Inr progress, s) \<Rightarrow>
               (Inr (if has_next page then Some (daySkip + word_of_nat (length (pg_Items page))) else None,
                     progress), s))))"

partial_function (option) settlement_day :: "backfill_env \<Rightarrow> (progress poll_io \<Rightarrow> progress poll_io)
    \<Rightarrow> int \<Rightarrow> int64 \<Rightarrow> BackfillJob \<Rightarrow> BackfillCursor \<Rightarrow> MemoryStore \<times> nat \<Rightarrow> outcome option" where
  "settlement_day env tx d daySkip job cursor s =
     (case settlement_turn env tx d daySkip job cursor s of
        (Inl e, s) \<Rightarrow> Some ((Some e, (job, cursor)), s)
      | (Inr (again, progress), s) \<Rightarrow>
          (case again of
             None \<Rightarrow> Some ((None, progress), s)
           | Some skip \<Rightarrow> settlement_day env tx d skip (fst progress) (snd progress) s))"

fun settlement_days :: "backfill_env \<Rightarrow> (progress poll_io \<Rightarrow> progress poll_io) \<Rightarrow> int list
    \<Rightarrow> BackfillJob \<Rightarrow> BackfillCursor \<Rightarrow> MemoryStore \<times> nat \<Rightarrow> outcome option" where
  "settlement_days env tx [] job cursor s = Some ((None, (job, cursor)), s)"
| "settlement_days env tx (d # ds) job cursor s =
     (case settlement_day env tx d 0 job cursor s of
        None \<Rightarrow> None
      | Some ((Some e, progress), s) \<Rightarrow> Some ((Some e, progress), s)
      | Some ((None, (job, cursor)), s) \<Rightarrow> settlement_days env tx ds job cursor s)"

definition paginateSettlements :: "backfill_env \<Rightarrow> (progress poll_io \<Rightarrow> progress poll_io)
    \<Rightarrow> BackfillJob \<Rightarrow> BackfillCursor \<Rightarrow> MemoryStore \<times> nat \<Rightarrow> outcome option" where
  "paginateSettlements env tx job cursor s =
     (case settlement_days env tx (CivilDays (jb_WindowFrom job) (jb_WindowTo job)) job cursor s of
        None \<Rightarrow> None
      | Some ((Some e, progress), s) \<Rightarrow> Some ((Some e, progress), s)
      | Some ((None, (job, cursor)), s) \<Rightarrow>
          (let cursor = cursor\<lparr>cu_Status := CursorComplete\<rparr>
           in case tx (bindE (store_write (bf_base env) (AdvanceCursor (bf_now env) cursor))
                        (\<lambda>_. returnE (job, cursor))) s of
                (Inl e, s) \<Rightarrow> Some ((Some (ROther e), (job, cursor)), s)
              | (Inr _, s) \<Rightarrow> Some ((None, (job, cursor)), s)))"

section \<open>Running a job\<close>

definition redacted :: "backfill_env \<Rightarrow> string \<Rightarrow> string" where
  "redacted env msg = redactError (bf_secret env) (bf_keyid env) msg"

text \<open>The verdict on a run, and the row it leaves.\<close>

definition finished_job :: "backfill_env \<Rightarrow> run_error option \<Rightarrow> BackfillJob \<Rightarrow> BackfillCursor \<Rightarrow> BackfillJob" where
  "finished_job env runErr job cursor =
     (let job = job\<lparr>jb_CompletedAt := Some (bf_now env)\<rparr>
      in case runErr of
           Some (RProvider kind code msg) \<Rightarrow>
             (let job = job\<lparr>jb_LastErrorCode := code, jb_LastErrorMessage := redacted env msg\<rparr>
              in if kind \<in> {''unauthorized'', ''forbidden'', ''decode_error''} then job\<lparr>jb_Status := JobFailed\<rparr>
                 else job\<lparr>jb_Status := JobPartial, jb_ErrorCount := jb_ErrorCount job + 1\<rparr>)
         | Some (ROther msg) \<Rightarrow>
             job\<lparr>jb_Status := JobPartial, jb_LastErrorCode := ''BACKFILL_ERROR'',
                 jb_LastErrorMessage := redacted env msg, jb_ErrorCount := jb_ErrorCount job + 1\<rparr>
         | None \<Rightarrow>
             if cu_Status cursor = CursorComplete then job\<lparr>jb_Status := JobSucceeded\<rparr>
             else job\<lparr>jb_Status := JobPartial\<rparr>)"

type_synonym summary = "(BackfillSummary \<times> run_error option) \<times> (MemoryStore \<times> nat)"

definition finish_run :: "backfill_env \<Rightarrow> outcome \<Rightarrow> summary" where
  "finish_run env r =
     (case r of ((runErr, (job, cursor)), s) \<Rightarrow>
       (let job = finished_job env runErr job cursor
        in case update_job env job s of
             (Inl e, s) \<Rightarrow> ((SummaryFromJob job cursor, Some (ROther e)), s)
           | (Inr _, s) \<Rightarrow> ((SummaryFromJob job cursor, runErr), s)))"

definition failJob :: "backfill_env \<Rightarrow> BackfillJob \<Rightarrow> BackfillCursor \<Rightarrow> string \<Rightarrow> run_error
    \<Rightarrow> MemoryStore \<times> nat \<Rightarrow> summary" where
  "failJob env job cursor code err s =
     (let job = job\<lparr>jb_Status := JobFailed, jb_LastErrorCode := code,
                   jb_LastErrorMessage := redacted env (re_text err), jb_CompletedAt := Some (bf_now env)\<rparr>
      in ((SummaryFromJob job cursor, Some err), snd (update_job env job s)))"

text \<open>What runs under the lease: credentials, pages, verdict.\<close>

definition leased_run :: "backfill_env \<Rightarrow> (progress poll_io \<Rightarrow> progress poll_io) \<Rightarrow> BackfillJob
    \<Rightarrow> BackfillCursor \<Rightarrow> MemoryStore \<times> nat \<Rightarrow> summary option" where
  "leased_run env tx job cursor s =
     (case bf_provider env (jb_TenantID job) (jb_ConnectorID job) (jb_ProviderMode job) of
        Some (code, err) \<Rightarrow> Some (failJob env job cursor code err s)
      | None \<Rightarrow>
         map_option (finish_run env)
           (if jb_ResourceType job = ResourceSettlements then paginateSettlements env tx job cursor s
            else paginatePayments env tx job cursor s))"

definition release :: "backfill_env \<Rightarrow> BackfillCursor \<Rightarrow> MemoryStore \<times> nat \<Rightarrow> MemoryStore \<times> nat" where
  "release env cursor s =
     snd (store_write (bf_base env) (ReleaseCursorLease (cu_ID cursor) (bf_owner env)) s)"

definition acquire :: "backfill_env \<Rightarrow> BackfillJob \<Rightarrow> BackfillCursor poll_io" where
  "acquire env job = bindE (store_call (bf_base env)
       (AcquireCursorLease (bf_now env) (job_cursor_key job) (bf_owner env) DefaultLeaseTTL))
     (\<lambda>r. case r of Inl e \<Rightarrow> failE e | Inr c \<Rightarrow> returnE c)"

definition started :: "backfill_env \<Rightarrow> BackfillJob \<Rightarrow> BackfillJob" where
  "started env job = job\<lparr>jb_StartedAt := (case jb_StartedAt job of None \<Rightarrow> Some (bf_now env) | t \<Rightarrow> t),
     jb_Status := JobRunning\<rparr>"

definition run_job :: "backfill_env \<Rightarrow> (progress poll_io \<Rightarrow> progress poll_io) \<Rightarrow> BackfillJob
    \<Rightarrow> MemoryStore \<times> nat \<Rightarrow> summary option" where
  "run_job env tx job s =
     (let job = started env job
      in case update_job env job s of
           (Inl e, s) \<Rightarrow> Some ((zero_Summary, Some (ROther e)), s)
         | (Inr _, s) \<Rightarrow>
          (case acquire env job s of
             (Inl e, s) \<Rightarrow>
               (let job = job\<lparr>jb_Status := JobPartial, jb_LastErrorCode := ''LEASE_HELD'',
                             jb_LastErrorMessage := redacted env e\<rparr>
                in Some ((SummaryFromJob job zero_BackfillCursor, Some (ROther e)), snd (update_job env job s)))
           | (Inr cursor, s) \<Rightarrow>
               map_option (\<lambda>(r, s). (r, release env cursor s)) (leased_run env tx job cursor s)))"

definition run :: "backfill_env \<Rightarrow> (progress poll_io \<Rightarrow> progress poll_io) \<Rightarrow> string \<Rightarrow> string
    \<Rightarrow> MemoryStore \<times> nat \<Rightarrow> summary option" where
  "run env tx jobID expected s =
     (case get_job env jobID s of
        (Inl e, s) \<Rightarrow> Some ((zero_Summary, Some (ROther e)), s)
      | (Inr job, s) \<Rightarrow>
          if expected \<noteq> [] \<and> jb_ResourceType job \<noteq> expected then
            Some ((zero_Summary, Some (ROther (''job resource_type is '' @ jb_ResourceType job))), s)
          else if jb_Status job = JobCancelled then
            Some ((SummaryFromJob job zero_BackfillCursor, Some (ROther ''job cancelled'')), s)
          else if jb_Status job = JobSucceeded then
            Some ((SummaryFromJob job (zero_BackfillCursor\<lparr>cu_Status := CursorComplete,
                     cu_PageSkip := jb_FetchedCount job\<rparr>), None), s)
          else run_job env tx job s)"

definition RunPayments :: "backfill_env \<Rightarrow> (progress poll_io \<Rightarrow> progress poll_io) \<Rightarrow> string
    \<Rightarrow> MemoryStore \<times> nat \<Rightarrow> summary option" where
  "RunPayments env tx jobID = run env tx jobID ResourcePayments"

definition RunSettlements :: "backfill_env \<Rightarrow> (progress poll_io \<Rightarrow> progress poll_io) \<Rightarrow> string
    \<Rightarrow> MemoryStore \<times> nat \<Rightarrow> summary option" where
  "RunSettlements env tx jobID = run env tx jobID ResourceSettlements"

definition Resume :: "backfill_env \<Rightarrow> (progress poll_io \<Rightarrow> progress poll_io) \<Rightarrow> string
    \<Rightarrow> MemoryStore \<times> nat \<Rightarrow> summary option" where
  "Resume env tx jobID s =
     (case get_job env jobID s of
        (Inl e, s) \<Rightarrow> Some ((zero_Summary, Some (ROther e)), s)
      | (Inr job, s) \<Rightarrow>
          if jb_Status job = JobCancelled then
            Some ((SummaryFromJob job zero_BackfillCursor, Some (ROther ''job cancelled'')), s)
          else run env tx jobID (jb_ResourceType job) s)"

section \<open>What one page does to the job and its cursor\<close>

definition handled :: "BackfillJob \<Rightarrow> int64" where
  "handled job = jb_InsertedCount job + jb_UpdatedCount job + jb_DuplicateCount job"

text \<open>The columns that identify a job and its window, which a run never changes.\<close>

definition job_identity :: "BackfillJob \<Rightarrow> string \<times> string \<times> string \<times> string \<times> string \<times> string \<times> time \<times> time" where
  "job_identity job = (jb_ID job, jb_Status job, jb_TenantID job, jb_ConnectorID job, jb_Provider job,
     jb_ResourceType job, jb_WindowFrom job, jb_WindowTo job)"

definition counts_up :: "nat \<Rightarrow> BackfillJob \<Rightarrow> BackfillJob \<Rightarrow> bool" where
  "counts_up n job job' \<longleftrightarrow> job_identity job' = job_identity job
     \<and> jb_FetchedCount job' = jb_FetchedCount job + word_of_nat n
     \<and> handled job' = handled job + word_of_nat n"

lemma counts_up_0 [simp]: "counts_up 0 job job"
  by (simp add: counts_up_def)

lemma counts_up_trans: "counts_up n a b \<Longrightarrow> counts_up k b c \<Longrightarrow> counts_up (n + k) a c"
  by (simp add: counts_up_def)

lemma count_kind_up: "counts_up 1 job (count_kind mw k (job\<lparr>jb_FetchedCount := jb_FetchedCount job + 1\<rparr>))"
  by (cases k) (simp_all add: counts_up_def count_kind_def handled_def job_identity_def)

lemma upsert_item_Inr:
  assumes "upsert_item env rid mw job item s = (Inr job', t)"
  shows "\<exists>k. job' = count_kind mw k job"
proof -
  from assms obtain res s1 where "(case res of
        UpsertDuplicate \<Rightarrow> returnE (count_kind mw KindDuplicate job)
      | _ \<Rightarrow>
        bindE (PaymentOutboxRow (bf_base env) (jb_TenantID job) (jb_ConnectorID job) ''api_backfill'' item) (\<lambda>row.
        bindE (store_write (bf_base env) (InsertOutbox row)) (\<lambda>_.
        returnE (count_kind mw (if res = UpsertInserted then KindInserted else KindUpdated) job)))) s1 = (Inr job', t)"
    unfolding upsert_item_def by (rule bindE_InrE)
  then show ?thesis by (cases res) (auto simp: bindE_Inr returnE_Inr)
qed

lemma backfill_item_Inr:
  assumes "backfill_item env rid ids job item s = (Inr job', t)"
  shows "counts_up 1 job job'"
proof (cases "bf_truth env")
  case True
  then show ?thesis
    using assms count_kind_up by (auto simp: backfill_item_def Let_def bindE_Inr returnE_Inr)
next
  case False
  then show ?thesis
    using assms count_kind_up by (auto simp: backfill_item_def Let_def dest!: upsert_item_Inr)
qed

lemma settlement_item_Inr:
  assumes "settlement_item env rid job item s = (Inr job', t)"
  shows "counts_up 1 job job'"
proof -
  let ?j = "job\<lparr>jb_FetchedCount := jb_FetchedCount job + 1\<rparr>"
  from assms obtain res s1 where "(case res of
        UpsertDuplicate \<Rightarrow> returnE (?j\<lparr>jb_DuplicateCount := jb_DuplicateCount ?j + 1\<rparr>)
      | _ \<Rightarrow>
        bindE (SettlementOutboxRow (bf_base env) (jb_TenantID ?j) (jb_ConnectorID ?j) item) (\<lambda>row.
        bindE (store_write (bf_base env) (InsertOutbox row)) (\<lambda>_.
        returnE (if res = UpsertInserted then ?j\<lparr>jb_InsertedCount := jb_InsertedCount ?j + 1\<rparr>
                 else ?j\<lparr>jb_UpdatedCount := jb_UpdatedCount ?j + 1\<rparr>)))) s1 = (Inr job', t)"
    unfolding settlement_item_def Let_def by (rule bindE_InrE)
  then show ?thesis
    by (cases res) (auto simp: bindE_Inr returnE_Inr counts_up_def handled_def job_identity_def)
qed

lemma foldE_counts:
  assumes "foldE f job xs s = (Inr job', t)"
    and "\<And>job x s job' t. f job x s = (Inr job', t) \<Longrightarrow> counts_up 1 job job'"
  shows "counts_up (length xs) job job'"
  using assms(1)
proof (induction xs arbitrary: job s)
  case (Cons x xs)
  from Cons.prems obtain j u where "f job x s = (Inr j, u)" "foldE f j xs u = (Inr job', t)"
    by (auto elim: bindE_InrE)
  from counts_up_trans [OF assms(2) [OF this(1)] Cons.IH [OF this(2)]] show ?case by simp
qed (simp add: returnE_Inr)

definition page_mark :: "string \<Rightarrow> string \<Rightarrow> BackfillCursor \<Rightarrow> BackfillCursor" where
  "page_mark lastID hash cursor = cursor\<lparr>cu_LastProviderID := lastID, cu_LastResponseHash := hash\<rparr>"

lemma update_job_Inr: "update_job env job s = (Inr u, t) \<Longrightarrow> fst t = UpdateJob (bf_now env) job (fst s)"
  by (simp add: update_job_def io_Inr)

lemma get_job_store [simp]: "fst (snd (get_job env i s)) = fst s"
proof -
  have "keeps (\<lambda>m. m) (get_job env i)"
    unfolding get_job_def store_read_def store_call_def
    by (intro keeps_intros) (simp_all add: keeps_failE keeps_returnE split: option.split)
  then show ?thesis unfolding keeps_def by (rule spec)
qed

lemma persistPaymentPage_Inr:
  assumes "persistPaymentPage env job cursor page s = (Inr (job', cursor'), t)"
  shows "counts_up (length (pg_Items page)) job job' \<and> (\<exists>i h. cursor' = page_mark i h cursor)
    \<and> (\<exists>m. fst t = UpdateJob (bf_now env) job' m)"
proof -
  from assms obtain rid ids s1 s2 u where "foldE (backfill_item env rid ids) job (pg_Items page) s1 = (Inr job', s2)"
    and "cursor' = page_mark (if pg_Items page = [] then [] else np_PaymentID (last (pg_Items page))) (pg_Hash page) cursor"
    and "update_job env job' s2 = (Inr u, t)"
    unfolding persistPaymentPage_def Let_def
    by (auto elim!: bindE_InrE simp: returnE_Inr page_mark_def)
  moreover from this(1) have "counts_up (length (pg_Items page)) job job'"
    by (rule foldE_counts) (rule backfill_item_Inr)
  ultimately show ?thesis using update_job_Inr by blast
qed

lemma payment_page_tx_Inr:
  assumes "payment_page_tx env job cursor page s = (Inr (job', cursor'), t)"
  shows "counts_up (length (pg_Items page)) job job'
    \<and> (\<exists>i h. cursor' = advanced env (pg_HasMore page) (length (pg_Items page)) (page_mark i h cursor))
    \<and> (\<exists>m. fst t = AdvanceCursor (bf_now env) cursor' (UpdateJob (bf_now env) job' m))"
proof -
  from assms obtain j c s1 where 1: "persistPaymentPage env job cursor page s = (Inr (j, c), s1)"
    and 2: "job' = j" "cursor' = advanced env (pg_HasMore page) (length (pg_Items page)) c"
      "fst t = AdvanceCursor (bf_now env) cursor' (fst s1)"
    unfolding payment_page_tx_def Let_def
    by (auto elim!: bindE_InrE simp: returnE_Inr store_write_Inr)
  from persistPaymentPage_Inr [OF 1] 2 show ?thesis by auto
qed

lemma advanced_fields [simp]:
  "cu_PageSkip (advanced env hasMore n c) = (if \<not> hasMore \<or> n = 0 then cu_PageSkip c else cu_PageSkip c + word_of_nat n)"
  "cu_Status (advanced env hasMore n c) = (if \<not> hasMore \<or> n = 0 then CursorComplete else cu_Status c)"
  "cu_PageCount (advanced env hasMore n c) = cu_PageCount c"
  "key_of_cursor (advanced env hasMore n c) = key_of_cursor c"
  "cu_ID (advanced env hasMore n c) = cu_ID c"
  by (simp_all add: advanced_def key_of_cursor_def)

lemma page_mark_fields [simp]:
  "cu_PageSkip (page_mark i h c) = cu_PageSkip c" "cu_Status (page_mark i h c) = cu_Status c"
  "cu_PageCount (page_mark i h c) = cu_PageCount c" "key_of_cursor (page_mark i h c) = key_of_cursor c"
  "cu_ID (page_mark i h c) = cu_ID c"
  by (simp_all add: page_mark_def key_of_cursor_def)

text \<open>The rows in the store say what the service believes.\<close>

definition recorded :: "BackfillJob \<Rightarrow> BackfillCursor \<Rightarrow> MemoryStore \<Rightarrow> bool" where
  "recorded job cursor m \<longleftrightarrow>
     (\<exists>j. GetJob (jb_ID job) m = Some j \<and> jb_FetchedCount j = jb_FetchedCount job \<and> handled j = handled job)
   \<and> (\<exists>c. GetCursor (key_of_cursor cursor) m = Some c \<and> cu_PageSkip c = cu_PageSkip cursor
        \<and> cu_Status c = cu_Status cursor)"

lemma recorded_page:
  "recorded job cursor (AdvanceCursor now cursor (UpdateJob now' job m))"
  by (simp add: recorded_def AdvanceCursor_def UpdateJob_def GetJob_def GetCursor_def handled_def)

section \<open>What a page leaves in the store\<close>

text \<open>
  Where a payment of a job is kept, and the hash under which its observation is logged.  With the
  truth processor the payment is reduced into the canonical payments; without it, its snapshot is
  upserted.
\<close>

definition payment_key :: "backfill_env \<Rightarrow> BackfillJob \<Rightarrow> NeutralPayment \<Rightarrow> string" where
  "payment_key env job item = canonicalKey (jb_TenantID job) (jb_ConnectorID job)
     (if bf_truth env then TrimSpace (np_PaymentID item) else np_PaymentID item)"

definition item_hash :: "backfill_env \<Rightarrow> BackfillJob \<Rightarrow> NeutralPayment \<Rightarrow> string" where
  "item_hash env job item = ObservationIdentityHash (tv_sha (bf_base env)) (jb_TenantID job) (jb_ConnectorID job)
     (jb_Provider job) (np_PaymentID item) ''api_backfill'' [] (np_PayloadHash item)"

definition event_key :: "ObservationEvent \<Rightarrow> string" where
  "event_key ev = canonicalKey (ev_TenantID ev) (ev_ConnectorID ev) (ev_PaymentID ev)"

text \<open>
  A payment of the list \<open>xs\<close> is stored: with the processor, an observation with its hash is logged
  for its key and the canonical payment of that key is there; without it, the row of its key is
  there, with the payload of a payment of the list that has this key.
\<close>

definition stored :: "backfill_env \<Rightarrow> BackfillJob \<Rightarrow> NeutralPayment list \<Rightarrow> NeutralPayment \<Rightarrow> MemoryStore \<Rightarrow> bool" where
  "stored env job xs item m \<longleftrightarrow>
     (if bf_truth env
      then (\<exists>ev \<in> set (pm_Events m). ev_IdentityHash ev = item_hash env job item \<and> event_key ev = payment_key env job item)
         \<and> (\<exists>p. pm_Canonicals m (payment_key env job item) = Some p \<and> pay_key p = payment_key env job item)
      else \<exists>row. map_of (pm_Payments m) (payment_key env job item) = Some row
         \<and> (\<exists>y \<in> set xs. payment_key env job y = payment_key env job item
              \<and> np_PayloadHash (px_Item row) = np_PayloadHash y))"

text \<open>
  The digest tells the payments of the list apart, from each other and from those already logged:
  two different payments do not share an identity hash.
\<close>

definition no_collision :: "backfill_env \<Rightarrow> BackfillJob \<Rightarrow> NeutralPayment list \<Rightarrow> MemoryStore \<Rightarrow> bool" where
  "no_collision env job xs m \<longleftrightarrow>
     (\<forall>x \<in> set xs. \<forall>y \<in> set xs. item_hash env job x = item_hash env job y \<longrightarrow> payment_key env job x = payment_key env job y)
   \<and> (\<forall>ev \<in> set (pm_Events m). \<forall>x \<in> set xs. ev_IdentityHash ev = item_hash env job x \<longrightarrow> event_key ev = payment_key env job x)"

text \<open>A log that the processor wrote, in which the digest has no collision.\<close>

definition sound_log :: "backfill_env \<Rightarrow> BackfillJob \<Rightarrow> NeutralPayment list \<Rightarrow> MemoryStore \<Rightarrow> bool" where
  "sound_log env job xs m \<longleftrightarrow> (bf_truth env \<longrightarrow> truth_inv m \<and> no_collision env job xs m \<and> (\<forall>x. tv_sha (bf_base env) x \<noteq> []))"

definition holds :: "backfill_env \<Rightarrow> BackfillJob \<Rightarrow> NeutralPayment list \<Rightarrow> NeutralPayment set \<Rightarrow> MemoryStore \<Rightarrow> bool" where
  "holds env job xs D m \<longleftrightarrow> sound_log env job xs m \<and> (\<forall>item \<in> D. stored env job xs item m)"

lemma holds_identity:
  assumes "job_identity job' = job_identity job"
  shows "holds env job' xs D m = holds env job xs D m"
proof -
  have ids: "jb_TenantID job' = jb_TenantID job" "jb_ConnectorID job' = jb_ConnectorID job" "jb_Provider job' = jb_Provider job"
    using assms by (simp_all add: job_identity_def)
  then have "payment_key env job' = payment_key env job" "item_hash env job' = item_hash env job"
    by (simp_all add: payment_key_def item_hash_def fun_eq_iff)
  then show ?thesis by (simp add: holds_def sound_log_def no_collision_def stored_def)
qed

text \<open>The rest of a page (receipt, counters, cursor) touches neither the log nor the payments.\<close>

definition payment_part :: "MemoryStore \<Rightarrow> _" where
  "payment_part m = (truth_part m, pm_Payments m)"

lemma holds_part: "payment_part m' = payment_part m \<Longrightarrow> holds env job xs D m' = holds env job xs D m"
  by (simp add: payment_part_def truth_part_def holds_def sound_log_def no_collision_def stored_def truth_inv_def)

lemma payment_part_writes [simp]:
  "payment_part (UpdateJob now job m) = payment_part m"
  "payment_part (AdvanceCursor now cursor m) = payment_part m"
  "payment_part (InsertResponseReceipt uuid rec m) = payment_part m"
  by (simp_all add: payment_part_def truth_part_def UpdateJob_def AdvanceCursor_def InsertResponseReceipt_def Let_def
      mint_if_blank_def mint_def)

lemma store_receipt_part: "store_receipt env job cursor page s = (Inr rid, t) \<Longrightarrow> payment_part (fst t) = payment_part (fst s)"
  by (auto simp: store_receipt_def bindE_Inr io_Inr event_id_def case_prod_beta payment_part_def truth_part_def
      InsertResponseReceipt_def Let_def mint_if_blank_def mint_def)

subsection \<open>One payment\<close>

lemma mapped_observation:
  assumes "MapNeutral (tv_sha (bf_base env)) now (jb_TenantID job) (jb_ConnectorID job) (jb_Provider job) mode
      ''api_backfill'' [] rid item mw seenAt = Inr ob" and "bf_truth env"
  shows "pob_IdentityHash (prepared (tv_sha (bf_base env)) ob) = item_hash env job item"
    and "canonicalKey (pob_TenantID ob) (pob_ConnectorID ob) (pob_PaymentID ob) = payment_key env job item"
    and "pob_PaymentID ob \<noteq> []"
proof -
  let ?ob = "fill_defaults now (neutral_fields (jb_TenantID job) (jb_ConnectorID job) (jb_Provider job) mode
      ''api_backfill'' [] rid item mw seenAt)"
  have ob: "ob = with_identity (tv_sha (bf_base env)) ?ob"
    using assms by (auto simp: MapNeutral_def split: option.splits if_splits)
  have "own_hash (tv_sha (bf_base env)) ob" by (simp add: own_hash_def ob) (simp add: with_identity_def)
  then have "pob_IdentityHash (prepared (tv_sha (bf_base env)) ob)
      = tv_sha (bf_base env) (str_join (observation_identity ob) ''|'')" by (rule prepared_identity)
  then show "pob_IdentityHash (prepared (tv_sha (bf_base env)) ob) = item_hash env job item"
    by (simp add: ob item_hash_def ObservationIdentityHash_def observation_identity_def with_identity_def
        fill_defaults_def neutral_fields_def Let_def)
  show "canonicalKey (pob_TenantID ob) (pob_ConnectorID ob) (pob_PaymentID ob) = payment_key env job item"
    using assms(2) by (simp add: ob payment_key_def with_identity_def fill_defaults_def neutral_fields_def Let_def)
  show "pob_PaymentID ob \<noteq> []" using MapNeutral_valid [OF assms(1)] by (simp add: valid_obs_def)
qed

lemma logged_payment:
  assumes "truth_inv m" and "ev \<in> set (pm_Events m)" and "ev_IdentityHash ev \<noteq> []"
  obtains p where "pm_Canonicals m (event_key ev) = Some p" "pay_key p = event_key ev"
proof -
  have "entry_ok (event_key ev) (logged (event_key ev) (pm_Events m)) (pm_Canonicals m (event_key ev))"
    using assms(1) unfolding truth_inv_def by blast
  moreover have "logged (event_key ev) (pm_Events m) \<noteq> []"
    using assms(2,3) by (auto simp: logged_def event_key_def filter_empty_conv)
  ultimately show thesis using that by (auto simp: entry_ok_def split: option.splits)
qed

lemma stored_events:
  assumes "bf_truth env" and "truth_inv m'" and "\<And>x. tv_sha (bf_base env) x \<noteq> []"
    and "ev \<in> set (pm_Events m')" and "ev_IdentityHash ev = item_hash env job item" and "event_key ev = payment_key env job item"
  shows "stored env job xs item m'"
proof -
  have "ev_IdentityHash ev \<noteq> []" using assms(3,5) by (simp add: item_hash_def ObservationIdentityHash_def Let_def)
  with assms show ?thesis by (metis logged_payment stored_def)
qed

lemma truth_item_holds:
  assumes "bf_truth env" and "holds env job xs D (fst s)" and "item \<in> set xs"
    and "backfill_item env rid ids job item s = (Inr job', t)"
  shows "holds env job xs (insert item D) (fst t)"
proof -
  let ?env = "bf_base env"
  have inv: "truth_inv (fst s)" and coll: "no_collision env job xs (fst s)" and sha: "tv_sha ?env x \<noteq> []" for x
    using assms(1,2) by (simp_all add: holds_def sound_log_def)
  from assms(1,4) obtain mw r where run: "ProcessNeutral RunInTx_memory ?env (jb_TenantID job) (jb_ConnectorID job)
      (jb_Provider job) (jb_ProviderMode job) ''api_backfill'' [] rid item mw s = (Inr r, t)"
    by (auto simp: backfill_item_def Let_def bindE_Inr returnE_Inr)
  then obtain ob where ob: "MapNeutral (tv_sha ?env) (tv_now ?env) (jb_TenantID job) (jb_ConnectorID job)
      (jb_Provider job) (jb_ProviderMode job) ''api_backfill'' [] rid item mw (tv_now ?env) = Inr ob"
    and body: "process_body ?env (prepared (tv_sha ?env) ob) s = (Inr r, t)"
    by (auto simp: ProcessNeutral_def Process_def RunInTx_memory_def failE_def split: sum.splits option.splits)
  note mapped = mapped_observation [OF ob assms(1)]
  have inv': "truth_inv (fst t)" by (rule process_body_inv [OF sha mapped(3) body inv])
  have "\<exists>evs. pm_Events (fst t) = pm_Events (fst s) @ evs \<and> (\<forall>ev \<in> set evs.
        ev_IdentityHash ev = item_hash env job item \<and> event_key ev = payment_key env job item)
      \<and> (\<exists>ev \<in> set (pm_Events (fst t)). ev_IdentityHash ev = item_hash env job item)"
    using sha body
  proof (cases rule: process_body_cases)
    case dup
    then show ?thesis using mapped(1) by (intro exI [of _ "[]"]) simp
  next
    case (new m n)
    have "pm_Events (fst t) = pm_Events (fst s) @ [event_of (prepared (tv_sha ?env) ob)]"
      using process_new_Inr [OF new(3)] new(2) by auto
    moreover have "ev_IdentityHash (event_of (prepared (tv_sha ?env) ob)) = item_hash env job item"
      by (simp add: event_of_def mapped(1))
    moreover have "event_key (event_of (prepared (tv_sha ?env) ob)) = payment_key env job item"
      using mapped(2) by (simp add: event_key_def event_of_def prepared_def with_hash_def with_identity_def Let_def)
    ultimately show ?thesis by auto
  qed
  then obtain evs where evs: "pm_Events (fst t) = pm_Events (fst s) @ evs"
    "\<forall>ev \<in> set evs. ev_IdentityHash ev = item_hash env job item \<and> event_key ev = payment_key env job item"
    and hit: "\<exists>ev \<in> set (pm_Events (fst t)). ev_IdentityHash ev = item_hash env job item" by blast
  have coll': "no_collision env job xs (fst t)"
    unfolding no_collision_def evs(1) set_append ball_Un
  proof (intro conjI)
    show "\<forall>ev \<in> set evs. \<forall>x \<in> set xs. ev_IdentityHash ev = item_hash env job x \<longrightarrow> event_key ev = payment_key env job x"
      using coll assms(3) evs(2) unfolding no_collision_def by metis
  qed (use coll no_collision_def in blast)+
  have "stored env job xs x (fst t)" if "x \<in> insert item D" for x
  proof -
    have "\<exists>ev \<in> set (pm_Events (fst t)). ev_IdentityHash ev = item_hash env job x \<and> event_key ev = payment_key env job x"
    proof (cases "x = item")
      case True
      then show ?thesis using hit coll' assms(3) unfolding no_collision_def by blast
    next
      case False
      then have "stored env job xs x (fst s)" using that assms(2) by (simp add: holds_def)
      then show ?thesis using assms(1) by (auto simp: stored_def evs(1))
    qed
    then show ?thesis using stored_events [OF assms(1) inv' sha] by blast
  qed
  then show ?thesis using inv' coll' sha by (simp add: holds_def sound_log_def)
qed

lemma UpsertPayment_row:
  "\<exists>row. pm_Payments (snd (UpsertPayment uuid ob m)) =
      alist_put (canonicalKey (px_TenantID ob) (px_ConnectorID ob) (np_PaymentID (px_Item ob))) row (pm_Payments m)
    \<and> np_PayloadHash (px_Item row) = np_PayloadHash (px_Item ob)"
  by (auto simp: UpsertPayment_def Let_def mint_if_blank_def mint_def case_prod_beta split: option.split)

lemma upsert_item_row:
  assumes "upsert_item env rid mw job item s = (Inr job', t)"
  shows "\<exists>row. pm_Payments (fst t) = alist_put (canonicalKey (jb_TenantID job) (jb_ConnectorID job) (np_PaymentID item)) row
      (pm_Payments (fst s)) \<and> np_PayloadHash (px_Item row) = np_PayloadHash item"
proof -
  let ?up = "UpsertPayment (tv_uuid (bf_base env)) (polled_payment job rid mw item)"
  have frame: "pm_Payments (fst v) = pm_Payments (fst u)"
    if "PaymentOutboxRow e a b src item u = (Inr row, v)" for e a b src u v row
    using that by (auto simp: PaymentOutboxRow_def bindE_Inr returnE_Inr event_id_def case_prod_beta mint_def
        dest!: parse_tenant_Inr)
  from assms have "pm_Payments (fst t) = pm_Payments (snd (?up (fst s)))"
    unfolding upsert_item_def
    by (auto simp: bindE_Inr io_Inr InsertOutbox_def dest!: frame split: UpsertResult.splits)
  then show ?thesis
    using UpsertPayment_row [of "tv_uuid (bf_base env)" "polled_payment job rid mw item" "fst s"]
    by (simp add: polled_payment_def)
qed

lemma item_holds:
  assumes "holds env job xs D (fst s)" and "item \<in> set xs" and "backfill_item env rid ids job item s = (Inr job', t)"
  shows "holds env job xs (insert item D) (fst t)"
proof (cases "bf_truth env")
  case True
  then show ?thesis by (rule truth_item_holds [OF _ assms])
next
  case False
  then obtain mw j where "upsert_item env rid mw j item s = (Inr job', t)"
    and j: "j = job\<lparr>jb_FetchedCount := jb_FetchedCount job + 1\<rparr>"
    using assms(3) by (auto simp: backfill_item_def Let_def)
  from upsert_item_row [OF this(1)] obtain row where
    row: "pm_Payments (fst t) = alist_put (payment_key env job item) row (pm_Payments (fst s))"
    "np_PayloadHash (px_Item row) = np_PayloadHash item"
    using False by (auto simp: j payment_key_def)
  have "stored env job xs x (fst t)" if "x \<in> insert item D" for x
  proof (cases "payment_key env job x = payment_key env job item")
    case True
    then show ?thesis using False row assms(2) by (auto simp: stored_def)
  next
    case other: False
    then have "stored env job xs x (fst s)" using that assms(1) by (auto simp: holds_def)
    then show ?thesis using False row other by (auto simp: stored_def)
  qed
  then show ?thesis using False by (simp add: holds_def sound_log_def)
qed

lemma items_hold:
  "foldE (backfill_item env rid ids) job items s = (Inr job', t) \<Longrightarrow> holds env job xs D (fst s) \<Longrightarrow> set items \<subseteq> set xs
    \<Longrightarrow> holds env job xs (D \<union> set items) (fst t)"
proof (induction items arbitrary: job D s)
  case (Cons item items)
  then obtain j u where item: "backfill_item env rid ids job item s = (Inr j, u)"
    and rest: "foldE (backfill_item env rid ids) j items u = (Inr job', t)"
    by (auto elim: bindE_InrE)
  have same: "job_identity j = job_identity job" using backfill_item_Inr [OF item] by (simp add: counts_up_def)
  have "holds env job xs (insert item D) (fst u)" by (rule item_holds [OF _ _ item]) (use Cons.prems in simp_all)
  then have "holds env j xs (insert item D) (fst u)" by (simp add: holds_identity [OF same])
  from Cons.IH [OF rest this] Cons.prems(3) show ?case by (simp add: holds_identity [OF same])
qed (simp add: returnE_Inr)

lemma page_holds:
  assumes "payment_page_tx env job cursor page s = (Inr (job', cursor'), t)" and "holds env job xs D (fst s)"
    and "set (pg_Items page) \<subseteq> set xs"
  shows "holds env job xs (D \<union> set (pg_Items page)) (fst t)"
proof -
  from assms(1) obtain j c s1 where 1: "persistPaymentPage env job cursor page s = (Inr (j, c), s1)"
    and t: "payment_part (fst t) = payment_part (fst s1)"
    unfolding payment_page_tx_def Let_def
    by (auto elim!: bindE_InrE simp: returnE_Inr store_write_Inr)
  from 1 obtain rid ids s2 s3 s4 u where r: "store_receipt env job cursor page s = (Inr rid, s2)"
    and w: "webhook_ids env job s2 = (Inr ids, s3)"
    and f: "foldE (backfill_item env rid ids) job (pg_Items page) s3 = (Inr j, s4)"
    and u: "update_job env j s4 = (Inr u, s1)"
    unfolding persistPaymentPage_def Let_def by (auto elim!: bindE_InrE simp: returnE_Inr)
  have "payment_part (fst s3) = payment_part (fst s)"
    using store_receipt_part [OF r] w by (auto simp: webhook_ids_def)
  then have "holds env job xs D (fst s3)" using assms(2) holds_part by blast
  from items_hold [OF f this assms(3)] have "holds env job xs (D \<union> set (pg_Items page)) (fst s4)" .
  moreover have "payment_part (fst t) = payment_part (fst s4)" using t update_job_Inr [OF u] by simp
  ultimately show ?thesis using holds_part by blast
qed

section \<open>A provider that serves a list\<close>

text \<open>
  The contract of \<open>BackfillAdapter.ListPaymentsPage\<close> over a provider with the payments \<open>xs\<close> in
  the window: the page at \<open>skip\<close>, and more to come when it is full.
\<close>

definition serves :: "backfill_env \<Rightarrow> NeutralPayment list \<Rightarrow> bool" where
  "serves env xs \<longleftrightarrow> (\<forall>n start stop skip count. \<exists>page. bf_payments env n start stop skip count = Inr page
     \<and> pg_Items page = take (unat count) (drop (unat skip) xs)
     \<and> pg_HasMore page = (unat count \<le> length (pg_Items page) \<and> 0 < unat count))"

lemma unat_skip:
  assumes "unat k + n < 2 ^ 64"
  shows "unat (k + word_of_nat n :: int64) = unat k + n"
proof -
  have "n < 2 ^ 64" using assms by linarith
  then have "unat (word_of_nat n :: int64) = n" by (simp add: unat_of_nat take_bit_nat_eq_self)
  then show ?thesis using assms by (simp add: unat_word_ariths)
qed

text \<open>One turn against such a provider, whatever the transaction.\<close>

definition turn_ok :: "NeutralPayment list \<Rightarrow> BackfillJob \<Rightarrow> BackfillCursor \<Rightarrow> bool \<times> progress \<Rightarrow> bool" where
  "turn_ok xs job cursor r \<longleftrightarrow> (case r of (fin, (job', cursor')) \<Rightarrow>
     \<exists>n. n = min (unat (cu_PageCount cursor)) (length xs - unat (cu_PageSkip cursor))
       \<and> counts_up n job job' \<and> cu_PageCount cursor' = cu_PageCount cursor
       \<and> key_of_cursor cursor' = key_of_cursor cursor
       \<and> (if fin then cu_Status cursor' = CursorComplete \<and> n = length xs - unat (cu_PageSkip cursor)
          else 0 < n \<and> cu_Status cursor' = cu_Status cursor \<and> unat (cu_PageSkip cursor) + n \<le> length xs
             \<and> cu_PageSkip cursor' = cu_PageSkip cursor + word_of_nat n))"

definition pages_ok :: "NeutralPayment list \<Rightarrow> BackfillJob \<Rightarrow> BackfillCursor \<Rightarrow> outcome \<Rightarrow> bool" where
  "pages_ok xs job cursor out \<longleftrightarrow> (case out of ((err, (job', cursor')), t) \<Rightarrow>
     key_of_cursor cursor' = key_of_cursor cursor
   \<and> (case err of
        None \<Rightarrow> cu_Status cursor' = CursorComplete \<and> recorded job' cursor' (fst t)
          \<and> counts_up (length xs - unat (cu_PageSkip cursor)) job job'
      | Some e \<Rightarrow> \<exists>n. counts_up n job job' \<and> unat (cu_PageSkip cursor) + n \<le> length xs
          \<and> cu_PageSkip cursor' = cu_PageSkip cursor + word_of_nat n))"

text \<open>A turn that is not the last one leaves the rest of the window to the following turns.\<close>

lemma pages_ok_later:
  assumes up: "counts_up n job job1" and key: "key_of_cursor cursor1 = key_of_cursor cursor"
    and skip: "cu_PageSkip cursor1 = cu_PageSkip cursor + word_of_nat n"
      "unat (cu_PageSkip cursor1) = unat (cu_PageSkip cursor) + n"
    and n: "unat (cu_PageSkip cursor) + n \<le> length xs"
    and later: "pages_ok xs job1 cursor1 out"
  shows "pages_ok xs job cursor out"
proof -
  obtain err job' cursor' t where out: "out = ((err, (job', cursor')), t)" by (metis surj_pair)
  show ?thesis
  proof (cases err)
    case None
    have "length xs - unat (cu_PageSkip cursor) = n + (length xs - unat (cu_PageSkip cursor1))"
      using n skip(2) by linarith
    moreover have "counts_up (n + (length xs - unat (cu_PageSkip cursor1))) job job'"
      by (rule counts_up_trans [OF up]) (use later None in \<open>simp add: pages_ok_def out\<close>)
    ultimately show ?thesis using later key None by (simp add: pages_ok_def out)
  next
    case (Some e)
    with later obtain k where k: "counts_up k job1 job'" "unat (cu_PageSkip cursor1) + k \<le> length xs"
      "cu_PageSkip cursor' = cu_PageSkip cursor1 + word_of_nat k"
      by (auto simp: pages_ok_def out)
    have "counts_up (n + k) job job'" by (rule counts_up_trans [OF up k(1)])
    moreover have "unat (cu_PageSkip cursor) + (n + k) \<le> length xs" using k(2) skip(2) by simp
    moreover have "cu_PageSkip cursor' = cu_PageSkip cursor + word_of_nat (n + k)" using k(3) skip(1) by simp
    ultimately show ?thesis using later key Some by (auto simp: pages_ok_def out)
  qed
qed

locale page_runner = transaction tx for tx :: "progress poll_io \<Rightarrow> progress poll_io"
begin

lemma turn_answer:
  assumes "payments_turn env tx job cursor s = (Inr (fin, progress), t)"
  obtains page n k j where
    "bf_payments env n (jb_WindowFrom job) (jb_WindowTo job) (cu_PageSkip cursor) (cu_PageCount cursor) = Inr page"
    "payment_page_tx env job cursor page (fst s, k) = (Inr progress, (fst t, j))"
    "fin = (cu_Status (snd progress) = CursorComplete)"
proof -
  let ?u = "snd (get_job env (jb_ID job) s)"
  have "case bf_payments env (snd ?u) (jb_WindowFrom job) (jb_WindowTo job) (cu_PageSkip cursor)
          (cu_PageCount cursor) of
      Inl e \<Rightarrow> False
    | Inr page \<Rightarrow> tx (payment_page_tx env job cursor page) ?u = (Inr progress, t)
        \<and> fin = (cu_Status (snd progress) = CursorComplete)"
    using assms
    by (auto simp: payments_turn_def Let_def case_prod_beta prod_eq_iff split: option.splits sum.splits if_splits prod.splits)
  then obtain page where page: "bf_payments env (snd ?u) (jb_WindowFrom job) (jb_WindowTo job)
      (cu_PageSkip cursor) (cu_PageCount cursor) = Inr page"
    and "tx (payment_page_tx env job cursor page) ?u = (Inr progress, t)"
    and fin: "fin = (cu_Status (snd progress) = CursorComplete)"
    by (auto split: sum.splits)
  from commits [OF this(2)] obtain k j where
    "payment_page_tx env job cursor page (fst ?u, k) = (Inr progress, (fst t, j))" by blast
  with that [OF page _ fin] show thesis by (simp add: get_job_store)
qed

lemma turn_serves:
  assumes "payments_turn env tx job cursor s = (Inr r, t)" and "serves env xs"
    and "length xs < 2 ^ 63" and "0 < unat (cu_PageCount cursor)" and "cu_Status cursor \<noteq> CursorComplete"
  shows "turn_ok xs job cursor r \<and> recorded (fst (snd r)) (snd (snd r)) (fst t)"
proof -
  obtain fin job' cursor' where r: "r = (fin, (job', cursor'))" by (metis surj_pair)
  from assms(1) [unfolded r] obtain page n k j where
    page: "bf_payments env n (jb_WindowFrom job) (jb_WindowTo job) (cu_PageSkip cursor) (cu_PageCount cursor) = Inr page"
    and tx: "payment_page_tx env job cursor page (fst s, k) = (Inr (job', cursor'), (fst t, j))"
    and fin: "fin = (cu_Status cursor' = CursorComplete)"
    by (rule turn_answer) simp
  let ?n = "length (pg_Items page)" and ?skip = "unat (cu_PageSkip cursor)" and ?c = "unat (cu_PageCount cursor)"
  have items: "pg_Items page = take ?c (drop ?skip xs)" and hasMore: "pg_HasMore page = (?c \<le> ?n \<and> 0 < ?c)"
    using assms(2) page unfolding serves_def by (metis sum.inject(2))+
  then have n: "?n = min ?c (length xs - ?skip)" by simp
  obtain i h m where counts: "counts_up ?n job job'"
    and cur: "cursor' = advanced env (pg_HasMore page) ?n (page_mark i h cursor)"
    and m: "fst t = AdvanceCursor (bf_now env) cursor' (UpdateJob (bf_now env) job' m)"
    using payment_page_tx_Inr [OF tx] by auto
  have "recorded job' cursor' (fst t)" by (simp add: m recorded_page)
  moreover have "turn_ok xs job cursor r"
    using counts n assms(4,5) hasMore
    by (auto simp: turn_ok_def r fin cur intro!: exI [of _ ?n])
  ultimately show ?thesis by (simp add: r)
qed

lemma pages_serve:
  assumes "serves env xs" and "length xs < 2 ^ 63"
  shows "0 < unat (cu_PageCount cursor) \<Longrightarrow> cu_Status cursor \<noteq> CursorComplete \<Longrightarrow>
    unat (cu_PageSkip cursor) \<le> length xs \<Longrightarrow>
    \<exists>out. paginatePayments env tx job cursor s = Some out \<and> pages_ok xs job cursor out"
proof (induction "length xs - unat (cu_PageSkip cursor)" arbitrary: job cursor s rule: less_induct)
  case less
  obtain r t where turn: "payments_turn env tx job cursor s = (r, t)" by (metis surj_pair)
  show ?case
  proof (cases r)
    case (Inl e)
    then show ?thesis using turn less.prems
      by (subst paginatePayments.simps) (auto simp: pages_ok_def intro!: exI [of _ "0 :: nat"])
  next
    case (Inr a)
    obtain fin job1 cursor1 where a: "a = (fin, (job1, cursor1))" by (metis surj_pair)
    have turn1: "payments_turn env tx job cursor s = (Inr (fin, (job1, cursor1)), t)"
      using turn Inr a by simp
    from turn_serves [OF turn1 assms less.prems(1,2)] obtain n where
      up: "counts_up n job job1" and rec: "recorded job1 cursor1 (fst t)"
      and frame: "cu_PageCount cursor1 = cu_PageCount cursor" "key_of_cursor cursor1 = key_of_cursor cursor"
      and move: "if fin then cu_Status cursor1 = CursorComplete \<and> n = length xs - unat (cu_PageSkip cursor)
        else 0 < n \<and> cu_Status cursor1 = cu_Status cursor \<and> unat (cu_PageSkip cursor) + n \<le> length xs
           \<and> cu_PageSkip cursor1 = cu_PageSkip cursor + word_of_nat n"
      by (auto simp: turn_ok_def)
    show ?thesis
    proof (cases fin)
      case True
      then show ?thesis using turn1 up rec frame move
        by (subst paginatePayments.simps) (simp add: pages_ok_def)
    next
      case False
      with move have n: "0 < n" "unat (cu_PageSkip cursor) + n \<le> length xs"
        "cu_Status cursor1 = cu_Status cursor" "cu_PageSkip cursor1 = cu_PageSkip cursor + word_of_nat n"
        by simp_all
      then have skip1: "unat (cu_PageSkip cursor1) = unat (cu_PageSkip cursor) + n"
        using assms(2) by (simp add: unat_skip)
      have shorter: "length xs - unat (cu_PageSkip cursor1) < length xs - unat (cu_PageSkip cursor)"
        using n skip1 by linarith
      have "0 < unat (cu_PageCount cursor1)" "cu_Status cursor1 \<noteq> CursorComplete"
        "unat (cu_PageSkip cursor1) \<le> length xs"
        using less.prems frame n skip1 by simp_all
      from less.hyps [OF shorter this, of job1 t] obtain out where
        "paginatePayments env tx job1 cursor1 t = Some out" and later: "pages_ok xs job1 cursor1 out"
        by blast
      then have "paginatePayments env tx job cursor s = Some out"
        using turn1 False by (subst paginatePayments.simps) simp
      with pages_ok_later [OF up frame(2) n(4) skip1 n(2) later] show ?thesis by blast
    qed
  qed
qed

end

locale atomic_page_runner = page_runner tx + atomic_transaction tx for tx
begin

lemma failed_turn_has_no_effect:
  assumes "payments_turn env tx job cursor s = (Inl e, t)"
  shows "fst t = fst s"
proof (cases "bf_ctx env (snd s) \<noteq> None \<or> is_cancelled (fst (get_job env (jb_ID job) s))")
  case True
  then show ?thesis
    using assms get_job_store [of env "jb_ID job" s]
    by (cases "bf_ctx env (snd s)") (auto simp: payments_turn_def Let_def case_prod_beta)
next
  case False
  let ?u = "snd (get_job env (jb_ID job) s)"
  show ?thesis
  proof (cases "bf_payments env (snd ?u) (jb_WindowFrom job) (jb_WindowTo job) (cu_PageSkip cursor) (cu_PageCount cursor)")
    case (Inl p)
    then have "t = ?u" using assms False by (simp add: payments_turn_def Let_def case_prod_beta)
    then show ?thesis by simp
  next
    case (Inr page)
    obtain r v where tx: "tx (payment_page_tx env job cursor page) ?u = (r, v)" by (metis surj_pair)
    have "(case r of Inl x \<Rightarrow> (Inl (ROther x), v) | Inr progress \<Rightarrow>
        (Inr (cu_Status (snd progress) = CursorComplete, progress), v)) = (Inl e, t)"
      using assms False Inr tx
      by (simp add: payments_turn_def Let_def case_prod_beta split: sum.splits)
    then obtain x where "r = Inl x" "t = v" by (cases r) auto
    with rolls_back [of _ ?u] tx have "fst t = fst ?u" by blast
    then show ?thesis by simp
  qed
qed

lemma turn_recorded:
  "payments_turn env tx job cursor s = (Inr (fin, (job', cursor')), t) \<Longrightarrow> recorded job' cursor' (fst t)"
  by (erule turn_answer) (auto dest!: payment_page_tx_Inr simp: recorded_page)

lemma turn_stores:
  assumes "payments_turn env tx job cursor s = (Inr (fin, (job', cursor')), t)" and "serves env xs"
    and "holds env job xs D (fst s)"
  shows "holds env job' xs (D \<union> set (take (unat (cu_PageCount cursor)) (drop (unat (cu_PageSkip cursor)) xs))) (fst t)"
proof -
  from assms(1) obtain page n k j where
    page: "bf_payments env n (jb_WindowFrom job) (jb_WindowTo job) (cu_PageSkip cursor) (cu_PageCount cursor) = Inr page"
    and run: "payment_page_tx env job cursor page (fst s, k) = (Inr (job', cursor'), (fst t, j))"
    by (rule turn_answer)
  have items: "pg_Items page = take (unat (cu_PageCount cursor)) (drop (unat (cu_PageSkip cursor)) xs)"
    using assms(2) page unfolding serves_def by (metis sum.inject(2))
  then have "set (pg_Items page) \<subseteq> set xs" by (metis set_drop_subset set_take_subset subset_trans)
  from page_holds [OF run _ this, of D] assms(3) have "holds env job xs (D \<union> set (pg_Items page)) (fst t)" by simp
  then have "holds env job' xs (D \<union> set (pg_Items page)) (fst t)"
    using payment_page_tx_Inr [OF run] holds_identity unfolding counts_up_def by blast
  then show ?thesis by (simp only: items)
qed

lemma pages_store:
  assumes "serves env xs" and "length xs < 2 ^ 63"
  shows "paginatePayments env tx job cursor s = Some ((err, (job', cursor')), t) \<Longrightarrow> holds env job xs D (fst s)
    \<Longrightarrow> 0 < unat (cu_PageCount cursor) \<Longrightarrow> cu_Status cursor \<noteq> CursorComplete
    \<Longrightarrow> unat (cu_PageSkip cursor) \<le> length xs \<Longrightarrow>
    holds env job' xs (D \<union> (if err = None then set (drop (unat (cu_PageSkip cursor)) xs)
      else set (take (unat (cu_PageSkip cursor') - unat (cu_PageSkip cursor)) (drop (unat (cu_PageSkip cursor)) xs)))) (fst t)"
proof (induction "length xs - unat (cu_PageSkip cursor)" arbitrary: job cursor s D rule: less_induct)
  case less
  obtain r u where turn: "payments_turn env tx job cursor s = (r, u)" by (metis surj_pair)
  show ?case
  proof (cases r)
    case (Inl e)
    then have "err = Some e" "job' = job" "cursor' = cursor" "t = u"
      using less.prems(1) turn by (subst (asm) paginatePayments.simps; simp)+
    then show ?thesis using failed_turn_has_no_effect turn Inl less.prems(2) by simp
  next
    case (Inr a)
    obtain fin job1 cursor1 where a: "a = (fin, (job1, cursor1))" by (metis surj_pair)
    have turn1: "payments_turn env tx job cursor s = (Inr (fin, (job1, cursor1)), u)"
      using turn Inr a by simp
    let ?skip = "unat (cu_PageSkip cursor)"
    let ?page = "take (unat (cu_PageCount cursor)) (drop ?skip xs)"
    have one: "holds env job1 xs (D \<union> set ?page) (fst u)"
      by (rule turn_stores [OF turn1 assms(1) less.prems(2)])
    from turn_serves [OF turn1 assms less.prems(3,4)] obtain n where
      n: "n = min (unat (cu_PageCount cursor)) (length xs - ?skip)" and up: "counts_up n job job1"
      and frame: "cu_PageCount cursor1 = cu_PageCount cursor"
      and move: "if fin then n = length xs - ?skip
        else 0 < n \<and> cu_Status cursor1 = cu_Status cursor \<and> ?skip + n \<le> length xs
           \<and> cu_PageSkip cursor1 = cu_PageSkip cursor + word_of_nat n"
      by (auto simp: turn_ok_def split: if_splits)
    have same: "job_identity job1 = job_identity job" using up by (simp add: counts_up_def)
    show ?thesis
    proof (cases fin)
      case True
      then have "err = None" "job' = job1" "t = u"
        using less.prems(1) turn1 by (subst (asm) paginatePayments.simps; simp)+
      moreover have "?page = drop ?skip xs" using True move n by simp
      ultimately show ?thesis using one by simp
    next
      case False
      with move have m: "0 < n" "?skip + n \<le> length xs" "cu_Status cursor1 = cu_Status cursor"
        "cu_PageSkip cursor1 = cu_PageSkip cursor + word_of_nat n" by simp_all
      then have skip1: "unat (cu_PageSkip cursor1) = ?skip + n" using assms(2) by (simp add: unat_skip)
      have page: "?page = take n (drop ?skip xs)" using n by (simp add: min_def)
      have rest: "paginatePayments env tx job1 cursor1 u = Some ((err, (job', cursor')), t)"
        using less.prems(1) turn1 False by (subst (asm) paginatePayments.simps) simp
      have shorter: "length xs - unat (cu_PageSkip cursor1) < length xs - ?skip" using m skip1 by linarith
      have ready: "0 < unat (cu_PageCount cursor1)" "cu_Status cursor1 \<noteq> CursorComplete"
        "unat (cu_PageSkip cursor1) \<le> length xs"
        using less.prems(3,4) frame m skip1 by simp_all
      from less.hyps [OF shorter rest one ready] have later: "holds env job' xs (D \<union> set ?page \<union>
          (if err = None then set (drop (?skip + n) xs)
           else set (take (unat (cu_PageSkip cursor') - (?skip + n)) (drop (?skip + n) xs)))) (fst t)"
        by (simp only: skip1)
      show ?thesis
      proof (cases "err = None")
        case True
        have "set (drop ?skip xs) = set ?page \<union> set (drop (?skip + n) xs)"
          by (metis page append_take_drop_id drop_drop add.commute set_append)
        then show ?thesis using later True by (simp add: Un_assoc)
      next
        case err: False
        obtain out where out: "paginatePayments env tx job1 cursor1 u = Some out" "pages_ok xs job1 cursor1 out"
          using pages_serve [OF assms ready] by blast
        then obtain k where k: "unat (cu_PageSkip cursor1) + k \<le> length xs"
          "cu_PageSkip cursor' = cu_PageSkip cursor1 + word_of_nat k"
          using rest err by (auto simp: pages_ok_def)
        then have skip2: "unat (cu_PageSkip cursor') = ?skip + n + k" using assms(2) skip1 by (simp add: unat_skip)
        have "set (take (n + k) (drop ?skip xs)) = set ?page \<union> set (take k (drop (?skip + n) xs))"
          using take_add [of n k "drop ?skip xs"] by (simp add: page add.commute [of n ?skip])
        then show ?thesis using later err skip2 by (auto simp: Un_assoc)
      qed
    qed
  qed
qed

lemma pages_recorded:
  assumes "paginatePayments env tx job cursor s = Some ((err, (job', cursor')), t)"
    and "recorded job cursor (fst s)"
  shows "recorded job' cursor' (fst t)"
proof -
  let ?P = "\<lambda>env' tx' job cursor s r. tx' = tx \<longrightarrow> recorded job cursor (fst s) \<longrightarrow>
     recorded (fst (snd (fst r))) (snd (snd (fst r))) (fst (snd r))"
  have "?P env tx job cursor s ((err, (job', cursor')), t)"
  proof (rule paginatePayments.raw_induct [of ?P, OF _ assms(1)], intro impI)
    fix pp env' tx' job cursor and s :: "MemoryStore \<times> nat" and r
    assume IH: "\<And>env' tx' job cursor s r. pp env' tx' job cursor s = Some r \<Longrightarrow> ?P env' tx' job cursor s r"
      and step: "(case payments_turn env' tx' job cursor s of
          (Inl e, s) \<Rightarrow> Some ((Some e, (job, cursor)), s)
        | (Inr (fin, progress), s) \<Rightarrow>
            if fin then Some ((None, progress), s) else pp env' tx' (fst progress) (snd progress) s) = Some r"
      and tx: "tx' = tx" and rec: "recorded job cursor (fst s)"
    obtain q t where turn: "payments_turn env' tx' job cursor s = (q, t)" by (metis surj_pair)
    show "recorded (fst (snd (fst r))) (snd (snd (fst r))) (fst (snd r))"
    proof (cases q)
      case (Inl e)
      then show ?thesis
        using step turn rec failed_turn_has_no_effect [of env' job cursor s e t] tx by auto
    next
      case (Inr a)
      obtain fin job1 cursor1 where a: "a = (fin, (job1, cursor1))" by (metis surj_pair)
      have rec1: "recorded job1 cursor1 (fst t)"
        using turn_recorded turn Inr a tx by blast
      show ?thesis
      proof (cases fin)
        case True
        then show ?thesis using step turn Inr a rec1 by auto
      next
        case False
        then have "pp env' tx' job1 cursor1 t = Some r" using step turn Inr a by simp
        from IH [OF this] show ?thesis using tx rec1 by blast
      qed
    qed
  qed
  then show ?thesis using assms(2) by simp
qed

end

interpretation memory_pages: page_runner RunInTx_memory
  by unfold_locales (rule memory_tx.commits)

interpretation sql_pages: atomic_page_runner "RunInTx_sql fault" for fault
  by unfold_locales (auto intro: sql_tx.commits sql_tx.rolls_back)

text \<open>
  C14.  A backfill ends, counts every payment once and stores what it counts: against a provider that
  serves a list in pages, whichever store call or commit fails, the page loop returns.  If it returns
  no error the window is complete, and the payments from the cursor on were each fetched once, each
  counted as inserted, updated or duplicate, and each stored; after an error the fetched payments are
  exactly those the cursor has moved past, and these are stored.  The stored job and cursor say the
  same.  (With the truth processor: the log of the store is one it wrote, and the digest has no
  collision among the payments concerned.)
\<close>

theorem backfill_counts_every_payment_once:
  assumes "serves env xs" and "length xs < 2 ^ 63" and "0 < unat (cu_PageCount cursor)"
    and "cu_Status cursor \<noteq> CursorComplete" and "unat (cu_PageSkip cursor) \<le> length xs"
    and "recorded job cursor (fst s)" and "sound_log env job xs (fst s)"
  shows "\<exists>err job' cursor' t. paginatePayments env (RunInTx_sql fault) job cursor s = Some ((err, (job', cursor')), t)
    \<and> recorded job' cursor' (fst t)
    \<and> handled job' - handled job = jb_FetchedCount job' - jb_FetchedCount job
    \<and> (if err = None
       then cu_Status cursor' = CursorComplete
         \<and> jb_FetchedCount job' - jb_FetchedCount job = word_of_nat (length xs - unat (cu_PageSkip cursor))
         \<and> (\<forall>item \<in> set (drop (unat (cu_PageSkip cursor)) xs). stored env job xs item (fst t))
       else jb_FetchedCount job' - jb_FetchedCount job = cu_PageSkip cursor' - cu_PageSkip cursor
         \<and> unat (cu_PageSkip cursor') \<le> length xs
         \<and> (\<forall>item \<in> set (take (unat (cu_PageSkip cursor') - unat (cu_PageSkip cursor))
              (drop (unat (cu_PageSkip cursor)) xs)). stored env job xs item (fst t)))"
proof -
  from sql_pages.pages_serve [OF assms(1-5)] obtain out where
    run: "paginatePayments env (RunInTx_sql fault) job cursor s = Some out" and ok: "pages_ok xs job cursor out"
    by blast
  obtain err job' cursor' t where out: "out = ((err, (job', cursor')), t)" by (metis surj_pair)
  have rec: "recorded job' cursor' (fst t)"
    by (rule sql_pages.pages_recorded [OF run [unfolded out] assms(6)])
  have "unat (cu_PageSkip cursor + word_of_nat n) = unat (cu_PageSkip cursor) + n"
    if "unat (cu_PageSkip cursor) + n \<le> length xs" for n
    using that assms(2) by (simp add: unat_skip)
  note skip = this
  have same: "job_identity job' = job_identity job"
    using ok by (cases err) (auto simp: pages_ok_def out counts_up_def)
  have "holds env job xs {} (fst s)" using assms(7) by (simp add: holds_def)
  from sql_pages.pages_store [OF assms(1,2) run [unfolded out] this assms(3-5)]
  have kept: "\<forall>item \<in> (if err = None then set (drop (unat (cu_PageSkip cursor)) xs)
      else set (take (unat (cu_PageSkip cursor') - unat (cu_PageSkip cursor)) (drop (unat (cu_PageSkip cursor)) xs))).
      stored env job xs item (fst t)"
    unfolding holds_identity [OF same] unfolding holds_def Un_empty_left by (rule conjunct2)
  show ?thesis
  proof (cases err)
    case None
    then show ?thesis using ok rec run kept by (auto simp: pages_ok_def out counts_up_def)
  next
    case (Some e)
    then show ?thesis using ok rec run kept skip by (auto simp: pages_ok_def out counts_up_def)
  qed
qed

text \<open>
  A backfill that failed and is resumed fetches the rest: if one run stops with an error and a
  later run continues from the progress it left and succeeds, the two together counted exactly the
  payments that one run without errors would have.
\<close>

theorem resumed_backfill_is_complete:
  assumes "serves env xs" and "serves env' xs" and "length xs < 2 ^ 63" and "0 < unat (cu_PageCount cursor)"
    and "cu_Status cursor \<noteq> CursorComplete" and "unat (cu_PageSkip cursor) \<le> length xs"
    and "paginatePayments env (RunInTx_sql fault) job cursor s = Some ((Some e, (job1, cursor1)), s1)"
    and "cu_PageCount cursor1 = cu_PageCount cursor" and "cu_Status cursor1 = cu_Status cursor"
    and "paginatePayments env' (RunInTx_sql fault') job1 cursor1 s2 = Some ((None, (job2, cursor2)), t)"
  shows "cu_Status cursor2 = CursorComplete
    \<and> jb_FetchedCount job2 = jb_FetchedCount job + word_of_nat (length xs - unat (cu_PageSkip cursor))
    \<and> handled job2 = handled job + word_of_nat (length xs - unat (cu_PageSkip cursor))"
proof -
  from sql_pages.pages_serve [OF assms(1,3-6), of fault job s] assms(7) obtain n where
    n: "counts_up n job job1" "unat (cu_PageSkip cursor) + n \<le> length xs"
      "cu_PageSkip cursor1 = cu_PageSkip cursor + word_of_nat n" "key_of_cursor cursor1 = key_of_cursor cursor"
    by (auto simp: pages_ok_def)
  have skip1: "unat (cu_PageSkip cursor1) = unat (cu_PageSkip cursor) + n"
    using n assms(3) by (simp add: unat_skip)
  have later: "pages_ok xs job1 cursor1 ((None, (job2, cursor2)), t)"
    using sql_pages.pages_serve [OF assms(2,3), of cursor1 fault' job1 s2] assms(4,5,8-10) skip1 n(2)
    by auto
  from pages_ok_later [OF n(1,4,3) skip1 n(2) later] show ?thesis
    by (simp add: pages_ok_def counts_up_def)
qed

section \<open>Cancellation\<close>

text \<open>
  A cancelled run is not left cancelled: when the job has been cancelled by the time the page
  loop looks, the loop stops, but the verdict of the run then overwrites the cancellation, and the
  job is stored as partial with one more error, so that it can be resumed.
\<close>

theorem cancellation_is_overwritten:
  assumes "\<And>n. tv_fault (bf_base env) n = None" and "bf_ctx env n = None"
    and "GetJob (jb_ID job) m = Some row" and "jb_Status row = JobCancelled"
    and "jb_ResourceType job = ResourcePayments" and "bf_provider env (jb_TenantID job) (jb_ConnectorID job) (jb_ProviderMode job) = None"
  shows "\<exists>sum m' k j. leased_run env tx job cursor (m, n) = Some ((sum, Some (ROther ''job cancelled'')), (m', k))
    \<and> bs_Status sum = JobPartial \<and> GetJob (jb_ID job) m' = Some j \<and> jb_Status j = JobPartial
    \<and> jb_ErrorCount j = jb_ErrorCount job + 1"
proof -
  have get: "get_job env (jb_ID job) (m, n) = (Inr row, (m, Suc n))"
    using assms(1,3) by (simp add: get_job_def bindE_Inr io_Inr)
  have turn: "payments_turn env tx job cursor (m, n) = (Inl (ROther ''job cancelled''), (m, Suc n))"
    using assms(2,4) by (simp add: payments_turn_def get is_cancelled_def)
  have "paginatePayments env tx job cursor (m, n) = Some ((Some (ROther ''job cancelled''), (job, cursor)), (m, Suc n))"
    by (subst paginatePayments.simps) (simp add: turn)
  then have run: "leased_run env tx job cursor (m, n)
      = Some (finish_run env ((Some (ROther ''job cancelled''), (job, cursor)), (m, Suc n)))"
    using assms(5,6) by (simp add: leased_run_def)
  let ?job = "finished_job env (Some (ROther ''job cancelled'')) job cursor"
  have upd: "update_job env ?job (m, Suc n) = (Inr (), (UpdateJob (bf_now env) ?job m, Suc (Suc n)))"
    using assms(1) by (simp add: update_job_def io_Inr)
  show ?thesis
    unfolding run
    by (simp add: finish_run_def upd) (simp add: finished_job_def SummaryFromJob_def UpdateJob_def GetJob_def)
qed

section \<open>Days\<close>

text \<open>
  The days of a settlement backfill cover its window: for a window that validation accepts they
  contain the UTC date of every instant of the window, run in order without a repetition, and are
  at most 32.
\<close>

theorem settlement_days_cover_window:
  assumes "ValidateWindow start stop now = None"
  shows "(\<forall>t. start \<le> t \<and> t < stop \<longrightarrow> utc_date t \<in> set (CivilDays start stop))
    \<and> sorted_wrt (<) (CivilDays start stop) \<and> length (CivilDays start stop) \<le> 32"
proof -
  let ?d0 = "utc_date start" and ?d1 = "utc_date stop"
  let ?e = "if stop > ?d1 * day_ns then ?d1 + 1 else ?d1"
  have less: "start < stop" and len: "stop - start \<le> maxWindow"
    using assms by (auto simp: ValidateWindow_def time_sub_def max_dur_def min_dur_def split: if_splits)
  have d1: "?d1 * day_ns \<le> stop" "stop < (?d1 + 1) * day_ns"
    unfolding utc_date_def using div_mult_mod_eq [of stop day_ns] pos_mod_bound [of day_ns stop]
      pos_mod_sign [of day_ns stop] by (simp_all add: algebra_simps)
  have d0: "?d0 * day_ns \<le> start" "start < (?d0 + 1) * day_ns"
    unfolding utc_date_def using div_mult_mod_eq [of start day_ns] pos_mod_bound [of day_ns start]
      pos_mod_sign [of day_ns start] by (simp_all add: algebra_simps)
  have e: "stop \<le> ?e * day_ns" "(?e - 1) * day_ns < stop" using d1 by auto
  have nonempty: "?d0 < ?e"
    using less d0 e by (smt (verit) mult_right_less_imp_less mult_le_cancel_right)
  then have days: "CivilDays start stop = map (\<lambda>i. ?d0 + int i) [0..<nat (?e - ?d0)]"
    by (simp add: CivilDays_def Let_def)
  have set: "set (CivilDays start stop) = {?d0..<?e}"
  proof -
    have "x \<in> (\<lambda>i. ?d0 + int i) ` {0..<nat (?e - ?d0)}" if "x \<in> {?d0..<?e}" for x
      using that by (intro image_eqI [of _ _ "nat (x - ?d0)"]) auto
    then show ?thesis unfolding days by auto
  qed
  have "utc_date t \<in> {?d0..<?e}" if "start \<le> t" "t < stop" for t
  proof -
    have t: "utc_date t * day_ns \<le> t" "t < (utc_date t + 1) * day_ns"
      unfolding utc_date_def using div_mult_mod_eq [of t day_ns] pos_mod_bound [of day_ns t]
        pos_mod_sign [of day_ns t] by (simp_all add: algebra_simps)
    then have "?d0 * day_ns < (utc_date t + 1) * day_ns" "utc_date t * day_ns < ?e * day_ns"
      using that d0 e by linarith+
    then show ?thesis by (simp add: mult_less_cancel_right)
  qed
  moreover have "sorted_wrt (<) (CivilDays start stop)"
    unfolding days by (simp add: sorted_wrt_map sorted_wrt_upt)
  moreover have "?e - ?d0 \<le> 32"
    using d0 e len by (simp add: algebra_simps)
  ultimately show ?thesis using set days by simp
qed

section \<open>Backfills that succeed\<close>

definition usable_payment :: "BackfillJob \<Rightarrow> NeutralPayment \<Rightarrow> bool" where
  "usable_payment job item \<longleftrightarrow> validateNeutral item = None \<and> TrimSpace (jb_TenantID job) \<noteq> []
     \<and> TrimSpace (jb_ConnectorID job) \<noteq> []"

definition calm :: "backfill_env \<Rightarrow> bool" where
  "calm env \<longleftrightarrow> (\<forall>n. tv_fault (bf_base env) n = None) \<and> (\<forall>n. bf_ctx env n = None)
     \<and> (\<forall>x. \<exists>i. tv_parse (bf_base env) x = Inr i)"

lemma calmD:
  assumes "calm env"
  shows "tv_fault (bf_base env) n = None" "bf_ctx env n = None" "\<exists>i. tv_parse (bf_base env) x = Inr i"
  using assms by (simp_all add: calm_def)

lemma answers_backfill_item:
  assumes "calm env" and "usable_payment job item"
  shows "answers (backfill_item env rid ids job item)"
proof -
  have "answers (ProcessNeutral RunInTx_memory (bf_base env) (jb_TenantID job) (jb_ConnectorID job)
      (jb_Provider job) (jb_ProviderMode job) ''api_backfill'' [] rid item mw)" for mw
  proof -
    let ?map = "MapNeutral (tv_sha (bf_base env)) (tv_now (bf_base env)) (jb_TenantID job) (jb_ConnectorID job)
      (jb_Provider job) (jb_ProviderMode job) ''api_backfill'' [] rid item mw (tv_now (bf_base env))"
    obtain ob where ob: "?map = Inr ob" using assms(2) by (simp add: usable_payment_def MapNeutral_def)
    then have "validateObservation ob = None" by (blast intro: valid_obs_accepted MapNeutral_valid)
    moreover have "answers (process_body (bf_base env) (prepared (tv_sha (bf_base env)) ob))"
      by (intro answers_process_body calmD [OF assms(1)])
    ultimately show ?thesis by (simp add: ProcessNeutral_def ob Process_def RunInTx_memory_def)
  qed
  moreover have "answers (upsert_item env rid mw job' item)" for mw job'
  proof -
    have "answers (PaymentOutboxRow (bf_base env) t c src item)" for t c src
      unfolding PaymentOutboxRow_def by (intro answers_intros calmD [OF assms(1)])
    then have "answers (case res of
        UpsertDuplicate \<Rightarrow> returnE (count_kind mw KindDuplicate job')
      | _ \<Rightarrow>
        bindE (PaymentOutboxRow (bf_base env) (jb_TenantID job') (jb_ConnectorID job') ''api_backfill'' item) (\<lambda>row.
        bindE (store_write (bf_base env) (InsertOutbox row)) (\<lambda>_.
        returnE (count_kind mw (if res = UpsertInserted then KindInserted else KindUpdated) job'))))" for res
      by (cases res) (simp_all add: answers_intros calmD [OF assms(1)])
    then show ?thesis
      unfolding upsert_item_def by (intro answers_bindE answers_store calmD [OF assms(1)])
  qed
  ultimately show ?thesis
    by (simp add: backfill_item_def Let_def answers_intros)
qed

lemma usable_identity: "job_identity job' = job_identity job \<Longrightarrow> usable_payment job' item = usable_payment job item"
  by (simp add: usable_payment_def job_identity_def)

lemma answers_items:
  assumes "calm env" and "\<forall>item \<in> set items. usable_payment job item"
  shows "answers (foldE (backfill_item env rid ids) job items)"
  using assms(2)
proof (induction items arbitrary: job)
  case (Cons item items)
  show ?case
    unfolding answers_def
  proof
    fix s
    obtain job1 u where item: "backfill_item env rid ids job item s = (Inr job1, u)"
      using answers_backfill_item [OF assms(1)] Cons.prems unfolding answers_def by (metis list.set_intros(1))
    then have "job_identity job1 = job_identity job" by (auto dest: backfill_item_Inr simp: counts_up_def)
    then have "usable_payment job1 i = usable_payment job i" for i by (rule usable_identity)
    then have "\<forall>i \<in> set items. usable_payment job1 i" using Cons.prems by simp
    from Cons.IH [OF this] obtain b t where "foldE (backfill_item env rid ids) job1 items u = (Inr b, t)"
      unfolding answers_def by blast
    with item show "\<exists>x t. foldE (backfill_item env rid ids) job (item # items) s = (Inr x, t)"
      by (auto simp: bindE_Inr)
  qed
qed (simp add: answers_returnE)

lemma answers_payment_page:
  assumes "calm env" and "\<forall>item \<in> set (pg_Items page). usable_payment job item"
  shows "answers (payment_page_tx env job cursor page)"
proof -
  have "answers (persistPaymentPage env job cursor page)"
    unfolding persistPaymentPage_def store_receipt_def update_job_def Let_def
    by (intro answers_intros answers_items assms calmD [OF assms(1)]) (simp add: answers_def webhook_ids_def)
  then show ?thesis
    unfolding payment_page_tx_def Let_def case_prod_beta
    by (intro answers_bindE answers_store answers_returnE calmD [OF assms(1)])
qed

definition not_cancelled :: "BackfillJob \<Rightarrow> MemoryStore \<Rightarrow> bool" where
  "not_cancelled job m \<longleftrightarrow> jb_Status job \<noteq> JobCancelled
     \<and> (\<forall>row. GetJob (jb_ID job) m = Some row \<longrightarrow> jb_Status row \<noteq> JobCancelled)"

lemma calm_turn:
  assumes "calm env" and "serves env xs" and "\<forall>item \<in> set xs. usable_payment job item"
    and "not_cancelled job (fst s)" and "\<And>n. fault n = None"
  obtains fin job1 cursor1 t where
    "payments_turn env (RunInTx_sql fault) job cursor s = (Inr (fin, (job1, cursor1)), t)"
    "job_identity job1 = job_identity job" "not_cancelled job1 (fst t)"
proof -
  obtain m n where s: "s = (m, n)" by (cases s)
  have look: "\<not> is_cancelled (fst (get_job env (jb_ID job) s))"
    using assms(4) calmD(1) [OF assms(1)]
    by (auto simp: s get_job_def bindE_def store_read_def store_call_def attempt_def is_cancelled_def
        not_cancelled_def failE_def returnE_def split: option.splits sum.splits)
  let ?u = "snd (get_job env (jb_ID job) s)"
  obtain page where page: "bf_payments env (snd ?u) (jb_WindowFrom job) (jb_WindowTo job)
      (cu_PageSkip cursor) (cu_PageCount cursor) = Inr page"
    and items: "set (pg_Items page) \<subseteq> set xs"
    using assms(2) unfolding serves_def by (metis set_drop_subset set_take_subset subset_trans)
  have "\<forall>item \<in> set (pg_Items page). usable_payment job item" using assms(3) items by blast
  then have "answers (RunInTx_sql fault (payment_page_tx env job cursor page))"
    by (intro answers_RunInTx_sql assms(5) answers_payment_page assms(1))
  then obtain job1 cursor1 t where tx: "RunInTx_sql fault (payment_page_tx env job cursor page) ?u = (Inr (job1, cursor1), t)"
    unfolding answers_def by (metis surj_pair)
  have turn: "payments_turn env (RunInTx_sql fault) job cursor s = (Inr (cu_Status cursor1 = CursorComplete, (job1, cursor1)), t)"
    using look page tx calmD(2) [OF assms(1)] by (simp add: payments_turn_def Let_def case_prod_beta)
  from sql_tx.commits [OF tx] obtain k j where
    "payment_page_tx env job cursor page (fst ?u, k) = (Inr (job1, cursor1), (fst t, j))" by blast
  from payment_page_tx_Inr [OF this] obtain m' where up: "job_identity job1 = job_identity job"
    and t: "fst t = AdvanceCursor (bf_now env) cursor1 (UpdateJob (bf_now env) job1 m')"
    by (auto simp: counts_up_def)
  have "jb_Status job1 = jb_Status job" using up by (simp add: job_identity_def)
  then have "not_cancelled job1 (fst t)"
    using assms(4) by (simp add: not_cancelled_def t AdvanceCursor_def UpdateJob_def GetJob_def)
  with that turn up show thesis by blast
qed

lemma calm_pages:
  assumes "calm env" and "serves env xs" and "\<And>n. fault n = None"
    and "paginatePayments env (RunInTx_sql fault) job cursor s = Some ((err, (job', cursor')), t)"
    and "\<forall>item \<in> set xs. usable_payment job item" and "not_cancelled job (fst s)"
  shows "err = None"
proof -
  let ?P = "\<lambda>env' (tx' :: page_tx) job cursor (s :: MemoryStore \<times> nat) r. env' = env \<longrightarrow> tx' = RunInTx_sql fault \<longrightarrow>
     (\<forall>item \<in> set xs. usable_payment job item) \<longrightarrow> not_cancelled job (fst s) \<longrightarrow> fst (fst (r :: outcome)) = None"
  have "?P env (RunInTx_sql fault) job cursor s ((err, (job', cursor')), t)"
  proof (rule paginatePayments.raw_induct [of ?P, OF _ assms(4)], intro impI)
    fix pp env' tx' job cursor and s :: "MemoryStore \<times> nat" and r
    assume IH: "\<And>env' tx' job cursor s r. pp env' tx' job cursor s = Some r \<Longrightarrow> ?P env' tx' job cursor s r"
      and step: "(case payments_turn env' tx' job cursor s of
          (Inl e, s) \<Rightarrow> Some ((Some e, (job, cursor)), s)
        | (Inr (fin, progress), s) \<Rightarrow>
            if fin then Some ((None, progress), s) else pp env' tx' (fst progress) (snd progress) s) = Some r"
      and env: "env' = env" "tx' = RunInTx_sql fault"
      and use: "\<forall>item \<in> set xs. usable_payment job item" and nc: "not_cancelled job (fst s)"
    obtain fin job1 cursor1 t where turn: "payments_turn env (RunInTx_sql fault) job cursor s = (Inr (fin, (job1, cursor1)), t)"
      and same: "job_identity job1 = job_identity job" "not_cancelled job1 (fst t)"
      by (rule calm_turn [OF assms(1,2) use nc assms(3)])
    show "fst (fst r) = None"
    proof (cases fin)
      case True
      then show ?thesis using step turn env by auto
    next
      case False
      then have "pp env' tx' job1 cursor1 t = Some r" using step turn env by simp
      moreover have "\<forall>item \<in> set xs. usable_payment job1 item"
        using use usable_identity [OF same(1)] by blast
      ultimately show ?thesis using IH env same(2) by blast
    qed
  qed
  then show ?thesis using assms(5,6) by simp
qed

text \<open>
  C15.  Without faults a backfill completes: if no store call, commit or provider call fails, nobody
  cancels the job, and every payment served is one that validation accepts, the loop returns without
  an error, the window is complete, and all payments of the list were fetched and are stored.
  (With the truth processor: the log of the store is one it wrote, and the digest has no collision
  among the payments concerned.)
\<close>

theorem backfill_without_faults_completes:
  assumes "calm env" and "serves env xs" and "length xs < 2 ^ 63" and "\<And>n. fault n = None"
    and "0 < unat (cu_PageCount cursor)" and "cu_Status cursor \<noteq> CursorComplete" and "cu_PageSkip cursor = 0"
    and "\<forall>item \<in> set xs. usable_payment job item" and "not_cancelled job (fst s)"
    and "sound_log env job xs (fst s)"
  shows "\<exists>job' cursor' t. paginatePayments env (RunInTx_sql fault) job cursor s = Some ((None, (job', cursor')), t)
    \<and> cu_Status cursor' = CursorComplete
    \<and> jb_FetchedCount job' = jb_FetchedCount job + word_of_nat (length xs)
    \<and> handled job' = handled job + word_of_nat (length xs)
    \<and> (\<forall>item \<in> set xs. stored env job xs item (fst t))"
proof -
  from sql_pages.pages_serve [OF assms(2,3,5,6), of fault job s] assms(7) obtain err job' cursor' t where
    run: "paginatePayments env (RunInTx_sql fault) job cursor s = Some ((err, (job', cursor')), t)"
    and ok: "pages_ok xs job cursor ((err, (job', cursor')), t)"
    by auto
  have err: "err = None" by (rule calm_pages [OF assms(1,2,4) run assms(8,9)])
  then have same: "job_identity job' = job_identity job" using ok by (simp add: pages_ok_def counts_up_def)
  have "holds env job xs {} (fst s)" using assms(10) by (simp add: holds_def)
  from sql_pages.pages_store [OF assms(2,3) run this assms(5,6)] assms(7) err
  have "\<forall>item \<in> set xs. stored env job xs item (fst t)"
    by (simp add: holds_identity [OF same]) (simp add: holds_def)
  with run ok err assms(7) show ?thesis by (auto simp: pages_ok_def counts_up_def)
qed

subsection \<open>Witnesses\<close>

definition list_page :: "NeutralPayment list \<Rightarrow> int64 \<Rightarrow> int64 \<Rightarrow> NeutralPayment NeutralPage" where
  "list_page xs skip pageSize = \<lparr>pg_Items = take (unat pageSize) (drop (unat skip) xs),
     pg_HasMore = (unat pageSize \<le> length (take (unat pageSize) (drop (unat skip) xs)) \<and> 0 < unat pageSize),
     pg_Path = ''/payments'', pg_QueryHash = ''q'', pg_Status = 200, pg_Hash = ''h''\<rparr>"

definition list_env :: "NeutralPayment list \<Rightarrow> (nat \<Rightarrow> string option) \<Rightarrow> backfill_env" where
  "list_env xs ctx = \<lparr>bf_base = calm_env, bf_owner = ''worker'', bf_truth = True, bf_ctx = ctx,
     bf_provider = (\<lambda>_ _ _. None), bf_payments = (\<lambda>_ _ _ skip pageSize. Inr (list_page xs skip pageSize)),
     bf_settlements = (\<lambda>_ _ _ _. Inl (ROther ''none'')), bf_index = (\<lambda>_ _ _ _ _. None),
     bf_secret = ''s'', bf_keyid = ''k'', bf_ord = (\<lambda>ks. ks)\<rparr>"

lemma list_env_serves: "serves (list_env xs ctx) xs"
  by (simp add: serves_def list_env_def list_page_def)

lemma list_env_calm: "calm (list_env xs (\<lambda>_. None))"
  by (simp add: calm_def list_env_def)

definition sample_job :: BackfillJob where
  "sample_job = zero_BackfillJob\<lparr>jb_ID := ''job'', jb_TenantID := ''t'', jb_ConnectorID := ''c'',
     jb_ResourceType := ResourcePayments, jb_Status := JobRunning\<rparr>"

definition sample_cursor :: BackfillCursor where
  "sample_cursor = zero_BackfillCursor\<lparr>cu_PageCount := 1, cu_Status := CursorActive\<rparr>"

definition sample_store :: MemoryStore where
  "sample_store = AdvanceCursor 0 sample_cursor (UpdateJob 0 sample_job NewMemoryStore)"

lemma sample_backfill [simp]:
  "unat (cu_PageCount sample_cursor) = 1" "cu_Status sample_cursor = CursorActive"
  "cu_PageSkip sample_cursor = 0" "jb_FetchedCount sample_job = 0" "handled sample_job = 0"
  by (simp_all add: sample_cursor_def sample_job_def zero_BackfillCursor_def zero_BackfillJob_def handled_def)

lemma sample_recorded: "recorded sample_job sample_cursor sample_store"
  unfolding sample_store_def by (rule recorded_page)

lemma sample_not_cancelled: "not_cancelled sample_job sample_store"
  by (simp add: not_cancelled_def sample_store_def sample_job_def AdvanceCursor_def UpdateJob_def
      GetJob_def NewMemoryStore_def)

lemma sample_usable: "usable_payment sample_job (sample_item status)"
  by (simp add: usable_payment_def sample_item_valid sample_job_def str_eval)

text \<open>The digest of the sample environment is injective, so nothing collides in the empty store.\<close>

lemma sample_sound:
  assumes "\<forall>x \<in> set xs. \<forall>y \<in> set xs. np_PaymentID x = np_PaymentID y"
  shows "sound_log (list_env xs ctx) sample_job xs sample_store"
proof -
  have part: "truth_part sample_store = truth_part NewMemoryStore"
    by (simp add: sample_store_def AdvanceCursor_def UpdateJob_def truth_part_def)
  have "truth_inv sample_store"
    using truth_inv_new unfolding truth_inv_def truth_part_fieldsD [OF part] .
  moreover have "pm_Events sample_store = []"
    by (simp add: truth_part_fieldsD [OF part]) (simp add: NewMemoryStore_def)
  moreover have "bf_base (list_env xs ctx) = calm_env" by (simp add: list_env_def)
  moreover have "payment_key (list_env xs ctx) sample_job x = payment_key (list_env xs ctx) sample_job y"
    if "x \<in> set xs" "y \<in> set xs" for x y
  proof -
    have "np_PaymentID x = np_PaymentID y" using assms that by blast
    then show ?thesis by (simp only: payment_key_def)
  qed
  then have "no_collision (list_env xs ctx) sample_job xs sample_store"
    unfolding no_collision_def calculation(2) list.set by blast
  ultimately show ?thesis unfolding sound_log_def by simp
qed

lemma sample_item_id: "np_PaymentID (sample_item status) = ''pay_1''" by (simp add: sample_item_def)

lemma backfill_without_faults_completes_witness:
  "\<exists>job' cursor' t p. paginatePayments (list_env [sample_item ''captured'', sample_item ''failed''] (\<lambda>_. None))
       (RunInTx_sql (\<lambda>_. None)) sample_job sample_cursor (sample_store, 0) = Some ((None, (job', cursor')), t)
     \<and> jb_FetchedCount job' = 2 \<and> pm_Canonicals (fst t) (canonicalKey ''t'' ''c'' ''pay_1'') = Some p"
proof -
  let ?xs = "[sample_item ''captured'', sample_item ''failed'']"
  have "sound_log (list_env ?xs (\<lambda>_. None)) sample_job ?xs (fst (sample_store, 0 :: nat))"
    using sample_sound [of ?xs "\<lambda>_. None"] by (simp add: sample_item_id)
  moreover have "payment_key (list_env ?xs (\<lambda>_. None)) sample_job (sample_item ''captured'') = canonicalKey ''t'' ''c'' ''pay_1''"
    by (simp add: payment_key_def list_env_def sample_job_def sample_item_id str_eval)
  ultimately show ?thesis
    using backfill_without_faults_completes [OF list_env_calm list_env_serves, where
        xs = ?xs and fault = "\<lambda>_. None" and cursor = sample_cursor and job = sample_job and s = "(sample_store, 0)"]
    by (auto simp: sample_usable sample_not_cancelled stored_def list_env_def)
qed

lemma backfill_counts_every_payment_once_witness:
  "\<exists>err job' cursor' t. paginatePayments (list_env [sample_item ''captured''] (\<lambda>_. None))
       (RunInTx_sql (\<lambda>n. if n = 3 then Some ''commit failed'' else None)) sample_job sample_cursor (sample_store, 0)
     = Some ((err, (job', cursor')), t) \<and> recorded job' cursor' (fst t)
     \<and> (err = None \<longrightarrow> stored (list_env [sample_item ''captured''] (\<lambda>_. None)) sample_job [sample_item ''captured'']
          (sample_item ''captured'') (fst t))"
proof -
  let ?xs = "[sample_item ''captured'']"
  have "sound_log (list_env ?xs (\<lambda>_. None)) sample_job ?xs (fst (sample_store, 0 :: nat))"
    using sample_sound [of ?xs "\<lambda>_. None"] by simp
  from backfill_counts_every_payment_once [OF list_env_serves _ _ _ _ _ this, of sample_cursor
      "\<lambda>n. if n = 3 then Some ''commit failed'' else None"] sample_recorded
  obtain err job' cursor' t where "paginatePayments (list_env ?xs (\<lambda>_. None))
       (RunInTx_sql (\<lambda>n. if n = 3 then Some ''commit failed'' else None)) sample_job sample_cursor (sample_store, 0)
     = Some ((err, (job', cursor')), t)" "recorded job' cursor' (fst t)"
     "err = None \<Longrightarrow> stored (list_env ?xs (\<lambda>_. None)) sample_job ?xs (sample_item ''captured'') (fst t)"
    by (auto split: if_splits)
  then show ?thesis by blast
qed

lemma failing_first_run:
  "paginatePayments (list_env xs (\<lambda>_. Some ''deadline'')) tx sample_job sample_cursor s
     = Some ((Some (ROther ''deadline''), (sample_job, sample_cursor)), s)"
  by (subst paginatePayments.simps) (simp add: payments_turn_def list_env_def)

lemma resumed_backfill_is_complete_witness:
  "\<exists>job2 cursor2 t. paginatePayments (list_env [sample_item ''captured''] (\<lambda>_. None))
       (RunInTx_sql (\<lambda>_. None)) sample_job sample_cursor (sample_store, 0) = Some ((None, (job2, cursor2)), t)
     \<and> jb_FetchedCount job2 = 1"
proof -
  let ?xs = "[sample_item ''captured'']"
  obtain err job2 cursor2 t where run: "paginatePayments (list_env ?xs (\<lambda>_. None)) (RunInTx_sql (\<lambda>_. None)) sample_job sample_cursor (sample_store, 0)
      = Some ((err, (job2, cursor2)), t)"
    using sql_pages.pages_serve [OF list_env_serves, where xs = ?xs and cursor = sample_cursor and
        fault = "\<lambda>_. None" and job = sample_job and s = "(sample_store, 0)"]
    by simp (metis surj_pair)
  moreover have "err = None"
    by (rule calm_pages [OF list_env_calm list_env_serves refl run])
       (simp_all add: sample_usable sample_not_cancelled)
  ultimately have run: "paginatePayments (list_env ?xs (\<lambda>_. None)) (RunInTx_sql (\<lambda>_. None)) sample_job sample_cursor (sample_store, 0)
      = Some ((None, (job2, cursor2)), t)" by simp
  have "jb_FetchedCount job2 = 1"
    using resumed_backfill_is_complete [OF list_env_serves list_env_serves _ _ _ _ failing_first_run _ _ run] by simp
  with run show ?thesis by blast
qed

lemma cancellation_is_overwritten_witness:
  "\<exists>sum m' k j. leased_run (list_env [] (\<lambda>_. None)) (RunInTx_sql (\<lambda>_. None)) sample_job sample_cursor
       (UpdateJob 0 (sample_job\<lparr>jb_Status := JobCancelled\<rparr>) NewMemoryStore, 0)
     = Some ((sum, Some (ROther ''job cancelled'')), (m', k))
     \<and> GetJob ''job'' m' = Some j \<and> jb_Status j = JobPartial"
proof -
  let ?m = "UpdateJob 0 (sample_job\<lparr>jb_Status := JobCancelled\<rparr>) NewMemoryStore"
  have "GetJob (jb_ID sample_job) ?m = Some (sample_job\<lparr>jb_Status := JobCancelled, jb_UpdatedAt := 0\<rparr>)"
    by (simp add: UpdateJob_def GetJob_def NewMemoryStore_def)
  moreover have "jb_ID sample_job = ''job''" "jb_ResourceType sample_job = ResourcePayments"
    by (simp_all add: sample_job_def)
  ultimately show ?thesis
    using cancellation_is_overwritten [of "list_env [] (\<lambda>_. None)" 0 sample_job ?m
        "sample_job\<lparr>jb_Status := JobCancelled, jb_UpdatedAt := 0\<rparr>" "RunInTx_sql (\<lambda>_. None)" sample_cursor]
    by (auto simp: list_env_def)
qed

lemma settlement_days_cover_window_witness:
  "utc_date (3 * day_ns + 5) \<in> set (CivilDays (2 * day_ns + 7) (4 * day_ns))"
  using settlement_days_cover_window [of "2 * day_ns + 7" "4 * day_ns" "9 * day_ns"]
  by (simp add: ValidateWindow_def IsZero_def time_sub_def max_dur_def min_dur_def)

text \<open>
  With the secret unset the redaction inserts its marker before every character of the message: an
  empty pattern matches everywhere.
\<close>

lemma unset_secret_garbles_message:
  "redactError [] ''k1'' ''EOF'' = ''[redacted]E[redacted]O[redacted]F[redacted]''"
  by (simp add: redactError_def replace_all.simps Let_def str_eval)

end
