(* ===== verification/Matcher.thy ===== *)
theory Matcher
  imports RunEngine
begin

text \<open>
  \<^verbatim>\<open>recon/matcher.go\<close> and \<open>PaymentStateOf\<close> of \<^verbatim>\<open>net.go\<close>: the proof of one payment from the
  settlement lines and the bank statement, and the bank rows left over.

  A match identifier is the next identifier the counter \<open>n\<close> names; \<open>uuid\<close> is the generator.
  The parameter \<open>matchType\<close> of \<open>bankProven\<close> is overwritten on both of its paths and is left out.
\<close>

section \<open>Vocabulary\<close>

abbreviation (input) RuleVersion :: string where "RuleVersion \<equiv> ''recon_rules_v1''"

abbreviation (input) SettlementNotObserved :: string where "SettlementNotObserved \<equiv> ''not_observed''"
abbreviation (input) SettlementIncludedInRecon :: string where "SettlementIncludedInRecon \<equiv> ''included_in_recon''"
abbreviation (input) SettlementSettled :: string where "SettlementSettled \<equiv> ''settled''"

abbreviation (input) BankNotExpected :: string where "BankNotExpected \<equiv> ''not_expected''"
abbreviation (input) BankAwaiting :: string where "BankAwaiting \<equiv> ''awaiting''"
abbreviation (input) BankMatched :: string where "BankMatched \<equiv> ''matched''"
abbreviation (input) BankAmountMismatch :: string where "BankAmountMismatch \<equiv> ''amount_mismatch''"
abbreviation (input) BankNotFound :: string where "BankNotFound \<equiv> ''not_found''"
abbreviation (input) BankAmbiguous :: string where "BankAmbiguous \<equiv> ''ambiguous''"

abbreviation (input) ReconFullyReconciled :: string where "ReconFullyReconciled \<equiv> ''fully_reconciled''"
abbreviation (input) ReconPaymentConfirmedSettlementPending :: string where
  "ReconPaymentConfirmedSettlementPending \<equiv> ''payment_confirmed_settlement_pending''"
abbreviation (input) ReconSettlementConfirmedBankPending :: string where
  "ReconSettlementConfirmedBankPending \<equiv> ''settlement_confirmed_bank_pending''"
abbreviation (input) ReconBankCreditConfirmedProviderPending :: string where
  "ReconBankCreditConfirmedProviderPending \<equiv> ''bank_credit_confirmed_provider_pending''"
abbreviation (input) ReconAmountMismatch :: string where "ReconAmountMismatch \<equiv> ''amount_mismatch''"
abbreviation (input) ReconMissingWebhookRepairedByAPI :: string where
  "ReconMissingWebhookRepairedByAPI \<equiv> ''missing_webhook_repaired_by_api''"
abbreviation (input) ReconAmbiguousMatch :: string where "ReconAmbiguousMatch \<equiv> ''ambiguous_match''"
abbreviation (input) ReconUnresolved :: string where "ReconUnresolved \<equiv> ''unresolved''"

abbreviation (input) ProofUnproven :: string where "ProofUnproven \<equiv> ''unproven''"
abbreviation (input) ProofVerified :: string where "ProofVerified \<equiv> ''verified''"
abbreviation (input) ProofProviderSettlementProvenBankUnproven :: string where
  "ProofProviderSettlementProvenBankUnproven \<equiv> ''provider_settlement_proven_bank_credit_unproven''"
abbreviation (input) ProofCaptureProvenSettlementUnproven :: string where
  "ProofCaptureProvenSettlementUnproven \<equiv> ''capture_proven_settlement_unproven''"
abbreviation (input) ProofProbable :: string where "ProofProbable \<equiv> ''probable''"

abbreviation (input) MatchExactPaymentID :: string where "MatchExactPaymentID \<equiv> ''exact_payment_id''"
abbreviation (input) MatchExactEntityID :: string where "MatchExactEntityID \<equiv> ''exact_entity_id''"
abbreviation (input) MatchOrderRelationship :: string where "MatchOrderRelationship \<equiv> ''order_relationship''"
abbreviation (input) MatchCompositeFallback :: string where "MatchCompositeFallback \<equiv> ''composite_fallback''"

record PaymentObs =
  pp_PaymentID :: string
  pp_OrderID :: string
  pp_Status :: string
  pp_AmountMinor :: int64
  pp_Currency :: string
  pp_Captured :: bool
  pp_Source :: string
  pp_PayloadHash :: string
  pp_HasWebhook :: bool
  pp_FeeMinor :: int64
  pp_TaxMinor :: int64

record IntentRef =
  ir_IntentID :: string
  ir_ProviderOrderID :: string
  ir_ExpectedAmountMinor :: int64
  ir_Currency :: string

record MatchDecision =
  md_MatchID :: string
  md_SourceAID :: string
  md_SourceBID :: string
  md_LeftSource :: string
  md_RightSource :: string
  md_MatchType :: string
  md_Confidence :: rat
  md_ScoreBreakdown :: "(string \<times> rat) list"
  md_Ambiguous :: bool
  md_DecisionReason :: string
  md_RuleVersion :: string

record ProofSubject =
  ps_TenantID :: string
  ps_ConnectorID :: string
  ps_PaymentID :: string
  ps_OrderID :: string
  ps_PaymentState :: string
  ps_ProviderSettlementState :: string
  ps_BankCreditState :: string
  ps_ReconciliationState :: string
  ps_ProofState :: string
  ps_SettlementID :: string
  ps_BankObservationID :: string
  ps_ExpectedNetMinor :: int64
  ps_BankCreditMinor :: int64
  ps_DifferenceMinor :: int64
  ps_Currency :: string
  ps_MissingWebhook :: bool
  ps_Message :: string
  ps_MatchPairs :: "MatchDecision list"

record Snapshot =
  sn_TenantID :: string
  sn_ConnectorID :: string
  sn_AccountID :: string
  sn_Payments :: "PaymentObs list"
  sn_Lines :: "SettlementLine list"
  sn_Banks :: "BankTxn list"
  sn_Intents :: "IntentRef list"

definition zero_ProofSubject :: ProofSubject where
  "zero_ProofSubject = \<lparr>ps_TenantID = [], ps_ConnectorID = [], ps_PaymentID = [], ps_OrderID = [],
     ps_PaymentState = [], ps_ProviderSettlementState = [], ps_BankCreditState = [],
     ps_ReconciliationState = [], ps_ProofState = [], ps_SettlementID = [], ps_BankObservationID = [],
     ps_ExpectedNetMinor = 0, ps_BankCreditMinor = 0, ps_DifferenceMinor = 0, ps_Currency = [],
     ps_MissingWebhook = False, ps_Message = [], ps_MatchPairs = []\<rparr>"

section \<open>Indexes\<close>

definition PaymentStateOf :: "PaymentObs \<Rightarrow> string" where
  "PaymentStateOf p =
     (if pp_Status p \<in> {PaymentCaptured, PaymentAuthorized, PaymentFailed, PaymentRefunded,
                         PaymentPartiallyRefunded, PaymentCreated} then pp_Status p
      else if pp_Captured p then PaymentCaptured
      else if pp_Status p = [] then PaymentUnknown
      else pp_Status p)"

definition indexBankByUTR :: "BankTxn list \<Rightarrow> string \<Rightarrow> BankTxn list" where
  "indexBankByUTR banks =
     foldl (\<lambda>m b. if bt_UTR b = [] then m else m(bt_UTR b := m (bt_UTR b) @ [b])) (\<lambda>_. []) banks"

definition intentByOrder :: "IntentRef list \<Rightarrow> string \<rightharpoonup> IntentRef" where
  "intentByOrder intents =
     foldl (\<lambda>m i. if ir_ProviderOrderID i \<noteq> [] then m(ir_ProviderOrderID i \<mapsto> i) else m) Map.empty intents"

definition settlementForBank :: "SettlementLine list \<Rightarrow> BankTxn \<Rightarrow> SettlementLine" where
  "settlementForBank lines b =
     (if bt_UTR b = [] then zero_SettlementLine
      else case List.find (\<lambda>l. sl_UTR l = bt_UTR b) lines of None \<Rightarrow> zero_SettlementLine | Some l \<Rightarrow> l)"

definition paymentIDOf :: "SettlementLine \<Rightarrow> string" where
  "paymentIDOf l = (if sl_PaymentID l \<noteq> [] then sl_PaymentID l else sl_EntityID l)"

definition pickLine :: "SettlementLine list \<Rightarrow> SettlementLine" where
  "pickLine rows = (case List.find (\<lambda>r. sl_LineType r = ''payment'' \<or> sl_LineType r = []) rows of
     Some r \<Rightarrow> r | None \<Rightarrow> rows ! 0)"

definition findSettlement :: "PaymentObs \<Rightarrow> (string \<Rightarrow> SettlementLine list) \<Rightarrow> (SettlementLine \<times> string) option" where
  "findSettlement p linesByPay =
     (let rows = linesByPay (pp_PaymentID p)
      in if rows = [] then None
         else let line = pickLine rows
              in Some (line, if sl_PaymentID line = pp_PaymentID p then MatchExactPaymentID else MatchExactEntityID))"

section \<open>Messages\<close>

definition bankPendingMessage :: "SettlementLine \<Rightarrow> string \<Rightarrow> string" where
  "bankPendingMessage line kind =
     (let utr = (if sl_UTR line = [] then ''(none)'' else sl_UTR line);
          base = ''Razorpay reports this payment as included in settlement under UTR '' @ utr @
            '', but no matching bank credit has been found in the imported statement as of the latest bank data timestamp.''
      in if kind = ''ambiguous'' then base @ '' More than one bank row could match.''
         else if kind = ''probable'' then
           base @ '' A weak description match exists and is probable only, not proven.''
         else ''Payment captured: yes. Razorpay settlement: proven. UTR: available. Bank credit: not found in current statement. Proof: provider settlement proven; bank credit unresolved. '' @ base)"

definition amountMismatchMessage :: "int64 \<Rightarrow> int64 \<Rightarrow> string \<Rightarrow> string" where
  "amountMismatchMessage expected got currency =
     ''Expected net and observed bank credit differ. Reason: fee/tax or adjustment requires review.''"

section \<open>Attaching the bank row\<close>

definition bank_pair :: "string \<Rightarrow> SettlementLine \<Rightarrow> BankTxn \<Rightarrow> string \<Rightarrow> rat \<Rightarrow> (string \<times> rat) list \<Rightarrow> string
    \<Rightarrow> MatchDecision" where
  "bank_pair i line b matchType conf breakdown reason = \<lparr>md_MatchID = i, md_SourceAID = sl_SettlementID line,
     md_SourceBID = bt_ID b, md_LeftSource = ''razorpay_settlement_recon'',
     md_RightSource = ''bank_statement'', md_MatchType = matchType, md_Confidence = conf,
     md_ScoreBreakdown = breakdown, md_Ambiguous = False, md_DecisionReason = reason,
     md_RuleVersion = RuleVersion\<rparr>"

definition bankProven :: "(nat \<Rightarrow> string) \<Rightarrow> nat \<Rightarrow> ProofSubject \<Rightarrow> SettlementLine \<Rightarrow> BankTxn \<Rightarrow> bool
    \<Rightarrow> ProofSubject \<times> nat" where
  "bankProven uuid n sub line b l5 =
     (let net = ps_ExpectedNetMinor sub;
          sub = sub\<lparr>ps_BankObservationID := bt_ID b, ps_BankCreditMinor := bt_CreditMinor b,
                    ps_DifferenceMinor := net - bt_CreditMinor b\<rparr>;
          (conf, breakdown) = ScoreUTRAndAmount (bt_UTR b \<noteq> [] \<and> bt_UTR b = sl_UTR line)
            (bt_CreditMinor b = net) (bt_Currency b = sl_Currency line \<or> sl_Currency line = []) True
      in if bt_CreditMinor b \<noteq> net then
           (sub\<lparr>ps_BankCreditState := BankAmountMismatch, ps_ReconciliationState := ReconAmountMismatch,
                ps_ProofState := ProofProviderSettlementProvenBankUnproven,
                ps_Message := amountMismatchMessage net (bt_CreditMinor b) (sl_Currency line)\<rparr>, n)
         else
           (sub\<lparr>ps_BankCreditState := BankMatched, ps_ProofState := ProofVerified,
                ps_ReconciliationState := ReconFullyReconciled,
                ps_MatchPairs := ps_MatchPairs sub @ [bank_pair (uuid n) line b
                  (if l5 then MatchNetAmountDateAccount else MatchExactUTRAndAmount)
                  (conf + ScoreExactPaymentID) breakdown
                  ''bank observation matched; cash in merchant account is proven''],
                ps_Message := []\<rparr>, Suc n))"

definition account_ok :: "string \<Rightarrow> BankTxn \<Rightarrow> bool" where
  "account_ok accountID b \<longleftrightarrow> accountID = [] \<or> bt_AccountID b = accountID"

definition currency_ok :: "SettlementLine \<Rightarrow> BankTxn \<Rightarrow> bool" where
  "currency_ok line b \<longleftrightarrow> bt_Currency b = [] \<or> sl_Currency line = [] \<or> bt_Currency b = sl_Currency line"

definition l5_candidate :: "SettlementLine \<Rightarrow> int64 \<Rightarrow> string \<Rightarrow> BankTxn \<Rightarrow> bool" where
  "l5_candidate line net accountID b \<longleftrightarrow>
     account_ok accountID b \<and> currency_ok line b \<and> bt_CreditMinor b = net
   \<and> (IsZero (sl_SettledAt line) \<or> IsZero (bt_ValueDate b)
      \<or> dur_abs (time_sub (bt_ValueDate b) (sl_SettledAt line)) \<le> defaultDateWindow)"

definition compositeFallback :: "SettlementLine \<Rightarrow> BankTxn list \<Rightarrow> string \<Rightarrow> BankTxn option" where
  "compositeFallback line banks accountID =
     List.find (\<lambda>b. account_ok accountID b \<and> currency_ok line b \<and> sl_SettlementID line \<noteq> []
       \<and> contains (ToLower (bt_Description b)) (ToLower (sl_SettlementID line))) banks"

definition ambiguous_bank :: "ProofSubject \<Rightarrow> SettlementLine \<Rightarrow> ProofSubject" where
  "ambiguous_bank sub line = sub\<lparr>ps_BankCreditState := BankAmbiguous,
     ps_ReconciliationState := ReconAmbiguousMatch,
     ps_ProofState := ProofProviderSettlementProvenBankUnproven,
     ps_Message := bankPendingMessage line ''ambiguous''\<rparr>"

definition bank_not_found :: "ProofSubject \<Rightarrow> SettlementLine \<Rightarrow> ProofSubject" where
  "bank_not_found sub line = sub\<lparr>ps_BankCreditState := BankNotFound,
     ps_ReconciliationState := ReconSettlementConfirmedBankPending,
     ps_ProofState := ProofProviderSettlementProvenBankUnproven,
     ps_Message := bankPendingMessage line ''not_found''\<rparr>"

text \<open>A line without a UTR: by amount, date and account, else by its name in a description.\<close>

definition attach_without_utr :: "(nat \<Rightarrow> string) \<Rightarrow> nat \<Rightarrow> ProofSubject \<Rightarrow> SettlementLine \<Rightarrow> BankTxn list
    \<Rightarrow> string \<Rightarrow> ProofSubject \<times> nat" where
  "attach_without_utr uuid n sub line allBanks accountID =
     (let net = ps_ExpectedNetMinor sub;
          l5 = filter (l5_candidate line net accountID) allBanks
      in if length l5 = 1 then bankProven uuid n sub line (l5 ! 0) True
         else if length l5 > 1 then (ambiguous_bank sub line, n)
         else case compositeFallback line allBanks accountID of
             Some b \<Rightarrow>
              (sub\<lparr>ps_BankCreditState := BankAwaiting, ps_BankObservationID := bt_ID b,
                   ps_BankCreditMinor := bt_CreditMinor b, ps_DifferenceMinor := net - bt_CreditMinor b,
                   ps_ReconciliationState := ReconUnresolved, ps_ProofState := ProofProbable,
                   ps_MatchPairs := ps_MatchPairs sub @ [bank_pair (uuid n) line b MatchCompositeFallback
                     ScoreDescription [(''description_similarity'', ScoreDescription)]
                     ''composite fallback is probable only, not proven''],
                   ps_Message := bankPendingMessage line ''probable''\<rparr>, Suc n)
           | None \<Rightarrow> (bank_not_found sub line, n))"

definition attachBank :: "(nat \<Rightarrow> string) \<Rightarrow> nat \<Rightarrow> ProofSubject \<Rightarrow> SettlementLine
    \<Rightarrow> (string \<Rightarrow> BankTxn list) \<Rightarrow> BankTxn list \<Rightarrow> string \<Rightarrow> ProofSubject \<times> nat" where
  "attachBank uuid n sub line bankByUTR allBanks accountID =
     (let utr = TrimSpace (sl_UTR line); net = ps_ExpectedNetMinor sub
      in if utr = [] then attach_without_utr uuid n sub line allBanks accountID
         else if length (bankByUTR utr) = 1 then bankProven uuid n sub line (bankByUTR utr ! 0) False
         else if length (bankByUTR utr) > 1 then (ambiguous_bank sub line, n)
         else case List.find (\<lambda>b. bt_CreditMinor b = net \<and> account_ok accountID b \<and> bt_UTR b \<noteq> utr) allBanks of
             Some b \<Rightarrow>
              (sub\<lparr>ps_BankCreditState := BankAmountMismatch, ps_ReconciliationState := ReconAmountMismatch,
                   ps_BankCreditMinor := bt_CreditMinor b, ps_DifferenceMinor := net - bt_CreditMinor b,
                   ps_ProofState := ProofProviderSettlementProvenBankUnproven,
                   ps_Message := amountMismatchMessage net (bt_CreditMinor b) (sl_Currency line)\<rparr>, n)
           | None \<Rightarrow> (bank_not_found sub line, n))"

section \<open>One payment\<close>

definition payment_subject :: "PaymentObs \<Rightarrow> ProofSubject" where
  "payment_subject p = zero_ProofSubject\<lparr>ps_PaymentID := pp_PaymentID p, ps_OrderID := pp_OrderID p,
     ps_PaymentState := PaymentStateOf p, ps_ProviderSettlementState := SettlementNotObserved,
     ps_BankCreditState := BankNotExpected, ps_ReconciliationState := ReconUnresolved,
     ps_ProofState := ProofUnproven, ps_Currency := pp_Currency p,
     ps_MissingWebhook := \<not> pp_HasWebhook p\<rparr>"

definition with_intent :: "(nat \<Rightarrow> string) \<Rightarrow> nat \<Rightarrow> (string \<rightharpoonup> IntentRef) \<Rightarrow> PaymentObs \<Rightarrow> ProofSubject
    \<Rightarrow> ProofSubject \<times> nat" where
  "with_intent uuid n intents p sub =
     (if intents (pp_OrderID p) \<noteq> None \<and> pp_OrderID p \<noteq> [] then
        (sub\<lparr>ps_MatchPairs := ps_MatchPairs sub @ [\<lparr>md_MatchID = uuid n, md_SourceAID = pp_PaymentID p,
           md_SourceBID = pp_OrderID p, md_LeftSource = ''razorpay_payment'', md_RightSource = ''intent'',
           md_MatchType = MatchOrderRelationship, md_Confidence = 0.4,
           md_ScoreBreakdown = [(''order_relationship'', 0.4)], md_Ambiguous = False,
           md_DecisionReason = ''payment.order_id == intent.provider_order_id'',
           md_RuleVersion = RuleVersion\<rparr>]\<rparr>, Suc n)
      else (sub, n))"

definition unsettled :: "PaymentObs \<Rightarrow> ProofSubject \<Rightarrow> ProofSubject" where
  "unsettled p sub =
     (let sub = sub\<lparr>ps_BankCreditState := BankAwaiting\<rparr>;
          sub = (if pp_Captured p \<or> ps_PaymentState sub = PaymentCaptured then
             sub\<lparr>ps_ReconciliationState := ReconPaymentConfirmedSettlementPending,
                 ps_ProofState := ProofCaptureProvenSettlementUnproven,
                 ps_Message := ''Payment captured: yes. Settlement recon found: no. Bank credit found: no. Proof: capture proven; settlement and bank credit not proven.''\<rparr>
           else sub\<lparr>ps_ReconciliationState := ReconUnresolved, ps_Message := ''Evidence is insufficient.''\<rparr>)
      in if ps_MissingWebhook sub \<and> ps_ReconciliationState sub = ReconPaymentConfirmedSettlementPending then
           sub\<lparr>ps_ReconciliationState := ReconMissingWebhookRepairedByAPI\<rparr>
         else sub)"

definition settlement_pair :: "string \<Rightarrow> PaymentObs \<Rightarrow> SettlementLine \<Rightarrow> string \<Rightarrow> MatchDecision" where
  "settlement_pair i p line matchType = \<lparr>md_MatchID = i, md_SourceAID = pp_PaymentID p,
     md_SourceBID = sl_EntityID line, md_LeftSource = ''razorpay_settlement_recon'',
     md_RightSource = ''razorpay_payment'', md_MatchType = matchType,
     md_Confidence = ScoreExactPaymentID, md_ScoreBreakdown = [(''exact_payment_id'', ScoreExactPaymentID)],
     md_Ambiguous = False, md_DecisionReason = ''settlement line tied by payment/entity ID'',
     md_RuleVersion = RuleVersion\<rparr>"

definition expected_net :: "SettlementLine list \<Rightarrow> SettlementLine \<Rightarrow> int64" where
  "expected_net allLines line =
     (let net = SettlementNetMinor allLines (sl_SettlementID line) in if net = 0 then lineNet line else net)"

definition settled_subject :: "string \<Rightarrow> PaymentObs \<Rightarrow> SettlementLine \<Rightarrow> string \<Rightarrow> SettlementLine list
    \<Rightarrow> ProofSubject \<Rightarrow> ProofSubject" where
  "settled_subject i p line matchType allLines sub = sub\<lparr>ps_SettlementID := sl_SettlementID line,
     ps_ProviderSettlementState := (if sl_Settled line then SettlementSettled else SettlementIncludedInRecon),
     ps_MatchPairs := ps_MatchPairs sub @ [settlement_pair i p line matchType],
     ps_ExpectedNetMinor := expected_net allLines line\<rparr>"

definition matchPayment :: "(nat \<Rightarrow> string) \<Rightarrow> nat \<Rightarrow> PaymentObs \<Rightarrow> (string \<Rightarrow> SettlementLine list)
    \<Rightarrow> (string \<Rightarrow> BankTxn list) \<Rightarrow> BankTxn list \<Rightarrow> SettlementLine list \<Rightarrow> (string \<rightharpoonup> IntentRef) \<Rightarrow> string
    \<Rightarrow> ProofSubject \<times> nat" where
  "matchPayment uuid n p linesByPay bankByUTR allBanks allLines intents accountID =
     (let (sub, n) = with_intent uuid n intents p (payment_subject p)
      in case findSettlement p linesByPay of
           None \<Rightarrow> (unsettled p sub, n)
         | Some (line, matchType) \<Rightarrow>
             attachBank uuid (Suc n) (settled_subject (uuid n) p line matchType allLines sub) line
               bankByUTR allBanks accountID)"

section \<open>A snapshot\<close>

fun match_payments :: "(nat \<Rightarrow> string) \<Rightarrow> Snapshot \<Rightarrow> nat \<Rightarrow> PaymentObs list \<Rightarrow> ProofSubject list" where
  "match_payments uuid snap n [] = []"
| "match_payments uuid snap n (p # ps) =
     (let (sub, n) = matchPayment uuid n p (indexSettlementByPayment (sn_Lines snap))
            (indexBankByUTR (sn_Banks snap)) (sn_Banks snap) (sn_Lines snap)
            (intentByOrder (sn_Intents snap)) (sn_AccountID snap)
      in sub # match_payments uuid snap n ps)"

definition unlinked_subject :: "Snapshot \<Rightarrow> BankTxn \<Rightarrow> ProofSubject" where
  "unlinked_subject snap b = zero_ProofSubject\<lparr>ps_TenantID := sn_TenantID snap,
     ps_ConnectorID := sn_ConnectorID snap, ps_BankObservationID := bt_ID b,
     ps_BankCreditState := BankMatched, ps_ProviderSettlementState := SettlementNotObserved,
     ps_PaymentState := PaymentUnknown, ps_ReconciliationState := ReconBankCreditConfirmedProviderPending,
     ps_ProofState := ProofUnproven, ps_BankCreditMinor := bt_CreditMinor b, ps_Currency := bt_Currency b,
     ps_Message := ''Bank credit exists but provider settlement evidence is missing.''\<rparr>"

definition used_banks :: "ProofSubject list \<Rightarrow> string set" where
  "used_banks subs = {i. i \<noteq> [] \<and> i \<in> ps_BankObservationID ` set subs}"

definition is_unlinked :: "Snapshot \<Rightarrow> ProofSubject list \<Rightarrow> BankTxn \<Rightarrow> bool" where
  "is_unlinked snap subs b \<longleftrightarrow> bt_ID b \<notin> used_banks subs
     \<and> \<not> (let linked = settlementForBank (sn_Lines snap) b
          in sl_SettlementID linked \<noteq> [] \<and> paymentIDOf linked \<in> pp_PaymentID ` set (sn_Payments snap))"

definition Match :: "(nat \<Rightarrow> string) \<Rightarrow> Snapshot \<Rightarrow> ProofSubject list" where
  "Match uuid snap =
     (let subs = match_payments uuid snap 0 (sn_Payments snap)
      in subs @ map (unlinked_subject snap) (filter (is_unlinked snap subs) (sn_Banks snap)))"

definition SettledDoesNotMeanBankCredited :: "ProofSubject \<Rightarrow> bool" where
  "SettledDoesNotMeanBankCredited sub \<longleftrightarrow>
     (if ps_ProviderSettlementState sub = SettlementSettled \<and> ps_BankObservationID sub = []
      then ps_BankCreditState sub \<noteq> BankMatched \<and> ps_ProofState sub \<noteq> ProofVerified else True)"

section \<open>Closed forms of the indexes\<close>

lemma indexBankByUTR_closed:
  "indexBankByUTR banks utr = filter (\<lambda>b. bt_UTR b \<noteq> [] \<and> bt_UTR b = utr) banks"
proof -
  have "foldl (\<lambda>m b. if bt_UTR b = [] then m else m(bt_UTR b := m (bt_UTR b) @ [b])) m banks utr
      = m utr @ filter (\<lambda>b. bt_UTR b \<noteq> [] \<and> bt_UTR b = utr) banks" for m
    by (induction banks arbitrary: m) auto
  then show ?thesis by (simp add: indexBankByUTR_def)
qed

lemma pickLine_in: "rows \<noteq> [] \<Longrightarrow> pickLine rows \<in> set rows"
  by (auto simp: pickLine_def dest: find_SomeD split: option.split)

text \<open>The settlement line a payment is judged by.\<close>

definition settlement_of :: "SettlementLine list \<Rightarrow> PaymentObs \<Rightarrow> SettlementLine option" where
  "settlement_of lines p = map_option fst (findSettlement p (indexSettlementByPayment lines))"

lemma settlement_of_tied:
  assumes "settlement_of lines p = Some line"
  shows "line \<in> set lines" "sl_PaymentID line = pp_PaymentID p \<or> sl_EntityID line = pp_PaymentID p"
proof -
  let ?rows = "indexSettlementByPayment lines (pp_PaymentID p)"
  from assms have "?rows \<noteq> []" "line = pickLine ?rows"
    by (auto simp: settlement_of_def findSettlement_def Let_def split: if_splits)
  then have "line \<in> set ?rows" using pickLine_in by blast
  then show "line \<in> set lines" "sl_PaymentID line = pp_PaymentID p \<or> sl_EntityID line = pp_PaymentID p"
    by (auto simp: indexSettlementByPayment_closed)
qed

section \<open>When a payment is proven\<close>

text \<open>
  The evidence that proves a line: the bank row is the only one with the reference of the line and
  carries its net; a line without a reference needs a row that is the only one of this net, in the
  account, in a compatible currency and in the date window.
\<close>

definition proves :: "BankTxn list \<Rightarrow> string \<Rightarrow> SettlementLine \<Rightarrow> int64 \<Rightarrow> BankTxn \<Rightarrow> bool" where
  "proves banks accountID line net b \<longleftrightarrow>
     (let utr = TrimSpace (sl_UTR line)
      in if utr \<noteq> [] then filter (\<lambda>x. bt_UTR x = utr) banks = [b] \<and> bt_CreditMinor b = net
         else filter (l5_candidate line net accountID) banks = [b])"

lemma proves_row:
  assumes "proves banks accountID line net b"
  shows "b \<in> set banks" "bt_CreditMinor b = net"
proof -
  have "b \<in> set banks \<and> P b" if "filter P banks = [b]" for P
  proof -
    have "b \<in> set (filter P banks)" by (simp add: that)
    then show ?thesis by simp
  qed
  from this [of "l5_candidate line net accountID"] this [of "\<lambda>x. bt_UTR x = TrimSpace (sl_UTR line)"] assms
  show "b \<in> set banks" "bt_CreditMinor b = net"
    by (auto simp: proves_def Let_def l5_candidate_def [of line net accountID b] split: if_splits)
qed

lemma proves_unique: "proves banks accountID line net b \<Longrightarrow> proves banks accountID line net b' \<Longrightarrow> b = b'"
  by (auto simp: proves_def Let_def split: if_splits)

definition reconciled_by :: "ProofSubject \<Rightarrow> BankTxn \<Rightarrow> bool" where
  "reconciled_by sub b \<longleftrightarrow> ps_ProofState sub = ProofVerified \<and> ps_BankCreditState sub = BankMatched
     \<and> ps_ReconciliationState sub = ReconFullyReconciled \<and> ps_BankObservationID sub = bt_ID b
     \<and> ps_BankCreditMinor sub = bt_CreditMinor b \<and> ps_ExpectedNetMinor sub = bt_CreditMinor b
     \<and> ps_DifferenceMinor sub = 0"

definition unreconciled :: "ProofSubject \<Rightarrow> bool" where
  "unreconciled sub \<longleftrightarrow> ps_ProofState sub \<noteq> ProofVerified \<and> ps_BankCreditState sub \<noteq> BankMatched
     \<and> ps_ReconciliationState sub \<noteq> ReconFullyReconciled"

lemma bankProven_cases:
  "if bt_CreditMinor b = ps_ExpectedNetMinor sub then reconciled_by (fst (bankProven uuid n sub line b l5)) b
   else unreconciled (fst (bankProven uuid n sub line b l5))"
  by (simp add: bankProven_def Let_def case_prod_beta reconciled_by_def unreconciled_def)

lemma single_nth: "length xs = 1 \<Longrightarrow> xs = [xs ! 0]"
  by (cases xs) auto

lemma attach_without_utr_proven:
  assumes "TrimSpace (sl_UTR line) = []" and "proves banks accountID line (ps_ExpectedNetMinor sub) b"
  shows "reconciled_by (fst (attach_without_utr uuid n sub line banks accountID)) b"
proof -
  have "filter (l5_candidate line (ps_ExpectedNetMinor sub) accountID) banks = [b]"
    using assms by (simp add: proves_def)
  then show ?thesis
    using bankProven_cases [of b sub uuid n line True] proves_row(2) [OF assms(2)]
    by (simp add: attach_without_utr_def Let_def)
qed

lemma attach_without_utr_unproven:
  assumes "TrimSpace (sl_UTR line) = []" and "\<nexists>b. proves banks accountID line (ps_ExpectedNetMinor sub) b"
  shows "unreconciled (fst (attach_without_utr uuid n sub line banks accountID))"
proof -
  have "length (filter (l5_candidate line (ps_ExpectedNetMinor sub) accountID) banks) \<noteq> 1"
    using assms single_nth [of "filter (l5_candidate line (ps_ExpectedNetMinor sub) accountID) banks"]
    by (auto simp: proves_def)
  then show ?thesis
    by (simp add: attach_without_utr_def Let_def unreconciled_def ambiguous_bank_def bank_not_found_def
        split: option.split)
qed

lemma index_of_line:
  "TrimSpace (sl_UTR line) \<noteq> [] \<Longrightarrow>
   indexBankByUTR banks (TrimSpace (sl_UTR line)) = filter (\<lambda>x. bt_UTR x = TrimSpace (sl_UTR line)) banks"
  by (auto simp: indexBankByUTR_closed intro: filter_cong)

lemma attachBank_proven:
  assumes "proves banks accountID line (ps_ExpectedNetMinor sub) b"
  shows "reconciled_by (fst (attachBank uuid n sub line (indexBankByUTR banks) banks accountID)) b"
proof (cases "TrimSpace (sl_UTR line) = []")
  case True
  with assms show ?thesis by (simp add: attachBank_def attach_without_utr_proven)
next
  case False
  then have "filter (\<lambda>x. bt_UTR x = TrimSpace (sl_UTR line)) banks = [b]"
    using assms by (simp add: proves_def)
  with False show ?thesis
    using bankProven_cases [of b sub uuid n line False] proves_row(2) [OF assms]
    by (simp add: attachBank_def Let_def index_of_line)
qed

lemma attachBank_unproven:
  assumes "\<nexists>b. proves banks accountID line (ps_ExpectedNetMinor sub) b"
  shows "unreconciled (fst (attachBank uuid n sub line (indexBankByUTR banks) banks accountID))"
proof (cases "TrimSpace (sl_UTR line) = []")
  case True
  with assms show ?thesis by (simp add: attachBank_def attach_without_utr_unproven)
next
  case utr: False
  let ?rows = "filter (\<lambda>x. bt_UTR x = TrimSpace (sl_UTR line)) banks"
  show ?thesis
  proof (cases "length ?rows = 1")
    case True
    then have rows: "?rows = [?rows ! 0]" by (rule single_nth)
    then have "bt_CreditMinor (?rows ! 0) \<noteq> ps_ExpectedNetMinor sub"
      using assms utr by (auto simp: proves_def)
    with True utr show ?thesis
      using bankProven_cases [of "?rows ! 0" sub uuid n line False]
      by (simp add: attachBank_def Let_def index_of_line)
  next
    case False
    with utr show ?thesis
      by (simp add: attachBank_def Let_def index_of_line unreconciled_def ambiguous_bank_def
          bank_not_found_def split: option.split)
  qed
qed

section \<open>Proofs of a whole snapshot\<close>

text \<open>The evidence that proves a payment: that of the settlement line it is judged by.\<close>

definition payment_proof :: "Snapshot \<Rightarrow> PaymentObs \<Rightarrow> BankTxn \<Rightarrow> bool" where
  "payment_proof snap p b \<longleftrightarrow> (\<exists>line. settlement_of (sn_Lines snap) p = Some line
     \<and> proves (sn_Banks snap) (sn_AccountID snap) line (expected_net (sn_Lines snap) line) b)"

abbreviation (input) match_one :: "(nat \<Rightarrow> string) \<Rightarrow> Snapshot \<Rightarrow> nat \<Rightarrow> PaymentObs \<Rightarrow> ProofSubject \<times> nat" where
  "match_one uuid snap n p \<equiv> matchPayment uuid n p (indexSettlementByPayment (sn_Lines snap))
     (indexBankByUTR (sn_Banks snap)) (sn_Banks snap) (sn_Lines snap)
     (intentByOrder (sn_Intents snap)) (sn_AccountID snap)"

lemma attachBank_frame:
  "ps_PaymentID (fst (attachBank uuid n sub line idx banks acc)) = ps_PaymentID sub"
  by (simp add: attachBank_def attach_without_utr_def bankProven_def ambiguous_bank_def bank_not_found_def
      Let_def case_prod_beta split: option.split)

lemma with_intent_frame:
  "ps_PaymentID (fst (with_intent uuid n intents p sub)) = ps_PaymentID sub"
  "ps_ExpectedNetMinor (settled_subject i p line mt lines sub) = expected_net lines line"
  "ps_PaymentID (settled_subject i p line mt lines sub) = ps_PaymentID sub"
  "ps_PaymentID (unsettled p sub) = ps_PaymentID sub"
  "ps_PaymentID (payment_subject p) = pp_PaymentID p"
  by (simp_all add: with_intent_def settled_subject_def unsettled_def payment_subject_def Let_def)

lemma unsettled_unreconciled: "unreconciled (unsettled p sub)"
  if "unreconciled sub"
  using that by (simp add: unreconciled_def unsettled_def Let_def)

lemma with_intent_unreconciled: "unreconciled (fst (with_intent uuid n intents p (payment_subject p)))"
  by (simp add: unreconciled_def with_intent_def payment_subject_def)

lemma matchPayment_id: "ps_PaymentID (fst (match_one uuid snap n p)) = pp_PaymentID p"
  by (simp add: matchPayment_def Let_def case_prod_beta attachBank_frame with_intent_frame split: option.split)

lemma matchPayment_proven:
  assumes "payment_proof snap p b"
  shows "reconciled_by (fst (match_one uuid snap n p)) b"
  using assms
  by (auto simp: payment_proof_def settlement_of_def matchPayment_def Let_def case_prod_beta with_intent_frame
      intro!: attachBank_proven)

lemma matchPayment_unproven:
  assumes "\<nexists>b. payment_proof snap p b"
  shows "unreconciled (fst (match_one uuid snap n p))"
proof (cases "findSettlement p (indexSettlementByPayment (sn_Lines snap))")
  case None
  then show ?thesis
    by (simp add: matchPayment_def Let_def case_prod_beta unsettled_unreconciled with_intent_unreconciled)
next
  case (Some lm)
  then have "settlement_of (sn_Lines snap) p = Some (fst lm)" by (simp add: settlement_of_def)
  with assms have "\<nexists>b. proves (sn_Banks snap) (sn_AccountID snap) (fst lm) (expected_net (sn_Lines snap) (fst lm)) b"
    unfolding payment_proof_def by blast
  with Some show ?thesis
    by (auto simp: matchPayment_def Let_def case_prod_beta with_intent_frame intro!: attachBank_unproven)
qed

lemma length_match_payments [simp]: "length (match_payments uuid snap n ps) = length ps"
  by (induction ps arbitrary: n) (simp_all add: Let_def case_prod_beta)

lemma match_payments_nth:
  "i < length ps \<Longrightarrow> \<exists>k. match_payments uuid snap n ps ! i = fst (match_one uuid snap k (ps ! i))"
proof (induction ps arbitrary: n i)
  case (Cons p ps)
  then show ?case by (cases i) (auto simp: Let_def case_prod_beta)
qed simp

lemma Match_nth:
  assumes "i < length (sn_Payments snap)"
  obtains k where "Match uuid snap ! i = fst (match_one uuid snap k (sn_Payments snap ! i))"
  using match_payments_nth [OF assms, of uuid snap 0] assms
  by (auto simp: Match_def Let_def nth_append)

text \<open>
  C17.  A payment is proven exactly on the evidence: the proof of the \<open>i\<close>-th payment of a snapshot is
  verified if and only if one bank row carries the net of its settlement and is the only row with
  the settlement's reference or, where the settlement names none, the only row of that net in the
  account, currency and date window.  Then the proof names that row with no difference; in every
  other case neither the bank credit nor the reconciliation claims success.
\<close>

theorem payment_proven_iff_evidence:
  assumes "i < length (sn_Payments snap)"
  shows "let sub = Match uuid snap ! i; p = sn_Payments snap ! i
    in ps_PaymentID sub = pp_PaymentID p
     \<and> (ps_ProofState sub = ProofVerified \<longleftrightarrow> (\<exists>b \<in> set (sn_Banks snap). payment_proof snap p b \<and> reconciled_by sub b))
     \<and> (ps_BankCreditState sub = BankMatched \<longleftrightarrow> (\<exists>b. payment_proof snap p b))
     \<and> (ps_ReconciliationState sub = ReconFullyReconciled \<longleftrightarrow> (\<exists>b. payment_proof snap p b))"
proof -
  obtain k where sub: "Match uuid snap ! i = fst (match_one uuid snap k (sn_Payments snap ! i))"
    using Match_nth [OF assms] by blast
  show ?thesis
  proof (cases "\<exists>b. payment_proof snap (sn_Payments snap ! i) b")
    case True
    then obtain b where b: "payment_proof snap (sn_Payments snap ! i) b" by blast
    moreover from b have "b \<in> set (sn_Banks snap)" by (auto simp: payment_proof_def dest: proves_row)
    ultimately show ?thesis
      using matchPayment_proven [OF b, of uuid k] sub
      by (auto simp: Let_def matchPayment_id reconciled_by_def)
  next
    case False
    then show ?thesis
      using matchPayment_unproven [OF False, of uuid k] sub
      by (auto simp: Let_def matchPayment_id unreconciled_def)
  qed
qed

text \<open>
  No bank row disappears: every row of the statement is named by a proof of the snapshot, unless
  its reference is on the settlement line of a payment in the snapshot.  A row listed as unlinked
  is unproven and named by no payment's proof.
\<close>

theorem bank_rows_accounted_for:
  "(\<forall>b \<in> set (sn_Banks snap).
      (\<exists>sub \<in> set (Match uuid snap). ps_BankObservationID sub = bt_ID b)
    \<or> (\<exists>l \<in> set (sn_Lines snap). \<exists>p \<in> set (sn_Payments snap). bt_UTR b \<noteq> [] \<and> sl_UTR l = bt_UTR b
         \<and> sl_SettlementID l \<noteq> [] \<and> paymentIDOf l = pp_PaymentID p))
   \<and> (\<forall>sub \<in> set (drop (length (sn_Payments snap)) (Match uuid snap)).
      ps_ProofState sub = ProofUnproven \<and> ps_PaymentID sub = []
    \<and> (\<exists>b \<in> set (sn_Banks snap). ps_BankObservationID sub = bt_ID b \<and> ps_BankCreditMinor sub = bt_CreditMinor b)
    \<and> (ps_BankObservationID sub = [] \<or>
         ps_BankObservationID sub \<notin> ps_BankObservationID ` set (take (length (sn_Payments snap)) (Match uuid snap))))"
proof (rule conjI)
  let ?subs = "match_payments uuid snap 0 (sn_Payments snap)"
  have unlinked: "unlinked_subject snap b \<in> set (Match uuid snap)"
    if "b \<in> set (sn_Banks snap)" "is_unlinked snap ?subs b" for b
    using that by (simp add: Match_def Let_def)
  show "\<forall>b \<in> set (sn_Banks snap).
      (\<exists>sub \<in> set (Match uuid snap). ps_BankObservationID sub = bt_ID b)
    \<or> (\<exists>l \<in> set (sn_Lines snap). \<exists>p \<in> set (sn_Payments snap). bt_UTR b \<noteq> [] \<and> sl_UTR l = bt_UTR b
         \<and> sl_SettlementID l \<noteq> [] \<and> paymentIDOf l = pp_PaymentID p)"
  proof
    fix b assume b: "b \<in> set (sn_Banks snap)"
    show "(\<exists>sub \<in> set (Match uuid snap). ps_BankObservationID sub = bt_ID b)
      \<or> (\<exists>l \<in> set (sn_Lines snap). \<exists>p \<in> set (sn_Payments snap). bt_UTR b \<noteq> [] \<and> sl_UTR l = bt_UTR b
         \<and> sl_SettlementID l \<noteq> [] \<and> paymentIDOf l = pp_PaymentID p)"
    proof (cases "is_unlinked snap ?subs b")
      case True
      moreover have "ps_BankObservationID (unlinked_subject snap b) = bt_ID b" by (simp add: unlinked_subject_def)
      ultimately show ?thesis using unlinked [OF b] by blast
    next
      case False
      let ?l = "settlementForBank (sn_Lines snap) b"
      from False consider (used) "bt_ID b \<in> used_banks ?subs"
        | (linked) "sl_SettlementID ?l \<noteq> []" "paymentIDOf ?l \<in> pp_PaymentID ` set (sn_Payments snap)"
        by (auto simp: is_unlinked_def Let_def)
      then show ?thesis
      proof cases
        case used
        then show ?thesis by (auto simp: used_banks_def Match_def Let_def)
      next
        case linked
        then have "bt_UTR b \<noteq> [] \<and> List.find (\<lambda>l. sl_UTR l = bt_UTR b) (sn_Lines snap) = Some ?l"
          by (auto simp: settlementForBank_def zero_SettlementLine_def split: if_splits option.splits)
        with linked show ?thesis by (auto dest!: find_SomeD)
      qed
    qed
  qed
  show "\<forall>sub \<in> set (drop (length (sn_Payments snap)) (Match uuid snap)).
      ps_ProofState sub = ProofUnproven \<and> ps_PaymentID sub = []
    \<and> (\<exists>b \<in> set (sn_Banks snap). ps_BankObservationID sub = bt_ID b \<and> ps_BankCreditMinor sub = bt_CreditMinor b)
    \<and> (ps_BankObservationID sub = [] \<or>
         ps_BankObservationID sub \<notin> ps_BankObservationID ` set (take (length (sn_Payments snap)) (Match uuid snap)))"
    by (auto simp: Match_def Let_def unlinked_subject_def zero_ProofSubject_def is_unlinked_def used_banks_def)
qed

text \<open>
  Settled does not mean credited: the reminder that the code keeps for its tests holds of every proof
  of a snapshot whose bank rows have identifiers.
\<close>

lemma settled_is_not_credited:
  assumes "\<forall>b \<in> set (sn_Banks snap). bt_ID b \<noteq> []" and "sub \<in> set (Match uuid snap)"
  shows "SettledDoesNotMeanBankCredited sub"
proof -
  consider (payment) i where "i < length (sn_Payments snap)" "sub = Match uuid snap ! i"
    | (row) b where "b \<in> set (sn_Banks snap)" "sub = unlinked_subject snap b"
    using assms(2) by (auto simp: Match_def Let_def in_set_conv_nth nth_append)
  then show ?thesis
  proof cases
    case payment
    let ?p = "sn_Payments snap ! i"
    obtain k where sub: "sub = fst (match_one uuid snap k ?p)" using Match_nth [OF payment(1)] payment(2) by blast
    show ?thesis
    proof (cases "\<exists>b. payment_proof snap ?p b")
      case True
      then obtain b where b: "payment_proof snap ?p b" by blast
      then have "bt_ID b \<noteq> []" using assms(1) by (auto simp: payment_proof_def dest: proves_row)
      with matchPayment_proven [OF b, of uuid k] sub show ?thesis
        by (simp add: SettledDoesNotMeanBankCredited_def reconciled_by_def)
    next
      case False
      with matchPayment_unproven [OF False, of uuid k] sub show ?thesis
        by (simp add: SettledDoesNotMeanBankCredited_def unreconciled_def)
    qed
  next
    case row
    then show ?thesis using assms(1) by (simp add: SettledDoesNotMeanBankCredited_def unlinked_subject_def)
  qed
qed

text \<open>
  A mismatch without a difference: where no bank row carries the reference of the settlement, a row
  of exactly its net under another reference makes the proof an amount mismatch of difference 0.
\<close>

lemma mismatch_without_difference:
  assumes "settlement_of (sn_Lines snap) p = Some line" and "TrimSpace (sl_UTR line) \<noteq> []"
    and "\<forall>b \<in> set (sn_Banks snap). bt_UTR b \<noteq> TrimSpace (sl_UTR line)"
    and "b \<in> set (sn_Banks snap)" and "bt_CreditMinor b = expected_net (sn_Lines snap) line"
    and "account_ok (sn_AccountID snap) b"
  shows "let sub = fst (match_one uuid snap n p)
    in ps_BankCreditState sub = BankAmountMismatch \<and> ps_ReconciliationState sub = ReconAmountMismatch
     \<and> ps_DifferenceMinor sub = 0"
proof -
  have none: "indexBankByUTR (sn_Banks snap) (TrimSpace (sl_UTR line)) = []"
    using assms(3) by (simp add: indexBankByUTR_closed filter_empty_conv)
  obtain mt where find: "findSettlement p (indexSettlementByPayment (sn_Lines snap)) = Some (line, mt)"
    using assms(1) by (auto simp: settlement_of_def)
  let ?P = "\<lambda>b. bt_CreditMinor b = expected_net (sn_Lines snap) line \<and> account_ok (sn_AccountID snap) b
    \<and> bt_UTR b \<noteq> TrimSpace (sl_UTR line)"
  obtain b' where b': "List.find ?P (sn_Banks snap) = Some b'" "bt_CreditMinor b' = expected_net (sn_Lines snap) line"
  proof (cases "List.find ?P (sn_Banks snap)")
    case None
    then show thesis using assms(3-6) by (auto simp: find_None_iff)
  next
    case (Some c)
    with that show thesis by (auto dest: find_SomeD)
  qed
  then show ?thesis
    using assms(2) none find
    by (simp add: matchPayment_def case_prod_beta Let_def attachBank_def with_intent_frame)
qed

text \<open>
  The currency is not compared when the reference is unique: a row of the same number of minor
  units in another currency proves the payment.
\<close>

lemma other_currency_still_proves:
  assumes "TrimSpace (sl_UTR line) \<noteq> []" and "filter (\<lambda>x. bt_UTR x = TrimSpace (sl_UTR line)) banks = [b]"
    and "bt_CreditMinor b = net" and "bt_Currency b \<noteq> sl_Currency line"
  shows "proves banks acc line net b"
  using assms by (simp add: proves_def)

section \<open>Witnesses\<close>

definition sample_obs_payment :: PaymentObs where
  "sample_obs_payment = \<lparr>pp_PaymentID = ''pay_1'', pp_OrderID = ''order_1'', pp_Status = ''captured'',
     pp_AmountMinor = 1000, pp_Currency = ''INR'', pp_Captured = True, pp_Source = ''webhook'',
     pp_PayloadHash = ''h'', pp_HasWebhook = True, pp_FeeMinor = 15, pp_TaxMinor = 5\<rparr>"

definition sample_settled_line :: SettlementLine where
  "sample_settled_line = zero_SettlementLine\<lparr>sl_SettlementID := ''setl_1'', sl_EntityID := ''pay_1'',
     sl_PaymentID := ''pay_1'', sl_LineType := ''payment'', sl_AmountMinor := 1000, sl_CreditMinor := 980,
     sl_FeeMinor := 15, sl_TaxMinor := 5, sl_Currency := ''INR'', sl_UTR := ''UTR9'', sl_Settled := True\<rparr>"

definition sample_credit :: BankTxn where
  "sample_credit = zero_BankTxn\<lparr>bt_ID := ''bank_1'', bt_UTR := ''UTR9'', bt_Currency := ''INR'',
     bt_CreditMinor := 980\<rparr>"

definition sample_snapshot :: Snapshot where
  "sample_snapshot = \<lparr>sn_TenantID = ''t'', sn_ConnectorID = ''c'', sn_AccountID = [],
     sn_Payments = [sample_obs_payment], sn_Lines = [sample_settled_line], sn_Banks = [sample_credit],
     sn_Intents = []\<rparr>"

lemma sample_payment_proof: "payment_proof sample_snapshot sample_obs_payment sample_credit"
proof -
  have "settlement_of [sample_settled_line] sample_obs_payment = Some sample_settled_line"
    by (simp add: settlement_of_def findSettlement_def indexSettlementByPayment_closed sample_settled_line_def
        sample_obs_payment_def pickLine_def)
  moreover have "expected_net [sample_settled_line] sample_settled_line = 980"
    by (simp add: expected_net_def SettlementNetMinor_def sample_settled_line_def zero_SettlementLine_def
        net_step_def net_tail_step_def net_acc0_def lineNet_def Let_def)
  moreover have "proves [sample_credit] [] sample_settled_line 980 sample_credit"
    by (simp add: proves_def sample_credit_def sample_settled_line_def str_eval)
  ultimately show ?thesis by (auto simp: payment_proof_def sample_snapshot_def)
qed

lemma payment_proven_iff_evidence_witness:
  "ps_ProofState (Match (\<lambda>_. ''m'') sample_snapshot ! 0) = ProofVerified"
proof -
  have "0 < length (sn_Payments sample_snapshot)" "sn_Payments sample_snapshot ! 0 = sample_obs_payment"
    by (simp_all add: sample_snapshot_def)
  moreover have "\<exists>b. payment_proof sample_snapshot sample_obs_payment b" using sample_payment_proof by blast
  ultimately have "ps_ReconciliationState (Match (\<lambda>_. ''m'') sample_snapshot ! 0) = ReconFullyReconciled"
    using payment_proven_iff_evidence [of 0 sample_snapshot "\<lambda>_. ''m''"] by (simp add: Let_def)
  moreover obtain k where "Match (\<lambda>_. ''m'') sample_snapshot ! 0 = fst (match_one (\<lambda>_. ''m'') sample_snapshot k sample_obs_payment)"
    using Match_nth [of 0 sample_snapshot "\<lambda>_. ''m''"] by (auto simp: sample_snapshot_def)
  ultimately show ?thesis
    using matchPayment_proven [OF sample_payment_proof] by (simp add: reconciled_by_def)
qed

lemma bank_rows_accounted_for_witness:
  "\<exists>sub \<in> set (Match (\<lambda>_. ''m'') (sample_snapshot\<lparr>sn_Payments := []\<rparr>)). ps_BankObservationID sub = ''bank_1''"
proof -
  have "sn_Banks (sample_snapshot\<lparr>sn_Payments := []\<rparr>) = [sample_credit]" "bt_ID sample_credit = ''bank_1''"
    by (simp_all add: sample_snapshot_def sample_credit_def)
  then show ?thesis
    using conjunct1 [OF bank_rows_accounted_for [of "sample_snapshot\<lparr>sn_Payments := []\<rparr>" "\<lambda>_. ''m''"]] by simp
qed

end
