(* ===== verification/ProofService.thy ===== *)
theory ProofService
  imports Matcher Effects
begin

text \<open>
  \<^verbatim>\<open>recon/service.go\<close> over \<^verbatim>\<open>recon/memory_store.go\<close>, and \<^verbatim>\<open>recon/ask.go\<close>: a run of the proof
  matcher stores a proof, its decisions and its evidence leaves for every subject; the queries read
  them back.

  The map \<open>Proofs\<close> is an association list without duplicate keys; \<open>ord\<close> is the order in which Go
  visits it.  \<open>digest\<close> is the hexadecimal SHA-256 of the JSON form of a decision.  The maps that
  \<open>ProofJSON\<close> builds are the record \<open>proof_view\<close> with a field for each key.  Every store call may
  fail: \<open>pv_fault\<close> gives the error of the n-th.
\<close>

abbreviation (input) ErrNotFound :: string where "ErrNotFound \<equiv> ''proof subject not found''"

record BankUpload =
  bu_ID :: string
  bu_TenantID :: string
  bu_ConnectorID :: string
  bu_AccountID :: string
  bu_Filename :: string
  bu_FileHash :: string
  bu_RowCount :: int64
  bu_Status :: string
  bu_LastError :: string

record EvidenceLeaf =
  lf_ID :: string
  lf_PaymentID :: string
  lf_Source :: string
  lf_SourceRecordID :: string
  lf_RawPayloadHash :: string
  lf_ObservedAt :: time
  lf_ProviderMode :: string
  lf_TraceID :: string

record ProofStore =
  pr_Uploads :: "BankUpload list"
  pr_Banks :: "BankTxn list"
  pr_Payments :: "PaymentObs list"
  pr_Lines :: "SettlementLine list"
  pr_Proofs :: "(string \<times> ProofSubject) list"
  pr_Leaves :: "EvidenceLeaf list"


section \<open>The store\<close>

definition proof_key :: "string \<Rightarrow> string \<Rightarrow> string \<Rightarrow> string" where
  "proof_key tenant connector payment = tenant @ ''|'' @ connector @ ''|'' @ payment"

definition InsertUpload :: "(nat \<Rightarrow> string) \<Rightarrow> nat \<Rightarrow> BankUpload \<Rightarrow> ProofStore \<Rightarrow> BankUpload \<times> ProofStore" where
  "InsertUpload uuid n up m =
     (let up = (if bu_ID up = [] then up\<lparr>bu_ID := uuid n\<rparr> else up)
      in (up, m\<lparr>pr_Uploads := pr_Uploads m @ [up]\<rparr>))"

definition InsertBankTxns :: "BankTxn list \<Rightarrow> ProofStore \<Rightarrow> ProofStore" where
  "InsertBankTxns rows m = m\<lparr>pr_Banks := pr_Banks m @ rows\<rparr>"




definition GetProof :: "string \<Rightarrow> string \<Rightarrow> string \<Rightarrow> ProofStore \<Rightarrow> ProofSubject option" where
  "GetProof tenantID connectorID paymentID m = map_of (pr_Proofs m) (proof_key tenantID connectorID paymentID)"

definition ListProofs :: "(string list \<Rightarrow> string list) \<Rightarrow> ProofStore \<Rightarrow> ProofSubject list" where
  "ListProofs ord m = map (\<lambda>k. the (map_of (pr_Proofs m) k)) (ord (map fst (pr_Proofs m)))"


definition ListLeaves :: "string \<Rightarrow> ProofStore \<Rightarrow> EvidenceLeaf list" where
  "ListLeaves paymentID m = filter (\<lambda>l. lf_PaymentID l = paymentID) (pr_Leaves m)"

section \<open>Evidence leaves\<close>

definition leaf :: "string \<Rightarrow> string \<Rightarrow> string \<Rightarrow> string \<Rightarrow> time \<Rightarrow> EvidenceLeaf" where
  "leaf paymentID source record_id hash now = \<lparr>lf_ID = [], lf_PaymentID = paymentID, lf_Source = source,
     lf_SourceRecordID = record_id, lf_RawPayloadHash = hash, lf_ObservedAt = now, lf_ProviderMode = [],
     lf_TraceID = []\<rparr>"

definition LeavesFor :: "(MatchDecision \<Rightarrow> string) \<Rightarrow> time \<Rightarrow> ProofSubject \<Rightarrow> PaymentObs list
    \<Rightarrow> SettlementLine list \<Rightarrow> BankTxn list \<Rightarrow> EvidenceLeaf list" where
  "LeavesFor digest now sub pays lines banks =
     map (\<lambda>p. leaf (pp_PaymentID p)
              (if pp_Source p = [] \<or> pp_Source p = ''razorpay_api'' then ''api_backfill'' else pp_Source p)
              (pp_PaymentID p) (pp_PayloadHash p) now)
         (filter (\<lambda>p. pp_PaymentID p = ps_PaymentID sub) pays)
   @ map (\<lambda>l. leaf (ps_PaymentID sub) ''razorpay_settlement_recon''
              (sl_SettlementID l @ '':'' @ sl_EntityID l) (sl_PayloadHash l) now)
         (filter (\<lambda>l. sl_SettlementID l = ps_SettlementID sub
            \<and> (sl_PaymentID l = ps_PaymentID sub \<or> sl_EntityID l = ps_PaymentID sub)) lines)
   @ (if ps_BankObservationID sub \<noteq> [] then
        map (\<lambda>b. leaf (ps_PaymentID sub) ''bank_statement'' (bt_ID b) (bt_RowHash b) now)
            (filter (\<lambda>b. bt_ID b = ps_BankObservationID sub) banks)
      else [])
   @ map (\<lambda>d. leaf (ps_PaymentID sub) ''recon_match_decision'' (md_MatchID d) (''sha256:'' @ digest d) now)
         (ps_MatchPairs sub)"

section \<open>A run\<close>

record proof_env =
  pv_fault :: "nat \<Rightarrow> string option"
  pv_uuid :: "nat \<Rightarrow> string"
  pv_now :: time
  pv_digest :: "MatchDecision \<Rightarrow> string"
  pv_ord :: "string list \<Rightarrow> string list"

type_synonym 'a proof_io = "(ProofStore, 'a) io"

definition proof_read :: "proof_env \<Rightarrow> (ProofStore \<Rightarrow> 'a) \<Rightarrow> 'a proof_io" where
  "proof_read env f = attempt (pv_fault env) (\<lambda>m. (f m, m))"


definition run_subject :: "string \<Rightarrow> string \<Rightarrow> ProofSubject \<Rightarrow> ProofSubject" where
  "run_subject tenantID connectorID sub =
     (let sub = sub\<lparr>ps_TenantID := tenantID, ps_ConnectorID := connectorID\<rparr>
      in if ps_PaymentID sub = [] \<and> ps_BankObservationID sub \<noteq> []
         then sub\<lparr>ps_PaymentID := ''unlinked-bank:'' @ ps_BankObservationID sub\<rparr> else sub)"



section \<open>Queries\<close>

definition state_keys :: "string list" where
  "state_keys = [ReconFullyReconciled, ReconSettlementConfirmedBankPending,
     ReconPaymentConfirmedSettlementPending, ReconMissingWebhookRepairedByAPI, ReconAmountMismatch,
     ReconAmbiguousMatch, ReconUnresolved, ReconBankCreditConfirmedProviderPending]"

definition count_state :: "(string \<times> int) list \<Rightarrow> ProofSubject \<Rightarrow> (string \<times> int) list" where
  "count_state counts s = alist_put (ps_ReconciliationState s)
     ((case map_of counts (ps_ReconciliationState s) of None \<Rightarrow> 0 | Some n \<Rightarrow> n) + 1) counts"

definition Summary :: "proof_env \<Rightarrow> (string \<times> int) list proof_io" where
  "Summary env = bindE (proof_read env (ListProofs (pv_ord env)))
     (\<lambda>list. returnE (foldl count_state (map (\<lambda>k. (k, 0)) state_keys) list))"

definition Gaps :: "proof_env \<Rightarrow> ProofSubject list proof_io" where
  "Gaps env = bindE (proof_read env (ListProofs (pv_ord env)))
     (\<lambda>list. returnE (filter (\<lambda>p. ps_ReconciliationState p \<noteq> ReconFullyReconciled) list))"

text \<open>The waterfall of a settlement and, from the first proof that names it, the bank side.\<close>

record settlement_breakdown =
  sb_waterfall :: waterfall
  sb_bank :: "(int64 \<times> int64) option"

definition Breakdown :: "proof_env \<Rightarrow> string \<Rightarrow> settlement_breakdown proof_io" where
  "Breakdown env settlementID =
     bindE (proof_read env pr_Lines) (\<lambda>lines s.
       (let (proofs, s) = proof_read env (ListProofs (pv_ord env)) s;
            proofs = (case proofs of Inl _ \<Rightarrow> [] | Inr ps \<Rightarrow> ps)
        in (Inr \<lparr>sb_waterfall = Waterfall lines settlementID,
                 sb_bank = map_option (\<lambda>p. (ps_BankCreditMinor p, ps_DifferenceMinor p))
                   (List.find (\<lambda>p. ps_SettlementID p = settlementID) proofs)\<rparr>, s)))"

definition VerifyEvidence :: "proof_env \<Rightarrow> string \<Rightarrow> (nat \<times> bool) proof_io" where
  "VerifyEvidence env paymentID =
     bindE (proof_read env (ListLeaves paymentID)) (\<lambda>leaves.
     returnE (length leaves, leaves \<noteq> [] \<and> list_all (\<lambda>l. lf_RawPayloadHash l \<noteq> []) leaves))"

record proof_view =
  vw_transaction_id :: string
  vw_message :: string
  vw_payment_state :: string
  vw_provider_settlement_state :: string
  vw_bank_credit_state :: string
  vw_reconciliation_state :: string
  vw_proof_state :: string
  vw_overall :: string
  vw_payment_captured :: string
  vw_provider_settled :: string
  vw_bank_credited :: string
  vw_fully_reconciled :: bool
  vw_derived_net :: int64
  vw_expected_net :: int64
  vw_bank_credit :: int64
  vw_difference :: int64
  vw_currency :: string
  vw_settlement_to_payment :: string
  vw_settlement_to_bank :: string
  vw_confidence :: rat
  vw_leaves :: "EvidenceLeaf list"
  vw_rule_version :: string
  vw_chip_intent :: bool
  vw_chip_webhook :: bool
  vw_chip_api :: bool
  vw_chip_settlement :: bool
  vw_chip_bank :: bool
  vw_chip_verified :: bool

definition hasMatch :: "ProofSubject \<Rightarrow> string \<Rightarrow> bool" where
  "hasMatch sub right \<longleftrightarrow> list_ex (\<lambda>m. md_RightSource m = right) (ps_MatchPairs sub)"

definition match_types :: "MatchDecision list \<Rightarrow> string \<times> string \<times> rat" where
  "match_types pairs = foldl (\<lambda>(pay, bank, conf) m.
     (if md_MatchType m = MatchExactPaymentID \<or> md_MatchType m = MatchExactEntityID then md_MatchType m else pay,
      if md_RightSource m = ''bank_statement'' then md_MatchType m else bank,
      if md_RightSource m = ''bank_statement'' then md_Confidence m else conf)) ([], [], 0) pairs"

abbreviation (input) Proven :: string where "Proven \<equiv> ''proven''"
abbreviation (input) Unproven :: string where "Unproven \<equiv> ''unproven''"

definition ProofJSON :: "ProofSubject \<Rightarrow> EvidenceLeaf list \<Rightarrow> proof_view" where
  "ProofJSON sub leaves =
     (let (pay, bank, conf) = match_types (ps_MatchPairs sub)
      in \<lparr>vw_transaction_id = ps_PaymentID sub,
          vw_message = (if ps_Message sub = [] \<and> ps_ProofState sub = ProofVerified
            then ''Intent, payment, settlement, and bank credit agree within policy.'' else ps_Message sub),
          vw_payment_state = ps_PaymentState sub,
          vw_provider_settlement_state = ps_ProviderSettlementState sub,
          vw_bank_credit_state = ps_BankCreditState sub,
          vw_reconciliation_state = ps_ReconciliationState sub, vw_proof_state = ps_ProofState sub,
          vw_overall = (if ps_ProofState sub = ProofVerified then ''verified'' else ''unverified''),
          vw_payment_captured = (if ps_PaymentState sub = PaymentCaptured then Proven else Unproven),
          vw_provider_settled = (if ps_ProviderSettlementState sub = SettlementSettled
            \<or> ps_ProviderSettlementState sub = SettlementIncludedInRecon then Proven else Unproven),
          vw_bank_credited = (if ps_BankCreditState sub = BankMatched then Proven else Unproven),
          vw_fully_reconciled = (ps_ReconciliationState sub = ReconFullyReconciled),
          vw_derived_net = ps_ExpectedNetMinor sub, vw_expected_net = ps_ExpectedNetMinor sub,
          vw_bank_credit = ps_BankCreditMinor sub, vw_difference = ps_DifferenceMinor sub,
          vw_currency = ps_Currency sub, vw_settlement_to_payment = pay, vw_settlement_to_bank = bank,
          vw_confidence = conf, vw_leaves = leaves, vw_rule_version = RuleVersion,
          vw_chip_intent = hasMatch sub ''intent'', vw_chip_webhook = (\<not> ps_MissingWebhook sub),
          vw_chip_api = True, vw_chip_settlement = (ps_SettlementID sub \<noteq> []),
          vw_chip_bank = (ps_BankCreditState sub = BankMatched),
          vw_chip_verified = (ps_ProofState sub = ProofVerified)\<rparr>)"

definition service_GetProof :: "proof_env \<Rightarrow> string \<Rightarrow> string \<Rightarrow> string \<Rightarrow> proof_view proof_io" where
  "service_GetProof env tenantID connectorID paymentID =
     bindE (proof_read env (GetProof tenantID connectorID paymentID)) (\<lambda>found.
     case found of
       None \<Rightarrow> failE ErrNotFound
     | Some sub \<Rightarrow> (\<lambda>s.
         (let (leaves, s) = proof_read env (ListLeaves paymentID) s
          in (Inr (ProofJSON sub (case leaves of Inl _ \<Rightarrow> [] | Inr ls \<Rightarrow> ls)), s))))"

section \<open>Answers\<close>

text \<open>A proof without a \<open>data\<close> object is \<open>None\<close>.\<close>

definition GetTransactionProofAnswer :: "proof_view option \<Rightarrow> string" where
  "GetTransactionProofAnswer proof =
     (case proof of
        None \<Rightarrow> ''No proof record found.''
      | Some v \<Rightarrow>
          if vw_fully_reconciled v then
            ''Yes. Razorpay settlement reconciliation includes this payment and a matching bank credit was found, so the payment is fully reconciled. '' @ vw_message v
          else if vw_provider_settled v = Proven \<and> vw_bank_credited v \<noteq> Proven then
            ''Razorpay included this payment in settlement, but bank credit is not proven. '' @ vw_message v
          else if vw_message v \<noteq> [] then vw_message v
          else ''Evidence is insufficient.'')"

definition GetBankMatchAnswer :: "proof_view option \<Rightarrow> string" where
  "GetBankMatchAnswer proof =
     (case proof of
        None \<Rightarrow> ''No proof record found.''
      | Some v \<Rightarrow>
          if vw_bank_credited v = Proven then
            ''Yes. A bank statement row is matched to this settlement, so bank credit is proven.''
          else ''Did the money reach the bank? No matching bank observation is proven. '' @
            (if TrimSpace (vw_message v) = [] then ''Bank credit is not proven.'' else vw_message v))"

section \<open>What a run stores\<close>












section \<open>A proven payment has its evidence\<close>

lemma bankProven_pairs:
  "bt_CreditMinor b = ps_ExpectedNetMinor sub \<Longrightarrow>
   ps_MatchPairs (fst (bankProven uuid n sub line b l5)) \<noteq> []"
  "ps_SettlementID (fst (bankProven uuid n sub line b l5)) = ps_SettlementID sub"
  by (simp_all add: bankProven_def Let_def case_prod_beta)

lemma attachBank_settlement:
  "ps_SettlementID (fst (attachBank uuid n sub line idx banks acc)) = ps_SettlementID sub"
  by (simp add: attachBank_def attach_without_utr_def bankProven_def ambiguous_bank_def bank_not_found_def
      Let_def case_prod_beta split: option.split)

lemma proven_settlement:
  assumes "settlement_of (sn_Lines snap) p = Some line"
  shows "ps_SettlementID (fst (match_one uuid snap n p)) = sl_SettlementID line"
  using assms
  by (auto simp: settlement_of_def matchPayment_def Let_def case_prod_beta attachBank_settlement settled_subject_def)

text \<open>
  A proven payment has its evidence: the leaves stored with a verified proof include the payment,
  the settlement line it is judged by and the bank row that proves it, each with the hash of what
  was ingested, provided the bank row has an identifier.
\<close>

theorem proven_payment_has_its_leaves:
  assumes "i < length (sn_Payments snap)" and "payment_proof snap (sn_Payments snap ! i) b" and "bt_ID b \<noteq> []"
    and "ps_PaymentID (Match uuid snap ! i) \<noteq> []"
  shows "\<exists>line. settlement_of (sn_Lines snap) (sn_Payments snap ! i) = Some line
    \<and> (let p = sn_Payments snap ! i; sub = run_subject t c (Match uuid snap ! i);
           evidence = set (LeavesFor digest now sub (sn_Payments snap) (sn_Lines snap) (sn_Banks snap))
       in pp_PayloadHash p \<in> lf_RawPayloadHash ` evidence
        \<and> leaf (pp_PaymentID p) ''razorpay_settlement_recon'' (sl_SettlementID line @ '':'' @ sl_EntityID line)
            (sl_PayloadHash line) now \<in> evidence
        \<and> leaf (pp_PaymentID p) ''bank_statement'' (bt_ID b) (bt_RowHash b) now \<in> evidence)"
proof -
  let ?p = "sn_Payments snap ! i"
  obtain line where line: "settlement_of (sn_Lines snap) ?p = Some line"
    and b: "b \<in> set (sn_Banks snap)"
    using assms(2) by (auto simp: payment_proof_def dest: proves_row)
  obtain k where sub: "Match uuid snap ! i = fst (match_one uuid snap k ?p)" using Match_nth [OF assms(1)] by blast
  have id: "ps_PaymentID (Match uuid snap ! i) = pp_PaymentID ?p" by (simp add: sub matchPayment_id)
  let ?sub = "run_subject t c (Match uuid snap ! i)"
  have fields: "ps_PaymentID ?sub = pp_PaymentID ?p" "ps_SettlementID ?sub = sl_SettlementID line"
      "ps_BankObservationID ?sub = bt_ID b"
    using id assms(4) proven_settlement [OF line, of uuid k] matchPayment_proven [OF assms(2), of uuid k]
    by (auto simp: run_subject_def Let_def reconciled_by_def sub)
  have p: "?p \<in> set (sn_Payments snap)" using assms(1) by simp
  note tied = settlement_of_tied [OF line]
  let ?ev = "set (LeavesFor digest now ?sub (sn_Payments snap) (sn_Lines snap) (sn_Banks snap))"
  have "pp_PayloadHash ?p \<in> lf_RawPayloadHash ` ?ev"
    using p by (force simp: LeavesFor_def leaf_def fields)
  moreover have "leaf (pp_PaymentID ?p) ''razorpay_settlement_recon'' (sl_SettlementID line @ '':'' @ sl_EntityID line)
      (sl_PayloadHash line) now \<in> ?ev"
    using tied by (auto simp: LeavesFor_def fields)
  moreover have "leaf (pp_PaymentID ?p) ''bank_statement'' (bt_ID b) (bt_RowHash b) now \<in> ?ev"
    using b assms(3) by (auto simp: LeavesFor_def fields)
  ultimately show ?thesis using line by (simp add: Let_def)
qed

section \<open>What the answers claim\<close>

text \<open>The messages of a payment that is not proven never start with the word of an affirmative answer.\<close>

definition cautious :: "string \<Rightarrow> bool" where
  "cautious s \<longleftrightarrow> (\<exists>c r. s = c # r \<and> c \<in> {CHR ''P'', CHR ''R'', CHR ''E'', CHR ''B''})"

lemma cautious_messages:
  "cautious (bankPendingMessage line kind)" "cautious (amountMismatchMessage a b c)"
  "cautious (ps_Message (unsettled p sub))"
  by (simp_all add: cautious_def bankPendingMessage_def amountMismatchMessage_def unsettled_def Let_def)

lemma bankProven_message:
  "ps_ProofState (fst (bankProven uuid n sub line b l5)) = ProofVerified
    \<or> cautious (ps_Message (fst (bankProven uuid n sub line b l5)))"
  by (simp add: bankProven_def Let_def case_prod_beta cautious_messages)

lemma attachBank_message:
  "ps_ProofState (fst (attachBank uuid n sub line idx banks acc)) = ProofVerified
    \<or> cautious (ps_Message (fst (attachBank uuid n sub line idx banks acc)))"
  using bankProven_message
  by (simp add: attachBank_def attach_without_utr_def ambiguous_bank_def bank_not_found_def Let_def
      cautious_messages split: option.split)

lemma matchPayment_message:
  "ps_ProofState (fst (match_one uuid snap n p)) = ProofVerified
    \<or> cautious (ps_Message (fst (match_one uuid snap n p)))"
  using attachBank_message by (simp add: matchPayment_def Let_def case_prod_beta cautious_messages split: option.split)

definition affirms :: "string \<Rightarrow> bool" where
  "affirms answer \<longleftrightarrow> has_prefix ''Yes.'' answer"

text \<open>
  C35.  The answers never claim more than the evidence: for the proof of a payment, the question whether
  the money reached the bank and the question whether the payment is reconciled are answered with
  yes exactly when a bank row proves it.
\<close>

theorem answers_affirm_only_proven_payments:
  assumes "i < length (sn_Payments snap)"
  shows "let view = Some (ProofJSON (run_subject t c (Match uuid snap ! i)) leaves)
    in (affirms (GetTransactionProofAnswer view) \<longleftrightarrow> (\<exists>b. payment_proof snap (sn_Payments snap ! i) b))
     \<and> (affirms (GetBankMatchAnswer view) \<longleftrightarrow> (\<exists>b. payment_proof snap (sn_Payments snap ! i) b))"
proof -
  obtain k where sub: "Match uuid snap ! i = fst (match_one uuid snap k (sn_Payments snap ! i))"
    using Match_nth [OF assms] by blast
  let ?sub = "run_subject t c (Match uuid snap ! i)"
  have same: "ps_ProofState ?sub = ps_ProofState (Match uuid snap ! i)"
      "ps_BankCreditState ?sub = ps_BankCreditState (Match uuid snap ! i)"
      "ps_ReconciliationState ?sub = ps_ReconciliationState (Match uuid snap ! i)"
      "ps_Message ?sub = ps_Message (Match uuid snap ! i)"
    by (simp_all add: run_subject_def Let_def)
  show ?thesis
  proof (cases "\<exists>b. payment_proof snap (sn_Payments snap ! i) b")
    case True
    then obtain b where "payment_proof snap (sn_Payments snap ! i) b" by blast
    from matchPayment_proven [OF this, of uuid k] True show ?thesis
      by (simp add: Let_def affirms_def GetTransactionProofAnswer_def GetBankMatchAnswer_def ProofJSON_def
          case_prod_beta same [unfolded sub] sub reconciled_by_def)
  next
    case False
    have "cautious (ps_Message (Match uuid snap ! i))"
      using matchPayment_message [where uuid = uuid and snap = snap and n = k] matchPayment_unproven [OF False, of uuid k]
      by (auto simp: sub unreconciled_def)
    with matchPayment_unproven [OF False, of uuid k] False show ?thesis
      by (auto simp: Let_def affirms_def GetTransactionProofAnswer_def GetBankMatchAnswer_def ProofJSON_def
          case_prod_beta same [unfolded sub] sub unreconciled_def cautious_def)
  qed
qed

text \<open>
  For a bank row without settlement the second answer claims too much: it says that the row is
  matched to a settlement.
\<close>

lemma unlinked_row_answered_as_matched:
  "affirms (GetBankMatchAnswer (Some (ProofJSON (run_subject t c (unlinked_subject snap b)) leaves)))
   \<and> ps_SettlementID (run_subject t c (unlinked_subject snap b)) = []"
  by (simp add: affirms_def GetBankMatchAnswer_def ProofJSON_def case_prod_beta run_subject_def unlinked_subject_def
      zero_ProofSubject_def Let_def)

section \<open>Witnesses\<close>




lemma sample_match: "\<exists>sub. Match (\<lambda>_. ''m'') sample_snapshot = [sub] \<and> ps_PaymentID sub = ''pay_1''"
proof -
  let ?subs = "match_payments (\<lambda>_. ''m'') sample_snapshot 0 [sample_obs_payment]"
  have "0 < length (sn_Payments sample_snapshot)" "sn_Payments sample_snapshot = [sample_obs_payment]"
    "sn_Banks sample_snapshot = [sample_credit]" by (simp_all add: sample_snapshot_def)
  note sn = this
  obtain k where k: "Match (\<lambda>_. ''m'') sample_snapshot ! 0 = fst (match_one (\<lambda>_. ''m'') sample_snapshot k sample_obs_payment)"
    using Match_nth [OF sn(1), of "\<lambda>_. ''m''"] sn(2) by (metis nth_Cons_0)
  have first: "?subs ! 0 = fst (match_one (\<lambda>_. ''m'') sample_snapshot k sample_obs_payment)"
    unfolding k [symmetric] by (simp only: Match_def Let_def sn nth_append length_match_payments) simp
  have "ps_BankObservationID (?subs ! 0) = ''bank_1''"
    using matchPayment_proven [OF sample_payment_proof, of "\<lambda>_. ''m''" k]
    unfolding first by (simp add: reconciled_by_def sample_credit_def)
  moreover have "?subs ! 0 \<in> set ?subs" by (rule nth_mem) (simp del: match_payments.simps)
  ultimately have "''bank_1'' \<in> used_banks ?subs" unfolding used_banks_def by force
  then have "\<not> is_unlinked sample_snapshot ?subs sample_credit"
    by (simp add: is_unlinked_def sample_credit_def)
  then have "Match (\<lambda>_. ''m'') sample_snapshot = ?subs" by (simp add: Match_def Let_def sn)
  moreover have "ps_PaymentID (?subs ! 0) = ''pay_1''"
    unfolding first matchPayment_id by (simp add: sample_obs_payment_def)
  moreover have "\<exists>sub. ?subs = [sub]" by (simp add: Let_def case_prod_beta)
  ultimately show ?thesis by force
qed


lemma proven_payment_has_its_leaves_witness:
  "leaf ''pay_1'' ''bank_statement'' ''bank_1'' [] 5 \<in> set (LeavesFor (\<lambda>_. ''d'') 5
     (run_subject ''t'' ''c'' (Match (\<lambda>_. ''m'') sample_snapshot ! 0)) [sample_obs_payment] [sample_settled_line] [sample_credit])"
proof -
  obtain sub where match: "Match (\<lambda>_. ''m'') sample_snapshot = [sub]" "ps_PaymentID sub = ''pay_1''"
    using sample_match by blast
  have row: "bt_ID sample_credit = ''bank_1''" "bt_RowHash sample_credit = []" "pp_PaymentID sample_obs_payment = ''pay_1''"
    by (simp_all add: sample_credit_def zero_BankTxn_def sample_obs_payment_def)
  have sn: "sn_Payments sample_snapshot = [sample_obs_payment]" "sn_Lines sample_snapshot = [sample_settled_line]"
    "sn_Banks sample_snapshot = [sample_credit]" by (simp_all add: sample_snapshot_def)
  show ?thesis
    using proven_payment_has_its_leaves [of 0 sample_snapshot sample_credit "\<lambda>_. ''m''" "''t''" "''c''" "\<lambda>_. ''d''" 5]
      sample_payment_proof match by (auto simp: Let_def sn row)
qed

lemma answers_affirm_only_proven_payments_witness:
  "affirms (GetBankMatchAnswer (Some (ProofJSON (run_subject ''t'' ''c'' (Match (\<lambda>_. ''m'') sample_snapshot ! 0)) [])))"
proof -
  have "0 < length (sn_Payments sample_snapshot)" "sn_Payments sample_snapshot ! 0 = sample_obs_payment"
    by (simp_all add: sample_snapshot_def)
  then show ?thesis
    using answers_affirm_only_proven_payments [of 0 sample_snapshot "''t''" "''c''" "\<lambda>_. ''m''" "[]"] sample_payment_proof
    by (auto simp: Let_def)
qed

end
