(* ===== verification/AttachScore.thy ===== *)
theory AttachScore
  imports Effects Calendar
begin

text \<open>
  \<^verbatim>\<open>recon/services/attachment_scoring.go\<close>: how well a settlement observation
  fits a payout intent, the decision the ranked candidates of an intent lead to, and what differs
  between an intent and the observation attached to it.

  Amounts are decimals and scores are floats; both are rationals here.  All weights of the score
  are multiples of five, so its sums are exact in the code too; the normalised scores of the code
  differ from the ones here by float rounding.  The quotient of two decimals is the parameter
  \<open>quot\<close>: the decimal package rounds it.  Identifiers are texts, pointers are options, and a
  JSON column of the rule profile is the list of its members.
\<close>

section \<open>Data\<close>

record CanonicalIntent =
  ai_IntentID :: string
  ai_TenantID :: string
  ai_TraceID :: "string option"
  ai_ClientPayoutRef :: "string option"
  ai_ClientBatchRef :: "string option"
  ai_BusinessIdempotencyKey :: "string option"
  ai_Amount :: rat
  ai_CurrencyCode :: string
  ai_IntendedExecutionAt :: "time option"
  ai_ProviderHint :: "string option"
  ai_Corridor :: "string option"
  ai_GovernanceState :: string
  ai_ZordSignatureCarrier :: "string option"
  ai_BeneficiaryFingerprint :: "string option"
  ai_SourceRowNum :: "int64 option"

record CanonicalSettlementObservation =
  ao_SettlementObservationID :: string
  ao_TenantID :: string
  ao_SettlementEnvelopeID :: string
  ao_IngestRunID :: string
  ao_OutcomeArtifactID :: string
  ao_OutcomeArtifactVersionID :: string
  ao_SourceRowRef :: string
  ao_SourceSystem :: string
  ao_SourceStrengthClass :: string
  ao_ClientReferenceCandidate :: "string option"
  ao_ProviderReference :: "string option"
  ao_BankReference :: "string option"
  ao_BatchReference :: "string option"
  ao_Amount :: rat
  ao_SettledAmount :: "rat option"
  ao_FeeAmount :: "rat option"
  ao_DeductionAmount :: "rat option"
  ao_CurrencyCode :: string
  ao_SettlementStatus :: string
  ao_ObservationTimestamp :: time
  ao_ValueDate :: "time option"
  ao_ParseConfidence :: rat
  ao_MappingConfidence :: rat
  ao_CarrierRichnessScore :: rat
  ao_AttachmentReadinessScore :: rat
  ao_CanonicalHash :: string
  ao_ClientBatchID :: string
  ao_CorridorID :: string
  ao_BeneficiaryFingerprint :: "string option"
  ao_ZordSignatureCarrier :: "string option"
  ao_CreatedAt :: time

text \<open>A JSON column: empty, not decodable into the struct at all, or the members of its object.\<close>

datatype json_member = MNumber rat | MBool bool | MOther

datatype json_column = EmptyColumn | Undecodable | Members "(string \<times> json_member) list"

record AttachmentRuleProfile =
  ap_ProfileID :: string
  ap_TenantID :: string
  ap_Version :: string
  ap_CarrierPriorityJSON :: json_column
  ap_TimeWindowPolicyJSON :: json_column
  ap_AmountTolerancePolicyJSON :: json_column
  ap_BatchBoundaryPolicyJSON :: json_column
  ap_ManualReviewThresholdsJSON :: json_column
  ap_AmbiguityMarginThreshold :: rat
  ap_RequiresBankRefForExact :: bool
  ap_Status :: string

section \<open>The rule profile\<close>

record CarrierPriorityPolicy =
  kp_ExactRef :: rat
  kp_ClientRef :: rat
  kp_ProviderRef :: rat
  kp_BankRef :: rat
  kp_ZordSignature :: rat
  kp_BeneficiaryMatch :: rat
  kp_AmountMatch :: rat
  kp_CurrencyMatch :: rat
  kp_BatchMatch :: rat
  kp_TimeWindow :: rat
  kp_SourceSystem :: rat
  kp_ParseConfidenceModifier :: rat
  kp_SourceStrengthModifier :: rat
  kp_ConflictPenalty :: rat

record TimeWindowPolicy =
  tw_MaxHoursDifference :: rat
  tw_StrictSameDay :: bool
  tw_AllowCrossPeriod :: bool

record AmountTolerancePolicy =
  ta_ExactMatchRequired :: bool
  ta_ToleranceMinor :: int
  ta_AllowPercentageTolerance :: bool
  ta_PercentageTolerance :: rat

record BatchBoundaryPolicy =
  bb_StrictBatchMatching :: bool
  bb_AllowCrossBatchIfStrongMatch :: bool

record ManualReviewThresholds =
  th_HighConfidenceScore :: rat
  th_ExactMatchScore :: rat
  th_AmbiguityMarginThreshold :: rat
  th_ExactMarginThreshold :: rat
  th_MinScoreForAutoAttach :: rat
  th_MaxCandidatesForAutoAttach :: int

record AttachmentPolicyConfig =
  cfg_CarrierPriority :: CarrierPriorityPolicy
  cfg_TimeWindow :: TimeWindowPolicy
  cfg_AmountTolerance :: AmountTolerancePolicy
  cfg_BatchBoundary :: BatchBoundaryPolicy
  cfg_ManualReviewThresholds :: ManualReviewThresholds

text \<open>
  \<open>json.Unmarshal\<close> into a struct that holds the defaults: a member is stored in the field
  of its name, whatever the case, when it has the field's type; any other member changes nothing.
\<close>

fun set_number :: "(rat \<Rightarrow> 'p \<Rightarrow> 'p) \<Rightarrow> json_member \<Rightarrow> 'p \<Rightarrow> 'p" where
  "set_number put (MNumber x) p = put x p"
| "set_number put _ p = p"

fun set_int :: "(int \<Rightarrow> 'p \<Rightarrow> 'p) \<Rightarrow> json_member \<Rightarrow> 'p \<Rightarrow> 'p" where
  "set_int put (MNumber x) p =
     (if of_int \<lfloor>x\<rfloor> = x \<and> - (2 ^ 63) \<le> \<lfloor>x\<rfloor> \<and> \<lfloor>x\<rfloor> < 2 ^ 63 then put \<lfloor>x\<rfloor> p else p)"
| "set_int put _ p = p"

fun set_bool :: "(bool \<Rightarrow> 'p \<Rightarrow> 'p) \<Rightarrow> json_member \<Rightarrow> 'p \<Rightarrow> 'p" where
  "set_bool put (MBool b) p = put b p"
| "set_bool put _ p = p"

type_synonym 'p fields = "(string \<times> (json_member \<Rightarrow> 'p \<Rightarrow> 'p)) list"

definition store_member :: "'p fields \<Rightarrow> string \<times> json_member \<Rightarrow> 'p \<Rightarrow> 'p" where
  "store_member fs kv p =
     (case List.find (\<lambda>f. EqualFold (fst f) (fst kv)) fs of
        None \<Rightarrow> p | Some f \<Rightarrow> snd f (snd kv) p)"

fun unmarshal :: "'p fields \<Rightarrow> json_column \<Rightarrow> 'p \<Rightarrow> 'p" where
  "unmarshal fs (Members kvs) p = fold (store_member fs) kvs p"
| "unmarshal fs _ p = p"

definition carrier_fields :: "CarrierPriorityPolicy fields" where
  "carrier_fields =
     [(''exact_ref'', set_number (\<lambda>x p. p\<lparr>kp_ExactRef := x\<rparr>)),
      (''client_ref'', set_number (\<lambda>x p. p\<lparr>kp_ClientRef := x\<rparr>)),
      (''provider_ref'', set_number (\<lambda>x p. p\<lparr>kp_ProviderRef := x\<rparr>)),
      (''bank_ref'', set_number (\<lambda>x p. p\<lparr>kp_BankRef := x\<rparr>)),
      (''zord_signature'', set_number (\<lambda>x p. p\<lparr>kp_ZordSignature := x\<rparr>)),
      (''beneficiary_match'', set_number (\<lambda>x p. p\<lparr>kp_BeneficiaryMatch := x\<rparr>)),
      (''amount_match'', set_number (\<lambda>x p. p\<lparr>kp_AmountMatch := x\<rparr>)),
      (''currency_match'', set_number (\<lambda>x p. p\<lparr>kp_CurrencyMatch := x\<rparr>)),
      (''batch_match'', set_number (\<lambda>x p. p\<lparr>kp_BatchMatch := x\<rparr>)),
      (''time_window'', set_number (\<lambda>x p. p\<lparr>kp_TimeWindow := x\<rparr>)),
      (''source_system'', set_number (\<lambda>x p. p\<lparr>kp_SourceSystem := x\<rparr>)),
      (''parse_confidence_modifier'', set_number (\<lambda>x p. p\<lparr>kp_ParseConfidenceModifier := x\<rparr>)),
      (''source_strength_modifier'', set_number (\<lambda>x p. p\<lparr>kp_SourceStrengthModifier := x\<rparr>)),
      (''conflict_penalty'', set_number (\<lambda>x p. p\<lparr>kp_ConflictPenalty := x\<rparr>))]"

definition window_fields :: "TimeWindowPolicy fields" where
  "window_fields =
     [(''max_hours_difference'', set_number (\<lambda>x p. p\<lparr>tw_MaxHoursDifference := x\<rparr>)),
      (''strict_same_day'', set_bool (\<lambda>b p. p\<lparr>tw_StrictSameDay := b\<rparr>)),
      (''allow_cross_period'', set_bool (\<lambda>b p. p\<lparr>tw_AllowCrossPeriod := b\<rparr>))]"

definition tolerance_fields :: "AmountTolerancePolicy fields" where
  "tolerance_fields =
     [(''exact_match_required'', set_bool (\<lambda>b p. p\<lparr>ta_ExactMatchRequired := b\<rparr>)),
      (''tolerance_minor'', set_int (\<lambda>n p. p\<lparr>ta_ToleranceMinor := n\<rparr>)),
      (''allow_percentage_tolerance'', set_bool (\<lambda>b p. p\<lparr>ta_AllowPercentageTolerance := b\<rparr>)),
      (''percentage_tolerance'', set_number (\<lambda>x p. p\<lparr>ta_PercentageTolerance := x\<rparr>))]"

definition boundary_fields :: "BatchBoundaryPolicy fields" where
  "boundary_fields =
     [(''strict_batch_matching'', set_bool (\<lambda>b p. p\<lparr>bb_StrictBatchMatching := b\<rparr>)),
      (''allow_cross_batch_if_strong_match'',
         set_bool (\<lambda>b p. p\<lparr>bb_AllowCrossBatchIfStrongMatch := b\<rparr>))]"

definition threshold_fields :: "ManualReviewThresholds fields" where
  "threshold_fields =
     [(''high_confidence_score'', set_number (\<lambda>x p. p\<lparr>th_HighConfidenceScore := x\<rparr>)),
      (''exact_match_score'', set_number (\<lambda>x p. p\<lparr>th_ExactMatchScore := x\<rparr>)),
      (''ambiguity_margin_threshold'', set_number (\<lambda>x p. p\<lparr>th_AmbiguityMarginThreshold := x\<rparr>)),
      (''exact_margin_threshold'', set_number (\<lambda>x p. p\<lparr>th_ExactMarginThreshold := x\<rparr>)),
      (''min_score_for_auto_attach'', set_number (\<lambda>x p. p\<lparr>th_MinScoreForAutoAttach := x\<rparr>)),
      (''max_candidates_for_auto_attach'',
         set_int (\<lambda>n p. p\<lparr>th_MaxCandidatesForAutoAttach := n\<rparr>))]"

definition default_policy :: AttachmentPolicyConfig where
  "default_policy = \<lparr>
     cfg_CarrierPriority = \<lparr>kp_ExactRef = 100, kp_ClientRef = 90, kp_ProviderRef = 85,
       kp_BankRef = 85, kp_ZordSignature = 100, kp_BeneficiaryMatch = 0, kp_AmountMatch = 30,
       kp_CurrencyMatch = 10, kp_BatchMatch = 15, kp_TimeWindow = 20, kp_SourceSystem = 10,
       kp_ParseConfidenceModifier = - 20, kp_SourceStrengthModifier = - 15,
       kp_ConflictPenalty = - 40\<rparr>,
     cfg_TimeWindow = \<lparr>tw_MaxHoursDifference = 72, tw_StrictSameDay = False,
       tw_AllowCrossPeriod = False\<rparr>,
     cfg_AmountTolerance = \<lparr>ta_ExactMatchRequired = True, ta_ToleranceMinor = 0,
       ta_AllowPercentageTolerance = False, ta_PercentageTolerance = 0\<rparr>,
     cfg_BatchBoundary = \<lparr>bb_StrictBatchMatching = False,
       bb_AllowCrossBatchIfStrongMatch = False\<rparr>,
     cfg_ManualReviewThresholds = \<lparr>th_HighConfidenceScore = 135, th_ExactMatchScore = 0,
       th_AmbiguityMarginThreshold = 15, th_ExactMarginThreshold = 20,
       th_MinScoreForAutoAttach = 80, th_MaxCandidatesForAutoAttach = 0\<rparr>\<rparr>"

definition parseRuleProfile :: "AttachmentRuleProfile option \<Rightarrow> AttachmentPolicyConfig" where
  "parseRuleProfile profile =
     (case profile of
        None \<Rightarrow> default_policy
      | Some p \<Rightarrow> \<lparr>
          cfg_CarrierPriority = unmarshal carrier_fields (ap_CarrierPriorityJSON p)
            (cfg_CarrierPriority default_policy),
          cfg_TimeWindow = unmarshal window_fields (ap_TimeWindowPolicyJSON p)
            (cfg_TimeWindow default_policy),
          cfg_AmountTolerance = unmarshal tolerance_fields (ap_AmountTolerancePolicyJSON p)
            (cfg_AmountTolerance default_policy),
          cfg_BatchBoundary = unmarshal boundary_fields (ap_BatchBoundaryPolicyJSON p)
            (cfg_BatchBoundary default_policy),
          cfg_ManualReviewThresholds = unmarshal threshold_fields (ap_ManualReviewThresholdsJSON p)
            (cfg_ManualReviewThresholds default_policy)\<rparr>)"

section \<open>Scoring a candidate\<close>

abbreviation (input) RulesetVersion :: string where
  "RulesetVersion \<equiv> ''v1''"

record ScoreBreakdown =
  bk_RulesetVersion :: string
  bk_ExactCarrierScore :: rat
  bk_BusinessReferenceScore :: rat
  bk_ProviderBankReferenceScore :: rat
  bk_PartyAmountScore :: rat
  bk_BatchContextScore :: rat
  bk_TimingScore :: rat
  bk_SourceSystemScore :: rat
  bk_QualityModifiers :: rat
  bk_ConflictPenalties :: rat

record CandidateScore =
  xs_SettlementObservationID :: string
  xs_IntentID :: string
  xs_Breakdown :: ScoreBreakdown
  xs_Total :: rat
  xs_ConfidenceBucket :: string
  xs_ExactRefMatch :: bool
  xs_ClientRefMatch :: bool
  xs_ProviderRefMatch :: bool
  xs_BankRefMatch :: bool
  xs_BatchMatch :: bool
  xs_AmountMatch :: bool
  xs_CurrencyMatch :: bool
  xs_TimeWindowMatch :: bool
  xs_SourceSystemMatch :: bool
  xs_ZordSignatureMatch :: bool
  xs_CompositeMatch :: bool
  xs_ParseConfPenalised :: bool
  xs_QualityAcceptable :: bool
  xs_HasHardConflict :: bool
  xs_HasAnyConflict :: bool

text \<open>Two optional references that agree up to case, the intent's not empty.\<close>

fun same_carrier :: "string option \<Rightarrow> string option \<Rightarrow> bool" where
  "same_carrier (Some a) (Some b) \<longleftrightarrow> EqualFold a b \<and> a \<noteq> []"
| "same_carrier _ _ \<longleftrightarrow> False"

definition Hours :: "duration \<Rightarrow> rat" where
  "Hours d = of_int d / of_int hour"

definition points :: "bool \<Rightarrow> rat \<Rightarrow> rat" where
  "points b n = (if b then n else 0)"

definition source_row_match :: "CanonicalIntent \<Rightarrow> CanonicalSettlementObservation \<Rightarrow> bool" where
  "source_row_match intent obs \<longleftrightarrow>
     (case ai_SourceRowNum intent of
        None \<Rightarrow> False
      | Some n \<Rightarrow> ao_SourceRowRef obs \<noteq> [] \<and> ParseInt (ao_SourceRowRef obs) = Some n)"

definition within_tolerance ::
    "AttachmentPolicyConfig \<Rightarrow> CanonicalIntent \<Rightarrow> CanonicalSettlementObservation \<Rightarrow> bool" where
  "within_tolerance policy intent obs \<longleftrightarrow>
     \<bar>ao_Amount obs - ai_Amount intent\<bar> \<le> of_int (ta_ToleranceMinor (cfg_AmountTolerance policy))"

definition same_currency :: "CanonicalIntent \<Rightarrow> CanonicalSettlementObservation \<Rightarrow> bool" where
  "same_currency intent obs \<longleftrightarrow>
     EqualFold (ao_CurrencyCode obs) (ai_CurrencyCode intent) \<and> ao_CurrencyCode obs \<noteq> []"

definition in_time_window ::
    "AttachmentPolicyConfig \<Rightarrow> CanonicalIntent \<Rightarrow> CanonicalSettlementObservation \<Rightarrow> bool" where
  "in_time_window policy intent obs \<longleftrightarrow>
     (case ai_IntendedExecutionAt intent of
        None \<Rightarrow> False
      | Some t \<Rightarrow> \<bar>Hours (time_sub (ao_ObservationTimestamp obs) t)\<bar>
                    \<le> tw_MaxHoursDifference (cfg_TimeWindow policy))"

definition same_batch :: "CanonicalIntent \<Rightarrow> CanonicalSettlementObservation \<Rightarrow> bool" where
  "same_batch intent obs \<longleftrightarrow>
     (case ai_ClientBatchRef intent of
        None \<Rightarrow> False
      | Some b \<Rightarrow> ao_ClientBatchID obs \<noteq> [] \<and> EqualFold b (ao_ClientBatchID obs))"

definition same_provider :: "CanonicalIntent \<Rightarrow> CanonicalSettlementObservation \<Rightarrow> bool" where
  "same_provider intent obs \<longleftrightarrow>
     (case ai_ProviderHint intent of None \<Rightarrow> False | Some p \<Rightarrow> EqualFold p (ao_SourceSystem obs))"

definition same_corridor :: "CanonicalIntent \<Rightarrow> CanonicalSettlementObservation \<Rightarrow> bool" where
  "same_corridor intent obs \<longleftrightarrow>
     (case ai_Corridor intent of
        None \<Rightarrow> False
      | Some c \<Rightarrow> ao_CorridorID obs \<noteq> [] \<and> EqualFold c (ao_CorridorID obs))"

definition source_penalty :: "string \<Rightarrow> rat" where
  "source_penalty c =
     (if c = ''INTERNAL_EXPORT'' then 10 else if c = ''MANUAL_UPLOAD'' then 20 else 0)"

definition breakdown_sum :: "ScoreBreakdown \<Rightarrow> rat" where
  "breakdown_sum bd =
     bk_ExactCarrierScore bd + bk_BusinessReferenceScore bd + bk_ProviderBankReferenceScore bd
     + bk_PartyAmountScore bd + bk_BatchContextScore bd + bk_TimingScore bd
     + bk_SourceSystemScore bd + bk_QualityModifiers bd + bk_ConflictPenalties bd"

text \<open>
  \<open>ScoreCandidate\<close>: each condition of the code is named once, and each component of the
  breakdown is the sum of the points the code adds to it.
\<close>

definition ScoreCandidate ::
    "CanonicalSettlementObservation \<Rightarrow> CanonicalIntent \<Rightarrow> AttachmentRuleProfile option
     \<Rightarrow> CandidateScore" where
  "ScoreCandidate obs intent profile =
     (let policy = parseRuleProfile profile;
          zord = same_carrier (ai_ZordSignatureCarrier intent) (ao_ZordSignatureCarrier obs);
          client = same_carrier (ai_ClientPayoutRef intent) (ao_ClientReferenceCandidate obs);
          idempotency =
            same_carrier (ai_BusinessIdempotencyKey intent) (ao_ClientReferenceCandidate obs);
          row = source_row_match intent obs;
          bank = ao_BankReference obs \<notin> {None, Some []};
          beneficiary =
            same_carrier (ai_BeneficiaryFingerprint intent) (ao_BeneficiaryFingerprint obs);
          amount = within_tolerance policy intent obs;
          currency = same_currency intent obs;
          window = in_time_window policy intent obs;
          batch = same_batch intent obs;
          provider = same_provider intent obs;
          poorly_parsed = ao_ParseConfidence obs < 7 / 10;
          poorly_mapped = ao_MappingConfidence obs < 7 / 10;
          unready = ao_AttachmentReadinessScore obs < 6 / 10;
          bd = \<lparr>bk_RulesetVersion = RulesetVersion,
            bk_ExactCarrierScore = points zord 120,
            bk_BusinessReferenceScore = points client 110 + points idempotency 100,
            bk_ProviderBankReferenceScore = points bank 30,
            bk_PartyAmountScore = points amount 30 + points currency 10,
            bk_BatchContextScore = points row 80 + points batch 15,
            bk_TimingScore = points window 20,
            bk_SourceSystemScore = points provider 10 + points (same_corridor intent obs) 10,
            bk_QualityModifiers = points beneficiary 45 - points poorly_parsed 20
              - points poorly_mapped 15 - points unready 15
              - source_penalty (ao_SourceStrengthClass obs),
            bk_ConflictPenalties = - points (\<not> amount) 50 - points (\<not> currency) 100\<rparr>;
          total = breakdown_sum bd
      in \<lparr>xs_SettlementObservationID = [], xs_IntentID = [],
          xs_Breakdown = bd, xs_Total = (if total < 0 then 0 else total), xs_ConfidenceBucket = [],
          xs_ExactRefMatch = (zord \<or> client \<or> idempotency), xs_ClientRefMatch = client,
          xs_ProviderRefMatch = False, xs_BankRefMatch = bank, xs_BatchMatch = (row \<or> batch),
          xs_AmountMatch = amount, xs_CurrencyMatch = currency, xs_TimeWindowMatch = window,
          xs_SourceSystemMatch = provider, xs_ZordSignatureMatch = zord, xs_CompositeMatch = False,
          xs_ParseConfPenalised = poorly_parsed,
          xs_QualityAcceptable = (\<not> poorly_parsed \<and> \<not> poorly_mapped \<and> \<not> unready),
          xs_HasHardConflict = (\<not> currency), xs_HasAnyConflict = (\<not> amount \<or> \<not> currency)\<rparr>)"

section \<open>The decision on ranked candidates\<close>

definition top_margin :: "CandidateScore \<Rightarrow> CandidateScore list \<Rightarrow> rat" where
  "top_margin best ranked = (if length ranked > 1 then xs_Total best - xs_Total (ranked ! 1) else 0)"

definition ClassifyConfidenceContext ::
    "CandidateScore \<Rightarrow> CandidateScore list \<Rightarrow> ManualReviewThresholds \<Rightarrow> string" where
  "ClassifyConfidenceContext best ranked thresholds =
     (let margin = top_margin best ranked
      in if xs_HasHardConflict best \<or> xs_Total best \<le> 0 then ''INVALID''
         else if \<not> xs_ExactRefMatch best then
           (if th_MinScoreForAutoAttach thresholds \<le> xs_Total best then ''MEDIUM'' else ''LOW'')
         else if (xs_ClientRefMatch best \<or> xs_ZordSignatureMatch best) \<and> xs_AmountMatch best
             \<and> xs_CurrencyMatch best \<and> \<not> xs_HasAnyConflict best
             \<and> (length ranked = 1 \<or> th_ExactMarginThreshold thresholds \<le> margin) then ''EXACT''
         else if th_HighConfidenceScore thresholds \<le> xs_Total best
             \<and> th_AmbiguityMarginThreshold thresholds \<le> margin \<and> xs_QualityAcceptable best
           then ''HIGH''
         else if th_MinScoreForAutoAttach thresholds \<le> xs_Total best then ''MEDIUM''
         else ''LOW'')"

text \<open>The decision and its reason; the bucket of the best candidate is noted in the list.\<close>

fun SelectDecisionType ::
    "CandidateScore list \<Rightarrow> AttachmentRuleProfile option
     \<Rightarrow> CandidateScore list \<times> string \<times> string" where
  "SelectDecisionType [] profile = ([], ''MATCH_UNRESOLVED'', ''NO_CANDIDATES'')"
| "SelectDecisionType (best # rest) profile =
     (let thresholds = cfg_ManualReviewThresholds (parseRuleProfile profile);
          bucket = ClassifyConfidenceContext best (best # rest) thresholds;
          ranked = best\<lparr>xs_ConfidenceBucket := bucket\<rparr> # rest
      in (ranked,
          case rest of
            [] \<Rightarrow>
              (if bucket = ''EXACT'' then (''MATCH_EXACT'', ''SINGLE_EXACT_CARRIER'')
               else if bucket = ''HIGH''
                 then (''MATCH_HIGH_CONFIDENCE'', ''SINGLE_HIGH_CONFIDENCE_COMPOSITE'')
               else if bucket = ''MEDIUM'' then (''MATCH_AMBIGUOUS'', ''SINGLE_MEDIUM_CANDIDATE'')
               else (''MATCH_UNRESOLVED'', ''SINGLE_LOW_CONFIDENCE''))
          | runnerUp # _ \<Rightarrow>
              (if xs_ExactRefMatch best \<and> xs_ExactRefMatch runnerUp
                 then (''MATCH_CONFLICTED'', ''CONFLICTING_EXACT_CARRIERS'')
               else if bucket = ''EXACT'' then (''MATCH_EXACT'', ''DOMINANT_EXACT_CARRIER'')
               else if bucket = ''HIGH''
                 then (''MATCH_HIGH_CONFIDENCE'', ''DOMINANT_HIGH_CONFIDENCE'')
               else if bucket = ''INVALID'' then (''MATCH_UNRESOLVED'', ''ALL_CANDIDATES_INVALID'')
               else if bucket = ''LOW'' \<and> xs_HasAnyConflict best
                 then (''MATCH_UNRESOLVED'', ''ALL_CANDIDATES_LOW_AND_CONFLICTED'')
               else (''MATCH_AMBIGUOUS'', ''WEAK_DOMINANT_CANDIDATE''))))"

section \<open>Ambiguity and confidence\<close>

definition sourceStrengthScore :: "string \<Rightarrow> rat" where
  "sourceStrengthScore c =
     (if c = ''BANK_LEDGER'' then 1
      else if c = ''PSP_REPORT'' then 85 / 100
      else if c = ''INTERNAL_EXPORT'' then 65 / 100
      else if c = ''MANUAL_UPLOAD'' then 45 / 100
      else 30 / 100)"

definition ambiguity_threshold :: "AttachmentPolicyConfig \<Rightarrow> rat" where
  "ambiguity_threshold policy =
     (let t = th_AmbiguityMarginThreshold (cfg_ManualReviewThresholds policy)
      in if t \<le> 0 then 15 else t)"

definition candidateSetRisk :: "nat \<Rightarrow> rat" where
  "candidateSetRisk n =
     (if n \<le> 1 then 0 else if n = 2 then 3 / 10 else if n \<le> 5 then 6 / 10 else 1)"

definition candidateSetSimplicity :: "nat \<Rightarrow> rat" where
  "candidateSetSimplicity n =
     (if n \<le> 1 then 1 else if n = 2 then 7 / 10 else if n \<le> 5 then 4 / 10 else 1 / 10)"

definition ComputeAmbiguityScore ::
    "CandidateScore list \<Rightarrow> string \<Rightarrow> CanonicalSettlementObservation \<Rightarrow> AttachmentPolicyConfig
     \<Rightarrow> rat" where
  "ComputeAmbiguityScore ranked decisionType obs policy =
     (if decisionType = ''MATCH_UNRESOLVED'' then 1
      else if decisionType = ''MATCH_CONFLICTED'' then 95 / 100
      else
        let n = length ranked;
            marginRisk = (if 2 \<le> n
              then 1 - min ((xs_Total (ranked ! 0) - xs_Total (ranked ! 1)) / ambiguity_threshold policy) 1
              else 0);
            carrierWeakness = 1 - ao_CarrierRichnessScore obs;
            parseMappingWeakness = 1 - (ao_ParseConfidence obs + ao_MappingConfidence obs) / 2;
            sourceWeakness = 1 - sourceStrengthScore (ao_SourceStrengthClass obs);
            conflictRisk = (if n > 0 \<and> (xs_HasHardConflict (ranked ! 0) \<or> xs_HasAnyConflict (ranked ! 0))
              then 1 else 0);
            score = 30 / 100 * candidateSetRisk n + 25 / 100 * marginRisk
              + 20 / 100 * carrierWeakness + 10 / 100 * parseMappingWeakness
              + 10 / 100 * sourceWeakness + 5 / 100 * conflictRisk;
            score = (if decisionType = ''MATCH_EXACT'' \<and> score > 5 / 100 then 5 / 100 else score)
        in min score 1)"

definition capped :: "rat \<Rightarrow> rat \<Rightarrow> rat" where
  "capped c score = (if score > c then c else score)"

definition decision_cap :: "string \<Rightarrow> rat \<Rightarrow> rat" where
  "decision_cap decisionType score =
     (if decisionType = ''MATCH_AMBIGUOUS'' then capped (60 / 100) score
      else if decisionType = ''MATCH_CONFLICTED'' then capped (35 / 100) score
      else if decisionType = ''MATCH_UNRESOLVED'' then capped (20 / 100) score
      else score)"

definition ComputeConfidenceScore ::
    "CandidateScore \<Rightarrow> string \<Rightarrow> CandidateScore list \<Rightarrow> CanonicalSettlementObservation
     \<Rightarrow> AttachmentPolicyConfig \<Rightarrow> rat" where
  "ComputeConfidenceScore best decisionType ranked obs policy =
     (let n = length ranked;
          normalizedWinningScore = min (xs_Total best / 150) 1;
          marginStrength = (if 2 \<le> n
            then min ((xs_Total (ranked ! 0) - xs_Total (ranked ! 1)) / ambiguity_threshold policy) 1
            else 1);
          carrierTierStrength = (if xs_ExactRefMatch best then 1
            else if xs_CompositeMatch best then 5 / 10 else 2 / 10);
          parseMappingQuality = (ao_ParseConfidence obs + ao_MappingConfidence obs) / 2;
          srcStrength = sourceStrengthScore (ao_SourceStrengthClass obs);
          score = 35 / 100 * normalizedWinningScore + 25 / 100 * marginStrength
            + 15 / 100 * carrierTierStrength + 10 / 100 * parseMappingQuality
            + 10 / 100 * srcStrength + 5 / 100 * candidateSetSimplicity n;
          score = decision_cap decisionType score;
          score = (if xs_HasHardConflict best then capped (30 / 100) score else score)
      in min score 1)"

definition ComputeMatchConfidence :: "CandidateScore \<Rightarrow> rat" where
  "ComputeMatchConfidence cs =
     (let bd = xs_Breakdown cs;
          nativeScore = bk_BusinessReferenceScore bd + bk_PartyAmountScore bd
            + bk_BatchContextScore bd + bk_TimingScore bd;
          matchConfidence = nativeScore / 580
      in if matchConfidence > 1 then 1 else if matchConfidence < 0 then 0 else matchConfidence)"

section \<open>Variance\<close>

text \<open>The calendar month of a day in UTC: the Gregorian cycles as the time package counts them.\<close>

definition civil_year :: "int \<Rightarrow> int" where
  "civil_year d =
     (let n400 = d div 146097; d = d mod 146097;
          n100 = min 3 (d div 36524); d = d - 36524 * n100;
          n4 = d div 1461; d = d mod 1461;
          n1 = min 3 (d div 365)
      in 400 * n400 + 100 * n100 + 4 * n4 + n1 + 1)"

definition civil_month :: "int \<Rightarrow> int" where
  "civil_month d =
     int (length (filter (\<lambda>m. civil_day (civil_year d) m 1 \<le> d) [1 .. 12]))"

definition truncate_day :: "time \<Rightarrow> time" where
  "truncate_day t = t div day_ns * day_ns"

definition isCrossPeriod :: "time \<Rightarrow> time \<Rightarrow> bool" where
  "isCrossPeriod intentDay settleDay \<longleftrightarrow>
     civil_month (intentDay div day_ns) \<noteq> civil_month (settleDay div day_ns)
     \<or> civil_year (intentDay div day_ns) \<noteq> civil_year (settleDay div day_ns)"

record variance_flags =
  vg_currency_match :: bool
  vg_value_date_mismatch :: bool
  vg_cross_period :: bool
  vg_provider_ref_missing :: bool
  vg_bank_ref_missing :: bool
  vg_evidence_gap :: bool
  vg_status_variance :: bool

definition delay_between :: "time \<Rightarrow> time \<Rightarrow> int64" where
  "delay_between intentDay settleDay =
     float_to_int64 (Hours (time_sub settleDay intentDay) / 24)"

definition computeDelayDays :: "CanonicalIntent \<Rightarrow> CanonicalSettlementObservation \<Rightarrow> int64" where
  "computeDelayDays intent obs =
     (case (ai_IntendedExecutionAt intent, ao_ValueDate obs) of
        (Some t, Some v) \<Rightarrow> delay_between (truncate_day t) (truncate_day v)
      | _ \<Rightarrow> 0)"

definition crosses_period :: "CanonicalIntent \<Rightarrow> CanonicalSettlementObservation \<Rightarrow> bool" where
  "crosses_period intent obs =
     (case (ai_IntendedExecutionAt intent, ao_ValueDate obs) of
        (Some t, Some v) \<Rightarrow> isCrossPeriod (truncate_day t) (truncate_day v)
      | _ \<Rightarrow> False)"

definition classifyVarianceSeverity ::
    "(rat \<Rightarrow> rat \<Rightarrow> rat) \<Rightarrow> rat \<Rightarrow> rat \<Rightarrow> variance_flags \<Rightarrow> string" where
  "classifyVarianceSeverity quot variance intendedAmount flags =
     (if vg_status_variance flags then ''CRITICAL''
      else if vg_evidence_gap flags then ''HIGH''
      else if variance \<noteq> 0 then
        (let d = (if intendedAmount = 0 then 1 else intendedAmount);
             pct = quot \<bar>variance\<bar> d * 100
         in if pct > 10 then ''HIGH'' else if pct > 1 then ''MEDIUM'' else ''LOW'')
      else if vg_cross_period flags \<or> vg_value_date_mismatch flags then ''MEDIUM''
      else if vg_provider_ref_missing flags \<or> vg_bank_ref_missing flags then ''LOW''
      else ''INFO'')"

text \<open>The amount still to be explained, the severity, the flags, and the reasons in order.\<close>

definition observedSettlementAmount :: "CanonicalSettlementObservation \<Rightarrow> rat" where
  "observedSettlementAmount obs =
     (case ao_SettledAmount obs of Some a \<Rightarrow> a | None \<Rightarrow> ao_Amount obs)"

definition ComputeVariance ::
    "(rat \<Rightarrow> rat \<Rightarrow> rat) \<Rightarrow> CanonicalIntent \<Rightarrow> CanonicalSettlementObservation
     \<Rightarrow> rat \<times> rat option \<times> rat option \<times> string \<times> variance_flags \<times> string list" where
  "ComputeVariance quot intent obs =
     (let amountVariance = ai_Amount intent - observedSettlementAmount obs;
          delayed = computeDelayDays intent obs \<noteq> 0;
          crossed = crosses_period intent obs;
          no_provider = ao_ProviderReference obs = None;
          no_bank = ao_BankReference obs = None;
          bad_status = ao_SettlementStatus obs \<in> {''FAILED'', ''REVERSED'', ''RETURNED''};
          flags = \<lparr>vg_currency_match = (ai_CurrencyCode intent = ao_CurrencyCode obs),
            vg_value_date_mismatch = delayed, vg_cross_period = crossed,
            vg_provider_ref_missing = no_provider, vg_bank_ref_missing = no_bank,
            vg_evidence_gap = (no_provider \<and> no_bank), vg_status_variance = bad_status\<rparr>;
          reasons = (if amountVariance \<noteq> 0 then [''AMOUNT_MISMATCH''] else [])
            @ (if \<not> vg_currency_match flags then [''CURRENCY_MISMATCH''] else [])
            @ (if delayed then [''VALUE_DATE_MISMATCH''] else [])
            @ (if crossed then [''CROSS_PERIOD_SETTLEMENT''] else [])
            @ (if no_provider then [''PROVIDER_REF_MISSING''] else [])
            @ (if no_bank then [''BANK_REF_MISSING''] else [])
            @ (if vg_evidence_gap flags then [''EVIDENCE_GAP''] else [])
            @ (if bad_status then [''UNEXPECTED_SETTLEMENT_STATUS''] else [])
      in (amountVariance, ao_FeeAmount obs, ao_DeductionAmount obs,
          classifyVarianceSeverity quot amountVariance (ai_Amount intent) flags, flags, reasons))"

definition classifyVarianceType ::
    "rat \<Rightarrow> variance_flags \<Rightarrow> CanonicalSettlementObservation \<Rightarrow> string" where
  "classifyVarianceType amountVariance flags obs =
     (if vg_status_variance flags then ''STATUS_MISMATCH''
      else if vg_cross_period flags then ''CROSS_PERIOD''
      else if vg_value_date_mismatch flags then ''VALUE_DATE_MISMATCH''
      else if amountVariance = 0 then ''NO_VARIANCE''
      else if ao_DeductionAmount obs \<notin> {None, Some 0} then ''TAX_TDS_DEDUCTION''
      else if ao_FeeAmount obs \<notin> {None, Some 0} then ''FEE_DEDUCTION''
      else if amountVariance > 0 then ''UNDER_SETTLEMENT''
      else ''OVER_SETTLEMENT'')"

section \<open>What a score says\<close>

lemma score_flags [simp]:
  "xs_ExactRefMatch (ScoreCandidate obs intent profile) \<longleftrightarrow>
     same_carrier (ai_ZordSignatureCarrier intent) (ao_ZordSignatureCarrier obs)
     \<or> same_carrier (ai_ClientPayoutRef intent) (ao_ClientReferenceCandidate obs)
     \<or> same_carrier (ai_BusinessIdempotencyKey intent) (ao_ClientReferenceCandidate obs)"
  "xs_ClientRefMatch (ScoreCandidate obs intent profile) \<longleftrightarrow>
     same_carrier (ai_ClientPayoutRef intent) (ao_ClientReferenceCandidate obs)"
  "xs_ZordSignatureMatch (ScoreCandidate obs intent profile) \<longleftrightarrow>
     same_carrier (ai_ZordSignatureCarrier intent) (ao_ZordSignatureCarrier obs)"
  "xs_AmountMatch (ScoreCandidate obs intent profile) \<longleftrightarrow>
     within_tolerance (parseRuleProfile profile) intent obs"
  "xs_CurrencyMatch (ScoreCandidate obs intent profile) \<longleftrightarrow> same_currency intent obs"
  "xs_HasHardConflict (ScoreCandidate obs intent profile) \<longleftrightarrow> \<not> same_currency intent obs"
  "xs_HasAnyConflict (ScoreCandidate obs intent profile) \<longleftrightarrow>
     \<not> within_tolerance (parseRuleProfile profile) intent obs \<or> \<not> same_currency intent obs"
  "\<not> xs_CompositeMatch (ScoreCandidate obs intent profile)"
  "\<not> xs_ProviderRefMatch (ScoreCandidate obs intent profile)"
  by (simp_all add: ScoreCandidate_def Let_def)

lemma points_le: "0 \<le> n \<Longrightarrow> points b n \<le> n"
  by (simp add: points_def)

lemma quality_le:
  "points a 45 - points b 20 - points c 15 - points d 15 - source_penalty s \<le> 45"
  by (simp add: points_def source_penalty_def)

lemma conflict_le: "- points a 50 - points b 100 \<le> 0"
  by (simp add: points_def)

lemma breakdown_bound: "breakdown_sum (xs_Breakdown (ScoreCandidate obs intent profile)) \<le> 580"
proof -
  have "breakdown_sum (xs_Breakdown (ScoreCandidate obs intent profile))
      \<le> 120 + (110 + 100) + 30 + (30 + 10) + (80 + 15) + 20 + (10 + 10) + 45 + 0"
    unfolding ScoreCandidate_def breakdown_sum_def Let_def CandidateScore.select_convs ScoreBreakdown.select_convs
    by (intro add_mono points_le quality_le conflict_le) simp_all
  then show ?thesis by simp
qed

lemma score_total: "xs_Total (ScoreCandidate obs intent profile) =
    max 0 (breakdown_sum (xs_Breakdown (ScoreCandidate obs intent profile)))"
  by (simp add: ScoreCandidate_def Let_def max_def)

lemma score_total_bounds:
  "0 \<le> xs_Total (ScoreCandidate obs intent profile)"
  "xs_Total (ScoreCandidate obs intent profile) \<le> 580"
  using breakdown_bound [of obs intent profile] by (simp_all add: score_total)

lemma native_score_bounds:
  "let bd = xs_Breakdown (ScoreCandidate obs intent profile);
       native = bk_BusinessReferenceScore bd + bk_PartyAmountScore bd
         + bk_BatchContextScore bd + bk_TimingScore bd
   in 0 \<le> native \<and> native \<le> (110 + 100) + (30 + 10) + (80 + 15) + 20"
  unfolding ScoreCandidate_def Let_def CandidateScore.select_convs ScoreBreakdown.select_convs
  by (intro conjI add_mono points_le add_nonneg_nonneg) (simp_all add: points_def)

lemma match_confidence_of_score:
  "0 \<le> ComputeMatchConfidence (ScoreCandidate obs intent profile)"
  "ComputeMatchConfidence (ScoreCandidate obs intent profile) \<le> 365 / 580"
  using native_score_bounds [of obs intent profile]
  by (simp_all add: ComputeMatchConfidence_def Let_def)

section \<open>What a decision says\<close>

lemma classify_exact:
  assumes "ClassifyConfidenceContext best ranked th = ''EXACT''"
  shows "xs_ClientRefMatch best \<or> xs_ZordSignatureMatch best" "xs_ExactRefMatch best"
    "xs_AmountMatch best" "xs_CurrencyMatch best" "\<not> xs_HasAnyConflict best" "\<not> xs_HasHardConflict best"
    "length ranked = 1 \<or> th_ExactMarginThreshold th \<le> top_margin best ranked"
  using assms by (auto simp: ClassifyConfidenceContext_def Let_def split: if_splits)

lemma classify_high:
  assumes "ClassifyConfidenceContext best ranked th = ''HIGH''"
  shows "xs_ExactRefMatch best" "\<not> xs_HasHardConflict best" "xs_QualityAcceptable best"
    "th_HighConfidenceScore th \<le> xs_Total best"
    "th_AmbiguityMarginThreshold th \<le> top_margin best ranked"
  using assms by (auto simp: ClassifyConfidenceContext_def Let_def split: if_splits)

text \<open>The decision types that attach an observation, and what attaches one.\<close>

definition attaches :: "string \<Rightarrow> bool" where
  "attaches d \<longleftrightarrow> d = ''MATCH_EXACT'' \<or> d = ''MATCH_HIGH_CONFIDENCE''"

lemma select_attaches:
  assumes "SelectDecisionType ranked profile = (ranked', d, why)" "attaches d"
  obtains best rest bucket where "ranked = best # rest"
    "bucket = ClassifyConfidenceContext best ranked (cfg_ManualReviewThresholds (parseRuleProfile profile))"
    "d = ''MATCH_EXACT'' \<and> bucket = ''EXACT'' \<or> d = ''MATCH_HIGH_CONFIDENCE'' \<and> bucket = ''HIGH''"
    "rest \<noteq> [] \<Longrightarrow> \<not> xs_ExactRefMatch best \<or> \<not> xs_ExactRefMatch (hd rest)"
proof (cases ranked)
  case (Cons best rest)
  show thesis
    by (rule that [OF Cons refl])
      (use assms Cons in \<open>auto simp: attaches_def Let_def split: if_splits list.splits\<close>)
qed (use assms in \<open>auto simp: attaches_def\<close>)

lemma select_types:
  assumes "SelectDecisionType ranked profile = (ranked', d, why)"
  shows "attaches d \<or> d = ''MATCH_AMBIGUOUS'' \<or> d = ''MATCH_CONFLICTED'' \<or> d = ''MATCH_UNRESOLVED''"
  using assms by (cases ranked) (auto simp: attaches_def Let_def split: if_splits list.splits)

lemma select_reranked:
  assumes "SelectDecisionType ranked profile = (ranked', d, why)"
  shows "ranked = [] \<and> ranked' = [] \<or> (\<exists>best rest b. ranked = best # rest \<and>
    ranked' = best\<lparr>xs_ConfidenceBucket := b\<rparr> # rest)"
  using assms by (cases ranked) (auto simp: Let_def)

section \<open>Bounds of the normalised scores\<close>

lemma source_strength_bounds: "0 \<le> sourceStrengthScore c" "sourceStrengthScore c \<le> 1"
  by (simp_all add: sourceStrengthScore_def)

lemma ambiguity_threshold_pos: "0 < ambiguity_threshold policy"
  by (simp add: ambiguity_threshold_def Let_def)

lemma min_ratio_bounds:
  assumes "(0::rat) \<le> x" "0 < y"
  shows "0 \<le> min (x / y) 1" "min (x / y) 1 \<le> 1"
  using assms by simp_all

definition quality_in_range :: "CanonicalSettlementObservation \<Rightarrow> bool" where
  "quality_in_range obs \<longleftrightarrow>
     ao_ParseConfidence obs \<in> {0 .. 1} \<and> ao_MappingConfidence obs \<in> {0 .. 1}
     \<and> ao_CarrierRichnessScore obs \<in> {0 .. 1}"

lemma ambiguity_score_bounds:
  assumes "quality_in_range obs" "2 \<le> length ranked \<Longrightarrow> xs_Total (ranked ! 1) \<le> xs_Total (ranked ! 0)"
  shows "0 \<le> ComputeAmbiguityScore ranked d obs policy" "ComputeAmbiguityScore ranked d obs policy \<le> 1"
proof -
  let ?m = "(if 2 \<le> length ranked
    then 1 - min ((xs_Total (ranked ! 0) - xs_Total (ranked ! 1)) / ambiguity_threshold policy) 1 else 0)"
  have m: "0 \<le> ?m" by simp
  have r: "0 \<le> candidateSetRisk (length ranked)" by (simp add: candidateSetRisk_def)
  note s = source_strength_bounds [of "ao_SourceStrengthClass obs"]
  from assms(1) have "0 \<le> 1 - ao_CarrierRichnessScore obs"
    "0 \<le> 1 - (ao_ParseConfidence obs + ao_MappingConfidence obs) / 2"
    by (simp_all add: quality_in_range_def)
  with m r s show "0 \<le> ComputeAmbiguityScore ranked d obs policy"
    unfolding ComputeAmbiguityScore_def Let_def by (auto intro!: add_nonneg_nonneg mult_nonneg_nonneg)
  show "ComputeAmbiguityScore ranked d obs policy \<le> 1"
    by (simp add: ComputeAmbiguityScore_def Let_def)
qed

lemma capped_bounds: "0 \<le> c \<Longrightarrow> 0 \<le> x \<Longrightarrow> 0 \<le> capped c x"
  by (simp add: capped_def)

lemma decision_cap_bounds: "0 \<le> x \<Longrightarrow> 0 \<le> decision_cap d x"
  by (simp add: decision_cap_def capped_bounds)

lemma final_score_bounds: "0 \<le> x \<Longrightarrow> 0 \<le> min (if b then capped (30 / 100) x else x) 1"
  by (simp add: capped_bounds)

lemma confidence_score_bounds:
  assumes "quality_in_range obs" "0 \<le> xs_Total best"
    "2 \<le> length ranked \<Longrightarrow> xs_Total (ranked ! 1) \<le> xs_Total (ranked ! 0)"
  shows "0 \<le> ComputeConfidenceScore best d ranked obs policy"
    "ComputeConfidenceScore best d ranked obs policy \<le> 1"
proof -
  have m: "0 \<le> (if 2 \<le> length ranked
    then min ((xs_Total (ranked ! 0) - xs_Total (ranked ! 1)) / ambiguity_threshold policy) 1 else 1)"
    using assms(3) ambiguity_threshold_pos [of policy] by simp
  have r: "0 \<le> candidateSetSimplicity (length ranked)" by (simp add: candidateSetSimplicity_def)
  have c: "0 \<le> (if xs_ExactRefMatch best then 1 else if xs_CompositeMatch best then 5 / 10 else 2 / 10 :: rat)"
    by simp
  have w: "0 \<le> min (xs_Total best / 150) 1" using assms(2) by simp
  from assms(1) have q: "0 \<le> (ao_ParseConfidence obs + ao_MappingConfidence obs) / 2"
    by (simp add: quality_in_range_def)
  show "0 \<le> ComputeConfidenceScore best d ranked obs policy"
    unfolding ComputeConfidenceScore_def Let_def
    by (intro final_score_bounds decision_cap_bounds add_nonneg_nonneg mult_nonneg_nonneg
      m r c w q source_strength_bounds) simp_all
  show "ComputeConfidenceScore best d ranked obs policy \<le> 1"
    by (simp add: ComputeConfidenceScore_def Let_def)
qed

end
