(* ===== verification/AttachEngine.thy ===== *)
theory AttachEngine
  imports AttachScore
begin

text \<open>
  The attachment run of \<^verbatim>\<open>recon/services/attachment_engine.go\<close> on the data it has
  loaded: the loop over the intents, the reverse scan for orphaned observations, the records of the
  intents that stay open, and the batch summary.  \<open>AttachStore\<close> loads the data and stores
  the outputs.

  Parameters (\<open>attach_env\<close>): \<open>uuid.New\<close> (its n-th result), the clock, the quotient
  of two decimals, \<open>sort.Slice\<close> by descending total (which may order equal totals in any way),
  and the hex SHA-256 of the JSON text of a candidate snapshot.  A map that is only looked up is an
  association list; JSON documents the engine writes are kept as the values they encode, and row
  timestamps are left out.
\<close>

section \<open>Rows\<close>

record AttachmentJob =
  aj_AttachmentJobID :: string
  aj_TenantID :: string
  aj_JobScopeType :: string
  aj_ScopeRef :: string
  aj_MatchingRulesetVersion :: string
  aj_Status :: string
  aj_CandidateCountTotal :: int
  aj_ExactMatchCount :: int
  aj_HighConfidenceCount :: int
  aj_AmbiguousCount :: int
  aj_UnresolvedCount :: int
  aj_ConflictedCount :: int

record AttachmentCandidate =
  ac_CandidateID :: string
  ac_AttachmentJobID :: string
  ac_TenantID :: string
  ac_IntentID :: string
  ac_CandidateRank :: nat
  ac_Score :: CandidateScore

datatype carrier = CText string | CAmount rat | CTime time | CFlag bool

text \<open>
  \<open>decision_reason_detail_json\<close>: the reason alone when the intent was refused, else the counts
  and, with candidates, the total, bucket, conflicts and breakdown of the first of them.
\<close>

datatype reason_detail =
    Refused string
  | Decided nat string string "(rat \<times> string \<times> bool \<times> bool \<times> ScoreBreakdown) option"

record AttachmentDecision =
  ad_AttachmentDecisionID :: string
  ad_TenantID :: string
  ad_SettlementObservationID :: "string option"
  ad_IntentID :: string
  ad_AttachmentJobID :: string
  ad_DecisionType :: string
  ad_DecisionReasonCode :: string
  ad_DecisionReasonDetail :: reason_detail
  ad_MatchingRulesetVersion :: string
  ad_WinningScore :: rat
  ad_RunnerUpScore :: "rat option"
  ad_ScoreMargin :: "rat option"
  ad_RelativeScoreMargin :: "rat option"
  ad_ConfidenceScore :: rat
  ad_MatchConfidence :: rat
  ad_AmbiguityScore :: rat
  ad_SupportingCarriers :: "(string \<times> (string \<times> carrier) list) list"
  ad_CandidateSetHash :: string
  ad_CandidateSetSnapshotRef :: string
  ad_CandidateSetSize :: nat

record VarianceRecord =
  av_VarianceRecordID :: string
  av_TenantID :: string
  av_AttachmentDecisionID :: string
  av_IntentID :: string
  av_SettlementObservationID :: string
  av_AmountVariance :: rat
  av_DeductionVariance :: "rat option"
  av_FeeVariance :: "rat option"
  av_Flags :: variance_flags
  av_SettlementDelayDays :: int64
  av_VarianceType :: string
  av_VarianceSeverity :: string
  av_VarianceReasonCodes :: "string list"
  av_IsWhitelisted :: bool

text \<open>The three tables of open intents have the same columns.\<close>

record OpenIntentRecord =
  ar_RecordID :: string
  ar_TenantID :: string
  ar_AttachmentJobID :: string
  ar_IntentID :: string
  ar_BatchID :: "string option"
  ar_ExpectedWindowEnd :: "time option"
  ar_ReasonCode :: string
  ar_Amount :: rat
  ar_CurrencyCode :: string

record OrphanSettlementRecord =
  ah_OrphanID :: string
  ah_TenantID :: string
  ah_AttachmentJobID :: string
  ah_SettlementObservationID :: string
  ah_BatchID :: "string option"
  ah_UnresolvedReason :: string
  ah_Amount :: rat
  ah_CurrencyCode :: string

record BatchAttachmentSummary =
  as_BatchAttachmentSummaryID :: string
  as_TenantID :: string
  as_BatchID :: "string option"
  as_SourceReference :: string
  as_AttachmentJobID :: string
  as_TotalIntentCount :: int
  as_TotalObservationCount :: int
  as_MatchedIntentCount :: int
  as_MatchedObservationCount :: int
  as_ExactMatchCount :: int
  as_HighConfidenceCount :: int
  as_AmbiguousCount :: int
  as_UnresolvedCount :: int
  as_ConflictedCount :: int
  as_OrphanObservationCount :: int
  as_TotalIntendedAmount :: rat
  as_OriginalIntendedAmount :: rat
  as_MatchedIntendedAmount :: rat
  as_UnresolvedIntendedAmount :: rat
  as_AmbiguousAmount :: rat
  as_ConflictedAmount :: rat
  as_TotalObservedAmount :: rat
  as_OriginalSettledAmount :: rat
  as_MatchedObservedAmount :: rat
  as_OrphanObservedAmount :: rat
  as_TotalFeeAmount :: rat
  as_TotalDeductionAmount :: rat
  as_TotalVariance :: rat
  as_MatchedPairVariance :: rat
  as_NetBatchDelta :: rat
  as_NetUnexplainedVariance :: rat
  as_IntentCountCoverage :: rat
  as_IntentValueCoverage :: rat
  as_ObservedCountAllocationCoverage :: rat
  as_ObservedValueAllocationCoverage :: rat
  as_BatchAttachmentStatus :: string
  as_AggregateScore :: rat
  as_AggregateMatchConfidence :: rat
  as_AmbiguityScore :: rat

section \<open>One intent\<close>

record attach_env =
  ae_Uuid :: "nat \<Rightarrow> string"
  ae_Now :: time
  ae_Quot :: "rat \<Rightarrow> rat \<Rightarrow> rat"
  ae_Rank :: "CandidateScore list \<Rightarrow> CandidateScore list"
  ae_SnapshotHash :: "string \<Rightarrow> string \<Rightarrow> (string \<times> rat \<times> ScoreBreakdown) list \<Rightarrow> string"

abbreviation (input) uuid_nil :: string where
  "uuid_nil \<equiv> ''00000000-0000-0000-0000-000000000000''"

abbreviation (input) three_days :: duration where
  "three_days \<equiv> 72 * hour"

definition nonAttachableGovernanceStates :: "string list" where
  "nonAttachableGovernanceStates = [''CANCELLED'', ''EXPIRED'', ''REJECTED'', ''VOIDED'']"

definition zero_observation :: CanonicalSettlementObservation where
  "zero_observation = \<lparr>ao_SettlementObservationID = uuid_nil, ao_TenantID = uuid_nil,
     ao_SettlementEnvelopeID = uuid_nil, ao_IngestRunID = [], ao_OutcomeArtifactID = uuid_nil,
     ao_OutcomeArtifactVersionID = uuid_nil, ao_SourceRowRef = [], ao_SourceSystem = [],
     ao_SourceStrengthClass = [], ao_ClientReferenceCandidate = None, ao_ProviderReference = None,
     ao_BankReference = None, ao_BatchReference = None, ao_Amount = 0, ao_SettledAmount = None,
     ao_FeeAmount = None, ao_DeductionAmount = None, ao_CurrencyCode = [], ao_SettlementStatus = [],
     ao_ObservationTimestamp = 0, ao_ValueDate = None, ao_ParseConfidence = 0,
     ao_MappingConfidence = 0, ao_CarrierRichnessScore = 0, ao_AttachmentReadinessScore = 0,
     ao_CanonicalHash = [], ao_ClientBatchID = [], ao_CorridorID = [],
     ao_BeneficiaryFingerprint = None, ao_ZordSignatureCarrier = None, ao_CreatedAt = 0\<rparr>"

definition score_all ::
    "AttachmentRuleProfile \<Rightarrow> CanonicalIntent \<Rightarrow> CanonicalSettlementObservation list
     \<Rightarrow> CandidateScore list" where
  "score_all profile intent observations =
     map (\<lambda>obs. (ScoreCandidate obs intent (Some profile))
            \<lparr>xs_SettlementObservationID := ao_SettlementObservationID obs,
             xs_IntentID := ai_IntentID intent\<rparr>) observations"

fun with_buckets :: "ManualReviewThresholds \<Rightarrow> CandidateScore list \<Rightarrow> CandidateScore list" where
  "with_buckets th [] = []"
| "with_buckets th (best # rest) =
     best\<lparr>xs_ConfidenceBucket := ClassifyConfidenceContext best (best # rest) th\<rparr>
     # map (\<lambda>c. c\<lparr>xs_ConfidenceBucket := ClassifyConfidenceContext c [c] th\<rparr>) rest"

text \<open>The candidates of an intent in rank order with their buckets, the decision and its reason.\<close>

definition rank_candidates ::
    "attach_env \<Rightarrow> AttachmentRuleProfile \<Rightarrow> CanonicalIntent \<Rightarrow> CanonicalSettlementObservation list
     \<Rightarrow> CandidateScore list \<times> string \<times> string" where
  "rank_candidates e profile intent observations =
     (let (scored, decisionType, reasonCode) =
            SelectDecisionType (ae_Rank e (score_all profile intent observations)) (Some profile)
      in (with_buckets (cfg_ManualReviewThresholds (parseRuleProfile (Some profile))) scored,
          decisionType, reasonCode))"

definition buildCandidateRows ::
    "attach_env \<Rightarrow> AttachmentJob \<Rightarrow> nat \<Rightarrow> string \<Rightarrow> CandidateScore list \<Rightarrow> AttachmentCandidate list" where
  "buildCandidateRows e job n intentID scored =
     map (\<lambda>(rank, cs). \<lparr>ac_CandidateID = ae_Uuid e (n + rank),
            ac_AttachmentJobID = aj_AttachmentJobID job, ac_TenantID = aj_TenantID job,
            ac_IntentID = intentID, ac_CandidateRank = rank + 1, ac_Score = cs\<rparr>)
       (zip [0 ..< length scored] scored)"

definition topObs ::
    "CanonicalSettlementObservation list \<Rightarrow> CandidateScore list \<Rightarrow> CanonicalSettlementObservation" where
  "topObs observations scored =
     (case scored of
        [] \<Rightarrow> zero_observation
      | best # _ \<Rightarrow>
          (case List.find (\<lambda>o'. ao_SettlementObservationID o' = xs_SettlementObservationID best)
              observations of
             Some obs \<Rightarrow> obs | None \<Rightarrow> zero_observation))"

text \<open>The winner, and the decision and reason once an observation claimed earlier is refused.\<close>

definition select_winner ::
    "string list \<Rightarrow> CandidateScore list \<Rightarrow> string \<Rightarrow> string \<Rightarrow> string option \<times> string \<times> string" where
  "select_winner claimed scored decisionType reasonCode =
     (case scored of
        [] \<Rightarrow> (None, decisionType, reasonCode)
      | best # _ \<Rightarrow>
          if decisionType \<in> {''MATCH_AMBIGUOUS'', ''MATCH_CONFLICTED'', ''MATCH_UNRESOLVED''}
            then (None, decisionType, reasonCode)
          else if xs_SettlementObservationID best \<in> set claimed
            then (None, ''MATCH_AMBIGUOUS'', ''OBSERVATION_ALREADY_CLAIMED_IN_JOB'')
          else (Some (xs_SettlementObservationID best), decisionType, reasonCode))"

fun when_text :: "string \<Rightarrow> string option \<Rightarrow> (string \<times> carrier) list" where
  "when_text k (Some v) = [(k, CText v)]"
| "when_text k None = []"

fun when_time :: "string \<Rightarrow> time option \<Rightarrow> (string \<times> carrier) list" where
  "when_time k (Some v) = [(k, CTime v)]"
| "when_time k None = []"

definition intent_carriers :: "CanonicalIntent \<Rightarrow> (string \<times> carrier) list" where
  "intent_carriers intent =
     [(''intent_id'', CText (ai_IntentID intent)), (''amount'', CAmount (ai_Amount intent)),
      (''currency_code'', CText (ai_CurrencyCode intent))]
     @ when_text ''client_payout_ref'' (ai_ClientPayoutRef intent)
     @ when_text ''client_batch_ref'' (ai_ClientBatchRef intent)
     @ when_text ''business_idempotency_key'' (ai_BusinessIdempotencyKey intent)
     @ when_text ''zord_signature_carrier'' (ai_ZordSignatureCarrier intent)
     @ when_text ''beneficiary_fingerprint'' (ai_BeneficiaryFingerprint intent)
     @ when_time ''intended_execution_at'' (ai_IntendedExecutionAt intent)
     @ when_text ''provider_hint'' (ai_ProviderHint intent)
     @ when_text ''corridor'' (ai_Corridor intent)"

definition match_flags :: "CandidateScore \<Rightarrow> (string \<times> carrier) list" where
  "match_flags cs =
     [(''exact_ref_match'', CFlag (xs_ExactRefMatch cs)),
      (''client_ref_match'', CFlag (xs_ClientRefMatch cs)),
      (''provider_ref_match'', CFlag (xs_ProviderRefMatch cs)),
      (''bank_ref_match'', CFlag (xs_BankRefMatch cs)),
      (''batch_match'', CFlag (xs_BatchMatch cs)),
      (''amount_match'', CFlag (xs_AmountMatch cs)),
      (''currency_match'', CFlag (xs_CurrencyMatch cs)),
      (''time_window_match'', CFlag (xs_TimeWindowMatch cs)),
      (''source_system_match'', CFlag (xs_SourceSystemMatch cs)),
      (''zord_signature_match'', CFlag (xs_ZordSignatureMatch cs)),
      (''composite_match'', CFlag (xs_CompositeMatch cs)),
      (''has_hard_conflict'', CFlag (xs_HasHardConflict cs)),
      (''has_any_conflict'', CFlag (xs_HasAnyConflict cs))]"

definition observation_carriers :: "CanonicalSettlementObservation \<Rightarrow> (string \<times> carrier) list" where
  "observation_carriers obs =
     [(''settlement_observation_id'', CText (ao_SettlementObservationID obs)),
      (''amount'', CAmount (ao_Amount obs)), (''currency_code'', CText (ao_CurrencyCode obs)),
      (''observation_timestamp'', CTime (ao_ObservationTimestamp obs)),
      (''source_strength_class'', CText (ao_SourceStrengthClass obs))]
     @ when_text ''client_reference_candidate'' (ao_ClientReferenceCandidate obs)
     @ when_text ''provider_reference'' (ao_ProviderReference obs)
     @ when_text ''bank_reference'' (ao_BankReference obs)
     @ when_text ''batch_reference'' (ao_BatchReference obs)
     @ (if ao_ClientBatchID obs \<noteq> [] then [(''client_batch_id'', CText (ao_ClientBatchID obs))] else [])
     @ when_text ''beneficiary_fingerprint'' (ao_BeneficiaryFingerprint obs)
     @ when_text ''zord_signature_carrier'' (ao_ZordSignatureCarrier obs)
     @ when_time ''value_date'' (ao_ValueDate obs)"

definition buildMatchEvidenceCarriers ::
    "CanonicalIntent \<Rightarrow> CanonicalSettlementObservation option \<Rightarrow> CandidateScore option
     \<Rightarrow> (string \<times> (string \<times> carrier) list) list" where
  "buildMatchEvidenceCarriers intent obs score =
     [(''intent_carriers'', intent_carriers intent)]
     @ (case score of Some cs \<Rightarrow> [(''match_flags'', match_flags cs)] | None \<Rightarrow> [])
     @ (case obs of Some o' \<Rightarrow> [(''matched_observation_carriers'', observation_carriers o')] | None \<Rightarrow> [])"

text \<open>
  \<open>computeCandidateSetHash\<close> sorts the candidates by total and identifier, in place, and hashes
  the snapshot.
\<close>

definition snapshot_less :: "CandidateScore \<Rightarrow> CandidateScore \<Rightarrow> bool" where
  "snapshot_less a b \<longleftrightarrow>
     (if xs_Total a \<noteq> xs_Total b then xs_Total a > xs_Total b
      else xs_SettlementObservationID a < xs_SettlementObservationID b)"

definition computeCandidateSetHash ::
    "attach_env \<Rightarrow> string \<Rightarrow> CandidateScore list \<Rightarrow> string \<times> CandidateScore list" where
  "computeCandidateSetHash e intentID scored =
     (let scored = SliceStable snapshot_less scored
      in (ae_SnapshotHash e intentID RulesetVersion
            (map (\<lambda>cs. (xs_SettlementObservationID cs, xs_Total cs, xs_Breakdown cs)) scored),
          scored))"

definition buildUnresolvedDecision ::
    "string \<Rightarrow> AttachmentJob \<Rightarrow> CanonicalIntent \<Rightarrow> string \<Rightarrow> AttachmentDecision" where
  "buildUnresolvedDecision decisionID job intent reasonCode = \<lparr>
     ad_AttachmentDecisionID = decisionID, ad_TenantID = aj_TenantID job,
     ad_SettlementObservationID = None, ad_IntentID = ai_IntentID intent,
     ad_AttachmentJobID = aj_AttachmentJobID job, ad_DecisionType = ''MATCH_UNRESOLVED'',
     ad_DecisionReasonCode = reasonCode, ad_DecisionReasonDetail = Refused reasonCode,
     ad_MatchingRulesetVersion = RulesetVersion, ad_WinningScore = 0, ad_RunnerUpScore = None,
     ad_ScoreMargin = None, ad_RelativeScoreMargin = None, ad_ConfidenceScore = 0,
     ad_MatchConfidence = 0, ad_AmbiguityScore = 1, ad_SupportingCarriers = [],
     ad_CandidateSetHash = ''empty'', ad_CandidateSetSnapshotRef = [], ad_CandidateSetSize = 0\<rparr>"

definition detail_of :: "CandidateScore list \<Rightarrow> string \<Rightarrow> string \<Rightarrow> reason_detail" where
  "detail_of scored decisionType reasonCode =
     Decided (length scored) decisionType reasonCode
       (case scored of
          [] \<Rightarrow> None
        | best # _ \<Rightarrow> Some (xs_Total best, xs_ConfidenceBucket best, xs_HasHardConflict best,
            xs_HasAnyConflict best, xs_Breakdown best))"

text \<open>
  The decision on an intent that may be attached: \<open>scored\<close> are its ranked candidates,
  \<open>claimed\<close> the observations attached earlier in the run.
\<close>

definition build_decision ::
    "attach_env \<Rightarrow> AttachmentJob \<Rightarrow> AttachmentPolicyConfig \<Rightarrow> CanonicalIntent
     \<Rightarrow> CanonicalSettlementObservation list \<Rightarrow> CandidateScore list \<Rightarrow> string \<Rightarrow> string
     \<Rightarrow> string list \<Rightarrow> string \<Rightarrow> AttachmentDecision" where
  "build_decision e job policy intent observations scored decisionType0 reasonCode0 claimed decisionID =
     (let obs = topObs observations scored;
          best = (case scored of [] \<Rightarrow> None | b # _ \<Rightarrow> Some b);
          (winner, decisionType, reasonCode) = select_winner claimed scored decisionType0 reasonCode0;
          winningScore = (case best of Some b \<Rightarrow> xs_Total b | None \<Rightarrow> 0);
          runnerUp = (if length scored > 1 then Some (xs_Total (scored ! 1)) else None);
          margin = map_option (\<lambda>s. winningScore - s) runnerUp;
          obsPtr = (if best \<noteq> None \<and> ao_SettlementObservationID obs \<noteq> uuid_nil then Some obs else None);
          (setHash, sorted) = computeCandidateSetHash e (ai_IntentID intent) scored
      in \<lparr>ad_AttachmentDecisionID = decisionID, ad_TenantID = aj_TenantID job,
          ad_SettlementObservationID = winner, ad_IntentID = ai_IntentID intent,
          ad_AttachmentJobID = aj_AttachmentJobID job, ad_DecisionType = decisionType,
          ad_DecisionReasonCode = reasonCode,
          ad_DecisionReasonDetail = detail_of sorted decisionType reasonCode,
          ad_MatchingRulesetVersion = RulesetVersion, ad_WinningScore = winningScore,
          ad_RunnerUpScore = runnerUp, ad_ScoreMargin = margin,
          ad_RelativeScoreMargin = map_option (\<lambda>m. m / max winningScore 1) margin,
          ad_ConfidenceScore = (case best of
            Some b \<Rightarrow> ComputeConfidenceScore b decisionType0 scored obs policy | None \<Rightarrow> 0),
          ad_MatchConfidence = (case best of Some b \<Rightarrow> ComputeMatchConfidence b | None \<Rightarrow> 0),
          ad_AmbiguityScore = ComputeAmbiguityScore scored decisionType0 obs policy,
          ad_SupportingCarriers = buildMatchEvidenceCarriers intent obsPtr best,
          ad_CandidateSetHash = setHash,
          ad_CandidateSetSnapshotRef = ''zord://audit/candidate-snapshots/'' @ setHash,
          ad_CandidateSetSize = length scored\<rparr>)"

definition variance_record ::
    "attach_env \<Rightarrow> AttachmentJob \<Rightarrow> CanonicalIntent \<Rightarrow> CanonicalSettlementObservation \<Rightarrow> string
     \<Rightarrow> string \<Rightarrow> VarianceRecord" where
  "variance_record e job intent obs decisionID recordID =
     (let (amount, fee, deduction, severity, flags, reasons) = ComputeVariance (ae_Quot e) intent obs
      in \<lparr>av_VarianceRecordID = recordID, av_TenantID = aj_TenantID job,
          av_AttachmentDecisionID = decisionID, av_IntentID = ai_IntentID intent,
          av_SettlementObservationID = ao_SettlementObservationID obs, av_AmountVariance = amount,
          av_DeductionVariance = deduction, av_FeeVariance = fee, av_Flags = flags,
          av_SettlementDelayDays = computeDelayDays intent obs,
          av_VarianceType = classifyVarianceType amount flags obs, av_VarianceSeverity = severity,
          av_VarianceReasonCodes = reasons, av_IsWhitelisted = False\<rparr>)"

section \<open>The loop over the intents\<close>

record attach_state =
  al_Drawn :: nat
  al_Decisions :: "AttachmentDecision list"
  al_Variances :: "VarianceRecord list"
  al_Candidates :: "AttachmentCandidate list"
  al_MatchedIntended :: rat
  al_ClientBatchRef :: "string option"
  al_Claimed :: "string list"
  al_Matched :: "string list"
  al_ObsDecisionTypes :: "(string \<times> string) list"
  al_Scanned :: "(string \<times> CanonicalSettlementObservation) list"
  al_Exact :: int
  al_High :: int
  al_Ambiguous :: int
  al_Unresolved :: int
  al_Conflicted :: int

definition attach_start :: attach_state where
  "attach_start = \<lparr>al_Drawn = 0, al_Decisions = [], al_Variances = [], al_Candidates = [],
     al_MatchedIntended = 0, al_ClientBatchRef = None, al_Claimed = [], al_Matched = [],
     al_ObsDecisionTypes = [], al_Scanned = [], al_Exact = 0, al_High = 0, al_Ambiguous = 0,
     al_Unresolved = 0, al_Conflicted = 0\<rparr>"

definition count_decision :: "string \<Rightarrow> attach_state \<Rightarrow> attach_state" where
  "count_decision d st =
     (if d = ''MATCH_EXACT'' then st\<lparr>al_Exact := al_Exact st + 1\<rparr>
      else if d = ''MATCH_HIGH_CONFIDENCE'' then st\<lparr>al_High := al_High st + 1\<rparr>
      else if d = ''MATCH_AMBIGUOUS'' then st\<lparr>al_Ambiguous := al_Ambiguous st + 1\<rparr>
      else if d = ''MATCH_UNRESOLVED'' then st\<lparr>al_Unresolved := al_Unresolved st + 1\<rparr>
      else if d = ''MATCH_CONFLICTED'' then st\<lparr>al_Conflicted := al_Conflicted st + 1\<rparr>
      else st)"

definition refuse_intent ::
    "attach_env \<Rightarrow> AttachmentJob \<Rightarrow> CanonicalIntent \<Rightarrow> attach_state \<Rightarrow> attach_state" where
  "refuse_intent e job intent st =
     st\<lparr>al_Drawn := al_Drawn st + 1,
        al_Decisions := al_Decisions st
          @ [buildUnresolvedDecision (ae_Uuid e (al_Drawn st)) job intent ''GOVERNANCE_STATE_NON_ATTACHABLE''],
        al_Unresolved := al_Unresolved st + 1\<rparr>"

text \<open>Claim the winner, when the decision attaches it.\<close>

definition claim_winner :: "AttachmentDecision \<Rightarrow> attach_state \<Rightarrow> attach_state" where
  "claim_winner d st =
     (case ad_SettlementObservationID d of
        Some w \<Rightarrow>
          if attaches (ad_DecisionType d)
            then st\<lparr>al_Claimed := w # al_Claimed st, al_Matched := w # al_Matched st\<rparr> else st
      | None \<Rightarrow> st)"

text \<open>Record the variance of the winner, when it is among the observations.\<close>

definition record_variance ::
    "attach_env \<Rightarrow> AttachmentJob \<Rightarrow> CanonicalIntent \<Rightarrow> CanonicalSettlementObservation list
     \<Rightarrow> AttachmentDecision \<Rightarrow> attach_state \<Rightarrow> attach_state" where
  "record_variance e job intent observations d st =
     (case ad_SettlementObservationID d of
        None \<Rightarrow> st
      | Some w \<Rightarrow>
          (case List.find (\<lambda>o'. ao_SettlementObservationID o' = w) observations of
             None \<Rightarrow> st
           | Some obs \<Rightarrow>
               st\<lparr>al_ClientBatchRef :=
                    (if al_ClientBatchRef st = None then ai_ClientBatchRef intent else al_ClientBatchRef st),
                  al_MatchedIntended := al_MatchedIntended st + ai_Amount intent,
                  al_Drawn := al_Drawn st + 1,
                  al_Variances := al_Variances st
                    @ [variance_record e job intent obs (ad_AttachmentDecisionID d)
                         (ae_Uuid e (al_Drawn st))]\<rparr>))"

definition loaded_candidates ::
    "(string \<times> CanonicalSettlementObservation list) list \<Rightarrow> CanonicalIntent
     \<Rightarrow> CanonicalSettlementObservation list" where
  "loaded_candidates candidatesMap intent =
     (case map_of candidatesMap (ai_IntentID intent) of Some os \<Rightarrow> os | None \<Rightarrow> [])"

text \<open>Note the scanned observations, the candidate rows and the decision of an intent.\<close>

definition note_decision ::
    "attach_env \<Rightarrow> AttachmentJob \<Rightarrow> CanonicalIntent \<Rightarrow> CanonicalSettlementObservation list
     \<Rightarrow> CandidateScore list \<Rightarrow> AttachmentDecision \<Rightarrow> attach_state \<Rightarrow> attach_state" where
  "note_decision e job intent observations scored d st =
     st\<lparr>al_Scanned := fold (\<lambda>o'. alist_put (ao_SettlementObservationID o') o')
          observations (al_Scanned st),
        al_Candidates := al_Candidates st
          @ buildCandidateRows e job (al_Drawn st) (ai_IntentID intent) scored,
        al_ObsDecisionTypes := al_ObsDecisionTypes st
          @ map (\<lambda>cs. (xs_SettlementObservationID cs, ad_DecisionType d)) scored,
        al_Drawn := al_Drawn st + length scored + 1,
        al_Decisions := al_Decisions st @ [d]\<rparr>"

definition settle_intent ::
    "attach_env \<Rightarrow> AttachmentJob \<Rightarrow> CanonicalIntent \<Rightarrow> CanonicalSettlementObservation list
     \<Rightarrow> CandidateScore list \<Rightarrow> AttachmentDecision \<Rightarrow> attach_state \<Rightarrow> attach_state" where
  "settle_intent e job intent observations scored d st =
     count_decision (ad_DecisionType d)
       (record_variance e job intent observations d
         (claim_winner d (note_decision e job intent observations scored d st)))"

text \<open>Decide on the ranked candidates of an intent and settle it.\<close>

fun decide_intent ::
    "attach_env \<Rightarrow> AttachmentJob \<Rightarrow> AttachmentRuleProfile \<Rightarrow> CanonicalIntent
     \<Rightarrow> CanonicalSettlementObservation list \<Rightarrow> CandidateScore list \<times> string \<times> string
     \<Rightarrow> attach_state \<Rightarrow> attach_state" where
  "decide_intent e job profile intent observations (scored, decisionType, reasonCode) st =
     settle_intent e job intent observations scored
       (build_decision e job (parseRuleProfile (Some profile)) intent observations scored
          decisionType reasonCode (al_Claimed st) (ae_Uuid e (al_Drawn st + length scored))) st"

definition attach_intent ::
    "attach_env \<Rightarrow> AttachmentJob \<Rightarrow> AttachmentRuleProfile
     \<Rightarrow> (string \<times> CanonicalSettlementObservation list) list \<Rightarrow> CanonicalIntent
     \<Rightarrow> attach_state \<Rightarrow> attach_state" where
  "attach_intent e job profile candidatesMap intent st =
     (if ai_GovernanceState intent \<in> set nonAttachableGovernanceStates then refuse_intent e job intent st
      else
        let observations = filter (\<lambda>o'. ao_SettlementObservationID o' \<notin> set (al_Claimed st))
              (loaded_candidates candidatesMap intent)
        in decide_intent e job profile intent observations
             (rank_candidates e profile intent observations) st)"

definition attach_loop ::
    "attach_env \<Rightarrow> AttachmentJob \<Rightarrow> AttachmentRuleProfile
     \<Rightarrow> (string \<times> CanonicalSettlementObservation list) list \<Rightarrow> CanonicalIntent list
     \<Rightarrow> attach_state" where
  "attach_loop e job profile candidatesMap intents =
     fold (attach_intent e job profile candidatesMap) intents attach_start"

section \<open>The reverse scan and the open intents\<close>

definition orphan_reason :: "(string \<times> string) list \<Rightarrow> string \<Rightarrow> string" where
  "orphan_reason obsDecisionTypes obsID =
     (if (obsID, ''MATCH_CONFLICTED'') \<in> set obsDecisionTypes then ''ONLY_CONFLICTED_CANDIDATES_FOUND''
      else if (obsID, ''MATCH_AMBIGUOUS'') \<in> set obsDecisionTypes then ''ONLY_AMBIGUOUS_CANDIDATES_FOUND''
      else ''NO_INTENT_FOUND'')"

text \<open>One new identifier per row, from the n-th on.\<close>

definition number_rows :: "attach_env \<Rightarrow> nat \<Rightarrow> (string \<Rightarrow> 'a \<Rightarrow> 'b) \<Rightarrow> 'a list \<Rightarrow> 'b list" where
  "number_rows e n f xs = map (\<lambda>(i, x). f (ae_Uuid e (n + i)) x) (zip [0 ..< length xs] xs)"

definition performReverseScanOrphans ::
    "attach_env \<Rightarrow> AttachmentJob \<Rightarrow> string \<Rightarrow> (string \<times> CanonicalSettlementObservation) list
     \<Rightarrow> string list \<Rightarrow> (string \<times> string) list \<Rightarrow> nat \<Rightarrow> OrphanSettlementRecord list" where
  "performReverseScanOrphans e job batchRef master matched obsDecisionTypes n =
     number_rows e n
       (\<lambda>rowID (obsID, obs). \<lparr>ah_OrphanID = rowID, ah_TenantID = aj_TenantID job,
          ah_AttachmentJobID = aj_AttachmentJobID job, ah_SettlementObservationID = obsID,
          ah_BatchID = Some batchRef, ah_UnresolvedReason = orphan_reason obsDecisionTypes obsID,
          ah_Amount = ao_Amount obs, ah_CurrencyCode = ao_CurrencyCode obs\<rparr>)
       (filter (\<lambda>(obsID, obs). obsID \<notin> set matched) master)"

definition intentByID :: "CanonicalIntent list \<Rightarrow> string \<Rightarrow> CanonicalIntent option" where
  "intentByID intents = map_of (rev (map (\<lambda>i. (ai_IntentID i, i)) intents))"

fun unresolvedIntentReasonCode :: "string \<Rightarrow> string" where
  "unresolvedIntentReasonCode [] = ''NO_SETTLEMENT_OBSERVATION_FOUND''"
| "unresolvedIntentReasonCode code = code"

text \<open>
  The records of the intents whose decision has the given type: \<open>buildAmbiguousIntentRecords\<close>,
  \<open>buildConflictedIntentRecords\<close> and \<open>buildUnresolvedIntentRecords\<close>, which differ in
  the type and in the reason.
\<close>

definition build_open_records ::
    "string \<Rightarrow> (AttachmentDecision \<Rightarrow> string) \<Rightarrow> attach_env \<Rightarrow> AttachmentJob \<Rightarrow> string option
     \<Rightarrow> CanonicalIntent list \<Rightarrow> AttachmentDecision list \<Rightarrow> nat \<Rightarrow> OpenIntentRecord list" where
  "build_open_records decisionType reason e job batchRef intents decisions n =
     number_rows e n
       (\<lambda>rowID (d, intent). \<lparr>ar_RecordID = rowID, ar_TenantID = aj_TenantID job,
          ar_AttachmentJobID = aj_AttachmentJobID job, ar_IntentID = ai_IntentID intent,
          ar_BatchID = batchRef,
          ar_ExpectedWindowEnd = map_option (\<lambda>t. t + three_days) (ai_IntendedExecutionAt intent),
          ar_ReasonCode = reason d, ar_Amount = ai_Amount intent,
          ar_CurrencyCode = ai_CurrencyCode intent\<rparr>)
       (List.map_filter (\<lambda>d. map_option (Pair d) (intentByID intents (ad_IntentID d)))
          (filter (\<lambda>d. ad_DecisionType d = decisionType) decisions))"

definition buildAmbiguousIntentRecords where
  "buildAmbiguousIntentRecords =
     build_open_records ''MATCH_AMBIGUOUS'' (\<lambda>d. ''ONLY_AMBIGUOUS_CANDIDATES_FOUND'')"

definition buildConflictedIntentRecords where
  "buildConflictedIntentRecords =
     build_open_records ''MATCH_CONFLICTED'' (\<lambda>d. ''ONLY_CONFLICTED_CANDIDATES_FOUND'')"

definition buildUnresolvedIntentRecords where
  "buildUnresolvedIntentRecords =
     build_open_records ''MATCH_UNRESOLVED'' (\<lambda>d. unresolvedIntentReasonCode (ad_DecisionReasonCode d))"

section \<open>The batch summary\<close>

definition clamp01 :: "rat \<Rightarrow> rat" where
  "clamp01 r = (if r > 1 then 1 else if r < 0 then 0 else r)"

definition ratioCoverage :: "rat \<Rightarrow> rat \<Rightarrow> rat" where
  "ratioCoverage numerator denominator =
     (if denominator \<le> 0 then 0 else clamp01 (numerator / denominator))"

definition decimalCoverage :: "(rat \<Rightarrow> rat \<Rightarrow> rat) \<Rightarrow> rat \<Rightarrow> rat \<Rightarrow> rat" where
  "decimalCoverage quot numerator denominator =
     (if denominator = 0 then 0 else clamp01 (quot numerator denominator))"

definition of_type :: "string \<Rightarrow> AttachmentDecision list \<Rightarrow> AttachmentDecision list" where
  "of_type t ds = filter (\<lambda>d. ad_DecisionType d = t) ds"

definition count_type :: "string \<Rightarrow> AttachmentDecision list \<Rightarrow> int" where
  "count_type t ds = int (length (of_type t ds))"

fun or_zero :: "rat option \<Rightarrow> rat" where
  "or_zero (Some x) = x"
| "or_zero None = 0"

definition intent_amount :: "CanonicalIntent list \<Rightarrow> AttachmentDecision \<Rightarrow> rat" where
  "intent_amount intents d = or_zero (map_option ai_Amount (intentByID intents (ad_IntentID d)))"

definition mean_over :: "(AttachmentDecision \<Rightarrow> rat) \<Rightarrow> AttachmentDecision list \<Rightarrow> rat" where
  "mean_over f ds =
     (let scored = filter (\<lambda>d. ad_DecisionType d \<noteq> ''MATCH_UNRESOLVED'') ds;
          total = (\<Sum>d \<leftarrow> scored. f d)
      in if scored \<noteq> [] then total / of_nat (length scored) else total)"

definition batch_status :: "BatchAttachmentSummary \<Rightarrow> string" where
  "batch_status s =
     (if as_AmbiguousCount s > 0 \<or> as_ConflictedCount s > 0 then ''REQUIRES_REVIEW''
      else if as_UnresolvedCount s > 0 \<or> as_OrphanObservationCount s > 0 then ''PARTIALLY_RECONCILED''
      else if as_NetUnexplainedVariance s > 0 then ''REQUIRES_REVIEW''
      else ''FULLY_RECONCILED'')"

text \<open>The part of \<open>computeBatchSummary\<close> before the decisions are looked at.\<close>

definition summary_start ::
    "string \<Rightarrow> AttachmentJob \<Rightarrow> string \<Rightarrow> string option \<Rightarrow> CanonicalIntent list
     \<Rightarrow> VarianceRecord list \<Rightarrow> OrphanSettlementRecord list \<Rightarrow> (string \<times> rat) list \<Rightarrow> rat \<Rightarrow> rat
     \<Rightarrow> BatchAttachmentSummary" where
  "summary_start summaryID job scopeRef batchRef intents variances orphans obsAmountMap
       matchedIntended originalObserved =
     (let attached = map av_SettlementObservationID variances;
          observed = (\<Sum>(obsID, amount) \<leftarrow> obsAmountMap. if obsID \<in> set attached then amount else 0)
      in \<lparr>as_BatchAttachmentSummaryID = summaryID, as_TenantID = aj_TenantID job,
          as_BatchID = batchRef, as_SourceReference = scopeRef,
          as_AttachmentJobID = aj_AttachmentJobID job, as_TotalIntentCount = int (length intents),
          as_TotalObservationCount = int (length obsAmountMap), as_MatchedIntentCount = 0,
          as_MatchedObservationCount = 0, as_ExactMatchCount = 0, as_HighConfidenceCount = 0,
          as_AmbiguousCount = 0, as_UnresolvedCount = 0, as_ConflictedCount = 0,
          as_OrphanObservationCount = int (length orphans), as_TotalIntendedAmount = matchedIntended,
          as_OriginalIntendedAmount = (\<Sum>i \<leftarrow> intents. ai_Amount i), as_MatchedIntendedAmount = 0,
          as_UnresolvedIntendedAmount = 0, as_AmbiguousAmount = 0, as_ConflictedAmount = 0,
          as_TotalObservedAmount = observed, as_OriginalSettledAmount = originalObserved,
          as_MatchedObservedAmount = 0, as_OrphanObservedAmount = (\<Sum>o' \<leftarrow> orphans. ah_Amount o'),
          as_TotalFeeAmount = 0, as_TotalDeductionAmount = 0, as_TotalVariance = 0,
          as_MatchedPairVariance = 0, as_NetBatchDelta = 0, as_NetUnexplainedVariance = 0,
          as_IntentCountCoverage = 0, as_IntentValueCoverage = 0,
          as_ObservedCountAllocationCoverage = 0, as_ObservedValueAllocationCoverage = 0,
          as_BatchAttachmentStatus = [], as_AggregateScore = 0, as_AggregateMatchConfidence = 0,
          as_AmbiguityScore = 0\<rparr>)"

definition computeBatchSummary ::
    "attach_env \<Rightarrow> string \<Rightarrow> AttachmentJob \<Rightarrow> string \<Rightarrow> string option \<Rightarrow> CanonicalIntent list
     \<Rightarrow> AttachmentDecision list \<Rightarrow> VarianceRecord list \<Rightarrow> OrphanSettlementRecord list
     \<Rightarrow> (string \<times> rat) list \<Rightarrow> rat \<Rightarrow> rat \<Rightarrow> OpenIntentRecord list \<Rightarrow> OpenIntentRecord list
     \<Rightarrow> BatchAttachmentSummary" where
  "computeBatchSummary e summaryID job scopeRef batchRef intents decisions variances orphans
       obsAmountMap matchedIntended originalObserved ambiguous conflicted =
     (let s = summary_start summaryID job scopeRef batchRef intents variances orphans obsAmountMap
            matchedIntended originalObserved
      in if decisions = [] then s\<lparr>as_BatchAttachmentStatus := ''FAILED''\<rparr>
         else
           let exact = count_type ''MATCH_EXACT'' decisions;
               high = count_type ''MATCH_HIGH_CONFIDENCE'' decisions;
               pair_variance = (\<Sum>v \<leftarrow> variances. \<bar>av_AmountVariance v\<bar>);
               fees = (\<Sum>v \<leftarrow> variances. or_zero (av_FeeVariance v));
               deductions = (\<Sum>v \<leftarrow> variances. or_zero (av_DeductionVariance v));
               s = s\<lparr>as_ExactMatchCount := exact, as_HighConfidenceCount := high,
                 as_UnresolvedCount := count_type ''MATCH_UNRESOLVED'' decisions,
                 as_UnresolvedIntendedAmount :=
                   (\<Sum>d \<leftarrow> of_type ''MATCH_UNRESOLVED'' decisions. intent_amount intents d),
                 as_MatchedIntentCount := exact + high,
                 as_MatchedObservationCount := int (length variances),
                 as_MatchedIntendedAmount := matchedIntended,
                 as_MatchedObservedAmount := as_TotalObservedAmount s,
                 as_NetBatchDelta := \<bar>as_OriginalSettledAmount s - as_OriginalIntendedAmount s\<bar>,
                 as_MatchedPairVariance := pair_variance, as_TotalFeeAmount := fees,
                 as_TotalDeductionAmount := deductions, as_TotalVariance := pair_variance,
                 as_NetUnexplainedVariance := \<bar>pair_variance - fees - deductions\<bar>\<rparr>;
               s = s\<lparr>as_IntentCountCoverage :=
                   ratioCoverage (of_int (as_MatchedIntentCount s)) (of_int (as_TotalIntentCount s)),
                 as_IntentValueCoverage :=
                   decimalCoverage (ae_Quot e) (as_MatchedIntendedAmount s) (as_OriginalIntendedAmount s),
                 as_ObservedCountAllocationCoverage :=
                   ratioCoverage (of_int (as_MatchedObservationCount s)) (of_int (as_TotalObservationCount s)),
                 as_ObservedValueAllocationCoverage :=
                   decimalCoverage (ae_Quot e) (as_MatchedObservedAmount s) (as_OriginalSettledAmount s),
                 as_AggregateScore := mean_over ad_ConfidenceScore decisions,
                 as_AggregateMatchConfidence := mean_over ad_MatchConfidence decisions,
                 as_AmbiguityScore := mean_over ad_AmbiguityScore decisions,
                 as_AmbiguousCount := int (length ambiguous),
                 as_AmbiguousAmount := (\<Sum>r \<leftarrow> ambiguous. ar_Amount r),
                 as_ConflictedCount := int (length conflicted),
                 as_ConflictedAmount := (\<Sum>r \<leftarrow> conflicted. ar_Amount r)\<rparr>
           in s\<lparr>as_BatchAttachmentStatus := batch_status s\<rparr>)"

section \<open>The outputs of a run\<close>

record attach_outputs =
  ax_State :: attach_state
  ax_Orphans :: "OrphanSettlementRecord list"
  ax_Ambiguous :: "OpenIntentRecord list"
  ax_Conflicted :: "OpenIntentRecord list"
  ax_Unresolved :: "OpenIntentRecord list"
  ax_Summary :: BatchAttachmentSummary

definition effective_observations ::
    "(string \<times> CanonicalSettlementObservation) list \<Rightarrow> attach_state
     \<Rightarrow> (string \<times> CanonicalSettlementObservation) list" where
  "effective_observations master st = (if master = [] then al_Scanned st else master)"

text \<open>
  \<open>runAttachment\<close> between loading and storing: the loop, the reverse scan (for the batch and
  ingest-run scopes), the records of the open intents, and the summary.
\<close>

definition outputs_from ::
    "attach_env \<Rightarrow> AttachmentJob \<Rightarrow> (string \<times> CanonicalSettlementObservation) list
     \<Rightarrow> CanonicalIntent list \<Rightarrow> attach_state \<Rightarrow> attach_outputs" where
  "outputs_from e job master intents st =
     (let effective = effective_observations master st;
          obsAmountMap = map (\<lambda>(i, obs). (i, observedSettlementAmount obs)) effective;
          originalObserved = (\<Sum>(i, a) \<leftarrow> obsAmountMap. a);
          batch = al_ClientBatchRef st; n = al_Drawn st;
          orphans = (if aj_JobScopeType job \<in> {''SETTLEMENT_BATCH'', ''INGEST_RUN''}
            then performReverseScanOrphans e job (aj_ScopeRef job) effective (al_Matched st)
              (al_ObsDecisionTypes st) n else []);
          n = n + length orphans;
          ambiguous = buildAmbiguousIntentRecords e job batch intents (al_Decisions st) n;
          n = n + length ambiguous;
          conflicted = buildConflictedIntentRecords e job batch intents (al_Decisions st) n;
          n = n + length conflicted;
          unresolved = buildUnresolvedIntentRecords e job batch intents (al_Decisions st) n;
          n = n + length unresolved
      in \<lparr>ax_State = st, ax_Orphans = orphans, ax_Ambiguous = ambiguous,
          ax_Conflicted = conflicted, ax_Unresolved = unresolved,
          ax_Summary = computeBatchSummary e (ae_Uuid e n) job (aj_ScopeRef job) batch intents
            (al_Decisions st) (al_Variances st) orphans obsAmountMap (al_MatchedIntended st)
            originalObserved ambiguous conflicted\<rparr>)"

definition attach_outputs_of ::
    "attach_env \<Rightarrow> AttachmentJob \<Rightarrow> AttachmentRuleProfile
     \<Rightarrow> (string \<times> CanonicalSettlementObservation) list
     \<Rightarrow> (string \<times> CanonicalSettlementObservation list) list \<Rightarrow> CanonicalIntent list
     \<Rightarrow> attach_outputs" where
  "attach_outputs_of e job profile master candidatesMap intents =
     outputs_from e job master intents (attach_loop e job profile candidatesMap intents)"

end
