(* ===== verification/AttachLaws.thy ===== *)
theory AttachLaws
  imports AttachEngine
begin

text \<open>
  What the attachment run guarantees.  \<open>attach_intent_step\<close> says what one intent adds to the
  state of the run, and \<open>attach_inv\<close> collects what holds after any number of them; the
  laws of the whole run are read off that invariant.
\<close>

section \<open>Ranked candidates\<close>

text \<open>What \<open>sort.Slice\<close> by descending total promises.\<close>

definition ranks_by_total :: "attach_env \<Rightarrow> bool" where
  "ranks_by_total e \<longleftrightarrow>
     (\<forall>xs. mset (ae_Rank e xs) = mset xs \<and> sorted_wrt (\<lambda>a b. xs_Total b \<le> xs_Total a) (ae_Rank e xs))"

lemma ranks_mset: "ranks_by_total e \<Longrightarrow> mset (ae_Rank e xs) = mset xs"
  and ranks_sorted: "ranks_by_total e \<Longrightarrow> sorted_wrt (\<lambda>a b. xs_Total b \<le> xs_Total a) (ae_Rank e xs)"
  by (simp_all add: ranks_by_total_def)

lemma with_buckets_same:
  "map xs_SettlementObservationID (with_buckets th xs) = map xs_SettlementObservationID xs"
  "map xs_Total (with_buckets th xs) = map xs_Total xs"
  "length (with_buckets th xs) = length xs"
  "with_buckets th xs = [] \<longleftrightarrow> xs = []"
  by (cases xs; simp)+

lemma select_keeps:
  assumes "SelectDecisionType ranked profile = (ranked', d, why)"
  shows "map xs_SettlementObservationID ranked' = map xs_SettlementObservationID ranked"
    "map xs_Total ranked' = map xs_Total ranked" "length ranked' = length ranked"
  using select_reranked [OF assms] by auto

text \<open>The best candidate of an attaching decision is the score of one of the observations.\<close>

lemma rank_candidates_ids:
  assumes "ranks_by_total e" "rank_candidates e profile intent observations = (scored, d, why)"
  shows "mset (map xs_SettlementObservationID scored) = mset (map ao_SettlementObservationID observations)"
    "sorted_wrt (\<lambda>a b. xs_Total b \<le> xs_Total a) scored"
proof -
  let ?all = "score_all profile intent observations"
  obtain ranked where sel: "SelectDecisionType (ae_Rank e ?all) (Some profile) = (ranked, d, why)"
    and scored: "scored = with_buckets (cfg_ManualReviewThresholds (parseRuleProfile (Some profile))) ranked"
    using assms(2) by (auto simp: rank_candidates_def split: prod.splits)
  have "map xs_SettlementObservationID scored = map xs_SettlementObservationID (ae_Rank e ?all)"
    by (simp add: scored with_buckets_same select_keeps [OF sel])
  then have "mset (map xs_SettlementObservationID scored) = image_mset xs_SettlementObservationID (mset ?all)"
    by (metis mset_map ranks_mset [OF assms(1)])
  also have "\<dots> = mset (map ao_SettlementObservationID observations)"
    by (simp add: score_all_def image_mset.compositionality comp_def)
  finally show "mset (map xs_SettlementObservationID scored) = mset (map ao_SettlementObservationID observations)" .
  have "map xs_Total scored = map xs_Total (ae_Rank e ?all)"
    by (simp add: scored with_buckets_same select_keeps [OF sel])
  moreover have "sorted_wrt (\<lambda>a b. b \<le> a) (map xs_Total (ae_Rank e ?all))"
    using ranks_sorted [OF assms(1), of ?all] by (simp add: sorted_wrt_map)
  ultimately have "sorted_wrt (\<lambda>a b. b \<le> a) (map xs_Total scored)" by simp
  then show "sorted_wrt (\<lambda>a b. xs_Total b \<le> xs_Total a) scored" by (simp add: sorted_wrt_map)
qed

text \<open>What an attachment rests on.\<close>

definition exact_carrier :: "CanonicalIntent \<Rightarrow> CanonicalSettlementObservation \<Rightarrow> bool" where
  "exact_carrier intent obs \<longleftrightarrow>
     same_carrier (ai_ZordSignatureCarrier intent) (ao_ZordSignatureCarrier obs)
     \<or> same_carrier (ai_ClientPayoutRef intent) (ao_ClientReferenceCandidate obs)
     \<or> same_carrier (ai_BusinessIdempotencyKey intent) (ao_ClientReferenceCandidate obs)"

definition justified ::
    "AttachmentRuleProfile \<Rightarrow> CanonicalIntent \<Rightarrow> CanonicalSettlementObservation \<Rightarrow> string \<Rightarrow> bool" where
  "justified profile intent obs d \<longleftrightarrow>
     (let policy = parseRuleProfile (Some profile)
      in exact_carrier intent obs \<and> same_currency intent obs
         \<and> (d = ''MATCH_EXACT'' \<longrightarrow>
              (same_carrier (ai_ZordSignatureCarrier intent) (ao_ZordSignatureCarrier obs)
               \<or> same_carrier (ai_ClientPayoutRef intent) (ao_ClientReferenceCandidate obs))
              \<and> within_tolerance policy intent obs)
         \<and> (d = ''MATCH_HIGH_CONFIDENCE'' \<longrightarrow>
              th_HighConfidenceScore (cfg_ManualReviewThresholds policy)
                \<le> xs_Total (ScoreCandidate obs intent (Some profile))))"

lemma justified_by_bucket:
  assumes best: "best = (ScoreCandidate obs intent (Some profile))\<lparr>xs_SettlementObservationID := i, xs_IntentID := j\<rparr>"
    and d: "d = ''MATCH_EXACT'' \<and> ClassifyConfidenceContext best ranked
              (cfg_ManualReviewThresholds (parseRuleProfile (Some profile))) = ''EXACT''
          \<or> d = ''MATCH_HIGH_CONFIDENCE'' \<and> ClassifyConfidenceContext best ranked
              (cfg_ManualReviewThresholds (parseRuleProfile (Some profile))) = ''HIGH''"
  shows "justified profile intent obs d"
  using d
proof (elim disjE conjE)
  assume *: "d = ''MATCH_EXACT''" "ClassifyConfidenceContext best ranked
    (cfg_ManualReviewThresholds (parseRuleProfile (Some profile))) = ''EXACT''"
  from classify_exact [OF *(2)] *(1) show ?thesis
    by (simp add: best justified_def exact_carrier_def Let_def disj_commute)
next
  assume *: "d = ''MATCH_HIGH_CONFIDENCE''" "ClassifyConfidenceContext best ranked
    (cfg_ManualReviewThresholds (parseRuleProfile (Some profile))) = ''HIGH''"
  from classify_high [OF *(2)] *(1) show ?thesis
    by (simp add: best justified_def exact_carrier_def Let_def)
qed

lemma rank_candidates_attach:
  assumes "ranks_by_total e" "rank_candidates e profile intent observations = (scored, d, why)" "attaches d"
  obtains best rest obs where "scored = best # rest" "obs \<in> set observations"
    "xs_SettlementObservationID best = ao_SettlementObservationID obs" "justified profile intent obs d"
proof -
  let ?all = "score_all profile intent observations"
  obtain ranked where sel: "SelectDecisionType (ae_Rank e ?all) (Some profile) = (ranked, d, why)"
    and scored: "scored = with_buckets (cfg_ManualReviewThresholds (parseRuleProfile (Some profile))) ranked"
    using assms(2) by (auto simp: rank_candidates_def split: prod.splits)
  from sel assms(3) obtain b rest bucket where r: "ae_Rank e ?all = b # rest"
    and bucket: "bucket = ClassifyConfidenceContext b (ae_Rank e ?all)
      (cfg_ManualReviewThresholds (parseRuleProfile (Some profile)))"
      "d = ''MATCH_EXACT'' \<and> bucket = ''EXACT'' \<or> d = ''MATCH_HIGH_CONFIDENCE'' \<and> bucket = ''HIGH''"
    by (rule select_attaches)
  have "b \<in> set ?all" using r ranks_mset [OF assms(1), of ?all] by (metis list.set_intros(1) mset_eq_setD)
  then obtain obs where obs: "obs \<in> set observations"
    and b: "b = (ScoreCandidate obs intent (Some profile))
      \<lparr>xs_SettlementObservationID := ao_SettlementObservationID obs, xs_IntentID := ai_IntentID intent\<rparr>"
    by (auto simp: score_all_def)
  from select_keeps(1) [OF sel] r obtain best rest' where "scored = best # rest'"
    "xs_SettlementObservationID best = xs_SettlementObservationID b"
    by (cases ranked) (auto simp: scored)
  moreover have "justified profile intent obs d"
    using bucket by (intro justified_by_bucket [OF b]) simp
  ultimately show thesis using that obs b by simp
qed

lemma rank_candidates_types:
  assumes "rank_candidates e profile intent observations = (scored, d, why)"
  shows "attaches d \<or> d \<in> {''MATCH_AMBIGUOUS'', ''MATCH_CONFLICTED'', ''MATCH_UNRESOLVED''}"
  using assms by (auto simp: rank_candidates_def split: prod.splits dest!: select_types)

section \<open>One intent\<close>

definition open_type :: "string \<Rightarrow> bool" where
  "open_type d \<longleftrightarrow> d \<in> {''MATCH_AMBIGUOUS'', ''MATCH_CONFLICTED'', ''MATCH_UNRESOLVED''}"

lemma open_type_simps [simp]: "open_type ''MATCH_AMBIGUOUS''" "open_type ''MATCH_UNRESOLVED''"
  "open_type d \<Longrightarrow> \<not> attaches d" "attaches d \<Longrightarrow> \<not> open_type d"
  by (auto simp: open_type_def attaches_def)

lemma select_winner_attached:
  assumes "attaches d" "scored = best # rest" "xs_SettlementObservationID best \<notin> set claimed"
  shows "select_winner claimed scored d why = (Some (xs_SettlementObservationID best), d, why)"
  using assms by (auto simp: select_winner_def attaches_def)

lemma select_winner_open: "open_type d \<Longrightarrow> select_winner claimed scored d why = (None, d, why)"
  by (auto simp: select_winner_def open_type_def split: list.split)

lemma build_decision_winner:
  assumes "select_winner claimed scored d why = (winner, d', why')"
  shows "ad_SettlementObservationID (build_decision e job policy intent observations scored d why claimed i) = winner"
    "ad_DecisionType (build_decision e job policy intent observations scored d why claimed i) = d'"
    "ad_DecisionReasonCode (build_decision e job policy intent observations scored d why claimed i) = why'"
    "ad_IntentID (build_decision e job policy intent observations scored d why claimed i) = ai_IntentID intent"
    "ad_AttachmentDecisionID (build_decision e job policy intent observations scored d why claimed i) = i"
  using assms by (simp_all add: build_decision_def Let_def split: prod.split)

lemma count_decision_frame [simp]:
  "al_Decisions (count_decision d st) = al_Decisions st" "al_Variances (count_decision d st) = al_Variances st"
  "al_Claimed (count_decision d st) = al_Claimed st" "al_Matched (count_decision d st) = al_Matched st"
  "al_MatchedIntended (count_decision d st) = al_MatchedIntended st"
  "al_ObsDecisionTypes (count_decision d st) = al_ObsDecisionTypes st"
  "al_Scanned (count_decision d st) = al_Scanned st"
  by (simp_all add: count_decision_def)

lemma variance_record_of [simp]:
  "av_SettlementObservationID (variance_record e job intent obs i j) = ao_SettlementObservationID obs"
  "av_AttachmentDecisionID (variance_record e job intent obs i j) = i"
  "av_IntentID (variance_record e job intent obs i j) = ai_IntentID intent"
  by (simp_all add: variance_record_def split: prod.split)

text \<open>
  An intent either stays open, or has one unclaimed candidate attached, which then is claimed and
  has one variance record.
\<close>

definition settles ::
    "AttachmentRuleProfile \<Rightarrow> CanonicalSettlementObservation list \<Rightarrow> CanonicalIntent
     \<Rightarrow> attach_state \<Rightarrow> attach_state \<Rightarrow> bool" where
  "settles profile loaded intent st st' \<longleftrightarrow>
     (\<exists>d. al_Decisions st' = al_Decisions st @ [d] \<and> ad_IntentID d = ai_IntentID intent \<and>
       (ad_SettlementObservationID d = None \<and> open_type (ad_DecisionType d)
          \<and> al_Claimed st' = al_Claimed st \<and> al_Matched st' = al_Matched st
          \<and> al_MatchedIntended st' = al_MatchedIntended st \<and> al_Variances st' = al_Variances st
        \<or> (\<exists>obs \<in> set loaded. \<exists>v. ad_SettlementObservationID d = Some (ao_SettlementObservationID obs)
            \<and> ao_SettlementObservationID obs \<notin> set (al_Claimed st) \<and> attaches (ad_DecisionType d)
            \<and> justified profile intent obs (ad_DecisionType d)
            \<and> ai_GovernanceState intent \<notin> set nonAttachableGovernanceStates
            \<and> al_Claimed st' = ao_SettlementObservationID obs # al_Claimed st
            \<and> al_Matched st' = ao_SettlementObservationID obs # al_Matched st
            \<and> al_MatchedIntended st' = al_MatchedIntended st + ai_Amount intent
            \<and> al_Variances st' = al_Variances st @ [v]
            \<and> av_SettlementObservationID v = ao_SettlementObservationID obs)))"

lemma attach_intent_step:
  assumes ranks: "ranks_by_total e"
  shows "settles profile (loaded_candidates cm intent) intent st (attach_intent e job profile cm intent st)"
proof (cases "ai_GovernanceState intent \<in> set nonAttachableGovernanceStates")
  case True
  then show ?thesis
    by (auto simp: settles_def attach_intent_def refuse_intent_def buildUnresolvedDecision_def)
next
  case allowed: False
  let ?obs = "filter (\<lambda>o'. ao_SettlementObservationID o' \<notin> set (al_Claimed st)) (loaded_candidates cm intent)"
  obtain scored d why where rc: "rank_candidates e profile intent ?obs = (scored, d, why)"
    by (metis prod_cases3)
  let ?d = "build_decision e job (parseRuleProfile (Some profile)) intent ?obs scored d why
    (al_Claimed st) (ae_Uuid e (al_Drawn st + length scored))"
  from rank_candidates_types [OF rc] consider "open_type d" | "attaches d"
    by (auto simp: open_type_def)
  then show ?thesis
  proof cases
    case 1
    note w = build_decision_winner [OF select_winner_open [OF 1]]
    show ?thesis
      unfolding settles_def
      by (rule exI [of _ ?d])
        (simp add: attach_intent_def settle_intent_def note_decision_def allowed rc Let_def w claim_winner_def record_variance_def 1)
  next
    case 2
    from ranks rc 2 obtain best rest obs where best: "scored = best # rest"
      "xs_SettlementObservationID best = ao_SettlementObservationID obs" "obs \<in> set ?obs"
      and just: "justified profile intent obs d"
      by (rule rank_candidates_attach)
    then have fresh: "ao_SettlementObservationID obs \<notin> set (al_Claimed st)"
      and mem: "obs \<in> set (loaded_candidates cm intent)" by auto
    from best fresh have "select_winner (al_Claimed st) scored d why = (Some (ao_SettlementObservationID obs), d, why)"
      using select_winner_attached [OF 2 best(1)] by simp
    note w = build_decision_winner [OF this]
    obtain o' where o': "List.find (\<lambda>o'. ao_SettlementObservationID o' = ao_SettlementObservationID obs) ?obs = Some o'"
      using best(3) by (metis (mono_tags, lifting) find_None_all option.exhaust)
    from find_SomeD [OF o'] have id: "ao_SettlementObservationID o' = ao_SettlementObservationID obs" by simp
    show ?thesis
      unfolding settles_def
      by (rule exI [of _ ?d], rule conjI, simp add: attach_intent_def settle_intent_def note_decision_def allowed rc Let_def claim_winner_def w 2
            record_variance_def o', rule conjI, simp add: w, rule disjI2, rule bexI [OF _ mem],
          rule exI [of _ "variance_record e job intent o' (ad_AttachmentDecisionID ?d)
            (ae_Uuid e (al_Drawn st + length scored + 1))"])
        (simp add: attach_intent_def settle_intent_def note_decision_def allowed rc Let_def claim_winner_def w 2 record_variance_def o'
           fresh just id)
  qed
qed

section \<open>The whole loop\<close>

definition attached_ids :: "AttachmentDecision list \<Rightarrow> string list" where
  "attached_ids ds = List.map_filter ad_SettlementObservationID ds"

lemma attached_ids_simps [simp]:
  "attached_ids [] = []" "attached_ids (ds @ ds') = attached_ids ds @ attached_ids ds'"
  "ad_SettlementObservationID d = None \<Longrightarrow> attached_ids [d] = []"
  "ad_SettlementObservationID d = Some w \<Longrightarrow> attached_ids [d] = [w]"
  by (simp_all add: attached_ids_def List.map_filter_def)

lemma attached_ids_map: "attached_ids ds = List.map_filter id (map ad_SettlementObservationID ds)"
  by (simp add: attached_ids_def List.map_filter_def filter_map comp_def)

text \<open>What the decision of an intent says of it.\<close>

definition decided ::
    "AttachmentRuleProfile \<Rightarrow> (string \<times> CanonicalSettlementObservation list) list \<Rightarrow> CanonicalIntent
     \<Rightarrow> AttachmentDecision \<Rightarrow> bool" where
  "decided profile cm intent d \<longleftrightarrow>
     ad_IntentID d = ai_IntentID intent \<and>
     (ad_SettlementObservationID d = None \<and> open_type (ad_DecisionType d)
      \<or> (\<exists>obs \<in> set (loaded_candidates cm intent).
           ad_SettlementObservationID d = Some (ao_SettlementObservationID obs)
           \<and> attaches (ad_DecisionType d) \<and> justified profile intent obs (ad_DecisionType d)
           \<and> ai_GovernanceState intent \<notin> set nonAttachableGovernanceStates))"

definition amount_when :: "(string \<Rightarrow> bool) \<Rightarrow> CanonicalIntent list \<Rightarrow> AttachmentDecision list \<Rightarrow> rat" where
  "amount_when P is ds = (\<Sum>(i, d) \<leftarrow> zip is ds. if P (ad_DecisionType d) then ai_Amount i else 0)"

definition attach_inv ::
    "AttachmentRuleProfile \<Rightarrow> (string \<times> CanonicalSettlementObservation list) list
     \<Rightarrow> CanonicalIntent list \<Rightarrow> attach_state \<Rightarrow> bool" where
  "attach_inv profile cm is st \<longleftrightarrow>
     list_all2 (decided profile cm) is (al_Decisions st)
     \<and> al_Claimed st = rev (attached_ids (al_Decisions st)) \<and> al_Matched st = al_Claimed st
     \<and> distinct (al_Claimed st)
     \<and> map av_SettlementObservationID (al_Variances st) = attached_ids (al_Decisions st)
     \<and> al_MatchedIntended st = amount_when attaches is (al_Decisions st)"

lemma attach_inv_step:
  assumes "attach_inv profile cm is st" "settles profile (loaded_candidates cm i) i st st'"
  shows "attach_inv profile cm (is @ [i]) st'"
proof -
  have len: "length is = length (al_Decisions st)"
    using assms(1) by (auto simp: attach_inv_def dest: list_all2_lengthD)
  from assms(2) obtain d where d: "al_Decisions st' = al_Decisions st @ [d]" "ad_IntentID d = ai_IntentID i"
    and cases: "ad_SettlementObservationID d = None \<and> open_type (ad_DecisionType d)
          \<and> al_Claimed st' = al_Claimed st \<and> al_Matched st' = al_Matched st
          \<and> al_MatchedIntended st' = al_MatchedIntended st \<and> al_Variances st' = al_Variances st
        \<or> (\<exists>obs \<in> set (loaded_candidates cm i). \<exists>v. ad_SettlementObservationID d = Some (ao_SettlementObservationID obs)
            \<and> ao_SettlementObservationID obs \<notin> set (al_Claimed st) \<and> attaches (ad_DecisionType d)
            \<and> justified profile i obs (ad_DecisionType d)
            \<and> ai_GovernanceState i \<notin> set nonAttachableGovernanceStates
            \<and> al_Claimed st' = ao_SettlementObservationID obs # al_Claimed st
            \<and> al_Matched st' = ao_SettlementObservationID obs # al_Matched st
            \<and> al_MatchedIntended st' = al_MatchedIntended st + ai_Amount i
            \<and> al_Variances st' = al_Variances st @ [v]
            \<and> av_SettlementObservationID v = ao_SettlementObservationID obs)"
    unfolding settles_def by blast
  from cases show ?thesis
  proof (elim disjE bexE exE)
    assume *: "ad_SettlementObservationID d = None \<and> open_type (ad_DecisionType d)
          \<and> al_Claimed st' = al_Claimed st \<and> al_Matched st' = al_Matched st
          \<and> al_MatchedIntended st' = al_MatchedIntended st \<and> al_Variances st' = al_Variances st"
    then have "decided profile cm i d" using d by (simp add: decided_def)
    with * assms(1) d len show ?thesis
      by (clarsimp simp: attach_inv_def list_all2_append amount_when_def)
  next
    fix obs v
    assume obs: "obs \<in> set (loaded_candidates cm i)"
      and *: "ad_SettlementObservationID d = Some (ao_SettlementObservationID obs)
            \<and> ao_SettlementObservationID obs \<notin> set (al_Claimed st) \<and> attaches (ad_DecisionType d)
            \<and> justified profile i obs (ad_DecisionType d)
            \<and> ai_GovernanceState i \<notin> set nonAttachableGovernanceStates
            \<and> al_Claimed st' = ao_SettlementObservationID obs # al_Claimed st
            \<and> al_Matched st' = ao_SettlementObservationID obs # al_Matched st
            \<and> al_MatchedIntended st' = al_MatchedIntended st + ai_Amount i
            \<and> al_Variances st' = al_Variances st @ [v]
            \<and> av_SettlementObservationID v = ao_SettlementObservationID obs"
    then have "decided profile cm i d" using d obs by (auto simp: decided_def)
    with * assms(1) d len show ?thesis
      by (clarsimp simp: attach_inv_def list_all2_append amount_when_def)
  qed
qed

lemma attach_loop_inv:
  assumes "ranks_by_total e"
  shows "attach_inv profile cm is (attach_loop e job profile cm is)"
proof (induction "is" rule: rev_induct)
  case Nil
  then show ?case by (simp add: attach_inv_def attach_loop_def attach_start_def amount_when_def)
next
  case (snoc i "is")
  show ?case
    using attach_inv_step [OF snoc.IH attach_intent_step [OF assms]]
    by (simp add: attach_loop_def)
qed

section \<open>The records of the open intents\<close>

lemma number_rows_map:
  assumes "\<And>i x. g (f i x) = h x"
  shows "map g (number_rows e n f xs) = map h xs"
  by (rule nth_equalityI) (simp_all add: number_rows_def assms)

lemma number_rows_length [simp]: "length (number_rows e n f xs) = length xs"
  by (simp add: number_rows_def)

lemma intentByID_distinct:
  assumes "distinct (map ai_IntentID is)" "i \<in> set is"
  shows "intentByID is (ai_IntentID i) = Some i"
proof -
  have "map fst (rev (map (\<lambda>i. (ai_IntentID i, i)) is)) = rev (map ai_IntentID is)"
    by (simp add: rev_map [symmetric] comp_def)
  then have "distinct (map fst (rev (map (\<lambda>i. (ai_IntentID i, i)) is)))"
    using assms(1) by simp
  then show ?thesis
    unfolding intentByID_def by (rule map_of_is_SomeI) (use assms(2) in auto)
qed

text \<open>With distinct intents, each decision finds its own intent again.\<close>

definition finds :: "CanonicalIntent list \<Rightarrow> CanonicalIntent \<Rightarrow> AttachmentDecision \<Rightarrow> bool" where
  "finds is i d \<longleftrightarrow> intentByID is (ad_IntentID d) = Some i"

lemma decided_finds:
  assumes "list_all2 (decided profile cm) is ds" "distinct (map ai_IntentID is)"
  shows "list_all2 (finds is) is ds"
  unfolding list_all2_conv_all_nth
proof (intro conjI allI impI)
  show len: "length is = length ds" using assms(1) by (rule list_all2_lengthD)
  fix k assume k: "k < length is"
  then have "ad_IntentID (ds ! k) = ai_IntentID (is ! k)"
    using assms(1) by (simp add: list_all2_conv_all_nth decided_def)
  then show "finds is (is ! k) (ds ! k)"
    using intentByID_distinct [OF assms(2), of "is ! k"] k by (simp add: finds_def)
qed

lemma open_amount:
  assumes "list_all2 (finds all) is ds"
  shows "(\<Sum>(d, i) \<leftarrow> List.map_filter (\<lambda>d. map_option (Pair d) (intentByID all (ad_IntentID d)))
            (filter (\<lambda>d. ad_DecisionType d = t) ds). ai_Amount i) = amount_when (\<lambda>u. u = t) is ds"
    "length (List.map_filter (\<lambda>d. map_option (Pair d) (intentByID all (ad_IntentID d)))
       (filter (\<lambda>d. ad_DecisionType d = t) ds)) = length (of_type t ds)"
    "(\<Sum>d \<leftarrow> of_type t ds. intent_amount all d) = amount_when (\<lambda>u. u = t) is ds"
  using assms
  by (induction rule: list_all2_induct)
    (simp_all add: finds_def amount_when_def of_type_def List.map_filter_def intent_amount_def)

lemma open_records:
  assumes "list_all2 (finds is) is ds"
  shows "(\<Sum>r \<leftarrow> build_open_records t reason e job batch is ds n. ar_Amount r) = amount_when (\<lambda>u. u = t) is ds"
    "int (length (build_open_records t reason e job batch is ds n)) = count_type t ds"
proof -
  have "map ar_Amount (build_open_records t reason e job batch is ds n)
      = map (\<lambda>(d, i). ai_Amount i) (List.map_filter (\<lambda>d. map_option (Pair d) (intentByID is (ad_IntentID d)))
          (filter (\<lambda>d. ad_DecisionType d = t) ds))"
    unfolding build_open_records_def by (rule number_rows_map) (simp split: prod.split)
  then show "(\<Sum>r \<leftarrow> build_open_records t reason e job batch is ds n. ar_Amount r) = amount_when (\<lambda>u. u = t) is ds"
    by (simp add: open_amount(1) [OF assms])
  show "int (length (build_open_records t reason e job batch is ds n)) = count_type t ds"
    by (simp add: build_open_records_def open_amount(2) [OF assms] count_type_def)
qed

lemma decided_type:
  assumes "decided profile cm i d"
  shows "ad_DecisionType d \<in> {''MATCH_EXACT'', ''MATCH_HIGH_CONFIDENCE'', ''MATCH_AMBIGUOUS'',
    ''MATCH_CONFLICTED'', ''MATCH_UNRESOLVED''}"
  using assms by (auto simp: decided_def open_type_def attaches_def)

text \<open>Each intent is counted, with its amount, under exactly one type.\<close>

lemma amounts_partition:
  assumes "list_all2 (decided profile cm) is ds"
  shows "(\<Sum>i \<leftarrow> is. ai_Amount i) = amount_when attaches is ds + amount_when (\<lambda>u. u = ''MATCH_AMBIGUOUS'') is ds
    + amount_when (\<lambda>u. u = ''MATCH_CONFLICTED'') is ds + amount_when (\<lambda>u. u = ''MATCH_UNRESOLVED'') is ds"
    and "int (length is) = count_type ''MATCH_EXACT'' ds + count_type ''MATCH_HIGH_CONFIDENCE'' ds
      + count_type ''MATCH_AMBIGUOUS'' ds + count_type ''MATCH_CONFLICTED'' ds
      + count_type ''MATCH_UNRESOLVED'' ds"
  using assms
proof (induction rule: list_all2_induct)
  case (Cons i "is" d ds)
  case 1
  from decided_type [OF Cons(1)] Cons(3) show ?case by (auto simp: amount_when_def attaches_def)
  case 2
  from decided_type [OF Cons(1)] Cons(4) show ?case by (auto simp: count_type_def of_type_def)
qed (simp_all add: amount_when_def count_type_def of_type_def)

section \<open>Scores in the unit interval\<close>

definition in_unit :: "AttachmentDecision \<Rightarrow> bool" where
  "in_unit d \<longleftrightarrow> ad_ConfidenceScore d \<in> {0 .. 1} \<and> ad_MatchConfidence d \<in> {0 .. 1}
     \<and> ad_AmbiguityScore d \<in> {0 .. 1}"

lemma rank_candidates_nonneg:
  assumes "ranks_by_total e" "rank_candidates e profile intent observations = (scored, d, why)"
  shows "\<forall>cs \<in> set scored. 0 \<le> xs_Total cs"
proof -
  let ?all = "score_all profile intent observations"
  obtain ranked where sel: "SelectDecisionType (ae_Rank e ?all) (Some profile) = (ranked, d, why)"
    and scored: "scored = with_buckets (cfg_ManualReviewThresholds (parseRuleProfile (Some profile))) ranked"
    using assms(2) by (auto simp: rank_candidates_def split: prod.splits)
  have "map xs_Total scored = map xs_Total (ae_Rank e ?all)"
    by (simp add: scored with_buckets_same select_keeps [OF sel])
  then have "set (map xs_Total scored) = xs_Total ` set ?all"
    by (metis mset_eq_setD ranks_mset [OF assms(1)] list.set_map)
  moreover have "0 \<le> x" if "x \<in> xs_Total ` set ?all" for x
    using that by (auto simp: score_all_def score_total_bounds)
  ultimately show ?thesis by (metis imageI list.set_map)
qed

lemma topObs_quality:
  assumes "\<forall>obs \<in> set observations. quality_in_range obs"
  shows "quality_in_range (topObs observations scored)"
  using assms
  by (auto simp: topObs_def zero_observation_def quality_in_range_def split: list.split option.split
    dest!: find_SomeD)

lemma build_decision_scores:
  "ad_ConfidenceScore (build_decision e job policy intent observations scored d why claimed i) =
     (if scored = [] then 0 else ComputeConfidenceScore (hd scored) d scored (topObs observations scored) policy)"
  "ad_MatchConfidence (build_decision e job policy intent observations scored d why claimed i) =
     (if scored = [] then 0 else ComputeMatchConfidence (hd scored))"
  "ad_AmbiguityScore (build_decision e job policy intent observations scored d why claimed i) =
     ComputeAmbiguityScore scored d (topObs observations scored) policy"
  by (cases scored; simp add: build_decision_def Let_def case_prod_beta)+

lemma build_decision_in_unit:
  assumes "ranks_by_total e" "rank_candidates e profile intent observations = (scored, d, why)"
    "\<forall>obs \<in> set observations. quality_in_range obs"
  shows "in_unit (build_decision e job policy intent observations scored d why claimed i)"
proof -
  have q: "quality_in_range (topObs observations scored)" by (rule topObs_quality [OF assms(3)])
  have sorted: "2 \<le> length scored \<Longrightarrow> xs_Total (scored ! 1) \<le> xs_Total (scored ! 0)"
    using rank_candidates_ids(2) [OF assms(1,2)] by (simp add: sorted_wrt_iff_nth_less)
  have amb: "ComputeAmbiguityScore scored d (topObs observations scored) policy \<in> {0 .. 1}"
    using ambiguity_score_bounds [OF q sorted] by simp
  have conf: "ComputeConfidenceScore best d scored (topObs observations scored) policy \<in> {0 .. 1}"
    if "best \<in> set scored" for best
    using confidence_score_bounds [OF q _ sorted] rank_candidates_nonneg [OF assms(1,2)] that by simp
  have match: "ComputeMatchConfidence best \<in> {0 .. 1}" for best
    by (simp add: ComputeMatchConfidence_def Let_def)
  show ?thesis
    using amb conf [of "hd scored"] match [of "hd scored"] by (simp add: in_unit_def build_decision_scores)
qed

lemma attach_loop_in_unit:
  assumes "ranks_by_total e" "\<forall>i \<in> set is. \<forall>obs \<in> set (loaded_candidates cm i). quality_in_range obs"
  shows "\<forall>d \<in> set (al_Decisions (attach_loop e job profile cm is)). in_unit d"
  using assms(2)
proof (induction "is" rule: rev_induct)
  case Nil
  then show ?case by (simp add: attach_loop_def attach_start_def)
next
  case (snoc i "is")
  let ?st = "attach_loop e job profile cm is"
  let ?obs = "filter (\<lambda>o'. ao_SettlementObservationID o' \<notin> set (al_Claimed ?st)) (loaded_candidates cm i)"
  obtain scored d why where rc: "rank_candidates e profile i ?obs = (scored, d, why)"
    by (metis prod_cases3)
  have "in_unit (build_decision e job policy i ?obs scored d why claimed j)" for policy claimed j
    using build_decision_in_unit [OF assms(1) rc] snoc.prems by simp
  moreover have "in_unit (buildUnresolvedDecision j job i why)" for j why
    by (simp add: in_unit_def buildUnresolvedDecision_def)
  moreover have "al_Decisions (record_variance e job i ?obs d st) = al_Decisions st"
    "al_Decisions (claim_winner d st) = al_Decisions st" for d st
    by (simp_all add: record_variance_def claim_winner_def split: option.split)
  moreover have "attach_loop e job profile cm (is @ [i]) = attach_intent e job profile cm i ?st"
    by (simp add: attach_loop_def)
  ultimately show ?case
    using snoc by (simp add: attach_intent_def settle_intent_def note_decision_def refuse_intent_def Let_def rc)
qed

lemma clamp01_bounds: "clamp01 r \<in> {0 .. 1}"
  by (simp add: clamp01_def)

lemma coverage_bounds:
  "ratioCoverage a b \<in> {0 .. 1}" "decimalCoverage q a b \<in> {0 .. 1}"
  using clamp01_bounds by (simp_all add: ratioCoverage_def decimalCoverage_def)

section \<open>The laws of a run\<close>

definition sample_attach_env :: attach_env where
  "sample_attach_env = \<lparr>ae_Uuid = (\<lambda>n. replicate n CHR ''u''), ae_Now = 0, ae_Quot = (/),
     ae_Rank = SliceStable (\<lambda>a b. xs_Total b < xs_Total a), ae_SnapshotHash = (\<lambda>i v cs. i)\<rparr>"

lemma sample_ranks: "ranks_by_total sample_attach_env"
proof -
  have "sorted_wrt (\<lambda>a b. \<not> xs_Total a < xs_Total b) (SliceStable (\<lambda>a b. xs_Total b < xs_Total a) xs)"
    for xs :: "CandidateScore list" by (rule sorted_SliceStable) auto
  then show ?thesis unfolding ranks_by_total_def sample_attach_env_def not_less by simp
qed

definition sample_intent :: "string \<Rightarrow> string \<Rightarrow> rat \<Rightarrow> CanonicalIntent" where
  "sample_intent i ref amount = \<lparr>ai_IntentID = i, ai_TenantID = ''t'', ai_TraceID = None,
     ai_ClientPayoutRef = Some ref, ai_ClientBatchRef = Some ''b'', ai_BusinessIdempotencyKey = None,
     ai_Amount = amount, ai_CurrencyCode = ''INR'', ai_IntendedExecutionAt = None,
     ai_ProviderHint = None, ai_Corridor = None, ai_GovernanceState = ''ACTIVE'',
     ai_ZordSignatureCarrier = None, ai_BeneficiaryFingerprint = None, ai_SourceRowNum = None\<rparr>"

definition sample_observed :: "string \<Rightarrow> string \<Rightarrow> rat \<Rightarrow> CanonicalSettlementObservation" where
  "sample_observed i ref amount = zero_observation\<lparr>ao_SettlementObservationID := i, ao_TenantID := ''t'',
     ao_ClientReferenceCandidate := Some ref, ao_Amount := amount, ao_CurrencyCode := ''INR'',
     ao_SourceStrengthClass := ''BANK_LEDGER'', ao_ClientBatchID := ''b'', ao_ParseConfidence := 1,
     ao_MappingConfidence := 1, ao_CarrierRichnessScore := 1, ao_AttachmentReadinessScore := 1\<rparr>"

definition defaultRuleProfile :: "string \<Rightarrow> AttachmentRuleProfile" where
  "defaultRuleProfile tenantID = \<lparr>ap_ProfileID = ''default'', ap_TenantID = tenantID,
     ap_Version = RulesetVersion, ap_CarrierPriorityJSON = EmptyColumn,
     ap_TimeWindowPolicyJSON = EmptyColumn, ap_AmountTolerancePolicyJSON = EmptyColumn,
     ap_BatchBoundaryPolicyJSON = EmptyColumn, ap_ManualReviewThresholdsJSON = EmptyColumn,
     ap_AmbiguityMarginThreshold = 15 / 100, ap_RequiresBankRefForExact = False,
     ap_Status = ''ACTIVE''\<rparr>"

definition sample_attach_job :: AttachmentJob where
  "sample_attach_job = \<lparr>aj_AttachmentJobID = ''j'', aj_TenantID = ''t'',
     aj_JobScopeType = ''SETTLEMENT_BATCH'', aj_ScopeRef = ''b'', aj_MatchingRulesetVersion = RulesetVersion,
     aj_Status = ''RUNNING'', aj_CandidateCountTotal = 0, aj_ExactMatchCount = 0,
     aj_HighConfidenceCount = 0, aj_AmbiguousCount = 0, aj_UnresolvedCount = 0, aj_ConflictedCount = 0\<rparr>"

text \<open>Two intents with the same reference compete for one observation; another one is an orphan.\<close>

definition sample_intents :: "CanonicalIntent list" where
  "sample_intents = [sample_intent ''i1'' ''r1'' 100, sample_intent ''i2'' ''r1'' 100]"

definition sample_master :: "(string \<times> CanonicalSettlementObservation) list" where
  "sample_master = [(''o1'', sample_observed ''o1'' ''r1'' 100), (''o2'', sample_observed ''o2'' ''r9'' 70)]"

definition sample_candidates :: "(string \<times> CanonicalSettlementObservation list) list" where
  "sample_candidates = [(''i1'', map snd sample_master), (''i2'', map snd sample_master)]"

abbreviation (input) sample_attached :: attach_state where
  "sample_attached \<equiv> attach_loop sample_attach_env sample_attach_job (defaultRuleProfile ''t'')
     sample_candidates sample_intents"

lemma sample_attached_facts:
  "map (\<lambda>d. (ad_IntentID d, ad_SettlementObservationID d, ad_DecisionType d)) (al_Decisions sample_attached)
   = [(''i1'', Some ''o1'', ''MATCH_EXACT''), (''i2'', None, ''MATCH_UNRESOLVED'')]"
  by code_simp

lemma attached_once:
  assumes "ranks_by_total e"
  shows "distinct (attached_ids (al_Decisions (attach_loop e job profile cm intents)))"
    "map av_SettlementObservationID (al_Variances (attach_loop e job profile cm intents))
       = attached_ids (al_Decisions (attach_loop e job profile cm intents))"
  using attach_loop_inv [OF assms, of profile cm intents job] unfolding attach_inv_def
  by (metis distinct_rev)+

text \<open>
  C34.  Every intent of a run gets one decision, in order, whatever the order of the intents.  A
  decision that names an observation is an exact or a high-confidence match, of an observation loaded
  for that intent, in a governance state that allows it, with an exact carrier and the same currency;
  an exact match also agrees on the client reference or the signature and on the amount, and a
  high-confidence match has at least the profile's score.  Every other decision names none.  No
  observation is attached twice, and each attached one has exactly one variance record, in the order
  of the decisions.  The hypothesis is what \<open>sort.Slice\<close> promises: a permutation by descending
  total.
\<close>

theorem attachments_are_justified:
  assumes "ranks_by_total e"
  shows "let run = attach_loop e job profile cm intents; decisions = al_Decisions run
    in list_all2 (\<lambda>intent d. ad_IntentID d = ai_IntentID intent \<and>
      (case ad_SettlementObservationID d of
         None \<Rightarrow> ad_DecisionType d \<in> {''MATCH_AMBIGUOUS'', ''MATCH_CONFLICTED'', ''MATCH_UNRESOLVED''}
       | Some w \<Rightarrow> ad_DecisionType d \<in> {''MATCH_EXACT'', ''MATCH_HIGH_CONFIDENCE''}
           \<and> ai_GovernanceState intent \<notin> {''CANCELLED'', ''EXPIRED'', ''REJECTED'', ''VOIDED''}
           \<and> (\<exists>obs \<in> set (loaded_candidates cm intent). ao_SettlementObservationID obs = w
                \<and> justified profile intent obs (ad_DecisionType d)))) intents decisions
     \<and> distinct (attached_ids decisions)
     \<and> map av_SettlementObservationID (al_Variances run) = attached_ids decisions"
proof -
  have "list_all2 (decided profile cm) intents (al_Decisions (attach_loop e job profile cm intents))"
    using attach_loop_inv [OF assms, of profile cm intents job] by (simp add: attach_inv_def)
  then show ?thesis
    unfolding Let_def
    by (intro conjI attached_once [OF assms], elim list_all2_mono)
      (auto simp: decided_def open_type_def attaches_def nonAttachableGovernanceStates_def)
qed

theorem attachments_are_justified_witness:
  "list_all2 (\<lambda>intent d. ad_IntentID d = ai_IntentID intent) sample_intents (al_Decisions sample_attached)
   \<and> map ad_SettlementObservationID (al_Decisions sample_attached) = [Some ''o1'', None]
   \<and> map av_SettlementObservationID (al_Variances sample_attached) = [''o1'']"
proof (intro conjI)
  note facts = attachments_are_justified [OF sample_ranks, of sample_attach_job "defaultRuleProfile ''t''"
    sample_candidates sample_intents, unfolded Let_def]
  show "list_all2 (\<lambda>intent d. ad_IntentID d = ai_IntentID intent) sample_intents (al_Decisions sample_attached)"
    by (rule list_all2_mono [OF facts [THEN conjunct1]]) simp
  have "map (fst \<circ> snd) (map (\<lambda>d. (ad_IntentID d, ad_SettlementObservationID d, ad_DecisionType d))
    (al_Decisions sample_attached)) = [Some ''o1'', None]"
    by (simp add: sample_attached_facts)
  then show ids: "map ad_SettlementObservationID (al_Decisions sample_attached) = [Some ''o1'', None]"
    by (simp add: comp_def)
  then show "map av_SettlementObservationID (al_Variances sample_attached) = [''o1'']"
    using facts [THEN conjunct2, THEN conjunct2] by (simp add: attached_ids_map List.map_filter_def)
qed

text \<open>
  The batch summary accounts for every intent once: with different intents, the counts of exact,
  high-confidence, ambiguous, conflicted and unresolved decisions add up to the number of intents,
  and the matched, ambiguous, conflicted and unresolved amounts to the intended total.
\<close>

theorem summary_accounts_for_every_intent:
  assumes "ranks_by_total e" "distinct (map ai_IntentID intents)" "intents \<noteq> []"
  shows "let s = ax_Summary (attach_outputs_of e job profile master cm intents)
    in as_TotalIntentCount s = as_ExactMatchCount s + as_HighConfidenceCount s + as_AmbiguousCount s
         + as_ConflictedCount s + as_UnresolvedCount s
       \<and> as_OriginalIntendedAmount s = as_MatchedIntendedAmount s + as_AmbiguousAmount s
         + as_ConflictedAmount s + as_UnresolvedIntendedAmount s
       \<and> as_OriginalIntendedAmount s = (\<Sum>i \<leftarrow> intents. ai_Amount i)"
proof -
  let ?st = "attach_loop e job profile cm intents"
  note inv = attach_loop_inv [OF assms(1), of profile cm intents job]
  then have all: "list_all2 (decided profile cm) intents (al_Decisions ?st)"
    and matched: "al_MatchedIntended ?st = amount_when attaches intents (al_Decisions ?st)"
    by (simp_all add: attach_inv_def)
  note finds = decided_finds [OF all assms(2)]
  have nonempty: "al_Decisions ?st \<noteq> []"
    using list_all2_lengthD [OF all] assms(3) by auto
  note still_open = open_records [OF finds] open_amount(3) [OF finds]
  show ?thesis
    using amounts_partition [OF all] nonempty
    by (simp add: attach_outputs_of_def outputs_from_def Let_def computeBatchSummary_def summary_start_def
      buildAmbiguousIntentRecords_def buildConflictedIntentRecords_def still_open matched)
qed

theorem summary_accounts_for_every_intent_witness:
  "as_TotalIntentCount (ax_Summary (attach_outputs_of sample_attach_env sample_attach_job
      (defaultRuleProfile ''t'') sample_master sample_candidates sample_intents)) = 2
   \<and> as_OriginalIntendedAmount (ax_Summary (attach_outputs_of sample_attach_env sample_attach_job
      (defaultRuleProfile ''t'') sample_master sample_candidates sample_intents)) = 200"
proof
  show "as_OriginalIntendedAmount (ax_Summary (attach_outputs_of sample_attach_env sample_attach_job
      (defaultRuleProfile ''t'') sample_master sample_candidates sample_intents)) = 200"
    using summary_accounts_for_every_intent [OF sample_ranks, of sample_intents sample_attach_job
      "defaultRuleProfile ''t''" sample_master sample_candidates]
    by (simp add: sample_intents_def sample_intent_def Let_def)
qed (simp add: attach_outputs_of_def outputs_from_def Let_def computeBatchSummary_def summary_start_def
    sample_intents_def)

text \<open>
  The reverse scan leaves nothing out: in the batch and ingest-run scopes, the observations of
  the scope that no decision of the run attaches are the orphans, each once and in order.  When none
  of them carries a settled amount of its own, the attached and the orphaned amounts add up to the
  settled total.
\<close>

theorem every_observation_is_attached_or_orphan:
  assumes "ranks_by_total e" "aj_JobScopeType job \<in> {''SETTLEMENT_BATCH'', ''INGEST_RUN''}" "master \<noteq> []"
  shows "let out = attach_outputs_of e job profile master cm intents;
           attached = attached_ids (al_Decisions (ax_State out)); s = ax_Summary out
    in map ah_SettlementObservationID (ax_Orphans out) = filter (\<lambda>i. i \<notin> set attached) (map fst master)
       \<and> ((\<forall>(i, obs) \<in> set master. ao_SettledAmount obs = None) \<longrightarrow>
            as_TotalObservedAmount s + as_OrphanObservedAmount s = as_OriginalSettledAmount s)"
proof -
  let ?st = "attach_loop e job profile cm intents"
  let ?out = "attach_outputs_of e job profile master cm intents"
  let ?attached = "attached_ids (al_Decisions ?st)"
  note inv = attach_loop_inv [OF assms(1), of profile cm intents job]
  then have matched: "set (al_Matched ?st) = set ?attached"
    and vars: "map av_SettlementObservationID (al_Variances ?st) = ?attached"
    by (simp_all add: attach_inv_def)
  have orphans: "ax_Orphans ?out = performReverseScanOrphans e job (aj_ScopeRef job) master (al_Matched ?st)
      (al_ObsDecisionTypes ?st) (al_Drawn ?st)"
    using assms(2,3) by (auto simp: attach_outputs_of_def outputs_from_def effective_observations_def Let_def)
  have ids: "map ah_SettlementObservationID (ax_Orphans ?out)
      = map fst (filter (\<lambda>(i, obs). i \<notin> set ?attached) master)"
    unfolding orphans performReverseScanOrphans_def matched
    by (rule number_rows_map) (simp split: prod.split)
  have amounts: "map ah_Amount (ax_Orphans ?out)
      = map (\<lambda>(i, obs). ao_Amount obs) (filter (\<lambda>(i, obs). i \<notin> set ?attached) master)"
    unfolding orphans performReverseScanOrphans_def matched
    by (rule number_rows_map) (simp split: prod.split)
  have summary: "as_OrphanObservedAmount (ax_Summary ?out) = (\<Sum>o' \<leftarrow> ax_Orphans ?out. ah_Amount o')"
    "as_OriginalSettledAmount (ax_Summary ?out) = (\<Sum>(i, obs) \<leftarrow> master. observedSettlementAmount obs)"
    "as_TotalObservedAmount (ax_Summary ?out) =
       (\<Sum>(i, obs) \<leftarrow> master. if i \<in> set ?attached then observedSettlementAmount obs else 0)"
    using assms(3)
    by (simp_all add: attach_outputs_of_def outputs_from_def Let_def computeBatchSummary_def summary_start_def
      effective_observations_def vars comp_def case_prod_unfold cong: if_cong)
  have sum: "(\<Sum>(i, obs) \<leftarrow> m. if i \<in> A then observedSettlementAmount obs else 0)
      + (\<Sum>(i, obs) \<leftarrow> filter (\<lambda>(i, obs). i \<notin> A) m. ao_Amount obs)
      = (\<Sum>(i, obs) \<leftarrow> m. observedSettlementAmount obs)"
    if "\<forall>(i, obs) \<in> set m. ao_SettledAmount obs = None" for A and m :: "(string \<times> CanonicalSettlementObservation) list"
    using that by (induction m) (auto simp: observedSettlementAmount_def)
  have st: "ax_State ?out = ?st" by (simp add: attach_outputs_of_def outputs_from_def Let_def)
  show ?thesis
    unfolding Let_def st summary amounts using ids sum
    by (simp add: filter_map comp_def case_prod_unfold)
qed

text \<open>
  The normalised scores are fractions: when the quality figures of the loaded observations lie
  between 0 and 1, so do the confidence, match confidence and ambiguity of every decision and the four
  coverages of the summary.
\<close>

theorem normalised_scores_are_fractions:
  assumes "ranks_by_total e" "\<forall>i \<in> set intents. \<forall>obs \<in> set (loaded_candidates cm i). quality_in_range obs"
  shows "let out = attach_outputs_of e job profile master cm intents; s = ax_Summary out
    in (\<forall>d \<in> set (al_Decisions (ax_State out)). ad_ConfidenceScore d \<in> {0 .. 1}
          \<and> ad_MatchConfidence d \<in> {0 .. 1} \<and> ad_AmbiguityScore d \<in> {0 .. 1})
       \<and> as_IntentCountCoverage s \<in> {0 .. 1} \<and> as_IntentValueCoverage s \<in> {0 .. 1}
       \<and> as_ObservedCountAllocationCoverage s \<in> {0 .. 1} \<and> as_ObservedValueAllocationCoverage s \<in> {0 .. 1}"
proof -
  have "\<forall>d \<in> set (al_Decisions (attach_loop e job profile cm intents)). in_unit d"
    by (rule attach_loop_in_unit [OF assms])
  then show ?thesis
    using coverage_bounds
    by (simp add: attach_outputs_of_def outputs_from_def Let_def computeBatchSummary_def summary_start_def in_unit_def)
qed

abbreviation (input) sample_outputs :: attach_outputs where
  "sample_outputs \<equiv> attach_outputs_of sample_attach_env sample_attach_job (defaultRuleProfile ''t'')
     sample_master sample_candidates sample_intents"

lemma sample_attached_ids: "attached_ids (al_Decisions (ax_State sample_outputs)) = [''o1'']"
proof -
  have "ax_State sample_outputs = sample_attached"
    by (simp add: attach_outputs_of_def outputs_from_def Let_def)
  moreover have "attached_ids ds = List.map_filter (fst \<circ> snd)
      (map (\<lambda>d. (ad_IntentID d, ad_SettlementObservationID d, ad_DecisionType d)) ds)" for ds
    by (simp add: attached_ids_def List.map_filter_def filter_map comp_def)
  ultimately show ?thesis
    by (simp only: sample_attached_facts) (simp add: List.map_filter_def)
qed

theorem every_observation_is_attached_or_orphan_witness:
  "map ah_SettlementObservationID (ax_Orphans sample_outputs) = [''o2'']
   \<and> as_TotalObservedAmount (ax_Summary sample_outputs) + as_OrphanObservedAmount (ax_Summary sample_outputs)
       = as_OriginalSettledAmount (ax_Summary sample_outputs)"
proof -
  have "aj_JobScopeType sample_attach_job \<in> {''SETTLEMENT_BATCH'', ''INGEST_RUN''}" "sample_master \<noteq> []"
    by (simp_all add: sample_attach_job_def sample_master_def)
  note law = every_observation_is_attached_or_orphan [OF sample_ranks this,
    of "defaultRuleProfile ''t''" sample_candidates sample_intents, unfolded Let_def sample_attached_ids]
  have "\<forall>(i, obs) \<in> set sample_master. ao_SettledAmount obs = None"
    by (simp add: sample_master_def sample_observed_def zero_observation_def)
  moreover have "filter (\<lambda>i. i \<notin> set [''o1'']) (map fst sample_master) = [''o2'']"
    by (simp add: sample_master_def)
  ultimately show ?thesis using law by simp
qed

theorem normalised_scores_are_fractions_witness:
  "(\<forall>d \<in> set (al_Decisions (ax_State sample_outputs)). ad_ConfidenceScore d \<in> {0 .. 1})
   \<and> as_IntentValueCoverage (ax_Summary sample_outputs) \<in> {0 .. 1}"
proof -
  have "\<forall>i \<in> set sample_intents. \<forall>obs \<in> set (loaded_candidates sample_candidates i). quality_in_range obs"
    by (simp add: sample_intents_def sample_candidates_def sample_master_def loaded_candidates_def
      sample_intent_def sample_observed_def quality_in_range_def zero_observation_def)
  note law = normalised_scores_are_fractions [OF sample_ranks this, of sample_attach_job
    "defaultRuleProfile ''t''" sample_master]
  show ?thesis using law unfolding Let_def by blast
qed

section \<open>Corners of the decision rules\<close>

text \<open>
  A candidate alone has margin 0, so with a positive margin threshold it is never a high-confidence
  match; next to any weaker candidate the same score is one.
\<close>

lemma single_candidate_is_never_high_confidence:
  assumes "0 < th_AmbiguityMarginThreshold (cfg_ManualReviewThresholds (parseRuleProfile profile))"
    "SelectDecisionType [cs] profile = (ranked, d, why)"
  shows "d \<noteq> ''MATCH_HIGH_CONFIDENCE''"
  using assms by (auto simp: ClassifyConfidenceContext_def top_margin_def Let_def split: if_splits)

lemma weaker_candidate_turns_a_mismatch_into_a_match:
  "let intent = (sample_intent ''i1'' ''r1'' 100)\<lparr>ai_ZordSignatureCarrier := Some ''z''\<rparr>;
       wrong_amount = (sample_observed ''o1'' ''r1'' 90)\<lparr>ao_ZordSignatureCarrier := Some ''z''\<rparr>;
       score = (\<lambda>obs. ScoreCandidate obs intent None);
       stranger = score (sample_observed ''o2'' ''r9'' 70)
   in fst (snd (SelectDecisionType [score wrong_amount] None)) = ''MATCH_AMBIGUOUS''
      \<and> fst (snd (SelectDecisionType [score wrong_amount, stranger] None)) = ''MATCH_HIGH_CONFIDENCE''"
  by code_simp

text \<open>The normalised match confidence of a candidate never exceeds 365/580.\<close>

lemma match_confidence_is_never_full:
  "ComputeMatchConfidence (ScoreCandidate obs intent profile) \<le> 73 / 116"
  using match_confidence_of_score(2) [of obs intent profile] by simp

text \<open>
  An orphan is recorded with its gross amount, the total with the settled one: with a settled
  amount the two sides differ.
\<close>

lemma orphan_amount_is_not_the_settled_amount:
  "let obs = (sample_observed ''o1'' ''r1'' 100)\<lparr>ao_SettledAmount := Some 90\<rparr>;
       out = outputs_from sample_attach_env sample_attach_job [(''o1'', obs)] [] attach_start
   in map ah_Amount (ax_Orphans out) = [100] \<and> as_OriginalSettledAmount (ax_Summary out) = 90"
  by code_simp

end
