(* ===== verification/Merkle.thy ===== *)
theory Merkle
  imports Prelude
begin

text \<open>
  \<^verbatim>\<open>evidence/utils/merkle.go\<close> and \<^verbatim>\<open>hash.go\<close>: the Merkle tree over the leaf hashes of an
  evidence pack and the inclusion proofs of its leaves, for both hashing schemes.

  \<open>sha\<close> stands for SHA-256 in hexadecimal.  A map from leaf index to proof is a function to options.
  \<open>sort.Slice\<close> compares hash and index, so leaves that compare equal are equal and every sort gives
  the result of the stable one.
\<close>

section \<open>The tree\<close>

abbreviation (input) MerkleSchemeV1 :: string where "MerkleSchemeV1 \<equiv> ''merkle_v1''"
abbreviation (input) MerkleSchemeV2 :: string where "MerkleSchemeV2 \<equiv> ''merkle_v2''"

record MerkleLeaf =
  ml_Index :: nat
  ml_LeafHash :: string

record ProofNode =
  pn_Hash :: string
  pn_IsLeft :: bool

definition node_input :: "bool \<Rightarrow> string \<Rightarrow> string \<Rightarrow> string" where
  "node_input domainSeparated left right =
     (if domainSeparated then CHR 0x01 # left @ ''|'' @ right else left @ ''|'' @ right)"

definition hashInternal :: "(string \<Rightarrow> string) \<Rightarrow> bool \<Rightarrow> string \<Rightarrow> string \<Rightarrow> string" where
  "hashInternal sha domainSeparated left right = sha (node_input domainSeparated left right)"

definition leaf_before :: "MerkleLeaf \<Rightarrow> MerkleLeaf \<Rightarrow> bool" where
  "leaf_before a b =
     (if ml_LeafHash a = ml_LeafHash b then ml_Index a < ml_Index b else ml_LeafHash a < ml_LeafHash b)"

definition sorted_leaves :: "MerkleLeaf list \<Rightarrow> MerkleLeaf list" where
  "sorted_leaves leaves = SliceStable leaf_before leaves"

text \<open>One level above a level: pairs are hashed, the last node of an odd level with itself.\<close>

fun next_level :: "(string \<Rightarrow> string \<Rightarrow> string) \<Rightarrow> string list \<Rightarrow> string list" where
  "next_level h [] = []"
| "next_level h [x] = [h x x]"
| "next_level h (x # y # rest) = h x y # next_level h rest"

lemma length_next_level [simp]: "length (next_level h xs) = (length xs + 1) div 2"
  by (induction h xs rule: next_level.induct) auto

function climb :: "(string \<Rightarrow> string \<Rightarrow> string) \<Rightarrow> string list \<Rightarrow> string" where
  "climb h level = (if length level > 1 then climb h (next_level h level) else level ! 0)"
  by auto

termination climb by (relation "measure (\<lambda>(h, level). length level)") auto

declare climb.simps [simp del]

definition buildRoot :: "(string \<Rightarrow> string) \<Rightarrow> MerkleLeaf list \<Rightarrow> bool \<Rightarrow> string" where
  "buildRoot sha leaves domainSeparated =
     (if leaves = [] then sha ''empty''
      else climb (hashInternal sha domainSeparated) (map ml_LeafHash (sorted_leaves leaves)))"

definition BuildMerkleRoot :: "(string \<Rightarrow> string) \<Rightarrow> MerkleLeaf list \<Rightarrow> string" where
  "BuildMerkleRoot sha leaves = buildRoot sha leaves True"

definition BuildMerkleRootV1 :: "(string \<Rightarrow> string) \<Rightarrow> MerkleLeaf list \<Rightarrow> string" where
  "BuildMerkleRootV1 sha leaves = buildRoot sha leaves False"

section \<open>Inclusion proofs\<close>

function tree_levels :: "(string \<Rightarrow> string \<Rightarrow> string) \<Rightarrow> string list \<Rightarrow> string list list" where
  "tree_levels h level = level # (if length level > 1 then tree_levels h (next_level h level) else [])"
  by auto

termination tree_levels by (relation "measure (\<lambda>(h, level). length level)") auto

declare tree_levels.simps [simp del]

definition sibling :: "string list \<Rightarrow> nat \<Rightarrow> ProofNode" where
  "sibling row pos =
     (if even pos then \<lparr>pn_Hash = (if pos + 1 < length row then row ! (pos + 1) else row ! pos), pn_IsLeft = False\<rparr>
      else \<lparr>pn_Hash = row ! (pos - 1), pn_IsLeft = True\<rparr>)"

text \<open>The siblings on the way from a position of the lowest level to the root, all levels but the last.\<close>

fun sibling_path :: "string list list \<Rightarrow> nat \<Rightarrow> ProofNode list" where
  "sibling_path (row # upper # rest) pos = sibling row pos # sibling_path (upper # rest) (pos div 2)"
| "sibling_path levels pos = []"

definition buildInclusionProofs :: "(string \<Rightarrow> string) \<Rightarrow> MerkleLeaf list \<Rightarrow> bool \<Rightarrow> nat \<rightharpoonup> ProofNode list" where
  "buildInclusionProofs sha leaves domainSeparated =
     (if leaves = [] then Map.empty
      else let ls = sorted_leaves leaves;
               levels = tree_levels (hashInternal sha domainSeparated) (map ml_LeafHash ls)
           in foldl (\<lambda>m i. m(ml_Index (ls ! i) \<mapsto> sibling_path levels i)) Map.empty [0..<length ls])"

definition BuildInclusionProofs :: "(string \<Rightarrow> string) \<Rightarrow> MerkleLeaf list \<Rightarrow> nat \<rightharpoonup> ProofNode list" where
  "BuildInclusionProofs sha leaves = buildInclusionProofs sha leaves True"

definition BuildInclusionProofsV1 :: "(string \<Rightarrow> string) \<Rightarrow> MerkleLeaf list \<Rightarrow> nat \<rightharpoonup> ProofNode list" where
  "BuildInclusionProofsV1 sha leaves = buildInclusionProofs sha leaves False"

section \<open>What a proof proves\<close>

text \<open>A verifier hashes the leaf with the siblings of the path, each on the side the path names.\<close>

definition follow :: "(string \<Rightarrow> string) \<Rightarrow> bool \<Rightarrow> string \<Rightarrow> ProofNode list \<Rightarrow> string" where
  "follow sha domainSeparated leafHash path =
     foldl (\<lambda>acc n. if pn_IsLeft n then hashInternal sha domainSeparated (pn_Hash n) acc
                    else hashInternal sha domainSeparated acc (pn_Hash n)) leafHash path"

lemma next_level_nth:
  "pos < length row \<Longrightarrow> next_level h row ! (pos div 2) =
     (if pn_IsLeft (sibling row pos) then h (pn_Hash (sibling row pos)) (row ! pos)
      else h (row ! pos) (pn_Hash (sibling row pos)))"
proof (induction h row arbitrary: pos rule: next_level.induct)
  case (3 h x y rest)
  show ?case
  proof (cases "pos < 2")
    case True
    then have "pos = 0 \<or> pos = 1" by auto
    then show ?thesis by (auto simp: sibling_def)
  next
    case False
    then obtain k where k: "pos = Suc (Suc k)" by (metis add_2_eq_Suc' le_Suc_ex not_less add.commute)
    with 3 have "k < length rest" by simp
    have sib: "sibling (x # y # rest) pos = sibling rest k"
    proof (cases "even k")
      case True
      then show ?thesis by (simp add: sibling_def k)
    next
      case False
      then obtain j where "k = Suc j" by (cases k) auto
      with False show ?thesis by (simp add: sibling_def k)
    qed
    with "3.IH" [OF \<open>k < length rest\<close>] k show ?thesis by simp
  qed
qed (auto simp: sibling_def)

lemma follow_tree:
  "pos < length row \<Longrightarrow>
   follow sha ds (row ! pos) (sibling_path (tree_levels (hashInternal sha ds) row) pos) = climb (hashInternal sha ds) row"
proof (induction "length row" arbitrary: row pos rule: less_induct)
  case less
  let ?h = "hashInternal sha ds"
  show ?case
  proof (cases "length row > 1")
    case False
    with less.prems have "pos = 0" by simp
    with False show ?thesis by (simp add: tree_levels.simps [of ?h row] climb.simps [of ?h row] follow_def)
  next
    case True
    let ?up = "next_level ?h row"
    have pos: "pos div 2 < length ?up" using less.prems by simp
    obtain u us where u: "tree_levels ?h ?up = u # us" by (simp add: tree_levels.simps [of ?h ?up])
    have "sibling_path (tree_levels ?h row) pos = sibling row pos # sibling_path (tree_levels ?h ?up) (pos div 2)"
      using True by (simp add: tree_levels.simps [of ?h row] u)
    moreover have "follow sha ds (row ! pos) (sibling row pos # path) = follow sha ds (?up ! (pos div 2)) path" for path
      unfolding next_level_nth [OF less.prems, of ?h] by (simp add: follow_def)
    moreover have "length ?up < length row" using True by simp
    ultimately show ?thesis
      using less.hyps [OF _ pos] True by (simp add: climb.simps [of ?h row])
  qed
qed

lemma mset_sorted_leaves [simp]: "mset (sorted_leaves leaves) = mset leaves"
  by (simp add: sorted_leaves_def)

lemma length_sorted_leaves [simp]: "length (sorted_leaves leaves) = length leaves"
  by (simp add: sorted_leaves_def)

lemma set_sorted_leaves [simp]: "set (sorted_leaves leaves) = set leaves"
  by (simp add: sorted_leaves_def)

lemma fold_update_other:
  "k \<notin> key ` set is \<Longrightarrow> foldl (\<lambda>m i. m(key i \<mapsto> val i)) m is k = m k"
  by (induction "is" arbitrary: m) auto

lemma fold_update_distinct:
  assumes "distinct (map key is)" and "i \<in> set is"
  shows "foldl (\<lambda>m i. m(key i \<mapsto> val i)) m is (key i) = Some (val i)"
  using assms
proof (induction "is" arbitrary: m)
  case (Cons j js)
  show ?case
  proof (cases "i = j")
    case True
    with Cons.prems(1) have "key i \<notin> key ` set js" by simp
    from fold_update_other [OF this, of val] True show ?thesis unfolding foldl.simps by simp
  next
    case False
    with Cons show ?thesis by simp
  qed
qed simp

lemma leaf_has_proof:
  assumes "distinct (map ml_Index leaves)" and "l \<in> set leaves"
  shows "\<exists>path. buildInclusionProofs sha leaves ds (ml_Index l) = Some path
    \<and> follow sha ds (ml_LeafHash l) path = buildRoot sha leaves ds"
proof -
  let ?ls = "sorted_leaves leaves" and ?h = "hashInternal sha ds"
  have ne: "leaves \<noteq> []" using assms(2) by auto
  have dist: "distinct (map ml_Index ?ls)"
    using assms(1) by (metis distinct_map mset_eq_imp_distinct_iff mset_sorted_leaves set_sorted_leaves)
  obtain i where i: "i < length ?ls" "?ls ! i = l" using assms(2) by (metis in_set_conv_nth set_sorted_leaves)
  have "map (\<lambda>i. ml_Index (?ls ! i)) [0..<length ?ls] = map ml_Index ?ls"
    by (metis (no_types) map_map map_nth comp_def map_eq_conv)
  then have "foldl (\<lambda>m i. m(ml_Index (?ls ! i) \<mapsto> sibling_path (tree_levels ?h (map ml_LeafHash ?ls)) i)) Map.empty
      [0..<length ?ls] (ml_Index (?ls ! i)) = Some (sibling_path (tree_levels ?h (map ml_LeafHash ?ls)) i)"
    using dist i(1) by (intro fold_update_distinct) simp_all
  moreover have "follow sha ds (map ml_LeafHash ?ls ! i) (sibling_path (tree_levels ?h (map ml_LeafHash ?ls)) i)
      = climb ?h (map ml_LeafHash ?ls)"
    using i(1) by (intro follow_tree) simp
  ultimately show ?thesis
    using i ne by (simp add: buildInclusionProofs_def buildRoot_def Let_def)
qed

text \<open>
  C32.  Every leaf has a proof of inclusion: for leaves with distinct indexes the proof stored under the
  index of a leaf, followed from the leaf's hash with the siblings on the sides it names, ends at
  the root, in either scheme.
\<close>

theorem inclusion_proofs_lead_to_the_root:
  assumes "distinct (map ml_Index leaves)" and "l \<in> set leaves"
  shows "\<exists>path. buildInclusionProofs sha leaves ds (ml_Index l) = Some path
    \<and> follow sha ds (ml_LeafHash l) path = buildRoot sha leaves ds"
  using assms by (rule leaf_has_proof)

section \<open>The root is the tree over the sorted hashes\<close>

lemma sorted_hashes: "map ml_LeafHash (sorted_leaves leaves) = sort (map ml_LeafHash leaves)"
proof (rule properties_for_sort [symmetric])
  have "sorted_wrt (\<lambda>a b. \<not> leaf_before b a) (sorted_leaves leaves)"
    unfolding sorted_leaves_def
    by (rule sorted_SliceStable) (auto simp: leaf_before_def split: if_splits)
  then have "sorted_wrt (\<lambda>a b. ml_LeafHash a \<le> ml_LeafHash b) (sorted_leaves leaves)"
    by (rule sorted_wrt_mono_rel [rotated]) (auto simp: leaf_before_def not_less split: if_splits)
  then show "sorted (map ml_LeafHash (sorted_leaves leaves))" by (simp add: sorted_map)
qed simp

lemma buildRoot_sorted:
  "leaves \<noteq> [] \<Longrightarrow> buildRoot sha leaves ds = climb (hashInternal sha ds) (sort (map ml_LeafHash leaves))"
  by (simp add: buildRoot_def sorted_hashes)

text \<open>
  The root does not depend on the order or the indexes of the leaves: two packs with the same
  leaf hashes, counted with their multiplicity, have the same root.
\<close>

theorem root_depends_on_the_leaf_hashes_only:
  assumes "mset (map ml_LeafHash leaves) = mset (map ml_LeafHash leaves')"
  shows "buildRoot sha leaves ds = buildRoot sha leaves' ds"
proof (cases "leaves = []")
  case True
  with assms have "leaves' = []" by simp
  with True show ?thesis by simp
next
  case False
  with assms have "leaves' \<noteq> []" by auto
  moreover have "sort (map ml_LeafHash leaves) = sort (map ml_LeafHash leaves')"
    using assms by (metis mset_sort properties_for_sort sorted_sort)
  ultimately show ?thesis using False by (simp add: buildRoot_sorted)
qed

section \<open>The root binds the leaves\<close>

text \<open>
  What a scheme must promise for its roots to bind: the bytes hashed for a node determine its two
  children, when these have the length of a hash.
\<close>

definition collision :: "(string \<Rightarrow> string) \<Rightarrow> string set \<Rightarrow> string set \<Rightarrow> bool" where
  "collision sha A B \<longleftrightarrow> (\<exists>x \<in> A. \<exists>y \<in> B. x \<noteq> y \<and> sha x = sha y)"

lemma collision_mono: "collision sha A B \<Longrightarrow> A \<subseteq> A' \<Longrightarrow> B \<subseteq> B' \<Longrightarrow> collision sha A' B'"
  unfolding collision_def by blast

text \<open>The inputs hashed for one level and for all levels of a tree.\<close>

fun level_inputs :: "(string \<Rightarrow> string \<Rightarrow> string) \<Rightarrow> string list \<Rightarrow> string list" where
  "level_inputs node [] = []"
| "level_inputs node [x] = [node x x]"
| "level_inputs node (x # y # rest) = node x y # level_inputs node rest"

lemma length_level_inputs [simp]: "length (level_inputs node xs) = (length xs + 1) div 2"
  by (induction node xs rule: level_inputs.induct) auto

lemma next_level_inputs: "next_level (\<lambda>l r. sha (node l r)) xs = map sha (level_inputs node xs)"
  by (induction node xs rule: level_inputs.induct) auto

function tree_inputs :: "(string \<Rightarrow> string) \<Rightarrow> (string \<Rightarrow> string \<Rightarrow> string) \<Rightarrow> string list \<Rightarrow> string set" where
  "tree_inputs sha node level =
     (if length level > 1 then set (level_inputs node level) \<union> tree_inputs sha node (map sha (level_inputs node level))
      else {})"
  by auto

termination tree_inputs by (relation "measure (\<lambda>(sha, node, level). length level)") auto

declare tree_inputs.simps [simp del]

lemma map_sha_collision:
  assumes "map sha xs = map sha ys" and "xs \<noteq> ys"
  shows "collision sha (set xs) (set ys)"
proof -
  have len: "length xs = length ys" using assms(1) map_eq_imp_length_eq by blast
  with assms(2) obtain i where i: "i < length xs" "xs ! i \<noteq> ys ! i" by (metis nth_equalityI)
  with assms(1) len have "sha (xs ! i) = sha (ys ! i)" by (metis nth_map)
  with i len show ?thesis unfolding collision_def by (metis nth_mem)
qed

locale merkle_scheme =
  fixes node :: "string \<Rightarrow> string \<Rightarrow> string"
  assumes node_inj: "length l = length l' \<Longrightarrow> node l r = node l' r' \<Longrightarrow> l = l' \<and> r = r'"
begin

lemma level_inputs_inj:
  assumes "length xs = length ys" and "\<forall>x \<in> set xs \<union> set ys. length x = n"
    and "level_inputs node xs = level_inputs node ys"
  shows "xs = ys"
  using assms
proof (induction xs arbitrary: ys rule: induct_list012)
  case (2 x)
  from "2.prems"(1) obtain y where ys: "ys = [y]" by (cases ys) auto
  from "2.prems"(2,3) have "length x = length y" "node x x = node y y" by (simp_all add: ys)
  from node_inj [OF this] ys show ?case by simp
next
  case (3 x x' rest)
  from "3.prems"(1) obtain y y' ys' where ys: "ys = y # y' # ys'" and len: "length rest = length ys'"
    by (metis length_Cons length_Suc_conv)
  from "3.prems"(2) have n: "length x = n" "length y = n" "\<forall>z \<in> set rest \<union> set ys'. length z = n"
    by (simp_all add: ys)
  from "3.prems"(3) have eq: "node x x' = node y y'" "level_inputs node rest = level_inputs node ys'"
    by (simp_all add: ys)
  from n have "length x = length y" by simp
  from node_inj [OF this eq(1)] "3.IH"(1) [OF len n(3) eq(2)] ys show ?case by simp
qed simp

lemma climb_binds:
  assumes "length xs = length ys" and "\<forall>x \<in> set xs \<union> set ys. length x = n" and "\<forall>x. length (sha x) = n"
    and "climb (\<lambda>l r. sha (node l r)) xs = climb (\<lambda>l r. sha (node l r)) ys" and "xs \<noteq> []"
  shows "xs = ys \<or> collision sha (tree_inputs sha node xs) (tree_inputs sha node ys)"
  using assms(1,2,4,5)
proof (induction "length xs" arbitrary: xs ys rule: less_induct)
  case less
  let ?h = "\<lambda>l r. sha (node l r)"
  show ?case
  proof (cases "length xs > 1")
    case False
    with less.prems(1,4) obtain x y where "xs = [x]" "ys = [y]"
      by (cases xs; cases ys) auto
    with less.prems(3) show ?thesis by (simp add: climb.simps [of ?h "[x]"] climb.simps [of ?h "[y]"])
  next
    case True
    let ?xs = "level_inputs node xs" and ?ys = "level_inputs node ys"
    have sub: "tree_inputs sha node xs = set ?xs \<union> tree_inputs sha node (map sha ?xs)"
        "tree_inputs sha node ys = set ?ys \<union> tree_inputs sha node (map sha ?ys)"
      using True less.prems(1)
      by (simp_all add: tree_inputs.simps [of sha node xs] tree_inputs.simps [of sha node ys])
    have climbs: "climb ?h (map sha ?xs) = climb ?h (map sha ?ys)"
      using less.prems(1,3) True
      by (simp add: climb.simps [of ?h xs] climb.simps [of ?h ys] next_level_inputs)
    have "map sha ?xs = map sha ?ys \<or> collision sha (tree_inputs sha node (map sha ?xs)) (tree_inputs sha node (map sha ?ys))"
    proof (rule less.hyps)
      show "length (map sha ?xs) < length xs" using True by simp
      show "length (map sha ?xs) = length (map sha ?ys)" using less.prems(1) by simp
      show "\<forall>x \<in> set (map sha ?xs) \<union> set (map sha ?ys). length x = n" using assms(3) by auto
      show "climb ?h (map sha ?xs) = climb ?h (map sha ?ys)" by (rule climbs)
      have "0 < length ?xs" using True by simp
      then show "map sha ?xs \<noteq> []" by (simp only: length_greater_0_conv map_is_Nil_conv) simp
    qed
    then show ?thesis
    proof
      assume eq: "map sha ?xs = map sha ?ys"
      show ?thesis
      proof (cases "?xs = ?ys")
        case True
        with level_inputs_inj [OF less.prems(1,2)] show ?thesis by blast
      next
        case False
        with eq have "collision sha (set ?xs) (set ?ys)" by (rule map_sha_collision)
        then show ?thesis unfolding sub by (meson collision_mono Un_upper1)
      qed
    next
      assume "collision sha (tree_inputs sha node (map sha ?xs)) (tree_inputs sha node (map sha ?ys))"
      then show ?thesis unfolding sub by (meson collision_mono Un_upper2)
    qed
  qed
qed

end

interpretation merkle: merkle_scheme "node_input ds" for ds
  by unfold_locales (auto simp: node_input_def split: if_splits)

text \<open>The inputs hashed above the leaves of a pack.\<close>

definition root_inputs :: "(string \<Rightarrow> string) \<Rightarrow> bool \<Rightarrow> MerkleLeaf list \<Rightarrow> string set" where
  "root_inputs sha ds leaves = tree_inputs sha (node_input ds) (sort (map ml_LeafHash leaves))"

text \<open>
  C33.  A root binds the leaf hashes: two packs with equally many leaves and the same root have the same
  leaf hashes, or the two computations of the root exhibit a collision of the hash function.
\<close>

theorem root_binds_the_leaf_hashes:
  assumes "\<forall>x. length (sha x) = n" and "\<forall>l \<in> set leaves \<union> set leaves'. length (ml_LeafHash l) = n"
    and "length leaves = length leaves'" and "buildRoot sha leaves ds = buildRoot sha leaves' ds"
  shows "mset (map ml_LeafHash leaves) = mset (map ml_LeafHash leaves')
    \<or> collision sha (root_inputs sha ds leaves) (root_inputs sha ds leaves')"
proof (cases "leaves = []")
  case True
  with assms(3) show ?thesis by simp
next
  case False
  let ?xs = "sort (map ml_LeafHash leaves)" and ?ys = "sort (map ml_LeafHash leaves')"
  have h: "hashInternal sha ds = (\<lambda>l r. sha (node_input ds l r))" by (simp add: fun_eq_iff hashInternal_def)
  have "leaves' \<noteq> []" using False assms(3) by auto
  with assms(4) False have climbs: "climb (\<lambda>l r. sha (node_input ds l r)) ?xs = climb (\<lambda>l r. sha (node_input ds l r)) ?ys"
    by (simp add: buildRoot_sorted h)
  have "?xs = ?ys \<or> collision sha (root_inputs sha ds leaves) (root_inputs sha ds leaves')"
    unfolding root_inputs_def
  proof (rule merkle.climb_binds [OF _ _ assms(1) climbs])
    show "length ?xs = length ?ys" using assms(3) by simp
    show "\<forall>x \<in> set ?xs \<union> set ?ys. length x = n" using assms(2) by auto
    have "length ?xs \<noteq> 0" using False by simp
    then show "?xs \<noteq> []" by (metis list.size(3))
  qed
  then show ?thesis by (metis mset_sort)
qed

text \<open>
  The number of leaves is not bound: an odd level hashes its last node with itself, so a pack with
  three leaves has the root of the pack in which the greatest leaf is listed twice.
\<close>

lemma odd_level_duplicates_last:
  assumes "odd (length xs)" and "length xs > 1"
  shows "climb h (xs @ [last xs]) = climb h xs"
proof -
  have "next_level h (xs @ [last xs]) = next_level h xs" using assms(1)
    by (induction h xs rule: next_level.induct) auto
  with assms(2) show ?thesis
    by (auto simp: climb.simps [of h xs] climb.simps [of h "xs @ [last xs]"])
qed

lemma sorted_le_last: "sorted xs \<Longrightarrow> x \<in> set xs \<Longrightarrow> x \<le> last xs"
  by (induction xs) auto

lemma root_ignores_duplicate_of_last_leaf:
  assumes "odd (length leaves)" and "length leaves > 1" and "\<forall>m \<in> set leaves. ml_LeafHash m \<le> ml_LeafHash l"
    and "l \<in> set leaves"
  shows "buildRoot sha (leaves @ [l\<lparr>ml_Index := k\<rparr>]) ds = buildRoot sha leaves ds"
proof -
  let ?xs = "sort (map ml_LeafHash leaves)"
  have ne: "leaves \<noteq> []" "?xs \<noteq> []" using assms(2) by (auto simp: length_greater_0_conv [symmetric] simp del: length_greater_0_conv)
  have "last ?xs = ml_LeafHash l"
  proof (rule order.antisym)
    have "last ?xs \<in> set ?xs" using ne(2) by (rule last_in_set)
    then show "last ?xs \<le> ml_LeafHash l" using assms(3) by auto
    show "ml_LeafHash l \<le> last ?xs" using assms(4) by (intro sorted_le_last) auto
  qed
  note lst = this
  have "sort (map ml_LeafHash (leaves @ [l\<lparr>ml_Index := k\<rparr>])) = ?xs @ [last ?xs]"
  proof (rule properties_for_sort)
    show "mset (?xs @ [last ?xs]) = mset (map ml_LeafHash (leaves @ [l\<lparr>ml_Index := k\<rparr>]))" by (simp add: lst)
    show "sorted (?xs @ [last ?xs])" using assms(3) by (auto simp: sorted_append lst)
  qed
  then show ?thesis
    using odd_level_duplicates_last [of ?xs "hashInternal sha ds"] assms(1,2) ne(1) by (simp add: buildRoot_sorted)
qed

section \<open>Witnesses\<close>

definition sample_leaves :: "MerkleLeaf list" where
  "sample_leaves = [\<lparr>ml_Index = 0, ml_LeafHash = ''c''\<rparr>, \<lparr>ml_Index = 1, ml_LeafHash = ''a''\<rparr>,
     \<lparr>ml_Index = 2, ml_LeafHash = ''b''\<rparr>]"

lemma inclusion_proofs_lead_to_the_root_witness:
  "\<exists>path. BuildInclusionProofs (\<lambda>x. x) sample_leaves 1 = Some path
    \<and> follow (\<lambda>x. x) True ''a'' path = BuildMerkleRoot (\<lambda>x. x) sample_leaves"
  using inclusion_proofs_lead_to_the_root [of sample_leaves "\<lparr>ml_Index = 1, ml_LeafHash = ''a''\<rparr>" "\<lambda>x. x" True]
  by (simp add: sample_leaves_def BuildInclusionProofs_def BuildMerkleRoot_def)

lemma root_depends_on_the_leaf_hashes_only_witness:
  "BuildMerkleRoot (\<lambda>x. x) (rev sample_leaves) = BuildMerkleRoot (\<lambda>x. x) sample_leaves"
  using root_depends_on_the_leaf_hashes_only [of "rev sample_leaves" sample_leaves "\<lambda>x. x" True]
  by (simp add: BuildMerkleRoot_def sample_leaves_def add_mset_commute)

lemma root_binds_the_leaf_hashes_witness:
  "mset (map ml_LeafHash sample_leaves) = mset (map ml_LeafHash (rev sample_leaves))
    \<or> collision (\<lambda>x. [hd (x @ ''0'')]) (root_inputs (\<lambda>x. [hd (x @ ''0'')]) True sample_leaves)
        (root_inputs (\<lambda>x. [hd (x @ ''0'')]) True (rev sample_leaves))"
proof (rule root_binds_the_leaf_hashes [where n = 1])
  show "buildRoot (\<lambda>x. [hd (x @ ''0'')]) sample_leaves True = buildRoot (\<lambda>x. [hd (x @ ''0'')]) (rev sample_leaves) True"
    by (simp add: buildRoot_sorted sample_leaves_def insort_left_comm)
qed (auto simp: sample_leaves_def)

end
