(* ===== verification/EvidencePack.thy ===== *)
theory EvidencePack
  imports Merkle
begin

text \<open>
  \<^verbatim>\<open>evidence/models/evidence.go\<close> and the parts of \<^verbatim>\<open>evidence/services\<close> that build, sign and check a
  pack: sealing of the items, completeness, the signature and its verification, the recomputation of
  the root.

  The seventeen traceability, identity and settlement fields that a pending leaf, a request and a
  pack share are the record \<open>evidence_meta\<close>.  Pointers are options, decimals and floats rationals,
  string maps association lists.  SHA-256, ed25519, base64, JSON and the timestamp format are the
  fields of \<open>crypto\<close>.
\<close>

section \<open>Vocabulary\<close>

abbreviation (input) LeafTypeRawSettlementLine :: string where "LeafTypeRawSettlementLine \<equiv> ''RAW_SETTLEMENT_LINE''"
abbreviation (input) LeafTypeCanonicalSettlementObservation :: string where
  "LeafTypeCanonicalSettlementObservation \<equiv> ''CANONICAL_SETTLEMENT_OBSERVATION''"
abbreviation (input) LeafTypeAttachmentDecision :: string where "LeafTypeAttachmentDecision \<equiv> ''ATTACHMENT_DECISION''"
abbreviation (input) LeafTypeVarianceDecision :: string where "LeafTypeVarianceDecision \<equiv> ''VARIANCE_DECISION''"
abbreviation (input) LeafTypeEnvelopeHash :: string where "LeafTypeEnvelopeHash \<equiv> ''ENVELOPE_HASH''"
abbreviation (input) LeafTypeCanonicalIntentHash :: string where "LeafTypeCanonicalIntentHash \<equiv> ''CANONICAL_INTENT_HASH''"
abbreviation (input) LeafTypeGovernanceDecision :: string where
  "LeafTypeGovernanceDecision \<equiv> ''GOVERNANCE_DECISION_AT_CANONICAL''"
abbreviation (input) LeafTypeRawSettlementFile :: string where "LeafTypeRawSettlementFile \<equiv> ''RAW_SETTLEMENT_FILE''"
abbreviation (input) LeafTypeFinalEvidenceView :: string where "LeafTypeFinalEvidenceView \<equiv> ''FINAL_EVIDENCE_VIEW''"
abbreviation (input) LeafTypeBatchAttachmentSummary :: string where
  "LeafTypeBatchAttachmentSummary \<equiv> ''BATCH_ATTACHMENT_SUMMARY''"
abbreviation (input) LeafTypeBatchVarianceSummary :: string where
  "LeafTypeBatchVarianceSummary \<equiv> ''BATCH_VARIANCE_SUMMARY''"
abbreviation (input) LeafTypeCanonicalBatch :: string where "LeafTypeCanonicalBatch \<equiv> ''CANONICAL_BATCH''"
abbreviation (input) LeafTypeFileContentHash :: string where "LeafTypeFileContentHash \<equiv> ''FILE_CONTENT_HASH''"

abbreviation (input) PackStatusDraft :: string where "PackStatusDraft \<equiv> ''DRAFT''"
abbreviation (input) PackStatusActive :: string where "PackStatusActive \<equiv> ''ACTIVE''"
abbreviation (input) PackStatusSuperseded :: string where "PackStatusSuperseded \<equiv> ''SUPERSEDED''"

abbreviation (input) CanonicalIntentPackCommitmentV1 :: string where
  "CanonicalIntentPackCommitmentV1 \<equiv> ''intent_pack_commitment_v1''"
abbreviation (input) CanonicalBatchPackCommitmentV1 :: string where
  "CanonicalBatchPackCommitmentV1 \<equiv> ''batch_pack_commitment_v1''"
abbreviation (input) SignatureVerificationNotVerified :: string where
  "SignatureVerificationNotVerified \<equiv> ''NOT_VERIFIED''"

definition RequiredLeafTypes :: "string list" where
  "RequiredLeafTypes = [LeafTypeRawSettlementLine, LeafTypeCanonicalSettlementObservation,
     LeafTypeAttachmentDecision, LeafTypeVarianceDecision, LeafTypeEnvelopeHash,
     LeafTypeCanonicalIntentHash, LeafTypeGovernanceDecision, LeafTypeRawSettlementFile,
     ''RAW_ROW_EVIDENCE_LEAF_HASH'', ''CANONICAL_ROW_EVIDENCE_LEAF_HASH'', ''MAPPING_PROFILE_HASH'',
     ''BUSINESS_IDEMPOTENCY_HASH'', ''TOKENIZED_DATA_HASH'']"

definition RequiredBatchLeafTypes :: "string list" where
  "RequiredBatchLeafTypes = [LeafTypeRawSettlementFile, LeafTypeCanonicalBatch,
     LeafTypeBatchAttachmentSummary, LeafTypeBatchVarianceSummary, LeafTypeFileContentHash]"

abbreviation (input) RequiredIntentLeafCount :: nat where "RequiredIntentLeafCount \<equiv> 14"
abbreviation (input) RequiredBatchLeafCount :: nat where "RequiredBatchLeafCount \<equiv> 5"

definition validModes :: "string list" where
  "validModes = [''INTELLIGENCE_ATTACH'', ''SECONDARY_DISPATCH'', ''FULL_CONTROL'', ''BATCH_ATTACH'']"

section \<open>Data\<close>

record evidence_meta =
  em_PaymentInstructionReceived :: "time option"
  em_CanonicalIntentCreated :: "time option"
  em_MappingProfileUsed :: "string option"
  em_RequiredFieldsStatus :: "bool option"
  em_TokenizationStatus :: "bool option"
  em_GovernanceDecision :: "string option"
  em_ClientPayoutRef :: "string option"
  em_Amount :: rat
  em_Currency :: string
  em_SettlementRecordReceived :: "time option"
  em_CanonicalSettlementCreated :: "time option"
  em_BankReference :: "string option"
  em_ClientReference :: "string option"
  em_AttachmentDecision :: "string option"
  em_MatchConfidence :: "rat option"
  em_ValueDateCheck :: "bool option"
  em_AmountMatch :: "bool option"

definition zero_meta :: evidence_meta where
  "zero_meta = \<lparr>em_PaymentInstructionReceived = None, em_CanonicalIntentCreated = None,
     em_MappingProfileUsed = None, em_RequiredFieldsStatus = None, em_TokenizationStatus = None,
     em_GovernanceDecision = None, em_ClientPayoutRef = None, em_Amount = 0, em_Currency = [],
     em_SettlementRecordReceived = None, em_CanonicalSettlementCreated = None, em_BankReference = None,
     em_ClientReference = None, em_AttachmentDecision = None, em_MatchConfidence = None,
     em_ValueDateCheck = None, em_AmountMatch = None\<rparr>"

record EvidenceItem =
  ei_Type :: string
  ei_Ref :: string
  ei_Hash :: string
  ei_SchemaVersion :: string
  ei_EventVersion :: string
  ei_LeafHash :: string
  ei_HashType :: string
  ei_Version :: string
  ei_TraceID :: string
  ei_SourceEventID :: string

definition zero_item :: EvidenceItem where
  "zero_item = \<lparr>ei_Type = [], ei_Ref = [], ei_Hash = [], ei_SchemaVersion = [], ei_EventVersion = [],
     ei_LeafHash = [], ei_HashType = [], ei_Version = [], ei_TraceID = [], ei_SourceEventID = []\<rparr>"

record Signature =
  sg_Signer :: string
  sg_Alg :: string
  sg_Sig :: string
  sg_SignedAt :: time
  sg_KeyID :: string
  sg_SignedPayloadHash :: string
  sg_CanonicalizationVersion :: string
  sg_VerificationStatus :: string
  sg_SignedPayload :: string

record EvidencePack =
  ep_EvidencePackID :: string
  ep_TenantID :: string
  ep_TraceID :: string
  ep_IntentID :: string
  ep_ContractID :: string
  ep_ClientBatchID :: string
  ep_ArtifactID :: string
  ep_ArtifactVersionID :: string
  ep_Mode :: string
  ep_PackStatus :: string
  ep_Items :: "EvidenceItem list"
  ep_MerkleRoot :: string
  ep_RulesetVersion :: string
  ep_SchemaVersions :: "(string \<times> string) list"
  ep_Signatures :: "Signature list"
  ep_SupersedesPackID :: string
  ep_SupersedesByPackID :: string
  ep_RevisionReason :: string
  ep_BasedOnVersions :: "(string \<times> string) list"
  ep_PackCompletenessScore :: rat
  ep_LeafCount :: nat
  ep_RequiredLeafCount :: nat
  ep_SettlementLeafPresentFlag :: bool
  ep_AttachmentDecisionLeafPresentFlag :: bool
  ep_ZordSignature :: string
  ep_MerkleSchemeVersion :: string
  ep_Meta :: evidence_meta
  ep_CreatedAt :: time

record GenerateEvidenceRequest =
  gr_TenantID :: string
  gr_IntentID :: string
  gr_ClientBatchID :: string
  gr_EnvelopeID :: string
  gr_TraceID :: string
  gr_ContractID :: string
  gr_ArtifactID :: string
  gr_ArtifactVersionID :: string
  gr_Mode :: string
  gr_RulesetVersion :: string
  gr_SchemaVersions :: "(string \<times> string) list"
  gr_SupersedesPackID :: string
  gr_RevisionReason :: string
  gr_BasedOnVersions :: "(string \<times> string) list"
  gr_Meta :: evidence_meta
  gr_Items :: "EvidenceItem list"

record ArchiveManifest =
  am_EvidencePackID :: string
  am_TenantID :: string
  am_MerkleRoot :: string
  am_RulesetVersion :: string
  am_Signatures :: "Signature list"
  am_Items :: "EvidenceItem list"
  am_LeafCount :: nat
  am_RequiredLeafCount :: nat
  am_PackStatus :: string
  am_Mode :: string
  am_SchemaVersions :: "(string \<times> string) list"
  am_ZordSignature :: string

record PackEvent =
  pe_EventType :: string
  pe_EventVersion :: string
  pe_SourceService :: string
  pe_SchemaVersion :: string
  pe_EvidencePackID :: string
  pe_TenantID :: string
  pe_BatchID :: string
  pe_IntentID :: string
  pe_ContractID :: string
  pe_Mode :: string
  pe_MerkleRoot :: string
  pe_RulesetVersion :: string
  pe_OccurredAt :: time
  pe_PackCompletenessScore :: rat
  pe_LeafCount :: nat
  pe_RequiredLeafCount :: nat
  pe_SettlementLeafPresentFlag :: bool
  pe_AttachmentDecisionLeafPresentFlag :: bool
  pe_Extra :: "(string \<times> string) list"

record crypto =
  cy_sha :: "string \<Rightarrow> string"
  cy_sign :: "string \<Rightarrow> string"
  cy_verify :: "string \<Rightarrow> string \<Rightarrow> bool"
  cy_b64 :: "string \<Rightarrow> string"
  cy_unb64 :: "string \<Rightarrow> string option"
  cy_key :: string
  cy_rfc3339 :: "time \<Rightarrow> string"
  cy_json :: "EvidencePack \<Rightarrow> string"
  cy_manifest :: "string \<Rightarrow> ArchiveManifest option"
  cy_json_event :: "PackEvent \<Rightarrow> string"

section \<open>Completeness\<close>

definition has_type :: "EvidenceItem list \<Rightarrow> string \<Rightarrow> bool" where
  "has_type its t \<longleftrightarrow> list_ex (\<lambda>i. ei_Type i = t) its"

definition settlement_leaves :: "EvidenceItem list \<Rightarrow> bool" where
  "settlement_leaves its \<longleftrightarrow> has_type its LeafTypeRawSettlementFile \<and> has_type its LeafTypeRawSettlementLine
     \<and> has_type its LeafTypeCanonicalSettlementObservation"

definition decision_leaves :: "EvidenceItem list \<Rightarrow> bool" where
  "decision_leaves its \<longleftrightarrow> has_type its LeafTypeAttachmentDecision \<and> has_type its LeafTypeVarianceDecision"

definition batch_decision_leaves :: "EvidenceItem list \<Rightarrow> bool" where
  "batch_decision_leaves its \<longleftrightarrow>
     has_type its LeafTypeBatchAttachmentSummary \<and> has_type its LeafTypeBatchVarianceSummary"

definition completeness :: "nat \<Rightarrow> nat \<Rightarrow> rat" where
  "completeness leafCount required =
     (if required > 0 then min 1 (of_nat leafCount / of_nat required) else 0)"

definition ComputeCompletenessMetadata :: "EvidencePack \<Rightarrow> EvidencePack" where
  "ComputeCompletenessMetadata p =
     (let its = ep_Items p; batch = (ep_ClientBatchID p \<noteq> []);
          required = (if batch then RequiredBatchLeafCount else RequiredIntentLeafCount)
      in p\<lparr>ep_LeafCount := length its, ep_RequiredLeafCount := required,
           ep_SettlementLeafPresentFlag :=
             (if batch then has_type its LeafTypeRawSettlementFile else settlement_leaves its),
           ep_AttachmentDecisionLeafPresentFlag :=
             (if batch then batch_decision_leaves its else decision_leaves its),
           ep_PackCompletenessScore := completeness (length its) required\<rparr>)"

section \<open>Sealing\<close>

text \<open>The bytes of a leaf: the hash of an item is trimmed when a pack is sealed.\<close>

definition leaf_input :: "string \<Rightarrow> EvidenceItem \<Rightarrow> string" where
  "leaf_input h it = str_join [ei_Type it, ei_Ref it, h, ei_SchemaVersion it] ''||''"

definition seal_item :: "(string \<Rightarrow> string) \<Rightarrow> EvidenceItem \<Rightarrow> EvidenceItem" where
  "seal_item sha it = it\<lparr>ei_LeafHash := sha (leaf_input (TrimSpace (ei_Hash it)) it)\<rparr>"

definition leaves_of :: "EvidenceItem list \<Rightarrow> MerkleLeaf list" where
  "leaves_of its = map (\<lambda>i. \<lparr>ml_Index = i, ml_LeafHash = ei_LeafHash (its ! i)\<rparr>) [0..<length its]"

definition final_view :: "(string \<Rightarrow> string) \<Rightarrow> string \<Rightarrow> string \<Rightarrow> EvidenceItem" where
  "final_view sha packID interimRoot =
     (let it = zero_item\<lparr>ei_Type := LeafTypeFinalEvidenceView, ei_Ref := packID,
                         ei_Hash := sha (packID @ ''|'' @ interimRoot), ei_SchemaVersion := ''v1''\<rparr>
      in it\<lparr>ei_LeafHash := sha (leaf_input (ei_Hash it) it)\<rparr>)"

definition seal_items :: "(string \<Rightarrow> string) \<Rightarrow> string \<Rightarrow> EvidenceItem list \<Rightarrow> EvidenceItem list" where
  "seal_items sha packID its =
     (let its = map (seal_item sha) its
      in its @ [final_view sha packID (BuildMerkleRoot sha (leaves_of its))])"

definition sealed_root :: "(string \<Rightarrow> string) \<Rightarrow> string \<Rightarrow> EvidenceItem list \<Rightarrow> string" where
  "sealed_root sha packID its = BuildMerkleRoot sha (leaves_of (seal_items sha packID its))"

definition Sign :: "crypto \<Rightarrow> string \<Rightarrow> string" where
  "Sign c payload = ''ZORD'' @ cy_b64 c (cy_sign c payload)"

definition buildPackSignature :: "crypto \<Rightarrow> string \<Rightarrow> string \<Rightarrow> time \<Rightarrow> Signature" where
  "buildPackSignature c canonicalVersion payload signedAt =
     \<lparr>sg_Signer = ''zord_evidence'', sg_Alg = ''ed25519'', sg_Sig = Sign c payload, sg_SignedAt = signedAt,
      sg_KeyID = cy_key c, sg_SignedPayloadHash = cy_sha c payload,
      sg_CanonicalizationVersion = canonicalVersion,
      sg_VerificationStatus = SignatureVerificationNotVerified, sg_SignedPayload = payload\<rparr>"

definition intent_payload :: "crypto \<Rightarrow> string \<Rightarrow> string \<Rightarrow> GenerateEvidenceRequest \<Rightarrow> time \<Rightarrow> string" where
  "intent_payload c packID mroot req now =
     str_join [packID, mroot, gr_IntentID req, gr_ContractID req, cy_rfc3339 c now, gr_RulesetVersion req] ''|''"

definition batch_payload :: "crypto \<Rightarrow> string \<Rightarrow> string \<Rightarrow> GenerateEvidenceRequest \<Rightarrow> time \<Rightarrow> string" where
  "batch_payload c packID mroot req now =
     str_join [packID, mroot, gr_ClientBatchID req, cy_rfc3339 c now, gr_RulesetVersion req] ''|''"

definition build_intent_pack :: "crypto \<Rightarrow> string \<Rightarrow> time \<Rightarrow> GenerateEvidenceRequest \<Rightarrow> EvidencePack" where
  "build_intent_pack c packID now req =
     (let mroot = sealed_root (cy_sha c) packID (gr_Items req);
          sig = buildPackSignature c CanonicalIntentPackCommitmentV1 (intent_payload c packID mroot req now) now
      in ComputeCompletenessMetadata
         \<lparr>ep_EvidencePackID = packID, ep_TenantID = gr_TenantID req, ep_TraceID = gr_TraceID req,
          ep_IntentID = gr_IntentID req, ep_ContractID = gr_ContractID req,
          ep_ClientBatchID = gr_ClientBatchID req, ep_ArtifactID = gr_ArtifactID req,
          ep_ArtifactVersionID = gr_ArtifactVersionID req, ep_Mode = gr_Mode req,
          ep_PackStatus = PackStatusDraft, ep_Items = seal_items (cy_sha c) packID (gr_Items req),
          ep_MerkleRoot = mroot, ep_RulesetVersion = gr_RulesetVersion req,
          ep_SchemaVersions = gr_SchemaVersions req, ep_Signatures = [sig],
          ep_SupersedesPackID = gr_SupersedesPackID req, ep_SupersedesByPackID = [],
          ep_RevisionReason = gr_RevisionReason req, ep_BasedOnVersions = gr_BasedOnVersions req,
          ep_PackCompletenessScore = 0, ep_LeafCount = 0, ep_RequiredLeafCount = 0,
          ep_SettlementLeafPresentFlag = False, ep_AttachmentDecisionLeafPresentFlag = False,
          ep_ZordSignature = sg_Sig sig, ep_MerkleSchemeVersion = [], ep_Meta = gr_Meta req,
          ep_CreatedAt = now\<rparr>)"

text \<open>A batch pack takes only reference, amount and currency of the metadata.\<close>

definition build_batch_pack :: "crypto \<Rightarrow> string \<Rightarrow> time \<Rightarrow> GenerateEvidenceRequest \<Rightarrow> EvidencePack" where
  "build_batch_pack c packID now req =
     (let mroot = sealed_root (cy_sha c) packID (gr_Items req);
          sig = buildPackSignature c CanonicalBatchPackCommitmentV1 (batch_payload c packID mroot req now) now
      in ComputeCompletenessMetadata
         \<lparr>ep_EvidencePackID = packID, ep_TenantID = gr_TenantID req, ep_TraceID = gr_TraceID req,
          ep_IntentID = [], ep_ContractID = [], ep_ClientBatchID = gr_ClientBatchID req,
          ep_ArtifactID = [], ep_ArtifactVersionID = [], ep_Mode = gr_Mode req,
          ep_PackStatus = PackStatusDraft, ep_Items = seal_items (cy_sha c) packID (gr_Items req),
          ep_MerkleRoot = mroot, ep_RulesetVersion = gr_RulesetVersion req,
          ep_SchemaVersions = gr_SchemaVersions req, ep_Signatures = [sig],
          ep_SupersedesPackID = [], ep_SupersedesByPackID = [], ep_RevisionReason = [],
          ep_BasedOnVersions = [], ep_PackCompletenessScore = 0, ep_LeafCount = 0,
          ep_RequiredLeafCount = 0, ep_SettlementLeafPresentFlag = False,
          ep_AttachmentDecisionLeafPresentFlag = False, ep_ZordSignature = sg_Sig sig,
          ep_MerkleSchemeVersion = [],
          ep_Meta = zero_meta\<lparr>em_ClientPayoutRef := em_ClientPayoutRef (gr_Meta req),
            em_Amount := em_Amount (gr_Meta req), em_Currency := em_Currency (gr_Meta req)\<rparr>,
          ep_CreatedAt = now\<rparr>)"

section \<open>Checking a pack\<close>

definition RecomputeMerkleRoot :: "(string \<Rightarrow> string) \<Rightarrow> EvidencePack \<Rightarrow> string" where
  "RecomputeMerkleRoot sha pack =
     (let leaves = map (\<lambda>i. \<lparr>ml_Index = i, ml_LeafHash = sha (leaf_input (ei_Hash (ep_Items pack ! i)) (ep_Items pack ! i))\<rparr>)
            [0..<length (ep_Items pack)]
      in if ep_MerkleSchemeVersion pack = MerkleSchemeV1 \<or> ep_MerkleSchemeVersion pack = []
         then BuildMerkleRootV1 sha leaves else BuildMerkleRoot sha leaves)"

record PackManifestV1 =
  mf_EvidencePackID :: string
  mf_TenantID :: string
  mf_MerkleRoot :: string
  mf_ScopeID :: string
  mf_CreatedAt :: string
  mf_RulesetVersion :: string
  mf_CanonicalizationVersion :: string

definition reconstructPackManifest :: "crypto \<Rightarrow> EvidencePack \<Rightarrow> PackManifestV1" where
  "reconstructPackManifest c pack =
     \<lparr>mf_EvidencePackID = ep_EvidencePackID pack, mf_TenantID = ep_TenantID pack,
      mf_MerkleRoot = ep_MerkleRoot pack,
      mf_ScopeID = (if ep_IntentID pack = [] then ep_ClientBatchID pack else ep_IntentID pack),
      mf_CreatedAt = cy_rfc3339 c (ep_CreatedAt pack), mf_RulesetVersion = ep_RulesetVersion pack,
      mf_CanonicalizationVersion = ''v1''\<rparr>"

definition decodeZordSignature :: "crypto \<Rightarrow> string \<Rightarrow> string option" where
  "decodeZordSignature c sig = (if has_prefix ''ZORD'' sig then cy_unb64 c (drop 4 sig) else None)"

datatype signature_error = SigningNotConfigured | NoRecordedSignature | LegacySignature
  | UnsupportedAlgorithm string | ContentHashMismatch string string | SignatureNotDecoded
  | SignatureDoesNotVerify

text \<open>The errors that wrap \<open>ErrSignatureNotAvailable\<close>.\<close>

definition signature_not_available :: "signature_error \<Rightarrow> bool" where
  "signature_not_available e \<longleftrightarrow> e \<in> {SigningNotConfigured, NoRecordedSignature, LegacySignature}"

definition canonical_bytes :: "crypto \<Rightarrow> EvidencePack \<Rightarrow> string" where
  "canonical_bytes c pack =
     (let m = reconstructPackManifest c pack
      in str_join [if mf_CanonicalizationVersion m = [] then ''v1'' else mf_CanonicalizationVersion m,
           ep_EvidencePackID pack, ep_MerkleRoot pack, mf_ScopeID m,
           cy_rfc3339 c (ep_CreatedAt pack), ep_RulesetVersion pack] ''|'')"

text \<open>\<open>None\<close> is success; \<open>configured\<close> says that the deployment has a signing key.\<close>

definition VerifyPackSignature :: "crypto \<Rightarrow> bool \<Rightarrow> EvidencePack \<Rightarrow> signature_error option" where
  "VerifyPackSignature c configured pack =
     (if \<not> configured then Some SigningNotConfigured
      else case ep_Signatures pack of
        [] \<Rightarrow> Some NoRecordedSignature
      | sig # _ \<Rightarrow>
          if sg_SignedPayload sig = [] then Some LegacySignature
          else if sg_Alg sig \<noteq> ''ed25519'' then Some (UnsupportedAlgorithm (sg_Alg sig))
          else let computedHash = cy_sha c (canonical_bytes c pack)
               in if sg_SignedPayloadHash sig \<noteq> [] \<and> computedHash \<noteq> sg_SignedPayloadHash sig
                  then Some (ContentHashMismatch computedHash (sg_SignedPayloadHash sig))
                  else case decodeZordSignature c (sg_Sig sig) of
                      None \<Rightarrow> Some SignatureNotDecoded
                    | Some bytes \<Rightarrow>
                        if cy_verify c (sg_SignedPayload sig) bytes then None else Some SignatureDoesNotVerify)"

end
