(* ===== verification/EvidenceStore.thy ===== *)
theory EvidenceStore
  imports EvidencePack Effects
begin

text \<open>
  The tables of the evidence service and the statements of \<^verbatim>\<open>evidence/repositories\<close> that the service
  executes on them, with the unique indexes of \<^verbatim>\<open>evidence/db/migrations\<close>; the object store of
  \<^verbatim>\<open>evidence/storage\<close>.

  A table is the list of its rows, a nullable column an option.  Generated identifiers and the
  \<open>created_at\<close>, \<open>updated_at\<close> columns that nothing reads are left out.  Each function is one statement or
  one transaction of the code: it gives an error and no change, or the new tables.
\<close>

section \<open>Rows\<close>

record PendingLeaf =
  pl_TenantID :: string
  pl_IntentID :: "string option"
  pl_EnvelopeID :: "string option"
  pl_ContractID :: "string option"
  pl_ClientBatchID :: "string option"
  pl_ArtifactID :: "string option"
  pl_ArtifactVersionID :: "string option"
  pl_LeafType :: string
  pl_ItemRef :: string
  pl_Hash :: string
  pl_SchemaVersion :: string
  pl_EventVersion :: string
  pl_SourceTopic :: string
  pl_SourceEventID :: string
  pl_TraceID :: string
  pl_Meta :: evidence_meta

record LeafReceipt =
  lr_TenantID :: string
  lr_ScopeType :: string
  lr_ScopeRef :: string
  lr_LeafType :: string
  lr_LeafHash :: string
  lr_SourceTopic :: string
  lr_SourceEventID :: "string option"
  lr_TraceID :: "string option"
  lr_SchemaVersion :: string
  lr_EventVersion :: string
  lr_AmountMinor :: "rat option"
  lr_Currency :: "string option"
  lr_ClientReference :: "string option"
  lr_BankReference :: "string option"
  lr_ReceiptStatus :: string
  lr_DiscardReason :: "string option"

record EvidenceArchive =
  ea_ArchiveID :: string
  ea_EvidencePackID :: string
  ea_TenantID :: string
  ea_ObjectRef :: string
  ea_EncryptionKeyID :: string
  ea_ArchiveCiphertextHash :: string
  ea_PlaintextManifestHash :: string
  ea_ArchiveSizeBytes :: int
  ea_ArchiveVersion :: string
  ea_ArchiveVerifiedAt :: "time option"
  ea_CreatedAt :: time

record InclusionProof =
  ip_EvidencePackID :: string
  ip_LeafIndex :: nat
  ip_LeafHash :: string
  ip_ProofPath :: "ProofNode list"

record EvidenceOutbox =
  eo_EnvelopeID :: string
  eo_TraceID :: string
  eo_TenantID :: string
  eo_ContractID :: string
  eo_AggregateType :: string
  eo_AggregateID :: string
  eo_EventType :: string
  eo_Payload :: string
  eo_Status :: string
  eo_CreatedAt :: time
  eo_EvidencePackID :: string
  eo_PayloadHash :: string

record ReplayJob =
  rj_ReplayJobID :: string
  rj_TenantID :: string
  rj_SourceEvidencePackID :: string
  rj_IntentID :: string
  rj_ContractID :: string
  rj_RulesetVersion :: string
  rj_MappingVersions :: "(string \<times> string) list"
  rj_RequestedBy :: string
  rj_Status :: string
  rj_NewEvidencePackID :: string
  rj_EquivalenceResult :: string
  rj_FailureReason :: string

text \<open>A row of \<^verbatim>\<open>evidence_packs\<close> with its items and signatures, and the columns the enrichment writes.\<close>

record PackRow =
  pk_Pack :: EvidencePack
  pk_ObjectRef :: string
  pk_ProofStatus :: string
  pk_ProofScore :: int
  pk_VerificationStatus :: bool
  pk_LastVerifiedAt :: "time option"

record VerificationFailure =
  vl_Layer :: string
  vl_Status :: string

text \<open>A run with its failures, which are a table of their own; the texts that explain them are left out.\<close>

record VerificationRun =
  vu_EvidencePackID :: string
  vu_TenantID :: string
  vu_OverallStatus :: string
  vu_DBMerkleStatus :: string
  vu_ArchiveStatus :: string
  vu_SignatureStatus :: string
  vu_StoredRoot :: string
  vu_ComputedRoot :: string
  vu_CheckedAt :: time
  vu_Failures :: "VerificationFailure list"

record evidence_db =
  db_Leaves :: "PendingLeaf list"
  db_Receipts :: "LeafReceipt list"
  db_Packs :: "PackRow list"
  db_Archives :: "EvidenceArchive list"
  db_Proofs :: "InclusionProof list"
  db_Outbox :: "EvidenceOutbox list"
  db_Replays :: "ReplayJob list"
  db_Runs :: "VerificationRun list"

definition empty_db :: evidence_db where
  "empty_db = \<lparr>db_Leaves = [], db_Receipts = [], db_Packs = [], db_Archives = [], db_Proofs = [],
     db_Outbox = [], db_Replays = [], db_Runs = []\<rparr>"

section \<open>Pending leaves\<close>

text \<open>\<open>COALESCE(EXCLUDED.x, x)\<close>.\<close>

definition coalesce :: "'a option \<Rightarrow> 'a option \<Rightarrow> 'a option" where
  "coalesce a b = (case a of None \<Rightarrow> b | Some _ \<Rightarrow> a)"

text \<open>Amount and currency are never null, so they are always taken from the new leaf.\<close>

definition coalesce_meta :: "evidence_meta \<Rightarrow> evidence_meta \<Rightarrow> evidence_meta" where
  "coalesce_meta a b =
     \<lparr>em_PaymentInstructionReceived = coalesce (em_PaymentInstructionReceived a) (em_PaymentInstructionReceived b),
      em_CanonicalIntentCreated = coalesce (em_CanonicalIntentCreated a) (em_CanonicalIntentCreated b),
      em_MappingProfileUsed = coalesce (em_MappingProfileUsed a) (em_MappingProfileUsed b),
      em_RequiredFieldsStatus = coalesce (em_RequiredFieldsStatus a) (em_RequiredFieldsStatus b),
      em_TokenizationStatus = coalesce (em_TokenizationStatus a) (em_TokenizationStatus b),
      em_GovernanceDecision = coalesce (em_GovernanceDecision a) (em_GovernanceDecision b),
      em_ClientPayoutRef = coalesce (em_ClientPayoutRef a) (em_ClientPayoutRef b),
      em_Amount = em_Amount a, em_Currency = em_Currency a,
      em_SettlementRecordReceived = coalesce (em_SettlementRecordReceived a) (em_SettlementRecordReceived b),
      em_CanonicalSettlementCreated = coalesce (em_CanonicalSettlementCreated a) (em_CanonicalSettlementCreated b),
      em_BankReference = coalesce (em_BankReference a) (em_BankReference b),
      em_ClientReference = coalesce (em_ClientReference a) (em_ClientReference b),
      em_AttachmentDecision = coalesce (em_AttachmentDecision a) (em_AttachmentDecision b),
      em_MatchConfidence = coalesce (em_MatchConfidence a) (em_MatchConfidence b),
      em_ValueDateCheck = coalesce (em_ValueDateCheck a) (em_ValueDateCheck b),
      em_AmountMatch = coalesce (em_AmountMatch a) (em_AmountMatch b)\<rparr>"

definition overwrite_leaf :: "PendingLeaf \<Rightarrow> PendingLeaf \<Rightarrow> PendingLeaf" where
  "overwrite_leaf leaf old = old\<lparr>pl_ItemRef := pl_ItemRef leaf, pl_Hash := pl_Hash leaf,
     pl_ContractID := coalesce (pl_ContractID leaf) (pl_ContractID old),
     pl_ClientBatchID := coalesce (pl_ClientBatchID leaf) (pl_ClientBatchID old),
     pl_SourceTopic := pl_SourceTopic leaf, pl_SourceEventID := pl_SourceEventID leaf,
     pl_Meta := coalesce_meta (pl_Meta leaf) (pl_Meta old),
     pl_ArtifactID := coalesce (pl_ArtifactID leaf) (pl_ArtifactID old),
     pl_ArtifactVersionID := coalesce (pl_ArtifactVersionID leaf) (pl_ArtifactVersionID old)\<rparr>"

text \<open>The row an insert conflicts with: by intent, else by batch, else by envelope.\<close>

definition same_slot :: "PendingLeaf \<Rightarrow> PendingLeaf \<Rightarrow> bool" where
  "same_slot leaf old \<longleftrightarrow> pl_TenantID old = pl_TenantID leaf \<and> pl_LeafType old = pl_LeafType leaf
   \<and> (if pl_IntentID leaf = None \<and> pl_ClientBatchID leaf \<noteq> None then
        pl_ClientBatchID old = pl_ClientBatchID leaf \<and> pl_IntentID old = None
      else if pl_IntentID leaf = None \<and> pl_EnvelopeID leaf \<noteq> None then
        pl_EnvelopeID old = pl_EnvelopeID leaf \<and> pl_IntentID old = None \<and> pl_ClientBatchID old = None
      else pl_IntentID leaf \<noteq> None \<and> pl_IntentID old = pl_IntentID leaf)"

definition UpsertLeaf :: "PendingLeaf \<Rightarrow> evidence_db \<Rightarrow> string + unit \<times> evidence_db" where
  "UpsertLeaf leaf db =
     Inr ((), db\<lparr>db_Leaves :=
       (if list_ex (same_slot leaf) (db_Leaves db)
        then map (\<lambda>old. if same_slot leaf old then overwrite_leaf leaf old else old) (db_Leaves db)
        else db_Leaves db @ [leaf])\<rparr>)"

text \<open>The unique index on tenant, intent and leaf type.\<close>

definition intent_slots :: "PendingLeaf list \<Rightarrow> (string \<times> string option \<times> string) list" where
  "intent_slots ls = map (\<lambda>l. (pl_TenantID l, pl_IntentID l, pl_LeafType l)) (filter (\<lambda>l. pl_IntentID l \<noteq> None) ls)"

text \<open>The contract is never null here, so an empty one overwrites the stored one.\<close>

definition LinkEnvelopeToIntent :: "string \<Rightarrow> string \<Rightarrow> string \<Rightarrow> string \<Rightarrow> evidence_db
    \<Rightarrow> string + unit \<times> evidence_db" where
  "LinkEnvelopeToIntent tenantID envelopeID intentID contractID db =
     (let ls = map (\<lambda>l. if pl_TenantID l = tenantID \<and> pl_EnvelopeID l = Some envelopeID \<and> pl_IntentID l = None
                    then l\<lparr>pl_IntentID := Some intentID,
                           pl_ContractID := coalesce (Some contractID) (pl_ContractID l)\<rparr> else l) (db_Leaves db)
      in if distinct (intent_slots ls) then Inr ((), db\<lparr>db_Leaves := ls\<rparr>)
         else Inl ''link envelope to intent: duplicate key'')"

definition GetLeavesForIntent :: "string \<Rightarrow> string \<Rightarrow> evidence_db \<Rightarrow> PendingLeaf list" where
  "GetLeavesForIntent tenantID intentID db =
     filter (\<lambda>l. pl_TenantID l = tenantID \<and> pl_IntentID l = Some intentID) (db_Leaves db)"

definition GetLeavesForBatch :: "string \<Rightarrow> string \<Rightarrow> evidence_db \<Rightarrow> PendingLeaf list" where
  "GetLeavesForBatch tenantID batchID db =
     filter (\<lambda>l. pl_TenantID l = tenantID \<and> pl_ClientBatchID l = Some batchID \<and> pl_IntentID l = None) (db_Leaves db)"

definition DeleteForIntent :: "string \<Rightarrow> string \<Rightarrow> evidence_db \<Rightarrow> string + unit \<times> evidence_db" where
  "DeleteForIntent tenantID intentID db = Inr ((), db\<lparr>db_Leaves :=
     filter (\<lambda>l. \<not> (pl_TenantID l = tenantID \<and> pl_IntentID l = Some intentID)) (db_Leaves db)\<rparr>)"

definition DeleteForBatch :: "string \<Rightarrow> string \<Rightarrow> evidence_db \<Rightarrow> string + unit \<times> evidence_db" where
  "DeleteForBatch tenantID batchID db = Inr ((), db\<lparr>db_Leaves :=
     filter (\<lambda>l. \<not> (pl_TenantID l = tenantID \<and> pl_ClientBatchID l = Some batchID \<and> pl_IntentID l = None))
       (db_Leaves db)\<rparr>)"

definition ResolveIntentID :: "string \<Rightarrow> string \<Rightarrow> evidence_db \<Rightarrow> string" where
  "ResolveIntentID tenantID envelopeID db =
     (case List.find (\<lambda>l. pl_TenantID l = tenantID \<and> pl_EnvelopeID l = Some envelopeID \<and> pl_IntentID l \<noteq> None)
        (db_Leaves db) of None \<Rightarrow> [] | Some l \<Rightarrow> the (pl_IntentID l))"

section \<open>Receipts\<close>

abbreviation (input) LeafReceiptAccepted :: string where "LeafReceiptAccepted \<equiv> ''ACCEPTED''"
abbreviation (input) LeafReceiptDuplicate :: string where "LeafReceiptDuplicate \<equiv> ''DUPLICATE''"
abbreviation (input) LeafReceiptConflict :: string where "LeafReceiptConflict \<equiv> ''CONFLICT''"
abbreviation (input) LeafReceiptMalformed :: string where "LeafReceiptMalformed \<equiv> ''MALFORMED''"

definition set_text :: "string option \<Rightarrow> bool" where
  "set_text s \<longleftrightarrow> s \<noteq> None \<and> s \<noteq> Some []"

definition classified_row :: "PendingLeaf \<Rightarrow> PendingLeaf \<Rightarrow> bool" where
  "classified_row leaf old \<longleftrightarrow> pl_TenantID old = pl_TenantID leaf \<and> pl_LeafType old = pl_LeafType leaf
   \<and> (if set_text (pl_IntentID leaf) then pl_IntentID old = pl_IntentID leaf
      else if set_text (pl_ClientBatchID leaf) then pl_ClientBatchID old = pl_ClientBatchID leaf \<and> pl_IntentID old = None
      else set_text (pl_EnvelopeID leaf) \<and> pl_EnvelopeID old = pl_EnvelopeID leaf
        \<and> pl_IntentID old = None \<and> pl_ClientBatchID old = None)"

definition classify :: "PendingLeaf \<Rightarrow> evidence_db \<Rightarrow> string" where
  "classify leaf db =
     (case List.find (classified_row leaf) (db_Leaves db) of
        None \<Rightarrow> LeafReceiptAccepted
      | Some old \<Rightarrow> if pl_SourceEventID old = pl_SourceEventID leaf then LeafReceiptDuplicate else LeafReceiptConflict)"

definition with_event_id :: "PendingLeaf \<Rightarrow> PendingLeaf" where
  "with_event_id leaf = (if pl_SourceEventID leaf = [] then leaf\<lparr>pl_SourceEventID := ''fallback_'' @ pl_Hash leaf\<rparr> else leaf)"

definition receipt_scope :: "PendingLeaf \<Rightarrow> string \<times> string" where
  "receipt_scope leaf =
     (if set_text (pl_IntentID leaf) then (''intent'', the (pl_IntentID leaf))
      else if set_text (pl_ClientBatchID leaf) then (''batch'', the (pl_ClientBatchID leaf))
      else if set_text (pl_EnvelopeID leaf) then (''envelope'', the (pl_EnvelopeID leaf))
      else (''unknown'', []))"

definition nonblank :: "string \<Rightarrow> string option" where
  "nonblank s = (if s = [] then None else Some s)"

definition receipt_of :: "PendingLeaf \<Rightarrow> string \<Rightarrow> LeafReceipt" where
  "receipt_of leaf outcome =
     \<lparr>lr_TenantID = pl_TenantID leaf, lr_ScopeType = fst (receipt_scope leaf), lr_ScopeRef = snd (receipt_scope leaf),
      lr_LeafType = pl_LeafType leaf, lr_LeafHash = pl_Hash leaf, lr_SourceTopic = pl_SourceTopic leaf,
      lr_SourceEventID = nonblank (pl_SourceEventID leaf), lr_TraceID = nonblank (pl_TraceID leaf),
      lr_SchemaVersion = pl_SchemaVersion leaf, lr_EventVersion = pl_EventVersion leaf,
      lr_AmountMinor = (if em_Amount (pl_Meta leaf) = 0 then None else Some (em_Amount (pl_Meta leaf))),
      lr_Currency = nonblank (em_Currency (pl_Meta leaf)),
      lr_ClientReference = em_ClientPayoutRef (pl_Meta leaf), lr_BankReference = em_BankReference (pl_Meta leaf),
      lr_ReceiptStatus = outcome,
      lr_DiscardReason = (if outcome = LeafReceiptConflict then Some ''Conflicting upstream event''
        else if outcome = LeafReceiptDuplicate then Some ''Duplicate event delivery'' else None)\<rparr>"

text \<open>The unique index of the receipts; null event identifiers do not conflict.\<close>

definition same_receipt :: "LeafReceipt \<Rightarrow> LeafReceipt \<Rightarrow> bool" where
  "same_receipt a b \<longleftrightarrow> lr_SourceEventID a \<noteq> None \<and> lr_SourceEventID a = lr_SourceEventID b
     \<and> lr_TenantID a = lr_TenantID b \<and> lr_LeafType a = lr_LeafType b
     \<and> lr_ScopeType a = lr_ScopeType b \<and> lr_ScopeRef a = lr_ScopeRef b"

definition insert_receipt :: "LeafReceipt \<Rightarrow> evidence_db \<Rightarrow> evidence_db" where
  "insert_receipt r db =
     (if list_ex (same_receipt r) (db_Receipts db) then db else db\<lparr>db_Receipts := db_Receipts db @ [r]\<rparr>)"

definition WriteReceipt :: "PendingLeaf \<Rightarrow> evidence_db \<Rightarrow> string + string \<times> evidence_db" where
  "WriteReceipt leaf db =
     (let leaf = with_event_id leaf; outcome = classify leaf db
      in Inr (outcome, insert_receipt (receipt_of leaf outcome) db))"

definition WriteMalformedReceipt :: "string \<Rightarrow> string \<Rightarrow> string \<Rightarrow> string \<Rightarrow> string \<Rightarrow> evidence_db
    \<Rightarrow> string + unit \<times> evidence_db" where
  "WriteMalformedReceipt tenantID topic eventID traceID reason db =
     Inr ((), insert_receipt \<lparr>lr_TenantID = tenantID, lr_ScopeType = ''malformed'', lr_ScopeRef = eventID,
       lr_LeafType = ''MALFORMED_EVENT'', lr_LeafHash = replicate 64 CHR ''0'', lr_SourceTopic = topic,
       lr_SourceEventID = Some eventID, lr_TraceID = Some traceID, lr_SchemaVersion = [], lr_EventVersion = [],
       lr_AmountMinor = None, lr_Currency = None, lr_ClientReference = None, lr_BankReference = None,
       lr_ReceiptStatus = LeafReceiptMalformed, lr_DiscardReason = Some reason\<rparr> db)"

section \<open>Packs\<close>

abbreviation (input) ErrPackAlreadyExists :: string where
  "ErrPackAlreadyExists \<equiv> ''evidence pack already exists for this intent/batch''"

text \<open>A timestamp is kept to the microsecond.\<close>

definition stored_time :: "time \<Rightarrow> time" where
  "stored_time t = t div 1000 * 1000"

definition stored_signature :: "Signature \<Rightarrow> Signature" where
  "stored_signature sig = sig\<lparr> sg_SignedAt := stored_time (sg_SignedAt sig),
     sg_KeyID := (if sg_KeyID sig = [] then ''unknown'' else sg_KeyID sig),
     sg_CanonicalizationVersion := (if sg_CanonicalizationVersion sig = [] then ''legacy_v1'' else sg_CanonicalizationVersion sig),
     sg_VerificationStatus := (if sg_VerificationStatus sig = [] then SignatureVerificationNotVerified
                               else sg_VerificationStatus sig)\<rparr>"

text \<open>
  What the columns keep of a pack: every stored pack has the second scheme, the columns do not hold
  the type and version of an item's hash or the versions a revision is based on.
\<close>

definition stored_item :: "EvidenceItem \<Rightarrow> EvidenceItem" where
  "stored_item it = it\<lparr>ei_HashType := [], ei_Version := []\<rparr>"

definition stored_pack :: "EvidencePack \<Rightarrow> EvidencePack" where
  "stored_pack p = p\<lparr>ep_MerkleSchemeVersion := MerkleSchemeV2, ep_Items := map stored_item (ep_Items p),
     ep_Signatures := map stored_signature (ep_Signatures p), ep_BasedOnVersions := [],
     ep_CreatedAt := stored_time (ep_CreatedAt p)\<rparr>"

definition pack_id :: "PackRow \<Rightarrow> string" where
  "pack_id r = ep_EvidencePackID (pk_Pack r)"

text \<open>\<open>ON CONFLICT DO NOTHING\<close>: a draft can only collide with the primary key.\<close>

definition SavePackDraft :: "EvidencePack \<Rightarrow> string \<Rightarrow> EvidenceArchive \<Rightarrow> InclusionProof list \<Rightarrow> evidence_db
    \<Rightarrow> string + unit \<times> evidence_db" where
  "SavePackDraft pack ref archive proofs db =
     (if list_ex (\<lambda>r. pack_id r = ep_EvidencePackID pack) (db_Packs db) then Inl ErrPackAlreadyExists
      else Inr ((), db\<lparr>db_Packs := db_Packs db @ [\<lparr>pk_Pack = stored_pack pack, pk_ObjectRef = ref,
                           pk_ProofStatus = ''DRAFT'', pk_ProofScore = 0,
                           pk_VerificationStatus = False, pk_LastVerifiedAt = None\<rparr>],
                       db_Archives := db_Archives db @ [archive], db_Proofs := db_Proofs db @ proofs\<rparr>))"

text \<open>The two unique indexes on active packs; an empty intent or batch is null.\<close>

definition active_rival :: "EvidencePack \<Rightarrow> EvidencePack \<Rightarrow> bool" where
  "active_rival p q \<longleftrightarrow> ep_PackStatus q = PackStatusActive \<and> ep_TenantID p = ep_TenantID q
     \<and> (if ep_IntentID p = [] then ep_IntentID q = [] \<and> ep_ClientBatchID p \<noteq> [] \<and> ep_ClientBatchID q = ep_ClientBatchID p
        else ep_IntentID q = ep_IntentID p)"

definition map_pack :: "(EvidencePack \<Rightarrow> EvidencePack) \<Rightarrow> PackRow \<Rightarrow> PackRow" where
  "map_pack f r = r\<lparr>pk_Pack := f (pk_Pack r)\<rparr>"

definition ActivatePack :: "string \<Rightarrow> string \<Rightarrow> string \<Rightarrow> EvidenceOutbox \<Rightarrow> evidence_db \<Rightarrow> string + unit \<times> evidence_db" where
  "ActivatePack packID ref archiveHash evt db =
     (case List.find (\<lambda>r. pack_id r = packID \<and> ep_PackStatus (pk_Pack r) = PackStatusDraft) (db_Packs db) of
        None \<Rightarrow> Inl (''activate pack: draft row not found for '' @ packID)
      | Some row \<Rightarrow>
          if list_ex (\<lambda>r. active_rival (pk_Pack row) (pk_Pack r)) (db_Packs db) then Inl ErrPackAlreadyExists
          else Inr ((), db\<lparr>
            db_Packs := map (\<lambda>r. if pack_id r = packID \<and> ep_PackStatus (pk_Pack r) = PackStatusDraft
                then (map_pack (\<lambda>p. p\<lparr>ep_PackStatus := PackStatusActive\<rparr>) r)\<lparr>pk_ObjectRef := ref\<rparr> else r) (db_Packs db),
            db_Archives := (if archiveHash = [] then db_Archives db else
                map (\<lambda>a. if ea_EvidencePackID a = packID then a\<lparr>ea_ArchiveCiphertextHash := archiveHash\<rparr> else a)
                  (db_Archives db)),
            db_Outbox := db_Outbox db @ [evt]\<rparr>))"

definition MarkPackSuperseded :: "string \<Rightarrow> string \<Rightarrow> evidence_db \<Rightarrow> string + unit \<times> evidence_db" where
  "MarkPackSuperseded oldPackID newPackID db = Inr ((), db\<lparr>db_Packs :=
     map (\<lambda>r. if pack_id r = oldPackID \<and> ep_PackStatus (pk_Pack r) \<noteq> PackStatusSuperseded
              then map_pack (\<lambda>p. p\<lparr>ep_PackStatus := PackStatusSuperseded, ep_SupersedesByPackID := newPackID\<rparr>) r
              else r) (db_Packs db)\<rparr>)"

definition GetPackByID :: "string \<Rightarrow> evidence_db \<Rightarrow> EvidencePack option" where
  "GetPackByID packID db =
     (case List.find (\<lambda>r. pack_id r = packID) (db_Packs db) of
        None \<Rightarrow> None
      | Some r \<Rightarrow> let p = pk_Pack r
                  in Some (if ep_LeafCount p = 0 \<and> ep_Items p \<noteq> [] then ComputeCompletenessMetadata p else p))"

definition ListByIntentID :: "string \<Rightarrow> string \<Rightarrow> evidence_db \<Rightarrow> EvidencePack list" where
  "ListByIntentID tenantID intentID db =
     filter (\<lambda>p. ep_TenantID p = tenantID \<and> intentID \<noteq> [] \<and> ep_IntentID p = intentID) (map pk_Pack (db_Packs db))"

text \<open>The newest pack of a batch, of several with the same time the last one stored.\<close>

definition GetPackByBatchID :: "string \<Rightarrow> string \<Rightarrow> evidence_db \<Rightarrow> EvidencePack option" where
  "GetPackByBatchID tenantID batchID db =
     foldl (\<lambda>best p. if ep_TenantID p = tenantID \<and> batchID \<noteq> [] \<and> ep_ClientBatchID p = batchID \<and> ep_IntentID p = []
                       \<and> (case best of None \<Rightarrow> True | Some q \<Rightarrow> ep_CreatedAt q \<le> ep_CreatedAt p) then Some p else best)
       None (map pk_Pack (db_Packs db))"

definition GetArchiveByPackID :: "string \<Rightarrow> evidence_db \<Rightarrow> EvidenceArchive option" where
  "GetArchiveByPackID packID db =
     foldl (\<lambda>best a. if ea_EvidencePackID a = packID
                       \<and> (case best of None \<Rightarrow> True | Some b \<Rightarrow> ea_CreatedAt b \<le> ea_CreatedAt a) then Some a else best)
       None (db_Archives db)"

definition MarkArchiveVerified :: "string \<Rightarrow> time \<Rightarrow> evidence_db \<Rightarrow> string + unit \<times> evidence_db" where
  "MarkArchiveVerified packID verifiedAt db = Inr ((), db\<lparr>db_Archives :=
     map (\<lambda>a. if ea_EvidencePackID a = packID then a\<lparr>ea_ArchiveVerifiedAt := Some verifiedAt\<rparr> else a) (db_Archives db)\<rparr>)"

definition UpdateProofEnrichment :: "string \<Rightarrow> string \<Rightarrow> int \<Rightarrow> evidence_db \<Rightarrow> string + unit \<times> evidence_db" where
  "UpdateProofEnrichment packID status score db = Inr ((), db\<lparr>db_Packs :=
     map (\<lambda>r. if pack_id r = packID then r\<lparr>pk_ProofStatus := status, pk_ProofScore := score\<rparr> else r) (db_Packs db)\<rparr>)"

text \<open>The update that marks a row verified, and the one of its signatures that follows a success.\<close>

definition MarkVerified :: "string \<Rightarrow> bool \<Rightarrow> time \<Rightarrow> evidence_db \<Rightarrow> string + unit \<times> evidence_db" where
  "MarkVerified packID verified verifiedAt db = Inr ((), db\<lparr>db_Packs :=
     map (\<lambda>r. if pack_id r = packID
              then r\<lparr>pk_VerificationStatus := verified, pk_LastVerifiedAt := Some verifiedAt,
                     pk_ProofStatus := (if verified then ''VERIFIED'' else pk_ProofStatus r)\<rparr> else r) (db_Packs db)\<rparr>)"

definition MarkPackSignaturesVerified :: "string \<Rightarrow> bool \<Rightarrow> evidence_db \<Rightarrow> string + unit \<times> evidence_db" where
  "MarkPackSignaturesVerified packID verified db = Inr ((), db\<lparr>db_Packs :=
     map (\<lambda>r. if pack_id r = packID
              then map_pack (\<lambda>p. p\<lparr>ep_Signatures := map (\<lambda>sig. sig\<lparr>sg_VerificationStatus :=
                       (if verified then ''VERIFIED'' else SignatureVerificationNotVerified)\<rparr>) (ep_Signatures p)\<rparr>) r
              else r) (db_Packs db)\<rparr>)"

definition SaveRun :: "VerificationRun \<Rightarrow> evidence_db \<Rightarrow> string + unit \<times> evidence_db" where
  "SaveRun run db = Inr ((), db\<lparr>db_Runs := db_Runs db @ [run]\<rparr>)"

section \<open>Replay jobs\<close>

definition CreateReplayJob :: "ReplayJob \<Rightarrow> evidence_db \<Rightarrow> string + unit \<times> evidence_db" where
  "CreateReplayJob job db = Inr ((), db\<lparr>db_Replays := db_Replays db @ [job]\<rparr>)"

definition update_job_row :: "string \<Rightarrow> (ReplayJob \<Rightarrow> ReplayJob) \<Rightarrow> evidence_db \<Rightarrow> string + unit \<times> evidence_db" where
  "update_job_row jobID f db = Inr ((), db\<lparr>db_Replays :=
     map (\<lambda>j. if rj_ReplayJobID j = jobID then f j else j) (db_Replays db)\<rparr>)"

definition CompleteReplayJob :: "string \<Rightarrow> string \<Rightarrow> string \<Rightarrow> evidence_db \<Rightarrow> string + unit \<times> evidence_db" where
  "CompleteReplayJob jobID newPackID result = update_job_row jobID
     (\<lambda>j. j\<lparr>rj_Status := ''COMPLETED'', rj_NewEvidencePackID := newPackID, rj_EquivalenceResult := result\<rparr>)"

definition FailReplayJob :: "string \<Rightarrow> string \<Rightarrow> evidence_db \<Rightarrow> string + unit \<times> evidence_db" where
  "FailReplayJob jobID reason = update_job_row jobID (\<lambda>j. j\<lparr>rj_Status := ''FAILED'', rj_FailureReason := reason\<rparr>)"

section \<open>Objects\<close>

definition ObjectRef :: "string \<Rightarrow> string \<Rightarrow> string" where
  "ObjectRef bucket key = ''s3://'' @ bucket @ ''/'' @ key"

definition ObjectKeyFromRef :: "string \<Rightarrow> string option" where
  "ObjectKeyFromRef objectRef =
     (let ref = TrimSpace objectRef
      in if ref = [] then None
         else if \<not> has_prefix ''s3://'' ref then Some ref
         else case dropWhile (\<lambda>c. c \<noteq> CHR ''/'') (drop 5 ref) of
             [] \<Rightarrow> None
           | _ # [] \<Rightarrow> None
           | _ # key \<Rightarrow> Some key)"

definition PutObject :: "string \<Rightarrow> string \<Rightarrow> string \<Rightarrow> (string \<times> string) list \<Rightarrow> string + string \<times> (string \<times> string) list" where
  "PutObject bucket key body objects =
     (if TrimSpace key = [] then Inl ''empty key'' else Inr (ObjectRef bucket key, alist_put key body objects))"

definition GetObject :: "string \<Rightarrow> (string \<times> string) list \<Rightarrow> string option" where
  "GetObject key objects = map_of objects key"

section \<open>A stored pack\<close>

lemma leaves_of_cong: "map ei_LeafHash its = hs \<Longrightarrow> leaves_of its = map (\<lambda>i. \<lparr>ml_Index = i, ml_LeafHash = hs ! i\<rparr>) [0..<length hs]"
  unfolding leaves_of_def by auto

lemma leaf_hash_final_view: "ei_LeafHash (final_view sha packID r) = sha (leaf_input (ei_Hash (final_view sha packID r)) (final_view sha packID r))"
  by (simp add: final_view_def leaf_input_def Let_def)

lemma stored_leaf_input [simp]: "leaf_input h (stored_item it) = leaf_input h it"
  by (simp add: leaf_input_def stored_item_def)

lemma stored_item_sel [simp]: "ei_Hash (stored_item it) = ei_Hash it" "ei_LeafHash (stored_item it) = ei_LeafHash it"
    "ei_Type (stored_item it) = ei_Type it"
  by (simp_all add: stored_item_def)

text \<open>An item whose leaf hash is the hash of its own columns.\<close>

definition leaf_sealed :: "(string \<Rightarrow> string) \<Rightarrow> EvidenceItem \<Rightarrow> bool" where
  "leaf_sealed sha it \<longleftrightarrow> ei_LeafHash it = sha (leaf_input (ei_Hash it) it)"

lemma leaf_sealed_stored [simp]: "leaf_sealed sha (stored_item it) = leaf_sealed sha it"
  by (simp add: leaf_sealed_def)

lemma seal_items_sealed:
  assumes "\<forall>it \<in> set its. TrimSpace (ei_Hash it) = ei_Hash it" and "it \<in> set (seal_items sha packID its)"
  shows "leaf_sealed sha it"
  using assms leaf_hash_final_view
  by (auto simp: seal_items_def Let_def seal_item_def leaf_sealed_def leaf_input_def)

lemma recompute_sealed:
  assumes "\<forall>it \<in> set (ep_Items p). leaf_sealed sha it" and "ep_MerkleSchemeVersion p = MerkleSchemeV2"
  shows "RecomputeMerkleRoot sha p = BuildMerkleRoot sha (leaves_of (ep_Items p))"
proof -
  have "map (\<lambda>i. \<lparr>ml_Index = i, ml_LeafHash = sha (leaf_input (ei_Hash (ep_Items p ! i)) (ep_Items p ! i))\<rparr>)
      [0..<length (ep_Items p)] = leaves_of (ep_Items p)"
    using assms(1) by (simp add: leaves_of_def leaf_sealed_def)
  with assms(2) show ?thesis by (simp add: RecomputeMerkleRoot_def)
qed

lemma leaves_of_stored [simp]: "leaves_of (map stored_item its) = leaves_of its"
  by (simp add: leaves_of_def)

lemma built_pack_sel [simp]:
  "ep_EvidencePackID (build_intent_pack c packID now req) = packID"
  "ep_EvidencePackID (build_batch_pack c packID now req) = packID"
  "ep_Items (build_intent_pack c packID now req) = seal_items (cy_sha c) packID (gr_Items req)"
  "ep_Items (build_batch_pack c packID now req) = seal_items (cy_sha c) packID (gr_Items req)"
  "ep_MerkleRoot (build_intent_pack c packID now req) = sealed_root (cy_sha c) packID (gr_Items req)"
  "ep_MerkleRoot (build_batch_pack c packID now req) = sealed_root (cy_sha c) packID (gr_Items req)"
  "ep_PackStatus (build_intent_pack c packID now req) = PackStatusDraft"
  "ep_PackStatus (build_batch_pack c packID now req) = PackStatusDraft"
  "ep_TenantID (build_intent_pack c packID now req) = gr_TenantID req"
  "ep_TenantID (build_batch_pack c packID now req) = gr_TenantID req"
  "ep_IntentID (build_intent_pack c packID now req) = gr_IntentID req"
  "ep_IntentID (build_batch_pack c packID now req) = []"
  "ep_ClientBatchID (build_intent_pack c packID now req) = gr_ClientBatchID req"
  "ep_ClientBatchID (build_batch_pack c packID now req) = gr_ClientBatchID req"
  "ep_CreatedAt (build_intent_pack c packID now req) = now"
  "ep_CreatedAt (build_batch_pack c packID now req) = now"
  "ep_RulesetVersion (build_intent_pack c packID now req) = gr_RulesetVersion req"
  "ep_RulesetVersion (build_batch_pack c packID now req) = gr_RulesetVersion req"
  by (simp_all add: build_intent_pack_def build_batch_pack_def ComputeCompletenessMetadata_def Let_def)

lemma stored_pack_sel [simp]:
  "ep_EvidencePackID (stored_pack p) = ep_EvidencePackID p" "ep_Items (stored_pack p) = map stored_item (ep_Items p)"
  "ep_MerkleRoot (stored_pack p) = ep_MerkleRoot p" "ep_PackStatus (stored_pack p) = ep_PackStatus p"
  "ep_TenantID (stored_pack p) = ep_TenantID p" "ep_IntentID (stored_pack p) = ep_IntentID p"
  "ep_ClientBatchID (stored_pack p) = ep_ClientBatchID p" "ep_MerkleSchemeVersion (stored_pack p) = MerkleSchemeV2"
  "ep_CreatedAt (stored_pack p) = stored_time (ep_CreatedAt p)" "ep_RulesetVersion (stored_pack p) = ep_RulesetVersion p"
  "ep_Signatures (stored_pack p) = map stored_signature (ep_Signatures p)"
  by (simp_all add: stored_pack_def)

text \<open>C31.  The root of a pack is that of its rows.  When the hashes of the items have no surrounding blanks, the
  root recomputed from the stored columns of an intent or batch pack the service built is the root
  it recorded.\<close>

theorem stored_pack_recomputes_its_root:
  assumes "pack \<in> {build_intent_pack c packID now req, build_batch_pack c packID now req}"
    and "\<forall>it \<in> set (gr_Items req). TrimSpace (ei_Hash it) = ei_Hash it"
  shows "RecomputeMerkleRoot (cy_sha c) (stored_pack pack) = ep_MerkleRoot (stored_pack pack)"
proof -
  have its: "ep_Items pack = seal_items (cy_sha c) packID (gr_Items req)"
    and r: "ep_MerkleRoot pack = sealed_root (cy_sha c) packID (gr_Items req)"
    using assms(1) by auto
  then have "\<forall>it \<in> set (ep_Items (stored_pack pack)). leaf_sealed (cy_sha c) it"
    using seal_items_sealed [OF assms(2)] by auto
  then show ?thesis by (simp add: recompute_sealed its r sealed_root_def)
qed

lemma signature_of_built:
  "ep_Signatures (build_intent_pack c packID now req) =
     [buildPackSignature c CanonicalIntentPackCommitmentV1
        (intent_payload c packID (sealed_root (cy_sha c) packID (gr_Items req)) req now) now]"
  "ep_Signatures (build_batch_pack c packID now req) =
     [buildPackSignature c CanonicalBatchPackCommitmentV1
        (batch_payload c packID (sealed_root (cy_sha c) packID (gr_Items req)) req now) now]"
  by (simp_all add: build_intent_pack_def build_batch_pack_def ComputeCompletenessMetadata_def Let_def)

text \<open>C30.  The verifier does not accept the service's own signature.  It hashes a manifest that begins with
  the version of the canonical form, the signer a payload that begins with the pack's identifier, so
  a pack as it was stored is reported as altered unless SHA-256 maps the two to one digest.\<close>

theorem own_signature_is_rejected:
  assumes "(pack, payload) \<in> {(build_intent_pack c packID now req, intent_payload c packID (ep_MerkleRoot pack) req now),
      (build_batch_pack c packID now req, batch_payload c packID (ep_MerkleRoot pack) req now)}"
    and "packID = ''ep_'' @ u \<or> packID = ''bep_'' @ u" and "\<And>x. cy_sha c x \<noteq> []"
  shows "VerifyPackSignature c True (stored_pack pack) =
      Some (ContentHashMismatch (cy_sha c (canonical_bytes c (stored_pack pack))) (cy_sha c payload))
    \<or> collision (cy_sha c) {canonical_bytes c (stored_pack pack)} {payload}"
proof -
  have v: "packID \<noteq> []" "hd packID \<noteq> CHR ''v''" using assms(2) by auto
  have "hd (canonical_bytes c (stored_pack pack)) = CHR ''v''"
    by (simp add: canonical_bytes_def reconstructPackManifest_def Let_def)
  moreover have pl: "hd payload = hd packID" "payload \<noteq> []"
    using assms(1) v by (auto simp: intent_payload_def batch_payload_def)
  ultimately have ne: "canonical_bytes c (stored_pack pack) \<noteq> payload" using v by auto
  have sig: "\<exists>v. ep_Signatures pack = [buildPackSignature c v payload now] \<and> v \<noteq> []"
    using assms(1) by (auto simp: signature_of_built)
  then obtain v where sig: "ep_Signatures pack = [buildPackSignature c v payload now]" "v \<noteq> []" by blast
  show ?thesis
  proof (cases "cy_sha c (canonical_bytes c (stored_pack pack)) = cy_sha c payload")
    case True
    with ne show ?thesis by (auto simp: collision_def)
  next
    case False
    then show ?thesis using sig pl(2) assms(3)
      by (simp add: VerifyPackSignature_def stored_signature_def buildPackSignature_def Let_def)
  qed
qed

section \<open>Witnesses\<close>

definition sample_crypto :: crypto where
  "sample_crypto = \<lparr>cy_sha = (\<lambda>x. ''h'' @ x), cy_sign = (\<lambda>x. x), cy_verify = (\<lambda>p s. p = s), cy_b64 = (\<lambda>x. x),
     cy_unb64 = Some, cy_key = ''k1'', cy_rfc3339 = (\<lambda>t. ''2026''), cy_json = ep_PackStatus,
     cy_manifest = (\<lambda>s. Some \<lparr>am_EvidencePackID = [], am_TenantID = [], am_MerkleRoot = [], am_RulesetVersion = [],
        am_Signatures = [], am_Items = [], am_LeafCount = 0, am_RequiredLeafCount = 0, am_PackStatus = s, am_Mode = [],
        am_SchemaVersions = [], am_ZordSignature = []\<rparr>), cy_json_event = pe_EvidencePackID\<rparr>"

definition sample_request :: GenerateEvidenceRequest where
  "sample_request = \<lparr>gr_TenantID = ''t1'', gr_IntentID = ''i1'', gr_ClientBatchID = ''b1'', gr_EnvelopeID = [],
     gr_TraceID = [], gr_ContractID = [], gr_ArtifactID = [], gr_ArtifactVersionID = [], gr_Mode = ''FULL_CONTROL'',
     gr_RulesetVersion = ''v1'', gr_SchemaVersions = [], gr_SupersedesPackID = [], gr_RevisionReason = [],
     gr_BasedOnVersions = [], gr_Meta = zero_meta,
     gr_Items = [zero_item\<lparr>ei_Type := LeafTypeEnvelopeHash, ei_Ref := ''r'', ei_Hash := ''x''\<rparr>]\<rparr>"

lemma stored_pack_recomputes_its_root_witness:
  "RecomputeMerkleRoot (cy_sha sample_crypto) (stored_pack (build_intent_pack sample_crypto ''ep_1'' 5 sample_request))
    = ep_MerkleRoot (stored_pack (build_intent_pack sample_crypto ''ep_1'' 5 sample_request))"
  by (rule stored_pack_recomputes_its_root [where packID = "''ep_1''" and now = 5 and req = sample_request])
    (simp_all add: sample_request_def zero_item_def TrimSpace_def go_space_def)

lemma own_signature_is_rejected_witness:
  "VerifyPackSignature sample_crypto True (stored_pack (build_intent_pack sample_crypto ''ep_1'' 5 sample_request)) \<noteq> None"
proof -
  let ?pack = "build_intent_pack sample_crypto ''ep_1'' 5 sample_request"
  have "\<not> collision (cy_sha sample_crypto) A B" for A B by (auto simp: collision_def sample_crypto_def)
  with own_signature_is_rejected [of ?pack "intent_payload sample_crypto ''ep_1'' (ep_MerkleRoot ?pack) sample_request 5"
      sample_crypto "''ep_1''" 5 sample_request "''1''"]
  show ?thesis by (simp add: sample_crypto_def)
qed

end
