(* ===== verification/ProofScore.thy ===== *)
theory ProofScore
  imports EvidencePack
begin

text \<open>
  \<^verbatim>\<open>evidence/services/proof_score.go\<close> and \<^verbatim>\<open>lineage.go\<close>, and the derivations from a pack's leaves in
  \<^verbatim>\<open>evidence_service.go\<close> and \<^verbatim>\<open>dispute_export.go\<close>: what evidence a pack holds, its score, its status, its
  timeline and its lineage graph.

  The comparison of \<open>BuildTimeline\<close> is not a total order, so the sort it calls is a parameter.
\<close>

section \<open>Score\<close>

record ProofComponents =
  pc_PaymentInstructionAvailable :: bool
  pc_SettlementRecordAvailable :: bool
  pc_MatchDecisionAvailable :: bool
  pc_GovernanceDecisionAvailable :: bool
  pc_ReplayCheckPassed :: bool

record ProofScoreComponent =
  sk_Check :: string
  sk_Weight :: int
  sk_Passed :: bool
  sk_Deduction :: int
  sk_Explanation :: string

record ProofScoreResult =
  sc_Score :: int
  sc_Components :: "ProofScoreComponent list"
  sc_Deductions :: "string list"

definition proofWeights :: "(string \<times> int) list" where
  "proofWeights = [(''Original Payment Instruction'', 20), (''Settlement / Bank Record'', 20),
     (''Match Decision'', 20), (''Governance Check'', 15), (''Variance / Decision Evidence'', 15),
     (''Cryptographic Seal'', 10)]"

definition deductionReasons :: "(string \<times> string) list" where
  "deductionReasons =
     [(''Original Payment Instruction'', ''raw intent and canonical intent hashes not yet received from Service 2''),
      (''Settlement / Bank Record'', ''bank settlement line not yet matched to this payment''),
      (''Match Decision'', ''Service 5 reconciliation output pending''),
      (''Governance Check'', ''Service 2 policy/compliance validations not yet passed''),
      (''Variance / Decision Evidence'', ''variance decision leaf and attachment decision leaf not yet received''),
      (''Cryptographic Seal'', ''Merkle root has not yet been generated and sealed'')]"

definition deductionReason :: "string \<Rightarrow> string" where
  "deductionReason check = (case map_of deductionReasons check of None \<Rightarrow> ''check not completed'' | Some r \<Rightarrow> r)"

definition checks_passed :: "ProofComponents \<Rightarrow> bool \<Rightarrow> bool list" where
  "checks_passed c sealExists = [pc_PaymentInstructionAvailable c, pc_SettlementRecordAvailable c,
     pc_MatchDecisionAvailable c, pc_GovernanceDecisionAvailable c, pc_ReplayCheckPassed c, sealExists]"

text \<open>The dash of the explanation is one character of three bytes.\<close>

definition dash :: string where
  "dash = [CHR 0xE2, CHR 0x80, CHR 0x94]"

definition score_component :: "string \<times> int \<Rightarrow> bool \<Rightarrow> ProofScoreComponent" where
  "score_component w ok = \<lparr>sk_Check = fst w, sk_Weight = snd w, sk_Passed = ok,
     sk_Deduction = (if ok then 0 else snd w),
     sk_Explanation = (if ok then [] else fst w @ '' not yet completed '' @ dash @ '' '' @ deductionReason (fst w))\<rparr>"

definition ComputeProofScore :: "ProofComponents \<Rightarrow> bool \<Rightarrow> ProofScoreResult" where
  "ComputeProofScore c sealExists =
     (let cs = map2 score_component proofWeights (checks_passed c sealExists)
      in \<lparr>sc_Score = sum_list (map sk_Weight (filter sk_Passed cs)), sc_Components = cs,
          sc_Deductions = map sk_Explanation (filter (\<lambda>x. \<not> sk_Passed x) cs)\<rparr>)"

definition DeriveProofStatus :: "ProofComponents \<Rightarrow> bool \<Rightarrow> bool \<Rightarrow> bool \<Rightarrow> string" where
  "DeriveProofStatus c packExists superseded exported =
     (if superseded then ''REVOKED_SUPERSEDED''
      else if exported then ''EXPORTED''
      else if packExists then ''PROOF_ASSEMBLED''
      else if \<not> pc_PaymentInstructionAvailable c then ''MISSING_INTENT''
      else if \<not> pc_SettlementRecordAvailable c then ''MISSING_SETTLEMENT''
      else if \<not> pc_MatchDecisionAvailable c then ''MISSING_MATCH_DECISION''
      else if \<not> pc_GovernanceDecisionAvailable c then ''MISSING_GOVERNANCE''
      else if \<not> pc_ReplayCheckPassed c then ''MISSING_VARIANCE_EVIDENCE''
      else ''PROOF_READY'')"

section \<open>What a pack holds\<close>

definition deriveComponentsFromPack :: "EvidencePack \<Rightarrow> ProofComponents" where
  "deriveComponentsFromPack pack = (let has = has_type (ep_Items pack)
     in \<lparr>pc_PaymentInstructionAvailable = has LeafTypeEnvelopeHash \<or> has LeafTypeCanonicalIntentHash,
         pc_SettlementRecordAvailable = has LeafTypeRawSettlementFile \<or> has LeafTypeRawSettlementLine
           \<or> has LeafTypeCanonicalSettlementObservation,
         pc_MatchDecisionAvailable = has LeafTypeAttachmentDecision,
         pc_GovernanceDecisionAvailable = has LeafTypeGovernanceDecision,
         pc_ReplayCheckPassed = has LeafTypeVarianceDecision\<rparr>)"

definition deriveComponents :: "EvidencePack \<Rightarrow> ProofComponents" where
  "deriveComponents pack = (let has = has_type (ep_Items pack)
     in \<lparr>pc_PaymentInstructionAvailable = has LeafTypeRawSettlementLine \<or> has LeafTypeCanonicalIntentHash,
         pc_SettlementRecordAvailable = has LeafTypeRawSettlementFile \<or> has LeafTypeCanonicalSettlementObservation,
         pc_MatchDecisionAvailable = has LeafTypeAttachmentDecision,
         pc_GovernanceDecisionAvailable = has LeafTypeGovernanceDecision,
         pc_ReplayCheckPassed = has LeafTypeVarianceDecision\<rparr>)"

record CryptographicSignatures =
  cg_RawIntentHash :: string
  cg_CanonicalIntentHash :: string
  cg_RawSettlementHash :: string
  cg_CanonicalSettlementHash :: string
  cg_AttachmentDecisionHash :: string
  cg_GovernanceDecisionHash :: string
  cg_EnvelopeHash :: string
  cg_FinalEvidenceViewHash :: string

text \<open>The hash of the last item of a type.\<close>

definition last_hash :: "EvidenceItem list \<Rightarrow> string \<Rightarrow> string" where
  "last_hash its t = foldl (\<lambda>h it. if ei_Type it = t then ei_Hash it else h) [] its"

definition enrichPackSigsFromPack :: "EvidencePack \<Rightarrow> CryptographicSignatures" where
  "enrichPackSigsFromPack pack = (let h = last_hash (ep_Items pack)
     in \<lparr>cg_RawIntentHash = h LeafTypeEnvelopeHash, cg_CanonicalIntentHash = h LeafTypeCanonicalIntentHash,
         cg_RawSettlementHash = h LeafTypeRawSettlementFile,
         cg_CanonicalSettlementHash = h LeafTypeCanonicalSettlementObservation,
         cg_AttachmentDecisionHash = h LeafTypeAttachmentDecision,
         cg_GovernanceDecisionHash = h LeafTypeGovernanceDecision, cg_EnvelopeHash = [],
         cg_FinalEvidenceViewHash = h LeafTypeFinalEvidenceView\<rparr>)"

definition enrichPackSigs :: "EvidencePack \<Rightarrow> CryptographicSignatures" where
  "enrichPackSigs pack = (let h = last_hash (ep_Items pack)
     in \<lparr>cg_RawIntentHash = h LeafTypeRawSettlementLine, cg_CanonicalIntentHash = h LeafTypeCanonicalIntentHash,
         cg_RawSettlementHash = h LeafTypeRawSettlementFile,
         cg_CanonicalSettlementHash = h LeafTypeCanonicalSettlementObservation,
         cg_AttachmentDecisionHash = h LeafTypeAttachmentDecision,
         cg_GovernanceDecisionHash = h LeafTypeGovernanceDecision, cg_EnvelopeHash = h LeafTypeEnvelopeHash,
         cg_FinalEvidenceViewHash = h LeafTypeFinalEvidenceView\<rparr>)"

record EnrichedEvidencePack =
  en_EvidencePack :: EvidencePack
  en_ProofStatus :: string
  en_ProofScore :: int
  en_ProofScoreBreakdown :: ProofScoreResult
  en_GeneratedBy :: string
  en_VerificationStatus :: bool
  en_ProofComponents :: ProofComponents
  en_CryptographicSignatures :: CryptographicSignatures

definition BuildEnrichedPack :: "EvidencePack \<Rightarrow> EnrichedEvidencePack" where
  "BuildEnrichedPack pack =
     (let comp = deriveComponents pack; sealExists = (ep_PackStatus pack \<noteq> []);
          score = ComputeProofScore comp sealExists
      in \<lparr>en_EvidencePack = pack,
          en_ProofStatus = DeriveProofStatus comp sealExists (ep_PackStatus pack = PackStatusSuperseded) False,
          en_ProofScore = sc_Score score, en_ProofScoreBreakdown = score, en_GeneratedBy = ''system'',
          en_VerificationStatus = False, en_ProofComponents = comp,
          en_CryptographicSignatures = enrichPackSigs pack\<rparr>)"

section \<open>Timeline of a pack\<close>

record TimelineEvent =
  tv_Timestamp :: time
  tv_Event :: string
  tv_NodeID :: string
  tv_TraceID :: string
  tv_SourceEventID :: string

definition realTimestamps :: "EvidencePack \<Rightarrow> (string \<times> time) list" where
  "realTimestamps pack =
     (let m = ep_Meta pack;
          stamps = (\<lambda>t ks. case t of None \<Rightarrow> [] | Some u \<Rightarrow> map (\<lambda>k. (k, u)) ks)
      in stamps (em_PaymentInstructionReceived m) [LeafTypeEnvelopeHash]
       @ stamps (em_CanonicalIntentCreated m) [LeafTypeCanonicalIntentHash, LeafTypeGovernanceDecision]
       @ stamps (em_SettlementRecordReceived m) [LeafTypeRawSettlementFile, LeafTypeRawSettlementLine]
       @ stamps (em_CanonicalSettlementCreated m) [LeafTypeCanonicalSettlementObservation,
            LeafTypeAttachmentDecision, LeafTypeVarianceDecision]
       @ [(LeafTypeFinalEvidenceView, ep_CreatedAt pack)])"

definition leafEvents :: "(string \<times> string) list" where
  "leafEvents =
     [(LeafTypeEnvelopeHash, ''Payment instruction fingerprint recorded''),
      (LeafTypeCanonicalIntentHash, ''Structured payment intent created''),
      (LeafTypeGovernanceDecision, ''Governance and duplicate-risk checks passed''),
      (LeafTypeRawSettlementLine, ''Bank settlement record received''),
      (LeafTypeRawSettlementFile, ''Bank settlement file received via SFTP''),
      (LeafTypeCanonicalSettlementObservation, ''Settlement record matched to payment intent using UTR''),
      (LeafTypeAttachmentDecision, ''Match decision created '' @ dash @ '' intent attached to settlement''),
      (LeafTypeVarianceDecision, ''Variance, value-date, and amount checks completed''),
      (LeafTypeBatchAttachmentSummary, ''Batch attachment summary computed across all intents''),
      (LeafTypeBatchVarianceSummary, ''Batch variance summary computed''),
      (LeafTypeCanonicalBatch, ''Canonical batch record anchored''),
      (LeafTypeFileContentHash, ''Raw file content hash verified and recorded''),
      (LeafTypeFinalEvidenceView, ''Evidence pack compiled and sealed'')]"

definition leafOrder :: "(string \<times> nat) list" where
  "leafOrder = zip (map fst leafEvents) ([0..<12] @ [99])"

definition order_of :: "string \<Rightarrow> nat" where
  "order_of t = (case map_of leafOrder t of None \<Rightarrow> 50 | Some o' \<Rightarrow> o')"

definition timeline_before :: "(string \<times> time) list \<Rightarrow> EvidenceItem \<Rightarrow> EvidenceItem \<Rightarrow> bool" where
  "timeline_before ts a b =
     (let ta = (case map_of ts (ei_Type a) of None \<Rightarrow> 0 | Some t \<Rightarrow> t);
          tb = (case map_of ts (ei_Type b) of None \<Rightarrow> 0 | Some t \<Rightarrow> t)
      in if ta \<noteq> tb then ta < tb else order_of (ei_Type a) < order_of (ei_Type b))"

definition timeline_event :: "EvidencePack \<Rightarrow> nat \<Rightarrow> nat \<Rightarrow> EvidenceItem \<Rightarrow> TimelineEvent" where
  "timeline_event pack n i it =
     \<lparr>tv_Timestamp = (case map_of (realTimestamps pack) (ei_Type it) of
          Some t \<Rightarrow> if IsZero t then ep_CreatedAt pack - int (n - i) * 1000000000 else t
        | None \<Rightarrow> ep_CreatedAt pack - int (n - i) * 1000000000),
      tv_Event = (case map_of leafEvents (ei_Type it) of Some l \<Rightarrow> l | None \<Rightarrow> ''Artifact recorded: '' @ ei_Type it),
      tv_NodeID = ei_LeafHash it, tv_TraceID = ei_TraceID it, tv_SourceEventID = ei_SourceEventID it\<rparr>"

definition BuildTimeline :: "((EvidenceItem \<Rightarrow> EvidenceItem \<Rightarrow> bool) \<Rightarrow> EvidenceItem list \<Rightarrow> EvidenceItem list)
    \<Rightarrow> EvidencePack \<Rightarrow> TimelineEvent list" where
  "BuildTimeline srt pack =
     (let ordered = srt (timeline_before (realTimestamps pack)) (ep_Items pack)
      in map (\<lambda>i. timeline_event pack (length ordered) i (ordered ! i)) [0..<length ordered])"

section \<open>Lineage graph\<close>

record LineageNode =
  ln_ID :: string
  ln_Label :: string
  ln_NodeType :: string
  ln_LeafHash :: string
  ln_ItemRef :: string
  ln_SchemaVersion :: string
  ln_TraceID :: string
  ln_SourceEventID :: string

record LineageEdge =
  le_From :: string
  le_To :: string
  le_Label :: string

record LineageGraph =
  lx_EvidencePackID :: string
  lx_TenantID :: string
  lx_IntentID :: string
  lx_MerkleRoot :: string
  lx_Nodes :: "LineageNode list"
  lx_Edges :: "LineageEdge list"

definition labelOf :: "(string \<times> string) list" where
  "labelOf =
     [(LeafTypeRawSettlementLine, ''Original Payment File''),
      (LeafTypeCanonicalSettlementObservation, ''Structured Payment Intent''),
      (LeafTypeGovernanceDecision, ''Governance Check''), (LeafTypeRawSettlementFile, ''Original Settlement File''),
      (LeafTypeAttachmentDecision, ''Match Decision''), (LeafTypeVarianceDecision, ''Variance Decision''),
      (LeafTypeCanonicalIntentHash, ''Canonical Intent''), (LeafTypeEnvelopeHash, ''Envelope Hash''),
      (LeafTypeFinalEvidenceView, ''Evidence Summary''), (LeafTypeBatchAttachmentSummary, ''Batch Attachment Summary''),
      (LeafTypeBatchVarianceSummary, ''Batch Variance Summary''), (LeafTypeCanonicalBatch, ''Canonical Batch''),
      (LeafTypeFileContentHash, ''File Content Hash'')]"

definition nodeTypeOf :: "(string \<times> string) list" where
  "nodeTypeOf =
     map (\<lambda>t. (t, ''SOURCE'')) [LeafTypeRawSettlementLine, LeafTypeRawSettlementFile, LeafTypeEnvelopeHash, LeafTypeFileContentHash]
   @ map (\<lambda>t. (t, ''TRANSFORM'')) [LeafTypeCanonicalSettlementObservation, LeafTypeCanonicalIntentHash, LeafTypeCanonicalBatch]
   @ map (\<lambda>t. (t, ''DECISION'')) [LeafTypeGovernanceDecision, LeafTypeAttachmentDecision, LeafTypeVarianceDecision,
        LeafTypeBatchAttachmentSummary, LeafTypeBatchVarianceSummary]
   @ [(LeafTypeFinalEvidenceView, ''SEAL'')]"

definition lineage_node :: "EvidenceItem \<Rightarrow> LineageNode" where
  "lineage_node it = \<lparr>ln_ID = ei_LeafHash it,
     ln_Label = (case map_of labelOf (ei_Type it) of None \<Rightarrow> ei_Type it | Some l \<Rightarrow> l),
     ln_NodeType = (case map_of nodeTypeOf (ei_Type it) of None \<Rightarrow> ''TRANSFORM'' | Some t \<Rightarrow> t),
     ln_LeafHash = ei_LeafHash it, ln_ItemRef = ei_Ref it, ln_SchemaVersion = ei_SchemaVersion it,
     ln_TraceID = ei_TraceID it, ln_SourceEventID = ei_SourceEventID it\<rparr>"

definition leafIDByType :: "EvidenceItem list \<Rightarrow> string \<rightharpoonup> string" where
  "leafIDByType its = foldl (\<lambda>m it. m(ei_Type it \<mapsto> ei_LeafHash it)) Map.empty its"

definition edge_types :: "(string \<times> string \<times> string) list" where
  "edge_types =
     [(LeafTypeRawSettlementLine, LeafTypeCanonicalSettlementObservation, ''canonicalise''),
      (LeafTypeEnvelopeHash, LeafTypeCanonicalIntentHash, ''hash intent''),
      (LeafTypeCanonicalSettlementObservation, LeafTypeGovernanceDecision, ''policy check''),
      (LeafTypeCanonicalIntentHash, LeafTypeGovernanceDecision, ''policy check''),
      (LeafTypeRawSettlementFile, LeafTypeAttachmentDecision, ''reconcile''),
      (LeafTypeCanonicalSettlementObservation, LeafTypeAttachmentDecision, ''reconcile''),
      (LeafTypeGovernanceDecision, LeafTypeFinalEvidenceView, []),
      (LeafTypeAttachmentDecision, LeafTypeFinalEvidenceView, []),
      (LeafTypeVarianceDecision, LeafTypeFinalEvidenceView, []),
      (LeafTypeFileContentHash, LeafTypeCanonicalBatch, ''canonicalise batch''),
      (LeafTypeRawSettlementFile, LeafTypeCanonicalBatch, ''canonicalise batch''),
      (LeafTypeCanonicalBatch, LeafTypeBatchAttachmentSummary, ''summarise''),
      (LeafTypeCanonicalBatch, LeafTypeBatchVarianceSummary, ''summarise''),
      (LeafTypeBatchAttachmentSummary, LeafTypeFinalEvidenceView, []),
      (LeafTypeBatchVarianceSummary, LeafTypeFinalEvidenceView, [])]"

definition maybeEdge :: "(string \<rightharpoonup> string) \<Rightarrow> string \<times> string \<times> string \<Rightarrow> LineageEdge list" where
  "maybeEdge ids e =
     (case (ids (fst e), ids (fst (snd e))) of
        (Some f, Some t) \<Rightarrow> [\<lparr>le_From = f, le_To = t, le_Label = snd (snd e)\<rparr>] | _ \<Rightarrow> [])"

definition rootNodeID :: string where
  "rootNodeID = ''merkle_root''"

definition BuildLineageGraph :: "EvidencePack \<Rightarrow> LineageGraph" where
  "BuildLineageGraph pack =
     (let ids = leafIDByType (ep_Items pack)
      in \<lparr>lx_EvidencePackID = ep_EvidencePackID pack, lx_TenantID = ep_TenantID pack,
          lx_IntentID = ep_IntentID pack, lx_MerkleRoot = ep_MerkleRoot pack,
          lx_Nodes = map lineage_node (ep_Items pack)
            @ [\<lparr>ln_ID = rootNodeID, ln_Label = ''Proof Root'', ln_NodeType = ''SEAL'',
                ln_LeafHash = ep_MerkleRoot pack, ln_ItemRef = [], ln_SchemaVersion = [], ln_TraceID = [],
                ln_SourceEventID = []\<rparr>],
          lx_Edges = concat (map (maybeEdge ids) edge_types)
            @ (case ids LeafTypeFinalEvidenceView of None \<Rightarrow> []
               | Some fev \<Rightarrow> [\<lparr>le_From = fev, le_To = rootNodeID, le_Label = ''seal''\<rparr>])\<rparr>)"

section \<open>What the score says\<close>

lemma score_checks: "ComputeProofScore c sealed = \<lparr>sc_Score = sc_Score (ComputeProofScore c sealed),
    sc_Components = map2 score_component proofWeights (checks_passed c sealed),
    sc_Deductions = sc_Deductions (ComputeProofScore c sealed)\<rparr>"
  by (simp add: ComputeProofScore_def Let_def)

text \<open>Every edge of the lineage graph joins two of its nodes.\<close>

lemma leafIDByType_node:
  "leafIDByType its t = Some h \<Longrightarrow> h \<in> ei_LeafHash ` set its"
proof -
  have "foldl (\<lambda>m it. m(ei_Type it \<mapsto> ei_LeafHash it)) m its t = Some h \<Longrightarrow>
      m t = Some h \<or> h \<in> ei_LeafHash ` set its" for m
    by (induction its arbitrary: m) (fastforce simp: fun_upd_def split: if_splits)+
  then show "leafIDByType its t = Some h \<Longrightarrow> h \<in> ei_LeafHash ` set its" by (auto simp: leafIDByType_def)
qed

lemma lineage_edges_join_nodes:
  "\<forall>ed \<in> set (lx_Edges (BuildLineageGraph pack)).
     le_From ed \<in> ln_ID ` set (lx_Nodes (BuildLineageGraph pack)) \<and> le_To ed \<in> ln_ID ` set (lx_Nodes (BuildLineageGraph pack))"
proof -
  have ids: "ln_ID ` set (lx_Nodes (BuildLineageGraph pack)) = insert rootNodeID (ei_LeafHash ` set (ep_Items pack))"
    by (auto simp: BuildLineageGraph_def lineage_node_def Let_def image_iff)
  have edge: "ed \<in> set (maybeEdge (leafIDByType (ep_Items pack)) e) \<Longrightarrow>
      le_From ed \<in> ei_LeafHash ` set (ep_Items pack) \<and> le_To ed \<in> ei_LeafHash ` set (ep_Items pack)" for ed e
    using leafIDByType_node by (fastforce simp: maybeEdge_def split: option.splits)
  show ?thesis
    unfolding ids using edge leafIDByType_node by (fastforce simp: BuildLineageGraph_def Let_def split: option.splits)
qed

end
