(* ===== verification/EvidenceService.thy ===== *)
theory EvidenceService
  imports EvidenceStore ProofScore
begin

text \<open>
  \<^verbatim>\<open>evidence/services/evidence_service.go\<close>: the intake of leaves, the readiness checks of the worker
  queue, the generation and activation of packs, replay.

  The state is the database, the object store, the two queues and what was published.  A method is a
  computation of \<^verbatim>\<open>Effects\<close> whose n-th store call fails when \<open>ee_fault\<close> says so; a transaction of the
  lock's connection restores the database when its body fails, the object store keeps what was put.
  A full queue only delays the sender and is not modelled; log lines are left out.  The clock is read
  once per method.
\<close>

section \<open>State and environment\<close>

record IntentCheckJob =
  ij_TenantID :: string
  ij_EnvelopeID :: string
  ij_IntentID :: string
  ij_ContractID :: string
  ij_TraceID :: string

record BatchCheckJob =
  bj_TenantID :: string
  bj_BatchID :: string
  bj_IsFinal :: bool

record VectorIndexRequestEvent =
  vi_EventID :: string
  vi_SchemaVersion :: string
  vi_EventType :: string
  vi_SourceService :: string
  vi_SourceEventType :: string
  vi_TenantID :: string
  vi_EntityType :: string
  vi_EntityID :: string
  vi_BatchID :: string
  vi_Operation :: string
  vi_OccurredAt :: time
  vi_ContentVersion :: string
  vi_Metadata :: "(string \<times> string) list"

record evidence_state =
  es_db :: evidence_db
  es_objects :: "(string \<times> string) list"
  es_intentQ :: "IntentCheckJob list"
  es_batchQ :: "BatchCheckJob list"
  es_done :: bool
  es_published :: "PackEvent list"
  es_vector :: "VectorIndexRequestEvent list"
  es_ids :: nat

text \<open>
  \<open>ee_uuid n\<close> is the n-th identifier drawn, \<open>ee_encrypt n\<close> the encryption under the n-th nonce;
  \<open>ee_locked\<close> says whether the advisory lock of a tenant and an intent or batch is free.
\<close>

record evidence_env =
  ee_crypto :: crypto
  ee_fault :: "nat \<Rightarrow> string option"
  ee_uuid :: "nat \<Rightarrow> string"
  ee_now :: time
  ee_encrypt :: "nat \<Rightarrow> string \<Rightarrow> string + string"
  ee_decrypt :: "string \<Rightarrow> string + string"
  ee_prefix :: string
  ee_bucket :: string
  ee_locked :: "string \<Rightarrow> string \<Rightarrow> bool"
  ee_strict :: bool
  ee_archive :: bool
  ee_signer :: bool
  ee_enrich :: bool
  ee_publisher :: bool
  ee_vectors :: bool

type_synonym 'a eio = "(evidence_state, 'a) io"

abbreviation (input) sha_of :: "evidence_env \<Rightarrow> string \<Rightarrow> string" where
  "sha_of e \<equiv> cy_sha (ee_crypto e)"

text \<open>One statement or transaction of the database; a read.\<close>

definition exec :: "evidence_env \<Rightarrow> (evidence_db \<Rightarrow> string + 'a \<times> evidence_db) \<Rightarrow> 'a eio" where
  "exec e f s =
     (case ee_fault e (snd s) of
        Some err \<Rightarrow> (Inl err, (fst s, Suc (snd s)))
      | None \<Rightarrow> (case f (es_db (fst s)) of
            Inl err \<Rightarrow> (Inl err, (fst s, Suc (snd s)))
          | Inr (x, db) \<Rightarrow> (Inr x, ((fst s)\<lparr>es_db := db\<rparr>, Suc (snd s)))))"

definition query :: "evidence_env \<Rightarrow> (evidence_db \<Rightarrow> 'a) \<Rightarrow> 'a eio" where
  "query e f = exec e (\<lambda>db. Inr (f db, db))"

definition update :: "(evidence_state \<Rightarrow> evidence_state) \<Rightarrow> unit eio" where
  "update f s = (Inr (), (f (fst s), snd s))"

definition draw :: "evidence_env \<Rightarrow> string eio" where
  "draw e s = (Inr (ee_uuid e (es_ids (fst s))), ((fst s)\<lparr>es_ids := Suc (es_ids (fst s))\<rparr>, snd s))"

text \<open>A transaction on the lock's connection.\<close>

definition in_tx :: "'a eio \<Rightarrow> 'a eio" where
  "in_tx f s =
     (case f s of (Inl err, t) \<Rightarrow> (Inl err, ((fst t)\<lparr>es_db := es_db (fst s)\<rparr>, snd t)) | r \<Rightarrow> r)"

section \<open>Intake of leaves\<close>

definition enqueueIntentCheck :: "IntentCheckJob \<Rightarrow> unit eio" where
  "enqueueIntentCheck job = update (\<lambda>m. if es_done m then m else m\<lparr>es_intentQ := es_intentQ m @ [job]\<rparr>)"

definition enqueueBatchCheck :: "BatchCheckJob \<Rightarrow> unit eio" where
  "enqueueBatchCheck job = update (\<lambda>m. if es_done m then m else m\<lparr>es_batchQ := es_batchQ m @ [job]\<rparr>)"

text \<open>
  The receipt and the upsert of each leaf; the answer is the last batch named by a leaf that was
  stored.  \<open>WriteReceipt\<close> rewrites the leaf it is given, and a failed one leaves the outcome empty, so
  the leaf is stored.
\<close>

fun store_leaves :: "evidence_env \<Rightarrow> string \<Rightarrow> PendingLeaf list \<Rightarrow> string eio" where
  "store_leaves e lastBatchID [] = returnE lastBatchID"
| "store_leaves e lastBatchID (l # ls) =
     bindE (orElse (exec e (WriteReceipt l)) []) (\<lambda>outcome.
       let l = with_event_id l
       in if outcome = LeafReceiptDuplicate then store_leaves e lastBatchID ls
          else bindE (exec e (UpsertLeaf l)) (\<lambda>_.
            store_leaves e (if set_text (pl_ClientBatchID l) then the (pl_ClientBatchID l) else lastBatchID) ls))"

definition resolve_intent :: "evidence_env \<Rightarrow> string \<Rightarrow> string \<Rightarrow> string \<Rightarrow> string eio" where
  "resolve_intent e tenantID envelopeID intentID =
     (if intentID = [] \<and> envelopeID \<noteq> [] then orElse (query e (ResolveIntentID tenantID envelopeID)) []
      else returnE [])"

definition HandleLeafUpdate :: "evidence_env \<Rightarrow> string \<Rightarrow> string \<Rightarrow> string \<Rightarrow> string \<Rightarrow> string
    \<Rightarrow> PendingLeaf list \<Rightarrow> unit eio" where
  "HandleLeafUpdate e tenantID envelopeID intentID contractID traceID newLeaves =
     bindE (resolve_intent e tenantID envelopeID intentID) (\<lambda>resolved.
     let intent = (if resolved = [] then intentID else resolved);
         ls = (if resolved = [] then newLeaves else map (\<lambda>l. l\<lparr>pl_IntentID := Some resolved\<rparr>) newLeaves)
     in bindE (if intent \<noteq> [] \<and> envelopeID \<noteq> []
               then exec e (LinkEnvelopeToIntent tenantID envelopeID intent contractID) else returnE ()) (\<lambda>_.
        bindE (store_leaves e [] ls) (\<lambda>batch.
        bindE (if batch \<noteq> [] then enqueueBatchCheck \<lparr>bj_TenantID = tenantID, bj_BatchID = batch, bj_IsFinal = False\<rparr>
               else returnE ()) (\<lambda>_.
        if intent \<noteq> [] then enqueueIntentCheck \<lparr>ij_TenantID = tenantID, ij_EnvelopeID = envelopeID,
             ij_IntentID = intent, ij_ContractID = contractID, ij_TraceID = traceID\<rparr>
        else returnE ()))))"

definition HandleBatchLeafUpdate :: "evidence_env \<Rightarrow> string \<Rightarrow> string \<Rightarrow> PendingLeaf list \<Rightarrow> bool \<Rightarrow> unit eio" where
  "HandleBatchLeafUpdate e tenantID batchID newLeaves isFinal =
     bindE (store_leaves e [] newLeaves) (\<lambda>_.
     enqueueBatchCheck \<lparr>bj_TenantID = tenantID, bj_BatchID = batchID, bj_IsFinal = isFinal\<rparr>)"

definition RecordMalformedEvent :: "evidence_env \<Rightarrow> string \<Rightarrow> string \<Rightarrow> string \<Rightarrow> string \<Rightarrow> string \<Rightarrow> unit eio" where
  "RecordMalformedEvent e tenantID topic eventID traceID reason =
     exec e (WriteMalformedReceipt tenantID topic eventID traceID reason)"

definition PrepareShutdown :: "unit eio" where
  "PrepareShutdown = update (\<lambda>m. m\<lparr>es_done := True\<rparr>)"

section \<open>The request of a pack\<close>

definition item_of_leaf :: "PendingLeaf \<Rightarrow> EvidenceItem" where
  "item_of_leaf l = zero_item\<lparr>ei_Type := pl_LeafType l, ei_Ref := pl_ItemRef l, ei_Hash := pl_Hash l,
     ei_SchemaVersion := pl_SchemaVersion l, ei_EventVersion := pl_EventVersion l,
     ei_TraceID := pl_TraceID l, ei_SourceEventID := pl_SourceEventID l\<rparr>"

text \<open>The recovery endpoint copies fewer fields and takes every leaf.\<close>

definition trusted_item :: "PendingLeaf \<Rightarrow> EvidenceItem" where
  "trusted_item l = zero_item\<lparr>ei_Type := pl_LeafType l, ei_Ref := pl_ItemRef l, ei_Hash := pl_Hash l,
     ei_SchemaVersion := pl_SchemaVersion l\<rparr>"

definition required_items :: "string list \<Rightarrow> PendingLeaf list \<Rightarrow> EvidenceItem list" where
  "required_items types ls = map item_of_leaf (filter (\<lambda>l. pl_LeafType l \<in> set types) ls)"

definition missing_leaves :: "string list \<Rightarrow> PendingLeaf list \<Rightarrow> string list" where
  "missing_leaves types ls = filter (\<lambda>t. \<not> list_ex (\<lambda>l. pl_LeafType l = t) ls) types"

text \<open>The value of the last leaf that names one.\<close>

definition last_text :: "(PendingLeaf \<Rightarrow> string option) \<Rightarrow> PendingLeaf list \<Rightarrow> string" where
  "last_text f ls = foldl (\<lambda>v l. if set_text (f l) then the (f l) else v) [] ls"

text \<open>
  One step of the loop over the leaves: a leaf with a payout reference gives reference, amount and
  currency, one with an instruction time the intent's group, one with a settlement time the
  settlement's group.
\<close>

definition merge_meta :: "evidence_meta \<Rightarrow> evidence_meta \<Rightarrow> evidence_meta" where
  "merge_meta m l =
     (let m = (if em_ClientPayoutRef l = None then m else m\<lparr>em_ClientPayoutRef := em_ClientPayoutRef l,
                 em_Amount := em_Amount l, em_Currency := em_Currency l\<rparr>);
          m = (if em_PaymentInstructionReceived l = None then m
               else m\<lparr>em_PaymentInstructionReceived := em_PaymentInstructionReceived l,
                 em_CanonicalIntentCreated := em_CanonicalIntentCreated l,
                 em_MappingProfileUsed := em_MappingProfileUsed l,
                 em_RequiredFieldsStatus := em_RequiredFieldsStatus l,
                 em_TokenizationStatus := em_TokenizationStatus l,
                 em_GovernanceDecision := em_GovernanceDecision l\<rparr>)
      in if em_SettlementRecordReceived l = None then m
         else m\<lparr>em_SettlementRecordReceived := em_SettlementRecordReceived l,
            em_CanonicalSettlementCreated := em_CanonicalSettlementCreated l,
            em_BankReference := em_BankReference l, em_ClientReference := em_ClientReference l,
            em_AttachmentDecision := em_AttachmentDecision l, em_MatchConfidence := em_MatchConfidence l,
            em_ValueDateCheck := em_ValueDateCheck l, em_AmountMatch := em_AmountMatch l\<rparr>)"

definition collect_meta :: "PendingLeaf list \<Rightarrow> evidence_meta" where
  "collect_meta ls = foldl (\<lambda>m l. merge_meta m (pl_Meta l)) zero_meta ls"

definition resolveContractIDFromLeaves :: "PendingLeaf list \<Rightarrow> string \<Rightarrow> string" where
  "resolveContractIDFromLeaves ls fromHandler =
     (if TrimSpace fromHandler \<noteq> [] then TrimSpace fromHandler
      else case List.find (\<lambda>l. case pl_ContractID l of None \<Rightarrow> False | Some c \<Rightarrow> TrimSpace c \<noteq> []) ls of
          None \<Rightarrow> [] | Some l \<Rightarrow> TrimSpace (the (pl_ContractID l)))"

definition default_schema_versions :: "(string \<times> string) list" where
  "default_schema_versions = [(''intent_schema'', ''v1''), (''outcome_schema'', ''v1''),
     (''contract_schema'', ''v1''), (''attachment_schema'', ''v1'')]"

definition intent_pack_request :: "IntentCheckJob \<Rightarrow> PendingLeaf list \<Rightarrow> GenerateEvidenceRequest" where
  "intent_pack_request job ls =
     \<lparr>gr_TenantID = ij_TenantID job, gr_IntentID = ij_IntentID job,
      gr_ClientBatchID = last_text pl_ClientBatchID ls, gr_EnvelopeID = ij_EnvelopeID job,
      gr_TraceID = ij_TraceID job,
      gr_ContractID = resolveContractIDFromLeaves ls (resolveContractIDFromLeaves ls (ij_ContractID job)),
      gr_ArtifactID = last_text pl_ArtifactID ls, gr_ArtifactVersionID = last_text pl_ArtifactVersionID ls,
      gr_Mode = ''INTELLIGENCE_ATTACH'', gr_RulesetVersion = ''v1'',
      gr_SchemaVersions = default_schema_versions, gr_SupersedesPackID = [], gr_RevisionReason = [],
      gr_BasedOnVersions = [], gr_Meta = collect_meta ls,
      gr_Items = required_items RequiredLeafTypes ls\<rparr>"

definition batch_pack_request :: "string \<Rightarrow> string \<Rightarrow> PendingLeaf list \<Rightarrow> GenerateEvidenceRequest" where
  "batch_pack_request tenantID batchID ls =
     \<lparr>gr_TenantID = tenantID, gr_IntentID = [], gr_ClientBatchID = batchID, gr_EnvelopeID = [],
      gr_TraceID = (case List.find (\<lambda>l. pl_TraceID l \<noteq> []) ls of None \<Rightarrow> [] | Some l \<Rightarrow> pl_TraceID l),
      gr_ContractID = [], gr_ArtifactID = [], gr_ArtifactVersionID = [], gr_Mode = ''BATCH_ATTACH'',
      gr_RulesetVersion = ''v1'', gr_SchemaVersions = default_schema_versions, gr_SupersedesPackID = [],
      gr_RevisionReason = [], gr_BasedOnVersions = [], gr_Meta = collect_meta ls,
      gr_Items = required_items RequiredBatchLeafTypes ls\<rparr>"

definition trusted_pack_request :: "string \<Rightarrow> string \<Rightarrow> PendingLeaf list \<Rightarrow> GenerateEvidenceRequest" where
  "trusted_pack_request tenantID intentID ls =
     \<lparr>gr_TenantID = tenantID, gr_IntentID = intentID, gr_ClientBatchID = last_text pl_ClientBatchID ls,
      gr_EnvelopeID = [], gr_TraceID = [],
      gr_ContractID = (case List.find (\<lambda>l. set_text (pl_ContractID l)) ls of None \<Rightarrow> [] | Some l \<Rightarrow> the (pl_ContractID l)),
      gr_ArtifactID = last_text pl_ArtifactID ls, gr_ArtifactVersionID = last_text pl_ArtifactVersionID ls,
      gr_Mode = ''INTELLIGENCE_ATTACH'', gr_RulesetVersion = ''v1'',
      gr_SchemaVersions = default_schema_versions, gr_SupersedesPackID = [], gr_RevisionReason = [],
      gr_BasedOnVersions = [], gr_Meta = collect_meta ls, gr_Items = map trusted_item ls\<rparr>"

section \<open>Generation\<close>

definition packEnvelopeVersions :: "EvidenceItem list \<Rightarrow> string \<times> string" where
  "packEnvelopeVersions its =
     (case its of [] \<Rightarrow> ([], []) | it # _ \<Rightarrow> (ei_SchemaVersion it, ei_EventVersion it))"

text \<open>The event of an intent pack; its denominator follows the intent, not the batch.\<close>

definition intent_event :: "string \<Rightarrow> EvidencePack \<Rightarrow> GenerateEvidenceRequest \<Rightarrow> PackEvent" where
  "intent_event eventType pack req =
     (let its = ep_Items pack; intent = (gr_IntentID req \<noteq> []); batch = (gr_ClientBatchID req \<noteq> []);
          required = (if intent then RequiredIntentLeafCount else if batch then RequiredBatchLeafCount else 0)
      in \<lparr>pe_EventType = eventType, pe_EventVersion = snd (packEnvelopeVersions its),
          pe_SourceService = ''zord-evidence'', pe_SchemaVersion = fst (packEnvelopeVersions its),
          pe_EvidencePackID = ep_EvidencePackID pack, pe_TenantID = gr_TenantID req,
          pe_BatchID = gr_ClientBatchID req, pe_IntentID = gr_IntentID req, pe_ContractID = gr_ContractID req,
          pe_Mode = gr_Mode req, pe_MerkleRoot = ep_MerkleRoot pack, pe_RulesetVersion = gr_RulesetVersion req,
          pe_OccurredAt = ep_CreatedAt pack, pe_PackCompletenessScore = completeness (length its) required,
          pe_LeafCount = length its, pe_RequiredLeafCount = required,
          pe_SettlementLeafPresentFlag = (if intent then settlement_leaves its
             else batch \<and> has_type its LeafTypeRawSettlementFile),
          pe_AttachmentDecisionLeafPresentFlag = (if intent then decision_leaves its
             else batch \<and> batch_decision_leaves its),
          pe_Extra = []\<rparr>)"

definition batch_event :: "EvidencePack \<Rightarrow> GenerateEvidenceRequest \<Rightarrow> PackEvent" where
  "batch_event pack req =
     (let its = ep_Items pack
      in \<lparr>pe_EventType = ''evidence.pack.created'', pe_EventVersion = snd (packEnvelopeVersions its),
          pe_SourceService = ''zord-evidence'', pe_SchemaVersion = fst (packEnvelopeVersions its),
          pe_EvidencePackID = ep_EvidencePackID pack, pe_TenantID = gr_TenantID req,
          pe_BatchID = gr_ClientBatchID req, pe_IntentID = [], pe_ContractID = [], pe_Mode = gr_Mode req,
          pe_MerkleRoot = ep_MerkleRoot pack, pe_RulesetVersion = gr_RulesetVersion req,
          pe_OccurredAt = ep_CreatedAt pack, pe_PackCompletenessScore = 0, pe_LeafCount = 0,
          pe_RequiredLeafCount = 0, pe_SettlementLeafPresentFlag = False,
          pe_AttachmentDecisionLeafPresentFlag = False, pe_Extra = []\<rparr>)"

definition outbox_event :: "crypto \<Rightarrow> string \<Rightarrow> string \<Rightarrow> string \<Rightarrow> string \<Rightarrow> PackEvent
    \<Rightarrow> GenerateEvidenceRequest \<Rightarrow> EvidenceOutbox" where
  "outbox_event c eventType envelopeID contractID aggregateID evt req =
     \<lparr>eo_EnvelopeID = envelopeID, eo_TraceID = gr_TraceID req, eo_TenantID = gr_TenantID req,
      eo_ContractID = contractID, eo_AggregateType = ''evidence_pack'', eo_AggregateID = aggregateID,
      eo_EventType = eventType, eo_Payload = cy_json_event c evt, eo_Status = ''PENDING'',
      eo_CreatedAt = pe_OccurredAt evt, eo_EvidencePackID = pe_EvidencePackID evt,
      eo_PayloadHash = cy_sha c (cy_json_event c evt)\<rparr>"

text \<open>The leaves of the sealed items, each with its proof.\<close>

definition inclusion_proofs :: "(string \<Rightarrow> string) \<Rightarrow> string \<Rightarrow> MerkleLeaf list \<Rightarrow> InclusionProof list" where
  "inclusion_proofs sha packID leaves =
     (let paths = BuildInclusionProofs sha leaves
      in map (\<lambda>l. \<lparr>ip_EvidencePackID = packID, ip_LeafIndex = ml_Index l, ip_LeafHash = ml_LeafHash l,
                   ip_ProofPath = (case paths (ml_Index l) of None \<Rightarrow> [] | Some p \<Rightarrow> p)\<rparr>) leaves)"

definition archive_of :: "evidence_env \<Rightarrow> string \<Rightarrow> EvidencePack \<Rightarrow> string \<Rightarrow> string \<Rightarrow> string \<Rightarrow> EvidenceArchive" where
  "archive_of e archiveID pack ref plaintext ciphertext =
     \<lparr>ea_ArchiveID = ''arc_'' @ archiveID, ea_EvidencePackID = ep_EvidencePackID pack,
      ea_TenantID = ep_TenantID pack, ea_ObjectRef = ref, ea_EncryptionKeyID = ''archive-aes-v1'',
      ea_ArchiveCiphertextHash = sha_of e ciphertext, ea_PlaintextManifestHash = sha_of e plaintext,
      ea_ArchiveSizeBytes = int (length ciphertext), ea_ArchiveVersion = ''v1'', ea_ArchiveVerifiedAt = None,
      ea_CreatedAt = ee_now e\<rparr>"

definition put_object :: "evidence_env \<Rightarrow> string \<Rightarrow> string \<Rightarrow> string eio" where
  "put_object e key body s =
     (case ee_fault e (snd s) of
        Some err \<Rightarrow> (Inl err, (fst s, Suc (snd s)))
      | None \<Rightarrow> (case PutObject (ee_bucket e) key body (es_objects (fst s)) of
            Inl err \<Rightarrow> (Inl err, (fst s, Suc (snd s)))
          | Inr (ref, objs) \<Rightarrow> (Inr ref, ((fst s)\<lparr>es_objects := objs\<rparr>, Suc (snd s)))))"

text \<open>A draft row first, then the object, then the activation; the pack returned is active.\<close>

definition supersede :: "evidence_env \<Rightarrow> string \<Rightarrow> string \<Rightarrow> unit eio" where
  "supersede e supersedes packID =
     (if supersedes = [] then returnE ()
      else wrapE (''mark superseded pack '' @ supersedes @ '': '') (exec e (MarkPackSuperseded supersedes packID)))"

definition activate_draft :: "evidence_env \<Rightarrow> EvidencePack \<Rightarrow> string \<Rightarrow> string \<Rightarrow> EvidenceOutbox \<Rightarrow> string
    \<Rightarrow> EvidencePack eio" where
  "activate_draft e pack objectKey ciphertext evt supersedes =
     bindE (wrapE ''store archive: '' (put_object e objectKey ciphertext)) (\<lambda>objectRef.
     bindE (wrap_unless ErrPackAlreadyExists ''activate pack: ''
       (exec e (ActivatePack (ep_EvidencePackID pack) objectRef (sha_of e ciphertext) evt))) (\<lambda>_.
     bindE (supersede e supersedes (ep_EvidencePackID pack)) (\<lambda>_.
     returnE (pack\<lparr>ep_PackStatus := PackStatusActive\<rparr>))))"

definition persistPackDBFirst :: "evidence_env \<Rightarrow> EvidencePack \<Rightarrow> string \<Rightarrow> string \<Rightarrow> string \<Rightarrow> EvidenceOutbox
    \<Rightarrow> string \<Rightarrow> EvidencePack eio" where
  "persistPackDBFirst e pack objectKey plaintext ciphertext evt supersedes =
     (let plannedRef = ObjectRef (ee_bucket e) objectKey; packID = ep_EvidencePackID pack
      in bindE (draw e) (\<lambda>archiveID.
         bindE (wrap_unless ErrPackAlreadyExists ''save pack draft: ''
           (exec e (SavePackDraft pack plannedRef (archive_of e archiveID pack plannedRef plaintext ciphertext)
             (inclusion_proofs (sha_of e) packID (leaves_of (ep_Items pack)))))) (\<lambda>_.
         activate_draft e pack objectKey ciphertext evt supersedes)))"

definition encryptE :: "evidence_env \<Rightarrow> string \<Rightarrow> string eio" where
  "encryptE e plain s =
     (case ee_encrypt e (es_ids (fst s)) plain of Inl err \<Rightarrow> (Inl err, s) | Inr c \<Rightarrow> (Inr c, s))"

definition intent_object_key :: "string \<Rightarrow> GenerateEvidenceRequest \<Rightarrow> string \<Rightarrow> string" where
  "intent_object_key prefix req packID =
     prefix @ ''/'' @ gr_TenantID req @ ''/'' @ (if gr_ContractID req = [] then gr_IntentID req else gr_ContractID req)
       @ ''/'' @ packID @ ''.json.enc''"

definition batch_object_key :: "string \<Rightarrow> GenerateEvidenceRequest \<Rightarrow> string \<Rightarrow> string" where
  "batch_object_key prefix req packID =
     prefix @ ''/'' @ gr_TenantID req @ ''/batch/'' @ gr_ClientBatchID req @ ''/'' @ packID @ ''.json.enc''"

text \<open>What follows a pack that is stored.\<close>

definition vector_event :: "evidence_env \<Rightarrow> string \<Rightarrow> EvidencePack \<Rightarrow> string \<Rightarrow> VectorIndexRequestEvent option" where
  "vector_event e eventID pack sourceEventType =
     (let tenantID = TrimSpace (ep_TenantID pack); batchID = TrimSpace (ep_ClientBatchID pack);
          summary = (batchID \<noteq> [] \<and> contains (ToLower sourceEventType) ''batch'');
          entityType = (if summary then ''evidence_batch_summary'' else ''evidence_pack'');
          entityID = (if summary then batchID else TrimSpace (ep_EvidencePackID pack))
      in if tenantID = [] \<or> entityID = [] then None
         else Some \<lparr>vi_EventID = eventID, vi_SchemaVersion = ''v1'', vi_EventType = ''vector.index.requested'',
           vi_SourceService = ''zord-evidence'', vi_SourceEventType = sourceEventType, vi_TenantID = tenantID,
           vi_EntityType = entityType, vi_EntityID = entityID, vi_BatchID = batchID, vi_Operation = ''upsert'',
           vi_OccurredAt = ee_now e, vi_ContentVersion = ''v1'',
           vi_Metadata = [(''pack_status'', ep_PackStatus pack), (''mode'', ep_Mode pack)]\<rparr>)"

definition publish :: "evidence_env \<Rightarrow> (evidence_state \<Rightarrow> evidence_state) \<Rightarrow> unit eio" where
  "publish e f s =
     (case ee_fault e (snd s) of Some err \<Rightarrow> (Inl err, (fst s, Suc (snd s)))
      | None \<Rightarrow> (Inr (), (f (fst s), Suc (snd s))))"

definition emitVectorIndexRequest :: "evidence_env \<Rightarrow> EvidencePack \<Rightarrow> string \<Rightarrow> unit eio" where
  "emitVectorIndexRequest e pack sourceEventType =
     (if \<not> ee_publisher e \<or> \<not> ee_vectors e \<or> vector_event e [] pack sourceEventType = None then returnE ()
      else bindE (draw e) (\<lambda>eventID. log_error (publish e (\<lambda>m. m\<lparr>es_vector := es_vector m
             @ [the (vector_event e eventID pack sourceEventType)]\<rparr>))))"

definition writeProofEnrichment :: "evidence_env \<Rightarrow> EvidencePack \<Rightarrow> unit eio" where
  "writeProofEnrichment e pack =
     (if \<not> ee_enrich e then returnE ()
      else let comp = deriveComponentsFromPack pack; sealExists = (ep_PackStatus pack = PackStatusActive);
               score = ComputeProofScore comp sealExists;
               status = DeriveProofStatus comp sealExists (ep_PackStatus pack = PackStatusSuperseded) False
           in log_error (exec e (UpdateProofEnrichment (ep_EvidencePackID pack) status (sc_Score score))))"

text \<open>\<open>held\<close> says that the caller holds the transaction of the lock.\<close>

definition GeneratePackInTx :: "evidence_env \<Rightarrow> bool \<Rightarrow> GenerateEvidenceRequest \<Rightarrow> EvidencePack eio" where
  "GeneratePackInTx e held req =
     (if TrimSpace (gr_TenantID req) = [] \<or> TrimSpace (gr_IntentID req) = []
      then failE ''tenant_id and intent_id are required''
      else if gr_Mode req \<notin> set validModes then failE (''mode must be one of: '' @ str_join validModes '', '')
      else if gr_Items req = [] then failE ''at least one evidence item is required''
      else bindE (draw e) (\<lambda>uuid.
        let packID = ''ep_'' @ uuid; pack = build_intent_pack (ee_crypto e) packID (ee_now e) req;
            plaintext = cy_json (ee_crypto e) pack;
            eventType = (if gr_SupersedesPackID req = [] then ''evidence.pack.created''
                         else ''evidence.pack.reversal_superseded'');
            evt = outbox_event (ee_crypto e) eventType (gr_EnvelopeID req) (gr_ContractID req) (gr_IntentID req)
                    (intent_event eventType pack req) req
        in bindE (wrapE ''encrypt evidence archive: '' (encryptE e plaintext)) (\<lambda>ciphertext.
           bindE (persistPackDBFirst e pack (intent_object_key (ee_prefix e) req packID) plaintext ciphertext evt
                   (gr_SupersedesPackID req)) (\<lambda>pack.
           if held then returnE pack
           else bindE (emitVectorIndexRequest e pack ''evidence_pack.generated.v1'') (\<lambda>_.
                bindE (writeProofEnrichment e pack) (\<lambda>_. returnE pack))))))"

definition GenerateBatchPackInTx :: "evidence_env \<Rightarrow> bool \<Rightarrow> GenerateEvidenceRequest \<Rightarrow> EvidencePack eio" where
  "GenerateBatchPackInTx e held req =
     (if TrimSpace (gr_TenantID req) = [] \<or> TrimSpace (gr_ClientBatchID req) = []
      then failE ''tenant_id and batch_id are required''
      else if gr_Items req = [] then failE ''at least one evidence item is required''
      else bindE (draw e) (\<lambda>uuid.
        let packID = ''bep_'' @ uuid; pack = build_batch_pack (ee_crypto e) packID (ee_now e) req;
            plaintext = cy_json (ee_crypto e) pack;
            evt = outbox_event (ee_crypto e) ''evidence.batch.pack.created'' [] [] (gr_ClientBatchID req)
                    (batch_event pack req) req
        in bindE (wrapE ''encrypt evidence archive: '' (encryptE e plaintext)) (\<lambda>ciphertext.
           bindE (persistPackDBFirst e pack (batch_object_key (ee_prefix e) req packID) plaintext ciphertext evt []) (\<lambda>pack.
           if held then returnE pack
           else bindE (emitVectorIndexRequest e pack ''evidence_batch_pack.generated.v1'') (\<lambda>_.
                bindE (writeProofEnrichment e pack) (\<lambda>_. returnE pack))))))"

definition GenerateBatchPack :: "evidence_env \<Rightarrow> GenerateEvidenceRequest \<Rightarrow> EvidencePack eio" where
  "GenerateBatchPack e req = GenerateBatchPackInTx e False req"

section \<open>The workers\<close>

text \<open>The transaction of the lock around the generation: its commit is one more call.\<close>

definition generate_locked :: "evidence_env \<Rightarrow> string \<Rightarrow> string \<Rightarrow> EvidencePack eio \<Rightarrow> EvidencePack eio" where
  "generate_locked e genPrefix commitPrefix gen =
     in_tx (bindE (wrap_unless ErrPackAlreadyExists genPrefix gen) (\<lambda>pack.
            bindE (wrapE commitPrefix (query e (\<lambda>_. ()))) (\<lambda>_. returnE pack)))"

definition on_duplicate :: "('s, 'a) io \<Rightarrow> ('s, 'b) io \<Rightarrow> ('a \<Rightarrow> ('s, 'b) io) \<Rightarrow> ('s, 'b) io" where
  "on_duplicate f dup g s =
     (case f s of (Inl err, t) \<Rightarrow> if err = ErrPackAlreadyExists then dup t else (Inl err, t)
      | (Inr x, t) \<Rightarrow> g x t)"

definition processIntentJob :: "evidence_env \<Rightarrow> IntentCheckJob \<Rightarrow> PendingLeaf list \<Rightarrow> unit eio" where
  "processIntentJob e job ls =
     (let delete = exec e (DeleteForIntent (ij_TenantID job) (ij_IntentID job))
      in bindE (wrapE ''begin advisory lock tx: '' (query e (\<lambda>_. ()))) (\<lambda>_.
         bindE (wrapE ''advisory lock: '' (query e (\<lambda>_. ee_locked e (ij_TenantID job) (ij_IntentID job)))) (\<lambda>acquired.
         if \<not> acquired then returnE ()
         else bindE (orElse (query e (ListByIntentID (ij_TenantID job) (ij_IntentID job))) []) (\<lambda>existing.
           if list_ex (\<lambda>p. ep_PackStatus p = PackStatusActive) existing then log_error delete
           else on_duplicate
             (generate_locked e ''generate pack from buffered leaves: '' ''commit advisory lock tx: ''
               (GeneratePackInTx e True (intent_pack_request job ls)))
             (log_error delete)
             (\<lambda>pack. bindE (writeProofEnrichment e pack) (\<lambda>_. delete))))))"

definition processIntentCheckJob :: "evidence_env \<Rightarrow> IntentCheckJob \<Rightarrow> unit eio" where
  "processIntentCheckJob e job =
     bindE (query e (GetLeavesForIntent (ij_TenantID job) (ij_IntentID job))) (\<lambda>ls.
     if missing_leaves RequiredLeafTypes ls \<noteq> [] then returnE () else processIntentJob e job ls)"

definition processBatchJob :: "evidence_env \<Rightarrow> BatchCheckJob \<Rightarrow> unit eio" where
  "processBatchJob e job =
     (let delete = exec e (DeleteForBatch (bj_TenantID job) (bj_BatchID job))
      in bindE (query e (GetLeavesForBatch (bj_TenantID job) (bj_BatchID job))) (\<lambda>ls.
         bindE (wrapE ''begin batch advisory lock tx: '' (query e (\<lambda>_. ()))) (\<lambda>_.
         bindE (wrapE ''batch advisory lock: '' (query e (\<lambda>_. ee_locked e (bj_TenantID job) (bj_BatchID job)))) (\<lambda>acquired.
         if \<not> acquired then returnE ()
         else bindE (orElse (query e (GetPackByBatchID (bj_TenantID job) (bj_BatchID job))) None) (\<lambda>existing.
           case existing of
             Some pack \<Rightarrow> bindE (emitVectorIndexRequest e pack ''evidence_batch_pack.generated.v1'') (\<lambda>_. log_error delete)
           | None \<Rightarrow> on_duplicate
               (generate_locked e ''generate pack from buffered batch leaves: '' ''commit batch advisory lock tx: ''
                 (GenerateBatchPackInTx e True (batch_pack_request (bj_TenantID job) (bj_BatchID job) ls)))
               (log_error delete)
               (\<lambda>pack. bindE (writeProofEnrichment e pack) (\<lambda>_.
                       bindE (emitVectorIndexRequest e pack ''evidence_batch_pack.generated.v1'') (\<lambda>_. delete))))))))"

definition processBatchCheckJob :: "evidence_env \<Rightarrow> BatchCheckJob \<Rightarrow> unit eio" where
  "processBatchCheckJob e job =
     bindE (query e (GetLeavesForBatch (bj_TenantID job) (bj_BatchID job))) (\<lambda>ls.
     if missing_leaves RequiredBatchLeafTypes ls \<noteq> [] then returnE () else processBatchJob e job)"

text \<open>One turn of a worker: the head of one of the queues, an error is log_error.\<close>

definition intent_turn :: "evidence_env \<Rightarrow> unit eio" where
  "intent_turn e s =
     (case es_intentQ (fst s) of [] \<Rightarrow> (Inr (), s)
      | job # q \<Rightarrow> log_error (processIntentCheckJob e job) ((fst s)\<lparr>es_intentQ := q\<rparr>, snd s))"

definition batch_turn :: "evidence_env \<Rightarrow> unit eio" where
  "batch_turn e s =
     (case es_batchQ (fst s) of [] \<Rightarrow> (Inr (), s)
      | job # q \<Rightarrow> log_error (processBatchCheckJob e job) ((fst s)\<lparr>es_batchQ := q\<rparr>, snd s))"

section \<open>Recovery and replay\<close>

definition GeneratePackFromTrustedLeaves :: "evidence_env \<Rightarrow> string \<Rightarrow> string \<Rightarrow> EvidencePack eio" where
  "GeneratePackFromTrustedLeaves e tenantID intentID =
     bindE (wrapE ''fetch trusted leaves: '' (query e (GetLeavesForIntent tenantID intentID))) (\<lambda>ls.
     if ls = [] then failE (''no trusted leaves found for intent '' @ intentID)
     else GeneratePackInTx e False (trusted_pack_request tenantID intentID ls))"

record ReplayRequest =
  ry_TenantID :: string
  ry_IntentID :: string
  ry_ContractID :: string
  ry_RevisionReason :: string
  ry_Mode :: string
  ry_RulesetVersion :: string
  ry_MappingVersions :: "(string \<times> string) list"
  ry_SchemaVersions :: "(string \<times> string) list"
  ry_OriginalPackID :: string
  ry_RequestedBy :: string
  ry_Items :: "EvidenceItem list"

record ReplayResponse =
  rx_ReplayJobID :: string
  rx_NewPackID :: string
  rx_Equivalent :: bool
  rx_OldMerkleRoot :: string
  rx_NewMerkleRoot :: string
  rx_Explanation :: string
  rx_RulesetVersion :: string
  rx_ReplayComparison :: string

definition buildBasedOnVersions :: "EvidencePack \<Rightarrow> (string \<times> string) list" where
  "buildBasedOnVersions oldPack =
     foldl (\<lambda>m (k, v). alist_put (''schema_'' @ k) v m) [(''ruleset_version'', ep_RulesetVersion oldPack)]
       (ep_SchemaVersions oldPack)"

definition replay_request :: "ReplayRequest \<Rightarrow> EvidencePack \<Rightarrow> GenerateEvidenceRequest" where
  "replay_request req oldPack =
     \<lparr>gr_TenantID = ry_TenantID req, gr_IntentID = ry_IntentID req, gr_ClientBatchID = ep_ClientBatchID oldPack,
      gr_EnvelopeID = [], gr_TraceID = [], gr_ContractID = ry_ContractID req, gr_ArtifactID = ep_ArtifactID oldPack,
      gr_ArtifactVersionID = ep_ArtifactVersionID oldPack, gr_Mode = ry_Mode req,
      gr_RulesetVersion = ry_RulesetVersion req, gr_SchemaVersions = ry_SchemaVersions req,
      gr_SupersedesPackID = ry_OriginalPackID req, gr_RevisionReason = ry_RevisionReason req,
      gr_BasedOnVersions = buildBasedOnVersions oldPack, gr_Meta = zero_meta, gr_Items = ry_Items req\<rparr>"

definition new_replay_job :: "string \<Rightarrow> ReplayRequest \<Rightarrow> ReplayJob" where
  "new_replay_job jobID req =
     \<lparr>rj_ReplayJobID = jobID, rj_TenantID = ry_TenantID req, rj_SourceEvidencePackID = ry_OriginalPackID req,
      rj_IntentID = ry_IntentID req, rj_ContractID = ry_ContractID req, rj_RulesetVersion = ry_RulesetVersion req,
      rj_MappingVersions = ry_MappingVersions req, rj_RequestedBy = ry_RequestedBy req, rj_Status = ''PENDING'',
      rj_NewEvidencePackID = [], rj_EquivalenceResult = [], rj_FailureReason = []\<rparr>"

definition replay_event :: "evidence_env \<Rightarrow> ReplayRequest \<Rightarrow> string \<Rightarrow> string \<Rightarrow> EvidencePack \<Rightarrow> PackEvent" where
  "replay_event e req jobID result newPack =
     \<lparr>pe_EventType = ''evidence.pack.replayed'', pe_EventVersion = snd (packEnvelopeVersions (ep_Items newPack)),
      pe_SourceService = [], pe_SchemaVersion = fst (packEnvelopeVersions (ep_Items newPack)),
      pe_EvidencePackID = ep_EvidencePackID newPack, pe_TenantID = ry_TenantID req, pe_BatchID = [],
      pe_IntentID = ry_IntentID req, pe_ContractID = ry_ContractID req, pe_Mode = ry_Mode req,
      pe_MerkleRoot = ep_MerkleRoot newPack, pe_RulesetVersion = ry_RulesetVersion req, pe_OccurredAt = ee_now e,
      pe_PackCompletenessScore = 0, pe_LeafCount = 0, pe_RequiredLeafCount = 0,
      pe_SettlementLeafPresentFlag = False, pe_AttachmentDecisionLeafPresentFlag = False,
      pe_Extra = [(''replay_job_id'', jobID), (''equivalence_result'', result),
                  (''original_pack_id'', ry_OriginalPackID req)]\<rparr>"

definition GetPack :: "evidence_env \<Rightarrow> string \<Rightarrow> EvidencePack eio" where
  "GetPack e packID = bindE (query e (GetPackByID packID)) (\<lambda>p.
     case p of None \<Rightarrow> failE ''sql: no rows in result set'' | Some pack \<Rightarrow> returnE pack)"

definition ReplayPack :: "evidence_env \<Rightarrow> ReplayRequest \<Rightarrow> ReplayResponse eio" where
  "ReplayPack e req =
     bindE (draw e) (\<lambda>uuid. let jobID = ''rj_'' @ uuid in
     bindE (wrapE ''create replay job: '' (exec e (CreateReplayJob (new_replay_job jobID req)))) (\<lambda>_.
     bindE (wrapE ''fetch original pack: '' (GetPack e (ry_OriginalPackID req))) (\<lambda>oldPack.
     on_error (GeneratePackInTx e False (replay_request req oldPack))
       (\<lambda>err. bindE (log_error (exec e (FailReplayJob jobID err))) (\<lambda>_.
               failE (''replay pack generation failed: '' @ err)))
       (\<lambda>newPack.
         let same = (ep_MerkleRoot oldPack = ep_MerkleRoot newPack);
             result = (if same then ''EQUIVALENT'' else ''DIFFERENT'')
         in bindE (log_error (exec e (CompleteReplayJob jobID (ep_EvidencePackID newPack) result))) (\<lambda>_.
            bindE (log_error (publish e (\<lambda>m. m\<lparr>es_published := es_published m @ [replay_event e req jobID result newPack]\<rparr>))) (\<lambda>_.
            returnE \<lparr>rx_ReplayJobID = jobID, rx_NewPackID = ep_EvidencePackID newPack, rx_Equivalent = same,
              rx_OldMerkleRoot = ep_MerkleRoot oldPack, rx_NewMerkleRoot = ep_MerkleRoot newPack,
              rx_Explanation = (if same then ''same-root: Merkle root reproduced exactly''
                else ''merkle-root-different: inputs, version pins, or artifact hashes have changed''),
              rx_RulesetVersion = ry_RulesetVersion req,
              rx_ReplayComparison = (if same \<or> ee_strict e then ''strict-root-match'' else ''loose-mode-enabled'')\<rparr>))))))"

end
