(* ===== verification/EvidenceInvariant.thy ===== *)
theory EvidenceInvariant
  imports EvidenceService
begin

text \<open>
  What the evidence service keeps true of its database and its object store, whatever sequence of
  updates, worker turns, recoveries, replays and failures it runs.
\<close>

section \<open>The invariant\<close>

definition object_key :: "string \<Rightarrow> string \<Rightarrow> bool" where
  "object_key pid key \<longleftrightarrow> (\<exists>pre. key = pre @ ''/'' @ pid @ ''.json.enc'')"

text \<open>The seal is the last item: it names the pack and hashes its identifier with the root of the others.\<close>

definition has_seal :: "(string \<Rightarrow> string) \<Rightarrow> string \<Rightarrow> EvidenceItem list \<Rightarrow> bool" where
  "has_seal sha pid its \<longleftrightarrow> its \<noteq> [] \<and> ei_Type (last its) = LeafTypeFinalEvidenceView \<and> ei_Ref (last its) = pid
     \<and> ei_Hash (last its) = sha (pid @ ''|'' @ BuildMerkleRoot sha (leaves_of (butlast its)))
     \<and> ei_LeafHash (last its) = sha (leaf_input (ei_Hash (last its)) (last its))"

lemma has_seal_stored [simp]: "has_seal sha pid (map stored_item its) = has_seal sha pid its"
proof (cases "its = []")
  case False
  have "ei_Ref (stored_item it) = ei_Ref it" for it by (simp add: stored_item_def)
  with False show ?thesis
    unfolding has_seal_def by (simp add: last_map map_butlast [symmetric])
qed (simp add: has_seal_def)

lemma has_seal_items [simp]: "has_seal sha pid (seal_items sha pid its)"
  by (simp add: has_seal_def seal_items_def final_view_def leaf_input_def Let_def)

definition row_sealed :: "(string \<Rightarrow> string) \<Rightarrow> evidence_db \<Rightarrow> PackRow \<Rightarrow> bool" where
  "row_sealed sha db r \<longleftrightarrow>
     ep_MerkleRoot (pk_Pack r) = BuildMerkleRoot sha (leaves_of (ep_Items (pk_Pack r)))
   \<and> (\<forall>i < length (ep_Items (pk_Pack r)). \<exists>p \<in> set (db_Proofs db). ip_EvidencePackID p = pack_id r
        \<and> ip_LeafIndex p = i \<and> ip_LeafHash p = ei_LeafHash (ep_Items (pk_Pack r) ! i)
        \<and> follow sha True (ip_LeafHash p) (ip_ProofPath p) = ep_MerkleRoot (pk_Pack r))
   \<and> has_seal sha (pack_id r) (ep_Items (pk_Pack r)) \<and> CHR ''/'' \<notin> set (pack_id r)
   \<and> pack_id r \<in> ea_EvidencePackID ` set (db_Archives db)"

definition activated :: "evidence_db \<Rightarrow> string set" where
  "activated db = eo_EvidencePackID ` set (db_Outbox db)"

text \<open>The pack a row was saved from: everything but the status and what the columns leave out.\<close>

definition draft_of :: "EvidencePack \<Rightarrow> PackRow \<Rightarrow> bool" where
  "draft_of p r \<longleftrightarrow> ep_EvidencePackID p = pack_id r \<and> map stored_item (ep_Items p) = ep_Items (pk_Pack r)
     \<and> ep_MerkleRoot p = ep_MerkleRoot (pk_Pack r) \<and> ep_TenantID p = ep_TenantID (pk_Pack r)
     \<and> ep_IntentID p = ep_IntentID (pk_Pack r) \<and> ep_ClientBatchID p = ep_ClientBatchID (pk_Pack r)"

lemma draft_of_stored: "pk_Pack r = stored_pack p \<Longrightarrow> draft_of p r"
  by (simp add: draft_of_def pack_id_def)

text \<open>
  The object of an activated pack is the encrypted draft of its row, whose hashes the archive row
  records.
\<close>

definition archived :: "crypto \<Rightarrow> string \<Rightarrow> (string \<Rightarrow> string + string) \<Rightarrow> (string \<times> string) list
    \<Rightarrow> PackRow \<Rightarrow> EvidenceArchive \<Rightarrow> bool" where
  "archived c bucket decrypt objs r a \<longleftrightarrow>
     (\<exists>key body p. draft_of p r \<and> ea_ObjectRef a = ObjectRef bucket key \<and> object_key (ea_EvidencePackID a) key
      \<and> map_of objs key = Some body \<and> cy_sha c body = ea_ArchiveCiphertextHash a
      \<and> decrypt body = Inr (cy_json c p) \<and> cy_sha c (cy_json c p) = ea_PlaintextManifestHash a
      \<and> ep_PackStatus p = PackStatusDraft)"

definition no_rivals :: "PackRow list \<Rightarrow> bool" where
  "no_rivals rows \<longleftrightarrow> (\<forall>r \<in> set rows. \<forall>r' \<in> set rows. pack_id r \<noteq> pack_id r'
     \<longrightarrow> ep_PackStatus (pk_Pack r) = PackStatusActive \<longrightarrow> \<not> active_rival (pk_Pack r) (pk_Pack r'))"

definition evidence_inv :: "crypto \<Rightarrow> string \<Rightarrow> (string \<Rightarrow> string + string) \<Rightarrow> evidence_db
    \<Rightarrow> (string \<times> string) list \<Rightarrow> bool" where
  "evidence_inv c bucket decrypt db objs \<longleftrightarrow>
     distinct (map pack_id (db_Packs db))
   \<and> distinct (map ea_EvidencePackID (db_Archives db))
   \<and> ea_EvidencePackID ` set (db_Archives db) \<subseteq> pack_id ` set (db_Packs db)
   \<and> (\<forall>r \<in> set (db_Packs db). row_sealed (cy_sha c) db r)
   \<and> activated db \<subseteq> pack_id ` set (db_Packs db)
   \<and> (\<forall>o' \<in> set (db_Outbox db). eo_PayloadHash o' = cy_sha c (eo_Payload o'))
   \<and> (\<forall>r \<in> set (db_Packs db). ep_PackStatus (pk_Pack r) = PackStatusActive \<longrightarrow> pack_id r \<in> activated db)
   \<and> (\<forall>a \<in> set (db_Archives db). \<forall>r \<in> set (db_Packs db). pack_id r = ea_EvidencePackID a
        \<longrightarrow> ea_EvidencePackID a \<in> activated db \<longrightarrow> archived c bucket decrypt objs r a)
   \<and> no_rivals (db_Packs db)"

lemma inv_parts:
  assumes "evidence_inv c b d db objs"
  shows
    "distinct (map pack_id (db_Packs db))" "distinct (map ea_EvidencePackID (db_Archives db))"
    "ea_EvidencePackID ` set (db_Archives db) \<subseteq> pack_id ` set (db_Packs db)"
    "\<forall>r \<in> set (db_Packs db). row_sealed (cy_sha c) db r" "activated db \<subseteq> pack_id ` set (db_Packs db)"
    "\<forall>o' \<in> set (db_Outbox db). eo_PayloadHash o' = cy_sha c (eo_Payload o')"
    "\<forall>r \<in> set (db_Packs db). ep_PackStatus (pk_Pack r) = PackStatusActive \<longrightarrow> pack_id r \<in> activated db"
    "\<forall>a \<in> set (db_Archives db). \<forall>r \<in> set (db_Packs db). pack_id r = ea_EvidencePackID a
        \<longrightarrow> ea_EvidencePackID a \<in> activated db \<longrightarrow> archived c b d objs r a"
    "no_rivals (db_Packs db)"
  using assms unfolding evidence_inv_def by simp_all

lemma inv_empty: "evidence_inv c bucket decrypt empty_db []"
  by (simp add: evidence_inv_def empty_db_def activated_def no_rivals_def)

section \<open>Objects\<close>

lemma object_key_unique:
  assumes "object_key pid key" and "object_key pid' key" and "CHR ''/'' \<notin> set pid" and "CHR ''/'' \<notin> set pid'"
  shows "pid = pid'"
proof -
  have all_other: "\<forall>ch \<in> set (rev x). ch \<noteq> CHR ''/''" if "CHR ''/'' \<notin> set x" for x :: string
    using that by auto
  have last_part: "takeWhile (\<lambda>ch. ch \<noteq> CHR ''/'') (rev (pre @ ''/'' @ x)) = rev x"
    if "CHR ''/'' \<notin> set x" for pre x :: string
  proof -
    have "takeWhile (\<lambda>ch. ch \<noteq> CHR ''/'') (rev x @ CHR ''/'' # rev pre) = rev x"
      by (subst takeWhile_append2) (use all_other [OF that] in simp_all)
    then show ?thesis by simp
  qed
  obtain pre pre' where "pre @ ''/'' @ pid @ ''.json.enc'' = pre' @ ''/'' @ pid' @ ''.json.enc''"
    using assms(1,2) by (auto simp: object_key_def)
  then have "pre @ ''/'' @ pid = pre' @ ''/'' @ pid'" by simp
  then show ?thesis using last_part [OF assms(3), of pre] last_part [OF assms(4), of pre'] by simp
qed

text \<open>What must stay in the object store for the activated packs.\<close>

definition keeps_objects :: "string set \<Rightarrow> (string \<times> string) list \<Rightarrow> (string \<times> string) list \<Rightarrow> bool" where
  "keeps_objects ids objs objs' \<longleftrightarrow> (\<forall>pid \<in> ids. \<forall>key. object_key pid key \<longrightarrow> map_of objs' key = map_of objs key)"

lemma keeps_objects_refl [simp]: "keeps_objects ids objs objs"
  by (simp add: keeps_objects_def)

lemma keeps_objects_trans:
  "keeps_objects ids objs objs' \<Longrightarrow> keeps_objects ids' objs' objs'' \<Longrightarrow> ids \<subseteq> ids' \<Longrightarrow> keeps_objects ids objs objs''"
  unfolding keeps_objects_def by (metis subsetD)

lemma archived_keeps:
  "archived c bucket decrypt objs r a \<Longrightarrow> keeps_objects ids objs objs' \<Longrightarrow> ea_EvidencePackID a \<in> ids
    \<Longrightarrow> archived c bucket decrypt objs' r a"
  unfolding archived_def keeps_objects_def by metis

lemma archived_cong:
  "pack_id r' = pack_id r \<Longrightarrow> ep_Items (pk_Pack r') = ep_Items (pk_Pack r)
    \<Longrightarrow> ep_MerkleRoot (pk_Pack r') = ep_MerkleRoot (pk_Pack r) \<Longrightarrow> ep_TenantID (pk_Pack r') = ep_TenantID (pk_Pack r)
    \<Longrightarrow> ep_IntentID (pk_Pack r') = ep_IntentID (pk_Pack r)
    \<Longrightarrow> ep_ClientBatchID (pk_Pack r') = ep_ClientBatchID (pk_Pack r) \<Longrightarrow> archived c b d objs r' a = archived c b d objs r a"
  by (simp add: archived_def draft_of_def)

lemma inv_keeps_objects:
  "evidence_inv c bucket decrypt db objs \<Longrightarrow> keeps_objects (activated db) objs objs'
    \<Longrightarrow> evidence_inv c bucket decrypt db objs'"
  unfolding evidence_inv_def by (meson archived_keeps)

lemma keeps_objects_put:
  assumes "object_key pid key" and "pid \<notin> ids" and "CHR ''/'' \<notin> set pid" and "\<forall>pid' \<in> ids. CHR ''/'' \<notin> set pid'"
  shows "keeps_objects ids objs (alist_put key body objs)"
  using assms object_key_unique unfolding keeps_objects_def by (auto simp: fun_upd_apply)

section \<open>Statements\<close>

text \<open>A statement that answers keeps the invariant and forgets no activated pack.\<close>

definition keeps_inv :: "crypto \<Rightarrow> string \<Rightarrow> (string \<Rightarrow> string + string)
    \<Rightarrow> (evidence_db \<Rightarrow> string + 'a \<times> evidence_db) \<Rightarrow> bool" where
  "keeps_inv c b d f \<longleftrightarrow> (\<forall>db objs x db'. evidence_inv c b d db objs \<longrightarrow> f db = Inr (x, db')
     \<longrightarrow> evidence_inv c b d db' objs \<and> activated db \<subseteq> activated db')"

named_theorems keeps_inv_intros \<open>statements that keep the invariant\<close>

lemma row_sealed_cong:
  assumes "db_Proofs db' = db_Proofs db"
    and "ea_EvidencePackID ` set (db_Archives db') = ea_EvidencePackID ` set (db_Archives db)"
  shows "row_sealed sha db' r = row_sealed sha db r"
  unfolding row_sealed_def assms ..

lemma inv_cong:
  assumes "evidence_inv c b d db objs" and "db_Packs db' = db_Packs db" and "db_Archives db' = db_Archives db"
    and "db_Proofs db' = db_Proofs db" and "db_Outbox db' = db_Outbox db"
  shows "evidence_inv c b d db' objs \<and> activated db' = activated db"
proof
  show act: "activated db' = activated db" by (simp add: activated_def assms)
  have sealed: "row_sealed (cy_sha c) db' = row_sealed (cy_sha c) db"
    by (rule ext, rule row_sealed_cong) (simp_all add: assms)
  show "evidence_inv c b d db' objs"
    using assms(1) unfolding evidence_inv_def act sealed assms .
qed

lemma keeps_inv_other:
  assumes "\<And>db x db'. f db = Inr (x, db') \<Longrightarrow> db_Packs db' = db_Packs db \<and> db_Archives db' = db_Archives db
     \<and> db_Proofs db' = db_Proofs db \<and> db_Outbox db' = db_Outbox db"
  shows "keeps_inv c b d f"
  unfolding keeps_inv_def using assms inv_cong by (metis order_refl)

lemma insert_receipt_tables:
  "db_Packs (insert_receipt r db) = db_Packs db" "db_Archives (insert_receipt r db) = db_Archives db"
  "db_Proofs (insert_receipt r db) = db_Proofs db" "db_Outbox (insert_receipt r db) = db_Outbox db"
  by (simp_all add: insert_receipt_def)

lemma keeps_inv_leaves [keeps_inv_intros]:
  "keeps_inv c b d (UpsertLeaf l)" "keeps_inv c b d (LinkEnvelopeToIntent t env i con)"
  "keeps_inv c b d (DeleteForIntent t i)" "keeps_inv c b d (DeleteForBatch t i)"
  "keeps_inv c b d (WriteReceipt l)" "keeps_inv c b d (WriteMalformedReceipt t topic ev tr reason)"
  "keeps_inv c b d (CreateReplayJob j)" "keeps_inv c b d (CompleteReplayJob jid np res)"
  "keeps_inv c b d (FailReplayJob jid reason)" "keeps_inv c b d (SaveRun run)"
  by (rule keeps_inv_other; auto simp: UpsertLeaf_def LinkEnvelopeToIntent_def DeleteForIntent_def DeleteForBatch_def
      WriteReceipt_def WriteMalformedReceipt_def CreateReplayJob_def CompleteReplayJob_def FailReplayJob_def SaveRun_def
      update_job_row_def Let_def insert_receipt_tables split: if_splits)+

lemma keeps_inv_query [keeps_inv_intros]: "keeps_inv c b d (\<lambda>db. Inr (f db, db))"
  by (rule keeps_inv_other) auto

text \<open>An update of pack rows that changes neither what is sealed nor the owner, and activates nothing.\<close>

definition same_pack :: "PackRow \<Rightarrow> PackRow \<Rightarrow> bool" where
  "same_pack r' r \<longleftrightarrow> pack_id r' = pack_id r \<and> ep_Items (pk_Pack r') = ep_Items (pk_Pack r)
     \<and> ep_MerkleRoot (pk_Pack r') = ep_MerkleRoot (pk_Pack r) \<and> ep_TenantID (pk_Pack r') = ep_TenantID (pk_Pack r)
     \<and> ep_IntentID (pk_Pack r') = ep_IntentID (pk_Pack r) \<and> ep_ClientBatchID (pk_Pack r') = ep_ClientBatchID (pk_Pack r)
     \<and> (ep_PackStatus (pk_Pack r') = PackStatusActive \<longrightarrow> ep_PackStatus (pk_Pack r) = PackStatusActive)"

lemma inv_map_rows:
  assumes inv: "evidence_inv c b d db objs" and g: "\<And>r. same_pack (g r) r"
  shows "evidence_inv c b d (db\<lparr>db_Packs := map g (db_Packs db)\<rparr>) objs"
proof -
  have ids: "map (\<lambda>r. pack_id (g r)) (db_Packs db) = map pack_id (db_Packs db)" using g by (simp add: same_pack_def)
  have img: "(\<lambda>r. pack_id (g r)) ` set (db_Packs db) = pack_id ` set (db_Packs db)" using g by (simp add: same_pack_def)
  have riv: "active_rival (pk_Pack (g r)) (pk_Pack (g r')) \<Longrightarrow> active_rival (pk_Pack r) (pk_Pack r')" for r r'
    using g [of r] g [of r'] by (auto simp: active_rival_def same_pack_def split: if_splits)
  have "no_rivals (map g (db_Packs db))"
    unfolding no_rivals_def set_map ball_simps
  proof (intro ballI impI notI)
    fix r r' assume rr: "r \<in> set (db_Packs db)" "r' \<in> set (db_Packs db)" "pack_id (g r) \<noteq> pack_id (g r')"
      "ep_PackStatus (pk_Pack (g r)) = PackStatusActive" "active_rival (pk_Pack (g r)) (pk_Pack (g r'))"
    then have "pack_id r \<noteq> pack_id r'" "ep_PackStatus (pk_Pack r) = PackStatusActive"
      using g [of r] g [of r'] by (simp_all add: same_pack_def)
    moreover have "no_rivals (db_Packs db)" using inv unfolding evidence_inv_def by (elim conjE)
    ultimately have "\<not> active_rival (pk_Pack r) (pk_Pack r')"
      using rr(1,2) unfolding no_rivals_def by simp
    with riv rr(5) show False by simp
  qed
  moreover have "\<forall>r \<in> set (map g (db_Packs db)). row_sealed (cy_sha c) (db\<lparr>db_Packs := map g (db_Packs db)\<rparr>) r"
    unfolding set_map ball_simps
  proof
    fix r assume "r \<in> set (db_Packs db)"
    then have "row_sealed (cy_sha c) db r" using inv unfolding evidence_inv_def by blast
    moreover have "pack_id (g r) = pack_id r" "ep_Items (pk_Pack (g r)) = ep_Items (pk_Pack r)"
      "ep_MerkleRoot (pk_Pack (g r)) = ep_MerkleRoot (pk_Pack r)" using g [of r] by (simp_all add: same_pack_def)
    note eqs = this
    have "row_sealed (cy_sha c) (db\<lparr>db_Packs := map g (db_Packs db)\<rparr>) (g r) = row_sealed (cy_sha c) db r"
      unfolding row_sealed_def eqs by simp
    ultimately show "row_sealed (cy_sha c) (db\<lparr>db_Packs := map g (db_Packs db)\<rparr>) (g r)" by simp
  qed
  moreover have "\<forall>r \<in> set (map g (db_Packs db)). ep_PackStatus (pk_Pack r) = PackStatusActive \<longrightarrow> pack_id r \<in> activated db"
    unfolding set_map ball_simps
  proof (intro ballI impI)
    fix r assume "r \<in> set (db_Packs db)" "ep_PackStatus (pk_Pack (g r)) = PackStatusActive"
    moreover from this(2) have "ep_PackStatus (pk_Pack r) = PackStatusActive"
      using g [of r] unfolding same_pack_def by blast
    ultimately have "pack_id r \<in> activated db" using inv unfolding evidence_inv_def by blast
    then show "pack_id (g r) \<in> activated db" using g [of r] unfolding same_pack_def by simp
  qed
  moreover have "\<forall>a \<in> set (db_Archives db). \<forall>r \<in> set (map g (db_Packs db)). pack_id r = ea_EvidencePackID a
      \<longrightarrow> ea_EvidencePackID a \<in> activated db \<longrightarrow> archived c b d objs r a"
    unfolding set_map ball_simps
  proof (intro ballI impI)
    fix a r assume ar: "a \<in> set (db_Archives db)" "r \<in> set (db_Packs db)" "pack_id (g r) = ea_EvidencePackID a"
      "ea_EvidencePackID a \<in> activated db"
    have "archived c b d objs (g r) a = archived c b d objs r a"
      using g [of r] unfolding same_pack_def by (intro archived_cong) simp_all
    moreover have "pack_id r = ea_EvidencePackID a" using ar(3) g [of r] by (simp add: same_pack_def)
    ultimately show "archived c b d objs (g r) a" using inv_parts(8) [OF inv] ar by simp
  qed
  moreover have "activated (db\<lparr>db_Packs := map g (db_Packs db)\<rparr>) = activated db" by (simp add: activated_def)
  moreover have "map pack_id (map g (db_Packs db)) = map pack_id (db_Packs db)" by (simp add: comp_def ids)
  moreover have "pack_id ` set (map g (db_Packs db)) = pack_id ` set (db_Packs db)" by (simp add: image_image img)
  moreover have "db_Archives (db\<lparr>db_Packs := map g (db_Packs db)\<rparr>) = db_Archives db"
    "db_Outbox (db\<lparr>db_Packs := map g (db_Packs db)\<rparr>) = db_Outbox db"
    "db_Packs (db\<lparr>db_Packs := map g (db_Packs db)\<rparr>) = map g (db_Packs db)" by simp_all
  ultimately show ?thesis
    using inv unfolding evidence_inv_def by presburger
qed

lemma keeps_inv_rows [keeps_inv_intros]:
  "keeps_inv c b d (UpdateProofEnrichment pid st sc)" "keeps_inv c b d (MarkPackSuperseded pid pid')"
  "keeps_inv c b d (MarkVerified pid v t)" "keeps_inv c b d (MarkPackSignaturesVerified pid v)"
  unfolding keeps_inv_def UpdateProofEnrichment_def MarkPackSuperseded_def MarkVerified_def MarkPackSignaturesVerified_def
  by (auto intro!: inv_map_rows simp: same_pack_def pack_id_def map_pack_def activated_def)

lemma keeps_inv_MarkArchiveVerified [keeps_inv_intros]: "keeps_inv c b d (MarkArchiveVerified pid t)"
proof -
  define g :: "EvidenceArchive \<Rightarrow> EvidenceArchive" where "g a = (if ea_EvidencePackID a = pid then a\<lparr>ea_ArchiveVerifiedAt := Some t\<rparr> else a)" for a
  have g: "ea_EvidencePackID (g a) = ea_EvidencePackID a" "archived c b d objs r (g a) = archived c b d objs r a" for objs r a
    by (simp_all add: archived_def g_def)
  show ?thesis unfolding keeps_inv_def
  proof (intro allI impI conjI)
    fix db objs x db'
    assume inv: "evidence_inv c b d db objs" and "MarkArchiveVerified pid t db = Inr (x, db')"
    then have db': "db' = db\<lparr>db_Archives := map g (db_Archives db)\<rparr>" by (simp add: MarkArchiveVerified_def g_def [abs_def])
    show "activated db \<subseteq> activated db'" by (simp add: db' activated_def)
    have ids: "map ea_EvidencePackID (db_Archives db') = map ea_EvidencePackID (db_Archives db)"
      and img: "ea_EvidencePackID ` set (db_Archives db') = ea_EvidencePackID ` set (db_Archives db)"
      by (simp_all add: db' g image_image)
    have sealed: "row_sealed (cy_sha c) db' = row_sealed (cy_sha c) db"
      by (rule ext, rule row_sealed_cong) (simp_all only: img, simp add: db')
    have act: "activated db' = activated db" by (simp add: db' activated_def)
    have other: "db_Packs db' = db_Packs db" "db_Outbox db' = db_Outbox db" by (simp_all add: db')
    have "\<forall>a \<in> set (db_Archives db'). \<forall>r \<in> set (db_Packs db). pack_id r = ea_EvidencePackID a
        \<longrightarrow> ea_EvidencePackID a \<in> activated db \<longrightarrow> archived c b d objs r a"
      using inv_parts(8) [OF inv] by (simp add: db' g)
    then show "evidence_inv c b d db' objs"
      using inv unfolding evidence_inv_def sealed act other ids img by blast
  qed
qed

section \<open>Drafts and activations\<close>

lemma leaves_of_nth: "i < length its \<Longrightarrow> leaves_of its ! i = \<lparr>ml_Index = i, ml_LeafHash = ei_LeafHash (its ! i)\<rparr>"
  by (simp add: leaves_of_def)

lemma inclusion_proofs_lead_on:
  assumes "i < length its"
  shows "\<exists>p \<in> set (inclusion_proofs sha pid (leaves_of its)). ip_EvidencePackID p = pid \<and> ip_LeafIndex p = i
     \<and> ip_LeafHash p = ei_LeafHash (its ! i)
     \<and> follow sha True (ip_LeafHash p) (ip_ProofPath p) = BuildMerkleRoot sha (leaves_of its)"
proof -
  let ?l = "leaves_of its ! i"
  have l: "?l \<in> set (leaves_of its)" using assms by (simp add: leaves_of_def)
  have "distinct (map ml_Index (leaves_of its))" by (simp add: leaves_of_def comp_def)
  from leaf_has_proof [OF this l, of sha True] obtain path where
    "BuildInclusionProofs sha (leaves_of its) (ml_Index ?l) = Some path"
    "follow sha True (ml_LeafHash ?l) path = BuildMerkleRoot sha (leaves_of its)"
    by (auto simp: BuildInclusionProofs_def BuildMerkleRoot_def)
  then show ?thesis
    using l assms by (intro bexI [where x = "\<lparr>ip_EvidencePackID = pid, ip_LeafIndex = ml_Index ?l,
        ip_LeafHash = ml_LeafHash ?l, ip_ProofPath = path\<rparr>"])
      (auto simp: inclusion_proofs_def Let_def leaves_of_nth image_iff intro!: bexI [of _ ?l])
qed

text \<open>What the service saves: a sealed draft with its archive row and its proofs.\<close>

definition fresh_draft :: "(string \<Rightarrow> string) \<Rightarrow> EvidencePack \<Rightarrow> EvidenceArchive \<Rightarrow> InclusionProof list \<Rightarrow> bool" where
  "fresh_draft sha pack a ps \<longleftrightarrow> ep_PackStatus pack = PackStatusDraft
     \<and> has_seal sha (ep_EvidencePackID pack) (ep_Items pack) \<and> CHR ''/'' \<notin> set (ep_EvidencePackID pack)
     \<and> ep_MerkleRoot pack = BuildMerkleRoot sha (leaves_of (ep_Items pack))
     \<and> ea_EvidencePackID a = ep_EvidencePackID pack
     \<and> ps = inclusion_proofs sha (ep_EvidencePackID pack) (leaves_of (ep_Items pack))"

lemma SavePackDraft_inv:
  assumes inv: "evidence_inv c b d db objs" and fresh: "fresh_draft (cy_sha c) pack a ps"
    and saved: "SavePackDraft pack ref a ps db = Inr (x, db')"
  shows "evidence_inv c b d db' objs" and "activated db' = activated db"
    and "ep_EvidencePackID pack \<notin> pack_id ` set (db_Packs db)"
    and "a \<in> set (db_Archives db')"
    and "\<forall>r \<in> set (db_Packs db'). pack_id r = ep_EvidencePackID pack \<longrightarrow> draft_of pack r"
proof -
  let ?row = "\<lparr>pk_Pack = stored_pack pack, pk_ObjectRef = ref, pk_ProofStatus = ''DRAFT'', pk_ProofScore = 0,
     pk_VerificationStatus = False, pk_LastVerifiedAt = None\<rparr>" and ?pid = "ep_EvidencePackID pack"
  from saved have new: "?pid \<notin> pack_id ` set (db_Packs db)"
    and packs: "db_Packs db' = db_Packs db @ [?row]" and archives: "db_Archives db' = db_Archives db @ [a]"
    and proofs: "db_Proofs db' = db_Proofs db @ ps" and outbox: "db_Outbox db' = db_Outbox db"
    by (auto simp: SavePackDraft_def list_ex_iff split: if_splits)
  show act: "activated db' = activated db" by (simp add: activated_def outbox)
  show "?pid \<notin> pack_id ` set (db_Packs db)" by (rule new)
  show "a \<in> set (db_Archives db')" by (simp add: archives)
  have rid: "pack_id ?row = ?pid" by (simp add: pack_id_def)
  show "\<forall>r \<in> set (db_Packs db'). pack_id r = ?pid \<longrightarrow> draft_of pack r"
    unfolding packs using new by (auto intro: draft_of_stored) (metis imageI)
  have aid: "ea_EvidencePackID a = ?pid" using fresh by (simp add: fresh_draft_def)
  note inv1 = inv_parts [OF inv]
  have draft: "ep_PackStatus (pk_Pack ?row) = PackStatusDraft" using fresh by (simp add: fresh_draft_def)
  have old: "row_sealed (cy_sha c) db' r" if "row_sealed (cy_sha c) db r" for r
    using that unfolding row_sealed_def proofs archives set_append image_Un bex_Un by blast
  have "row_sealed (cy_sha c) db' ?row"
    unfolding row_sealed_def rid
  proof (intro conjI allI impI)
    show "ep_MerkleRoot (pk_Pack ?row) = BuildMerkleRoot (cy_sha c) (leaves_of (ep_Items (pk_Pack ?row)))"
      "CHR ''/'' \<notin> set ?pid" "has_seal (cy_sha c) ?pid (ep_Items (pk_Pack ?row))"
      using fresh by (simp_all add: fresh_draft_def)
    show "?pid \<in> ea_EvidencePackID ` set (db_Archives db')" by (simp add: archives aid)
    fix i assume "i < length (ep_Items (pk_Pack ?row))"
    then have i: "i < length (ep_Items pack)" by simp
    from inclusion_proofs_lead_on [OF this, of "cy_sha c" ?pid] fresh i
    show "\<exists>p\<in>set (db_Proofs db'). ip_EvidencePackID p = ?pid \<and> ip_LeafIndex p = i \<and>
       ip_LeafHash p = ei_LeafHash (ep_Items (pk_Pack ?row) ! i) \<and>
       follow (cy_sha c) True (ip_LeafHash p) (ip_ProofPath p) = ep_MerkleRoot (pk_Pack ?row)"
      by (auto simp: proofs fresh_draft_def)
  qed
  moreover have "no_rivals (db_Packs db @ [?row])"
    unfolding no_rivals_def
  proof (intro ballI impI)
    fix r r' assume rr: "r \<in> set (db_Packs db @ [?row])" "r' \<in> set (db_Packs db @ [?row])" "pack_id r \<noteq> pack_id r'"
      "ep_PackStatus (pk_Pack r) = PackStatusActive"
    show "\<not> active_rival (pk_Pack r) (pk_Pack r')"
    proof (cases "r' = ?row")
      case True
      then show ?thesis using draft by (simp add: active_rival_def)
    next
      case False
      moreover have "r \<noteq> ?row" using rr(4) draft by auto
      ultimately have "r \<in> set (db_Packs db)" "r' \<in> set (db_Packs db)" using rr(1,2) by simp_all
      then show ?thesis using inv1(9) rr(3,4) unfolding no_rivals_def by simp
    qed
  qed
  moreover have "\<forall>a' \<in> set (db_Archives db @ [a]). \<forall>r \<in> set (db_Packs db @ [?row]). pack_id r = ea_EvidencePackID a'
      \<longrightarrow> ea_EvidencePackID a' \<in> activated db \<longrightarrow> archived c b d objs r a'"
  proof (intro ballI impI)
    fix a' r assume ar: "a' \<in> set (db_Archives db @ [a])" "r \<in> set (db_Packs db @ [?row])"
      "pack_id r = ea_EvidencePackID a'" "ea_EvidencePackID a' \<in> activated db"
    then have "ea_EvidencePackID a' \<noteq> ?pid" using inv1(5) new by auto
    then have "a' \<in> set (db_Archives db)" "r \<in> set (db_Packs db)" using ar aid rid by auto
    then show "archived c b d objs r a'" using inv1(8) ar(3,4) by blast
  qed
  ultimately show "evidence_inv c b d db' objs"
    using inv1(1-7) old new aid rid draft unfolding evidence_inv_def act packs archives outbox
    by (auto simp: fresh_draft_def)
qed

lemma same_archives:
  assumes "distinct (map ea_EvidencePackID archives)" and "a \<in> set archives"
    and "ea_EvidencePackID a = pid" and "ea_ArchiveCiphertextHash a = h"
  shows "map (\<lambda>a. if ea_EvidencePackID a = pid then a\<lparr>ea_ArchiveCiphertextHash := h\<rparr> else a) archives = archives"
proof (rule map_idI)
  fix a' assume "a' \<in> set archives"
  then have "ea_EvidencePackID a' = pid \<Longrightarrow> a' = a" using assms by (auto simp: distinct_map inj_on_def)
  then show "(if ea_EvidencePackID a' = pid then a'\<lparr>ea_ArchiveCiphertextHash := h\<rparr> else a') = a'"
    using assms(4) by auto
qed

lemma ActivatePack_inv:
  assumes inv: "evidence_inv c b d db objs" and act: "ActivatePack pid ref h evt db = Inr (x, db')"
    and a: "a \<in> set (db_Archives db)" "ea_EvidencePackID a = pid" "ea_ArchiveCiphertextHash a = h"
      "\<forall>r \<in> set (db_Packs db). pack_id r = pid \<longrightarrow> archived c b d objs r a"
    and evt: "eo_EvidencePackID evt = pid" "eo_PayloadHash evt = cy_sha c (eo_Payload evt)"
  shows "evidence_inv c b d db' objs" and "activated db' = insert pid (activated db)"
    and "\<exists>r \<in> set (db_Packs db'). pack_id r = pid \<and> ep_PackStatus (pk_Pack r) = PackStatusActive"
    and "db_Leaves db' = db_Leaves db"
proof -
  note inv1 = inv_parts [OF inv]
  define g where "g r = (if pack_id r = pid \<and> ep_PackStatus (pk_Pack r) = PackStatusDraft
      then (map_pack (\<lambda>p. p\<lparr>ep_PackStatus := PackStatusActive\<rparr>) r)\<lparr>pk_ObjectRef := ref\<rparr> else r)" for r :: PackRow
  from act obtain row where row: "List.find (\<lambda>r. pack_id r = pid \<and> ep_PackStatus (pk_Pack r) = PackStatusDraft) (db_Packs db) = Some row"
    and none: "\<not> list_ex (\<lambda>r. active_rival (pk_Pack row) (pk_Pack r)) (db_Packs db)"
    and packs: "db_Packs db' = map g (db_Packs db)"
    and archives: "db_Archives db' = db_Archives db" and proofs: "db_Proofs db' = db_Proofs db"
    and outbox: "db_Outbox db' = db_Outbox db @ [evt]" and leaves: "db_Leaves db' = db_Leaves db"
    using same_archives [OF inv1(2) a(1-3)]
    by (auto simp: ActivatePack_def g_def [abs_def] split: option.splits if_splits)
  have rowI: "row \<in> set (db_Packs db)" "pack_id row = pid" "ep_PackStatus (pk_Pack row) = PackStatusDraft"
    using find_SomeD [OF row] by auto
  have g: "pack_id (g r) = pack_id r" "ep_Items (pk_Pack (g r)) = ep_Items (pk_Pack r)"
    "ep_MerkleRoot (pk_Pack (g r)) = ep_MerkleRoot (pk_Pack r)" "ep_TenantID (pk_Pack (g r)) = ep_TenantID (pk_Pack r)"
    "ep_IntentID (pk_Pack (g r)) = ep_IntentID (pk_Pack r)"
    "ep_ClientBatchID (pk_Pack (g r)) = ep_ClientBatchID (pk_Pack r)" for r
    by (simp_all add: g_def pack_id_def map_pack_def)
  have g_other: "pack_id r \<noteq> pid \<Longrightarrow> g r = r" for r by (simp add: g_def)
  have only: "r = row" if "r \<in> set (db_Packs db)" "pack_id r = pid" for r
    using that rowI inv1(1) by (auto simp: distinct_map inj_on_def)
  have act_row: "ep_PackStatus (pk_Pack (g row)) = PackStatusActive" using rowI by (simp add: g_def map_pack_def)
  show acts: "activated db' = insert pid (activated db)" by (simp add: activated_def outbox evt)
  show "db_Leaves db' = db_Leaves db" by (rule leaves)
  show "\<exists>r \<in> set (db_Packs db'). pack_id r = pid \<and> ep_PackStatus (pk_Pack r) = PackStatusActive"
    using rowI act_row g by (intro bexI [of _ "g row"]) (simp_all add: packs)
  have sealed: "row_sealed (cy_sha c) db' (g r) = row_sealed (cy_sha c) db r" for r
    unfolding row_sealed_def g proofs archives ..
  have rival: "active_rival (pk_Pack (g r)) (pk_Pack r') = active_rival (pk_Pack r) (pk_Pack r')" for r r'
    unfolding active_rival_def g ..
  have riv: "no_rivals (map g (db_Packs db))"
    unfolding no_rivals_def set_map ball_simps
  proof (intro ballI impI)
    fix r r' assume rr: "r \<in> set (db_Packs db)" "r' \<in> set (db_Packs db)" "pack_id (g r) \<noteq> pack_id (g r')"
      "ep_PackStatus (pk_Pack (g r)) = PackStatusActive"
    have sym: "active_rival (pk_Pack r) (pk_Pack (g r')) \<Longrightarrow> active_rival (pk_Pack r') (pk_Pack (g r))"
      using rr(4) unfolding active_rival_def g by (simp split: if_splits)
    consider "r = row" | "r' = row" "r \<noteq> row" | "r \<noteq> row" "r' \<noteq> row" by blast
    then show "\<not> active_rival (pk_Pack (g r)) (pk_Pack (g r'))"
    proof cases
      case 1
      then have "g r' = r'" using rr(3) rowI(2) g by (intro g_other) simp
      then show ?thesis using 1 none rr(2) by (simp add: rival list_ex_iff)
    next
      case 2
      then have "g r = r" using rr(3) rowI(2) g by (intro g_other) simp
      then show ?thesis using 2 none rr(1) sym by (auto simp: rival list_ex_iff)
    next
      case 3
      then have "g r = r" "g r' = r'" using only rr(1,2) by (metis g_other)+
      then show ?thesis using rr inv1(9) unfolding no_rivals_def by simp
    qed
  qed
  have ids: "map pack_id (db_Packs db') = map pack_id (db_Packs db)" by (simp add: packs comp_def g)
  have img: "pack_id ` set (db_Packs db') = pack_id ` set (db_Packs db)" by (simp add: packs image_image g)
  have p_in: "pid \<in> pack_id ` set (db_Packs db)" using rowI by auto
  have "\<forall>r \<in> set (db_Packs db'). row_sealed (cy_sha c) db' r"
    using inv1(4) by (simp add: packs sealed)
  moreover have "\<forall>o' \<in> set (db_Outbox db'). eo_PayloadHash o' = cy_sha c (eo_Payload o')"
    using inv1(6) evt by (simp add: outbox)
  moreover have "\<forall>r \<in> set (db_Packs db'). ep_PackStatus (pk_Pack r) = PackStatusActive \<longrightarrow> pack_id r \<in> insert pid (activated db)"
    unfolding packs set_map ball_simps
  proof (intro ballI impI)
    fix r assume "r \<in> set (db_Packs db)" "ep_PackStatus (pk_Pack (g r)) = PackStatusActive"
    then show "pack_id (g r) \<in> insert pid (activated db)"
      using inv1(7) g g_other [of r] by (cases "pack_id r = pid") auto
  qed
  moreover have "\<forall>a' \<in> set (db_Archives db). \<forall>r \<in> set (map g (db_Packs db)). pack_id r = ea_EvidencePackID a'
      \<longrightarrow> ea_EvidencePackID a' \<in> insert pid (activated db) \<longrightarrow> archived c b d objs r a'"
    unfolding set_map ball_simps
  proof (intro ballI impI)
    fix a' r assume ar: "a' \<in> set (db_Archives db)" "r \<in> set (db_Packs db)" "pack_id (g r) = ea_EvidencePackID a'"
      "ea_EvidencePackID a' \<in> insert pid (activated db)"
    have "a' = a" if "ea_EvidencePackID a' = pid" using that a inv1(2) ar(1) by (auto simp: distinct_map inj_on_def)
    then have "archived c b d objs r a'" using inv1(8) a(4) ar g by auto
    moreover have "archived c b d objs (g r) a' = archived c b d objs r a'" by (rule archived_cong) (simp_all add: g)
    ultimately show "archived c b d objs (g r) a'" by simp
  qed
  ultimately show "evidence_inv c b d db' objs"
    using inv1 riv p_in unfolding evidence_inv_def acts ids img archives by (simp add: packs)
qed

section \<open>Methods\<close>

text \<open>
  A deployment: its keys and its bucket are fixed, identifiers have no slash, and what was encrypted
  decrypts.
\<close>

definition deployed :: "crypto \<Rightarrow> string \<Rightarrow> (string \<Rightarrow> string + string) \<Rightarrow> evidence_env \<Rightarrow> bool" where
  "deployed c b d e \<longleftrightarrow> ee_crypto e = c \<and> ee_bucket e = b \<and> ee_decrypt e = d
     \<and> (\<forall>n. CHR ''/'' \<notin> set (ee_uuid e n)) \<and> (\<forall>n x y. ee_encrypt e n x = Inr y \<longrightarrow> d y = Inr x)"

definition state_inv :: "crypto \<Rightarrow> string \<Rightarrow> (string \<Rightarrow> string + string) \<Rightarrow> evidence_state \<Rightarrow> bool" where
  "state_inv c b d m \<longleftrightarrow> evidence_inv c b d (es_db m) (es_objects m)"

definition evolves :: "crypto \<Rightarrow> string \<Rightarrow> (string \<Rightarrow> string + string) \<Rightarrow> evidence_state \<Rightarrow> evidence_state \<Rightarrow> bool" where
  "evolves c b d m m' \<longleftrightarrow> state_inv c b d m' \<and> activated (es_db m) \<subseteq> activated (es_db m')
     \<and> keeps_objects (activated (es_db m)) (es_objects m) (es_objects m')"

definition runs :: "crypto \<Rightarrow> string \<Rightarrow> (string \<Rightarrow> string + string) \<Rightarrow> 'a eio \<Rightarrow> bool" where
  "runs c b d f \<longleftrightarrow> (\<forall>s. state_inv c b d (fst s) \<longrightarrow> evolves c b d (fst s) (fst (snd (f s))))"

named_theorems runs_intros \<open>methods that keep the invariant\<close>

lemma evolves_refl: "state_inv c b d m \<Longrightarrow> evolves c b d m m"
  by (simp add: evolves_def)

lemma evolves_trans: "evolves c b d m m' \<Longrightarrow> evolves c b d m' m'' \<Longrightarrow> evolves c b d m m''"
  unfolding evolves_def by (meson keeps_objects_trans subset_trans)

lemma evolves_inv: "evolves c b d m m' \<Longrightarrow> state_inv c b d m'"
  by (simp add: evolves_def)

lemma evolves_same: "state_inv c b d m \<Longrightarrow> es_db m' = es_db m \<Longrightarrow> es_objects m' = es_objects m \<Longrightarrow> evolves c b d m m'"
  by (simp add: evolves_def state_inv_def)

lemma runs_returnE [runs_intros]: "runs c b d (returnE x)"
  by (simp add: runs_def returnE_def evolves_refl)

lemma runs_failE [runs_intros]: "runs c b d (failE x)"
  by (simp add: runs_def failE_def evolves_refl)

lemma runs_then:
  assumes "runs c b d f" and "\<And>x. runs c b d (g x)" and "\<And>err. runs c b d (h err)"
  shows "runs c b d (\<lambda>s. case f s of (Inl err, t) \<Rightarrow> h err t | (Inr x, t) \<Rightarrow> g x t)"
  unfolding runs_def
proof (intro allI impI)
  fix s :: "evidence_state \<times> nat" assume "state_inv c b d (fst s)"
  then have first: "evolves c b d (fst s) (fst (snd (f s)))" using assms(1) unfolding runs_def by blast
  then have i: "state_inv c b d (fst (snd (f s)))" by (rule evolves_inv)
  show "evolves c b d (fst s) (fst (snd (case f s of (Inl err, t) \<Rightarrow> h err t | (Inr x, t) \<Rightarrow> g x t)))"
  proof -
    obtain r t where rt: "f s = (r, t)" by (cases "f s")
    have "evolves c b d (fst t) (fst (snd (h err t)))" "evolves c b d (fst t) (fst (snd (g x t)))" for err x
      using assms(2) [of x, unfolded runs_def, rule_format, of t] assms(3) [of err, unfolded runs_def, rule_format, of t] i
      unfolding rt by simp_all
    then show ?thesis using first evolves_trans [of c b d "fst s" "fst t"] unfolding rt by (cases r) simp_all
  qed
qed

lemma runs_stop: "runs c b d (\<lambda>s. (r, s))"
  by (simp add: runs_def evolves_refl)

lemma runs_bindE [runs_intros]: "runs c b d f \<Longrightarrow> (\<And>x. runs c b d (g x)) \<Longrightarrow> runs c b d (bindE f g)"
  using runs_then [of c b d f g "\<lambda>err s. (Inl err, s)"] runs_stop [of c b d]
  unfolding bindE_def [abs_def] by blast

lemma runs_on_error [runs_intros]:
  "runs c b d f \<Longrightarrow> (\<And>err. runs c b d (h err)) \<Longrightarrow> (\<And>x. runs c b d (g x)) \<Longrightarrow> runs c b d (on_error f h g)"
  using runs_then [of c b d f g h] unfolding on_error_def [abs_def] by blast

lemma runs_if [runs_intros]: "(x \<Longrightarrow> runs c b d f) \<Longrightarrow> (\<not> x \<Longrightarrow> runs c b d g) \<Longrightarrow> runs c b d (if x then f else g)"
  by simp

lemma runs_option [runs_intros]:
  "runs c b d f \<Longrightarrow> (\<And>y. runs c b d (g y)) \<Longrightarrow> runs c b d (case x of None \<Rightarrow> f | Some y \<Rightarrow> g y)"
  by (cases x) simp_all

lemma runs_on_duplicate [runs_intros]:
  assumes "runs c b d f" "runs c b d dup" "\<And>x. runs c b d (g x)"
  shows "runs c b d (on_duplicate f dup g)"
proof -
  have "on_duplicate f dup g = (\<lambda>s. case f s of (Inl err, t) \<Rightarrow>
      (if err = ErrPackAlreadyExists then dup else (\<lambda>t. (Inl err, t))) t | (Inr x, t) \<Rightarrow> g x t)"
    by (rule ext) (simp add: on_duplicate_def split: prod.split sum.split)
  then show ?thesis using assms
    by (simp only:) (rule runs_then, auto intro: runs_stop)
qed

lemma runs_same_state:
  assumes "runs c b d f" and "\<And>s. fst (snd (g s)) = fst (snd (f s))"
  shows "runs c b d g"
  using assms unfolding runs_def by simp

lemma runs_wrapE [runs_intros]: "runs c b d f \<Longrightarrow> runs c b d (wrapE p f)"
  by (erule runs_same_state) (simp add: wrapE_def split: prod.split sum.split)

lemma runs_wrap_unless [runs_intros]: "runs c b d f \<Longrightarrow> runs c b d (wrap_unless x p f)"
  by (erule runs_same_state) (simp add: wrap_unless_def split: prod.split sum.split)

lemma runs_orElse [runs_intros]: "runs c b d f \<Longrightarrow> runs c b d (orElse f x)"
  by (erule runs_same_state) (simp add: orElse_def split: prod.split sum.split)

lemma runs_log_error [runs_intros]: "runs c b d f \<Longrightarrow> runs c b d (log_error f)"
  by (erule runs_same_state) (simp add: log_error_def)

lemma runs_keeps:
  assumes "\<And>s. es_db (fst (snd (f s))) = es_db (fst s)" and "\<And>s. es_objects (fst (snd (f s))) = es_objects (fst s)"
  shows "runs c b d f"
  unfolding runs_def by (intro allI impI evolves_same assms)

lemma runs_update: "(\<And>m. es_db (f m) = es_db m \<and> es_objects (f m) = es_objects m) \<Longrightarrow> runs c b d (update f)"
  by (rule runs_keeps) (simp_all add: update_def)

lemma runs_publish: "(\<And>m. es_db (f m) = es_db m \<and> es_objects (f m) = es_objects m) \<Longrightarrow> runs c b d (publish e f)"
  by (rule runs_keeps) (simp_all add: publish_def split: option.split)

lemma runs_draw [runs_intros]: "runs c b d (draw e)"
  by (rule runs_keeps) (simp_all add: draw_def)

lemma runs_encryptE [runs_intros]: "runs c b d (encryptE e x)"
  by (rule runs_keeps) (simp_all add: encryptE_def split: sum.split)

lemma exec_cases:
  obtains (failed) err where "exec e f s = (Inl err, (fst s, Suc (snd s)))"
  | (answered) x db where "f (es_db (fst s)) = Inr (x, db)" "exec e f s = (Inr x, ((fst s)\<lparr>es_db := db\<rparr>, Suc (snd s)))"
  by (cases "ee_fault e (snd s)"; cases "f (es_db (fst s))") (auto simp: exec_def)

lemma runs_exec [runs_intros]: "keeps_inv c b d f \<Longrightarrow> runs c b d (exec e f)"
  unfolding runs_def
proof (intro allI impI)
  fix s :: "evidence_state \<times> nat" assume f: "keeps_inv c b d f" and i: "state_inv c b d (fst s)"
  show "evolves c b d (fst s) (fst (snd (exec e f s)))"
  proof (cases rule: exec_cases [of e f s])
    case (failed err)
    then show ?thesis using i by (simp add: evolves_refl)
  next
    case (answered x db)
    then show ?thesis using i f unfolding keeps_inv_def evolves_def state_inv_def by simp
  qed
qed

lemma runs_query [runs_intros]: "runs c b d (query e f)"
  unfolding query_def by (intro runs_exec keeps_inv_query)

text \<open>A transaction that fails leaves new objects behind, but none that an activated pack needs.\<close>

lemma runs_in_tx [runs_intros]:
  assumes "runs c b d f"
  shows "runs c b d (in_tx f)"
  unfolding runs_def
proof (intro allI impI)
  fix s :: "evidence_state \<times> nat" assume i: "state_inv c b d (fst s)"
  then have ev: "evolves c b d (fst s) (fst (snd (f s)))" using assms unfolding runs_def by blast
  show "evolves c b d (fst s) (fst (snd (in_tx f s)))"
  proof -
    obtain r t where rt: "f s = (r, t)" by (cases "f s")
    show ?thesis
    proof (cases r)
      case (Inl err)
      then show ?thesis using rt i ev inv_keeps_objects
        by (fastforce simp: in_tx_def evolves_def state_inv_def)
    next
      case (Inr x)
      then show ?thesis using rt ev by (simp add: in_tx_def)
    qed
  qed
qed

text \<open>The generation: a draft, its object, its activation.\<close>

lemma put_object_cases:
  obtains (refused) err where "put_object e key body s = (Inl err, (fst s, Suc (snd s)))"
  | (stored) "put_object e key body s = (Inr (ObjectRef (ee_bucket e) key),
        ((fst s)\<lparr>es_objects := alist_put key body (es_objects (fst s))\<rparr>, Suc (snd s)))"
  by (cases "ee_fault e (snd s)"; cases "TrimSpace key = []") (auto simp: put_object_def PutObject_def)

definition good_draft :: "crypto \<Rightarrow> string \<Rightarrow> (string \<Rightarrow> string + string) \<Rightarrow> EvidencePack \<Rightarrow> string \<Rightarrow> string
    \<Rightarrow> string \<Rightarrow> EvidenceOutbox \<Rightarrow> bool" where
  "good_draft c b d pack key plaintext ciphertext evt \<longleftrightarrow>
     ep_PackStatus pack = PackStatusDraft \<and> CHR ''/'' \<notin> set (ep_EvidencePackID pack)
   \<and> has_seal (cy_sha c) (ep_EvidencePackID pack) (ep_Items pack)
   \<and> ep_MerkleRoot pack = BuildMerkleRoot (cy_sha c) (leaves_of (ep_Items pack))
   \<and> object_key (ep_EvidencePackID pack) key \<and> plaintext = cy_json c pack \<and> d ciphertext = Inr plaintext
   \<and> eo_EvidencePackID evt = ep_EvidencePackID pack \<and> eo_PayloadHash evt = cy_sha c (eo_Payload evt)"

lemma slash_free_activated:
  assumes "evidence_inv c b d db objs" and "pid \<in> activated db"
  shows "CHR ''/'' \<notin> set pid"
  using inv_parts(4,5) [OF assms(1)] assms(2) by (auto simp: row_sealed_def)

lemma activation_runs:
  assumes e: "deployed c b d e" and good: "good_draft c b d pack key plaintext ciphertext evt"
    and i: "state_inv c b d (fst s)" and new: "ep_EvidencePackID pack \<notin> activated (es_db (fst s))"
    and a: "archive_of e aid pack (ObjectRef (ee_bucket e) key) plaintext ciphertext \<in> set (db_Archives (es_db (fst s)))"
    and rows: "\<forall>r \<in> set (db_Packs (es_db (fst s))). pack_id r = ep_EvidencePackID pack \<longrightarrow> draft_of pack r"
  shows "evolves c b d (fst s) (fst (snd (activate_draft e pack key ciphertext evt old s)))"
proof -
  let ?pid = "ep_EvidencePackID pack" and ?a = "archive_of e aid pack (ObjectRef (ee_bucket e) key) plaintext ciphertext"
  have env: "ee_crypto e = c" "ee_bucket e = b" using e by (simp_all add: deployed_def)
  define rest where "rest = (\<lambda>u :: unit. bindE (supersede e old ?pid) (\<lambda>_. returnE (pack\<lparr>ep_PackStatus := PackStatusActive\<rparr>)))"
  have rest: "runs c b d (rest u)" for u
    unfolding rest_def supersede_def by (intro runs_intros keeps_inv_intros)
  have free: "\<forall>pid \<in> activated (es_db (fst s)). CHR ''/'' \<notin> set pid"
    using slash_free_activated i unfolding state_inv_def by blast
  show ?thesis
  proof (cases rule: put_object_cases [of e key ciphertext s])
    case (refused err)
    then show ?thesis using i by (simp add: activate_draft_def bindE_def wrapE_def evolves_refl)
  next
    case stored
    define s1 where "s1 = ((fst s)\<lparr>es_objects := alist_put key ciphertext (es_objects (fst s))\<rparr>, Suc (snd s))"
    have keep: "keeps_objects (activated (es_db (fst s))) (es_objects (fst s)) (es_objects (fst s1))"
      using good new free unfolding s1_def good_draft_def fst_conv
      by (simp, intro keeps_objects_put [of "ep_EvidencePackID pack"]) simp_all
    then have ev1: "evolves c b d (fst s) (fst s1)"
      using i inv_keeps_objects unfolding evolves_def state_inv_def by (simp add: s1_def)
    have arch: "archived c b d (es_objects (fst s1)) r ?a" if "draft_of pack r" for r
      using good that unfolding archived_def good_draft_def
      by (intro exI [of _ key] exI [of _ ciphertext] exI [of _ pack]) (simp add: archive_of_def env s1_def)
    then have arch1: "\<forall>r \<in> set (db_Packs (es_db (fst s1))). pack_id r = ?pid \<longrightarrow> archived c b d (es_objects (fst s1)) r ?a"
      using rows by (simp add: s1_def)
    define next1 where "next1 = wrap_unless ErrPackAlreadyExists ''activate pack: '' (exec e (ActivatePack ?pid (ObjectRef b key) (cy_sha c ciphertext) evt))"
    have "evolves c b d (fst s1) (fst (snd (next1 s1)))"
    proof (cases rule: exec_cases [of e "ActivatePack ?pid (ObjectRef b key) (cy_sha c ciphertext) evt" s1])
      case (failed err)
      then show ?thesis using evolves_refl evolves_inv [OF ev1] by (simp add: next1_def wrap_unless_def)
    next
      case (answered x db)
      have inv1: "evidence_inv c b d (es_db (fst s1)) (es_objects (fst s1))"
        using evolves_inv [OF ev1] unfolding state_inv_def .
      have a1: "?a \<in> set (db_Archives (es_db (fst s1)))" using a by (simp add: s1_def)
      have sel: "ea_EvidencePackID ?a = ?pid" "ea_ArchiveCiphertextHash ?a = cy_sha c ciphertext"
        by (simp_all add: archive_of_def env)
      have ev: "eo_EvidencePackID evt = ?pid" "eo_PayloadHash evt = cy_sha c (eo_Payload evt)"
        using good by (simp_all add: good_draft_def)
      from ActivatePack_inv(1,2) [OF inv1 answered(1) a1 sel arch1 ev] answered(2)
      show ?thesis by (auto simp: next1_def wrap_unless_def evolves_def state_inv_def)
    qed
    then have "evolves c b d (fst s1) (fst (snd (bindE next1 rest s1)))"
      using rest unfolding runs_def bindE_def
      by (cases "next1 s1") (auto split: sum.split intro: evolves_trans dest: evolves_inv)
    then have "evolves c b d (fst s) (fst (snd (bindE next1 rest s1)))" using ev1 evolves_trans by blast
    moreover have "activate_draft e pack key ciphertext evt old s = bindE next1 rest s1"
      unfolding activate_draft_def bindE_def [of "wrapE _ _"] using stored
      by (simp add: wrapE_def env next1_def rest_def s1_def)
    ultimately show ?thesis by simp
  qed
qed

lemma runs_persist:
  assumes e: "deployed c b d e" and good: "good_draft c b d pack key plaintext ciphertext evt"
  shows "runs c b d (persistPackDBFirst e pack key plaintext ciphertext evt old)"
  unfolding persistPackDBFirst_def Let_def
proof (rule runs_bindE [OF runs_draw])
  fix aid
  let ?pid = "ep_EvidencePackID pack" and ?a = "archive_of e aid pack (ObjectRef (ee_bucket e) key) plaintext ciphertext"
  let ?ps = "inclusion_proofs (sha_of e) ?pid (leaves_of (ep_Items pack))"
  let ?draft = "exec e (SavePackDraft pack (ObjectRef (ee_bucket e) key) ?a ?ps)"
  have env: "ee_crypto e = c" "ee_bucket e = b" using e by (simp_all add: deployed_def)
  have fresh: "fresh_draft (cy_sha c) pack ?a ?ps"
    using good by (simp add: fresh_draft_def good_draft_def archive_of_def env)
  show "runs c b d (bindE (wrap_unless ErrPackAlreadyExists ''save pack draft: '' ?draft)
      (\<lambda>_. activate_draft e pack key ciphertext evt old))"
    unfolding runs_def
  proof (intro allI impI)
    fix s :: "evidence_state \<times> nat" assume i: "state_inv c b d (fst s)"
    show "evolves c b d (fst s) (fst (snd (bindE (wrap_unless ErrPackAlreadyExists ''save pack draft: '' ?draft)
      (\<lambda>_. activate_draft e pack key ciphertext evt old) s)))"
    proof (cases rule: exec_cases [of e "SavePackDraft pack (ObjectRef (ee_bucket e) key) ?a ?ps" s])
      case (failed err)
      then show ?thesis using i by (simp add: bindE_def wrap_unless_def evolves_refl)
    next
      case (answered x db)
      define s1 where "s1 = ((fst s)\<lparr>es_db := db\<rparr>, Suc (snd s))"
      note saved = SavePackDraft_inv [OF i [unfolded state_inv_def] fresh answered(1)]
      have i1: "state_inv c b d (fst s1)" using saved(1) by (simp add: s1_def state_inv_def)
      have ev1: "evolves c b d (fst s) (fst s1)" using i1 saved(2) by (simp add: evolves_def s1_def)
      have "?pid \<notin> activated (es_db (fst s1))"
        using saved(2,3) inv_parts(5) [OF i [unfolded state_inv_def]] by (auto simp: s1_def)
      moreover have "?a \<in> set (db_Archives (es_db (fst s1)))" using saved(4) by (simp add: s1_def)
      moreover have "\<forall>r \<in> set (db_Packs (es_db (fst s1))). pack_id r = ?pid \<longrightarrow> draft_of pack r"
        using saved(5) by (simp add: s1_def)
      ultimately have "evolves c b d (fst s1) (fst (snd (activate_draft e pack key ciphertext evt old s1)))"
        by (intro activation_runs [OF e good i1])
      then have "evolves c b d (fst s) (fst (snd (activate_draft e pack key ciphertext evt old s1)))"
        using ev1 evolves_trans by blast
      then show ?thesis using answered(2) by (simp add: bindE_def wrap_unless_def s1_def)
    qed
  qed
qed

lemma sealed_root_of_items: "sealed_root sha pid its = BuildMerkleRoot sha (leaves_of (seal_items sha pid its))"
  by (simp add: sealed_root_def)

lemma object_key_intent: "object_key pid (intent_object_key prefix req pid)"
  unfolding object_key_def intent_object_key_def
  by (rule exI [of _ "prefix @ ''/'' @ gr_TenantID req @ ''/'' @ (if gr_ContractID req = [] then gr_IntentID req else gr_ContractID req)"]) simp

lemma object_key_batch: "object_key pid (batch_object_key prefix req pid)"
  unfolding object_key_def batch_object_key_def
  by (rule exI [of _ "prefix @ ''/'' @ gr_TenantID req @ ''/batch/'' @ gr_ClientBatchID req"]) simp

lemma outbox_event_sel:
  "eo_EvidencePackID (outbox_event c t env con agg evt req) = pe_EvidencePackID evt"
  "eo_PayloadHash (outbox_event c t env con agg evt req) = cy_sha c (eo_Payload (outbox_event c t env con agg evt req))"
  by (simp_all add: outbox_event_def)

lemma good_intent_draft:
  assumes "CHR ''/'' \<notin> set uuid" and "d ciphertext = Inr (cy_json c (build_intent_pack c (''ep_'' @ uuid) now req))"
  shows "good_draft c b d (build_intent_pack c (''ep_'' @ uuid) now req) (intent_object_key prefix req (''ep_'' @ uuid))
     (cy_json c (build_intent_pack c (''ep_'' @ uuid) now req)) ciphertext
     (outbox_event c t env con agg (intent_event et (build_intent_pack c (''ep_'' @ uuid) now req) req) req)"
  using assms object_key_intent [of "''ep_'' @ uuid"]
  by (simp add: good_draft_def sealed_root_of_items outbox_event_sel intent_event_def Let_def)

lemma good_batch_draft:
  assumes "CHR ''/'' \<notin> set uuid" and "d ciphertext = Inr (cy_json c (build_batch_pack c (''bep_'' @ uuid) now req))"
  shows "good_draft c b d (build_batch_pack c (''bep_'' @ uuid) now req) (batch_object_key prefix req (''bep_'' @ uuid))
     (cy_json c (build_batch_pack c (''bep_'' @ uuid) now req)) ciphertext
     (outbox_event c t env con agg (batch_event (build_batch_pack c (''bep_'' @ uuid) now req) req) req)"
  using assms object_key_batch [of "''bep_'' @ uuid"]
  by (simp add: good_draft_def sealed_root_of_items outbox_event_sel batch_event_def Let_def)

text \<open>What a method knows of a value it was given.\<close>

definition yields :: "('s, 'a) io \<Rightarrow> ('a \<Rightarrow> bool) \<Rightarrow> bool" where
  "yields f Q \<longleftrightarrow> (\<forall>s x t. f s = (Inr x, t) \<longrightarrow> Q x)"

lemma runs_bindE_yields:
  assumes "runs c b d f" and "yields f Q" and "\<And>x. Q x \<Longrightarrow> runs c b d (g x)"
  shows "runs c b d (bindE f g)"
proof -
  have "bindE f g = bindE f (\<lambda>x. if Q x then g x else failE [])"
  proof
    fix s
    obtain r t where "f s = (r, t)" by (cases "f s")
    moreover from this have "r = Inr x \<Longrightarrow> Q x" for x using assms(2) unfolding yields_def by blast
    ultimately show "bindE f g s = bindE f (\<lambda>x. if Q x then g x else failE []) s"
      by (cases r) (simp_all add: bindE_def)
  qed
  then show ?thesis using assms by (simp add: runs_bindE runs_if runs_failE)
qed

lemma yields_draw: "deployed c b d e \<Longrightarrow> yields (draw e) (\<lambda>uuid. CHR ''/'' \<notin> set uuid)"
  by (auto simp: yields_def draw_def deployed_def)

lemma yields_encrypt: "deployed c b d e \<Longrightarrow> yields (wrapE p (encryptE e plain)) (\<lambda>y. d y = Inr plain)"
  by (auto simp: yields_def wrapE_def encryptE_def deployed_def split: sum.splits)

lemma runs_emit [runs_intros]: "runs c b d (emitVectorIndexRequest e pack t)"
  unfolding emitVectorIndexRequest_def by (intro runs_intros runs_publish) simp_all

lemma runs_enrich [runs_intros]: "runs c b d (writeProofEnrichment e pack)"
  unfolding writeProofEnrichment_def Let_def by (intro runs_intros keeps_inv_intros)

lemma runs_GeneratePackInTx [runs_intros]:
  assumes e: "deployed c b d e"
  shows "runs c b d (GeneratePackInTx e held req)"
proof -
  have env: "ee_crypto e = c" using e by (simp add: deployed_def)
  show ?thesis
    unfolding GeneratePackInTx_def Let_def env
    by (intro runs_intros runs_bindE_yields [OF runs_draw yields_draw [OF e]]
        runs_bindE_yields [OF _ yields_encrypt [OF e]] runs_persist [OF e] good_intent_draft)
qed

lemma runs_GenerateBatchPackInTx [runs_intros]:
  assumes e: "deployed c b d e"
  shows "runs c b d (GenerateBatchPackInTx e held req)"
proof -
  have env: "ee_crypto e = c" using e by (simp add: deployed_def)
  show ?thesis
    unfolding GenerateBatchPackInTx_def Let_def env
    by (intro runs_intros runs_bindE_yields [OF runs_draw yields_draw [OF e]]
        runs_bindE_yields [OF _ yields_encrypt [OF e]] runs_persist [OF e] good_batch_draft)
qed

lemma runs_store_leaves [runs_intros]: "runs c b d (store_leaves e batch ls)"
  by (induction e batch ls rule: store_leaves.induct) (simp_all add: Let_def runs_intros keeps_inv_intros)

lemma runs_enqueue [runs_intros]: "runs c b d (enqueueIntentCheck j)" "runs c b d (enqueueBatchCheck j')"
  unfolding enqueueIntentCheck_def enqueueBatchCheck_def by (simp_all add: runs_update)

lemma runs_HandleLeafUpdate: "runs c b d (HandleLeafUpdate e t env i con tr ls)"
  unfolding HandleLeafUpdate_def resolve_intent_def Let_def by (intro runs_intros keeps_inv_intros)

lemma runs_HandleBatchLeafUpdate: "runs c b d (HandleBatchLeafUpdate e t bt ls fin)"
  unfolding HandleBatchLeafUpdate_def by (intro runs_intros)

lemma runs_RecordMalformedEvent: "runs c b d (RecordMalformedEvent e t topic ev tr reason)"
  unfolding RecordMalformedEvent_def by (intro runs_intros keeps_inv_intros)

lemma runs_generate_locked [runs_intros]: "runs c b d gen \<Longrightarrow> runs c b d (generate_locked e p1 p2 gen)"
  unfolding generate_locked_def by (intro runs_intros)

lemma runs_processIntentCheckJob: "deployed c b d e \<Longrightarrow> runs c b d (processIntentCheckJob e job)"
  unfolding processIntentCheckJob_def processIntentJob_def Let_def by (intro runs_intros keeps_inv_intros)

lemma runs_processBatchCheckJob: "deployed c b d e \<Longrightarrow> runs c b d (processBatchCheckJob e job)"
  unfolding processBatchCheckJob_def processBatchJob_def Let_def by (intro runs_intros keeps_inv_intros)

lemma runs_turn:
  assumes "\<And>job. runs c b d (f job)"
    and "\<And>m q'. es_db (upd q' m) = es_db m \<and> es_objects (upd q' m) = es_objects m"
  shows "runs c b d (\<lambda>s. case q (fst s) of [] \<Rightarrow> (Inr (), s) | job # q' \<Rightarrow> log_error (f job) (upd q' (fst s), snd s))"
  unfolding runs_def
proof (intro allI impI)
  fix s :: "evidence_state \<times> nat" assume i: "state_inv c b d (fst s)"
  show "evolves c b d (fst s) (fst (snd (case q (fst s) of [] \<Rightarrow> (Inr (), s)
      | job # q' \<Rightarrow> log_error (f job) (upd q' (fst s), snd s))))"
  proof (cases "q (fst s)")
    case (Cons job q')
    have "state_inv c b d (upd q' (fst s))" using i assms(2) by (simp add: state_inv_def)
    then have "evolves c b d (upd q' (fst s)) (fst (snd (log_error (f job) (upd q' (fst s), snd s))))"
      using runs_log_error [OF assms(1)] unfolding runs_def by simp
    then show ?thesis using Cons assms(2) by (simp add: evolves_def)
  qed (simp add: evolves_refl i)
qed

lemma runs_intent_turn: "deployed c b d e \<Longrightarrow> runs c b d (intent_turn e)"
  using runs_turn [of c b d "processIntentCheckJob e" "\<lambda>q m. m\<lparr>es_intentQ := q\<rparr>" es_intentQ] runs_processIntentCheckJob
  unfolding intent_turn_def [abs_def] by simp

lemma runs_batch_turn: "deployed c b d e \<Longrightarrow> runs c b d (batch_turn e)"
  using runs_turn [of c b d "processBatchCheckJob e" "\<lambda>q m. m\<lparr>es_batchQ := q\<rparr>" es_batchQ] runs_processBatchCheckJob
  unfolding batch_turn_def [abs_def] by simp

lemma runs_GeneratePackFromTrustedLeaves: "deployed c b d e \<Longrightarrow> runs c b d (GeneratePackFromTrustedLeaves e t i)"
  unfolding GeneratePackFromTrustedLeaves_def by (intro runs_intros)

lemma runs_GetPack [runs_intros]: "runs c b d (GetPack e pid)"
  unfolding GetPack_def by (intro runs_intros)

lemma runs_ReplayPack: "deployed c b d e \<Longrightarrow> runs c b d (ReplayPack e req)"
  unfolding ReplayPack_def Let_def by (intro runs_intros keeps_inv_intros runs_publish) simp_all

end
