(* ===== verification/EvidenceVerify.thy ===== *)
theory EvidenceVerify
  imports EvidenceService
begin

text \<open>
  \<^verbatim>\<open>evidence/services/archive_verify.go\<close> and the verification endpoint of
  \<^verbatim>\<open>evidence/handlers/proof_handler.go\<close>: the layers a pack is checked in and the status they compose to.
  Errors are values; the texts that explain them are left out.
\<close>

section \<open>The archive\<close>

datatype archive_error = ArchiveNotConfigured | NoArchiveRecorded | MetadataNotLoaded string
  | CiphertextHashMissing | PlaintextHashMissing | KeyMismatch | ObjectRefNotParsed
  | ObjectNotFetched string | CiphertextHashMismatch | SizeMismatch | NotDecrypted string
  | PlaintextHashMismatch | ManifestNotParsed | LivePackNotLoaded string | ManifestDiffers string
  | VerifiedNotPersisted string

text \<open>The errors that wrap \<open>ErrArchiveNotAvailable\<close>.\<close>

definition archive_not_available :: "archive_error \<Rightarrow> bool" where
  "archive_not_available err \<longleftrightarrow> err = ArchiveNotConfigured \<or> err = NoArchiveRecorded"

text \<open>The loop looks at every key of the first map; the lengths agree.\<close>

definition mapsEqual :: "(string \<times> string) list \<Rightarrow> (string \<times> string) list \<Rightarrow> bool" where
  "mapsEqual a b \<longleftrightarrow> length a = length b \<and> list_all (\<lambda>(k, v). map_of b k = Some v) a"

definition same_item :: "EvidenceItem \<Rightarrow> EvidenceItem \<Rightarrow> bool" where
  "same_item a b \<longleftrightarrow> ei_Type a = ei_Type b \<and> ei_Ref a = ei_Ref b \<and> ei_Hash a = ei_Hash b
     \<and> ei_LeafHash a = ei_LeafHash b \<and> ei_SchemaVersion a = ei_SchemaVersion b"

definition itemsEqual :: "EvidenceItem list \<Rightarrow> EvidenceItem list \<Rightarrow> bool" where
  "itemsEqual as bs \<longleftrightarrow> list_all2 same_item as bs"

definition same_signature :: "Signature \<Rightarrow> Signature \<Rightarrow> bool" where
  "same_signature a b \<longleftrightarrow> sg_KeyID a = sg_KeyID b \<and> sg_Alg a = sg_Alg b
     \<and> sg_SignedPayloadHash a = sg_SignedPayloadHash b"

definition signaturesEqual :: "Signature list \<Rightarrow> Signature list \<Rightarrow> bool" where
  "signaturesEqual as bs \<longleftrightarrow> length as = length bs \<and> list_all (\<lambda>a. list_ex (same_signature a) bs) as"

text \<open>The first field in which the archived manifest differs from the pack in the database.\<close>

definition manifest_checks :: "ArchiveManifest \<Rightarrow> EvidencePack \<Rightarrow> (string \<times> bool) list" where
  "manifest_checks m p =
     [(''evidence_pack_id'', am_EvidencePackID m = ep_EvidencePackID p),
      (''tenant_id'', am_TenantID m = ep_TenantID p), (''merkle_root'', am_MerkleRoot m = ep_MerkleRoot p),
      (''ruleset_version'', am_RulesetVersion m = ep_RulesetVersion p),
      (''leaf_count'', am_LeafCount m = ep_LeafCount p),
      (''required_leaf_count'', am_RequiredLeafCount m = ep_RequiredLeafCount p),
      (''pack_status'', am_PackStatus m = ep_PackStatus p), (''mode'', am_Mode m = ep_Mode p),
      (''schema_versions'', mapsEqual (am_SchemaVersions m) (ep_SchemaVersions p)),
      (''zord_signature'', am_ZordSignature m = ep_ZordSignature p),
      (''items'', itemsEqual (am_Items m) (ep_Items p)),
      (''signatures'', signaturesEqual (am_Signatures m) (ep_Signatures p))]"

definition manifest_difference :: "ArchiveManifest \<Rightarrow> EvidencePack \<Rightarrow> string option" where
  "manifest_difference m p = map_option fst (List.find (\<lambda>x. \<not> snd x) (manifest_checks m p))"

definition metadata_error :: "EvidenceArchive \<Rightarrow> archive_error option" where
  "metadata_error a =
     (if ea_ArchiveCiphertextHash a = [] then Some CiphertextHashMissing
      else if ea_PlaintextManifestHash a = [] then Some PlaintextHashMissing
      else if ea_EncryptionKeyID a \<noteq> [] \<and> ea_EncryptionKeyID a \<noteq> ''archive-aes-v1'' then Some KeyMismatch
      else None)"

text \<open>From the bytes of the object to the manifest.\<close>

definition open_archive :: "evidence_env \<Rightarrow> EvidenceArchive \<Rightarrow> string \<Rightarrow> archive_error + ArchiveManifest" where
  "open_archive e a ciphertext =
     (if sha_of e ciphertext \<noteq> ea_ArchiveCiphertextHash a then Inl CiphertextHashMismatch
      else if ea_ArchiveSizeBytes a > 0 \<and> int (length ciphertext) \<noteq> ea_ArchiveSizeBytes a then Inl SizeMismatch
      else case ee_decrypt e ciphertext of
          Inl err \<Rightarrow> Inl (NotDecrypted err)
        | Inr plaintext \<Rightarrow>
            if sha_of e plaintext \<noteq> ea_PlaintextManifestHash a then Inl PlaintextHashMismatch
            else case cy_manifest (ee_crypto e) plaintext of
                None \<Rightarrow> Inl ManifestNotParsed | Some m \<Rightarrow> Inr m)"

definition get_object :: "evidence_env \<Rightarrow> string \<Rightarrow> string eio" where
  "get_object e key s =
     (case ee_fault e (snd s) of
        Some err \<Rightarrow> (Inl err, (fst s, Suc (snd s)))
      | None \<Rightarrow> (case GetObject key (es_objects (fst s)) of
            None \<Rightarrow> (Inl ''get object: no such key'', (fst s, Suc (snd s)))
          | Some body \<Rightarrow> (Inr body, (fst s, Suc (snd s)))))"

text \<open>\<open>None\<close> is success.\<close>

definition compare_live :: "evidence_env \<Rightarrow> string \<Rightarrow> ArchiveManifest \<Rightarrow> archive_error option eio" where
  "compare_live e packID m =
     on_error (GetPack e packID) (\<lambda>err. returnE (Some (LivePackNotLoaded err))) (\<lambda>live.
       case manifest_difference m live of
         Some field \<Rightarrow> returnE (Some (ManifestDiffers field))
       | None \<Rightarrow> on_error (exec e (MarkArchiveVerified packID (ee_now e)))
           (\<lambda>err. returnE (Some (VerifiedNotPersisted err))) (\<lambda>_. returnE None))"

definition check_archive :: "evidence_env \<Rightarrow> string \<Rightarrow> EvidenceArchive \<Rightarrow> archive_error option eio" where
  "check_archive e packID a =
     (if metadata_error a \<noteq> None then returnE (metadata_error a)
      else case ObjectKeyFromRef (ea_ObjectRef a) of
          None \<Rightarrow> returnE (Some ObjectRefNotParsed)
        | Some key \<Rightarrow> on_error (get_object e key) (\<lambda>err. returnE (Some (ObjectNotFetched err))) (\<lambda>ciphertext.
            case open_archive e a ciphertext of
              Inl err \<Rightarrow> returnE (Some err)
            | Inr m \<Rightarrow> compare_live e packID m))"

definition VerifyArchiveForPack :: "evidence_env \<Rightarrow> string \<Rightarrow> archive_error option eio" where
  "VerifyArchiveForPack e packID =
     (if \<not> ee_archive e then returnE (Some ArchiveNotConfigured)
      else on_error (query e (GetArchiveByPackID packID)) (\<lambda>err. returnE (Some (MetadataNotLoaded err))) (\<lambda>found.
        case found of None \<Rightarrow> returnE (Some NoArchiveRecorded) | Some a \<Rightarrow> check_archive e packID a))"

section \<open>The verification endpoint\<close>

abbreviation (input) Passed :: string where "Passed \<equiv> ''PASSED''"
abbreviation (input) Failed :: string where "Failed \<equiv> ''FAILED''"
abbreviation (input) NotAvailable :: string where "NotAvailable \<equiv> ''NOT_AVAILABLE''"

definition statusLabel :: "bool \<Rightarrow> string" where
  "statusLabel passed = (if passed then Passed else Failed)"

definition layer_status :: "('e \<Rightarrow> bool) \<Rightarrow> 'e option \<Rightarrow> string" where
  "layer_status unavailable err = (case err of None \<Rightarrow> Passed
     | Some x \<Rightarrow> if unavailable x then NotAvailable else Failed)"

record VerifyResponse =
  vr_HTTPStatus :: nat
  vr_EvidencePackID :: string
  vr_Status :: string
  vr_CheckedAt :: time
  vr_StoredRoot :: string
  vr_ComputedRoot :: string
  vr_DBMerkleStatus :: string
  vr_ArchiveStatus :: string
  vr_SignatureStatus :: string
  vr_VerificationRunID :: string

datatype verify_answer = PackNotFound string | CrossTenantDenied | Answered VerifyResponse

definition overall_status :: "bool \<Rightarrow> string \<Rightarrow> string \<Rightarrow> string" where
  "overall_status merklePassed archive signature =
     (if \<not> merklePassed then ''CORRUPTED''
      else if archive = Failed \<or> signature = Failed then ''COMPROMISED''
      else if archive = NotAvailable \<or> signature = NotAvailable then ''INTERNALLY_CONSISTENT''
      else ''VERIFIED'')"

definition http_status :: "string \<Rightarrow> nat" where
  "http_status overall = (if overall = ''CORRUPTED'' \<or> overall = ''COMPROMISED'' then 422 else 200)"

text \<open>A failure row of each layer that did not pass: archive, signature, then the root.\<close>

definition run_failures :: "bool \<Rightarrow> string \<Rightarrow> string \<Rightarrow> VerificationFailure list" where
  "run_failures merklePassed archive signature =
     (if archive = Passed then [] else [\<lparr>vl_Layer = ''ARCHIVE'', vl_Status = archive\<rparr>])
   @ (if signature = Passed then [] else [\<lparr>vl_Layer = ''SIGNATURE'', vl_Status = signature\<rparr>])
   @ (if merklePassed then [] else [\<lparr>vl_Layer = ''DB_MERKLE'', vl_Status = Failed\<rparr>])"

definition mark_verified :: "evidence_env \<Rightarrow> string \<Rightarrow> bool \<Rightarrow> unit eio" where
  "mark_verified e packID verified =
     bindE (exec e (MarkVerified packID verified (ee_now e))) (\<lambda>_.
     if verified then exec e (MarkPackSignaturesVerified packID True) else returnE ())"

definition save_run :: "evidence_env \<Rightarrow> VerificationRun \<Rightarrow> string eio" where
  "save_run e run = bindE (draw e) (\<lambda>uuid. bindE (exec e (SaveRun run)) (\<lambda>_. returnE (''vr_'' @ uuid)))"

definition verify_layers :: "evidence_env \<Rightarrow> string \<Rightarrow> EvidencePack \<Rightarrow> verify_answer eio" where
  "verify_layers e packID pack =
     bindE (VerifyArchiveForPack e packID) (\<lambda>archiveErr.
     let computed = RecomputeMerkleRoot (sha_of e) pack;
         merklePassed = (computed = ep_MerkleRoot pack);
         archive = layer_status archive_not_available archiveErr;
         signature = layer_status signature_not_available (VerifyPackSignature (ee_crypto e) (ee_signer e) pack);
         overall = overall_status merklePassed archive signature;
         run = \<lparr>vu_EvidencePackID = packID, vu_TenantID = ep_TenantID pack, vu_OverallStatus = overall,
           vu_DBMerkleStatus = statusLabel merklePassed, vu_ArchiveStatus = archive, vu_SignatureStatus = signature,
           vu_StoredRoot = ep_MerkleRoot pack, vu_ComputedRoot = computed, vu_CheckedAt = ee_now e,
           vu_Failures = run_failures merklePassed archive signature\<rparr>
     in bindE (log_error (mark_verified e packID (overall = ''VERIFIED''))) (\<lambda>_.
        bindE (orElse (save_run e run) []) (\<lambda>runID.
        returnE (Answered \<lparr>vr_HTTPStatus = http_status overall, vr_EvidencePackID = packID, vr_Status = overall,
          vr_CheckedAt = ee_now e, vr_StoredRoot = ep_MerkleRoot pack, vr_ComputedRoot = computed,
          vr_DBMerkleStatus = statusLabel merklePassed, vr_ArchiveStatus = archive,
          vr_SignatureStatus = signature, vr_VerificationRunID = runID\<rparr>))))"

definition VerifyPack :: "evidence_env \<Rightarrow> string \<Rightarrow> string \<Rightarrow> verify_answer eio" where
  "VerifyPack e tenantID packID =
     on_error (GetPack e packID) (\<lambda>err. returnE (PackNotFound err)) (\<lambda>pack.
       if ep_TenantID pack \<noteq> tenantID then returnE CrossTenantDenied else verify_layers e packID pack)"

end
