(* ===== verification/EvidenceLaws.thy ===== *)
theory EvidenceLaws
  imports EvidenceInvariant EvidenceVerify
begin

text \<open>
  The evidence service as a transition system, and what holds of it: the state of an active pack, the
  consumption of leaves, replay and verification.
\<close>

section \<open>Reachable states\<close>

lemma runs_get_object [runs_intros]: "runs c b d (get_object e key)"
  by (rule runs_keeps) (simp_all add: get_object_def split: option.split)

lemma runs_sum [runs_intros]:
  "(\<And>y. runs c b d (f y)) \<Longrightarrow> (\<And>y. runs c b d (g y)) \<Longrightarrow> runs c b d (case x of Inl y \<Rightarrow> f y | Inr y \<Rightarrow> g y)"
  by (cases x) simp_all

lemma runs_VerifyArchiveForPack [runs_intros]: "runs c b d (VerifyArchiveForPack e pid)"
  unfolding VerifyArchiveForPack_def check_archive_def compare_live_def
  by (intro runs_intros keeps_inv_intros)

lemma runs_VerifyPack: "runs c b d (VerifyPack e t pid)"
  unfolding VerifyPack_def verify_layers_def mark_verified_def save_run_def Let_def
  by (intro runs_intros keeps_inv_intros)

text \<open>One operation of the service in some environment of the deployment.\<close>

definition effect :: "'a eio \<Rightarrow> evidence_state \<Rightarrow> nat \<Rightarrow> evidence_state" where
  "effect f m n = fst (snd (f (m, n)))"

inductive evidence_step :: "crypto \<Rightarrow> string \<Rightarrow> (string \<Rightarrow> string + string) \<Rightarrow> evidence_state \<Rightarrow> evidence_state \<Rightarrow> bool"
  for c b d where
  leaves_arrive: "deployed c b d e \<Longrightarrow> evidence_step c b d m (effect (HandleLeafUpdate e t env i con tr ls) m n)"
| batch_leaves_arrive: "deployed c b d e \<Longrightarrow> evidence_step c b d m (effect (HandleBatchLeafUpdate e t bt ls fin) m n)"
| malformed_event: "deployed c b d e \<Longrightarrow> evidence_step c b d m (effect (RecordMalformedEvent e t topic ev tr reason) m n)"
| intent_worker: "deployed c b d e \<Longrightarrow> evidence_step c b d m (effect (intent_turn e) m n)"
| batch_worker: "deployed c b d e \<Longrightarrow> evidence_step c b d m (effect (batch_turn e) m n)"
| recovery: "deployed c b d e \<Longrightarrow> evidence_step c b d m (effect (GeneratePackFromTrustedLeaves e t i) m n)"
| batch_pack: "deployed c b d e \<Longrightarrow> evidence_step c b d m (effect (GenerateBatchPack e req) m n)"
| replay: "deployed c b d e \<Longrightarrow> evidence_step c b d m (effect (ReplayPack e rreq) m n)"
| verification: "deployed c b d e \<Longrightarrow> evidence_step c b d m (effect (VerifyPack e t pid) m n)"
| shutdown: "evidence_step c b d m (effect PrepareShutdown m n)"

inductive evidence_reachable :: "crypto \<Rightarrow> string \<Rightarrow> (string \<Rightarrow> string + string) \<Rightarrow> evidence_state \<Rightarrow> bool"
  for c b d where
  start: "es_db m = empty_db \<Longrightarrow> es_objects m = [] \<Longrightarrow> evidence_reachable c b d m"
| steps: "evidence_reachable c b d m \<Longrightarrow> evidence_step c b d m m' \<Longrightarrow> evidence_reachable c b d m'"

lemma runs_effect: "runs c b d f \<Longrightarrow> state_inv c b d m \<Longrightarrow> evolves c b d m (effect f m n)"
  unfolding runs_def effect_def by simp

lemma step_evolves:
  assumes "evidence_step c b d m m'" and "state_inv c b d m"
  shows "evolves c b d m m'"
  using assms
proof cases
  case (shutdown n)
  have "runs c b d PrepareShutdown" unfolding PrepareShutdown_def by (rule runs_update) simp
  then show ?thesis using assms(2) shutdown runs_effect by blast
qed (auto intro!: runs_effect runs_HandleLeafUpdate runs_HandleBatchLeafUpdate runs_RecordMalformedEvent
    runs_intent_turn runs_batch_turn runs_GeneratePackFromTrustedLeaves runs_GenerateBatchPackInTx runs_ReplayPack
    runs_VerifyPack simp: GenerateBatchPack_def)

lemma reachable_inv: "evidence_reachable c b d m \<Longrightarrow> state_inv c b d m"
proof (induction rule: evidence_reachable.induct)
  case (start m)
  then show ?case by (simp add: state_inv_def inv_empty)
next
  case (steps m m')
  then show ?case using step_evolves evolves_inv by blast
qed

text \<open>
  C19.  An active pack is complete.  In every reachable state the items of an active pack end with
  its seal (the final evidence view, which names the pack and hashes its identifier with the root of
  the other items), its root is the Merkle root of the items, every item has a stored proof that
  leads to it, its archive row names an object of the store whose hash it records and which decrypts
  to the draft with the same identifier, items, root and owner, and an outbox event announces it.
  No other active pack of the tenant has its intent; and if it has no intent, no other active pack
  of the tenant without one has its batch.
\<close>

theorem active_pack_is_complete:
  assumes "evidence_reachable c b d m" and "r \<in> set (db_Packs (es_db m))" and "ep_PackStatus (pk_Pack r) = PackStatusActive"
  shows "has_seal (cy_sha c) (pack_id r) (ep_Items (pk_Pack r))
   \<and> ep_MerkleRoot (pk_Pack r) = BuildMerkleRoot (cy_sha c) (leaves_of (ep_Items (pk_Pack r)))
   \<and> (\<forall>i < length (ep_Items (pk_Pack r)). \<exists>p \<in> set (db_Proofs (es_db m)). ip_EvidencePackID p = pack_id r
        \<and> ip_LeafIndex p = i \<and> ip_LeafHash p = ei_LeafHash (ep_Items (pk_Pack r) ! i)
        \<and> follow (cy_sha c) True (ip_LeafHash p) (ip_ProofPath p) = ep_MerkleRoot (pk_Pack r))
   \<and> (\<exists>a \<in> set (db_Archives (es_db m)). ea_EvidencePackID a = pack_id r \<and> archived c b d (es_objects m) r a)
   \<and> (\<exists>ev \<in> set (db_Outbox (es_db m)). eo_EvidencePackID ev = pack_id r \<and> eo_PayloadHash ev = cy_sha c (eo_Payload ev))
   \<and> (\<forall>r' \<in> set (db_Packs (es_db m)). pack_id r' \<noteq> pack_id r \<longrightarrow> ep_PackStatus (pk_Pack r') = PackStatusActive
        \<longrightarrow> ep_TenantID (pk_Pack r') = ep_TenantID (pk_Pack r) \<longrightarrow>
        (ep_IntentID (pk_Pack r) \<noteq> [] \<longrightarrow> ep_IntentID (pk_Pack r') \<noteq> ep_IntentID (pk_Pack r))
      \<and> (ep_IntentID (pk_Pack r) = [] \<longrightarrow> ep_IntentID (pk_Pack r') = [] \<longrightarrow> ep_ClientBatchID (pk_Pack r) \<noteq> []
           \<longrightarrow> ep_ClientBatchID (pk_Pack r') \<noteq> ep_ClientBatchID (pk_Pack r)))"
proof -
  have inv: "evidence_inv c b d (es_db m) (es_objects m)"
    using reachable_inv [OF assms(1)] unfolding state_inv_def .
  note parts = inv_parts [OF inv]
  have act: "pack_id r \<in> activated (es_db m)" using parts(7) assms(2,3) by blast
  have sealed: "row_sealed (cy_sha c) (es_db m) r" using parts(4) assms(2) by blast
  then obtain a where a: "a \<in> set (db_Archives (es_db m))" "ea_EvidencePackID a = pack_id r"
    unfolding row_sealed_def by force
  have arch: "archived c b d (es_objects m) r a" using parts(8) a act assms(2) by simp
  obtain ev where ev: "ev \<in> set (db_Outbox (es_db m))" "eo_EvidencePackID ev = pack_id r"
    using act unfolding activated_def by force
  have rival: "\<not> active_rival (pk_Pack r) (pk_Pack r')" if "r' \<in> set (db_Packs (es_db m))" "pack_id r' \<noteq> pack_id r" for r'
    using parts(9) assms(2,3) that unfolding no_rivals_def by metis
  have seal: "has_seal (cy_sha c) (pack_id r) (ep_Items (pk_Pack r))"
    "ep_MerkleRoot (pk_Pack r) = BuildMerkleRoot (cy_sha c) (leaves_of (ep_Items (pk_Pack r)))"
    "\<forall>i < length (ep_Items (pk_Pack r)). \<exists>p \<in> set (db_Proofs (es_db m)). ip_EvidencePackID p = pack_id r
        \<and> ip_LeafIndex p = i \<and> ip_LeafHash p = ei_LeafHash (ep_Items (pk_Pack r) ! i)
        \<and> follow (cy_sha c) True (ip_LeafHash p) (ip_ProofPath p) = ep_MerkleRoot (pk_Pack r)"
    using sealed unfolding row_sealed_def by - (elim conjE, assumption)+
  have hash: "eo_PayloadHash ev = cy_sha c (eo_Payload ev)" using parts(6) ev(1) by blast
  show ?thesis
  proof (intro conjI seal ballI impI)
    fix r' assume "r' \<in> set (db_Packs (es_db m))" "pack_id r' \<noteq> pack_id r"
      "ep_PackStatus (pk_Pack r') = PackStatusActive" "ep_TenantID (pk_Pack r') = ep_TenantID (pk_Pack r)"
    note other = this rival [OF this(1,2), unfolded active_rival_def]
    show "ep_IntentID (pk_Pack r') \<noteq> ep_IntentID (pk_Pack r)" if "ep_IntentID (pk_Pack r) \<noteq> []"
      using other that by simp
    show "ep_ClientBatchID (pk_Pack r') \<noteq> ep_ClientBatchID (pk_Pack r)"
      if "ep_IntentID (pk_Pack r) = []" "ep_IntentID (pk_Pack r') = []" "ep_ClientBatchID (pk_Pack r) \<noteq> []"
      using other that by simp
  qed (use a arch ev hash in blast)+
qed

section \<open>Verification of an active pack\<close>

lemma TrimSpace_id: "s \<noteq> [] \<Longrightarrow> \<not> go_space (hd s) \<Longrightarrow> \<not> go_space (last s) \<Longrightarrow> TrimSpace s = s"
  by (simp add: TrimSpace_def dropWhile_eq_self hd_rev)

lemma object_ref_round_trip:
  assumes "object_key pid key" and "CHR ''/'' \<notin> set bucket"
  shows "ObjectKeyFromRef (ObjectRef bucket key) = Some key"
proof -
  obtain pre where key: "key = pre @ ''/'' @ pid @ ''.json.enc''" using assms(1) by (auto simp: object_key_def)
  have trim: "TrimSpace (ObjectRef bucket key) = ObjectRef bucket key"
    by (rule TrimSpace_id) (simp_all add: ObjectRef_def key go_space_def)
  have "dropWhile (\<lambda>ch. ch \<noteq> CHR ''/'') (bucket @ CHR ''/'' # key) = CHR ''/'' # key"
    using assms(2) by (subst dropWhile_append2) auto
  moreover have "\<exists>x xs. key = x # xs" by (cases key) (simp_all add: key)
  ultimately show ?thesis
    unfolding ObjectKeyFromRef_def trim Let_def by (auto simp: ObjectRef_def)
qed

lemma newest_archive:
  assumes "a \<in> set (db_Archives db)" and "ea_EvidencePackID a = pid" and "distinct (map ea_EvidencePackID (db_Archives db))"
  shows "GetArchiveByPackID pid db = Some a"
proof -
  define step where "step best a = (if ea_EvidencePackID a = pid
      \<and> (case best of None \<Rightarrow> True | Some b \<Rightarrow> ea_CreatedAt b \<le> ea_CreatedAt a) then Some a else best)"
    for best :: "EvidenceArchive option" and a
  have none: "foldl step best as = best" if "pid \<notin> ea_EvidencePackID ` set as" for best as
    using that by (induction as arbitrary: best) (auto simp: step_def)
  obtain xs ys where split: "db_Archives db = xs @ a # ys" using assms(1) by (meson split_list)
  then have "pid \<notin> ea_EvidencePackID ` set xs" "pid \<notin> ea_EvidencePackID ` set ys" using assms(2,3) by auto
  from none [OF this(1)] none [OF this(2)] have "foldl step None (db_Archives db) = Some a"
    using assms(2) by (simp add: split step_def [of None])
  then show ?thesis by (simp add: GetArchiveByPackID_def step_def [abs_def])
qed

lemma find_row:
  assumes "r \<in> set rows" and "distinct (map pack_id rows)"
  shows "List.find (\<lambda>x. pack_id x = pack_id r) rows = Some r"
  using assms by (induction rows) (auto simp: rev_image_eqI)

lemma live_pack:
  assumes "r \<in> set (db_Packs db)" and "distinct (map pack_id (db_Packs db))"
  shows "\<exists>p. GetPackByID (pack_id r) db = Some p \<and> ep_PackStatus p = ep_PackStatus (pk_Pack r)
     \<and> ep_TenantID p = ep_TenantID (pk_Pack r)"
  using find_row [OF assms] by (simp add: GetPackByID_def Let_def ComputeCompletenessMetadata_def)

lemma query_cases:
  obtains (failed) err where "query e f s = (Inl err, (fst s, Suc (snd s)))"
  | (answered) "query e f s = (Inr (f (es_db (fst s))), (fst s, Suc (snd s)))"
proof (cases rule: exec_cases [of e "\<lambda>db. Inr (f db, db)" s])
  case (failed err)
  then show thesis using that(1) by (simp add: query_def)
next
  case (answered x db)
  then show thesis using that(2) by (auto simp: query_def)
qed

lemma status_differs: "am_PackStatus m \<noteq> ep_PackStatus p \<Longrightarrow> manifest_difference m p \<noteq> None"
  by (auto simp: manifest_difference_def manifest_checks_def split: if_splits)

lemma compare_live_fails:
  assumes "r \<in> set (db_Packs (es_db (fst s)))" and "distinct (map pack_id (db_Packs (es_db (fst s))))"
    and "am_PackStatus m \<noteq> ep_PackStatus (pk_Pack r)"
  shows "\<exists>err t. compare_live e (pack_id r) m s = (Inr (Some err), t) \<and> \<not> archive_not_available err"
proof -
  obtain p where p: "GetPackByID (pack_id r) (es_db (fst s)) = Some p" "ep_PackStatus p = ep_PackStatus (pk_Pack r)"
    using live_pack [OF assms(1,2)] by blast
  obtain field where "manifest_difference m p = Some field" using status_differs [of m p] assms(3) p(2) by auto
  with p(1) show ?thesis
    by (cases rule: query_cases [of e "GetPackByID (pack_id r)" s])
      (simp_all add: compare_live_def on_error_def GetPack_def bindE_def returnE_def archive_not_available_def)
qed

lemma archive_of_active_pack_fails:
  assumes reach: "evidence_reachable c b d m" and r: "r \<in> set (db_Packs (es_db m))"
    and act: "ep_PackStatus (pk_Pack r) = PackStatusActive"
    and e: "deployed c b d e" and bucket: "CHR ''/'' \<notin> set b" and conf: "ee_archive e"
    and json: "\<And>p mf. cy_manifest c (cy_json c p) = Some mf \<Longrightarrow> am_PackStatus mf = ep_PackStatus p"
  shows "\<exists>err t. VerifyArchiveForPack e (pack_id r) (m, n) = (Inr (Some err), t) \<and> \<not> archive_not_available err"
proof (cases rule: query_cases [of e "GetArchiveByPackID (pack_id r)" "(m, n)"])
  case (failed err)
  then show ?thesis using conf by (simp add: VerifyArchiveForPack_def on_error_def returnE_def archive_not_available_def)
next
  case answered
  have inv: "evidence_inv c b d (es_db m) (es_objects m)" using reachable_inv [OF reach] unfolding state_inv_def .
  note parts = inv_parts [OF inv]
  have "pack_id r \<in> activated (es_db m)" using parts(7) r act by blast
  moreover have "pack_id r \<in> ea_EvidencePackID ` set (db_Archives (es_db m))"
    using parts(4) r unfolding row_sealed_def by blast
  ultimately obtain a where a: "a \<in> set (db_Archives (es_db m))" "ea_EvidencePackID a = pack_id r"
    "archived c b d (es_objects m) r a" using parts(8) r by (metis imageE)
  then obtain key body p where obj: "ea_ObjectRef a = ObjectRef b key" "object_key (ea_EvidencePackID a) key"
    "map_of (es_objects m) key = Some body" "cy_sha c body = ea_ArchiveCiphertextHash a"
    "d body = Inr (cy_json c p)" "cy_sha c (cy_json c p) = ea_PlaintextManifestHash a"
    "ep_PackStatus p = PackStatusDraft" unfolding archived_def by blast
  have key: "ObjectKeyFromRef (ea_ObjectRef a) = Some key" using object_ref_round_trip [OF obj(2) bucket] obj(1) by simp
  have env: "ee_crypto e = c" "ee_decrypt e = d" using e by (simp_all add: deployed_def)
  have found: "VerifyArchiveForPack e (pack_id r) (m, n) = check_archive e (pack_id r) a (m, Suc n)"
    using conf answered newest_archive [OF a(1,2) parts(2)] by (simp add: VerifyArchiveForPack_def on_error_def)
  show ?thesis
  proof (cases "metadata_error a = None")
    case False
    then have "\<not> archive_not_available (the (metadata_error a))"
      by (auto simp: metadata_error_def archive_not_available_def split: if_splits)
    then show ?thesis using False by (auto simp: found check_archive_def returnE_def)
  next
    case True
    show ?thesis
    proof (cases "ee_fault e (Suc n)")
      case (Some err)
      then show ?thesis
        by (simp add: found check_archive_def True key on_error_def get_object_def returnE_def archive_not_available_def)
    next
      case None
      then have opened: "check_archive e (pack_id r) a (m, Suc n) = (case open_archive e a body of
          Inl err \<Rightarrow> returnE (Some err) | Inr mf \<Rightarrow> compare_live e (pack_id r) mf) (m, Suc (Suc n))"
        by (simp add: check_archive_def True key on_error_def get_object_def GetObject_def obj(3))
      show ?thesis
      proof (cases "open_archive e a body")
        case (Inl err)
        then have "\<not> archive_not_available err"
          by (auto simp: open_archive_def archive_not_available_def env obj split: if_splits option.splits)
        then show ?thesis using Inl by (simp add: found opened returnE_def)
      next
        case (Inr mf)
        then have "cy_manifest c (cy_json c p) = Some mf"
          by (auto simp: open_archive_def env obj split: if_splits option.splits)
        then have "am_PackStatus mf \<noteq> ep_PackStatus (pk_Pack r)" using json obj(7) act by simp
        then show ?thesis
          using compare_live_fails [of r "(m, Suc (Suc n))" mf e] parts(1) r Inr by (simp add: found opened)
      qed
    qed
  qed
qed

text \<open>
  C28.  The verification endpoint never reports an active pack as verified.  The archived manifest is
  written while the pack is a draft and compared with the active row, so wherever archives are
  configured the archive layer fails and the answer is 422.
\<close>

theorem active_pack_is_never_verified:
  assumes reach: "evidence_reachable c b d m" and r: "r \<in> set (db_Packs (es_db m))"
    and act: "ep_PackStatus (pk_Pack r) = PackStatusActive"
    and e: "deployed c b d e" and bucket: "CHR ''/'' \<notin> set b"
    and json: "\<And>p mf. cy_manifest c (cy_json c p) = Some mf \<Longrightarrow> am_PackStatus mf = ep_PackStatus p"
    and ans: "VerifyPack e t (pack_id r) (m, n) = (Inr (Answered resp), s')"
  shows "vr_Status resp \<noteq> ''VERIFIED''
    \<and> (ee_archive e \<longrightarrow> vr_ArchiveStatus resp = Failed \<and> vr_HTTPStatus resp = 422)"
proof -
  obtain p k where layers: "verify_layers e (pack_id r) p (m, k) = (Inr (Answered resp), s')"
  proof (cases rule: query_cases [of e "GetPackByID (pack_id r)" "(m, n)"])
    case (failed err)
    then show thesis using ans by (simp add: VerifyPack_def on_error_def GetPack_def bindE_def returnE_def)
  next
    case answered
    show thesis
    proof (cases "GetPackByID (pack_id r) (es_db m)")
      case None
      then show thesis using answered ans
        by (simp add: VerifyPack_def on_error_def GetPack_def bindE_def returnE_def failE_def)
    next
      case (Some p)
      then have "(if ep_TenantID p \<noteq> t then returnE CrossTenantDenied else verify_layers e (pack_id r) p) (m, Suc n)
          = (Inr (Answered resp), s')"
        using answered ans by (simp add: VerifyPack_def on_error_def GetPack_def bindE_def returnE_def)
      then show thesis using that by (cases "ep_TenantID p = t") (simp_all add: returnE_def)
    qed
  qed
  have "\<exists>err u. VerifyArchiveForPack e (pack_id r) (m, k) = (Inr (Some err), u)
      \<and> (ee_archive e \<longrightarrow> \<not> archive_not_available err)"
  proof (cases "ee_archive e")
    case True
    then show ?thesis using archive_of_active_pack_fails [OF reach r act e bucket _ json] by blast
  next
    case False
    then show ?thesis by (simp add: VerifyArchiveForPack_def returnE_def)
  qed
  then obtain err u where arch: "VerifyArchiveForPack e (pack_id r) (m, k) = (Inr (Some err), u)"
    "ee_archive e \<longrightarrow> \<not> archive_not_available err" by blast
  obtain merkle sig where resp: "vr_Status resp = overall_status merkle (layer_status archive_not_available (Some err)) sig"
    "vr_ArchiveStatus resp = layer_status archive_not_available (Some err)"
    "vr_HTTPStatus resp = http_status (vr_Status resp)"
    using layers unfolding verify_layers_def bindE_def [of "VerifyArchiveForPack _ _"] Let_def
    by (auto simp: arch(1) bindE_def returnE_def split: prod.splits sum.splits)
  show ?thesis
    using arch(2) unfolding resp(2,3) resp(1) by (auto simp: layer_status_def overall_status_def http_status_def)
qed

section \<open>What a generation leaves behind\<close>

text \<open>The error of the unique indexes is not the text of a driver's failure.\<close>

definition sound_faults :: "evidence_env \<Rightarrow> bool" where
  "sound_faults e \<longleftrightarrow> (\<forall>n. ee_fault e n \<noteq> Some ErrPackAlreadyExists)"

lemma exec_err:
  assumes "exec e f s = (Inl ErrPackAlreadyExists, t)" and "sound_faults e"
  shows "f (es_db (fst s)) = Inl ErrPackAlreadyExists"
  using assms by (auto simp: exec_def sound_faults_def split: option.splits sum.splits)

definition active_for :: "EvidencePack \<Rightarrow> evidence_db \<Rightarrow> bool" where
  "active_for p db \<longleftrightarrow> list_ex (\<lambda>r. active_rival p (pk_Pack r)) (db_Packs db)"

lemma active_for_cong: "db_Packs db' = db_Packs db \<Longrightarrow> active_for p db' = active_for p db"
  by (simp add: active_for_def)

text \<open>
  The outcome of a generation that supersedes nothing: leaves untouched, and either the pack is
  active, or it was refused because another active pack has its place.
\<close>

definition settled :: "EvidencePack \<Rightarrow> evidence_state \<Rightarrow> (string + EvidencePack) \<Rightarrow> evidence_state \<Rightarrow> bool" where
  "settled p m r m' \<longleftrightarrow> db_Leaves (es_db m') = db_Leaves (es_db m)
     \<and> (\<forall>x. r = Inr x \<longrightarrow> active_for p (es_db m'))
     \<and> (r = Inl ErrPackAlreadyExists \<longrightarrow> active_for p (es_db m))"

lemma ActivatePack_answers:
  assumes "ActivatePack pid ref h evt db = Inr (x, db')"
  shows "db_Leaves db' = db_Leaves db"
    and "\<exists>row \<in> set (db_Packs db). pack_id row = pid \<and> ep_PackStatus (pk_Pack row) = PackStatusDraft
      \<and> (map_pack (\<lambda>p. p\<lparr>ep_PackStatus := PackStatusActive\<rparr>) row)\<lparr>pk_ObjectRef := ref\<rparr> \<in> set (db_Packs db')"
proof -
  from assms obtain row where row: "List.find (\<lambda>r. pack_id r = pid \<and> ep_PackStatus (pk_Pack r) = PackStatusDraft) (db_Packs db) = Some row"
    and packs: "db_Packs db' = map (\<lambda>r. if pack_id r = pid \<and> ep_PackStatus (pk_Pack r) = PackStatusDraft
      then (map_pack (\<lambda>p. p\<lparr>ep_PackStatus := PackStatusActive\<rparr>) r)\<lparr>pk_ObjectRef := ref\<rparr> else r) (db_Packs db)"
    and l: "db_Leaves db' = db_Leaves db"
    by (auto simp: ActivatePack_def split: option.splits if_splits)
  show "db_Leaves db' = db_Leaves db" by (rule l)
  have rowD: "row \<in> set (db_Packs db)" "pack_id row = pid" "ep_PackStatus (pk_Pack row) = PackStatusDraft"
    using find_SomeD [OF row] by auto
  have "(\<lambda>r. if pack_id r = pid \<and> ep_PackStatus (pk_Pack r) = PackStatusDraft
      then (map_pack (\<lambda>p. p\<lparr>ep_PackStatus := PackStatusActive\<rparr>) r)\<lparr>pk_ObjectRef := ref\<rparr> else r) row \<in> set (db_Packs db')"
    unfolding packs set_map using rowD(1) by (rule imageI)
  then show "\<exists>row \<in> set (db_Packs db). pack_id row = pid \<and> ep_PackStatus (pk_Pack row) = PackStatusDraft
      \<and> (map_pack (\<lambda>p. p\<lparr>ep_PackStatus := PackStatusActive\<rparr>) row)\<lparr>pk_ObjectRef := ref\<rparr> \<in> set (db_Packs db')"
    using rowD by auto
qed

lemma persist_settles:
  assumes faults: "sound_faults e" and new: "ep_EvidencePackID pack \<notin> pack_id ` set (db_Packs (es_db (fst s)))"
    and draft: "ep_PackStatus pack = PackStatusDraft" and scope: "ep_IntentID pack \<noteq> [] \<or> ep_ClientBatchID pack \<noteq> []"
    and run: "persistPackDBFirst e pack key plain cipher evt [] s = (r, t)"
  shows "settled pack (fst s) r (fst t)"
proof -
  let ?pid = "ep_EvidencePackID pack"
  obtain aid s0 where drawn: "draw e s = (Inr aid, s0)" "es_db (fst s0) = es_db (fst s)" by (auto simp: draw_def)
  define save where "save = SavePackDraft pack (ObjectRef (ee_bucket e) key)
      (archive_of e aid pack (ObjectRef (ee_bucket e) key) plain cipher) (inclusion_proofs (sha_of e) ?pid (leaves_of (ep_Items pack)))"
  have run1: "bindE (wrap_unless ErrPackAlreadyExists ''save pack draft: '' (exec e save))
      (\<lambda>_. activate_draft e pack key cipher evt []) s0 = (r, t)"
    using run drawn(1) by (simp add: persistPackDBFirst_def Let_def bindE_def save_def)
  show ?thesis
  proof (cases rule: exec_cases [of e save s0])
    case (failed err)
    have "save (es_db (fst s)) \<noteq> Inl ErrPackAlreadyExists"
      using new by (auto simp: save_def SavePackDraft_def list_ex_iff rev_image_eqI)
    then have "err \<noteq> ErrPackAlreadyExists"
      using exec_err [OF _ faults, of save s0 "(fst s0, Suc (snd s0))"] failed drawn(2) by auto
    then show ?thesis using failed run1 drawn(2) by (auto simp: bindE_def wrap_unless_def settled_def)
  next
    case (answered x db)
    have db: "db_Leaves db = db_Leaves (es_db (fst s))" and packs: "\<exists>row. db_Packs db = db_Packs (es_db (fst s)) @ [row]
        \<and> pk_Pack row = stored_pack pack"
      using answered(1) drawn(2) by (auto simp: save_def SavePackDraft_def split: if_splits)
    then obtain row where row: "db_Packs db = db_Packs (es_db (fst s)) @ [row]" "pk_Pack row = stored_pack pack" by blast
    have only: "row' = row" if "row' \<in> set (db_Packs db)" "pack_id row' = ?pid" for row'
    proof -
      have "row' \<notin> set (db_Packs (es_db (fst s)))" using new that(2) by (metis imageI)
      then show ?thesis using that(1) by (simp add: row(1))
    qed
    define s1 where "s1 = ((fst s0)\<lparr>es_db := db\<rparr>, Suc (snd s0))"
    have run2: "activate_draft e pack key cipher evt [] s1 = (r, t)"
      using run1 answered(2) by (simp add: bindE_def wrap_unless_def s1_def)
    show ?thesis
    proof (cases rule: put_object_cases [of e key cipher s1])
      case (refused err)
      then show ?thesis using run2 db by (auto simp: activate_draft_def bindE_def wrapE_def settled_def s1_def)
    next
      case stored
      define s2 where "s2 = ((fst s1)\<lparr>es_objects := alist_put key cipher (es_objects (fst s1))\<rparr>, Suc (snd s1))"
      let ?act = "ActivatePack ?pid (ObjectRef (ee_bucket e) key) (sha_of e cipher) evt"
      have run3: "bindE (wrap_unless ErrPackAlreadyExists ''activate pack: '' (exec e ?act)) (\<lambda>_.
          bindE (supersede e [] ?pid) (\<lambda>_. returnE (pack\<lparr>ep_PackStatus := PackStatusActive\<rparr>))) s2 = (r, t)"
        using run2 stored by (simp add: activate_draft_def bindE_def wrapE_def s2_def)
      show ?thesis
      proof (cases rule: exec_cases [of e ?act s2])
        case (failed err)
        have "active_for pack (es_db (fst s))" if "err = ErrPackAlreadyExists"
        proof -
          have "?act db = Inl ErrPackAlreadyExists"
            using exec_err [OF _ faults, of ?act s2 "(fst s2, Suc (snd s2))"] failed that by (simp add: s2_def s1_def)
          then obtain row' where row': "row' \<in> set (db_Packs db)" "pack_id row' = ?pid"
            "\<exists>q \<in> set (db_Packs db). active_rival (pk_Pack row') (pk_Pack q)"
            by (auto simp: ActivatePack_def list_ex_iff split: option.splits if_splits dest!: find_SomeD)
          have "row' = row" using only row'(1,2) by blast
          then have "\<exists>q \<in> set (db_Packs db). active_rival (stored_pack pack) (pk_Pack q)" using row'(3) row(2) by simp
          moreover have "\<not> active_rival (stored_pack pack) (pk_Pack row)" using row(2) draft by (simp add: active_rival_def)
          ultimately show ?thesis unfolding active_for_def list_ex_iff row(1) by (auto simp: active_rival_def)
        qed
        moreover have "r = Inl (if err = ErrPackAlreadyExists then err else ''activate pack: '' @ err)"
          "t = (fst s2, Suc (snd s2))" using failed run3 by (auto simp: bindE_def wrap_unless_def)
        ultimately show ?thesis using db
          by (cases "err = ErrPackAlreadyExists") (simp_all add: settled_def s1_def s2_def)
      next
        case (answered y db2)
        have answered1: "?act db = Inr (y, db2)" using answered(1) by (simp add: s2_def s1_def)
        from ActivatePack_answers(2) [OF this] obtain row' where row': "row' \<in> set (db_Packs db)" "pack_id row' = ?pid"
          "(map_pack (\<lambda>p. p\<lparr>ep_PackStatus := PackStatusActive\<rparr>) row')\<lparr>pk_ObjectRef := ObjectRef (ee_bucket e) key\<rparr> \<in> set (db_Packs db2)"
          by blast
        have "row' = row" using only row'(1,2) by blast
        then have "active_for pack db2"
          using row'(3) scope unfolding active_for_def list_ex_iff
          by (intro bexI [OF _ row'(3)]) (simp add: active_rival_def map_pack_def row(2))
        moreover have "t = ((fst s2)\<lparr>es_db := db2\<rparr>, Suc (snd s2))" using run3 answered
          by (auto simp: bindE_def wrap_unless_def supersede_def returnE_def)
        moreover have "r \<noteq> Inl err" for err using run3 answered
          by (auto simp: bindE_def wrap_unless_def supersede_def returnE_def)
        ultimately show ?thesis using ActivatePack_answers(1) [OF answered1] db by (simp add: settled_def)
      qed
    qed
  qed
qed

definition keeps_packs :: "'a eio \<Rightarrow> bool" where
  "keeps_packs f \<longleftrightarrow> (\<forall>s. db_Packs (es_db (fst (snd (f s)))) = db_Packs (es_db (fst s))
     \<and> db_Leaves (es_db (fst (snd (f s)))) = db_Leaves (es_db (fst s)))"

lemma settled_intent:
  assumes faults: "sound_faults e" and sup: "gr_SupersedesPackID req = []"
    and new: "''ep_'' @ ee_uuid e (es_ids (fst s)) \<notin> pack_id ` set (db_Packs (es_db (fst s)))"
    and run: "GeneratePackInTx e True req s = (r, t)"
  shows "\<exists>p. ep_TenantID p = gr_TenantID req \<and> ep_IntentID p = gr_IntentID req \<and> settled p (fst s) r (fst t)"
proof -
  let ?pack = "build_intent_pack (ee_crypto e) (''ep_'' @ ee_uuid e (es_ids (fst s))) (ee_now e) req"
  have sel: "ep_TenantID ?pack = gr_TenantID req" "ep_IntentID ?pack = gr_IntentID req" by simp_all
  have quiet: "settled ?pack (fst s) (Inl err) (fst s')" if "err \<noteq> ErrPackAlreadyExists" "es_db (fst s') = es_db (fst s)"
    for err s' using that by (simp add: settled_def)
  consider (tenant) "TrimSpace (gr_TenantID req) = [] \<or> TrimSpace (gr_IntentID req) = []"
    | (mode) "\<not> (TrimSpace (gr_TenantID req) = [] \<or> TrimSpace (gr_IntentID req) = [])" "gr_Mode req \<notin> set validModes"
    | (empty) "\<not> (TrimSpace (gr_TenantID req) = [] \<or> TrimSpace (gr_IntentID req) = [])" "gr_Mode req \<in> set validModes"
        "gr_Items req = []"
    | (go) "\<not> (TrimSpace (gr_TenantID req) = [] \<or> TrimSpace (gr_IntentID req) = [])" "gr_Mode req \<in> set validModes"
        "gr_Items req \<noteq> []" by blast
  then have "settled ?pack (fst s) r (fst t)"
  proof cases
    case go
    define s0 where "s0 = ((fst s)\<lparr>es_ids := Suc (es_ids (fst s))\<rparr>, snd s)"
    define evt where "evt = outbox_event (ee_crypto e) ''evidence.pack.created'' (gr_EnvelopeID req) (gr_ContractID req)
        (gr_IntentID req) (intent_event ''evidence.pack.created'' ?pack req) req"
    have run1: "bindE (wrapE ''encrypt evidence archive: '' (encryptE e (cy_json (ee_crypto e) ?pack))) (\<lambda>ciphertext.
        bindE (persistPackDBFirst e ?pack (intent_object_key (ee_prefix e) req (''ep_'' @ ee_uuid e (es_ids (fst s))))
          (cy_json (ee_crypto e) ?pack) ciphertext evt []) (\<lambda>pack. returnE pack)) s0 = (r, t)"
      using run go sup by (simp add: GeneratePackInTx_def bindE_def [of "draw e"] draw_def Let_def evt_def s0_def)
    show ?thesis
    proof (cases "ee_encrypt e (es_ids (fst s0)) (cy_json (ee_crypto e) ?pack)")
      case (Inl err)
      then show ?thesis using run1 by (auto simp: bindE_def wrapE_def encryptE_def s0_def settled_def)
    next
      case (Inr cipher)
      obtain r' t' where persist: "persistPackDBFirst e ?pack (intent_object_key (ee_prefix e) req (''ep_'' @ ee_uuid e (es_ids (fst s))))
          (cy_json (ee_crypto e) ?pack) cipher evt [] s0 = (r', t')" by (metis surj_pair)
      have "ep_IntentID ?pack \<noteq> []" using go(1) by auto
      then have "settled ?pack (fst s0) r' (fst t')"
        using new by (intro persist_settles [OF faults _ _ _ persist]) (simp_all add: s0_def)
      moreover have "t = t'" "r = r'" using run1 Inr persist
        by (cases r'; simp add: bindE_def wrapE_def encryptE_def returnE_def)+
      ultimately show ?thesis by (simp add: settled_def s0_def)
    qed
  qed (use run quiet in \<open>auto simp: GeneratePackInTx_def failE_def\<close>)
  then show ?thesis using sel by blast
qed

text \<open>Nothing but the final deletion touches the leaves, and it runs only when the intent's pack is active.\<close>

definition intent_done :: "string \<Rightarrow> string \<Rightarrow> evidence_db \<Rightarrow> bool" where
  "intent_done tenantID intentID db \<longleftrightarrow> list_ex (\<lambda>p. ep_TenantID p = tenantID
     \<and> ep_IntentID p = intentID \<and> ep_PackStatus p = PackStatusActive) (map pk_Pack (db_Packs db))"

definition consumed :: "string \<Rightarrow> string \<Rightarrow> evidence_db \<Rightarrow> evidence_db \<Rightarrow> bool" where
  "consumed tenantID intentID db db' \<longleftrightarrow> db_Leaves db' = db_Leaves db
     \<or> (intent_done tenantID intentID db'
        \<and> db_Leaves db' = filter (\<lambda>l. \<not> (pl_TenantID l = tenantID \<and> pl_IntentID l = Some intentID)) (db_Leaves db))"

lemma delete_consumes:
  assumes "intent_done tid iid (es_db (fst s))" and "db_Leaves (es_db (fst s)) = db_Leaves db"
  shows "consumed tid iid db (es_db (fst (snd (exec e (DeleteForIntent tid iid) s))))"
proof (cases rule: exec_cases [of e "DeleteForIntent tid iid" s])
  case (failed err)
  then show ?thesis using assms by (simp add: consumed_def)
next
  case (answered x db1)
  then have "db1 = (es_db (fst s))\<lparr>db_Leaves := filter (\<lambda>l. \<not> (pl_TenantID l = tid \<and> pl_IntentID l = Some iid)) (db_Leaves db)\<rparr>"
    using assms(2) by (simp add: DeleteForIntent_def)
  then show ?thesis using assms answered(2) by (simp add: consumed_def intent_done_def)
qed

lemma active_for_intent:
  "active_for p db \<Longrightarrow> ep_IntentID p \<noteq> [] \<Longrightarrow> intent_done (ep_TenantID p) (ep_IntentID p) db"
  unfolding active_for_def intent_done_def list_ex_iff active_rival_def by force

lemma enrichment_keeps:
  "db_Leaves (es_db (fst (snd (writeProofEnrichment e p s)))) = db_Leaves (es_db (fst s))"
  "map pk_Pack (db_Packs (es_db (fst (snd (writeProofEnrichment e p s))))) = map pk_Pack (db_Packs (es_db (fst s)))"
proof -
  have upd: "UpdateProofEnrichment pid st sc db = Inr (x, db') \<Longrightarrow> db_Leaves db' = db_Leaves db
      \<and> map pk_Pack (db_Packs db') = map pk_Pack (db_Packs db)" for pid st sc db x db'
    by (auto simp: UpdateProofEnrichment_def)
  have ex: "db_Leaves (es_db (fst (snd (exec e (UpdateProofEnrichment pid st sc) s)))) = db_Leaves (es_db (fst s))
      \<and> map pk_Pack (db_Packs (es_db (fst (snd (exec e (UpdateProofEnrichment pid st sc) s))))) = map pk_Pack (db_Packs (es_db (fst s)))"
    for pid st sc
    using upd by (cases rule: exec_cases [of e "UpdateProofEnrichment pid st sc" s]) auto
  show "db_Leaves (es_db (fst (snd (writeProofEnrichment e p s)))) = db_Leaves (es_db (fst s))"
    "map pk_Pack (db_Packs (es_db (fst (snd (writeProofEnrichment e p s))))) = map pk_Pack (db_Packs (es_db (fst s)))"
    using ex by (simp_all add: writeProofEnrichment_def returnE_def Let_def log_error_def)
qed

lemma locked_settles:
  assumes faults: "sound_faults e" and sup: "gr_SupersedesPackID req = []"
    and new: "''ep_'' @ ee_uuid e (es_ids (fst s)) \<notin> pack_id ` set (db_Packs (es_db (fst s)))"
    and run: "generate_locked e ''generate pack from buffered leaves: '' ''commit advisory lock tx: '' (GeneratePackInTx e True req) s = (r, t)"
  shows "\<exists>p. ep_TenantID p = gr_TenantID req \<and> ep_IntentID p = gr_IntentID req \<and> settled p (fst s) r (fst t)
     \<and> (\<forall>err. r = Inl err \<longrightarrow> es_db (fst t) = es_db (fst s))"
proof -
  obtain r' t' where gen: "GeneratePackInTx e True req s = (r', t')" by (metis surj_pair)
  obtain p where p: "ep_TenantID p = gr_TenantID req" "ep_IntentID p = gr_IntentID req" "settled p (fst s) r' (fst t')"
    using settled_intent [OF faults sup new gen] by blast
  have "settled p (fst s) r (fst t) \<and> (\<forall>err. r = Inl err \<longrightarrow> es_db (fst t) = es_db (fst s))"
  proof (cases r')
    case (Inl err)
    then show ?thesis using run gen p(3)
      by (auto simp: generate_locked_def in_tx_def bindE_def wrap_unless_def settled_def)
  next
    case (Inr pk)
    then show ?thesis using run gen p(3)
      by (cases rule: query_cases [of e "\<lambda>_. ()" t'])
        (auto simp: generate_locked_def in_tx_def bindE_def wrap_unless_def wrapE_def returnE_def settled_def)
  qed
  with p show ?thesis by blast
qed

lemma query_then:
  assumes "\<And>k. Q (fst (snd (g (h (es_db m)) (m, k))))" and "Q m"
  shows "Q (fst (snd (bindE (query e h) g (m, n))))" and "Q (fst (snd (bindE (wrapE p (query e h)) g (m, n))))"
  using assms by (cases rule: query_cases [of e h "(m, n)"]; simp add: bindE_def wrapE_def)+

lemma query_or_else_then:
  assumes "\<And>k. Q (fst (snd (g (h (es_db m)) (m, k))))" and "\<And>k. Q (fst (snd (g x (m, k))))"
  shows "Q (fst (snd (bindE (orElse (query e h) x) g (m, n))))"
  using assms by (cases rule: query_cases [of e h "(m, n)"]) (simp_all add: bindE_def orElse_def)

lemma if_then:
  "(x \<Longrightarrow> Q (fst (snd (f s)))) \<Longrightarrow> (\<not> x \<Longrightarrow> Q (fst (snd (g s)))) \<Longrightarrow> Q (fst (snd ((if x then f else g) s)))"
  by simp

lemma generation_consumes:
  assumes faults: "sound_faults e"
    and new: "''ep_'' @ ee_uuid e (es_ids m) \<notin> pack_id ` set (db_Packs (es_db m))" and intent: "ij_IntentID job \<noteq> []"
  shows "consumed (ij_TenantID job) (ij_IntentID job) (es_db m) (es_db (fst (snd (on_duplicate
     (generate_locked e ''generate pack from buffered leaves: '' ''commit advisory lock tx: ''
       (GeneratePackInTx e True (intent_pack_request job ls)))
     (log_error (exec e (DeleteForIntent (ij_TenantID job) (ij_IntentID job))))
     (\<lambda>pack. bindE (writeProofEnrichment e pack) (\<lambda>_. exec e (DeleteForIntent (ij_TenantID job) (ij_IntentID job)))) (m, n)))))"
proof -
  let ?tid = "ij_TenantID job" and ?iid = "ij_IntentID job" and ?req = "intent_pack_request job ls"
  obtain r t where run: "generate_locked e ''generate pack from buffered leaves: '' ''commit advisory lock tx: ''
      (GeneratePackInTx e True ?req) (m, n) = (r, t)" by (metis surj_pair)
  have req: "gr_TenantID ?req = ?tid" "gr_IntentID ?req = ?iid" "gr_SupersedesPackID ?req = []"
    by (simp_all add: intent_pack_request_def)
  from locked_settles [OF faults req(3) _ run] new obtain p where p: "ep_TenantID p = ?tid" "ep_IntentID p = ?iid"
    "settled p m r (fst t)" "\<forall>err. r = Inl err \<longrightarrow> es_db (fst t) = es_db m" by (auto simp: req(1,2))
  have active: "active_for p db \<Longrightarrow> intent_done ?tid ?iid db" for db
    using active_for_intent [of p db] p(1,2) intent by simp
  show ?thesis
  proof (cases r)
    case (Inl err)
    show ?thesis
    proof (cases "err = ErrPackAlreadyExists")
      case True
      then have "intent_done ?tid ?iid (es_db (fst t))" using Inl p active by (simp add: settled_def)
      then have "consumed ?tid ?iid (es_db m) (es_db (fst (snd (exec e (DeleteForIntent ?tid ?iid) t))))"
        using Inl p(4) by (intro delete_consumes) simp_all
      then show ?thesis using Inl True run by (simp add: on_duplicate_def log_error_def)
    next
      case False
      then show ?thesis using Inl run p(4) by (simp add: on_duplicate_def consumed_def)
    qed
  next
    case (Inr pack)
    obtain u w where enrich: "writeProofEnrichment e pack t = (u, w)" by (metis surj_pair)
    have "intent_done ?tid ?iid (es_db (fst t))" using Inr p active by (simp add: settled_def)
    then have "intent_done ?tid ?iid (es_db (fst w))" using enrichment_keeps(2) [of e pack t] enrich by (simp add: intent_done_def)
    moreover have leaves: "db_Leaves (es_db (fst w)) = db_Leaves (es_db m)"
      using enrichment_keeps(1) [of e pack t] enrich p(3) by (simp add: settled_def)
    ultimately have "consumed ?tid ?iid (es_db m) (es_db (fst (snd (exec e (DeleteForIntent ?tid ?iid) w))))"
      by (rule delete_consumes)
    moreover have "consumed ?tid ?iid (es_db m) (es_db (fst w))" using leaves by (simp add: consumed_def)
    ultimately show ?thesis
      using Inr run enrich by (cases u) (simp_all add: on_duplicate_def bindE_def)
  qed
qed

text \<open>
  C27.  The leaves of an intent are consumed only by its pack.  A readiness check, whichever of its calls
  fail, leaves the pending leaves as they are, or deletes exactly those of its intent, and then an
  active pack of the intent is in the database.
\<close>

theorem leaves_are_consumed_by_an_active_pack:
  assumes faults: "sound_faults e"
    and new: "''ep_'' @ ee_uuid e (es_ids m) \<notin> pack_id ` set (db_Packs (es_db m))" and intent: "ij_IntentID job \<noteq> []"
  shows "consumed (ij_TenantID job) (ij_IntentID job) (es_db m) (es_db (effect (processIntentCheckJob e job) m n))"
proof -
  let ?tid = "ij_TenantID job" and ?iid = "ij_IntentID job"
  let ?Q = "\<lambda>m'. consumed ?tid ?iid (es_db m) (es_db m')"
  have id: "?Q m" by (simp add: consumed_def)
  have existing: "?Q (fst (snd (log_error (exec e (DeleteForIntent ?tid ?iid)) (m, k))))"
    if "list_ex (\<lambda>p. ep_PackStatus p = PackStatusActive) (ListByIntentID ?tid ?iid (es_db m))" for k
  proof -
    have "intent_done ?tid ?iid (es_db m)"
      using that by (auto simp: ListByIntentID_def intent_done_def list_ex_iff)
    then show ?thesis using delete_consumes [of ?tid ?iid "(m, k)" "es_db m" e] by (simp add: log_error_def)
  qed
  show ?thesis
    unfolding effect_def processIntentCheckJob_def processIntentJob_def Let_def
    by (intro query_then [where Q = ?Q] query_or_else_then [where Q = ?Q] if_then [where Q = ?Q])
      (simp_all add: id returnE_def existing generation_consumes [OF faults new intent])
qed

section \<open>Replay\<close>

text \<open>A generation for a place that is taken fails and leaves at most one more draft row.\<close>

definition blocked :: "evidence_state \<Rightarrow> (string + 'a) \<times> (evidence_state \<times> nat) \<Rightarrow> bool" where
  "blocked m x \<longleftrightarrow> (\<exists>err. fst x = Inl err) \<and> (\<exists>rows. db_Packs (es_db (fst (snd x))) = db_Packs (es_db m) @ rows)"

lemma blocked_Inl: "es_db (fst t) = es_db m \<Longrightarrow> blocked m (Inl err, t)"
  by (simp add: blocked_def)

lemma persist_blocked:
  assumes taken: "active_for pack (es_db (fst s))"
  shows "blocked (fst s) (persistPackDBFirst e pack key plain cipher evt old s)"
proof -
  let ?pid = "ep_EvidencePackID pack"
  obtain aid s0 where drawn: "draw e s = (Inr aid, s0)" "es_db (fst s0) = es_db (fst s)" by (auto simp: draw_def)
  define save where "save = SavePackDraft pack (ObjectRef (ee_bucket e) key)
      (archive_of e aid pack (ObjectRef (ee_bucket e) key) plain cipher) (inclusion_proofs (sha_of e) ?pid (leaves_of (ep_Items pack)))"
  have run: "persistPackDBFirst e pack key plain cipher evt old s =
      bindE (wrap_unless ErrPackAlreadyExists ''save pack draft: '' (exec e save)) (\<lambda>_. activate_draft e pack key cipher evt old) s0"
    using drawn(1) by (simp add: persistPackDBFirst_def Let_def bindE_def save_def)
  show ?thesis
  proof (cases rule: exec_cases [of e save s0])
    case (failed err)
    then show ?thesis unfolding run using drawn(2) by (simp add: bindE_def wrap_unless_def blocked_def)
  next
    case (answered x db)
    have "\<exists>row. db_Packs db = db_Packs (es_db (fst s)) @ [row] \<and> pk_Pack row = stored_pack pack"
      and new: "?pid \<notin> pack_id ` set (db_Packs (es_db (fst s)))"
      using answered(1) drawn(2) by (auto simp: save_def SavePackDraft_def list_ex_iff split: if_splits)
    then obtain row where row: "db_Packs db = db_Packs (es_db (fst s)) @ [row]" "pk_Pack row = stored_pack pack" by blast
    define s1 where "s1 = ((fst s0)\<lparr>es_db := db\<rparr>, Suc (snd s0))"
    have run2: "persistPackDBFirst e pack key plain cipher evt old s = activate_draft e pack key cipher evt old s1"
      unfolding run using answered(2) by (simp add: bindE_def wrap_unless_def s1_def)
    let ?act = "ActivatePack ?pid (ObjectRef (ee_bucket e) key) (sha_of e cipher) evt"
    have none: "?act db \<noteq> Inr y" for y
    proof
      assume "?act db = Inr y"
      then obtain row' where row': "row' \<in> set (db_Packs db)" "pack_id row' = ?pid"
        "\<not> list_ex (\<lambda>r. active_rival (pk_Pack row') (pk_Pack r)) (db_Packs db)"
        by (auto simp: ActivatePack_def split: option.splits if_splits dest!: find_SomeD)
      have "row' \<notin> set (db_Packs (es_db (fst s)))" using new row'(2) by (metis imageI)
      then have "row' = row" using row'(1) by (simp add: row(1))
      moreover have "active_rival (stored_pack pack) q = active_rival pack q" for q by (simp add: active_rival_def)
      ultimately show False using row'(3) taken row unfolding active_for_def list_ex_iff by auto
    qed
    show ?thesis
    proof (cases rule: put_object_cases [of e key cipher s1])
      case (refused err)
      then show ?thesis unfolding run2
        by (simp add: activate_draft_def bindE_def wrapE_def blocked_def s1_def row(1))
    next
      case stored
      define s2 where "s2 = ((fst s1)\<lparr>es_objects := alist_put key cipher (es_objects (fst s1))\<rparr>, Suc (snd s1))"
      show ?thesis
      proof (cases rule: exec_cases [of e ?act s2])
        case (failed err)
        then show ?thesis unfolding run2 using stored
          by (simp add: activate_draft_def bindE_def wrapE_def wrap_unless_def blocked_def s2_def s1_def row(1))
      next
        case (answered y db2)
        then show ?thesis using none by (simp add: s2_def s1_def)
      qed
    qed
  qed
qed

lemma generation_blocked:
  assumes "active_for p (es_db (fst s))" and "ep_TenantID p = gr_TenantID req" and "ep_IntentID p = gr_IntentID req"
    and "gr_IntentID req \<noteq> []"
  shows "blocked (fst s) (GeneratePackInTx e held req s)"
proof (cases "TrimSpace (gr_TenantID req) = [] \<or> TrimSpace (gr_IntentID req) = [] \<or> gr_Mode req \<notin> set validModes
    \<or> gr_Items req = []")
  case True
  then show ?thesis by (auto simp: GeneratePackInTx_def failE_def blocked_def)
next
  case False
  let ?pack = "build_intent_pack (ee_crypto e) (''ep_'' @ ee_uuid e (es_ids (fst s))) (ee_now e) req"
  define s0 where "s0 = ((fst s)\<lparr>es_ids := Suc (es_ids (fst s))\<rparr>, snd s)"
  have rival: "active_rival ?pack q = active_rival p q" for q
    using assms(2-4) by (simp add: active_rival_def)
  then have taken: "active_for ?pack (es_db (fst s0))" using assms(1) by (simp add: active_for_def s0_def)
  show ?thesis
  proof (cases "ee_encrypt e (es_ids (fst s0)) (cy_json (ee_crypto e) ?pack)")
    case (Inl err)
    with False show ?thesis
      by (auto simp: GeneratePackInTx_def bindE_def draw_def Let_def wrapE_def encryptE_def blocked_def s0_def)
  next
    case (Inr cipher)
    have b: "blocked (fst s0) (persistPackDBFirst e ?pack key plain cipher evt old s0)" for key plain evt old
      using taken by (rule persist_blocked)
    obtain f where f: "GeneratePackInTx e held req s = bindE (persistPackDBFirst e ?pack
        (intent_object_key (ee_prefix e) req (''ep_'' @ ee_uuid e (es_ids (fst s)))) (cy_json (ee_crypto e) ?pack) cipher
        (outbox_event (ee_crypto e) (if gr_SupersedesPackID req = [] then ''evidence.pack.created'' else ''evidence.pack.reversal_superseded'')
          (gr_EnvelopeID req) (gr_ContractID req) (gr_IntentID req)
          (intent_event (if gr_SupersedesPackID req = [] then ''evidence.pack.created'' else ''evidence.pack.reversal_superseded'') ?pack req) req)
        (gr_SupersedesPackID req)) f s0"
      using False Inr
      by (simp add: GeneratePackInTx_def bindE_def [of "draw e"] bindE_def [of "wrapE _ _"] draw_def Let_def wrapE_def encryptE_def s0_def)
    have stop: "blocked (fst s0) (x s0) \<Longrightarrow> blocked (fst s0) (bindE x f s0)" for x
      by (cases "x s0") (auto simp: blocked_def bindE_def)
    have "blocked (fst s0) (GeneratePackInTx e held req s)" unfolding f by (rule stop, rule b)
    then show ?thesis by (simp add: blocked_def s0_def)
  qed
qed

text \<open>
  C29.  An active pack cannot be replayed.  The replay activates its pack before it supersedes the
  original, and the unique index admits one active pack of an intent, so the replay of an intent's
  active pack always answers an error, and every pack row, the original among them, stays as it was.
\<close>

theorem replay_of_active_pack_fails:
  assumes r: "r \<in> set (db_Packs (es_db m))" "ep_PackStatus (pk_Pack r) = PackStatusActive"
    and scope: "ep_TenantID (pk_Pack r) = ry_TenantID req" "ep_IntentID (pk_Pack r) = ry_IntentID req" "ry_IntentID req \<noteq> []"
  shows "blocked m (ReplayPack e req (m, n))"
proof -
  obtain uuid m0 where drawn: "draw e (m, n) = (Inr uuid, (m0, n))" "es_db m0 = es_db m" by (auto simp: draw_def)
  define job where "job = CreateReplayJob (new_replay_job (''rj_'' @ uuid) req)"
  show ?thesis
  proof (cases rule: exec_cases [of e job "(m0, n)"])
    case (failed err)
    then show ?thesis using drawn by (simp add: ReplayPack_def bindE_def Let_def wrapE_def job_def blocked_def)
  next
    case (answered x db)
    define s1 where "s1 = (m0\<lparr>es_db := db\<rparr>, Suc n)"
    have packs: "db_Packs (es_db (fst s1)) = db_Packs (es_db m)"
      using answered(1) drawn(2) by (auto simp: job_def CreateReplayJob_def s1_def)
    obtain rest where rest: "ReplayPack e req (m, n) = bindE (wrapE ''fetch original pack: '' (GetPack e (ry_OriginalPackID req)))
        (\<lambda>oldPack. on_error (GeneratePackInTx e False (replay_request req oldPack))
          (\<lambda>err. bindE (log_error (exec e (FailReplayJob (''rj_'' @ uuid) err))) (\<lambda>_. failE (''replay pack generation failed: '' @ err)))
          (rest oldPack)) s1"
      using drawn answered(2) by (simp add: ReplayPack_def bindE_def [of "draw e"] bindE_def [of "wrapE _ (exec _ _)"]
          Let_def wrapE_def job_def s1_def)
    show ?thesis
    proof -
      obtain res s2 where Pair: "GetPack e (ry_OriginalPackID req) s1 = (res, s2)" by (metis surj_pair)
      have s2: "fst s2 = fst s1"
        using Pair by (cases rule: query_cases [of e "GetPackByID (ry_OriginalPackID req)" s1])
          (auto simp: GetPack_def bindE_def returnE_def failE_def split: option.splits)
      show ?thesis
      proof (cases res)
        case (Inl err)
        then show ?thesis unfolding rest using Pair packs s2 by (simp add: bindE_def wrapE_def blocked_def)
      next
        case (Inr oldPack)
        have "active_for (pk_Pack r) (es_db (fst s2))"
          using r scope unfolding active_for_def list_ex_iff s2 packs by (auto simp: active_rival_def)
        then have "blocked (fst s2) (GeneratePackInTx e False (replay_request req oldPack) s2)"
          using scope by (intro generation_blocked [of "pk_Pack r"]) (simp_all add: replay_request_def)
        then obtain err t where gen: "GeneratePackInTx e False (replay_request req oldPack) s2 = (Inl err, t)"
          "\<exists>rows. db_Packs (es_db (fst t)) = db_Packs (es_db m) @ rows"
          unfolding blocked_def s2 packs by (metis fst_conv snd_conv surj_pair)
        have "db_Packs (es_db (fst (snd (exec e (FailReplayJob (''rj_'' @ uuid) err) t)))) = db_Packs (es_db (fst t))"
          by (cases rule: exec_cases [of e "FailReplayJob (''rj_'' @ uuid) err" t])
            (auto simp: FailReplayJob_def update_job_row_def)
        then show ?thesis unfolding rest using Pair Inr gen
          by (auto simp: bindE_def wrapE_def on_error_def log_error_def failE_def blocked_def)
      qed
    qed
  qed
qed

text \<open>The pack and its event do not agree on how many leaves an intent pack with a batch needs.\<close>

lemma completeness_denominators_disagree:
  assumes "gr_IntentID req \<noteq> []" and "gr_ClientBatchID req \<noteq> []"
  shows "ep_RequiredLeafCount (build_intent_pack c pid now req) = 5
    \<and> pe_RequiredLeafCount (intent_event et (build_intent_pack c pid now req) req) = 14"
  using assms by (simp add: build_intent_pack_def ComputeCompletenessMetadata_def intent_event_def Let_def)

section \<open>Witnesses\<close>

definition sample_env :: evidence_env where
  "sample_env = \<lparr>ee_crypto = sample_crypto, ee_fault = (\<lambda>n. None), ee_uuid = (\<lambda>n. replicate n CHR ''u''), ee_now = 1000,
     ee_encrypt = (\<lambda>n x. Inr (''c'' @ x)), ee_decrypt = (\<lambda>y. Inr (drop 1 y)), ee_prefix = ''p'', ee_bucket = ''bk'',
     ee_locked = (\<lambda>t i. True), ee_strict = True, ee_archive = True, ee_signer = True, ee_enrich = True,
     ee_publisher = False, ee_vectors = False\<rparr>"

definition empty_state :: evidence_state where
  "empty_state = \<lparr>es_db = empty_db, es_objects = [], es_intentQ = [], es_batchQ = [], es_done = False,
     es_published = [], es_vector = [], es_ids = 0\<rparr>"

definition sample_state :: evidence_state where
  "sample_state = effect (GenerateBatchPack sample_env sample_request) empty_state 0"

lemma sample_active: "map (\<lambda>r. ep_PackStatus (pk_Pack r)) (db_Packs (es_db sample_state)) = [PackStatusActive]"
  by code_simp



lemma sample_deployed: "deployed sample_crypto ''bk'' (\<lambda>y. Inr (drop 1 y)) sample_env"
  by (auto simp: deployed_def sample_env_def)

lemma sample_reachable: "evidence_reachable sample_crypto ''bk'' (\<lambda>y. Inr (drop 1 y)) sample_state"
  unfolding sample_state_def
  by (rule evidence_reachable.steps [OF evidence_reachable.start evidence_step.batch_pack [OF sample_deployed]])
    (simp_all add: empty_state_def)

lemma sample_row: obtains r where "db_Packs (es_db sample_state) = [r]" "ep_PackStatus (pk_Pack r) = PackStatusActive"
  using sample_active by (cases "db_Packs (es_db sample_state)") auto

lemma active_pack_is_complete_witness:
  "\<exists>r \<in> set (db_Packs (es_db sample_state)).
     has_seal (cy_sha sample_crypto) (pack_id r) (ep_Items (pk_Pack r))
   \<and> ep_MerkleRoot (pk_Pack r) = BuildMerkleRoot (cy_sha sample_crypto) (leaves_of (ep_Items (pk_Pack r)))"
  using active_pack_is_complete [OF sample_reachable] sample_row by (metis list.set_intros(1))

lemma sample_verification:
  "map (\<lambda>r. \<exists>resp s'. VerifyPack sample_env ''t1'' (pack_id r) (sample_state, 0) = (Inr (Answered resp), s'))
     (db_Packs (es_db sample_state)) = [True]"
proof -
  have "map (\<lambda>r. case fst (VerifyPack sample_env ''t1'' (pack_id r) (sample_state, 0)) of Inr (Answered resp) \<Rightarrow> True | _ \<Rightarrow> False)
     (db_Packs (es_db sample_state)) = [True]" by code_simp
  then show ?thesis
    by (cases "db_Packs (es_db sample_state)") (auto split: sum.splits verify_answer.splits simp: prod_eq_iff)
qed

lemma active_pack_is_never_verified_witness:
  "\<exists>r resp s'. VerifyPack sample_env ''t1'' (pack_id r) (sample_state, 0) = (Inr (Answered resp), s')
     \<and> vr_ArchiveStatus resp = Failed"
proof -
  obtain r where r: "db_Packs (es_db sample_state) = [r]" "ep_PackStatus (pk_Pack r) = PackStatusActive" by (rule sample_row)
  with sample_verification obtain resp s' where ans:
    "VerifyPack sample_env ''t1'' (pack_id r) (sample_state, 0) = (Inr (Answered resp), s')" by auto
  have "ee_archive sample_env" by (simp add: sample_env_def)
  moreover have "cy_manifest sample_crypto (cy_json sample_crypto p) = Some mf \<Longrightarrow> am_PackStatus mf = ep_PackStatus p" for p mf
    by (auto simp: sample_crypto_def)
  ultimately have "vr_ArchiveStatus resp = Failed"
    using active_pack_is_never_verified [OF sample_reachable _ r(2) sample_deployed _ _ ans] r(1) by simp
  with ans show ?thesis by blast
qed

definition sample_job :: IntentCheckJob where
  "sample_job = \<lparr>ij_TenantID = ''t1'', ij_EnvelopeID = [], ij_IntentID = ''i1'', ij_ContractID = [], ij_TraceID = []\<rparr>"

lemma leaves_are_consumed_by_an_active_pack_witness:
  "consumed ''t1'' ''i1'' empty_db (es_db (effect (processIntentCheckJob sample_env sample_job) empty_state 0))"
  using leaves_are_consumed_by_an_active_pack [of sample_env empty_state sample_job 0]
  by (simp add: sound_faults_def sample_env_def empty_state_def empty_db_def sample_job_def)

definition sample_replay :: ReplayRequest where
  "sample_replay = \<lparr>ry_TenantID = ''t1'', ry_IntentID = ''i1'', ry_ContractID = [], ry_RevisionReason = [],
     ry_Mode = ''FULL_CONTROL'', ry_RulesetVersion = ''v1'', ry_MappingVersions = [], ry_SchemaVersions = [],
     ry_OriginalPackID = ''ep_'', ry_RequestedBy = [], ry_Items = gr_Items sample_request\<rparr>"

definition intent_state :: evidence_state where
  "intent_state = effect (GeneratePackInTx sample_env False sample_request) empty_state 0"

lemma replay_of_active_pack_fails_witness:
  "blocked intent_state (ReplayPack sample_env sample_replay (intent_state, 0))"
proof -
  have "map (\<lambda>r. (ep_PackStatus (pk_Pack r), ep_TenantID (pk_Pack r), ep_IntentID (pk_Pack r))) (db_Packs (es_db intent_state))
     = [(PackStatusActive, ''t1'', ''i1'')]" by code_simp
  then obtain r where "r \<in> set (db_Packs (es_db intent_state))" "ep_PackStatus (pk_Pack r) = PackStatusActive"
    "ep_TenantID (pk_Pack r) = ''t1''" "ep_IntentID (pk_Pack r) = ''i1''" by (cases "db_Packs (es_db intent_state)") auto
  then show ?thesis by (intro replay_of_active_pack_fails) (simp_all add: sample_replay_def)
qed

end
