(* ===== verification/Relay.thy ===== *)
theory Relay
  imports Effects
begin

text \<open>
  \<^verbatim>\<open>relay/model/dispatch.go\<close>, \<^verbatim>\<open>dispatch_events.go\<close>, \<^verbatim>\<open>relay_outbox.go\<close> and the statements of
  \<^verbatim>\<open>relay/services/dispatch_repo.go\<close>, \<^verbatim>\<open>relay_outbox_repo.go\<close> and \<^verbatim>\<open>conflict_repo.go\<close>: the
  dispatch rows of the relay, its outbox and the conflicts of payload hashes.

  A statement is a function on the database that answers an error or a result; the primary keys and
  the unique index of \<^verbatim>\<open>relay/db/init.sql\<close> are its guards.  The JSON payload of an outbox row is the
  event it encodes.
\<close>

section \<open>Dispatches\<close>

datatype DispatchStatus = DispatchStatusPending | DispatchStatusHeld | DispatchStatusSent
  | DispatchStatusProviderAcked | DispatchStatusAwaitingProviderSignal | DispatchStatusFailedRetryable
  | DispatchStatusFailedTerminal | DispatchStatusRequiresManualReview

datatype GovernanceDecision = GovernanceAllow | GovernanceHold | GovernanceRetryLater
  | GovernanceTerminalFail | GovernanceManualReview

datatype RetryClass = RetryableTechnical | RetryableAfterBackoff | WaitForSignal | NeverRetry

record Dispatch =
  dp_DispatchID :: string
  dp_ContractID :: string
  dp_IntentID :: string
  dp_TenantID :: string
  dp_TraceID :: string
  dp_ConnectorID :: string
  dp_CorridorID :: string
  dp_AttemptCount :: int
  dp_Status :: DispatchStatus
  dp_ProviderIdempotencyKey :: string
  dp_GovernanceDecision :: "GovernanceDecision option"
  dp_GovernanceReasonCodes :: "string list"
  dp_RetryClass :: "RetryClass option"
  dp_NextDispatchAttemptAt :: "time option"
  dp_ProviderAttemptID :: "string option"
  dp_ProviderResponseStatus :: "string option"
  dp_RequestFingerprint :: "string option"
  dp_PayloadJSON :: string
  dp_CreatedAt :: time
  dp_UpdatedAt :: time
  dp_SentAt :: "time option"
  dp_AckedAt :: "time option"

section \<open>Events\<close>

record CorrelationCarriers =
  cc_ReferenceID :: string
  cc_Narration :: string

datatype event_payload =
    DispatchCreatedPayload string string string int CorrelationCarriers
  | GovernanceEvaluatedPayload string GovernanceDecision "string list"
  | AttemptSentPayload string string string int time CorrelationCarriers
  | ProviderAckedPayload string string string time
  | AwaitingProviderSignalPayload string string string time
  | RetryScheduledPayload string RetryClass time int string
  | DispatchFailedPayload string int string time

fun event_type :: "event_payload \<Rightarrow> string" where
  "event_type (DispatchCreatedPayload _ _ _ _ _) = ''DispatchCreated''"
| "event_type (GovernanceEvaluatedPayload _ _ _) = ''DispatchGovernanceEvaluated''"
| "event_type (AttemptSentPayload _ _ _ _ _ _) = ''AttemptSent''"
| "event_type (ProviderAckedPayload _ _ _ _) = ''ProviderAcked''"
| "event_type (AwaitingProviderSignalPayload _ _ _ _) = ''DispatchAwaitingProviderSignal''"
| "event_type (RetryScheduledPayload _ _ _ _ _) = ''DispatchRetryScheduled''"
| "event_type (DispatchFailedPayload _ _ _ _) = ''DispatchFailed''"

text \<open>The envelope of every event names the dispatch it belongs to.\<close>

record relay_event =
  rv_EventID :: string
  rv_EventType :: string
  rv_TenantID :: string
  rv_IntentID :: string
  rv_ContractID :: string
  rv_DispatchID :: string
  rv_TraceID :: string
  rv_SchemaVersion :: string
  rv_CreatedAt :: time
  rv_Payload :: event_payload

datatype RelayOutboxStatus = OutboxPending | OutboxPublished | OutboxFailed

record RelayOutboxRow =
  ro_EventID :: string
  ro_EventType :: string
  ro_DispatchID :: string
  ro_ContractID :: string
  ro_IntentID :: string
  ro_TenantID :: string
  ro_TraceID :: string
  ro_Payload :: relay_event
  ro_Status :: RelayOutboxStatus
  ro_RetryCount :: int
  ro_CreatedAt :: time
  ro_PublishedAt :: "time option"

record payload_conflict =
  rc_ServiceName :: string
  rc_EventID :: string
  rc_EventType :: string
  rc_LeaseID :: string
  rc_ExpectedHash :: string
  rc_ComputedHash :: string
  rc_Snippet :: string
  rc_Count :: nat
  rc_Permanent :: bool
  rc_DetectedAt :: time
  rc_ResolvedAt :: "time option"

datatype ReplayStatus = ReplayStatusPending | ReplayStatusReplaying | ReplayStatusReplayed | ReplayStatusQuarantined

text \<open>A publication that was given up, with the bytes and headers of the message.\<close>

record PublishFailureRecord =
  pf_FailureID :: nat
  pf_SourceEventID :: string
  pf_SourceService :: string
  pf_Topic :: string
  pf_DestinationTopic :: string
  pf_PayloadHash :: string
  pf_MessageKey :: string
  pf_MessageValue :: string
  pf_Headers :: "(string \<times> string) list"
  pf_AttemptCount :: int
  pf_FailureClass :: string
  pf_LastError :: string
  pf_FailureSource :: string
  pf_PublishKind :: string
  pf_TenantID :: string
  pf_TraceID :: string
  pf_ReplayStatus :: ReplayStatus
  pf_ReplayedAt :: "time option"

record failure_replay =
  fy_FailureID :: nat
  fy_OperatorID :: string
  fy_Reason :: string
  fy_Outcome :: string
  fy_ErrorMessage :: string

record relay_db =
  rb_dispatches :: "Dispatch list"
  rb_outbox :: "RelayOutboxRow list"
  rb_conflicts :: "payload_conflict list"
  rb_failures :: "PublishFailureRecord list"
  rb_replays :: "failure_replay list"

definition empty_relay :: relay_db where
  "empty_relay = \<lparr>rb_dispatches = [], rb_outbox = [], rb_conflicts = [], rb_failures = [], rb_replays = []\<rparr>"

section \<open>Statements on dispatches\<close>

definition FindByContractAndAttempt :: "string \<Rightarrow> int \<Rightarrow> relay_db \<Rightarrow> Dispatch option" where
  "FindByContractAndAttempt contractID attemptCount db =
     List.find (\<lambda>d. dp_ContractID d = contractID \<and> dp_AttemptCount d = attemptCount) (rb_dispatches db)"

definition same_attempt :: "Dispatch \<Rightarrow> Dispatch \<Rightarrow> bool" where
  "same_attempt a b \<longleftrightarrow> dp_DispatchID a = dp_DispatchID b
     \<or> dp_ContractID a = dp_ContractID b \<and> dp_AttemptCount a = dp_AttemptCount b"

definition InsertTx :: "Dispatch \<Rightarrow> string \<Rightarrow> time \<Rightarrow> relay_db \<Rightarrow> string + unit \<times> relay_db" where
  "InsertTx d payloadJSON now db =
     (if list_ex (same_attempt d) (rb_dispatches db) then Inl ''dispatch_repo: insert: duplicate key''
      else Inr ((), db\<lparr>rb_dispatches := rb_dispatches db @ [d\<lparr>dp_PayloadJSON := (if payloadJSON = [] then ''{}'' else payloadJSON),
             dp_CreatedAt := now, dp_UpdatedAt := now\<rparr>]\<rparr>))"

text \<open>An \<open>UPDATE\<close> of the row of a dispatch whose status the statement admits.\<close>

definition update_dispatch :: "string \<Rightarrow> (DispatchStatus \<Rightarrow> bool) \<Rightarrow> (Dispatch \<Rightarrow> Dispatch) \<Rightarrow> relay_db \<Rightarrow> relay_db" where
  "update_dispatch dispatchID admits f db =
     db\<lparr>rb_dispatches := map (\<lambda>d. if dp_DispatchID d = dispatchID \<and> admits (dp_Status d) then f d else d) (rb_dispatches db)\<rparr>"

definition row_admits :: "string \<Rightarrow> (DispatchStatus \<Rightarrow> bool) \<Rightarrow> relay_db \<Rightarrow> bool" where
  "row_admits dispatchID admits db \<longleftrightarrow>
     list_ex (\<lambda>d. dp_DispatchID d = dispatchID \<and> admits (dp_Status d)) (rb_dispatches db)"

fun governed_status :: "GovernanceDecision \<Rightarrow> DispatchStatus" where
  "governed_status GovernanceHold = DispatchStatusHeld"
| "governed_status GovernanceTerminalFail = DispatchStatusFailedTerminal"
| "governed_status GovernanceManualReview = DispatchStatusRequiresManualReview"
| "governed_status _ = DispatchStatusPending"

definition MarkGovernanceDecisionTx :: "string \<Rightarrow> GovernanceDecision \<Rightarrow> string list \<Rightarrow> time \<Rightarrow> relay_db
    \<Rightarrow> string + unit \<times> relay_db" where
  "MarkGovernanceDecisionTx dispatchID decision codes now db =
     Inr ((), update_dispatch dispatchID (\<lambda>st. st = DispatchStatusPending)
       (\<lambda>d. d\<lparr>dp_GovernanceDecision := Some decision, dp_GovernanceReasonCodes := codes,
          dp_Status := governed_status decision, dp_UpdatedAt := now\<rparr>) db)"

definition sendable :: "DispatchStatus \<Rightarrow> bool" where
  "sendable st \<longleftrightarrow> st = DispatchStatusPending \<or> st = DispatchStatusFailedRetryable"

definition MarkSentTx :: "string \<Rightarrow> string \<Rightarrow> string \<Rightarrow> time \<Rightarrow> relay_db \<Rightarrow> string + unit \<times> relay_db" where
  "MarkSentTx dispatchID key fingerprint now db =
     (if row_admits dispatchID sendable db
      then Inr ((), update_dispatch dispatchID sendable
        (\<lambda>d. d\<lparr>dp_Status := DispatchStatusSent, dp_SentAt := Some now, dp_UpdatedAt := now,
           dp_ProviderIdempotencyKey := key, dp_RequestFingerprint := Some fingerprint\<rparr>) db)
      else Inl (''dispatch_repo: mark sent: no row updated for dispatch_id='' @ dispatchID))"

definition MarkProviderAckedTx :: "string \<Rightarrow> string \<Rightarrow> string \<Rightarrow> time \<Rightarrow> relay_db \<Rightarrow> string + unit \<times> relay_db" where
  "MarkProviderAckedTx dispatchID attemptID status now db =
     (if row_admits dispatchID (\<lambda>st. st = DispatchStatusSent) db
      then Inr ((), update_dispatch dispatchID (\<lambda>st. st = DispatchStatusSent)
        (\<lambda>d. d\<lparr>dp_Status := DispatchStatusProviderAcked, dp_ProviderAttemptID := Some attemptID,
           dp_ProviderResponseStatus := Some status, dp_AckedAt := Some now, dp_UpdatedAt := now\<rparr>) db)
      else Inl (''dispatch_repo: mark provider acked: no row updated for dispatch_id='' @ dispatchID))"

definition MarkAwaitingProviderSignalTx :: "string \<Rightarrow> time \<Rightarrow> relay_db \<Rightarrow> string + unit \<times> relay_db" where
  "MarkAwaitingProviderSignalTx dispatchID now db =
     Inr ((), update_dispatch dispatchID (\<lambda>_. True)
       (\<lambda>d. d\<lparr>dp_Status := DispatchStatusAwaitingProviderSignal, dp_RetryClass := Some WaitForSignal,
          dp_UpdatedAt := now\<rparr>) db)"

definition MarkFailedRetryableTx :: "string \<Rightarrow> RetryClass \<Rightarrow> time \<Rightarrow> time \<Rightarrow> relay_db \<Rightarrow> string + unit \<times> relay_db" where
  "MarkFailedRetryableTx dispatchID retryClass nextAttemptAt now db =
     Inr ((), update_dispatch dispatchID (\<lambda>_. True)
       (\<lambda>d. d\<lparr>dp_Status := DispatchStatusFailedRetryable, dp_RetryClass := Some retryClass,
          dp_NextDispatchAttemptAt := Some nextAttemptAt, dp_UpdatedAt := now\<rparr>) db)"

definition MarkFailedTerminalTx :: "string \<Rightarrow> time \<Rightarrow> relay_db \<Rightarrow> string + unit \<times> relay_db" where
  "MarkFailedTerminalTx dispatchID now db =
     Inr ((), update_dispatch dispatchID (\<lambda>_. True)
       (\<lambda>d. d\<lparr>dp_Status := DispatchStatusFailedTerminal, dp_RetryClass := Some NeverRetry, dp_UpdatedAt := now\<rparr>) db)"

text \<open>The rows a sweep reads: due, oldest first, at most \<open>limit\<close>.\<close>

definition due_before :: "(Dispatch \<Rightarrow> time option) \<Rightarrow> Dispatch \<Rightarrow> Dispatch \<Rightarrow> bool" where
  "due_before f a b \<longleftrightarrow> the (f a) < the (f b)"

definition FindRetryable :: "nat \<Rightarrow> time \<Rightarrow> relay_db \<Rightarrow> Dispatch list" where
  "FindRetryable limit now db =
     take limit (SliceStable (due_before dp_NextDispatchAttemptAt)
       (filter (\<lambda>d. dp_Status d = DispatchStatusFailedRetryable
          \<and> (case dp_NextDispatchAttemptAt d of None \<Rightarrow> False | Some t \<Rightarrow> t \<le> now)) (rb_dispatches db)))"

definition FindSent :: "nat \<Rightarrow> time \<Rightarrow> relay_db \<Rightarrow> Dispatch list" where
  "FindSent limit cutoff db =
     take limit (SliceStable (due_before dp_SentAt)
       (filter (\<lambda>d. dp_Status d = DispatchStatusSent
          \<and> (case dp_SentAt d of None \<Rightarrow> False | Some t \<Rightarrow> t < cutoff)) (rb_dispatches db)))"

definition FindAwaiting :: "nat \<Rightarrow> time \<Rightarrow> relay_db \<Rightarrow> Dispatch list" where
  "FindAwaiting limit cutoff db =
     take limit (SliceStable (due_before (\<lambda>d. Some (dp_UpdatedAt d)))
       (filter (\<lambda>d. dp_Status d = DispatchStatusAwaitingProviderSignal \<and> dp_UpdatedAt d < cutoff) (rb_dispatches db)))"

section \<open>Statements on the outbox\<close>

definition EnqueueTx :: "relay_event \<Rightarrow> time \<Rightarrow> relay_db \<Rightarrow> string + unit \<times> relay_db" where
  "EnqueueTx ev now db =
     (if list_ex (\<lambda>r. ro_EventID r = rv_EventID ev) (rb_outbox db)
      then Inl (''relay_outbox_repo: enqueue '' @ rv_EventType ev @ '': duplicate key'')
      else Inr ((), db\<lparr>rb_outbox := rb_outbox db @ [\<lparr>ro_EventID = rv_EventID ev, ro_EventType = rv_EventType ev,
             ro_DispatchID = rv_DispatchID ev, ro_ContractID = rv_ContractID ev, ro_IntentID = rv_IntentID ev,
             ro_TenantID = rv_TenantID ev, ro_TraceID = rv_TraceID ev, ro_Payload = ev, ro_Status = OutboxPending,
             ro_RetryCount = 0, ro_CreatedAt = now, ro_PublishedAt = None\<rparr>]\<rparr>))"

definition created_before :: "RelayOutboxRow \<Rightarrow> RelayOutboxRow \<Rightarrow> bool" where
  "created_before a b \<longleftrightarrow> ro_CreatedAt a < ro_CreatedAt b"

definition ListPendingForPublish :: "nat \<Rightarrow> relay_db \<Rightarrow> RelayOutboxRow list" where
  "ListPendingForPublish batch db =
     take batch (SliceStable created_before (filter (\<lambda>r. ro_Status r = OutboxPending) (rb_outbox db)))"

definition update_outbox :: "(RelayOutboxRow \<Rightarrow> bool) \<Rightarrow> (RelayOutboxRow \<Rightarrow> RelayOutboxRow) \<Rightarrow> relay_db \<Rightarrow> relay_db" where
  "update_outbox p f db = db\<lparr>rb_outbox := map (\<lambda>r. if p r then f r else r) (rb_outbox db)\<rparr>"

definition MarkPublished :: "string list \<Rightarrow> time \<Rightarrow> relay_db \<Rightarrow> string + unit \<times> relay_db" where
  "MarkPublished eventIDs now db =
     Inr ((), update_outbox (\<lambda>r. ro_EventID r \<in> set eventIDs \<and> ro_Status r = OutboxPending)
       (\<lambda>r. r\<lparr>ro_Status := OutboxPublished, ro_PublishedAt := Some now\<rparr>) db)"

definition IncrementRetry :: "string \<Rightarrow> relay_db \<Rightarrow> string + int \<times> relay_db" where
  "IncrementRetry eventID db =
     (case List.find (\<lambda>r. ro_EventID r = eventID) (rb_outbox db) of
        None \<Rightarrow> Inl ''relay_outbox_repo: increment retry: sql: no rows in result set''
      | Some r \<Rightarrow> Inr (ro_RetryCount r + 1, update_outbox (\<lambda>r. ro_EventID r = eventID)
          (\<lambda>r. r\<lparr>ro_RetryCount := ro_RetryCount r + 1\<rparr>) db))"

definition MarkFailed :: "string \<Rightarrow> relay_db \<Rightarrow> string + unit \<times> relay_db" where
  "MarkFailed eventID db =
     Inr ((), update_outbox (\<lambda>r. ro_EventID r = eventID) (\<lambda>r. r\<lparr>ro_Status := OutboxFailed\<rparr>) db)"

section \<open>Conflicts of payload hashes\<close>

definition payloadSnippet :: "string \<Rightarrow> string" where
  "payloadSnippet raw = take 256 raw"

definition same_conflict :: "string \<Rightarrow> string \<Rightarrow> payload_conflict \<Rightarrow> bool" where
  "same_conflict service eventID c \<longleftrightarrow> rc_ServiceName c = service \<and> rc_EventID c = eventID"

text \<open>The upsert answers the count of the row and whether it was permanent.\<close>

definition upsert_conflict :: "payload_conflict \<Rightarrow> relay_db \<Rightarrow> string + (nat \<times> bool) \<times> relay_db" where
  "upsert_conflict new db =
     (case List.find (same_conflict (rc_ServiceName new) (rc_EventID new)) (rb_conflicts db) of
        None \<Rightarrow> Inr ((1, False), db\<lparr>rb_conflicts := rb_conflicts db @ [new]\<rparr>)
      | Some old \<Rightarrow> Inr ((Suc (rc_Count old), rc_Permanent old),
          db\<lparr>rb_conflicts := map (\<lambda>c. if same_conflict (rc_ServiceName new) (rc_EventID new) c
             then new\<lparr>rc_Count := Suc (rc_Count c), rc_Permanent := rc_Permanent c, rc_ResolvedAt := rc_ResolvedAt c\<rparr>
             else c) (rb_conflicts db)\<rparr>))"

definition mark_permanent :: "string \<Rightarrow> string \<Rightarrow> time \<Rightarrow> relay_db \<Rightarrow> string + unit \<times> relay_db" where
  "mark_permanent service eventID now db =
     Inr ((), db\<lparr>rb_conflicts := map (\<lambda>c. if same_conflict service eventID c
        then c\<lparr>rc_Permanent := True, rc_ResolvedAt := Some now\<rparr> else c) (rb_conflicts db)\<rparr>)"

definition MarkResolved :: "string \<Rightarrow> string \<Rightarrow> time \<Rightarrow> relay_db \<Rightarrow> string + unit \<times> relay_db" where
  "MarkResolved service eventID now db =
     Inr ((), db\<lparr>rb_conflicts := map (\<lambda>c. if same_conflict service eventID c \<and> rc_ResolvedAt c = None
        then c\<lparr>rc_ResolvedAt := Some now\<rparr> else c) (rb_conflicts db)\<rparr>)"


section \<open>Statements on publish failures\<close>

definition same_failure :: "PublishFailureRecord \<Rightarrow> PublishFailureRecord \<Rightarrow> bool" where
  "same_failure a b \<longleftrightarrow> pf_SourceService a = pf_SourceService b \<and> pf_SourceEventID a = pf_SourceEventID b
     \<and> pf_DestinationTopic a = pf_DestinationTopic b"

text \<open>The identifier of a new row is the next of its sequence.\<close>

definition next_failure_id :: "relay_db \<Rightarrow> nat" where
  "next_failure_id db = Suc (fold max (map pf_FailureID (rb_failures db)) 0)"

definition Record :: "PublishFailureRecord \<Rightarrow> relay_db \<Rightarrow> string + unit \<times> relay_db" where
  "Record r db =
     (if list_ex (same_failure r) (rb_failures db)
      then Inr ((), db\<lparr>rb_failures := map (\<lambda>old. if same_failure r old
             then old\<lparr>pf_Topic := pf_Topic r, pf_PayloadHash := pf_PayloadHash r, pf_MessageKey := pf_MessageKey r,
               pf_MessageValue := pf_MessageValue r, pf_Headers := pf_Headers r, pf_AttemptCount := pf_AttemptCount r,
               pf_FailureClass := pf_FailureClass r, pf_LastError := pf_LastError r,
               pf_ReplayStatus := (if pf_ReplayStatus old = ReplayStatusReplayed then ReplayStatusReplayed
                                   else pf_ReplayStatus r)\<rparr>
             else old) (rb_failures db)\<rparr>)
      else Inr ((), db\<lparr>rb_failures := rb_failures db @ [r\<lparr>pf_FailureID := next_failure_id db, pf_ReplayedAt := None\<rparr>]\<rparr>))"

definition update_failure :: "nat \<Rightarrow> (PublishFailureRecord \<Rightarrow> bool) \<Rightarrow> (PublishFailureRecord \<Rightarrow> PublishFailureRecord)
    \<Rightarrow> relay_db \<Rightarrow> relay_db" where
  "update_failure failureID p f db =
     db\<lparr>rb_failures := map (\<lambda>r. if pf_FailureID r = failureID \<and> p r then f r else r) (rb_failures db)\<rparr>"

definition BeginReplay :: "nat \<Rightarrow> relay_db \<Rightarrow> string + bool \<times> relay_db" where
  "BeginReplay failureID db =
     (let pending = (\<lambda>r. pf_ReplayStatus r = ReplayStatusPending)
      in Inr (list_ex (\<lambda>r. pf_FailureID r = failureID \<and> pending r) (rb_failures db),
          update_failure failureID pending (\<lambda>r. r\<lparr>pf_ReplayStatus := ReplayStatusReplaying\<rparr>) db))"

text \<open>The two statements of one transaction.\<close>

definition CompleteReplay :: "nat \<Rightarrow> string \<Rightarrow> string \<Rightarrow> string \<Rightarrow> string \<Rightarrow> time \<Rightarrow> relay_db \<Rightarrow> string + unit \<times> relay_db" where
  "CompleteReplay failureID operatorID reason outcome errMsg now db =
     (let status = (if outcome = ''FAILED'' then ReplayStatusPending else ReplayStatusReplayed);
          db = update_failure failureID (\<lambda>_. True) (\<lambda>r. r\<lparr>pf_ReplayStatus := status,
            pf_ReplayedAt := (if outcome = ''SUCCESS'' then Some now else pf_ReplayedAt r)\<rparr>) db
      in Inr ((), db\<lparr>rb_replays := rb_replays db @ [\<lparr>fy_FailureID = failureID, fy_OperatorID = operatorID,
           fy_Reason = reason, fy_Outcome = outcome, fy_ErrorMessage = errMsg\<rparr>]\<rparr>))"

definition GetMessageForReplay :: "nat \<Rightarrow> relay_db \<Rightarrow> string + PublishFailureRecord \<times> relay_db" where
  "GetMessageForReplay failureID db =
     (case List.find (\<lambda>r. pf_FailureID r = failureID) (rb_failures db) of
        None \<Rightarrow> Inl ''sql: no rows in result set''
      | Some r \<Rightarrow> Inr (r, db))"

end
