(* ===== verification/DispatchLoop.thy ===== *)
theory DispatchLoop
  imports Relay
begin

text \<open>
  \<^verbatim>\<open>relay/services/dispatch_loop.go\<close>, \<^verbatim>\<open>retry_sweeper.go\<close> and \<^verbatim>\<open>recovery_sweeper.go\<close>: the life of a
  payout from the event of its intent to the acknowledgement of the provider.

  The state is the database of the relay, the requests that were sent to the provider, the outcomes
  reported to the router, the circuit breaker and the counters of the hash verifier.  A method is a
  computation of \<open>Effects\<close>: the n-th call to the database, the token service, the provider or the
  router fails when \<open>re_fault\<close> says so.  A failed provider call is one whose request never left; a
  request that left is recorded and answered by \<open>re_psp\<close>, with a response or an error.  A process
  that dies is an environment in which every call from some number on fails, followed by \<open>restart\<close>.
  Metrics and log lines are left out, and the clock is read once per operation.
\<close>

section \<open>State and environment\<close>

record OutboxPIITokens =
  ot_AccountNumber :: string
  ot_Name :: string
  ot_IFSC :: string
  ot_VPA :: string

record OutboxPayload =
  op_PIITokens :: OutboxPIITokens
  op_InstrumentKind :: string
  op_Amount :: string

record OutboxEvent =
  oe_EventID :: string
  oe_EventType :: string
  oe_LeaseID :: string
  oe_TenantID :: string
  oe_TraceID :: string
  oe_AggregateID :: string
  oe_ContractID :: string
  oe_SchemaVersion :: string
  oe_Payload :: string
  oe_CanonicalPayloadHash :: string

record PayoutRequest =
  pq_ReferenceID :: string
  pq_Narration :: string
  pq_Amount :: int64
  pq_Mode :: string
  pq_BeneficiaryName :: string
  pq_AccountNumber :: string
  pq_IFSC :: string

record PayoutResponse =
  py_PayoutID :: string
  py_Status :: string

text \<open>
  The errors of the provider's client: a structured error with its HTTP status and whether it wraps
  a context error, a bare context error, or anything else.
\<close>

datatype psp_failure =
    PSPError (http_status_code: int) (is_timeout: bool) (is_network_drop: bool) (wraps_context: bool) (psp_message: string)
  | ContextError string
  | OtherError string

record RouterRequest =
  ue_TenantID :: string
  ue_EntityID :: string
  ue_Rail :: string
  ue_AmountMinor :: int64

record RouterDecision =
  dn_ConnectorID :: string
  dn_Rail :: string

record RouterOutcome =
  ou_RoutingID :: string
  ou_PaymentID :: string
  ou_Processor :: string
  ou_Success :: bool
  ou_FailureClass :: string

record kafka_message =
  km_Topic :: string
  km_Key :: string
  km_Value :: string
  km_Headers :: "(string \<times> string) list"

text \<open>The message a failed publication leaves on a dead-letter topic.\<close>

record dlqEnvelope =
  dq_EventID :: string
  dq_EventType :: string
  dq_TenantID :: string
  dq_IntentID :: string
  dq_TraceID :: string
  dq_Payload :: "string option"
  dq_Error :: string
  dq_ReasonCode :: string
  dq_DLQCategory :: string
  dq_LastAttemptAt :: time

record relay_state =
  rs_db :: relay_db
  rs_calls :: "PayoutRequest list"
  rs_kafka :: "kafka_message list"
  rs_outcomes :: "RouterOutcome list"
  rs_cbFailures :: int
  rs_cbOpenAt :: time
  rs_recent :: "(string \<times> nat) list"
  rs_ids :: nat

text \<open>
  \<open>re_uuid n\<close> is the n-th identifier drawn; \<open>re_sscanf\<close> reads a decimal number as \<open>fmt.Sscanf\<close> does;
  \<open>re_evict\<close> is the key a range over a full map visits first.  The timeouts are those after the
  defaults of the constructors.  \<open>re_Topics\<close> are the topics of events, of publish failures and of
  poison events, \<open>re_json\<close> and \<open>re_dlq_json\<close> the encoders, and a broker that took a message may still
  answer with the error of \<open>re_lost_ack\<close>.
\<close>

record relay_env =
  re_fault :: "nat \<Rightarrow> string option"
  re_now :: time
  re_uuid :: "nat \<Rightarrow> string"
  re_ConnectorID :: string
  re_CorridorID :: string
  re_Threshold :: int
  re_ResetSecs :: int
  re_BatchSize :: nat
  re_SentTimeoutSecs :: int
  re_AwaitingTimeoutSecs :: int
  re_route :: "(RouterRequest \<Rightarrow> string + RouterDecision) option"
  re_verifier :: bool
  re_strict :: bool
  re_maxConflictRetries :: nat
  re_evict :: "(string \<times> nat) list \<Rightarrow> string"
  re_sha :: "string \<Rightarrow> string"
  re_parse :: "string \<Rightarrow> OutboxPayload option"
  re_sscanf :: "string \<Rightarrow> rat"
  re_detokenize :: "nat \<Rightarrow> OutboxPIITokens \<Rightarrow> string + OutboxPIITokens"
  re_psp :: "nat \<Rightarrow> PayoutRequest \<Rightarrow> psp_failure + PayoutResponse"
  re_lookup :: "nat \<Rightarrow> string \<Rightarrow> string + PayoutResponse option"
  re_Topics :: "string \<times> string \<times> string"
  re_failureRepo :: bool
  re_json :: "relay_event \<Rightarrow> string"
  re_dlq_json :: "dlqEnvelope \<Rightarrow> string"
  re_lost_ack :: "nat \<Rightarrow> string option"

type_synonym 'a rio = "(relay_state, 'a) io"

abbreviation (input) seconds :: "int \<Rightarrow> duration" where "seconds n \<equiv> n * 1000000000"

text \<open>A statement or a read of the database; a call to another service; a value of the state.\<close>

definition relay_exec :: "relay_env \<Rightarrow> (relay_db \<Rightarrow> string + 'a \<times> relay_db) \<Rightarrow> 'a rio" where
  "relay_exec e f s =
     (case re_fault e (snd s) of
        Some err \<Rightarrow> (Inl err, (fst s, Suc (snd s)))
      | None \<Rightarrow> (case f (rs_db (fst s)) of
            Inl err \<Rightarrow> (Inl err, (fst s, Suc (snd s)))
          | Inr (x, db) \<Rightarrow> (Inr x, ((fst s)\<lparr>rs_db := db\<rparr>, Suc (snd s)))))"

definition relay_query :: "relay_env \<Rightarrow> (relay_db \<Rightarrow> 'a) \<Rightarrow> 'a rio" where
  "relay_query e f = relay_exec e (\<lambda>db. Inr (f db, db))"

definition remote :: "relay_env \<Rightarrow> (nat \<Rightarrow> string + 'a) \<Rightarrow> 'a rio" where
  "remote e f s = (case re_fault e (snd s) of Some err \<Rightarrow> (Inl err, (fst s, Suc (snd s)))
      | None \<Rightarrow> (f (snd s), (fst s, Suc (snd s))))"

definition modify :: "(relay_state \<Rightarrow> 'a \<times> relay_state) \<Rightarrow> 'a rio" where
  "modify f s = (Inr (fst (f (fst s))), (snd (f (fst s)), snd s))"

definition draw_id :: "relay_env \<Rightarrow> string rio" where
  "draw_id e = modify (\<lambda>m. (re_uuid e (rs_ids m), m\<lparr>rs_ids := Suc (rs_ids m)\<rparr>))"

definition relay_tx :: "'a rio \<Rightarrow> 'a rio" where
  "relay_tx f s = (case f s of (Inl err, t) \<Rightarrow> (Inl err, ((fst t)\<lparr>rs_db := rs_db (fst s)\<rparr>, snd t)) | r \<Rightarrow> r)"

definition atomicStep :: "relay_env \<Rightarrow> 'a rio \<Rightarrow> 'a rio" where
  "atomicStep e body =
     bindE (wrapE ''begin tx: '' (relay_query e (\<lambda>_. ()))) (\<lambda>_.
     relay_tx (bindE body (\<lambda>x. bindE (wrapE ''commit tx: '' (relay_query e (\<lambda>_. ()))) (\<lambda>_. returnE x))))"

section \<open>The circuit breaker\<close>

definition recordPSPSuccess :: "relay_state \<Rightarrow> relay_state" where
  "recordPSPSuccess m = m\<lparr>rs_cbFailures := 0, rs_cbOpenAt := 0\<rparr>"

definition recordPSPFailure :: "relay_env \<Rightarrow> relay_state \<Rightarrow> relay_state" where
  "recordPSPFailure e m =
     (let threshold = (if re_Threshold e \<le> 0 then 5 else re_Threshold e);
          m = m\<lparr>rs_cbFailures := rs_cbFailures m + 1\<rparr>
      in if rs_cbFailures m \<ge> threshold \<and> IsZero (rs_cbOpenAt m) then m\<lparr>rs_cbOpenAt := re_now e\<rparr> else m)"

definition circuitOpen :: "relay_env \<Rightarrow> relay_state \<Rightarrow> bool \<times> relay_state" where
  "circuitOpen e m =
     (let resetSecs = (if re_ResetSecs e \<le> 0 then 60 else re_ResetSecs e)
      in if IsZero (rs_cbOpenAt m) then (False, m)
         else if time_sub (re_now e) (rs_cbOpenAt m) \<ge> seconds resetSecs
              then (False, m\<lparr>rs_cbFailures := 0, rs_cbOpenAt := 0\<rparr>)
         else (True, m))"

definition evaluateGovernance :: "relay_env \<Rightarrow> string \<Rightarrow> relay_state \<Rightarrow> (GovernanceDecision \<times> string list) \<times> relay_state" where
  "evaluateGovernance e connectorID m =
     (let (isOpen, m) = circuitOpen e m
      in if isOpen then ((GovernanceHold, [''CIRCUIT_BREAKER_OPEN'']), m)
         else if connectorID = [] then ((GovernanceTerminalFail, [''CONNECTOR_NOT_CONFIGURED'']), m)
         else ((GovernanceAllow, []), m))"

section \<open>Classification of provider errors\<close>

text \<open>\<open>%d\<close>.\<close>

fun digits_of :: "nat \<Rightarrow> string" where
  "digits_of n = (if n < 10 then [char_of (n + 48)] else digits_of (n div 10) @ [char_of (n mod 10 + 48)])"

declare digits_of.simps [simp del]

definition itoa :: "int \<Rightarrow> string" where
  "itoa n = (if n < 0 then ''-'' @ digits_of (nat (- n)) else digits_of (nat n))"

fun psp_error_text :: "psp_failure \<Rightarrow> string" where
  "psp_error_text (PSPError http timeout dropped wraps msg) =
     (if timeout then ''psp: timeout: '' @ msg else if dropped then ''psp: network drop: '' @ msg
      else ''psp: HTTP '' @ itoa http @ '': '' @ msg)"
| "psp_error_text (ContextError msg) = msg"
| "psp_error_text (OtherError msg) = msg"

text \<open>The retry class, whether the error is fatal and whether the outcome is uncertain.\<close>

fun classifyPSPError :: "psp_failure \<Rightarrow> RetryClass \<times> bool \<times> bool" where
  "classifyPSPError (PSPError http timeout dropped wraps msg) =
     (if timeout \<or> dropped then (WaitForSignal, False, True)
      else if http \<ge> 400 \<and> http < 500 then (NeverRetry, True, False)
      else if http \<ge> 500 then (RetryableAfterBackoff, False, False)
      else if wraps then (WaitForSignal, False, True)
      else (RetryableAfterBackoff, False, False))"
| "classifyPSPError (ContextError _) = (WaitForSignal, False, True)"
| "classifyPSPError (OtherError _) = (RetryableAfterBackoff, False, False)"

definition failureClassFromPSP :: "psp_failure \<Rightarrow> bool \<Rightarrow> bool \<Rightarrow> string" where
  "failureClassFromPSP err isFatal isUncertain =
     (if isUncertain then ''TIMEOUT'' else if isFatal then ''HARD_DECLINE''
      else case err of PSPError http _ _ _ _ \<Rightarrow> if http \<ge> 500 then ''RAIL_DOWN'' else ''UNKNOWN'' | _ \<Rightarrow> ''UNKNOWN'')"

definition processorFromConnector :: "string \<Rightarrow> string" where
  "processorFromConnector connectorID =
     (let c = ToLower (TrimSpace connectorID)
      in if has_prefix ''razorpay'' c then ''razorpay'' else if has_prefix ''cashfree'' c then ''cashfree''
         else if has_prefix ''payu'' c then ''payu'' else if has_prefix ''stripe'' c then ''stripe'' else [])"

definition reportRouterOutcome :: "relay_env \<Rightarrow> Dispatch \<Rightarrow> bool \<Rightarrow> string \<Rightarrow> unit rio" where
  "reportRouterOutcome e d success failureClass =
     (if re_route e = None \<or> TrimSpace (processorFromConnector (dp_ConnectorID d)) = [] then returnE ()
      else on_error (remote e (\<lambda>_. Inr ())) (\<lambda>_. returnE ()) (\<lambda>_. modify (\<lambda>m. ((),
        m\<lparr>rs_outcomes := rs_outcomes m @ [\<lparr>ou_RoutingID = ''rte_'' @ dp_IntentID d, ou_PaymentID = dp_IntentID d,
          ou_Processor = processorFromConnector (dp_ConnectorID d), ou_Success = success,
          ou_FailureClass = failureClass\<rparr>]\<rparr>))))"

section \<open>Backoff\<close>

fun backoff_factor :: "nat \<Rightarrow> int \<Rightarrow> int" where
  "backoff_factor 0 ex = ex"
| "backoff_factor (Suc n) ex = (if 2 * ex > 3600 div 30 then 3600 div 30 else backoff_factor n (2 * ex))"

text \<open>\<open>%\<close> of Go has the sign of its left operand.\<close>

definition go_rem :: "int \<Rightarrow> int \<Rightarrow> int" where
  "go_rem a b = sgn a * (\<bar>a\<bar> mod \<bar>b\<bar>)"

definition retryBackoff :: "int \<Rightarrow> duration" where
  "retryBackoff attemptCount =
     (let secs = min (30 * backoff_factor (nat (attemptCount - 1)) 1) 3600;
          jitter = secs * 2 div 10;
          offset = jitter - go_rem attemptCount (jitter + 1)
      in seconds (secs + offset))"

section \<open>Recording a step\<close>

definition event_for :: "relay_env \<Rightarrow> string \<Rightarrow> Dispatch \<Rightarrow> event_payload \<Rightarrow> relay_event" where
  "event_for e eventID d p =
     \<lparr>rv_EventID = eventID, rv_EventType = event_type p, rv_TenantID = dp_TenantID d, rv_IntentID = dp_IntentID d,
      rv_ContractID = dp_ContractID d, rv_DispatchID = dp_DispatchID d, rv_TraceID = dp_TraceID d,
      rv_SchemaVersion = ''v1'', rv_CreatedAt = re_now e, rv_Payload = p\<rparr>"

text \<open>The event and the statement, in the order the code has them, in one transaction.\<close>

definition event_then :: "relay_env \<Rightarrow> Dispatch \<Rightarrow> event_payload \<Rightarrow> (relay_db \<Rightarrow> string + unit \<times> relay_db) \<Rightarrow> unit rio" where
  "event_then e d p f =
     bindE (draw_id e) (\<lambda>eventID. atomicStep e (
       bindE (relay_exec e (EnqueueTx (event_for e eventID d p) (re_now e))) (\<lambda>_. relay_exec e f)))"

definition then_event :: "relay_env \<Rightarrow> Dispatch \<Rightarrow> event_payload \<Rightarrow> (relay_db \<Rightarrow> string + unit \<times> relay_db) \<Rightarrow> unit rio" where
  "then_event e d p f =
     bindE (draw_id e) (\<lambda>eventID. atomicStep e (
       bindE (relay_exec e f) (\<lambda>_. relay_exec e (EnqueueTx (event_for e eventID d p) (re_now e)))))"

definition stored_attempt :: "relay_env \<Rightarrow> Dispatch \<Rightarrow> int rio" where
  "stored_attempt e d =
     on_error (relay_query e (FindByContractAndAttempt (dp_ContractID d) 1)) (\<lambda>_. returnE 1)
       (\<lambda>found. returnE (case found of None \<Rightarrow> 1 | Some x \<Rightarrow> dp_AttemptCount x))"

definition markFailedRetryable :: "relay_env \<Rightarrow> Dispatch \<Rightarrow> RetryClass \<Rightarrow> string \<Rightarrow> string \<Rightarrow> unit rio" where
  "markFailedRetryable e d retryClass failureCode reason =
     bindE (stored_attempt e d) (\<lambda>attemptCount.
     log_error (event_then e d
       (DispatchFailedPayload (dp_DispatchID d) attemptCount (failureCode @ '': '' @ reason) (re_now e))
       (MarkFailedRetryableTx (dp_DispatchID d) retryClass (re_now e + retryBackoff attemptCount) (re_now e))))"

definition markFailedTerminal :: "relay_env \<Rightarrow> Dispatch \<Rightarrow> string \<Rightarrow> unit rio" where
  "markFailedTerminal e d reason =
     log_error (event_then e d (DispatchFailedPayload (dp_DispatchID d) 1 reason (re_now e))
       (MarkFailedTerminalTx (dp_DispatchID d) (re_now e)))"

definition markAwaitingProviderSignal :: "relay_env \<Rightarrow> Dispatch \<Rightarrow> string \<Rightarrow> unit rio" where
  "markAwaitingProviderSignal e d reason =
     log_error (event_then e d (AwaitingProviderSignalPayload (dp_DispatchID d) (dp_DispatchID d) reason (re_now e))
       (MarkAwaitingProviderSignalTx (dp_DispatchID d) (re_now e)))"

section \<open>Steps 2 to 5\<close>

definition amountFromString :: "(string \<Rightarrow> rat) \<Rightarrow> string \<Rightarrow> int64" where
  "amountFromString sscanf amount = (if amount = [] then 0 else float_to_int64 (sscanf amount))"

definition amountMinorFromMajor :: "relay_env \<Rightarrow> string \<Rightarrow> int64" where
  "amountMinorFromMajor e amount =
     (if amount = [] \<or> re_sscanf e amount < 0 then 0 else float_to_int64 (re_sscanf e amount * 100 + 1 / 2))"

definition buildRequestFingerprint :: "relay_env \<Rightarrow> string \<Rightarrow> string \<Rightarrow> string \<Rightarrow> string" where
  "buildRequestFingerprint e dispatchID amount corridor = re_sha e (dispatchID @ ''|'' @ amount @ ''|'' @ corridor)"

definition carriers :: "Dispatch \<Rightarrow> CorrelationCarriers" where
  "carriers d = \<lparr>cc_ReferenceID = dp_DispatchID d, cc_Narration = ''ZRD:'' @ dp_ContractID d\<rparr>"

definition payout_request :: "relay_env \<Rightarrow> Dispatch \<Rightarrow> OutboxPayload \<Rightarrow> OutboxPIITokens \<Rightarrow> PayoutRequest" where
  "payout_request e d payload clear =
     \<lparr>pq_ReferenceID = dp_DispatchID d, pq_Narration = ''ZRD:'' @ dp_ContractID d,
      pq_Amount = amountFromString (re_sscanf e) (op_Amount payload), pq_Mode = dp_CorridorID d,
      pq_BeneficiaryName = ot_Name clear, pq_AccountNumber = ot_AccountNumber clear, pq_IFSC = ot_IFSC clear\<rparr>"

text \<open>The call itself never fails as a computation: its answer is a value.\<close>

definition callPSP :: "relay_env \<Rightarrow> PayoutRequest \<Rightarrow> (psp_failure + PayoutResponse) rio" where
  "callPSP e req s =
     (case re_fault e (snd s) of
        Some err \<Rightarrow> (Inr (Inl (OtherError err)), (fst s, Suc (snd s)))
      | None \<Rightarrow> (Inr (re_psp e (snd s) req), ((fst s)\<lparr>rs_calls := rs_calls (fst s) @ [req]\<rparr>, Suc (snd s))))"

definition psp_failed :: "relay_env \<Rightarrow> Dispatch \<Rightarrow> psp_failure \<Rightarrow> unit rio" where
  "psp_failed e d err =
     (let (retryClass, isFatal, isUncertain) = classifyPSPError err
      in bindE (modify (\<lambda>m. ((), recordPSPFailure e m))) (\<lambda>_.
         bindE (reportRouterOutcome e d False (failureClassFromPSP err isFatal isUncertain)) (\<lambda>_.
         if isUncertain then markAwaitingProviderSignal e d (psp_error_text err)
         else if isFatal then markFailedTerminal e d (psp_error_text err)
         else markFailedRetryable e d retryClass ''PSP_CALL_FAILED'' (psp_error_text err))))"

definition psp_acked :: "relay_env \<Rightarrow> Dispatch \<Rightarrow> PayoutResponse \<Rightarrow> unit rio" where
  "psp_acked e d resp =
     bindE (modify (\<lambda>m. ((), recordPSPSuccess m))) (\<lambda>_.
     bindE (reportRouterOutcome e d True []) (\<lambda>_.
     on_error (event_then e d (ProviderAckedPayload (dp_DispatchID d) (py_PayoutID resp) (py_Status resp) (re_now e))
         (MarkProviderAckedTx (dp_DispatchID d) (py_PayoutID resp) (py_Status resp) (re_now e)))
       (\<lambda>_. markAwaitingProviderSignal e d ''PROVIDER_ACKED_WRITE_FAILED'') returnE))"

definition attempt_sent :: "relay_env \<Rightarrow> Dispatch \<Rightarrow> OutboxPayload \<Rightarrow> unit rio" where
  "attempt_sent e d payload =
     event_then e d (AttemptSentPayload (dp_DispatchID d) (dp_ConnectorID d) (dp_CorridorID d) (dp_AttemptCount d)
         (re_now e) (carriers d))
       (MarkSentTx (dp_DispatchID d) (dp_DispatchID d)
         (buildRequestFingerprint e (dp_DispatchID d) (op_Amount payload) (dp_CorridorID d)) (re_now e))"

definition send_payout :: "relay_env \<Rightarrow> Dispatch \<Rightarrow> OutboxPayload \<Rightarrow> OutboxPIITokens \<Rightarrow> unit rio" where
  "send_payout e d payload clear =
     on_error (attempt_sent e d payload)
       (\<lambda>err. markFailedRetryable e d RetryableTechnical ''ATTEMPT_SENT_WRITE_FAILED'' err)
       (\<lambda>_. bindE (callPSP e (payout_request e d payload clear)) (\<lambda>answer.
         case answer of Inl err \<Rightarrow> psp_failed e d err | Inr resp \<Rightarrow> psp_acked e d resp))"

definition detokenize_and_send :: "relay_env \<Rightarrow> Dispatch \<Rightarrow> OutboxPayload \<Rightarrow> unit rio" where
  "detokenize_and_send e d payload =
     on_error (remote e (\<lambda>n. re_detokenize e n (op_PIITokens payload)))
       (\<lambda>err. markFailedRetryable e d RetryableTechnical ''DETOKENIZE_FAILED'' err)
       (\<lambda>clear. if ot_AccountNumber clear = [] \<or> ot_Name clear = []
                then markFailedTerminal e d ''DETOKENIZE_EMPTY''
                else send_payout e d payload clear)"

definition runSteps2to5 :: "relay_env \<Rightarrow> Dispatch \<Rightarrow> OutboxPayload \<Rightarrow> unit rio" where
  "runSteps2to5 e d payload =
     bindE (modify (evaluateGovernance e (dp_ConnectorID d))) (\<lambda>(decision, codes).
     on_error (then_event e d (GovernanceEvaluatedPayload (dp_DispatchID d) decision codes)
         (MarkGovernanceDecisionTx (dp_DispatchID d) decision codes (re_now e)))
       (\<lambda>_. returnE ())
       (\<lambda>_. if decision \<noteq> GovernanceAllow then returnE () else detokenize_and_send e d payload))"

section \<open>Verification of the payload hash\<close>

datatype HashVerificationDecision = DecisionNack | DecisionAckPermanent

record HashVerificationResult =
  hv_OK :: bool
  hv_Decision :: HashVerificationDecision
  hv_ConflictCount :: nat

definition conflictKey :: "string \<Rightarrow> string \<Rightarrow> string" where
  "conflictKey service eventID = service @ ''|'' @ eventID"

text \<open>The counter in memory, in a map of at most ten thousand and one keys.\<close>

definition bump_recent :: "relay_env \<Rightarrow> string \<Rightarrow> (string \<times> nat) list \<Rightarrow> nat \<times> (string \<times> nat) list" where
  "bump_recent e key recent =
     (let count = (case map_of recent key of None \<Rightarrow> 1 | Some n \<Rightarrow> Suc n);
          recent = (if length recent > 10000 then filter (\<lambda>kv. fst kv \<noteq> re_evict e recent) recent else recent)
      in (count, alist_put key count recent))"

definition new_conflict :: "relay_env \<Rightarrow> string \<Rightarrow> OutboxEvent \<Rightarrow> payload_conflict" where
  "new_conflict e service ev =
     \<lparr>rc_ServiceName = service, rc_EventID = oe_EventID ev, rc_EventType = oe_EventType ev, rc_LeaseID = oe_LeaseID ev,
      rc_ExpectedHash = oe_CanonicalPayloadHash ev, rc_ComputedHash = re_sha e (oe_Payload ev),
      rc_Snippet = payloadSnippet (oe_Payload ev), rc_Count = 1, rc_Permanent = False, rc_DetectedAt = re_now e,
      rc_ResolvedAt = None\<rparr>"

text \<open>The result and the error of the Go function.\<close>

definition recordMismatch :: "relay_env \<Rightarrow> string \<Rightarrow> OutboxEvent \<Rightarrow> (HashVerificationResult \<times> string option) rio" where
  "recordMismatch e service ev =
     bindE (modify (\<lambda>m. let (n, recent) = bump_recent e (conflictKey service (oe_EventID ev)) (rs_recent m)
                        in (n, m\<lparr>rs_recent := recent\<rparr>))) (\<lambda>memCount.
     on_error (relay_exec e (upsert_conflict (new_conflict e service ev)))
       (\<lambda>err. returnE (\<lparr>hv_OK = False,
          hv_Decision = (if memCount > re_maxConflictRetries e then DecisionAckPermanent else DecisionNack),
          hv_ConflictCount = memCount\<rparr>, Some (''conflict persistence query failed: '' @ err)))
       (\<lambda>(count, permanent).
          if permanent \<or> count \<ge> re_maxConflictRetries e
          then bindE (if permanent then returnE ()
                      else log_error (relay_exec e (mark_permanent service (oe_EventID ev) (re_now e)))) (\<lambda>_.
               returnE (\<lparr>hv_OK = False, hv_Decision = DecisionAckPermanent, hv_ConflictCount = count\<rparr>, None))
          else returnE (\<lparr>hv_OK = False, hv_Decision = DecisionNack, hv_ConflictCount = count\<rparr>, None)))"

definition hash_accepted :: "HashVerificationResult \<times> string option" where
  "hash_accepted = (\<lparr>hv_OK = True, hv_Decision = DecisionNack, hv_ConflictCount = 0\<rparr>, None)"

definition VerifyPayload :: "relay_env \<Rightarrow> string \<Rightarrow> OutboxEvent \<Rightarrow> (HashVerificationResult \<times> string option) rio" where
  "VerifyPayload e service ev =
     (if TrimSpace (oe_CanonicalPayloadHash ev) = []
      then if re_strict e then recordMismatch e service ev else returnE hash_accepted
      else if EqualFold (TrimSpace (oe_CanonicalPayloadHash ev)) (re_sha e (oe_Payload ev))
      then bindE (modify (\<lambda>m. ((), m\<lparr>rs_recent := filter (\<lambda>kv. fst kv \<noteq> conflictKey service (oe_EventID ev)) (rs_recent m)\<rparr>)))
             (\<lambda>_. returnE hash_accepted)
      else recordMismatch e service ev)"

definition verifyDispatchPayloadHash :: "relay_env \<Rightarrow> OutboxEvent \<Rightarrow> bool rio" where
  "verifyDispatchPayloadHash e ev =
     (if \<not> re_verifier e then returnE True
      else bindE (VerifyPayload e ''zord-relay-psp-dispatch'' ev) (\<lambda>(vr, err). returnE (err = None \<and> hv_OK vr)))"

section \<open>The event of an intent\<close>

definition default_corridor :: "relay_env \<Rightarrow> OutboxPayload \<Rightarrow> string" where
  "default_corridor e payload =
     (if op_InstrumentKind payload = ''UPI'' then ''UPI'' else if op_InstrumentKind payload = ''BANK'' then ''IMPS''
      else re_CorridorID e)"

text \<open>The connector and the corridor, from the router when it answers.\<close>

definition routed :: "relay_env \<Rightarrow> OutboxEvent \<Rightarrow> OutboxPayload \<Rightarrow> string \<times> string" where
  "routed e ev payload =
     (let corridor = default_corridor e payload
      in case re_route e of
           None \<Rightarrow> (re_ConnectorID e, corridor)
         | Some route \<Rightarrow> (case route \<lparr>ue_TenantID = oe_TenantID ev, ue_EntityID = oe_AggregateID ev, ue_Rail = corridor,
                                       ue_AmountMinor = amountMinorFromMajor e (op_Amount payload)\<rparr> of
               Inl _ \<Rightarrow> (re_ConnectorID e, corridor)
             | Inr dn \<Rightarrow> (if dn_ConnectorID dn = [] then re_ConnectorID e else dn_ConnectorID dn,
                          if dn_Rail dn = [] then corridor else dn_Rail dn)))"

definition new_dispatch :: "OutboxEvent \<Rightarrow> string \<Rightarrow> string \<times> string \<Rightarrow> Dispatch" where
  "new_dispatch ev dispatchID route =
     \<lparr>dp_DispatchID = dispatchID, dp_ContractID = oe_ContractID ev, dp_IntentID = oe_AggregateID ev,
      dp_TenantID = oe_TenantID ev, dp_TraceID = oe_TraceID ev, dp_ConnectorID = fst route, dp_CorridorID = snd route,
      dp_AttemptCount = 1, dp_Status = DispatchStatusPending, dp_ProviderIdempotencyKey = dispatchID,
      dp_GovernanceDecision = None, dp_GovernanceReasonCodes = [], dp_RetryClass = None,
      dp_NextDispatchAttemptAt = None, dp_ProviderAttemptID = None, dp_ProviderResponseStatus = None,
      dp_RequestFingerprint = None, dp_PayloadJSON = [], dp_CreatedAt = 0, dp_UpdatedAt = 0, dp_SentAt = None,
      dp_AckedAt = None\<rparr>"

definition resolved :: "DispatchStatus \<Rightarrow> bool" where
  "resolved st \<longleftrightarrow> st = DispatchStatusProviderAcked \<or> st = DispatchStatusFailedTerminal
     \<or> st = DispatchStatusRequiresManualReview"

text \<open>\<open>True\<close> lets the consumer commit the offset of the event.\<close>

definition redelivered :: "relay_env \<Rightarrow> Dispatch \<Rightarrow> OutboxPayload \<Rightarrow> bool rio" where
  "redelivered e d payload =
     (if resolved (dp_Status d) then returnE True
      else case (if dp_PayloadJSON d = [] then Some payload else re_parse e (dp_PayloadJSON d)) of
          None \<Rightarrow> returnE True
        | Some p \<Rightarrow> bindE (runSteps2to5 e d p) (\<lambda>_. returnE True))"

definition take_ownership :: "relay_env \<Rightarrow> OutboxEvent \<Rightarrow> OutboxPayload \<Rightarrow> bool rio" where
  "take_ownership e ev payload =
     bindE (draw_id e) (\<lambda>dispatchID.
     let d = new_dispatch ev dispatchID (routed e ev payload)
     in on_error (then_event e d
            (DispatchCreatedPayload dispatchID (dp_ConnectorID d) (dp_CorridorID d) 1 (carriers d))
            (InsertTx d (oe_Payload ev) (re_now e)))
          (\<lambda>_. returnE False)
          (\<lambda>_. bindE (runSteps2to5 e d payload) (\<lambda>_. returnE True)))"

definition dispatch_event :: "relay_env \<Rightarrow> OutboxEvent \<Rightarrow> OutboxPayload \<Rightarrow> bool rio" where
  "dispatch_event e ev payload =
     on_error (relay_query e (FindByContractAndAttempt (oe_ContractID ev) 1)) (\<lambda>_. returnE False) (\<lambda>found.
       case found of Some d \<Rightarrow> redelivered e d payload | None \<Rightarrow> take_ownership e ev payload)"

definition processEvent :: "relay_env \<Rightarrow> OutboxEvent \<Rightarrow> bool rio" where
  "processEvent e ev =
     (if oe_ContractID ev = [] \<or> oe_TraceID ev = [] \<or> oe_SchemaVersion ev = [] then returnE True
      else bindE (verifyDispatchPayloadHash e ev) (\<lambda>ok.
        if \<not> ok then returnE True
        else case re_parse e (oe_Payload ev) of
            None \<Rightarrow> returnE True
          | Some payload \<Rightarrow> dispatch_event e ev payload))"

section \<open>The sweepers\<close>

definition for_each :: "('a \<Rightarrow> unit rio) \<Rightarrow> 'a list \<Rightarrow> unit rio" where
  "for_each f xs = bindE (traverse f xs) (\<lambda>_. returnE ())"

definition retry_dispatch :: "relay_env \<Rightarrow> Dispatch \<Rightarrow> unit rio" where
  "retry_dispatch e d =
     (if dp_PayloadJSON d = [] then markFailedTerminal e d ''RETRY_SWEEPER_MISSING_PAYLOAD''
      else case re_parse e (dp_PayloadJSON d) of
          None \<Rightarrow> markFailedTerminal e d ''RETRY_SWEEPER_CORRUPT_PAYLOAD''
        | Some payload \<Rightarrow> runSteps2to5 e d payload)"

definition retry_sweep :: "relay_env \<Rightarrow> unit rio" where
  "retry_sweep e =
     on_error (relay_query e (FindRetryable (re_BatchSize e) (re_now e))) (\<lambda>_. returnE ()) (for_each (retry_dispatch e))"

text \<open>The sweeper's own \<open>atomicStep\<close> differs only in the text of an error, which is only log_error.\<close>

definition provider_terminal :: "string \<Rightarrow> bool" where
  "provider_terminal st \<longleftrightarrow> st = ''failed'' \<or> st = ''reversed'' \<or> st = ''cancelled''"

definition resolveViaQuery :: "relay_env \<Rightarrow> Dispatch \<Rightarrow> unit rio" where
  "resolveViaQuery e d =
     on_error (remote e (\<lambda>n. re_lookup e n (dp_ProviderIdempotencyKey d))) (\<lambda>_. returnE ()) (\<lambda>found.
       case found of
         Some resp \<Rightarrow>
           if \<not> provider_terminal (py_Status resp)
           then log_error (event_then e d (ProviderAckedPayload (dp_DispatchID d) (py_PayoutID resp) (py_Status resp) (re_now e))
                  (MarkProviderAckedTx (dp_DispatchID d) (py_PayoutID resp) (py_Status resp) (re_now e)))
           else markFailedTerminal e d (''PSP_TERMINAL:'' @ py_Status resp)
       | None \<Rightarrow>
           let nextAttempt = re_now e + retryBackoff (dp_AttemptCount d)
           in log_error (event_then e d (RetryScheduledPayload (dp_DispatchID d) RetryableAfterBackoff nextAttempt
                  (dp_AttemptCount d) ''CRASH_RECOVERY_NO_PSP_RECORD'')
                (MarkFailedRetryableTx (dp_DispatchID d) RetryableAfterBackoff nextAttempt (re_now e))))"

definition recoverSentDispatches :: "relay_env \<Rightarrow> unit rio" where
  "recoverSentDispatches e =
     on_error (relay_query e (FindSent (re_BatchSize e) (re_now e - seconds (re_SentTimeoutSecs e))))
       (\<lambda>_. returnE ()) (for_each (resolveViaQuery e))"

definition recoverAwaitingDispatches :: "relay_env \<Rightarrow> unit rio" where
  "recoverAwaitingDispatches e =
     on_error (relay_query e (FindAwaiting (re_BatchSize e) (re_now e - seconds (re_AwaitingTimeoutSecs e))))
       (\<lambda>_. returnE ()) (for_each (resolveViaQuery e))"

definition recovery_sweep :: "relay_env \<Rightarrow> unit rio" where
  "recovery_sweep e = bindE (recoverSentDispatches e) (\<lambda>_. recoverAwaitingDispatches e)"

text \<open>A new process starts with a closed breaker and no counters.\<close>

definition restart :: "relay_state \<Rightarrow> relay_state" where
  "restart m = m\<lparr>rs_cbFailures := 0, rs_cbOpenAt := 0, rs_recent := []\<rparr>"

end
