(* ===== verification/Triples.thy ===== *)
theory Triples
  imports Effects
begin

text \<open>
  Assertions about computations: \<open>triple P f Q\<close> says that \<open>f\<close>, started in a state that satisfies \<open>P\<close>,
  ends with an answer and a state that satisfy \<open>Q\<close>, whichever of its calls fail.  There is one rule
  for each way the services compose their steps.
\<close>

definition triple :: "('s \<Rightarrow> bool) \<Rightarrow> ('s, 'a) io \<Rightarrow> (string + 'a \<Rightarrow> 's \<Rightarrow> bool) \<Rightarrow> bool" where
  "triple P f Q \<longleftrightarrow> (\<forall>m n. P m \<longrightarrow> Q (fst (f (m, n))) (fst (snd (f (m, n)))))"

lemma tripleI:
  "(\<And>m n r m' n'. P m \<Longrightarrow> f (m, n) = (r, (m', n')) \<Longrightarrow> Q r m') \<Longrightarrow> triple P f Q"
  unfolding triple_def by (metis prod.collapse)

lemma tripleD: "triple P f Q \<Longrightarrow> P m \<Longrightarrow> f (m, n) = (r, (m', n')) \<Longrightarrow> Q r m'"
  unfolding triple_def by (metis fst_conv snd_conv)

lemma triple_conseq:
  assumes "triple P' f Q'" and "\<And>m. P m \<Longrightarrow> P' m" and "\<And>r m. Q' r m \<Longrightarrow> Q r m"
  shows "triple P f Q"
  using assms unfolding triple_def by blast

lemma triple_pre: "triple P' f Q \<Longrightarrow> (\<And>m. P m \<Longrightarrow> P' m) \<Longrightarrow> triple P f Q"
  by (erule triple_conseq)

lemma triple_returnE: "(\<And>m. P m \<Longrightarrow> Q (Inr x) m) \<Longrightarrow> triple P (returnE x) Q"
  by (simp add: triple_def returnE_def)

lemma triple_bindE:
  assumes "triple P f (\<lambda>r m. case r of Inl err \<Rightarrow> Q (Inl err) m | Inr x \<Rightarrow> R x m)" and "\<And>x. triple (R x) (g x) Q"
  shows "triple P (bindE f g) Q"
proof (rule tripleI)
  fix m n r m' n' assume "P m" and run: "bindE f g (m, n) = (r, (m', n'))"
  obtain a m1 n1 where f: "f (m, n) = (a, (m1, n1))" by (metis prod.collapse)
  show "Q r m'"
    using tripleD [OF assms(1) \<open>P m\<close> f] run f tripleD [OF assms(2)] by (cases a) (auto simp: bindE_def)
qed

lemma triple_on_error:
  assumes "triple P f (\<lambda>r m. case r of Inl err \<Rightarrow> H err m | Inr x \<Rightarrow> R x m)"
    and "\<And>err. triple (H err) (h err) Q" and "\<And>x. triple (R x) (g x) Q"
  shows "triple P (on_error f h g) Q"
proof (rule tripleI)
  fix m n r m' n' assume "P m" and run: "on_error f h g (m, n) = (r, (m', n'))"
  obtain a m1 n1 where f: "f (m, n) = (a, (m1, n1))" by (metis prod.collapse)
  show "Q r m'"
    using tripleD [OF assms(1) \<open>P m\<close> f] run f tripleD [OF assms(2)] tripleD [OF assms(3)]
    by (cases a) (auto simp: on_error_def)
qed

text \<open>The same for a first step that leaves the assertion alone.\<close>

lemma triple_bind_const:
  assumes "triple P f (\<lambda>_. P)" and "\<And>err m. P m \<Longrightarrow> Q (Inl err) m" and "\<And>x. triple P (g x) Q"
  shows "triple P (bindE f g) Q"
  by (rule triple_bindE [where R = "\<lambda>_. P", OF _ assms(3)], rule triple_conseq [OF assms(1)])
    (auto intro: assms(2) split: sum.split)

lemma triple_on_error_const:
  assumes "triple P f (\<lambda>_. P)" and "\<And>err. triple P (h err) Q" and "\<And>x. triple P (g x) Q"
  shows "triple P (on_error f h g) Q"
  by (rule triple_on_error [where H = "\<lambda>_. P" and R = "\<lambda>_. P", OF _ assms(2,3)], rule triple_conseq [OF assms(1)])
    (auto split: sum.split)

lemma triple_log_error: "triple P f (\<lambda>_. Q (Inr ())) \<Longrightarrow> triple P (log_error f) Q"
  by (simp add: triple_def log_error_def)

lemma triple_if:
  "(b \<Longrightarrow> triple P f Q) \<Longrightarrow> (\<not> b \<Longrightarrow> triple P g Q) \<Longrightarrow> triple P (if b then f else g) Q"
  by simp

text \<open>A loop: each element is handled in a state its predecessors have left.\<close>

lemma triple_traverse:
  assumes "\<And>x xs. triple (R (x # xs)) (f x) (\<lambda>_. R xs)" and "\<And>xs m. R xs m \<Longrightarrow> R [] m"
  shows "triple (R xs) (traverse f xs) (\<lambda>_. R [])"
proof (induction xs)
  case Nil
  show ?case by (simp add: triple_returnE)
next
  case (Cons x xs)
  have rest: "triple (R xs) (bindE (traverse f xs) (\<lambda>ys. returnE (y # ys))) (\<lambda>_. R [])" for y
    by (rule triple_bindE [OF triple_conseq [OF Cons.IH]]) (auto intro: triple_returnE split: sum.split)
  show ?case
    by (simp, rule triple_bindE [OF triple_conseq [OF assms(1)] rest]) (auto intro: assms(2) split: sum.split)
qed

end
