(* ===== verification/DispatchLaws.thy ===== *)
theory DispatchLaws
  imports DispatchLoop Triples
begin

text \<open>
  The contract of the dispatch loop.  The outbox of a dispatch is a run of the life cycle below that
  ends in the status of its row; every request to the provider repeats the one row of its contract
  and was announced by an \<open>AttemptSent\<close> event.  The invariant is carried through the steps of the
  code by the triples of \<open>Triples\<close>, for every pattern of failing calls.
\<close>

section \<open>The life cycle\<close>

fun is_created :: "event_payload \<Rightarrow> bool" where
  "is_created (DispatchCreatedPayload _ _ _ _ _) = True"
| "is_created _ = False"

fun is_sent :: "event_payload \<Rightarrow> bool" where
  "is_sent (AttemptSentPayload _ _ _ _ _ _) = True"
| "is_sent _ = False"

text \<open>Which statuses an event may lead to.\<close>

fun lifecycle :: "DispatchStatus \<Rightarrow> event_payload \<Rightarrow> DispatchStatus \<Rightarrow> bool" where
  "lifecycle s (DispatchCreatedPayload _ _ _ _ _) t = False"
| "lifecycle s (GovernanceEvaluatedPayload _ decision _) t =
     (\<not> resolved s \<and> t = (if s = DispatchStatusPending then governed_status decision else s))"
| "lifecycle s (AttemptSentPayload _ _ _ _ _ _) t = (sendable s \<and> t = DispatchStatusSent)"
| "lifecycle s (ProviderAckedPayload _ _ _ _) t = (s = DispatchStatusSent \<and> t = DispatchStatusProviderAcked)"
| "lifecycle s (AwaitingProviderSignalPayload _ _ _ _) t =
     (s = DispatchStatusSent \<and> t = DispatchStatusAwaitingProviderSignal)"
| "lifecycle s (RetryScheduledPayload _ _ _ _ _) t =
     ((s = DispatchStatusSent \<or> s = DispatchStatusAwaitingProviderSignal) \<and> t = DispatchStatusFailedRetryable)"
| "lifecycle s (DispatchFailedPayload _ _ _ _) t =
     (\<not> resolved s \<and> (t = DispatchStatusFailedRetryable \<or> t = DispatchStatusFailedTerminal))"

fun lifecycle_run :: "DispatchStatus \<Rightarrow> event_payload list \<Rightarrow> DispatchStatus \<Rightarrow> bool" where
  "lifecycle_run s [] t = (s = t)"
| "lifecycle_run s (ev # evs) t = (\<exists>u. lifecycle s ev u \<and> lifecycle_run u evs t)"

lemma lifecycle_run_snoc: "lifecycle_run s evs t \<Longrightarrow> lifecycle t ev u \<Longrightarrow> lifecycle_run s (evs @ [ev]) u"
  by (induction evs arbitrary: s) auto

lemma resolved_is_final: "resolved s \<Longrightarrow> \<not> lifecycle s ev t"
  by (cases ev) (auto simp: resolved_def sendable_def)

section \<open>The invariant\<close>

definition events_of :: "string \<Rightarrow> relay_db \<Rightarrow> event_payload list" where
  "events_of i db = map (\<lambda>r. rv_Payload (ro_Payload r)) (filter (\<lambda>r. ro_DispatchID r = i) (rb_outbox db))"

definition attempts :: "string \<Rightarrow> relay_db \<Rightarrow> nat" where
  "attempts i db = length (filter is_sent (events_of i db))"

definition sends :: "string \<Rightarrow> PayoutRequest list \<Rightarrow> nat" where
  "sends i calls = length (filter (\<lambda>q. pq_ReferenceID q = i) calls)"

definition explained :: "event_payload list \<Rightarrow> DispatchStatus \<Rightarrow> bool" where
  "explained evs st \<longleftrightarrow> (\<exists>created rest. evs = created # rest \<and> is_created created
     \<and> lifecycle_run DispatchStatusPending rest st)"

text \<open>The request a row stands for; \<open>parse\<close> and \<open>sscanf\<close> are the decoders of the deployment.\<close>

definition repeats :: "(string \<Rightarrow> OutboxPayload option) \<Rightarrow> (string \<Rightarrow> rat) \<Rightarrow> PayoutRequest \<Rightarrow> Dispatch \<Rightarrow> bool" where
  "repeats parse sscanf q d \<longleftrightarrow> pq_ReferenceID q = dp_DispatchID d \<and> pq_Narration q = ''ZRD:'' @ dp_ContractID d
     \<and> pq_Mode q = dp_CorridorID d
     \<and> (\<exists>p. parse (dp_PayloadJSON d) = Some p \<and> pq_Amount q = amountFromString sscanf (op_Amount p))"

definition relay_inv :: "(string \<Rightarrow> OutboxPayload option) \<Rightarrow> (string \<Rightarrow> rat) \<Rightarrow> relay_db \<Rightarrow> PayoutRequest list \<Rightarrow> bool" where
  "relay_inv parse sscanf db calls \<longleftrightarrow>
     distinct (map dp_DispatchID (rb_dispatches db)) \<and> distinct (map dp_ContractID (rb_dispatches db))
   \<and> (\<forall>d \<in> set (rb_dispatches db). dp_AttemptCount d = 1 \<and> dp_PayloadJSON d \<noteq> []
        \<and> explained (events_of (dp_DispatchID d) db) (dp_Status d)
        \<and> sends (dp_DispatchID d) calls \<le> attempts (dp_DispatchID d) db)
   \<and> (\<forall>q \<in> set calls. \<exists>d \<in> set (rb_dispatches db). repeats parse sscanf q d)
   \<and> (\<forall>r \<in> set (rb_outbox db). \<exists>d \<in> set (rb_dispatches db). ro_DispatchID r = dp_DispatchID d)"

definition inv_of :: "relay_env \<Rightarrow> relay_state \<Rightarrow> bool" where
  "inv_of e m \<longleftrightarrow> relay_inv (re_parse e) (re_sscanf e) (rs_db m) (rs_calls m)"

text \<open>What belongs to one dispatch.\<close>

definition view :: "string \<Rightarrow> relay_state \<Rightarrow> Dispatch list \<times> event_payload list \<times> PayoutRequest list" where
  "view i m = (filter (\<lambda>d. dp_DispatchID d = i) (rb_dispatches (rs_db m)), events_of i (rs_db m),
     filter (\<lambda>q. pq_ReferenceID q = i) (rs_calls m))"

definition frame :: "string \<Rightarrow> relay_state \<Rightarrow> relay_state \<Rightarrow> bool" where
  "frame i m0 m \<longleftrightarrow> (\<forall>j. j \<noteq> i \<longrightarrow> view j m = view j m0)"

lemma frame_refl [simp]: "frame i m m"
  by (simp add: frame_def)

lemma frame_trans: "frame i m0 m1 \<Longrightarrow> frame i m1 m2 \<Longrightarrow> frame i m0 m2"
  by (simp add: frame_def)

text \<open>A run works on a dispatch \<open>d\<close> whose row has one of the statuses \<open>S\<close>.\<close>

definition same_identity :: "Dispatch \<Rightarrow> Dispatch \<Rightarrow> bool" where
  "same_identity a b \<longleftrightarrow> dp_DispatchID a = dp_DispatchID b \<and> dp_ContractID a = dp_ContractID b
     \<and> dp_CorridorID a = dp_CorridorID b"

definition owned :: "relay_env \<Rightarrow> relay_state \<Rightarrow> Dispatch \<Rightarrow> string option \<Rightarrow> DispatchStatus set \<Rightarrow> relay_state \<Rightarrow> bool" where
  "owned e m0 d amount S m \<longleftrightarrow> inv_of e m \<and> frame (dp_DispatchID d) m0 m
     \<and> (\<exists>r \<in> set (rb_dispatches (rs_db m)). same_identity r d \<and> dp_Status r \<in> S
          \<and> map_option op_Amount (re_parse e (dp_PayloadJSON r)) = amount)"

definition surplus :: "Dispatch \<Rightarrow> relay_state \<Rightarrow> bool" where
  "surplus d m \<longleftrightarrow> sends (dp_DispatchID d) (rs_calls m) < attempts (dp_DispatchID d) (rs_db m)"

section \<open>One recorded step\<close>

text \<open>A statement that moves the row of one dispatch, at the statuses it admits.\<close>

definition keeps_row :: "(Dispatch \<Rightarrow> Dispatch) \<Rightarrow> bool" where
  "keeps_row g \<longleftrightarrow> (\<forall>r. same_identity (g r) r \<and> dp_AttemptCount (g r) = dp_AttemptCount r
     \<and> dp_PayloadJSON (g r) = dp_PayloadJSON r)"

definition moves :: "string \<Rightarrow> event_payload \<Rightarrow> DispatchStatus set \<Rightarrow> DispatchStatus set
    \<Rightarrow> (relay_db \<Rightarrow> string + unit \<times> relay_db) \<Rightarrow> bool" where
  "moves i p S T f \<longleftrightarrow> (\<forall>db r. distinct (map dp_DispatchID (rb_dispatches db)) \<longrightarrow> r \<in> set (rb_dispatches db)
     \<longrightarrow> dp_DispatchID r = i \<longrightarrow> dp_Status r \<in> S \<longrightarrow>
       (\<exists>err. f db = Inl err)
     \<or> (\<exists>admits g. f db = Inr ((), update_dispatch i admits g db) \<and> keeps_row g
          \<and> lifecycle (dp_Status r) p (dp_Status (if admits (dp_Status r) then g r else r))
          \<and> dp_Status (if admits (dp_Status r) then g r else r) \<in> T))"

definition with_event :: "relay_event \<Rightarrow> time \<Rightarrow> relay_db \<Rightarrow> relay_db" where
  "with_event ev now db = db\<lparr>rb_outbox := rb_outbox db @ [\<lparr>ro_EventID = rv_EventID ev, ro_EventType = rv_EventType ev,
     ro_DispatchID = rv_DispatchID ev, ro_ContractID = rv_ContractID ev, ro_IntentID = rv_IntentID ev,
     ro_TenantID = rv_TenantID ev, ro_TraceID = rv_TraceID ev, ro_Payload = ev, ro_Status = OutboxPending,
     ro_RetryCount = 0, ro_CreatedAt = now, ro_PublishedAt = None\<rparr>]\<rparr>"

definition fresh_event :: "string \<Rightarrow> relay_db \<Rightarrow> bool" where
  "fresh_event i db \<longleftrightarrow> i \<notin> ro_EventID ` set (rb_outbox db)"

lemma EnqueueTx_run:
  assumes "EnqueueTx ev now db = Inr (x, db')"
  shows "db' = with_event ev now db" and "fresh_event (rv_EventID ev) db"
  using assms by (auto simp: EnqueueTx_def with_event_def fresh_event_def list_ex_iff split: if_splits)

lemma with_event_dispatches [simp]: "rb_dispatches (with_event ev now db) = rb_dispatches db"
  by (simp add: with_event_def)

lemma events_of_with_event:
  "events_of i (with_event ev now db) = events_of i db @ (if rv_DispatchID ev = i then [rv_Payload ev] else [])"
  by (simp add: events_of_def with_event_def)

lemma update_with_event: "update_dispatch i admits g (with_event ev now db) = with_event ev now (update_dispatch i admits g db)"
  by (simp add: update_dispatch_def with_event_def)

lemma events_of_update [simp]: "events_of j (update_dispatch i admits g db) = events_of j db"
  by (simp add: events_of_def update_dispatch_def)

lemma event_for_simps [simp]:
  "rv_DispatchID (event_for e k d p) = dp_DispatchID d" "rv_Payload (event_for e k d p) = p"
  "rv_EventID (event_for e k d p) = k"
  by (simp_all add: event_for_def)

text \<open>The row that changes is the only one of its dispatch, so every other view stays.\<close>

lemma same_identityD:
  "same_identity a b \<Longrightarrow> dp_DispatchID a = dp_DispatchID b" "same_identity a b \<Longrightarrow> dp_ContractID a = dp_ContractID b"
  "same_identity a b \<Longrightarrow> dp_CorridorID a = dp_CorridorID b"
  by (simp_all add: same_identity_def)

lemma repeats_cong:
  "same_identity a b \<Longrightarrow> dp_PayloadJSON a = dp_PayloadJSON b \<Longrightarrow> repeats ps sc q a = repeats ps sc q b"
  by (simp add: repeats_def same_identity_def)

lemma filter_map_keep:
  assumes "\<And>x. x \<in> set xs \<Longrightarrow> P (h x) = P x" and "\<And>x. x \<in> set xs \<Longrightarrow> P x \<Longrightarrow> h x = x"
  shows "filter P (map h xs) = filter P xs"
  using assms by (induction xs) auto

lemma distinct_key: "distinct (map k xs) \<Longrightarrow> x \<in> set xs \<Longrightarrow> y \<in> set xs \<Longrightarrow> k x = k y \<Longrightarrow> x = y"
  by (induction xs) (auto simp: image_iff)

lemma recorded_owned:
  assumes own: "owned e m0 d amount S m" and ev: "rv_DispatchID ev = dp_DispatchID d" "rv_Payload ev = p"
    and row: "r \<in> set (rb_dispatches (rs_db m))" "dp_DispatchID r = dp_DispatchID d" and g: "keeps_row g"
    and life: "lifecycle (dp_Status r) p (dp_Status (if admits (dp_Status r) then g r else r))"
    and T: "dp_Status (if admits (dp_Status r) then g r else r) \<in> T"
  shows "owned e m0 d amount T (m\<lparr>rs_db := with_event ev now (update_dispatch (dp_DispatchID d) admits g (rs_db m)), rs_ids := k\<rparr>)"
proof -
  let ?i = "dp_DispatchID d" and ?ds = "rb_dispatches (rs_db m)"
  define h where "h = (\<lambda>x. if dp_DispatchID x = ?i \<and> admits (dp_Status x) then g x else x)"
  define db where "db = with_event ev now (update_dispatch ?i admits g (rs_db m))"
  have ds: "rb_dispatches db = map h ?ds" by (simp add: db_def update_dispatch_def h_def)
  have evs: "events_of j db = events_of j (rs_db m) @ (if j = ?i then [p] else [])" for j
    by (simp add: db_def events_of_with_event ev eq_commute)
  have out: "ro_DispatchID o' \<in> insert ?i (ro_DispatchID ` set (rb_outbox (rs_db m)))" if "o' \<in> set (rb_outbox db)" for o'
    using that by (auto simp: db_def with_event_def update_dispatch_def ev)
  have h: "same_identity (h x) x" "dp_AttemptCount (h x) = dp_AttemptCount x" "dp_PayloadJSON (h x) = dp_PayloadJSON x" for x
    using g by (simp_all add: h_def keeps_row_def same_identity_def)
  note hid = same_identityD [OF h(1)]
  have inv: "inv_of e m" and fr: "frame ?i m0 m" using own by (simp_all add: owned_def)
  have dist: "distinct (map dp_DispatchID ?ds)" "distinct (map dp_ContractID ?ds)"
    and rows: "\<And>x. x \<in> set ?ds \<Longrightarrow> dp_AttemptCount x = 1 \<and> dp_PayloadJSON x \<noteq> []
        \<and> explained (events_of (dp_DispatchID x) (rs_db m)) (dp_Status x)
        \<and> sends (dp_DispatchID x) (rs_calls m) \<le> attempts (dp_DispatchID x) (rs_db m)"
    and calls: "\<forall>q \<in> set (rs_calls m). \<exists>x \<in> set ?ds. repeats (re_parse e) (re_sscanf e) q x"
    and outs: "\<forall>o' \<in> set (rb_outbox (rs_db m)). \<exists>x \<in> set ?ds. ro_DispatchID o' = dp_DispatchID x"
    using inv by (simp_all add: inv_of_def relay_inv_def)
  have hr: "h r = (if admits (dp_Status r) then g r else r)" using row(2) by (simp add: h_def)
  have only: "x = r" if "x \<in> set ?ds" "dp_DispatchID x = ?i" for x
    using distinct_key [OF dist(1)] that row by metis
  have other: "h x = x" if "dp_DispatchID x \<noteq> ?i" for x using that by (simp add: h_def)
  have rowok: "dp_AttemptCount (h x) = 1 \<and> dp_PayloadJSON (h x) \<noteq> []
        \<and> explained (events_of (dp_DispatchID (h x)) db) (dp_Status (h x))
        \<and> sends (dp_DispatchID (h x)) (rs_calls m) \<le> attempts (dp_DispatchID (h x)) db" if x: "x \<in> set ?ds" for x
  proof (cases "dp_DispatchID x = ?i")
    case True
    then have "x = r" using only x by blast
    obtain c rest where c: "events_of ?i (rs_db m) = c # rest" "is_created c" "lifecycle_run DispatchStatusPending rest (dp_Status r)"
      using rows [OF row(1)] row(2) by (auto simp: explained_def)
    have "explained (events_of ?i db) (dp_Status (h r))"
      unfolding explained_def using c lifecycle_run_snoc [OF c(3) life] hr by (auto simp: evs)
    moreover have "attempts ?i (rs_db m) \<le> attempts ?i db" by (simp add: attempts_def evs)
    moreover have "dp_DispatchID (h x) = ?i" using True hid(1) [of x] by simp
    moreover have "sends ?i (rs_calls m) \<le> attempts ?i (rs_db m)" using rows [OF x] True by simp
    ultimately show ?thesis using rows [OF x] h(2,3) [of x] \<open>x = r\<close> by simp
  next
    case False
    then show ?thesis using rows [OF x] other [OF False] by (simp add: evs attempts_def)
  qed
  have "inv_of e (m\<lparr>rs_db := db, rs_ids := k\<rparr>)"
    unfolding inv_of_def relay_inv_def
  proof (intro conjI, goal_cases)
    case 1
    have "map dp_DispatchID (rb_dispatches db) = map dp_DispatchID ?ds" by (simp add: ds hid)
    then show ?case using dist(1) by simp
  next
    case 2
    have "map dp_ContractID (rb_dispatches db) = map dp_ContractID ?ds" by (simp add: ds hid)
    then show ?case using dist(2) by simp
  next
    case 3
    show ?case using rowok by (simp add: ds)
  next
    case 4
    show ?case using calls repeats_cong [OF h(1) h(3)] by (simp add: ds)
  next
    case 5
    have "\<exists>x \<in> set ?ds. ro_DispatchID o' = dp_DispatchID (h x)" if "o' \<in> set (rb_outbox db)" for o'
    proof (cases "ro_DispatchID o' = ?i")
      case True
      then show ?thesis using row hid(1) by metis
    next
      case False
      then show ?thesis using out [OF that] outs hid(1) by force
    qed
    then show ?case by (simp add: ds)
  qed
  moreover have "frame ?i m0 (m\<lparr>rs_db := db, rs_ids := k\<rparr>)"
    unfolding frame_def
  proof (intro allI impI)
    fix j assume "j \<noteq> ?i"
    then have "filter (\<lambda>x. dp_DispatchID x = j) (map h ?ds) = filter (\<lambda>x. dp_DispatchID x = j) ?ds"
      by (intro filter_map_keep) (simp_all add: hid(1) other)
    then show "view j (m\<lparr>rs_db := db, rs_ids := k\<rparr>) = view j m0"
      using fr \<open>j \<noteq> ?i\<close> by (simp add: frame_def view_def ds evs)
  qed
  moreover have "h r \<in> set (rb_dispatches db)" using row(1) by (simp add: ds)
  moreover have "\<exists>r' \<in> set ?ds. same_identity r' d \<and> map_option op_Amount (re_parse e (dp_PayloadJSON r')) = amount"
    using own by (auto simp: owned_def)
  then have "same_identity r d" "map_option op_Amount (re_parse e (dp_PayloadJSON r)) = amount"
    using only same_identityD(1) by metis+
  then have "same_identity (h r) d" "map_option op_Amount (re_parse e (dp_PayloadJSON (h r))) = amount"
    using hid h(3) by (auto simp: same_identity_def)
  ultimately show ?thesis
    unfolding owned_def db_def [symmetric] using T hr by auto
qed

lemma owned_cong:
  assumes "rs_db m = rs_db m'" and "rs_calls m = rs_calls m'"
  shows "owned e m0 d a S m = owned e m0 d a S m'" and "surplus d m = surplus d m'" and "inv_of e m = inv_of e m'"
    and "frame i m0 m = frame i m0 m'"
  using assms by (simp_all add: owned_def inv_of_def frame_def view_def surplus_def)

section \<open>The steps of a run\<close>

lemma relay_query_run:
  assumes "relay_query e f (m, n) = (r, (m', n'))"
  shows "m' = m \<and> (\<forall>x. r = Inr x \<longrightarrow> x = f (rs_db m))"
  using assms by (auto simp: relay_query_def relay_exec_def split: option.splits)

lemma atomicStep_run:
  assumes "atomicStep e body (m, n) = (r, (m', n'))"
    and body: "\<And>k r m1 k'. body (m, k) = (r, (m1, k')) \<Longrightarrow> m1\<lparr>rs_db := rs_db m\<rparr> = m"
  obtains (failed) err where "r = Inl err" "m' = m"
  | (committed) x k k' where "r = Inr x" "body (m, k) = (Inr x, (m', k'))"
proof -
  obtain r0 m1 n1 where q: "relay_query e (\<lambda>_. ()) (m, n) = (r0, (m1, n1))" by (metis prod.collapse)
  then have m1: "m1 = m" using relay_query_run [OF q] by simp
  show thesis
  proof (cases r0)
    case (Inl err)
    then show thesis using assms(1) q m1 by (intro failed) (auto simp: atomicStep_def bindE_def wrapE_def)
  next
    case (Inr u)
    obtain b m2 n2 where b: "body (m, n1) = (b, (m2, n2))" by (metis prod.collapse)
    show thesis
    proof (cases b)
      case (Inl err)
      then show thesis using assms(1) q m1 Inr b body [OF b]
        by (intro failed) (auto simp: atomicStep_def bindE_def wrapE_def relay_tx_def)
    next
      case body_ok: (Inr x)
      obtain c m3 n3 where c: "relay_query e (\<lambda>_. ()) (m2, n2) = (c, (m3, n3))" by (metis prod.collapse)
      then have m3: "m3 = m2" using relay_query_run [OF c] by simp
      show thesis
      proof (cases c)
        case (Inl err)
        then show thesis using assms(1) q m1 Inr b body_ok c m3 body [OF b]
          by (intro failed) (auto simp: atomicStep_def bindE_def wrapE_def relay_tx_def)
      next
        case commit: (Inr u')
        then have "r = Inr x" "m' = m2"
          using assms(1) q m1 Inr b body_ok c m3
          by (auto simp: atomicStep_def bindE_def wrapE_def relay_tx_def returnE_def)
        then show thesis using committed b body_ok by simp
      qed
    qed
  qed
qed

text \<open>The two orders of a recorded step come to the same database.\<close>

lemma two_statements:
  assumes "bindE (relay_exec e f) (\<lambda>_. relay_exec e g) (m, n) = (r, (m', n'))"
  shows "m'\<lparr>rs_db := rs_db m\<rparr> = m"
    and "r = Inr y \<Longrightarrow> \<exists>x db1 db2. f (rs_db m) = Inr (x, db1) \<and> g db1 = Inr (y, db2) \<and> m' = m\<lparr>rs_db := db2\<rparr>"
  using assms by (auto simp: bindE_def relay_exec_def split: option.splits sum.splits prod.splits if_splits)

lemma draw_id_run: "draw_id e (m, n) = (Inr (re_uuid e (rs_ids m)), (m\<lparr>rs_ids := Suc (rs_ids m)\<rparr>, n))"
  by (simp add: draw_id_def modify_def)

definition booked :: "relay_env \<Rightarrow> relay_state \<Rightarrow> Dispatch \<Rightarrow> event_payload
    \<Rightarrow> (relay_db \<Rightarrow> string + unit \<times> relay_db) \<Rightarrow> string + unit \<Rightarrow> relay_state \<Rightarrow> bool" where
  "booked e m d p f r m' \<longleftrightarrow>
     (\<exists>err k. r = Inl err \<and> m' = m\<lparr>rs_ids := k\<rparr>)
   \<or> (\<exists>i k db. r = Inr () \<and> m' = m\<lparr>rs_ids := k, rs_db := db\<rparr>
        \<and> (fresh_event i (rs_db m) \<and> f (with_event (event_for e i d p) (re_now e) (rs_db m)) = Inr ((), db)
          \<or> (\<exists>db1. f (rs_db m) = Inr ((), db1) \<and> fresh_event i db1 \<and> db = with_event (event_for e i d p) (re_now e) db1)))"

lemma event_then_run:
  assumes "event_then e d p f (m, n) = (r, (m', n'))"
  shows "booked e m d p f r m'"
proof -
  let ?i = "re_uuid e (rs_ids m)" and ?m = "m\<lparr>rs_ids := Suc (rs_ids m)\<rparr>"
  let ?ev = "event_for e ?i d p"
  let ?body = "bindE (relay_exec e (EnqueueTx ?ev (re_now e))) (\<lambda>_. relay_exec e f)"
  have run: "atomicStep e ?body (?m, n) = (r, (m', n'))"
    using assms by (simp add: event_then_def bindE_def draw_id_run)
  show ?thesis
  proof (cases rule: atomicStep_run [OF run two_statements(1)])
    case (2 err)
    then show ?thesis by (auto simp: booked_def)
  next
    case (3 x k k')
    obtain y db1 db2 where "EnqueueTx ?ev (re_now e) (rs_db m) = Inr (y, db1)" "f db1 = Inr (x, db2)" "m' = ?m\<lparr>rs_db := db2\<rparr>"
      using two_statements(2) [OF 3(2) refl] by auto
    then show ?thesis using 3(1) EnqueueTx_run [of ?ev "re_now e" "rs_db m" y db1] by (auto simp: booked_def)
  qed
qed

lemma then_event_run:
  assumes "then_event e d p f (m, n) = (r, (m', n'))"
  shows "booked e m d p f r m'"
proof -
  let ?i = "re_uuid e (rs_ids m)" and ?m = "m\<lparr>rs_ids := Suc (rs_ids m)\<rparr>"
  let ?ev = "event_for e ?i d p"
  let ?body = "bindE (relay_exec e f) (\<lambda>_. relay_exec e (EnqueueTx ?ev (re_now e)))"
  have run: "atomicStep e ?body (?m, n) = (r, (m', n'))"
    using assms by (simp add: then_event_def bindE_def draw_id_run)
  show ?thesis
  proof (cases rule: atomicStep_run [OF run two_statements(1)])
    case (2 err)
    then show ?thesis by (auto simp: booked_def)
  next
    case (3 x k k')
    obtain y db1 db2 where "f (rs_db m) = Inr (y, db1)" "EnqueueTx ?ev (re_now e) db1 = Inr (x, db2)" "m' = ?m\<lparr>rs_db := db2\<rparr>"
      using two_statements(2) [OF 3(2) refl] by auto
    then show ?thesis using 3(1) EnqueueTx_run [of ?ev "re_now e" db1 x db2] by (auto simp: booked_def)
  qed
qed

lemma recorded_step:
  assumes rec: "booked e m d p f r m'" and own: "owned e m0 d a S m" and mv: "moves (dp_DispatchID d) p S T f"
  shows "case r of Inl _ \<Rightarrow> owned e m0 d a S m'
    | Inr _ \<Rightarrow> owned e m0 d a T m' \<and> (is_sent p \<longrightarrow> surplus d m')"
proof (cases r)
  case (Inl err)
  then have "rs_db m' = rs_db m" "rs_calls m' = rs_calls m" using rec by (auto simp: booked_def)
  then show ?thesis using own Inl owned_cong(1) by (metis (full_types) old.sum.simps(5))
next
  case (Inr u)
  let ?i = "dp_DispatchID d"
  obtain row where row: "row \<in> set (rb_dispatches (rs_db m))" "same_identity row d" "dp_Status row \<in> S"
    using own by (auto simp: owned_def)
  have id: "dp_DispatchID row = ?i" using same_identityD(1) [OF row(2)] .
  have inv: "inv_of e m" using own by (simp add: owned_def)
  then have dist: "distinct (map dp_DispatchID (rb_dispatches (rs_db m)))" by (simp add: inv_of_def relay_inv_def)
  have rowinv: "sends ?i (rs_calls m) \<le> attempts ?i (rs_db m)"
    using inv row(1) id by (auto simp: inv_of_def relay_inv_def)
  obtain i k db where m': "m' = m\<lparr>rs_ids := k, rs_db := db\<rparr>"
    and db: "f (with_event (event_for e i d p) (re_now e) (rs_db m)) = Inr ((), db)
        \<or> (\<exists>db1. f (rs_db m) = Inr ((), db1) \<and> db = with_event (event_for e i d p) (re_now e) db1)"
    using rec Inr by (auto simp: booked_def)
  let ?ev = "event_for e i d p"
  obtain admits g where g: "db = with_event ?ev (re_now e) (update_dispatch ?i admits g (rs_db m))" "keeps_row g"
      "lifecycle (dp_Status row) p (dp_Status (if admits (dp_Status row) then g row else row))"
      "dp_Status (if admits (dp_Status row) then g row else row) \<in> T"
  proof -
    from db show thesis
    proof
      assume f: "f (with_event ?ev (re_now e) (rs_db m)) = Inr ((), db)"
      show thesis
        using mv [unfolded moves_def, rule_format, of "with_event ?ev (re_now e) (rs_db m)" row] dist row id f
        by (auto simp: update_with_event intro: that)
    next
      assume "\<exists>db1. f (rs_db m) = Inr ((), db1) \<and> db = with_event ?ev (re_now e) db1"
      then show thesis
        using mv [unfolded moves_def, rule_format, of "rs_db m" row] dist row id by (auto intro: that)
    qed
  qed
  have "owned e m0 d a T (m\<lparr>rs_db := db, rs_ids := k\<rparr>)"
    unfolding g(1)
    by (rule recorded_owned [where ev = ?ev and r = row and g = g and admits = admits and p = p, OF own _ _ row(1) id g(2) g(3) g(4)]) simp_all
  moreover have "surplus d (m\<lparr>rs_db := db, rs_ids := k\<rparr>)" if "is_sent p"
    using rowinv that by (simp add: surplus_def attempts_def g(1) events_of_with_event)
  moreover have "m' = m\<lparr>rs_db := db, rs_ids := k\<rparr>" using m' by simp
  ultimately show ?thesis using Inr by simp
qed

lemma event_then_triple:
  assumes "moves (dp_DispatchID d) p S T f"
  shows "triple (owned e m0 d a S) (event_then e d p f)
    (\<lambda>r m. case r of Inl _ \<Rightarrow> owned e m0 d a S m | Inr _ \<Rightarrow> owned e m0 d a T m \<and> (is_sent p \<longrightarrow> surplus d m))"
  by (rule tripleI) (rule recorded_step [OF event_then_run _ assms])

lemma then_event_triple:
  assumes "moves (dp_DispatchID d) p S T f"
  shows "triple (owned e m0 d a S) (then_event e d p f)
    (\<lambda>r m. case r of Inl _ \<Rightarrow> owned e m0 d a S m | Inr _ \<Rightarrow> owned e m0 d a T m \<and> (is_sent p \<longrightarrow> surplus d m))"
  by (rule tripleI) (rule recorded_step [OF then_event_run _ assms])

section \<open>The statements move along the life cycle\<close>

definition unresolved :: "DispatchStatus set" where
  "unresolved = {st. \<not> resolved st}"

definition governed :: "GovernanceDecision \<Rightarrow> DispatchStatus \<Rightarrow> DispatchStatus" where
  "governed decision st = (if st = DispatchStatusPending then governed_status decision else st)"

lemma governed_allow [simp]: "governed GovernanceAllow ` S = S"
  by (auto simp: governed_def image_iff)

named_theorems moves_intros \<open>statements that follow the life cycle\<close>

lemma movesI:
  assumes "\<And>db r. r \<in> set (rb_dispatches db) \<Longrightarrow> dp_DispatchID r = i \<Longrightarrow> dp_Status r \<in> S \<Longrightarrow>
      (\<exists>err. f db = Inl err) \<or> f db = Inr ((), update_dispatch i admits g db) \<and> (row_admits i admits db \<or> admits (dp_Status r))"
    and "keeps_row g" and "\<And>r. dp_Status r \<in> S \<Longrightarrow> admits (dp_Status r) \<Longrightarrow>
      lifecycle (dp_Status r) p (dp_Status (g r)) \<and> dp_Status (g r) \<in> T"
  shows "moves i p S T f"
  unfolding moves_def
proof (intro allI impI)
  fix db :: relay_db and r :: Dispatch
  assume d: "distinct (map dp_DispatchID (rb_dispatches db))" and r: "r \<in> set (rb_dispatches db)"
    "dp_DispatchID r = i" "dp_Status r \<in> S"
  have "admits (dp_Status r)" if "row_admits i admits db"
    using that distinct_key [OF d r(1)] r(2) unfolding row_admits_def list_ex_iff by metis
  then show "(\<exists>err. f db = Inl err) \<or> (\<exists>admits g. f db = Inr ((), update_dispatch i admits g db) \<and> keeps_row g
          \<and> lifecycle (dp_Status r) p (dp_Status (if admits (dp_Status r) then g r else r))
          \<and> dp_Status (if admits (dp_Status r) then g r else r) \<in> T)"
    using assms(1) [OF r] assms(2) assms(3) [OF r(3)] by (metis (full_types))
qed

lemma moves_sent [moves_intros]:
  "moves i (AttemptSentPayload a b c k t cs) S {DispatchStatusSent} (MarkSentTx i key fp now)"
  by (rule movesI [where admits = sendable and g = "\<lambda>d. d\<lparr>dp_Status := DispatchStatusSent, dp_SentAt := Some now,
      dp_UpdatedAt := now, dp_ProviderIdempotencyKey := key, dp_RequestFingerprint := Some fp\<rparr>"])
    (auto simp: MarkSentTx_def keeps_row_def same_identity_def)

lemma moves_acked [moves_intros]:
  "moves i (ProviderAckedPayload a b c t) S {DispatchStatusProviderAcked} (MarkProviderAckedTx i att st now)"
  by (rule movesI [where admits = "\<lambda>s. s = DispatchStatusSent" and g = "\<lambda>d. d\<lparr>dp_Status := DispatchStatusProviderAcked,
      dp_ProviderAttemptID := Some att, dp_ProviderResponseStatus := Some st, dp_AckedAt := Some now, dp_UpdatedAt := now\<rparr>"])
    (auto simp: MarkProviderAckedTx_def keeps_row_def same_identity_def)

lemma moves_awaiting [moves_intros]:
  "moves i (AwaitingProviderSignalPayload a b c t) {DispatchStatusSent} {DispatchStatusAwaitingProviderSignal}
     (MarkAwaitingProviderSignalTx i now)"
  by (rule movesI [where admits = "\<lambda>_. True" and g = "\<lambda>d. d\<lparr>dp_Status := DispatchStatusAwaitingProviderSignal,
      dp_RetryClass := Some WaitForSignal, dp_UpdatedAt := now\<rparr>"])
    (auto simp: MarkAwaitingProviderSignalTx_def keeps_row_def same_identity_def)

lemma moves_retryable [moves_intros]:
  assumes "S \<subseteq> unresolved"
  shows "moves i (DispatchFailedPayload a k r t) S {DispatchStatusFailedRetryable} (MarkFailedRetryableTx i rc next now)"
  by (rule movesI [where admits = "\<lambda>_. True" and g = "\<lambda>d. d\<lparr>dp_Status := DispatchStatusFailedRetryable,
      dp_RetryClass := Some rc, dp_NextDispatchAttemptAt := Some next, dp_UpdatedAt := now\<rparr>"])
    (use assms in \<open>auto simp: MarkFailedRetryableTx_def keeps_row_def same_identity_def unresolved_def\<close>)

lemma moves_scheduled [moves_intros]:
  assumes "S \<subseteq> {DispatchStatusSent, DispatchStatusAwaitingProviderSignal}"
  shows "moves i (RetryScheduledPayload a rc' t k r) S {DispatchStatusFailedRetryable} (MarkFailedRetryableTx i rc next now)"
  by (rule movesI [where admits = "\<lambda>_. True" and g = "\<lambda>d. d\<lparr>dp_Status := DispatchStatusFailedRetryable,
      dp_RetryClass := Some rc, dp_NextDispatchAttemptAt := Some next, dp_UpdatedAt := now\<rparr>"])
    (use assms in \<open>auto simp: MarkFailedRetryableTx_def keeps_row_def same_identity_def\<close>)

lemma moves_terminal [moves_intros]:
  assumes "S \<subseteq> unresolved"
  shows "moves i (DispatchFailedPayload a k r t) S {DispatchStatusFailedTerminal} (MarkFailedTerminalTx i now)"
  by (rule movesI [where admits = "\<lambda>_. True" and g = "\<lambda>d. d\<lparr>dp_Status := DispatchStatusFailedTerminal,
      dp_RetryClass := Some NeverRetry, dp_UpdatedAt := now\<rparr>"])
    (use assms in \<open>auto simp: MarkFailedTerminalTx_def keeps_row_def same_identity_def unresolved_def\<close>)

text \<open>The governance record leaves a row alone that is not pending.\<close>

lemma moves_governed [moves_intros]:
  assumes "S \<subseteq> unresolved"
  shows "moves i (GovernanceEvaluatedPayload a decision cs) S (governed decision ` S) (MarkGovernanceDecisionTx i decision codes now)"
proof -
  let ?g = "\<lambda>d. d\<lparr>dp_GovernanceDecision := Some decision, dp_GovernanceReasonCodes := codes,
      dp_Status := governed_status decision, dp_UpdatedAt := now\<rparr>"
  have g: "keeps_row ?g" by (simp add: keeps_row_def same_identity_def)
  show ?thesis
    unfolding moves_def MarkGovernanceDecisionTx_def
  proof (intro allI impI disjI2 exI [of _ "\<lambda>st. st = DispatchStatusPending"] exI [of _ ?g] conjI refl g, goal_cases)
    case (1 db r)
    then show ?case using assms by (auto simp: unresolved_def)
  next
    case (2 db r)
    then show ?case by (auto simp: governed_def image_iff)
  qed
qed

section \<open>A run\<close>

lemma owned_mono: "owned e m0 d a S m \<Longrightarrow> S \<subseteq> T \<Longrightarrow> owned e m0 d a T m"
  by (auto simp: owned_def)

lemma log_event_then:
  assumes "moves (dp_DispatchID d) p S T f"
  shows "triple (owned e m0 d a S) (log_error (event_then e d p f)) (\<lambda>_. owned e m0 d a (S \<union> T))"
proof (rule triple_log_error, rule triple_conseq [OF event_then_triple [OF assms]])
  fix r m
  assume "case r of Inl _ \<Rightarrow> owned e m0 d a S m | Inr _ \<Rightarrow> owned e m0 d a T m \<and> (is_sent p \<longrightarrow> surplus d m)"
  then show "owned e m0 d a (S \<union> T) m"
    using owned_mono [of e m0 d a S m "S \<union> T"] owned_mono [of e m0 d a T m "S \<union> T"] by (cases r) simp_all
qed

text \<open>Reads and changes of the memory leave the database alone.\<close>

lemma relay_query_triple: "triple (owned e' m0 d a S) (relay_query e f) (\<lambda>_. owned e' m0 d a S)"
  by (rule tripleI, drule relay_query_run, simp)

lemma modify_triple:
  assumes "\<And>m. rs_db (snd (f m)) = rs_db m" and "\<And>m. rs_calls (snd (f m)) = rs_calls m"
  shows "triple (owned e m0 d a S) (modify f) (\<lambda>_. owned e m0 d a S)"
proof (rule tripleI)
  fix m n r m' n' assume own: "owned e m0 d a S m" and run: "modify f (m, n) = (r, (m', n'))"
  from run have "m' = snd (f m)" by (simp add: modify_def)
  then show "owned e m0 d a S m'" using own owned_cong(1) [of "snd (f m)" m] assms by simp
qed

lemma remote_triple: "triple P (remote e f) (\<lambda>_. P)"
  by (simp add: triple_def remote_def split: option.split)

lemma stored_attempt_triple: "triple (owned e m0 d a S) (stored_attempt e d) (\<lambda>_. owned e m0 d a S)"
  unfolding stored_attempt_def
  by (intro triple_on_error_const relay_query_triple triple_returnE)

lemma markFailedRetryable_triple:
  assumes "S \<subseteq> unresolved"
  shows "triple (owned e m0 d a S) (markFailedRetryable e d rc code reason)
    (\<lambda>_. owned e m0 d a (S \<union> {DispatchStatusFailedRetryable}))"
  unfolding markFailedRetryable_def
  by (intro triple_bind_const stored_attempt_triple log_event_then moves_retryable assms) (auto intro: owned_mono)

lemma markFailedTerminal_triple:
  assumes "S \<subseteq> unresolved"
  shows "triple (owned e m0 d a S) (markFailedTerminal e d reason) (\<lambda>_. owned e m0 d a (S \<union> {DispatchStatusFailedTerminal}))"
  unfolding markFailedTerminal_def by (rule log_event_then [OF moves_terminal [OF assms]])

lemma markAwaiting_triple:
  "triple (owned e m0 d a {DispatchStatusSent}) (markAwaitingProviderSignal e d reason)
    (\<lambda>_. owned e m0 d a ({DispatchStatusSent} \<union> {DispatchStatusAwaitingProviderSignal}))"
  unfolding markAwaitingProviderSignal_def by (rule log_event_then [OF moves_awaiting])

lemma report_triple: "triple (owned e m0 d a S) (reportRouterOutcome e' d' ok cl) (\<lambda>_. owned e m0 d a S)"
  unfolding reportRouterOutcome_def
  by (intro triple_if triple_returnE triple_on_error_const remote_triple modify_triple) simp_all


text \<open>The one step that talks to the provider: a request that repeats its row, on a spare announcement.\<close>

lemma call_owned:
  assumes own: "owned e m0 d a {DispatchStatusSent} m" and spare: "surplus d m" and p: "a = Some (op_Amount payload)"
  shows "owned e m0 d a {DispatchStatusSent} (m\<lparr>rs_calls := rs_calls m @ [payout_request e d payload clear]\<rparr>)"
    (is "owned _ _ _ _ _ ?m")
proof -
  let ?q = "payout_request e d payload clear" and ?i = "dp_DispatchID d"
  have inv: "inv_of e m" and fr: "frame ?i m0 m" using own by (simp_all add: owned_def)
  obtain r where r: "r \<in> set (rb_dispatches (rs_db m))" "same_identity r d" "dp_Status r = DispatchStatusSent"
      "map_option op_Amount (re_parse e (dp_PayloadJSON r)) = a"
    using own by (auto simp: owned_def)
  have "repeats (re_parse e) (re_sscanf e) ?q r"
    using r p by (auto simp: repeats_def payout_request_def same_identity_def)
  then have rep: "\<exists>x \<in> set (rb_dispatches (rs_db m)). repeats (re_parse e) (re_sscanf e) ?q x"
    using r(1) by blast
  have sends: "sends j (rs_calls ?m) \<le> attempts j (rs_db m)" if "sends j (rs_calls m) \<le> attempts j (rs_db m)" for j
    using that spare by (auto simp: sends_def surplus_def payout_request_def)
  have "inv_of e ?m"
    using inv rep sends unfolding inv_of_def relay_inv_def by simp
  moreover have "frame ?i m0 ?m"
    using fr by (simp add: frame_def view_def payout_request_def)
  ultimately show ?thesis using r by (auto simp: owned_def)
qed

lemma callPSP_triple:
  assumes "a = Some (op_Amount payload)"
  shows "triple (\<lambda>m. owned e m0 d a {DispatchStatusSent} m \<and> surplus d m)
    (callPSP e (payout_request e d payload clear)) (\<lambda>_. owned e m0 d a {DispatchStatusSent})"
proof (rule tripleI)
  fix m n r m' n'
  assume own: "owned e m0 d a {DispatchStatusSent} m \<and> surplus d m"
    and run: "callPSP e (payout_request e d payload clear) (m, n) = (r, (m', n'))"
  then show "owned e m0 d a {DispatchStatusSent} m'"
    using call_owned [OF _ _ assms, of e m0 d m clear]
    by (cases "re_fault e n") (auto simp: callPSP_def)
qed

lemma record_failure_triple:
  "triple (owned e m0 d a S) (modify (\<lambda>m. ((), recordPSPFailure e m))) (\<lambda>_. owned e m0 d a S)"
  by (rule modify_triple) (simp_all add: recordPSPFailure_def Let_def)

lemma record_success_triple:
  "triple (owned e m0 d a S) (modify (\<lambda>m. ((), recordPSPSuccess m))) (\<lambda>_. owned e m0 d a S)"
  by (rule modify_triple) (simp_all add: recordPSPSuccess_def)

lemma governance_triple:
  "triple (owned e m0 d a S) (modify (evaluateGovernance e c)) (\<lambda>_. owned e m0 d a S)"
  by (rule modify_triple) (auto simp: evaluateGovernance_def circuitOpen_def Let_def split: prod.splits)

abbreviation (input) after_call :: "DispatchStatus set" where
  "after_call \<equiv> {DispatchStatusSent, DispatchStatusProviderAcked, DispatchStatusAwaitingProviderSignal,
     DispatchStatusFailedRetryable, DispatchStatusFailedTerminal}"

lemma sent_unresolved: "{DispatchStatusSent} \<subseteq> unresolved"
  by (simp add: unresolved_def resolved_def)

lemma triple_owned_mono:
  "triple P f (\<lambda>_. owned e m0 d a S) \<Longrightarrow> S \<subseteq> T \<Longrightarrow> triple P f (\<lambda>_. owned e m0 d a T)"
  by (erule triple_conseq) (simp_all add: owned_mono)

lemma psp_failed_triple:
  "triple (owned e m0 d a {DispatchStatusSent}) (psp_failed e d err) (\<lambda>_. owned e m0 d a after_call)"
proof -
  obtain rc fatal uncertain where cl: "classifyPSPError err = (rc, fatal, uncertain)" by (metis prod.collapse)
  let ?cont = "if uncertain then markAwaitingProviderSignal e d (psp_error_text err)
         else if fatal then markFailedTerminal e d (psp_error_text err)
         else markFailedRetryable e d rc ''PSP_CALL_FAILED'' (psp_error_text err)"
  have cont: "triple (owned e m0 d a {DispatchStatusSent}) ?cont (\<lambda>_. owned e m0 d a after_call)"
    by (intro triple_if triple_owned_mono [OF markAwaiting_triple] triple_owned_mono [OF markFailedTerminal_triple]
      triple_owned_mono [OF markFailedRetryable_triple] sent_unresolved) simp_all
  have weaken: "owned e m0 d a {DispatchStatusSent} m \<Longrightarrow> owned e m0 d a after_call m" for m
    by (erule owned_mono) simp
  show ?thesis
    unfolding psp_failed_def cl
    by (simp only: Let_def prod.case)
      (intro triple_bind_const record_failure_triple report_triple cont weaken, assumption+)
qed

lemma psp_acked_triple:
  "triple (owned e m0 d a {DispatchStatusSent}) (psp_acked e d resp) (\<lambda>_. owned e m0 d a after_call)"
proof -
  let ?P = "owned e m0 d a {DispatchStatusSent}" and ?Q = "\<lambda>_. owned e m0 d a after_call"
  let ?w = "event_then e d (ProviderAckedPayload (dp_DispatchID d) (py_PayoutID resp) (py_Status resp) (re_now e))
         (MarkProviderAckedTx (dp_DispatchID d) (py_PayoutID resp) (py_Status resp) (re_now e))"
  have weaken: "owned e m0 d a S m \<Longrightarrow> S \<subseteq> after_call \<Longrightarrow> owned e m0 d a after_call m" for m S
    by (rule owned_mono)
  have "triple ?P (on_error ?w (\<lambda>_. markAwaitingProviderSignal e d ''PROVIDER_ACKED_WRITE_FAILED'') returnE) ?Q"
  proof (rule triple_on_error [where H = "\<lambda>_. ?P" and R = "\<lambda>_. owned e m0 d a {DispatchStatusProviderAcked}"])
    show "triple ?P ?w (\<lambda>r m. case r of Inl err \<Rightarrow> ?P m | Inr x \<Rightarrow> owned e m0 d a {DispatchStatusProviderAcked} m)"
      by (rule triple_conseq [OF event_then_triple [OF moves_acked [where S = "{DispatchStatusSent}"]]])
        (simp_all split: sum.splits)
  qed (rule triple_owned_mono [OF markAwaiting_triple], simp,
       rule triple_returnE, erule weaken, simp)
  then show ?thesis
    unfolding psp_acked_def
    by (intro triple_bind_const record_success_triple report_triple) (erule weaken, simp)+
qed

lemma send_payout_triple:
  assumes "a = Some (op_Amount payload)" and "S \<subseteq> unresolved"
  shows "triple (owned e m0 d a S) (send_payout e d payload clear) (\<lambda>_. owned e m0 d a (S \<union> after_call))"
proof -
  let ?Q = "\<lambda>_. owned e m0 d a (S \<union> after_call)"
  let ?R = "\<lambda>m. owned e m0 d a {DispatchStatusSent} m \<and> surplus d m"
  show ?thesis
    unfolding send_payout_def
  proof (rule triple_on_error [where H = "\<lambda>_. owned e m0 d a S" and R = "\<lambda>_. ?R"])
    show "triple (owned e m0 d a S) (attempt_sent e d payload)
        (\<lambda>r m. case r of Inl err \<Rightarrow> owned e m0 d a S m | Inr x \<Rightarrow> ?R m)"
      unfolding attempt_sent_def
      by (rule triple_conseq [OF event_then_triple [OF moves_sent [where S = S]]]) (simp_all split: sum.splits)
    show "triple (owned e m0 d a S) (markFailedRetryable e d RetryableTechnical ''ATTEMPT_SENT_WRITE_FAILED'' err) ?Q" for err
      by (rule triple_owned_mono [OF markFailedRetryable_triple [OF assms(2)]]) auto
    have answer: "triple (owned e m0 d a {DispatchStatusSent})
        (case answer of Inl err \<Rightarrow> psp_failed e d err | Inr resp \<Rightarrow> psp_acked e d resp) ?Q" for answer
      by (cases answer) (auto intro: triple_owned_mono [OF psp_failed_triple] triple_owned_mono [OF psp_acked_triple])
    show "triple ?R (bindE (callPSP e (payout_request e d payload clear))
        (\<lambda>answer. case answer of Inl err \<Rightarrow> psp_failed e d err | Inr resp \<Rightarrow> psp_acked e d resp)) ?Q"
    proof (rule triple_bindE [where R = "\<lambda>_. owned e m0 d a {DispatchStatusSent}", OF _ answer])
      show "triple ?R (callPSP e (payout_request e d payload clear)) (\<lambda>r m. case r of
          Inl err \<Rightarrow> owned e m0 d a (S \<union> after_call) m | Inr x \<Rightarrow> owned e m0 d a {DispatchStatusSent} m)"
      proof (rule triple_conseq [OF callPSP_triple [OF assms(1)]])
        fix r m assume "owned e m0 d a {DispatchStatusSent} m"
        moreover from this have "owned e m0 d a (S \<union> after_call) m" by (rule owned_mono) simp
        ultimately show "case r of Inl err \<Rightarrow> owned e m0 d a (S \<union> after_call) m
            | Inr x \<Rightarrow> owned e m0 d a {DispatchStatusSent} m" by (cases r) simp_all
      qed
    qed
  qed
qed

lemma detokenize_triple:
  assumes "a = Some (op_Amount payload)" and "S \<subseteq> unresolved"
  shows "triple (owned e m0 d a S) (detokenize_and_send e d payload) (\<lambda>_. owned e m0 d a (S \<union> after_call))"
  unfolding detokenize_and_send_def
proof (intro triple_on_error_const remote_triple triple_if)
  show "triple (owned e m0 d a S) (markFailedRetryable e d RetryableTechnical ''DETOKENIZE_FAILED'' err)
      (\<lambda>_. owned e m0 d a (S \<union> after_call))" for err
    by (rule triple_owned_mono [OF markFailedRetryable_triple [OF assms(2)]]) auto
  show "triple (owned e m0 d a S) (markFailedTerminal e d ''DETOKENIZE_EMPTY'') (\<lambda>_. owned e m0 d a (S \<union> after_call))"
    by (rule triple_owned_mono [OF markFailedTerminal_triple [OF assms(2)]]) auto
qed (rule send_payout_triple [OF assms])

lemma runSteps_triple:
  assumes "a = Some (op_Amount payload)" and "S \<subseteq> unresolved"
  shows "triple (owned e m0 d a S) (runSteps2to5 e d payload) (\<lambda>_. owned e m0 d a UNIV)"
proof -
  have gov: "triple (owned e m0 d a S)
      (on_error (then_event e d (GovernanceEvaluatedPayload (dp_DispatchID d) decision codes)
         (MarkGovernanceDecisionTx (dp_DispatchID d) decision codes (re_now e)))
       (\<lambda>_. returnE ())
       (\<lambda>_. if decision \<noteq> GovernanceAllow then returnE () else detokenize_and_send e d payload))
      (\<lambda>_. owned e m0 d a UNIV)" for decision codes
  proof (rule triple_on_error [where H = "\<lambda>_. owned e m0 d a S" and R = "\<lambda>_. owned e m0 d a (governed decision ` S)"])
    show "triple (owned e m0 d a S) (then_event e d (GovernanceEvaluatedPayload (dp_DispatchID d) decision codes)
         (MarkGovernanceDecisionTx (dp_DispatchID d) decision codes (re_now e)))
        (\<lambda>r m. case r of Inl err \<Rightarrow> owned e m0 d a S m | Inr x \<Rightarrow> owned e m0 d a (governed decision ` S) m)"
      by (rule triple_conseq [OF then_event_triple [OF moves_governed [OF assms(2)]]]) (simp_all split: sum.splits)
    show "triple (owned e m0 d a S) (returnE ()) (\<lambda>_. owned e m0 d a UNIV)"
      by (rule triple_returnE, erule owned_mono) simp
    show "triple (owned e m0 d a (governed decision ` S))
        (if decision \<noteq> GovernanceAllow then returnE () else detokenize_and_send e d payload) (\<lambda>_. owned e m0 d a UNIV)"
    proof (rule triple_if)
      show "triple (owned e m0 d a (governed decision ` S)) (returnE ()) (\<lambda>_. owned e m0 d a UNIV)"
        by (rule triple_returnE, erule owned_mono) simp
      assume "\<not> decision \<noteq> GovernanceAllow"
      then show "triple (owned e m0 d a (governed decision ` S)) (detokenize_and_send e d payload) (\<lambda>_. owned e m0 d a UNIV)"
        using triple_owned_mono [OF detokenize_triple [OF assms], of UNIV] by simp
    qed
  qed
  show ?thesis
    unfolding runSteps2to5_def
  proof (rule triple_bind_const [OF governance_triple])
    show "owned e m0 d a S m \<Longrightarrow> owned e m0 d a UNIV m" for m
      by (erule owned_mono) simp
  qed (use gov in \<open>auto split: prod.splits\<close>)
qed

end
