(* ===== verification/RelayPublish.thy ===== *)
theory RelayPublish
  imports DispatchLoop
begin

text \<open>
  \<^verbatim>\<open>relay/services/relay_loop.go\<close>, \<^verbatim>\<open>failure_replay_service.go\<close> and \<^verbatim>\<open>dispatch_consumer.go\<close>: the way of an
  event from the outbox to Kafka, the replay of the publications that were given up, and the order in
  which the consumer commits its offsets.

  A publication that fails left no message behind; one whose acknowledgement is lost left its message
  and reports an error.  The classes of an error are read from its text: the client returns no error
  of the JSON package.
\<close>

section \<open>Kafka\<close>

definition Publish :: "relay_env \<Rightarrow> kafka_message \<Rightarrow> unit rio" where
  "Publish e msg s =
     (case re_fault e (snd s) of
        Some err \<Rightarrow> (Inl (''kafka: send failed: '' @ err), (fst s, Suc (snd s)))
      | None \<Rightarrow> (case re_lost_ack e (snd s) of None \<Rightarrow> Inr () | Some err \<Rightarrow> Inl (''kafka: send failed: '' @ err),
          ((fst s)\<lparr>rs_kafka := rs_kafka (fst s) @ [msg]\<rparr>, Suc (snd s))))"

definition isTooLargeError :: "string \<Rightarrow> bool" where
  "isTooLargeError err \<longleftrightarrow> contains (ToLower err) ''message size'' \<or> contains (ToLower err) ''too large''
     \<or> contains (ToLower err) ''record is too large''"

definition isJSONError :: "string \<Rightarrow> bool" where
  "isJSONError err \<longleftrightarrow> contains (ToLower err) ''invalid character''"

definition isPoisonError :: "string \<Rightarrow> bool" where
  "isPoisonError err \<longleftrightarrow> isJSONError err \<or> isTooLargeError err"

definition classifyError :: "string \<Rightarrow> string" where
  "classifyError err =
     (if isTooLargeError err then ''POISON_TOO_LARGE'' else if isJSONError err then ''POISON_INVALID_JSON''
      else ''KAFKA_PUBLISH_FAILED'')"

definition dlqCategory :: "bool \<Rightarrow> string" where
  "dlqCategory poison = (if poison then ''poison_event'' else ''publish_failure'')"

definition buildDLQPayload :: "relay_env \<Rightarrow> RelayOutboxRow \<Rightarrow> string \<Rightarrow> bool \<Rightarrow> dlqEnvelope" where
  "buildDLQPayload e row err poison =
     \<lparr>dq_EventID = ro_EventID row, dq_EventType = ro_EventType row, dq_TenantID = ro_TenantID row,
      dq_IntentID = ro_IntentID row, dq_TraceID = ro_TraceID row,
      dq_Payload = (if isTooLargeError err then None else Some (re_json e (ro_Payload row))), dq_Error = err,
      dq_ReasonCode = classifyError err, dq_DLQCategory = dlqCategory poison, dq_LastAttemptAt = re_now e\<rparr>"

section \<open>The worker of the relay loop\<close>

definition event_headers :: "RelayOutboxRow \<Rightarrow> (string \<times> string) list" where
  "event_headers row =
     [(''event_id'', ro_EventID row), (''event_type'', ro_EventType row), (''dispatch_id'', ro_DispatchID row),
      (''trace_id'', ro_TraceID row), (''tenant_id'', ro_TenantID row), (''intent_id'', ro_IntentID row)]"

definition event_message :: "relay_env \<Rightarrow> RelayOutboxRow \<Rightarrow> kafka_message" where
  "event_message e row =
     \<lparr>km_Topic = fst (re_Topics e), km_Key = ro_DispatchID row, km_Value = re_json e (ro_Payload row),
      km_Headers = event_headers row\<rparr>"

definition dlq_topic :: "relay_env \<Rightarrow> bool \<Rightarrow> string" where
  "dlq_topic e poison = (if poison then snd (snd (re_Topics e)) else fst (snd (re_Topics e)))"

definition dlq_message :: "relay_env \<Rightarrow> RelayOutboxRow \<Rightarrow> string \<Rightarrow> bool \<Rightarrow> kafka_message" where
  "dlq_message e row err poison =
     \<lparr>km_Topic = dlq_topic e poison, km_Key = ro_EventID row,
      km_Value = re_dlq_json e (buildDLQPayload e row err poison),
      km_Headers = [(''event_id'', ro_EventID row), (''trace_id'', ro_TraceID row), (''tenant_id'', ro_TenantID row),
        (''reason_code'', classifyError err), (''dlq_category'', dlqCategory poison)]\<rparr>"

definition failure_record :: "relay_env \<Rightarrow> RelayOutboxRow \<Rightarrow> bool \<Rightarrow> string \<Rightarrow> PublishFailureRecord" where
  "failure_record e row poison cause =
     \<lparr>pf_FailureID = 0, pf_SourceEventID = ro_EventID row, pf_SourceService = ''zord-relay'', pf_Topic = [],
      pf_DestinationTopic = fst (re_Topics e), pf_PayloadHash = re_sha e (re_json e (ro_Payload row)),
      pf_MessageKey = ro_DispatchID row, pf_MessageValue = re_json e (ro_Payload row), pf_Headers = event_headers row,
      pf_AttemptCount = ro_RetryCount row + 1,
      pf_FailureClass = (if poison then classifyError cause else ''KAFKA_PUBLISH_FAILED''), pf_LastError = cause,
      pf_FailureSource = ''RELAY_OUTBOX'', pf_PublishKind = ''generic'', pf_TenantID = ro_TenantID row,
      pf_TraceID = ro_TraceID row,
      pf_ReplayStatus = (if poison then ReplayStatusQuarantined else ReplayStatusPending), pf_ReplayedAt = None\<rparr>"

definition recordFailureAndMarkTerminal :: "relay_env \<Rightarrow> RelayOutboxRow \<Rightarrow> bool \<Rightarrow> string \<Rightarrow> bool rio" where
  "recordFailureAndMarkTerminal e row poison cause =
     (if \<not> re_failureRepo e then returnE False
      else on_error (relay_exec e (Record (failure_record e row poison cause))) (\<lambda>_. returnE False) (\<lambda>_.
        on_error (relay_exec e (MarkFailed (ro_EventID row))) (\<lambda>_. returnE False) (\<lambda>_. returnE True)))"

definition publish_failed :: "relay_env \<Rightarrow> RelayOutboxRow \<Rightarrow> string \<Rightarrow> unit rio" where
  "publish_failed e row err =
     (let poison = isPoisonError err
      in on_error (Publish e (dlq_message e row err poison)) (\<lambda>_. returnE ()) (\<lambda>_.
         if poison
         then bindE (recordFailureAndMarkTerminal e row poison err) (\<lambda>terminalAck.
              if terminalAck then log_error (relay_exec e (MarkPublished [ro_EventID row] (re_now e))) else returnE ())
         else returnE ()))"

definition publish_event :: "relay_env \<Rightarrow> RelayOutboxRow \<Rightarrow> unit rio" where
  "publish_event e row =
     on_error (Publish e (event_message e row)) (publish_failed e row)
       (\<lambda>_. log_error (relay_exec e (MarkPublished [ro_EventID row] (re_now e))))"

text \<open>One turn of the worker; the rows it lists carry no retry count.\<close>

definition listed :: "RelayOutboxRow \<Rightarrow> RelayOutboxRow" where
  "listed row = row\<lparr>ro_RetryCount := 0, ro_PublishedAt := None\<rparr>"

definition relay_poll :: "relay_env \<Rightarrow> unit rio" where
  "relay_poll e =
     on_error (relay_query e (\<lambda>db. map listed (ListPendingForPublish (re_BatchSize e) db))) (\<lambda>_. returnE ())
       (for_each (publish_event e))"

section \<open>Replay\<close>

definition replay_message :: "PublishFailureRecord \<Rightarrow> kafka_message" where
  "replay_message r = \<lparr>km_Topic = pf_DestinationTopic r, km_Key = pf_MessageKey r, km_Value = pf_MessageValue r,
     km_Headers = pf_Headers r\<rparr>"

definition complete :: "relay_env \<Rightarrow> nat \<Rightarrow> string \<Rightarrow> string \<Rightarrow> string \<Rightarrow> string \<Rightarrow> unit rio" where
  "complete e failureID operatorID reason outcome errMsg =
     relay_exec e (CompleteReplay failureID operatorID reason outcome errMsg (re_now e))"

text \<open>The producer of the replay is the plain one, whose errors have no prefix.\<close>

definition SendMessage :: "relay_env \<Rightarrow> kafka_message \<Rightarrow> unit rio" where
  "SendMessage e msg s =
     (case re_fault e (snd s) of
        Some err \<Rightarrow> (Inl err, (fst s, Suc (snd s)))
      | None \<Rightarrow> (case re_lost_ack e (snd s) of None \<Rightarrow> Inr () | Some err \<Rightarrow> Inl err,
          ((fst s)\<lparr>rs_kafka := rs_kafka (fst s) @ [msg]\<rparr>, Suc (snd s))))"

abbreviation (input) ErrAlreadyReplayed :: string where
  "ErrAlreadyReplayed \<equiv> ''failure already replayed or in progress''"

abbreviation (input) ErrHashMismatch :: string where
  "ErrHashMismatch \<equiv> ''payload hash verification failed: mismatch between upstream payload_hash and recomputed SHA-256''"

definition replay_loaded :: "relay_env \<Rightarrow> nat \<Rightarrow> string \<Rightarrow> string \<Rightarrow> PublishFailureRecord \<Rightarrow> unit rio" where
  "replay_loaded e failureID operatorID reason r =
     (if re_sha e (pf_MessageValue r) \<noteq> pf_PayloadHash r
      then bindE (log_error (complete e failureID operatorID reason ''FAILED''
             (''hash mismatch: expected '' @ pf_PayloadHash r @ '', got '' @ re_sha e (pf_MessageValue r))))
           (\<lambda>_. failE ErrHashMismatch)
      else on_error (SendMessage e (replay_message r))
        (\<lambda>err. bindE (log_error (complete e failureID operatorID reason ''FAILED'' err)) (\<lambda>_. failE (''kafka publish: '' @ err)))
        (\<lambda>_. wrapE ''complete replay: '' (complete e failureID operatorID reason ''SUCCESS'' [])))"

definition Replay :: "relay_env \<Rightarrow> nat \<Rightarrow> string \<Rightarrow> string \<Rightarrow> unit rio" where
  "Replay e failureID operatorID reason =
     bindE (wrapE ''begin replay: '' (relay_exec e (BeginReplay failureID))) (\<lambda>started.
     if \<not> started then failE ErrAlreadyReplayed
     else on_error (relay_exec e (GetMessageForReplay failureID))
       (\<lambda>err. bindE (log_error (complete e failureID operatorID reason ''FAILED'' err))
          (\<lambda>_. failE (''get message for replay: '' @ err)))
       (replay_loaded e failureID operatorID reason))"

section \<open>The consumer\<close>

text \<open>
  \<open>decode\<close> reads a message of the topic; what cannot be read is committed.  The notifications of one
  claim arrive on one channel, in whatever order the feeder and the workers send them.
\<close>

definition processMessage :: "relay_env \<Rightarrow> (string \<Rightarrow> OutboxEvent option) \<Rightarrow> string \<Rightarrow> bool rio" where
  "processMessage e decode value =
     (case decode value of None \<Rightarrow> returnE True | Some ev \<Rightarrow> processEvent e ev)"

record claimEvent =
  ce_offset :: int
  ce_completed :: bool

record commit_state =
  ct_order :: "int list"
  ct_finished :: "int set"
  ct_marked :: "int list"

text \<open>The inner loop of \<open>commitInOrder\<close>.\<close>

fun mark_prefix :: "int list \<Rightarrow> int set \<Rightarrow> int list \<Rightarrow> commit_state" where
  "mark_prefix [] finished marked = \<lparr>ct_order = [], ct_finished = finished, ct_marked = marked\<rparr>"
| "mark_prefix (offset # order) finished marked =
     (if offset \<in> finished then mark_prefix order (finished - {offset}) (marked @ [offset])
      else \<lparr>ct_order = offset # order, ct_finished = finished, ct_marked = marked\<rparr>)"

definition commit_event :: "commit_state \<Rightarrow> claimEvent \<Rightarrow> commit_state" where
  "commit_event s ev =
     (if \<not> ce_completed ev then s\<lparr>ct_order := ct_order s @ [ce_offset ev]\<rparr>
      else mark_prefix (ct_order s) (insert (ce_offset ev) (ct_finished s)) (ct_marked s))"

definition commitInOrder :: "claimEvent list \<Rightarrow> commit_state" where
  "commitInOrder evs = foldl commit_event \<lparr>ct_order = [], ct_finished = {}, ct_marked = []\<rparr> evs"

end
