(* ===== verification/DispatchSteps.thy ===== *)
theory DispatchSteps
  imports DispatchLaws RelayPublish
begin

text \<open>
  The relay as a transition system: an event of the intent service, a sweep, the publication of the
  outbox or a restart is one step, with any pattern of failing calls and any answers.  Every state
  that can be reached satisfies the invariant of \<open>DispatchLaws\<close>.
\<close>

section \<open>Taking a dispatch up\<close>

text \<open>What every operation on one dispatch promises; a resolved dispatch is not touched.\<close>

definition attends :: "relay_env \<Rightarrow> relay_state \<Rightarrow> string \<Rightarrow> relay_state \<Rightarrow> bool" where
  "attends e m0 i m \<longleftrightarrow> inv_of e m \<and> frame i m0 m"

lemma owned_serves: "owned e m0 d a S m \<Longrightarrow> attends e m0 (dp_DispatchID d) m"
  by (simp add: owned_def attends_def)

lemma take_up:
  assumes "inv_of e m" and "frame (dp_DispatchID d) m0 m" and "d \<in> set (rb_dispatches (rs_db m))"
  shows "owned e m0 d (map_option op_Amount (re_parse e (dp_PayloadJSON d))) {dp_Status d} m"
  using assms by (auto simp: owned_def same_identity_def intro!: bexI [of _ d])

lemma stored_payload:
  assumes "inv_of e m" and "d \<in> set (rb_dispatches (rs_db m))"
  shows "dp_PayloadJSON d \<noteq> []" and "dp_AttemptCount d = 1"
  using assms by (simp_all add: inv_of_def relay_inv_def)

lemma triple_serves:
  assumes "triple (owned e m0 d a S) f (\<lambda>_. owned e m0 d a T)" and "owned e m0 d a S m" and "f (m, n) = (r, (m', n'))"
  shows "attends e m0 (dp_DispatchID d) m'"
  by (rule owned_serves) (rule tripleD [OF assms])

lemma one_unresolved: "\<not> resolved st \<Longrightarrow> {st} \<subseteq> unresolved"
  by (simp add: unresolved_def)

lemma redelivered_serves:
  assumes "inv_of e m" and "d \<in> set (rb_dispatches (rs_db m))" and "redelivered e d payload (m, n) = (r, (m', n'))"
  shows "attends e m (dp_DispatchID d) m' \<and> (resolved (dp_Status d) \<longrightarrow> m' = m)"
proof (cases "resolved (dp_Status d) \<or> re_parse e (dp_PayloadJSON d) = None")
  case True
  then have "m' = m" using assms(3) stored_payload(1) [OF assms(1,2)] by (auto simp: redelivered_def returnE_def split: if_splits)
  then show ?thesis using assms(1) by (simp add: attends_def)
next
  case False
  then obtain p where p: "re_parse e (dp_PayloadJSON d) = Some p" and unres: "\<not> resolved (dp_Status d)" by auto
  have own: "owned e m d (Some (op_Amount p)) {dp_Status d} m"
    using take_up [OF assms(1) frame_refl assms(2)] p by simp
  obtain r1 m1 n1 where run: "runSteps2to5 e d p (m, n) = (r1, (m1, n1))" by (metis prod.collapse)
  have "m' = m1"
    using assms(3) stored_payload(1) [OF assms(1,2)] p unres run
    by (auto simp: redelivered_def returnE_def bindE_def split: sum.splits)
  then show ?thesis
    using triple_serves [OF runSteps_triple [OF refl one_unresolved [OF unres]] own run] unres by simp
qed

lemma retry_serves:
  assumes "inv_of e m" and "d \<in> set (rb_dispatches (rs_db m))" and "\<not> resolved (dp_Status d)"
    and "retry_dispatch e d (m, n) = (r, (m', n'))"
  shows "attends e m (dp_DispatchID d) m'"
proof (cases "re_parse e (dp_PayloadJSON d)")
  case None
  then have "markFailedTerminal e d ''RETRY_SWEEPER_CORRUPT_PAYLOAD'' (m, n) = (r, (m', n'))"
    using assms(4) stored_payload(1) [OF assms(1,2)] by (simp add: retry_dispatch_def)
  then show ?thesis
    using triple_serves [OF markFailedTerminal_triple [OF one_unresolved [OF assms(3)]] take_up [OF assms(1) frame_refl assms(2)]]
    by blast
next
  case (Some p)
  then have run: "runSteps2to5 e d p (m, n) = (r, (m', n'))"
    using assms(4) stored_payload(1) [OF assms(1,2)] by (simp add: retry_dispatch_def)
  have "owned e m d (Some (op_Amount p)) {dp_Status d} m"
    using take_up [OF assms(1) frame_refl assms(2)] Some by simp
  then show ?thesis using triple_serves [OF runSteps_triple [OF refl one_unresolved [OF assms(3)]] _ run] by blast
qed

lemma resolve_triple:
  assumes "S \<subseteq> {DispatchStatusSent, DispatchStatusAwaitingProviderSignal}"
  shows "triple (owned e m0 d a S) (resolveViaQuery e d) (\<lambda>_. owned e m0 d a UNIV)"
proof -
  have sub: "S \<subseteq> unresolved" using assms by (auto simp: unresolved_def resolved_def)
  have end_run: "triple (owned e m0 d a S) (returnE ()) (\<lambda>_. owned e m0 d a UNIV)"
    by (rule triple_returnE, erule owned_mono) simp
  have found: "triple (owned e m0 d a S) (case found of
         Some resp \<Rightarrow>
           if \<not> provider_terminal (py_Status resp)
           then log_error (event_then e d (ProviderAckedPayload (dp_DispatchID d) (py_PayoutID resp) (py_Status resp) (re_now e))
                  (MarkProviderAckedTx (dp_DispatchID d) (py_PayoutID resp) (py_Status resp) (re_now e)))
           else markFailedTerminal e d (''PSP_TERMINAL:'' @ py_Status resp)
       | None \<Rightarrow>
           let nextAttempt = re_now e + retryBackoff (dp_AttemptCount d)
           in log_error (event_then e d (RetryScheduledPayload (dp_DispatchID d) RetryableAfterBackoff nextAttempt
                  (dp_AttemptCount d) ''CRASH_RECOVERY_NO_PSP_RECORD'')
                (MarkFailedRetryableTx (dp_DispatchID d) RetryableAfterBackoff nextAttempt (re_now e)))) (\<lambda>_. owned e m0 d a UNIV)"
    for found
    by (cases found)
      (simp_all add: Let_def triple_owned_mono [OF log_event_then [OF moves_scheduled [OF assms]]]
        triple_owned_mono [OF log_event_then [OF moves_acked]] triple_owned_mono [OF markFailedTerminal_triple [OF sub]])
  show ?thesis
    unfolding resolveViaQuery_def by (rule triple_on_error_const [OF remote_triple end_run found])
qed

lemma resolve_serves:
  assumes "inv_of e m" and "d \<in> set (rb_dispatches (rs_db m))"
    and "dp_Status d = DispatchStatusSent \<or> dp_Status d = DispatchStatusAwaitingProviderSignal"
    and "resolveViaQuery e d (m, n) = (r, (m', n'))"
  shows "attends e m (dp_DispatchID d) m'"
proof (rule triple_serves [OF resolve_triple take_up [OF assms(1) frame_refl assms(2)] assms(4)])
  show "{dp_Status d} \<subseteq> {DispatchStatusSent, DispatchStatusAwaitingProviderSignal}" using assms(3) by auto
qed


section \<open>A new dispatch\<close>

definition with_row :: "Dispatch \<Rightarrow> string \<Rightarrow> time \<Rightarrow> relay_db \<Rightarrow> relay_db" where
  "with_row d payloadJSON now db = db\<lparr>rb_dispatches := rb_dispatches db
     @ [d\<lparr>dp_PayloadJSON := (if payloadJSON = [] then ''{}'' else payloadJSON), dp_CreatedAt := now, dp_UpdatedAt := now\<rparr>]\<rparr>"

lemma InsertTx_run:
  assumes "InsertTx d payloadJSON now db = Inr (x, db')"
  shows "db' = with_row d payloadJSON now db" and "\<not> list_ex (same_attempt d) (rb_dispatches db)"
  using assms by (simp_all add: InsertTx_def with_row_def split: if_splits)

lemma with_row_with_event: "with_row d p now (with_event ev now' db) = with_event ev now' (with_row d p now db)"
  by (simp add: with_row_def with_event_def)

lemma created_owned:
  assumes inv: "inv_of e m" and free: "\<not> list_ex (same_attempt d) (rb_dispatches (rs_db m))"
    and d: "dp_AttemptCount d = 1" "dp_Status d = DispatchStatusPending" and js: "js \<noteq> []"
    and ev: "rv_DispatchID ev = dp_DispatchID d" "is_created (rv_Payload ev)"
  shows "owned e m d (map_option op_Amount (re_parse e js)) {DispatchStatusPending}
    (m\<lparr>rs_db := with_event ev t (with_row d js now (rs_db m)), rs_ids := k\<rparr>)" (is "owned _ _ _ _ _ ?m")
proof -
  let ?i = "dp_DispatchID d" and ?ds = "rb_dispatches (rs_db m)"
  define row where "row = d\<lparr>dp_PayloadJSON := js, dp_CreatedAt := now, dp_UpdatedAt := now\<rparr>"
  have row: "dp_DispatchID row = ?i" "dp_ContractID row = dp_ContractID d" "dp_CorridorID row = dp_CorridorID d"
    "dp_AttemptCount row = 1" "dp_Status row = DispatchStatusPending" "dp_PayloadJSON row = js"
    by (simp_all add: row_def d)
  have ds: "rb_dispatches (with_row d js now (rs_db m)) = ?ds @ [row]" by (simp add: with_row_def row_def js)
  then have ds': "rb_dispatches (rs_db ?m) = ?ds @ [row]" by simp
  have calls: "rs_calls ?m = rs_calls m" by simp
  have evs: "events_of j (with_event ev t (with_row d js now (rs_db m))) = events_of j (rs_db m) @ (if j = ?i then [rv_Payload ev] else [])" for j
    using ev(1) by (simp add: events_of_with_event) (simp add: events_of_def with_row_def)
  note inv' = inv [unfolded inv_of_def relay_inv_def]
  have new: "dp_DispatchID x \<noteq> ?i \<and> dp_ContractID x \<noteq> dp_ContractID d" if x: "x \<in> set ?ds" for x
  proof -
    have "dp_AttemptCount x = 1" using inv' x by blast
    then show ?thesis using free x d(1) by (auto simp: list_ex_iff same_attempt_def)
  qed
  have none: "events_of ?i (rs_db m) = []"
    using inv' new by (fastforce simp: events_of_def filter_empty_conv)
  have nosend: "sends ?i (rs_calls m) = 0"
    using inv' new by (fastforce simp: sends_def repeats_def filter_empty_conv)
  have "inv_of e ?m"
    unfolding inv_of_def relay_inv_def ds' calls
  proof (intro conjI, goal_cases)
    case 1
    have "?i \<notin> dp_DispatchID ` set ?ds" using new by (metis imageE)
    then show ?case using inv' by (simp add: row)
  next
    case 2
    have "dp_ContractID d \<notin> dp_ContractID ` set ?ds" using new by (metis imageE)
    then show ?case using inv' by (simp add: row)
  next
    case 3
    have "explained [rv_Payload ev] DispatchStatusPending" using ev(2) by (simp add: explained_def)
    then show ?case
      using inv' new js none nosend by (simp add: row evs attempts_def)
  next
    case 4
    show ?case using inv' by auto
  next
    case 5
    show ?case using inv' ev(1) by (auto simp: with_event_def with_row_def row)
  qed
  moreover have "frame ?i m ?m"
    by (simp add: frame_def view_def ds evs row)
  moreover have "row \<in> set (rb_dispatches (rs_db ?m))" by (simp add: ds)
  ultimately show ?thesis
    using row unfolding owned_def by (auto simp: same_identity_def)
qed

lemma take_ownership_serves:
  assumes inv: "inv_of e m" and p: "re_parse e (oe_Payload ev) = Some payload" "oe_Payload ev \<noteq> []"
    and run: "take_ownership e ev payload (m, n) = (r, (m', n'))"
  shows "\<exists>i. attends e m i m' \<and> i \<notin> dp_DispatchID ` set (rb_dispatches (rs_db m))"
proof -
  let ?id = "re_uuid e (rs_ids m)" and ?m1 = "m\<lparr>rs_ids := Suc (rs_ids m)\<rparr>"
  define d where "d = new_dispatch ev ?id (routed e ev payload)"
  have d: "dp_AttemptCount d = 1" "dp_Status d = DispatchStatusPending"
    by (simp_all add: d_def new_dispatch_def)
  let ?P = "DispatchCreatedPayload ?id (dp_ConnectorID d) (dp_CorridorID d) 1 (carriers d)"
  obtain r2 m2 n2 where te: "then_event e d ?P (InsertTx d (oe_Payload ev) (re_now e)) (?m1, n) = (r2, (m2, n2))"
    by (metis prod.collapse)
  have rec: "booked e ?m1 d ?P (InsertTx d (oe_Payload ev) (re_now e)) r2 m2" by (rule then_event_run [OF te])
  show ?thesis
  proof (cases r2)
    case (Inl err)
    then have "rs_db m2 = rs_db m" "rs_calls m2 = rs_calls m" "m' = m2"
      using rec run te by (auto simp: booked_def take_ownership_def bindE_def draw_id_run on_error_def returnE_def d_def Let_def)
    then have "attends e m i m'" for i
      using inv owned_cong(3,4) [of m' m] by (simp add: attends_def)
    moreover have "\<exists>i :: string. i \<notin> dp_DispatchID ` set (rb_dispatches (rs_db m))"
      by (rule ex_new_if_finite) (simp_all add: infinite_UNIV_listI)
    ultimately show ?thesis by blast
  next
    case (Inr u)
    then obtain i k db where m2: "m2 = ?m1\<lparr>rs_ids := k, rs_db := db\<rparr>"
      and db: "InsertTx d (oe_Payload ev) (re_now e) (with_event (event_for e i d ?P) (re_now e) (rs_db m)) = Inr ((), db)
        \<or> (\<exists>db1. InsertTx d (oe_Payload ev) (re_now e) (rs_db m) = Inr ((), db1)
            \<and> db = with_event (event_for e i d ?P) (re_now e) db1)"
      using rec by (auto simp: booked_def)
    have m2': "m2 = m\<lparr>rs_db := db, rs_ids := k\<rparr>" by (simp add: m2)
    have db': "db = with_event (event_for e i d ?P) (re_now e) (with_row d (oe_Payload ev) (re_now e) (rs_db m))"
      and free: "\<not> list_ex (same_attempt d) (rb_dispatches (rs_db m))"
      using db by (auto dest: InsertTx_run simp: with_row_with_event)
    have own: "owned e m d (Some (op_Amount payload)) {DispatchStatusPending} m2"
      using created_owned [OF inv free d p(2), where ev = "event_for e i d ?P" and t = "re_now e" and now = "re_now e" and k = k] p(1)
      by (simp add: m2' db')
    obtain r3 m3 n3 where run3: "runSteps2to5 e d payload (m2, n2) = (r3, (m3, n3))" by (metis prod.collapse)
    have "m' = m3"
      using run te Inr run3
      by (auto simp: take_ownership_def bindE_def draw_id_run on_error_def returnE_def d_def Let_def split: sum.splits)
    moreover have "{DispatchStatusPending} \<subseteq> unresolved" by (simp add: unresolved_def resolved_def)
    ultimately have "attends e m (dp_DispatchID d) m'"
      using triple_serves [OF runSteps_triple [OF refl] own run3] by blast
    moreover have "dp_DispatchID d \<notin> dp_DispatchID ` set (rb_dispatches (rs_db m))"
      using free by (auto simp: list_ex_iff same_attempt_def)
    ultimately show ?thesis by blast
  qed
qed


section \<open>What an operation leaves alone\<close>

text \<open>The verification of the payload hash changes its own table and counters only.\<close>

definition alike :: "relay_state \<Rightarrow> relay_state \<Rightarrow> bool" where
  "alike m0 m \<longleftrightarrow> rb_dispatches (rs_db m) = rb_dispatches (rs_db m0) \<and> rb_outbox (rs_db m) = rb_outbox (rs_db m0)
     \<and> rb_failures (rs_db m) = rb_failures (rs_db m0) \<and> rs_calls m = rs_calls m0 \<and> rs_kafka m = rs_kafka m0"

text \<open>A publication changes the status of outbox rows, never what a dispatch is.\<close>

definition outbox_content :: "relay_db \<Rightarrow> (string \<times> string \<times> relay_event) list" where
  "outbox_content db = map (\<lambda>r. (ro_EventID r, ro_DispatchID r, ro_Payload r)) (rb_outbox db)"

definition untouched :: "relay_state \<Rightarrow> relay_state \<Rightarrow> bool" where
  "untouched m0 m \<longleftrightarrow> rb_dispatches (rs_db m) = rb_dispatches (rs_db m0)
     \<and> outbox_content (rs_db m) = outbox_content (rs_db m0) \<and> rs_calls m = rs_calls m0"

text \<open>A dispatch operation only adds pending rows to the outbox.\<close>

definition appends :: "relay_state \<Rightarrow> relay_state \<Rightarrow> bool" where
  "appends m0 m \<longleftrightarrow> rb_failures (rs_db m) = rb_failures (rs_db m0) \<and> rs_kafka m = rs_kafka m0
     \<and> (\<exists>new. rb_outbox (rs_db m) = rb_outbox (rs_db m0) @ new \<and> (\<forall>r \<in> set new. ro_Status r = OutboxPending))
     \<and> (distinct (map ro_EventID (rb_outbox (rs_db m0))) \<longrightarrow> distinct (map ro_EventID (rb_outbox (rs_db m))))"

lemma untouched_refl [simp]: "untouched m m"
  by (simp add: untouched_def)

lemma extends_refl [simp]: "appends m m"
  by (simp add: appends_def)

lemma alike_untouched: "alike m0 m \<Longrightarrow> untouched m0 m"
  by (simp add: alike_def untouched_def outbox_content_def)

lemma alike_extends: "alike m0 m \<Longrightarrow> appends m0 m"
  by (simp add: alike_def appends_def)

lemma extends_trans:
  assumes "appends m0 m1" and "appends m1 m2"
  shows "appends m0 m2"
proof -
  obtain a where a: "rb_outbox (rs_db m1) = rb_outbox (rs_db m0) @ a" "\<forall>r \<in> set a. ro_Status r = OutboxPending"
    using assms(1) by (auto simp: appends_def)
  obtain b where b: "rb_outbox (rs_db m2) = rb_outbox (rs_db m1) @ b" "\<forall>r \<in> set b. ro_Status r = OutboxPending"
    using assms(2) by (auto simp: appends_def)
  have "\<exists>new. rb_outbox (rs_db m2) = rb_outbox (rs_db m0) @ new \<and> (\<forall>r \<in> set new. ro_Status r = OutboxPending)"
    by (rule exI [of _ "a @ b"]) (use a b in auto)
  then show ?thesis using assms by (simp add: appends_def)
qed

lemma events_of_content: "events_of i db = map (\<lambda>(_, _, ev). rv_Payload ev) (filter (\<lambda>(_, j, _). j = i) (outbox_content db))"
  by (simp add: events_of_def outbox_content_def filter_map comp_def)

lemma untouched_view: "untouched m0 m \<Longrightarrow> view i m = view i m0"
  by (simp add: untouched_def view_def events_of_content)

lemma untouched_inv:
  assumes "untouched m0 m"
  shows "inv_of e m = inv_of e m0"
proof -
  have ds: "rb_dispatches (rs_db m) = rb_dispatches (rs_db m0)" and calls: "rs_calls m = rs_calls m0"
    and evs: "events_of i (rs_db m) = events_of i (rs_db m0)" for i
    using assms by (simp_all add: untouched_def events_of_content)
  have "ro_DispatchID ` set (rb_outbox db) = (\<lambda>(_, j, _). j) ` set (outbox_content db)" for db
    by (simp add: outbox_content_def image_image)
  then have "ro_DispatchID ` set (rb_outbox (rs_db m)) = ro_DispatchID ` set (rb_outbox (rs_db m0))"
    using assms by (simp add: untouched_def)
  then have "(\<forall>r \<in> set (rb_outbox (rs_db m)). ro_DispatchID r \<in> dp_DispatchID ` set (rb_dispatches (rs_db m0)))
      = (\<forall>r \<in> set (rb_outbox (rs_db m0)). ro_DispatchID r \<in> dp_DispatchID ` set (rb_dispatches (rs_db m0)))"
    by (metis (no_types, lifting) image_iff)
  then show ?thesis
    by (simp add: inv_of_def relay_inv_def ds calls evs attempts_def image_iff Bex_def)
qed

lemma untouched_serves: "untouched m m' \<Longrightarrow> inv_of e m \<Longrightarrow> attends e m i m'"
  by (simp add: attends_def frame_def untouched_inv untouched_view)


section \<open>Every operation serves at most one dispatch at a time\<close>

definition conflict_statement :: "(relay_db \<Rightarrow> string + 'a \<times> relay_db) \<Rightarrow> bool" where
  "conflict_statement f \<longleftrightarrow> (\<forall>db x db'. f db = Inr (x, db') \<longrightarrow> rb_dispatches db' = rb_dispatches db
     \<and> rb_outbox db' = rb_outbox db \<and> rb_failures db' = rb_failures db)"

lemma conflict_statements: "conflict_statement (upsert_conflict c)" "conflict_statement (mark_permanent service eventID now)"
  by (auto simp: conflict_statement_def upsert_conflict_def mark_permanent_def split: option.splits)

lemma alike_exec: "conflict_statement f \<Longrightarrow> triple (alike m0) (relay_exec e f) (\<lambda>_. alike m0)"
  by (rule tripleI)
    (auto simp: relay_exec_def conflict_statement_def alike_def split: option.splits sum.splits prod.splits)

lemma alike_modify:
  assumes "\<And>m. rs_db (snd (f m)) = rs_db m" and "\<And>m. rs_calls (snd (f m)) = rs_calls m" and "\<And>m. rs_kafka (snd (f m)) = rs_kafka m"
  shows "triple (alike m0) (modify f) (\<lambda>_. alike m0)"
  unfolding triple_def modify_def alike_def using assms by simp

lemma alike_return: "triple (alike m0) (returnE x) (\<lambda>_. alike m0)"
  by (rule triple_returnE)

lemma triple_Let: "(\<And>x. triple P (f x) Q) \<Longrightarrow> triple P (let x = a in f x) Q"
  by simp

lemma recordMismatch_alike: "triple (alike m0) (recordMismatch e service ev) (\<lambda>_. alike m0)"
proof -
  let ?bump = "\<lambda>m. let (n, recent) = bump_recent e (conflictKey service (oe_EventID ev)) (rs_recent m)
                        in (n, m\<lparr>rs_recent := recent\<rparr>)"
  have bump: "triple (alike m0) (modify ?bump) (\<lambda>_. alike m0)"
    by (rule alike_modify) (simp_all add: Let_def split: prod.split)
  have upsert: "triple (alike m0) (relay_exec e (upsert_conflict (new_conflict e service ev))) (\<lambda>_. alike m0)"
    by (rule alike_exec [OF conflict_statements(1)])
  have permanent: "triple (alike m0) (log_error (relay_exec e (mark_permanent service (oe_EventID ev) (re_now e)))) (\<lambda>_. alike m0)"
    by (rule triple_log_error, rule alike_exec [OF conflict_statements(2)])
  show ?thesis
    unfolding recordMismatch_def
    by (rule triple_bind_const [OF bump], assumption, rule triple_on_error_const [OF upsert alike_return], clarsimp)
      (intro conjI impI triple_bind_const alike_return permanent, simp_all add: alike_return)
qed

lemma verify_alike: "triple (alike m0) (verifyDispatchPayloadHash e ev) (\<lambda>_. alike m0)"
proof -
  have forget: "triple (alike m0) (modify (\<lambda>m. ((), m\<lparr>rs_recent := filter (\<lambda>kv. fst kv \<noteq> k) (rs_recent m)\<rparr>))) (\<lambda>_. alike m0)" for k
    by (rule alike_modify) simp_all
  have "triple (alike m0) (VerifyPayload e service ev) (\<lambda>_. alike m0)" for service
    unfolding VerifyPayload_def
    by (intro triple_if recordMismatch_alike alike_return triple_bind_const forget)
  then show ?thesis
    unfolding verifyDispatchPayloadHash_def
    by (intro triple_if alike_return triple_bind_const) (auto intro: alike_return)
qed

lemma processEvent_serves:
  assumes inv: "inv_of e m" and decoder: "re_parse e [] = None" and run: "processEvent e ev (m, n) = (r, (m', n'))"
  shows "\<exists>i. attends e m i m' \<and> (\<forall>d \<in> set (rb_dispatches (rs_db m)). resolved (dp_Status d) \<longrightarrow> dp_DispatchID d = i \<longrightarrow> untouched m m')"
proof -
  obtain ok m1 n1 where v: "verifyDispatchPayloadHash e ev (m, n) = (ok, (m1, n1))" by (metis prod.collapse)
  have "alike m m1" using tripleD [OF verify_alike _ v, of m] by (simp add: alike_def)
  then have u1: "untouched m m1" by (rule alike_untouched)
  show ?thesis
  proof (cases "oe_ContractID ev = [] \<or> oe_TraceID ev = [] \<or> oe_SchemaVersion ev = [] \<or> (\<forall>x. ok = Inr x \<longrightarrow> \<not> x)
      \<or> re_parse e (oe_Payload ev) = None")
    case True
    then have "m' = m \<or> m' = m1"
      using run v by (auto simp: processEvent_def bindE_def returnE_def split: sum.splits if_splits)
    then have "untouched m m'" using u1 by auto
    then show ?thesis using untouched_serves [OF _ inv] by blast
  next
    case False
    then obtain payload where p: "re_parse e (oe_Payload ev) = Some payload" and ok: "ok = Inr True" by fastforce
    have js: "oe_Payload ev \<noteq> []" using p decoder by auto
    obtain f m2 n2 where q: "relay_query e (FindByContractAndAttempt (oe_ContractID ev) 1) (m1, n1) = (f, (m2, n2))"
      by (metis prod.collapse)
    have m2: "m2 = m1" and f: "\<And>x. f = Inr x \<Longrightarrow> x = FindByContractAndAttempt (oe_ContractID ev) 1 (rs_db m1)"
      using relay_query_run [OF q] by auto
    have run': "dispatch_event e ev payload (m1, n1) = (r, (m', n'))"
      using run v ok p False by (simp add: processEvent_def bindE_def split: if_splits)
    have inv1: "inv_of e m1" using inv untouched_inv [OF u1] by simp
    have lift: "attends e m i m'" if "attends e m1 i m'" for i
      using that by (simp add: attends_def frame_def untouched_view [OF u1])
    consider (failed) err where "f = Inl err" | (found) d where "f = Inr (Some d)" | (fresh) "f = Inr None"
      by (metis option.exhaust sum.exhaust)
    then show ?thesis
    proof cases
      case failed
      then have "m' = m1" using run' q m2 by (simp add: dispatch_event_def on_error_def returnE_def)
      then show ?thesis using untouched_serves [OF _ inv] u1 by blast
    next
      case found
      then have "List.find (\<lambda>d. dp_ContractID d = oe_ContractID ev \<and> dp_AttemptCount d = 1) (rb_dispatches (rs_db m1)) = Some d"
        using f by (simp add: FindByContractAndAttempt_def)
      then have d: "d \<in> set (rb_dispatches (rs_db m1))" by (auto simp: find_Some_iff)
      have "redelivered e d payload (m1, n2) = (r, (m', n'))"
        using run' q m2 found by (simp add: dispatch_event_def on_error_def)
      then have s: "attends e m1 (dp_DispatchID d) m' \<and> (resolved (dp_Status d) \<longrightarrow> m' = m1)"
        using redelivered_serves [OF inv1 d] by blast
      have "d' = d" if "d' \<in> set (rb_dispatches (rs_db m))" "dp_DispatchID d' = dp_DispatchID d" for d'
      proof -
        have "rb_dispatches (rs_db m) = rb_dispatches (rs_db m1)" using u1 by (simp add: untouched_def)
        moreover have "distinct (map dp_DispatchID (rb_dispatches (rs_db m1)))" using inv1 by (simp add: inv_of_def relay_inv_def)
        ultimately show ?thesis using distinct_key that d by metis
      qed
      then show ?thesis using s lift u1 by (metis (no_types, lifting))
    next
      case fresh
      then have "take_ownership e ev payload (m1, n2) = (r, (m', n'))"
        using run' q m2 by (simp add: dispatch_event_def on_error_def)
      then obtain i where "attends e m1 i m'" "i \<notin> dp_DispatchID ` set (rb_dispatches (rs_db m1))"
        using take_ownership_serves [OF inv1 p js] by blast
      moreover have "rb_dispatches (rs_db m) = rb_dispatches (rs_db m1)" using u1 by (simp add: untouched_def)
      ultimately show ?thesis using lift by (metis image_eqI)
    qed
  qed
qed

end
