(* ===== verification/RelaySteps.thy ===== *)
theory RelaySteps
  imports DispatchSteps
begin

text \<open>
  The relay as a transition system: a message of the intent topic, a sweep, a turn of the outbox
  worker, a replay or a restart is one step, under any pattern of failing calls and any answers of the
  provider, the router, the token service and the broker.  Every reachable state satisfies the
  invariant of \<open>DispatchLaws\<close> and the one of the outbox stated here.
\<close>

section \<open>The sweeps\<close>

lemma view_row: "view i m' = view i m \<Longrightarrow> d \<in> set (rb_dispatches (rs_db m)) \<Longrightarrow> dp_DispatchID d = i \<Longrightarrow> d \<in> set (rb_dispatches (rs_db m'))"
  by (simp add: view_def) (metis (mono_tags, lifting) mem_Collect_eq set_filter)

text \<open>An operation on a dispatch of one of the statuses \<open>Q\<close>.\<close>

definition serving :: "relay_env \<Rightarrow> DispatchStatus set \<Rightarrow> (Dispatch \<Rightarrow> unit rio) \<Rightarrow> bool" where
  "serving e Q f \<longleftrightarrow> (\<forall>d m n r m' n'. inv_of e m \<longrightarrow> d \<in> set (rb_dispatches (rs_db m)) \<longrightarrow> dp_Status d \<in> Q
     \<longrightarrow> f d (m, n) = (r, (m', n')) \<longrightarrow> attends e m (dp_DispatchID d) m')"

definition sweeping :: "relay_env \<Rightarrow> relay_state \<Rightarrow> string set \<Rightarrow> Dispatch list \<Rightarrow> relay_state \<Rightarrow> bool" where
  "sweeping e m0 ids ds m \<longleftrightarrow> inv_of e m \<and> set ds \<subseteq> set (rb_dispatches (rs_db m)) \<and> distinct (map dp_DispatchID ds)
     \<and> dp_DispatchID ` set ds \<subseteq> ids \<and> (\<forall>j. j \<notin> ids \<longrightarrow> view j m = view j m0)"

lemma sweep_serves:
  assumes one: "serving e Q f"
    and start: "inv_of e m" "set ds \<subseteq> set (rb_dispatches (rs_db m))" "distinct (map dp_DispatchID ds)"
      "\<forall>d \<in> set ds. dp_Status d \<in> Q"
    and run: "for_each f ds (m, n) = (r, (m', n'))"
  shows "inv_of e m'" and "j \<notin> dp_DispatchID ` set ds \<Longrightarrow> view j m' = view j m"
proof -
  let ?R = "\<lambda>xs m'. sweeping e m (dp_DispatchID ` set ds) xs m' \<and> (\<forall>d \<in> set xs. dp_Status d \<in> Q)"
  have step: "triple (?R (d # xs)) (f d) (\<lambda>_. ?R xs)" for d xs
  proof (rule tripleI)
    fix m1 n1 r1 m2 n2
    assume R: "?R (d # xs) m1" and fd: "f d (m1, n1) = (r1, (m2, n2))"
    have s: "attends e m1 (dp_DispatchID d) m2"
      using one [unfolded serving_def, rule_format, OF _ _ _ fd] R by (simp add: sweeping_def)
    have "x \<in> set (rb_dispatches (rs_db m2))" if x: "x \<in> set xs" for x
    proof (rule view_row)
      show "view (dp_DispatchID x) m2 = view (dp_DispatchID x) m1"
      proof -
        have "dp_DispatchID d \<notin> dp_DispatchID ` set xs" using R by (simp add: sweeping_def)
        then have "dp_DispatchID x \<noteq> dp_DispatchID d" using x by (metis imageI)
        then show ?thesis using s by (simp add: attends_def frame_def)
      qed
      show "x \<in> set (rb_dispatches (rs_db m1))" using R x by (simp add: sweeping_def subset_iff)
    qed simp
    moreover have "view j m2 = view j m" if "j \<notin> dp_DispatchID ` set ds" for j
    proof -
      have "dp_DispatchID d \<in> dp_DispatchID ` set ds" using R by (simp add: sweeping_def)
      then have "j \<noteq> dp_DispatchID d" using that by metis
      then have "view j m2 = view j m1" using s by (simp add: attends_def frame_def)
      then show ?thesis using R that by (simp add: sweeping_def)
    qed
    ultimately show "?R xs m2"
      using R s by (simp add: sweeping_def attends_def subset_iff)
  qed
  have weaken: "?R xs m1 \<Longrightarrow> ?R [] m1" for xs m1
    by (simp add: sweeping_def)
  obtain a m1 n1 where t: "traverse f ds (m, n) = (a, (m1, n1))" by (metis prod.collapse)
  have "m' = m1" using run t by (auto simp: for_each_def bindE_def returnE_def split: sum.splits)
  moreover have "?R [] m1"
  proof -
    have "triple (?R ds) (traverse f ds) (\<lambda>_. ?R [])"
      by (rule triple_traverse [where R = ?R]) (rule step, erule weaken)
    moreover have "?R ds m" using start by (simp add: sweeping_def)
    ultimately show ?thesis using t by (rule tripleD [where f = "traverse f ds"])
  qed
  ultimately have end_state: "sweeping e m (dp_DispatchID ` set ds) [] m'" by simp
  then show "inv_of e m'" by (simp add: sweeping_def)
  show "view j m' = view j m" if "j \<notin> dp_DispatchID ` set ds"
    using end_state that by (simp add: sweeping_def)
qed

lemma distinct_selection:
  assumes "distinct (map k xs)"
  shows "distinct (map k (take n (SliceStable lt (filter p xs))))"
proof -
  have "distinct (map k (filter p xs))" using assms by (rule distinct_map_filter)
  moreover have "mset (map k (SliceStable lt (filter p xs))) = mset (map k (filter p xs))" by simp
  ultimately have "distinct (map k (SliceStable lt (filter p xs)))" by (metis mset_eq_imp_distinct_iff)
  then show ?thesis by (simp add: take_map [symmetric] distinct_take)
qed

lemma selection_subset: "set (take n (SliceStable lt (filter p xs))) \<subseteq> {x \<in> set xs. p x}"
  using set_take_subset [of n "SliceStable lt (filter p xs)"] by auto

text \<open>Each sweep reads rows of one status, each once.\<close>

lemma swept_rows:
  assumes "ds = FindRetryable b t db \<and> Q = {DispatchStatusFailedRetryable} \<or> ds = FindSent b t db \<and> Q = {DispatchStatusSent}
    \<or> ds = FindAwaiting b t db \<and> Q = {DispatchStatusAwaitingProviderSignal}"
    and "distinct (map dp_DispatchID (rb_dispatches db))"
  shows "set ds \<subseteq> set (rb_dispatches db)" "distinct (map dp_DispatchID ds)" "\<forall>d \<in> set ds. dp_Status d \<in> Q"
proof -
  obtain n lt p where ds: "ds = take n (SliceStable lt (filter p (rb_dispatches db)))" and p: "\<And>d. p d \<Longrightarrow> dp_Status d \<in> Q"
    using assms(1) unfolding FindRetryable_def FindSent_def FindAwaiting_def by (elim disjE conjE) (erule that, simp)+
  show "set ds \<subseteq> set (rb_dispatches db)" "\<forall>d \<in> set ds. dp_Status d \<in> Q"
    using selection_subset [of n lt p "rb_dispatches db"] p unfolding ds by auto
  show "distinct (map dp_DispatchID ds)" unfolding ds by (rule distinct_selection [OF assms(2)])
qed

lemma queried_sweep:
  assumes one: "serving e Q f"
    and find: "find_rows (rs_db m) = FindRetryable b t (rs_db m) \<and> Q = {DispatchStatusFailedRetryable}
      \<or> find_rows (rs_db m) = FindSent b t (rs_db m) \<and> Q = {DispatchStatusSent}
      \<or> find_rows (rs_db m) = FindAwaiting b t (rs_db m) \<and> Q = {DispatchStatusAwaitingProviderSignal}"
    and inv: "inv_of e m"
    and run: "on_error (relay_query e find_rows) (\<lambda>_. returnE ()) (for_each f) (m, n) = (r, (m', n'))"
  shows "inv_of e m'" and "d \<in> set (rb_dispatches (rs_db m)) \<Longrightarrow> dp_Status d \<notin> Q \<Longrightarrow> view (dp_DispatchID d) m' = view (dp_DispatchID d) m"
proof -
  obtain a m1 n1 where q: "relay_query e find_rows (m, n) = (a, (m1, n1))" by (metis prod.collapse)
  then have m1: "m1 = m" and a: "\<And>x. a = Inr x \<Longrightarrow> x = find_rows (rs_db m)" using relay_query_run [OF q] by auto
  have dist: "distinct (map dp_DispatchID (rb_dispatches (rs_db m)))" using inv by (simp add: inv_of_def relay_inv_def)
  note rows = swept_rows [OF find dist]
  have all: "inv_of e m' \<and> (\<forall>j. j \<notin> dp_DispatchID ` set (find_rows (rs_db m)) \<longrightarrow> view j m' = view j m)"
  proof (cases a)
    case (Inl err)
    then have "m' = m" using run q m1 by (simp add: on_error_def returnE_def)
    then show ?thesis using inv by simp
  next
    case (Inr ds)
    then have "for_each f (find_rows (rs_db m)) (m, n1) = (r, (m', n'))"
      using run q m1 a by (simp add: on_error_def)
    then show ?thesis
      using sweep_serves [OF one inv rows] by blast
  qed
  then show "inv_of e m'" by simp
  assume d: "d \<in> set (rb_dispatches (rs_db m))" "dp_Status d \<notin> Q"
  have "dp_DispatchID d \<notin> dp_DispatchID ` set (find_rows (rs_db m))"
  proof
    assume "dp_DispatchID d \<in> dp_DispatchID ` set (find_rows (rs_db m))"
    then obtain x where x: "x \<in> set (find_rows (rs_db m))" "dp_DispatchID x = dp_DispatchID d" by auto
    then have "x = d" using distinct_key [OF dist] rows(1) d(1) by blast
    then show False using x(1) rows(3) d(2) by blast
  qed
  then show "view (dp_DispatchID d) m' = view (dp_DispatchID d) m" using all by blast
qed

lemma retry_sweep_serves:
  assumes "inv_of e m" and "retry_sweep e (m, n) = (r, (m', n'))"
  shows "inv_of e m'" and "d \<in> set (rb_dispatches (rs_db m)) \<Longrightarrow> dp_Status d \<noteq> DispatchStatusFailedRetryable \<Longrightarrow>
    view (dp_DispatchID d) m' = view (dp_DispatchID d) m"
proof -
  have one: "serving e {DispatchStatusFailedRetryable} (retry_dispatch e)"
    unfolding serving_def by (intro allI impI, rule retry_serves) (simp_all add: resolved_def)
  note sweep = queried_sweep [OF one disjI1 [OF conjI [OF refl refl]] assms(1) assms(2) [unfolded retry_sweep_def]]
  show "inv_of e m'" by (rule sweep(1))
  show "d \<in> set (rb_dispatches (rs_db m)) \<Longrightarrow> dp_Status d \<noteq> DispatchStatusFailedRetryable \<Longrightarrow>
    view (dp_DispatchID d) m' = view (dp_DispatchID d) m" using sweep(2) by simp
qed

lemma recover_sent_serves:
  assumes "inv_of e m" and "recoverSentDispatches e (m, n) = (r, (m', n'))"
  shows "inv_of e m'" and "d \<in> set (rb_dispatches (rs_db m)) \<Longrightarrow> dp_Status d \<noteq> DispatchStatusSent \<Longrightarrow>
    view (dp_DispatchID d) m' = view (dp_DispatchID d) m"
proof -
  have one: "serving e {DispatchStatusSent} (resolveViaQuery e)"
    unfolding serving_def by (intro allI impI, rule resolve_serves) (simp_all)
  note sweep = queried_sweep [OF one disjI2 [OF disjI1 [OF conjI [OF refl refl]]] assms(1) assms(2) [unfolded recoverSentDispatches_def]]
  show "inv_of e m'" by (rule sweep(1))
  show "d \<in> set (rb_dispatches (rs_db m)) \<Longrightarrow> dp_Status d \<noteq> DispatchStatusSent \<Longrightarrow>
    view (dp_DispatchID d) m' = view (dp_DispatchID d) m" using sweep(2) by simp
qed

lemma recover_awaiting_serves:
  assumes "inv_of e m" and "recoverAwaitingDispatches e (m, n) = (r, (m', n'))"
  shows "inv_of e m'" and "d \<in> set (rb_dispatches (rs_db m)) \<Longrightarrow> dp_Status d \<noteq> DispatchStatusAwaitingProviderSignal \<Longrightarrow>
    view (dp_DispatchID d) m' = view (dp_DispatchID d) m"
proof -
  have one: "serving e {DispatchStatusAwaitingProviderSignal} (resolveViaQuery e)"
    unfolding serving_def by (intro allI impI, rule resolve_serves) (simp_all)
  note sweep = queried_sweep [OF one disjI2 [OF disjI2 [OF conjI [OF refl refl]]] assms(1) assms(2) [unfolded recoverAwaitingDispatches_def]]
  show "inv_of e m'" by (rule sweep(1))
  show "d \<in> set (rb_dispatches (rs_db m)) \<Longrightarrow> dp_Status d \<noteq> DispatchStatusAwaitingProviderSignal \<Longrightarrow>
    view (dp_DispatchID d) m' = view (dp_DispatchID d) m" using sweep(2) by simp
qed

lemma recovery_sweep_serves:
  assumes inv: "inv_of e m" and run: "recovery_sweep e (m, n) = (r, (m', n'))"
  shows "inv_of e m'" and "d \<in> set (rb_dispatches (rs_db m)) \<Longrightarrow> dp_Status d \<noteq> DispatchStatusSent \<Longrightarrow>
    dp_Status d \<noteq> DispatchStatusAwaitingProviderSignal \<Longrightarrow> view (dp_DispatchID d) m' = view (dp_DispatchID d) m"
proof -
  obtain a m1 n1 where s: "recoverSentDispatches e (m, n) = (a, (m1, n1))" by (metis prod.collapse)
  have rest: "m' = m1 \<or> recoverAwaitingDispatches e (m1, n1) = (r, (m', n'))"
    using run s by (auto simp: recovery_sweep_def bindE_def split: sum.splits)
  note one = recover_sent_serves [OF inv s]
  show "inv_of e m'" using rest one(1) recover_awaiting_serves(1) [OF one(1)] by blast
  assume d: "d \<in> set (rb_dispatches (rs_db m))" "dp_Status d \<noteq> DispatchStatusSent"
    "dp_Status d \<noteq> DispatchStatusAwaitingProviderSignal"
  have v: "view (dp_DispatchID d) m1 = view (dp_DispatchID d) m" by (rule one(2) [OF d(1,2)])
  have "d \<in> set (rb_dispatches (rs_db m1))" by (rule view_row [OF v d(1) refl])
  then have "m' = m1 \<or> view (dp_DispatchID d) m' = view (dp_DispatchID d) m1"
    using rest recover_awaiting_serves(2) [OF one(1)] d(3) by blast
  then show "view (dp_DispatchID d) m' = view (dp_DispatchID d) m" using v by metis
qed

end
