(* ===== verification/OutboxLaws.thy ===== *)
theory OutboxLaws
  imports RelaySteps
begin

text \<open>
  The contract of the outbox.  The operations on dispatches only append pending rows; the worker of
  the relay loop marks a row published when its message is in Kafka, and failed when a durable
  failure record holds the message.  So no event is ever lost.
\<close>

section \<open>Dispatch operations append\<close>

definition adds :: "'a rio \<Rightarrow> bool" where
  "adds f \<longleftrightarrow> (\<forall>m0. triple (appends m0) f (\<lambda>_. appends m0))"

lemma addsI: "(\<And>m n r m' n'. f (m, n) = (r, (m', n')) \<Longrightarrow> appends m m') \<Longrightarrow> adds f"
  unfolding adds_def by (intro allI tripleI) (blast intro: extends_trans)

lemma addsD: "adds f \<Longrightarrow> f (m, n) = (r, (m', n')) \<Longrightarrow> appends m m'"
  unfolding adds_def using tripleD [of "appends m" f "\<lambda>_. appends m" m n r m' n'] by simp

named_theorems adds_intros \<open>computations that only append to the outbox\<close>

lemma adds_return [adds_intros]: "adds (returnE x)"
  by (rule addsI) (simp add: returnE_def)

lemma adds_bind [adds_intros]: "adds f \<Longrightarrow> (\<And>x. adds (g x)) \<Longrightarrow> adds (bindE f g)"
  unfolding adds_def by (blast intro: triple_bind_const)

lemma adds_on_error [adds_intros]: "adds f \<Longrightarrow> (\<And>err. adds (h err)) \<Longrightarrow> (\<And>x. adds (g x)) \<Longrightarrow> adds (on_error f h g)"
  unfolding adds_def by (blast intro: triple_on_error_const)

lemma adds_log [adds_intros]: "adds f \<Longrightarrow> adds (log_error f)"
  unfolding adds_def by (blast intro: triple_log_error)

lemma adds_if [adds_intros]: "adds f \<Longrightarrow> adds g \<Longrightarrow> adds (if b then f else g)"
  by simp

lemma adds_option [adds_intros]: "adds f \<Longrightarrow> (\<And>y. adds (g y)) \<Longrightarrow> adds (case x of None \<Rightarrow> f | Some y \<Rightarrow> g y)"
  by (cases x) simp_all

lemma adds_sum [adds_intros]: "(\<And>y. adds (f y)) \<Longrightarrow> (\<And>y. adds (g y)) \<Longrightarrow> adds (case x of Inl y \<Rightarrow> f y | Inr y \<Rightarrow> g y)"
  by (cases x) simp_all

lemma adds_prod [adds_intros]: "(\<And>y z. adds (f y z)) \<Longrightarrow> adds (case x of (y, z) \<Rightarrow> f y z)"
  by (cases x) simp

lemma adds_Let [adds_intros]: "(\<And>x. adds (f x)) \<Longrightarrow> adds (let x = a in f x)"
  by simp

lemma adds_traverse: "(\<And>x. adds (f x)) \<Longrightarrow> adds (traverse f xs)"
  by (induction xs) (simp_all add: adds_return adds_bind)

lemma adds_for_each [adds_intros]: "(\<And>x. adds (f x)) \<Longrightarrow> adds (for_each f xs)"
  unfolding for_each_def by (intro adds_intros adds_traverse)

lemma adds_query [adds_intros]: "adds (relay_query e f)"
  by (rule addsI, drule relay_query_run) simp

lemma adds_modify:
  "(\<And>m. rs_db (snd (f m)) = rs_db m) \<Longrightarrow> (\<And>m. rs_kafka (snd (f m)) = rs_kafka m) \<Longrightarrow> adds (modify f)"
  by (rule addsI) (auto simp: modify_def appends_def)

lemma adds_remote [adds_intros]: "adds (remote e f)"
  by (rule addsI) (simp add: remote_def split: option.splits)

lemma adds_callPSP [adds_intros]: "adds (callPSP e q)"
  by (rule addsI) (auto simp: callPSP_def appends_def split: option.splits)

text \<open>Statements that leave the outbox and the failure records alone.\<close>

definition outbox_quiet :: "(relay_db \<Rightarrow> string + 'a \<times> relay_db) \<Rightarrow> bool" where
  "outbox_quiet f \<longleftrightarrow> (\<forall>db x db'. f db = Inr (x, db') \<longrightarrow> rb_outbox db' = rb_outbox db \<and> rb_failures db' = rb_failures db)"

lemma dispatch_statements [adds_intros]:
  "outbox_quiet (MarkGovernanceDecisionTx i decision codes now)" "outbox_quiet (MarkSentTx i key fp now)"
  "outbox_quiet (MarkProviderAckedTx i att st now)" "outbox_quiet (MarkAwaitingProviderSignalTx i now)"
  "outbox_quiet (MarkFailedRetryableTx i rc t now)" "outbox_quiet (MarkFailedTerminalTx i now)"
  "outbox_quiet (InsertTx d js now)"
  by (auto simp: outbox_quiet_def MarkGovernanceDecisionTx_def MarkSentTx_def MarkProviderAckedTx_def
    MarkAwaitingProviderSignalTx_def MarkFailedRetryableTx_def MarkFailedTerminalTx_def InsertTx_def update_dispatch_def
    split: if_splits)

lemma with_event_failures [simp]: "rb_failures (with_event ev now db) = rb_failures db"
  by (simp add: with_event_def)

lemma recorded_extends:
  assumes rec: "booked e m d p f r m'" and quiet: "outbox_quiet f"
  shows "appends m m'"
proof (cases r)
  case (Inl err)
  then show ?thesis using rec by (auto simp: booked_def appends_def)
next
  case (Inr u)
  then obtain i k db where m': "m' = m\<lparr>rs_ids := k, rs_db := db\<rparr>"
    and db: "fresh_event i (rs_db m) \<and> f (with_event (event_for e i d p) (re_now e) (rs_db m)) = Inr ((), db)
        \<or> (\<exists>db1. f (rs_db m) = Inr ((), db1) \<and> fresh_event i db1 \<and> db = with_event (event_for e i d p) (re_now e) db1)"
    using rec by (auto simp: booked_def)
  have fr: "fresh_event i (rs_db m)" and out: "rb_outbox db = rb_outbox (with_event (event_for e i d p) (re_now e) (rs_db m))"
    and fails: "rb_failures db = rb_failures (rs_db m)"
    using db quiet by (auto simp: outbox_quiet_def fresh_event_def with_event_def)
  obtain row where row: "rb_outbox db = rb_outbox (rs_db m) @ [row]" "ro_EventID row = i" "ro_Status row = OutboxPending"
    using out by (simp add: with_event_def)
  have "\<exists>new. rb_outbox db = rb_outbox (rs_db m) @ new \<and> (\<forall>r \<in> set new. ro_Status r = OutboxPending)"
    using row by (intro exI [of _ "[row]"]) simp
  then show ?thesis
    using fr row fails by (simp add: m' appends_def fresh_event_def)
qed

lemma adds_event_then [adds_intros]: "outbox_quiet f \<Longrightarrow> adds (event_then e d p f)"
  by (rule addsI) (rule recorded_extends [OF event_then_run])

lemma adds_then_event [adds_intros]: "outbox_quiet f \<Longrightarrow> adds (then_event e d p f)"
  by (rule addsI) (rule recorded_extends [OF then_event_run])

lemma adds_memory [adds_intros]:
  "adds (modify (\<lambda>m. ((), recordPSPFailure e m)))" "adds (modify (\<lambda>m. ((), recordPSPSuccess m)))"
  "adds (modify (evaluateGovernance e c))" "adds (modify (\<lambda>m. ((), m\<lparr>rs_outcomes := rs_outcomes m @ [o']\<rparr>)))"
  "adds (draw_id e)"
  unfolding draw_id_def
  by (intro adds_modify; simp add: recordPSPFailure_def recordPSPSuccess_def evaluateGovernance_def circuitOpen_def Let_def)+

lemma adds_marks [adds_intros]:
  "adds (stored_attempt e d)" "adds (markFailedRetryable e d rc code reason)" "adds (markFailedTerminal e d reason)"
  "adds (markAwaitingProviderSignal e d reason)" "adds (reportRouterOutcome e d ok cl)"
  unfolding stored_attempt_def markFailedRetryable_def markFailedTerminal_def markAwaitingProviderSignal_def reportRouterOutcome_def
  by (intro adds_intros)+

lemma adds_steps [adds_intros]: "adds (runSteps2to5 e d payload)"
  unfolding runSteps2to5_def detokenize_and_send_def send_payout_def attempt_sent_def psp_failed_def psp_acked_def
  by (intro adds_intros)

lemma adds_verify [adds_intros]: "adds (verifyDispatchPayloadHash e ev)"
proof (rule addsI)
  fix m n r m' n'
  assume run: "verifyDispatchPayloadHash e ev (m, n) = (r, (m', n'))"
  have "alike m m'" by (rule tripleD [OF verify_alike [of m] _ run]) (simp add: alike_def)
  then show "appends m m'" by (rule alike_extends)
qed

lemma adds_operations:
  "adds (processMessage e decode v)" "adds (retry_sweep e)" "adds (recovery_sweep e)"
  unfolding processMessage_def processEvent_def dispatch_event_def redelivered_def take_ownership_def retry_sweep_def
    retry_dispatch_def recovery_sweep_def recoverSentDispatches_def recoverAwaitingDispatches_def resolveViaQuery_def
  by (intro adds_intros)+


section \<open>Nothing is lost on the way to Kafka\<close>

text \<open>What the status of an outbox row stands for.\<close>

definition sent_as :: "relay_env \<Rightarrow> RelayOutboxRow \<Rightarrow> kafka_message \<Rightarrow> bool" where
  "sent_as e row msg \<longleftrightarrow> km_Topic msg = fst (re_Topics e) \<and> km_Key msg = ro_DispatchID row
     \<and> km_Value msg = re_json e (ro_Payload row)"

definition kept_as :: "relay_env \<Rightarrow> RelayOutboxRow \<Rightarrow> PublishFailureRecord \<Rightarrow> bool" where
  "kept_as e row rec \<longleftrightarrow> pf_SourceEventID rec = ro_EventID row \<and> pf_MessageKey rec = ro_DispatchID row
     \<and> pf_MessageValue rec = re_json e (ro_Payload row)"

definition accounted :: "relay_env \<Rightarrow> relay_state \<Rightarrow> RelayOutboxRow \<Rightarrow> bool" where
  "accounted e m row \<longleftrightarrow>
     (ro_Status row = OutboxPublished \<longrightarrow> (\<exists>msg \<in> set (rs_kafka m). sent_as e row msg))
   \<and> (ro_Status row = OutboxFailed \<longrightarrow> (\<exists>rec \<in> set (rb_failures (rs_db m)). kept_as e row rec))"

definition outbox_inv :: "relay_env \<Rightarrow> relay_state \<Rightarrow> bool" where
  "outbox_inv e m \<longleftrightarrow> distinct (map ro_EventID (rb_outbox (rs_db m))) \<and> (\<forall>row \<in> set (rb_outbox (rs_db m)). accounted e m row)"

lemma extends_outbox_inv:
  assumes "outbox_inv e m0" and "appends m0 m"
  shows "outbox_inv e m"
proof -
  have acc: "accounted e m row = accounted e m0 row" for row
    using assms(2) by (simp add: accounted_def appends_def)
  obtain new where "rb_outbox (rs_db m) = rb_outbox (rs_db m0) @ new" "\<forall>r \<in> set new. ro_Status r = OutboxPending"
    using assms(2) by (auto simp: appends_def)
  moreover have "distinct (map ro_EventID (rb_outbox (rs_db m)))"
    using assms by (simp add: appends_def outbox_inv_def)
  ultimately show ?thesis
    using assms(1) acc by (auto simp: outbox_inv_def accounted_def)
qed

text \<open>The worker keeps the invariant and the content of the outbox.\<close>

definition publishing :: "relay_env \<Rightarrow> relay_state \<Rightarrow> relay_state \<Rightarrow> bool" where
  "publishing e m0 m \<longleftrightarrow> outbox_inv e m \<and> untouched m0 m"

lemma content_entry: "row \<in> set (rb_outbox db) \<Longrightarrow> (ro_EventID row, ro_DispatchID row, ro_Payload row) \<in> set (outbox_content db)"
  by (auto simp: outbox_content_def)

lemma same_content:
  assumes "outbox_inv e m" and "(ro_EventID r, ro_DispatchID r, ro_Payload r) \<in> set (outbox_content (rs_db m))"
    and "row \<in> set (rb_outbox (rs_db m))" and "ro_EventID row = ro_EventID r"
  shows "ro_DispatchID row = ro_DispatchID r \<and> ro_Payload row = ro_Payload r"
proof -
  obtain x where x: "x \<in> set (rb_outbox (rs_db m))" "ro_EventID x = ro_EventID r" "ro_DispatchID x = ro_DispatchID r"
    "ro_Payload x = ro_Payload r"
    using assms(2) by (auto simp: outbox_content_def)
  have "distinct (map ro_EventID (rb_outbox (rs_db m)))" using assms(1) by (simp add: outbox_inv_def)
  then have "row = x" using distinct_key assms(3,4) x(1,2) by metis
  then show ?thesis using x by simp
qed

lemma accounted_cong:
  assumes "ro_Status row' = ro_Status row \<or> ro_Status row' = OutboxPending" and "ro_EventID row' = ro_EventID row"
    and "ro_DispatchID row' = ro_DispatchID row" and "ro_Payload row' = ro_Payload row"
    and "set (rs_kafka m) \<subseteq> set (rs_kafka m')" and "\<And>rec. rec \<in> set (rb_failures (rs_db m)) \<Longrightarrow> kept_as e row rec \<Longrightarrow>
      \<exists>rec' \<in> set (rb_failures (rs_db m')). kept_as e row rec'"
    and "accounted e m row"
  shows "accounted e m' row'"
  using assms by (auto simp: accounted_def sent_as_def kept_as_def)

lemma Publish_triple:
  "triple (publishing e m0) (Publish e msg) (\<lambda>r m. publishing e m0 m \<and> (r = Inr () \<longrightarrow> msg \<in> set (rs_kafka m)))"
proof (rule tripleI)
  fix m n r m' n'
  assume P: "publishing e m0 m" and run: "Publish e msg (m, n) = (r, (m', n'))"
  have "m' = m \<and> r \<noteq> Inr () \<or> m' = m\<lparr>rs_kafka := rs_kafka m @ [msg]\<rparr>"
    using run by (auto simp: Publish_def split: option.splits)
  moreover have "outbox_inv e (m\<lparr>rs_kafka := rs_kafka m @ [msg]\<rparr>)" if "outbox_inv e m"
  proof -
    have "accounted e (m\<lparr>rs_kafka := rs_kafka m @ [msg]\<rparr>) row" if "accounted e m row" for row
      by (rule accounted_cong [OF _ _ _ _ _ _ that]) auto
    then show ?thesis using that by (simp add: outbox_inv_def)
  qed
  ultimately show "publishing e m0 m' \<and> (r = Inr () \<longrightarrow> msg \<in> set (rs_kafka m'))"
    using P by (auto simp: publishing_def untouched_def)
qed

text \<open>The statements of the worker, for a row that is in the outbox.\<close>

definition in_outbox :: "relay_state \<Rightarrow> RelayOutboxRow \<Rightarrow> bool" where
  "in_outbox m row \<longleftrightarrow> (ro_EventID row, ro_DispatchID row, ro_Payload row) \<in> set (outbox_content (rs_db m))"

lemma update_outbox_content:
  assumes "\<And>r. ro_EventID (f r) = ro_EventID r \<and> ro_DispatchID (f r) = ro_DispatchID r \<and> ro_Payload (f r) = ro_Payload r"
  shows "outbox_content (update_outbox p f db) = outbox_content db"
  using assms by (auto simp: outbox_content_def update_outbox_def)

lemma update_outbox_ids:
  assumes "\<And>r. ro_EventID (f r) = ro_EventID r"
  shows "map ro_EventID (rb_outbox (update_outbox p f db)) = map ro_EventID (rb_outbox db)"
  using assms by (auto simp: update_outbox_def)

lemma update_publishing:
  assumes P: "publishing e m0 m" and f: "\<And>r. ro_EventID (f r) = ro_EventID r \<and> ro_DispatchID (f r) = ro_DispatchID r \<and> ro_Payload (f r) = ro_Payload r"
    and acc: "\<And>r. r \<in> set (rb_outbox (rs_db m)) \<Longrightarrow> p r \<Longrightarrow> accounted e m r \<Longrightarrow> accounted e m (f r)"
  shows "publishing e m0 (m\<lparr>rs_db := update_outbox p f (rs_db m)\<rparr>)" (is "publishing _ _ ?m")
proof -
  have same: "accounted e ?m r = accounted e m r" for r by (simp add: accounted_def update_outbox_def)
  have "accounted e ?m row" if "row \<in> set (rb_outbox (rs_db ?m))" for row
  proof -
    have "row \<in> (\<lambda>r. if p r then f r else r) ` set (rb_outbox (rs_db m))"
      using that by (simp add: update_outbox_def)
    then obtain x where x: "row = (if p x then f x else x)" "x \<in> set (rb_outbox (rs_db m))" by (rule imageE)
    moreover from this have "accounted e m x" using P by (simp add: publishing_def outbox_inv_def)
    ultimately show ?thesis unfolding same using acc by simp
  qed
  moreover have "distinct (map ro_EventID (rb_outbox (rs_db ?m)))"
    using P f by (simp add: update_outbox_ids publishing_def outbox_inv_def)
  moreover have "untouched m0 ?m"
    using P f by (simp add: publishing_def untouched_def update_outbox_content) (simp add: update_outbox_def)
  ultimately show ?thesis by (simp add: publishing_def outbox_inv_def)
qed

lemma exec_run:
  assumes "relay_exec e f (m, n) = (r, (m', n'))"
  shows "(\<exists>err. r = Inl err) \<and> m' = m \<or> (\<exists>x db. r = Inr x \<and> f (rs_db m) = Inr (x, db) \<and> m' = m\<lparr>rs_db := db\<rparr>)"
  using assms by (auto simp: relay_exec_def split: option.splits sum.splits prod.splits)

lemma untouched_in_outbox: "untouched m0 m \<Longrightarrow> in_outbox m0 row \<Longrightarrow> in_outbox m row"
  by (simp add: untouched_def in_outbox_def)

lemma MarkPublished_triple:
  assumes row: "in_outbox m0 row"
  shows "triple (\<lambda>m. publishing e m0 m \<and> event_message e row \<in> set (rs_kafka m))
    (relay_exec e (MarkPublished [ro_EventID row] now)) (\<lambda>_. publishing e m0)"
proof (rule tripleI)
  fix m n r m' n'
  assume P: "publishing e m0 m \<and> event_message e row \<in> set (rs_kafka m)"
    and run: "relay_exec e (MarkPublished [ro_EventID row] now) (m, n) = (r, (m', n'))"
  have here: "in_outbox m row" and inv: "outbox_inv e m" using untouched_in_outbox row P by (auto simp: publishing_def)
  have "sent_as e r (event_message e row)" if "r \<in> set (rb_outbox (rs_db m))" "ro_EventID r = ro_EventID row" for r
    using same_content [OF inv here [unfolded in_outbox_def] that] by (simp add: sent_as_def event_message_def)
  then have "publishing e m0 (m\<lparr>rs_db := update_outbox (\<lambda>r. ro_EventID r \<in> set [ro_EventID row] \<and> ro_Status r = OutboxPending)
       (\<lambda>r. r\<lparr>ro_Status := OutboxPublished, ro_PublishedAt := Some now\<rparr>) (rs_db m)\<rparr>)"
    using P by (intro update_publishing) (auto simp: accounted_def sent_as_def)
  then show "publishing e m0 m'"
    using exec_run [OF run] P by (auto simp: MarkPublished_def)
qed


lemma Record_run:
  assumes "Record rec db = Inr (x, db')"
  shows "rb_dispatches db' = rb_dispatches db" "rb_outbox db' = rb_outbox db"
    "\<exists>y \<in> set (rb_failures db'). pf_SourceEventID y = pf_SourceEventID rec \<and> pf_MessageKey y = pf_MessageKey rec
       \<and> pf_MessageValue y = pf_MessageValue rec"
    "y \<in> set (rb_failures db) \<Longrightarrow> \<exists>y' \<in> set (rb_failures db'). pf_SourceEventID y' = pf_SourceEventID y
       \<and> (y' = y \<or> pf_SourceEventID y = pf_SourceEventID rec \<and> pf_MessageKey y' = pf_MessageKey rec \<and> pf_MessageValue y' = pf_MessageValue rec)"
proof -
  define h where "h = (\<lambda>old. if same_failure rec old
             then old\<lparr>pf_Topic := pf_Topic rec, pf_PayloadHash := pf_PayloadHash rec, pf_MessageKey := pf_MessageKey rec,
               pf_MessageValue := pf_MessageValue rec, pf_Headers := pf_Headers rec, pf_AttemptCount := pf_AttemptCount rec,
               pf_FailureClass := pf_FailureClass rec, pf_LastError := pf_LastError rec,
               pf_ReplayStatus := (if pf_ReplayStatus old = ReplayStatusReplayed then ReplayStatusReplayed
                                   else pf_ReplayStatus rec)\<rparr>
             else old)"
  let ?new = "rec\<lparr>pf_FailureID := next_failure_id db, pf_ReplayedAt := None\<rparr>"
  have db': "db' = db\<lparr>rb_failures := (if list_ex (same_failure rec) (rb_failures db) then map h (rb_failures db)
      else rb_failures db @ [?new])\<rparr>"
    using assms by (simp add: Record_def h_def split: if_splits)
  show "rb_dispatches db' = rb_dispatches db" "rb_outbox db' = rb_outbox db" by (simp_all add: db')
  have h: "pf_SourceEventID (h y) = pf_SourceEventID y"
    "h y = y \<or> pf_SourceEventID y = pf_SourceEventID rec \<and> pf_MessageKey (h y) = pf_MessageKey rec \<and> pf_MessageValue (h y) = pf_MessageValue rec" for y
    by (simp_all add: h_def same_failure_def)
  have hit: "pf_SourceEventID (h y) = pf_SourceEventID rec \<and> pf_MessageKey (h y) = pf_MessageKey rec \<and> pf_MessageValue (h y) = pf_MessageValue rec"
    if "same_failure rec y" for y
    using that by (simp add: h_def) (simp add: same_failure_def)
  show "\<exists>y \<in> set (rb_failures db'). pf_SourceEventID y = pf_SourceEventID rec \<and> pf_MessageKey y = pf_MessageKey rec
       \<and> pf_MessageValue y = pf_MessageValue rec"
    using hit by (auto simp: db' list_ex_iff)
  show "\<exists>y' \<in> set (rb_failures db'). pf_SourceEventID y' = pf_SourceEventID y
       \<and> (y' = y \<or> pf_SourceEventID y = pf_SourceEventID rec \<and> pf_MessageKey y' = pf_MessageKey rec \<and> pf_MessageValue y' = pf_MessageValue rec)"
    if "y \<in> set (rb_failures db)"
  proof (cases "list_ex (same_failure rec) (rb_failures db)")
    case True
    then have "h y \<in> set (rb_failures db')" using that by (simp add: db')
    then show ?thesis using h [of y] by blast
  next
    case False
    then have "y \<in> set (rb_failures db')" using that by (simp add: db')
    then show ?thesis by blast
  qed
qed

lemma Record_triple:
  assumes row: "in_outbox m0 row"
  shows "triple (publishing e m0) (relay_exec e (Record (failure_record e row poison cause)))
    (\<lambda>r m. publishing e m0 m \<and> (r = Inr () \<longrightarrow> (\<exists>rec \<in> set (rb_failures (rs_db m)). kept_as e row rec)))"
proof (rule tripleI)
  fix m n r m' n'
  let ?rec = "failure_record e row poison cause"
  assume P: "publishing e m0 m" and run: "relay_exec e (Record ?rec) (m, n) = (r, (m', n'))"
  show "publishing e m0 m' \<and> (r = Inr () \<longrightarrow> (\<exists>rec \<in> set (rb_failures (rs_db m')). kept_as e row rec))"
  proof (cases r)
    case (Inl err)
    then show ?thesis using exec_run [OF run] P by auto
  next
    case (Inr u)
    then obtain db where db: "Record ?rec (rs_db m) = Inr ((), db)" and m': "m' = m\<lparr>rs_db := db\<rparr>"
      using exec_run [OF run] by auto
    note rec = Record_run [OF db]
    have fields: "pf_SourceEventID ?rec = ro_EventID row" "pf_MessageKey ?rec = ro_DispatchID row"
      "pf_MessageValue ?rec = re_json e (ro_Payload row)" by (simp_all add: failure_record_def)
    have here: "in_outbox m row" and inv: "outbox_inv e m" using untouched_in_outbox row P by (auto simp: publishing_def)
    have "accounted e m' x" if x: "x \<in> set (rb_outbox (rs_db m))" for x
    proof (rule accounted_cong)
      show "\<exists>rec' \<in> set (rb_failures (rs_db m')). kept_as e x rec'" if y: "y \<in> set (rb_failures (rs_db m))" and k: "kept_as e x y" for y
      proof -
        obtain y' where y': "y' \<in> set (rb_failures db)" "pf_SourceEventID y' = pf_SourceEventID y"
          "y' = y \<or> pf_SourceEventID y = ro_EventID row \<and> pf_MessageKey y' = ro_DispatchID row \<and> pf_MessageValue y' = re_json e (ro_Payload row)"
          using rec(4) [OF y] fields by auto
        have "ro_EventID x = ro_EventID row \<Longrightarrow> ro_DispatchID x = ro_DispatchID row \<and> ro_Payload x = ro_Payload row"
          by (rule same_content [OF inv here [unfolded in_outbox_def] x])
        then have "kept_as e x y'" using y' k by (auto simp: kept_as_def)
        then show ?thesis using y'(1) by (auto simp: m')
      qed
      show "accounted e m x" using inv x by (simp add: outbox_inv_def)
    qed (simp_all add: m')
    then have "publishing e m0 m'"
      using P rec(1,2) by (simp add: publishing_def outbox_inv_def untouched_def outbox_content_def m')
    moreover have "\<exists>rec \<in> set (rb_failures (rs_db m')). kept_as e row rec"
      using rec(3) fields by (auto simp: m' kept_as_def)
    ultimately show ?thesis by simp
  qed
qed

definition given_up :: "RelayOutboxRow \<Rightarrow> relay_state \<Rightarrow> bool" where
  "given_up row m \<longleftrightarrow> (\<forall>r \<in> set (rb_outbox (rs_db m)). ro_EventID r = ro_EventID row \<longrightarrow> ro_Status r = OutboxFailed)"

lemma MarkFailed_triple:
  assumes row: "in_outbox m0 row"
  shows "triple (\<lambda>m. publishing e m0 m \<and> (\<exists>rec \<in> set (rb_failures (rs_db m)). kept_as e row rec))
    (relay_exec e (MarkFailed (ro_EventID row))) (\<lambda>r m. publishing e m0 m \<and> (r = Inr () \<longrightarrow> given_up row m))"
proof (rule tripleI)
  fix m n r m' n'
  assume P: "publishing e m0 m \<and> (\<exists>rec \<in> set (rb_failures (rs_db m)). kept_as e row rec)"
    and run: "relay_exec e (MarkFailed (ro_EventID row)) (m, n) = (r, (m', n'))"
  let ?m = "m\<lparr>rs_db := update_outbox (\<lambda>r. ro_EventID r = ro_EventID row) (\<lambda>r. r\<lparr>ro_Status := OutboxFailed\<rparr>) (rs_db m)\<rparr>"
  have here: "in_outbox m row" and inv: "outbox_inv e m" using untouched_in_outbox row P by (auto simp: publishing_def)
  obtain rec where rec: "rec \<in> set (rb_failures (rs_db m))" "kept_as e row rec" using P by blast
  have "kept_as e r rec" if "r \<in> set (rb_outbox (rs_db m))" "ro_EventID r = ro_EventID row" for r
    using same_content [OF inv here [unfolded in_outbox_def] that] that rec(2) by (simp add: kept_as_def)
  then have "publishing e m0 ?m"
    using P rec(1) by (intro update_publishing) (auto simp: accounted_def kept_as_def)
  moreover have "given_up row ?m" by (auto simp: given_up_def update_outbox_def)
  ultimately show "publishing e m0 m' \<and> (r = Inr () \<longrightarrow> given_up row m')"
    using exec_run [OF run] P by (auto simp: MarkFailed_def)
qed

lemma MarkPublished_given_up:
  "triple (\<lambda>m. publishing e m0 m \<and> given_up row m) (relay_exec e (MarkPublished [ro_EventID row] now)) (\<lambda>_. publishing e m0)"
proof (rule tripleI)
  fix m n r m' n'
  assume P: "publishing e m0 m \<and> given_up row m"
    and run: "relay_exec e (MarkPublished [ro_EventID row] now) (m, n) = (r, (m', n'))"
  then have "publishing e m0 (m\<lparr>rs_db := update_outbox (\<lambda>r. ro_EventID r \<in> set [ro_EventID row] \<and> ro_Status r = OutboxPending)
       (\<lambda>r. r\<lparr>ro_Status := OutboxPublished, ro_PublishedAt := Some now\<rparr>) (rs_db m)\<rparr>)"
    by (intro update_publishing) (auto simp: given_up_def)
  then show "publishing e m0 m'"
    using exec_run [OF run] P by (auto simp: MarkPublished_def)
qed

section \<open>The worker\<close>

lemma record_triple:
  assumes row: "in_outbox m0 row"
  shows "triple (publishing e m0) (recordFailureAndMarkTerminal e row poison cause)
    (\<lambda>r m. publishing e m0 m \<and> (r = Inr True \<longrightarrow> given_up row m))"
proof -
  have no: "triple (publishing e m0) (returnE False) (\<lambda>r m. publishing e m0 m \<and> (r = Inr True \<longrightarrow> given_up row m))"
    by (rule triple_returnE) simp
  let ?K = "\<lambda>m. publishing e m0 m \<and> (\<exists>rec \<in> set (rb_failures (rs_db m)). kept_as e row rec)"
  have mark: "triple ?K (on_error (relay_exec e (MarkFailed (ro_EventID row))) (\<lambda>_. returnE False) (\<lambda>_. returnE True))
      (\<lambda>r m. publishing e m0 m \<and> (r = Inr True \<longrightarrow> given_up row m))"
    by (rule triple_on_error [where H = "\<lambda>_. publishing e m0" and R = "\<lambda>_ m. publishing e m0 m \<and> given_up row m"])
      (rule triple_conseq [OF MarkFailed_triple [OF row]], simp, simp split: sum.split,
       rule no, rule triple_returnE, simp)
  show ?thesis
    unfolding recordFailureAndMarkTerminal_def
    by (rule triple_if, rule no,
      rule triple_on_error [where H = "\<lambda>_. publishing e m0" and R = "\<lambda>_. ?K"],
      rule triple_conseq [OF Record_triple [OF row]], simp, simp split: sum.split, rule no, rule mark)
qed

lemma publish_failed_triple:
  assumes row: "in_outbox m0 row"
  shows "triple (publishing e m0) (publish_failed e row err) (\<lambda>_. publishing e m0)"
proof -
  have ret: "triple (publishing e m0) (returnE ()) (\<lambda>_. publishing e m0)" by (rule triple_returnE)
  have pub: "triple (publishing e m0) (Publish e msg) (\<lambda>_. publishing e m0)" for msg
    by (rule triple_conseq [OF Publish_triple [of e m0]]) simp_all
  have mark: "triple (publishing e m0) (bindE (recordFailureAndMarkTerminal e row poison err) (\<lambda>terminalAck.
              if terminalAck then log_error (relay_exec e (MarkPublished [ro_EventID row] (re_now e))) else returnE ()))
      (\<lambda>_. publishing e m0)" for poison
  proof (rule triple_bindE [where R = "\<lambda>ack m. publishing e m0 m \<and> (ack \<longrightarrow> given_up row m)"])
    show "triple (publishing e m0) (recordFailureAndMarkTerminal e row poison err)
        (\<lambda>r m. case r of Inl err \<Rightarrow> publishing e m0 m | Inr x \<Rightarrow> publishing e m0 m \<and> (x \<longrightarrow> given_up row m))"
      by (rule triple_conseq [OF record_triple [OF row]]) (simp_all split: sum.split)
    show "triple (\<lambda>m. publishing e m0 m \<and> (x \<longrightarrow> given_up row m))
        (if x then log_error (relay_exec e (MarkPublished [ro_EventID row] (re_now e))) else returnE ()) (\<lambda>_. publishing e m0)" for x
      by (cases x) (simp_all add: triple_log_error MarkPublished_given_up ret)
  qed
  show ?thesis
    unfolding publish_failed_def Let_def by (intro triple_on_error_const pub ret triple_if mark)
qed

lemma publish_event_triple:
  assumes row: "in_outbox m0 row"
  shows "triple (publishing e m0) (publish_event e row) (\<lambda>_. publishing e m0)"
  unfolding publish_event_def
proof (rule triple_on_error [where H = "\<lambda>_. publishing e m0" and
      R = "\<lambda>_ m. publishing e m0 m \<and> event_message e row \<in> set (rs_kafka m)"])
  show "triple (publishing e m0) (Publish e (event_message e row))
      (\<lambda>r m. case r of Inl err \<Rightarrow> publishing e m0 m | Inr x \<Rightarrow> publishing e m0 m \<and> event_message e row \<in> set (rs_kafka m))"
    by (rule triple_conseq [OF Publish_triple [of e m0]]) (simp_all split: sum.split)
qed (rule publish_failed_triple [OF row], rule triple_log_error, rule MarkPublished_triple [OF row])

lemma poll_publishing:
  assumes inv: "outbox_inv e m" and run: "relay_poll e (m, n) = (r, (m', n'))"
  shows "publishing e m m'"
proof -
  have start: "publishing e m m" using inv by (simp add: publishing_def)
  obtain a m1 n1 where q: "relay_query e (\<lambda>db. map listed (ListPendingForPublish (re_BatchSize e) db)) (m, n) = (a, (m1, n1))"
    by (metis prod.collapse)
  let ?rows = "map listed (ListPendingForPublish (re_BatchSize e) (rs_db m))"
  have m1: "m1 = m" and a: "\<And>x. a = Inr x \<Longrightarrow> x = ?rows" using relay_query_run [OF q] by auto
  have rows: "in_outbox m row" if here: "row \<in> set ?rows" for row
  proof -
    obtain x where x: "row = listed x" "x \<in> set (ListPendingForPublish (re_BatchSize e) (rs_db m))"
      using here by auto
    then have "x \<in> set (rb_outbox (rs_db m))"
      using selection_subset unfolding ListPendingForPublish_def by fast
    then show ?thesis using content_entry [of x "rs_db m"] x(1) by (simp add: in_outbox_def listed_def)
  qed
  show ?thesis
  proof (cases a)
    case (Inl err)
    then show ?thesis using run q m1 start by (simp add: relay_poll_def on_error_def returnE_def)
  next
    case (Inr rows')
    then have "for_each (publish_event e) ?rows (m, n1) = (r, (m', n'))"
      using run q m1 a by (simp add: relay_poll_def on_error_def)
    moreover obtain b m2 n2 where t: "traverse (publish_event e) ?rows (m, n1) = (b, (m2, n2))" by (metis prod.collapse)
    ultimately have m2: "m' = m2" by (auto simp: for_each_def bindE_def returnE_def split: sum.splits)
    have loop: "triple (\<lambda>m'. publishing e m m' \<and> (\<forall>row \<in> set xs. in_outbox m row)) (traverse (publish_event e) xs)
        (\<lambda>_ m'. publishing e m m' \<and> (\<forall>row \<in> set ([] :: RelayOutboxRow list). in_outbox m row))" for xs
    proof (rule triple_traverse [where R = "\<lambda>xs m'. publishing e m m' \<and> (\<forall>row \<in> set xs. in_outbox m row)"])
      fix row xs
      show "triple (\<lambda>m'. publishing e m m' \<and> (\<forall>row \<in> set (row # xs). in_outbox m row)) (publish_event e row)
          (\<lambda>_ m'. publishing e m m' \<and> (\<forall>row \<in> set xs. in_outbox m row))"
      proof (cases "in_outbox m row")
        case True
        have "triple (publishing e m) (publish_event e row) (\<lambda>_. publishing e m)" by (rule publish_event_triple [OF True])
        then show ?thesis unfolding triple_def by simp
      qed (simp add: triple_def)
    qed simp
    show ?thesis using loop [of ?rows, unfolded triple_def, rule_format, of m n1] start rows t m2 by simp
  qed
qed


section \<open>Replay\<close>

lemma failures_triple:
  assumes "\<And>db x db'. f db = Inr (x, db') \<Longrightarrow> rb_dispatches db' = rb_dispatches db \<and> rb_outbox db' = rb_outbox db"
    and "\<And>db x db' row rec. f db = Inr (x, db') \<Longrightarrow> rec \<in> set (rb_failures db) \<Longrightarrow> kept_as e row rec \<Longrightarrow>
      \<exists>rec' \<in> set (rb_failures db'). kept_as e row rec'"
  shows "triple (publishing e m0) (relay_exec e f) (\<lambda>_. publishing e m0)"
proof (rule tripleI)
  fix m n r m' n'
  assume P: "publishing e m0 m" and run: "relay_exec e f (m, n) = (r, (m', n'))"
  show "publishing e m0 m'"
  proof (cases r)
    case (Inl err)
    then show ?thesis using exec_run [OF run] P by auto
  next
    case (Inr x)
    then obtain db where db: "f (rs_db m) = Inr (x, db)" and m': "m' = m\<lparr>rs_db := db\<rparr>"
      using exec_run [OF run] by auto
    have "accounted e m' row" if "row \<in> set (rb_outbox (rs_db m))" for row
    proof (rule accounted_cong)
      show "\<exists>rec' \<in> set (rb_failures (rs_db m')). kept_as e row rec'"
        if rec: "rec \<in> set (rb_failures (rs_db m))" "kept_as e row rec" for rec
        using assms(2) [OF db rec] by (simp add: m')
      show "accounted e m row" using P that by (simp add: publishing_def outbox_inv_def)
    qed (simp_all add: m')
    then show ?thesis
      using P assms(1) [OF db] by (simp add: publishing_def outbox_inv_def untouched_def outbox_content_def m')
  qed
qed

lemma update_failure_kept:
  assumes "rec \<in> set (rb_failures db)" and "kept_as e row rec"
    and "\<And>r. pf_SourceEventID (f r) = pf_SourceEventID r \<and> pf_MessageKey (f r) = pf_MessageKey r \<and> pf_MessageValue (f r) = pf_MessageValue r"
  shows "\<exists>rec' \<in> set (rb_failures (update_failure i p f db)). kept_as e row rec'"
proof -
  let ?h = "\<lambda>r. if pf_FailureID r = i \<and> p r then f r else r"
  have "?h rec \<in> set (rb_failures (update_failure i p f db))" using assms(1) by (simp add: update_failure_def)
  moreover have "kept_as e row (?h rec)" using assms(2,3) by (simp add: kept_as_def)
  ultimately show ?thesis by blast
qed

lemma replay_statements:
  "triple (publishing e m0) (relay_exec e (BeginReplay i)) (\<lambda>_. publishing e m0)"
  "triple (publishing e m0) (relay_exec e (GetMessageForReplay i)) (\<lambda>_. publishing e m0)"
  "triple (publishing e m0) (complete e i operator reason outcome msg) (\<lambda>_. publishing e m0)"
proof -
  have kept: "\<exists>rec' \<in> set (rb_failures (update_failure i p f db)). kept_as e row rec'"
    if "rec \<in> set (rb_failures db)" "kept_as e row rec"
      "\<And>r. pf_SourceEventID (f r) = pf_SourceEventID r \<and> pf_MessageKey (f r) = pf_MessageKey r \<and> pf_MessageValue (f r) = pf_MessageValue r"
    for rec db row p f using that by (rule update_failure_kept)
  show "triple (publishing e m0) (relay_exec e (BeginReplay i)) (\<lambda>_. publishing e m0)"
    by (rule failures_triple) (auto simp: BeginReplay_def Let_def intro!: kept, simp_all add: update_failure_def)
  show "triple (publishing e m0) (relay_exec e (GetMessageForReplay i)) (\<lambda>_. publishing e m0)"
    by (rule failures_triple) (auto simp: GetMessageForReplay_def split: option.splits)
  show "triple (publishing e m0) (complete e i operator reason outcome msg) (\<lambda>_. publishing e m0)"
    unfolding complete_def
    by (rule failures_triple) (auto simp: CompleteReplay_def Let_def intro!: kept, simp_all add: update_failure_def)
qed

lemma SendMessage_triple: "triple (publishing e m0) (SendMessage e msg) (\<lambda>_. publishing e m0)"
proof (rule tripleI)
  fix m n r m' n'
  assume P: "publishing e m0 m" and run: "SendMessage e msg (m, n) = (r, (m', n'))"
  obtain r' where "Publish e msg (m, n) = (r', (m', n'))"
    using run by (auto simp: Publish_def SendMessage_def split: option.splits)
  then show "publishing e m0 m'" using tripleD [OF Publish_triple P] by blast
qed

lemma Replay_triple: "triple (publishing e m0) (Replay e i operator reason) (\<lambda>_. publishing e m0)"
proof -
  have fail: "triple (publishing e m0) (failE err) (\<lambda>_. publishing e m0)" for err :: string
    by (simp add: triple_def failE_def)
  have wrap: "triple (publishing e m0) f (\<lambda>_. publishing e m0) \<Longrightarrow> triple (publishing e m0) (wrapE p f) (\<lambda>_. publishing e m0)"
    for f :: "'c rio" and p
  proof (rule tripleI)
    fix m n r m' n'
    assume f: "triple (publishing e m0) f (\<lambda>_. publishing e m0)" and P: "publishing e m0 m"
      and run: "wrapE p f (m, n) = (r, (m', n'))"
    obtain r' where "f (m, n) = (r', (m', n'))" using run by (auto simp: wrapE_def split: prod.splits sum.splits)
    then show "publishing e m0 m'" by (rule tripleD [OF f P])
  qed
  have log_it: "triple (publishing e m0) (log_error (complete e i operator reason outcome msg)) (\<lambda>_. publishing e m0)" for outcome msg
    by (rule triple_log_error, rule replay_statements(3))
  show ?thesis
    unfolding Replay_def replay_loaded_def
    by (intro triple_bind_const triple_on_error_const triple_if wrap replay_statements SendMessage_triple fail log_it)
qed

end
