(* ===== verification/RelaySystem.thy ===== *)
theory RelaySystem
  imports OutboxLaws
begin

text \<open>
  The relay as a transition system: a message of the intent topic, a sweep, a turn of the outbox
  worker, a replay or a restart is one step, under any pattern of failing calls and any answers of the
  provider, the router, the token service and the broker.  An operation that dies half way is a step
  in which every call from some number on fails, followed by a restart.
\<close>

section \<open>Steps\<close>

text \<open>What every process of one deployment shares: the decoders and the encoder, and the topic of events.\<close>

definition same_deployment :: "relay_env \<Rightarrow> relay_env \<Rightarrow> bool" where
  "same_deployment e0 e \<longleftrightarrow> re_parse e = re_parse e0 \<and> re_sscanf e = re_sscanf e0 \<and> re_json e = re_json e0
     \<and> fst (re_Topics e) = fst (re_Topics e0)"

definition fresh_relay :: relay_state where
  "fresh_relay = \<lparr>rs_db = empty_relay, rs_calls = [], rs_kafka = [], rs_outcomes = [], rs_cbFailures = 0, rs_cbOpenAt = 0,
     rs_recent = [], rs_ids = 0\<rparr>"

inductive relay_step :: "relay_env \<Rightarrow> relay_state \<Rightarrow> relay_state \<Rightarrow> bool" for e0 :: relay_env where
  step_message: "same_deployment e0 e \<Longrightarrow> processMessage e decode v (m, n) = (r, (m', n')) \<Longrightarrow> relay_step e0 m m'"
| step_retry: "same_deployment e0 e \<Longrightarrow> retry_sweep e (m, n) = (r, (m', n')) \<Longrightarrow> relay_step e0 m m'"
| step_recovery: "same_deployment e0 e \<Longrightarrow> recovery_sweep e (m, n) = (r, (m', n')) \<Longrightarrow> relay_step e0 m m'"
| step_poll: "same_deployment e0 e \<Longrightarrow> relay_poll e (m, n) = (r, (m', n')) \<Longrightarrow> relay_step e0 m m'"
| step_replay: "same_deployment e0 e \<Longrightarrow> Replay e i operator reason (m, n) = (r, (m', n')) \<Longrightarrow> relay_step e0 m m'"
| step_restart: "relay_step e0 m (restart m)"

inductive_cases relay_stepE: "relay_step e0 m m'"

inductive relay_reachable :: "relay_env \<Rightarrow> relay_state \<Rightarrow> bool" for e0 :: relay_env where
  reach_init: "relay_reachable e0 fresh_relay"
| reach_step: "relay_reachable e0 m \<Longrightarrow> relay_step e0 m m' \<Longrightarrow> relay_reachable e0 m'"

section \<open>Both invariants hold\<close>

lemma deployment_inv: "same_deployment e0 e \<Longrightarrow> inv_of e m = inv_of e0 m"
  by (simp add: inv_of_def same_deployment_def)

lemma deployment_outbox: "same_deployment e0 e \<Longrightarrow> outbox_inv e m = outbox_inv e0 m"
  by (simp add: outbox_inv_def accounted_def sent_as_def kept_as_def same_deployment_def)

lemma message_serves:
  assumes inv: "inv_of e m" and decoder: "re_parse e [] = None" and run: "processMessage e decode v (m, n) = (r, (m', n'))"
  shows "inv_of e m'" and "d \<in> set (rb_dispatches (rs_db m)) \<Longrightarrow> resolved (dp_Status d) \<Longrightarrow>
    view (dp_DispatchID d) m' = view (dp_DispatchID d) m"
proof -
  have all: "inv_of e m' \<and> (\<forall>d \<in> set (rb_dispatches (rs_db m)). resolved (dp_Status d) \<longrightarrow>
      view (dp_DispatchID d) m' = view (dp_DispatchID d) m)"
  proof (cases "decode v")
    case None
    then show ?thesis using run inv by (simp add: processMessage_def returnE_def)
  next
    case (Some ev)
    then have "processEvent e ev (m, n) = (r, (m', n'))" using run by (simp add: processMessage_def)
    then obtain i where i: "attends e m i m'"
      "\<forall>d \<in> set (rb_dispatches (rs_db m)). resolved (dp_Status d) \<longrightarrow> dp_DispatchID d = i \<longrightarrow> untouched m m'"
      using processEvent_serves [OF inv decoder] by blast
    have "view (dp_DispatchID d) m' = view (dp_DispatchID d) m"
      if "d \<in> set (rb_dispatches (rs_db m))" "resolved (dp_Status d)" for d
      using i that by (cases "dp_DispatchID d = i") (auto simp: attends_def frame_def untouched_view)
    then show ?thesis using i(1) by (simp add: attends_def)
  qed
  then show "inv_of e m'" "d \<in> set (rb_dispatches (rs_db m)) \<Longrightarrow> resolved (dp_Status d) \<Longrightarrow>
    view (dp_DispatchID d) m' = view (dp_DispatchID d) m" by blast+
qed

lemma restart_same: "untouched m (restart m)" "appends m (restart m)"
  by (simp_all add: restart_def untouched_def appends_def)

lemma untouched_keeps: "untouched m m' \<Longrightarrow> inv_of e m \<Longrightarrow> inv_of e m' \<and> (\<forall>i. view i m' = view i m)"
  using untouched_inv [of m m' e] untouched_view [of m m'] by blast

text \<open>One step keeps both invariants and every resolved dispatch.\<close>

lemma step_keeps:
  assumes step: "relay_step e0 m m'" and decoder: "re_parse e0 [] = None" and inv: "inv_of e0 m" and out: "outbox_inv e0 m"
  shows "inv_of e0 m' \<and> outbox_inv e0 m' \<and> (\<forall>d \<in> set (rb_dispatches (rs_db m)). resolved (dp_Status d) \<longrightarrow>
    view (dp_DispatchID d) m' = view (dp_DispatchID d) m)"
  using step
proof cases
  case (step_message e decode v n r n')
  have dec: "re_parse e [] = None" using step_message(1) decoder by (simp add: same_deployment_def)
  have "inv_of e m" using inv deployment_inv [OF step_message(1)] by simp
  note serve = message_serves [OF this dec step_message(2)]
  have "outbox_inv e0 m'" by (rule extends_outbox_inv [OF out addsD [OF adds_operations(1) step_message(2)]])
  then show ?thesis using serve deployment_inv [OF step_message(1)] by blast
next
  case (step_retry e n r n')
  have "inv_of e m" using inv deployment_inv [OF step_retry(1)] by simp
  note serve = retry_sweep_serves [OF this step_retry(2)]
  have "outbox_inv e0 m'" by (rule extends_outbox_inv [OF out addsD [OF adds_operations(2) step_retry(2)]])
  then show ?thesis using serve deployment_inv [OF step_retry(1)] by (auto simp: resolved_def)
next
  case (step_recovery e n r n')
  have "inv_of e m" using inv deployment_inv [OF step_recovery(1)] by simp
  note serve = recovery_sweep_serves [OF this step_recovery(2)]
  have "outbox_inv e0 m'" by (rule extends_outbox_inv [OF out addsD [OF adds_operations(3) step_recovery(2)]])
  then show ?thesis using serve deployment_inv [OF step_recovery(1)] by (auto simp: resolved_def)
next
  case (step_poll e n r n')
  have "publishing e m m'" by (rule poll_publishing [OF _ step_poll(2)]) (simp add: out deployment_outbox [OF step_poll(1)])
  then have u: "untouched m m'" and o': "outbox_inv e0 m'" using deployment_outbox [OF step_poll(1)] by (simp_all add: publishing_def)
  show ?thesis using untouched_keeps [OF u inv] o' by blast
next
  case (step_replay e i operator reason n r n')
  have "publishing e m m" using out deployment_outbox [OF step_replay(1)] by (simp add: publishing_def)
  then have "publishing e m m'" by (rule tripleD [OF Replay_triple _ step_replay(2)])
  then have u: "untouched m m'" and o': "outbox_inv e0 m'" using deployment_outbox [OF step_replay(1)] by (simp_all add: publishing_def)
  show ?thesis using untouched_keeps [OF u inv] o' by blast
next
  case step_restart
  have "outbox_inv e0 (restart m)" by (rule extends_outbox_inv [OF out restart_same(2)])
  then show ?thesis using step_restart untouched_keeps [OF restart_same(1) inv] by blast
qed

lemma fresh_invariants: "inv_of e0 fresh_relay" "outbox_inv e0 fresh_relay"
  by (simp_all add: inv_of_def relay_inv_def outbox_inv_def fresh_relay_def empty_relay_def)

lemma relay_reachable_inv:
  assumes "relay_reachable e0 m" and "re_parse e0 [] = None"
  shows "inv_of e0 m" and "outbox_inv e0 m"
proof -
  have "inv_of e0 m \<and> outbox_inv e0 m"
    using assms by (induction rule: relay_reachable.induct) (auto simp: fresh_invariants dest: step_keeps)
  then show "inv_of e0 m" "outbox_inv e0 m" by auto
qed


text \<open>What can be reached depends on the deployment only.\<close>

lemma deployment_step:
  assumes "relay_step e0 m m'" and "same_deployment e1 e0"
  shows "relay_step e1 m m'"
proof -
  have "same_deployment e1 e" if "same_deployment e0 e" for e
    using that assms(2) by (simp add: same_deployment_def)
  with assms(1) show ?thesis by cases (auto intro: relay_step.intros)
qed

lemma deployment_reachable: "relay_reachable e0 m \<Longrightarrow> same_deployment e1 e0 \<Longrightarrow> relay_reachable e1 m"
  by (induction rule: relay_reachable.induct) (auto intro: reach_init reach_step deployment_step)

end
