(* ===== verification/RelayLaws.thy ===== *)
theory RelayLaws
  imports RelaySystem
begin

text \<open>
  What the relay promises: about the requests the provider sees, about the events the other services
  see, and about the sweeps; with a sample deployment on which the hypotheses hold.
\<close>

section \<open>A sample deployment\<close>

definition sample_payload :: OutboxPayload where
  "sample_payload = \<lparr>op_PIITokens = \<lparr>ot_AccountNumber = ''001'', ot_Name = ''A'', ot_IFSC = ''X'', ot_VPA = []\<rparr>,
     op_InstrumentKind = ''BANK'', op_Amount = ''100''\<rparr>"

definition relay_sample :: "time \<Rightarrow> psp_failure + PayoutResponse \<Rightarrow> relay_env" where
  "relay_sample now answer =
     \<lparr>re_fault = (\<lambda>_. None), re_now = now, re_uuid = (\<lambda>n. replicate (Suc n) CHR ''u''), re_ConnectorID = ''x'',
      re_CorridorID = ''IMPS'', re_Threshold = 5, re_ResetSecs = 60, re_BatchSize = 10, re_SentTimeoutSecs = 60,
      re_AwaitingTimeoutSecs = 60, re_route = None, re_verifier = False, re_strict = False, re_maxConflictRetries = 5,
      re_evict = (\<lambda>_. []), re_sha = (\<lambda>s. s), re_parse = (\<lambda>s. if s = [] then None else Some sample_payload),
      re_sscanf = (\<lambda>_. 100), re_detokenize = (\<lambda>_ t. Inr t), re_psp = (\<lambda>_ _. answer),
      re_lookup = (\<lambda>_ _. Inr None), re_Topics = (''events'', ''failures'', ''poison''), re_failureRepo = True,
      re_json = (\<lambda>ev. rv_EventID ev), re_dlq_json = dq_EventID, re_lost_ack = (\<lambda>_. None)\<rparr>"

definition sample_event :: OutboxEvent where
  "sample_event = \<lparr>oe_EventID = ''e1'', oe_EventType = ''intent.created'', oe_LeaseID = [], oe_TenantID = ''t'',
     oe_TraceID = ''tr'', oe_AggregateID = ''i1'', oe_ContractID = ''c1'', oe_SchemaVersion = ''v1'', oe_Payload = ''{}'',
     oe_CanonicalPayloadHash = []\<rparr>"

abbreviation (input) refused :: "psp_failure + PayoutResponse" where
  "refused \<equiv> Inl (OtherError ''down'')"

abbreviation (input) accepted :: "psp_failure + PayoutResponse" where
  "accepted \<equiv> Inr \<lparr>py_PayoutID = ''p1'', py_Status = ''processing''\<rparr>"

abbreviation (input) timed_out :: "psp_failure + PayoutResponse" where
  "timed_out \<equiv> Inl (ContextError ''late'')"

text \<open>The provider refuses the first call, the sweep repeats it an hour later, and it is accepted.\<close>

definition sample_first :: relay_state where
  "sample_first =
     \<lparr>rs_db = \<lparr>rb_dispatches = [\<lparr>dp_DispatchID = ''u'', dp_ContractID = ''c1'', dp_IntentID =
      ''i1'', dp_TenantID = ''t'', dp_TraceID = ''tr'', dp_ConnectorID = ''x'', dp_CorridorID = ''IMPS'',
      dp_AttemptCount = 1, dp_Status = DispatchStatusFailedRetryable, dp_ProviderIdempotencyKey = ''u'',
      dp_GovernanceDecision = Some GovernanceAllow, dp_GovernanceReasonCodes = [], dp_RetryClass = Some
      RetryableAfterBackoff, dp_NextDispatchAttemptAt = Some 35000001000, dp_ProviderAttemptID = None,
      dp_ProviderResponseStatus = None, dp_RequestFingerprint = Some ''u|100|IMPS'', dp_PayloadJSON = ''{}'',
      dp_CreatedAt = 1000, dp_UpdatedAt = 1000, dp_SentAt = Some 1000, dp_AckedAt = None\<rparr>], rb_outbox =
      [\<lparr>ro_EventID = ''uu'', ro_EventType = ''DispatchCreated'', ro_DispatchID = ''u'', ro_ContractID = ''c1'',
      ro_IntentID = ''i1'', ro_TenantID = ''t'', ro_TraceID = ''tr'', ro_Payload = \<lparr>rv_EventID = ''uu'',
      rv_EventType = ''DispatchCreated'', rv_TenantID = ''t'', rv_IntentID = ''i1'', rv_ContractID = ''c1'',
      rv_DispatchID = ''u'', rv_TraceID = ''tr'', rv_SchemaVersion = ''v1'', rv_CreatedAt = 1000, rv_Payload =
      DispatchCreatedPayload ''u'' ''x'' ''IMPS'' 1 \<lparr>cc_ReferenceID = ''u'', cc_Narration =
      ''ZRD:c1''\<rparr>\<rparr>, ro_Status = OutboxPending, ro_RetryCount = 0, ro_CreatedAt = 1000, ro_PublishedAt =
      None\<rparr>, \<lparr>ro_EventID = ''uuu'', ro_EventType = ''DispatchGovernanceEvaluated'', ro_DispatchID =
      ''u'', ro_ContractID = ''c1'', ro_IntentID = ''i1'', ro_TenantID = ''t'', ro_TraceID = ''tr'', ro_Payload =
      \<lparr>rv_EventID = ''uuu'', rv_EventType = ''DispatchGovernanceEvaluated'', rv_TenantID = ''t'', rv_IntentID =
      ''i1'', rv_ContractID = ''c1'', rv_DispatchID = ''u'', rv_TraceID = ''tr'', rv_SchemaVersion = ''v1'',
      rv_CreatedAt = 1000, rv_Payload = GovernanceEvaluatedPayload ''u'' GovernanceAllow []\<rparr>, ro_Status =
      OutboxPending, ro_RetryCount = 0, ro_CreatedAt = 1000, ro_PublishedAt = None\<rparr>, \<lparr>ro_EventID =
      ''uuuu'', ro_EventType = ''AttemptSent'', ro_DispatchID = ''u'', ro_ContractID = ''c1'', ro_IntentID = ''i1'',
      ro_TenantID = ''t'', ro_TraceID = ''tr'', ro_Payload = \<lparr>rv_EventID = ''uuuu'', rv_EventType =
      ''AttemptSent'', rv_TenantID = ''t'', rv_IntentID = ''i1'', rv_ContractID = ''c1'', rv_DispatchID = ''u'',
      rv_TraceID = ''tr'', rv_SchemaVersion = ''v1'', rv_CreatedAt = 1000, rv_Payload = AttemptSentPayload ''u'' ''x''
      ''IMPS'' 1 1000 \<lparr>cc_ReferenceID = ''u'', cc_Narration = ''ZRD:c1''\<rparr>\<rparr>, ro_Status =
      OutboxPending, ro_RetryCount = 0, ro_CreatedAt = 1000, ro_PublishedAt = None\<rparr>, \<lparr>ro_EventID =
      ''uuuuu'', ro_EventType = ''DispatchFailed'', ro_DispatchID = ''u'', ro_ContractID = ''c1'', ro_IntentID =
      ''i1'', ro_TenantID = ''t'', ro_TraceID = ''tr'', ro_Payload = \<lparr>rv_EventID = ''uuuuu'', rv_EventType =
      ''DispatchFailed'', rv_TenantID = ''t'', rv_IntentID = ''i1'', rv_ContractID = ''c1'', rv_DispatchID = ''u'',
      rv_TraceID = ''tr'', rv_SchemaVersion = ''v1'', rv_CreatedAt = 1000, rv_Payload = DispatchFailedPayload ''u'' 1
      ''PSP_CALL_FAILED: down'' 1000\<rparr>, ro_Status = OutboxPending, ro_RetryCount = 0, ro_CreatedAt = 1000,
      ro_PublishedAt = None\<rparr>], rb_conflicts = [], rb_failures = [], rb_replays = []\<rparr>, rs_calls =
      [\<lparr>pq_ReferenceID = ''u'', pq_Narration = ''ZRD:c1'', pq_Amount = 100, pq_Mode = ''IMPS'',
      pq_BeneficiaryName = ''A'', pq_AccountNumber = ''001'', pq_IFSC = ''X''\<rparr>], rs_kafka = [], rs_outcomes =
      [], rs_cbFailures = 1, rs_cbOpenAt = 0, rs_recent = [], rs_ids = 5\<rparr>"

definition sample_retried :: relay_state where
  "sample_retried = fst (snd (retry_sweep (relay_sample 3600000000000 accepted) (sample_first, 0)))"

text \<open>The first call is not answered in time.\<close>

definition sample_awaiting :: relay_state where
  "sample_awaiting = fst (snd (processMessage (relay_sample 1000 timed_out) (\<lambda>_. Some sample_event) [] (fresh_relay, 0)))"

lemma sample_first_run: "fst (snd (processMessage (relay_sample 1000 refused) (\<lambda>_. Some sample_event) [] (fresh_relay, 0))) = sample_first"
  by code_simp

lemma message_step: "same_deployment e0 e \<Longrightarrow> relay_step e0 m (fst (snd (processMessage e decode v (m, n))))"
  by (cases "processMessage e decode v (m, n)") (auto intro: step_message)

lemma retry_step: "same_deployment e0 e \<Longrightarrow> relay_step e0 m (fst (snd (retry_sweep e (m, n))))"
  by (cases "retry_sweep e (m, n)") (auto intro: step_retry)

lemma sample_deployment: "same_deployment (relay_sample t a) (relay_sample t' a')"
  by (simp add: same_deployment_def relay_sample_def)

lemma sample_decoder: "re_parse (relay_sample t a) [] = None"
  by (simp add: relay_sample_def)

lemma relay_sample_reachable:
  "relay_reachable (relay_sample 0 refused) sample_first" "relay_reachable (relay_sample 0 refused) sample_retried"
  "relay_reachable (relay_sample 0 refused) sample_awaiting"
proof -
  show one: "relay_reachable (relay_sample 0 refused) sample_first"
    by (rule reach_step [OF reach_init, OF message_step [OF sample_deployment,
      where m = fresh_relay and n = 0 and decode = "\<lambda>_. Some sample_event" and v = "[]", of _ _ 1000 refused, unfolded sample_first_run]])
  show "relay_reachable (relay_sample 0 refused) sample_retried"
    unfolding sample_retried_def by (rule reach_step [OF one retry_step [OF sample_deployment]])
  show "relay_reachable (relay_sample 0 refused) sample_awaiting"
    unfolding sample_awaiting_def by (rule reach_step [OF reach_init message_step [OF sample_deployment]])
qed

lemma sample_retried_facts:
  "(map pq_ReferenceID (rs_calls sample_retried), map pq_Narration (rs_calls sample_retried),
      map dp_Status (rb_dispatches (rs_db sample_retried)))
     = ([''u'', ''u''], [''ZRD:c1'', ''ZRD:c1''], [DispatchStatusProviderAcked])"
  by code_simp

lemma sample_awaiting_facts:
  "(map (\<lambda>d. (dp_Status d, dp_ConnectorID d, dp_PayloadJSON d)) (rb_dispatches (rs_db sample_awaiting)),
      rs_ids sample_awaiting, map (length \<circ> ro_EventID) (rb_outbox (rs_db sample_awaiting)), rs_cbOpenAt sample_awaiting)
     = ([(DispatchStatusAwaitingProviderSignal, ''x'', ''{}'')], 5, [2, 3, 4, 5], 0)"
  by code_simp

lemmas sample_facts = sample_retried_facts [unfolded prod.inject] sample_awaiting_facts [unfolded prod.inject]

text \<open>The worker publishes what the first call left in the outbox.\<close>

definition sample_published :: relay_state where
  "sample_published = fst (snd (relay_poll (relay_sample 2000 accepted) (sample_first, 0)))"

lemma published_reachable: "relay_reachable (relay_sample 0 refused) sample_published"
  unfolding sample_published_def
  by (cases "relay_poll (relay_sample 2000 accepted) (sample_first, 0)")
    (auto intro: reach_step [OF relay_sample_reachable(1) step_poll [OF sample_deployment]])

lemma published_facts: "map ro_Status (rb_outbox (rs_db sample_published)) = replicate 4 OutboxPublished"
  by code_simp

text \<open>The one row, and the requests, of a sample state.\<close>

lemma sample_rows:
  obtains first awaiting acked where "rb_dispatches (rs_db sample_first) = [first]" "dp_Status first = DispatchStatusFailedRetryable"
    and "rb_dispatches (rs_db sample_awaiting) = [awaiting]" "dp_Status awaiting = DispatchStatusAwaitingProviderSignal"
    and "rb_dispatches (rs_db sample_retried) = [acked]" "dp_Status acked = DispatchStatusProviderAcked"
proof -
  have one: "\<exists>d. xs = [d] \<and> dp_Status d = st" if "map dp_Status xs = [st]" for xs st
    using that by (cases xs) auto
  have "map dp_Status (rb_dispatches (rs_db sample_first)) = [DispatchStatusFailedRetryable]"
    by (simp add: sample_first_def)
  moreover have "map dp_Status (rb_dispatches (rs_db sample_awaiting)) = [DispatchStatusAwaitingProviderSignal]"
    using sample_facts by (auto simp: map_eq_Cons_conv)
  moreover have "map dp_Status (rb_dispatches (rs_db sample_retried)) = [DispatchStatusProviderAcked]"
    using sample_facts by simp
  ultimately show thesis using one that by blast
qed

section \<open>What the provider sees\<close>

text \<open>C3.  All payout requests of one contract carry the same reference, amount and mode, however often
  events are redelivered, sweeps retry and processes die.\<close>

theorem calls_of_a_contract_are_repetitions:
  assumes "relay_reachable e0 m" and "re_parse e0 [] = None" and "q1 \<in> set (rs_calls m)" and "q2 \<in> set (rs_calls m)"
    and "pq_Narration q1 = pq_Narration q2"
  shows "pq_ReferenceID q1 = pq_ReferenceID q2 \<and> pq_Amount q1 = pq_Amount q2 \<and> pq_Mode q1 = pq_Mode q2"
proof -
  note inv = relay_reachable_inv(1) [OF assms(1,2), unfolded inv_of_def relay_inv_def]
  obtain d1 where d1: "d1 \<in> set (rb_dispatches (rs_db m))" "repeats (re_parse e0) (re_sscanf e0) q1 d1" using inv assms(3) by blast
  obtain d2 where d2: "d2 \<in> set (rb_dispatches (rs_db m))" "repeats (re_parse e0) (re_sscanf e0) q2 d2" using inv assms(4) by blast
  have "dp_ContractID d1 = dp_ContractID d2" using d1(2) d2(2) assms(5) by (simp add: repeats_def)
  moreover have "distinct (map dp_ContractID (rb_dispatches (rs_db m)))" using inv by blast
  ultimately have "d1 = d2" using distinct_key d1(1) d2(1) by metis
  then show ?thesis using d1(2) d2(2) by (auto simp: repeats_def)
qed

lemma calls_of_a_contract_are_repetitions_witness:
  "\<exists>q1 q2. rs_calls sample_retried = [q1, q2] \<and> pq_ReferenceID q1 = pq_ReferenceID q2 \<and> pq_Amount q1 = pq_Amount q2
     \<and> pq_Mode q1 = pq_Mode q2"
proof -
  obtain q1 q2 where q: "rs_calls sample_retried = [q1, q2]" "pq_Narration q1 = pq_Narration q2"
    using sample_facts by (auto simp: map_eq_Cons_conv)
  then show ?thesis
    using calls_of_a_contract_are_repetitions [OF relay_sample_reachable(2) sample_decoder, of q1 q2] by auto
qed

text \<open>C5.  A request is only ever sent after its attempt was announced: a dispatch never has more requests
  at the provider than \<open>AttemptSent\<close> events in the outbox.\<close>

theorem calls_are_announced:
  assumes "relay_reachable e0 m" and "re_parse e0 [] = None"
  shows "sends i (rs_calls m) \<le> attempts i (rs_db m)"
proof (cases "i \<in> dp_DispatchID ` set (rb_dispatches (rs_db m))")
  case True
  then show ?thesis using relay_reachable_inv(1) [OF assms] by (auto simp: inv_of_def relay_inv_def)
next
  case False
  then have "pq_ReferenceID q \<noteq> i" if "q \<in> set (rs_calls m)" for q
    using that relay_reachable_inv(1) [OF assms] by (fastforce simp: inv_of_def relay_inv_def repeats_def)
  then show ?thesis by (simp add: sends_def)
qed

lemma calls_are_announced_witness:
  "sends ''u'' (rs_calls sample_retried) = 2 \<and> 2 \<le> attempts ''u'' (rs_db sample_retried)"
proof -
  have "sends ''u'' (rs_calls sample_retried) = length (filter (\<lambda>i. i = ''u'') (map pq_ReferenceID (rs_calls sample_retried)))"
    unfolding sends_def filter_map length_map comp_def ..
  then have "sends ''u'' (rs_calls sample_retried) = 2" using sample_facts by simp
  then show ?thesis using calls_are_announced [OF relay_sample_reachable(2) sample_decoder, of "''u''"] by simp
qed

section \<open>What the other services see\<close>

text \<open>C4.  The events of a dispatch in the outbox, replayed from its creation, are a run of the life cycle
  that ends in the status of the dispatch row.\<close>

theorem outbox_replays_the_lifecycle:
  assumes "relay_reachable e0 m" and "re_parse e0 [] = None" and "d \<in> set (rb_dispatches (rs_db m))"
  shows "\<exists>created rest. events_of (dp_DispatchID d) (rs_db m) = created # rest \<and> is_created created
    \<and> lifecycle_run DispatchStatusPending rest (dp_Status d)"
  using relay_reachable_inv(1) [OF assms(1,2)] assms(3) by (auto simp: inv_of_def relay_inv_def explained_def)

lemma outbox_replays_the_lifecycle_witness:
  "\<exists>created rest. events_of ''u'' (rs_db sample_first) = created # rest \<and> is_created created
    \<and> lifecycle_run DispatchStatusPending rest DispatchStatusFailedRetryable"
  using outbox_replays_the_lifecycle [OF relay_sample_reachable(1) sample_decoder, of "hd (rb_dispatches (rs_db sample_first))"]
  by (simp add: sample_first_def)

text \<open>C6.  A dispatch that is acknowledged, terminally failed or handed to review is never touched again: no
  step changes its row, adds an event or sends a request.\<close>

theorem resolved_dispatch_is_final:
  assumes "relay_reachable e0 m" and "re_parse e0 [] = None" and "rtranclp (relay_step e0) m m'"
    and "d \<in> set (rb_dispatches (rs_db m))" and "resolved (dp_Status d)"
  shows "d \<in> set (rb_dispatches (rs_db m')) \<and> events_of (dp_DispatchID d) (rs_db m') = events_of (dp_DispatchID d) (rs_db m)
    \<and> filter (\<lambda>q. pq_ReferenceID q = dp_DispatchID d) (rs_calls m') = filter (\<lambda>q. pq_ReferenceID q = dp_DispatchID d) (rs_calls m)"
proof -
  have "relay_reachable e0 m' \<and> d \<in> set (rb_dispatches (rs_db m')) \<and> view (dp_DispatchID d) m' = view (dp_DispatchID d) m"
    using assms(3)
  proof (induction rule: rtranclp_induct)
    case base
    then show ?case using assms by simp
  next
    case (step x y)
    have v: "view (dp_DispatchID d) y = view (dp_DispatchID d) x"
      using step_keeps [OF step.hyps(2) assms(2) relay_reachable_inv [OF _ assms(2)]] step.IH assms(5) by blast
    then have "d \<in> set (rb_dispatches (rs_db y))" using view_row step.IH by blast
    then show ?case using v step by (auto intro: reach_step)
  qed
  then show ?thesis by (simp add: view_def)
qed

lemma resolved_dispatch_is_final_witness:
  "\<exists>d. rb_dispatches (rs_db sample_retried) = [d] \<and> dp_Status d = DispatchStatusProviderAcked
     \<and> d \<in> set (rb_dispatches (rs_db (restart sample_retried)))"
proof -
  obtain d where d: "rb_dispatches (rs_db sample_retried) = [d]" "dp_Status d = DispatchStatusProviderAcked"
    by (rule sample_rows)
  have "rtranclp (relay_step (relay_sample 0 refused)) sample_retried (restart sample_retried)"
    by (rule r_into_rtranclp, rule step_restart)
  then show ?thesis
    using resolved_dispatch_is_final [OF relay_sample_reachable(2) sample_decoder _, of "restart sample_retried" d] d
    by (auto simp: resolved_def)
qed

text \<open>C7.  No event is lost between the database and Kafka: an outbox row is marked published only when its
  message is on the topic of events under the key of its dispatch, and failed only when a durable record holds it.\<close>

theorem no_event_is_lost:
  assumes "relay_reachable e0 m" and "re_parse e0 [] = None" and "row \<in> set (rb_outbox (rs_db m))"
  shows "ro_Status row = OutboxPending
    \<or> ro_Status row = OutboxPublished \<and> (\<exists>msg \<in> set (rs_kafka m). km_Topic msg = fst (re_Topics e0)
        \<and> km_Key msg = ro_DispatchID row \<and> km_Value msg = re_json e0 (ro_Payload row))
    \<or> ro_Status row = OutboxFailed \<and> (\<exists>rec \<in> set (rb_failures (rs_db m)). pf_SourceEventID rec = ro_EventID row
        \<and> pf_MessageValue rec = re_json e0 (ro_Payload row))"
proof -
  have "accounted e0 m row" using relay_reachable_inv(2) [OF assms(1,2)] assms(3) by (simp add: outbox_inv_def)
  then show ?thesis by (cases "ro_Status row") (auto simp: accounted_def sent_as_def kept_as_def)
qed


lemma no_event_is_lost_witness:
  "\<exists>row msg. row \<in> set (rb_outbox (rs_db sample_published)) \<and> ro_Status row = OutboxPublished
     \<and> msg \<in> set (rs_kafka sample_published) \<and> km_Key msg = ro_DispatchID row"
proof -
  obtain row rows where row: "rb_outbox (rs_db sample_published) = row # rows" "ro_Status row = OutboxPublished"
    using published_facts by (auto simp: numeral_eq_Suc map_eq_Cons_conv)
  then show ?thesis
    using no_event_is_lost [OF published_reachable sample_decoder, of row] by auto
qed


section \<open>The sweeps\<close>

lemma recorded_calls: "booked e m d p f r m' \<Longrightarrow> rs_calls m' = rs_calls m"
  by (auto simp: booked_def)

text \<open>The recovery sweep only asks: none of its steps sends a request.\<close>

definition calls_are :: "PayoutRequest list \<Rightarrow> relay_state \<Rightarrow> bool" where
  "calls_are qs m \<longleftrightarrow> rs_calls m = qs"

lemma silent_log: "triple (calls_are qs) (log_error (event_then e d p f)) (\<lambda>_. calls_are qs)"
  by (rule triple_log_error, rule tripleI, drule event_then_run, drule recorded_calls) (simp add: calls_are_def)

lemma silent_query: "triple (calls_are qs) (relay_query e f) (\<lambda>_. calls_are qs)"
  by (rule tripleI, drule relay_query_run) simp

lemma silent_resolve: "triple (calls_are qs) (resolveViaQuery e d) (\<lambda>_. calls_are qs)"
  unfolding resolveViaQuery_def markFailedTerminal_def
  by (intro triple_on_error_const remote_triple triple_returnE)
    (assumption, simp split: option.split add: Let_def silent_log)

lemma silent_loop: "triple (calls_are qs) (on_error (relay_query e f) (\<lambda>_. returnE ()) (for_each (resolveViaQuery e))) (\<lambda>_. calls_are qs)"
proof -
  have "triple (calls_are qs) (traverse (resolveViaQuery e) ds) (\<lambda>_. calls_are qs)" for ds
    by (rule triple_traverse [where R = "\<lambda>_. calls_are qs"]) (rule silent_resolve)
  then have "triple (calls_are qs) (for_each (resolveViaQuery e) ds) (\<lambda>_. calls_are qs)" for ds
    unfolding for_each_def by (intro triple_bind_const triple_returnE)
  then show ?thesis by (intro triple_on_error_const silent_query triple_returnE)
qed

lemma silent_recovery: "recovery_sweep e (m, n) = (r, (m', n')) \<Longrightarrow> rs_calls m' = rs_calls m"
proof -
  have "triple (calls_are (rs_calls m)) (recovery_sweep e) (\<lambda>_. calls_are (rs_calls m))"
    unfolding recovery_sweep_def recoverSentDispatches_def recoverAwaitingDispatches_def
    by (intro triple_bind_const silent_loop)
  then show "recovery_sweep e (m, n) = (r, (m', n')) \<Longrightarrow> rs_calls m' = rs_calls m"
    by (auto dest!: tripleD [of _ _ _ m n r m' n'] simp: calls_are_def)
qed

text \<open>C20.  A payout whose outcome is not known (sent, or waiting for a signal of the provider) is not sent
  again by a sweep: the retry sweep leaves it as it is, and the recovery sweep sends nothing at all.\<close>

theorem sweeps_never_resend_an_uncertain_payout:
  assumes "relay_reachable e m" and "re_parse e [] = None" and "d \<in> set (rb_dispatches (rs_db m))"
    and "dp_Status d = DispatchStatusSent \<or> dp_Status d = DispatchStatusAwaitingProviderSignal"
    and "retry_sweep e (m, n) = (r, (m', n'))" and "recovery_sweep e (m, k) = (s, (m'', k'))"
  shows "d \<in> set (rb_dispatches (rs_db m'))
    \<and> filter (\<lambda>q. pq_ReferenceID q = dp_DispatchID d) (rs_calls m') = filter (\<lambda>q. pq_ReferenceID q = dp_DispatchID d) (rs_calls m)
    \<and> rs_calls m'' = rs_calls m"
proof -
  have "view (dp_DispatchID d) m' = view (dp_DispatchID d) m"
    using retry_sweep_serves(2) [OF relay_reachable_inv(1) [OF assms(1,2)] assms(5,3)] assms(4) by auto
  then show ?thesis
    using view_row [OF _ assms(3) refl] silent_recovery [OF assms(6)] by (simp add: view_def)
qed

lemma sample_transfer:
  "relay_reachable (relay_sample t a) sample_first" "relay_reachable (relay_sample t a) sample_awaiting"
  by (rule deployment_reachable [OF relay_sample_reachable(1) sample_deployment],
      rule deployment_reachable [OF relay_sample_reachable(3) sample_deployment])

lemma sweeps_never_resend_an_uncertain_payout_witness:
  "\<exists>d. rb_dispatches (rs_db sample_awaiting) = [d] \<and> dp_Status d = DispatchStatusAwaitingProviderSignal
     \<and> d \<in> set (rb_dispatches (rs_db (fst (snd (retry_sweep (relay_sample 9 accepted) (sample_awaiting, 0))))))"
proof -
  obtain d where d: "rb_dispatches (rs_db sample_awaiting) = [d]" "dp_Status d = DispatchStatusAwaitingProviderSignal"
    by (rule sample_rows)
  obtain r m' n' s m'' k' where runs: "retry_sweep (relay_sample 9 accepted) (sample_awaiting, 0) = (r, (m', n'))"
    "recovery_sweep (relay_sample 9 accepted) (sample_awaiting, 0) = (s, (m'', k'))" by (metis prod.collapse)
  show ?thesis
    using sweeps_never_resend_an_uncertain_payout [OF sample_transfer(2) sample_decoder _ _ runs, of d] d runs(1) by simp
qed

text \<open>C21.  A payout that waits for a signal of the provider is never acknowledged: when the provider
  answers that it is being processed, the acknowledgement is refused and nothing is recorded.\<close>

theorem awaiting_payout_is_never_acked:
  assumes "relay_reachable e m" and "re_parse e [] = None" and "d \<in> set (rb_dispatches (rs_db m))"
    and "dp_Status d = DispatchStatusAwaitingProviderSignal"
    and "\<forall>k. re_lookup e k (dp_ProviderIdempotencyKey d) = Inr (Some resp)" and "\<not> provider_terminal (py_Status resp)"
    and "resolveViaQuery e d (m, n) = (r, (m', n'))"
  shows "rs_db m' = rs_db m"
proof -
  let ?f = "MarkProviderAckedTx (dp_DispatchID d) (py_PayoutID resp) (py_Status resp) (re_now e)"
  let ?p = "ProviderAckedPayload (dp_DispatchID d) (py_PayoutID resp) (py_Status resp) (re_now e)"
  have dist: "distinct (map dp_DispatchID (rb_dispatches (rs_db m)))"
    using relay_reachable_inv(1) [OF assms(1,2)] by (simp add: inv_of_def relay_inv_def)
  have no: "\<not> row_admits (dp_DispatchID d) (\<lambda>st. st = DispatchStatusSent) db" if "rb_dispatches db = rb_dispatches (rs_db m)" for db
    using that distinct_key [OF dist _ assms(3)] assms(4) by (fastforce simp: row_admits_def list_ex_iff)
  have refuse: "?f (rs_db m) \<noteq> Inr y" "?f (with_event ev now (rs_db m)) \<noteq> Inr y" for ev now y
    using no by (simp_all add: MarkProviderAckedTx_def)
  have rec: "rs_db m1 = rs_db m" if run: "event_then e d ?p ?f (m, k) = (r1, (m1, k1))" for k r1 m1 k1
    using event_then_run [OF run] by (auto simp: booked_def refuse)
  obtain r1 m1 k1 where ev: "event_then e d ?p ?f (m, Suc n) = (r1, (m1, k1))" by (metis prod.collapse)
  have "m' = m \<or> m' = m1"
    using assms(5,6,7) ev by (auto simp: resolveViaQuery_def on_error_def remote_def log_error_def returnE_def split: option.splits)
  then show ?thesis using rec [OF ev] by auto
qed

lemma awaiting_payout_is_never_acked_witness:
  "\<exists>d m'. rb_dispatches (rs_db sample_awaiting) = [d]
     \<and> fst (snd (resolveViaQuery ((relay_sample 9 refused)\<lparr>re_lookup := \<lambda>_ _. Inr (Some \<lparr>py_PayoutID = ''p'', py_Status = ''processed''\<rparr>)\<rparr>)
          d (sample_awaiting, 0))) = m' \<and> rs_db m' = rs_db sample_awaiting"
proof -
  let ?e = "(relay_sample 9 refused)\<lparr>re_lookup := \<lambda>_ _. Inr (Some \<lparr>py_PayoutID = ''p'', py_Status = ''processed''\<rparr>)\<rparr>"
  obtain d where d: "rb_dispatches (rs_db sample_awaiting) = [d]" "dp_Status d = DispatchStatusAwaitingProviderSignal"
    by (rule sample_rows)
  have reach: "relay_reachable ?e sample_awaiting"
    by (rule deployment_reachable [OF sample_transfer(2)]) (simp add: same_deployment_def relay_sample_def)
  obtain r m' n' where run: "resolveViaQuery ?e d (sample_awaiting, 0) = (r, (m', n'))" by (metis prod.collapse)
  have "rs_db m' = rs_db sample_awaiting"
    by (rule awaiting_payout_is_never_acked [OF reach _ _ d(2) _ _ run, of "\<lparr>py_PayoutID = ''p'', py_Status = ''processed''\<rparr>"])
      (simp_all add: d relay_sample_def provider_terminal_def)
  then show ?thesis using d run by simp
qed

section \<open>Backoff\<close>

lemma backoff_factor_bounds: "1 \<le> ex \<Longrightarrow> ex \<le> 120 \<Longrightarrow> 1 \<le> backoff_factor n ex \<and> backoff_factor n ex \<le> 120"
  by (induction n ex rule: backoff_factor.induct) auto

text \<open>C23.  A retry is due between 30 and 4320 seconds later: the wait is capped at an hour before the jitter
  of a fifth is added, not after it.\<close>

theorem retry_backoff_bounds:
  assumes "0 \<le> n"
  shows "seconds 30 \<le> retryBackoff n \<and> retryBackoff n \<le> seconds 4320"
proof -
  define s where "s = min (30 * backoff_factor (nat (n - 1)) 1) 3600"
  define j where "j = s * 2 div 10"
  have s: "30 \<le> s" "s \<le> 3600" using backoff_factor_bounds [of 1 "nat (n - 1)"] unfolding s_def by linarith+
  have j: "0 \<le> j" "j \<le> 720" using s unfolding j_def by linarith+
  have rem: "go_rem n (j + 1) = n mod (j + 1)"
    using assms j(1) by (cases "n = 0") (simp_all add: go_rem_def)
  have "0 \<le> n mod (j + 1)" "n mod (j + 1) < j + 1"
    using j(1) pos_mod_bound [of "j + 1" n] pos_mod_sign [of "j + 1" n] by simp_all
  moreover have "retryBackoff n = seconds (s + (j - n mod (j + 1)))"
    unfolding retryBackoff_def Let_def s_def [symmetric] j_def [symmetric] rem ..
  moreover have "0 \<le> t \<Longrightarrow> t < j + 1 \<Longrightarrow> 30 \<le> s + (j - t) \<and> s + (j - t) \<le> 4320" for t using s j by linarith
  moreover have "30 \<le> x \<and> x \<le> 4320 \<Longrightarrow> seconds 30 \<le> seconds x \<and> seconds x \<le> seconds 4320" for x :: int by simp
  ultimately show ?thesis by metis
qed

lemma retry_backoff_bounds_witness: "seconds 30 \<le> retryBackoff 8 \<and> retryBackoff 8 \<le> seconds 4320"
  using retry_backoff_bounds [of 8] by simp

section \<open>Offsets\<close>

abbreviation (input) submitted :: "claimEvent list \<Rightarrow> int list" where
  "submitted evs \<equiv> map ce_offset (filter (\<lambda>ev. \<not> ce_completed ev) evs)"

abbreviation (input) completed :: "claimEvent list \<Rightarrow> int set" where
  "completed evs \<equiv> set (map ce_offset (filter ce_completed evs))"

lemma mark_prefix_split: "ct_marked (mark_prefix order fin marked) @ ct_order (mark_prefix order fin marked) = marked @ order"
  by (induction order fin marked rule: mark_prefix.induct) simp_all

lemma mark_prefix_finished:
  "set (ct_marked (mark_prefix order fin marked)) \<union> ct_finished (mark_prefix order fin marked) = set marked \<union> fin"
  by (induction order fin marked rule: mark_prefix.induct) auto

lemma commit_run:
  "ct_marked (foldl commit_event s evs) @ ct_order (foldl commit_event s evs) = ct_marked s @ ct_order s @ submitted evs"
  "set (ct_marked (foldl commit_event s evs)) \<union> ct_finished (foldl commit_event s evs)
     = set (ct_marked s) \<union> ct_finished s \<union> completed evs"
proof (induction evs arbitrary: s)
  case (Cons ev evs)
  {
    case 1
    show ?case
      using Cons.IH(1) [of "commit_event s ev"] mark_prefix_split [of "ct_order s" "insert (ce_offset ev) (ct_finished s)" "ct_marked s"]
      by (cases "ce_completed ev") (simp_all add: commit_event_def)
  next
    case 2
    show ?case
      using Cons.IH(2) [of "commit_event s ev"] mark_prefix_finished [of "ct_order s" "insert (ce_offset ev) (ct_finished s)" "ct_marked s"]
      by (cases "ce_completed ev") (auto simp: commit_event_def)
  }
qed simp_all

text \<open>C24.  Offsets are committed in the order Kafka delivered them: whatever the workers finish first, the
  committed offsets are a prefix of the submitted ones, and the handling of each is completed.\<close>

theorem offsets_commit_in_delivery_order:
  "(\<exists>rest. submitted evs = ct_marked (commitInOrder evs) @ rest) \<and> set (ct_marked (commitInOrder evs)) \<subseteq> completed evs"
proof -
  note run = commit_run [of "\<lparr>ct_order = [], ct_finished = {}, ct_marked = []\<rparr>" evs, folded commitInOrder_def]
  have "submitted evs = ct_marked (commitInOrder evs) @ ct_order (commitInOrder evs)" using run(1) by simp
  moreover have "set (ct_marked (commitInOrder evs)) \<subseteq> completed evs" using run(2) by auto
  ultimately show ?thesis by blast
qed

text \<open>A completion that reaches the channel before its submission leaves the offset behind.\<close>

lemma overtaken_submission_is_stuck:
  "ct_marked (commitInOrder [\<lparr>ce_offset = x, ce_completed = True\<rparr>, \<lparr>ce_offset = x, ce_completed = False\<rparr>]) = []"
  by (simp add: commitInOrder_def commit_event_def)


text \<open>Each offset is submitted once, and completed after that.\<close>

fun orderly :: "int set \<Rightarrow> claimEvent list \<Rightarrow> bool" where
  "orderly S [] = True"
| "orderly S (ev # evs) = (if ce_completed ev then ce_offset ev \<in> S \<and> orderly S evs
     else ce_offset ev \<notin> S \<and> orderly (insert (ce_offset ev) S) evs)"

definition waiting :: "int set \<Rightarrow> commit_state \<Rightarrow> bool" where
  "waiting S s \<longleftrightarrow> set (ct_marked s @ ct_order s) = S \<and> distinct (ct_marked s @ ct_order s) \<and> ct_finished s \<subseteq> S
     \<and> (ct_order s = [] \<or> hd (ct_order s) \<notin> ct_finished s)"

lemma mark_prefix_waits:
  "ct_finished (mark_prefix order fin marked) \<subseteq> fin"
  "ct_order (mark_prefix order fin marked) = [] \<or> hd (ct_order (mark_prefix order fin marked)) \<notin> ct_finished (mark_prefix order fin marked)"
  by (induction order fin marked rule: mark_prefix.induct) auto

lemma commit_waits: "waiting S s \<Longrightarrow> orderly S evs \<Longrightarrow> \<exists>S'. waiting S' (foldl commit_event s evs)"
proof (induction evs arbitrary: S s)
  case (Cons ev evs)
  show ?case
  proof (cases "ce_completed ev")
    case True
    let ?s = "mark_prefix (ct_order s) (insert (ce_offset ev) (ct_finished s)) (ct_marked s)"
    have "waiting S ?s"
      using Cons.prems True mark_prefix_split [of "ct_order s" "insert (ce_offset ev) (ct_finished s)" "ct_marked s"]
        mark_prefix_waits [of "ct_order s" "insert (ce_offset ev) (ct_finished s)" "ct_marked s"]
      unfolding waiting_def by auto
    then show ?thesis using Cons.IH [of S ?s] Cons.prems(2) True by (simp add: commit_event_def)
  next
    case False
    let ?s = "s\<lparr>ct_order := ct_order s @ [ce_offset ev]\<rparr>"
    have "waiting (insert (ce_offset ev) S) ?s"
      using Cons.prems False unfolding waiting_def by (cases "ct_order s") auto
    then show ?thesis using Cons.IH [of _ ?s] Cons.prems(2) False by (simp add: commit_event_def)
  qed
qed auto

text \<open>C25.  When no completion overtakes its submission, the committed offsets are exactly the longest prefix
  of the submitted ones whose handling is completed.\<close>

theorem commits_are_the_finished_prefix:
  assumes "orderly {} evs"
  shows "ct_marked (commitInOrder evs) = takeWhile (\<lambda>x. x \<in> completed evs) (submitted evs)"
proof -
  let ?s = "commitInOrder evs"
  note run = commit_run [of "\<lparr>ct_order = [], ct_finished = {}, ct_marked = []\<rparr>" evs, folded commitInOrder_def]
  obtain S where w: "waiting S ?s"
    using commit_waits [OF _ assms, of "\<lparr>ct_order = [], ct_finished = {}, ct_marked = []\<rparr>"]
    unfolding commitInOrder_def by (auto simp: waiting_def)
  have split: "submitted evs = ct_marked ?s @ ct_order ?s" and all: "completed evs = set (ct_marked ?s) \<union> ct_finished ?s"
    using run by simp_all
  have "\<forall>x \<in> set (ct_marked ?s). x \<in> completed evs" using all by blast
  moreover have "ct_order ?s = [] \<or> hd (ct_order ?s) \<notin> completed evs"
    using w unfolding all waiting_def by (cases "ct_order ?s") auto
  ultimately have "takeWhile (\<lambda>x. x \<in> completed evs) (ct_marked ?s @ ct_order ?s) = ct_marked ?s"
    by (cases "ct_order ?s") (simp_all only: takeWhile_append2 takeWhile_eq_all_conv append_Nil2 takeWhile_tail list.sel, auto)
  then show ?thesis unfolding split ..
qed

lemma commits_are_the_finished_prefix_witness:
  "ct_marked (commitInOrder [\<lparr>ce_offset = 1, ce_completed = False\<rparr>, \<lparr>ce_offset = 2, ce_completed = False\<rparr>,
     \<lparr>ce_offset = 2, ce_completed = True\<rparr>, \<lparr>ce_offset = 1, ce_completed = True\<rparr>]) = [1, 2]"
  by (subst commits_are_the_finished_prefix) simp_all

section \<open>Replay\<close>

lemma complete_kafka: "complete e i operator reason outcome msg (m, n) = (r, (m', n')) \<Longrightarrow> rs_kafka m' = rs_kafka m"
  unfolding complete_def by (drule exec_run) auto

text \<open>C26.  A replay publishes nothing but the recorded message, once, after its hash was verified, and only
  for a failure that was pending.\<close>

theorem replay_publishes_only_what_was_recorded:
  assumes "Replay e i operator reason (m, n) = (r, (m', n'))" and "rs_kafka m' \<noteq> rs_kafka m"
  shows "(\<exists>rec \<in> set (rb_failures (rs_db m)). pf_FailureID rec = i \<and> re_sha e (pf_MessageValue rec) = pf_PayloadHash rec
      \<and> rs_kafka m' = rs_kafka m @ [replay_message rec])
    \<and> (\<exists>rec \<in> set (rb_failures (rs_db m)). pf_FailureID rec = i \<and> pf_ReplayStatus rec = ReplayStatusPending)"
proof -
  obtain a m1 n1 where start: "relay_exec e (BeginReplay i) (m, n) = (a, (m1, n1))" by (metis prod.collapse)
  have k1: "rs_kafka m1 = rs_kafka m" using exec_run [OF start] by auto
  have "a = Inr True"
  proof (rule ccontr)
    assume "a \<noteq> Inr True"
    then have "m' = m1" using assms(1) start
      by (cases a) (auto simp: Replay_def bindE_def wrapE_def failE_def)
    then show False using k1 assms(2) by simp
  qed
  then obtain db where db: "BeginReplay i (rs_db m) = Inr (True, db)" "m1 = m\<lparr>rs_db := db\<rparr>"
    using exec_run [OF start] by auto
  have pending: "\<exists>rec \<in> set (rb_failures (rs_db m)). pf_FailureID rec = i \<and> pf_ReplayStatus rec = ReplayStatusPending"
    using db(1) by (auto simp: BeginReplay_def Let_def list_ex_iff)
  obtain b m2 n2 where get: "relay_exec e (GetMessageForReplay i) (m1, n1) = (b, (m2, n2))" by (metis prod.collapse)
  have k2: "rs_kafka m2 = rs_kafka m" using exec_run [OF get] k1 by auto
  have after_complete: "rs_kafka (fst (snd (complete e i operator reason outcome msg (x, k)))) = rs_kafka x" for outcome msg x k
    by (cases "complete e i operator reason outcome msg (x, k)") (auto dest: complete_kafka)
  obtain rec where rec: "b = Inr rec"
  proof (cases b)
    case (Inl err)
    then have "rs_kafka m' = rs_kafka m2"
      using assms(1) start \<open>a = Inr True\<close> get after_complete [of "''FAILED''" err m2 n2]
      by (auto simp: Replay_def bindE_def wrapE_def on_error_def log_error_def failE_def split: prod.splits)
    then show thesis using k2 assms(2) by simp
  qed
  have found: "List.find (\<lambda>r. pf_FailureID r = i) (rb_failures db) = Some rec"
    using exec_run [OF get] rec db(2) by (auto simp: GetMessageForReplay_def split: option.splits)
  then have rec': "rec \<in> set (rb_failures db)" "pf_FailureID rec = i" by (auto simp: find_Some_iff)
  let ?h = "\<lambda>x. if pf_FailureID x = i \<and> pf_ReplayStatus x = ReplayStatusPending
    then x\<lparr>pf_ReplayStatus := ReplayStatusReplaying\<rparr> else x"
  have "rb_failures db = map ?h (rb_failures (rs_db m))"
    using db(1) unfolding BeginReplay_def Let_def update_failure_def by auto
  with rec'(1) have "rec \<in> ?h ` set (rb_failures (rs_db m))" by simp
  then obtain orig where orig: "rec = ?h orig" "orig \<in> set (rb_failures (rs_db m))" by (rule imageE)
  have same: "pf_FailureID orig = i" "replay_message orig = replay_message rec" "pf_MessageValue orig = pf_MessageValue rec"
    "pf_PayloadHash orig = pf_PayloadHash rec"
    using rec'(2) unfolding orig(1) by (cases "pf_FailureID orig = i \<and> pf_ReplayStatus orig = ReplayStatusPending"; simp add: replay_message_def)+
  have "Replay e i operator reason (m, n) = replay_loaded e i operator reason rec (m2, n2)"
    by (simp add: Replay_def bindE_def wrapE_def on_error_def start \<open>a = Inr True\<close> get rec)
  then have load: "replay_loaded e i operator reason rec (m2, n2) = (r, (m', n'))"
    using assms(1) by (rule trans [OF sym])
  have hash: "re_sha e (pf_MessageValue rec) = pf_PayloadHash rec"
  proof (rule ccontr)
    assume "re_sha e (pf_MessageValue rec) \<noteq> pf_PayloadHash rec"
    then have "rs_kafka m' = rs_kafka m2"
      using load after_complete [of "''FAILED''" "''hash mismatch: expected '' @ pf_PayloadHash rec @ '', got '' @ re_sha e (pf_MessageValue rec)" m2 n2]
      by (auto simp: replay_loaded_def bindE_def log_error_def failE_def split: prod.splits)
    then show False using k2 assms(2) by simp
  qed
  obtain c m3 n3 where send: "SendMessage e (replay_message rec) (m2, n2) = (c, (m3, n3))" by (metis prod.collapse)
  have "rs_kafka m3 = rs_kafka m \<or> rs_kafka m3 = rs_kafka m @ [replay_message rec]"
    using send k2 by (auto simp: SendMessage_def split: option.splits)
  moreover have "rs_kafka m' = rs_kafka m3"
  proof (cases c)
    case (Inl err)
    then show ?thesis using load hash send after_complete [of "''FAILED''" err m3 n3]
      by (auto simp: replay_loaded_def bindE_def on_error_def log_error_def failE_def split: prod.splits)
  next
    case (Inr u)
    then show ?thesis using load hash send after_complete [of "''SUCCESS''" "[]" m3 n3]
      by (auto simp: replay_loaded_def on_error_def wrapE_def split: prod.splits sum.splits)
  qed
  ultimately have "rs_kafka m' = rs_kafka m @ [replay_message rec]" using assms(2) by metis
  then show ?thesis using orig(2) same hash pending by metis
qed


definition sample_failure :: relay_state where
  "sample_failure = fresh_relay\<lparr>rs_db := empty_relay\<lparr>rb_failures := [\<lparr>pf_FailureID = 1, pf_SourceEventID = ''e'', pf_SourceService = ''s'',
     pf_Topic = [], pf_DestinationTopic = ''t'', pf_PayloadHash = ''v'', pf_MessageKey = ''k'', pf_MessageValue = ''v'', pf_Headers = [],
     pf_AttemptCount = 1, pf_FailureClass = [], pf_LastError = [], pf_FailureSource = ''BATCH'', pf_PublishKind = [], pf_TenantID = [],
     pf_TraceID = [], pf_ReplayStatus = ReplayStatusPending, pf_ReplayedAt = None\<rparr>]\<rparr>\<rparr>"

lemma replay_publishes_only_what_was_recorded_witness:
  "\<exists>m'. fst (snd (Replay (relay_sample 9 refused) 1 ''op'' ''r'' (sample_failure, 0))) = m'
     \<and> (\<exists>rec \<in> set (rb_failures (rs_db sample_failure)). rs_kafka m' = [replay_message rec])"
proof -
  obtain r m' n' where run: "Replay (relay_sample 9 refused) 1 ''op'' ''r'' (sample_failure, 0) = (r, (m', n'))" by (metis prod.collapse)
  have "length (rs_kafka (fst (snd (Replay (relay_sample 9 refused) 1 ''op'' ''r'' (sample_failure, 0))))) = 1" by code_simp
  moreover have "rs_kafka sample_failure = []" by (simp add: sample_failure_def fresh_relay_def)
  ultimately have "rs_kafka m' \<noteq> rs_kafka sample_failure" "rs_kafka sample_failure = []" using run by auto
  then show ?thesis
    using replay_publishes_only_what_was_recorded [OF run] run by auto
qed

end
