(* ===== verification/Redelivery.thy ===== *)
theory Redelivery
  imports RelayLaws
begin

text \<open>
  What a redelivered event does to a payout whose outcome is not known: with every dependency healthy,
  the run that starts over is refused at \<open>AttemptSent\<close> and schedules the dispatch for retry.
\<close>

section \<open>Runs without failing calls\<close>

definition healthy :: "relay_env \<Rightarrow> bool" where
  "healthy e \<longleftrightarrow> re_fault e = (\<lambda>_. None)"

lemma calm_query: "healthy e \<Longrightarrow> relay_query e f (m, n) = (Inr (f (rs_db m)), (m, Suc n))"
  by (simp add: healthy_def relay_query_def relay_exec_def)

lemma calm_exec:
  "healthy e \<Longrightarrow> f (rs_db m) = Inr (x, db) \<Longrightarrow> relay_exec e f (m, n) = (Inr x, (m\<lparr>rs_db := db\<rparr>, Suc n))"
  "healthy e \<Longrightarrow> f (rs_db m) = Inl err \<Longrightarrow> relay_exec e f (m, n) = (Inl err, (m, Suc n))"
  by (simp_all add: healthy_def relay_exec_def)

lemma calm_enqueue: "fresh_event (rv_EventID ev) db \<Longrightarrow> EnqueueTx ev now db = Inr ((), with_event ev now db)"
  by (force simp: EnqueueTx_def with_event_def fresh_event_def list_ex_iff)

lemma calm_event_then:
  assumes "healthy e" and fresh: "fresh_event (re_uuid e (rs_ids m)) (rs_db m)"
  shows "f (with_event (event_for e (re_uuid e (rs_ids m)) d p) (re_now e) (rs_db m)) = Inr ((), db)
      \<Longrightarrow> \<exists>k. event_then e d p f (m, n) = (Inr (), (m\<lparr>rs_ids := Suc (rs_ids m), rs_db := db\<rparr>, k))"
    and "f (with_event (event_for e (re_uuid e (rs_ids m)) d p) (re_now e) (rs_db m)) = Inl err
      \<Longrightarrow> \<exists>k. event_then e d p f (m, n) = (Inl err, (m\<lparr>rs_ids := Suc (rs_ids m)\<rparr>, k))"
proof -
  let ?ev = "event_for e (re_uuid e (rs_ids m)) d p" and ?m = "m\<lparr>rs_ids := Suc (rs_ids m)\<rparr>"
  have enq: "relay_exec e (EnqueueTx ?ev (re_now e)) (?m, j) = (Inr (), (?m\<lparr>rs_db := with_event ?ev (re_now e) (rs_db m)\<rparr>, Suc j))" for j
    using calm_exec(1) [OF assms(1), of "EnqueueTx ?ev (re_now e)" ?m] calm_enqueue [of ?ev "rs_db m"] fresh by simp
  note run = event_then_def atomicStep_def draw_id_run calm_query [OF assms(1)] bindE_def wrapE_def relay_tx_def returnE_def enq
  show "\<exists>k. event_then e d p f (m, n) = (Inr (), (m\<lparr>rs_ids := Suc (rs_ids m), rs_db := db\<rparr>, k))"
    if "f (with_event ?ev (re_now e) (rs_db m)) = Inr ((), db)"
    using calm_exec(1) [OF assms(1), of f "?m\<lparr>rs_db := with_event ?ev (re_now e) (rs_db m)\<rparr>"] that by (simp add: run)
  show "\<exists>k. event_then e d p f (m, n) = (Inl err, (m\<lparr>rs_ids := Suc (rs_ids m)\<rparr>, k))"
    if "f (with_event ?ev (re_now e) (rs_db m)) = Inl err"
    using calm_exec(2) [OF assms(1), of f "?m\<lparr>rs_db := with_event ?ev (re_now e) (rs_db m)\<rparr>"] that by (simp add: run)
qed

lemma calm_then_event:
  assumes "healthy e" and "f (rs_db m) = Inr ((), db)" and fresh: "fresh_event (re_uuid e (rs_ids m)) db"
  shows "\<exists>k. then_event e d p f (m, n) = (Inr (), (m\<lparr>rs_ids := Suc (rs_ids m),
    rs_db := with_event (event_for e (re_uuid e (rs_ids m)) d p) (re_now e) db\<rparr>, k))"
proof -
  let ?ev = "event_for e (re_uuid e (rs_ids m)) d p" and ?m = "m\<lparr>rs_ids := Suc (rs_ids m)\<rparr>"
  have f: "relay_exec e f (?m, j) = (Inr (), (?m\<lparr>rs_db := db\<rparr>, Suc j))" for j
    using calm_exec(1) [OF assms(1), of f ?m] assms(2) by simp
  have enq: "relay_exec e (EnqueueTx ?ev (re_now e)) (?m\<lparr>rs_db := db\<rparr>, j)
      = (Inr (), (?m\<lparr>rs_db := with_event ?ev (re_now e) db\<rparr>, Suc j))" for j
    using calm_exec(1) [OF assms(1), of "EnqueueTx ?ev (re_now e)" "?m\<lparr>rs_db := db\<rparr>"] calm_enqueue [of ?ev db] fresh by simp
  show ?thesis
    by (simp add: then_event_def atomicStep_def draw_id_run calm_query [OF assms(1)] bindE_def wrapE_def relay_tx_def returnE_def f enq)
qed

section \<open>The redelivered event\<close>

definition fresh_ids :: "relay_env \<Rightarrow> relay_state \<Rightarrow> bool" where
  "fresh_ids e m \<longleftrightarrow> inj (re_uuid e) \<and> (\<forall>k. rs_ids m \<le> k \<longrightarrow> fresh_event (re_uuid e k) (rs_db m))"

lemma update_none:
  assumes "\<And>x. x \<in> set (rb_dispatches db) \<Longrightarrow> dp_DispatchID x = i \<Longrightarrow> \<not> admits (dp_Status x)"
  shows "update_dispatch i admits g db = db"
proof -
  have "map (\<lambda>x. if dp_DispatchID x = i \<and> admits (dp_Status x) then g x else x) (rb_dispatches db) = rb_dispatches db"
    by (rule map_idI) (use assms in auto)
  then show ?thesis by (simp add: update_dispatch_def)
qed

lemma fresh_with_event: "fresh_event k (with_event ev now db) = (k \<noteq> rv_EventID ev \<and> fresh_event k db)"
  by (auto simp: fresh_event_def with_event_def)

text \<open>C22.  A redelivered event reopens a payout whose outcome is not known: a dispatch that was sent, or waits for
  the provider, or is held, ends failed and retryable without a question to the provider, so that the next
  retry sweep sends its request again.\<close>

theorem redelivery_reopens_an_uncertain_payout:
  assumes "relay_reachable e m" and "re_parse e [] = None" and d: "d \<in> set (rb_dispatches (rs_db m))"
    and st: "dp_Status d \<in> {DispatchStatusSent, DispatchStatusAwaitingProviderSignal, DispatchStatusHeld}"
    and "healthy e" and "fresh_ids e m" and "IsZero (rs_cbOpenAt m)" and "dp_ConnectorID d \<noteq> []"
    and p: "re_parse e (dp_PayloadJSON d) = Some p"
    and clear: "\<forall>k. re_detokenize e k (op_PIITokens p) = Inr clear" "ot_AccountNumber clear \<noteq> []" "ot_Name clear \<noteq> []"
  shows "\<exists>m' n'. redelivered e d payload (m, n) = (Inr True, (m', n')) \<and> rs_calls m' = rs_calls m
    \<and> d\<lparr>dp_Status := DispatchStatusFailedRetryable, dp_RetryClass := Some RetryableTechnical,
        dp_NextDispatchAttemptAt := Some (re_now e + retryBackoff 1), dp_UpdatedAt := re_now e\<rparr> \<in> set (rb_dispatches (rs_db m'))"
proof -
  let ?i = "dp_DispatchID d" and ?now = "re_now e"
  note inv = relay_reachable_inv(1) [OF assms(1,2)]
  have dist: "distinct (map dp_DispatchID (rb_dispatches (rs_db m)))" "distinct (map dp_ContractID (rb_dispatches (rs_db m)))"
    using inv by (simp_all add: inv_of_def relay_inv_def)
  have only: "x = d" if "x \<in> set (rb_dispatches (rs_db m))" "dp_DispatchID x = ?i" for x
    using distinct_key [OF dist(1) that(1) d that(2)] .
  have uuid: "re_uuid e j \<noteq> re_uuid e k" if "j \<noteq> k" for j k
    using that \<open>fresh_ids e m\<close> by (auto simp: fresh_ids_def inj_def)
  have fresh: "fresh_event (re_uuid e k) (rs_db m)" if "rs_ids m \<le> k" for k
    using that \<open>fresh_ids e m\<close> by (simp add: fresh_ids_def)
  define db1 where "db1 = with_event (event_for e (re_uuid e (rs_ids m)) d (GovernanceEvaluatedPayload ?i GovernanceAllow [])) ?now (rs_db m)"
  define m1 where "m1 = m\<lparr>rs_ids := Suc (rs_ids m), rs_db := db1\<rparr>"
  have rows1: "rb_dispatches db1 = rb_dispatches (rs_db m)" by (simp add: db1_def)
  have fresh1: "fresh_event (re_uuid e k) db1" if "Suc (rs_ids m) \<le> k" for k
    using that fresh uuid by (simp add: db1_def fresh_with_event)
  have gov: "update_dispatch ?i (\<lambda>s. s = DispatchStatusPending) g (rs_db m) = rs_db m" for g
  proof (rule update_none)
    fix x assume "x \<in> set (rb_dispatches (rs_db m))" "dp_DispatchID x = ?i"
    then have "x = d" by (rule only)
    then show "\<not> dp_Status x = DispatchStatusPending" using st by auto
  qed
  obtain k1 where k1: "then_event e d (GovernanceEvaluatedPayload ?i GovernanceAllow [])
      (MarkGovernanceDecisionTx ?i GovernanceAllow [] ?now) (m, n) = (Inr (), (m1, k1))"
    using calm_then_event [OF \<open>healthy e\<close> _ fresh [OF order_refl],
      where f = "MarkGovernanceDecisionTx ?i GovernanceAllow [] ?now" and p = "GovernanceEvaluatedPayload ?i GovernanceAllow []" and d = d and n = n]
    by (auto simp: MarkGovernanceDecisionTx_def gov m1_def db1_def)
  have allow: "evaluateGovernance e (dp_ConnectorID d) m = ((GovernanceAllow, []), m)"
    using assms(7,8) by (simp add: evaluateGovernance_def circuitOpen_def)
  define m2 where "m2 = m1\<lparr>rs_ids := Suc (Suc (rs_ids m))\<rparr>"
  have refuse: "\<exists>err. MarkSentTx ?i ?i fp ?now (with_event ev ?now db1) = Inl err" for fp ev
  proof -
    have "\<not> sendable (dp_Status x)" if "x \<in> set (rb_dispatches (rs_db m))" "dp_DispatchID x = ?i" for x
      using only [OF that] st by (auto simp: sendable_def)
    then have "\<not> row_admits ?i sendable (with_event ev ?now db1)" by (auto simp: row_admits_def list_ex_iff rows1)
    then show ?thesis by (simp add: MarkSentTx_def)
  qed
  let ?fp = "buildRequestFingerprint e ?i (op_Amount p) (dp_CorridorID d)"
  let ?sent = "AttemptSentPayload ?i (dp_ConnectorID d) (dp_CorridorID d) (dp_AttemptCount d) ?now (carriers d)"
  obtain err where err: "MarkSentTx ?i ?i ?fp ?now (with_event (event_for e (re_uuid e (rs_ids m1)) d ?sent) ?now (rs_db m1)) = Inl err"
    using refuse by (auto simp: m1_def)
  have fresh': "fresh_event (re_uuid e (rs_ids m1)) (rs_db m1)" using fresh1 by (simp add: m1_def)
  have m2: "m1\<lparr>rs_ids := Suc (rs_ids m1)\<rparr> = m2" by (simp add: m1_def m2_def)
  obtain k2 where k2: "attempt_sent e d p (m1, Suc k1) = (Inl err, (m2, k2))"
    using calm_event_then(2) [where f = "MarkSentTx ?i ?i ?fp ?now" and d = d and p = ?sent and n = "Suc k1",
      OF \<open>healthy e\<close> fresh' err] unfolding m2 attempt_sent_def by blast
  have att: "FindByContractAndAttempt (dp_ContractID d) 1 db1 = Some d"
  proof -
    have "dp_AttemptCount d = 1" using inv d by (simp add: inv_of_def relay_inv_def)
    moreover have "\<exists>x. List.find (\<lambda>x. dp_ContractID x = dp_ContractID d \<and> dp_AttemptCount x = 1) (rb_dispatches (rs_db m)) = Some x"
      using calculation d by (metis (mono_tags, lifting) find_None_iff option.exhaust)
    then obtain x where x: "List.find (\<lambda>x. dp_ContractID x = dp_ContractID d \<and> dp_AttemptCount x = 1) (rb_dispatches (rs_db m)) = Some x" ..
    then have "x \<in> set (rb_dispatches (rs_db m))" "dp_ContractID x = dp_ContractID d" by (auto simp: find_Some_iff)
    then have "x = d" using distinct_key [OF dist(2) _ d] by blast
    then show ?thesis using x by (simp add: FindByContractAndAttempt_def rows1)
  qed
  have count: "dp_AttemptCount d = 1" using inv d by (simp add: inv_of_def relay_inv_def)
  let ?g = "\<lambda>x. x\<lparr>dp_Status := DispatchStatusFailedRetryable, dp_RetryClass := Some RetryableTechnical,
        dp_NextDispatchAttemptAt := Some (?now + retryBackoff 1), dp_UpdatedAt := ?now\<rparr>"
  let ?ev = "event_for e (re_uuid e (rs_ids m2)) d (DispatchFailedPayload ?i 1 (''ATTEMPT_SENT_WRITE_FAILED'' @ '': '' @ err) ?now)"
  define m3 where "m3 = m2\<lparr>rs_ids := Suc (rs_ids m2), rs_db := update_dispatch ?i (\<lambda>_. True) ?g (with_event ?ev ?now db1)\<rparr>"
  have fresh2: "fresh_event (re_uuid e (rs_ids m2)) (rs_db m2)" using fresh1 by (simp add: m2_def m1_def)
  obtain k3 where k3: "event_then e d (DispatchFailedPayload ?i 1 (''ATTEMPT_SENT_WRITE_FAILED'' @ '': '' @ err) ?now)
      (MarkFailedRetryableTx ?i RetryableTechnical (?now + retryBackoff 1) ?now) (m2, Suc k2) = (Inr (), (m3, k3))"
    using calm_event_then(1) [OF \<open>healthy e\<close> fresh2, where d = d and n = "Suc k2"
        and p = "DispatchFailedPayload ?i 1 (''ATTEMPT_SENT_WRITE_FAILED'' @ '': '' @ err) ?now"
        and f = "MarkFailedRetryableTx ?i RetryableTechnical (?now + retryBackoff 1) ?now"]
    by (auto simp: MarkFailedRetryableTx_def m3_def m2_def m1_def)
  have mark: "markFailedRetryable e d RetryableTechnical ''ATTEMPT_SENT_WRITE_FAILED'' err (m2, k2) = (Inr (), (m3, k3))"
    using k3 att count
    by (simp add: markFailedRetryable_def stored_attempt_def on_error_def bindE_def returnE_def log_error_def
      calm_query [OF \<open>healthy e\<close>] m2_def m1_def)
  have detok: "remote e (\<lambda>k. re_detokenize e k (op_PIITokens p)) (m1, k1) = (Inr clear, (m1, Suc k1))"
    using \<open>healthy e\<close> clear(1) by (simp add: remote_def healthy_def)
  have send: "detokenize_and_send e d p (m1, k1) = (Inr (), (m3, k3))"
    using detok clear(2,3) k2 mark by (simp add: detokenize_and_send_def send_payout_def on_error_def)
  have "runSteps2to5 e d p (m, n) = (Inr (), (m3, k3))"
    using k1 send by (simp add: runSteps2to5_def bindE_def modify_def allow on_error_def)
  then have run: "redelivered e d payload (m, n) = (Inr True, (m3, k3))"
    using stored_payload(1) [OF inv d] p st by (auto simp: redelivered_def bindE_def returnE_def resolved_def)
  have "rs_calls m3 = rs_calls m" by (simp add: m3_def m2_def m1_def)
  moreover have "?g d \<in> set (rb_dispatches (rs_db m3))"
    using d rows1 by (auto simp: m3_def update_dispatch_def image_iff intro: bexI [of _ d])
  ultimately show ?thesis using run by blast
qed


lemma redelivery_reopens_an_uncertain_payout_witness:
  "\<exists>d m' n'. rb_dispatches (rs_db sample_awaiting) = [d] \<and> dp_Status d = DispatchStatusAwaitingProviderSignal
     \<and> redelivered (relay_sample 9 accepted) d sample_payload (sample_awaiting, 0) = (Inr True, (m', n'))
     \<and> (\<exists>d' \<in> set (rb_dispatches (rs_db m')). dp_Status d' = DispatchStatusFailedRetryable)"
proof -
  obtain d where d: "rb_dispatches (rs_db sample_awaiting) = [d]" "dp_Status d = DispatchStatusAwaitingProviderSignal"
    by (rule sample_rows)
  have row: "dp_ConnectorID d = ''x''" "dp_PayloadJSON d = ''{}''" using sample_facts d by simp_all
  have ids: "rs_ids sample_awaiting = 5" "\<forall>i \<in> ro_EventID ` set (rb_outbox (rs_db sample_awaiting)). length i \<le> 5"
  proof -
    show "rs_ids sample_awaiting = 5" using sample_facts by simp
    have lens: "length ` ro_EventID ` set (rb_outbox (rs_db sample_awaiting)) = set [2, 3, 4, 5]"
      using sample_facts by (metis (no_types, lifting) image_comp list.set_map)
    show "\<forall>i \<in> ro_EventID ` set (rb_outbox (rs_db sample_awaiting)). length i \<le> 5"
    proof
      fix i assume "i \<in> ro_EventID ` set (rb_outbox (rs_db sample_awaiting))"
      then have "length i \<in> set [2, 3, 4, 5 :: nat]" unfolding lens [symmetric] by (rule imageI)
      then show "length i \<le> 5" by auto
    qed
  qed
  have "fresh_ids (relay_sample 9 accepted) sample_awaiting"
    unfolding fresh_ids_def
  proof (intro conjI allI impI)
    show "inj (re_uuid (relay_sample 9 accepted))"
      by (rule injI, drule arg_cong [where f = length]) (simp add: relay_sample_def)
    fix k assume "rs_ids sample_awaiting \<le> k"
    then show "fresh_event (re_uuid (relay_sample 9 accepted) k) (rs_db sample_awaiting)"
      using ids bspec [OF ids(2), of "re_uuid (relay_sample 9 accepted) k"]
      unfolding fresh_event_def by (intro notI) (simp add: relay_sample_def)
  qed
  moreover have "IsZero (rs_cbOpenAt sample_awaiting)" using sample_facts by (simp add: IsZero_def)
  moreover have "healthy (relay_sample 9 accepted)" by (simp add: healthy_def relay_sample_def)
  moreover have "re_parse (relay_sample 9 accepted) (dp_PayloadJSON d) = Some sample_payload" using row by (simp add: relay_sample_def)
  ultimately show ?thesis
    using redelivery_reopens_an_uncertain_payout [OF sample_transfer(2) sample_decoder, of d 9 accepted sample_payload
        "op_PIITokens sample_payload" sample_payload 0] d row
    by (force simp: relay_sample_def sample_payload_def)
qed

end
