(* ===== verification/Spec2Isabelle.thy ===== *)
theory Spec2Isabelle
  imports Sources Timeline Backfill ProofService AttachLaws EvidenceLaws Redelivery
begin

text \<open>
  A verification development of the Go services under \<^verbatim>\<open>src/backend\<close> that decide
  on money: the reconciliation service (\<^verbatim>\<open>recon\<close>), the evidence service
  (\<^verbatim>\<open>evidence\<close>) and the relay that sends payouts (\<^verbatim>\<open>relay\<close>).

  \<^bold>\<open>The program.\<close>  The relay takes an intent from Kafka, owns it with a row of its
  dispatch table, calls the payment provider and records every step in an outbox.  The
  reconciliation service collects what the provider says of payments and payouts (webhooks, polling,
  backfills), reduces it to one canonical state for each, attaches settlement observations to
  payout intents, and compares provider, settlement, bank statement and the merchant's books.  The
  evidence service collects hashes of what the others did into sealed packs that can be verified.
  They share no memory: the outbox of one is the input of the next.

  \<^bold>\<open>How the code is translated.\<close>  A struct is a \<open>record\<close> whose fields have
  a prefix, a Go map is an association list or a map, \<open>int64\<close> is \<open>64 word\<close>,
  \<open>time.Time\<close> and \<open>time.Duration\<close> are nanoseconds, a string is a list of
  characters, a nil pointer is \<open>None\<close>.  A function that returns an error returns a sum.  A
  method that works on a store is a computation over the store and the number of calls made so far
  (\<open>Effects\<close>): a parameter \<open>fault\<close> says which of the calls fail and how, so a
  statement that holds for every \<open>fault\<close> holds for every pattern of failing calls.
  \<open>RunInTx_sql\<close> discards the changes of a failed transaction, \<open>RunInTx_memory\<close>
  keeps them.  Definitions are named as in the code; what Go writes as one long function is split
  into named pieces in the order of the code.

  \<^bold>\<open>Theories.\<close>

  \<^item> \<open>Prelude\<close>, \<open>Effects\<close>, \<open>Triples\<close>: Go's integers and strings,
    lists, association lists, stable sorting; computations that may fail, with the locales
    \<open>transaction\<close> and \<open>atomic_transaction\<close>; pre- and postconditions for them.
  \<^item> \<open>Facts\<close>, \<open>Settlement\<close>, \<open>GapRules\<close>, \<open>BankMatch\<close>,
    \<open>CashFlow\<close> (\<^verbatim>\<open>recon/internal/recon\<close>: \<^verbatim>\<open>types.go\<close>,
    \<^verbatim>\<open>movement.go\<close>, \<^verbatim>\<open>net.go\<close>, \<^verbatim>\<open>merchant.go\<close>,
    \<^verbatim>\<open>tax.go\<close>, \<^verbatim>\<open>select.go\<close>, \<^verbatim>\<open>settlement_bank.go\<close>,
    \<^verbatim>\<open>cash_flow.go\<close>): what is observed, the net of a settlement, the gap rules, and
    the match of a settlement line with a bank row; the two ways to select a candidate are
    interpretations of the locale \<open>candidate_selector\<close>.
  \<^item> \<open>PaymentRecon\<close>, \<open>PayoutRecon\<close>, \<open>RunEngine\<close>,
    \<open>RunService\<close>, \<open>FinStore\<close>, \<open>Sources\<close>
    (\<^verbatim>\<open>financial.go\<close>, \<^verbatim>\<open>payout.go\<close>,
    \<^verbatim>\<open>financial_service.go\<close>, \<^verbatim>\<open>financial_memory.go\<close>,
    \<^verbatim>\<open>source.go\<close>, \<^verbatim>\<open>project.go\<close>): the verdict on one payment
    and on one payout, each equal to a flat decision table; a run over all of them, with the demotion
    of payments that share a bank row; the store, whose tables are interpretations of the locale
    \<open>keyed_store\<close>; and the entry point over a list of source observations.
  \<^item> \<open>Marketplace\<close>, \<open>Reports\<close>, \<open>Queries\<close>,
    \<open>Calendar\<close>, \<open>Books\<close>, \<open>Timeline\<close>: what is derived from stored
    results for display, among them the schedule that pairs expected cash with bank rows.
  \<^item> \<open>Matcher\<close>, \<open>ProofService\<close> (\<^verbatim>\<open>matcher.go\<close>,
    \<^verbatim>\<open>service.go\<close>, \<^verbatim>\<open>ask.go\<close>): the proof that a payment reached
    the bank, its store and the answers read from it.
  \<^item> \<open>ProviderStatus\<close>, \<open>PaymentTruth\<close>, \<open>PayoutTruth\<close>,
    \<open>PollStore\<close>, \<open>TruthService\<close>, \<open>Backfill\<close>
    (\<^verbatim>\<open>recon/internal/paymenttruth\<close>, \<^verbatim>\<open>payouttruth\<close>,
    \<^verbatim>\<open>poll\<close>): the reduction of observations to a canonical payment, the processors
    that log and reduce in one transaction, and the backfill that feeds them page by page
    (locales \<open>page_runner\<close>, \<open>atomic_page_runner\<close>).
  \<^item> \<open>AttachScore\<close>, \<open>AttachEngine\<close>, \<open>AttachLaws\<close>
    (\<^verbatim>\<open>recon/services/attachment_scoring.go\<close>, \<^verbatim>\<open>attachment_engine.go\<close>):
    how settlement observations are scored against and attached to payout intents.
  \<^item> \<open>Merkle\<close>, \<open>EvidencePack\<close>, \<open>EvidenceStore\<close>,
    \<open>ProofScore\<close>, \<open>EvidenceService\<close>, \<open>EvidenceVerify\<close>,
    \<open>EvidenceInvariant\<close>, \<open>EvidenceLaws\<close> (\<^verbatim>\<open>evidence\<close>): the tree
    over leaf hashes (locale \<open>merkle_scheme\<close>), sealing and signing, the tables, the workers, and
    verification.
  \<^item> \<open>Relay\<close>, \<open>DispatchLoop\<close>, \<open>RelayPublish\<close>,
    \<open>DispatchLaws\<close>, \<open>DispatchSteps\<close>, \<open>RelaySteps\<close>,
    \<open>OutboxLaws\<close>, \<open>RelaySystem\<close>, \<open>RelayLaws\<close>, \<open>Redelivery\<close>
    (\<^verbatim>\<open>relay/services\<close>): the dispatch of a payout, the sweepers, the publication of the
    outbox, the replay of failed messages and the commit of offsets.

  \<^bold>\<open>What is proved.\<close>  Decision tables for payments and payouts; that a bank row proves a
  payment only under the stated evidence, and that no row proves two; that the canonical payment is
  the reduction of its log, that redelivery changes nothing and that the order of deliveries does
  not change the status; that a backfill returns, counts every payment once and stores what it
  counts; that an attachment rests on an exact carrier and that nothing is attached twice; that an
  active pack is sealed, archived and announced, and that roots and proof paths bind the leaves; that
  the relay repeats the same request for a contract, announces every call, loses no event and never
  touches a resolved dispatch.  Three transition systems (\<open>truth_step\<close>, \<open>evidence_step\<close>,
  \<open>relay_step\<close>) have one step for each operation under any pattern of failing
  calls, and their invariants hold in every reachable state.  Some theorems state defects: packs that
  never verify, replays that always fail, a dispatch that a redelivered event reopens.

  \<^bold>\<open>Parameters and hypotheses.\<close>  Outside the source are SHA-256 and the signature, the JSON
  encoders and decoders, the generators of identifiers, the clock, the provider, the router, the token
  service, the broker and the object store; they are fields of the environment records
  (\<open>truth_env\<close>, \<open>backfill_env\<close>, \<open>attach_env\<close>, \<open>relay_env\<close> and the
  like).  Hypotheses on them say what they document: a digest is never empty, a collision is excluded
  or is part of the conclusion, \<open>sort.Slice\<close> returns a sorted permutation, a provider serves its
  list page by page.  Every property with a hypothesis has a witness that
  applies it at a concrete input.
  The iteration order of Go's maps is a parameter where it can matter.

  \<^bold>\<open>Bounds and fuel.\<close>  No definition takes fuel.  The two page loops of a backfill are
  \<open>partial_function (option)\<close>, since a provider can answer that there is always more; that the
  loop over payments returns is part of the theorems about it, for lists shorter than \<open>2 ^ 63\<close>.
  The levels of a Merkle tree and \<open>replace_all\<close> recurse on a measure, every other loop is
  structural recursion or a fold.  Scores and rates are rationals where the code has \<open>float64\<close> or
  decimals.

  \<^bold>\<open>What is not modelled.\<close>  Each operation is one step: goroutines that interleave inside one
  are not modelled, except for the order of commit notifications in the relay's consumer.  SQL is
  modelled by what its statements change, guards and unique indexes included, for the relay and the
  evidence service, and by the in-memory stores for the reconciliation service.  Parsers of files,
  HTTP, Kafka and SQL drivers, dashboards, the console and the other services (edge, intents,
  intel, agents, vault) are left out: they feed these components or display what they store.
\<close>

end
